(* ===== verification/Orca_Prelude.thy ===== *)
theory Orca_Prelude
  imports Main "HOL-Library.Word" "HOL-Library.Monad_Syntax"
begin

text \<open>
  The types and the generic lemmas the components share.

  A C string is a \<open>string\<close> (its bytes up to the terminating NUL), a \<open>const char *\<close>
  argument is a \<open>string option\<close> with \<open>None\<close> for a NULL pointer, a return code is an
  \<open>int\<close>.  A computation of type \<open>'a option\<close> is \<open>None\<close> when the C code
  would write past the end of a buffer (undefined behaviour): every such write goes through
  \<open>strcpy_into\<close> below.  \<open>time(NULL)\<close> is a clock \<open>nat \<Rightarrow> int\<close>: the
  operation's \<open>i\<close>-th reading is \<open>clk i\<close>, with nothing assumed of it.
\<close>

type_synonym byte = "8 word"
type_synonym clock = "nat \<Rightarrow> int"

named_theorems orca_defs \<open>definitions a component's proofs unfold together\<close>
named_theorems orca_inv \<open>preservation of the invariants, one fact per operation\<close>

section \<open>Buffers of C\<close>

definition strcpy_into :: "nat \<Rightarrow> string \<Rightarrow> string option" where
  "strcpy_into cap s = (if length s < cap then Some s else None)"

definition snprintf_into :: "nat \<Rightarrow> string \<Rightarrow> string" where
  "snprintf_into cap s = take (cap - 1) s"

definition strncpy_into :: "nat \<Rightarrow> string \<Rightarrow> string" where
  "strncpy_into cap s = take (cap - 1) s"

lemma strcpy_into_Some [simp]: "strcpy_into cap s = Some t \<longleftrightarrow> length s < cap \<and> t = s"
  by (auto simp: strcpy_into_def)

lemma strcpy_into_None [simp]: "strcpy_into cap s = None \<longleftrightarrow> cap \<le> length s"
  by (auto simp: strcpy_into_def)

lemma strcpy_into_fits: "length s < cap \<Longrightarrow> strcpy_into cap s = Some s"
  by simp

lemma length_snprintf_into: "0 < cap \<Longrightarrow> length (snprintf_into cap s) < cap"
  by (auto simp: snprintf_into_def)

lemma snprintf_into_fits: "length s < cap \<Longrightarrow> snprintf_into cap s = s"
  by (simp add: snprintf_into_def)

lemma length_strncpy_into: "0 < cap \<Longrightarrow> length (strncpy_into cap s) < cap"
  by (auto simp: strncpy_into_def)

lemma strncpy_into_fits: "length s < cap \<Longrightarrow> strncpy_into cap s = s"
  by (simp add: strncpy_into_def)

section \<open>Arrays of which a prefix is in use\<close>

text \<open>
  A C array with a count: the cells from \<open>count\<close> on keep whatever was there.  The lemmas
  say what the used prefix \<open>take n xs\<close> becomes under the array updates of the code.
\<close>

lemma take_Suc_update: "n < length xs \<Longrightarrow> take (Suc n) (xs[n := x]) = take n xs @ [x]"
  by (simp add: take_Suc_conv_app_nth)

lemma nth_take_update: "i < n \<Longrightarrow> take n (xs[i := x]) = (take n xs)[i := x]"
  by (simp add: take_update_swap)

lemma take_update_beyond: "n \<le> i \<Longrightarrow> take n (xs[i := x]) = take n xs"
  by (simp add: take_update_swap list_update_beyond)

lemma take_map_nth: "n \<le> length xs \<Longrightarrow> take n xs = map ((!) xs) [0..<n]"
  by (auto simp: list_eq_iff_nth_eq)

text \<open>The first index in use whose cell satisfies a test, as the code's search loops find it.\<close>

fun find_index :: "('a \<Rightarrow> bool) \<Rightarrow> 'a list \<Rightarrow> nat option" where
  "find_index P [] = None"
| "find_index P (x # xs) = (if P x then Some 0 else map_option Suc (find_index P xs))"

lemma find_index_map: "find_index P (map f xs) = find_index (P \<circ> f) xs"
  by (induction xs) auto

lemma find_index_None: "find_index P xs = None \<longleftrightarrow> (\<forall>x \<in> set xs. \<not> P x)"
  by (induction xs) auto

lemma find_index_SomeD:
  "find_index P xs = Some i \<Longrightarrow> i < length xs \<and> P (xs ! i) \<and> (\<forall>j < i. \<not> P (xs ! j))"
proof (induction xs arbitrary: i)
  case Nil
  then show ?case by simp
next
  case (Cons x xs)
  show ?case
  proof (cases "P x")
    case True
    with Cons.prems show ?thesis by simp
  next
    case False
    with Cons.prems obtain k where k: "find_index P xs = Some k" "i = Suc k" by auto
    from Cons.IH [OF k(1)] False k(2) show ?thesis
      by (auto simp: less_Suc_eq_0_disj)
  qed
qed

lemma find_index_less: "find_index P xs = Some i \<Longrightarrow> i < length xs"
  by (blast dest: find_index_SomeD)

lemma find_index_holds: "find_index P xs = Some i \<Longrightarrow> P (xs ! i)"
  by (blast dest: find_index_SomeD)

lemma find_index_unique:
  assumes "i < length xs" and "P (xs ! i)" and "\<And>j. j < length xs \<Longrightarrow> P (xs ! j) \<Longrightarrow> j = i"
  shows "find_index P xs = Some i"
proof (cases "find_index P xs")
  case None
  with assms(1,2) show ?thesis by (auto simp: find_index_None)
next
  case (Some k)
  then have "k < length xs" and "P (xs ! k)" by (auto dest: find_index_SomeD)
  with assms(3) Some show ?thesis by simp
qed

lemma find_index_cong:
  "(\<And>x. x \<in> set xs \<Longrightarrow> P x = Q x) \<Longrightarrow> find_index P xs = find_index Q xs"
  by (induction xs) auto

text \<open>Removal of one cell by moving the later ones down, and what it does to the used prefix.\<close>

definition remove_nth :: "nat \<Rightarrow> 'a list \<Rightarrow> 'a list" where
  "remove_nth i xs = take i xs @ drop (Suc i) xs"

lemma length_remove_nth: "i < length xs \<Longrightarrow> length (remove_nth i xs) = length xs - 1"
  by (simp add: remove_nth_def)

lemma set_remove_nth: "set (remove_nth i xs) \<subseteq> set xs"
  by (auto simp: remove_nth_def dest: in_set_takeD in_set_dropD)

lemma remove_nth_map: "map f (remove_nth i xs) = remove_nth i (map f xs)"
  by (simp add: remove_nth_def take_map drop_map)

lemma distinct_remove_nth: "distinct xs \<Longrightarrow> distinct (remove_nth i xs)"
  using set_take_disj_set_drop_if_distinct [of xs i "Suc i"]
  by (auto simp: remove_nth_def)

lemma remove_nth_not_in:
  assumes "distinct xs" and "i < length xs"
  shows "xs ! i \<notin> set (remove_nth i xs)"
proof -
  have "distinct (take i xs @ (xs ! i) # drop (Suc i) xs)"
    using assms by (simp add: id_take_nth_drop [symmetric])
  then show ?thesis by (auto simp: remove_nth_def)
qed

lemma set_remove_nth_distinct:
  assumes "distinct xs" and "i < length xs"
  shows "set (remove_nth i xs) = set xs - {xs ! i}"
proof -
  have "set xs = insert (xs ! i) (set (remove_nth i xs))"
    using assms(2) id_take_nth_drop [of i xs]
    by (metis list.simps(15) remove_nth_def set_append Un_insert_right)
  with remove_nth_not_in [OF assms] show ?thesis by blast
qed

section \<open>Codecs\<close>

text \<open>
  An encoder and a decoder that undoes it on the good values: every text and wire format of the
  program promises this, and its clients rely on what follows from it.
\<close>

locale codec =
  fixes enc :: "'a \<Rightarrow> 'b" and dec :: "'b \<Rightarrow> 'a option" and good :: "'a \<Rightarrow> bool"
  assumes dec_enc: "good x \<Longrightarrow> dec (enc x) = Some x"
begin

lemma enc_inj: "good x \<Longrightarrow> good y \<Longrightarrow> enc x = enc y \<longleftrightarrow> x = y"
  using dec_enc by (metis option.inject)

lemma enc_inj_on: "inj_on enc {x. good x}"
  using enc_inj by (auto intro: inj_onI)

lemma dec_in_range: "good x \<Longrightarrow> dec t = Some y \<Longrightarrow> t = enc x \<Longrightarrow> y = x"
  using dec_enc by auto

end

end
