(* ===== verification/Event_Queue.thy ===== *)
theory Event_Queue
  imports Orca_Prelude
begin

text \<open>
  The event type and the bounded event queue of \<^verbatim>\<open>event_loop.c\<close>: a ring buffer of
  1024 cells with a head, a tail and a count, guarded by a mutex (so each operation is one
  step) and a condition variable that \<open>event_queue_pop\<close> waits on.  The queue implements a
  bounded FIFO list; the locale \<open>bounded_fifo\<close> states that contract and what clients may
  conclude from it.
\<close>

section \<open>Events\<close>

datatype EventType =
    EVENT_NONE | EVENT_ADD_REQUEST | EVENT_ACCEPT_CONFIRM | EVENT_REJECT_CONFIRM
  | EVENT_MESSAGE_RECEIVED | EVENT_PEER_ONLINE | EVENT_PEER_OFFLINE | EVENT_GHOST_DELIVERED
  | EVENT_STATUS_UPDATE | EVENT_DHT_FOUND | EVENT_DHT_NOT_FOUND | EVENT_ERROR

record Event =
  ev_type :: EventType
  ev_peer_id :: string
  ev_from_id :: string
  ev_to_id :: string
  ev_message :: string
  ev_ip :: string
  ev_port :: int
  ev_timestamp :: int
  ev_is_secure :: bool
  ev_data :: "byte list option"
  ev_data_len :: nat

definition zero_event :: Event where
  "zero_event = \<lparr>ev_type = EVENT_NONE, ev_peer_id = [], ev_from_id = [], ev_to_id = [],
     ev_message = [], ev_ip = [], ev_port = 0, ev_timestamp = 0, ev_is_secure = False,
     ev_data = None, ev_data_len = 0\<rparr>"

fun event_type_to_string :: "EventType \<Rightarrow> string" where
  "event_type_to_string EVENT_ADD_REQUEST = ''ADD_REQUEST''"
| "event_type_to_string EVENT_ACCEPT_CONFIRM = ''ACCEPT_CONFIRM''"
| "event_type_to_string EVENT_REJECT_CONFIRM = ''REJECT_CONFIRM''"
| "event_type_to_string EVENT_MESSAGE_RECEIVED = ''MESSAGE_RECEIVED''"
| "event_type_to_string EVENT_PEER_ONLINE = ''PEER_ONLINE''"
| "event_type_to_string EVENT_PEER_OFFLINE = ''PEER_OFFLINE''"
| "event_type_to_string EVENT_GHOST_DELIVERED = ''GHOST_DELIVERED''"
| "event_type_to_string EVENT_STATUS_UPDATE = ''STATUS_UPDATE''"
| "event_type_to_string EVENT_DHT_FOUND = ''DHT_FOUND''"
| "event_type_to_string EVENT_DHT_NOT_FOUND = ''DHT_NOT_FOUND''"
| "event_type_to_string EVENT_ERROR = ''ERROR''"
| "event_type_to_string EVENT_NONE = ''UNKNOWN''"

definition event_create :: "clock \<Rightarrow> EventType \<Rightarrow> string option \<Rightarrow> Event" where
  "event_create clk ty peer_id =
    (let e = zero_event\<lparr>ev_type := ty, ev_timestamp := clk 0\<rparr>
     in case peer_id of None \<Rightarrow> e | Some p \<Rightarrow> e\<lparr>ev_peer_id := strncpy_into 64 p\<rparr>)"

definition event_copy :: "Event option \<Rightarrow> Event option \<Rightarrow> Event option" where
  "event_copy dest src = (case (dest, src) of (Some _, Some s) \<Rightarrow> Some s | _ \<Rightarrow> dest)"

definition event_free :: "Event option \<Rightarrow> Event option" where
  "event_free event = (case event of None \<Rightarrow> None | Some _ \<Rightarrow> Some zero_event)"

text \<open>The sizes of the struct's arrays bound the strings it can hold.\<close>

definition event_fits :: "Event \<Rightarrow> bool" where
  "event_fits e \<longleftrightarrow> length (ev_peer_id e) < 64 \<and> length (ev_from_id e) < 64
     \<and> length (ev_to_id e) < 64 \<and> length (ev_message e) < 4096 \<and> length (ev_ip e) < 16"

lemma zero_event_fits: "event_fits zero_event"
  by (simp add: event_fits_def zero_event_def)

lemma event_create_fits: "event_fits (event_create clk ty p)"
  by (cases p)
    (auto simp: event_create_def event_fits_def zero_event_def length_strncpy_into)

section \<open>The ring buffer\<close>

definition EVENT_QUEUE_SIZE :: nat where
  "EVENT_QUEUE_SIZE = 1024"

record event_q =
  g_event_queue :: "Event list"
  g_queue_head :: nat
  g_queue_tail :: nat
  g_queue_count :: nat

definition empty_queue :: event_q where
  "empty_queue = \<lparr>g_event_queue = replicate EVENT_QUEUE_SIZE zero_event,
     g_queue_head = 0, g_queue_tail = 0, g_queue_count = 0\<rparr>"

definition event_queue_push :: "Event option \<Rightarrow> event_q \<Rightarrow> int \<times> event_q" where
  "event_queue_push event q =
    (case event of
       None \<Rightarrow> (-1, q)
     | Some e \<Rightarrow>
        if EVENT_QUEUE_SIZE \<le> g_queue_count q then (-1, q)
        else (0, q\<lparr>g_event_queue := (g_event_queue q)[g_queue_tail q := e],
                   g_queue_tail := (g_queue_tail q + 1) mod EVENT_QUEUE_SIZE,
                   g_queue_count := g_queue_count q + 1\<rparr>))"

text \<open>The part of \<open>event_queue_pop\<close> after the wait: take the head if there is one.\<close>

definition queue_take :: "event_q \<Rightarrow> (Event \<times> event_q) option" where
  "queue_take q =
    (if g_queue_count q = 0 then None
     else Some (g_event_queue q ! g_queue_head q,
                q\<lparr>g_queue_head := (g_queue_head q + 1) mod EVENT_QUEUE_SIZE,
                  g_queue_count := g_queue_count q - 1\<rparr>))"

text \<open>
  While it waits, \<open>event_queue_pop\<close> releases the mutex: a wait either times out or ends
  with the queue and \<open>g_running\<close> as the other threads left them, which the result carries.  The list \<open>waits\<close> holds
  the outcomes of the successive waits; when it is used up the call is still blocked
  (\<open>None\<close>).  A wait without a timeout (\<open>timeout_ms \<le> 0\<close>) cannot time out.
\<close>

datatype wait_result = Timed_out | Woken event_q bool

fun event_queue_pop ::
  "wait_result list \<Rightarrow> bool \<Rightarrow> int \<Rightarrow> bool \<Rightarrow> event_q \<Rightarrow> (int \<times> Event option \<times> bool \<times> event_q) option" where
  "event_queue_pop waits event_ptr timeout_ms running q =
    (if \<not> event_ptr then Some (-1, None, running, q)
     else if g_queue_count q = 0 \<and> running then
       (case waits of
          [] \<Rightarrow> None
        | Timed_out # ws \<Rightarrow> if timeout_ms > 0 then Some (-1, None, running, q) else None
        | Woken q' running' # ws \<Rightarrow> event_queue_pop ws event_ptr timeout_ms running' q')
     else (case queue_take q of
          None \<Rightarrow> Some (-1, None, running, q)
        | Some (e, q') \<Rightarrow> Some (0, Some e, running, q')))"

declare event_queue_pop.simps [simp del]

text \<open>The absolute deadline of a timed wait: seconds and nanoseconds of now plus the timeout.\<close>

definition pop_deadline :: "int \<Rightarrow> int \<Rightarrow> int \<Rightarrow> int \<times> int" where
  "pop_deadline tv_sec tv_nsec timeout_ms =
    (let s = tv_sec + timeout_ms div 1000;
         n = tv_nsec + (timeout_ms mod 1000) * 1000000
     in if n \<ge> 1000000000 then (s + 1, n - 1000000000) else (s, n))"

definition event_queue_has_events :: "event_q \<Rightarrow> bool" where
  "event_queue_has_events q \<longleftrightarrow> g_queue_count q > 0"

definition event_queue_size :: "event_q \<Rightarrow> nat" where
  "event_queue_size q = g_queue_count q"

section \<open>The contract of a bounded FIFO queue\<close>

text \<open>Pushing and taking several elements, for any queue operations.\<close>

definition push_all :: "('e \<Rightarrow> 'q \<Rightarrow> int \<times> 'q) \<Rightarrow> 'e list \<Rightarrow> 'q \<Rightarrow> 'q" where
  "push_all push es q = fold (\<lambda>e q. snd (push e q)) es q"

fun take_all :: "('q \<Rightarrow> ('e \<times> 'q) option) \<Rightarrow> nat \<Rightarrow> 'q \<Rightarrow> 'e list \<times> 'q" where
  "take_all pop 0 q = ([], q)"
| "take_all pop (Suc n) q =
    (case pop q of None \<Rightarrow> ([], q)
     | Some (e, q') \<Rightarrow> (let (es, q'') = take_all pop n q' in (e # es, q'')))"

locale bounded_fifo =
  fixes push :: "'e \<Rightarrow> 'q \<Rightarrow> int \<times> 'q"
    and pop :: "'q \<Rightarrow> ('e \<times> 'q) option"
    and elems :: "'q \<Rightarrow> 'e list"
    and invar :: "'q \<Rightarrow> bool"
    and cap :: nat
  assumes push_ok: "invar q \<Longrightarrow> length (elems q) < cap \<Longrightarrow>
      fst (push e q) = 0 \<and> elems (snd (push e q)) = elems q @ [e]"
    and push_full: "invar q \<Longrightarrow> cap \<le> length (elems q) \<Longrightarrow> push e q = (-1, q)"
    and push_invar: "invar q \<Longrightarrow> invar (snd (push e q))"
    and pop_None: "invar q \<Longrightarrow> pop q = None \<longleftrightarrow> elems q = []"
    and pop_Some: "invar q \<Longrightarrow> pop q = Some (e, q') \<Longrightarrow> invar q' \<and> elems q = e # elems q'"
    and bounded: "invar q \<Longrightarrow> length (elems q) \<le> cap"
begin

lemma push_elems:
  assumes "invar q"
  shows "elems (snd (push e q)) = (if length (elems q) < cap then elems q @ [e] else elems q)"
  using assms push_ok [OF assms] push_full [OF assms, of e] by auto

lemma push_all_elems:
  "invar q \<Longrightarrow> invar (push_all push es q)
     \<and> elems (push_all push es q) = elems q @ take (cap - length (elems q)) es"
proof (induction es arbitrary: q)
  case Nil
  then show ?case by (simp add: push_all_def)
next
  case (Cons e es)
  let ?q = "snd (push e q)"
  have inv: "invar ?q" using Cons.prems by (rule push_invar)
  have IH: "invar (push_all push es ?q)"
    "elems (push_all push es ?q) = elems ?q @ take (cap - length (elems ?q)) es"
    using Cons.IH [OF inv] by blast+
  have step: "push_all push (e # es) q = push_all push es ?q"
    by (simp add: push_all_def)
  show ?case
  proof (cases "length (elems q) < cap")
    case True
    then have "take (cap - length (elems q)) (e # es) = e # take (cap - Suc (length (elems q))) es"
      by (simp add: Suc_diff_Suc [symmetric])
    with True IH step push_elems [OF Cons.prems, of e] show ?thesis by simp
  next
    case False
    with IH step push_elems [OF Cons.prems, of e] show ?thesis by simp
  qed
qed

lemma take_all_elems:
  "invar q \<Longrightarrow> n \<le> length (elems q) \<Longrightarrow>
   fst (take_all pop n q) = take n (elems q) \<and> elems (snd (take_all pop n q)) = drop n (elems q)"
proof (induction n arbitrary: q)
  case 0
  then show ?case by simp
next
  case (Suc n)
  then have "elems q \<noteq> []" by auto
  with pop_None [OF Suc.prems(1)] obtain e q' where p: "pop q = Some (e, q')" by (cases "pop q") auto
  from pop_Some [OF Suc.prems(1) p] have q': "invar q'" "elems q = e # elems q'" by blast+
  with Suc.prems(2) have "n \<le> length (elems q')" by simp
  from Suc.IH [OF q'(1) this] p q'(2) show ?case by (auto simp: Let_def split: prod.splits)
qed

text \<open>What goes in comes out, once and in the order it went in, behind what was there.\<close>

lemma fifo_order:
  assumes "invar q" and "length (elems q) + length es \<le> cap"
  shows "fst (take_all pop (length (elems q) + length es) (push_all push es q)) = elems q @ es"
proof -
  have "invar (push_all push es q)" and "elems (push_all push es q) = elems q @ es"
    using push_all_elems [OF assms(1), of es] assms(2) by auto
  then show ?thesis
    using take_all_elems [of "push_all push es q" "length (elems q) + length es"] by simp
qed

end

section \<open>The ring buffer keeps the contract\<close>

definition wf_queue :: "event_q \<Rightarrow> bool" where
  "wf_queue q \<longleftrightarrow> length (g_event_queue q) = EVENT_QUEUE_SIZE
     \<and> g_queue_head q < EVENT_QUEUE_SIZE \<and> g_queue_count q \<le> EVENT_QUEUE_SIZE
     \<and> g_queue_tail q = (g_queue_head q + g_queue_count q) mod EVENT_QUEUE_SIZE"

definition queue_list :: "event_q \<Rightarrow> Event list" where
  "queue_list q =
    map (\<lambda>i. g_event_queue q ! ((g_queue_head q + i) mod EVENT_QUEUE_SIZE)) [0..<g_queue_count q]"

lemma length_queue_list [simp]: "length (queue_list q) = g_queue_count q"
  by (simp add: queue_list_def)

lemma queue_size_pos [simp]: "0 < EVENT_QUEUE_SIZE"
  by (simp add: EVENT_QUEUE_SIZE_def)

lemma wf_empty_queue: "wf_queue empty_queue" "queue_list empty_queue = []"
  by (simp_all add: wf_queue_def empty_queue_def queue_list_def)

lemma ring_index_neq:
  assumes "i < k" and "k < (n::nat)"
  shows "(h + i) mod n \<noteq> (h + k) mod n"
proof
  assume "(h + i) mod n = (h + k) mod n"
  then have "n dvd (h + k) - (h + i)"
    by (metis mod_eq_dvd_iff_nat add_left_mono assms(1) less_imp_le)
  then have "n dvd k - i" by simp
  with assms show False by (auto dest: dvd_imp_le)
qed

lemma push_queue_list:
  assumes wf: "wf_queue q" and room: "g_queue_count q < EVENT_QUEUE_SIZE"
  shows "queue_list (snd (event_queue_push (Some e) q)) = queue_list q @ [e]"
    and "wf_queue (snd (event_queue_push (Some e) q))"
proof -
  let ?n = EVENT_QUEUE_SIZE and ?h = "g_queue_head q" and ?c = "g_queue_count q"
  have t: "g_queue_tail q = (?h + ?c) mod ?n" and len: "length (g_event_queue q) = ?n"
    using wf by (simp_all add: wf_queue_def)
  then have tl: "g_queue_tail q < length (g_event_queue q)" by simp
  have old: "(g_event_queue q)[(?h + ?c) mod ?n := e] ! ((?h + i) mod ?n)
      = g_event_queue q ! ((?h + i) mod ?n)" if "i < ?c" for i
    using ring_index_neq [OF that room, of ?h] by (simp add: nth_list_update_neq)
  show "queue_list (snd (event_queue_push (Some e) q)) = queue_list q @ [e]"
    using room tl t by (simp add: event_queue_push_def queue_list_def old)
  show "wf_queue (snd (event_queue_push (Some e) q))"
    using wf room by (simp add: event_queue_push_def wf_queue_def mod_Suc_eq)
qed

lemma push_full_queue:
  "EVENT_QUEUE_SIZE \<le> g_queue_count q \<Longrightarrow> event_queue_push (Some e) q = (-1, q)"
  by (simp add: event_queue_push_def)

lemma push_wf [orca_inv]: "wf_queue q \<Longrightarrow> wf_queue (snd (event_queue_push ev q))"
proof (cases ev)
  case (Some e)
  assume "wf_queue q"
  with Some show ?thesis
    by (cases "g_queue_count q < EVENT_QUEUE_SIZE") (auto simp: push_queue_list push_full_queue)
qed (simp add: event_queue_push_def)

lemma queue_take_list:
  assumes wf: "wf_queue q" and tk: "queue_take q = Some (e, q')"
  shows "wf_queue q'" and "queue_list q = e # queue_list q'"
proof -
  let ?n = EVENT_QUEUE_SIZE and ?h = "g_queue_head q"
  from tk have c: "0 < g_queue_count q" and e: "e = g_event_queue q ! ?h"
    and q': "q' = q\<lparr>g_queue_head := (?h + 1) mod ?n, g_queue_count := g_queue_count q - 1\<rparr>"
    by (auto simp: queue_take_def split: if_splits)
  have "((?h + 1) mod ?n + (g_queue_count q - 1)) mod ?n = ((?h + 1) + (g_queue_count q - 1)) mod ?n"
    by (rule mod_add_left_eq)
  also have "(?h + 1) + (g_queue_count q - 1) = ?h + g_queue_count q" using c by simp
  finally have "((?h + 1) mod ?n + (g_queue_count q - 1)) mod ?n = (?h + g_queue_count q) mod ?n" .
  with wf c show "wf_queue q'" by (auto simp: wf_queue_def q')
  have "[0..<g_queue_count q] = 0 # map Suc [0..<g_queue_count q - 1]"
    using c by (simp add: map_Suc_upt upt_conv_Cons)
  moreover have "((?h + 1) mod ?n + i) mod ?n = (?h + Suc i) mod ?n" for i
    by (simp add: mod_add_left_eq)
  moreover have "?h mod ?n = ?h" using wf by (simp add: wf_queue_def)
  ultimately show "queue_list q = e # queue_list q'"
    by (simp add: queue_list_def q' e)
qed

interpretation evq: bounded_fifo "\<lambda>e. event_queue_push (Some e)" queue_take queue_list wf_queue EVENT_QUEUE_SIZE
proof (unfold_locales, goal_cases)
  case (1 q e)
  then show ?case by (simp add: push_queue_list) (simp add: event_queue_push_def)
next
  case (2 q e)
  then show ?case by (simp add: push_full_queue)
next
  case (3 q e)
  then show ?case by (rule push_wf)
next
  case (4 q)
  then show ?case by (simp add: queue_take_def queue_list_def)
next
  case (5 q e q')
  then show ?case using queue_take_list by blast
next
  case (6 q)
  then show ?case by (simp add: wf_queue_def)
qed

lemmas event_queue_specs = evq.push_ok evq.push_full evq.push_invar evq.pop_None evq.pop_Some

section \<open>The cells hold events that fit\<close>

definition queue_fits :: "event_q \<Rightarrow> bool" where
  "queue_fits q \<longleftrightarrow> (\<forall>e \<in> set (g_event_queue q). event_fits e)"

definition queue_ok :: "event_q \<Rightarrow> bool" where
  "queue_ok q \<longleftrightarrow> wf_queue q \<and> queue_fits q"

lemma empty_queue_ok: "queue_ok empty_queue"
  using wf_empty_queue(1)
  by (simp add: queue_ok_def) (simp add: queue_fits_def empty_queue_def zero_event_fits)

lemma push_queue_ok [orca_inv]:
  assumes "queue_ok q" and "event_fits e"
  shows "queue_ok (snd (event_queue_push (Some e) q))"
proof -
  have "set ((g_event_queue q)[g_queue_tail q := e]) \<subseteq> insert e (set (g_event_queue q))"
    by (rule set_update_subset_insert)
  with assms have "queue_fits (snd (event_queue_push (Some e) q))"
    by (auto simp: queue_ok_def queue_fits_def event_queue_push_def)
  with assms show ?thesis by (simp add: queue_ok_def push_wf)
qed

lemma push_all_queue_ok:
  "queue_ok q \<Longrightarrow> \<forall>e \<in> set es. event_fits e \<Longrightarrow> queue_ok (push_all (\<lambda>e. event_queue_push (Some e)) es q)"
  by (induction es arbitrary: q) (auto simp: push_all_def push_queue_ok)

lemma queue_take_ok:
  assumes "queue_ok q" and "queue_take q = Some (e, q')"
  shows "queue_ok q'" and "event_fits e"
proof -
  have wf: "wf_queue q" using assms(1) by (simp add: queue_ok_def)
  have q': "g_event_queue q' = g_event_queue q" and e: "e = g_event_queue q ! g_queue_head q"
    using assms(2) by (auto simp: queue_take_def split: if_splits)
  have "e \<in> set (g_event_queue q)" using wf e by (simp add: wf_queue_def)
  with assms(1) show "event_fits e" by (simp add: queue_ok_def queue_fits_def)
  show "queue_ok q'" using assms queue_take_list [OF wf assms(2)] q'
    by (simp add: queue_ok_def queue_fits_def)
qed

text \<open>A pop keeps the queue sound if the other threads do while it waits.\<close>

fun waits_ok :: "wait_result list \<Rightarrow> bool" where
  "waits_ok [] \<longleftrightarrow> True"
| "waits_ok (Timed_out # ws) \<longleftrightarrow> waits_ok ws"
| "waits_ok (Woken q r # ws) \<longleftrightarrow> queue_ok q \<and> waits_ok ws"

lemma pop_queue_ok:
  "queue_ok q \<Longrightarrow> waits_ok waits \<Longrightarrow> event_queue_pop waits ptr t running q = Some (rc, ev, running', q') \<Longrightarrow>
   queue_ok q' \<and> (case ev of None \<Rightarrow> rc = -1 | Some e \<Rightarrow> rc = 0 \<and> event_fits e)"
proof (induction waits ptr t running q rule: event_queue_pop.induct)
  case (1 waits ptr t running q)
  show ?case
  proof (cases "ptr \<and> g_queue_count q = 0 \<and> running")
    case True
    then have "event_queue_pop waits ptr t running q = (case waits of [] \<Rightarrow> None
        | Timed_out # ws \<Rightarrow> if t > 0 then Some (-1, None, running, q) else None
        | Woken q2 r2 # ws \<Rightarrow> event_queue_pop ws ptr t r2 q2)"
      by (subst event_queue_pop.simps) simp
    with 1 True show ?thesis by (auto split: list.splits wait_result.splits if_splits)
  next
    case False
    then show ?thesis using "1.prems" queue_take_ok [OF "1.prems"(1)]
      by (auto simp: event_queue_pop.simps [of waits ptr t running q] split: option.splits if_splits)
  qed
qed

end
