(* ===== verification/C_Text.thy ===== *)
theory C_Text
  imports Orca_Prelude
begin

text \<open>
  The part of the C library's text handling that the sources use: \<open>isdigit\<close>,
  \<open>isspace\<close>, \<open>strtol\<close>, \<open>atoi\<close>, the conversions \<open>%d\<close> and \<open>%ld\<close> of
  \<open>printf\<close> and \<open>sscanf\<close>, \<open>strstr\<close> and \<open>inet_pton(AF_INET)\<close>.  An
  \<open>int\<close> is 32 bits and a \<open>long\<close> 64 bits wide; a decimal text out of the range of
  \<open>long\<close> is read as the nearest \<open>long\<close>, and a \<open>long\<close> stored into an \<open>int\<close>
  keeps its low 32 bits (the behaviour of the GNU C library).  No function here models a line
  of the repository: they are the vocabulary of the component theories.
\<close>

section \<open>Characters\<close>

definition is_digit :: "char \<Rightarrow> bool" where
  "is_digit c \<longleftrightarrow> 48 \<le> (of_char c :: nat) \<and> (of_char c :: nat) \<le> 57"

definition is_space :: "char \<Rightarrow> bool" where
  "is_space c \<longleftrightarrow> (of_char c :: nat) = 32 \<or> 9 \<le> (of_char c :: nat) \<and> (of_char c :: nat) \<le> 13"

definition digit_val :: "char \<Rightarrow> nat" where
  "digit_val c = of_char c - 48"

definition digit_char :: "nat \<Rightarrow> char" where
  "digit_char d = char_of (48 + d)"

lemma of_digit_char: "d < 10 \<Longrightarrow> of_char (digit_char d) = (48 + d :: nat)"
  by (simp add: digit_char_def of_char_of)

lemma digit_val_char: "d < 10 \<Longrightarrow> digit_val (digit_char d) = d"
  by (simp add: digit_val_def of_digit_char)

lemma is_digit_char: "d < 10 \<Longrightarrow> is_digit (digit_char d)"
  by (simp add: is_digit_def of_digit_char)

lemma digit_not_space: "is_digit c \<Longrightarrow> \<not> is_space c"
  by (auto simp: is_digit_def is_space_def)

lemma digit_val_less: "is_digit c \<Longrightarrow> digit_val c < 10"
  by (auto simp: is_digit_def digit_val_def)

lemma digit_char_val: "is_digit c \<Longrightarrow> digit_char (digit_val c) = c"
  by (auto simp: is_digit_def digit_val_def digit_char_def char_of_eq_iff)

lemma digit_neq: "is_digit c \<Longrightarrow> \<not> is_digit d \<Longrightarrow> c \<noteq> d"
  by blast

lemma is_digit_consts [simp]:
  "\<not> is_digit CHR ''-''" "\<not> is_digit CHR ''+''" "\<not> is_digit CHR ''.''" "\<not> is_digit CHR '',''"
  "\<not> is_digit CHR ''<''" "\<not> is_digit CHR ''>''" "\<not> is_digit CHR '':''" "\<not> is_digit CHR ''|''"
  "\<not> is_digit CHR '' ''" "\<not> is_digit CHR 0x0A" "\<not> is_digit CHR 0x22"
  "\<not> is_digit CHR ''{''" "\<not> is_digit CHR ''}''"
  by (simp_all add: is_digit_def)

section \<open>Decimal numbers\<close>

fun dec_nat :: "nat \<Rightarrow> string" where
  "dec_nat n = (if n < 10 then [digit_char n] else dec_nat (n div 10) @ [digit_char (n mod 10)])"

declare dec_nat.simps [simp del]

definition dec_int :: "int \<Rightarrow> string" where
  "dec_int v = (if v < 0 then CHR ''-'' # dec_nat (nat (- v)) else dec_nat (nat v))"

definition dec_val :: "string \<Rightarrow> nat" where
  "dec_val ds = foldl (\<lambda>a c. 10 * a + digit_val c) 0 ds"

lemma dec_val_snoc: "dec_val (ds @ [c]) = 10 * dec_val ds + digit_val c"
  by (simp add: dec_val_def)

lemma dec_val_Nil [simp]: "dec_val [] = 0"
  by (simp add: dec_val_def)

lemma dec_nat_nonempty [simp]: "dec_nat n \<noteq> []"
  by (subst dec_nat.simps) simp

lemma dec_nat_digits: "c \<in> set (dec_nat n) \<Longrightarrow> is_digit c"
proof (induction n rule: dec_nat.induct)
  case (1 n)
  show ?case
  proof (cases "n < 10")
    case True
    with "1.prems" show ?thesis by (subst (asm) dec_nat.simps) (simp add: is_digit_char)
  next
    case False
    with "1.prems" have "c \<in> set (dec_nat (n div 10)) \<or> c = digit_char (n mod 10)"
      by (subst (asm) dec_nat.simps) auto
    with "1.IH" [OF False] show ?thesis by (auto simp: is_digit_char)
  qed
qed

lemma dec_val_dec_nat [simp]: "dec_val (dec_nat n) = n"
proof (induction n rule: dec_nat.induct)
  case (1 n)
  show ?case
  proof (cases "n < 10")
    case True
    then show ?thesis
      by (subst dec_nat.simps) (simp add: dec_val_def digit_val_char)
  next
    case False
    have "10 * (n div 10) + n mod 10 = n" by simp
    with False "1.IH" [OF False] show ?thesis
      by (subst dec_nat.simps) (simp add: dec_val_snoc digit_val_char)
  qed
qed

lemma dec_nat_inj: "dec_nat m = dec_nat n \<longleftrightarrow> m = n"
  by (metis dec_val_dec_nat)

lemma length_dec_nat_le: "n < 10 ^ k \<Longrightarrow> 0 < k \<Longrightarrow> length (dec_nat n) \<le> k"
proof (induction k arbitrary: n)
  case 0
  then show ?case by simp
next
  case (Suc k)
  show ?case
  proof (cases "n < 10")
    case True
    then show ?thesis by (subst dec_nat.simps) simp
  next
    case False
    with Suc.prems have "0 < k" by (cases k) auto
    moreover from Suc.prems have "n div 10 < 10 ^ k" by (simp add: less_mult_imp_div_less mult.commute)
    ultimately have "length (dec_nat (n div 10)) \<le> k" by (rule Suc.IH [rotated])
    with False show ?thesis by (subst dec_nat.simps) simp
  qed
qed

lemma dec_int_nat: "dec_int (int n) = dec_nat n"
  by (simp add: dec_int_def)

lemma dec_int_nonempty [simp]: "dec_int v \<noteq> []"
  by (simp add: dec_int_def)

lemma dec_int_chars: "c \<in> set (dec_int v) \<Longrightarrow> is_digit c \<or> c = CHR ''-''"
  by (auto simp: dec_int_def dest: dec_nat_digits split: if_splits)

section \<open>Reading numbers\<close>

definition c_long :: "int \<Rightarrow> int" where
  "c_long v = max (- (2 ^ 63)) (min (2 ^ 63 - 1) v)"

definition c_int :: "int \<Rightarrow> int" where
  "c_int v = (v + 2 ^ 31) mod 2 ^ 32 - 2 ^ 31"

definition int_range :: "int \<Rightarrow> bool" where
  "int_range v \<longleftrightarrow> - (2 ^ 31) \<le> v \<and> v < 2 ^ 31"

definition long_range :: "int \<Rightarrow> bool" where
  "long_range v \<longleftrightarrow> - (2 ^ 63) \<le> v \<and> v < 2 ^ 63"

lemma c_int_range: "int_range (c_int v)"
  by (auto simp: c_int_def int_range_def)

lemma c_int_id: "int_range v \<Longrightarrow> c_int v = v"
  by (simp add: c_int_def int_range_def)

lemma c_long_id: "long_range v \<Longrightarrow> c_long v = v"
  by (simp add: c_long_def long_range_def)

lemma int_long_range: "int_range v \<Longrightarrow> long_range v"
  by (simp add: int_range_def long_range_def)

lemma c_int_long_id: "int_range v \<Longrightarrow> c_int (c_long v) = v"
  by (simp add: c_int_id c_long_id int_long_range)

definition scan_sign :: "string \<Rightarrow> bool \<times> string" where
  "scan_sign s = (case s of
      [] \<Rightarrow> (False, [])
    | c # cs \<Rightarrow> if c = CHR ''-'' then (True, cs) else if c = CHR ''+'' then (False, cs) else (False, s))"

definition scan_num :: "string \<Rightarrow> (int \<times> string) option" where
  "scan_num s =
    (let (neg, u) = scan_sign (dropWhile is_space s);
         ds = takeWhile is_digit u
     in if ds = [] then None
        else Some (if neg then - int (dec_val ds) else int (dec_val ds), dropWhile is_digit u))"

definition scan_d :: "string \<Rightarrow> (int \<times> string) option" where
  "scan_d s = map_option (\<lambda>(v, r). (c_int (c_long v), r)) (scan_num s)"

definition scan_ld :: "string \<Rightarrow> (int \<times> string) option" where
  "scan_ld s = map_option (\<lambda>(v, r). (c_long v, r)) (scan_num s)"

definition atoi :: "string \<Rightarrow> int" where
  "atoi s = (case scan_d s of None \<Rightarrow> 0 | Some (v, _) \<Rightarrow> v)"

definition atol :: "string \<Rightarrow> int" where
  "atol s = (case scan_ld s of None \<Rightarrow> 0 | Some (v, _) \<Rightarrow> v)"

lemma length_dec_int: "long_range v \<Longrightarrow> length (dec_int v) \<le> 21"
  using length_dec_nat_le [of "nat v" 20] length_dec_nat_le [of "nat (- v)" 20]
  by (auto simp: dec_int_def long_range_def nat_less_iff)

text \<open>A text that no digit follows: what \<open>%d\<close> needs of the characters after the number.\<close>

definition no_digit :: "string \<Rightarrow> bool" where
  "no_digit r \<longleftrightarrow> (case r of [] \<Rightarrow> True | c # _ \<Rightarrow> \<not> is_digit c)"

lemma no_digit_simps [simp]:
  "no_digit []" "no_digit (c # r) \<longleftrightarrow> \<not> is_digit c"
  by (simp_all add: no_digit_def)

lemma no_digit_While:
  assumes "no_digit r"
  shows "takeWhile is_digit r = []" and "dropWhile is_digit r = r"
  using assms by (cases r; simp)+

lemma takeWhile_digits:
  assumes "\<And>c. c \<in> set ds \<Longrightarrow> is_digit c" and "no_digit r"
  shows "takeWhile is_digit (ds @ r) = ds" and "dropWhile is_digit (ds @ r) = r"
  using assms by (cases r; simp add: takeWhile_append2 dropWhile_append2)+

lemma dec_nat_not_space: "dropWhile is_space (dec_nat n @ r) = dec_nat n @ r"
proof (cases "dec_nat n")
  case Nil
  then show ?thesis by simp
next
  case (Cons c cs)
  then have "is_digit c" using dec_nat_digits [of c n] by simp
  then show ?thesis using Cons by (simp add: digit_not_space)
qed

lemma scan_sign_dec_nat: "scan_sign (dec_nat n @ r) = (False, dec_nat n @ r)"
proof (cases "dec_nat n")
  case Nil
  then show ?thesis by simp
next
  case (Cons c cs)
  then have "is_digit c" using dec_nat_digits [of c n] by simp
  then have "c \<noteq> CHR ''-''" "c \<noteq> CHR ''+''" by (auto simp: is_digit_def)
  then show ?thesis using Cons by (simp add: scan_sign_def)
qed

lemma scan_num_dec_nat: "no_digit r \<Longrightarrow> scan_num (dec_nat n @ r) = Some (int n, r)"
  by (simp add: scan_num_def dec_nat_not_space scan_sign_dec_nat takeWhile_digits no_digit_While dec_nat_digits)

lemma scan_num_dec_int:
  assumes "no_digit r"
  shows "scan_num (dec_int v @ r) = Some (v, r)"
proof (cases "v < 0")
  case True
  then have "scan_num (dec_int v @ r) = scan_num (CHR ''-'' # (dec_nat (nat (- v)) @ r))"
    by (simp add: dec_int_def)
  also have "\<dots> = Some (v, r)"
    using True assms
    by (simp add: scan_num_def is_space_def scan_sign_def takeWhile_digits no_digit_While dec_nat_digits)
  finally show ?thesis .
next
  case False
  with scan_num_dec_nat [OF assms, of "nat v"] show ?thesis
    by (simp add: dec_int_def)
qed

lemma scan_num_skip: "scan_num (CHR '' '' # s) = scan_num s"
  by (simp add: scan_num_def is_space_def)

lemma scan_d_dec: "no_digit r \<Longrightarrow> int_range v \<Longrightarrow> scan_d (dec_int v @ r) = Some (v, r)"
  by (simp add: scan_d_def scan_num_dec_int c_int_long_id)

lemma scan_d_dec_nat: "no_digit r \<Longrightarrow> n < 2 ^ 31 \<Longrightarrow> scan_d (dec_nat n @ r) = Some (int n, r)"
  using scan_d_dec [of r "int n"] by (simp add: dec_int_nat int_range_def)

lemma scan_ld_dec: "no_digit r \<Longrightarrow> long_range v \<Longrightarrow> scan_ld (dec_int v @ r) = Some (v, r)"
  by (simp add: scan_ld_def scan_num_dec_int c_long_id)

lemma scan_d_int_range: "scan_d s = Some (v, r) \<Longrightarrow> int_range v"
  by (auto simp: scan_d_def c_int_range)

lemma atoi_dec_nat: "n < 2 ^ 31 \<Longrightarrow> atoi (dec_nat n) = int n"
  using scan_d_dec_nat [of "[]" n] by (simp add: atoi_def)

section \<open>Literal text of a format\<close>

text \<open>
  A literal of a \<open>sscanf\<close> format must match exactly; \<open>strstr\<close> is containment.
\<close>

fun scan_lit :: "string \<Rightarrow> string \<Rightarrow> string option" where
  "scan_lit [] s = Some s"
| "scan_lit (c # cs) [] = None"
| "scan_lit (c # cs) (d # ds) = (if c = d then scan_lit cs ds else None)"

lemma scan_lit_append [simp]: "scan_lit l (l @ s) = Some s"
  by (induction l) auto

lemma scan_lit_SomeD: "scan_lit l s = Some r \<Longrightarrow> s = l @ r"
  by (induction l s rule: scan_lit.induct) (auto split: if_splits)

fun is_prefix :: "string \<Rightarrow> string \<Rightarrow> bool" where
  "is_prefix [] s \<longleftrightarrow> True"
| "is_prefix (c # cs) [] \<longleftrightarrow> False"
| "is_prefix (c # cs) (d # ds) \<longleftrightarrow> c = d \<and> is_prefix cs ds"

fun contains :: "string \<Rightarrow> string \<Rightarrow> bool" where
  "contains [] l \<longleftrightarrow> l = []"
| "contains (c # cs) l \<longleftrightarrow> is_prefix l (c # cs) \<or> contains cs l"

lemma is_prefix_Nil [simp]: "is_prefix l [] \<longleftrightarrow> l = []"
  by (cases l) auto

lemma contains_single: "contains s [c] \<longleftrightarrow> c \<in> set s"
  by (induction s) auto

text \<open>The suffix of a text at the first occurrence of another, and of a character.\<close>

fun strstr_at :: "string \<Rightarrow> string \<Rightarrow> string option" where
  "strstr_at [] l = (if l = [] then Some [] else None)"
| "strstr_at (c # cs) l = (if is_prefix l (c # cs) then Some (c # cs) else strstr_at cs l)"

definition strchr_at :: "char \<Rightarrow> string \<Rightarrow> string option" where
  "strchr_at c s = (case dropWhile (\<lambda>x. x \<noteq> c) s of [] \<Rightarrow> None | r \<Rightarrow> Some r)"

section \<open>Dotted IPv4 addresses\<close>

text \<open>
  \<open>inet_pton(AF_INET, s)\<close> accepts exactly four decimal octets of one to three digits,
  none with a leading zero or above 255; the model returns the octets.
\<close>

fun split_dots :: "string \<Rightarrow> string list" where
  "split_dots [] = [[]]"
| "split_dots (c # cs) =
    (if c = CHR ''.'' then [] # split_dots cs
     else (case split_dots cs of [] \<Rightarrow> [[c]] | p # ps \<Rightarrow> (c # p) # ps))"

definition octet :: "string \<Rightarrow> nat option" where
  "octet p =
    (if p \<noteq> [] \<and> (\<forall>c \<in> set p. is_digit c) \<and> length p \<le> 3
        \<and> (length p = 1 \<or> hd p \<noteq> CHR ''0'') \<and> dec_val p \<le> 255
     then Some (dec_val p) else None)"

definition inet_pton4 :: "string \<Rightarrow> (nat \<times> nat \<times> nat \<times> nat) option" where
  "inet_pton4 s = (case split_dots s of
      [p, q, r, t] \<Rightarrow> do { a \<leftarrow> octet p; b \<leftarrow> octet q; c \<leftarrow> octet r; d \<leftarrow> octet t; Some (a, b, c, d) }
    | _ \<Rightarrow> None)"

definition dotted :: "nat \<Rightarrow> nat \<Rightarrow> nat \<Rightarrow> nat \<Rightarrow> string" where
  "dotted a b c d = dec_nat a @ ''.'' @ dec_nat b @ ''.'' @ dec_nat c @ ''.'' @ dec_nat d"

lemma split_dots_no_dot: "CHR ''.'' \<notin> set p \<Longrightarrow> split_dots p = [p]"
  by (induction p) auto

lemma split_dots_append:
  "CHR ''.'' \<notin> set p \<Longrightarrow> split_dots (p @ CHR ''.'' # s) = p # split_dots s"
  by (induction p) auto

lemma dot_notin_dec_nat [simp]: "CHR ''.'' \<notin> set (dec_nat n)"
  using dec_nat_digits [of "CHR ''.''" n] by auto

lemma split_dots_dotted:
  "split_dots (dotted a b c d) = [dec_nat a, dec_nat b, dec_nat c, dec_nat d]"
  by (simp add: dotted_def split_dots_append split_dots_no_dot)

lemma hd_dec_nat_0: "hd (dec_nat n) = CHR ''0'' \<Longrightarrow> n = 0"
proof (induction n rule: dec_nat.induct)
  case (1 n)
  show ?case
  proof (cases "n < 10")
    case True
    with "1.prems" have "digit_char n = CHR ''0''" by (subst (asm) dec_nat.simps) simp
    then have "digit_val (digit_char n) = 0" by (simp add: digit_val_def)
    with True show ?thesis by (simp add: digit_val_char)
  next
    case False
    have "hd (dec_nat n) = hd (dec_nat (n div 10))"
      using False by (subst dec_nat.simps) simp
    with "1.prems" "1.IH" [OF False] have "n div 10 = 0" by simp
    with False show ?thesis by simp
  qed
qed

lemma octet_dec_nat:
  assumes "n \<le> 255"
  shows "octet (dec_nat n) = Some n"
proof -
  have "length (dec_nat n) \<le> 3" using length_dec_nat_le [of n 3] assms by simp
  moreover have "length (dec_nat n) = 1 \<or> hd (dec_nat n) \<noteq> CHR ''0''"
  proof (cases "n = 0")
    case True
    then show ?thesis by (subst dec_nat.simps) simp
  next
    case False
    then show ?thesis using hd_dec_nat_0 by blast
  qed
  ultimately show ?thesis using assms dec_nat_digits by (auto simp: octet_def)
qed

lemma inet_pton4_dotted:
  "a \<le> 255 \<Longrightarrow> b \<le> 255 \<Longrightarrow> c \<le> 255 \<Longrightarrow> d \<le> 255 \<Longrightarrow>
   inet_pton4 (dotted a b c d) = Some (a, b, c, d)"
  by (simp add: inet_pton4_def split_dots_dotted octet_dec_nat)

interpretation ipv4_text: codec "\<lambda>(a, b, c, d). dotted a b c d" inet_pton4
    "\<lambda>(a, b, c, d). a \<le> 255 \<and> b \<le> 255 \<and> c \<le> 255 \<and> d \<le> 255"
  by unfold_locales (auto simp: inet_pton4_dotted)

lemma octet_bound: "octet p = Some n \<Longrightarrow> n \<le> 255"
  by (auto simp: octet_def split: if_splits)

lemma inet_pton4_bound:
  assumes "inet_pton4 s = Some (a, b, c, d)"
  shows "a \<le> 255 \<and> b \<le> 255 \<and> c \<le> 255 \<and> d \<le> 255"
  using assms octet_bound
  by (auto simp: inet_pton4_def split: list.splits Option.bind_splits)

end
