(* ===== verification/State_Manager.thy ===== *)
theory State_Manager
  imports Event_Queue C_Text
begin

text \<open>
  \<^verbatim>\<open>state_manager.c\<close>: the tables of peers, ghost messages and chat messages.  The three
  static arrays are lists of fixed length with a count of the cells in use; cells beyond the
  count keep old contents, as in C.  A \<open>Peer *\<close> result is the index of the cell.  Every
  operation runs under \<open>g_state_mutex\<close> and is one step here, except the field setters,
  which look the peer up in one critical section and write in another: \<open>set_peer\<close> is their
  second half.
\<close>

section \<open>Data\<close>

datatype PeerState =
    PEER_UNKNOWN | PEER_REQUEST_SENT | PEER_REQUEST_RECEIVED | PEER_FRIEND
  | PEER_ONLINE | PEER_OFFLINE | PEER_BUSY | PEER_GHOST
  | PEER_STATE_OUT_OF_RANGE int

record Peer =
  p_id :: string
  p_state :: PeerState
  p_online :: bool
  p_busy :: bool
  p_is_secure :: bool
  p_ip :: string
  p_port :: int
  p_last_seen :: int
  p_created_at :: int
  p_request_sent_at :: int
  p_request_received_at :: int
  p_friend_since :: int
  p_pending_messages :: int
  p_ghost_count :: int
  p_public_key :: string
  p_name :: string

record GhostMessage =
  gm_id :: string
  gm_from_id :: string
  gm_to_id :: string
  gm_message :: string
  gm_timestamp :: int
  gm_delivered :: bool
  gm_delivered_at :: int
  gm_retry_count :: int

definition MAX_PEERS :: nat where "MAX_PEERS = 256"
definition MAX_GHOST_MESSAGES :: nat where "MAX_GHOST_MESSAGES = 1024"
definition MAX_MESSAGES :: nat where "MAX_MESSAGES = 4096"

record mgr =
  g_peers :: "Peer list"
  g_peer_count :: nat
  g_ghost_messages :: "GhostMessage list"
  g_ghost_count :: nat
  g_messages :: "string list"
  g_message_count :: nat
  g_initialized :: bool

definition zero_peer :: Peer where
  "zero_peer = \<lparr>p_id = [], p_state = PEER_UNKNOWN, p_online = False, p_busy = False,
     p_is_secure = False, p_ip = [], p_port = 0, p_last_seen = 0, p_created_at = 0,
     p_request_sent_at = 0, p_request_received_at = 0, p_friend_since = 0,
     p_pending_messages = 0, p_ghost_count = 0, p_public_key = [], p_name = []\<rparr>"

definition zero_ghost :: GhostMessage where
  "zero_ghost = \<lparr>gm_id = [], gm_from_id = [], gm_to_id = [], gm_message = [], gm_timestamp = 0,
     gm_delivered = False, gm_delivered_at = 0, gm_retry_count = 0\<rparr>"

definition zero_mgr :: mgr where
  "zero_mgr = \<lparr>g_peers = replicate MAX_PEERS zero_peer, g_peer_count = 0,
     g_ghost_messages = replicate MAX_GHOST_MESSAGES zero_ghost, g_ghost_count = 0,
     g_messages = replicate MAX_MESSAGES [], g_message_count = 0, g_initialized = False\<rparr>"

fun state_to_string :: "PeerState \<Rightarrow> string" where
  "state_to_string PEER_UNKNOWN = ''unknown''"
| "state_to_string PEER_REQUEST_SENT = ''request_sent''"
| "state_to_string PEER_REQUEST_RECEIVED = ''request_received''"
| "state_to_string PEER_FRIEND = ''friend''"
| "state_to_string PEER_ONLINE = ''online''"
| "state_to_string PEER_OFFLINE = ''offline''"
| "state_to_string PEER_BUSY = ''busy''"
| "state_to_string PEER_GHOST = ''ghost''"
| "state_to_string (PEER_STATE_OUT_OF_RANGE _) = ''unknown''"

section \<open>Identifiers\<close>

text \<open>The loop of \<open>normalize_id\<close>: copy the characters but the angle brackets, with room for \<open>r\<close>.\<close>

fun normalize_loop :: "string \<Rightarrow> nat \<Rightarrow> string" where
  "normalize_loop [] r = []"
| "normalize_loop (c # cs) r =
    (if r = 0 then []
     else if c \<noteq> CHR ''<'' \<and> c \<noteq> CHR ''>'' then c # normalize_loop cs (r - 1)
     else normalize_loop cs r)"

definition normalize_id :: "nat \<Rightarrow> string \<Rightarrow> string" where
  "normalize_id sz input = normalize_loop input (sz - 1)"

definition is_same_id :: "string option \<Rightarrow> string option \<Rightarrow> bool" where
  "is_same_id id1 id2 =
    (case (id1, id2) of
       (Some a, Some b) \<Rightarrow> normalize_id 64 a = normalize_id 64 b
     | _ \<Rightarrow> False)"

text \<open>The guard at the head of the operations: a NULL or, once normalised, empty id is refused.\<close>

definition norm_arg :: "string option \<Rightarrow> string option" where
  "norm_arg pid = (case pid of None \<Rightarrow> None
     | Some s \<Rightarrow> (let n = normalize_id 64 s in if length n = 0 then None else Some n))"

lemma normalize_loop_take: "normalize_loop s r = take r (filter (\<lambda>c. c \<noteq> CHR ''<'' \<and> c \<noteq> CHR ''>'') s)"
  by (induction s r rule: normalize_loop.induct) (auto simp: take_Cons')

lemma normalize_id_take:
  "normalize_id n s = take (n - 1) (filter (\<lambda>c. c \<noteq> CHR ''<'' \<and> c \<noteq> CHR ''>'') s)"
  by (simp add: normalize_id_def normalize_loop_take)

lemma length_normalize_id: "0 < n \<Longrightarrow> length (normalize_id n s) < n"
  by (auto simp: normalize_id_take)

lemma normalize_id_no_brackets:
  "CHR ''<'' \<notin> set (normalize_id n s)" "CHR ''>'' \<notin> set (normalize_id n s)"
  by (auto simp: normalize_id_take dest!: in_set_takeD)

lemma normalize_id_id:
  assumes "CHR ''<'' \<notin> set s" and "CHR ''>'' \<notin> set s" and "length s < n"
  shows "normalize_id n s = s"
proof -
  have "filter (\<lambda>c. c \<noteq> CHR ''<'' \<and> c \<noteq> CHR ''>'') s = s"
    using assms(1,2) by (auto intro: filter_True)
  then show ?thesis using assms(3) by (simp add: normalize_id_take)
qed

lemma normalize_id_idem [simp]: "0 < n \<Longrightarrow> normalize_id n (normalize_id n s) = normalize_id n s"
  by (rule normalize_id_id) (simp_all add: normalize_id_no_brackets length_normalize_id)

lemma is_same_id_Some [simp]:
  "is_same_id (Some a) (Some b) \<longleftrightarrow> normalize_id 64 a = normalize_id 64 b"
  by (simp add: is_same_id_def)

lemma norm_arg_SomeD:
  "norm_arg i = Some n \<Longrightarrow> n \<noteq> [] \<and> normalize_id 64 n = n \<and> length n < 64"
  by (auto simp: norm_arg_def Let_def length_normalize_id split: option.splits if_splits)

lemma norm_arg_norm: "norm_arg i = Some n \<Longrightarrow> norm_arg (Some n) = Some n"
  by (auto simp: norm_arg_def Let_def split: option.splits if_splits)

section \<open>Peers\<close>

definition live_peers :: "mgr \<Rightarrow> Peer list" where
  "live_peers m = take (g_peer_count m) (g_peers m)"

definition peer_index :: "mgr \<Rightarrow> string \<Rightarrow> nat option" where
  "peer_index m norm = find_index (\<lambda>p. is_same_id (Some (p_id p)) (Some norm)) (live_peers m)"

definition set_peer :: "nat \<Rightarrow> (Peer \<Rightarrow> Peer) \<Rightarrow> mgr \<Rightarrow> mgr" where
  "set_peer i f m = m\<lparr>g_peers := (g_peers m)[i := f (g_peers m ! i)]\<rparr>"

definition state_add_peer :: "clock \<Rightarrow> string option \<Rightarrow> mgr \<Rightarrow> int \<times> mgr" where
  "state_add_peer clk pid m =
    (case norm_arg pid of
       None \<Rightarrow> (-1, m)
     | Some norm \<Rightarrow>
        (case peer_index m norm of
           Some _ \<Rightarrow> (0, m)
         | None \<Rightarrow>
            if MAX_PEERS \<le> g_peer_count m then (-1, m)
            else (0, (set_peer (g_peer_count m)
                  (\<lambda>p. p\<lparr>p_id := norm, p_state := PEER_UNKNOWN, p_online := False, p_busy := False,
                        p_is_secure := False, p_port := 0, p_created_at := clk 0,
                        p_last_seen := clk 1, p_pending_messages := 0, p_ghost_count := 0,
                        p_ip := [], p_public_key := [], p_name := []\<rparr>) m)
                 \<lparr>g_peer_count := g_peer_count m + 1\<rparr>)))"

definition state_update_peer :: "clock \<Rightarrow> string option \<Rightarrow> PeerState \<Rightarrow> mgr \<Rightarrow> int \<times> mgr" where
  "state_update_peer clk pid st m =
    (case norm_arg pid of
       None \<Rightarrow> (-1, m)
     | Some norm \<Rightarrow>
        (case peer_index m norm of
           None \<Rightarrow> (-1, m)
         | Some i \<Rightarrow> (0, set_peer i (\<lambda>p.
              let p = p\<lparr>p_state := st, p_last_seen := clk 0\<rparr>
              in if st = PEER_FRIEND then p\<lparr>p_friend_since := clk 1\<rparr> else p) m)))"

text \<open>The inner loop of \<open>state_remove_peer\<close>: move the cells after \<open>j\<close> down by one.\<close>

function shift_down :: "nat \<Rightarrow> nat \<Rightarrow> 'a list \<Rightarrow> 'a list" where
  "shift_down j n xs = (if j < n - 1 then shift_down (j + 1) n (xs[j := xs ! (j + 1)]) else xs)"
  by pat_completeness auto
termination
  by (relation "measure (\<lambda>(j, n, xs). n - 1 - j)") auto

declare shift_down.simps [simp del]

definition state_remove_peer :: "string option \<Rightarrow> mgr \<Rightarrow> int \<times> mgr" where
  "state_remove_peer pid m =
    (case norm_arg pid of
       None \<Rightarrow> (-1, m)
     | Some norm \<Rightarrow>
        (case peer_index m norm of
           None \<Rightarrow> (-1, m)
         | Some i \<Rightarrow> (0, m\<lparr>g_peers := shift_down i (g_peer_count m) (g_peers m),
                          g_peer_count := g_peer_count m - 1\<rparr>)))"

definition state_get_peer :: "string option \<Rightarrow> mgr \<Rightarrow> nat option" where
  "state_get_peer pid m =
    (case norm_arg pid of None \<Rightarrow> None | Some norm \<Rightarrow> peer_index m norm)"

text \<open>The copying loops: up to \<open>max\<close> of the cells in use that satisfy a test.\<close>

fun collect_max :: "('a \<Rightarrow> bool) \<Rightarrow> nat \<Rightarrow> 'a list \<Rightarrow> 'a list" where
  "collect_max P k [] = []"
| "collect_max P k (x # xs) =
    (if k = 0 then [] else if P x then x # collect_max P (k - 1) xs else collect_max P k xs)"

fun count_if :: "('a \<Rightarrow> bool) \<Rightarrow> 'a list \<Rightarrow> int" where
  "count_if P [] = 0"
| "count_if P (x # xs) = (if P x then 1 + count_if P xs else count_if P xs)"

lemma collect_max_take: "collect_max P k xs = take k (filter P xs)"
  by (induction P k xs rule: collect_max.induct) (auto simp: take_Cons')

lemma count_if_length: "count_if P xs = int (length (filter P xs))"
  by (induction xs) auto

definition copy_out :: "bool \<Rightarrow> int \<Rightarrow> ('a \<Rightarrow> bool) \<Rightarrow> 'a list \<Rightarrow> int \<times> 'a list" where
  "copy_out out maxn P xs =
    (if \<not> out \<or> maxn \<le> 0 then (0, [])
     else (let ys = collect_max P (nat maxn) xs in (int (length ys), ys)))"

definition state_get_peers :: "bool \<Rightarrow> int \<Rightarrow> mgr \<Rightarrow> int \<times> Peer list" where
  "state_get_peers out maxn m = copy_out out maxn (\<lambda>_. True) (live_peers m)"

definition state_get_count :: "mgr \<Rightarrow> int" where
  "state_get_count m = int (g_peer_count m)"

section \<open>Queries\<close>

definition state_is_online :: "string option \<Rightarrow> mgr \<Rightarrow> bool" where
  "state_is_online pid m =
    (case state_get_peer pid m of None \<Rightarrow> False | Some i \<Rightarrow> p_online (g_peers m ! i))"

definition state_is_friend :: "string option \<Rightarrow> mgr \<Rightarrow> bool" where
  "state_is_friend pid m =
    (case state_get_peer pid m of None \<Rightarrow> False | Some i \<Rightarrow> p_state (g_peers m ! i) = PEER_FRIEND)"

definition state_is_busy :: "string option \<Rightarrow> mgr \<Rightarrow> bool" where
  "state_is_busy pid m =
    (case state_get_peer pid m of None \<Rightarrow> False | Some i \<Rightarrow> p_busy (g_peers m ! i))"

definition state_get_state :: "string option \<Rightarrow> mgr \<Rightarrow> PeerState" where
  "state_get_state pid m =
    (case state_get_peer pid m of None \<Rightarrow> PEER_UNKNOWN | Some i \<Rightarrow> p_state (g_peers m ! i))"

section \<open>Field setters\<close>

text \<open>The common shape: look up, then write one cell; \<open>-1\<close> when there is no such peer.\<close>

definition with_peer :: "string option \<Rightarrow> (Peer \<Rightarrow> Peer) \<Rightarrow> mgr \<Rightarrow> int \<times> mgr" where
  "with_peer pid f m =
    (case state_get_peer pid m of None \<Rightarrow> (-1, m) | Some i \<Rightarrow> (0, set_peer i f m))"

definition with_peer_string ::
  "nat \<Rightarrow> (string \<Rightarrow> Peer \<Rightarrow> Peer) \<Rightarrow> string option \<Rightarrow> string option \<Rightarrow> mgr \<Rightarrow> (int \<times> mgr) option" where
  "with_peer_string cap f pid s m =
    (case (pid, s) of
       (Some _, Some str) \<Rightarrow>
         (case state_get_peer pid m of
            None \<Rightarrow> Some (-1, m)
          | Some i \<Rightarrow> do { t \<leftarrow> strcpy_into cap str; Some (0, set_peer i (f t) m) })
     | _ \<Rightarrow> Some (-1, m))"

definition state_set_online :: "clock \<Rightarrow> string option \<Rightarrow> bool \<Rightarrow> mgr \<Rightarrow> int \<times> mgr" where
  "state_set_online clk pid online m = with_peer pid (\<lambda>p. p\<lparr>p_online := online, p_last_seen := clk 0\<rparr>) m"

definition state_set_busy :: "string option \<Rightarrow> bool \<Rightarrow> mgr \<Rightarrow> int \<times> mgr" where
  "state_set_busy pid busy m = with_peer pid (\<lambda>p. p\<lparr>p_busy := busy\<rparr>) m"

definition state_set_ip :: "string option \<Rightarrow> string option \<Rightarrow> mgr \<Rightarrow> (int \<times> mgr) option" where
  "state_set_ip pid ip m = with_peer_string 16 (\<lambda>s p. p\<lparr>p_ip := s\<rparr>) pid ip m"

definition state_set_port :: "string option \<Rightarrow> int \<Rightarrow> mgr \<Rightarrow> int \<times> mgr" where
  "state_set_port pid port m = with_peer pid (\<lambda>p. p\<lparr>p_port := port\<rparr>) m"

definition state_set_secure :: "string option \<Rightarrow> bool \<Rightarrow> mgr \<Rightarrow> int \<times> mgr" where
  "state_set_secure pid secure m = with_peer pid (\<lambda>p. p\<lparr>p_is_secure := secure\<rparr>) m"

definition state_set_name :: "string option \<Rightarrow> string option \<Rightarrow> mgr \<Rightarrow> (int \<times> mgr) option" where
  "state_set_name pid name m = with_peer_string 128 (\<lambda>s p. p\<lparr>p_name := s\<rparr>) pid name m"

definition state_set_public_key :: "string option \<Rightarrow> string option \<Rightarrow> mgr \<Rightarrow> (int \<times> mgr) option" where
  "state_set_public_key pid pubkey m = with_peer_string 4096 (\<lambda>s p. p\<lparr>p_public_key := s\<rparr>) pid pubkey m"

definition state_update_last_seen :: "clock \<Rightarrow> string option \<Rightarrow> mgr \<Rightarrow> int \<times> mgr" where
  "state_update_last_seen clk pid m = with_peer pid (\<lambda>p. p\<lparr>p_last_seen := clk 0\<rparr>) m"

section \<open>Pending requests and friends\<close>

definition is_pending :: "Peer \<Rightarrow> bool" where
  "is_pending p \<longleftrightarrow> p_state p = PEER_REQUEST_SENT \<or> p_state p = PEER_REQUEST_RECEIVED"

definition state_get_pending :: "bool \<Rightarrow> int \<Rightarrow> mgr \<Rightarrow> int \<times> Peer list" where
  "state_get_pending out maxn m = copy_out out maxn is_pending (live_peers m)"

definition state_get_pending_count :: "mgr \<Rightarrow> int" where
  "state_get_pending_count m = count_if is_pending (live_peers m)"

definition state_has_pending_request :: "string option \<Rightarrow> mgr \<Rightarrow> bool" where
  "state_has_pending_request pid m =
    (case state_get_peer pid m of None \<Rightarrow> False | Some i \<Rightarrow> is_pending (g_peers m ! i))"

definition state_get_friends :: "bool \<Rightarrow> int \<Rightarrow> mgr \<Rightarrow> int \<times> Peer list" where
  "state_get_friends out maxn m = copy_out out maxn (\<lambda>p. p_state p = PEER_FRIEND) (live_peers m)"

definition state_get_friend_count :: "mgr \<Rightarrow> int" where
  "state_get_friend_count m = count_if (\<lambda>p. p_state p = PEER_FRIEND) (live_peers m)"

section \<open>Ghost messages and chat messages\<close>

definition live_ghosts :: "mgr \<Rightarrow> GhostMessage list" where
  "live_ghosts m = take (g_ghost_count m) (g_ghost_messages m)"

text \<open>A message that waits for a peer.\<close>

definition ghost_for :: "string \<Rightarrow> GhostMessage \<Rightarrow> bool" where
  "ghost_for norm g \<longleftrightarrow> is_same_id (Some (gm_to_id g)) (Some norm) \<and> \<not> gm_delivered g"

text \<open>The loops that adjust the ghost count of the first peer with the id, if there is one.\<close>

definition bump_ghost_count :: "string \<Rightarrow> (int \<Rightarrow> int) \<Rightarrow> mgr \<Rightarrow> mgr" where
  "bump_ghost_count norm f m =
    (case peer_index m norm of
       None \<Rightarrow> m
     | Some i \<Rightarrow> set_peer i (\<lambda>p. p\<lparr>p_ghost_count := f (p_ghost_count p)\<rparr>) m)"

definition state_add_ghost_message ::
  "clock \<Rightarrow> int \<Rightarrow> string option \<Rightarrow> string option \<Rightarrow> mgr \<Rightarrow> (int \<times> mgr) option" where
  "state_add_ghost_message clk rnd to_id message m =
    (case (norm_arg to_id, message) of
       (Some norm, Some msg) \<Rightarrow>
         if MAX_GHOST_MESSAGES \<le> g_ghost_count m then Some (-1, m)
         else do {
           text \<leftarrow> strcpy_into 4096 msg;
           let gm = (g_ghost_messages m ! g_ghost_count m)
             \<lparr>gm_id := snprintf_into 64 (''ghost_'' @ dec_int (clk 0) @ ''_'' @ dec_int (rnd mod 10000)),
              gm_to_id := norm, gm_message := text, gm_timestamp := clk 1,
              gm_delivered := False, gm_delivered_at := 0, gm_retry_count := 0\<rparr>;
           let m1 = m\<lparr>g_ghost_messages := (g_ghost_messages m)[g_ghost_count m := gm],
                      g_ghost_count := g_ghost_count m + 1\<rparr>;
           Some (0, bump_ghost_count norm (\<lambda>c. c + 1) m1)
         }
     | _ \<Rightarrow> Some (-1, m))"

definition state_get_ghost_messages :: "string option \<Rightarrow> bool \<Rightarrow> int \<Rightarrow> mgr \<Rightarrow> int \<times> GhostMessage list" where
  "state_get_ghost_messages to_id out maxn m =
    (case norm_arg to_id of
       None \<Rightarrow> (0, [])
     | Some norm \<Rightarrow> copy_out out maxn (ghost_for norm) (live_ghosts m))"

text \<open>
  The delivery loop over the cells from \<open>i\<close> on, with \<open>k\<close> cells to go: mark each waiting
  message, and push an event for it (a full queue drops the event and not the mark).
\<close>

fun deliver_loop ::
  "clock \<Rightarrow> string \<Rightarrow> nat \<Rightarrow> nat \<Rightarrow> GhostMessage list \<Rightarrow> event_q
     \<Rightarrow> (int \<times> GhostMessage list \<times> event_q) option" where
  "deliver_loop clk norm i 0 gs q = Some (0, gs, q)"
| "deliver_loop clk norm i (Suc k) gs q =
    (if ghost_for norm (gs ! i) then do {
       let g = (gs ! i)\<lparr>gm_delivered := True, gm_delivered_at := clk (2 * i)\<rparr>;
       let event = event_create (\<lambda>_. clk (2 * i + 1)) EVENT_GHOST_DELIVERED (Some norm);
       from_id \<leftarrow> strcpy_into 64 (gm_from_id g);
       msg \<leftarrow> strcpy_into 4096 (gm_message g);
       let q' = snd (event_queue_push (Some (event\<lparr>ev_from_id := from_id, ev_message := msg\<rparr>)) q);
       (d, gs', q'') \<leftarrow> deliver_loop clk norm (i + 1) k (gs[i := g]) q';
       Some (d + 1, gs', q'')
     }
     else deliver_loop clk norm (i + 1) k gs q)"

definition state_deliver_ghost_messages ::
  "clock \<Rightarrow> string option \<Rightarrow> event_q \<Rightarrow> mgr \<Rightarrow> (int \<times> event_q \<times> mgr) option" where
  "state_deliver_ghost_messages clk to_id q m =
    (case norm_arg to_id of
       None \<Rightarrow> Some (0, q, m)
     | Some norm \<Rightarrow> do {
         (delivered, gs, q') \<leftarrow> deliver_loop clk norm 0 (g_ghost_count m) (g_ghost_messages m) q;
         let m1 = m\<lparr>g_ghost_messages := gs\<rparr>;
         Some (delivered, q', bump_ghost_count norm (\<lambda>c. if c - delivered < 0 then 0 else c - delivered) m1)
       })"

definition state_get_ghost_count :: "string option \<Rightarrow> mgr \<Rightarrow> int" where
  "state_get_ghost_count to_id m =
    (case norm_arg to_id of None \<Rightarrow> 0 | Some norm \<Rightarrow> count_if (ghost_for norm) (live_ghosts m))"

definition state_has_ghost_messages :: "string option \<Rightarrow> mgr \<Rightarrow> bool" where
  "state_has_ghost_messages to_id m \<longleftrightarrow> state_get_ghost_count to_id m > 0"

definition state_add_message :: "string option \<Rightarrow> string option \<Rightarrow> mgr \<Rightarrow> int \<times> mgr" where
  "state_add_message from_id message m =
    (case (from_id, message) of
       (Some f, Some msg) \<Rightarrow>
         if MAX_MESSAGES \<le> g_message_count m then (-1, m)
         else (0, m\<lparr>g_messages := (g_messages m)[g_message_count m :=
                       snprintf_into 4096 (f @ ''|'' @ msg)],
                    g_message_count := g_message_count m + 1\<rparr>)
     | _ \<Rightarrow> (-1, m))"

definition state_get_messages :: "mgr \<Rightarrow> int" where
  "state_get_messages m = 0"

definition state_clear_messages :: "mgr \<Rightarrow> int \<times> mgr" where
  "state_clear_messages m = (0, m)"

end
