(* ===== verification/State_Directory.thy ===== *)
theory State_Directory
  imports State_Manager
begin

text \<open>
  The peer table of \<^verbatim>\<open>state_manager.c\<close> as a directory: the invariants of the arrays,
  and the refinement of add, update, remove and the field setters to updates of a map from
  normalised ids to peers.  The locale \<open>peer_directory\<close> is the interface the event handlers
  use.
\<close>

section \<open>Invariants\<close>

definition wf_mgr :: "mgr \<Rightarrow> bool" where
  "wf_mgr m \<longleftrightarrow> length (g_peers m) = MAX_PEERS \<and> g_peer_count m \<le> MAX_PEERS
     \<and> length (g_ghost_messages m) = MAX_GHOST_MESSAGES \<and> g_ghost_count m \<le> MAX_GHOST_MESSAGES
     \<and> length (g_messages m) = MAX_MESSAGES \<and> g_message_count m \<le> MAX_MESSAGES"

text \<open>The ids in use are normalised, not empty and pairwise different.\<close>

definition ids_ok :: "mgr \<Rightarrow> bool" where
  "ids_ok m \<longleftrightarrow> distinct (map p_id (live_peers m))
     \<and> (\<forall>p \<in> set (live_peers m). norm_arg (Some (p_id p)) = Some (p_id p))"

definition mgr_ok :: "mgr \<Rightarrow> bool" where
  "mgr_ok m \<longleftrightarrow> wf_mgr m \<and> ids_ok m"

definition directory :: "mgr \<Rightarrow> string \<Rightarrow> Peer option" where
  "directory m k = map_option ((!) (live_peers m)) (find_index (\<lambda>p. p_id p = k) (live_peers m))"

lemma zero_mgr_ok: "mgr_ok zero_mgr"
  by (simp add: mgr_ok_def wf_mgr_def ids_ok_def live_peers_def zero_mgr_def)

lemma length_live_peers: "wf_mgr m \<Longrightarrow> length (live_peers m) = g_peer_count m"
  by (simp add: live_peers_def wf_mgr_def)

lemma live_peers_nth: "wf_mgr m \<Longrightarrow> i < g_peer_count m \<Longrightarrow> live_peers m ! i = g_peers m ! i"
  by (simp add: live_peers_def)

lemma norm_arg_iff: "norm_arg (Some k) = Some k \<longleftrightarrow> k \<noteq> [] \<and> normalize_id 64 k = k"
  by (auto simp: norm_arg_def Let_def split: if_splits)

lemma ids_ok_normalized: "ids_ok m \<Longrightarrow> p \<in> set (live_peers m) \<Longrightarrow> normalize_id 64 (p_id p) = p_id p"
  by (auto simp: ids_ok_def norm_arg_iff)

lemma ids_ok_inj:
  assumes "ids_ok m" and "p \<in> set (live_peers m)" and "q \<in> set (live_peers m)" and "p_id p = p_id q"
  shows "p = q"
  using assms by (auto simp: ids_ok_def distinct_map inj_on_def)

lemma ids_ok_distinct: "ids_ok m \<Longrightarrow> distinct (live_peers m)"
  by (simp add: ids_ok_def distinct_map)

lemma peer_index_find:
  assumes "ids_ok m" and "norm_arg a = Some n"
  shows "peer_index m n = find_index (\<lambda>p. p_id p = n) (live_peers m)"
  unfolding peer_index_def
  by (rule find_index_cong) (use assms ids_ok_normalized norm_arg_SomeD in auto)

lemma directory_Some_iff:
  assumes "ids_ok m"
  shows "directory m k = Some p \<longleftrightarrow> p \<in> set (live_peers m) \<and> p_id p = k"
proof
  assume "directory m k = Some p"
  then show "p \<in> set (live_peers m) \<and> p_id p = k"
    by (auto simp: directory_def dest!: find_index_SomeD)
next
  assume r: "p \<in> set (live_peers m) \<and> p_id p = k"
  then obtain i where i: "find_index (\<lambda>p. p_id p = k) (live_peers m) = Some i"
    by (cases "find_index (\<lambda>p. p_id p = k) (live_peers m)") (auto simp: find_index_None)
  from find_index_SomeD [OF i] have "live_peers m ! i \<in> set (live_peers m)" "p_id (live_peers m ! i) = k"
    by auto
  with ids_ok_inj [OF assms] r have "live_peers m ! i = p" by blast
  with i show "directory m k = Some p" by (simp add: directory_def)
qed

lemma directory_None_iff:
  assumes "ids_ok m"
  shows "directory m k = None \<longleftrightarrow> (\<forall>p \<in> set (live_peers m). p_id p \<noteq> k)"
  using directory_Some_iff [OF assms] by (metis not_None_eq)

lemma directory_eqI:
  assumes "ids_ok m" and "\<And>k p. M k = Some p \<longleftrightarrow> p \<in> set (live_peers m) \<and> p_id p = k"
  shows "directory m = M"
proof
  fix k
  show "directory m k = M k"
    using directory_Some_iff [OF assms(1), of k] assms(2) [of k] by (cases "M k") (auto, metis not_None_eq)
qed

text \<open>What a successful lookup says.\<close>

lemma peer_index_SomeD:
  assumes ok: "mgr_ok m" and n: "norm_arg a = Some n" and i: "peer_index m n = Some i"
  shows "i < g_peer_count m" and "p_id (g_peers m ! i) = n"
    and "directory m n = Some (g_peers m ! i)"
    and "live_peers m ! i = g_peers m ! i"
proof -
  have ids: "ids_ok m" and wf: "wf_mgr m" using ok by (simp_all add: mgr_ok_def)
  have f: "find_index (\<lambda>p. p_id p = n) (live_peers m) = Some i"
    using i peer_index_find [OF ids n] by simp
  from find_index_SomeD [OF f] show i: "i < g_peer_count m"
    using length_live_peers [OF wf] by simp
  then show l: "live_peers m ! i = g_peers m ! i" using wf by (rule live_peers_nth [rotated])
  from find_index_holds [OF f] l show "p_id (g_peers m ! i) = n" by simp
  from f l show "directory m n = Some (g_peers m ! i)" by (simp add: directory_def)
qed

lemma peer_index_None:
  assumes "mgr_ok m" and "norm_arg a = Some n"
  shows "peer_index m n = None \<longleftrightarrow> directory m n = None"
  using assms peer_index_find [of m a n] by (simp add: directory_def mgr_ok_def)

section \<open>Writing one cell\<close>

lemma live_peers_set_peer: "live_peers (set_peer i f m) = (live_peers m)[i := f (g_peers m ! i)]"
  by (simp add: live_peers_def set_peer_def take_update_swap)

lemma set_peer_fields [simp]:
  "g_peer_count (set_peer i f m) = g_peer_count m"
  "g_ghost_messages (set_peer i f m) = g_ghost_messages m"
  "g_ghost_count (set_peer i f m) = g_ghost_count m"
  "g_messages (set_peer i f m) = g_messages m"
  "g_message_count (set_peer i f m) = g_message_count m"
  "g_initialized (set_peer i f m) = g_initialized m"
  by (simp_all add: set_peer_def)

lemma set_peer_wf [orca_inv]: "wf_mgr m \<Longrightarrow> wf_mgr (set_peer i f m)"
  by (simp add: wf_mgr_def) (simp add: set_peer_def)

lemma map_id_update:
  "i < length xs \<Longrightarrow> p_id q = p_id (xs ! i) \<Longrightarrow> map p_id (xs[i := q]) = map p_id xs"
  by (metis list_update_id map_update nth_map)

lemma set_peer_ids_ok:
  assumes ok: "mgr_ok m" and i: "i < g_peer_count m" and f: "p_id (f (g_peers m ! i)) = p_id (g_peers m ! i)"
  shows "ids_ok (set_peer i f m)"
proof -
  have wf: "wf_mgr m" and ids: "ids_ok m" using ok by (simp_all add: mgr_ok_def)
  have "map p_id (live_peers (set_peer i f m)) = map p_id (live_peers m)"
    using i f live_peers_nth [OF wf i] length_live_peers [OF wf]
    by (simp add: live_peers_set_peer map_id_update)
  then have m: "map p_id (live_peers (set_peer i f m)) = map p_id (live_peers m)" .
  then have "p_id ` set (live_peers (set_peer i f m)) = p_id ` set (live_peers m)"
    by (metis set_map)
  with ids m show ?thesis unfolding ids_ok_def by (metis (no_types, lifting) image_iff)
qed

lemma set_peer_ok:
  "mgr_ok m \<Longrightarrow> i < g_peer_count m \<Longrightarrow> p_id (f (g_peers m ! i)) = p_id (g_peers m ! i) \<Longrightarrow>
   mgr_ok (set_peer i f m)"
  by (simp add: mgr_ok_def set_peer_wf set_peer_ids_ok [unfolded mgr_ok_def])

lemma set_update_distinct:
  assumes "distinct xs" and "i < length xs"
  shows "set (xs[i := y]) = insert y (set xs - {xs ! i})"
  using assms by (simp add: set_update_distinct)

lemma directory_set_peer:
  assumes ok: "mgr_ok m" and i: "i < g_peer_count m"
    and f: "p_id (f (g_peers m ! i)) = p_id (g_peers m ! i)"
  shows "directory (set_peer i f m) = (directory m)(p_id (g_peers m ! i) \<mapsto> f (g_peers m ! i))"
proof (rule directory_eqI)
  have wf: "wf_mgr m" and ids: "ids_ok m" using ok by (simp_all add: mgr_ok_def)
  show "ids_ok (set_peer i f m)" using assms by (rule set_peer_ids_ok)
  have l: "live_peers m ! i = g_peers m ! i" using live_peers_nth [OF wf i] .
  have mem: "g_peers m ! i \<in> set (live_peers m)"
    using l i length_live_peers [OF wf] nth_mem [of i "live_peers m"] by simp
  have s: "set (live_peers (set_peer i f m))
      = insert (f (g_peers m ! i)) (set (live_peers m) - {g_peers m ! i})"
    using set_update_distinct [OF ids_ok_distinct [OF ids], of i] i l length_live_peers [OF wf]
    by (simp add: live_peers_set_peer)
  fix k p
  show "((directory m)(p_id (g_peers m ! i) \<mapsto> f (g_peers m ! i))) k = Some p
      \<longleftrightarrow> p \<in> set (live_peers (set_peer i f m)) \<and> p_id p = k"
    using directory_Some_iff [OF ids, of k p] ids_ok_inj [OF ids _ mem] f unfolding s by auto
qed

section \<open>The operations on the directory\<close>

lemma state_get_peer_directory:
  assumes "mgr_ok m" and "norm_arg a = Some n"
  shows "map_option ((!) (g_peers m)) (state_get_peer a m) = directory m n"
proof (cases "peer_index m n")
  case None
  with peer_index_None [OF assms] assms(2) show ?thesis by (simp add: state_get_peer_def)
next
  case (Some i)
  with peer_index_SomeD(3) [OF assms Some] assms(2) show ?thesis by (simp add: state_get_peer_def)
qed

text \<open>A setter changes the record of its peer and nothing else; without the peer it fails.\<close>

lemma with_peer_spec:
  assumes ok: "mgr_ok m" and n: "norm_arg a = Some n" and f: "\<And>p. p_id (f p) = p_id p"
  shows "fst (with_peer a f m) = (if directory m n = None then -1 else 0)"
    and "directory (snd (with_peer a f m)) = (directory m)(n := map_option f (directory m n))"
    and "mgr_ok (snd (with_peer a f m))"
proof -
  have "fst (with_peer a f m) = (if directory m n = None then -1 else 0)
    \<and> directory (snd (with_peer a f m)) = (directory m)(n := map_option f (directory m n))
    \<and> mgr_ok (snd (with_peer a f m))"
  proof (cases "peer_index m n")
    case None
    then have "directory m n = None" using peer_index_None [OF ok n] by simp
    with None ok n show ?thesis by (auto simp: with_peer_def state_get_peer_def)
  next
    case (Some i)
    note s = peer_index_SomeD [OF ok n Some]
    from Some n have "with_peer a f m = (0, set_peer i f m)"
      by (simp add: with_peer_def state_get_peer_def)
    with s directory_set_peer [where f = f, OF ok s(1) f] set_peer_ok [where f = f, OF ok s(1) f] show ?thesis by simp
  qed
  then show "fst (with_peer a f m) = (if directory m n = None then -1 else 0)"
    and "directory (snd (with_peer a f m)) = (directory m)(n := map_option f (directory m n))"
    and "mgr_ok (snd (with_peer a f m))" by blast+
qed

lemma with_peer_bad_id: "norm_arg a = None \<Longrightarrow> with_peer a f m = (-1, m)"
  by (simp add: with_peer_def state_get_peer_def)

lemma with_peer_ok [orca_inv]:
  "mgr_ok m \<Longrightarrow> (\<And>p. p_id (f p) = p_id p) \<Longrightarrow> mgr_ok (snd (with_peer a f m))"
  by (cases "norm_arg a") (auto simp: with_peer_bad_id with_peer_spec)

lemma with_peer_string_fits:
  assumes "length s < cap"
  shows "with_peer_string cap f (Some a) (Some s) m = Some (with_peer (Some a) (f s) m)"
  using assms by (simp add: with_peer_string_def with_peer_def strcpy_into_fits split: option.splits)

text \<open>\<open>state_update_peer\<close> is such a setter.\<close>

definition update_record :: "clock \<Rightarrow> PeerState \<Rightarrow> Peer \<Rightarrow> Peer" where
  "update_record clk st p =
    (let p' = p\<lparr>p_state := st, p_last_seen := clk 0\<rparr>
     in if st = PEER_FRIEND then p'\<lparr>p_friend_since := clk 1\<rparr> else p')"

lemma update_record_id [simp]: "p_id (update_record clk st p) = p_id p"
  by (simp add: update_record_def Let_def)

lemma state_update_peer_with_peer: "state_update_peer clk a st m = with_peer a (update_record clk st) m"
  by (auto simp: state_update_peer_def with_peer_def state_get_peer_def update_record_def [abs_def] Let_def
      split: option.splits)

text \<open>Adding a peer: the cell after the last one in use, of which some fields keep old values.\<close>

definition fresh_record :: "clock \<Rightarrow> string \<Rightarrow> Peer \<Rightarrow> Peer" where
  "fresh_record clk n p = p\<lparr>p_id := n, p_state := PEER_UNKNOWN, p_online := False, p_busy := False,
     p_is_secure := False, p_port := 0, p_created_at := clk 0, p_last_seen := clk 1,
     p_pending_messages := 0, p_ghost_count := 0, p_ip := [], p_public_key := [], p_name := []\<rparr>"

lemma fresh_record_id [simp]: "p_id (fresh_record clk n p) = n"
  by (simp add: fresh_record_def)

definition added :: "clock \<Rightarrow> string \<Rightarrow> mgr \<Rightarrow> mgr" where
  "added clk n m =
    (set_peer (g_peer_count m) (fresh_record clk n) m)\<lparr>g_peer_count := g_peer_count m + 1\<rparr>"

lemma state_add_peer_cases:
  assumes "mgr_ok m" and "norm_arg a = Some n"
  shows "state_add_peer clk a m =
    (if directory m n \<noteq> None then (0, m)
     else if MAX_PEERS \<le> g_peer_count m then (-1, m)
     else (0, added clk n m))"
  using assms peer_index_None [OF assms]
  by (auto simp: state_add_peer_def added_def fresh_record_def [abs_def] split: option.splits)

lemma live_peers_added:
  assumes "wf_mgr m" and "g_peer_count m < MAX_PEERS"
  shows "live_peers (added clk n m) = live_peers m @ [fresh_record clk n (g_peers m ! g_peer_count m)]"
  using assms
  by (simp add: added_def live_peers_def set_peer_def wf_mgr_def take_Suc_conv_app_nth)

lemma added_spec:
  assumes ok: "mgr_ok m" and n: "norm_arg a = Some n" and new: "directory m n = None"
    and room: "g_peer_count m < MAX_PEERS"
  shows "mgr_ok (added clk n m)"
    and "directory (added clk n m) = (directory m)(n \<mapsto> fresh_record clk n (g_peers m ! g_peer_count m))"
proof -
  have wf: "wf_mgr m" and ids: "ids_ok m" using ok by (simp_all add: mgr_ok_def)
  have nn: "norm_arg (Some n) = Some n" using n by (rule norm_arg_norm)
  note live = live_peers_added [OF wf room, of clk n]
  have fresh: "\<forall>p \<in> set (live_peers m). p_id p \<noteq> n" using new directory_None_iff [OF ids] by blast
  have ids': "ids_ok (added clk n m)"
    using ids fresh nn unfolding ids_ok_def live by auto
  have "wf_mgr (added clk n m)"
    using wf room by (simp add: added_def wf_mgr_def set_peer_def)
  with ids' show "mgr_ok (added clk n m)" by (simp add: mgr_ok_def)
  show "directory (added clk n m) = (directory m)(n \<mapsto> fresh_record clk n (g_peers m ! g_peer_count m))"
  proof (rule directory_eqI [OF ids'])
    fix k p
    show "((directory m)(n \<mapsto> fresh_record clk n (g_peers m ! g_peer_count m))) k = Some p
        \<longleftrightarrow> p \<in> set (live_peers (added clk n m)) \<and> p_id p = k"
      using directory_Some_iff [OF ids, of k p] fresh unfolding live by auto
  qed
qed

lemma state_add_peer_ok [orca_inv]:
  assumes "mgr_ok m"
  shows "mgr_ok (snd (state_add_peer clk a m))"
proof (cases "norm_arg a")
  case None
  then show ?thesis using assms by (simp add: state_add_peer_def)
next
  case (Some n)
  with assms added_spec(1) [OF assms Some] show ?thesis
    by (simp add: state_add_peer_cases [OF assms Some])
qed

text \<open>Removing a peer: the loop moves the later cells down.\<close>

lemma length_shift_down [simp]: "length (shift_down j n xs) = length xs"
  by (induction j n xs rule: shift_down.induct) (subst shift_down.simps, simp)

lemma take_shift_down:
  "j < n \<Longrightarrow> n \<le> length xs \<Longrightarrow> take (n - 1) (shift_down j n xs) = remove_nth j (take n xs)"
proof (induction j n xs rule: shift_down.induct)
  case (1 j n xs)
  show ?case
  proof (cases "j < n - 1")
    case True
    let ?ys = "xs[j := xs ! (j + 1)]"
    from True "1.prems" have "take (n - 1) (shift_down (j + 1) n ?ys) = remove_nth (j + 1) (take n ?ys)"
      by (intro "1.IH") simp_all
    also have "\<dots> = remove_nth j (take n xs)"
    proof -
      have a: "take (j + 1) (take n ?ys) = take j (take n xs) @ [xs ! (j + 1)]"
        using True "1.prems" by (simp add: min_def take_Suc_conv_app_nth)
      have b: "drop (Suc (j + 1)) (take n ?ys) = drop (Suc (Suc j)) (take n xs)"
        using True "1.prems" by (simp add: drop_take)
      have c: "drop (Suc j) (take n xs) = xs ! (j + 1) # drop (Suc (Suc j)) (take n xs)"
        using True "1.prems" by (subst Cons_nth_drop_Suc [symmetric]) simp_all
      show ?thesis unfolding remove_nth_def a b c by simp
    qed
    finally show ?thesis using True by (subst shift_down.simps) simp
  next
    case False
    with "1.prems" have "n = Suc j" by simp
    with "1.prems" show ?thesis by (subst shift_down.simps) (simp add: remove_nth_def min_def)
  qed
qed

definition removed :: "nat \<Rightarrow> mgr \<Rightarrow> mgr" where
  "removed i m = m\<lparr>g_peers := shift_down i (g_peer_count m) (g_peers m), g_peer_count := g_peer_count m - 1\<rparr>"

lemma live_peers_removed:
  "wf_mgr m \<Longrightarrow> i < g_peer_count m \<Longrightarrow> live_peers (removed i m) = remove_nth i (live_peers m)"
  using take_shift_down [of i "g_peer_count m" "g_peers m"]
  by (simp add: live_peers_def removed_def wf_mgr_def)

lemma removed_spec:
  assumes ok: "mgr_ok m" and i: "i < g_peer_count m"
  shows "mgr_ok (removed i m)"
    and "directory (removed i m) = (directory m)(p_id (g_peers m ! i) := None)"
proof -
  have wf: "wf_mgr m" and ids: "ids_ok m" using ok by (simp_all add: mgr_ok_def)
  note live = live_peers_removed [OF wf i]
  have l: "live_peers m ! i = g_peers m ! i" and len: "i < length (live_peers m)"
    using live_peers_nth [OF wf i] length_live_peers [OF wf] i by simp_all
  have s: "set (live_peers (removed i m)) = set (live_peers m) - {g_peers m ! i}"
    using set_remove_nth_distinct [OF ids_ok_distinct [OF ids] len] l live by simp
  have mem: "g_peers m ! i \<in> set (live_peers m)" using l len nth_mem by fastforce
  have "map p_id (live_peers (removed i m)) = remove_nth i (map p_id (live_peers m))"
    by (simp add: live remove_nth_map)
  with ids s have ids': "ids_ok (removed i m)"
    by (simp add: ids_ok_def distinct_remove_nth)
  have "wf_mgr (removed i m)" using wf by (auto simp: wf_mgr_def removed_def)
  with ids' show "mgr_ok (removed i m)" by (simp add: mgr_ok_def)
  show "directory (removed i m) = (directory m)(p_id (g_peers m ! i) := None)"
  proof (rule directory_eqI [OF ids'])
    fix k p
    show "((directory m)(p_id (g_peers m ! i) := None)) k = Some p
        \<longleftrightarrow> p \<in> set (live_peers (removed i m)) \<and> p_id p = k"
      using directory_Some_iff [OF ids, of k p] ids_ok_inj [OF ids _ mem] unfolding s by auto
  qed
qed

lemma state_remove_peer_spec:
  assumes ok: "mgr_ok m" and n: "norm_arg a = Some n"
  shows "fst (state_remove_peer a m) = (if directory m n = None then -1 else 0)"
    and "directory (snd (state_remove_peer a m)) = (directory m)(n := None)"
    and "mgr_ok (snd (state_remove_peer a m))"
proof -
  have "fst (state_remove_peer a m) = (if directory m n = None then -1 else 0)
    \<and> directory (snd (state_remove_peer a m)) = (directory m)(n := None)
    \<and> mgr_ok (snd (state_remove_peer a m))"
  proof (cases "peer_index m n")
    case None
    then have "directory m n = None" using peer_index_None [OF ok n] by simp
    with None ok n show ?thesis by (auto simp: state_remove_peer_def)
  next
    case (Some i)
    note s = peer_index_SomeD [OF ok n Some]
    from Some n have "state_remove_peer a m = (0, removed i m)"
      by (simp add: state_remove_peer_def removed_def)
    with s removed_spec [OF ok s(1)] show ?thesis by simp
  qed
  then show "fst (state_remove_peer a m) = (if directory m n = None then -1 else 0)"
    and "directory (snd (state_remove_peer a m)) = (directory m)(n := None)"
    and "mgr_ok (snd (state_remove_peer a m))" by blast+
qed

lemma state_remove_peer_ok [orca_inv]: "mgr_ok m \<Longrightarrow> mgr_ok (snd (state_remove_peer a m))"
proof (cases "norm_arg a")
  case None
  then show "mgr_ok m \<Longrightarrow> ?thesis" by (simp add: state_remove_peer_def)
qed (simp add: state_remove_peer_spec)

section \<open>The interface\<close>

text \<open>
  A store of records under normalised keys: what \<open>modify\<close> (the setters) and \<open>remove\<close>
  promise, and what a client that runs several setters on one key may conclude.
\<close>

locale peer_store =
  fixes lookup :: "'m \<Rightarrow> 'k \<Rightarrow> 'p option"
    and key :: "'a \<Rightarrow> 'k option"
    and keeps_key :: "('p \<Rightarrow> 'p) \<Rightarrow> bool"
    and modify :: "'a \<Rightarrow> ('p \<Rightarrow> 'p) \<Rightarrow> 'm \<Rightarrow> int \<times> 'm"
    and remove :: "'a \<Rightarrow> 'm \<Rightarrow> int \<times> 'm"
    and invar :: "'m \<Rightarrow> bool"
  assumes modify_lookup: "invar m \<Longrightarrow> key a = Some n \<Longrightarrow> keeps_key f \<Longrightarrow>
      lookup (snd (modify a f m)) = (lookup m)(n := map_option f (lookup m n))"
    and modify_rc: "invar m \<Longrightarrow> key a = Some n \<Longrightarrow> keeps_key f \<Longrightarrow>
      fst (modify a f m) = (if lookup m n = None then -1 else 0)"
    and modify_bad_key: "key a = None \<Longrightarrow> modify a f m = (-1, m)"
    and modify_invar: "invar m \<Longrightarrow> keeps_key f \<Longrightarrow> invar (snd (modify a f m))"
    and remove_lookup: "invar m \<Longrightarrow> key a = Some n \<Longrightarrow> lookup (snd (remove a m)) = (lookup m)(n := None)"
    and remove_rc: "invar m \<Longrightarrow> key a = Some n \<Longrightarrow>
      fst (remove a m) = (if lookup m n = None then -1 else 0)"
    and remove_invar: "invar m \<Longrightarrow> invar (snd (remove a m))"
begin

lemma modify_frame:
  "invar m \<Longrightarrow> key a = Some n \<Longrightarrow> keeps_key f \<Longrightarrow> k \<noteq> n \<Longrightarrow> lookup (snd (modify a f m)) k = lookup m k"
  by (simp add: modify_lookup)

lemma modify_absent:
  "invar m \<Longrightarrow> key a = Some n \<Longrightarrow> keeps_key f \<Longrightarrow> lookup m n = None \<Longrightarrow> lookup (snd (modify a f m)) = lookup m"
  by (simp add: modify_lookup fun_upd_idem)

lemma modify_seq:
  assumes "key a = Some n" and "\<forall>f \<in> set fs. keeps_key f"
  shows "invar m \<Longrightarrow> invar (fold (\<lambda>f m. snd (modify a f m)) fs m)
     \<and> lookup (fold (\<lambda>f m. snd (modify a f m)) fs m)
       = (lookup m)(n := map_option (fold (\<lambda>f. f) fs) (lookup m n))"
  using assms(2)
proof (induction fs arbitrary: m)
  case Nil
  then show ?case by (simp add: option.map_ident fun_upd_idem)
next
  case (Cons f fs)
  let ?m = "snd (modify a f m)"
  have inv: "invar ?m" using Cons.prems by (simp add: modify_invar)
  have "invar (fold (\<lambda>f m. snd (modify a f m)) fs ?m)"
    and "lookup (fold (\<lambda>f m. snd (modify a f m)) fs ?m)
      = (lookup ?m)(n := map_option (fold (\<lambda>f. f) fs) (lookup ?m n))"
    using Cons.IH [OF inv] Cons.prems by auto
  then show ?case
    using modify_lookup [OF Cons.prems(1) assms(1), of f] Cons.prems(2)
    by (simp add: option.map_comp comp_def)
qed

lemma remove_then_modify:
  assumes "invar m" and "key a = Some n" and "keeps_key f"
  shows "fst (modify a f (snd (remove a m))) = -1"
    and "lookup (snd (modify a f (snd (remove a m)))) n = None"
  using assms remove_invar [OF assms(1), of a] remove_lookup [OF assms(1,2)]
  by (simp_all add: modify_rc modify_lookup)

lemma remove_twice:
  assumes "invar m" and "key a = Some n"
  shows "fst (remove a (snd (remove a m))) = -1"
  using assms remove_invar [OF assms(1), of a] remove_lookup [OF assms(1,2)]
  by (simp add: remove_rc)

end

definition keeps_id :: "(Peer \<Rightarrow> Peer) \<Rightarrow> bool" where
  "keeps_id f \<longleftrightarrow> (\<forall>p. p_id (f p) = p_id p)"

lemma keeps_idI [intro]: "(\<And>p. p_id (f p) = p_id p) \<Longrightarrow> keeps_id f"
  by (simp add: keeps_id_def)

interpretation peers: peer_store directory norm_arg keeps_id with_peer state_remove_peer mgr_ok
  by unfold_locales
    (simp_all add: keeps_id_def with_peer_spec with_peer_ok with_peer_bad_id
      state_remove_peer_spec state_remove_peer_ok)

lemmas peer_store_specs = peers.modify_lookup peers.modify_rc peers.remove_lookup peers.remove_rc

section \<open>The setters keep the invariant\<close>

lemma setters_ok [orca_inv]:
  assumes "mgr_ok m"
  shows "mgr_ok (snd (state_update_peer clk a st m))" "mgr_ok (snd (state_set_online clk a b m))"
    "mgr_ok (snd (state_set_busy a b m))" "mgr_ok (snd (state_set_port a p m))"
    "mgr_ok (snd (state_set_secure a b m))" "mgr_ok (snd (state_update_last_seen clk a m))"
  using assms
  by (simp_all add: state_update_peer_with_peer state_set_online_def state_set_busy_def
      state_set_port_def state_set_secure_def state_update_last_seen_def with_peer_ok)

lemma with_peer_string_ok:
  assumes "mgr_ok m" and "\<And>s p. p_id (f s p) = p_id p" and "with_peer_string cap f a s m = Some (rc, m')"
  shows "mgr_ok m'"
proof (cases a; cases s)
  fix i str
  assume as: "a = Some i" "s = Some str"
  show ?thesis
  proof (cases "length str < cap")
    case True
    then have "m' = snd (with_peer (Some i) (f str) m)"
      using assms(3) as by (simp add: with_peer_string_fits)
    then show ?thesis using with_peer_ok [OF assms(1), of "f str"] assms(2) by simp
  next
    case False
    then show ?thesis using assms(1,3) as by (auto simp: with_peer_string_def split: option.splits Option.bind_splits)
  qed
qed (use assms in \<open>auto simp: with_peer_string_def\<close>)

end
