(* ===== verification/State_Ghosts.thy ===== *)
theory State_Ghosts
  imports State_Directory
begin

text \<open>
  The ghost messages of \<^verbatim>\<open>state_manager.c\<close>: messages kept for a peer that cannot be
  reached.  Delivery marks every waiting message of the peer, once, pushes one event for each
  as far as the queue has room, and never writes past a buffer.
\<close>

section \<open>Messages fit their buffers\<close>

definition ghost_fits :: "GhostMessage \<Rightarrow> bool" where
  "ghost_fits g \<longleftrightarrow> length (gm_from_id g) < 64 \<and> length (gm_to_id g) < 64 \<and> length (gm_message g) < 4096"

definition ghosts_ok :: "mgr \<Rightarrow> bool" where
  "ghosts_ok m \<longleftrightarrow> (\<forall>g \<in> set (g_ghost_messages m). ghost_fits g)"

lemma zero_mgr_ghosts_ok: "ghosts_ok zero_mgr"
  by (simp add: ghosts_ok_def zero_mgr_def zero_ghost_def ghost_fits_def)

lemma ghosts_ok_set_peer [simp]: "ghosts_ok (set_peer i f m) = ghosts_ok m"
  by (simp add: ghosts_ok_def)

lemma bump_fields [simp]:
  "g_ghost_messages (bump_ghost_count n f m) = g_ghost_messages m"
  "g_ghost_count (bump_ghost_count n f m) = g_ghost_count m"
  by (simp_all add: bump_ghost_count_def split: option.splits)

lemma live_ghosts_bump [simp]: "live_ghosts (bump_ghost_count n f m) = live_ghosts m"
  by (simp add: live_ghosts_def)

lemma bump_with_peer:
  "norm_arg a = Some n \<Longrightarrow>
   bump_ghost_count n f m = snd (with_peer a (\<lambda>p. p\<lparr>p_ghost_count := f (p_ghost_count p)\<rparr>) m)"
  by (simp add: bump_ghost_count_def with_peer_def state_get_peer_def split: option.splits)

section \<open>Adding\<close>

definition new_ghost :: "clock \<Rightarrow> int \<Rightarrow> string \<Rightarrow> string \<Rightarrow> GhostMessage \<Rightarrow> GhostMessage" where
  "new_ghost clk rnd norm text g = g\<lparr>gm_id := snprintf_into 64 (''ghost_'' @ dec_int (clk 0) @ ''_'' @ dec_int (rnd mod 10000)),
     gm_to_id := norm, gm_message := text, gm_timestamp := clk 1,
     gm_delivered := False, gm_delivered_at := 0, gm_retry_count := 0\<rparr>"

definition stored :: "clock \<Rightarrow> int \<Rightarrow> string \<Rightarrow> string \<Rightarrow> mgr \<Rightarrow> mgr" where
  "stored clk rnd norm text m =
    m\<lparr>g_ghost_messages := (g_ghost_messages m)[g_ghost_count m :=
        new_ghost clk rnd norm text (g_ghost_messages m ! g_ghost_count m)],
      g_ghost_count := g_ghost_count m + 1\<rparr>"

lemma state_add_ghost_message_cases:
  assumes "norm_arg a = Some n"
  shows "state_add_ghost_message clk rnd a (Some msg) m =
    (if MAX_GHOST_MESSAGES \<le> g_ghost_count m then Some (-1, m)
     else if 4096 \<le> length msg then None
     else Some (0, bump_ghost_count n (\<lambda>c. c + 1) (stored clk rnd n msg m)))"
  using assms
  by (auto simp: state_add_ghost_message_def stored_def new_ghost_def Let_def split: Option.bind_splits)

lemma stored_mgr_ok: "mgr_ok m \<Longrightarrow> g_ghost_count m < MAX_GHOST_MESSAGES \<Longrightarrow> mgr_ok (stored clk rnd n t m)"
  by (simp add: mgr_ok_def wf_mgr_def ids_ok_def live_peers_def stored_def)

lemma live_ghosts_stored:
  "wf_mgr m \<Longrightarrow> g_ghost_count m < MAX_GHOST_MESSAGES \<Longrightarrow>
   live_ghosts (stored clk rnd n t m)
     = live_ghosts m @ [new_ghost clk rnd n t (g_ghost_messages m ! g_ghost_count m)]"
  by (simp add: live_ghosts_def stored_def wf_mgr_def take_Suc_conv_app_nth)

lemma ghosts_ok_stored:
  assumes ok: "ghosts_ok m" and wf: "wf_mgr m" and room: "g_ghost_count m < MAX_GHOST_MESSAGES"
    and n: "length n < 64" and t: "length t < 4096"
  shows "ghosts_ok (stored clk rnd n t m)"
proof -
  have "g_ghost_messages m ! g_ghost_count m \<in> set (g_ghost_messages m)"
    using wf room by (simp add: wf_mgr_def)
  with ok have "ghost_fits (g_ghost_messages m ! g_ghost_count m)" by (simp add: ghosts_ok_def)
  then have "ghost_fits (new_ghost clk rnd n t (g_ghost_messages m ! g_ghost_count m))"
    using n t by (simp add: ghost_fits_def new_ghost_def)
  with ok show ?thesis
    using set_update_subset_insert [of "g_ghost_messages m" "g_ghost_count m"]
    by (auto simp: ghosts_ok_def stored_def)
qed

section \<open>Delivering\<close>

definition mark :: "clock \<Rightarrow> string \<Rightarrow> nat \<Rightarrow> GhostMessage \<Rightarrow> GhostMessage" where
  "mark clk norm i g =
    (if ghost_for norm g then g\<lparr>gm_delivered := True, gm_delivered_at := clk (2 * i)\<rparr> else g)"

definition ghost_event :: "clock \<Rightarrow> string \<Rightarrow> nat \<Rightarrow> GhostMessage \<Rightarrow> Event" where
  "ghost_event clk norm i g =
    (event_create (\<lambda>_. clk (2 * i + 1)) EVENT_GHOST_DELIVERED (Some norm))
      \<lparr>ev_from_id := gm_from_id g, ev_message := gm_message g\<rparr>"

definition ghost_events :: "clock \<Rightarrow> string \<Rightarrow> GhostMessage list \<Rightarrow> nat \<Rightarrow> nat \<Rightarrow> Event list" where
  "ghost_events clk norm gs i k =
    map (\<lambda>j. ghost_event clk norm j (gs ! j)) (filter (\<lambda>j. ghost_for norm (gs ! j)) [i..<i + k])"

lemma ghost_for_mark: "\<not> ghost_for norm (mark clk norm i g)"
  by (simp add: mark_def ghost_for_def)

lemma mark_fits: "ghost_fits (mark clk norm i g) = ghost_fits g"
  by (simp add: mark_def ghost_fits_def)

lemma mark_other:
  assumes "normalize_id 64 n' \<noteq> normalize_id 64 norm"
  shows "ghost_for n' (mark clk norm i g) = ghost_for n' g"
  using assms by (auto simp: mark_def ghost_for_def)

text \<open>The range of cells from \<open>i\<close> on, \<open>k\<close> of them, after the loop.\<close>

definition mark_range :: "clock \<Rightarrow> string \<Rightarrow> nat \<Rightarrow> nat \<Rightarrow> GhostMessage list \<Rightarrow> GhostMessage list" where
  "mark_range clk norm i k gs =
    map (\<lambda>j. if i \<le> j \<and> j < i + k then mark clk norm j (gs ! j) else gs ! j) [0..<length gs]"

lemma length_mark_range [simp]: "length (mark_range clk norm i k gs) = length gs"
  by (simp add: mark_range_def)

lemma mark_range_nth:
  "j < length gs \<Longrightarrow>
   mark_range clk norm i k gs ! j = (if i \<le> j \<and> j < i + k then mark clk norm j (gs ! j) else gs ! j)"
  by (simp add: mark_range_def)

lemma mark_range_Suc:
  assumes "i < length gs"
  shows "mark_range clk norm (Suc i) k (gs[i := mark clk norm i (gs ! i)]) = mark_range clk norm i (Suc k) gs"
  using assms by (intro nth_equalityI) (auto simp: mark_range_nth nth_list_update)

lemma mark_range_Suc_skip:
  assumes "i < length gs" and "\<not> ghost_for norm (gs ! i)"
  shows "mark_range clk norm (Suc i) k gs = mark_range clk norm i (Suc k) gs"
proof -
  have "gs[i := mark clk norm i (gs ! i)] = gs" using assms(2) by (simp add: mark_def)
  with mark_range_Suc [OF assms(1), of clk norm k] show ?thesis by simp
qed

lemma ghost_events_Suc:
  "ghost_events clk norm gs i (Suc k) =
    (if ghost_for norm (gs ! i) then [ghost_event clk norm i (gs ! i)] else [])
      @ ghost_events clk norm gs (Suc i) k"
  by (simp add: ghost_events_def upt_conv_Cons del: upt_Suc)

lemma ghost_events_update:
  "j < i \<Longrightarrow> ghost_events clk norm (gs[j := g]) i k = ghost_events clk norm gs i k"
  unfolding ghost_events_def
  by (rule map_cong) (auto intro!: filter_cong)

lemma ghost_event_mark: "ghost_event clk norm i (g\<lparr>gm_delivered := b, gm_delivered_at := t\<rparr>) = ghost_event clk norm i g"
  by (simp add: ghost_event_def)

text \<open>What the loop does, as one equation.\<close>

lemma deliver_loop_eq:
  "i + k \<le> length gs \<Longrightarrow> \<forall>g \<in> set gs. ghost_fits g \<Longrightarrow>
   deliver_loop clk norm i k gs q = Some (int (length (ghost_events clk norm gs i k)),
     mark_range clk norm i k gs,
     push_all (\<lambda>e. event_queue_push (Some e)) (ghost_events clk norm gs i k) q)"
proof (induction k arbitrary: i gs q)
  case 0
  have "mark_range clk norm i 0 gs = gs" by (intro nth_equalityI) (auto simp: mark_range_nth)
  then show ?case by (simp add: ghost_events_def push_all_def)
next
  case (Suc k)
  then have i: "i < length gs" and fits: "ghost_fits (gs ! i)" by auto
  show ?case
  proof (cases "ghost_for norm (gs ! i)")
    case False
    with Suc.IH [of "Suc i" gs q] Suc.prems show ?thesis
      by (simp add: mark_range_Suc_skip [OF i False] ghost_events_Suc)
  next
    case True
    let ?g = "(gs ! i)\<lparr>gm_delivered := True, gm_delivered_at := clk (2 * i)\<rparr>"
    let ?e = "ghost_event clk norm i (gs ! i)"
    have m: "mark clk norm i (gs ! i) = ?g" using True by (simp add: mark_def)
    have "\<forall>g \<in> set (gs[i := ?g]). ghost_fits g"
      using Suc.prems(2) fits set_update_subset_insert [of gs i ?g]
      by (auto simp: ghost_fits_def)
    with Suc.prems(1) have IH: "deliver_loop clk norm (Suc i) k (gs[i := ?g]) (snd (event_queue_push (Some ?e) q))
      = Some (int (length (ghost_events clk norm gs (Suc i) k)), mark_range clk norm i (Suc k) gs,
          push_all (\<lambda>e. event_queue_push (Some e)) (ghost_events clk norm gs (Suc i) k)
            (snd (event_queue_push (Some ?e) q)))"
      using mark_range_Suc [OF i, of clk norm k]
      by (subst Suc.IH) (simp_all add: ghost_events_update m)
    show ?thesis
      using True fits IH
      by (simp add: ghost_events_Suc push_all_def ghost_fits_def strcpy_into_fits Let_def ghost_event_def)
  qed
qed

text \<open>The waiting messages of a peer, in the order they were added.\<close>

definition waiting :: "string \<Rightarrow> mgr \<Rightarrow> GhostMessage list" where
  "waiting norm m = filter (ghost_for norm) (live_ghosts m)"

definition delivered_mgr :: "clock \<Rightarrow> string \<Rightarrow> mgr \<Rightarrow> mgr" where
  "delivered_mgr clk norm m =
    bump_ghost_count norm (\<lambda>c. if c - int (length (waiting norm m)) < 0 then 0 else c - int (length (waiting norm m)))
      (m\<lparr>g_ghost_messages := mark_range clk norm 0 (g_ghost_count m) (g_ghost_messages m)\<rparr>)"

lemma live_ghosts_map:
  "wf_mgr m \<Longrightarrow> live_ghosts m = map ((!) (g_ghost_messages m)) [0..<g_ghost_count m]"
  by (simp add: live_ghosts_def wf_mgr_def take_map_nth)

lemma length_ghost_events:
  assumes "wf_mgr m"
  shows "length (ghost_events clk norm (g_ghost_messages m) 0 (g_ghost_count m)) = length (waiting norm m)"
  using assms by (simp add: ghost_events_def waiting_def live_ghosts_map filter_map comp_def)

lemma state_deliver_eq:
  assumes wf: "wf_mgr m" and ok: "ghosts_ok m" and n: "norm_arg a = Some norm"
  shows "state_deliver_ghost_messages clk a q m = Some (int (length (waiting norm m)),
      push_all (\<lambda>e. event_queue_push (Some e))
        (ghost_events clk norm (g_ghost_messages m) 0 (g_ghost_count m)) q,
      delivered_mgr clk norm m)"
proof -
  have "0 + g_ghost_count m \<le> length (g_ghost_messages m)" using wf by (simp add: wf_mgr_def)
  then show ?thesis
    using ok n length_ghost_events [OF wf]
    by (simp add: state_deliver_ghost_messages_def deliver_loop_eq ghosts_ok_def delivered_mgr_def Let_def)
qed

lemma delivered_ghosts:
  assumes "wf_mgr m"
  shows "live_ghosts (delivered_mgr clk norm m)
    = map (\<lambda>j. mark clk norm j (g_ghost_messages m ! j)) [0..<g_ghost_count m]"
  using assms
  by (intro nth_equalityI)
    (auto simp: delivered_mgr_def live_ghosts_def mark_range_nth wf_mgr_def)

lemma waiting_delivered:
  assumes "wf_mgr m"
  shows "waiting norm (delivered_mgr clk norm m) = []"
  using delivered_ghosts [OF assms, of clk norm]
  by (auto simp: waiting_def filter_empty_conv ghost_for_mark)

lemma ghost_count_waiting:
  "norm_arg a = Some n \<Longrightarrow> state_get_ghost_count a m = int (length (waiting n m))"
  by (simp add: state_get_ghost_count_def waiting_def count_if_length)

lemma delivered_mgr_ok:
  assumes "mgr_ok m" and "norm_arg a = Some norm"
  shows "mgr_ok (delivered_mgr clk norm m)"
proof -
  let ?m = "m\<lparr>g_ghost_messages := mark_range clk norm 0 (g_ghost_count m) (g_ghost_messages m)\<rparr>"
  have "mgr_ok ?m" using assms(1) by (simp add: mgr_ok_def wf_mgr_def ids_ok_def live_peers_def)
  then show ?thesis
    unfolding delivered_mgr_def bump_with_peer [OF assms(2)] by (rule with_peer_ok) simp
qed

lemma delivered_ghosts_ok: "wf_mgr m \<Longrightarrow> ghosts_ok m \<Longrightarrow> ghosts_ok (delivered_mgr clk norm m)"
  by (auto simp: ghosts_ok_def delivered_mgr_def mark_range_def mark_fits wf_mgr_def)

lemma deliver_none_id: "norm_arg a = None \<Longrightarrow> state_deliver_ghost_messages clk a q m = Some (0, q, m)"
  by (simp add: state_deliver_ghost_messages_def)

end
