(* ===== verification/State_File.thy ===== *)
theory State_File
  imports State_Ghosts
begin

text \<open>
  \<open>state_save\<close>, \<open>state_load\<close> and \<open>state_init\<close> of \<^verbatim>\<open>state_manager.c\<close>, on the
  bytes of the state file.  Saving is a list of lines as \<open>fprintf\<close> writes them; loading
  reads the file with \<open>fgets\<close> and tries one \<open>sscanf\<close> per field on every line.  The
  round trip keeps every saved field but the two flags: the file spells them \<open>true\<close> and
  \<open>false\<close>, and the loader reads them with \<open>%d\<close>.
\<close>

section \<open>Writing\<close>

definition quoted :: "string \<Rightarrow> string" where
  "quoted s = CHR 0x22 # s @ [CHR 0x22]"

definition field_line :: "string \<Rightarrow> string \<Rightarrow> string" where
  "field_line k v = ''      '' @ quoted k @ '': '' @ v @ [CHR 0x0A]"

fun peer_state_code :: "PeerState \<Rightarrow> int" where
  "peer_state_code PEER_UNKNOWN = 0"
| "peer_state_code PEER_REQUEST_SENT = 1"
| "peer_state_code PEER_REQUEST_RECEIVED = 2"
| "peer_state_code PEER_FRIEND = 3"
| "peer_state_code PEER_ONLINE = 4"
| "peer_state_code PEER_OFFLINE = 5"
| "peer_state_code PEER_BUSY = 6"
| "peer_state_code PEER_GHOST = 7"
| "peer_state_code (PEER_STATE_OUT_OF_RANGE v) = v"

definition peer_state_of :: "int \<Rightarrow> PeerState" where
  "peer_state_of v =
    (if v = 0 then PEER_UNKNOWN else if v = 1 then PEER_REQUEST_SENT
     else if v = 2 then PEER_REQUEST_RECEIVED else if v = 3 then PEER_FRIEND
     else if v = 4 then PEER_ONLINE else if v = 5 then PEER_OFFLINE
     else if v = 6 then PEER_BUSY else if v = 7 then PEER_GHOST
     else PEER_STATE_OUT_OF_RANGE v)"

definition save_bool :: "bool \<Rightarrow> string" where
  "save_bool b = (if b then ''true'' else ''false'')"

definition save_peer_fields :: "Peer \<Rightarrow> string list" where
  "save_peer_fields p =
    [field_line ''id'' (quoted (p_id p) @ '',''),
     field_line ''state'' (dec_int (peer_state_code (p_state p)) @ '',''),
     field_line ''online'' (save_bool (p_online p) @ '',''),
     field_line ''busy'' (save_bool (p_busy p) @ '',''),
     field_line ''ip'' (quoted (p_ip p) @ '',''),
     field_line ''port'' (dec_int (p_port p) @ '',''),
     field_line ''last_seen'' (dec_int (p_last_seen p) @ '',''),
     field_line ''created_at'' (dec_int (p_created_at p) @ '',''),
     field_line ''friend_since'' (dec_int (p_friend_since p) @ '',''),
     field_line ''pending_messages'' (dec_int (p_pending_messages p) @ '',''),
     field_line ''ghost_count'' (dec_int (p_ghost_count p))]"

definition open_line :: string where "open_line = ''    {'' @ [CHR 0x0A]"
definition close_line :: "bool \<Rightarrow> string" where
  "close_line comma = ''    }'' @ (if comma then '','' else []) @ [CHR 0x0A]"

fun save_peers :: "Peer list \<Rightarrow> string list" where
  "save_peers [] = []"
| "save_peers (p # ps) = open_line # save_peer_fields p @ close_line (ps \<noteq> []) # save_peers ps"

definition save_lines :: "Peer list \<Rightarrow> string list" where
  "save_lines ps =
    [''{'' @ [CHR 0x0A], ''  '' @ quoted ''version'' @ '': 1,'' @ [CHR 0x0A],
     ''  '' @ quoted ''peers'' @ '': ['' @ [CHR 0x0A]]
    @ save_peers ps @ [''  ]'' @ [CHR 0x0A], ''}'' @ [CHR 0x0A]]"

definition state_save :: "bool \<Rightarrow> mgr \<Rightarrow> int \<times> string option" where
  "state_save fopen_ok m = (if \<not> fopen_ok then (-1, None) else (0, Some (concat (save_lines (live_peers m)))))"

section \<open>Reading\<close>

text \<open>\<open>fgets(line, 4096, f)\<close>: up to 4095 characters, and no further than a newline.\<close>

fun read_line :: "nat \<Rightarrow> string \<Rightarrow> string \<times> string" where
  "read_line r [] = ([], [])"
| "read_line r (c # cs) =
    (if r = 0 then ([], c # cs)
     else if c = CHR 0x0A then ([c], cs)
     else (let (a, b) = read_line (r - 1) cs in (c # a, b)))"

lemma read_line_shorter: "0 < r \<Longrightarrow> s \<noteq> [] \<Longrightarrow> length (snd (read_line r s)) < length s"
proof (induction r s rule: read_line.induct)
  case (2 r c cs)
  then show ?case
    by (cases "r = 1"; cases cs) (auto split: prod.splits if_splits)
qed simp

function file_lines :: "string \<Rightarrow> string list" where
  "file_lines s = (if s = [] then [] else fst (read_line 4095 s) # file_lines (snd (read_line 4095 s)))"
  by pat_completeness auto
termination
  by (relation "measure length") (simp_all add: read_line_shorter)

declare file_lines.simps [simp del]

text \<open>
  The formats: blanks, the quoted key and a colon, blanks, then a quoted text of up to 63
  characters or a number.
\<close>

definition scan_key :: "string \<Rightarrow> string \<Rightarrow> string option" where
  "scan_key k line =
    map_option (dropWhile is_space) (scan_lit (quoted k @ '':'') (dropWhile is_space line))"

definition scan_str :: "string \<Rightarrow> string \<Rightarrow> string option" where
  "scan_str k line = do {
     r \<leftarrow> scan_key k line;
     s \<leftarrow> scan_lit [CHR 0x22] r;
     let v = take 63 (takeWhile (\<lambda>c. c \<noteq> CHR 0x22) s);
     if v = [] then None else Some v
   }"

definition scan_int_field :: "string \<Rightarrow> string \<Rightarrow> int option" where
  "scan_int_field k line = do { r \<leftarrow> scan_key k line; (v, _) \<leftarrow> scan_d r; Some v }"

definition scan_long_field :: "string \<Rightarrow> string \<Rightarrow> int option" where
  "scan_long_field k line = do { r \<leftarrow> scan_key k line; (v, _) \<leftarrow> scan_ld r; Some v }"

definition assign :: "'v option \<Rightarrow> ('v \<Rightarrow> Peer \<Rightarrow> Peer) \<Rightarrow> Peer \<Rightarrow> Peer" where
  "assign v f p = (case v of None \<Rightarrow> p | Some x \<Rightarrow> f x p)"

definition scan_fields :: "string \<Rightarrow> Peer \<Rightarrow> Peer option" where
  "scan_fields line p = do {
     let p = assign (scan_str ''id'' line) (\<lambda>v p. p\<lparr>p_id := v\<rparr>) p;
     let p = assign (scan_int_field ''state'' line) (\<lambda>v p. p\<lparr>p_state := peer_state_of v\<rparr>) p;
     let p = assign (scan_int_field ''online'' line) (\<lambda>v p. p\<lparr>p_online := (v \<noteq> 0)\<rparr>) p;
     let p = assign (scan_int_field ''busy'' line) (\<lambda>v p. p\<lparr>p_busy := (v \<noteq> 0)\<rparr>) p;
     p \<leftarrow> (case scan_str ''ip'' line of None \<Rightarrow> Some p
            | Some ip \<Rightarrow> do { s \<leftarrow> strcpy_into 16 ip; Some (p\<lparr>p_ip := s\<rparr>) });
     let p = assign (scan_int_field ''port'' line) (\<lambda>v p. p\<lparr>p_port := v\<rparr>) p;
     let p = assign (scan_long_field ''last_seen'' line) (\<lambda>v p. p\<lparr>p_last_seen := v\<rparr>) p;
     let p = assign (scan_long_field ''created_at'' line) (\<lambda>v p. p\<lparr>p_created_at := v\<rparr>) p;
     let p = assign (scan_long_field ''friend_since'' line) (\<lambda>v p. p\<lparr>p_friend_since := v\<rparr>) p;
     let p = assign (scan_int_field ''pending_messages'' line) (\<lambda>v p. p\<lparr>p_pending_messages := v\<rparr>) p;
     let p = assign (scan_int_field ''ghost_count'' line) (\<lambda>v p. p\<lparr>p_ghost_count := v\<rparr>) p;
     Some p
   }"

text \<open>The body of the loop: the peer being read, whether one is, and the table so far.\<close>

definition load_line :: "string \<Rightarrow> Peer \<times> bool \<times> mgr \<Rightarrow> (Peer \<times> bool \<times> mgr) option" where
  "load_line line st = (case st of (peer, in_peer, m) \<Rightarrow>
     if length line \<le> 1 then Some (peer, in_peer, m)
     else if contains line ''{'' then Some (zero_peer, True, m)
     else if \<not> in_peer then Some (peer, in_peer, m)
     else do {
       p \<leftarrow> scan_fields line peer;
       if contains line ''}'' then
         Some (zero_peer, False,
           if length (p_id p) > 0 \<and> g_peer_count m < MAX_PEERS
           then m\<lparr>g_peers := (g_peers m)[g_peer_count m := p], g_peer_count := g_peer_count m + 1\<rparr>
           else m)
       else Some (p, in_peer, m)
     })"

fun load_loop :: "string list \<Rightarrow> Peer \<times> bool \<times> mgr \<Rightarrow> (Peer \<times> bool \<times> mgr) option" where
  "load_loop [] st = Some st"
| "load_loop (l # ls) st = do { st' \<leftarrow> load_line l st; load_loop ls st' }"

definition state_load :: "string option \<Rightarrow> mgr \<Rightarrow> (int \<times> mgr) option" where
  "state_load file m =
    (case file of
       None \<Rightarrow> Some (0, m)
     | Some text \<Rightarrow> do {
         (_, _, m') \<leftarrow> load_loop (file_lines text) (zero_peer, False, m);
         Some (int (g_peer_count m'), m')
       })"

definition state_init :: "string option \<Rightarrow> mgr \<Rightarrow> (int \<times> mgr) option" where
  "state_init file m =
    (if g_initialized m then Some (0, m)
     else do {
       (_, m') \<leftarrow> state_load file (zero_mgr\<lparr>g_initialized := True\<rparr>);
       Some (0, m')
     })"

section \<open>The lines come back\<close>

definition is_line :: "string \<Rightarrow> bool" where
  "is_line l \<longleftrightarrow> (\<exists>b. l = b @ [CHR 0x0A] \<and> CHR 0x0A \<notin> set b \<and> length b < 4095)"

lemma read_line_line:
  "CHR 0x0A \<notin> set b \<Longrightarrow> length b < r \<Longrightarrow> read_line r (b @ CHR 0x0A # s) = (b @ [CHR 0x0A], s)"
  by (induction b arbitrary: r) auto

lemma file_lines_concat: "(\<And>l. l \<in> set ls \<Longrightarrow> is_line l) \<Longrightarrow> file_lines (concat ls) = ls"
proof (induction ls)
  case Nil
  then show ?case by (simp add: file_lines.simps)
next
  case (Cons l ls)
  from Cons.prems [of l] obtain b where b: "l = b @ [CHR 0x0A]" "CHR 0x0A \<notin> set b" "length b < 4095"
    by (auto simp: is_line_def)
  have "read_line 4095 (concat (l # ls)) = (l, concat ls)"
    using read_line_line [OF b(2,3), of "concat ls"] b(1) by simp
  moreover have "concat (l # ls) \<noteq> []" using b(1) by simp
  ultimately show ?case using Cons by (subst file_lines.simps) simp
qed

definition plain_text :: "string \<Rightarrow> bool" where
  "plain_text s \<longleftrightarrow> CHR 0x22 \<notin> set s \<and> CHR 0x0A \<notin> set s \<and> CHR ''{'' \<notin> set s \<and> CHR ''}'' \<notin> set s"

text \<open>A peer that the file format can hold.\<close>

definition savable :: "Peer \<Rightarrow> bool" where
  "savable p \<longleftrightarrow> p_id p \<noteq> [] \<and> length (p_id p) < 64 \<and> plain_text (p_id p)
     \<and> length (p_ip p) < 16 \<and> plain_text (p_ip p)
     \<and> peer_state_of (peer_state_code (p_state p)) = p_state p \<and> int_range (peer_state_code (p_state p))
     \<and> int_range (p_port p) \<and> int_range (p_pending_messages p) \<and> int_range (p_ghost_count p)
     \<and> long_range (p_last_seen p) \<and> long_range (p_created_at p) \<and> long_range (p_friend_since p)"

text \<open>What the loader makes of a saved peer: the flags and the fields not in the file are lost.\<close>

definition reloaded :: "Peer \<Rightarrow> Peer" where
  "reloaded p = zero_peer\<lparr>p_id := p_id p, p_state := p_state p, p_ip := p_ip p, p_port := p_port p,
     p_last_seen := p_last_seen p, p_created_at := p_created_at p, p_friend_since := p_friend_since p,
     p_pending_messages := p_pending_messages p, p_ghost_count := p_ghost_count p\<rparr>"

section \<open>One field\<close>

lemma scan_lit_quote:
  assumes "CHR 0x22 \<notin> set k" and "CHR 0x22 \<notin> set k'"
  shows "scan_lit (k @ CHR 0x22 # l) (k' @ CHR 0x22 # r) = (if k = k' then scan_lit l r else None)"
  using assms
proof (induction k arbitrary: k')
  case Nil
  then show ?case by (cases k') auto
next
  case (Cons c k)
  then show ?case by (cases k') auto
qed

lemma scan_key_field:
  assumes "CHR 0x22 \<notin> set k" and "CHR 0x22 \<notin> set k'"
  shows "scan_key k (field_line k' v) = (if k = k' then Some (dropWhile is_space (v @ [CHR 0x0A])) else None)"
  using assms scan_lit_quote [OF assms, of "'':''" "'': '' @ v @ [CHR 0x0A]"]
  by (simp add: scan_key_def field_line_def quoted_def is_space_def)

lemma takeWhile_plain: "CHR 0x22 \<notin> set s \<Longrightarrow> takeWhile (\<lambda>c. c \<noteq> CHR 0x22) (s @ CHR 0x22 # r) = s"
  by (induction s) auto

lemma scan_str_field:
  assumes "CHR 0x22 \<notin> set k" and "plain_text s" and "length s < 64"
  shows "scan_str k (field_line k (quoted s @ r)) = (if s = [] then None else Some s)"
  using assms takeWhile_plain [of s]
  by (simp add: scan_str_def scan_key_field plain_text_def quoted_def is_space_def)

lemma scan_str_other:
  "CHR 0x22 \<notin> set k \<Longrightarrow> CHR 0x22 \<notin> set k' \<Longrightarrow> k \<noteq> k' \<Longrightarrow> scan_str k (field_line k' v) = None"
  by (simp add: scan_str_def scan_key_field)

lemma scan_int_other:
  "CHR 0x22 \<notin> set k \<Longrightarrow> CHR 0x22 \<notin> set k' \<Longrightarrow> k \<noteq> k' \<Longrightarrow> scan_int_field k (field_line k' v) = None"
  by (simp add: scan_int_field_def scan_key_field)

lemma scan_long_other:
  "CHR 0x22 \<notin> set k \<Longrightarrow> CHR 0x22 \<notin> set k' \<Longrightarrow> k \<noteq> k' \<Longrightarrow> scan_long_field k (field_line k' v) = None"
  by (simp add: scan_long_field_def scan_key_field)

lemma dropWhile_dec_int: "dropWhile is_space (dec_int v @ r) = dec_int v @ r"
proof (cases "dec_int v")
  case Nil
  then show ?thesis by simp
next
  case (Cons c cs)
  then have "is_digit c \<or> c = CHR ''-''" using dec_int_chars [of c v] by simp
  then have "\<not> is_space c" by (auto simp: digit_not_space) (simp add: is_space_def)
  then show ?thesis using Cons by simp
qed

lemma scan_int_field_dec:
  "CHR 0x22 \<notin> set k \<Longrightarrow> int_range v \<Longrightarrow> no_digit (r @ [CHR 0x0A]) \<Longrightarrow>
   scan_int_field k (field_line k (dec_int v @ r)) = Some v"
  by (simp add: scan_int_field_def scan_key_field dropWhile_dec_int scan_d_dec)

lemma scan_long_field_dec:
  "CHR 0x22 \<notin> set k \<Longrightarrow> long_range v \<Longrightarrow> no_digit (r @ [CHR 0x0A]) \<Longrightarrow>
   scan_long_field k (field_line k (dec_int v @ r)) = Some v"
  by (simp add: scan_long_field_def scan_key_field dropWhile_dec_int scan_ld_dec)

lemma scan_int_bool: "CHR 0x22 \<notin> set k \<Longrightarrow> scan_int_field k (field_line k (save_bool b @ '','')) = None"
  by (simp add: scan_int_field_def scan_key_field save_bool_def is_space_def scan_d_def scan_num_def
      scan_sign_def is_digit_def)

lemmas scan_other = scan_str_other scan_int_other scan_long_other
lemmas scan_same = scan_str_field scan_int_field_dec scan_long_field_dec scan_int_bool

section \<open>One peer\<close>

lemma contains_iff: "contains s [c] \<longleftrightarrow> c \<in> set s"
  by (rule contains_single)

text \<open>A line of a field inside a peer only updates the peer being read.\<close>

lemma load_field_line:
  assumes "plain_text k" and "CHR ''{'' \<notin> set v" and "CHR ''}'' \<notin> set v"
    and "scan_fields (field_line k v) p = Some p'"
  shows "load_line (field_line k v) (p, True, m) = Some (p', True, m)"
  using assms by (auto simp: load_line_def field_line_def contains_iff quoted_def plain_text_def)

lemma dec_int_no_brace [simp]:
  "CHR ''{'' \<notin> set (dec_int v)" "CHR ''}'' \<notin> set (dec_int v)" "CHR 0x0A \<notin> set (dec_int v)"
  "CHR 0x22 \<notin> set (dec_int v)"
  using dec_int_chars [of "CHR ''{''" v] dec_int_chars [of "CHR ''}''" v]
    dec_int_chars [of "CHR 0x0A" v] dec_int_chars [of "CHR 0x22" v] by auto

lemma load_id_line:
  assumes "plain_text s" and "length s < 64" and "s \<noteq> []"
  shows "load_line (field_line ''id'' (quoted s @ '','')) (p, True, m) = Some (p\<lparr>p_id := s\<rparr>, True, m)"
proof (rule load_field_line)
  show "scan_fields (field_line ''id'' (quoted s @ '','')) p = Some (p\<lparr>p_id := s\<rparr>)"
    using assms by (simp add: scan_fields_def scan_other scan_same assign_def)
qed (use assms in \<open>auto simp: plain_text_def quoted_def\<close>)

lemma load_ip_line:
  assumes "plain_text s" and "length s < 16" and "p_ip p = []"
  shows "load_line (field_line ''ip'' (quoted s @ '','')) (p, True, m) = Some (p\<lparr>p_ip := s\<rparr>, True, m)"
proof (rule load_field_line)
  show "scan_fields (field_line ''ip'' (quoted s @ '','')) p = Some (p\<lparr>p_ip := s\<rparr>)"
    using assms by (simp add: scan_fields_def scan_other scan_same assign_def strcpy_into_fits)
qed (use assms in \<open>auto simp: plain_text_def quoted_def\<close>)

lemma load_bool_lines:
  "load_line (field_line ''online'' (save_bool b @ '','')) (p, True, m) = Some (p, True, m)"
  "load_line (field_line ''busy'' (save_bool b @ '','')) (p, True, m) = Some (p, True, m)"
  by (rule load_field_line;
      simp add: plain_text_def save_bool_def scan_fields_def scan_other scan_int_bool [unfolded save_bool_def] assign_def)+

lemma load_state_line:
  assumes "peer_state_of (peer_state_code st) = st" and "int_range (peer_state_code st)"
  shows "load_line (field_line ''state'' (dec_int (peer_state_code st) @ '','')) (p, True, m)
    = Some (p\<lparr>p_state := st\<rparr>, True, m)"
  by (rule load_field_line)
    (use assms in \<open>simp_all add: plain_text_def scan_fields_def scan_other scan_same assign_def\<close>)

lemma load_int_lines:
  assumes "int_range v"
  shows
    "load_line (field_line ''port'' (dec_int v @ '','')) (p, True, m) = Some (p\<lparr>p_port := v\<rparr>, True, m)"
    "load_line (field_line ''pending_messages'' (dec_int v @ '','')) (p, True, m)
      = Some (p\<lparr>p_pending_messages := v\<rparr>, True, m)"
    "load_line (field_line ''ghost_count'' (dec_int v)) (p, True, m) = Some (p\<lparr>p_ghost_count := v\<rparr>, True, m)"
  using scan_int_field_dec [OF _ assms, of "''ghost_count''" "[]"]
  by (auto intro!: load_field_line simp: assms plain_text_def scan_fields_def scan_other scan_same assign_def)

lemma load_long_lines:
  assumes "long_range v"
  shows
    "load_line (field_line ''last_seen'' (dec_int v @ '','')) (p, True, m) = Some (p\<lparr>p_last_seen := v\<rparr>, True, m)"
    "load_line (field_line ''created_at'' (dec_int v @ '','')) (p, True, m) = Some (p\<lparr>p_created_at := v\<rparr>, True, m)"
    "load_line (field_line ''friend_since'' (dec_int v @ '','')) (p, True, m) = Some (p\<lparr>p_friend_since := v\<rparr>, True, m)"
  by (auto intro!: load_field_line simp: assms plain_text_def scan_fields_def scan_other scan_same assign_def)

lemma load_loop_append: "load_loop (xs @ ys) st = load_loop xs st \<bind> load_loop ys"
  by (induction xs arbitrary: st) (auto simp: bind_assoc split: Option.bind_splits)

lemma load_peer_fields:
  assumes "savable p"
  shows "load_loop (save_peer_fields p) (zero_peer, True, m) = Some (reloaded p, True, m)"
  using assms
  by (simp add: save_peer_fields_def savable_def load_id_line load_ip_line load_bool_lines
      load_state_line load_int_lines load_long_lines reloaded_def zero_peer_def)

lemma load_open_line: "load_line open_line st = (case st of (p, b, m) \<Rightarrow> Some (zero_peer, True, m))"
  by (cases st) (simp add: load_line_def open_line_def contains_iff)

text \<open>The table after reading one more peer.\<close>

definition append_peer :: "Peer \<Rightarrow> mgr \<Rightarrow> mgr" where
  "append_peer p m = m\<lparr>g_peers := (g_peers m)[g_peer_count m := p], g_peer_count := g_peer_count m + 1\<rparr>"

lemma scan_fields_close: "scan_fields (close_line c) p = Some p"
proof -
  have "scan_key k (close_line c) = None" for k
    by (simp add: scan_key_def close_line_def quoted_def is_space_def)
  then show ?thesis
    by (simp add: scan_fields_def scan_str_def scan_int_field_def scan_long_field_def assign_def)
qed

lemma load_close_line:
  assumes "p_id p \<noteq> []" and "g_peer_count m < MAX_PEERS"
  shows "load_line (close_line c) (p, True, m) = Some (zero_peer, False, append_peer p m)"
proof -
  have "CHR ''{'' \<notin> set (close_line c)" and "CHR ''}'' \<in> set (close_line c)" and "\<not> length (close_line c) \<le> 1"
    by (auto simp: close_line_def)
  with assms show ?thesis
    by (simp add: load_line_def contains_iff scan_fields_close append_peer_def)
qed

section \<open>The whole file\<close>

lemma append_peer_fields [simp]:
  "g_peer_count (append_peer p m) = Suc (g_peer_count m)"
  "wf_mgr m \<Longrightarrow> g_peer_count m < MAX_PEERS \<Longrightarrow> wf_mgr (append_peer p m)"
  "wf_mgr m \<Longrightarrow> g_peer_count m < MAX_PEERS \<Longrightarrow> live_peers (append_peer p m) = live_peers m @ [p]"
  by (simp_all add: append_peer_def wf_mgr_def live_peers_def take_Suc_update)

lemma load_save_peers:
  assumes "\<forall>p \<in> set ps. savable p" and "g_peer_count m + length ps \<le> MAX_PEERS" and "wf_mgr m"
  shows "\<exists>pr b m'. load_loop (save_peers ps) (q, b0, m) = Some (pr, b, m')
    \<and> wf_mgr m' \<and> live_peers m' = live_peers m @ map reloaded ps
    \<and> g_peer_count m' = g_peer_count m + length ps \<and> (ps \<noteq> [] \<longrightarrow> \<not> b)
    \<and> (ps = [] \<longrightarrow> m' = m \<and> pr = q \<and> b = b0)"
  using assms
proof (induction ps arbitrary: q b0 m)
  case Nil
  then show ?case by simp
next
  case (Cons p ps)
  let ?m = "append_peer (reloaded p) m"
  have p: "savable p" and room: "g_peer_count m < MAX_PEERS" using Cons.prems by auto
  have rid: "p_id (reloaded p) \<noteq> []" using p by (simp add: reloaded_def savable_def)
  have step: "load_loop (save_peers (p # ps)) (q, b0, m) = load_loop (save_peers ps) (zero_peer, False, ?m)"
    using load_peer_fields [OF p, of m] load_close_line [OF rid room, of "ps \<noteq> []"]
    by (simp add: load_open_line load_loop_append)
  have "\<exists>pr b m'. load_loop (save_peers ps) (zero_peer, False, ?m) = Some (pr, b, m')
    \<and> wf_mgr m' \<and> live_peers m' = live_peers ?m @ map reloaded ps
    \<and> g_peer_count m' = g_peer_count ?m + length ps \<and> (ps \<noteq> [] \<longrightarrow> \<not> b)
    \<and> (ps = [] \<longrightarrow> m' = ?m \<and> pr = zero_peer \<and> b = False)"
    by (rule Cons.IH) (use Cons.prems room in auto)
  then show ?case using step Cons.prems(3) room by (cases "ps = []") auto
qed

lemma field_line_is_line:
  "plain_text k \<Longrightarrow> CHR 0x0A \<notin> set v \<Longrightarrow> length k + length v < 4000 \<Longrightarrow> is_line (field_line k v)"
  unfolding is_line_def
  by (rule exI [of _ "''      '' @ quoted k @ '': '' @ v"]) (auto simp: field_line_def quoted_def plain_text_def)

lemma save_peer_fields_lines:
  assumes "savable p" and "l \<in> set (save_peer_fields p)"
  shows "is_line l"
proof -
  have len: "length (dec_int v) \<le> 21" if "int_range v" for v
    using that by (intro length_dec_int int_long_range)
  note lens = len [of "peer_state_code (p_state p)"] len [of "p_port p"] len [of "p_pending_messages p"]
    len [of "p_ghost_count p"] length_dec_int [of "p_last_seen p"] length_dec_int [of "p_created_at p"]
    length_dec_int [of "p_friend_since p"]
  have q: "CHR 0x0A \<notin> set (p_id p)" "CHR 0x0A \<notin> set (p_ip p)" "length (p_id p) < 64" "length (p_ip p) < 16"
    using assms(1) by (simp_all add: savable_def plain_text_def)
  from assms(2) show ?thesis
    unfolding save_peer_fields_def
    using lens assms(1) q
    by (auto simp: savable_def quoted_def save_bool_def plain_text_def split: if_splits intro!: field_line_is_line)
qed

lemma save_peers_lines: "\<forall>p \<in> set ps. savable p \<Longrightarrow> l \<in> set (save_peers ps) \<Longrightarrow> is_line l"
proof (induction ps)
  case (Cons p ps)
  have "is_line open_line" by (auto simp: is_line_def open_line_def)
  moreover have "is_line (close_line c)" for c by (auto simp: is_line_def close_line_def)
  ultimately show ?case using Cons save_peer_fields_lines [of p l] by auto
qed simp

lemma save_lines_lines:
  assumes "\<forall>p \<in> set ps. savable p" and "l \<in> set (save_lines ps)"
  shows "is_line l"
proof -
  have "is_line (b @ [CHR 0x0A])" if "CHR 0x0A \<notin> set b" "length b < 4095" for b
    using that by (auto simp: is_line_def)
  from this [of "''{''"] this [of "''  '' @ quoted ''version'' @ '': 1,''"]
    this [of "''  '' @ quoted ''peers'' @ '': [''"] this [of "''  ]''"] this [of "''}''"]
  show ?thesis using assms save_peers_lines [OF assms(1), of l]
    by (auto simp: save_lines_def quoted_def)
qed

lemma scan_fields_other_line:
  assumes "\<And>k. k \<in> {''id'', ''state'', ''online'', ''busy'', ''ip'', ''port'', ''last_seen'',
      ''created_at'', ''friend_since'', ''pending_messages'', ''ghost_count''} \<Longrightarrow> scan_key k line = None"
  shows "scan_fields line p = Some p"
  using assms
  by (simp add: scan_fields_def scan_str_def scan_int_field_def scan_long_field_def assign_def)

lemma load_header:
  "load_loop [''{'' @ [CHR 0x0A], ''  '' @ quoted ''version'' @ '': 1,'' @ [CHR 0x0A],
     ''  '' @ quoted ''peers'' @ '': ['' @ [CHR 0x0A]] (q, b, m) = Some (zero_peer, True, m)"
proof -
  have "scan_fields (''  '' @ quoted ''version'' @ '': 1,'' @ [CHR 0x0A]) zero_peer = Some zero_peer"
    and "scan_fields (''  '' @ quoted ''peers'' @ '': ['' @ [CHR 0x0A]) zero_peer = Some zero_peer"
    by (rule scan_fields_other_line; auto simp: scan_key_def quoted_def is_space_def)+
  then show ?thesis by (simp add: load_line_def contains_iff quoted_def)
qed

lemma load_footer:
  assumes "b \<longrightarrow> p_id q = []"
  shows "\<exists>q' b'. load_loop [''  ]'' @ [CHR 0x0A], ''}'' @ [CHR 0x0A]] (q, b, m) = Some (q', b', m)"
proof -
  have "scan_fields (''  ]'' @ [CHR 0x0A]) q = Some q" and "scan_fields (''}'' @ [CHR 0x0A]) q = Some q"
    by (rule scan_fields_other_line; auto simp: scan_key_def quoted_def is_space_def)+
  with assms show ?thesis by (cases b) (auto simp: load_line_def contains_iff)
qed

lemma load_save:
  assumes sv: "\<forall>p \<in> set ps. savable p" and room: "g_peer_count m + length ps \<le> MAX_PEERS" and wf: "wf_mgr m"
  shows "\<exists>m'. state_load (Some (concat (save_lines ps))) m = Some (int (g_peer_count m + length ps), m')
    \<and> wf_mgr m' \<and> live_peers m' = live_peers m @ map reloaded ps"
proof -
  obtain pr b m' where l: "load_loop (save_peers ps) (zero_peer, True, m) = Some (pr, b, m')"
    and m': "wf_mgr m'" "live_peers m' = live_peers m @ map reloaded ps"
      "g_peer_count m' = g_peer_count m + length ps"
    and b: "ps \<noteq> [] \<longrightarrow> \<not> b" "ps = [] \<longrightarrow> pr = zero_peer"
    using load_save_peers [OF sv room wf, of zero_peer True] by blast
  have "b \<longrightarrow> p_id pr = []" using b by (auto simp: zero_peer_def)
  from load_footer [OF this, of m'] obtain q b'
    where "load_loop [''  ]'' @ [CHR 0x0A], ''}'' @ [CHR 0x0A]] (pr, b, m') = Some (q, b', m')" by blast
  with l load_header [of zero_peer False m]
  have "load_loop (save_lines ps) (zero_peer, False, m) = Some (q, b', m')"
    unfolding save_lines_def load_loop_append by simp
  moreover have "file_lines (concat (save_lines ps)) = save_lines ps"
    using save_lines_lines [OF sv] by (rule file_lines_concat)
  ultimately show ?thesis using m' by (simp add: state_load_def)
qed

end
