(* ===== verification/Event_Loop.thy ===== *)
theory Event_Loop
  imports State_File
begin

text \<open>
  The handlers, the dispatcher, the loop and the triggers of \<^verbatim>\<open>event_loop.c\<close> over a
  world of the state manager, the event queue, the flag \<open>g_running\<close> and the lines printed
  for the CLI.  A handler is \<open>None\<close> if one of its \<open>strcpy\<close> calls overruns.
\<close>

record world =
  w_mgr :: mgr
  w_queue :: event_q
  w_running :: bool
  w_cli :: "string list"

definition clk_after :: "nat \<Rightarrow> clock \<Rightarrow> clock" where
  "clk_after n clk = (\<lambda>i. clk (n + i))"

definition event_notify_cli :: "string \<Rightarrow> world \<Rightarrow> world" where
  "event_notify_cli line w = w\<lparr>w_cli := w_cli w @ [line]\<rparr>"

definition nl :: string where "nl = [CHR 0x0A]"

section \<open>Handlers\<close>

definition event_handle_add_request :: "clock \<Rightarrow> Event option \<Rightarrow> world \<Rightarrow> (int \<times> world) option" where
  "event_handle_add_request clk event w = (case event of None \<Rightarrow> Some (-1, w) | Some e \<Rightarrow> do {
     let m = snd (state_update_peer clk (Some (ev_from_id e)) PEER_REQUEST_RECEIVED (w_mgr w));
     (_, m) \<leftarrow> state_set_ip (Some (ev_from_id e)) (Some (ev_ip e)) m;
     let m = snd (state_set_port (Some (ev_from_id e)) (ev_port e) m);
     let w = w\<lparr>w_mgr := m\<rparr>;
     let w = event_notify_cli (''[ORCA] Friend request from '' @ ev_from_id e @ '' ('' @ ev_ip e @ '':''
               @ dec_int (ev_port e) @ '')'' @ nl) w;
     let w = event_notify_cli (''[ORCA] Use '' @ [CHR 0x27] @ ''./orcashi accept '' @ ev_from_id e @ [CHR 0x27] @ '' to accept'' @ nl) w;
     let w = event_notify_cli (''[ORCA] Use '' @ [CHR 0x27] @ ''./orcashi reject '' @ ev_from_id e @ [CHR 0x27] @ '' to reject'' @ nl) w;
     Some (0, w) })"

text \<open>The delivery both connecting handlers share, with its report to the CLI.\<close>

definition deliver_and_report :: "clock \<Rightarrow> string \<Rightarrow> world \<Rightarrow> world option" where
  "deliver_and_report clk pid w = do {
     (ghost_count, q, m) \<leftarrow> state_deliver_ghost_messages clk (Some pid) (w_queue w) (w_mgr w);
     let w = w\<lparr>w_mgr := m, w_queue := q\<rparr>;
     Some (if ghost_count > 0
       then event_notify_cli (''[ORCA] Delivered '' @ dec_int ghost_count @ '' ghost messages to ''
              @ pid @ nl) w
       else w) }"

definition event_handle_accept_confirm :: "clock \<Rightarrow> Event option \<Rightarrow> world \<Rightarrow> (int \<times> world) option" where
  "event_handle_accept_confirm clk event w = (case event of None \<Rightarrow> Some (-1, w) | Some e \<Rightarrow> do {
     let m = snd (state_update_peer clk (Some (ev_from_id e)) PEER_FRIEND (w_mgr w));
     let m = snd (state_set_online (clk_after 2 clk) (Some (ev_from_id e)) True m);
     (_, m) \<leftarrow> state_set_ip (Some (ev_from_id e)) (Some (ev_ip e)) m;
     let m = snd (state_set_port (Some (ev_from_id e)) (ev_port e) m);
     w \<leftarrow> deliver_and_report (clk_after 3 clk) (ev_from_id e) (w\<lparr>w_mgr := m\<rparr>);
     let w = event_notify_cli (''[ORCA] '' @ ev_from_id e @ '' accepted your request!'' @ nl) w;
     let w = event_notify_cli (''[ORCA] Friendship with '' @ ev_from_id e @ '' is now accepted.'' @ nl) w;
     let w = event_notify_cli (''[ORCA] Use '' @ [CHR 0x27] @ ''./orcashi chat '' @ ev_from_id e @ [CHR 0x27] @ '' to start chatting.'' @ nl) w;
     Some (0, w) })"

definition event_handle_reject_confirm :: "Event option \<Rightarrow> world \<Rightarrow> (int \<times> world) option" where
  "event_handle_reject_confirm event w = (case event of None \<Rightarrow> Some (-1, w) | Some e \<Rightarrow>
     Some (0, event_notify_cli (''[ORCA] '' @ ev_from_id e @ '' rejected your request.'' @ nl)
       (w\<lparr>w_mgr := snd (state_remove_peer (Some (ev_from_id e)) (w_mgr w))\<rparr>)))"

definition event_handle_message_received :: "clock \<Rightarrow> Event option \<Rightarrow> world \<Rightarrow> (int \<times> world) option" where
  "event_handle_message_received clk event w = (case event of None \<Rightarrow> Some (-1, w) | Some e \<Rightarrow>
     (let m = snd (state_set_online clk (Some (ev_from_id e)) True (w_mgr w));
          m = snd (state_update_last_seen (clk_after 1 clk) (Some (ev_from_id e)) m);
          m = snd (state_add_message (Some (ev_from_id e)) (Some (ev_message e)) m)
      in Some (0, event_notify_cli (''['' @ ev_from_id e @ ''] '' @ ev_message e @ nl) (w\<lparr>w_mgr := m\<rparr>))))"

definition event_handle_peer_online :: "clock \<Rightarrow> Event option \<Rightarrow> world \<Rightarrow> (int \<times> world) option" where
  "event_handle_peer_online clk event w = (case event of None \<Rightarrow> Some (-1, w) | Some e \<Rightarrow> do {
     let m = snd (state_set_online clk (Some (ev_peer_id e)) True (w_mgr w));
     (_, m) \<leftarrow> state_set_ip (Some (ev_peer_id e)) (Some (ev_ip e)) m;
     let m = snd (state_set_port (Some (ev_peer_id e)) (ev_port e) m);
     w \<leftarrow> deliver_and_report (clk_after 1 clk) (ev_peer_id e) (w\<lparr>w_mgr := m\<rparr>);
     Some (0, event_notify_cli (''[ORCA] '' @ ev_peer_id e @ '' is now online!'' @ nl) w) })"

definition event_handle_peer_offline :: "clock \<Rightarrow> Event option \<Rightarrow> world \<Rightarrow> (int \<times> world) option" where
  "event_handle_peer_offline clk event w = (case event of None \<Rightarrow> Some (-1, w) | Some e \<Rightarrow>
     Some (0, event_notify_cli (''[ORCA] '' @ ev_peer_id e @ '' went offline.'' @ nl)
       (w\<lparr>w_mgr := snd (state_set_online clk (Some (ev_peer_id e)) False (w_mgr w))\<rparr>)))"

definition event_handle_ghost_delivered :: "Event option \<Rightarrow> world \<Rightarrow> (int \<times> world) option" where
  "event_handle_ghost_delivered event w = (case event of None \<Rightarrow> Some (-1, w) | Some e \<Rightarrow>
     Some (0, event_notify_cli (''[ORCA] Ghost message delivered to '' @ ev_to_id e @ nl) w))"

definition event_handle_status_update :: "Event option \<Rightarrow> world \<Rightarrow> (int \<times> world) option" where
  "event_handle_status_update event w = (case event of None \<Rightarrow> Some (-1, w) | Some e \<Rightarrow> do {
     m \<leftarrow> (if length (ev_ip e) > 0
          then map_option snd (state_set_ip (Some (ev_peer_id e)) (Some (ev_ip e)) (w_mgr w))
          else Some (w_mgr w));
     let m = (if ev_port e > 0 then snd (state_set_port (Some (ev_peer_id e)) (ev_port e) m) else m);
     let m = (if ev_is_secure e then snd (state_set_secure (Some (ev_peer_id e)) True m) else m);
     Some (0, w\<lparr>w_mgr := m\<rparr>) })"

definition event_handle_dht_found :: "clock \<Rightarrow> Event option \<Rightarrow> world \<Rightarrow> (int \<times> world) option" where
  "event_handle_dht_found clk event w = (case event of None \<Rightarrow> Some (-1, w) | Some e \<Rightarrow> do {
     (_, m) \<leftarrow> state_set_ip (Some (ev_peer_id e)) (Some (ev_ip e)) (w_mgr w);
     let m = snd (state_set_port (Some (ev_peer_id e)) (ev_port e) m);
     let m = snd (state_set_online clk (Some (ev_peer_id e)) True m);
     Some (0, w\<lparr>w_mgr := m\<rparr>) })"

definition event_handle_dht_not_found :: "clock \<Rightarrow> Event option \<Rightarrow> world \<Rightarrow> (int \<times> world) option" where
  "event_handle_dht_not_found clk event w = (case event of None \<Rightarrow> Some (-1, w) | Some e \<Rightarrow>
     Some (0, w\<lparr>w_mgr := snd (state_set_online clk (Some (ev_peer_id e)) False (w_mgr w))\<rparr>))"

definition event_handle_error :: "Event option \<Rightarrow> world \<Rightarrow> (int \<times> world) option" where
  "event_handle_error event w = (case event of None \<Rightarrow> Some (-1, w) | Some e \<Rightarrow>
     Some (0, event_notify_cli (''[ERROR] '' @ ev_message e @ nl) w))"

section \<open>Dispatch and loop\<close>

definition event_process :: "clock \<Rightarrow> Event option \<Rightarrow> world \<Rightarrow> (int \<times> world) option" where
  "event_process clk event w = (case event of None \<Rightarrow> Some (-1, w) | Some e \<Rightarrow>
     (case ev_type e of
        EVENT_ADD_REQUEST \<Rightarrow> event_handle_add_request clk event w
      | EVENT_ACCEPT_CONFIRM \<Rightarrow> event_handle_accept_confirm clk event w
      | EVENT_REJECT_CONFIRM \<Rightarrow> event_handle_reject_confirm event w
      | EVENT_MESSAGE_RECEIVED \<Rightarrow> event_handle_message_received clk event w
      | EVENT_PEER_ONLINE \<Rightarrow> event_handle_peer_online clk event w
      | EVENT_PEER_OFFLINE \<Rightarrow> event_handle_peer_offline clk event w
      | EVENT_GHOST_DELIVERED \<Rightarrow> event_handle_ghost_delivered event w
      | EVENT_STATUS_UPDATE \<Rightarrow> event_handle_status_update event w
      | EVENT_DHT_FOUND \<Rightarrow> event_handle_dht_found clk event w
      | EVENT_DHT_NOT_FOUND \<Rightarrow> event_handle_dht_not_found clk event w
      | EVENT_ERROR \<Rightarrow> event_handle_error event w
      | EVENT_NONE \<Rightarrow> Some (-1, w)))"

definition event_loop_init :: "world \<Rightarrow> int \<times> world" where
  "event_loop_init w = (0, w\<lparr>w_running := True\<rparr>)"

definition event_loop_stop :: "world \<Rightarrow> world" where
  "event_loop_stop w = w\<lparr>w_running := False\<rparr>"

text \<open>
  One round of the loop: a pop with a timeout of a second, and the event's handler if there was
  an event.  \<open>event_loop_run\<close> is the rounds that the given waits allow: it stops early when
  \<open>g_running\<close> is cleared.
\<close>

definition event_loop_round :: "wait_result list \<Rightarrow> clock \<Rightarrow> world \<Rightarrow> world option" where
  "event_loop_round waits clk w = do {
     (ret, event, running, q) \<leftarrow> event_queue_pop waits True 1000 (w_running w) (w_queue w);
     let w = w\<lparr>w_queue := q, w_running := running\<rparr>;
     if ret = 0 then do { (_, w) \<leftarrow> event_process clk event w; Some w } else Some w }"

fun event_loop_run :: "(wait_result list \<times> clock) list \<Rightarrow> world \<Rightarrow> world option" where
  "event_loop_run [] w = Some w"
| "event_loop_run ((waits, clk) # rounds) w =
    (if w_running w then do { w \<leftarrow> event_loop_round waits clk w; event_loop_run rounds w } else Some w)"

section \<open>Triggers\<close>

definition push_event :: "Event \<Rightarrow> world \<Rightarrow> int \<times> world" where
  "push_event e w = (let (rc, q) = event_queue_push (Some e) (w_queue w) in (rc, w\<lparr>w_queue := q\<rparr>))"

definition event_trigger_add_request :: "clock \<Rightarrow> string \<Rightarrow> string \<Rightarrow> int \<Rightarrow> world \<Rightarrow> (int \<times> world) option" where
  "event_trigger_add_request clk from_id ip port w = do {
     f \<leftarrow> strcpy_into 64 from_id;
     a \<leftarrow> strcpy_into 16 ip;
     Some (push_event ((event_create clk EVENT_ADD_REQUEST (Some from_id))
       \<lparr>ev_from_id := f, ev_ip := a, ev_port := port\<rparr>) w) }"

definition event_trigger_accept_confirm :: "clock \<Rightarrow> string \<Rightarrow> string \<Rightarrow> int \<Rightarrow> world \<Rightarrow> (int \<times> world) option" where
  "event_trigger_accept_confirm clk from_id ip port w = do {
     f \<leftarrow> strcpy_into 64 from_id;
     a \<leftarrow> strcpy_into 16 ip;
     Some (push_event ((event_create clk EVENT_ACCEPT_CONFIRM (Some from_id))
       \<lparr>ev_from_id := f, ev_ip := a, ev_port := port\<rparr>) w) }"

definition event_trigger_message_received :: "clock \<Rightarrow> string \<Rightarrow> string \<Rightarrow> world \<Rightarrow> (int \<times> world) option" where
  "event_trigger_message_received clk from_id message w = do {
     f \<leftarrow> strcpy_into 64 from_id;
     msg \<leftarrow> strcpy_into 4096 message;
     Some (push_event ((event_create clk EVENT_MESSAGE_RECEIVED (Some from_id))
       \<lparr>ev_from_id := f, ev_message := msg\<rparr>) w) }"

definition event_trigger_peer_online :: "clock \<Rightarrow> string \<Rightarrow> string \<Rightarrow> int \<Rightarrow> world \<Rightarrow> (int \<times> world) option" where
  "event_trigger_peer_online clk pid ip port w = do {
     a \<leftarrow> strcpy_into 16 ip;
     Some (push_event ((event_create clk EVENT_PEER_ONLINE (Some pid))\<lparr>ev_ip := a, ev_port := port\<rparr>) w) }"

definition event_trigger_peer_offline :: "clock \<Rightarrow> string \<Rightarrow> world \<Rightarrow> int \<times> world" where
  "event_trigger_peer_offline clk pid w = push_event (event_create clk EVENT_PEER_OFFLINE (Some pid)) w"

end
