(* ===== verification/Event_Effects.thy ===== *)
theory Event_Effects
  imports Event_Loop
begin

text \<open>
  What processing an event does: it always returns for an event whose strings fit their
  arrays, keeps every invariant, and changes the directory of peers at the event's subject
  only, as \<open>event_spec\<close> says.  The proofs see the handlers as sequences of setters and use
  the laws of the locale \<open>peer_store\<close>.
\<close>

section \<open>Sequences of setters\<close>

definition setters :: "string \<Rightarrow> (Peer \<Rightarrow> Peer) list \<Rightarrow> mgr \<Rightarrow> mgr" where
  "setters a fs m = fold (\<lambda>f m. snd (with_peer (Some a) f m)) fs m"

lemma setters_Cons: "setters a (f # fs) m = setters a fs (snd (with_peer (Some a) f m))"
  by (simp add: setters_def)

lemma setters_Nil [simp]: "setters a [] m = m"
  by (simp add: setters_def)

lemma with_peer_ghosts [simp]:
  "g_ghost_messages (snd (with_peer a f m)) = g_ghost_messages m"
  "g_ghost_count (snd (with_peer a f m)) = g_ghost_count m"
  "live_ghosts (snd (with_peer a f m)) = live_ghosts m"
  "ghosts_ok (snd (with_peer a f m)) = ghosts_ok m"
  by (simp_all add: with_peer_def live_ghosts_def split: option.splits)

lemma setters_ghosts [simp]:
  "g_ghost_messages (setters a fs m) = g_ghost_messages m"
  "live_ghosts (setters a fs m) = live_ghosts m"
  "ghosts_ok (setters a fs m) = ghosts_ok m"
  by (induction fs arbitrary: m) (simp_all add: setters_Cons)

lemma setters_directory:
  assumes "norm_arg (Some a) = Some n" and "\<forall>f \<in> set fs. keeps_id f" and "mgr_ok m"
  shows "directory (setters a fs m) = (directory m)(n := map_option (fold (\<lambda>f. f) fs) (directory m n))"
  using peers.modify_seq [OF assms] by (simp add: setters_def)

lemma setters_mgr_ok:
  assumes "\<forall>f \<in> set fs. keeps_id f" and "mgr_ok m"
  shows "mgr_ok (setters a fs m)"
  using assms
  by (induction fs arbitrary: m) (simp_all add: setters_Cons peers.modify_invar)

lemma setters_bad_id: "norm_arg (Some a) = None \<Longrightarrow> setters a fs m = m"
  by (induction fs arbitrary: m) (simp_all add: setters_Cons with_peer_bad_id)

lemma set_ip_setters:
  "length ip < 16 \<Longrightarrow>
   state_set_ip (Some a) (Some ip) m = Some (with_peer (Some a) (\<lambda>p. p\<lparr>p_ip := ip\<rparr>) m)"
  by (simp add: state_set_ip_def with_peer_string_fits)

section \<open>Delivery\<close>

definition settle :: "nat \<Rightarrow> Peer \<Rightarrow> Peer" where
  "settle k p = p\<lparr>p_ghost_count := max 0 (p_ghost_count p - int k)\<rparr>"

lemma delivered_mgr_settle:
  assumes "norm_arg (Some a) = Some n"
  shows "delivered_mgr clk n m = snd (with_peer (Some a) (settle (length (waiting n m)))
    (m\<lparr>g_ghost_messages := mark_range clk n 0 (g_ghost_count m) (g_ghost_messages m)\<rparr>))"
proof -
  have "(\<lambda>c. if c - int k < 0 then 0 else c - int k) = (\<lambda>c. max 0 (c - int k))" for k
    by auto
  then show ?thesis
    using assms by (simp add: delivered_mgr_def bump_with_peer settle_def [abs_def])
qed

lemma directory_ghosts [simp]: "directory (m\<lparr>g_ghost_messages := gs\<rparr>) = directory m"
  by (simp add: fun_eq_iff directory_def live_peers_def)

lemma mgr_ok_ghosts: "mgr_ok m \<Longrightarrow> length gs = MAX_GHOST_MESSAGES \<Longrightarrow> mgr_ok (m\<lparr>g_ghost_messages := gs\<rparr>)"
  by (simp add: mgr_ok_def wf_mgr_def ids_ok_def live_peers_def)

lemma delivered_directory:
  assumes ok: "mgr_ok m" and n: "norm_arg (Some a) = Some n"
  shows "directory (delivered_mgr clk n m)
    = (directory m)(n := map_option (settle (length (waiting n m))) (directory m n))"
proof -
  have "mgr_ok (m\<lparr>g_ghost_messages := mark_range clk n 0 (g_ghost_count m) (g_ghost_messages m)\<rparr>)"
    using ok by (intro mgr_ok_ghosts) (simp_all add: mgr_ok_def wf_mgr_def)
  from peers.modify_lookup [OF this n, of "settle (length (waiting n m))"] show ?thesis
    by (simp add: delivered_mgr_settle [OF n] keeps_id_def settle_def)
qed

lemma ghost_event_fits:
  "ghost_fits g \<Longrightarrow> event_fits (ghost_event clk n i g)"
  using event_create_fits [of "\<lambda>_. clk (2 * i + 1)" EVENT_GHOST_DELIVERED "Some n"]
  by (simp add: ghost_event_def event_fits_def ghost_fits_def)

lemma ghost_events_fit:
  assumes "wf_mgr m" and "ghosts_ok m"
  shows "\<forall>e \<in> set (ghost_events clk n (g_ghost_messages m) 0 (g_ghost_count m)). event_fits e"
  using assms
  by (auto simp: ghost_events_def ghosts_ok_def wf_mgr_def intro!: ghost_event_fits)

section \<open>The invariant of the world\<close>

definition world_ok :: "world \<Rightarrow> bool" where
  "world_ok w \<longleftrightarrow> mgr_ok (w_mgr w) \<and> ghosts_ok (w_mgr w) \<and> queue_ok (w_queue w)"

definition initial_world :: world where
  "initial_world = \<lparr>w_mgr = zero_mgr, w_queue = empty_queue, w_running = False, w_cli = []\<rparr>"

lemma initial_world_ok: "world_ok initial_world"
  by (simp add: world_ok_def initial_world_def zero_mgr_ok zero_mgr_ghosts_ok empty_queue_ok)

lemma notify_fields [simp]:
  "w_mgr (event_notify_cli s w) = w_mgr w" "w_queue (event_notify_cli s w) = w_queue w"
  "w_running (event_notify_cli s w) = w_running w" "w_cli (event_notify_cli s w) = w_cli w @ [s]"
  "world_ok (event_notify_cli s w) = world_ok w"
  by (simp_all add: event_notify_cli_def world_ok_def)

lemma deliver_and_report_spec:
  assumes ok: "world_ok w"
  shows "\<exists>w'. deliver_and_report clk a w = Some w' \<and> world_ok w'
    \<and> w_mgr w' = (case norm_arg (Some a) of None \<Rightarrow> w_mgr w | Some n \<Rightarrow> delivered_mgr clk n (w_mgr w))"
proof (cases "norm_arg (Some a)")
  case None
  then show ?thesis using ok by (simp add: deliver_and_report_def deliver_none_id)
next
  case (Some n)
  have m: "mgr_ok (w_mgr w)" "wf_mgr (w_mgr w)" "ghosts_ok (w_mgr w)" and q: "queue_ok (w_queue w)"
    using ok by (simp_all add: world_ok_def mgr_ok_def)
  note eq = state_deliver_eq [OF m(2,3) Some, of clk "w_queue w"]
  have "queue_ok (push_all (\<lambda>e. event_queue_push (Some e))
      (ghost_events clk n (g_ghost_messages (w_mgr w)) 0 (g_ghost_count (w_mgr w))) (w_queue w))"
    by (rule push_all_queue_ok [OF q ghost_events_fit [OF m(2,3)]])
  then show ?thesis
    using Some delivered_mgr_ok [OF m(1) Some] delivered_ghosts_ok [OF m(2,3)]
    by (simp add: deliver_and_report_def eq world_ok_def event_notify_cli_def Let_def)
qed

section \<open>The abstract effect of an event\<close>

fun event_subject :: "Event \<Rightarrow> string" where
  "event_subject e =
    (if ev_type e \<in> {EVENT_ADD_REQUEST, EVENT_ACCEPT_CONFIRM, EVENT_REJECT_CONFIRM, EVENT_MESSAGE_RECEIVED}
     then ev_from_id e else ev_peer_id e)"

definition event_spec :: "clock \<Rightarrow> Event \<Rightarrow> nat \<Rightarrow> Peer option \<Rightarrow> Peer option" where
  "event_spec clk e k =
    (case ev_type e of
       EVENT_ADD_REQUEST \<Rightarrow> map_option (\<lambda>p. p\<lparr>p_state := PEER_REQUEST_RECEIVED, p_last_seen := clk 0,
         p_ip := ev_ip e, p_port := ev_port e\<rparr>)
     | EVENT_ACCEPT_CONFIRM \<Rightarrow> map_option (\<lambda>p. settle k (p\<lparr>p_state := PEER_FRIEND, p_friend_since := clk 1,
         p_online := True, p_last_seen := clk 2, p_ip := ev_ip e, p_port := ev_port e\<rparr>))
     | EVENT_REJECT_CONFIRM \<Rightarrow> (\<lambda>_. None)
     | EVENT_MESSAGE_RECEIVED \<Rightarrow> map_option (\<lambda>p. p\<lparr>p_online := True, p_last_seen := clk 1\<rparr>)
     | EVENT_PEER_ONLINE \<Rightarrow> map_option (\<lambda>p. settle k (p\<lparr>p_online := True, p_last_seen := clk 0,
         p_ip := ev_ip e, p_port := ev_port e\<rparr>))
     | EVENT_PEER_OFFLINE \<Rightarrow> map_option (\<lambda>p. p\<lparr>p_online := False, p_last_seen := clk 0\<rparr>)
     | EVENT_STATUS_UPDATE \<Rightarrow> map_option (\<lambda>p. p\<lparr>
         p_ip := (if ev_ip e \<noteq> [] then ev_ip e else p_ip p),
         p_port := (if ev_port e > 0 then ev_port e else p_port p),
         p_is_secure := (ev_is_secure e \<or> p_is_secure p)\<rparr>)
     | EVENT_DHT_FOUND \<Rightarrow> map_option (\<lambda>p. p\<lparr>p_ip := ev_ip e, p_port := ev_port e,
         p_online := True, p_last_seen := clk 0\<rparr>)
     | EVENT_DHT_NOT_FOUND \<Rightarrow> map_option (\<lambda>p. p\<lparr>p_online := False, p_last_seen := clk 0\<rparr>)
     | _ \<Rightarrow> (\<lambda>p. p))"

text \<open>The directory after an event, for a subject with and without a usable id.\<close>

definition dir_after :: "clock \<Rightarrow> Event \<Rightarrow> mgr \<Rightarrow> string \<Rightarrow> Peer option" where
  "dir_after clk e m = (case norm_arg (Some (event_subject e)) of
     None \<Rightarrow> directory m
   | Some n \<Rightarrow> (directory m)(n := event_spec clk e (length (waiting n m)) (directory m n)))"

lemma dir_after_setters:
  assumes ok: "mgr_ok m" and a: "event_subject e = a" and fs: "\<forall>f \<in> set fs. keeps_id f"
    and sp: "\<And>k. event_spec clk e k = map_option (fold (\<lambda>f. f) fs)"
  shows "directory (setters a fs m) = dir_after clk e m"
proof (cases "norm_arg (Some a)")
  case None
  then show ?thesis using a by (simp add: setters_bad_id dir_after_def)
next
  case (Some n)
  then show ?thesis using setters_directory [OF Some fs ok] a sp by (simp add: dir_after_def)
qed

lemma dir_after_deliver:
  assumes ok: "mgr_ok m" and a: "event_subject e = a" and fs: "\<forall>f \<in> set fs. keeps_id f"
    and sp: "\<And>k. event_spec clk e k = map_option (\<lambda>p. settle k (fold (\<lambda>f. f) fs p))"
  shows "directory (case norm_arg (Some a) of None \<Rightarrow> setters a fs m
    | Some n \<Rightarrow> delivered_mgr clk' n (setters a fs m)) = dir_after clk e m"
proof (cases "norm_arg (Some a)")
  case None
  then show ?thesis using a by (simp add: setters_bad_id dir_after_def)
next
  case (Some n)
  have w: "waiting n (setters a fs m) = waiting n m" by (simp add: waiting_def)
  show ?thesis
    using setters_directory [OF Some fs ok] delivered_directory [OF setters_mgr_ok [OF fs ok] Some, of clk'] Some a sp
    by (simp add: dir_after_def w option.map_comp comp_def)
qed

section \<open>The handlers\<close>

text \<open>Each handler returns 0, keeps the invariant and has the abstract effect.\<close>

definition handles :: "clock \<Rightarrow> Event \<Rightarrow> world \<Rightarrow> (int \<times> world) option \<Rightarrow> bool" where
  "handles clk e w r \<longleftrightarrow> (\<exists>w'. r = Some (0, w') \<and> world_ok w' \<and> directory (w_mgr w') = dir_after clk e (w_mgr w))"

lemma handles_setters:
  assumes ok: "world_ok w" and a: "event_subject e = a" and fs: "\<forall>f \<in> set fs. keeps_id f"
    and sp: "\<And>k. event_spec clk e k = map_option (fold (\<lambda>f. f) fs)"
    and w': "w_mgr w' = setters a fs (w_mgr w)" "w_queue w' = w_queue w"
  shows "handles clk e w (Some (0, w'))"
proof -
  have m: "mgr_ok (w_mgr w)" using ok by (simp add: world_ok_def)
  have "world_ok w'" using ok w' setters_mgr_ok [OF fs m] by (simp add: world_ok_def)
  with dir_after_setters [OF m a fs sp] w' show ?thesis by (simp add: handles_def)
qed

lemma handles_deliver:
  assumes ok: "world_ok w" and a: "event_subject e = a" and fs: "\<forall>f \<in> set fs. keeps_id f"
    and sp: "\<And>k. event_spec clk e k = map_option (\<lambda>p. settle k (fold (\<lambda>f. f) fs p))"
    and g: "\<And>w2. \<exists>w3. g w2 = Some (0, w3) \<and> w_mgr w3 = w_mgr w2 \<and> w_queue w3 = w_queue w2"
  shows "handles clk e w (deliver_and_report clk' a (w\<lparr>w_mgr := setters a fs (w_mgr w)\<rparr>) \<bind> g)"
proof -
  have m: "mgr_ok (w_mgr w)" using ok by (simp add: world_ok_def)
  have "world_ok (w\<lparr>w_mgr := setters a fs (w_mgr w)\<rparr>)"
    using ok setters_mgr_ok [OF fs m] by (simp add: world_ok_def)
  moreover have "w_mgr (w\<lparr>w_mgr := setters a fs (w_mgr w)\<rparr>) = setters a fs (w_mgr w)" by simp
  ultimately obtain w2
    where w2: "deliver_and_report clk' a (w\<lparr>w_mgr := setters a fs (w_mgr w)\<rparr>) = Some w2" "world_ok w2"
      "w_mgr w2 = (case norm_arg (Some a) of None \<Rightarrow> setters a fs (w_mgr w)
         | Some n \<Rightarrow> delivered_mgr clk' n (setters a fs (w_mgr w)))"
    using deliver_and_report_spec [of "w\<lparr>w_mgr := setters a fs (w_mgr w)\<rparr>" clk' a] by metis
  from g [of w2] obtain w3 where w3: "g w2 = Some (0, w3)" "w_mgr w3 = w_mgr w2" "w_queue w3 = w_queue w2"
    by blast
  have "world_ok w3" using w2(2) w3 by (simp add: world_ok_def)
  with w2 w3 dir_after_deliver [OF m a fs sp, of clk'] show ?thesis by (simp add: handles_def)
qed

lemma add_request_handles:
  assumes ok: "world_ok w" and fit: "event_fits e" and ty: "ev_type e = EVENT_ADD_REQUEST"
  shows "handles clk e w (event_handle_add_request clk (Some e) w)"
proof -
  let ?fs = "[update_record clk PEER_REQUEST_RECEIVED, \<lambda>p. p\<lparr>p_ip := ev_ip e\<rparr>, \<lambda>p. p\<lparr>p_port := ev_port e\<rparr>]"
  have ip: "length (ev_ip e) < 16" using fit by (simp add: event_fits_def)
  obtain w' where eq: "event_handle_add_request clk (Some e) w = Some (0, w')"
    and w': "w_mgr w' = setters (ev_from_id e) ?fs (w_mgr w)" "w_queue w' = w_queue w"
    using ip by (simp add: event_handle_add_request_def state_update_peer_with_peer set_ip_setters
        state_set_port_def setters_Cons Let_def case_prod_beta)
  show ?thesis unfolding eq
    by (rule handles_setters [OF ok _ _ _ w'])
      (use ty in \<open>auto simp: event_spec_def update_record_def keeps_id_def fun_eq_iff comp_def\<close>)
qed

lemma accept_confirm_handles:
  assumes ok: "world_ok w" and fit: "event_fits e" and ty: "ev_type e = EVENT_ACCEPT_CONFIRM"
  shows "handles clk e w (event_handle_accept_confirm clk (Some e) w)"
proof -
  let ?fs = "[update_record clk PEER_FRIEND, \<lambda>p. p\<lparr>p_online := True, p_last_seen := clk 2\<rparr>,
    \<lambda>p. p\<lparr>p_ip := ev_ip e\<rparr>, \<lambda>p. p\<lparr>p_port := ev_port e\<rparr>]"
  have ip: "length (ev_ip e) < 16" using fit by (simp add: event_fits_def)
  have eq: "event_handle_accept_confirm clk (Some e) w
    = deliver_and_report (clk_after 3 clk) (ev_from_id e)
        (w\<lparr>w_mgr := setters (ev_from_id e) ?fs (w_mgr w)\<rparr>) \<bind>
      (\<lambda>w. let w = event_notify_cli (''[ORCA] '' @ ev_from_id e @ '' accepted your request!'' @ nl) w;
          w = event_notify_cli (''[ORCA] Friendship with '' @ ev_from_id e @ '' is now accepted.'' @ nl) w;
          w = event_notify_cli (''[ORCA] Use '' @ [CHR 0x27] @ ''./orcashi chat '' @ ev_from_id e @ [CHR 0x27]
                @ '' to start chatting.'' @ nl) w in Some (0, w))"
    using ip by (simp add: event_handle_accept_confirm_def state_update_peer_with_peer set_ip_setters
        state_set_online_def clk_after_def numeral_2_eq_2 state_set_port_def setters_Cons Let_def case_prod_beta)
  show ?thesis unfolding eq
    by (rule handles_deliver [OF ok])
      (use ty in \<open>auto simp: event_spec_def update_record_def keeps_id_def fun_eq_iff comp_def Let_def\<close>)
qed

lemma peer_online_handles:
  assumes ok: "world_ok w" and fit: "event_fits e" and ty: "ev_type e = EVENT_PEER_ONLINE"
  shows "handles clk e w (event_handle_peer_online clk (Some e) w)"
proof -
  let ?fs = "[\<lambda>p. p\<lparr>p_online := True, p_last_seen := clk 0\<rparr>,
    \<lambda>p. p\<lparr>p_ip := ev_ip e\<rparr>, \<lambda>p. p\<lparr>p_port := ev_port e\<rparr>]"
  have ip: "length (ev_ip e) < 16" using fit by (simp add: event_fits_def)
  have eq: "event_handle_peer_online clk (Some e) w
    = deliver_and_report (clk_after 1 clk) (ev_peer_id e)
        (w\<lparr>w_mgr := setters (ev_peer_id e) ?fs (w_mgr w)\<rparr>) \<bind>
      (\<lambda>w. Some (0, event_notify_cli (''[ORCA] '' @ ev_peer_id e @ '' is now online!'' @ nl) w))"
    using ip by (simp add: event_handle_peer_online_def set_ip_setters
        state_set_online_def state_set_port_def setters_Cons Let_def case_prod_beta)
  show ?thesis unfolding eq
    by (rule handles_deliver [OF ok]) (use ty in \<open>auto simp: event_spec_def keeps_id_def fun_eq_iff comp_def\<close>)
qed

lemma dht_found_handles:
  assumes ok: "world_ok w" and fit: "event_fits e" and ty: "ev_type e = EVENT_DHT_FOUND"
  shows "handles clk e w (event_handle_dht_found clk (Some e) w)"
proof -
  let ?fs = "[\<lambda>p. p\<lparr>p_ip := ev_ip e\<rparr>, \<lambda>p. p\<lparr>p_port := ev_port e\<rparr>,
    \<lambda>p. p\<lparr>p_online := True, p_last_seen := clk 0\<rparr>]"
  have ip: "length (ev_ip e) < 16" using fit by (simp add: event_fits_def)
  have eq: "event_handle_dht_found clk (Some e) w = Some (0, w\<lparr>w_mgr := setters (ev_peer_id e) ?fs (w_mgr w)\<rparr>)"
    using ip by (simp add: event_handle_dht_found_def set_ip_setters
        state_set_online_def state_set_port_def setters_Cons Let_def case_prod_beta)
  show ?thesis unfolding eq
    by (rule handles_setters [OF ok, where fs = ?fs])
      (use ty in \<open>auto simp: event_spec_def keeps_id_def fun_eq_iff comp_def\<close>)
qed

lemma status_update_handles:
  assumes ok: "world_ok w" and fit: "event_fits e" and ty: "ev_type e = EVENT_STATUS_UPDATE"
  shows "handles clk e w (event_handle_status_update (Some e) w)"
proof -
  let ?fs = "(if ev_ip e \<noteq> [] then [\<lambda>p. p\<lparr>p_ip := ev_ip e\<rparr>] else [])
    @ (if ev_port e > 0 then [\<lambda>p. p\<lparr>p_port := ev_port e\<rparr>] else [])
    @ (if ev_is_secure e then [\<lambda>p. p\<lparr>p_is_secure := True\<rparr>] else [])"
  have ip: "length (ev_ip e) < 16" using fit by (simp add: event_fits_def)
  have eq: "event_handle_status_update (Some e) w = Some (0, w\<lparr>w_mgr := setters (ev_peer_id e) ?fs (w_mgr w)\<rparr>)"
    using ip by (simp add: event_handle_status_update_def set_ip_setters state_set_secure_def
        state_set_port_def setters_Cons Let_def)
  show ?thesis unfolding eq
    by (rule handles_setters [OF ok, where fs = ?fs])
      (use ty in \<open>auto simp: event_spec_def keeps_id_def fun_eq_iff comp_def\<close>)
qed

lemma offline_handles:
  assumes ok: "world_ok w"
  shows "ev_type e = EVENT_PEER_OFFLINE \<Longrightarrow> handles clk e w (event_handle_peer_offline clk (Some e) w)"
    and "ev_type e = EVENT_DHT_NOT_FOUND \<Longrightarrow> handles clk e w (event_handle_dht_not_found clk (Some e) w)"
  unfolding event_handle_peer_offline_def event_handle_dht_not_found_def option.case
  by (rule handles_setters [OF ok, where fs = "[\<lambda>p. p\<lparr>p_online := False, p_last_seen := clk 0\<rparr>]"];
      simp add: event_spec_def keeps_id_def fun_eq_iff comp_def setters_Cons state_set_online_def)+

lemma quiet_handles:
  assumes ok: "world_ok w"
  shows "ev_type e = EVENT_GHOST_DELIVERED \<Longrightarrow> handles clk e w (event_handle_ghost_delivered (Some e) w)"
    and "ev_type e = EVENT_ERROR \<Longrightarrow> handles clk e w (event_handle_error (Some e) w)"
  unfolding event_handle_ghost_delivered_def event_handle_error_def option.case
  by (rule handles_setters [OF ok, where fs = "[]"]; simp add: event_spec_def option.map_id fun_eq_iff)+

lemma reject_confirm_handles:
  assumes ok: "world_ok w" and ty: "ev_type e = EVENT_REJECT_CONFIRM"
  shows "handles clk e w (event_handle_reject_confirm (Some e) w)"
proof -
  let ?m = "snd (state_remove_peer (Some (ev_from_id e)) (w_mgr w))"
  have m: "mgr_ok (w_mgr w)" using ok by (simp add: world_ok_def)
  have g: "g_ghost_messages ?m = g_ghost_messages (w_mgr w)"
    by (simp add: state_remove_peer_def split: option.splits)
  have "directory ?m = dir_after clk e (w_mgr w)"
  proof (cases "norm_arg (Some (ev_from_id e))")
    case None
    then show ?thesis using ty by (simp add: dir_after_def state_remove_peer_def)
  next
    case (Some n)
    then show ?thesis using peers.remove_lookup [OF m Some] ty by (simp add: dir_after_def event_spec_def)
  qed
  with ok peers.remove_invar [OF m] g show ?thesis
    by (simp add: handles_def event_handle_reject_confirm_def world_ok_def event_notify_cli_def ghosts_ok_def)
qed

lemma message_received_handles:
  assumes ok: "world_ok w" and ty: "ev_type e = EVENT_MESSAGE_RECEIVED"
  shows "handles clk e w (event_handle_message_received clk (Some e) w)"
proof -
  let ?fs = "[\<lambda>p. p\<lparr>p_online := True, p_last_seen := clk 0\<rparr>, \<lambda>p. p\<lparr>p_last_seen := clk 1\<rparr>]"
  let ?m = "setters (ev_from_id e) ?fs (w_mgr w)"
  let ?m' = "snd (state_add_message (Some (ev_from_id e)) (Some (ev_message e)) ?m)"
  have m: "mgr_ok (w_mgr w)" using ok by (simp add: world_ok_def)
  have keeps: "\<forall>f \<in> set ?fs. keeps_id f" by auto
  have m': "mgr_ok ?m" using keeps m by (rule setters_mgr_ok)
  have msg: "directory ?m' = directory ?m" "mgr_ok ?m'" "ghosts_ok ?m' = ghosts_ok ?m"
    using m' by (auto simp: state_add_message_def mgr_ok_def wf_mgr_def ids_ok_def live_peers_def
        directory_def ghosts_ok_def fun_eq_iff)
  have eq: "event_handle_message_received clk (Some e) w
    = Some (0, event_notify_cli (''['' @ ev_from_id e @ ''] '' @ ev_message e @ nl) (w\<lparr>w_mgr := ?m'\<rparr>))"
    by (simp add: event_handle_message_received_def state_set_online_def state_update_last_seen_def
        clk_after_def setters_Cons Let_def)
  have "directory ?m = dir_after clk e (w_mgr w)"
    by (rule dir_after_setters [OF m]) (use ty in \<open>auto simp: event_spec_def fun_eq_iff comp_def\<close>)
  with ok msg show ?thesis
    by (simp add: eq handles_def world_ok_def event_notify_cli_def)
qed

text \<open>The dispatcher.\<close>

lemma event_process_handles:
  assumes "world_ok w" and "event_fits e" and "ev_type e \<noteq> EVENT_NONE"
  shows "handles clk e w (event_process clk (Some e) w)"
  using assms
  by (cases "ev_type e")
    (simp_all add: event_process_def add_request_handles accept_confirm_handles peer_online_handles
      dht_found_handles status_update_handles offline_handles quiet_handles reject_confirm_handles
      message_received_handles)

end
