(* ===== verification/Peer_Properties.thy ===== *)
theory Peer_Properties
  imports Event_Effects
begin

text \<open>
  The properties of the core: the event queue, the peer directory, the ghost messages, the
  state file and the event loop, each with a witness at a concrete state.
\<close>

section \<open>A sample world\<close>

definition sample_mgr :: mgr where
  "sample_mgr = snd (state_add_peer (\<lambda>_. 20) (Some ''076'')
     (snd (state_add_peer (\<lambda>_. 10) (Some ''<075>'') zero_mgr)))"

definition sample_world :: world where
  "sample_world = initial_world\<lparr>w_mgr := sample_mgr, w_running := True\<rparr>"

definition sample_event :: "EventType \<Rightarrow> Event" where
  "sample_event ty = zero_event\<lparr>ev_type := ty, ev_peer_id := ''075'', ev_from_id := ''075'',
     ev_message := ''hello'', ev_ip := ''192.168.1.2'', ev_port := 9000\<rparr>"

lemma sample_mgr_ok: "mgr_ok sample_mgr" "wf_mgr sample_mgr"
  unfolding sample_mgr_def
  using state_add_peer_ok [OF state_add_peer_ok [OF zero_mgr_ok]] by (auto simp: mgr_ok_def)

lemma add_peer_ghosts_ok [simp]: "ghosts_ok (snd (state_add_peer clk a m)) = ghosts_ok m"
  by (simp add: state_add_peer_def ghosts_ok_def split: option.splits)

lemma sample_ghosts_ok: "ghosts_ok sample_mgr"
  by (simp add: sample_mgr_def zero_mgr_ghosts_ok)

lemma sample_world_ok: "world_ok sample_world"
  by (simp add: sample_world_def world_ok_def sample_mgr_ok sample_ghosts_ok initial_world_def empty_queue_ok)

lemma sample_event_fits: "event_fits (sample_event ty)"
  by (simp add: sample_event_def event_fits_def zero_event_def)

lemma norm_075: "norm_arg (Some ''<075>'') = Some ''075''" "norm_arg (Some ''075'') = Some ''075''"
  "norm_arg (Some ''076'') = Some ''076''" "norm_arg (Some ''001'') = Some ''001''"
  "norm_arg (Some ''002'') = Some ''002''"
  by (simp_all add: norm_arg_def normalize_id_def)

lemma zero_directory: "directory zero_mgr = Map.empty"
  by (simp add: fun_eq_iff directory_def live_peers_def zero_mgr_def)

lemma zero_peer_cell: "i < MAX_PEERS \<Longrightarrow> g_peers zero_mgr ! i = zero_peer"
  by (simp add: zero_mgr_def)

lemma first_added: "state_add_peer clk (Some ''<075>'') zero_mgr = (0, added clk ''075'' zero_mgr)"
  by (simp add: state_add_peer_cases [OF zero_mgr_ok norm_075(1)] zero_directory)
    (simp add: zero_mgr_def MAX_PEERS_def)

lemma first_added_ok: "mgr_ok (added clk ''075'' zero_mgr)"
  using state_add_peer_ok [OF zero_mgr_ok, of clk "Some ''<075>''"] by (simp add: first_added)

lemma first_directory: "directory (added clk ''075'' zero_mgr) = [''075'' \<mapsto> fresh_record clk ''075'' zero_peer]"
  using added_spec(2) [OF zero_mgr_ok norm_075(1), of clk]
  by (simp add: zero_directory) (simp add: zero_mgr_def MAX_PEERS_def)

lemma sample_mgr_added: "sample_mgr = added (\<lambda>_. 20) ''076'' (added (\<lambda>_. 10) ''075'' zero_mgr)"
  unfolding sample_mgr_def first_added snd_conv
  by (simp add: state_add_peer_cases [OF first_added_ok norm_075(3)] first_directory)
    (simp add: added_def zero_mgr_def MAX_PEERS_def)

lemma sample_live: "live_peers sample_mgr = [fresh_record (\<lambda>_. 10) ''075'' zero_peer, fresh_record (\<lambda>_. 20) ''076'' zero_peer]"
  unfolding sample_mgr_added
  by (simp add: added_def live_peers_def zero_mgr_def MAX_PEERS_def set_peer_def numeral_eq_Suc)

lemma sample_directory: "directory sample_mgr
  = [''075'' \<mapsto> fresh_record (\<lambda>_. 10) ''075'' zero_peer, ''076'' \<mapsto> fresh_record (\<lambda>_. 20) ''076'' zero_peer]"
  by (auto simp: directory_def sample_live fun_eq_iff)

section \<open>The event loop\<close>

lemma event_process_none: "ev_type e = EVENT_NONE \<Longrightarrow> event_process clk (Some e) w = Some (-1, w)"
  by (simp add: event_process_def)

text \<open>
  C1: processing an event whose strings fit their arrays returns without overrunning a buffer,
  with 0 for every type of event but \<open>EVENT_NONE\<close>, which is answered with -1 and changes
  nothing.  It keeps the invariants of the peer table, the messages and the queue, and changes
  the directory exactly as the abstract specification \<open>event_spec\<close> says, at the event's
  subject and nowhere else.
\<close>

theorem event_process_refines_spec:
  assumes "world_ok w" and "event_fits e"
  shows "\<exists>w'. event_process clk (Some e) w = Some (if ev_type e = EVENT_NONE then -1 else 0, w') \<and> world_ok w'
    \<and> directory (w_mgr w') = dir_after clk e (w_mgr w) \<and> (ev_type e = EVENT_NONE \<longrightarrow> w' = w)"
proof (cases "ev_type e = EVENT_NONE")
  case True
  then have "directory (w_mgr w) = dir_after clk e (w_mgr w)"
    by (simp add: dir_after_def event_spec_def split: option.split)
  then show ?thesis using True assms(1) event_process_none by simp
next
  case False
  then show ?thesis using event_process_handles [OF assms False, of clk] by (simp add: handles_def)
qed

theorem event_process_refines_spec_witness:
  "\<exists>w'. event_process (\<lambda>_. 30) (Some (sample_event EVENT_PEER_ONLINE)) sample_world = Some (0, w') \<and> world_ok w'
    \<and> directory (w_mgr w') = dir_after (\<lambda>_. 30) (sample_event EVENT_PEER_ONLINE) (w_mgr sample_world)"
  using event_process_refines_spec [OF sample_world_ok sample_event_fits, of "\<lambda>_. 30" EVENT_PEER_ONLINE]
  by (auto simp: sample_event_def)

lemma event_process_safe:
  assumes "world_ok w" and "event_fits e"
  shows "\<exists>rc w'. event_process clk (Some e) w = Some (rc, w') \<and> world_ok w'"
  using event_process_handles [OF assms, of clk] event_process_none [of e clk w] assms(1)
  by (cases "ev_type e = EVENT_NONE") (auto simp: handles_def)

definition pop_returns :: "wait_result list \<Rightarrow> world \<Rightarrow> bool" where
  "pop_returns waits w \<longleftrightarrow> event_queue_pop waits True 1000 (w_running w) (w_queue w) \<noteq> None"

lemma event_loop_round_safe:
  assumes ok: "world_ok w" and ws: "waits_ok waits" and ret: "pop_returns waits w"
  shows "\<exists>w'. event_loop_round waits clk w = Some w' \<and> world_ok w'"
proof -
  obtain rc ev running q where p: "event_queue_pop waits True 1000 (w_running w) (w_queue w) = Some (rc, ev, running, q)"
    using ret by (auto simp: pop_returns_def)
  have q: "queue_ok q \<and> (case ev of None \<Rightarrow> rc = -1 | Some e \<Rightarrow> rc = 0 \<and> event_fits e)"
    by (rule pop_queue_ok [OF _ ws p]) (use ok in \<open>simp add: world_ok_def\<close>)
  let ?w = "w\<lparr>w_queue := q, w_running := running\<rparr>"
  have w: "world_ok ?w" using ok q by (simp add: world_ok_def)
  show ?thesis
  proof (cases ev)
    case None
    with p q w show ?thesis by (simp add: event_loop_round_def Let_def)
  next
    case (Some e)
    with q have "event_fits e" by simp
    from event_process_safe [OF w this, of clk] p q Some show ?thesis
      by (auto simp: event_loop_round_def Let_def)
  qed
qed

inductive loop_reaches :: "world \<Rightarrow> world \<Rightarrow> bool" where
  loop_start: "loop_reaches w w"
| loop_round: "loop_reaches w w1 \<Longrightarrow> w_running w1 \<Longrightarrow> waits_ok waits \<Longrightarrow>
    event_loop_round waits clk w1 = Some w2 \<Longrightarrow> loop_reaches w w2"
| loop_push: "loop_reaches w w1 \<Longrightarrow> event_fits e \<Longrightarrow> push_event e w1 = (rc, w2) \<Longrightarrow> loop_reaches w w2"
| loop_stop: "loop_reaches w w1 \<Longrightarrow> loop_reaches w (event_loop_stop w1)"

inductive_cases loop_reaches_from: "loop_reaches w w2"

lemma push_event_ok: "world_ok w \<Longrightarrow> event_fits e \<Longrightarrow> push_event e w = (rc, w') \<Longrightarrow> world_ok w'"
  using push_queue_ok [of "w_queue w" e]
  by (auto simp: push_event_def world_ok_def case_prod_beta)

lemma event_loop_round_returned: "event_loop_round waits clk w = Some w' \<Longrightarrow> pop_returns waits w"
  by (auto simp: event_loop_round_def pop_returns_def split: Option.bind_splits)

lemma loop_reaches_world_ok: "loop_reaches w w' \<Longrightarrow> world_ok w \<Longrightarrow> world_ok w'"
proof (induction rule: loop_reaches.induct)
  case (loop_round w w1 waits clk w2)
  then show ?case
    using event_loop_round_safe [OF _ loop_round(3) event_loop_round_returned [OF loop_round(4)], of clk] by auto
next
  case (loop_push w w1 e rc w2)
  then show ?case by (blast intro: push_event_ok)
qed (simp_all add: event_loop_stop_def world_ok_def)

text \<open>
  C2: the whole event loop is safe: over any number of rounds, whatever the other threads push
  while it waits (as long as they push events that fit), it never overruns a buffer and keeps
  every invariant; a round is undefined only while the pop is still blocked.
\<close>

theorem event_loop_keeps_world_ok:
  assumes "loop_reaches w w'" and "world_ok w"
  shows "world_ok w'
    \<and> (\<forall>waits clk. waits_ok waits \<and> pop_returns waits w' \<longrightarrow> event_loop_round waits clk w' \<noteq> None)"
  using loop_reaches_world_ok [OF assms] event_loop_round_safe by (metis option.distinct(1))

theorem event_loop_keeps_world_ok_witness:
  "loop_reaches sample_world (event_loop_stop (snd (push_event (sample_event EVENT_ADD_REQUEST) sample_world)))
   \<and> world_ok (event_loop_stop (snd (push_event (sample_event EVENT_ADD_REQUEST) sample_world)))"
proof -
  have r: "loop_reaches sample_world (event_loop_stop (snd (push_event (sample_event EVENT_ADD_REQUEST) sample_world)))"
    by (rule loop_stop, rule loop_push [OF loop_start sample_event_fits], rule surjective_pairing)
  from event_loop_keeps_world_ok [OF r sample_world_ok] r show ?thesis by blast
qed

section \<open>The peer directory\<close>

text \<open>
  C3: adding a peer is insertion into a map: a NULL or empty id is refused, an id already
  present (with or without angle brackets) leaves the table as it is and succeeds, a full table
  refuses, and otherwise the directory gains exactly the new id, offline and unknown.
\<close>

theorem state_add_peer_refines_insert:
  assumes "mgr_ok m"
  shows "case norm_arg pid of
      None \<Rightarrow> state_add_peer clk pid m = (-1, m)
    | Some n \<Rightarrow> (let (rc, m') = state_add_peer clk pid m in
        mgr_ok m' \<and>
        (if directory m n \<noteq> None then rc = 0 \<and> m' = m
         else if MAX_PEERS \<le> g_peer_count m then rc = -1 \<and> m' = m
         else rc = 0 \<and> (\<exists>p. directory m' = (directory m)(n \<mapsto> p) \<and> p_id p = n \<and> p_state p = PEER_UNKNOWN
                \<and> \<not> p_online p \<and> \<not> p_busy p \<and> p_ghost_count p = 0 \<and> p_ip p = [] \<and> p_port p = 0)))"
proof (cases "norm_arg pid")
  case None
  then show ?thesis by (simp add: state_add_peer_def)
next
  case (Some n)
  show ?thesis
  proof (cases "directory m n = None \<and> g_peer_count m < MAX_PEERS")
    case True
    then show ?thesis
      using added_spec [OF assms Some, of clk] Some
      by (auto simp: state_add_peer_cases [OF assms Some] fresh_record_def
          intro!: exI [of _ "fresh_record clk n (g_peers m ! g_peer_count m)"])
  next
    case False
    then show ?thesis using assms Some by (auto simp: state_add_peer_cases [OF assms Some])
  qed
qed

theorem state_add_peer_refines_insert_witness:
  "\<exists>p. directory (snd (state_add_peer (\<lambda>_. 10) (Some ''<001>'') sample_mgr))
     = (directory sample_mgr)(''001'' \<mapsto> p) \<and> p_id p = ''001'' \<and> p_state p = PEER_UNKNOWN"
proof -
  have n: "norm_arg (Some ''<001>'') = Some ''001''" by (simp add: norm_arg_def normalize_id_def)
  have c: "g_peer_count sample_mgr = 2" by (simp add: sample_mgr_added added_def zero_mgr_def)
  show ?thesis
    using state_add_peer_refines_insert [OF sample_mgr_ok(1), where pid = "Some ''<001>''" and clk = "\<lambda>_. 10"]
    by (auto simp: n c sample_directory MAX_PEERS_def Let_def case_prod_beta)
qed

text \<open>
  C4: removing a peer is deletion from a map: it succeeds exactly when the id is present,
  afterwards the id is gone and every other peer is found as before, although the loop moves
  the cells; a second removal fails.
\<close>

theorem state_remove_peer_refines_delete:
  assumes "mgr_ok m" and "norm_arg pid = Some n"
  shows "directory (snd (state_remove_peer pid m)) = (directory m)(n := None)
    \<and> fst (state_remove_peer pid m) = (if directory m n = None then -1 else 0)
    \<and> fst (state_remove_peer pid (snd (state_remove_peer pid m))) = -1
    \<and> mgr_ok (snd (state_remove_peer pid m))"
  using peers.remove_lookup [OF assms] peers.remove_rc [OF assms] peers.remove_twice [OF assms]
    peers.remove_invar [OF assms(1)] by blast

theorem state_remove_peer_refines_delete_witness:
  "fst (state_remove_peer (Some ''<075>'') sample_mgr) = 0
   \<and> directory (snd (state_remove_peer (Some ''<075>'') sample_mgr))
     = [''076'' \<mapsto> fresh_record (\<lambda>_. 20) ''076'' zero_peer]"
  using state_remove_peer_refines_delete [OF sample_mgr_ok(1) norm_075(1)]
  by (auto simp: sample_directory fun_eq_iff)

text \<open>
  Changing the state of a peer touches that peer only, stamps it as seen, and stamps the
  start of the friendship exactly when it becomes a friend; \<open>state_is_friend\<close> then answers
  accordingly, for every spelling of the id.
\<close>

theorem state_update_peer_sets_state:
  assumes "mgr_ok m" and "norm_arg pid = Some n" and "directory m n = Some p"
  shows "fst (state_update_peer clk pid st m) = 0
    \<and> (\<exists>p'. directory (snd (state_update_peer clk pid st m)) = (directory m)(n \<mapsto> p')
        \<and> p_state p' = st \<and> p_last_seen p' = clk 0
        \<and> p_friend_since p' = (if st = PEER_FRIEND then clk 1 else p_friend_since p)
        \<and> p_online p' = p_online p \<and> p_ghost_count p' = p_ghost_count p)
    \<and> (\<forall>pid'. norm_arg pid' = Some n \<longrightarrow>
        state_is_friend pid' (snd (state_update_peer clk pid st m)) = (st = PEER_FRIEND))"
proof -
  let ?m = "snd (state_update_peer clk pid st m)"
  have k: "keeps_id (update_record clk st)" by auto
  have d: "directory ?m = (directory m)(n \<mapsto> update_record clk st p)"
    using peers.modify_lookup [OF assms(1,2) k] assms(3) by (simp add: state_update_peer_with_peer)
  have ok: "mgr_ok ?m" using assms(1) by (rule setters_ok)
  have f: "state_is_friend pid' ?m = (st = PEER_FRIEND)" if n': "norm_arg pid' = Some n" for pid'
  proof -
    have "map_option ((!) (g_peers ?m)) (state_get_peer pid' ?m) = Some (update_record clk st p)"
      using state_get_peer_directory [OF ok n'] d by simp
    then show ?thesis
      by (auto simp: state_is_friend_def update_record_def Let_def split: if_splits)
  qed
  from peers.modify_rc [OF assms(1,2) k] assms(3) have "fst (state_update_peer clk pid st m) = 0"
    by (simp add: state_update_peer_with_peer)
  with d f show ?thesis
    by (auto simp: update_record_def Let_def intro!: exI [of _ "update_record clk st p"])
qed

theorem state_update_peer_sets_state_witness:
  "state_is_friend (Some ''<075>'') (snd (state_update_peer (\<lambda>_. 50) (Some ''075'') PEER_FRIEND sample_mgr))"
  using state_update_peer_sets_state [OF sample_mgr_ok(1) norm_075(2), of _ "\<lambda>_. 50" PEER_FRIEND]
  by (simp add: sample_directory norm_075)

text \<open>
  The setters look the peer up in one critical section and write to the cell in another.
  If another thread removes a peer from an earlier cell in between, the write is lost for the
  peer it was meant for and hits the peer in the next cell instead.
\<close>

theorem setter_write_after_remove_hits_next_peer:
  assumes "mgr_ok m" and "norm_arg b = Some nb" and "norm_arg a = Some na"
    and "state_get_peer b m = Some i" and "state_get_peer a m = Some j"
    and "j < i" and "i + 1 < g_peer_count m" and "\<And>p. p_id (f p) = p_id p"
  defines "m' \<equiv> set_peer i f (snd (state_remove_peer a m))"
  shows "directory m' nb = directory m nb
    \<and> directory m' (p_id (g_peers m ! (i + 1))) = Some (f (g_peers m ! (i + 1)))
    \<and> p_id (g_peers m ! (i + 1)) \<noteq> nb"
proof -
  have wf: "wf_mgr m" and ids: "ids_ok m" using assms(1) by (simp_all add: mgr_ok_def)
  have pa: "peer_index m na = Some j" and pb: "peer_index m nb = Some i"
    using assms(2-5) by (simp_all add: state_get_peer_def)
  note sa = peer_index_SomeD [OF assms(1,3) pa] and sb = peer_index_SomeD [OF assms(1,2) pb]
  let ?r = "removed j m" and ?q = "g_peers m ! (i + 1)"
  have rm: "snd (state_remove_peer a m) = ?r"
    using assms(3) pa by (simp add: state_remove_peer_def removed_def)
  note r = removed_spec [OF assms(1) sa(1)]
  have wfr: "wf_mgr ?r" using r(1) by (simp add: mgr_ok_def)
  have ir: "i < g_peer_count ?r" using assms(6,7) by (simp add: removed_def)
  have "live_peers ?r ! i = live_peers m ! (i + 1)"
    using assms(6,7) sa(1) length_live_peers [OF wf]
    by (simp add: live_peers_removed [OF wf sa(1)] remove_nth_def nth_append min_def)
  then have q: "g_peers ?r ! i = ?q"
    using live_peers_nth [OF wfr ir] live_peers_nth [OF wf, of "i + 1"] assms(7) by simp
  have len: "i + 1 < length (map p_id (live_peers m))" using assms(7) length_live_peers [OF wf] by simp
  have neq: "p_id ?q \<noteq> nb" "na \<noteq> nb"
  proof -
    have d: "distinct (map p_id (live_peers m))" using ids by (simp add: ids_ok_def)
    have "p_id ?q = map p_id (live_peers m) ! (i + 1)" "nb = map p_id (live_peers m) ! i"
      "na = map p_id (live_peers m) ! j"
      using len sb(1,2) sa(1,2) live_peers_nth [OF wf] length_live_peers [OF wf] by simp_all
    moreover have "map p_id (live_peers m) ! (i + 1) \<noteq> map p_id (live_peers m) ! i"
      and "map p_id (live_peers m) ! j \<noteq> map p_id (live_peers m) ! i"
      using nth_eq_iff_index_eq [OF d len, of i] nth_eq_iff_index_eq [OF d, of j i] len assms(6) by auto
    ultimately show "p_id ?q \<noteq> nb" "na \<noteq> nb" by simp_all
  qed
  have "directory m' = (directory ?r)(p_id ?q \<mapsto> f ?q)"
    unfolding m'_def rm using directory_set_peer [OF r(1) ir, of f] assms(8) q by simp
  moreover have "directory ?r nb = directory m nb"
    using neq(2) unfolding r(2) sa(2) by simp
  ultimately show ?thesis using neq(1) by (metis fun_upd_apply)
qed

definition sample3_mgr :: mgr where
  "sample3_mgr = snd (state_add_peer (\<lambda>_. 30) (Some ''077'') sample_mgr)"

lemma sample3_ok: "mgr_ok sample3_mgr"
  unfolding sample3_mgr_def by (rule state_add_peer_ok [OF sample_mgr_ok(1)])

lemma sample3_added: "sample3_mgr = added (\<lambda>_. 30) ''077'' sample_mgr"
proof -
  have n: "norm_arg (Some ''077'') = Some ''077''" by (simp add: norm_arg_def normalize_id_def)
  have c: "g_peer_count sample_mgr = 2" by (simp add: sample_mgr_added added_def zero_mgr_def)
  show ?thesis
    unfolding sample3_mgr_def
    by (simp add: state_add_peer_cases [OF sample_mgr_ok(1) n] sample_directory c MAX_PEERS_def)
qed

lemma sample3_live: "map p_id (live_peers sample3_mgr) = [''075'', ''076'', ''077'']"
  and sample3_count: "g_peer_count sample3_mgr = 3"
proof -
  have c: "g_peer_count sample_mgr = 2" by (simp add: sample_mgr_added added_def zero_mgr_def)
  then show "g_peer_count sample3_mgr = 3" by (simp add: sample3_added added_def)
  show "map p_id (live_peers sample3_mgr) = [''075'', ''076'', ''077'']"
    using live_peers_added [OF sample_mgr_ok(2), of "\<lambda>_. 30" "''077''"] c
    by (simp add: sample3_added sample_live MAX_PEERS_def)
qed

lemma get_peer_ids:
  assumes "mgr_ok m" and "norm_arg a = Some n"
  shows "state_get_peer a m = find_index (\<lambda>k. k = n) (map p_id (live_peers m))"
  using assms peer_index_find [of m a n] by (simp add: state_get_peer_def mgr_ok_def find_index_map comp_def)

theorem setter_write_after_remove_hits_next_peer_witness:
  "directory (set_peer 1 (\<lambda>p. p\<lparr>p_online := True\<rparr>) (snd (state_remove_peer (Some ''075'') sample3_mgr)))
     (p_id (g_peers sample3_mgr ! 2)) = Some ((g_peers sample3_mgr ! 2)\<lparr>p_online := True\<rparr>)"
proof -
  have "state_get_peer (Some ''076'') sample3_mgr = Some 1" "state_get_peer (Some ''075'') sample3_mgr = Some 0"
    using get_peer_ids [OF sample3_ok norm_075(3)] get_peer_ids [OF sample3_ok norm_075(2)]
    by (simp_all add: sample3_live)
  from setter_write_after_remove_hits_next_peer [OF sample3_ok norm_075(3,2) this,
      where f = "\<lambda>p. p\<lparr>p_online := True\<rparr>"]
  show ?thesis by (simp add: sample3_count numeral_2_eq_2)
qed

text \<open>
  The cell of a removed last peer is not cleared, and \<open>state_add_peer\<close> sets every field
  but the three request and friendship times: a peer added after a friend was removed starts
  with that friend's \<open>friend_since\<close>.
\<close>

theorem added_peer_inherits_friend_since:
  assumes "mgr_ok m" and "norm_arg a = Some na" and "norm_arg b = Some nb" and "na \<noteq> nb"
    and "state_get_peer a m = Some (g_peer_count m - 1)" and "directory m nb = None"
  shows "map_option p_friend_since
      (directory (snd (state_add_peer clk b (snd (state_remove_peer a (snd (state_update_peer clk' a PEER_FRIEND m)))))) nb)
    = Some (clk' 1)"
proof -
  let ?i = "g_peer_count m - 1"
  have pa: "peer_index m na = Some ?i" using assms(2,5) by (simp add: state_get_peer_def)
  note sa = peer_index_SomeD [OF assms(1,2) pa]
  define m1 where "m1 = set_peer ?i (update_record clk' PEER_FRIEND) m"
  have u: "snd (state_update_peer clk' a PEER_FRIEND m) = m1"
    using assms(5) by (simp add: state_update_peer_with_peer with_peer_def m1_def)
  have ok1: "mgr_ok m1" unfolding m1_def by (rule set_peer_ok [OF assms(1) sa(1)]) simp
  have d1: "directory m1 = (directory m)(na \<mapsto> update_record clk' PEER_FRIEND (g_peers m ! ?i))"
    using directory_set_peer [OF assms(1) sa(1), of "update_record clk' PEER_FRIEND"] sa(2) by (simp add: m1_def)
  have "live_peers m1 ! ?i = g_peers m1 ! ?i" and c1: "g_peer_count m1 = g_peer_count m"
    using live_peers_nth [of m1 ?i] ok1 sa(1) by (simp_all add: mgr_ok_def m1_def)
  have cell: "g_peers m1 ! ?i = update_record clk' PEER_FRIEND (g_peers m ! ?i)"
    using sa(1) assms(1) by (simp add: m1_def set_peer_def mgr_ok_def wf_mgr_def)
  have "peer_index m1 na = Some ?i"
  proof -
    have "map p_id (live_peers m1) = map p_id (live_peers m)"
      using sa(1,4) assms(1) by (simp add: m1_def live_peers_set_peer map_id_update mgr_ok_def length_live_peers)
    then show ?thesis
      using get_peer_ids [OF ok1 assms(2)] get_peer_ids [OF assms(1,2)] assms(2,5)
      by (simp add: state_get_peer_def)
  qed
  then have r: "snd (state_remove_peer a m1) = removed ?i m1"
    using assms(2) by (simp add: state_remove_peer_def removed_def)
  have i1: "?i < g_peer_count m1" using sa(1) c1 by simp
  note r1 = removed_spec [OF ok1 i1]
  have dead: "g_peers (removed ?i m1) ! ?i = g_peers m1 ! ?i"
    using c1 by (simp add: removed_def) (subst shift_down.simps, simp)
  have c2: "g_peer_count (removed ?i m1) = ?i" using c1 by (simp add: removed_def)
  have none: "directory (removed ?i m1) nb = None"
    using r1(2) d1 cell sa(2) assms(4,6) by simp
  have room: "g_peer_count (removed ?i m1) < MAX_PEERS"
    using sa(1) assms(1) c2 by (simp add: mgr_ok_def wf_mgr_def)
  have "snd (state_add_peer clk b (removed ?i m1)) = added clk nb (removed ?i m1)"
    using state_add_peer_cases [OF r1(1) assms(3), of clk] none room by simp
  then show ?thesis
    using added_spec(2) [OF r1(1) assms(3) none room, of clk] dead cell
    unfolding u r c2 by (simp add: fresh_record_def update_record_def Let_def)
qed

theorem added_peer_inherits_friend_since_witness:
  "map_option p_friend_since
      (directory (snd (state_add_peer (\<lambda>_. 900) (Some ''001'')
        (snd (state_remove_peer (Some ''076'') (snd (state_update_peer (\<lambda>_. 50) (Some ''076'') PEER_FRIEND sample_mgr))))))
       ''001'') = Some 50"
proof -
  have c: "g_peer_count sample_mgr = 2" by (simp add: sample_mgr_added added_def zero_mgr_def)
  have "state_get_peer (Some ''076'') sample_mgr = Some (g_peer_count sample_mgr - 1)"
    using get_peer_ids [OF sample_mgr_ok(1) norm_075(3)] by (simp add: sample_live c)
  from added_peer_inherits_friend_since [OF sample_mgr_ok(1) norm_075(3,4) _ this, of "\<lambda>_. 900" "\<lambda>_. 50"]
  show ?thesis by (simp add: sample_directory)
qed

end
