(* ===== verification/Store_Properties.thy ===== *)
theory Store_Properties
  imports Peer_Properties
begin

text \<open>
  The properties of the event queue, of the ghost messages and of the state file.
\<close>

section \<open>The event queue\<close>

lemma empty_queue_count: "g_queue_count empty_queue = 0"
  by (simp add: empty_queue_def)

text \<open>
  C5: the ring buffer is a FIFO queue of 1024 events: what is pushed while there is room is
  taken out once, in the order it went in and behind what was there before, across any number
  of wrap-arounds.
\<close>

theorem event_queue_is_fifo:
  assumes "wf_queue q" and "g_queue_count q + length es \<le> EVENT_QUEUE_SIZE"
  shows "fst (take_all queue_take (g_queue_count q + length es)
      (push_all (\<lambda>e. event_queue_push (Some e)) es q)) = queue_list q @ es"
  using evq.fifo_order [OF assms(1), of es] assms(2) by simp

theorem event_queue_is_fifo_witness:
  "fst (take_all queue_take 2 (push_all (\<lambda>e. event_queue_push (Some e))
      [sample_event EVENT_ERROR, sample_event EVENT_DHT_FOUND] empty_queue))
    = [sample_event EVENT_ERROR, sample_event EVENT_DHT_FOUND]"
  using event_queue_is_fifo [OF wf_empty_queue(1), of "[sample_event EVENT_ERROR, sample_event EVENT_DHT_FOUND]"]
  by (simp add: wf_empty_queue(2) EVENT_QUEUE_SIZE_def empty_queue_count numeral_2_eq_2)

text \<open>
  A push never loses or reorders what is queued: it fails exactly on a NULL event or a full
  queue and then changes nothing, and otherwise appends the event at the end.
\<close>

theorem event_queue_push_spec:
  assumes "wf_queue q"
  shows "wf_queue (snd (event_queue_push ev q))
    \<and> (case ev of
        None \<Rightarrow> event_queue_push ev q = (-1, q)
      | Some e \<Rightarrow> if event_queue_size q < EVENT_QUEUE_SIZE
          then fst (event_queue_push ev q) = 0 \<and> queue_list (snd (event_queue_push ev q)) = queue_list q @ [e]
          else event_queue_push ev q = (-1, q))"
proof (cases ev)
  case None
  then show ?thesis using assms by (simp add: event_queue_push_def)
next
  case (Some e)
  then show ?thesis
    using assms push_wf [OF assms, of ev] evq.push_ok [OF assms, of e] evq.push_full [OF assms, of e]
    by (auto simp: event_queue_size_def)
qed

theorem event_queue_push_spec_witness:
  "queue_list (snd (event_queue_push (Some (sample_event EVENT_ERROR)) empty_queue)) = [sample_event EVENT_ERROR]"
  using event_queue_push_spec [OF wf_empty_queue(1), of "Some (sample_event EVENT_ERROR)"]
  by (simp add: wf_empty_queue(2) event_queue_size_def EVENT_QUEUE_SIZE_def empty_queue_count)

text \<open>
  A pop that finds an event returns the oldest one at once; on an empty queue of a running
  loop it waits, gives up with \<open>-1\<close> on a timeout, and after a wake-up takes the oldest event of
  the queue as the other threads left it; when the loop has been stopped it gives up at once.
\<close>

theorem event_queue_pop_spec:
  assumes "wf_queue q"
  shows "case queue_list q of
      e # es \<Rightarrow> \<exists>q'. event_queue_pop waits True t running q = Some (0, Some e, running, q')
        \<and> wf_queue q' \<and> queue_list q' = es
    | [] \<Rightarrow> event_queue_pop waits True t False q = Some (-1, None, False, q)
        \<and> (t > 0 \<longrightarrow> event_queue_pop (Timed_out # waits) True t True q = Some (-1, None, True, q))
        \<and> event_queue_pop (Woken q2 r # waits) True t True q = event_queue_pop waits True t r q2"
proof -
  have c: "queue_list q = [] \<longleftrightarrow> g_queue_count q = 0" by (metis length_0_conv length_queue_list)
  show ?thesis
  proof (cases "queue_list q")
    case Nil
    have "event_queue_pop waits True t False q = Some (-1, None, False, q)"
      "t > 0 \<Longrightarrow> event_queue_pop (Timed_out # waits) True t True q = Some (-1, None, True, q)"
      "event_queue_pop (Woken q2 r # waits) True t True q = event_queue_pop waits True t r q2"
      using c Nil by (subst event_queue_pop.simps; simp add: queue_take_def)+
    then show ?thesis using Nil by simp
  next
    case (Cons e es)
    then have "queue_take q \<noteq> None" using evq.pop_None [OF assms] by simp
    then obtain x q' where t: "queue_take q = Some (x, q')" by auto
    have "wf_queue q'" "e = x" "queue_list q' = es"
      using evq.pop_Some [OF assms t] Cons by auto
    moreover have "g_queue_count q \<noteq> 0" using Cons c by auto
    ultimately show ?thesis
      using t Cons by (subst event_queue_pop.simps) simp
  qed
qed

theorem event_queue_pop_spec_witness:
  "event_queue_pop [Timed_out] True 1000 True empty_queue = Some (-1, None, True, empty_queue)"
  using event_queue_pop_spec [OF wf_empty_queue(1), of "[]" 1000] by (simp add: wf_empty_queue(2))

text \<open>
  The deadline handed to \<open>pthread_cond_timedwait\<close> is normalised (less than a second of
  nanoseconds) and exactly \<open>timeout_ms\<close> milliseconds after now.
\<close>

theorem pop_deadline_normalised:
  assumes "0 \<le> ns" and "ns < 1000000000" and "0 < t"
  shows "case pop_deadline s ns t of (s', ns') \<Rightarrow>
    0 \<le> ns' \<and> ns' < 1000000000 \<and> s' * 1000000000 + ns' = s * 1000000000 + ns + t * 1000000"
proof -
  define d r where "d = t div 1000" and "r = t mod 1000"
  have "t = 1000 * d + r" "0 \<le> r" "r < 1000" by (simp_all add: d_def r_def)
  moreover have "t div 1000 = d" "t mod 1000 = r" by (simp_all add: d_def r_def)
  ultimately show ?thesis using assms by (simp add: pop_deadline_def Let_def)
qed

theorem pop_deadline_normalised_witness:
  "pop_deadline 100 600000000 1500 = (102, 100000000) \<and> (102::int) * 1000000000 + 100000000 = 100 * 1000000000 + 600000000 + 1500 * 1000000"
  using pop_deadline_normalised [of 600000000 1500 100] by (simp add: pop_deadline_def)

section \<open>Ghost messages\<close>

lemma waiting_other:
  assumes wf: "wf_mgr m" and ne: "normalize_id 64 n' \<noteq> normalize_id 64 n"
  shows "waiting n' (delivered_mgr clk n m) = waiting n' m"
proof -
  let ?g = "\<lambda>j. g_ghost_messages m ! j"
  have f: "ghost_for n' (mark clk n j (?g j)) = ghost_for n' (?g j)" for j
    using mark_other [OF ne] .
  have "mark clk n j (?g j) = ?g j" if "ghost_for n' (?g j)" for j
    using that ne by (auto simp: mark_def ghost_for_def)
  then show ?thesis
    by (simp add: waiting_def delivered_ghosts [OF wf] live_ghosts_map [OF wf] filter_map comp_def f)
qed

lemma ghost_events_text:
  assumes "wf_mgr m"
  shows "map ev_message (ghost_events clk n (g_ghost_messages m) 0 (g_ghost_count m)) = map gm_message (waiting n m)"
  using assms
  by (simp add: ghost_events_def waiting_def live_ghosts_map filter_map comp_def ghost_event_def)

text \<open>
  C6: delivering to a peer returns the number of its waiting messages, leaves none waiting for
  it and those of every other peer as they were, and writes past no buffer.  It makes one
  GHOST_DELIVERED event per message, in order and with its text, and queues as many of them, from
  the first on, as the queue has room for; the others are lost, as delivering again finds nothing.
\<close>

theorem state_deliver_ghost_messages_once:
  assumes "mgr_ok m" and "ghosts_ok m" and "wf_queue q" and "norm_arg pid = Some n"
  shows "\<exists>q' m' es. state_deliver_ghost_messages clk pid q m = Some (int (length (waiting n m)), q', m')
    \<and> mgr_ok m' \<and> ghosts_ok m' \<and> wf_queue q'
    \<and> waiting n m' = [] \<and> (\<forall>n'. normalize_id 64 n' \<noteq> n \<longrightarrow> waiting n' m' = waiting n' m)
    \<and> map ev_message es = map gm_message (waiting n m)
    \<and> (\<forall>e \<in> set es. ev_type e = EVENT_GHOST_DELIVERED \<and> ev_peer_id e = n)
    \<and> queue_list q' = queue_list q @ take (EVENT_QUEUE_SIZE - g_queue_count q) es
    \<and> (\<exists>m''. state_deliver_ghost_messages clk' pid q' m' = Some (0, q', m''))"
proof -
  have wf: "wf_mgr m" using assms(1) by (simp add: mgr_ok_def)
  have nn: "normalize_id 64 n = n" and len: "length n < 64"
    using norm_arg_SomeD [OF assms(4)] by blast+
  let ?es = "ghost_events clk n (g_ghost_messages m) 0 (g_ghost_count m)"
  let ?q = "push_all (\<lambda>e. event_queue_push (Some e)) ?es q" and ?m = "delivered_mgr clk n m"
  have m': "mgr_ok ?m" "ghosts_ok ?m" "wf_mgr ?m"
    using delivered_mgr_ok [OF assms(1,4)] delivered_ghosts_ok [OF wf assms(2)] by (auto simp: mgr_ok_def)
  have q': "wf_queue ?q" "queue_list ?q = queue_list q @ take (EVENT_QUEUE_SIZE - g_queue_count q) ?es"
    using evq.push_all_elems [OF assms(3), of ?es] by simp_all
  have ev: "\<forall>e \<in> set ?es. ev_type e = EVENT_GHOST_DELIVERED \<and> ev_peer_id e = n"
    using len by (auto simp: ghost_events_def ghost_event_def event_create_def strncpy_into_fits)
  have "ghost_events clk' n (g_ghost_messages ?m) 0 (g_ghost_count ?m) = []"
    using length_ghost_events [OF m'(3), of clk' n] waiting_delivered [OF wf, of n clk] by simp
  then have again: "state_deliver_ghost_messages clk' pid ?q ?m = Some (0, ?q, delivered_mgr clk' n ?m)"
    using state_deliver_eq [OF m'(3,2) assms(4), of clk' ?q] waiting_delivered [OF wf, of n clk]
    by (simp add: push_all_def)
  have oth: "\<forall>n'. normalize_id 64 n' \<noteq> n \<longrightarrow> waiting n' ?m = waiting n' m"
    using waiting_other [OF wf] nn by simp
  show ?thesis
    using state_deliver_eq [OF wf assms(2,4), of clk q] m' q' ev again oth ghost_events_text [OF wf, of clk n]
      waiting_delivered [OF wf, of n clk] by blast
qed

definition sample_ghosts :: mgr where
  "sample_ghosts = stored (\<lambda>_. 40) 1234 ''075'' ''are you there?'' sample_mgr"

lemma sample_ghosts_wf: "mgr_ok sample_ghosts" "ghosts_ok sample_ghosts"
proof -
  have c: "g_ghost_count sample_mgr = 0" by (simp add: sample_mgr_added added_def zero_mgr_def)
  show "mgr_ok sample_ghosts"
    unfolding sample_ghosts_def by (rule stored_mgr_ok [OF sample_mgr_ok(1)]) (simp add: c MAX_GHOST_MESSAGES_def)
  show "ghosts_ok sample_ghosts"
    unfolding sample_ghosts_def
    by (rule ghosts_ok_stored [OF sample_ghosts_ok sample_mgr_ok(2)]) (simp_all add: c MAX_GHOST_MESSAGES_def)
qed

lemma sample_waiting: "map gm_message (waiting ''075'' sample_ghosts) = [''are you there?'']"
proof -
  have c: "g_ghost_count sample_mgr = 0" by (simp add: sample_mgr_added added_def zero_mgr_def)
  have "live_ghosts sample_mgr = []" by (simp add: live_ghosts_def c)
  then show ?thesis
    using live_ghosts_stored [OF sample_mgr_ok(2), of "\<lambda>_. 40" 1234 "''075''" "''are you there?''"] c
    by (simp add: sample_ghosts_def waiting_def MAX_GHOST_MESSAGES_def new_ghost_def ghost_for_def)
qed

theorem state_deliver_ghost_messages_once_witness:
  "\<exists>q' m'. state_deliver_ghost_messages (\<lambda>_. 60) (Some ''<075>'') empty_queue sample_ghosts = Some (1, q', m')
     \<and> waiting ''075'' m' = [] \<and> map ev_message (queue_list q') = [''are you there?'']"
proof -
  have "length (waiting ''075'' sample_ghosts) = 1" 
    using sample_waiting by (cases "waiting ''075'' sample_ghosts") auto
  then show ?thesis
    using state_deliver_ghost_messages_once [OF sample_ghosts_wf wf_empty_queue(1) norm_075(1), of "\<lambda>_. 60" "\<lambda>_. 60"]
      sample_waiting
    by (auto simp: wf_empty_queue(2) EVENT_QUEUE_SIZE_def empty_queue_count)
qed

text \<open>
  Queueing a ghost message: refused for a NULL or empty id, a NULL text or a full store
  (with the state unchanged), undefined behaviour for a text of 4096 bytes or more, and otherwise
  the message is appended, waiting, behind those of the same peer, with nobody else's changed,
  and a known peer's ghost count goes up by one.
\<close>

theorem state_add_ghost_message_spec:
  assumes "mgr_ok m" and "norm_arg pid = Some n"
  shows "state_add_ghost_message clk rnd pid None m = Some (-1, m)
    \<and> (g_ghost_count m = MAX_GHOST_MESSAGES \<longrightarrow> state_add_ghost_message clk rnd pid (Some body) m = Some (-1, m))
    \<and> (g_ghost_count m < MAX_GHOST_MESSAGES \<longrightarrow>
        (4096 \<le> length body \<longrightarrow> state_add_ghost_message clk rnd pid (Some body) m = None)
      \<and> (length body < 4096 \<longrightarrow> (\<exists>m' g. state_add_ghost_message clk rnd pid (Some body) m = Some (0, m')
          \<and> mgr_ok m' \<and> gm_message g = body \<and> gm_timestamp g = clk 1
          \<and> waiting n m' = waiting n m @ [g]
          \<and> (\<forall>n'. normalize_id 64 n' \<noteq> n \<longrightarrow> waiting n' m' = waiting n' m)
          \<and> directory m' = (directory m)(n := map_option (\<lambda>p. p\<lparr>p_ghost_count := p_ghost_count p + 1\<rparr>) (directory m n)))))"
proof -
  have nn: "normalize_id 64 n = n" using norm_arg_SomeD [OF assms(2)] by blast
  have wf: "wf_mgr m" using assms(1) by (simp add: mgr_ok_def)
  have "\<exists>m' g. state_add_ghost_message clk rnd pid (Some body) m = Some (0, m')
      \<and> mgr_ok m' \<and> gm_message g = body \<and> gm_timestamp g = clk 1 \<and> waiting n m' = waiting n m @ [g]
      \<and> (\<forall>n'. normalize_id 64 n' \<noteq> n \<longrightarrow> waiting n' m' = waiting n' m)
      \<and> directory m' = (directory m)(n := map_option (\<lambda>p. p\<lparr>p_ghost_count := p_ghost_count p + 1\<rparr>) (directory m n))"
    if room: "g_ghost_count m < MAX_GHOST_MESSAGES" and len: "length body < 4096"
  proof (intro exI conjI)
    let ?s = "stored clk rnd n body m" and ?f = "\<lambda>p. p\<lparr>p_ghost_count := p_ghost_count p + 1\<rparr>"
    let ?g = "new_ghost clk rnd n body (g_ghost_messages m ! g_ghost_count m)"
    have k: "keeps_id ?f" by auto
    have s: "mgr_ok ?s" using stored_mgr_ok [OF assms(1) room] .
    show "state_add_ghost_message clk rnd pid (Some body) m = Some (0, snd (with_peer pid ?f ?s))"
      using state_add_ghost_message_cases [OF assms(2), of clk rnd body m] room len
      by (simp add: bump_with_peer [OF assms(2)])
    show "mgr_ok (snd (with_peer pid ?f ?s))" by (rule peers.modify_invar [OF s k])
    show "gm_message ?g = body" "gm_timestamp ?g = clk 1" by (simp_all add: new_ghost_def)
    show "waiting n (snd (with_peer pid ?f ?s)) = waiting n m @ [?g]"
      by (simp add: waiting_def live_ghosts_stored [OF wf room]) (simp add: ghost_for_def new_ghost_def)
    show "\<forall>n'. normalize_id 64 n' \<noteq> n \<longrightarrow> waiting n' (snd (with_peer pid ?f ?s)) = waiting n' m"
      by (auto simp: waiting_def live_ghosts_stored [OF wf room] ghost_for_def new_ghost_def nn)
    have "directory ?s = directory m" by (simp add: fun_eq_iff directory_def live_peers_def stored_def)
    then show "directory (snd (with_peer pid ?f ?s)) = (directory m)(n := map_option ?f (directory m n))"
      using peers.modify_lookup [OF s assms(2) k] by simp
  qed
  then show ?thesis
    using state_add_ghost_message_cases [OF assms(2), of clk rnd body m] assms(2)
    by (auto simp: state_add_ghost_message_def)
qed

theorem state_add_ghost_message_spec_witness:
  "\<exists>m'. state_add_ghost_message (\<lambda>_. 40) 1234 (Some ''<075>'') (Some ''hi'') sample_mgr = Some (0, m')
     \<and> map gm_message (waiting ''075'' m') = [''hi'']"
proof -
  have c: "g_ghost_count sample_mgr = 0" by (simp add: sample_mgr_added added_def zero_mgr_def)
  have w: "waiting ''075'' sample_mgr = []" by (simp add: waiting_def live_ghosts_def c)
  have "0 < MAX_GHOST_MESSAGES" by (simp add: MAX_GHOST_MESSAGES_def)
  then show ?thesis
    using state_add_ghost_message_spec [OF sample_mgr_ok(1) norm_075(1), of "\<lambda>_. 40" 1234 "''hi''"] c w
    by auto
qed

section \<open>The state file\<close>

lemma reload_zero:
  assumes "\<forall>p \<in> set ps. savable p" and "length ps \<le> MAX_PEERS"
  shows "\<exists>m'. state_init (Some (concat (save_lines ps))) zero_mgr = Some (0, m')
    \<and> wf_mgr m' \<and> live_peers m' = map reloaded ps"
proof -
  have z: "wf_mgr (zero_mgr\<lparr>g_initialized := True\<rparr>)" "g_peer_count (zero_mgr\<lparr>g_initialized := True\<rparr>) = 0"
    "live_peers (zero_mgr\<lparr>g_initialized := True\<rparr>) = []" "\<not> g_initialized zero_mgr"
    by (simp_all add: zero_mgr_def wf_mgr_def live_peers_def)
  from load_save [OF assms(1) _ z(1)] assms(2) z(2,3) obtain m' where
    "state_load (Some (concat (save_lines ps))) (zero_mgr\<lparr>g_initialized := True\<rparr>) = Some (int (length ps), m')"
    "wf_mgr m'" "live_peers m' = map reloaded ps" by auto
  then show ?thesis using z(4) by (simp add: state_init_def)
qed

text \<open>
  C7: saving and loading into a fresh state manager brings back every peer, in order, with its
  id, state, address, port, times and counts, provided the texts hold no quote, brace or newline
  and the numbers are in range; the flags \<open>online\<close>, \<open>busy\<close> and \<open>is_secure\<close> come back
  cleared and the name and public key empty (\<open>reloaded\<close>).
\<close>

theorem state_save_load_roundtrip:
  assumes "wf_mgr m" and "\<forall>p \<in> set (live_peers m). savable p"
  shows "\<exists>text m'. state_save True m = (0, Some text) \<and> state_init (Some text) zero_mgr = Some (0, m')
    \<and> wf_mgr m' \<and> live_peers m' = map reloaded (live_peers m)"
proof -
  have "length (live_peers m) \<le> MAX_PEERS" using assms(1) by (simp add: length_live_peers) (simp add: wf_mgr_def)
  from reload_zero [OF assms(2) this] show ?thesis by (simp add: state_save_def)
qed

lemma sample_savable: "\<forall>p \<in> set (live_peers sample_mgr). savable p"
  by (simp add: sample_live fresh_record_def zero_peer_def savable_def plain_text_def peer_state_of_def
      int_range_def long_range_def)

theorem state_save_load_roundtrip_witness:
  "\<exists>text m'. state_save True sample_mgr = (0, Some text) \<and> state_init (Some text) zero_mgr = Some (0, m')
    \<and> map p_id (live_peers m') = [''075'', ''076''] \<and> map p_created_at (live_peers m') = [10, 20]"
  using state_save_load_roundtrip [OF sample_mgr_ok(2) sample_savable]
  by (auto simp: sample_live reloaded_def fresh_record_def)

text \<open>
  No peer is online or busy after a reload, whatever it was when it was saved: the file
  spells the flags \<open>true\<close> and \<open>false\<close>, which the loader's \<open>%d\<close> never matches.
\<close>

theorem reload_clears_flags:
  assumes "wf_mgr m" and "\<forall>p \<in> set (live_peers m). savable p" and "state_save True m = (0, Some text)"
    and "state_init (Some text) zero_mgr = Some (0, m')"
  shows "\<forall>p \<in> set (live_peers m'). \<not> p_online p \<and> \<not> p_busy p \<and> \<not> p_is_secure p"
proof -
  have "length (live_peers m) \<le> MAX_PEERS" using assms(1) by (simp add: length_live_peers) (simp add: wf_mgr_def)
  from reload_zero [OF assms(2) this] assms(3,4) have "live_peers m' = map reloaded (live_peers m)"
    by (auto simp: state_save_def)
  then show ?thesis by (auto simp: reloaded_def zero_peer_def)
qed

definition online_mgr :: mgr where
  "online_mgr = snd (state_set_online (\<lambda>_. 30) (Some ''075'') True sample_mgr)"

theorem reload_clears_flags_witness:
  "state_is_online (Some ''075'') online_mgr
   \<and> (\<exists>text m'. state_save True online_mgr = (0, Some text) \<and> state_init (Some text) zero_mgr = Some (0, m')
       \<and> (\<forall>p \<in> set (live_peers m'). \<not> p_online p) \<and> length (live_peers m') = 2)"
proof -
  have i: "state_get_peer (Some ''075'') sample_mgr = Some 0"
    using get_peer_ids [OF sample_mgr_ok(1) norm_075(2)] by (simp add: sample_live)
  have ok: "wf_mgr online_mgr" "mgr_ok online_mgr"
    using setters_ok(2) [OF sample_mgr_ok(1)] by (auto simp: online_mgr_def mgr_ok_def)
  note nz = length_live_peers [OF ok(1)]
  have cell: "g_peers sample_mgr ! 0 = fresh_record (\<lambda>_. 10) ''075'' zero_peer"
    using live_peers_nth [OF sample_mgr_ok(2), of 0] length_live_peers [OF sample_mgr_ok(2)]
    by (simp add: sample_live)
  have live: "live_peers online_mgr = [(fresh_record (\<lambda>_. 10) ''075'' zero_peer)\<lparr>p_online := True, p_last_seen := 30\<rparr>,
      fresh_record (\<lambda>_. 20) ''076'' zero_peer]"
    using i cell by (simp add: online_mgr_def state_set_online_def with_peer_def live_peers_set_peer sample_live)
  have "g_peer_count online_mgr = 2" using nz by (simp add: live)
  then have "g_peers online_mgr ! 0 = (fresh_record (\<lambda>_. 10) ''075'' zero_peer)\<lparr>p_online := True, p_last_seen := 30\<rparr>"
    using live_peers_nth [OF ok(1), of 0] unfolding live by simp
  then have on: "state_is_online (Some ''075'') online_mgr"
    using get_peer_ids [OF ok(2) norm_075(2)]
    by (simp add: state_is_online_def live fresh_record_def)
  have sv: "\<forall>p \<in> set (live_peers online_mgr). savable p"
    by (simp add: live fresh_record_def zero_peer_def savable_def plain_text_def peer_state_of_def
        int_range_def long_range_def)
  obtain saved where t: "state_save True online_mgr = (0, Some saved)" by (simp add: state_save_def)
  have "length (live_peers online_mgr) \<le> MAX_PEERS" by (simp add: live MAX_PEERS_def)
  from reload_zero [OF sv this] t obtain m' where l: "state_init (Some saved) zero_mgr = Some (0, m')"
    and "live_peers m' = map reloaded (live_peers online_mgr)" by (auto simp: state_save_def)
  then have "length (live_peers m') = 2" by (simp add: live)
  with reload_clears_flags [OF ok(1) sv t l] on t l show ?thesis by blast
qed

text \<open>
  The loader reads an address of up to 63 characters and copies it into the 16 bytes of
  \<open>Peer.ip\<close>: a state file with a longer address is undefined behaviour.
\<close>

theorem state_load_long_ip_overruns:
  assumes "plain_text ip" and "16 \<le> length ip" and "length ip < 64"
  shows "state_load (Some (concat [open_line, field_line ''ip'' (quoted ip @ '','')])) m = None"
proof -
  have "is_line open_line" by (auto simp: is_line_def open_line_def)
  moreover have "is_line (field_line ''ip'' (quoted ip @ '',''))"
    using assms by (intro field_line_is_line) (auto simp: plain_text_def quoted_def)
  ultimately have fl: "file_lines (concat [open_line, field_line ''ip'' (quoted ip @ '','')])
      = [open_line, field_line ''ip'' (quoted ip @ '','')]"
    by (intro file_lines_concat) auto
  have "ip \<noteq> []" using assms(2) by auto
  then have "scan_fields (field_line ''ip'' (quoted ip @ '','')) zero_peer = None"
    using assms by (simp add: scan_fields_def scan_other scan_same assign_def strcpy_into_def)
  moreover have "\<not> contains (field_line ''ip'' (quoted ip @ '','')) ''{''"
    using assms(1) by (auto simp: contains_iff field_line_def quoted_def plain_text_def)
  moreover have "\<not> length (field_line ''ip'' (quoted ip @ '','')) \<le> 1" by (simp add: field_line_def)
  ultimately have "load_loop [open_line, field_line ''ip'' (quoted ip @ '','')] (zero_peer, False, m) = None"
    by (simp add: load_open_line) (simp add: load_line_def)
  then show ?thesis unfolding state_load_def option.case fl by simp
qed

theorem state_load_long_ip_overruns_witness:
  "state_load (Some (concat [open_line, field_line ''ip'' (quoted ''2001:db8::8a2e:370:7334'' @ '','')])) zero_mgr = None"
  by (rule state_load_long_ip_overruns) (simp_all add: plain_text_def)

end
