(* ===== verification/Hex_Codec.thy ===== *)
theory Hex_Codec
  imports C_Text
begin

text \<open>
  The hexadecimal codec of \<open>orca_crypto.c\<close>: \<open>orca_bytes_to_hex\<close> prints with
  \<open>%02x\<close>, \<open>orca_hex_to_bytes\<close> reads two characters at a time with
  \<open>strtol(..., 16)\<close>, whose white space, sign and \<open>0x\<close> rules are modelled.  It also
  holds \<open>orca_hash_to_hex\<close> and \<open>orca_hash_to_id\<close>.
\<close>

section \<open>Hexadecimal digits\<close>

definition hex_char :: "nat \<Rightarrow> char" where
  "hex_char d = (if d < 10 then char_of (48 + d) else char_of (87 + d))"

definition hex_val :: "char \<Rightarrow> nat option" where
  "hex_val c = (let v = of_char c :: nat in
     if 48 \<le> v \<and> v \<le> 57 then Some (v - 48)
     else if 97 \<le> v \<and> v \<le> 102 then Some (v - 87)
     else if 65 \<le> v \<and> v \<le> 70 then Some (v - 55)
     else None)"

definition is_hex :: "char \<Rightarrow> bool" where
  "is_hex c \<longleftrightarrow> hex_val c \<noteq> None"

lemma hex_val_char: "d < 16 \<Longrightarrow> hex_val (hex_char d) = Some d"
  by (auto simp: hex_val_def hex_char_def of_char_of)

lemma hex_val_less: "hex_val c = Some d \<Longrightarrow> d < 16"
  by (auto simp: hex_val_def Let_def split: if_splits)

lemma hex_not_special:
  assumes "is_hex c"
  shows "\<not> is_space c" and "c \<noteq> CHR ''-''" and "c \<noteq> CHR ''+''" and "c \<noteq> CHR ''x''" and "c \<noteq> CHR ''X''"
  using assms by (auto simp: is_hex_def hex_val_def is_space_def Let_def split: if_splits)

lemma is_hex_char: "d < 16 \<Longrightarrow> is_hex (hex_char d)"
  by (simp add: is_hex_def hex_val_char)

section \<open>\<open>strtol(s, &end, 16)\<close>\<close>

definition hex_digits_val :: "string \<Rightarrow> nat" where
  "hex_digits_val ds = foldl (\<lambda>a c. 16 * a + the (hex_val c)) 0 ds"

text \<open>The \<open>0x\<close> prefix is part of the number only before a hexadecimal digit.\<close>

definition skip_0x :: "string \<Rightarrow> string" where
  "skip_0x s = (case s of
      z # x # d # r \<Rightarrow> if z = CHR ''0'' \<and> (x = CHR ''x'' \<or> x = CHR ''X'') \<and> is_hex d then d # r else s
    | _ \<Rightarrow> s)"

text \<open>The value and the rest \<open>end\<close> points to; without a digit the whole text remains.\<close>

definition strtol16 :: "string \<Rightarrow> int \<times> string" where
  "strtol16 s =
    (let (neg, u) = scan_sign (dropWhile is_space s);
         u = skip_0x u;
         ds = takeWhile is_hex u
     in if ds = [] then (0, s)
        else (c_long (if neg then - int (hex_digits_val ds) else int (hex_digits_val ds)), dropWhile is_hex u))"

section \<open>The codec\<close>

definition hex_byte :: "byte \<Rightarrow> string" where
  "hex_byte b = [hex_char (unat b div 16), hex_char (unat b mod 16)]"

definition orca_bytes_to_hex :: "byte list option \<Rightarrow> string option" where
  "orca_bytes_to_hex bytes = map_option (\<lambda>bs. concat (map hex_byte bs)) bytes"

fun hex_pairs :: "string \<Rightarrow> byte list option" where
  "hex_pairs [] = Some []"
| "hex_pairs [c] = None"
| "hex_pairs (c # d # s) =
    (let (val, rest) = strtol16 [c, d] in
     if rest \<noteq> [] then None
     else do { bs \<leftarrow> hex_pairs s; Some (word_of_int val # bs) })"

text \<open>The bytes, or the message \<open>set_error\<close> records.\<close>

definition orca_hex_to_bytes :: "string option \<Rightarrow> nat \<Rightarrow> string + byte list" where
  "orca_hex_to_bytes hex bytes_len = (case hex of
      None \<Rightarrow> Inl ''NULL pointer in orca_hex_to_bytes''
    | Some h \<Rightarrow>
        if length h \<noteq> bytes_len * 2 then Inl ''Invalid hex length''
        else (case hex_pairs h of
            None \<Rightarrow> Inl ''Invalid hex character''
          | Some bs \<Rightarrow> Inr bs))"

definition orca_hash_to_hex :: "byte list option \<Rightarrow> string option" where
  "orca_hash_to_hex hash = map_option (\<lambda>h. concat (map hex_byte (take 32 h))) hash"

definition ORCA_ID_LEN :: nat where
  "ORCA_ID_LEN = 64"

definition orca_hash_to_id :: "byte list option \<Rightarrow> string option \<Rightarrow> string option" where
  "orca_hash_to_id hash prefix = (case hash of
      None \<Rightarrow> None
    | Some h \<Rightarrow>
        let hex = the (orca_hash_to_hex (Some h)) in
        Some (snprintf_into ORCA_ID_LEN (case prefix of
            Some p \<Rightarrow> p @ take 8 hex
          | None \<Rightarrow> take 8 hex)))"

section \<open>Properties\<close>

lemma is_hex_byte: "unat (b :: byte) div 16 < 16" "unat (b :: byte) mod 16 < 16"
proof -
  have "unat b < 256" using unsigned_less [of b, where ?'a = nat] by simp
  then show "unat b div 16 < 16" "unat b mod 16 < 16" by auto
qed

lemma strtol16_pair:
  assumes "hex_val c = Some x" and "hex_val d = Some y"
  shows "strtol16 [c, d] = (int (16 * x + y), [])"
proof -
  have c: "is_hex c" "is_hex d" using assms by (simp_all add: is_hex_def)
  have "x < 16" "y < 16" using assms hex_val_less by auto
  then have "c_long (int (16 * x + y)) = int (16 * x + y)"
    by (intro c_long_id) (simp add: long_range_def)
  then show ?thesis
    using assms c hex_not_special [OF c(1)]
    by (simp add: strtol16_def scan_sign_def skip_0x_def hex_digits_val_def)
qed

lemma hex_pairs_byte: "hex_pairs (hex_byte b @ s) = map_option ((#) b) (hex_pairs s)"
proof -
  have "(16 * (unat b div 16) + unat b mod 16) = unat b" by simp
  then have "word_of_int (int (16 * (unat b div 16) + unat b mod 16)) = b" by simp
  moreover have "strtol16 (hex_byte b) = (int (16 * (unat b div 16) + unat b mod 16), [])"
    unfolding hex_byte_def by (rule strtol16_pair) (simp_all add: hex_val_char is_hex_byte)
  ultimately show ?thesis
    by (cases "hex_pairs s") (simp_all add: hex_byte_def)
qed

lemma length_hex_bytes: "length (concat (map hex_byte bs)) = 2 * length bs"
  by (induction bs) (simp_all add: hex_byte_def)

lemma hex_pairs_bytes: "hex_pairs (concat (map hex_byte bs)) = Some bs"
  by (induction bs) (simp_all add: hex_pairs_byte)

interpretation hex_text: codec "\<lambda>bs. concat (map hex_byte bs)" hex_pairs "\<lambda>_. True"
  by unfold_locales (rule hex_pairs_bytes)

text \<open>
  What the printer writes, the reader gives back: every byte string survives the round trip
  through hexadecimal text, which has two characters per byte.
\<close>

theorem orca_hex_roundtrip:
  "\<exists>h. orca_bytes_to_hex (Some bs) = Some h \<and> length h = 2 * length bs
     \<and> orca_hex_to_bytes (Some h) (length bs) = Inr bs"
  by (simp add: orca_bytes_to_hex_def orca_hex_to_bytes_def length_hex_bytes hex_text.dec_enc)

lemma strtol16_two:
  "snd (strtol16 [c, d]) = [] \<longleftrightarrow>
     is_hex d \<and> (is_hex c \<or> is_space c \<or> c = CHR ''-'' \<or> c = CHR ''+'')"
  by (auto simp: strtol16_def scan_sign_def skip_0x_def dest: hex_not_special split: list.splits)

lemma hex_pairs_Some:
  "hex_pairs h \<noteq> None \<longleftrightarrow> even (length h) \<and>
    (\<forall>i < length h div 2. is_hex (h ! (2 * i + 1))
       \<and> (is_hex (h ! (2 * i)) \<or> is_space (h ! (2 * i)) \<or> h ! (2 * i) \<in> {CHR ''-'', CHR ''+''}))"
proof (induction h rule: hex_pairs.induct)
  case 1
  then show ?case by simp
next
  case (2 c)
  then show ?case by simp
next
  case (3 c d s)
  have "hex_pairs (c # d # s) \<noteq> None \<longleftrightarrow> snd (strtol16 [c, d]) = [] \<and> hex_pairs s \<noteq> None"
    by (cases "strtol16 [c, d]"; cases "hex_pairs s") auto
  then show ?case
    using 3 strtol16_two [of c d] by (cases "strtol16 [c, d]") (auto simp: All_less_Suc2)
qed

text \<open>
  The reader accepts exactly the texts of the right length whose every pair ends in a
  hexadecimal digit and starts with one, or with white space or a sign, because \<open>strtol\<close>
  skips those: not only hexadecimal texts are accepted.
\<close>

theorem orca_hex_to_bytes_accepts:
  "(\<exists>bs. orca_hex_to_bytes (Some h) n = Inr bs) \<longleftrightarrow> length h = 2 * n \<and>
    (\<forall>i < n. is_hex (h ! (2 * i + 1))
       \<and> (is_hex (h ! (2 * i)) \<or> is_space (h ! (2 * i)) \<or> h ! (2 * i) \<in> {CHR ''-'', CHR ''+''}))"
proof (cases "length h = 2 * n")
  case False
  then show ?thesis by (auto simp: orca_hex_to_bytes_def)
next
  case True
  then have "(\<exists>bs. orca_hex_to_bytes (Some h) n = Inr bs) \<longleftrightarrow> hex_pairs h \<noteq> None"
    by (auto simp: orca_hex_to_bytes_def split: option.splits)
  then show ?thesis unfolding hex_pairs_Some using True by simp
qed

theorem orca_hex_to_bytes_accepts_witness:
  "\<exists>bs. orca_hex_to_bytes (Some ''-1+f 0'') 3 = Inr bs"
  unfolding orca_hex_to_bytes_accepts
  by (auto simp: is_hex_def hex_val_def is_space_def less_Suc_eq numeral_3_eq_3)

end
