(* ===== verification/Crypto_Steps.thy ===== *)
theory Crypto_Steps
  imports Hex_Codec "HOL-Library.Multiset"
begin

text \<open>
  The call discipline of the OpenSSL wrappers.  A wrapper is a sequence of calls, each of which
  may fail; after a failure it frees what it holds, records an error message and returns.  The
  model of a wrapper is its \<open>instr\<close> list, in the order of the code: \<open>Call ok got frees msg\<close>
  is a call with outcome \<open>ok\<close> which allocates \<open>got\<close>, and whose failure branch frees
  \<open>frees\<close> and records \<open>msg\<close>; \<open>Free rs\<close> frees on the way.  The outcomes come from an
  oracle \<open>ok :: nat \<Rightarrow> bool\<close>, one entry per call of the invocation, of which nothing is
  assumed.  The state is the message of \<open>orca_get_last_error\<close> and the multiset of live
  objects.

  \<open>clean\<close> walks a list and checks that every failure branch frees exactly what is held: a
  wrapper whose list is clean leaks nothing and frees nothing twice, on any branch
  (\<open>run_clean\<close>).
\<close>

datatype res = MD_CTX | CIPHER_CTX | PKEY_CTX | PKEY | PEER_KEY | BIO | MEM string

record cstate =
  c_error :: string
  c_live :: "res multiset"

datatype instr = Call bool "res list" "res list" string | Free "res list"

definition set_error :: "string \<Rightarrow> cstate \<Rightarrow> cstate" where
  "set_error msg s = s\<lparr>c_error := take 255 msg\<rparr>"

definition take_res :: "res list \<Rightarrow> cstate \<Rightarrow> cstate" where
  "take_res rs s = s\<lparr>c_live := c_live s + mset rs\<rparr>"

definition free_res :: "res list \<Rightarrow> cstate \<Rightarrow> cstate" where
  "free_res rs s = s\<lparr>c_live := c_live s - mset rs\<rparr>"

fun run :: "instr list \<Rightarrow> cstate \<Rightarrow> bool \<times> cstate" where
  "run [] s = (True, s)"
| "run (Call ok got frees msg # is) s =
    (if ok then run is (take_res got s) else (False, set_error msg (free_res frees s)))"
| "run (Free rs # is) s = run is (free_res rs s)"

definition finish :: "instr list \<Rightarrow> 'a \<Rightarrow> cstate \<Rightarrow> 'a option \<times> cstate" where
  "finish is result s = (case run is s of (ok, s) \<Rightarrow> (if ok then Some result else None, s))"

definition reject :: "string \<Rightarrow> cstate \<Rightarrow> 'a option \<times> cstate" where
  "reject msg s = (None, set_error msg s)"

definition orca_get_last_error :: "cstate \<Rightarrow> string" where
  "orca_get_last_error s = c_error s"

definition orca_clear_error :: "cstate \<Rightarrow> cstate" where
  "orca_clear_error s = s\<lparr>c_error := ''''\<rparr>"

section \<open>Clean sequences\<close>

text \<open>What a clean sequence holds at its end, \<open>None\<close> when a branch frees wrongly.\<close>

fun remove_all :: "res list \<Rightarrow> res list \<Rightarrow> res list option" where
  "remove_all [] held = Some held"
| "remove_all (r # rs) held = (if r \<in> set held then remove_all rs (remove1 r held) else None)"

fun clean :: "res list \<Rightarrow> instr list \<Rightarrow> res list option" where
  "clean held [] = Some held"
| "clean held (Call ok got frees msg # is) =
    (if remove_all frees held = Some [] then clean (held @ got) is else None)"
| "clean held (Free rs # is) = (case remove_all rs held of None \<Rightarrow> None | Some h \<Rightarrow> clean h is)"

lemma remove_all_mset: "remove_all rs held = Some h \<Longrightarrow> mset held = mset rs + mset h"
proof (induction rs arbitrary: held)
  case Nil
  then show ?case by simp
next
  case (Cons r rs)
  then have r: "r \<in> set held" and "remove_all rs (remove1 r held) = Some h" by (auto split: if_splits)
  with Cons.IH have "mset (remove1 r held) = mset rs + mset h" by blast
  with r have "mset held = add_mset r (mset rs + mset h)" by (metis insert_DiffM mset_remove1 set_mset_mset)
  then show ?case by simp
qed

lemma run_clean:
  "clean held is = Some left \<Longrightarrow> c_live s = base + mset held \<Longrightarrow> run is s = (ok, s') \<Longrightarrow>
   c_live s' = (if ok then base + mset left else base)"
proof (induction "is" arbitrary: held s)
  case Nil
  then show ?case by simp
next
  case (Cons i "is")
  show ?case
  proof (cases i)
    case (Call b got frees msg)
    with Cons.prems(1) have f: "remove_all frees held = Some []" and c: "clean (held @ got) is = Some left"
      by (auto split: if_splits)
    have h: "mset held = mset frees" using remove_all_mset [OF f] by simp
    show ?thesis
    proof (cases b)
      case True
      show ?thesis
        by (rule Cons.IH [OF c, of "take_res got s"])
          (use Cons.prems True Call in \<open>simp_all add: take_res_def\<close>)
    next
      case False
      then show ?thesis using Cons.prems Call h by (auto simp: set_error_def free_res_def)
    qed
  next
    case (Free rs)
    with Cons.prems(1) obtain h where f: "remove_all rs held = Some h" and c: "clean h is = Some left"
      by (auto split: option.splits)
    have "mset held = mset rs + mset h" by (rule remove_all_mset [OF f])
    then have "c_live (free_res rs s) = base + mset h"
      using Cons.prems(2) by (simp add: free_res_def)
    then show ?thesis using Cons.IH [OF c, of "free_res rs s"] Cons.prems(3) Free by simp
  qed
qed

text \<open>The judgement on a wrapper: it gives back everything but \<open>left\<close>, which a success keeps.\<close>

definition no_leak :: "res list \<Rightarrow> cstate \<Rightarrow> 'a option \<times> cstate \<Rightarrow> bool" where
  "no_leak left s res \<longleftrightarrow> c_live (snd res) = c_live s + (if fst res = None then {#} else mset left)"

lemma finish_no_leak: "clean [] is = Some left \<Longrightarrow> no_leak left s (finish is r s)"
  using run_clean [of "[]" "is" left s "c_live s"]
  by (auto simp: no_leak_def finish_def split: prod.split)

lemma reject_no_leak [simp]: "no_leak left s (reject msg s)"
  by (simp add: no_leak_def reject_def set_error_def)

lemma c_live_set_error [simp]: "c_live (set_error msg s) = c_live s"
  by (simp add: set_error_def)

fun calls_ok :: "instr list \<Rightarrow> bool" where
  "calls_ok [] \<longleftrightarrow> True"
| "calls_ok (Call ok got frees msg # is) \<longleftrightarrow> ok \<and> calls_ok is"
| "calls_ok (Free rs # is) \<longleftrightarrow> calls_ok is"

lemma fst_run: "fst (run is s) \<longleftrightarrow> calls_ok is"
  by (induction "is" s rule: run.induct) simp_all

lemma finish_Some: "fst (finish is r s) = Some x \<longleftrightarrow> fst (run is s) \<and> x = r"
  by (auto simp: finish_def split: prod.split)

fun messages :: "instr list \<Rightarrow> string set" where
  "messages [] = {}"
| "messages (Call ok got frees msg # is) = insert (take 255 msg) (messages is)"
| "messages (Free rs # is) = messages is"

lemma run_error: "\<not> fst (run is s) \<Longrightarrow> c_error (snd (run is s)) \<in> messages is"
proof (induction "is" arbitrary: s)
  case (Cons i "is")
  then show ?case by (cases i) (auto simp: set_error_def split: if_splits)
qed simp

text \<open>A sequence followed by another call of a wrapper.\<close>

definition then_call :: "instr list \<Rightarrow> (cstate \<Rightarrow> 'a option \<times> cstate) \<Rightarrow> cstate \<Rightarrow> 'a option \<times> cstate" where
  "then_call is k s = (case run is s of (ok, s) \<Rightarrow> if ok then k s else (None, s))"

end
