(* ===== verification/Orca_Crypto.thy ===== *)
theory Orca_Crypto
  imports Crypto_Steps
begin

text \<open>
  The wrappers of \<open>orca_crypto.c\<close> around OpenSSL: hashing, base64, RSA signatures, AES-256-CBC,
  X25519, PBKDF2 and salts, each with every failure branch, the message it records and what it
  frees there.

  OpenSSL is not in the repository: what its functions compute is the record \<open>ssl\<close>, an argument
  of the definitions, and whether a call succeeds is an oracle.  \<open>ssl_ok\<close> states the documented
  behaviour the round-trip properties rely on.  The calls of \<open>BIO_new\<close> whose result the code does
  not check are taken to succeed.  Lengths are below \<open>2 ^ 31\<close>, as the casts to \<open>int\<close> need.  The
  \<open>bool\<close> \<open>out\<close> or \<open>outs\<close> says that no output pointer is NULL.
\<close>

section \<open>OpenSSL\<close>

record ssl =
  o_sha256 :: "byte list \<Rightarrow> byte list"
  o_b64enc :: "byte list \<Rightarrow> string"
  o_b64dec :: "string \<Rightarrow> byte list \<times> int"              \<comment> \<open>the buffer and what \<open>BIO_read\<close> returned\<close>
  o_keygen :: "nat \<Rightarrow> string \<times> string"                   \<comment> \<open>public and private PEM of a generated pair\<close>
  o_priv_ok :: "string \<Rightarrow> bool"                          \<comment> \<open>the PEM text can be read\<close>
  o_pub_ok :: "string \<Rightarrow> bool"
  o_sign :: "string \<Rightarrow> byte list \<Rightarrow> byte list"
  o_verify :: "string \<Rightarrow> byte list \<Rightarrow> byte list \<Rightarrow> int \<Rightarrow> bool"
  o_cbc_enc :: "byte list \<Rightarrow> byte list \<Rightarrow> byte list \<Rightarrow> byte list"
  o_cbc_dec :: "byte list \<Rightarrow> byte list \<Rightarrow> byte list \<Rightarrow> int \<Rightarrow> byte list option"
  o_gcm_enc :: "byte list \<Rightarrow> byte list \<Rightarrow> byte list \<Rightarrow> byte list \<times> byte list"  \<comment> \<open>ciphertext, tag\<close>
  o_gcm_dec :: "byte list \<Rightarrow> byte list \<Rightarrow> byte list \<Rightarrow> byte list \<Rightarrow> int \<Rightarrow> byte list option"
  o_x25519_public :: "byte list \<Rightarrow> byte list"
  o_x25519 :: "byte list \<Rightarrow> byte list \<Rightarrow> byte list option"
  o_hkdf :: "byte list \<Rightarrow> byte list option \<Rightarrow> byte list option \<Rightarrow> byte list"  \<comment> \<open>32 bytes from key, salt, info\<close>
  o_pbkdf2 :: "byte list \<Rightarrow> byte list \<Rightarrow> int \<Rightarrow> nat \<Rightarrow> byte list"

type_synonym outcomes = "nat \<Rightarrow> bool"

definition shift :: "nat \<Rightarrow> outcomes \<Rightarrow> outcomes" where
  "shift k ok = (\<lambda>i. ok (k + i))"

definition string_bytes :: "string \<Rightarrow> byte list" where
  "string_bytes s = map of_char s"

definition bytes_string :: "byte list \<Rightarrow> string" where
  "bytes_string bs = map (\<lambda>b. char_of (unat b)) bs"

lemma bytes_string_bytes [simp]: "bytes_string (string_bytes s) = s"
proof -
  have "char_of (unat (of_char c :: byte)) = c" for c :: char
  proof -
    have "unat (of_char c :: byte) = of_char c"
    proof -
      have "unat (of_nat (of_char c) :: byte) = of_char c mod 2 ^ 8" by (simp add: unat_of_nat del: of_nat_of_char)
      then show ?thesis using nat_of_char_less_256 [of c] by (simp add: of_nat_of_char)
    qed
    then show ?thesis by simp
  qed
  then show ?thesis by (simp add: bytes_string_def string_bytes_def comp_def)
qed

definition zeroize :: "byte list option \<Rightarrow> nat \<Rightarrow> byte list option" where
  "zeroize ptr len = map_option (\<lambda>bs. if len > 0 then replicate (min len (length bs)) 0 @ drop len bs else bs) ptr"

section \<open>Hashes and base64\<close>

definition orca_hash :: "bool \<Rightarrow> outcomes \<Rightarrow> ssl \<Rightarrow> byte list option \<Rightarrow> cstate \<Rightarrow> byte list option \<times> cstate" where
  "orca_hash out ok ssl data s = (case (data, out) of
      (Some d, True) \<Rightarrow> finish [
        Call (ok 0) [MD_CTX] [] ''Failed to create EVP context'',
        Call (ok 1) [] [MD_CTX] ''Failed to init digest'',
        Call (ok 2) [] [MD_CTX] ''Failed to update digest'',
        Call (ok 3) [] [MD_CTX] ''Failed to finalize digest'',
        Free [MD_CTX]] (o_sha256 ssl d) s
    | _ \<Rightarrow> reject ''NULL pointer in orca_hash'' s)"

definition orca_hash_string :: "bool \<Rightarrow> outcomes \<Rightarrow> ssl \<Rightarrow> string option \<Rightarrow> cstate \<Rightarrow> byte list option \<times> cstate" where
  "orca_hash_string out ok ssl str s = (case (str, out) of
      (Some t, True) \<Rightarrow> orca_hash True ok ssl (Some (string_bytes t)) s
    | _ \<Rightarrow> reject ''NULL pointer in orca_hash_string'' s)"

definition orca_base64_encode ::
    "outcomes \<Rightarrow> ssl \<Rightarrow> byte list option \<Rightarrow> int \<Rightarrow> cstate \<Rightarrow> string option \<times> cstate" where
  "orca_base64_encode ok ssl data len s =
    (if data = None \<or> len \<le> 0 then reject ''Invalid input to orca_base64_encode'' s
     else finish [
       Call True [BIO, BIO] [] ''BIO_new is not checked'',
       Call (ok 0) [MEM ''base64''] [BIO, BIO] ''malloc failed in orca_base64_encode'',
       Free [BIO, BIO]] (o_b64enc ssl (take (nat len) (the data))) s)"

definition orca_base64_decode ::
    "outcomes \<Rightarrow> ssl \<Rightarrow> string option \<Rightarrow> cstate \<Rightarrow> (byte list \<times> int) option \<times> cstate" where
  "orca_base64_decode ok ssl data s = (case data of
      None \<Rightarrow> reject ''NULL input to orca_base64_decode'' s
    | Some d \<Rightarrow> finish [
        Call True [BIO, BIO] [] ''BIO_new is not checked'',
        Call (ok 0) [MEM ''decoded''] [BIO, BIO] ''malloc failed in orca_base64_decode'',
        Free [BIO, BIO]] (o_b64dec ssl d) s)"

section \<open>RSA\<close>

definition orca_rsa_sign ::
    "bool \<Rightarrow> outcomes \<Rightarrow> ssl \<Rightarrow> byte list option \<Rightarrow> string option \<Rightarrow> cstate \<Rightarrow> string option \<times> cstate" where
  "orca_rsa_sign out ok ssl data private_key_pem s = (case (data, private_key_pem, out) of
      (Some d, Some pem, True) \<Rightarrow>
        then_call [
          Call (ok 0) [BIO] [] ''Failed to create BIO for private key'',
          Call (o_priv_ok ssl pem) [PKEY] [BIO] ''Failed to read private key'',
          Free [BIO],
          Call (ok 1) [MD_CTX] [PKEY] ''Failed to create EVP context'',
          Call (ok 2) [] [MD_CTX, PKEY] ''Failed to init sign'',
          Call (ok 3) [] [MD_CTX, PKEY] ''Failed to update sign'',
          Call (ok 4) [] [MD_CTX, PKEY] ''Failed to get signature length'',
          Call (ok 5) [MEM ''sig''] [MD_CTX, PKEY] ''malloc failed for signature'',
          Call (ok 6) [] [MEM ''sig'', MD_CTX, PKEY] ''Failed to sign'',
          Free [MD_CTX, PKEY]]
        (\<lambda>s. let sig = o_sign ssl pem d;
                 (b64, s) = orca_base64_encode (shift 7 ok) ssl (Some sig) (int (length sig)) s;
                 s = free_res [MEM ''sig''] s
             in (case b64 of
                 None \<Rightarrow> reject ''Failed to base64 encode signature'' s
               | Some t \<Rightarrow> (Some t, s))) s
    | _ \<Rightarrow> reject ''NULL pointer in orca_rsa_sign'' s)"

definition orca_rsa_sign_string ::
    "bool \<Rightarrow> outcomes \<Rightarrow> ssl \<Rightarrow> string option \<Rightarrow> string option \<Rightarrow> cstate \<Rightarrow> string option \<times> cstate" where
  "orca_rsa_sign_string out ok ssl str private_key_pem s = (case str of
      None \<Rightarrow> reject ''NULL string in orca_rsa_sign_string'' s
    | Some t \<Rightarrow> orca_rsa_sign out ok ssl (Some (string_bytes t)) private_key_pem s)"

definition orca_rsa_verify ::
    "outcomes \<Rightarrow> ssl \<Rightarrow> byte list option \<Rightarrow> string option \<Rightarrow> string option \<Rightarrow> cstate \<Rightarrow> bool \<times> cstate" where
  "orca_rsa_verify ok ssl data signature public_key_pem s =
    (case (data, signature, public_key_pem) of
      (Some d, Some sg, Some pem) \<Rightarrow>
        (let (dec, s) = orca_base64_decode ok ssl (Some sg) s in
         case dec of
           None \<Rightarrow> (False, set_error ''Failed to decode signature'' s)
         | Some (sig, sig_len) \<Rightarrow> run [
             Call (ok 1) [BIO] [MEM ''decoded''] ''Failed to create BIO for public key'',
             Call (o_pub_ok ssl pem) [PKEY] [BIO, MEM ''decoded''] ''Failed to read public key'',
             Free [BIO],
             Call (ok 2) [MD_CTX] [PKEY, MEM ''decoded''] ''Failed to create EVP context'',
             Call (ok 3) [] [MD_CTX, PKEY, MEM ''decoded''] ''Failed to init verify'',
             Call (ok 4) [] [MD_CTX, PKEY, MEM ''decoded''] ''Failed to update verify'',
             Free [MD_CTX, PKEY, MEM ''decoded''],
             Call (o_verify ssl pem d sig sig_len) [] [] ''Signature verification failed''] s)
    | _ \<Rightarrow> (False, set_error ''NULL pointer in orca_rsa_verify'' s))"

definition orca_rsa_verify_string ::
    "outcomes \<Rightarrow> ssl \<Rightarrow> string option \<Rightarrow> string option \<Rightarrow> string option \<Rightarrow> cstate \<Rightarrow> bool \<times> cstate" where
  "orca_rsa_verify_string ok ssl str signature public_key_pem s = (case str of
      None \<Rightarrow> (False, set_error ''NULL string in orca_rsa_verify_string'' s)
    | Some t \<Rightarrow> orca_rsa_verify ok ssl (Some (string_bytes t)) signature public_key_pem s)"

text \<open>
  Key generation ends with a trial signature whose outcome is only printed.
\<close>

definition keypair_test :: "outcomes \<Rightarrow> ssl \<Rightarrow> string \<Rightarrow> string \<Rightarrow> cstate \<Rightarrow> cstate" where
  "keypair_test ok ssl pub priv s =
    (let (sig, s) = orca_rsa_sign_string True ok ssl (Some ''test|keypair|verification'') (Some priv) s in
     case sig of
       None \<Rightarrow> s
     | Some t \<Rightarrow>
         let (_, s) = orca_rsa_verify_string (shift 8 ok) ssl (Some ''test|keypair|verification'') (Some t) (Some pub) s
         in free_res [MEM ''base64''] s)"

definition orca_rsa_generate_keypair ::
    "outcomes \<Rightarrow> ssl \<Rightarrow> nat \<Rightarrow> bool \<Rightarrow> cstate \<Rightarrow> (string \<times> string) option \<times> cstate" where
  "orca_rsa_generate_keypair ok ssl seed outs s =
    (if \<not> outs then reject ''NULL pointer in orca_rsa_generate_keypair'' s
     else then_call [
       Call (ok 0) [PKEY_CTX] [] ''Failed to create EVP context'',
       Call (ok 1) [] [PKEY_CTX] ''Failed to init keygen'',
       Call (ok 2) [] [PKEY_CTX] ''Failed to set RSA bits'',
       Call (ok 3) [PKEY] [PKEY_CTX] ''Failed to generate RSA key'',
       Free [PKEY_CTX],
       Call (ok 4) [BIO] [PKEY] ''Failed to create BIO for private key'',
       Call (ok 5) [] [BIO, PKEY] ''Failed to write private key'',
       Call (ok 6) [MEM ''private''] [BIO, PKEY] ''malloc failed for private key'',
       Free [BIO],
       Call (ok 7) [BIO] [MEM ''private'', PKEY] ''Failed to create BIO for public key'',
       Call (ok 8) [] [BIO, MEM ''private'', PKEY] ''Failed to write public key'',
       Call (ok 9) [MEM ''public''] [BIO, MEM ''private'', PKEY] ''malloc failed for public key'',
       Free [BIO],
       Free [PKEY]]
     (\<lambda>s. let (pub, priv) = o_keygen ssl seed
          in (Some (pub, priv), keypair_test (shift 10 ok) ssl pub priv s)) s)"

definition orca_rsa_public_key_from_pem :: "string option \<Rightarrow> bool \<Rightarrow> cstate \<Rightarrow> int option \<times> cstate" where
  "orca_rsa_public_key_from_pem pem outs s =
    (if pem = None \<or> \<not> outs then reject ''NULL pointer in orca_rsa_public_key_from_pem'' s
     else (Some 0, s))"

section \<open>AES-256-CBC\<close>

definition orca_aes_cbc_encrypt ::
    "bool \<Rightarrow> outcomes \<Rightarrow> ssl \<Rightarrow> byte list \<Rightarrow> byte list option \<Rightarrow> byte list option \<Rightarrow> cstate
      \<Rightarrow> (byte list \<times> byte list) option \<times> cstate" where
  "orca_aes_cbc_encrypt outs ok ssl iv data key s = (case (data, key, outs) of
      (Some d, Some k, True) \<Rightarrow> finish [
        Call (ok 0) [] [] ''Failed to generate IV'',
        Call (ok 1) [CIPHER_CTX] [] ''Failed to create cipher context'',
        Call (ok 2) [] [CIPHER_CTX] ''Failed to init encryption'',
        Call (ok 3) [MEM ''ciphertext''] [CIPHER_CTX] ''malloc failed for ciphertext'',
        Call (ok 4) [] [CIPHER_CTX, MEM ''ciphertext''] ''Failed to encrypt data'',
        Call (ok 5) [] [CIPHER_CTX, MEM ''ciphertext''] ''Failed to finalize encryption'',
        Free [CIPHER_CTX]] (iv, o_cbc_enc ssl k iv d) s
    | _ \<Rightarrow> reject ''NULL pointer in orca_aes_cbc_encrypt'' s)"

definition orca_aes_cbc_decrypt ::
    "bool \<Rightarrow> outcomes \<Rightarrow> ssl \<Rightarrow> byte list option \<Rightarrow> int \<Rightarrow> byte list option \<Rightarrow> byte list option \<Rightarrow> cstate
      \<Rightarrow> byte list option \<times> cstate" where
  "orca_aes_cbc_decrypt outs ok ssl ciphertext ciphertext_len key iv s = (case (ciphertext, key, iv, outs) of
      (Some c, Some k, Some v, True) \<Rightarrow> finish [
        Call (ok 0) [CIPHER_CTX] [] ''Failed to create cipher context'',
        Call (ok 1) [] [CIPHER_CTX] ''Failed to init decryption'',
        Call (ok 2) [MEM ''plaintext''] [CIPHER_CTX] ''malloc failed for plaintext'',
        Call (ok 3) [] [CIPHER_CTX, MEM ''plaintext''] ''Failed to decrypt data'',
        Call (ok 4 \<and> o_cbc_dec ssl k v c ciphertext_len \<noteq> None) [] [CIPHER_CTX, MEM ''plaintext'']
          ''Failed to finalize decryption'',
        Free [CIPHER_CTX]] (the (o_cbc_dec ssl k v c ciphertext_len)) s
    | _ \<Rightarrow> reject ''NULL pointer in orca_aes_cbc_decrypt'' s)"

definition orca_aes_cbc_encrypt_string ::
    "bool \<Rightarrow> outcomes \<Rightarrow> ssl \<Rightarrow> byte list \<Rightarrow> string option \<Rightarrow> string option \<Rightarrow> cstate
      \<Rightarrow> (string \<times> string) option \<times> cstate" where
  "orca_aes_cbc_encrypt_string outs ok ssl iv str key_hex s = (case (str, key_hex, outs) of
      (Some t, Some kh, True) \<Rightarrow> (case orca_hex_to_bytes (Some kh) 32 of
          Inl _ \<Rightarrow> reject ''Invalid key hex'' s
        | Inr key \<Rightarrow>
            let (enc, s) = orca_aes_cbc_encrypt True ok ssl iv (Some (string_bytes t)) (Some key) s in
            (case enc of
               None \<Rightarrow> (None, s)
             | Some (iv, ct) \<Rightarrow>
                 let (b64, s) = orca_base64_encode (shift 6 ok) ssl (Some ct) (int (length ct)) s;
                     s = free_res [MEM ''ciphertext''] s
                 in (case b64 of
                     None \<Rightarrow> reject ''Failed to base64 encode ciphertext'' s
                   | Some b \<Rightarrow> (Some (the (orca_bytes_to_hex (Some iv)), b), s))))
    | _ \<Rightarrow> reject ''NULL pointer in orca_aes_cbc_encrypt_string'' s)"

definition orca_aes_cbc_decrypt_string ::
    "bool \<Rightarrow> outcomes \<Rightarrow> ssl \<Rightarrow> string option \<Rightarrow> string option \<Rightarrow> string option \<Rightarrow> cstate \<Rightarrow> byte list option \<times> cstate" where
  "orca_aes_cbc_decrypt_string out ok ssl ciphertext_b64 iv_hex key_hex s =
    (case (ciphertext_b64, iv_hex, key_hex, out) of
      (Some cb, Some vh, Some kh, True) \<Rightarrow> (case orca_hex_to_bytes (Some kh) 32 of
          Inl _ \<Rightarrow> reject ''Invalid key hex'' s
        | Inr key \<Rightarrow> (case orca_hex_to_bytes (Some vh) 16 of
            Inl _ \<Rightarrow> reject ''Invalid IV hex'' s
          | Inr iv \<Rightarrow>
              let (dec, s) = orca_base64_decode ok ssl (Some cb) s in
              (case dec of
                 None \<Rightarrow> reject ''Failed to decode ciphertext'' s
               | Some (ct, ct_len) \<Rightarrow>
                   let (res, s) = orca_aes_cbc_decrypt True (shift 1 ok) ssl (Some ct) ct_len (Some key) (Some iv) s
                   in (res, free_res [MEM ''decoded''] s))))
    | _ \<Rightarrow> reject ''NULL pointer in orca_aes_cbc_decrypt_string'' s)"

section \<open>X25519\<close>

definition orca_x25519_generate_keypair ::
    "outcomes \<Rightarrow> ssl \<Rightarrow> byte list \<Rightarrow> bool \<Rightarrow> cstate \<Rightarrow> (byte list \<times> byte list) option \<times> cstate" where
  "orca_x25519_generate_keypair ok ssl priv outs s =
    (if \<not> outs then reject ''NULL pointer in orca_x25519_generate_keypair'' s
     else finish [
       Call (ok 0) [PKEY_CTX] [] ''Failed to create X25519 context'',
       Call (ok 1) [] [PKEY_CTX] ''Failed to init X25519 keygen'',
       Call (ok 2) [PKEY] [PKEY_CTX] ''Failed to generate X25519 keypair'',
       Free [PKEY_CTX],
       Call (ok 3) [] [PKEY] ''Failed to extract public key'',
       Call (ok 4) [] [PKEY] ''Failed to extract private key'',
       Free [PKEY]] (o_x25519_public ssl priv, priv) s)"

definition orca_x25519_compute_shared_secret ::
    "bool \<Rightarrow> outcomes \<Rightarrow> ssl \<Rightarrow> byte list option \<Rightarrow> byte list option \<Rightarrow> cstate \<Rightarrow> byte list option \<times> cstate" where
  "orca_x25519_compute_shared_secret out ok ssl private_key peer_public_key s =
    (case (private_key, peer_public_key, out) of
      (Some priv, Some peer, True) \<Rightarrow> finish [
        Call (ok 0) [PKEY] [] ''Failed to import private key'',
        Call (ok 1) [PEER_KEY] [PKEY] ''Failed to import peer public key'',
        Call (ok 2) [PKEY_CTX] [PKEY, PEER_KEY] ''Failed to create context'',
        Call (ok 3) [] [PKEY_CTX, PKEY, PEER_KEY] ''Failed to init derive'',
        Call (ok 4) [] [PKEY_CTX, PKEY, PEER_KEY] ''Failed to set peer'',
        Call (ok 5 \<and> o_x25519 ssl priv peer \<noteq> None) [] [PKEY_CTX, PKEY, PEER_KEY]
          ''Failed to derive shared secret'',
        Free [PKEY_CTX, PKEY, PEER_KEY]] (the (o_x25519 ssl priv peer)) s
    | _ \<Rightarrow> reject ''NULL pointer in orca_x25519_compute_shared_secret'' s)"

definition orca_x25519_public_key_to_hex :: "byte list option \<Rightarrow> string option" where
  "orca_x25519_public_key_to_hex public_key = (case public_key of
      None \<Rightarrow> None | Some k \<Rightarrow> orca_bytes_to_hex (Some (take 32 k)))"

definition hex_bytes_or_error :: "string option \<Rightarrow> nat \<Rightarrow> cstate \<Rightarrow> byte list option \<times> cstate" where
  "hex_bytes_or_error hex n s = (case orca_hex_to_bytes hex n of
      Inl msg \<Rightarrow> reject msg s | Inr bs \<Rightarrow> (Some bs, s))"

definition orca_x25519_hex_to_public_key :: "bool \<Rightarrow> string option \<Rightarrow> cstate \<Rightarrow> byte list option \<times> cstate" where
  "orca_x25519_hex_to_public_key out hex s = (case (hex, out) of
      (Some h, True) \<Rightarrow> hex_bytes_or_error (Some h) 32 s
    | _ \<Rightarrow> reject ''NULL pointer in orca_x25519_hex_to_public_key'' s)"

section \<open>PBKDF2, salts, random bytes\<close>

definition orca_derive_key_from_passcode ::
    "bool \<Rightarrow> outcomes \<Rightarrow> ssl \<Rightarrow> string option \<Rightarrow> byte list option \<Rightarrow> int \<Rightarrow> int \<Rightarrow> cstate \<Rightarrow> byte list option \<times> cstate" where
  "orca_derive_key_from_passcode out ok ssl passcode salt salt_len iterations s = (case (passcode, salt, out) of
      (Some p, Some sl, True) \<Rightarrow>
        if salt_len \<le> 0 \<or> iterations \<le> 0
        then reject ''Invalid parameters in orca_derive_key_from_passcode'' s
        else finish [Call (ok 0) [] [] ''PBKDF2 failed'']
          (o_pbkdf2 ssl (string_bytes p) (take (nat salt_len) sl) iterations 32) s
    | _ \<Rightarrow> reject ''Invalid parameters in orca_derive_key_from_passcode'' s)"

definition orca_derive_key_from_passcode_hex ::
    "bool \<Rightarrow> outcomes \<Rightarrow> ssl \<Rightarrow> string option \<Rightarrow> string option \<Rightarrow> int \<Rightarrow> cstate \<Rightarrow> string option \<times> cstate" where
  "orca_derive_key_from_passcode_hex out ok ssl passcode salt_hex iterations s =
    (if passcode = None \<or> salt_hex = None \<or> \<not> out
     then reject ''NULL pointer in orca_derive_key_from_passcode_hex'' s
     else (case orca_hex_to_bytes salt_hex 16 of
         Inl _ \<Rightarrow> reject ''Invalid salt hex'' s
       | Inr salt \<Rightarrow>
           let (key, s) = orca_derive_key_from_passcode True ok ssl passcode (Some salt) 16 iterations s
           in (case key of None \<Rightarrow> (None, s) | Some k \<Rightarrow> (orca_bytes_to_hex (Some k), s))))"

definition orca_generate_salt :: "bool \<Rightarrow> outcomes \<Rightarrow> byte list \<Rightarrow> cstate \<Rightarrow> byte list option \<times> cstate" where
  "orca_generate_salt out ok rnd s =
    (if \<not> out then reject ''NULL pointer in orca_generate_salt'' s
     else finish [Call (ok 0) [] [] ''Failed to generate salt''] (take 16 rnd) s)"

definition orca_generate_salt_hex :: "bool \<Rightarrow> outcomes \<Rightarrow> byte list \<Rightarrow> cstate \<Rightarrow> string option \<times> cstate" where
  "orca_generate_salt_hex out ok rnd s =
    (if \<not> out then reject ''NULL pointer in orca_generate_salt_hex'' s
     else let (salt, s) = orca_generate_salt True ok rnd s
     in (case salt of None \<Rightarrow> (None, s) | Some b \<Rightarrow> (orca_bytes_to_hex (Some b), s)))"

definition orca_random_bytes :: "outcomes \<Rightarrow> byte list \<Rightarrow> bool \<Rightarrow> nat \<Rightarrow> cstate \<Rightarrow> byte list option \<times> cstate" where
  "orca_random_bytes ok rnd buf len s =
    (if \<not> buf \<or> len = 0 then reject ''Invalid parameters in orca_random_bytes'' s
     else finish [Call (ok 0) [] [] ''Failed to generate random bytes''] (take len rnd) s)"

end
