(* ===== verification/Crypto_Properties.thy ===== *)
theory Crypto_Properties
  imports Orca_Crypto
begin

text \<open>
  What the OpenSSL wrappers guarantee: no leak and a message on every failure branch, and the
  round trips of encryption, signatures and key agreement under the documented behaviour of
  OpenSSL (\<open>ssl_ok\<close>).
\<close>

section \<open>Resources and messages\<close>

text \<open>
  \<open>outcome_ok P held left m\<close>: called while it owns \<open>held\<close>, the function frees all of it on a failure,
  which leaves a message with \<open>P\<close>, and owns \<open>left\<close> after a success; nobody else's objects are
  touched.  \<open>behaves\<close> asks for a non-empty message.
\<close>

definition outcome_ok ::
    "(string \<Rightarrow> bool) \<Rightarrow> res list \<Rightarrow> res list \<Rightarrow> (cstate \<Rightarrow> 'a option \<times> cstate) \<Rightarrow> bool" where
  "outcome_ok P held left m \<longleftrightarrow> (\<forall>s base. c_live s = base + mset held \<longrightarrow>
     c_live (snd (m s)) = base + (if fst (m s) = None then {#} else mset left)
     \<and> (fst (m s) = None \<longrightarrow> P (c_error (snd (m s)))))"

abbreviation behaves :: "res list \<Rightarrow> res list \<Rightarrow> (cstate \<Rightarrow> 'a option \<times> cstate) \<Rightarrow> bool" where
  "behaves \<equiv> outcome_ok (\<lambda>e. e \<noteq> '''')"

lemma outcome_I:
  assumes "\<And>s base. c_live s = base + mset held \<Longrightarrow>
     c_live (snd (m s)) = base + (if fst (m s) = None then {#} else mset left)
     \<and> (fst (m s) = None \<longrightarrow> P (c_error (snd (m s))))"
  shows "outcome_ok P held left m"
  using assms unfolding outcome_ok_def by blast

lemma outcome_D:
  assumes "outcome_ok P held left m" and "c_live s = base + mset held" and "m s = (r, s')"
  shows "c_live s' = base + (if r = None then {#} else mset left)" and "r = None \<Longrightarrow> P (c_error s')"
proof -
  have "c_live (snd (m s)) = base + (if fst (m s) = None then {#} else mset left)
      \<and> (fst (m s) = None \<longrightarrow> P (c_error (snd (m s))))"
    using assms(1,2) unfolding outcome_ok_def by blast
  then show "c_live s' = base + (if r = None then {#} else mset left)" and "r = None \<Longrightarrow> P (c_error s')"
    unfolding assms(3) by simp_all
qed

lemmas behavesD = outcome_D [where P = "\<lambda>e. e \<noteq> ''''"]

lemma outcome_reject: "P (take 255 msg) \<Longrightarrow> outcome_ok P [] left (reject msg)"
  by (simp add: outcome_ok_def reject_def set_error_def)

lemma outcome_then:
  assumes "clean held is = Some mid" and "\<forall>e \<in> messages is. P e" and "outcome_ok P mid left k"
  shows "outcome_ok P held left (then_call is k)"
proof (rule outcome_I)
  fix s :: cstate and base assume l: "c_live s = base + mset held"
  obtain ok s' where r: "run is s = (ok, s')" by (cases "run is s")
  have c: "c_live s' = (if ok then base + mset mid else base)"
    by (rule run_clean [OF assms(1) l r])
  have e: "P (c_error s')" if "\<not> ok"
    using run_error [of "is" s] assms(2) r that by auto
  show "c_live (snd (then_call is k s)) = base + (if fst (then_call is k s) = None then {#} else mset left)
      \<and> (fst (then_call is k s) = None \<longrightarrow> P (c_error (snd (then_call is k s))))"
  proof (cases ok)
    case True
    then have "c_live s' = base + mset mid" using c by simp
    then show ?thesis
      using assms(3) r True unfolding outcome_ok_def then_call_def by simp
  next
    case False
    then show ?thesis using r c e by (simp add: then_call_def)
  qed
qed

lemma finish_then: "finish is r = then_call is (\<lambda>s. (Some r, s))"
  by (simp add: fun_eq_iff finish_def then_call_def split: prod.split)

lemma outcome_return: "outcome_ok P held held (\<lambda>s. (Some r, s))"
  by (simp add: outcome_ok_def)

lemma outcome_finish:
  "clean held is = Some left \<Longrightarrow> \<forall>e \<in> messages is. P e \<Longrightarrow> outcome_ok P held left (finish is r)"
  unfolding finish_then by (rule outcome_then [OF _ _ outcome_return])

text \<open>A call whose result is followed by freeing what was only needed for it.\<close>

lemma outcome_call_free:
  assumes "outcome_ok Q [] left m" and "\<And>s. f None s = reject msg (free_res extra s)" and "P (take 255 msg)"
    and "\<And>t s. f (Some t) s = (Some (g t), free_res extra s)"
  shows "outcome_ok P extra left (\<lambda>s. case m s of (x, s) \<Rightarrow> f x s)"
proof (rule outcome_I)
  fix s :: cstate and base assume l: "c_live s = base + mset extra"
  obtain x s' where m: "m s = (x, s')" by (cases "m s")
  show "c_live (snd (case m s of (x, s) \<Rightarrow> f x s))
      = base + (if fst (case m s of (x, s) \<Rightarrow> f x s) = None then {#} else mset left)
      \<and> (fst (case m s of (x, s) \<Rightarrow> f x s) = None \<longrightarrow> P (c_error (snd (case m s of (x, s) \<Rightarrow> f x s))))"
    using outcome_D(1) [OF assms(1) _ m, of "base + mset extra"] l assms(2-4) m
    by (cases x) (simp_all add: reject_def set_error_def free_res_def)
qed

lemma take_255_nonempty [simp]: "take 255 (c # cs) \<noteq> ''''"
  by simp

lemma hash_behaves: "behaves [] [] (orca_hash out ok ssl data)"
  unfolding orca_hash_def [abs_def] by (cases data; cases out) (auto intro!: outcome_reject outcome_finish)

lemma hash_string_behaves: "behaves [] [] (orca_hash_string out ok ssl str)"
  using hash_behaves unfolding orca_hash_string_def [abs_def]
  by (cases str; cases out) (auto intro!: outcome_reject)

lemma base64_behaves:
  "behaves [] [MEM ''base64''] (orca_base64_encode ok ssl data len)"
  "behaves [] [MEM ''decoded''] (orca_base64_decode ok ssl str)"
proof -
  show "behaves [] [MEM ''base64''] (orca_base64_encode ok ssl data len)"
    unfolding orca_base64_encode_def [abs_def]
    by (cases "data = None \<or> len \<le> 0") (auto intro!: outcome_reject outcome_finish)
  show "behaves [] [MEM ''decoded''] (orca_base64_decode ok ssl str)"
    unfolding orca_base64_decode_def [abs_def]
    by (cases str) (auto intro!: outcome_reject outcome_finish)
qed

lemma sign_behaves: "behaves [] [MEM ''base64''] (orca_rsa_sign out ok ssl data pem)"
proof (cases "data = None \<or> pem = None \<or> \<not> out")
  case True
  then show ?thesis unfolding orca_rsa_sign_def [abs_def]
    by (cases data; cases pem; cases out) (auto intro!: outcome_reject)
next
  case False
  then obtain d p where dp: "data = Some d" "pem = Some p" "out = True" by auto
  have "behaves [MEM ''sig''] [MEM ''base64'']
     (\<lambda>s. case orca_base64_encode (shift 7 ok) ssl (Some (o_sign ssl p d)) (int (length (o_sign ssl p d))) s of
       (b64, s) \<Rightarrow> (\<lambda>b64 s. let s = free_res [MEM ''sig''] s in case b64 of
           None \<Rightarrow> reject ''Failed to base64 encode signature'' s | Some t \<Rightarrow> (Some t, s)) b64 s)"
    by (rule outcome_call_free [OF base64_behaves(1)]) auto
  then show ?thesis unfolding orca_rsa_sign_def [abs_def] dp
    by (auto simp: Let_def intro!: outcome_then)
qed

lemma sign_string_behaves: "behaves [] [MEM ''base64''] (orca_rsa_sign_string out ok ssl str pem)"
  using sign_behaves unfolding orca_rsa_sign_string_def [abs_def]
  by (cases str) (auto intro!: outcome_reject)

text \<open>The verifier owns nothing at its end, whatever its answer.\<close>

definition verifies_cleanly :: "(cstate \<Rightarrow> bool \<times> cstate) \<Rightarrow> bool" where
  "verifies_cleanly m \<longleftrightarrow> (\<forall>s. c_live (snd (m s)) = c_live s \<and> (\<not> fst (m s) \<longrightarrow> c_error (snd (m s)) \<noteq> ''''))"

lemma verify_cleanly: "verifies_cleanly (orca_rsa_verify ok ssl data sg pem)"
proof (cases "data = None \<or> sg = None \<or> pem = None")
  case True
  then show ?thesis unfolding verifies_cleanly_def
    by (cases data; cases sg; cases pem) (simp_all add: orca_rsa_verify_def set_error_def)
next
  case False
  then obtain d g p where dp: "data = Some d" "sg = Some g" "pem = Some p" by auto
  let ?m = "orca_rsa_verify ok ssl data sg pem"
  have "c_live (snd (?m s)) = c_live s \<and> (\<not> fst (?m s) \<longrightarrow> c_error (snd (?m s)) \<noteq> '''')" for s
  proof -
    obtain r s1 where dec: "orca_base64_decode ok ssl (Some g) s = (r, s1)" by fastforce
    have l: "c_live s1 = c_live s + (if r = None then {#} else mset [MEM ''decoded''])"
      using behavesD(1) [OF base64_behaves(2) _ dec, of "c_live s"] by simp
    show ?thesis
    proof (cases r)
      case None
      then show ?thesis using dec l by (simp add: orca_rsa_verify_def dp set_error_def)
    next
      case (Some x)
      obtain sig n where x: "x = (sig, n)" by fastforce
      let ?is = "[
        Call (ok 1) [BIO] [MEM ''decoded''] ''Failed to create BIO for public key'',
        Call (o_pub_ok ssl p) [PKEY] [BIO, MEM ''decoded''] ''Failed to read public key'',
        Free [BIO],
        Call (ok 2) [MD_CTX] [PKEY, MEM ''decoded''] ''Failed to create EVP context'',
        Call (ok 3) [] [MD_CTX, PKEY, MEM ''decoded''] ''Failed to init verify'',
        Call (ok 4) [] [MD_CTX, PKEY, MEM ''decoded''] ''Failed to update verify'',
        Free [MD_CTX, PKEY, MEM ''decoded''],
        Call (o_verify ssl p d sig n) [] [] ''Signature verification failed'']"
      have v: "?m s = run ?is s1" using dec Some x by (simp add: orca_rsa_verify_def dp)
      have c: "clean [MEM ''decoded''] ?is = Some []" by simp
      have e: "'''' \<notin> messages ?is" by simp
      obtain b s2 where r: "run ?is s1 = (b, s2)" by (cases "run ?is s1")
      have "c_live s2 = c_live s"
        using run_clean [OF c _ r, of "c_live s"] l Some by simp
      moreover have "\<not> b \<longrightarrow> c_error s2 \<noteq> ''''"
        using run_error [of ?is s1] r e by (metis fst_conv snd_conv)
      ultimately show ?thesis unfolding v r by simp
    qed
  qed
  then show ?thesis unfolding verifies_cleanly_def by blast
qed

lemma verify_string_cleanly: "verifies_cleanly (orca_rsa_verify_string ok ssl str sg pem)"
  using verify_cleanly unfolding orca_rsa_verify_string_def [abs_def]
  by (cases str) (auto simp: verifies_cleanly_def set_error_def)

lemma keypair_test_live: "c_live (keypair_test ok ssl pub priv s) = c_live s"
proof -
  obtain r s1 where sg: "orca_rsa_sign_string True ok ssl (Some ''test|keypair|verification'') (Some priv) s = (r, s1)"
    by fastforce
  have l: "c_live s1 = c_live s + (if r = None then {#} else mset [MEM ''base64''])"
    using behavesD(1) [OF sign_string_behaves _ sg, of "c_live s"] by simp
  show ?thesis
  proof (cases r)
    case None
    then show ?thesis using sg l by (simp add: keypair_test_def)
  next
    case (Some t)
    obtain b s2 where v: "orca_rsa_verify_string (shift 8 ok) ssl (Some ''test|keypair|verification'') (Some t) (Some pub) s1 = (b, s2)"
      by fastforce
    have "c_live s2 = c_live s1"
      using verify_string_cleanly [of "shift 8 ok" ssl "Some ''test|keypair|verification''" "Some t" "Some pub"] v
      unfolding verifies_cleanly_def by (metis snd_conv)
    then show ?thesis using sg v l Some by (simp add: keypair_test_def free_res_def)
  qed
qed

lemma generate_behaves:
  "behaves [] [MEM ''private'', MEM ''public''] (orca_rsa_generate_keypair ok ssl seed outs)"
proof (cases outs)
  case False
  then show ?thesis unfolding orca_rsa_generate_keypair_def [abs_def] by (auto intro!: outcome_reject)
next
  case True
  have "behaves held held (\<lambda>s. let (pub, priv) = o_keygen ssl seed
      in (Some (pub, priv), keypair_test (shift 10 ok) ssl pub priv s))" for held
    by (simp add: outcome_ok_def keypair_test_live split: prod.split)
  then show ?thesis using True unfolding orca_rsa_generate_keypair_def [abs_def]
    by (auto intro!: outcome_then)
qed

lemma cbc_behaves:
  "behaves [] [MEM ''ciphertext''] (orca_aes_cbc_encrypt outs ok ssl iv data key)"
  "behaves [] [MEM ''plaintext''] (orca_aes_cbc_decrypt outs ok ssl ct n key iv')"
proof -
  show "behaves [] [MEM ''ciphertext''] (orca_aes_cbc_encrypt outs ok ssl iv data key)"
    unfolding orca_aes_cbc_encrypt_def [abs_def]
    by (cases data; cases key; cases outs) (auto intro!: outcome_reject outcome_finish)
  show "behaves [] [MEM ''plaintext''] (orca_aes_cbc_decrypt outs ok ssl ct n key iv')"
    unfolding orca_aes_cbc_decrypt_def [abs_def]
    by (cases ct; cases key; cases iv'; cases outs) (auto intro!: outcome_reject outcome_finish)
qed

lemma cbc_encrypt_string_behaves:
  "behaves [] [MEM ''base64''] (orca_aes_cbc_encrypt_string outs ok ssl iv str key_hex)"
proof (cases "str = None \<or> key_hex = None \<or> \<not> outs \<or> (\<exists>e. orca_hex_to_bytes key_hex 32 = Inl e)")
  case True
  then show ?thesis unfolding orca_aes_cbc_encrypt_string_def [abs_def]
    by (cases str; cases key_hex; cases outs) (auto intro!: outcome_reject)
next
  case False
  then obtain t kh key where k: "str = Some t" "key_hex = Some kh" "outs = True" "orca_hex_to_bytes (Some kh) 32 = Inr key"
    by (cases "orca_hex_to_bytes key_hex 32") auto
  let ?e = "orca_aes_cbc_encrypt True ok ssl iv (Some (string_bytes t)) (Some key)"
  let ?rest = "\<lambda>enc. case enc of
       None \<Rightarrow> (\<lambda>s. (None, s))
     | Some (iv, ct) \<Rightarrow> \<lambda>s. case orca_base64_encode (shift 6 ok) ssl (Some ct) (int (length ct)) s of
         (b64, s) \<Rightarrow> (\<lambda>b64 s. let s = free_res [MEM ''ciphertext''] s in case b64 of
             None \<Rightarrow> reject ''Failed to base64 encode ciphertext'' s
           | Some b \<Rightarrow> (Some (the (orca_bytes_to_hex (Some iv)), b), s)) b64 s"
  have rest: "behaves [MEM ''ciphertext''] [MEM ''base64''] (?rest (Some (iv', ct)))" for iv' ct
    unfolding option.case prod.case
    by (rule outcome_call_free [OF base64_behaves(1), where g = "\<lambda>b. (the (orca_bytes_to_hex (Some iv')), b)"]) auto
  have d: "orca_aes_cbc_encrypt_string outs ok ssl iv str key_hex s = (case ?e s of (enc, s) \<Rightarrow> ?rest enc s)" for s
    by (simp add: orca_aes_cbc_encrypt_string_def k Let_def split: prod.split option.split)
  have "c_live (snd (case ?e s of (enc, s) \<Rightarrow> ?rest enc s))
      = base + (if fst (case ?e s of (enc, s) \<Rightarrow> ?rest enc s) = None then {#} else mset [MEM ''base64''])
      \<and> (fst (case ?e s of (enc, s) \<Rightarrow> ?rest enc s) = None \<longrightarrow> c_error (snd (case ?e s of (enc, s) \<Rightarrow> ?rest enc s)) \<noteq> '''')"
    if "c_live s = base + mset []" for s base
  proof -
    obtain enc s1 where e: "?e s = (enc, s1)" by fastforce
    note b = behavesD [OF cbc_behaves(1) that e]
    show ?thesis
    proof (cases enc)
      case None
      then show ?thesis using e b by simp
    next
      case (Some x)
      obtain iv' ct where x: "x = (iv', ct)" by fastforce
      have "c_live s1 = base + mset [MEM ''ciphertext'']" using b(1) Some by simp
      with rest [of iv' ct] show ?thesis unfolding outcome_ok_def e Some x prod.case by blast
    qed
  qed
  then show ?thesis unfolding outcome_ok_def d by blast
qed

lemma cbc_decrypt_string_behaves:
  "behaves [] [MEM ''plaintext''] (orca_aes_cbc_decrypt_string out ok ssl cb iv_hex key_hex)"
proof (cases "\<not> out \<or> cb = None \<or> iv_hex = None \<or> key_hex = None
    \<or> (\<exists>e. orca_hex_to_bytes key_hex 32 = Inl e) \<or> (\<exists>e. orca_hex_to_bytes iv_hex 16 = Inl e)")
  case True
  then show ?thesis unfolding orca_aes_cbc_decrypt_string_def [abs_def]
    by (cases cb; cases iv_hex; cases key_hex; cases out; cases "orca_hex_to_bytes key_hex 32")
      (auto intro!: outcome_reject split: sum.split)
next
  case False
  then obtain c vh kh key iv where k: "out = True" "cb = Some c" "iv_hex = Some vh" "key_hex = Some kh"
    "orca_hex_to_bytes (Some kh) 32 = Inr key" "orca_hex_to_bytes (Some vh) 16 = Inr iv"
    by (cases "orca_hex_to_bytes key_hex 32"; cases "orca_hex_to_bytes iv_hex 16") auto
  let ?m = "orca_aes_cbc_decrypt_string out ok ssl cb iv_hex key_hex"
  have "c_live (snd (?m s)) = base + (if fst (?m s) = None then {#} else mset [MEM ''plaintext''])
      \<and> (fst (?m s) = None \<longrightarrow> c_error (snd (?m s)) \<noteq> '''')"
    if "c_live s = base + mset []" for s base
  proof -
    obtain r s1 where dec: "orca_base64_decode ok ssl (Some c) s = (r, s1)" by fastforce
    note b = behavesD [OF base64_behaves(2) that dec]
    show ?thesis
    proof (cases r)
      case None
      then show ?thesis using b dec by (simp add: orca_aes_cbc_decrypt_string_def k reject_def set_error_def)
    next
      case (Some x)
      obtain ct n where x: "x = (ct, n)" by fastforce
      obtain r2 s2 where aes: "orca_aes_cbc_decrypt True (shift 1 ok) ssl (Some ct) n (Some key) (Some iv) s1 = (r2, s2)"
        by fastforce
      have "c_live s1 = (base + mset [MEM ''decoded'']) + mset []" using b(1) Some by simp
      note b2 = behavesD [OF cbc_behaves(2) this aes]
      show ?thesis using dec aes b2 by (cases r2) (simp_all add: orca_aes_cbc_decrypt_string_def k Some x free_res_def)
    qed
  qed
  then show ?thesis unfolding outcome_ok_def by blast
qed

lemma x25519_behaves:
  "behaves [] [] (orca_x25519_generate_keypair ok ssl priv outs)"
  "behaves [] [] (orca_x25519_compute_shared_secret out ok ssl sk pk)"
proof -
  show "behaves [] [] (orca_x25519_generate_keypair ok ssl priv outs)"
    unfolding orca_x25519_generate_keypair_def [abs_def]
    by (cases outs) (auto intro!: outcome_reject outcome_finish)
  show "behaves [] [] (orca_x25519_compute_shared_secret out ok ssl sk pk)"
    unfolding orca_x25519_compute_shared_secret_def [abs_def]
    by (cases sk; cases pk; cases out) (auto intro!: outcome_reject outcome_finish)
qed

lemma hex_to_key_behaves: "behaves [] [] (orca_x25519_hex_to_public_key out hex)"
proof -
  have "msg \<noteq> []" if "orca_hex_to_bytes h n = Inl msg" for h n msg
    using that by (auto simp: orca_hex_to_bytes_def split: option.splits if_splits)
  then have "behaves [] [] (hex_bytes_or_error h n)" for h n
    by (cases "orca_hex_to_bytes h n")
      (auto simp: hex_bytes_or_error_def outcome_ok_def reject_def set_error_def)
  then show ?thesis unfolding orca_x25519_hex_to_public_key_def [abs_def]
    by (cases hex; cases out) (auto intro!: outcome_reject)
qed

lemma from_pem_behaves: "behaves [] [] (orca_rsa_public_key_from_pem pem outs)"
  unfolding orca_rsa_public_key_from_pem_def [abs_def]
  by (cases pem; cases outs) (auto intro!: outcome_reject outcome_return)

lemma derive_behaves:
  "behaves [] [] (orca_derive_key_from_passcode out ok ssl pass salt n iters)"
  unfolding orca_derive_key_from_passcode_def [abs_def]
  by (cases pass; cases salt; cases out; cases "n \<le> 0 \<or> iters \<le> 0") (auto intro!: outcome_reject outcome_finish)

text \<open>A call whose result is only rewritten, without a failure of its own.\<close>

lemma outcome_rewrite:
  assumes "outcome_ok P [] [] m"
  shows "outcome_ok P [] [] (\<lambda>s. case m s of (x, s) \<Rightarrow> case x of None \<Rightarrow> (None, s) | Some y \<Rightarrow> (Some (g y), s))"
proof (rule outcome_I)
  fix s :: cstate and base assume l: "c_live s = base + mset []"
  obtain x s' where m: "m s = (x, s')" by (cases "m s")
  show "c_live (snd (case m s of (x, s) \<Rightarrow> case x of None \<Rightarrow> (None, s) | Some y \<Rightarrow> (Some (g y), s)))
      = base + (if fst (case m s of (x, s) \<Rightarrow> case x of None \<Rightarrow> (None, s) | Some y \<Rightarrow> (Some (g y), s)) = None then {#} else mset [])
      \<and> (fst (case m s of (x, s) \<Rightarrow> case x of None \<Rightarrow> (None, s) | Some y \<Rightarrow> (Some (g y), s)) = None
        \<longrightarrow> P (c_error (snd (case m s of (x, s) \<Rightarrow> case x of None \<Rightarrow> (None, s) | Some y \<Rightarrow> (Some (g y), s)))))"
    using outcome_D [OF assms l m] m by (cases x) simp_all
qed

lemma hex_of_Some: "orca_bytes_to_hex (Some b) = Some (concat (map hex_byte b))"
  by (simp add: orca_bytes_to_hex_def)

lemma derive_hex_behaves:
  "behaves [] [] (orca_derive_key_from_passcode_hex out ok ssl pass salt_hex iters)"
proof (cases "pass = None \<or> salt_hex = None \<or> \<not> out \<or> (\<exists>e. orca_hex_to_bytes salt_hex 16 = Inl e)")
  case True
  then show ?thesis unfolding orca_derive_key_from_passcode_hex_def [abs_def]
    by (cases pass; cases salt_hex; cases out) (auto intro!: outcome_reject)
next
  case False
  then obtain salt where "orca_hex_to_bytes salt_hex 16 = Inr salt" by (cases "orca_hex_to_bytes salt_hex 16") auto
  then show ?thesis
    using False outcome_rewrite [OF derive_behaves [of True ok ssl pass "Some salt" 16 iters]]
    unfolding orca_derive_key_from_passcode_hex_def [abs_def] hex_of_Some Let_def by auto
qed

lemma salt_behaves:
  "behaves [] [] (orca_generate_salt out ok rnd)" "behaves [] [] (orca_generate_salt_hex out ok rnd)"
proof -
  show s: "behaves [] [] (orca_generate_salt out ok rnd)" for out
    unfolding orca_generate_salt_def [abs_def] by (cases out) (auto intro!: outcome_reject outcome_finish)
  show "behaves [] [] (orca_generate_salt_hex out ok rnd)"
    unfolding orca_generate_salt_hex_def [abs_def] hex_of_Some Let_def
    by (cases out) (auto intro!: outcome_reject outcome_rewrite s)
qed

lemma random_behaves: "behaves [] [] (orca_random_bytes ok rnd buf n)"
  unfolding orca_random_bytes_def [abs_def]
  by (cases "\<not> buf \<or> n = 0") (auto intro!: outcome_reject outcome_finish)

text \<open>
  C13: none of the wrappers that call OpenSSL or report an error leaks or frees twice.  On every
  failure branch, a NULL argument or output pointer included, it has freed everything it
  allocated and recorded a message for \<open>orca_get_last_error\<close>; on success it owns exactly the
  buffers it hands to its caller.
\<close>

theorem crypto_wrappers_clean:
  "behaves [] [] (orca_hash out ok ssl data)
   \<and> behaves [] [] (orca_hash_string out ok ssl str)
   \<and> behaves [] [MEM ''base64''] (orca_base64_encode ok ssl data len)
   \<and> behaves [] [MEM ''decoded''] (orca_base64_decode ok ssl str)
   \<and> behaves [] [MEM ''private'', MEM ''public''] (orca_rsa_generate_keypair ok ssl seed out)
   \<and> behaves [] [MEM ''base64''] (orca_rsa_sign out ok ssl data pem)
   \<and> behaves [] [MEM ''base64''] (orca_rsa_sign_string out ok ssl str pem)
   \<and> verifies_cleanly (orca_rsa_verify ok ssl data sg pem)
   \<and> verifies_cleanly (orca_rsa_verify_string ok ssl str sg pem)
   \<and> behaves [] [] (orca_rsa_public_key_from_pem pem out)
   \<and> behaves [] [MEM ''ciphertext''] (orca_aes_cbc_encrypt out ok ssl iv data key)
   \<and> behaves [] [MEM ''plaintext''] (orca_aes_cbc_decrypt out ok ssl data len key key')
   \<and> behaves [] [MEM ''base64''] (orca_aes_cbc_encrypt_string out ok ssl iv str hex)
   \<and> behaves [] [MEM ''plaintext''] (orca_aes_cbc_decrypt_string out ok ssl str hex hex')
   \<and> behaves [] [] (orca_x25519_generate_keypair ok ssl iv out)
   \<and> behaves [] [] (orca_x25519_compute_shared_secret out ok ssl key key')
   \<and> behaves [] [] (orca_x25519_hex_to_public_key out hex)
   \<and> behaves [] [] (orca_derive_key_from_passcode out ok ssl str data len iters)
   \<and> behaves [] [] (orca_derive_key_from_passcode_hex out ok ssl str hex iters)
   \<and> behaves [] [] (orca_generate_salt out ok iv)
   \<and> behaves [] [] (orca_generate_salt_hex out ok iv)
   \<and> behaves [] [] (orca_random_bytes ok iv out n)"
  by (intro conjI hash_behaves hash_string_behaves base64_behaves generate_behaves sign_behaves sign_string_behaves
      verify_cleanly verify_string_cleanly from_pem_behaves cbc_behaves cbc_encrypt_string_behaves
      cbc_decrypt_string_behaves x25519_behaves hex_to_key_behaves derive_behaves derive_hex_behaves salt_behaves
      random_behaves)

section \<open>Round trips\<close>

text \<open>
  The documented behaviour of OpenSSL that the round trips need: base64 and CBC decryption undo
  their encoders, a generated key pair verifies its own signatures, and X25519 is commutative.
\<close>

definition ssl_ok :: "ssl \<Rightarrow> bool" where
  "ssl_ok ssl \<longleftrightarrow>
     (\<forall>bs. bs \<noteq> [] \<longrightarrow> o_b64dec ssl (o_b64enc ssl bs) = (bs, int (length bs)))
   \<and> (\<forall>k iv d. length k = 32 \<longrightarrow> length iv = 16 \<longrightarrow> o_cbc_enc ssl k iv d \<noteq> []
        \<and> o_cbc_dec ssl k iv (o_cbc_enc ssl k iv d) (int (length (o_cbc_enc ssl k iv d))) = Some d)
   \<and> (\<forall>k n d. length k = 32 \<longrightarrow> length n = 12 \<longrightarrow> (case o_gcm_enc ssl k n d of (c, tag) \<Rightarrow>
        length c = length d \<and> length tag = 16 \<and> o_gcm_dec ssl k n tag c (int (length c)) = Some d))
   \<and> (\<forall>seed d. case o_keygen ssl seed of (pub, priv) \<Rightarrow> o_priv_ok ssl priv \<and> o_pub_ok ssl pub
        \<and> o_sign ssl priv d \<noteq> [] \<and> o_verify ssl pub d (o_sign ssl priv d) (int (length (o_sign ssl priv d))))
   \<and> (\<forall>a b. length (o_x25519_public ssl a) = 32
        \<and> o_x25519 ssl a (o_x25519_public ssl b) = o_x25519 ssl b (o_x25519_public ssl a)
        \<and> (case o_x25519 ssl a (o_x25519_public ssl b) of None \<Rightarrow> True | Some r \<Rightarrow> length r = 32))
   \<and> (\<forall>k salt inf. length (o_hkdf ssl k salt inf) = 32)"

definition pad32 :: "byte list \<Rightarrow> byte list" where
  "pad32 a = take 32 (a @ replicate 32 0)"

definition toy_ssl :: ssl where
  "toy_ssl = \<lparr>o_sha256 = pad32, o_b64enc = map (\<lambda>b. char_of (unat b)),
     o_b64dec = (\<lambda>t. (map (\<lambda>c. of_nat (of_char c)) t, int (length t))),
     o_keygen = (\<lambda>seed. (''PUBLIC'', ''PRIVATE'')), o_priv_ok = (\<lambda>t. t = ''PRIVATE''), o_pub_ok = (\<lambda>t. t = ''PUBLIC''),
     o_sign = (\<lambda>_ d. 1 # d), o_verify = (\<lambda>_ d sig n. sig = 1 # d \<and> n = int (length sig)),
     o_cbc_enc = (\<lambda>k iv d. 0 # d), o_cbc_dec = (\<lambda>k iv c n. Some (tl c)),
     o_gcm_enc = (\<lambda>k n d. (d, replicate 16 7)),
     o_gcm_dec = (\<lambda>k n tag c len. if tag = replicate 16 7 then Some c else None),
     o_x25519_public = pad32, o_x25519 = (\<lambda>a p. Some (map2 (+) (pad32 a) p)),
     o_hkdf = (\<lambda>k salt inf. replicate 32 (case inf of None \<Rightarrow> 0 | Some i \<Rightarrow> last (0 # i))),
     o_pbkdf2 = (\<lambda>p s i n. replicate n (of_nat (length p)))\<rparr>"

lemma toy_ssl_ok: "ssl_ok toy_ssl"
proof -
  have b: "map ((\<lambda>c. of_nat (of_char c)) \<circ> (\<lambda>b. char_of (unat b))) bs = bs" for bs :: "byte list"
  proof -
    have "of_nat (of_char (char_of (unat b) :: char)) = b" for b :: byte
      using unsigned_less [of b, where ?'a = nat] by simp
    then show ?thesis by (simp add: comp_def)
  qed
  have l: "length (pad32 a) = 32" for a by (simp add: pad32_def)
  have "map2 (+) (pad32 a) (pad32 b) = map2 (+) (pad32 b) (pad32 a)" for a b
    by (rule nth_equalityI) (simp_all add: l add.commute)
  then show ?thesis by (simp add: ssl_ok_def toy_ssl_def b l)
qed

lemma ssl_ok_sign:
  assumes "ssl_ok ssl"
  shows "\<forall>seed d. case o_keygen ssl seed of (pub, priv) \<Rightarrow> o_priv_ok ssl priv \<and> o_pub_ok ssl pub
        \<and> o_sign ssl priv d \<noteq> [] \<and> o_verify ssl pub d (o_sign ssl priv d) (int (length (o_sign ssl priv d)))"
  using assms unfolding ssl_ok_def by (elim conjE)

lemma finish_run: "finish is r s = (if calls_ok is then Some r else None, snd (run is s))"
  using fst_run [of "is" s] by (cases "run is s") (simp add: finish_def)

lemma then_call_run: "then_call is k s = (if calls_ok is then k (snd (run is s)) else (None, snd (run is s)))"
  using fst_run [of "is" s] by (cases "run is s") (auto simp: then_call_def)

lemma then_call_SomeD:
  "fst (then_call is k s) = Some x \<Longrightarrow> \<exists>s'. fst (k s') = Some x"
  by (auto simp: then_call_run split: if_splits)

lemma rsa_sign_SomeD:
  assumes "fst (orca_rsa_sign True ok ssl (Some d) (Some priv) s) = Some sg"
  shows "sg = o_b64enc ssl (o_sign ssl priv d)"
proof -
  from assms obtain s' where
    "fst (case orca_base64_encode (shift 7 ok) ssl (Some (o_sign ssl priv d)) (int (length (o_sign ssl priv d))) s' of
       (b64, s) \<Rightarrow> let s = free_res [MEM ''sig''] s in case b64 of
           None \<Rightarrow> reject ''Failed to base64 encode signature'' s | Some t \<Rightarrow> (Some t, s)) = Some sg"
    unfolding orca_rsa_sign_def option.case prod.case bool.case Let_def by (blast dest: then_call_SomeD)
  then show ?thesis
    by (auto simp: orca_base64_encode_def finish_run reject_def Let_def split: if_splits)
qed

lemma base64_decode_all: "fst (orca_base64_decode (\<lambda>_. True) ssl (Some t) s) = Some (o_b64dec ssl t)"
  by (simp add: orca_base64_decode_def finish_run)

lemma hex_to_bytes_length: "orca_hex_to_bytes (Some h) n = Inr bs \<Longrightarrow> length bs = n"
proof -
  have "hex_pairs h = Some bs \<Longrightarrow> length h = 2 * length bs" for h bs
    by (induction h arbitrary: bs rule: hex_pairs.induct) (auto split: prod.splits if_splits Option.bind_splits)
  then show "orca_hex_to_bytes (Some h) n = Inr bs \<Longrightarrow> length bs = n"
    by (fastforce simp: orca_hex_to_bytes_def split: if_splits option.splits)
qed

lemma hex_text_of: "\<exists>h. orca_bytes_to_hex (Some bs) = Some h \<and> orca_hex_to_bytes (Some h) (length bs) = Inr bs"
  by (simp add: orca_bytes_to_hex_def orca_hex_to_bytes_def length_hex_bytes hex_pairs_bytes)

text \<open>
  A text encrypted with \<open>orca_aes_cbc_encrypt_string\<close> is what
  \<open>orca_aes_cbc_decrypt_string\<close> returns from the IV, the base64 text and the same key.
\<close>

theorem aes_cbc_string_roundtrip:
  assumes "ssl_ok ssl" and "length iv = 16"
    and "fst (orca_aes_cbc_encrypt_string True ok ssl iv (Some t) (Some kh) s) = Some (ivh, b64)"
  shows "fst (orca_aes_cbc_decrypt_string True (\<lambda>_. True) ssl (Some b64) (Some ivh) (Some kh) s') = Some (string_bytes t)"
proof -
  obtain key where key: "orca_hex_to_bytes (Some kh) 32 = Inr key"
    using assms(3) by (auto simp: orca_aes_cbc_encrypt_string_def reject_def split: sum.splits)
  have len: "length key = 32" by (rule hex_to_bytes_length [OF key])
  let ?ct = "o_cbc_enc ssl key iv (string_bytes t)"
  have "ivh = the (orca_bytes_to_hex (Some iv)) \<and> b64 = o_b64enc ssl ?ct"
    using assms(3)
    by (auto simp: orca_aes_cbc_encrypt_string_def key orca_aes_cbc_encrypt_def finish_run reject_def
        orca_base64_encode_def Let_def split: if_splits)
  then have iv: "orca_hex_to_bytes (Some ivh) 16 = Inr iv" and b: "b64 = o_b64enc ssl ?ct"
    using hex_text_of [of iv] assms(2) by auto
  have ct: "?ct \<noteq> []" "o_cbc_dec ssl key iv ?ct (int (length ?ct)) = Some (string_bytes t)"
    using assms(1,2) len by (auto simp: ssl_ok_def)
  then have "o_b64dec ssl b64 = (?ct, int (length ?ct))" using assms(1) b by (simp add: ssl_ok_def)
  then have dec: "fst (orca_base64_decode (\<lambda>_. True) ssl (Some b64) s') = Some (?ct, int (length ?ct))"
    by (simp add: base64_decode_all)
  show ?thesis
    using dec ct(2) by (cases "orca_base64_decode (\<lambda>_. True) ssl (Some b64) s'")
      (simp add: orca_aes_cbc_decrypt_string_def key iv orca_aes_cbc_decrypt_def finish_run shift_def)
qed

theorem aes_cbc_string_roundtrip_witness:
  "\<exists>ivh b64. fst (orca_aes_cbc_encrypt_string True (\<lambda>_. True) toy_ssl (replicate 16 7) (Some ''hello'')
        (orca_bytes_to_hex (Some (replicate 32 9))) \<lparr>c_error = '''', c_live = {#}\<rparr>) = Some (ivh, b64)
    \<and> fst (orca_aes_cbc_decrypt_string True (\<lambda>_. True) toy_ssl (Some b64) (Some ivh)
        (orca_bytes_to_hex (Some (replicate 32 9))) \<lparr>c_error = '''', c_live = {#}\<rparr>) = Some (string_bytes ''hello'')"
proof -
  let ?s = "\<lparr>c_error = '''', c_live = {#}\<rparr>"
  obtain kh where kh: "orca_bytes_to_hex (Some (replicate 32 9)) = Some kh" "orca_hex_to_bytes (Some kh) 32 = Inr (replicate 32 9)"
    using hex_text_of [of "replicate 32 9"] by auto
  have "\<exists>ivh b64. fst (orca_aes_cbc_encrypt_string True (\<lambda>_. True) toy_ssl (replicate 16 7) (Some ''hello'') (Some kh) ?s) = Some (ivh, b64)"
    by (simp add: orca_aes_cbc_encrypt_string_def kh(2) orca_aes_cbc_encrypt_def finish_run
        orca_base64_encode_def shift_def toy_ssl_def split: prod.split)
  then show ?thesis
    using aes_cbc_string_roundtrip [OF toy_ssl_ok, of "replicate 16 7"] kh(1) by fastforce
qed

text \<open>
  A signature made with the private key of a generated pair verifies with its public key on
  the same text.
\<close>

theorem rsa_sign_verify:
  assumes "ssl_ok ssl" and "fst (orca_rsa_generate_keypair ok ssl seed True s) = Some (pub, priv)"
    and "fst (orca_rsa_sign_string True ok' ssl (Some t) (Some priv) s') = Some sg"
  shows "fst (orca_rsa_verify_string (\<lambda>_. True) ssl (Some t) (Some sg) (Some pub) s'')"
proof -
  have k: "o_keygen ssl seed = (pub, priv)"
    using assms(2) by (cases "o_keygen ssl seed")
      (simp add: orca_rsa_generate_keypair_def then_call_run del: run.simps split: if_splits)
  let ?sig = "o_sign ssl priv (string_bytes t)"
  have "case o_keygen ssl seed of (pub, priv) \<Rightarrow> o_priv_ok ssl priv \<and> o_pub_ok ssl pub
        \<and> o_sign ssl priv (string_bytes t) \<noteq> []
        \<and> o_verify ssl pub (string_bytes t) (o_sign ssl priv (string_bytes t)) (int (length (o_sign ssl priv (string_bytes t))))"
    by (rule ssl_ok_sign [OF assms(1), THEN spec, THEN spec])
  then have v: "o_pub_ok ssl pub" "?sig \<noteq> []" "o_verify ssl pub (string_bytes t) ?sig (int (length ?sig))"
    unfolding k by auto
  have "sg = o_b64enc ssl ?sig"
    using assms(3) by (simp add: orca_rsa_sign_string_def rsa_sign_SomeD)
  then have "o_b64dec ssl sg = (?sig, int (length ?sig))" using assms(1) v(2) by (simp add: ssl_ok_def)
  then have "fst (orca_base64_decode (\<lambda>_. True) ssl (Some sg) s'') = Some (?sig, int (length ?sig))"
    by (simp add: base64_decode_all)
  then show ?thesis
    using v by (cases "orca_base64_decode (\<lambda>_. True) ssl (Some sg) s''")
      (simp add: orca_rsa_verify_string_def orca_rsa_verify_def fst_run del: run.simps)
qed

theorem rsa_sign_verify_witness:
  "\<exists>pub priv sg. fst (orca_rsa_generate_keypair (\<lambda>_. True) toy_ssl 1 True \<lparr>c_error = '''', c_live = {#}\<rparr>) = Some (pub, priv)
    \<and> fst (orca_rsa_sign_string True (\<lambda>_. True) toy_ssl (Some ''hi'') (Some priv) \<lparr>c_error = '''', c_live = {#}\<rparr>) = Some sg
    \<and> fst (orca_rsa_verify_string (\<lambda>_. True) toy_ssl (Some ''hi'') (Some sg) (Some pub) \<lparr>c_error = '''', c_live = {#}\<rparr>)"
proof -
  let ?s = "\<lparr>c_error = '''', c_live = {#}\<rparr>"
  have g: "fst (orca_rsa_generate_keypair (\<lambda>_. True) toy_ssl 1 True ?s) = Some (''PUBLIC'', ''PRIVATE'')"
    by (simp add: orca_rsa_generate_keypair_def then_call_run toy_ssl_def)
  obtain sg where sg: "fst (orca_rsa_sign_string True (\<lambda>_. True) toy_ssl (Some ''hi'') (Some ''PRIVATE'') ?s) = Some sg"
    by (simp add: orca_rsa_sign_string_def orca_rsa_sign_def then_call_run toy_ssl_def Let_def
        orca_base64_encode_def finish_run shift_def split: prod.split)
  show ?thesis using g sg rsa_sign_verify [OF toy_ssl_ok g sg, of ?s] by blast
qed

text \<open>
  Two peers that generate X25519 keys and exchange the public ones as hexadecimal text
  compute the same shared secret.
\<close>

theorem x25519_agreement:
  assumes "ssl_ok ssl"
    and "fst (orca_x25519_generate_keypair ok1 ssl ra True s1) = Some (pa, sa)"
    and "fst (orca_x25519_generate_keypair ok2 ssl rb True s2) = Some (pb, sb)"
    and "fst (orca_x25519_hex_to_public_key True (orca_x25519_public_key_to_hex (Some pa)) t1) = Some pa'"
    and "fst (orca_x25519_hex_to_public_key True (orca_x25519_public_key_to_hex (Some pb)) t2) = Some pb'"
    and "fst (orca_x25519_compute_shared_secret True ok3 ssl (Some sa) (Some pb') u1) = Some x"
    and "fst (orca_x25519_compute_shared_secret True ok4 ssl (Some sb) (Some pa') u2) = Some y"
  shows "x = y"
proof -
  have p: "pa = o_x25519_public ssl sa" "pb = o_x25519_public ssl sb"
    using assms(2,3) by (auto simp: orca_x25519_generate_keypair_def finish_run split: if_splits)
  then have len: "length pa = 32" "length pb = 32" using assms(1) by (simp_all add: ssl_ok_def)
  have "fst (orca_x25519_hex_to_public_key True (orca_x25519_public_key_to_hex (Some q)) t) = Some q"
    if l: "length q = 32" for q t
  proof -
    obtain h where "orca_bytes_to_hex (Some q) = Some h" "orca_hex_to_bytes (Some h) 32 = Inr q"
      using hex_text_of [of q] l by auto
    then show ?thesis
      by (simp add: l orca_x25519_hex_to_public_key_def orca_x25519_public_key_to_hex_def hex_bytes_or_error_def)
  qed
  then have "pa' = pa" "pb' = pb" using assms(4,5) len by auto
  then have "o_x25519 ssl sa pb = Some x" "o_x25519 ssl sb pa = Some y"
    using assms(6,7) by (auto simp: orca_x25519_compute_shared_secret_def finish_run split: if_splits)
  then show ?thesis using assms(1) p by (metis option.inject ssl_ok_def)
qed

theorem x25519_agreement_witness:
  "\<exists>pa sa pb sb x. fst (orca_x25519_generate_keypair (\<lambda>_. True) toy_ssl [1, 2] True \<lparr>c_error = '''', c_live = {#}\<rparr>) = Some (pa, sa)
    \<and> fst (orca_x25519_generate_keypair (\<lambda>_. True) toy_ssl [3, 4] True \<lparr>c_error = '''', c_live = {#}\<rparr>) = Some (pb, sb)
    \<and> fst (orca_x25519_compute_shared_secret True (\<lambda>_. True) toy_ssl (Some sa) (Some pb) \<lparr>c_error = '''', c_live = {#}\<rparr>) = Some x
    \<and> fst (orca_x25519_compute_shared_secret True (\<lambda>_. True) toy_ssl (Some sb) (Some pa) \<lparr>c_error = '''', c_live = {#}\<rparr>) = Some x"
proof -
  let ?s = "\<lparr>c_error = '''', c_live = {#}\<rparr>"
  have g: "fst (orca_x25519_generate_keypair (\<lambda>_. True) toy_ssl r True ?s) = Some (pad32 r, r)" for r
    by (simp add: orca_x25519_generate_keypair_def finish_run toy_ssl_def)
  have h: "fst (orca_x25519_hex_to_public_key True (orca_x25519_public_key_to_hex (Some (pad32 r))) ?s) = Some (pad32 r)" for r
  proof -
    have l: "length (pad32 r) = 32" by (simp add: pad32_def)
    then obtain h where "orca_bytes_to_hex (Some (pad32 r)) = Some h" "orca_hex_to_bytes (Some h) 32 = Inr (pad32 r)"
      using hex_text_of [of "pad32 r"] by auto
    then show ?thesis
      by (simp add: l orca_x25519_hex_to_public_key_def orca_x25519_public_key_to_hex_def hex_bytes_or_error_def)
  qed
  have "\<exists>x. fst (orca_x25519_compute_shared_secret True (\<lambda>_. True) toy_ssl (Some a) (Some b) ?s) = Some x" for a b
    by (simp add: orca_x25519_compute_shared_secret_def finish_run toy_ssl_def)
  then obtain x y where
    x: "fst (orca_x25519_compute_shared_secret True (\<lambda>_. True) toy_ssl (Some [1, 2]) (Some (pad32 [3, 4])) ?s) = Some x" and
    y: "fst (orca_x25519_compute_shared_secret True (\<lambda>_. True) toy_ssl (Some [3, 4]) (Some (pad32 [1, 2])) ?s) = Some y" by blast
  from x25519_agreement [OF toy_ssl_ok g g h h x y] g x y show ?thesis by blast
qed

end
