(* ===== verification/Aes_Gcm.thy ===== *)
theory Aes_Gcm
  imports Crypto_Properties
begin

text \<open>
  AES-256-GCM (\<open>aes_gcm.c\<close>): keys, the 96-bit nonce and its increment, authenticated encryption
  of bytes, texts and messages, the wire format of a message, and the derivation of a key from a
  shared secret.

  The file reports errors with \<open>set_aes_error\<close>, which prints to \<open>stderr\<close> and clears the message
  of \<open>orca_get_last_error\<close>: in the instruction lists the message is wrapped in \<open>aes_msg\<close>.
  Erasing the local key buffers has no effect the model shows.
\<close>

definition aes_msg :: "string \<Rightarrow> string" where
  "aes_msg printed = ''''"

section \<open>Keys and nonces\<close>

definition ORCA_AES_GCM_KEY_LEN :: nat where "ORCA_AES_GCM_KEY_LEN = 32"
definition ORCA_AES_GCM_NONCE_LEN :: nat where "ORCA_AES_GCM_NONCE_LEN = 12"
definition ORCA_AES_GCM_TAG_LEN :: nat where "ORCA_AES_GCM_TAG_LEN = 16"

lemmas gcm_lens = ORCA_AES_GCM_KEY_LEN_def ORCA_AES_GCM_NONCE_LEN_def ORCA_AES_GCM_TAG_LEN_def

definition orca_aes_gcm_key_generate :: "outcomes \<Rightarrow> byte list \<Rightarrow> bool \<Rightarrow> cstate \<Rightarrow> byte list option \<times> cstate" where
  "orca_aes_gcm_key_generate ok rnd out s =
    (if \<not> out then reject (aes_msg ''NULL pointer in orca_aes_gcm_key_generate'') s
     else finish [Call (ok 0) [] [] (aes_msg ''Failed to generate random key'')]
       (take ORCA_AES_GCM_KEY_LEN rnd) s)"

definition orca_aes_gcm_key_from_hex :: "string option \<Rightarrow> cstate \<Rightarrow> byte list option \<times> cstate" where
  "orca_aes_gcm_key_from_hex hex s =
    (if hex = None then reject (aes_msg ''NULL pointer in orca_aes_gcm_key_from_hex'') s
     else hex_bytes_or_error hex ORCA_AES_GCM_KEY_LEN s)"

definition orca_aes_gcm_key_to_hex :: "byte list option \<Rightarrow> string option" where
  "orca_aes_gcm_key_to_hex key = orca_bytes_to_hex (map_option (take ORCA_AES_GCM_KEY_LEN) key)"

definition orca_aes_gcm_key_zeroize :: "byte list option \<Rightarrow> byte list option" where
  "orca_aes_gcm_key_zeroize key = (case key of None \<Rightarrow> None | Some k \<Rightarrow> zeroize (Some k) ORCA_AES_GCM_KEY_LEN)"

definition orca_aes_gcm_nonce_zeroize :: "byte list option \<Rightarrow> byte list option" where
  "orca_aes_gcm_nonce_zeroize nonce = (case nonce of None \<Rightarrow> None | Some n \<Rightarrow> zeroize (Some n) ORCA_AES_GCM_NONCE_LEN)"

definition orca_aes_gcm_nonce_generate :: "outcomes \<Rightarrow> byte list \<Rightarrow> bool \<Rightarrow> cstate \<Rightarrow> byte list option \<times> cstate" where
  "orca_aes_gcm_nonce_generate ok rnd out s =
    (if \<not> out then reject (aes_msg ''NULL pointer in orca_aes_gcm_nonce_generate'') s
     else finish [Call (ok 0) [] [] (aes_msg ''Failed to generate random nonce'')]
       (take ORCA_AES_GCM_NONCE_LEN rnd) s)"

definition orca_aes_gcm_nonce_from_hex :: "string option \<Rightarrow> cstate \<Rightarrow> byte list option \<times> cstate" where
  "orca_aes_gcm_nonce_from_hex hex s =
    (if hex = None then reject (aes_msg ''NULL pointer in orca_aes_gcm_nonce_from_hex'') s
     else hex_bytes_or_error hex ORCA_AES_GCM_NONCE_LEN s)"

definition orca_aes_gcm_nonce_to_hex :: "byte list option \<Rightarrow> string option" where
  "orca_aes_gcm_nonce_to_hex nonce = orca_bytes_to_hex (map_option (take ORCA_AES_GCM_NONCE_LEN) nonce)"

text \<open>The loop over the bytes from the last to the first; \<open>k\<close> is \<open>i + 1\<close>.\<close>

fun nonce_inc :: "nat \<Rightarrow> byte list \<Rightarrow> byte list" where
  "nonce_inc 0 nonce = nonce"
| "nonce_inc (Suc i) nonce =
    (let nonce = nonce[i := nonce ! i + 1]
     in if nonce ! i \<noteq> 0 then nonce else nonce_inc i nonce)"

definition orca_aes_gcm_nonce_increment :: "byte list option \<Rightarrow> cstate \<Rightarrow> byte list option \<times> cstate" where
  "orca_aes_gcm_nonce_increment nonce s = (case nonce of
      None \<Rightarrow> reject (aes_msg ''NULL pointer in orca_aes_gcm_nonce_increment'') s
    | Some n \<Rightarrow> (Some (nonce_inc ORCA_AES_GCM_NONCE_LEN n), s))"

section \<open>Encryption and decryption\<close>

definition orca_aes_gcm_encrypt ::
    "outcomes \<Rightarrow> ssl \<Rightarrow> byte list option \<Rightarrow> byte list option \<Rightarrow> byte list option \<Rightarrow> cstate
      \<Rightarrow> (byte list \<times> byte list) option \<times> cstate" where
  "orca_aes_gcm_encrypt ok ssl plaintext key nonce s = (case (plaintext, key, nonce) of
      (Some p, Some k, Some n) \<Rightarrow> finish [
        Call (ok 0) [CIPHER_CTX] [] (aes_msg ''Failed to create cipher context''),
        Call (ok 1) [] [CIPHER_CTX] (aes_msg ''Failed to init encryption''),
        Call (ok 2) [MEM ''ciphertext''] [CIPHER_CTX] (aes_msg ''malloc failed for ciphertext''),
        Call (ok 3) [] [CIPHER_CTX, MEM ''ciphertext''] (aes_msg ''Failed to encrypt data''),
        Call (ok 4) [] [CIPHER_CTX, MEM ''ciphertext''] (aes_msg ''Failed to finalize encryption''),
        Call (ok 5) [] [CIPHER_CTX, MEM ''ciphertext''] (aes_msg ''Failed to get GCM tag''),
        Free [CIPHER_CTX]] (o_gcm_enc ssl k n p) s
    | _ \<Rightarrow> reject (aes_msg ''NULL pointer in orca_aes_gcm_encrypt'') s)"

definition orca_aes_gcm_decrypt ::
    "outcomes \<Rightarrow> ssl \<Rightarrow> byte list option \<Rightarrow> int \<Rightarrow> byte list option \<Rightarrow> byte list option \<Rightarrow> byte list option \<Rightarrow> cstate
      \<Rightarrow> byte list option \<times> cstate" where
  "orca_aes_gcm_decrypt ok ssl ciphertext ciphertext_len key nonce tag s = (case (ciphertext, key, nonce, tag) of
      (Some c, Some k, Some n, Some t) \<Rightarrow> finish [
        Call (ok 0) [CIPHER_CTX] [] (aes_msg ''Failed to create cipher context''),
        Call (ok 1) [] [CIPHER_CTX] (aes_msg ''Failed to init decryption''),
        Call (ok 2) [MEM ''plaintext''] [CIPHER_CTX] (aes_msg ''malloc failed for plaintext''),
        Call (ok 3) [] [CIPHER_CTX, MEM ''plaintext''] (aes_msg ''Failed to decrypt data''),
        Call (ok 4) [] [CIPHER_CTX, MEM ''plaintext''] (aes_msg ''Failed to set GCM tag''),
        Call (ok 5 \<and> o_gcm_dec ssl k n t c ciphertext_len \<noteq> None) [] [CIPHER_CTX, MEM ''plaintext'']
          (aes_msg ''Authentication failed - invalid tag''),
        Free [CIPHER_CTX]] (the (o_gcm_dec ssl k n t c ciphertext_len)) s
    | _ \<Rightarrow> reject (aes_msg ''NULL pointer in orca_aes_gcm_decrypt'') s)"

definition orca_aes_gcm_encrypt_string ::
    "outcomes \<Rightarrow> ssl \<Rightarrow> byte list \<Rightarrow> string option \<Rightarrow> string option \<Rightarrow> cstate
      \<Rightarrow> (string \<times> string \<times> string) option \<times> cstate" where
  "orca_aes_gcm_encrypt_string ok ssl rnd plaintext key_hex s = (case (plaintext, key_hex) of
      (Some t, Some kh) \<Rightarrow> (case orca_hex_to_bytes (Some kh) ORCA_AES_GCM_KEY_LEN of
          Inl _ \<Rightarrow> reject (aes_msg ''Invalid key hex'') s
        | Inr key \<Rightarrow>
            let (nonce, s) = orca_aes_gcm_nonce_generate ok rnd True s in
            (case nonce of
               None \<Rightarrow> reject (aes_msg ''Failed to generate nonce'') s
             | Some n \<Rightarrow>
                 let (enc, s) = orca_aes_gcm_encrypt (shift 1 ok) ssl (Some (string_bytes t)) (Some key) (Some n) s in
                 (case enc of
                    None \<Rightarrow> (None, s)
                  | Some (ct, tag) \<Rightarrow>
                      let (b64, s) = orca_base64_encode (shift 7 ok) ssl (Some ct) (int (length ct)) s;
                          s = free_res [MEM ''ciphertext''] s
                      in (case b64 of
                          None \<Rightarrow> reject (aes_msg ''Failed to base64 encode ciphertext'') s
                        | Some b \<Rightarrow> (Some (the (orca_bytes_to_hex (Some n)), the (orca_bytes_to_hex (Some tag)), b), s)))))
    | _ \<Rightarrow> reject (aes_msg ''NULL pointer in orca_aes_gcm_encrypt_string'') s)"

definition orca_aes_gcm_decrypt_string ::
    "outcomes \<Rightarrow> ssl \<Rightarrow> string option \<Rightarrow> string option \<Rightarrow> string option \<Rightarrow> string option \<Rightarrow> cstate
      \<Rightarrow> byte list option \<times> cstate" where
  "orca_aes_gcm_decrypt_string ok ssl ciphertext_b64 nonce_hex tag_hex key_hex s =
    (case (ciphertext_b64, nonce_hex, tag_hex, key_hex) of
      (Some cb, Some nh, Some th, Some kh) \<Rightarrow> (case orca_hex_to_bytes (Some kh) ORCA_AES_GCM_KEY_LEN of
          Inl _ \<Rightarrow> reject (aes_msg ''Invalid key hex'') s
        | Inr key \<Rightarrow> (case orca_hex_to_bytes (Some nh) ORCA_AES_GCM_NONCE_LEN of
            Inl _ \<Rightarrow> reject (aes_msg ''Invalid nonce hex'') s
          | Inr nonce \<Rightarrow> (case orca_hex_to_bytes (Some th) ORCA_AES_GCM_TAG_LEN of
              Inl _ \<Rightarrow> reject (aes_msg ''Invalid tag hex'') s
            | Inr tag \<Rightarrow>
                let (dec, s) = orca_base64_decode ok ssl (Some cb) s in
                (case dec of
                   None \<Rightarrow> reject (aes_msg ''Failed to decode ciphertext'') s
                 | Some (ct, ct_len) \<Rightarrow>
                     let (res, s) = orca_aes_gcm_decrypt (shift 1 ok) ssl (Some ct) ct_len (Some key) (Some nonce) (Some tag) s
                     in (res, free_res [MEM ''decoded''] s)))))
    | _ \<Rightarrow> reject (aes_msg ''NULL pointer in orca_aes_gcm_decrypt_string'') s)"

section \<open>Messages and their wire format\<close>

record OrcaAESGCMMessage =
  gm_key :: "byte list"
  gm_nonce :: "byte list"
  gm_tag :: "byte list"
  gm_ciphertext :: "byte list option"
  gm_ciphertext_len :: nat
  gm_plaintext :: "byte list option"
  gm_plaintext_len :: nat
  gm_encrypted :: bool
  gm_decrypted :: bool

definition zero_message :: OrcaAESGCMMessage where
  "zero_message = \<lparr>gm_key = replicate 32 0, gm_nonce = replicate 12 0, gm_tag = replicate 16 0,
     gm_ciphertext = None, gm_ciphertext_len = 0, gm_plaintext = None, gm_plaintext_len = 0,
     gm_encrypted = False, gm_decrypted = False\<rparr>"

definition orca_aes_gcm_message_init :: "OrcaAESGCMMessage option \<Rightarrow> OrcaAESGCMMessage option" where
  "orca_aes_gcm_message_init message = map_option (\<lambda>_. zero_message) message"

definition orca_aes_gcm_message_free :: "OrcaAESGCMMessage option \<Rightarrow> OrcaAESGCMMessage option" where
  "orca_aes_gcm_message_free message = map_option (\<lambda>m. m\<lparr>gm_ciphertext := None, gm_plaintext := None,
     gm_ciphertext_len := 0, gm_plaintext_len := 0, gm_encrypted := False, gm_decrypted := False\<rparr>) message"

definition orca_aes_gcm_message_clear :: "OrcaAESGCMMessage option \<Rightarrow> OrcaAESGCMMessage option" where
  "orca_aes_gcm_message_clear message = orca_aes_gcm_message_free message"

definition be32 :: "32 word \<Rightarrow> byte list" where
  "be32 w = [ucast (drop_bit 24 w), ucast (drop_bit 16 w), ucast (drop_bit 8 w), ucast w]"

definition from_be32 :: "byte list \<Rightarrow> 32 word" where
  "from_be32 bs = or (push_bit 24 (ucast (bs ! 0))) (or (push_bit 16 (ucast (bs ! 1)))
     (or (push_bit 8 (ucast (bs ! 2))) (ucast (bs ! 3))))"

definition orca_aes_gcm_message_serialize ::
    "outcomes \<Rightarrow> OrcaAESGCMMessage option \<Rightarrow> cstate \<Rightarrow> byte list option \<times> cstate" where
  "orca_aes_gcm_message_serialize ok message s = (case message of
      None \<Rightarrow> reject (aes_msg ''NULL pointer in orca_aes_gcm_message_serialize'') s
    | Some m \<Rightarrow>
        if \<not> gm_encrypted m then reject (aes_msg ''Message is not encrypted'') s
        else finish [Call (ok 0) [MEM ''buffer''] [] (aes_msg ''malloc failed for serialization'')]
          (gm_nonce m @ gm_tag m @ be32 (word_of_nat (gm_ciphertext_len m))
            @ take (gm_ciphertext_len m) (case gm_ciphertext m of None \<Rightarrow> [] | Some c \<Rightarrow> c)) s)"

definition orca_aes_gcm_message_deserialize ::
    "outcomes \<Rightarrow> byte list option \<Rightarrow> cstate \<Rightarrow> OrcaAESGCMMessage option \<times> cstate" where
  "orca_aes_gcm_message_deserialize ok buffer s = (case buffer of
      None \<Rightarrow> reject (aes_msg ''NULL pointer in orca_aes_gcm_message_deserialize'') s
    | Some b \<Rightarrow>
        if length b < ORCA_AES_GCM_NONCE_LEN + ORCA_AES_GCM_TAG_LEN + 4
        then reject (aes_msg ''Buffer too short for message'') s
        else let nonce = take ORCA_AES_GCM_NONCE_LEN b;
                 ptr = drop ORCA_AES_GCM_NONCE_LEN b;
                 tag = take ORCA_AES_GCM_TAG_LEN ptr;
                 ptr = drop ORCA_AES_GCM_TAG_LEN ptr;
                 len = unat (from_be32 (take 4 ptr));
                 ptr = drop 4 ptr
             in if len > length ptr then reject (aes_msg ''Buffer too short for ciphertext'') s
                else finish [Call (ok 0) [MEM ''ciphertext''] [] (aes_msg ''malloc failed for ciphertext'')]
                  (zero_message\<lparr>gm_nonce := nonce, gm_tag := tag, gm_ciphertext := Some (take len ptr),
                     gm_ciphertext_len := len, gm_encrypted := True\<rparr>) s)"

definition orca_aes_gcm_encrypt_message ::
    "outcomes \<Rightarrow> ssl \<Rightarrow> byte list \<Rightarrow> byte list option \<Rightarrow> byte list option \<Rightarrow> cstate
      \<Rightarrow> OrcaAESGCMMessage option \<times> cstate" where
  "orca_aes_gcm_encrypt_message ok ssl rnd plaintext key s =
    (if plaintext = None \<or> key = None then reject (aes_msg ''NULL pointer in orca_aes_gcm_encrypt_message'') s
     else let (nonce, s) = orca_aes_gcm_nonce_generate ok rnd True s in
       (case nonce of
          None \<Rightarrow> reject (aes_msg ''Failed to generate nonce'') s
        | Some n \<Rightarrow>
            let (enc, s) = orca_aes_gcm_encrypt (shift 1 ok) ssl plaintext key (Some n) s in
            (case enc of
               None \<Rightarrow> (None, s)
             | Some (ct, tag) \<Rightarrow> (Some (zero_message\<lparr>gm_key := take 32 (the key), gm_nonce := n, gm_tag := tag,
                 gm_ciphertext := Some ct, gm_ciphertext_len := length ct, gm_encrypted := True\<rparr>), s))))"

definition orca_aes_gcm_decrypt_message ::
    "outcomes \<Rightarrow> ssl \<Rightarrow> OrcaAESGCMMessage option \<Rightarrow> byte list option \<Rightarrow> cstate \<Rightarrow> byte list option \<times> cstate" where
  "orca_aes_gcm_decrypt_message ok ssl message key s = (case (message, key) of
      (Some m, Some k) \<Rightarrow>
        if \<not> gm_encrypted m then reject (aes_msg ''Message is not encrypted'') s
        else orca_aes_gcm_decrypt ok ssl (gm_ciphertext m) (int (gm_ciphertext_len m)) (Some k)
          (Some (gm_nonce m)) (Some (gm_tag m)) s
    | _ \<Rightarrow> reject (aes_msg ''NULL pointer in orca_aes_gcm_decrypt_message'') s)"

section \<open>Key derivation\<close>

text \<open>
  Salt and info are copied into \<open>combined_salt[64]\<close> without a check: the outer \<open>None\<close> is the
  overrun.
\<close>

definition memcpy_into :: "nat \<Rightarrow> byte list \<Rightarrow> byte list \<Rightarrow> byte list option" where
  "memcpy_into cap dst src = (if length dst + length src \<le> cap then Some (dst @ src) else None)"

definition orca_aes_gcm_derive_key_from_shared_secret ::
    "outcomes \<Rightarrow> ssl \<Rightarrow> byte list option \<Rightarrow> byte list option \<Rightarrow> byte list option \<Rightarrow> cstate
      \<Rightarrow> (byte list option \<times> cstate) option" where
  "orca_aes_gcm_derive_key_from_shared_secret ok ssl shared_secret salt info s = (case shared_secret of
      None \<Rightarrow> Some (reject (aes_msg ''NULL pointer in orca_aes_gcm_derive_key_from_shared_secret'') s)
    | Some secret \<Rightarrow> do {
        combined \<leftarrow> (case salt of None \<Rightarrow> Some [] | Some sl \<Rightarrow> memcpy_into 64 [] sl);
        combined \<leftarrow> (case info of None \<Rightarrow> Some combined | Some i \<Rightarrow> memcpy_into 64 combined i);
        let combined = (if combined = [] then string_bytes ''orcashi-derive'' else combined);
        Some (finish [Call (ok 0) [] [] (aes_msg ''PBKDF2 derivation failed'')]
          (o_pbkdf2 ssl (take 32 secret) combined 100000 32) s) })"

definition orca_aes_gcm_derive_key_from_shared_secret_hex ::
    "outcomes \<Rightarrow> ssl \<Rightarrow> string option \<Rightarrow> string option \<Rightarrow> byte list option \<Rightarrow> cstate
      \<Rightarrow> (string option \<times> cstate) option" where
  "orca_aes_gcm_derive_key_from_shared_secret_hex ok ssl shared_secret_hex salt_hex info s =
    (if shared_secret_hex = None
     then Some (reject (aes_msg ''NULL pointer in orca_aes_gcm_derive_key_from_shared_secret_hex'') s)
     else (case orca_hex_to_bytes shared_secret_hex 32 of
        Inl _ \<Rightarrow> Some (reject (aes_msg ''Invalid shared secret hex'') s)
      | Inr secret \<Rightarrow>
          (case (case salt_hex of None \<Rightarrow> Inr None
               | Some h \<Rightarrow> (case orca_hex_to_bytes (Some h) 16 of Inl e \<Rightarrow> Inl e | Inr b \<Rightarrow> Inr (Some b))) of
             Inl _ \<Rightarrow> Some (reject (aes_msg ''Invalid salt hex'') s)
           | Inr salt \<Rightarrow> do {
               (key, s) \<leftarrow> orca_aes_gcm_derive_key_from_shared_secret ok ssl (Some secret) salt info s;
               Some (case key of None \<Rightarrow> (None, s) | Some k \<Rightarrow> (orca_bytes_to_hex (Some k), s)) })))"

section \<open>The nonce is a 96-bit counter\<close>

text \<open>The value of a nonce, its first byte the most significant.\<close>

definition be_val :: "byte list \<Rightarrow> nat" where
  "be_val bs = foldl (\<lambda>a b. 256 * a + unat b) 0 bs"

lemma be_val_snoc: "be_val (bs @ [b]) = 256 * be_val bs + unat b"
  by (simp add: be_val_def)

lemma byte_less: "unat (b :: byte) < 256"
  using unsigned_less [of b, where ?'a = nat] by simp

lemma be_val_less: "be_val bs < 256 ^ length bs"
proof (induction bs rule: rev_induct)
  case Nil
  then show ?case by (simp add: be_val_def)
next
  case (snoc b bs)
  have "256 * be_val bs + unat b < 256 * (be_val bs + 1)" using byte_less [of b] by simp
  also have "\<dots> \<le> 256 * 256 ^ length bs" using snoc by simp
  finally show ?case by (simp add: be_val_snoc)
qed

lemma be_val_inj: "length xs = length ys \<Longrightarrow> be_val xs = be_val ys \<Longrightarrow> xs = ys"
proof (induction xs arbitrary: ys rule: rev_induct)
  case Nil
  then show ?case by simp
next
  case (snoc x xs)
  then obtain z zs where ys: "ys = zs @ [z]" by (cases ys rule: rev_cases) auto
  have e: "256 * be_val xs + unat x = 256 * be_val zs + unat z"
    using snoc.prems(2) ys by (simp add: be_val_snoc)
  have "(256 * be_val xs + unat x) mod 256 = unat x" "(256 * be_val zs + unat z) mod 256 = unat z"
    using byte_less [of x] byte_less [of z] by simp_all
  then have u: "unat x = unat z" using e by simp
  then have "be_val xs = be_val zs" using e by simp
  with snoc ys have "xs = zs" by simp
  with u ys show ?case by (simp add: word_unat_eq_iff)
qed

lemma length_nonce_inc [simp]: "length (nonce_inc k n) = length n"
  by (induction k n rule: nonce_inc.induct) (simp_all add: Let_def)

lemma nonce_inc_tail: "k \<le> length n \<Longrightarrow> drop k (nonce_inc k n) = drop k n"
proof (induction k n rule: nonce_inc.induct)
  case (1 n)
  then show ?case by simp
next
  case (2 i n)
  show ?case
  proof (cases "n ! i + 1 \<noteq> 0")
    case True
    then show ?thesis using 2 by (simp add: Let_def)
  next
    case False
    let ?m = "n[i := n ! i + 1]"
    have "drop i (nonce_inc i ?m) = drop i ?m" using 2 False by simp
    then have "drop (Suc 0) (drop i (nonce_inc i ?m)) = drop (Suc 0) (drop i ?m)" by simp
    then show ?thesis using False 2(2) by (simp add: Let_def)
  qed
qed

lemma be_val_take_inc:
  "k \<le> length n \<Longrightarrow> be_val (take k (nonce_inc k n)) = (be_val (take k n) + 1) mod 256 ^ k"
proof (induction k n rule: nonce_inc.induct)
  case (1 n)
  then show ?case by (simp add: be_val_def)
next
  case (2 i n)
  let ?m = "n[i := n ! i + 1]"
  have i: "i < length n" using 2 by simp
  have t: "take (Suc i) xs = take i xs @ [xs ! i]" if "length xs = length n" for xs :: "byte list"
    using that i by (simp add: take_Suc_conv_app_nth)
  have m: "take i ?m = take i n" by simp
  have v: "be_val (take (Suc i) n) = 256 * be_val (take i n) + unat (n ! i)"
    using t [of n] by (simp add: be_val_snoc)
  have b: "be_val (take (Suc i) n) < 256 ^ Suc i" using be_val_less [of "take (Suc i) n"] i by simp
  show ?case
  proof (cases "n ! i + 1 = 0")
    case False
    then have u: "unat (n ! i + 1) = unat (n ! i) + 1"
      by (metis unatSuc add.commute Suc_eq_plus1)
    have "be_val (take i n) < 256 ^ i" using be_val_less [of "take i n"] i by simp
    then have "256 * be_val (take i n) + unat (n ! i) + 1 < 256 ^ Suc i"
      using byte_less [of "n ! i + 1"] u by simp
    then show ?thesis
      using False i t [of ?m] by (simp add: Let_def be_val_snoc m u v)
  next
    case True
    then have "n ! i = - 1" by (simp add: eq_neg_iff_add_eq_0)
    then have u: "unat (n ! i) = 255" by (simp add: unsigned_minus_1_eq_mask mask_eq_exp_minus_1)
    let ?r = "nonce_inc i ?m"
    have IH: "be_val (take i ?r) = (be_val (take i n) + 1) mod 256 ^ i"
      using 2 True by simp
    have "drop i ?r = drop i ?m" using nonce_inc_tail [of i ?m] i by simp
    then have "?r ! i = 0" using i True by (metis nth_via_drop Cons_nth_drop_Suc length_list_update length_nonce_inc nth_list_update_eq)
    then have "be_val (take (Suc i) ?r) = 256 * ((be_val (take i n) + 1) mod 256 ^ i)"
      using t [of ?r] by (simp add: be_val_snoc IH)
    also have "\<dots> = (256 * (be_val (take i n) + 1)) mod 256 ^ Suc i"
      by (simp only: power_Suc mult_mod_right)
    also have "256 * (be_val (take i n) + 1) = be_val (take (Suc i) n) + 1" using v u by simp
    finally show ?thesis using True i by (simp add: Let_def)
  qed
qed

lemma mod_add_eq_less:
  fixes v i j m :: nat
  assumes "(v + i) mod m = (v + j) mod m" and "i < m" and "j < m"
  shows "i = j"
proof -
  have "int (v + i) mod int m = int (v + j) mod int m" using assms(1) by (metis of_nat_mod)
  then have "int m dvd int i - int j" by (simp add: mod_eq_dvd_iff)
  moreover have "\<bar>int i - int j\<bar> < int m" using assms(2,3) by linarith
  ultimately show ?thesis using dvd_imp_le_int [of "int i - int j" "int m"] by fastforce
qed

text \<open>
  \<open>orca_aes_gcm_nonce_increment\<close> adds one to the nonce, read as a big-endian number, modulo
  \<open>2 ^ 96\<close>; so successive increments never repeat a nonce before \<open>2 ^ 96\<close> of them.
\<close>

theorem nonce_increment_counts:
  assumes "length n = ORCA_AES_GCM_NONCE_LEN"
  shows "\<exists>n'. orca_aes_gcm_nonce_increment (Some n) s = (Some n', s) \<and> length n' = ORCA_AES_GCM_NONCE_LEN
      \<and> be_val n' = (be_val n + 1) mod 2 ^ 96
    \<and> inj_on (\<lambda>k. (nonce_inc ORCA_AES_GCM_NONCE_LEN ^^ k) n) {..<2 ^ 96}"
proof -
  let ?f = "nonce_inc ORCA_AES_GCM_NONCE_LEN"
  have step: "be_val (?f m) = (be_val m + 1) mod 2 ^ 96" if "length m = ORCA_AES_GCM_NONCE_LEN" for m
    using be_val_take_inc [of ORCA_AES_GCM_NONCE_LEN m] that by (simp add: gcm_lens)
  have it: "length ((?f ^^ k) n) = ORCA_AES_GCM_NONCE_LEN \<and> be_val ((?f ^^ k) n) = (be_val n + k) mod 2 ^ 96" for k
  proof (induction k)
    case 0
    have "be_val n < 256 ^ 12" using be_val_less [of n] assms by (simp add: gcm_lens)
    then show ?case using assms by simp
  next
    case (Suc k)
    then show ?case using step [of "(?f ^^ k) n"] by (simp add: mod_Suc_eq)
  qed
  have "inj_on (\<lambda>k. (?f ^^ k) n) {..<2 ^ 96}"
  proof (rule inj_onI)
    fix i j :: nat assume ij: "i \<in> {..<2 ^ 96}" "j \<in> {..<2 ^ 96}" "(?f ^^ i) n = (?f ^^ j) n"
    then have "(be_val n + i) mod 2 ^ 96 = (be_val n + j) mod 2 ^ 96" using it [of i] it [of j] by simp
    then show "i = j" by (rule mod_add_eq_less) (use ij in \<open>simp_all only: lessThan_iff\<close>)
  qed
  then show ?thesis using step [OF assms] assms by (simp add: orca_aes_gcm_nonce_increment_def)
qed

theorem nonce_increment_counts_witness:
  "\<exists>n'. orca_aes_gcm_nonce_increment (Some (replicate 12 255)) \<lparr>c_error = '''', c_live = {#}\<rparr>
      = (Some n', \<lparr>c_error = '''', c_live = {#}\<rparr>) \<and> be_val n' = 0"
proof -
  have "be_val (replicate k 255) + 1 = 256 ^ k" for k
  proof (induction k)
    case (Suc k)
    have "replicate (Suc k) (255 :: byte) = replicate k 255 @ [255]" by (simp add: replicate_append_same)
    then show ?case using Suc by (simp only: be_val_snoc) simp
  qed (simp add: be_val_def)
  from this [of 12] have "be_val (replicate 12 255) + 1 = 2 ^ 96" by simp
  then show ?thesis
    using nonce_increment_counts [of "replicate 12 255" "\<lparr>c_error = '''', c_live = {#}\<rparr>"] by (auto simp: gcm_lens)
qed

section \<open>The wire format\<close>

lemma from_be32_be32: "from_be32 (be32 w) = w"
  apply (rule bit_word_eqI)
  apply (auto simp: from_be32_def be32_def bit_simps nth_append)
  subgoal for n by (cases "n < 16"; cases "n < 24") (auto simp: not_less)
  subgoal for n by (cases "n < 16"; cases "n < 24") (auto simp: not_less)
  done

interpretation be32_wire: codec be32 "\<lambda>bs. if length bs = 4 then Some (from_be32 bs) else None" "\<lambda>_. True"
  by unfold_locales (use from_be32_be32 in \<open>simp add: be32_def\<close>)

lemma be32_from_be32:
  assumes "length bs = 4"
  shows "be32 (from_be32 bs) = bs"
proof -
  obtain a b c d where bs: "bs = [a, b, c, d]"
    using assms by (auto simp: numeral_eq_Suc length_Suc_conv)
  have "ucast (drop_bit 24 (from_be32 bs)) = a" "ucast (drop_bit 16 (from_be32 bs)) = b"
    "ucast (drop_bit 8 (from_be32 bs)) = c" "ucast (from_be32 bs) = d"
    by (rule bit_word_eqI, auto simp: from_be32_def bs bit_simps dest: bit_imp_le_length)+
  then show ?thesis by (simp add: be32_def bs)
qed

lemma length_be32 [simp]: "length (be32 w) = 4"
  by (simp add: be32_def)

definition wf_message :: "OrcaAESGCMMessage \<Rightarrow> bool" where
  "wf_message m \<longleftrightarrow> length (gm_nonce m) = ORCA_AES_GCM_NONCE_LEN \<and> length (gm_tag m) = ORCA_AES_GCM_TAG_LEN
     \<and> gm_encrypted m \<and> gm_ciphertext_len m < 2 ^ 32
     \<and> (\<exists>c. gm_ciphertext m = Some c \<and> length c = gm_ciphertext_len m)"

lemma message_serialized:
  assumes "wf_message m" and "fst (orca_aes_gcm_message_serialize ok (Some m) s) = Some b"
  shows "length b = 32 + gm_ciphertext_len m
    \<and> fst (orca_aes_gcm_message_deserialize (\<lambda>_. True) (Some b) s') = Some (zero_message\<lparr>gm_nonce := gm_nonce m,
        gm_tag := gm_tag m, gm_ciphertext := gm_ciphertext m, gm_ciphertext_len := gm_ciphertext_len m, gm_encrypted := True\<rparr>)"
proof -
  obtain c where m: "length (gm_nonce m) = 12" "length (gm_tag m) = 16" "gm_encrypted m"
    "gm_ciphertext_len m < 2 ^ 32" "gm_ciphertext m = Some c" "length c = gm_ciphertext_len m"
    using assms(1) by (auto simp: wf_message_def gcm_lens)
  have b: "b = gm_nonce m @ gm_tag m @ be32 (word_of_nat (gm_ciphertext_len m)) @ c"
    using assms(2) m by (auto simp: orca_aes_gcm_message_serialize_def finish_run split: if_splits)
  have "unat (word_of_nat (gm_ciphertext_len m) :: 32 word) = gm_ciphertext_len m"
    using m(4) by (simp add: unat_of_nat take_bit_nat_eq_self)
  then show ?thesis
    using m by (simp add: orca_aes_gcm_message_deserialize_def b gcm_lens Let_def from_be32_be32 finish_run)
qed

text \<open>
  An encrypted message survives the wire format: the serialised text is 32 bytes longer than
  the ciphertext and deserialises to the same nonce, tag and ciphertext (key and plaintext do not
  travel).
\<close>

theorem message_serialize_roundtrip:
  assumes "wf_message m" and "fst (orca_aes_gcm_message_serialize ok (Some m) s) = Some b"
  shows "length b = 32 + gm_ciphertext_len m
    \<and> fst (orca_aes_gcm_message_deserialize (\<lambda>_. True) (Some b) s') = Some (zero_message\<lparr>gm_nonce := gm_nonce m,
        gm_tag := gm_tag m, gm_ciphertext := gm_ciphertext m, gm_ciphertext_len := gm_ciphertext_len m, gm_encrypted := True\<rparr>)"
  by (rule message_serialized [OF assms])

definition sample_message :: OrcaAESGCMMessage where
  "sample_message = zero_message\<lparr>gm_ciphertext := Some [1, 2, 3], gm_ciphertext_len := 3, gm_encrypted := True\<rparr>"

theorem message_serialize_roundtrip_witness:
  "\<exists>b. fst (orca_aes_gcm_message_serialize (\<lambda>_. True) (Some sample_message) \<lparr>c_error = '''', c_live = {#}\<rparr>) = Some b
    \<and> length b = 35
    \<and> fst (orca_aes_gcm_message_deserialize (\<lambda>_. True) (Some b) \<lparr>c_error = '''', c_live = {#}\<rparr>) = Some sample_message"
proof -
  have w: "wf_message sample_message" by (simp add: wf_message_def sample_message_def zero_message_def gcm_lens)
  obtain b where b: "fst (orca_aes_gcm_message_serialize (\<lambda>_. True) (Some sample_message) \<lparr>c_error = '''', c_live = {#}\<rparr>) = Some b"
    by (simp add: orca_aes_gcm_message_serialize_def sample_message_def zero_message_def finish_run)
  show ?thesis
    using message_serialize_roundtrip [OF w b, of "\<lparr>c_error = '''', c_live = {#}\<rparr>"] b
    by (auto simp: sample_message_def zero_message_def)
qed

text \<open>
  The parser is exact on what it accepts: whatever the buffer, it reads inside it, and a
  message it returns is well formed and serialises to the buffer's first
  \<open>32 + ciphertext_len\<close> bytes.
\<close>

theorem message_deserialize_serialize:
  assumes "fst (orca_aes_gcm_message_deserialize ok (Some b) s) = Some m"
  shows "wf_message m \<and> 32 + gm_ciphertext_len m \<le> length b
    \<and> fst (orca_aes_gcm_message_serialize (\<lambda>_. True) (Some m) s') = Some (take (32 + gm_ciphertext_len m) b)"
proof -
  define x y p where "x = take 12 b" and "y = take 16 (drop 12 b)" and "p = drop 28 b"
  have len: "32 \<le> length b"
    using assms by (auto simp: orca_aes_gcm_message_deserialize_def gcm_lens reject_def split: if_splits)
  have "p = drop 16 (drop 12 b)" by (simp add: p_def)
  then have b: "b = x @ y @ p" unfolding x_def y_def by (simp only: append_take_drop_id)
  have lens: "length x = 12" "length y = 16" "4 \<le> length p" using len by (simp_all add: x_def y_def p_def)
  let ?n = "unat (from_be32 (take 4 p))"
  have n: "?n \<le> length p - 4" and m: "m = zero_message\<lparr>gm_nonce := x, gm_tag := y,
      gm_ciphertext := Some (take ?n (drop 4 p)), gm_ciphertext_len := ?n, gm_encrypted := True\<rparr>"
    using assms lens by (auto simp: orca_aes_gcm_message_deserialize_def gcm_lens reject_def Let_def finish_run b
        split: if_splits)
  have w: "wf_message m"
    using n lens unsigned_less [of "from_be32 (take 4 p)", where ?'a = nat]
    by (simp add: m wf_message_def gcm_lens)
  have be: "be32 (from_be32 (take 4 p)) = take 4 p" using lens by (simp add: be32_from_be32)
  have "take (32 + ?n) b = x @ y @ take (4 + ?n) p" using lens by (simp add: b)
  also have "take (4 + ?n) p = take 4 p @ take ?n (drop 4 p)" by (rule take_add)
  finally have t: "take (32 + ?n) b = x @ y @ take 4 p @ take ?n (drop 4 p)" by simp
  have "32 + ?n \<le> length b" using n lens by (simp add: b)
  then show ?thesis
    using w by (simp add: orca_aes_gcm_message_serialize_def finish_run m be t)
qed

theorem message_deserialize_serialize_witness:
  "\<exists>m. fst (orca_aes_gcm_message_deserialize (\<lambda>_. True) (Some (replicate 40 0)) \<lparr>c_error = '''', c_live = {#}\<rparr>) = Some m
    \<and> fst (orca_aes_gcm_message_serialize (\<lambda>_. True) (Some m) \<lparr>c_error = '''', c_live = {#}\<rparr>) = Some (replicate 32 0)"
proof -
  have z: "unat (from_be32 (replicate 4 0)) = 0" by (simp add: from_be32_def)
  let ?m = "zero_message\<lparr>gm_ciphertext := Some [], gm_encrypted := True\<rparr>"
  have d: "fst (orca_aes_gcm_message_deserialize (\<lambda>_. True) (Some (replicate 40 0)) \<lparr>c_error = '''', c_live = {#}\<rparr>) = Some ?m"
    by (simp add: orca_aes_gcm_message_deserialize_def gcm_lens finish_run z zero_message_def)
  show ?thesis
    using message_deserialize_serialize [OF d, of "\<lparr>c_error = '''', c_live = {#}\<rparr>"] d by (simp add: zero_message_def)
qed

section \<open>Encrypting and decrypting\<close>

lemma ssl_ok_gcm:
  assumes "ssl_ok ssl"
  shows "\<forall>k n d. length k = 32 \<longrightarrow> length n = 12 \<longrightarrow> (case o_gcm_enc ssl k n d of (c, tag) \<Rightarrow>
        length c = length d \<and> length tag = 16 \<and> o_gcm_dec ssl k n tag c (int (length c)) = Some d)"
  using assms unfolding ssl_ok_def by (elim conjE)

lemma ssl_ok_b64:
  assumes "ssl_ok ssl"
  shows "\<forall>bs. bs \<noteq> [] \<longrightarrow> o_b64dec ssl (o_b64enc ssl bs) = (bs, int (length bs))"
  using assms unfolding ssl_ok_def by (elim conjE)

lemma nonce_generate_Some:
  "orca_aes_gcm_nonce_generate ok rnd True s = (Some n, s') \<Longrightarrow> n = take 12 rnd"
  by (auto simp: orca_aes_gcm_nonce_generate_def finish_run gcm_lens split: if_splits)

lemma gcm_encrypt_Some:
  "orca_aes_gcm_encrypt ok ssl (Some p) (Some k) (Some n) s = (Some x, s') \<Longrightarrow> x = o_gcm_enc ssl k n p"
  by (auto simp: orca_aes_gcm_encrypt_def finish_run split: if_splits)

lemma gcm_decrypt_all:
  "o_gcm_dec ssl k n t c len = Some d \<Longrightarrow>
   fst (orca_aes_gcm_decrypt (\<lambda>_. True) ssl (Some c) len (Some k) (Some n) (Some t) s) = Some d"
  by (simp add: orca_aes_gcm_decrypt_def finish_run)

text \<open>
  C12: what \<open>orca_aes_gcm_encrypt_message\<close> seals, the other side opens: serialised, sent,
  deserialised and decrypted with the same key it is the plaintext again.
\<close>

theorem message_end_to_end:
  assumes "ssl_ok ssl" and "length key = 32" and "12 \<le> length rnd" and "length p < 2 ^ 32"
    and "fst (orca_aes_gcm_encrypt_message ok1 ssl rnd (Some p) (Some key) s1) = Some m"
    and "fst (orca_aes_gcm_message_serialize ok2 (Some m) s2) = Some wire"
    and "fst (orca_aes_gcm_message_deserialize ok3 (Some wire) s3) = Some m'"
  shows "fst (orca_aes_gcm_decrypt_message (\<lambda>_. True) ssl (Some m') (Some key) s4) = Some p"
proof -
  obtain n t1 where n: "orca_aes_gcm_nonce_generate ok1 rnd True s1 = (Some n, t1)"
    using assms(5) by (cases "orca_aes_gcm_nonce_generate ok1 rnd True s1"; cases "fst (orca_aes_gcm_nonce_generate ok1 rnd True s1)")
      (auto simp: orca_aes_gcm_encrypt_message_def reject_def)
  obtain x t2 where e: "orca_aes_gcm_encrypt (shift 1 ok1) ssl (Some p) (Some key) (Some n) t1 = (Some x, t2)"
    using assms(5) n by (cases "orca_aes_gcm_encrypt (shift 1 ok1) ssl (Some p) (Some key) (Some n) t1"; cases "fst (orca_aes_gcm_encrypt (shift 1 ok1) ssl (Some p) (Some key) (Some n) t1)")
      (auto simp: orca_aes_gcm_encrypt_message_def)
  obtain c tag where x: "x = (c, tag)" by fastforce
  have ln: "length n = 12" using nonce_generate_Some [OF n] assms(3) by simp
  have enc: "o_gcm_enc ssl key n p = (c, tag)" using gcm_encrypt_Some [OF e] x by simp
  have g: "length c = length p" "length tag = 16" "o_gcm_dec ssl key n tag c (int (length c)) = Some p"
    using ssl_ok_gcm [OF assms(1), rule_format, OF assms(2) ln, of p] unfolding enc prod.case by blast+
  have m: "m = zero_message\<lparr>gm_key := take 32 key, gm_nonce := n, gm_tag := tag,
      gm_ciphertext := Some c, gm_ciphertext_len := length c, gm_encrypted := True\<rparr>"
    using assms(5) n e x by (simp add: orca_aes_gcm_encrypt_message_def)
  have w: "wf_message m" using g(1,2) ln assms(4) by (simp add: wf_message_def m gcm_lens)
  have "m' = zero_message\<lparr>gm_nonce := n, gm_tag := tag, gm_ciphertext := Some c, gm_ciphertext_len := length c, gm_encrypted := True\<rparr>"
  proof -
    have "fst (orca_aes_gcm_message_deserialize ok3 (Some wire) s3) = Some m'
        \<Longrightarrow> fst (orca_aes_gcm_message_deserialize (\<lambda>_. True) (Some wire) s3) = Some m'"
      by (auto simp: orca_aes_gcm_message_deserialize_def finish_run reject_def Let_def split: if_splits)
    then show ?thesis
      using message_serialized [OF w assms(6), of s3] assms(7) by (simp add: m)
  qed
  then show ?thesis using g(3) by (simp add: orca_aes_gcm_decrypt_message_def gcm_decrypt_all)
qed

text \<open>The text variants; an empty text is refused, as base64 encoding no bytes is an error.\<close>

text \<open>
  A non-empty text encrypted with \<open>orca_aes_gcm_encrypt_string\<close> decrypts to itself from the
  three texts it returned; the empty text can never be encrypted.
\<close>

theorem gcm_string_roundtrip:
  assumes "ssl_ok ssl" and "12 \<le> length rnd"
  shows "fst (orca_aes_gcm_encrypt_string ok ssl rnd (Some '''') (Some kh) s) = None
    \<and> (fst (orca_aes_gcm_encrypt_string ok ssl rnd (Some t) (Some kh) s) = Some (nh, th, b64)
        \<longrightarrow> fst (orca_aes_gcm_decrypt_string (\<lambda>_. True) ssl (Some b64) (Some nh) (Some th) (Some kh) s') = Some (string_bytes t))"
proof (cases "orca_hex_to_bytes (Some kh) ORCA_AES_GCM_KEY_LEN")
  case (Inl e)
  then show ?thesis by (simp add: orca_aes_gcm_encrypt_string_def reject_def)
next
  case (Inr key)
  have lk: "length key = 32" using hex_to_bytes_length [OF Inr] by (simp add: gcm_lens)
  have main: "\<exists>n tag ct. length n = 12 \<and> o_gcm_enc ssl key n (string_bytes t) = (ct, tag) \<and> ct \<noteq> []
      \<and> nh = the (orca_bytes_to_hex (Some n)) \<and> th = the (orca_bytes_to_hex (Some tag)) \<and> b64 = o_b64enc ssl ct"
    if enc: "fst (orca_aes_gcm_encrypt_string ok ssl rnd (Some t) (Some kh) s) = Some (nh, th, b64)" for t nh th b64
  proof -
    obtain n s1 where n: "orca_aes_gcm_nonce_generate ok rnd True s = (Some n, s1)"
      using enc Inr by (cases "orca_aes_gcm_nonce_generate ok rnd True s"; cases "fst (orca_aes_gcm_nonce_generate ok rnd True s)")
        (auto simp: orca_aes_gcm_encrypt_string_def reject_def)
    let ?e = "orca_aes_gcm_encrypt (shift 1 ok) ssl (Some (string_bytes t)) (Some key) (Some n) s1"
    obtain ct tag s2 where e: "?e = (Some (ct, tag), s2)"
      using enc Inr n by (cases ?e; cases "fst ?e") (auto simp: orca_aes_gcm_encrypt_string_def)
    have ln: "length n = 12" using nonce_generate_Some [OF n] assms(2) by simp
    have "ct \<noteq> [] \<and> b64 = o_b64enc ssl ct \<and> nh = the (orca_bytes_to_hex (Some n)) \<and> th = the (orca_bytes_to_hex (Some tag))"
      using enc Inr n e by (auto simp: orca_aes_gcm_encrypt_string_def orca_base64_encode_def finish_run reject_def Let_def
          split: if_splits)
    then show ?thesis using gcm_encrypt_Some [OF e] ln by metis
  qed
  have empty: "fst (orca_aes_gcm_encrypt_string ok ssl rnd (Some '''') (Some kh) s) = None"
  proof (rule ccontr)
    assume "fst (orca_aes_gcm_encrypt_string ok ssl rnd (Some '''') (Some kh) s) \<noteq> None"
    then obtain nh th b64 where "fst (orca_aes_gcm_encrypt_string ok ssl rnd (Some '''') (Some kh) s) = Some (nh, th, b64)" by auto
    from main [OF this] obtain n tag ct where c: "length n = 12" "o_gcm_enc ssl key n [] = (ct, tag)" "ct \<noteq> []"
      by (auto simp: string_bytes_def)
    then show False using ssl_ok_gcm [OF assms(1), rule_format, OF lk c(1), of "[]"] by simp
  qed
  have "fst (orca_aes_gcm_decrypt_string (\<lambda>_. True) ssl (Some b64) (Some nh) (Some th) (Some kh) s') = Some (string_bytes t)"
    if enc: "fst (orca_aes_gcm_encrypt_string ok ssl rnd (Some t) (Some kh) s) = Some (nh, th, b64)"
  proof -
    from main [OF enc] obtain n tag ct where c: "length n = 12" "o_gcm_enc ssl key n (string_bytes t) = (ct, tag)" "ct \<noteq> []"
      "nh = the (orca_bytes_to_hex (Some n))" "th = the (orca_bytes_to_hex (Some tag))" "b64 = o_b64enc ssl ct" by blast
    have g: "length tag = 16" "o_gcm_dec ssl key n tag ct (int (length ct)) = Some (string_bytes t)"
      using ssl_ok_gcm [OF assms(1), rule_format, OF lk c(1), of "string_bytes t"] unfolding c(2) prod.case by blast+
    have h: "orca_hex_to_bytes (Some nh) 12 = Inr n" "orca_hex_to_bytes (Some th) 16 = Inr tag"
      using hex_text_of [of n] hex_text_of [of tag] c(1,4,5) g(1) by auto
    have "fst (orca_base64_decode (\<lambda>_. True) ssl (Some b64) s') = Some (ct, int (length ct))"
      using ssl_ok_b64 [OF assms(1)] c(3,6) by (simp add: base64_decode_all)
    then show ?thesis
      using g(2) h Inr by (cases "orca_base64_decode (\<lambda>_. True) ssl (Some b64) s'")
        (simp add: orca_aes_gcm_decrypt_string_def gcm_lens orca_aes_gcm_decrypt_def finish_run shift_def)
  qed
  with empty show ?thesis by blast
qed

lemma toy_message:
  "fst (orca_aes_gcm_encrypt_message (\<lambda>_. True) toy_ssl (replicate 12 5) (Some [1, 2]) (Some (replicate 32 9)) s)
    = Some (zero_message\<lparr>gm_key := replicate 32 9, gm_nonce := replicate 12 5, gm_tag := replicate 16 7,
        gm_ciphertext := Some [1, 2], gm_ciphertext_len := 2, gm_encrypted := True\<rparr>)"
  by (simp add: orca_aes_gcm_encrypt_message_def orca_aes_gcm_nonce_generate_def orca_aes_gcm_encrypt_def
      finish_run shift_def toy_ssl_def gcm_lens)

theorem message_end_to_end_witness:
  "\<exists>m wire m'. fst (orca_aes_gcm_encrypt_message (\<lambda>_. True) toy_ssl (replicate 12 5) (Some [1, 2]) (Some (replicate 32 9)) \<lparr>c_error = '''', c_live = {#}\<rparr>) = Some m
    \<and> fst (orca_aes_gcm_message_serialize (\<lambda>_. True) (Some m) \<lparr>c_error = '''', c_live = {#}\<rparr>) = Some wire
    \<and> fst (orca_aes_gcm_message_deserialize (\<lambda>_. True) (Some wire) \<lparr>c_error = '''', c_live = {#}\<rparr>) = Some m'
    \<and> fst (orca_aes_gcm_decrypt_message (\<lambda>_. True) toy_ssl (Some m') (Some (replicate 32 9)) \<lparr>c_error = '''', c_live = {#}\<rparr>) = Some [1, 2]"
proof -
  let ?s = "\<lparr>c_error = '''', c_live = {#}\<rparr>"
  obtain m where e: "fst (orca_aes_gcm_encrypt_message (\<lambda>_. True) toy_ssl (replicate 12 5) (Some [1, 2]) (Some (replicate 32 9)) ?s) = Some m"
    and m: "gm_encrypted m" "wf_message m"
    by (simp add: toy_message wf_message_def zero_message_def gcm_lens)
  obtain wire where w: "fst (orca_aes_gcm_message_serialize (\<lambda>_. True) (Some m) ?s) = Some wire"
    using m(1) by (simp add: orca_aes_gcm_message_serialize_def finish_run)
  obtain m' where d: "fst (orca_aes_gcm_message_deserialize (\<lambda>_. True) (Some wire) ?s) = Some m'"
    using message_serialized [OF m(2) w, of ?s] by blast
  have "fst (orca_aes_gcm_decrypt_message (\<lambda>_. True) toy_ssl (Some m') (Some (replicate 32 9)) ?s) = Some [1, 2]"
    by (rule message_end_to_end [OF toy_ssl_ok _ _ _ e w d]) simp_all
  with e w d show ?thesis by blast
qed

theorem gcm_string_roundtrip_witness:
  "\<exists>nh th b64. fst (orca_aes_gcm_encrypt_string (\<lambda>_. True) toy_ssl (replicate 12 5) (Some ''hello'')
        (orca_bytes_to_hex (Some (replicate 32 9))) \<lparr>c_error = '''', c_live = {#}\<rparr>) = Some (nh, th, b64)
    \<and> fst (orca_aes_gcm_decrypt_string (\<lambda>_. True) toy_ssl (Some b64) (Some nh) (Some th)
        (orca_bytes_to_hex (Some (replicate 32 9))) \<lparr>c_error = '''', c_live = {#}\<rparr>) = Some (string_bytes ''hello'')"
proof -
  let ?s = "\<lparr>c_error = '''', c_live = {#}\<rparr>"
  obtain kh where kh: "orca_bytes_to_hex (Some (replicate 32 9)) = Some kh" "orca_hex_to_bytes (Some kh) 32 = Inr (replicate 32 9)"
    using hex_text_of [of "replicate 32 9"] by auto
  obtain nh th b64 where e: "fst (orca_aes_gcm_encrypt_string (\<lambda>_. True) toy_ssl (replicate 12 5) (Some ''hello'') (Some kh) ?s) = Some (nh, th, b64)"
    by (simp add: orca_aes_gcm_encrypt_string_def gcm_lens kh(2) orca_aes_gcm_nonce_generate_def orca_aes_gcm_encrypt_def
        finish_run orca_base64_encode_def shift_def toy_ssl_def string_bytes_def)
  show ?thesis
    using gcm_string_roundtrip [OF toy_ssl_ok, of "replicate 12 5" "\<lambda>_. True" kh ?s "''hello''" nh th b64 ?s] e kh(1) by auto
qed

section \<open>Resources, and the key derivation's buffer\<close>

abbreviation quiet :: "res list \<Rightarrow> res list \<Rightarrow> (cstate \<Rightarrow> 'a option \<times> cstate) \<Rightarrow> bool" where
  "quiet \<equiv> outcome_ok (\<lambda>e. e = '''')"

text \<open>
  The AES-GCM calls leak nothing on any branch, but after a failure of one of them
  \<open>orca_get_last_error\<close> returns the empty text: \<open>set_aes_error\<close> clears the message.
\<close>

theorem gcm_failures_are_silent:
  "quiet [] [MEM ''ciphertext''] (orca_aes_gcm_encrypt ok ssl p k n)
   \<and> quiet [] [MEM ''plaintext''] (orca_aes_gcm_decrypt ok ssl c len k n t)
   \<and> quiet [] [MEM ''buffer''] (orca_aes_gcm_message_serialize ok m)
   \<and> quiet [] [MEM ''ciphertext''] (orca_aes_gcm_message_deserialize ok b)
   \<and> quiet [] [] (orca_aes_gcm_key_generate ok rnd out)
   \<and> quiet [] [] (orca_aes_gcm_nonce_generate ok rnd out)"
proof (intro conjI)
  show "quiet [] [MEM ''ciphertext''] (orca_aes_gcm_encrypt ok ssl p k n)"
    unfolding orca_aes_gcm_encrypt_def [abs_def]
    by (cases p; cases k; cases n) (auto simp: aes_msg_def intro!: outcome_reject outcome_finish)
  show "quiet [] [MEM ''plaintext''] (orca_aes_gcm_decrypt ok ssl c len k n t)"
    unfolding orca_aes_gcm_decrypt_def [abs_def]
    by (cases c; cases k; cases n; cases t) (auto simp: aes_msg_def intro!: outcome_reject outcome_finish)
  show "quiet [] [MEM ''buffer''] (orca_aes_gcm_message_serialize ok m)"
    unfolding orca_aes_gcm_message_serialize_def [abs_def]
    by (cases m; cases "gm_encrypted (the m)") (auto simp: aes_msg_def intro!: outcome_reject outcome_finish)
  show "quiet [] [] (orca_aes_gcm_key_generate ok rnd out)"
    unfolding orca_aes_gcm_key_generate_def [abs_def]
    by (cases out) (auto simp: aes_msg_def intro!: outcome_reject outcome_finish)
  show "quiet [] [] (orca_aes_gcm_nonce_generate ok rnd out)"
    unfolding orca_aes_gcm_nonce_generate_def [abs_def]
    by (cases out) (auto simp: aes_msg_def intro!: outcome_reject outcome_finish)
  show "quiet [] [MEM ''ciphertext''] (orca_aes_gcm_message_deserialize ok b)"
  proof (rule outcome_I)
    fix s :: cstate and base assume "c_live s = base + mset []"
    then show "c_live (snd (orca_aes_gcm_message_deserialize ok b s)) = base
          + (if fst (orca_aes_gcm_message_deserialize ok b s) = None then {#} else mset [MEM ''ciphertext''])
        \<and> (fst (orca_aes_gcm_message_deserialize ok b s) = None \<longrightarrow> c_error (snd (orca_aes_gcm_message_deserialize ok b s)) = '''')"
      by (cases b) (simp_all add: orca_aes_gcm_message_deserialize_def Let_def finish_def reject_def set_error_def
          take_res_def free_res_def aes_msg_def)
  qed
qed

text \<open>
  The key derivation overruns its 64-byte \<open>combined_salt\<close> exactly when salt and info are
  longer than that together.
\<close>

theorem gcm_derive_key_overrun:
  "orca_aes_gcm_derive_key_from_shared_secret ok ssl (Some secret) (Some salt) (Some tail) s = None
    \<longleftrightarrow> 64 < length salt + length tail"
  by (auto simp: orca_aes_gcm_derive_key_from_shared_secret_def memcpy_into_def Let_def)

end
