(* ===== verification/Ecdh.thy ===== *)
theory Ecdh
  imports Aes_Gcm
begin

text \<open>
  X25519 key agreement and its session (\<open>ecdh.c\<close>): key pairs, shared secrets, HKDF keys, the
  two-message handshake, and the forward-secret variants.

  A function that writes into its caller's structure before it fails returns the structure as it
  leaves it.  Errors are reported as in \<open>aes_gcm.c\<close>: printed, with the message of
  \<open>orca_get_last_error\<close> cleared.  The results of \<open>orca_hash\<close> that the code does not check are
  whatever the uninitialised buffer held, an argument of the definitions.
\<close>

definition ecdh_msg :: "string \<Rightarrow> string" where
  "ecdh_msg printed = ''''"

definition ecdh_error :: "string \<Rightarrow> cstate \<Rightarrow> cstate" where
  "ecdh_error printed s = set_error (ecdh_msg printed) s"

section \<open>Key pairs\<close>

record OrcaECDHKeypair =
  kp_public_key :: "byte list"
  kp_private_key :: "byte list"

text \<open>\<open>priv\<close> is the private key the generator draws.\<close>

definition orca_ecdh_generate_keypair ::
    "outcomes \<Rightarrow> ssl \<Rightarrow> byte list \<Rightarrow> OrcaECDHKeypair option \<Rightarrow> cstate \<Rightarrow> (int \<times> OrcaECDHKeypair option) \<times> cstate" where
  "orca_ecdh_generate_keypair ok ssl priv kp s = (case kp of
      None \<Rightarrow> ((-1, None), ecdh_error ''NULL pointer in orca_ecdh_generate_keypair'' s)
    | Some k \<Rightarrow>
        let (done, s) = run [
          Call (ok 0) [PKEY_CTX] [] (ecdh_msg ''Failed to create X25519 context''),
          Call (ok 1) [] [PKEY_CTX] (ecdh_msg ''Failed to init keygen''),
          Call (ok 2) [PKEY] [PKEY_CTX] (ecdh_msg ''Failed to generate X25519 keypair''),
          Free [PKEY_CTX],
          Call (ok 3) [] [PKEY] (ecdh_msg ''Failed to extract public key''),
          Call (ok 4) [] [PKEY] (ecdh_msg ''Failed to extract private key''),
          Free [PKEY]] s;
          k = (if ok 0 \<and> ok 1 \<and> ok 2 \<and> ok 3 then k\<lparr>kp_public_key := o_x25519_public ssl priv\<rparr> else k);
          k = (if done then k\<lparr>kp_private_key := priv\<rparr> else k)
        in ((if done then 0 else -1, Some k), s))"

definition orca_ecdh_generate_ephemeral ::
    "outcomes \<Rightarrow> ssl \<Rightarrow> byte list \<Rightarrow> OrcaECDHKeypair option \<Rightarrow> cstate \<Rightarrow> (int \<times> OrcaECDHKeypair option) \<times> cstate" where
  "orca_ecdh_generate_ephemeral = orca_ecdh_generate_keypair"

definition orca_ecdh_public_key_to_hex :: "byte list option \<Rightarrow> string option" where
  "orca_ecdh_public_key_to_hex k = orca_bytes_to_hex (map_option (take 32) k)"

definition orca_ecdh_private_key_to_hex :: "byte list option \<Rightarrow> string option" where
  "orca_ecdh_private_key_to_hex k = orca_bytes_to_hex (map_option (take 32) k)"

definition orca_ecdh_hex_to_public_key :: "string option \<Rightarrow> cstate \<Rightarrow> byte list option \<times> cstate" where
  "orca_ecdh_hex_to_public_key hex s =
    (if hex = None then reject (ecdh_msg ''NULL pointer in orca_ecdh_hex_to_public_key'') s
     else hex_bytes_or_error hex 32 s)"

definition orca_ecdh_hex_to_private_key :: "string option \<Rightarrow> cstate \<Rightarrow> byte list option \<times> cstate" where
  "orca_ecdh_hex_to_private_key hex s =
    (if hex = None then reject (ecdh_msg ''NULL pointer in orca_ecdh_hex_to_private_key'') s
     else hex_bytes_or_error hex 32 s)"

section \<open>Shared secrets\<close>

text \<open>The return code and what the buffer \<open>shared_secret_out\<close>, which held \<open>out\<close>, then holds.\<close>

definition orca_ecdh_compute_shared_secret ::
    "outcomes \<Rightarrow> ssl \<Rightarrow> byte list option \<Rightarrow> byte list option \<Rightarrow> byte list \<Rightarrow> cstate \<Rightarrow> (int \<times> byte list) \<times> cstate" where
  "orca_ecdh_compute_shared_secret ok ssl private_key peer_public_key out s =
    (case (private_key, peer_public_key) of
      (Some priv, Some peer) \<Rightarrow>
        let (done, s) = run [
          Call (ok 0) [PKEY] [] (ecdh_msg ''Failed to import private key''),
          Call (ok 1) [PEER_KEY] [PKEY] (ecdh_msg ''Failed to import peer public key''),
          Call (ok 2) [PKEY_CTX] [PKEY, PEER_KEY] (ecdh_msg ''Failed to create context''),
          Call (ok 3) [] [PKEY_CTX, PKEY, PEER_KEY] (ecdh_msg ''Failed to init derive''),
          Call (ok 4) [] [PKEY_CTX, PKEY, PEER_KEY] (ecdh_msg ''Failed to set peer''),
          Call (ok 5 \<and> o_x25519 ssl priv peer \<noteq> None) [] [PKEY_CTX, PKEY, PEER_KEY]
            (ecdh_msg ''Failed to derive shared secret''),
          Free [PKEY_CTX, PKEY, PEER_KEY]] s
        in if \<not> done then ((-1, out), s)
           else let secret = the (o_x25519 ssl priv peer) in
             if length secret \<noteq> 32 then ((-1, secret), ecdh_error ''Unexpected shared secret length'' s)
             else ((0, secret), s)
    | _ \<Rightarrow> ((-1, out), ecdh_error ''NULL pointer in orca_ecdh_compute_shared_secret'' s))"

definition orca_ecdh_compute_shared_secret_keypair ::
    "outcomes \<Rightarrow> ssl \<Rightarrow> OrcaECDHKeypair option \<Rightarrow> byte list option \<Rightarrow> byte list \<Rightarrow> cstate \<Rightarrow> (int \<times> byte list) \<times> cstate" where
  "orca_ecdh_compute_shared_secret_keypair ok ssl kp peer_public_key out s =
    (case (kp, peer_public_key) of
      (Some k, Some peer) \<Rightarrow> orca_ecdh_compute_shared_secret ok ssl (Some (kp_private_key k)) (Some peer) out s
    | _ \<Rightarrow> ((-1, out), ecdh_error ''NULL pointer in orca_ecdh_compute_shared_secret_keypair'' s))"

definition orca_ecdh_compute_shared_secret_hex ::
    "outcomes \<Rightarrow> ssl \<Rightarrow> string option \<Rightarrow> string option \<Rightarrow> byte list \<Rightarrow> cstate \<Rightarrow> string option \<times> cstate" where
  "orca_ecdh_compute_shared_secret_hex ok ssl private_key_hex peer_public_key_hex garbage s =
    (if private_key_hex = None \<or> peer_public_key_hex = None
     then reject (ecdh_msg ''NULL pointer in orca_ecdh_compute_shared_secret_hex'') s
     else case orca_ecdh_hex_to_private_key private_key_hex s of
         (None, s) \<Rightarrow> reject (ecdh_msg ''Invalid private key hex'') s
       | (Some priv, s) \<Rightarrow> (case orca_ecdh_hex_to_public_key peer_public_key_hex s of
             (None, s) \<Rightarrow> reject (ecdh_msg ''Invalid peer public key hex'') s
           | (Some peer, s) \<Rightarrow>
               let ((rc, secret), s) = orca_ecdh_compute_shared_secret ok ssl (Some priv) (Some peer) garbage s
               in if rc < 0 then (None, s) else (orca_bytes_to_hex (Some secret), s)))"

section \<open>Keys derived from a secret\<close>

definition nonempty :: "byte list option \<Rightarrow> byte list option" where
  "nonempty b = (case b of None \<Rightarrow> None | Some xs \<Rightarrow> if length xs > 0 then Some xs else None)"

definition orca_ecdh_derive_aes_key ::
    "outcomes \<Rightarrow> ssl \<Rightarrow> byte list option \<Rightarrow> byte list option \<Rightarrow> byte list option \<Rightarrow> cstate \<Rightarrow> byte list option \<times> cstate" where
  "orca_ecdh_derive_aes_key ok ssl shared_secret salt ctx_info s = (case shared_secret of
      None \<Rightarrow> reject (ecdh_msg ''NULL pointer in orca_ecdh_derive_aes_key'') s
    | Some secret \<Rightarrow> finish ([
        Call (ok 0) [PKEY_CTX] [] (ecdh_msg ''Failed to create HKDF context''),
        Call (ok 1) [] [PKEY_CTX] (ecdh_msg ''Failed to init HKDF''),
        Call (ok 2) [] [PKEY_CTX] (ecdh_msg ''Failed to set HKDF digest'')]
        @ (if nonempty salt \<noteq> None then [Call (ok 3) [] [PKEY_CTX] (ecdh_msg ''Failed to set HKDF salt'')] else [])
        @ [Call (ok 4) [] [PKEY_CTX] (ecdh_msg ''Failed to set HKDF key'')]
        @ (if nonempty ctx_info \<noteq> None then [Call (ok 5) [] [PKEY_CTX] (ecdh_msg ''Failed to set HKDF info'')] else [])
        @ [Call (ok 6) [] [PKEY_CTX] (ecdh_msg ''Failed to derive AES key''),
           Free [PKEY_CTX]]) (o_hkdf ssl (take 32 secret) (nonempty salt) (nonempty ctx_info)) s)"

definition orca_ecdh_derive_aes_key_hex ::
    "outcomes \<Rightarrow> ssl \<Rightarrow> string option \<Rightarrow> string option \<Rightarrow> byte list option \<Rightarrow> cstate \<Rightarrow> string option \<times> cstate" where
  "orca_ecdh_derive_aes_key_hex ok ssl shared_secret_hex salt_hex ctx_info s =
    (if shared_secret_hex = None then reject (ecdh_msg ''NULL pointer in orca_ecdh_derive_aes_key_hex'') s
     else (case orca_hex_to_bytes shared_secret_hex 32 of
        Inl _ \<Rightarrow> reject (ecdh_msg ''Invalid shared secret hex'') s
      | Inr secret \<Rightarrow>
          (case (case salt_hex of None \<Rightarrow> Inr None
               | Some h \<Rightarrow> (case orca_hex_to_bytes (Some h) 16 of Inl e \<Rightarrow> Inl e | Inr b \<Rightarrow> Inr (Some b))) of
             Inl _ \<Rightarrow> reject (ecdh_msg ''Invalid salt hex'') s
           | Inr salt \<Rightarrow>
               let (key, s) = orca_ecdh_derive_aes_key ok ssl (Some secret) salt ctx_info s
               in (case key of None \<Rightarrow> (None, s) | Some k \<Rightarrow> (orca_bytes_to_hex (Some k), s)))))"

text \<open>
  \<open>orca_ecdh_derive_keys\<close> writes the 32 bytes of key \<open>i\<close> at offset \<open>i * key_len\<close> of \<open>keys_out\<close>,
  here a buffer with its contents; the outer \<open>None\<close> is a write past its end.
\<close>

definition write_at :: "nat \<Rightarrow> byte list \<Rightarrow> byte list \<Rightarrow> byte list option" where
  "write_at off bs buf =
    (if off + length bs \<le> length buf then Some (take off buf @ bs @ drop (off + length bs) buf) else None)"

fun derive_keys_loop ::
    "outcomes \<Rightarrow> ssl \<Rightarrow> byte list option \<Rightarrow> byte list option \<Rightarrow> nat \<Rightarrow> nat list \<Rightarrow> byte list \<Rightarrow> cstate
      \<Rightarrow> ((int \<times> byte list) \<times> cstate) option" where
  "derive_keys_loop ok ssl secret salt key_len [] buf s = Some ((0, buf), s)"
| "derive_keys_loop ok ssl secret salt key_len (i # is) buf s =
    (case orca_ecdh_derive_aes_key (shift (7 * i) ok) ssl secret salt (Some (be32 (word_of_nat i))) s of
       (None, s) \<Rightarrow> Some ((-1, buf), s)
     | (Some k, s) \<Rightarrow> do {
         buf \<leftarrow> write_at (i * key_len) k buf;
         derive_keys_loop ok ssl secret salt key_len is buf s })"

definition orca_ecdh_derive_keys ::
    "outcomes \<Rightarrow> ssl \<Rightarrow> byte list option \<Rightarrow> byte list option \<Rightarrow> int \<Rightarrow> byte list option \<Rightarrow> nat \<Rightarrow> cstate
      \<Rightarrow> ((int \<times> byte list option) \<times> cstate) option" where
  "orca_ecdh_derive_keys ok ssl secret salt key_count keys_out key_len s =
    (if secret = None \<or> keys_out = None \<or> key_count \<le> 0 \<or> key_len = 0
     then Some ((-1, keys_out), ecdh_error ''NULL pointer or invalid parameters in orca_ecdh_derive_keys'' s)
     else do {
       ((rc, buf), s) \<leftarrow> derive_keys_loop ok ssl secret salt key_len [0..<nat key_count] (the keys_out) s;
       Some ((rc, Some buf), s) })"

section \<open>Sessions\<close>

record OrcaECDSession =
  es_session_id :: "byte list"
  es_shared_secret :: "byte list"
  es_ephemeral_keypair :: OrcaECDHKeypair
  es_peer_public_key :: "byte list"
  es_created_at :: int
  es_expires_at :: int
  es_is_initiator :: bool
  es_established :: bool

definition zero_session :: OrcaECDSession where
  "zero_session = \<lparr>es_session_id = replicate 32 0, es_shared_secret = replicate 32 0,
     es_ephemeral_keypair = \<lparr>kp_public_key = replicate 32 0, kp_private_key = replicate 32 0\<rparr>,
     es_peer_public_key = replicate 32 0, es_created_at = 0, es_expires_at = 0,
     es_is_initiator = False, es_established = False\<rparr>"

definition orca_ecdh_session_init ::
    "outcomes \<Rightarrow> ssl \<Rightarrow> byte list \<Rightarrow> byte list \<Rightarrow> int \<Rightarrow> OrcaECDSession option \<Rightarrow> bool \<Rightarrow> byte list option \<Rightarrow> cstate
      \<Rightarrow> (int \<times> OrcaECDSession option) \<times> cstate" where
  "orca_ecdh_session_init ok ssl priv garbage now session is_initiator peer_public_key s = (case session of
      None \<Rightarrow> ((-1, None), ecdh_error ''NULL pointer in orca_ecdh_session_init'' s)
    | Some _ \<Rightarrow>
        let ss = zero_session\<lparr>es_is_initiator := is_initiator, es_created_at := now, es_expires_at := now + 3600\<rparr>;
            ((rc, kp), s) = orca_ecdh_generate_ephemeral ok ssl priv (Some (es_ephemeral_keypair ss)) s;
            ss = ss\<lparr>es_ephemeral_keypair := the kp\<rparr>
        in if rc < 0 then ((-1, Some ss), ecdh_error ''Failed to generate ephemeral keypair'' s)
           else
             let ss = (case peer_public_key of None \<Rightarrow> ss | Some p \<Rightarrow> ss\<lparr>es_peer_public_key := take 32 p\<rparr>);
                 (hash, s) = orca_hash True (shift 5 ok) ssl (Some (kp_public_key (es_ephemeral_keypair ss))) s
             in ((0, Some (ss\<lparr>es_session_id := (case hash of None \<Rightarrow> garbage | Some h \<Rightarrow> h)\<rparr>)), s))"

definition orca_ecdh_session_initiate ::
    "OrcaECDSession option \<Rightarrow> bool \<Rightarrow> cstate \<Rightarrow> byte list option \<times> cstate" where
  "orca_ecdh_session_initiate session out s = (case session of
      None \<Rightarrow> reject (ecdh_msg ''NULL pointer in orca_ecdh_session_initiate'') s
    | Some ss \<Rightarrow>
        if \<not> out then reject (ecdh_msg ''NULL pointer in orca_ecdh_session_initiate'') s
        else if \<not> es_is_initiator ss then reject (ecdh_msg ''Session is not an initiator'') s
        else (Some (kp_public_key (es_ephemeral_keypair ss)), s))"

text \<open>The common end of \<open>respond\<close> and \<open>complete\<close>: record the peer, compute, establish.\<close>

definition session_agree ::
    "outcomes \<Rightarrow> ssl \<Rightarrow> OrcaECDSession \<Rightarrow> byte list \<Rightarrow> cstate \<Rightarrow> (int \<times> OrcaECDSession) \<times> cstate" where
  "session_agree ok ssl ss peer s =
    (let ss = ss\<lparr>es_peer_public_key := take 32 peer\<rparr>;
         ((rc, secret), s) = orca_ecdh_compute_shared_secret_keypair ok ssl (Some (es_ephemeral_keypair ss)) (Some peer)
           (es_shared_secret ss) s;
         ss = ss\<lparr>es_shared_secret := secret\<rparr>
     in if rc < 0 then ((-1, ss), ecdh_error ''Failed to compute shared secret'' s)
        else ((0, ss\<lparr>es_established := True\<rparr>), s))"

definition orca_ecdh_session_respond ::
    "outcomes \<Rightarrow> ssl \<Rightarrow> OrcaECDSession option \<Rightarrow> byte list option \<Rightarrow> bool \<Rightarrow> cstate
      \<Rightarrow> (int \<times> OrcaECDSession option \<times> byte list option) \<times> cstate" where
  "orca_ecdh_session_respond ok ssl session peer_public_key out s = (case (session, peer_public_key) of
      (Some ss, Some peer) \<Rightarrow>
        if \<not> out then ((-1, session, None), ecdh_error ''NULL pointer in orca_ecdh_session_respond'' s)
        else if es_is_initiator ss
        then ((-1, session, None), ecdh_error ''Session is an initiator, not responder'' s)
        else let ((rc, ss), s) = session_agree ok ssl ss peer s
          in if rc < 0 then ((-1, Some ss, None), s)
             else ((0, Some ss, Some (kp_public_key (es_ephemeral_keypair ss))), s)
    | _ \<Rightarrow> ((-1, session, None), ecdh_error ''NULL pointer in orca_ecdh_session_respond'' s))"

definition orca_ecdh_session_complete ::
    "outcomes \<Rightarrow> ssl \<Rightarrow> OrcaECDSession option \<Rightarrow> byte list option \<Rightarrow> cstate
      \<Rightarrow> (int \<times> OrcaECDSession option) \<times> cstate" where
  "orca_ecdh_session_complete ok ssl session peer_public_key s = (case (session, peer_public_key) of
      (Some ss, Some peer) \<Rightarrow>
        if \<not> es_is_initiator ss then ((-1, session), ecdh_error ''Session is not an initiator'' s)
        else let ((rc, ss), s) = session_agree ok ssl ss peer s in ((rc, Some ss), s)
    | _ \<Rightarrow> ((-1, session), ecdh_error ''NULL pointer in orca_ecdh_session_complete'' s))"

definition orca_ecdh_session_get_shared_secret ::
    "OrcaECDSession option \<Rightarrow> bool \<Rightarrow> cstate \<Rightarrow> byte list option \<times> cstate" where
  "orca_ecdh_session_get_shared_secret session out s = (case session of
      None \<Rightarrow> reject (ecdh_msg ''NULL pointer in orca_ecdh_session_get_shared_secret'') s
    | Some ss \<Rightarrow>
        if \<not> out then reject (ecdh_msg ''NULL pointer in orca_ecdh_session_get_shared_secret'') s
        else if \<not> es_established ss then reject (ecdh_msg ''Session not established yet'') s
        else (Some (es_shared_secret ss), s))"

definition orca_ecdh_session_destroy :: "OrcaECDSession option \<Rightarrow> OrcaECDSession option" where
  "orca_ecdh_session_destroy session = map_option (\<lambda>_. zero_session) session"

definition orca_ecdh_session_is_established :: "OrcaECDSession option \<Rightarrow> bool" where
  "orca_ecdh_session_is_established session = (case session of None \<Rightarrow> False | Some ss \<Rightarrow> es_established ss)"

definition orca_ecdh_session_expired :: "int \<Rightarrow> OrcaECDSession option \<Rightarrow> bool" where
  "orca_ecdh_session_expired now session = (case session of None \<Rightarrow> True | Some ss \<Rightarrow> now > es_expires_at ss)"

section \<open>Key pairs as text, and forward secrecy\<close>

definition orca_ecdh_keypair_to_hex :: "OrcaECDHKeypair option \<Rightarrow> cstate \<Rightarrow> (string \<times> string) option \<times> cstate" where
  "orca_ecdh_keypair_to_hex kp s = (case kp of
      None \<Rightarrow> reject (ecdh_msg ''NULL pointer in orca_ecdh_keypair_to_hex'') s
    | Some k \<Rightarrow> (Some (the (orca_ecdh_public_key_to_hex (Some (kp_public_key k))),
        the (orca_ecdh_private_key_to_hex (Some (kp_private_key k)))), s))"

definition orca_ecdh_keypair_from_hex ::
    "string option \<Rightarrow> string option \<Rightarrow> cstate \<Rightarrow> OrcaECDHKeypair option \<times> cstate" where
  "orca_ecdh_keypair_from_hex public_hex private_hex s =
    (if public_hex = None \<or> private_hex = None
     then reject (ecdh_msg ''NULL pointer in orca_ecdh_keypair_from_hex'') s
     else (case orca_ecdh_hex_to_public_key public_hex s of
        (None, s) \<Rightarrow> reject (ecdh_msg ''Invalid public key hex'') s
      | (Some pub, s) \<Rightarrow> (case orca_ecdh_hex_to_private_key private_hex s of
            (None, s) \<Rightarrow> reject (ecdh_msg ''Invalid private key hex'') s
          | (Some priv, s) \<Rightarrow> (Some \<lparr>kp_public_key = pub, kp_private_key = priv\<rparr>, s))))"

definition orca_ecdh_generate_pfs_keypair ::
    "outcomes \<Rightarrow> ssl \<Rightarrow> byte list \<Rightarrow> byte list \<Rightarrow> OrcaECDHKeypair option \<Rightarrow> byte list option \<Rightarrow> cstate
      \<Rightarrow> (int \<times> OrcaECDHKeypair option) \<times> cstate" where
  "orca_ecdh_generate_pfs_keypair ok ssl priv garbage kp seed s = (case kp of
      None \<Rightarrow> ((-1, None), ecdh_error ''NULL pointer in orca_ecdh_generate_pfs_keypair'' s)
    | Some k \<Rightarrow> (case nonempty seed of
        Some sd \<Rightarrow>
          let (hash, s) = orca_hash True ok ssl (Some sd) s;
              sk = (case hash of None \<Rightarrow> garbage | Some h \<Rightarrow> take 32 h);
              k = k\<lparr>kp_private_key := sk\<rparr>;
              (done, s) = run [
                Call (ok 4) [PKEY] [] (ecdh_msg ''Failed to import private key''),
                Call (ok 5) [] [PKEY] (ecdh_msg ''Failed to extract public key''),
                Free [PKEY]] s
          in if done then ((0, Some (k\<lparr>kp_public_key := o_x25519_public ssl sk\<rparr>)), s)
             else ((-1, Some k), s)
      | None \<Rightarrow> orca_ecdh_generate_keypair ok ssl priv (Some k) s))"

definition orca_ecdh_compute_pfs_secret ::
    "outcomes \<Rightarrow> ssl \<Rightarrow> byte list option \<Rightarrow> byte list option \<Rightarrow> byte list option \<Rightarrow> byte list \<Rightarrow> cstate
      \<Rightarrow> (int \<times> byte list) \<times> cstate" where
  "orca_ecdh_compute_pfs_secret ok ssl private_key peer_public_key previous_secret out s =
    (if private_key = None \<or> peer_public_key = None
     then ((-1, out), ecdh_error ''NULL pointer in orca_ecdh_compute_pfs_secret'' s)
     else
       let ((rc, secret), s) = orca_ecdh_compute_shared_secret ok ssl private_key peer_public_key [] s
       in if rc < 0 then ((-1, out), s)
          else (case previous_secret of
              None \<Rightarrow> ((0, secret), s)
            | Some prev \<Rightarrow>
                let (hash, s) = orca_hash True (shift 6 ok) ssl (Some (secret @ take 32 prev)) s
                in ((0, case hash of None \<Rightarrow> out | Some h \<Rightarrow> h), s)))"

section \<open>The handshake\<close>

lemma ssl_ok_x25519:
  assumes "ssl_ok ssl"
  shows "o_x25519 ssl a (o_x25519_public ssl b) = o_x25519 ssl b (o_x25519_public ssl a)"
proof -
  have "\<forall>a b. length (o_x25519_public ssl a) = 32
        \<and> o_x25519 ssl a (o_x25519_public ssl b) = o_x25519 ssl b (o_x25519_public ssl a)
        \<and> (case o_x25519 ssl a (o_x25519_public ssl b) of None \<Rightarrow> True | Some r \<Rightarrow> length r = 32)"
    using assms unfolding ssl_ok_def by (elim conjE)
  then show ?thesis by blast
qed

lemma generate_ok:
  assumes "orca_ecdh_generate_keypair ok ssl priv (Some k) s = ((0, Some k'), s')"
  shows "kp_public_key k' = o_x25519_public ssl priv \<and> kp_private_key k' = priv"
proof -
  let ?is = "[Call (ok 0) [PKEY_CTX] [] (ecdh_msg ''Failed to create X25519 context''),
          Call (ok 1) [] [PKEY_CTX] (ecdh_msg ''Failed to init keygen''),
          Call (ok 2) [PKEY] [PKEY_CTX] (ecdh_msg ''Failed to generate X25519 keypair''),
          Free [PKEY_CTX],
          Call (ok 3) [] [PKEY] (ecdh_msg ''Failed to extract public key''),
          Call (ok 4) [] [PKEY] (ecdh_msg ''Failed to extract private key''),
          Free [PKEY]]"
  obtain b s1 where r: "run ?is s = (b, s1)" by (cases "run ?is s")
  then have "b \<longleftrightarrow> calls_ok ?is" using fst_run [of ?is s] by simp
  then show ?thesis
    using assms r by (auto simp del: run.simps simp: orca_ecdh_generate_keypair_def Let_def split: if_splits)
qed

lemma shared_secret_cases:
  assumes "orca_ecdh_compute_shared_secret ok ssl (Some priv) (Some peer) out s = ((rc, sec), s')"
  shows "rc = 0 \<and> o_x25519 ssl priv peer = Some sec \<and> length sec = 32
    \<or> rc = -1 \<and> (sec = out \<or> o_x25519 ssl priv peer = Some sec)"
proof -
  let ?is = "[Call (ok 0) [PKEY] [] (ecdh_msg ''Failed to import private key''),
          Call (ok 1) [PEER_KEY] [PKEY] (ecdh_msg ''Failed to import peer public key''),
          Call (ok 2) [PKEY_CTX] [PKEY, PEER_KEY] (ecdh_msg ''Failed to create context''),
          Call (ok 3) [] [PKEY_CTX, PKEY, PEER_KEY] (ecdh_msg ''Failed to init derive''),
          Call (ok 4) [] [PKEY_CTX, PKEY, PEER_KEY] (ecdh_msg ''Failed to set peer''),
          Call (ok 5 \<and> o_x25519 ssl priv peer \<noteq> None) [] [PKEY_CTX, PKEY, PEER_KEY]
            (ecdh_msg ''Failed to derive shared secret''),
          Free [PKEY_CTX, PKEY, PEER_KEY]]"
  obtain b s1 where r: "run ?is s = (b, s1)" by (cases "run ?is s")
  then have "b \<longleftrightarrow> calls_ok ?is" using fst_run [of ?is s] by simp
  then show ?thesis
    using assms r by (auto simp del: run.simps simp: orca_ecdh_compute_shared_secret_def Let_def split: if_splits)
qed

lemma shared_secret_all_ok:
  assumes "o_x25519 ssl priv peer = Some sec" and "length sec = 32"
  shows "fst (orca_ecdh_compute_shared_secret (\<lambda>_. True) ssl (Some priv) (Some peer) out s) = (0, sec)"
  using assms by (simp add: orca_ecdh_compute_shared_secret_def Let_def)

lemma session_init_ok:
  assumes "orca_ecdh_session_init ok ssl priv g now (Some x) ini peer s = ((0, Some ss), s')"
  shows "es_ephemeral_keypair ss = \<lparr>kp_public_key = o_x25519_public ssl priv, kp_private_key = priv\<rparr>
    \<and> es_is_initiator ss = ini \<and> \<not> es_established ss \<and> es_expires_at ss = now + 3600"
proof -
  obtain rc kp s1 where k: "orca_ecdh_generate_keypair ok ssl priv (Some (es_ephemeral_keypair zero_session)) s = ((rc, kp), s1)"
    by (metis surj_pair)
  have rc: "rc = 0"
    using assms k by (auto simp: orca_ecdh_session_init_def orca_ecdh_generate_ephemeral_def Let_def
        orca_ecdh_generate_keypair_def split: if_splits prod.splits)
  moreover have "kp \<noteq> None"
    using k by (auto simp: orca_ecdh_generate_keypair_def Let_def split: prod.splits)
  ultimately obtain k' where k': "kp = Some k'"
    "orca_ecdh_generate_keypair ok ssl priv (Some (es_ephemeral_keypair zero_session)) s = ((0, Some k'), s1)"
    using k by auto
  have "kp_public_key k' = o_x25519_public ssl priv" "kp_private_key k' = priv"
    using generate_ok [OF k'(2)] by auto
  then have "k' = \<lparr>kp_public_key = o_x25519_public ssl priv, kp_private_key = priv\<rparr>" by simp
  moreover have "\<not> es_established zero_session" by (simp add: zero_session_def)
  ultimately show ?thesis
    using assms k'(2) by (auto simp: orca_ecdh_session_init_def orca_ecdh_generate_ephemeral_def Let_def
        split: prod.splits option.splits)
qed

lemma session_agree_cases:
  assumes "session_agree ok ssl ss peer s = ((rc, ss'), s')"
  shows "es_ephemeral_keypair ss' = es_ephemeral_keypair ss \<and> es_is_initiator ss' = es_is_initiator ss
    \<and> es_peer_public_key ss' = take 32 peer
    \<and> (rc = 0 \<and> es_established ss' \<and> length (es_shared_secret ss') = 32
         \<and> o_x25519 ssl (kp_private_key (es_ephemeral_keypair ss)) peer = Some (es_shared_secret ss')
       \<or> rc = -1 \<and> es_established ss' = es_established ss
         \<and> (es_shared_secret ss' = es_shared_secret ss
            \<or> o_x25519 ssl (kp_private_key (es_ephemeral_keypair ss)) peer = Some (es_shared_secret ss')))"
proof -
  obtain rc1 sec s1 where c: "orca_ecdh_compute_shared_secret ok ssl (Some (kp_private_key (es_ephemeral_keypair ss)))
      (Some peer) (es_shared_secret ss) s = ((rc1, sec), s1)" by (metis surj_pair)
  show ?thesis
    using assms shared_secret_cases [OF c] c
    by (auto simp: session_agree_def orca_ecdh_compute_shared_secret_keypair_def Let_def split: if_splits)
qed

text \<open>
  C11: the handshake agrees: when the initiator's public key reaches the responder and the
  responder's reaches the initiator, and both calls succeed, both sessions are established and
  hand out the same 32-byte secret.
\<close>

theorem handshake_agreement:
  assumes "ssl_ok ssl"
    and "orca_ecdh_session_init okA ssl ra ga ta (Some x) True qa s1 = ((0, Some A), s1')"
    and "orca_ecdh_session_init okB ssl rb gb tb (Some y) False qb s2 = ((0, Some B), s2')"
    and "fst (orca_ecdh_session_initiate (Some A) True s3) = Some pa"
    and "orca_ecdh_session_respond ok1 ssl (Some B) (Some pa) True s4 = ((0, Some B', Some pb), s4')"
    and "orca_ecdh_session_complete ok2 ssl (Some A) (Some pb) s5 = ((0, Some A'), s5')"
  shows "\<exists>k. length k = 32 \<and> fst (orca_ecdh_session_get_shared_secret (Some A') True s6) = Some k
    \<and> fst (orca_ecdh_session_get_shared_secret (Some B') True s7) = Some k"
proof -
  have A: "es_ephemeral_keypair A = \<lparr>kp_public_key = o_x25519_public ssl ra, kp_private_key = ra\<rparr>" "es_is_initiator A"
    using session_init_ok [OF assms(2)] by auto
  have B: "es_ephemeral_keypair B = \<lparr>kp_public_key = o_x25519_public ssl rb, kp_private_key = rb\<rparr>" "\<not> es_is_initiator B"
    using session_init_ok [OF assms(3)] by auto
  have pa: "pa = o_x25519_public ssl ra"
    using assms(4) A by (simp add: orca_ecdh_session_initiate_def)
  obtain B1 t1 where b: "session_agree ok1 ssl B pa s4 = ((0, B1), t1)" "B1 = B'" "pb = kp_public_key (es_ephemeral_keypair B')"
    using assms(5) B(2) session_agree_cases [of ok1 ssl B pa s4]
    by (fastforce simp: orca_ecdh_session_respond_def split: prod.splits if_splits)
  have Bk: "o_x25519 ssl rb pa = Some (es_shared_secret B')" "es_established B'" "pb = o_x25519_public ssl rb"
    using session_agree_cases [OF b(1)] b(2,3) B(1) by auto
  have a: "session_agree ok2 ssl A pb s5 = ((0, A'), s5')"
    using assms(6) A(2) by (auto simp: orca_ecdh_session_complete_def split: prod.splits)
  have Ak: "o_x25519 ssl ra pb = Some (es_shared_secret A')" "es_established A'" "length (es_shared_secret A') = 32"
    using session_agree_cases [OF a] A(1) by auto
  have "o_x25519 ssl ra (o_x25519_public ssl rb) = o_x25519 ssl rb (o_x25519_public ssl ra)"
    by (rule ssl_ok_x25519 [OF assms(1)])
  then have "es_shared_secret A' = es_shared_secret B'" using Ak(1) Bk(1,3) pa by simp
  then show ?thesis using Ak(2,3) Bk(2) by (simp add: orca_ecdh_session_get_shared_secret_def)
qed

abbreviation fresh_state :: cstate where
  "fresh_state \<equiv> \<lparr>c_error = '''', c_live = {#}\<rparr>"

definition toy_session :: "byte list \<Rightarrow> bool \<Rightarrow> OrcaECDSession" where
  "toy_session priv ini = zero_session\<lparr>es_is_initiator := ini, es_created_at := 100, es_expires_at := 3700,
     es_ephemeral_keypair := \<lparr>kp_public_key = pad32 priv, kp_private_key = priv\<rparr>,
     es_session_id := pad32 (pad32 priv)\<rparr>"

lemma toy_init:
  "orca_ecdh_session_init (\<lambda>_. True) toy_ssl priv [] 100 (Some zero_session) ini None fresh_state
    = ((0, Some (toy_session priv ini)), fresh_state)"
  by (simp add: orca_ecdh_session_init_def orca_ecdh_generate_ephemeral_def orca_ecdh_generate_keypair_def
      orca_hash_def finish_def shift_def toy_session_def zero_session_def Let_def take_res_def free_res_def toy_ssl_def)

lemma toy_agree:
  assumes "length peer = 32"
  shows "session_agree (\<lambda>_. True) toy_ssl ss peer s =
    ((0, ss\<lparr>es_peer_public_key := peer, es_shared_secret := map2 (+) (pad32 (kp_private_key (es_ephemeral_keypair ss))) peer,
        es_established := True\<rparr>), snd (session_agree (\<lambda>_. True) toy_ssl ss peer s))"
  using assms
  by (simp add: session_agree_def orca_ecdh_compute_shared_secret_keypair_def orca_ecdh_compute_shared_secret_def
      toy_ssl_def Let_def pad32_def)

lemma length_pad32 [simp]: "length (pad32 a) = 32"
  by (simp add: pad32_def)

theorem handshake_agreement_witness:
  "\<exists>k A' B'. fst (orca_ecdh_session_complete (\<lambda>_. True) toy_ssl (Some (toy_session [1, 2] True))
        (Some (pad32 [3, 4])) fresh_state) = (0, Some A')
    \<and> fst (orca_ecdh_session_respond (\<lambda>_. True) toy_ssl (Some (toy_session [3, 4] False))
        (Some (pad32 [1, 2])) True fresh_state) = (0, Some B', Some (pad32 [3, 4]))
    \<and> fst (orca_ecdh_session_get_shared_secret (Some A') True fresh_state) = Some k
    \<and> fst (orca_ecdh_session_get_shared_secret (Some B') True fresh_state) = Some k"
proof -
  let ?A = "toy_session [1, 2] True" and ?B = "toy_session [3, 4] False"
  let ?s4 = "snd (session_agree (\<lambda>_. True) toy_ssl ?B (pad32 [1, 2]) fresh_state)"
  let ?s5 = "snd (session_agree (\<lambda>_. True) toy_ssl ?A (pad32 [3, 4]) fresh_state)"
  obtain B' where b: "orca_ecdh_session_respond (\<lambda>_. True) toy_ssl (Some ?B) (Some (pad32 [1, 2])) True fresh_state
      = ((0, Some B', Some (pad32 [3, 4])), ?s4)"
    using toy_agree [of "pad32 [1, 2]" ?B fresh_state]
    by (cases "session_agree (\<lambda>_. True) toy_ssl ?B (pad32 [1, 2]) fresh_state")
      (simp add: orca_ecdh_session_respond_def toy_session_def zero_session_def)
  obtain A' where a: "orca_ecdh_session_complete (\<lambda>_. True) toy_ssl (Some ?A) (Some (pad32 [3, 4])) fresh_state
      = ((0, Some A'), ?s5)"
    using toy_agree [of "pad32 [3, 4]" ?A fresh_state]
    by (cases "session_agree (\<lambda>_. True) toy_ssl ?A (pad32 [3, 4]) fresh_state")
      (simp add: orca_ecdh_session_complete_def toy_session_def zero_session_def)
  have i: "fst (orca_ecdh_session_initiate (Some ?A) True fresh_state) = Some (pad32 [1, 2])"
    by (simp add: orca_ecdh_session_initiate_def toy_session_def)
  from handshake_agreement [OF toy_ssl_ok toy_init toy_init i b a, of fresh_state fresh_state] a b show ?thesis by force
qed

section \<open>Reachable sessions\<close>

inductive session_step :: "ssl \<Rightarrow> OrcaECDSession \<Rightarrow> OrcaECDSession \<Rightarrow> bool" for ssl where
  respond: "orca_ecdh_session_respond ok ssl (Some ss) peer out s = ((rc, Some ss', pk), s')
    \<Longrightarrow> session_step ssl ss ss'"
| complete: "orca_ecdh_session_complete ok ssl (Some ss) peer s = ((rc, Some ss'), s')
    \<Longrightarrow> session_step ssl ss ss'"

inductive session_reach :: "ssl \<Rightarrow> OrcaECDSession \<Rightarrow> bool" for ssl where
  init: "orca_ecdh_session_init ok ssl priv g now (Some x) ini peer s = ((0, Some ss), s')
    \<Longrightarrow> session_reach ssl ss"
| step: "session_reach ssl ss \<Longrightarrow> session_step ssl ss ss' \<Longrightarrow> session_reach ssl ss'"

inductive_cases session_stepE: "session_step ssl ss ss'"

lemma session_step_agree:
  assumes "session_step ssl ss ss'"
  shows "ss' = ss \<or> (\<exists>ok peer s rc s'. session_agree ok ssl ss peer s = ((rc, ss'), s'))"
  using assms
proof (rule session_stepE)
  fix ok peer out s rc pk s'
  assume "orca_ecdh_session_respond ok ssl (Some ss) peer out s = ((rc, Some ss', pk), s')"
  then show ?thesis
    by (cases peer) (auto simp: orca_ecdh_session_respond_def split: prod.splits if_splits)
next
  fix ok peer s rc s'
  assume "orca_ecdh_session_complete ok ssl (Some ss) peer s = ((rc, Some ss'), s')"
  then show ?thesis
    by (cases peer) (auto simp: orca_ecdh_session_complete_def split: prod.splits if_splits)
qed

text \<open>
  In every session reachable from a successful initialisation the public key belongs to the
  private one, the secret is handed out only once the session is established, and an established
  session's secret is the X25519 secret of its private key with some peer's key.
\<close>

theorem session_invariant:
  assumes "session_reach ssl ss"
  shows "kp_public_key (es_ephemeral_keypair ss) = o_x25519_public ssl (kp_private_key (es_ephemeral_keypair ss))
    \<and> (\<exists>peer. fst (orca_ecdh_session_get_shared_secret (Some ss) True s) = None
        \<or> fst (orca_ecdh_session_get_shared_secret (Some ss) True s)
            = o_x25519 ssl (kp_private_key (es_ephemeral_keypair ss)) peer)"
proof -
  have "kp_public_key (es_ephemeral_keypair ss) = o_x25519_public ssl (kp_private_key (es_ephemeral_keypair ss))
    \<and> (es_established ss \<longrightarrow> (\<exists>peer. o_x25519 ssl (kp_private_key (es_ephemeral_keypair ss)) peer = Some (es_shared_secret ss)))"
    using assms
  proof induction
    case (init ok priv g now x ini peer s ss s')
    then show ?case using session_init_ok [OF init] by simp
  next
    case (step ss ss')
    from session_step_agree [OF step.hyps(2)] show ?case
    proof
      assume "ss' = ss"
      then show ?case using step.IH by simp
    next
      assume "\<exists>ok peer s rc s'. session_agree ok ssl ss peer s = ((rc, ss'), s')"
      then obtain ok peer s rc s' where a: "session_agree ok ssl ss peer s = ((rc, ss'), s')" by blast
      from session_agree_cases [OF a] step.IH show ?case by (elim conjE disjE) auto
    qed
  qed
  then show ?thesis
    by (cases "es_established ss") (simp_all add: orca_ecdh_session_get_shared_secret_def reject_def, metis)
qed

theorem session_invariant_witness:
  "kp_public_key (es_ephemeral_keypair (toy_session [1, 2] True)) = o_x25519_public toy_ssl [1, 2]"
proof -
  have "session_reach toy_ssl (toy_session [1, 2] True)" by (rule session_reach.init [OF toy_init])
  from session_invariant [OF this, of fresh_state] show ?thesis by (simp add: toy_session_def)
qed

text \<open>
  A failed \<open>complete\<close> on an established session does not end it: the session stays
  established, names the new peer, and still hands out the secret agreed with the old one.
\<close>

theorem failed_complete_keeps_old_secret:
  assumes "es_established ss" and "es_is_initiator ss"
    and "fst (orca_ecdh_session_get_shared_secret (Some ss) True s) = Some k"
  shows "\<exists>ss' s'. orca_ecdh_session_complete (\<lambda>_. False) ssl (Some ss) (Some peer) s = ((-1, Some ss'), s')
    \<and> es_peer_public_key ss' = take 32 peer
    \<and> fst (orca_ecdh_session_get_shared_secret (Some ss') True s') = Some k"
  using assms
  by (simp add: orca_ecdh_session_complete_def session_agree_def orca_ecdh_compute_shared_secret_keypair_def
      orca_ecdh_compute_shared_secret_def Let_def orca_ecdh_session_get_shared_secret_def)

theorem failed_complete_keeps_old_secret_witness:
  "\<exists>ss' s'. orca_ecdh_session_complete (\<lambda>_. False) toy_ssl
        (Some ((toy_session [1, 2] True)\<lparr>es_established := True, es_shared_secret := [9]\<rparr>)) (Some (pad32 [5])) fresh_state
        = ((-1, Some ss'), s')
    \<and> es_peer_public_key ss' = pad32 [5]
    \<and> fst (orca_ecdh_session_get_shared_secret (Some ss') True s') = Some [9]"
proof -
  let ?ss = "(toy_session [1, 2] True)\<lparr>es_established := True, es_shared_secret := [9]\<rparr>"
  have "es_established ?ss" "es_is_initiator ?ss"
    "fst (orca_ecdh_session_get_shared_secret (Some ?ss) True fresh_state) = Some [9]"
    by (simp_all add: toy_session_def orca_ecdh_session_get_shared_secret_def)
  from failed_complete_keeps_old_secret [OF this, of toy_ssl "pad32 [5]"] show ?thesis by simp
qed

section \<open>Several keys from one secret\<close>

lemma ssl_ok_hkdf: "ssl_ok ssl \<Longrightarrow> length (o_hkdf ssl k salt ctx) = 32"
  unfolding ssl_ok_def by blast

lemma derive_aes_key_all:
  "\<exists>s'. orca_ecdh_derive_aes_key (\<lambda>_. True) ssl (Some secret) salt ctx s
    = (Some (o_hkdf ssl (take 32 secret) (nonempty salt) (nonempty ctx)), s')"
  by (simp add: orca_ecdh_derive_aes_key_def finish_run)

lemma nonempty_be32 [simp]: "nonempty (Some (be32 w)) = Some (be32 w)"
  by (simp add: nonempty_def)

definition key_at :: "nat \<Rightarrow> nat \<Rightarrow> byte list \<Rightarrow> byte list" where
  "key_at key_len j buf = take 32 (drop (j * key_len) buf)"

lemma write_at_same: "write_at off bs buf = Some buf' \<Longrightarrow> take (length bs) (drop off buf') = bs"
  by (auto simp: write_at_def split: if_splits)

lemma key_at_write:
  assumes "write_at (i * key_len) k buf = Some buf'" and "length k = 32" and "32 \<le> key_len"
  shows "key_at key_len j buf' = (if j = i then k else key_at key_len j buf)"
proof (cases "j = i")
  case True
  then show ?thesis using write_at_same [OF assms(1)] assms(2) by (simp add: key_at_def)
next
  case False
  have w: "i * key_len + 32 \<le> length buf" and b: "buf' = take (i * key_len) buf @ k @ drop (i * key_len + 32) buf"
    using assms(1,2) by (auto simp: write_at_def split: if_splits)
  have d: "j * key_len + 32 \<le> i * key_len \<or> i * key_len + 32 \<le> j * key_len"
  proof (cases "j < i")
    case True
    then have "Suc j * key_len \<le> i * key_len" by (intro mult_le_mono1) simp
    then show ?thesis using assms(3) by simp
  next
    case ge: False
    then have "Suc i * key_len \<le> j * key_len" using False by (intro mult_le_mono1) simp
    then show ?thesis using assms(3) by simp
  qed
  then have "buf' ! (j * key_len + m) = buf ! (j * key_len + m)" if "m < 32" "j * key_len + m < length buf" for m
    using that w assms(2) by (auto simp: b nth_append)
  moreover have "length buf' = length buf" using w assms(2) by (simp add: b)
  ultimately show ?thesis
    using False unfolding key_at_def
    by (intro nth_equalityI) (simp_all add: less_diff_conv add.commute)
qed

lemma derive_loop_ok:
  assumes "ssl_ok ssl" and "32 \<le> key_len"
  shows "\<forall>i \<in> set is. i * key_len + 32 \<le> length buf \<Longrightarrow>
    \<exists>buf' s'. derive_keys_loop (\<lambda>_. True) ssl (Some secret) salt key_len is buf s = Some ((0, buf'), s')
      \<and> (\<forall>j. key_at key_len j buf' = (if j \<in> set is
          then o_hkdf ssl (take 32 secret) (nonempty salt) (Some (be32 (word_of_nat j))) else key_at key_len j buf))"
proof (induction "is" arbitrary: buf s)
  case Nil
  then show ?case by simp
next
  case (Cons i "is")
  let ?k = "o_hkdf ssl (take 32 secret) (nonempty salt) (Some (be32 (word_of_nat i)))"
  obtain s1 where d: "orca_ecdh_derive_aes_key (\<lambda>_. True) ssl (Some secret) salt (Some (be32 (word_of_nat i))) s = (Some ?k, s1)"
    using derive_aes_key_all [of ssl secret salt "Some (be32 (word_of_nat i))" s] by auto
  have k: "length ?k = 32" by (rule ssl_ok_hkdf [OF assms(1)])
  obtain buf1 where w: "write_at (i * key_len) ?k buf = Some buf1" "length buf1 = length buf"
    using Cons.prems k by (simp add: write_at_def)
  from Cons.IH [of buf1 s1] Cons.prems w(2) obtain buf' s' where
    l: "derive_keys_loop (\<lambda>_. True) ssl (Some secret) salt key_len is buf1 s1 = Some ((0, buf'), s')"
    "\<forall>j. key_at key_len j buf' = (if j \<in> set is
          then o_hkdf ssl (take 32 secret) (nonempty salt) (Some (be32 (word_of_nat j))) else key_at key_len j buf1)" by auto
  show ?case
    using d w(1) l key_at_write [OF w(1) k assms(2)] by (auto simp: shift_def)
qed

lemma derive_loop_overrun:
  assumes "ssl_ok ssl"
  shows "\<exists>i \<in> set is. length buf < i * key_len + 32 \<Longrightarrow>
    derive_keys_loop (\<lambda>_. True) ssl (Some secret) salt key_len is buf s = None"
proof (induction "is" arbitrary: buf s)
  case Nil
  then show ?case by simp
next
  case (Cons i "is")
  let ?k = "o_hkdf ssl (take 32 secret) (nonempty salt) (Some (be32 (word_of_nat i)))"
  obtain s1 where d: "orca_ecdh_derive_aes_key (\<lambda>_. True) ssl (Some secret) salt (Some (be32 (word_of_nat i))) s = (Some ?k, s1)"
    using derive_aes_key_all [of ssl secret salt "Some (be32 (word_of_nat i))" s] by auto
  have k: "length ?k = 32" by (rule ssl_ok_hkdf [OF assms])
  show ?case
  proof (cases "write_at (i * key_len) ?k buf")
    case None
    then show ?thesis using d by (simp add: shift_def)
  next
    case (Some buf1)
    then have "i * key_len + 32 \<le> length buf" "length buf1 = length buf"
      using k by (auto simp: write_at_def split: if_splits)
    then show ?thesis using Some d Cons by (simp add: shift_def)
  qed
qed

text \<open>
  Into a buffer of \<open>key_count * key_len\<close> bytes the keys are written one per slot, each the
  HKDF of the secret with the slot's number as info, when \<open>key_len\<close> is at least 32; with a
  smaller \<open>key_len\<close> the call always writes past the end of the buffer.
\<close>

theorem derive_keys_slots:
  assumes "ssl_ok ssl" and "0 < n" and "0 < key_len" and "length buf = n * key_len"
  shows "(key_len < 32 \<and>
      orca_ecdh_derive_keys (\<lambda>_. True) ssl (Some secret) salt (int n) (Some buf) key_len s = None)
    \<or> (32 \<le> key_len \<and> (\<exists>buf' s'.
      orca_ecdh_derive_keys (\<lambda>_. True) ssl (Some secret) salt (int n) (Some buf) key_len s = Some ((0, Some buf'), s')
      \<and> (\<forall>i \<in> {..<n}. key_at key_len i buf' = o_hkdf ssl (take 32 secret) (nonempty salt) (Some (be32 (word_of_nat i))))))"
proof (cases "key_len < 32")
  case True
  have "length buf < (n - 1) * key_len + 32" using assms(2,4) True by (cases n) simp_all
  moreover have "n - 1 \<in> set [0..<n]" using assms(2) by simp
  ultimately have "\<exists>i \<in> set [0..<n]. length buf < i * key_len + 32" by blast
  from derive_loop_overrun [OF assms(1) this] show ?thesis
    using True assms(2,3) by (simp add: orca_ecdh_derive_keys_def)
next
  case False
  then have k: "32 \<le> key_len" by simp
  have "i * key_len + 32 \<le> length buf" if "i \<in> set [0..<n]" for i
  proof -
    have "Suc i * key_len \<le> n * key_len" using that by (intro mult_le_mono1) simp
    then show ?thesis using k assms(4) by simp
  qed
  then have "\<forall>i \<in> set [0..<n]. i * key_len + 32 \<le> length buf" by blast
  from derive_loop_ok [OF assms(1) k this, of secret salt s] show ?thesis
    using k assms(2,3) by (auto simp: orca_ecdh_derive_keys_def)
qed

theorem derive_keys_slots_witness:
  "orca_ecdh_derive_keys (\<lambda>_. True) toy_ssl (Some (replicate 32 1)) None 2 (Some (replicate 32 0)) 16 fresh_state = None
   \<and> (\<exists>buf' s'. orca_ecdh_derive_keys (\<lambda>_. True) toy_ssl (Some (replicate 32 1)) None 2 (Some (replicate 64 0)) 32 fresh_state
        = Some ((0, Some buf'), s'))"
  using derive_keys_slots [OF toy_ssl_ok, of 2 16 "replicate 32 0" "replicate 32 1" None fresh_state]
    derive_keys_slots [OF toy_ssl_ok, of 2 32 "replicate 64 0" "replicate 32 1" None fresh_state] by auto

end
