(* ===== verification/Byte_Order.thy ===== *)
theory Byte_Order
  imports Orca_Prelude
begin

text \<open>
  Integers as bytes of a packet: little-endian where the sources store them through a pointer,
  big-endian where they call \<open>htons\<close>.  No function here models a line of the repository.
\<close>

definition le32 :: "32 word \<Rightarrow> byte list" where
  "le32 w = [ucast w, ucast (drop_bit 8 w), ucast (drop_bit 16 w), ucast (drop_bit 24 w)]"

definition from_le32 :: "byte list \<Rightarrow> 32 word" where
  "from_le32 bs = or (ucast (bs ! 0)) (or (push_bit 8 (ucast (bs ! 1)))
     (or (push_bit 16 (ucast (bs ! 2))) (push_bit 24 (ucast (bs ! 3)))))"

definition be16 :: "16 word \<Rightarrow> byte list" where
  "be16 w = [ucast (drop_bit 8 w), ucast w]"

definition le16 :: "16 word \<Rightarrow> byte list" where
  "le16 w = [ucast w, ucast (drop_bit 8 w)]"

definition from_le16 :: "byte list \<Rightarrow> nat" where
  "from_le16 bs = unat (bs ! 0) + 256 * unat (bs ! 1)"

lemma from_le32_le32: "from_le32 (le32 w @ r) = w"
  apply (rule bit_word_eqI)
  apply (auto simp: from_le32_def le32_def bit_simps nth_append)
  subgoal for n by (cases "n < 24") auto
  done

lemma length_le32 [simp]: "length (le32 w) = 4"
  by (simp add: le32_def)

lemma from_le32_append:
  assumes "4 \<le> length a"
  shows "from_le32 (a @ b) = from_le32 a"
proof -
  have "(a @ b) ! k = a ! k" if "k < 4" for k using assms that by (simp add: nth_append)
  then show ?thesis by (simp add: from_le32_def)
qed

lemma length_le16 [simp]: "length (le16 w) = 2"
  by (simp add: le16_def)

lemma from_le16_le16: "from_le16 (le16 w @ r) = unat w"
proof -
  have "unat w = unat w mod 256 + 256 * (unat w div 256)" by simp
  moreover have "unat w div 256 < 256" using unsigned_less [of w, where ?'a = nat] by simp
  ultimately show ?thesis
    by (simp add: from_le16_def le16_def unsigned_ucast_eq unsigned_drop_bit_eq drop_bit_eq_div take_bit_eq_mod unat_div)
qed

end
