(* ===== verification/Nat_Classifier.thy ===== *)
theory Nat_Classifier
  imports C_Text Byte_Order
begin

text \<open>
  NAT classification (\<open>nat_classifier.c\<close>).  The sockets are a record \<open>nat_env\<close> of what
  each of them will answer: the functions that are called several times (the ICMP and the UPnP
  probe) take the number of their run and look up that run's answer, so nothing is assumed to be
  stable between two runs.  The model keeps every decision the code takes on the answers, the
  bytes of the probe packets, the ICMP checksum and the walk over the attributes of a STUN
  response; sending is a call whose success is part of the environment.  Hosts are little-endian.
\<close>

section \<open>NAT types\<close>

datatype NATType =
  NAT_UNKNOWN | NAT_FULL_CONE | NAT_RESTRICTED_CONE | NAT_PORT_RESTRICTED | NAT_SYMMETRIC

fun nat_type_to_string :: "NATType \<Rightarrow> string" where
  "nat_type_to_string NAT_FULL_CONE = ''FULL_CONE''"
| "nat_type_to_string NAT_RESTRICTED_CONE = ''RESTRICTED_CONE''"
| "nat_type_to_string NAT_PORT_RESTRICTED = ''PORT_RESTRICTED''"
| "nat_type_to_string NAT_SYMMETRIC = ''SYMMETRIC''"
| "nat_type_to_string NAT_UNKNOWN = ''UNKNOWN''"

fun nat_type_priority :: "NATType \<Rightarrow> int" where
  "nat_type_priority NAT_FULL_CONE = 1"
| "nat_type_priority NAT_RESTRICTED_CONE = 2"
| "nat_type_priority NAT_PORT_RESTRICTED = 3"
| "nat_type_priority NAT_SYMMETRIC = 4"
| "nat_type_priority NAT_UNKNOWN = 5"

text \<open>NAT types are ordered by how easy they are to traverse, the code's priority.\<close>

lemma nat_type_priority_inj: "nat_type_priority a = nat_type_priority b \<longleftrightarrow> a = b"
  by (cases a; cases b) simp_all

instantiation NATType :: linorder
begin

definition less_eq_NATType :: "NATType \<Rightarrow> NATType \<Rightarrow> bool" where
  "less_eq_NATType a b \<longleftrightarrow> nat_type_priority a \<le> nat_type_priority b"

definition less_NATType :: "NATType \<Rightarrow> NATType \<Rightarrow> bool" where
  "less_NATType a b \<longleftrightarrow> nat_type_priority a < nat_type_priority b"

instance
  by standard (auto simp: less_eq_NATType_def less_NATType_def nat_type_priority_inj)

end

lemma nat_type_bounds: "NAT_FULL_CONE \<le> t" "t \<le> NAT_UNKNOWN"
  by (cases t; simp add: less_eq_NATType_def)+

definition nat_is_symmetric :: "NATType \<Rightarrow> bool" where
  "nat_is_symmetric t \<longleftrightarrow> t = NAT_SYMMETRIC"

section \<open>DHT probes\<close>

definition PROBE_MAGIC :: "32 word" where
  "PROBE_MAGIC = 0x4F524341"

definition PROBE_SIZE :: nat where
  "PROBE_SIZE = 47"

text \<open>
  The packed \<open>DHTNATProbe\<close> that \<open>send_probe_to_peer\<close> fills in: magic, type, probe id,
  timestamp, 32 bytes of sender id (read past the end of a shorter \<open>my_id\<close>: \<open>None\<close>),
  source port.
\<close>

definition send_probe_to_peer :: "32 word \<Rightarrow> 32 word \<Rightarrow> byte list option \<Rightarrow> byte list option" where
  "send_probe_to_peer probe_id now my_id = do {
     sender \<leftarrow> (case my_id of
         None \<Rightarrow> Some (replicate 32 0)
       | Some i \<Rightarrow> if length i < 32 then None else Some (take 32 i));
     Some (le32 PROBE_MAGIC @ [1] @ le32 probe_id @ le32 now @ sender @ [0, 0]) }"

record ProbeResponse =
  pr_ip :: string
  pr_port :: int
  pr_response_time :: int
  pr_received :: bool

datatype datagram = No_Datagram | Datagram "byte list" string int

text \<open>\<open>recvfrom\<close> keeps the first 47 bytes of a longer datagram.\<close>

definition receive_probe_response :: "int \<Rightarrow> datagram \<Rightarrow> ProbeResponse option" where
  "receive_probe_response now d = (case d of
      No_Datagram \<Rightarrow> None
    | Datagram bytes ip port \<Rightarrow>
        let response = take PROBE_SIZE bytes in
        if length response < PROBE_SIZE then None
        else if from_le32 response \<noteq> PROBE_MAGIC then None
        else if response ! 4 \<noteq> 2 then None
        else Some \<lparr>pr_ip = ip, pr_port = port, pr_response_time = now, pr_received = True\<rparr>)"

text \<open>The receive loop: at most 12 attempts, at most 6 responses.\<close>

fun probe_loop :: "int \<Rightarrow> datagram list \<Rightarrow> nat \<Rightarrow> ProbeResponse list \<Rightarrow> ProbeResponse list" where
  "probe_loop now [] i responses = responses"
| "probe_loop now (d # ds) i responses =
    (if i < 12 \<and> length responses < 6 then
       (case receive_probe_response now d of
          None \<Rightarrow> probe_loop now ds (Suc i) responses
        | Some r \<Rightarrow> probe_loop now ds (Suc i) (responses @ [r]))
     else responses)"

text \<open>The verdict on the responses, \<open>responses[0]\<close> being the one the others are compared to.\<close>

definition count_changes :: "('a \<Rightarrow> bool) \<Rightarrow> 'a list \<Rightarrow> nat" where
  "count_changes P xs = length (filter P xs)"

definition classify_responses :: "ProbeResponse list \<Rightarrow> NATType" where
  "classify_responses responses =
    (let first_port = pr_port (hd responses); first_ip = pr_ip (hd responses);
         port_changes = count_changes (\<lambda>r. pr_port r \<noteq> first_port) (tl responses);
         ip_changes = count_changes (\<lambda>r. pr_ip r \<noteq> first_ip) (tl responses)
     in if port_changes = 0 \<and> ip_changes = 0 then NAT_FULL_CONE
        else if port_changes = 0 \<and> ip_changes > 0 then NAT_RESTRICTED_CONE
        else if port_changes > 0 \<and> ip_changes = 0 then NAT_PORT_RESTRICTED
        else if port_changes > 0 \<and> ip_changes > 0 then NAT_SYMMETRIC
        else NAT_UNKNOWN)"

section \<open>The environment\<close>

record upnp_io =
  u_socket :: bool
  u_bind :: bool
  u_reply :: "string option"   \<comment> \<open>the datagram up to its first NUL, when one came\<close>

record icmp_io =
  i_socket :: bool
  i_send :: bool
  i_recv :: int                \<comment> \<open>what \<open>recvfrom\<close> returned\<close>
  i_buffer :: "byte list"      \<comment> \<open>the 512 bytes of \<open>buffer\<close> after it\<close>

record dht_io =
  d_socket :: bool
  d_nodes :: "nat option"      \<comment> \<open>IPv4 nodes \<open>dht_get_nodes\<close> returned, \<open>None\<close> on an error\<close>
  d_answers :: "datagram list" \<comment> \<open>what the receive attempts get, in order\<close>

datatype connect_io = Socket_Failed | Connected | Refused | Pending bool int

record ifaddr =
  if_name :: string
  if_inet :: "string option"   \<comment> \<open>the dotted address of an \<open>AF_INET\<close> entry\<close>

record nat_env =
  e_upnp :: "nat \<Rightarrow> upnp_io"
  e_icmp :: "nat \<Rightarrow> icmp_io"
  e_dht :: dht_io
  e_stun_socket :: bool
  e_stun :: "(int \<times> byte list) option list"   \<comment> \<open>per host: unresolved, or \<open>n\<close> and the buffer\<close>
  e_ipv6_socket :: bool
  e_ipv6_connect :: bool
  e_ports :: "connect_io list"
  e_ifaddrs :: "ifaddr list option"
  e_now :: int

text \<open>The number of UPnP and of ICMP probes done so far.\<close>

type_synonym runs = "nat \<times> nat"

section \<open>UPnP, ICMP and DHT\<close>

definition nat_has_upnp :: "nat_env \<Rightarrow> runs \<Rightarrow> bool \<times> runs" where
  "nat_has_upnp env = (\<lambda>(u, i).
    (let io = e_upnp env u in
     (if \<not> u_socket io then False
      else if \<not> u_bind io then False
      else (case u_reply io of
          Some buffer \<Rightarrow> contains buffer ''HTTP/1.1 200 OK''
        | None \<Rightarrow> False), (Suc u, i))))"

definition nat_classify_via_upnp :: "nat_env \<Rightarrow> runs \<Rightarrow> NATType \<times> runs" where
  "nat_classify_via_upnp env s =
    (let (has, s) = nat_has_upnp env s in (if \<not> has then NAT_UNKNOWN else NAT_FULL_CONE, s))"

definition nat_classify_via_icmp :: "nat_env \<Rightarrow> runs \<Rightarrow> NATType \<times> runs" where
  "nat_classify_via_icmp env = (\<lambda>(u, i).
    (let io = e_icmp env i; s = (u, Suc i) in
     if \<not> i_socket io then nat_classify_via_upnp env s
     else if \<not> i_send io then nat_classify_via_upnp env s
     else if i_recv io > 0
       \<and> i_buffer io ! (4 * unat (and (i_buffer io ! 0) 0x0F)) = 0 then (NAT_FULL_CONE, s)
     else (NAT_SYMMETRIC, s)))"

definition nat_classify_via_dht :: "nat_env \<Rightarrow> bool \<Rightarrow> runs \<Rightarrow> NATType \<times> runs" where
  "nat_classify_via_dht env node s =
    (let io = e_dht env in
     if \<not> node then nat_classify_via_icmp env s
     else if \<not> d_socket io then nat_classify_via_icmp env s
     else (case d_nodes io of
         None \<Rightarrow> nat_classify_via_icmp env s
       | Some num_ipv4 \<Rightarrow>
           let peer_count = min num_ipv4 16 in
           if peer_count < 3 then nat_classify_via_icmp env s
           else
             let responses = probe_loop (e_now env) (d_answers io) 0 [] in
             if length responses < 2 then nat_classify_via_icmp env s
             else (classify_responses responses, s)))"

section \<open>The ICMP checksum\<close>

text \<open>
  The sum of the 16-bit words of the header in a \<open>uint32_t\<close>, the folding loop, and the
  complement stored into a \<open>uint16_t\<close>.
\<close>

definition sum_words :: "16 word list \<Rightarrow> 32 word" where
  "sum_words ws = foldl (\<lambda>acc w. acc + ucast w) 0 ws"

function fold_carry :: "32 word \<Rightarrow> 32 word" where
  "fold_carry acc =
    (if drop_bit 16 acc \<noteq> 0 then fold_carry (and acc 0xFFFF + drop_bit 16 acc) else acc)"
  by pat_completeness auto

lemma and_FFFF: "unat (and s 0xFFFF :: 32 word) = unat s mod 65536"
proof -
  have m: "(0xFFFF :: 32 word) = mask 16" by (simp add: mask_eq_exp_minus_1)
  have "and s 0xFFFF = take_bit 16 s" unfolding m by (rule take_bit_eq_mask [symmetric])
  then have "unat (and s 0xFFFF) = take_bit 16 (unat s)" by (simp only: unsigned_take_bit_eq)
  also have "\<dots> = unat s mod 65536" by (simp add: take_bit_eq_mod)
  finally show ?thesis .
qed

lemma drop_16: "unat (drop_bit 16 s :: 32 word) = unat s div 65536"
proof -
  have "unat (drop_bit 16 s) = drop_bit 16 (unat s)" by (rule unat_drop_bit_eq)
  also have "\<dots> = unat s div 65536" by (simp add: drop_bit_eq_div)
  finally show ?thesis .
qed

lemma unat_fold_step:
  "unat (and s 0xFFFF + drop_bit 16 s :: 32 word) = unat s mod 65536 + unat s div 65536"
proof -
  have "unat s < 65536 * 65536" using unsigned_less [of s, where ?'a = nat] by simp
  then have "unat s div 65536 < 65536" by (rule less_mult_imp_div_less)
  moreover have "unat s mod 65536 < 65536" by simp
  ultimately have "unat s mod 65536 + unat s div 65536 < 2 ^ LENGTH(32)" by simp
  then show ?thesis by (simp only: unat_word_ariths and_FFFF drop_16 mod_less)
qed

termination fold_carry
proof (relation "measure unat")
  fix s :: "32 word" assume "drop_bit 16 s \<noteq> 0"
  then have "unat s div 65536 \<noteq> 0" using drop_16 [of s] by (metis unat_eq_zero)
  then have "unat s mod 65536 + unat s div 65536 < unat s"
    using div_mult_mod_eq [of "unat s" 65536] by linarith
  then show "(and s 0xFFFF + drop_bit 16 s, s) \<in> measure unat" by (simp add: unat_fold_step)
qed simp

declare fold_carry.simps [simp del]

definition icmp_checksum :: "16 word list \<Rightarrow> 16 word" where
  "icmp_checksum words = ucast (not (fold_carry (sum_words words)))"

text \<open>The header as the code fills it in: 14 words, the checksum the second, in host order.\<close>

definition icmp_header :: "16 word \<Rightarrow> 16 word list" where
  "icmp_header pid =
    (let ws = [8, 0, pid, 1] @ replicate 10 0 in ws[1 := icmp_checksum ws])"

section \<open>STUN\<close>

text \<open>
  The walk over the attributes of a response of \<open>n\<close> bytes in the 512-byte buffer: the value
  of \<open>external_port\<close> after the loop, \<open>None\<close> when it reads past the buffer.
\<close>

definition rd :: "byte list \<Rightarrow> nat \<Rightarrow> nat option" where
  "rd buf i = (if i < length buf then Some (unat (buf ! i)) else None)"

function stun_attrs :: "byte list \<Rightarrow> int \<Rightarrow> nat \<Rightarrow> nat option" where
  "stun_attrs buf n pos =
    (if int pos < n - 4 then do {
       t1 \<leftarrow> rd buf pos; t0 \<leftarrow> rd buf (pos + 1);
       l1 \<leftarrow> rd buf (pos + 2); l0 \<leftarrow> rd buf (pos + 3);
       let attr_type = 256 * t1 + t0;
       let attr_len = 256 * l1 + l0;
       let pos = pos + 4;
       if attr_type = 0x20 \<and> attr_len \<ge> 8 then do {
         fam \<leftarrow> rd buf (pos + 1);
         if fam = 1 then do {
           _ \<leftarrow> rd buf (pos + 7);
           p1 \<leftarrow> rd buf (pos + 2); p0 \<leftarrow> rd buf (pos + 3);
           Some (256 * p1 + p0) }
         else stun_attrs buf n (pos + attr_len) }
       else stun_attrs buf n (pos + attr_len) }
     else Some 0)"
  by pat_completeness auto
termination by (relation "measure (\<lambda>(buf, n, pos). nat (n - int pos))") auto

declare stun_attrs.simps [simp del]

text \<open>The hosts one after the other; the outer \<open>None\<close> is the over-read.\<close>

fun stun_hosts :: "(int \<times> byte list) option list \<Rightarrow> NATType option" where
  "stun_hosts [] = Some NAT_UNKNOWN"
| "stun_hosts (None # hs) = stun_hosts hs"
| "stun_hosts (Some (n, buf) # hs) =
    (if n > 0 \<and> n \<ge> 20 \<and> buf ! 1 = 1 then do {
       external_port \<leftarrow> stun_attrs buf n 20;
       if external_port > 0 then Some NAT_FULL_CONE else stun_hosts hs }
     else stun_hosts hs)"

definition nat_classify_via_stun :: "nat_env \<Rightarrow> NATType option" where
  "nat_classify_via_stun env =
    (if \<not> e_stun_socket env then Some NAT_UNKNOWN else stun_hosts (take 3 (e_stun env)))"

section \<open>The combined classification\<close>

definition nat_has_ipv6 :: "nat_env \<Rightarrow> bool" where
  "nat_has_ipv6 env \<longleftrightarrow> e_ipv6_socket env \<and> e_ipv6_connect env"

text \<open>The loop over the eight ports: how many were tried and how many are blocked.\<close>

fun port_blocked :: "connect_io \<Rightarrow> nat" where
  "port_blocked Socket_Failed = 0"
| "port_blocked Connected = 0"
| "port_blocked Refused = 1"
| "port_blocked (Pending writable err) = (if writable then (if err \<noteq> 0 then 1 else 0) else 1)"

fun port_tried :: "connect_io \<Rightarrow> nat" where
  "port_tried Socket_Failed = 0"
| "port_tried _ = 1"

definition nat_is_firewalled :: "nat_env \<Rightarrow> bool" where
  "nat_is_firewalled env =
    (let ports = take 8 (e_ports env);
         blocked = sum_list (map port_blocked ports);
         total = sum_list (map port_tried ports)
     in blocked > total div 2)"

record NATClassifierResult =
  nr_type :: NATType
  nr_detected :: bool
  nr_detection_time :: int
  nr_confidence :: int
  nr_detected_via :: string
  nr_has_ipv6 :: bool
  nr_has_upnp :: bool
  nr_is_firewalled :: bool
  nr_local_ip :: string
  nr_local_port :: int

fun local_address :: "ifaddr list \<Rightarrow> string" where
  "local_address [] = []"
| "local_address (ifa # rest) = (case if_inet ifa of
      None \<Rightarrow> local_address rest
    | Some ip \<Rightarrow>
        if if_name ifa = ''lo'' then local_address rest
        else if ip \<noteq> ''127.0.0.1'' then ip
        else local_address rest)"

definition combined_local_ip :: "nat_env \<Rightarrow> string" where
  "combined_local_ip env =
    (let ip = (case e_ifaddrs env of None \<Rightarrow> [] | Some ifs \<Rightarrow> local_address ifs)
     in if length ip = 0 then ''127.0.0.1'' else ip)"

definition combined_verdict :: "NATType \<Rightarrow> NATType \<Rightarrow> NATType \<Rightarrow> bool \<Rightarrow> NATType \<times> string \<times> int" where
  "combined_verdict dht_type upnp_type icmp_type has_upnp =
    (if upnp_type = NAT_FULL_CONE \<and> has_upnp then (NAT_FULL_CONE, ''UPnP'', 90)
     else if dht_type \<noteq> NAT_UNKNOWN then (dht_type, ''DHT'', 70)
     else if icmp_type \<noteq> NAT_UNKNOWN then (icmp_type, ''ICMP'', 50)
     else (NAT_UNKNOWN, ''NONE'', 0))"

definition nat_classify_combined :: "nat_env \<Rightarrow> runs \<Rightarrow> (NATType \<times> NATClassifierResult) \<times> runs" where
  "nat_classify_combined env s =
    (let ipv6 = nat_has_ipv6 env;
         (upnp, s) = nat_has_upnp env s;
         fw = nat_is_firewalled env;
         (dht_type, s) = nat_classify_via_dht env False s;
         (upnp_type, s) = nat_classify_via_upnp env s;
         (icmp_type, s) = nat_classify_via_icmp env s;
         (t, via, conf) = combined_verdict dht_type upnp_type icmp_type upnp
     in ((t, \<lparr>nr_type = t, nr_detected = (t \<noteq> NAT_UNKNOWN), nr_detection_time = e_now env,
              nr_confidence = conf, nr_detected_via = via, nr_has_ipv6 = ipv6, nr_has_upnp = upnp,
              nr_is_firewalled = fw, nr_local_ip = combined_local_ip env, nr_local_port = 33445\<rparr>), s))"

definition nat_can_punch :: "nat_env \<Rightarrow> runs \<Rightarrow> bool \<times> runs" where
  "nat_can_punch env s =
    (let ((t, result), s) = nat_classify_combined env s
     in if t = NAT_SYMMETRIC then (False, s)
        else if nr_is_firewalled result then (False, s)
        else (True, s))"

section \<open>The probes\<close>

lemma send_probe_length: "send_probe_to_peer pid now my = Some p \<Longrightarrow> length p = PROBE_SIZE"
  by (auto simp: send_probe_to_peer_def PROBE_SIZE_def split: option.splits Option.bind_splits if_splits)

text \<open>
  A probe packet is 47 bytes long, is never taken for a response (not even our own, when it
  comes back), and becomes an accepted response of the sender's address when the responder sets
  its type byte to 2.
\<close>

theorem probe_is_no_response:
  assumes "send_probe_to_peer probe_id now my_id = Some p"
  shows "length p = PROBE_SIZE
    \<and> receive_probe_response t (Datagram p ip port) = None
    \<and> receive_probe_response t (Datagram (p[4 := 2]) ip port)
        = Some \<lparr>pr_ip = ip, pr_port = port, pr_response_time = t, pr_received = True\<rparr>"
proof -
  have len: "length p = PROBE_SIZE" by (rule send_probe_length [OF assms])
  obtain r where p: "p = le32 PROBE_MAGIC @ 1 # r"
    using assms by (auto simp: send_probe_to_peer_def split: option.splits Option.bind_splits if_splits)
  have "p ! 4 = 1" by (simp add: p nth_append)
  moreover have "p[4 := 2] = le32 PROBE_MAGIC @ 2 # r" by (simp add: p list_update_append)
  moreover have "from_le32 (le32 PROBE_MAGIC @ 2 # r) = PROBE_MAGIC" by (rule from_le32_le32)
  moreover have "from_le32 p = PROBE_MAGIC" unfolding p by (rule from_le32_le32)
  moreover have "(le32 PROBE_MAGIC @ 2 # r) ! 4 = 2" by (simp add: nth_append)
  moreover have "length (le32 PROBE_MAGIC @ 2 # r) = PROBE_SIZE" using len by (simp add: p)
  ultimately show ?thesis using len by (simp add: receive_probe_response_def)
qed

theorem probe_is_no_response_witness:
  "\<exists>p. send_probe_to_peer 7 1000 None = Some p
    \<and> receive_probe_response 1001 (Datagram p ''10.0.0.1'' 6881) = None
    \<and> (\<exists>r. receive_probe_response 1001 (Datagram (p[4 := 2]) ''10.0.0.1'' 6881) = Some r \<and> pr_port r = 6881)"
proof -
  obtain p where p: "send_probe_to_peer 7 1000 None = Some p" by (simp add: send_probe_to_peer_def)
  from probe_is_no_response [OF p, of 1001 "''10.0.0.1''" 6881] p show ?thesis by auto
qed

lemma probe_loop_eq:
  "probe_loop now ds i rs = rs @ take (6 - length rs) (List.map_filter (receive_probe_response now) (take (12 - i) ds))"
proof (induction now ds i rs rule: probe_loop.induct)
  case (1 now i rs)
  then show ?case by (simp add: List.map_filter_def)
next
  case (2 now d ds i rs)
  show ?case
  proof (cases "i < 12 \<and> length rs < 6")
    case True
    then have "12 - i = Suc (12 - Suc i)" by (metis Suc_diff_Suc)
    then have t: "take (12 - i) (d # ds) = d # take (12 - Suc i) ds" by (simp only: take_Suc_Cons)
    have n: "6 - length rs = Suc (6 - Suc (length rs))" using True by (metis Suc_diff_Suc)
    show ?thesis
    proof (cases "receive_probe_response now d")
      case None
      then show ?thesis using True "2.IH"(1) t by (simp add: List.map_filter_def)
    next
      case (Some r)
      then show ?thesis using True "2.IH"(2) [OF True Some] t
        by (simp add: List.map_filter_def n)
    qed
  next
    case False
    then show ?thesis by (auto simp: List.map_filter_def)
  qed
qed

lemma count_changes_0: "count_changes P xs = 0 \<longleftrightarrow> (\<forall>x \<in> set xs. \<not> P x)"
  by (auto simp: count_changes_def filter_empty_conv)

lemma card_image_1: "xs \<noteq> [] \<Longrightarrow> card (f ` set xs) = 1 \<longleftrightarrow> (\<forall>x \<in> set (tl xs). f x = f (hd xs))"
proof (cases xs)
  case (Cons a ys)
  have "card (f ` set xs) = 1 \<longleftrightarrow> f ` set xs = {f a}"
    using Cons by (auto simp: card_1_singleton_iff)
  also have "\<dots> \<longleftrightarrow> (\<forall>x \<in> set ys. f x = f a)" using Cons by auto
  finally show ?thesis using Cons by simp
qed simp

text \<open>
  The classification over the DHT looks at the first six valid responses among twelve
  receive attempts and decides by how many different source addresses and ports they came from,
  in whatever order they came; with fewer than two of them it falls back to ICMP.
\<close>

theorem nat_classify_via_dht_verdict:
  assumes "d_socket (e_dht env)" and "d_nodes (e_dht env) = Some k" and "3 \<le> k"
  shows "nat_classify_via_dht env True s =
    (let rs = take 6 (List.map_filter (receive_probe_response (e_now env)) (take 12 (d_answers (e_dht env))));
         one_ip = (card (pr_ip ` set rs) = 1); one_port = (card (pr_port ` set rs) = 1)
     in if length rs < 2 then nat_classify_via_icmp env s
        else (if one_port then (if one_ip then NAT_FULL_CONE else NAT_RESTRICTED_CONE)
              else (if one_ip then NAT_PORT_RESTRICTED else NAT_SYMMETRIC), s))"
proof -
  let ?rs = "take 6 (List.map_filter (receive_probe_response (e_now env)) (take 12 (d_answers (e_dht env))))"
  define rs0 where "rs0 = ?rs"
  have l: "probe_loop (e_now env) (d_answers (e_dht env)) 0 [] = rs0" by (simp add: probe_loop_eq rs0_def)
  have c: "classify_responses rs = (if card (pr_port ` set rs) = 1
        then (if card (pr_ip ` set rs) = 1 then NAT_FULL_CONE else NAT_RESTRICTED_CONE)
        else (if card (pr_ip ` set rs) = 1 then NAT_PORT_RESTRICTED else NAT_SYMMETRIC))"
    if "\<not> length rs < 2" for rs
  proof -
    from that have ne: "rs \<noteq> []" by auto
    show ?thesis
      unfolding card_image_1 [OF ne] classify_responses_def Let_def
      using count_changes_0 by (auto simp: count_changes_0 simp del: neq0_conv simp flip: neq0_conv)
  qed
  have "\<not> min k 16 < 3" using assms(3) by simp
  then have "nat_classify_via_dht env True s
      = (if length rs0 < 2 then nat_classify_via_icmp env s else (classify_responses rs0, s))"
    using assms(1,2) by (simp add: nat_classify_via_dht_def l Let_def)
  then show ?thesis
    unfolding rs0_def [symmetric] Let_def using c [of rs0] by (cases "length rs0 < 2") simp_all
qed

text \<open>
  What is compared are the addresses of the peers that answered, not this host's external
  address as the peers see it: as soon as two different peers answer, no NAT is classified as
  full cone or port restricted.
\<close>

theorem two_peers_never_full_cone:
  assumes "d_socket (e_dht env)" and "d_nodes (e_dht env) = Some k" and "3 \<le> k"
    and "r1 \<in> set rs" "r2 \<in> set rs" "pr_ip r1 \<noteq> pr_ip r2"
    and "rs = probe_loop (e_now env) (d_answers (e_dht env)) 0 []"
  shows "fst (nat_classify_via_dht env True s) \<in> {NAT_RESTRICTED_CONE, NAT_SYMMETRIC}"
proof -
  have "card {r1, r2} \<le> card (set rs)" using assms(4,5) by (intro card_mono) auto
  moreover have "card {r1, r2} = 2" using assms(6) by (auto simp: card_2_iff)
  ultimately have len: "\<not> length rs < 2" using card_length [of rs] by linarith
  then have ne: "rs \<noteq> []" by auto
  have "\<not> (\<forall>x \<in> set (tl rs). pr_ip x = pr_ip (hd rs))"
  proof
    assume "\<forall>x \<in> set (tl rs). pr_ip x = pr_ip (hd rs)"
    then have "\<forall>x \<in> set rs. pr_ip x = pr_ip (hd rs)" using ne by (cases rs) auto
    then show False using assms(4-6) by metis
  qed
  then have "count_changes (\<lambda>r. pr_ip r \<noteq> pr_ip (hd rs)) (tl rs) \<noteq> 0" by (simp add: count_changes_0)
  moreover have "\<not> min k 16 < 3" using assms(3) by simp
  ultimately show ?thesis
    using assms(1,2) len assms(7) by (simp add: nat_classify_via_dht_def classify_responses_def Let_def)
qed

definition probe_answer :: "byte list" where
  "probe_answer = le32 PROBE_MAGIC @ [2] @ replicate 42 0"

definition quiet_env :: nat_env where
  "quiet_env = \<lparr>e_upnp = (\<lambda>_. \<lparr>u_socket = True, u_bind = False, u_reply = None\<rparr>),
     e_icmp = (\<lambda>_. \<lparr>i_socket = False, i_send = False, i_recv = -1, i_buffer = []\<rparr>),
     e_dht = \<lparr>d_socket = True, d_nodes = Some 8, d_answers =
       [Datagram probe_answer ''10.0.0.1'' 6881, No_Datagram, Datagram probe_answer ''10.0.0.2'' 6881]\<rparr>,
     e_stun_socket = True, e_stun = [None, None, None], e_ipv6_socket = True, e_ipv6_connect = False,
     e_ports = replicate 8 Connected, e_ifaddrs = None, e_now = 5000\<rparr>"

lemma probe_answer_accepted:
  "receive_probe_response t (Datagram probe_answer ip port)
    = Some \<lparr>pr_ip = ip, pr_port = port, pr_response_time = t, pr_received = True\<rparr>"
proof -
  have "from_le32 probe_answer = PROBE_MAGIC" unfolding probe_answer_def by (rule from_le32_le32)
  moreover have "length probe_answer = PROBE_SIZE" by (simp add: probe_answer_def PROBE_SIZE_def)
  moreover have "probe_answer ! 4 = 2" by (simp add: probe_answer_def nth_append)
  ultimately show ?thesis by (simp add: receive_probe_response_def)
qed

lemma no_datagram: "receive_probe_response t No_Datagram = None"
  by (simp add: receive_probe_response_def)

lemma quiet_responses:
  "probe_loop (e_now quiet_env) (d_answers (e_dht quiet_env)) 0 [] =
    [\<lparr>pr_ip = ''10.0.0.1'', pr_port = 6881, pr_response_time = 5000, pr_received = True\<rparr>,
     \<lparr>pr_ip = ''10.0.0.2'', pr_port = 6881, pr_response_time = 5000, pr_received = True\<rparr>]"
  by (simp add: quiet_env_def probe_answer_accepted no_datagram)

theorem nat_classify_via_dht_verdict_witness:
  "nat_classify_via_dht quiet_env True (0, 0) = (NAT_RESTRICTED_CONE, (0, 0))"
proof -
  have q: "d_socket (e_dht quiet_env)" "d_nodes (e_dht quiet_env) = Some 8" by (simp_all add: quiet_env_def)
  have r: "take 6 (List.map_filter (receive_probe_response (e_now quiet_env)) (take 12 (d_answers (e_dht quiet_env))))
      = probe_loop (e_now quiet_env) (d_answers (e_dht quiet_env)) 0 []"
    by (simp add: probe_loop_eq)
  show ?thesis
    using nat_classify_via_dht_verdict [OF q, of "(0, 0)"] unfolding r quiet_responses by simp
qed

theorem two_peers_never_full_cone_witness:
  "fst (nat_classify_via_dht quiet_env True (0, 0)) \<in> {NAT_RESTRICTED_CONE, NAT_SYMMETRIC}"
proof -
  have q: "d_socket (e_dht quiet_env)" "d_nodes (e_dht quiet_env) = Some 8" by (simp_all add: quiet_env_def)
  let ?r1 = "\<lparr>pr_ip = ''10.0.0.1'', pr_port = 6881, pr_response_time = 5000, pr_received = True\<rparr>"
  let ?r2 = "\<lparr>pr_ip = ''10.0.0.2'', pr_port = 6881, pr_response_time = 5000, pr_received = True\<rparr>"
  show ?thesis
    by (rule two_peers_never_full_cone [OF q _ _ _ _ quiet_responses [symmetric], of ?r1 ?r2]) simp_all
qed

section \<open>The ICMP checksum\<close>

lemma fold_carry_spec:
  "unat (fold_carry s) < 65536 \<and> unat (fold_carry s) mod 65535 = unat s mod 65535
    \<and> (unat (fold_carry s) = 0 \<longleftrightarrow> unat s = 0)"
proof (induction s rule: fold_carry.induct)
  case (1 s)
  show ?case
  proof (cases "drop_bit 16 s \<noteq> 0")
    case False
    then have "unat s div 65536 = 0" using drop_16 [of s] by simp
    then have "unat s < 65536" by (simp add: div_eq_0_iff)
    with False show ?thesis by (simp add: fold_carry.simps [of s])
  next
    case True
    let ?t = "unat s mod 65536 + unat s div 65536"
    have m: "unat s = 65536 * (unat s div 65536) + unat s mod 65536" by simp
    have "unat s = 65535 * (unat s div 65536) + ?t" using m by linarith
    then have c: "unat s mod 65535 = ?t mod 65535" by (metis mod_mult_self4)
    have "?t = 0 \<longleftrightarrow> unat s = 0" using m by linarith
    then show ?thesis
      using True "1.IH" [OF True] c by (simp add: fold_carry.simps [of s] unat_fold_step)
  qed
qed

lemma sum_words_bound:
  "length ws \<le> 65536 \<Longrightarrow> unat (sum_words ws) = sum_list (map unat ws)"
proof (induction ws rule: rev_induct)
  case Nil
  then show ?case by (simp add: sum_words_def)
next
  case (snoc w ws)
  have b: "sum_list (map unat vs) \<le> length vs * 65535" for vs :: "16 word list"
  proof (induction vs)
    case (Cons v vs)
    have "unat v < 65536" using unsigned_less [of v, where ?'a = nat] by simp
    then show ?case using Cons by simp
  qed simp
  have u: "unat (ucast w :: 32 word) = unat w" 
    using unsigned_less [of w, where ?'a = nat] by (simp add: unsigned_ucast_eq take_bit_nat_eq_self)
  have "sum_list (map unat ws) + unat w < 2 ^ LENGTH(32)"
    using b [of "ws @ [w]"] snoc.prems by simp
  then show ?case
    using snoc by (simp add: sum_words_def unat_word_ariths u)
qed

lemma sum_list_update_0:
  "i < length ws \<Longrightarrow> ws ! i = 0 \<Longrightarrow> sum_list (map unat (ws[i := c])) = sum_list (map unat ws) + unat c"
  by (induction ws arbitrary: i) (auto split: nat.splits)

lemma unat_checksum: "unat (icmp_checksum ws) = 65535 - unat (fold_carry (sum_words ws))"
proof -
  let ?r = "fold_carry (sum_words ws)"
  have r: "unat ?r < 65536" using fold_carry_spec by blast
  have "unat (icmp_checksum ws) = take_bit 16 (unat (not ?r))"
    by (simp add: icmp_checksum_def unsigned_ucast_eq)
  also have "unat (not ?r) = 2 ^ 32 - 1 - unat ?r"
  proof -
    have "not ?r = - 1 - ?r" by (simp add: not_eq_complement)
    then have "unat (not ?r) = unat (- 1 :: 32 word) - unat ?r"
      by (simp only: unat_sub [OF word_n1_ge])
    moreover have "unat (- 1 :: 32 word) = 2 ^ 32 - 1"
      by (simp add: unsigned_minus_1_eq_mask mask_eq_exp_minus_1)
    ultimately show ?thesis by simp
  qed
  also have "take_bit 16 (2 ^ 32 - 1 - unat ?r) = 65535 - unat ?r"
  proof -
    have e: "(2 ^ 32 - 1 - unat ?r) = (65535 - unat ?r) + 65535 * 2 ^ 16" using r by simp
    show ?thesis unfolding e take_bit_eq_mod mod_mult_self1 by simp
  qed
  finally show ?thesis .
qed

text \<open>
  The ICMP checksum is the one receivers verify: the folding loop ends, and the
  one's-complement sum of the finished header, checksum included, is all ones, whatever the
  words of the header, provided its checksum field was zero and not all its words are.
\<close>

theorem icmp_checksum_verifies:
  assumes "length ws \<le> 65535" and "i < length ws" and "ws ! i = 0" and "\<exists>w \<in> set ws. w \<noteq> 0"
  shows "fold_carry (sum_words (ws[i := icmp_checksum ws])) = 0xFFFF"
proof -
  let ?r = "fold_carry (sum_words ws)" and ?t = "sum_words (ws[i := icmp_checksum ws])"
  have S: "unat (sum_words ws) = sum_list (map unat ws)" using assms(1) by (simp add: sum_words_bound)
  have r: "unat ?r < 65536" "unat ?r mod 65535 = unat (sum_words ws) mod 65535"
    "unat ?r = 0 \<longleftrightarrow> unat (sum_words ws) = 0" using fold_carry_spec by blast+
  have "unat (sum_words ws) \<noteq> 0" using assms(4) by (auto simp: S sum_list_eq_0_iff unat_eq_0)
  have T: "unat ?t = unat (sum_words ws) + (65535 - unat ?r)"
    using assms(1-3) by (simp add: sum_words_bound sum_list_update_0 S unat_checksum)
  have "(unat (sum_words ws) + (65535 - unat ?r)) mod 65535 = 0"
  proof -
    have "(unat (sum_words ws) + (65535 - unat ?r)) mod 65535
        = (unat ?r mod 65535 + (65535 - unat ?r)) mod 65535"
      by (metis mod_add_left_eq r(2))
    also have "\<dots> = (unat ?r + (65535 - unat ?r)) mod 65535" by (rule mod_add_left_eq)
    also have "\<dots> = 0" using r(1) by simp
    finally show ?thesis .
  qed
  then have m: "unat (fold_carry ?t) mod 65535 = 0" using fold_carry_spec [of ?t] T by simp
  have "unat ?t \<noteq> 0" using T \<open>unat (sum_words ws) \<noteq> 0\<close> by simp
  then have "unat (fold_carry ?t) \<noteq> 0" using fold_carry_spec [of ?t] by simp
  with m have "65535 \<le> unat (fold_carry ?t)" by (metis dvd_imp_le mod_0_imp_dvd neq0_conv)
  then have "unat (fold_carry ?t) = 65535" using fold_carry_spec [of ?t] by linarith
  then have "unat (fold_carry ?t) = unat (0xFFFF :: 32 word)" by simp
  then show ?thesis by (simp only: word_unat_eq_iff)
qed

theorem icmp_checksum_verifies_witness:
  "fold_carry (sum_words (icmp_header 4711)) = 0xFFFF"
proof -
  let ?ws = "[8, 0, 4711, 1] @ replicate 10 0 :: 16 word list"
  have "fold_carry (sum_words (?ws[1 := icmp_checksum ?ws])) = 0xFFFF"
    by (rule icmp_checksum_verifies) auto
  then show ?thesis by (simp only: icmp_header_def Let_def)
qed

section \<open>STUN\<close>

lemma rd_Some: "i < length buf \<Longrightarrow> rd buf i = Some (unat (buf ! i))"
  by (simp add: rd_def)

text \<open>
  The walk over the attributes of a STUN response always ends, and stays inside the 512-byte
  buffer when the response has at most 505 bytes.
\<close>

theorem stun_attrs_in_bounds:
  assumes "length buf = 512" and "n \<le> 505"
  shows "\<exists>port. stun_attrs buf n pos = Some port"
  using assms
proof (induction buf n pos rule: stun_attrs.induct)
  case (1 buf n pos)
  show ?case
  proof (cases "int pos < n - 4")
    case False
    then show ?thesis by (subst stun_attrs.simps) simp
  next
    case True
    then have "pos + 11 < length buf" using "1.prems" by simp
    then show ?thesis
      using "1.IH" True "1.prems" by (subst stun_attrs.simps) (simp add: rd_Some Let_def)
  qed
qed

theorem stun_attrs_in_bounds_witness:
  "\<exists>port. stun_attrs (replicate 512 0) 32 20 = Some port"
  by (rule stun_attrs_in_bounds) simp_all

definition stun_tail :: "byte list" where
  "stun_tail = replicate 20 0 @ [0, 1, 1, 227] @ replicate 483 0 @ [0, 0x20, 0, 8, 0]"

text \<open>
  A response that fills the buffer can make the walk read past its end: here the last
  attribute header ends in the last byte but one.
\<close>

theorem stun_attrs_overread:
  "length stun_tail = 512 \<and> stun_attrs stun_tail 512 20 = None"
proof -
  have len: "length stun_tail = 512" by (simp add: stun_tail_def)
  have r: "rd stun_tail 20 = Some 0" "rd stun_tail 21 = Some 1" "rd stun_tail 22 = Some 1"
    "rd stun_tail 23 = Some 227" "rd stun_tail 507 = Some 0" "rd stun_tail 508 = Some 32"
    "rd stun_tail 509 = Some 0" "rd stun_tail 510 = Some 8" "rd stun_tail 512 = None"
    by (simp_all add: rd_def len) (simp_all add: stun_tail_def nth_append)
  have "stun_attrs stun_tail 512 20 = stun_attrs stun_tail 512 507"
    by (subst stun_attrs.simps) (simp add: r)
  also have "\<dots> = None"
    by (subst stun_attrs.simps) (simp add: r)
  finally show ?thesis using len by simp
qed

lemma stun_hosts_range: "stun_hosts hs = Some t \<Longrightarrow> t \<in> {NAT_FULL_CONE, NAT_UNKNOWN}"
  by (induction hs rule: stun_hosts.induct) (auto split: if_splits Option.bind_splits)

section \<open>The combined classification\<close>

lemma via_upnp_cases: "fst (nat_classify_via_upnp env s) \<in> {NAT_UNKNOWN, NAT_FULL_CONE}"
  by (simp add: nat_classify_via_upnp_def split: prod.split)

text \<open>
  The combined result is consistent: the function returns the type it stores, the result is
  marked as detected exactly when the type is known, and type, source and confidence go together.
\<close>

theorem nat_classify_combined_consistent:
  "case nat_classify_combined env s of ((t, r), _) \<Rightarrow>
     nr_type r = t \<and> (nr_detected r \<longleftrightarrow> t \<noteq> NAT_UNKNOWN) \<and> (nr_confidence r = 0 \<longleftrightarrow> t = NAT_UNKNOWN)
   \<and> (nr_detected_via r, nr_confidence r)
       \<in> {(''UPnP'', 90), (''DHT'', 70), (''ICMP'', 50), (''NONE'', 0)}
   \<and> (nr_detected_via r = ''UPnP'' \<longrightarrow> t = NAT_FULL_CONE \<and> nr_has_upnp r)
   \<and> nr_local_ip r \<noteq> []"
  by (auto simp: nat_classify_combined_def combined_verdict_def combined_local_ip_def Let_def
      split: prod.splits if_splits)

lemma quiet_combined: "fst (fst (nat_classify_combined quiet_env (0, 0))) = NAT_UNKNOWN"
  by (simp add: nat_classify_combined_def nat_classify_via_dht_def nat_classify_via_icmp_def
      nat_classify_via_upnp_def nat_has_upnp_def combined_verdict_def quiet_env_def Let_def)

theorem nat_classify_combined_consistent_witness:
  "nr_confidence (snd (fst (nat_classify_combined quiet_env (0, 0)))) = 0
   \<and> \<not> nr_detected (snd (fst (nat_classify_combined quiet_env (0, 0))))"
  using nat_classify_combined_consistent [of quiet_env "(0, 0)"] quiet_combined
  by (cases "nat_classify_combined quiet_env (0, 0)") (auto split: prod.splits)

text \<open>
  The combined classification never uses the DHT: it passes a NULL node, so its result is the
  same whatever the DHT would answer, and a result labelled \<open>DHT\<close> is one of the ICMP fallback.
\<close>

theorem combined_ignores_dht:
  "nat_classify_combined (env\<lparr>e_dht := d\<rparr>) s = nat_classify_combined env s
   \<and> nat_classify_via_dht env False s = nat_classify_via_icmp env s"
proof -
  have u: "nat_has_upnp (env\<lparr>e_dht := d\<rparr>) = nat_has_upnp env"
    by (rule ext) (simp add: nat_has_upnp_def split: prod.split)
  then have v: "nat_classify_via_upnp (env\<lparr>e_dht := d\<rparr>) = nat_classify_via_upnp env"
    by (simp add: fun_eq_iff nat_classify_via_upnp_def)
  then have i: "nat_classify_via_icmp (env\<lparr>e_dht := d\<rparr>) = nat_classify_via_icmp env"
    by (simp add: fun_eq_iff nat_classify_via_icmp_def Let_def)
  show ?thesis
    by (simp add: nat_classify_combined_def nat_classify_via_dht_def u v i nat_has_ipv6_def
        nat_is_firewalled_def combined_local_ip_def Let_def)
qed

end
