(* ===== verification/Strategy_Selector.thy ===== *)
theory Strategy_Selector
  imports Nat_Classifier "HOL-Library.Multiset"
begin

text \<open>
  The strategy selector (\<open>strategy_selector.c\<close>): the table of connection strategies, which
  of them apply to a pair of peers, the list of the applicable ones in the order of their
  priority, and the bubble sort of such a list.  A \<open>StrategyType\<close> is a C enum and can hold
  any other \<open>int\<close>; a \<open>StrategyList\<close> is an array of 16 with a count, and an access
  outside the array is \<open>None\<close>.
\<close>

section \<open>Strategies and their table\<close>

datatype StrategyType =
    STRATEGY_NONE | STRATEGY_IPV6_DIRECT | STRATEGY_UPNP | STRATEGY_UDP_PUNCH | STRATEGY_TTL_PUNCH
  | STRATEGY_SIMULTANEOUS_OPEN | STRATEGY_PORT_PREDICTION | STRATEGY_TCP_PUNCH
  | STRATEGY_FRIEND_RELAY | STRATEGY_TURN_RELAY | STRATEGY_MANUAL_PORT
  | STRATEGY_OUT_OF_RANGE int

record StrategyInfo =
  si_type :: StrategyType
  si_name :: string
  si_priority :: int
  si_max_wait_ms :: int
  si_requires_peer :: bool
  si_requires_server :: bool

abbreviation info :: "StrategyType \<Rightarrow> string \<Rightarrow> int \<Rightarrow> int \<Rightarrow> bool \<Rightarrow> bool \<Rightarrow> StrategyInfo" where
  "info t n p w rp rs \<equiv> \<lparr>si_type = t, si_name = n, si_priority = p, si_max_wait_ms = w,
     si_requires_peer = rp, si_requires_server = rs\<rparr>"

definition g_strategy_info :: "StrategyInfo list" where
  "g_strategy_info = [
     info STRATEGY_NONE ''NONE'' 99 0 False False,
     info STRATEGY_IPV6_DIRECT ''IPv6_DIRECT'' 1 2000 False False,
     info STRATEGY_UPNP ''UPnP'' 2 3000 False False,
     info STRATEGY_UDP_PUNCH ''UDP_PUNCH'' 3 5000 False False,
     info STRATEGY_TTL_PUNCH ''TTL_PUNCH'' 4 3000 False False,
     info STRATEGY_SIMULTANEOUS_OPEN ''SIMULTANEOUS_OPEN'' 5 4000 False False,
     info STRATEGY_PORT_PREDICTION ''PORT_PREDICTION'' 6 5000 False False,
     info STRATEGY_TCP_PUNCH ''TCP_PUNCH'' 7 8000 False False,
     info STRATEGY_FRIEND_RELAY ''FRIEND_RELAY'' 8 5000 True False,
     info STRATEGY_TURN_RELAY ''TURN_RELAY'' 9 6000 False True,
     info STRATEGY_MANUAL_PORT ''MANUAL_PORT'' 10 60000 False False]"

definition STRATEGY_COUNT :: nat where
  "STRATEGY_COUNT = length g_strategy_info"

definition strategy_name :: "StrategyType \<Rightarrow> string" where
  "strategy_name t = (case find_index (\<lambda>i. si_type i = t) g_strategy_info of
      Some i \<Rightarrow> si_name (g_strategy_info ! i) | None \<Rightarrow> ''UNKNOWN'')"

definition strategy_get_info :: "StrategyType \<Rightarrow> StrategyInfo" where
  "strategy_get_info t = (case find_index (\<lambda>i. si_type i = t) g_strategy_info of
      Some i \<Rightarrow> g_strategy_info ! i | None \<Rightarrow> g_strategy_info ! 0)"

definition strategy_get_priority :: "StrategyType \<Rightarrow> int" where
  "strategy_get_priority t = si_priority (strategy_get_info t)"

section \<open>Applicability\<close>

record PeerProfile =
  pp_nat_type :: NATType
  pp_has_ipv6 :: bool
  pp_has_upnp :: bool
  pp_has_relay :: bool
  pp_is_relay :: bool
  pp_is_firewalled :: bool

fun applicable_to :: "StrategyType \<Rightarrow> PeerProfile \<Rightarrow> PeerProfile \<Rightarrow> bool" where
  "applicable_to STRATEGY_IPV6_DIRECT l r = (pp_has_ipv6 l \<and> pp_has_ipv6 r)"
| "applicable_to STRATEGY_UPNP l r = (pp_has_upnp l \<and> pp_has_upnp r)"
| "applicable_to STRATEGY_UDP_PUNCH l r =
    (if pp_nat_type l = NAT_SYMMETRIC \<and> pp_nat_type r = NAT_SYMMETRIC then False else True)"
| "applicable_to STRATEGY_TTL_PUNCH l r = True"
| "applicable_to STRATEGY_SIMULTANEOUS_OPEN l r =
    (pp_nat_type l = NAT_RESTRICTED_CONE \<or> pp_nat_type l = NAT_PORT_RESTRICTED
     \<or> pp_nat_type r = NAT_RESTRICTED_CONE \<or> pp_nat_type r = NAT_PORT_RESTRICTED)"
| "applicable_to STRATEGY_PORT_PREDICTION l r =
    (pp_nat_type l = NAT_SYMMETRIC \<or> pp_nat_type r = NAT_SYMMETRIC)"
| "applicable_to STRATEGY_TCP_PUNCH l r =
    (if pp_nat_type l = NAT_SYMMETRIC \<or> pp_nat_type r = NAT_SYMMETRIC then False else True)"
| "applicable_to STRATEGY_FRIEND_RELAY l r = (pp_has_relay l \<or> pp_has_relay r)"
| "applicable_to STRATEGY_TURN_RELAY l r = True"
| "applicable_to STRATEGY_MANUAL_PORT l r = True"
| "applicable_to STRATEGY_NONE l r = False"
| "applicable_to (STRATEGY_OUT_OF_RANGE v) l r = False"

definition strategy_is_applicable ::
    "StrategyType \<Rightarrow> PeerProfile option \<Rightarrow> PeerProfile option \<Rightarrow> bool" where
  "strategy_is_applicable t local remote = (case (local, remote) of
      (Some l, Some r) \<Rightarrow> applicable_to t l r | _ \<Rightarrow> False)"

section \<open>The filter\<close>

record StrategyList =
  sl_strategies :: "StrategyType list"
  sl_count :: int

definition MAX_STRATEGIES :: nat where
  "MAX_STRATEGIES = 16"

text \<open>\<open>list->strategies[list->count++] = type\<close>.\<close>

definition strategy_append :: "StrategyType \<Rightarrow> StrategyList \<Rightarrow> StrategyList option" where
  "strategy_append t sl =
    (if 0 \<le> sl_count sl \<and> sl_count sl < int (length (sl_strategies sl))
     then Some (sl\<lparr>sl_strategies := (sl_strategies sl)[nat (sl_count sl) := t], sl_count := sl_count sl + 1\<rparr>)
     else None)"

fun filter_entries ::
    "PeerProfile option \<Rightarrow> PeerProfile option \<Rightarrow> int \<Rightarrow> StrategyInfo list \<Rightarrow> StrategyList \<Rightarrow> StrategyList option" where
  "filter_entries local remote priority [] sl = Some sl"
| "filter_entries local remote priority (e # es) sl =
    (if si_priority e = priority \<and> strategy_is_applicable (si_type e) local remote
     then do { sl \<leftarrow> strategy_append (si_type e) sl; filter_entries local remote priority es sl }
     else filter_entries local remote priority es sl)"

fun filter_priorities ::
    "PeerProfile option \<Rightarrow> PeerProfile option \<Rightarrow> int list \<Rightarrow> StrategyList \<Rightarrow> StrategyList option" where
  "filter_priorities local remote [] sl = Some sl"
| "filter_priorities local remote (p # ps) sl = do {
     sl \<leftarrow> filter_entries local remote p (tl g_strategy_info) sl;
     filter_priorities local remote ps sl }"

definition strategy_filter ::
    "StrategyList option \<Rightarrow> PeerProfile option \<Rightarrow> PeerProfile option \<Rightarrow> (int \<times> StrategyList option) option" where
  "strategy_filter list local remote = (case list of
      None \<Rightarrow> Some (-1, None)
    | Some sl \<Rightarrow>
        if local = None \<or> remote = None then Some (-1, Some sl)
        else do {
          sl \<leftarrow> filter_priorities local remote [1..10] (sl\<lparr>sl_count := 0\<rparr>);
          Some (sl_count sl, Some sl) })"

section \<open>The sort\<close>

definition bubble_step :: "nat \<Rightarrow> StrategyType list \<Rightarrow> StrategyType list" where
  "bubble_step j xs =
    (let p1 = strategy_get_priority (xs ! j); p2 = strategy_get_priority (xs ! Suc j)
     in if p1 > p2 then xs[j := xs ! Suc j, Suc j := xs ! j] else xs)"

definition bubble_pass :: "nat \<Rightarrow> StrategyType list \<Rightarrow> StrategyType list" where
  "bubble_pass k xs = fold bubble_step [0..<k] xs"

definition strategy_sort_by_priority :: "StrategyList option \<Rightarrow> StrategyList option option" where
  "strategy_sort_by_priority list = (case list of
      None \<Rightarrow> Some None
    | Some sl \<Rightarrow>
        if sl_count sl \<le> 1 then Some (Some sl)
        else if sl_count sl > int (length (sl_strategies sl)) then None
        else let n = nat (sl_count sl) in
          Some (Some (sl\<lparr>sl_strategies :=
            fold (\<lambda>i. bubble_pass (n - i - 1)) [0..<n - 1] (sl_strategies sl)\<rparr>)))"

section \<open>What the filter selects\<close>

definition all_strategies :: "StrategyType list" where
  "all_strategies = [STRATEGY_IPV6_DIRECT, STRATEGY_UPNP, STRATEGY_UDP_PUNCH, STRATEGY_TTL_PUNCH,
     STRATEGY_SIMULTANEOUS_OPEN, STRATEGY_PORT_PREDICTION, STRATEGY_TCP_PUNCH,
     STRATEGY_FRIEND_RELAY, STRATEGY_TURN_RELAY, STRATEGY_MANUAL_PORT]"

definition holds_list :: "StrategyList \<Rightarrow> StrategyType list \<Rightarrow> bool" where
  "holds_list sl xs \<longleftrightarrow> length (sl_strategies sl) = MAX_STRATEGIES \<and> sl_count sl = int (length xs)
     \<and> take (length xs) (sl_strategies sl) = xs"

lemma strategy_append_ok:
  assumes "holds_list sl xs" and "length xs < MAX_STRATEGIES"
  shows "\<exists>sl'. strategy_append t sl = Some sl' \<and> holds_list sl' (xs @ [t])"
  using assms by (auto simp: holds_list_def strategy_append_def take_Suc_update)

abbreviation chosen :: "PeerProfile option \<Rightarrow> PeerProfile option \<Rightarrow> int \<Rightarrow> StrategyInfo list \<Rightarrow> StrategyType list" where
  "chosen local remote p es \<equiv>
     map si_type (filter (\<lambda>e. si_priority e = p \<and> strategy_is_applicable (si_type e) local remote) es)"

lemma filter_entries_ok:
  "holds_list sl xs \<Longrightarrow> length xs + length (chosen local remote p es) \<le> MAX_STRATEGIES \<Longrightarrow>
   \<exists>sl'. filter_entries local remote p es sl = Some sl' \<and> holds_list sl' (xs @ chosen local remote p es)"
proof (induction es arbitrary: sl xs)
  case Nil
  then show ?case by simp
next
  case (Cons e es)
  show ?case
  proof (cases "si_priority e = p \<and> strategy_is_applicable (si_type e) local remote")
    case True
    then have "length xs < MAX_STRATEGIES" using Cons.prems(2) by simp
    from strategy_append_ok [OF Cons.prems(1) this, of "si_type e"] obtain sl1
      where a: "strategy_append (si_type e) sl = Some sl1" "holds_list sl1 (xs @ [si_type e])" by blast
    from Cons.IH [OF a(2)] Cons.prems(2) True a(1) show ?thesis by simp
  next
    case False
    then show ?thesis using Cons.IH [OF Cons.prems(1)] Cons.prems(2) by auto
  qed
qed

lemma filter_priorities_ok:
  "holds_list sl xs \<Longrightarrow>
   length xs + length (concat (map (\<lambda>p. chosen local remote p (tl g_strategy_info)) ps)) \<le> MAX_STRATEGIES \<Longrightarrow>
   \<exists>sl'. filter_priorities local remote ps sl = Some sl'
     \<and> holds_list sl' (xs @ concat (map (\<lambda>p. chosen local remote p (tl g_strategy_info)) ps))"
proof (induction ps arbitrary: sl xs)
  case Nil
  then show ?case by simp
next
  case (Cons p ps)
  have "length xs + length (chosen local remote p (tl g_strategy_info)) \<le> MAX_STRATEGIES"
    using Cons.prems(2) by simp
  from filter_entries_ok [OF Cons.prems(1) this] obtain sl1
    where a: "filter_entries local remote p (tl g_strategy_info) sl = Some sl1"
      "holds_list sl1 (xs @ chosen local remote p (tl g_strategy_info))" by blast
  from Cons.IH [OF a(2)] Cons.prems(2) a(1) show ?case by (simp add: add.assoc)
qed

lemma chosen_all:
  "concat (map (\<lambda>p. chosen local remote p (tl g_strategy_info)) [1..10])
    = filter (\<lambda>t. strategy_is_applicable t local remote) all_strategies"
proof -
  have u: "[1..10] = [1, 2, 3, 4, 5, 6, 7, 8, 9, 10 :: int]" by (simp add: upto.simps)
  have "concat (map (\<lambda>p. map si_type (filter (\<lambda>e. si_priority e = p) (tl g_strategy_info))) [1..10]) = all_strategies"
    by (simp add: u g_strategy_info_def all_strategies_def)
  then have "filter (\<lambda>t. strategy_is_applicable t local remote) all_strategies
      = concat (map (\<lambda>p. filter (\<lambda>t. strategy_is_applicable t local remote)
          (map si_type (filter (\<lambda>e. si_priority e = p) (tl g_strategy_info)))) [1..10])"
    by (simp only: filter_concat map_map comp_def flip: \<open>_ = all_strategies\<close>)
  also have "\<dots> = concat (map (\<lambda>p. chosen local remote p (tl g_strategy_info)) [1..10])"
    by (simp add: filter_map comp_def conj_commute)
  finally show ?thesis ..
qed

text \<open>
  For every pair of profiles the filter fills the list with exactly the applicable strategies,
  without duplicates and in strictly ascending order of priority, returns their number, never
  writes past the 16 cells, and always ends the list with the manual port.
\<close>

theorem strategy_filter_selects:
  assumes "length (sl_strategies sl) = MAX_STRATEGIES"
  shows "\<exists>sl' xs. strategy_filter (Some sl) (Some l) (Some r) = Some (int (length xs), Some sl')
    \<and> take (length xs) (sl_strategies sl') = xs \<and> sl_count sl' = int (length xs)
    \<and> set xs = {t. strategy_is_applicable t (Some l) (Some r)}
    \<and> sorted_wrt (\<lambda>a b. strategy_get_priority a < strategy_get_priority b) xs
    \<and> last xs = STRATEGY_MANUAL_PORT"
proof -
  let ?xs = "filter (\<lambda>t. strategy_is_applicable t (Some l) (Some r)) all_strategies"
  have h: "holds_list (sl\<lparr>sl_count := 0\<rparr>) []" using assms by (simp add: holds_list_def)
  have "length ?xs \<le> length all_strategies" by (rule length_filter_le)
  then have "length ?xs \<le> MAX_STRATEGIES" by (simp add: all_strategies_def MAX_STRATEGIES_def)
  then obtain sl' where sl': "filter_priorities (Some l) (Some r) [1..10] (sl\<lparr>sl_count := 0\<rparr>) = Some sl'"
    "holds_list sl' ?xs"
    using filter_priorities_ok [OF h, of "Some l" "Some r" "[1..10]"] unfolding chosen_all by auto
  have t: "t \<in> set all_strategies" if "strategy_is_applicable t (Some l) (Some r)" for t
    using that by (cases t) (simp_all add: strategy_is_applicable_def all_strategies_def)
  have "sorted_wrt (\<lambda>a b. strategy_get_priority a < strategy_get_priority b) all_strategies"
    by (simp add: all_strategies_def strategy_get_priority_def strategy_get_info_def g_strategy_info_def)
  then have "sorted_wrt (\<lambda>a b. strategy_get_priority a < strategy_get_priority b) ?xs"
    by (rule sorted_wrt_filter)
  moreover have "last ?xs = STRATEGY_MANUAL_PORT"
  proof -
    have "all_strategies = butlast all_strategies @ [STRATEGY_MANUAL_PORT]" by (simp add: all_strategies_def)
    moreover have "strategy_is_applicable STRATEGY_MANUAL_PORT (Some l) (Some r)"
      by (simp add: strategy_is_applicable_def)
    ultimately have "?xs = filter (\<lambda>t. strategy_is_applicable t (Some l) (Some r)) (butlast all_strategies) @ [STRATEGY_MANUAL_PORT]"
      by (metis (no_types, lifting) filter.simps filter_append)
    then show ?thesis by simp
  qed
  ultimately show ?thesis
    using sl' t by (auto simp: strategy_filter_def holds_list_def intro!: exI [of _ ?xs])
qed

definition sample_profile :: "NATType \<Rightarrow> PeerProfile" where
  "sample_profile t = \<lparr>pp_nat_type = t, pp_has_ipv6 = False, pp_has_upnp = False, pp_has_relay = False,
     pp_is_relay = False, pp_is_firewalled = False\<rparr>"

theorem strategy_filter_selects_witness:
  "\<exists>sl' xs. strategy_filter (Some \<lparr>sl_strategies = replicate 16 STRATEGY_NONE, sl_count = 0\<rparr>)
      (Some (sample_profile NAT_FULL_CONE)) (Some (sample_profile NAT_SYMMETRIC)) = Some (int (length xs), Some sl')
    \<and> set xs = {t. strategy_is_applicable t (Some (sample_profile NAT_FULL_CONE)) (Some (sample_profile NAT_SYMMETRIC))}
    \<and> last xs = STRATEGY_MANUAL_PORT"
  using strategy_filter_selects [of "\<lparr>sl_strategies = replicate 16 STRATEGY_NONE, sl_count = 0\<rparr>"
      "sample_profile NAT_FULL_CONE" "sample_profile NAT_SYMMETRIC"]
  by (auto simp: MAX_STRATEGIES_def)

section \<open>The sort is the stable sort by priority\<close>

abbreviation pri :: "StrategyType \<Rightarrow> int" where
  "pri \<equiv> strategy_get_priority"

lemma bubble_step_split:
  assumes "Suc j < length xs"
  shows "bubble_step j xs = take j xs
    @ (if pri (xs ! j) > pri (xs ! Suc j) then [xs ! Suc j, xs ! j] else [xs ! j, xs ! Suc j])
    @ drop (Suc (Suc j)) xs"
proof -
  define us a b vs where "us = take j xs" and "a = xs ! j" and "b = xs ! Suc j" and "vs = drop (Suc (Suc j)) xs"
  have x: "xs = us @ a # b # vs"
    using assms id_take_nth_drop [of j xs] by (simp add: us_def a_def b_def vs_def Cons_nth_drop_Suc)
  have j: "j = length us" using assms by (simp add: us_def)
  show ?thesis unfolding x j by (simp add: bubble_step_def Let_def list_update_append nth_append)
qed

lemma length_bubble_step [simp]: "length (bubble_step j xs) = length xs"
  by (simp add: bubble_step_def Let_def)

lemma bubble_step_filter:
  assumes "Suc j < length xs"
  shows "filter (\<lambda>x. v = pri x) (bubble_step j xs) = filter (\<lambda>x. v = pri x) xs"
proof -
  have x: "xs = take j xs @ [xs ! j, xs ! Suc j] @ drop (Suc (Suc j)) xs"
    using assms id_take_nth_drop [of j xs] by (simp add: Cons_nth_drop_Suc)
  have "filter (\<lambda>x. v = pri x) (bubble_step j xs)
      = filter (\<lambda>x. v = pri x) (take j xs @ [xs ! j, xs ! Suc j] @ drop (Suc (Suc j)) xs)"
    unfolding bubble_step_split [OF assms] by auto
  then show ?thesis by (simp only: x [symmetric])
qed

lemma bubble_step_mset:
  assumes "Suc j < length xs"
  shows "mset (bubble_step j xs) = mset xs"
proof -
  have x: "xs = take j xs @ [xs ! j, xs ! Suc j] @ drop (Suc (Suc j)) xs"
    using assms id_take_nth_drop [of j xs] by (simp add: Cons_nth_drop_Suc)
  have "mset (bubble_step j xs) = mset (take j xs @ [xs ! j, xs ! Suc j] @ drop (Suc (Suc j)) xs)"
    unfolding bubble_step_split [OF assms] by (simp add: add_mset_commute)
  then show ?thesis by (simp only: x [symmetric])
qed

lemma bubble_step_nth:
  assumes "Suc j < length xs"
  shows "i \<noteq> j \<Longrightarrow> i \<noteq> Suc j \<Longrightarrow> bubble_step j xs ! i = xs ! i"
    and "pri (bubble_step j xs ! Suc j) = max (pri (xs ! j)) (pri (xs ! Suc j))"
    and "pri (bubble_step j xs ! j) \<le> pri (bubble_step j xs ! Suc j)"
  using assms by (auto simp: bubble_step_def Let_def)

definition same_elements :: "StrategyType list \<Rightarrow> StrategyType list \<Rightarrow> bool" where
  "same_elements xs ys \<longleftrightarrow> mset ys = mset xs \<and> (\<forall>v. filter (\<lambda>x. v = pri x) ys = filter (\<lambda>x. v = pri x) xs)"

lemma bubble_pass_Suc: "bubble_pass (Suc k) xs = bubble_step k (bubble_pass k xs)"
  by (simp add: bubble_pass_def)

lemma bubble_pass_spec:
  "k < length xs \<Longrightarrow> length (bubble_pass k xs) = length xs \<and> same_elements xs (bubble_pass k xs)
     \<and> (\<forall>i. k < i \<longrightarrow> bubble_pass k xs ! i = xs ! i)
     \<and> (\<forall>i \<le> k. pri (bubble_pass k xs ! i) \<le> pri (bubble_pass k xs ! k))"
proof (induction k)
  case 0
  then show ?case by (simp add: bubble_pass_def same_elements_def)
next
  case (Suc k)
  let ?ys = "bubble_pass k xs"
  have IH: "length ?ys = length xs" "same_elements xs ?ys" "\<forall>i. k < i \<longrightarrow> ?ys ! i = xs ! i"
    "\<forall>i \<le> k. pri (?ys ! i) \<le> pri (?ys ! k)" using Suc by auto
  have j: "Suc k < length ?ys" using Suc.prems IH(1) by simp
  have "pri (bubble_step k ?ys ! i) \<le> pri (bubble_step k ?ys ! Suc k)" if le: "i \<le> Suc k" for i
  proof -
    consider "i < k" | "i = k" | "i = Suc k" using le by linarith
    then show ?thesis
    proof cases
      case 1
      then have "pri (?ys ! i) \<le> pri (?ys ! k)" using IH(4) by simp
      then show ?thesis using 1 bubble_step_nth(1) [OF j, of i] bubble_step_nth(2) [OF j] by simp
    qed (use bubble_step_nth(3) [OF j] in auto)
  qed
  moreover have "same_elements xs (bubble_step k ?ys)"
    using IH(2) bubble_step_mset [OF j] bubble_step_filter [OF j] by (simp add: same_elements_def)
  ultimately show ?case
    using IH(1,3) bubble_step_nth(1) [OF j] by (simp add: bubble_pass_Suc)
qed

lemma bubble_pass_prefix:
  assumes "k < length xs" and "i \<le> k"
  shows "\<exists>i' \<le> k. bubble_pass k xs ! i = xs ! i'"
proof -
  let ?ys = "bubble_pass k xs"
  have s: "length ?ys = length xs" "mset ?ys = mset xs" "\<forall>i. k < i \<longrightarrow> ?ys ! i = xs ! i"
    using bubble_pass_spec [OF assms(1)] by (auto simp: same_elements_def)
  have "drop (Suc k) ?ys = drop (Suc k) xs" using s(1,3) by (intro nth_equalityI) auto
  then have "mset (take (Suc k) ?ys) = mset (take (Suc k) xs)"
    using s(2) by (metis add_right_imp_eq append_take_drop_id mset_append)
  then have "set (take (Suc k) ?ys) = set (take (Suc k) xs)" by (rule mset_eq_setD)
  moreover have "?ys ! i \<in> set (take (Suc k) ?ys)"
    using assms s(1) by (metis in_set_conv_nth le_imp_less_Suc length_take less_trans_Suc min_less_iff_conj nth_take Suc_leI order.strict_trans1)
  ultimately have "?ys ! i \<in> set (take (Suc k) xs)" by simp
  then show ?thesis using assms(1) by (auto simp: in_set_conv_nth less_Suc_eq_le)
qed

definition outer_done :: "nat \<Rightarrow> nat \<Rightarrow> StrategyType list \<Rightarrow> StrategyType list \<Rightarrow> bool" where
  "outer_done n i xs ys \<longleftrightarrow> length ys = length xs \<and> same_elements xs ys \<and> drop n ys = drop n xs
     \<and> (\<forall>a b. a < b \<longrightarrow> b < n \<longrightarrow> n - i \<le> b \<longrightarrow> pri (ys ! a) \<le> pri (ys ! b))"

lemma outer_step:
  assumes "outer_done n i xs ys" and "n \<le> length xs" and "i < n"
  shows "outer_done n (Suc i) xs (bubble_pass (n - i - 1) ys)"
proof -
  let ?k = "n - i - 1" and ?zs = "bubble_pass (n - i - 1) ys"
  have y: "length ys = length xs" "same_elements xs ys" "drop n ys = drop n xs"
    "\<And>a b. a < b \<Longrightarrow> b < n \<Longrightarrow> n - i \<le> b \<Longrightarrow> pri (ys ! a) \<le> pri (ys ! b)"
    using assms(1) by (auto simp: outer_done_def)
  have k: "?k < length ys" using assms y(1) by simp
  note z = bubble_pass_spec [OF k]
  have "drop n ?zs = drop n ys" using z assms(3) by (intro nth_equalityI) auto
  moreover have "pri (?zs ! a) \<le> pri (?zs ! b)" if "a < b" "b < n" "n - Suc i \<le> b" for a b
  proof (cases "b = ?k")
    case True
    then show ?thesis using z that by simp
  next
    case False
    then have b: "?k < b" "n - i \<le> b" using that by auto
    then have zb: "?zs ! b = ys ! b" using z by blast
    show ?thesis
    proof (cases "a \<le> ?k")
      case True
      from bubble_pass_prefix [OF k True] obtain a' where "a' \<le> ?k" "?zs ! a = ys ! a'" by blast
      then show ?thesis using zb y(4) [of a' b] b that by simp
    next
      case False
      then have "?zs ! a = ys ! a" using z by simp
      then show ?thesis using zb y(4) [of a b] b that by simp
    qed
  qed
  ultimately show ?thesis using z y(1-3) by (simp add: outer_done_def same_elements_def)
qed

lemma outer_loop:
  assumes "n \<le> length xs" and "m < n"
  shows "outer_done n m xs (fold (\<lambda>i. bubble_pass (n - i - 1)) [0..<m] xs)"
  using assms(2)
proof (induction m)
  case 0
  then show ?case by (simp add: outer_done_def same_elements_def)
next
  case (Suc m)
  then show ?case using outer_step [OF Suc.IH assms(1)] by simp
qed

lemma outer_done_sort_key:
  assumes "outer_done n (n - 1) xs ys" and "n \<le> length xs"
  shows "ys = sort_key pri (take n xs) @ drop n xs"
proof -
  have y: "length ys = length xs" "same_elements xs ys" "drop n ys = drop n xs"
    "\<And>a b. a < b \<Longrightarrow> b < n \<Longrightarrow> pri (ys ! a) \<le> pri (ys ! b)"
    using assms(1) by (auto simp: outer_done_def)
  have split: "xs = take n xs @ drop n xs" "ys = take n ys @ drop n xs"
    using y(3) by (metis append_take_drop_id)+
  have "sort_key pri (take n xs) = take n ys"
  proof (rule properties_for_sort_key)
    show "mset (take n ys) = mset (take n xs)"
      using y(2) split unfolding same_elements_def by (metis add_right_imp_eq mset_append)
    show "sorted (map pri (take n ys))"
      using y(1,4) assms(2) by (auto simp: sorted_iff_nth_mono_less)
    fix v
    show "filter (\<lambda>x. pri v = pri x) (take n ys) = filter (\<lambda>x. pri v = pri x) (take n xs)"
      using y(2) split unfolding same_elements_def by (metis append_same_eq filter_append)
  qed
  then show ?thesis using split(2) by simp
qed

text \<open>
  C14: the bubble sort is the stable sort of the listed strategies by priority; it touches nothing
  behind them, and a list with a count larger than the array is the only way out of bounds.
\<close>

theorem strategy_sort_is_stable_sort:
  assumes "sl_count sl \<le> int (length (sl_strategies sl))"
  shows "strategy_sort_by_priority (Some sl) = Some (Some (sl\<lparr>sl_strategies :=
     sort_key strategy_get_priority (take (nat (sl_count sl)) (sl_strategies sl))
     @ drop (nat (sl_count sl)) (sl_strategies sl)\<rparr>))"
proof (cases "sl_count sl \<le> 1")
  case True
  then have "length (take (nat (sl_count sl)) (sl_strategies sl)) \<le> 1" by simp
  then have "sort_key pri (take (nat (sl_count sl)) (sl_strategies sl)) = take (nat (sl_count sl)) (sl_strategies sl)"
    by (cases "take (nat (sl_count sl)) (sl_strategies sl)") auto
  then show ?thesis using True by (simp add: strategy_sort_by_priority_def)
next
  case False
  let ?n = "nat (sl_count sl)" and ?xs = "sl_strategies sl"
  have n: "?n \<le> length ?xs" "?n - 1 < ?n" using assms False by auto
  from outer_done_sort_key [OF outer_loop [OF n] n(1)] show ?thesis
    using assms False by (simp add: strategy_sort_by_priority_def Let_def)
qed

theorem strategy_sort_is_stable_sort_witness:
  "strategy_sort_by_priority (Some \<lparr>sl_strategies =
      [STRATEGY_MANUAL_PORT, STRATEGY_UPNP, STRATEGY_TTL_PUNCH, STRATEGY_NONE], sl_count = 3\<rparr>)
    = Some (Some \<lparr>sl_strategies = [STRATEGY_UPNP, STRATEGY_TTL_PUNCH, STRATEGY_MANUAL_PORT, STRATEGY_NONE], sl_count = 3\<rparr>)"
proof -
  let ?sl = "\<lparr>sl_strategies = [STRATEGY_MANUAL_PORT, STRATEGY_UPNP, STRATEGY_TTL_PUNCH, STRATEGY_NONE], sl_count = 3\<rparr>"
  have p: "pri STRATEGY_MANUAL_PORT = 10" "pri STRATEGY_UPNP = 2" "pri STRATEGY_TTL_PUNCH = 4"
    by (simp_all add: strategy_get_priority_def strategy_get_info_def g_strategy_info_def)
  have "sort_key pri (take (nat (sl_count ?sl)) (sl_strategies ?sl)) = [STRATEGY_UPNP, STRATEGY_TTL_PUNCH, STRATEGY_MANUAL_PORT]"
    by (simp add: p numeral_3_eq_3)
  then show ?thesis using strategy_sort_is_stable_sort [of ?sl] by (simp add: numeral_3_eq_3)
qed

end
