(* ===== verification/Mixed_Id.thy ===== *)
theory Mixed_Id
  imports C_Text
begin

text \<open>
  Mixed IDs (\<open>mixed_id.c\<close>): the text \<open>id.pair1.pair2.port\<close> that carries a peer's
  number, IPv4 address and port, its encoder, decoder, validation, the detection of what kind
  of text a user typed, and the extraction of the parts.

  A function that returns \<open>-1\<close> without writing its outputs returns \<open>None\<close>.
  \<open>mixed_id_auto_parse\<close> copies with \<open>strcpy\<close>: its model takes the size of the
  caller's \<open>id_out\<close> and has one more level of \<open>option\<close> for the overrun.
\<close>

section \<open>The code\<close>

datatype MixedType =
  MIXED_TYPE_UNKNOWN | MIXED_TYPE_ID | MIXED_TYPE_IP | MIXED_TYPE_MIXED | MIXED_TYPE_MIXED_IP

definition INET_ADDRSTRLEN :: nat where
  "INET_ADDRSTRLEN = 16"

text \<open>\<open>sscanf(s, "%d.%d.%d.%d", ...) == 4\<close> and the four numbers.\<close>

definition scan_quad :: "string \<Rightarrow> (int \<times> int \<times> int \<times> int) option" where
  "scan_quad s = do {
     (a, s) \<leftarrow> scan_d s; s \<leftarrow> scan_lit ''.'' s;
     (b, s) \<leftarrow> scan_d s; s \<leftarrow> scan_lit ''.'' s;
     (c, s) \<leftarrow> scan_d s; s \<leftarrow> scan_lit ''.'' s;
     (d, _) \<leftarrow> scan_d s;
     Some (a, b, c, d) }"

text \<open>\<open>sprintf("%d.%d.%d.%d", ...)\<close>.\<close>

definition print_quad :: "int \<Rightarrow> int \<Rightarrow> int \<Rightarrow> int \<Rightarrow> string" where
  "print_quad a b c d = dec_int a @ ''.'' @ dec_int b @ ''.'' @ dec_int c @ ''.'' @ dec_int d"

definition clean_id :: "string \<Rightarrow> string" where
  "clean_id s = take 63 (filter (\<lambda>c. c \<noteq> CHR ''<'' \<and> c \<noteq> CHR ''>'') s)"

text \<open>\<open>(uint16_t) ((hi << 8) | lo)\<close>.\<close>

definition pair16 :: "int \<Rightarrow> int \<Rightarrow> 16 word" where
  "pair16 hi lo = word_of_int (or (push_bit 8 hi) lo)"

definition mixed_id_encode :: "string option \<Rightarrow> string option \<Rightarrow> int \<Rightarrow> nat \<Rightarrow> string option" where
  "mixed_id_encode idt ip port out_size = (case (idt, ip) of
      (Some idt, Some ip) \<Rightarrow>
        if out_size = 0 then None
        else if inet_pton4 ip = None then None
        else (case scan_quad ip of
            None \<Rightarrow> None
          | Some (o0, o1, o2, o3) \<Rightarrow>
              let id_num = atoi (clean_id idt) in
              if id_num \<le> 0 \<or> id_num > 999 then None
              else Some (snprintf_into out_size
                (print_quad id_num (uint (pair16 o0 o1)) (uint (pair16 o2 o3)) port)))
    | _ \<Rightarrow> None)"

text \<open>The address of two pairs; \<open>>> 8\<close> of a negative \<open>int\<close> is arithmetic.\<close>

definition pairs_ip :: "int \<Rightarrow> int \<Rightarrow> string" where
  "pairs_ip pair1 pair2 =
     print_quad (drop_bit 8 pair1) (and pair1 255) (drop_bit 8 pair2) (and pair2 255)"

definition mixed_id_decode :: "string option \<Rightarrow> (string \<times> string \<times> int) option" where
  "mixed_id_decode mixed = do {
     mixed \<leftarrow> mixed;
     (id_num, pair1, pair2, port) \<leftarrow> scan_quad mixed;
     if id_num \<le> 0 \<or> id_num > 999 then None
     else if port \<le> 0 \<or> port > 65535 then None
     else Some (snprintf_into 16 (dec_int id_num), snprintf_into INET_ADDRSTRLEN (pairs_ip pair1 pair2), port) }"

definition mixed_id_is_valid :: "string option \<Rightarrow> bool" where
  "mixed_id_is_valid mixed = (case mixed_id_decode mixed of
      None \<Rightarrow> False
    | Some (idt, ip, port) \<Rightarrow>
        let id_num = atoi idt in
        if id_num \<le> 0 \<or> id_num > 999 then False
        else if port \<le> 0 \<or> port > 65535 then False
        else inet_pton4 ip \<noteq> None)"

definition mixed_id_is_id :: "string option \<Rightarrow> bool" where
  "mixed_id_is_id input = (case input of
      None \<Rightarrow> False
    | Some s \<Rightarrow> (\<forall>c \<in> set s. is_digit c) \<and> (let num = atoi s in num > 0 \<and> num \<le> 999))"

definition mixed_id_is_ip :: "string option \<Rightarrow> bool" where
  "mixed_id_is_ip input = (case input of None \<Rightarrow> False | Some s \<Rightarrow> inet_pton4 s \<noteq> None)"

definition mixed_id_detect_type :: "string option \<Rightarrow> MixedType" where
  "mixed_id_detect_type input = (case input of
      None \<Rightarrow> MIXED_TYPE_UNKNOWN
    | Some s \<Rightarrow>
        let dots = length (filter (\<lambda>c. c = CHR ''.'') s) in
        if dots = 3 \<and> mixed_id_is_valid input then MIXED_TYPE_MIXED
        else if dots = 3 \<and> mixed_id_is_ip input then MIXED_TYPE_IP
        else if mixed_id_is_id input then MIXED_TYPE_ID
        else if mixed_id_is_ip input then MIXED_TYPE_IP
        else MIXED_TYPE_UNKNOWN)"

definition mixed_id_auto_parse ::
    "nat \<Rightarrow> string option \<Rightarrow> (string \<times> string \<times> int) option option" where
  "mixed_id_auto_parse id_cap input = (case input of
      None \<Rightarrow> Some None
    | Some s \<Rightarrow> (case mixed_id_detect_type input of
        MIXED_TYPE_MIXED \<Rightarrow> Some (mixed_id_decode input)
      | MIXED_TYPE_ID \<Rightarrow> do {
          idt \<leftarrow> strcpy_into id_cap s;
          Some (Some (idt, ''0.0.0.0'', 0)) }
      | MIXED_TYPE_IP \<Rightarrow> do {
          ip \<leftarrow> strcpy_into INET_ADDRSTRLEN s;
          Some (Some ('''', ip, 9000)) }
      | _ \<Rightarrow> Some None))"

definition mixed_id_extract_id :: "string option \<Rightarrow> nat \<Rightarrow> string option" where
  "mixed_id_extract_id mixed sz = (if sz = 0 then None else do {
     mixed \<leftarrow> mixed; (id_num, _) \<leftarrow> scan_quad mixed;
     Some (snprintf_into sz (dec_int id_num)) })"

definition mixed_id_extract_ip :: "string option \<Rightarrow> nat \<Rightarrow> string option" where
  "mixed_id_extract_ip mixed sz = (if sz = 0 then None else do {
     mixed \<leftarrow> mixed; (_, pair1, pair2, _) \<leftarrow> scan_quad mixed;
     Some (snprintf_into sz (pairs_ip pair1 pair2)) })"

definition mixed_id_extract_port :: "string option \<Rightarrow> int option" where
  "mixed_id_extract_port mixed = do {
     mixed \<leftarrow> mixed; (_, _, _, port) \<leftarrow> scan_quad mixed; Some port }"

text \<open>The return code and the text written into \<open>desc\<close>.\<close>

definition mixed_id_describe :: "string option \<Rightarrow> nat \<Rightarrow> int \<times> string option" where
  "mixed_id_describe mixed sz = (case mixed of
      None \<Rightarrow> (-1, None)
    | Some m \<Rightarrow>
        if sz = 0 then (-1, None)
        else (case mixed_id_decode mixed of
            None \<Rightarrow> (-1, Some (snprintf_into sz (''Invalid Mixed ID: '' @ m)))
          | Some (idt, ip, port) \<Rightarrow>
              (0, Some (snprintf_into sz
                (''ID: '' @ idt @ '', IP: '' @ ip @ '', Port: '' @ dec_int port)))))"

section \<open>Texts that \<open>inet_pton\<close> accepts are the printed ones\<close>

lemma dec_nat_dec_val:
  assumes "\<And>c. c \<in> set ds \<Longrightarrow> is_digit c" and "ds \<noteq> []" and "length ds = 1 \<or> hd ds \<noteq> CHR ''0''"
  shows "dec_nat (dec_val ds) = ds"
  using assms
proof (induction ds rule: rev_induct)
  case Nil
  then show ?case by simp
next
  case (snoc c ds)
  have c: "is_digit c" "digit_val c < 10" using snoc.prems(1) digit_val_less by auto
  show ?case
  proof (cases "ds = []")
    case True
    then show ?thesis using c by (subst dec_nat.simps) (simp add: dec_val_def digit_char_val)
  next
    case False
    with snoc.prems(3) have h: "hd ds \<noteq> CHR ''0''" by simp
    have IH: "dec_nat (dec_val ds) = ds" using snoc.IH snoc.prems(1) False h by simp
    have "dec_val ds \<noteq> 0"
    proof
      assume "dec_val ds = 0"
      then have "ds = dec_nat 0" using IH by simp
      also have "\<dots> = ''0''" by (subst dec_nat.simps) (simp add: digit_char_def char_of_eq_iff)
      finally show False using h by simp
    qed
    then show ?thesis
      using c IH by (subst dec_nat.simps) (simp add: dec_val_snoc digit_char_val)
  qed
qed

lemma octet_SomeD: "octet p = Some n \<Longrightarrow> p = dec_nat n"
  using dec_nat_dec_val [of p] by (auto simp: octet_def split: if_splits)

fun join_dots :: "string list \<Rightarrow> string" where
  "join_dots [] = []"
| "join_dots [p] = p"
| "join_dots (p # ps) = p @ CHR ''.'' # join_dots ps"

lemma join_dots_Cons: "ps \<noteq> [] \<Longrightarrow> join_dots (p # ps) = p @ CHR ''.'' # join_dots ps"
  by (cases ps) auto

lemma split_dots_nonempty [simp]: "split_dots s \<noteq> []"
  by (induction s) (auto split: list.splits)

lemma join_split_dots: "join_dots (split_dots s) = s"
proof (induction s)
  case Nil
  then show ?case by simp
next
  case (Cons c s)
  then show ?case
    by (cases "split_dots s"; cases "tl (split_dots s)") (auto simp: join_dots_Cons)
qed

lemma inet_pton4_SomeD:
  assumes "inet_pton4 s = Some (a, b, c, d)"
  shows "s = dotted a b c d"
proof -
  from assms obtain p q r t where "split_dots s = [p, q, r, t]"
    and "octet p = Some a" "octet q = Some b" "octet r = Some c" "octet t = Some d"
    by (auto simp: inet_pton4_def split: list.splits Option.bind_splits)
  then have "s = join_dots [dec_nat a, dec_nat b, dec_nat c, dec_nat d]"
    using join_split_dots [of s] octet_SomeD by metis
  then show ?thesis by (simp add: dotted_def)
qed

section \<open>Scanning what was printed\<close>

lemma scan_quad_print:
  assumes "int_range a" "int_range b" "int_range c" "int_range d"
  shows "scan_quad (print_quad a b c d) = Some (a, b, c, d)"
  using scan_d_dec [of "[]" d] assms by (simp add: scan_quad_def print_quad_def scan_d_dec)

lemma dotted_print_quad: "dotted a b c d = print_quad (int a) (int b) (int c) (int d)"
  by (simp add: dotted_def print_quad_def dec_int_nat)

lemma octet_int_range: "n \<le> 255 \<Longrightarrow> int_range (int n)"
  by (simp add: int_range_def)

lemma scan_quad_dotted:
  "a \<le> 255 \<Longrightarrow> b \<le> 255 \<Longrightarrow> c \<le> 255 \<Longrightarrow> d \<le> 255 \<Longrightarrow>
   scan_quad (dotted a b c d) = Some (int a, int b, int c, int d)"
  by (simp add: dotted_print_quad scan_quad_print octet_int_range)

section \<open>The 16-bit pairs\<close>

lemma or_shifted_octet: "lo \<le> 255 \<Longrightarrow> or (push_bit 8 (int hi)) (int lo) = 256 * int hi + int lo"
proof -
  assume "lo \<le> 255"
  then have lo: "int lo = take_bit 8 (int lo)" by (simp add: take_bit_eq_mod)
  have "and (push_bit 8 (int hi)) (take_bit 8 (int lo)) = 0"
    by (rule bit_eqI) (auto simp: bit_simps)
  then have "and (push_bit 8 (int hi)) (int lo) = 0" by (simp flip: lo)
  then show ?thesis
    using plus_and_or [of "push_bit 8 (int hi)" "int lo"] by (simp add: push_bit_eq_mult)
qed

lemma uint_pair16:
  assumes "hi \<le> 255" and "lo \<le> 255"
  shows "uint (pair16 (int hi) (int lo)) = 256 * int hi + int lo"
proof -
  have "uint (pair16 (int hi) (int lo)) = (256 * int hi + int lo) mod 2 ^ 16"
    unfolding pair16_def or_shifted_octet [OF assms(2)] uint_word_of_int by simp
  then show ?thesis using assms by simp
qed

lemma pairs_ip_octets:
  assumes "b \<le> 255" and "d \<le> 255"
  shows "pairs_ip (256 * int a + int b) (256 * int c + int d) = dotted a b c d"
proof -
  have "and v 255 = v mod 256" for v :: int
    using take_bit_eq_mask [of 8 v] by (simp add: mask_eq_exp_minus_1 take_bit_eq_mod)
  with assms show ?thesis
    by (simp add: pairs_ip_def drop_bit_eq_div dotted_print_quad)
qed

lemma dotted_length:
  assumes "a \<le> 255" "b \<le> 255" "c \<le> 255" "d \<le> 255"
  shows "length (dotted a b c d) < INET_ADDRSTRLEN"
proof -
  have "n \<le> 255 \<Longrightarrow> length (dec_nat n) \<le> 3" for n
    using length_dec_nat_le [of n 3] by simp
  from this [OF assms(1)] this [OF assms(2)] this [OF assms(3)] this [OF assms(4)]
  show ?thesis by (simp add: dotted_def INET_ADDRSTRLEN_def)
qed

section \<open>Encoding and decoding\<close>

lemma encode_quad:
  assumes ip: "inet_pton4 ip = Some (a, b, c, d)" and n: "atoi (clean_id idt) = int n" "1 \<le> n" "n \<le> 999"
    and sz: "0 < sz"
  shows "mixed_id_encode (Some idt) (Some ip) port sz
    = Some (snprintf_into sz (print_quad (int n) (256 * int a + int b) (256 * int c + int d) port))"
proof -
  have o: "a \<le> 255" "b \<le> 255" "c \<le> 255" "d \<le> 255" using inet_pton4_bound [OF ip] by auto
  have "scan_quad ip = Some (int a, int b, int c, int d)"
    using inet_pton4_SomeD [OF ip] scan_quad_dotted [OF o] by simp
  then show ?thesis
    using ip n sz o by (simp add: mixed_id_encode_def uint_pair16)
qed

lemma decode_quad:
  assumes "a \<le> 255" "b \<le> 255" "c \<le> 255" "d \<le> 255" and "1 \<le> n" "n \<le> 999" and "int_range port"
  shows "mixed_id_decode (Some (print_quad (int n) (256 * int a + int b) (256 * int c + int d) port))
    = (if 1 \<le> port \<and> port \<le> 65535 then Some (dec_nat n, dotted a b c d, port) else None)"
proof -
  have r: "int_range (int n)" "int_range (256 * int a + int b)" "int_range (256 * int c + int d)"
    using assms by (simp_all add: int_range_def)
  have "length (dec_nat n) \<le> 3" using length_dec_nat_le [of n 3] assms by simp
  then show ?thesis
    using assms dotted_length [OF assms(1-4)]
    by (simp add: mixed_id_decode_def scan_quad_print r pairs_ip_octets snprintf_into_fits dec_int_nat)
qed

lemma length_dec_int_octets:
  assumes "a \<le> 255" "b \<le> 255"
  shows "length (dec_int (256 * int a + int b)) \<le> 5"
proof -
  have "256 * int a + int b = int (256 * a + b)" by simp
  then have "dec_int (256 * int a + int b) = dec_nat (256 * a + b)" by (metis dec_int_nat)
  then show ?thesis using assms length_dec_nat_le [of "256 * a + b" 5] by simp
qed

text \<open>
  Encoding a peer number (brackets allowed), an IPv4 address and a port into a buffer large
  enough succeeds, and the text decodes to the number, the address and the port, provided the
  port is one: the encoder does not look at the port, and the decoder refuses what it made of a
  port outside 1 to 65535.
\<close>

theorem mixed_id_decode_encode:
  assumes "inet_pton4 ip = Some (a, b, c, d)" and "atoi (clean_id idt) = int n" "1 \<le> n" "n \<le> 999"
    and "int_range port" and "17 + length (dec_int port) < sz"
  shows "\<exists>mixed. mixed_id_encode (Some idt) (Some ip) port sz = Some mixed
    \<and> mixed_id_decode (Some mixed)
        = (if 1 \<le> port \<and> port \<le> 65535 then Some (dec_nat n, ip, port) else None)"
proof -
  have o: "a \<le> 255" "b \<le> 255" "c \<le> 255" "d \<le> 255" using inet_pton4_bound [OF assms(1)] by auto
  have ip: "ip = dotted a b c d" by (rule inet_pton4_SomeD [OF assms(1)])
  let ?m = "print_quad (int n) (256 * int a + int b) (256 * int c + int d) port"
  have "length (dec_nat n) \<le> 3" using length_dec_nat_le [of n 3] assms by simp
  then have "length ?m < sz"
    using assms(6) length_dec_int_octets [OF o(1,2)] length_dec_int_octets [OF o(3,4)]
    by (simp add: print_quad_def dec_int_nat)
  then show ?thesis
    using encode_quad [OF assms(1-4), of sz port] decode_quad [OF o assms(3-5)] assms(6)
    by (simp add: ip snprintf_into_fits)
qed

lemma sample_number: "atoi (clean_id ''<255>'') = int 255"
proof -
  have "dec_nat 255 = clean_id ''<255>''"
    by (simp add: clean_id_def dec_nat.simps digit_char_def char_of_eq_iff)
  then show ?thesis using atoi_dec_nat [of 255] by simp
qed

lemma sample_address: "inet_pton4 ''192.168.1.2'' = Some (192, 168, 1, 2)"
  by (simp add: inet_pton4_def octet_def is_digit_def dec_val_def digit_val_def)

theorem mixed_id_decode_encode_witness:
  "\<exists>mixed. mixed_id_encode (Some ''<255>'') (Some ''192.168.1.2'') 9000 64 = Some mixed
    \<and> mixed_id_decode (Some mixed) = Some (dec_nat 255, ''192.168.1.2'', 9000)"
proof -
  have "length (dec_int 9000) \<le> 4"
    using length_dec_nat_le [of 9000 4] dec_int_nat [of 9000] by simp
  then show ?thesis
    using mixed_id_decode_encode [OF sample_address sample_number, of 9000 64] by (simp add: int_range_def)
qed

section \<open>What is a valid mixed ID, and what a typed text is taken for\<close>

lemma atoi_id: "0 < v \<Longrightarrow> v \<le> 999 \<Longrightarrow> atoi (snprintf_into 16 (dec_int v)) = v"
proof -
  assume v: "0 < v" "v \<le> 999"
  then obtain n where n: "v = int n" "n \<le> 999" by (metis zero_less_imp_eq_int of_nat_le_iff of_nat_numeral)
  then have "length (dec_nat n) \<le> 3" using length_dec_nat_le [of n 3] by simp
  then show ?thesis using n by (simp add: dec_int_nat snprintf_into_fits atoi_dec_nat)
qed

lemma octets_of_pair:
  assumes "0 \<le> v" "v \<le> 65535"
  obtains a b where "v = 256 * int a + int b" "a \<le> 255" "b \<le> 255"
proof -
  have "v = 256 * int (nat (v div 256)) + int (nat (v mod 256))" using assms by (simp add: pos_imp_zdiv_nonneg_iff)
  moreover have "nat (v div 256) \<le> 255" "nat (v mod 256) \<le> 255" using assms by auto
  ultimately show thesis by (rule that)
qed

lemma scan_step_eq:
  assumes "dec_int x @ CHR ''.'' # s = dec_nat a @ CHR ''.'' # t"
  shows "x = int a \<and> s = t"
proof -
  have "scan_num (dec_int x @ CHR ''.'' # s) = Some (x, CHR ''.'' # s)"
    "scan_num (dec_nat a @ CHR ''.'' # t) = Some (int a, CHR ''.'' # t)"
    by (simp_all add: scan_num_dec_int scan_num_dec_nat)
  with assms show ?thesis by simp
qed

lemma print_quad_prefix:
  assumes "print_quad x y z w = dotted a b c d @ r"
  shows "x = int a \<and> y = int b \<and> z = int c"
proof -
  from assms have "dec_int x @ CHR ''.'' # (dec_int y @ CHR ''.'' # (dec_int z @ CHR ''.'' # dec_int w))
      = dec_nat a @ CHR ''.'' # (dec_nat b @ CHR ''.'' # (dec_nat c @ CHR ''.'' # (dec_nat d @ r)))"
    by (simp add: print_quad_def dotted_def)
  then show ?thesis using scan_step_eq by blast
qed

lemma mixed_id_is_valid_quad:
  assumes "scan_quad s = Some (n, p1, p2, port)"
  shows "mixed_id_is_valid (Some s)
    \<longleftrightarrow> 1 \<le> n \<and> n \<le> 999 \<and> p1 \<in> {0..65535} \<and> p2 \<in> {0..65535} \<and> 1 \<le> port \<and> port \<le> 65535"
proof (cases "1 \<le> n \<and> n \<le> 999 \<and> 1 \<le> port \<and> port \<le> 65535")
  case False
  then show ?thesis using assms by (auto simp: mixed_id_is_valid_def mixed_id_decode_def)
next
  case True
  let ?ip = "snprintf_into INET_ADDRSTRLEN (pairs_ip p1 p2)"
  have v: "mixed_id_is_valid (Some s) \<longleftrightarrow> inet_pton4 ?ip \<noteq> None"
    using assms True by (simp add: mixed_id_is_valid_def mixed_id_decode_def atoi_id)
  have "inet_pton4 ?ip \<noteq> None \<longleftrightarrow> p1 \<in> {0..65535} \<and> p2 \<in> {0..65535}"
  proof
    assume "inet_pton4 ?ip \<noteq> None"
    then obtain a b c d where ip: "inet_pton4 ?ip = Some (a, b, c, d)" by auto
    have "pairs_ip p1 p2 = dotted a b c d @ drop (INET_ADDRSTRLEN - 1) (pairs_ip p1 p2)"
      using inet_pton4_SomeD [OF ip] unfolding snprintf_into_def by (metis append_take_drop_id)
    then have "drop_bit 8 p1 = int a" "drop_bit 8 p2 = int c"
      unfolding pairs_ip_def using print_quad_prefix by blast+
    then show "p1 \<in> {0..65535} \<and> p2 \<in> {0..65535}"
      using inet_pton4_bound [OF ip] by (auto simp: drop_bit_eq_div)
  next
    assume "p1 \<in> {0..65535} \<and> p2 \<in> {0..65535}"
    then have r: "0 \<le> p1" "p1 \<le> 65535" "0 \<le> p2" "p2 \<le> 65535" by auto
    obtain a b where ab: "p1 = 256 * int a + int b" "a \<le> 255" "b \<le> 255" using octets_of_pair r(1,2) by blast
    obtain c d where cd: "p2 = 256 * int c + int d" "c \<le> 255" "d \<le> 255" using octets_of_pair r(3,4) by blast
    show "inet_pton4 ?ip \<noteq> None"
      using ab cd by (simp add: pairs_ip_octets snprintf_into_fits dotted_length inet_pton4_dotted)
  qed
  with v True show ?thesis by auto
qed

text \<open>
  The validation accepts exactly the texts whose four numbers are a peer number, two 16-bit
  pairs and a port; the decoder by itself never looks at the pairs.
\<close>

theorem mixed_id_is_valid_iff:
  "mixed_id_is_valid (Some s) \<longleftrightarrow> (\<exists>n p1 p2 port. scan_quad s = Some (n, p1, p2, port)
    \<and> 1 \<le> n \<and> n \<le> 999 \<and> p1 \<in> {0..65535} \<and> p2 \<in> {0..65535} \<and> 1 \<le> port \<and> port \<le> 65535)"
proof (cases "scan_quad s")
  case None
  then show ?thesis by (simp add: mixed_id_is_valid_def mixed_id_decode_def)
next
  case (Some q)
  then obtain n p1 p2 port where q: "scan_quad s = Some (n, p1, p2, port)" by (cases q) auto
  show ?thesis unfolding mixed_id_is_valid_quad [OF q] q by auto
qed

lemma dots_dotted: "length (filter (\<lambda>c. c = CHR ''.'') (dotted a b c d)) = 3"
proof -
  have "filter (\<lambda>c. c = CHR ''.'') (dec_nat n) = []" for n
    by (auto simp: filter_empty_conv)
  then show ?thesis by (simp add: dotted_def)
qed

text \<open>
  Every dotted IPv4 address whose first and last octets are not zero, such as
  \<open>192.168.1.2\<close>, is taken for a mixed ID and not for an address: parsing it yields the first
  octet as the peer number, the last octet as the port and an address the user never typed.
\<close>

theorem dotted_address_detected_as_mixed:
  assumes "1 \<le> a" "a \<le> 255" "b \<le> 255" "c \<le> 255" "1 \<le> d" "d \<le> 255"
  shows "mixed_id_is_ip (Some (dotted a b c d))
    \<and> mixed_id_detect_type (Some (dotted a b c d)) = MIXED_TYPE_MIXED
    \<and> mixed_id_auto_parse cap (Some (dotted a b c d)) = Some (Some (dec_nat a, dotted 0 b 0 c, int d))"
proof -
  have q: "scan_quad (dotted a b c d) = Some (int a, int b, int c, int d)"
    by (rule scan_quad_dotted) (use assms in auto)
  have v: "mixed_id_is_valid (Some (dotted a b c d))"
    unfolding mixed_id_is_valid_quad [OF q] using assms by auto
  then have t: "mixed_id_detect_type (Some (dotted a b c d)) = MIXED_TYPE_MIXED"
    by (simp add: mixed_id_detect_type_def dots_dotted)
  have "dotted a b c d = print_quad (int a) (256 * int 0 + int b) (256 * int 0 + int c) (int d)"
    by (simp add: dotted_print_quad)
  then have "mixed_id_decode (Some (dotted a b c d)) = Some (dec_nat a, dotted 0 b 0 c, int d)"
    using decode_quad [of 0 b 0 c a "int d"] assms by (simp add: int_range_def)
  with t show ?thesis
    using assms by (simp add: mixed_id_auto_parse_def mixed_id_is_ip_def inet_pton4_dotted)
qed

theorem dotted_address_detected_as_mixed_witness:
  "mixed_id_detect_type (Some ''192.168.1.2'') = MIXED_TYPE_MIXED
   \<and> mixed_id_auto_parse 16 (Some ''192.168.1.2'') = Some (Some (dec_nat 192, dotted 0 168 0 1, 2))"
  using dotted_address_detected_as_mixed [of 192 168 1 2 16] inet_pton4_SomeD [OF sample_address] by simp

end
