(* ===== verification/P2P_Manager.thy ===== *)
theory P2P_Manager
  imports Aes_Gcm Nat_Classifier Event_Effects
begin

text \<open>
  \<^verbatim>\<open>p2p_manager.c\<close>: the table of connections, the packets on the wire, the handlers of
  received packets, the listener and the keepalive pass.  The handlers call the state manager,
  push events and use the crypto wrappers, so their state \<open>p2p\<close> contains the \<open>world\<close> of the
  event loop and the crypto state.

  What the system answers during one operation is the record \<open>p2p_env\<close>: the clock, the results
  of sockets, \<open>malloc\<close> and the DHT lookup, random bytes, the identity read from disk, and the
  bytes left on the stack.  A \<open>P2PPeer *\<close> is an index into the table.  As before \<open>None\<close> is
  an access outside a buffer.  \<open>g_p2p_mutex\<close> is not recursive: \<open>pm_locked\<close> says that the
  running thread holds it, and locking it again is \<open>Self_Deadlock\<close>.
\<close>

section \<open>Data\<close>

datatype P2PState =
    P2P_STATE_DISCONNECTED | P2P_STATE_CONNECTING | P2P_STATE_HANDSHAKE | P2P_STATE_SECURE
  | P2P_STATE_ESTABLISHED

fun p2p_state_code :: "P2PState \<Rightarrow> int" where
  "p2p_state_code P2P_STATE_DISCONNECTED = 0"
| "p2p_state_code P2P_STATE_CONNECTING = 1"
| "p2p_state_code P2P_STATE_HANDSHAKE = 2"
| "p2p_state_code P2P_STATE_SECURE = 3"
| "p2p_state_code P2P_STATE_ESTABLISHED = 4"

definition P2P_MAX_PEERS :: nat where "P2P_MAX_PEERS = 256"
definition P2P_PORT :: int where "P2P_PORT = 9000"
definition P2P_KEEPALIVE_INTERVAL :: int where "P2P_KEEPALIVE_INTERVAL = 30"
definition P2P_MAGIC :: "32 word" where "P2P_MAGIC = 0x4F524341"
definition P2P_PROTOCOL_VERSION :: byte where "P2P_PROTOCOL_VERSION = 1"

definition P2P_MSG_TYPE_HANDSHAKE :: byte where "P2P_MSG_TYPE_HANDSHAKE = 1"
definition P2P_MSG_TYPE_HANDSHAKE_RESPONSE :: byte where "P2P_MSG_TYPE_HANDSHAKE_RESPONSE = 2"
definition P2P_MSG_TYPE_DATA :: byte where "P2P_MSG_TYPE_DATA = 3"
definition P2P_MSG_TYPE_KEEPALIVE :: byte where "P2P_MSG_TYPE_KEEPALIVE = 4"
definition P2P_MSG_TYPE_CLOSE :: byte where "P2P_MSG_TYPE_CLOSE = 5"
definition P2P_MSG_TYPE_ADD_REQUEST :: byte where "P2P_MSG_TYPE_ADD_REQUEST = 6"
definition P2P_MSG_TYPE_ACCEPT_CONFIRM :: byte where "P2P_MSG_TYPE_ACCEPT_CONFIRM = 7"
definition P2P_MSG_TYPE_REJECT_CONFIRM :: byte where "P2P_MSG_TYPE_REJECT_CONFIRM = 8"

lemmas p2p_types = P2P_MSG_TYPE_HANDSHAKE_def P2P_MSG_TYPE_HANDSHAKE_RESPONSE_def
  P2P_MSG_TYPE_DATA_def P2P_MSG_TYPE_KEEPALIVE_def P2P_MSG_TYPE_CLOSE_def
  P2P_MSG_TYPE_ADD_REQUEST_def P2P_MSG_TYPE_ACCEPT_CONFIRM_def P2P_MSG_TYPE_REJECT_CONFIRM_def

record P2PPeer =
  pp_id :: string
  pp_ip :: string
  pp_port :: int
  pp_state :: P2PState
  pp_udp_socket :: int
  pp_addr :: "string \<times> 16 word"
  pp_shared_secret :: "byte list"
  pp_aes_key :: "byte list"
  pp_send_nonce :: "64 word"
  pp_recv_nonce :: "64 word"
  pp_last_activity :: int
  pp_created_at :: int
  pp_is_secure :: bool
  pp_is_initiator :: bool
  pp_retry_count :: int
  pp_nat_type :: NATType
  pp_has_ipv6 :: bool
  pp_ipv6 :: string
  pp_public_key :: string

text \<open>
  \<open>pm_peers\<close> is the used prefix of \<open>g_peers\<close>: a cell is cleared when it is taken, so the
  cells beyond \<open>g_peer_count\<close> do not matter.  \<open>pm_sent\<close> lists the datagrams sent, with the
  socket and the destination.
\<close>

record p2p =
  pm_peers :: "P2PPeer list"
  pm_socket :: int
  pm_port :: int
  pm_local_ip :: string
  pm_nat_type :: NATType
  pm_has_ipv6 :: bool
  pm_has_upnp :: bool
  pm_initialized :: bool
  pm_listener_running :: bool
  pm_keepalive_running :: bool
  pm_locked :: bool
  pm_closed :: "int list"
  pm_sent :: "(int \<times> (string \<times> 16 word) \<times> byte list) list"
  pm_world :: world
  pm_crypto :: cstate

record identity =
  idn_id :: string
  idn_name :: string
  idn_public_key :: string
  idn_private_key_encrypted :: string

record p2p_env =
  x_clk :: clock
  x_malloc :: bool
  x_send :: bool
  x_pad :: "byte list"                         \<comment> \<open>the two padding bytes of the header\<close>
  x_identity :: "identity option"              \<comment> \<open>what \<open>orca_identity_load\<close> read\<close>
  x_ssl :: ssl
  x_ok :: outcomes
  x_priv :: "byte list"                        \<comment> \<open>the private key OpenSSL generates\<close>
  x_random :: "byte list"
  x_stack :: "byte list"                       \<comment> \<open>what an unwritten buffer holds\<close>
  x_pid :: int
  x_socket :: int
  x_bind :: bool
  x_dht :: "bool \<times> bool \<times> (string \<times> int) option"  \<comment> \<open>created, started, found\<close>
  x_punch :: int
  x_local_ip :: "string option"
  x_ipv6 :: bool
  x_upnp :: bool
  x_nat :: NATType

definition at_time :: "nat \<Rightarrow> p2p_env \<Rightarrow> p2p_env" where
  "at_time k env = env\<lparr>x_clk := clk_after k (x_clk env)\<rparr>"

definition zero_p2p_peer :: P2PPeer where
  "zero_p2p_peer = \<lparr>pp_id = [], pp_ip = [], pp_port = 0, pp_state = P2P_STATE_DISCONNECTED,
     pp_udp_socket = 0, pp_addr = ([], 0), pp_shared_secret = replicate 32 0,
     pp_aes_key = replicate 32 0, pp_send_nonce = 0, pp_recv_nonce = 0, pp_last_activity = 0,
     pp_created_at = 0, pp_is_secure = False, pp_is_initiator = False, pp_retry_count = 0,
     pp_nat_type = NAT_UNKNOWN, pp_has_ipv6 = False, pp_ipv6 = [], pp_public_key = []\<rparr>"

definition upd_peer :: "nat \<Rightarrow> (P2PPeer \<Rightarrow> P2PPeer) \<Rightarrow> p2p \<Rightarrow> p2p" where
  "upd_peer i f st = st\<lparr>pm_peers := (pm_peers st)[i := f (pm_peers st ! i)]\<rparr>"

definition on_mgr :: "(mgr \<Rightarrow> int \<times> mgr) \<Rightarrow> p2p \<Rightarrow> p2p" where
  "on_mgr f st = st\<lparr>pm_world := (pm_world st)\<lparr>w_mgr := snd (f (w_mgr (pm_world st)))\<rparr>\<rparr>"

definition on_mgr_opt :: "(mgr \<Rightarrow> (int \<times> mgr) option) \<Rightarrow> p2p \<Rightarrow> p2p option" where
  "on_mgr_opt f st = do {
     (_, m) \<leftarrow> f (w_mgr (pm_world st));
     Some (st\<lparr>pm_world := (pm_world st)\<lparr>w_mgr := m\<rparr>\<rparr>) }"

definition p2p_push :: "Event \<Rightarrow> p2p \<Rightarrow> p2p" where
  "p2p_push e st = st\<lparr>pm_world := snd (push_event e (pm_world st))\<rparr>"

section \<open>The table\<close>

definition find_peer :: "string \<Rightarrow> p2p \<Rightarrow> nat option" where
  "find_peer pid st = find_index (\<lambda>p. normalize_id 64 (pp_id p) = normalize_id 64 pid) (pm_peers st)"

datatype 'a attempt = Self_Deadlock | Acquired 'a

definition new_peer :: "p2p_env \<Rightarrow> string \<Rightarrow> P2PPeer" where
  "new_peer env norm = zero_p2p_peer\<lparr>pp_id := norm, pp_state := P2P_STATE_DISCONNECTED,
     pp_udp_socket := -1, pp_created_at := x_clk env 0, pp_last_activity := x_clk env 1,
     pp_nat_type := NAT_UNKNOWN,
     pp_send_nonce := xor (word_of_int (x_clk env 2)) (word_of_int (x_pid env)),
     pp_recv_nonce := xor (xor (word_of_int (x_clk env 3)) (word_of_int (x_pid env))) 0xDEADBEEF\<rparr>"

definition add_peer :: "p2p_env \<Rightarrow> string \<Rightarrow> p2p \<Rightarrow> (nat option \<times> p2p) attempt" where
  "add_peer env pid st =
    (if pm_locked st then Self_Deadlock
     else Acquired
       (case find_peer pid st of
          Some i \<Rightarrow> (Some i, st)
        | None \<Rightarrow>
            if P2P_MAX_PEERS \<le> length (pm_peers st) then (None, st)
            else (Some (length (pm_peers st)),
                  st\<lparr>pm_peers := pm_peers st @ [new_peer env (normalize_id 64 pid)]\<rparr>)))"

definition create_udp_socket :: "p2p_env \<Rightarrow> p2p \<Rightarrow> int \<times> p2p" where
  "create_udp_socket env st =
    (if x_socket env < 0 then (-1, st)
     else if \<not> x_bind env then (-1, st\<lparr>pm_closed := x_socket env # pm_closed st\<rparr>)
     else (x_socket env, st))"

definition close_peer_socket :: "nat \<Rightarrow> p2p \<Rightarrow> p2p" where
  "close_peer_socket i st = (upd_peer i (\<lambda>p. p\<lparr>pp_udp_socket := -1\<rparr>) st)
     \<lparr>pm_closed := pp_udp_socket (pm_peers st ! i) # pm_closed st\<rparr>"


section \<open>Sending\<close>

text \<open>
  \<open>P2PMessage\<close> in memory: magic, version, type, two bytes of padding, sequence, timestamp,
  payload length, payload; little-endian, 20 bytes before the payload.
\<close>

definition P2P_HEADER :: nat where "P2P_HEADER = 20"

definition p2p_message :: "byte list \<Rightarrow> byte \<Rightarrow> 32 word \<Rightarrow> 32 word \<Rightarrow> byte list \<Rightarrow> byte list" where
  "p2p_message pad ty sequence timestamp payload =
     le32 P2P_MAGIC @ [P2P_PROTOCOL_VERSION, ty] @ take 2 (pad @ [0, 0]) @ le32 sequence @ le32 timestamp
     @ le32 (of_nat (length payload)) @ payload"

definition send_message :: "p2p_env \<Rightarrow> nat option \<Rightarrow> byte \<Rightarrow> byte list \<Rightarrow> p2p \<Rightarrow> int \<times> p2p" where
  "send_message env peer ty payload st = (case peer of
      None \<Rightarrow> (-1, st)
    | Some i \<Rightarrow>
        let p = pm_peers st ! i in
        if pp_udp_socket p < 0 then (-1, st)
        else if pp_state p \<noteq> P2P_STATE_ESTABLISHED \<and> ty \<noteq> P2P_MSG_TYPE_HANDSHAKE
            \<and> ty \<noteq> P2P_MSG_TYPE_HANDSHAKE_RESPONSE then (-1, st)
        else if \<not> x_malloc env then (-1, st)
        else if \<not> x_send env then (-1, st)
        else (0, upd_peer i (\<lambda>p. p\<lparr>pp_last_activity := x_clk env 2\<rparr>)
          (st\<lparr>pm_sent := pm_sent st @ [(pp_udp_socket p, pp_addr p,
             p2p_message (x_pad env) ty (word_of_int (x_clk env 0)) (word_of_int (x_clk env 1)) payload)]\<rparr>)))"

definition bar :: byte where "bar = 0x7C"

text \<open>The payload of a handshake, in an array of 4096 bytes: id, public key, signature.\<close>

definition send_handshake :: "p2p_env \<Rightarrow> nat \<Rightarrow> p2p \<Rightarrow> (int \<times> p2p) option" where
  "send_handshake env i st = (case x_identity env of
      None \<Rightarrow> Some (-1, st)
    | Some idn \<Rightarrow> do {
        let handshake_data = snprintf_into 4096 (idn_id idn @ ''|'' @ idn_name idn @ ''|'' @ idn_public_key idn
              @ ''|'' @ dec_int (x_clk env 0));
        payload \<leftarrow> memcpy_into 4096 [] (string_bytes (idn_id idn) @ [bar]);
        payload \<leftarrow> memcpy_into 4096 payload (string_bytes (idn_public_key idn) @ [bar]);
        let (signature, c) = orca_rsa_sign_string True (x_ok env) (x_ssl env) (Some handshake_data)
              (Some (idn_private_key_encrypted idn)) (pm_crypto st);
        let st = st\<lparr>pm_crypto := c\<rparr>;
        (case signature of
           None \<Rightarrow> Some (-1, st)
         | Some sg \<Rightarrow> do {
             payload \<leftarrow> memcpy_into 4096 payload (string_bytes sg);
             let st = st\<lparr>pm_crypto := free_res [MEM ''base64''] (pm_crypto st)\<rparr>;
             Some (send_message (at_time 1 env) (Some i) P2P_MSG_TYPE_HANDSHAKE payload st) }) })"

text \<open>
  A fresh key pair, the peer's public key as hexadecimal text, a random salt that the other
  side never sees, and ten of the eleven characters of the label.  The result of
  \<open>orca_random_bytes\<close> is not checked.
\<close>

definition generate_session_keys :: "p2p_env \<Rightarrow> nat \<Rightarrow> p2p \<Rightarrow> (int \<times> p2p) option" where
  "generate_session_keys env i st = (case x_identity env of
      None \<Rightarrow> Some (-1, st)
    | Some _ \<Rightarrow>
      let (pair, c) = orca_x25519_generate_keypair (x_ok env) (x_ssl env) (x_priv env) True (pm_crypto st) in
      case pair of
        None \<Rightarrow> Some (-1, st\<lparr>pm_crypto := c\<rparr>)
      | Some (_, ecdh_priv) \<Rightarrow>
      let (peer_pub, c) = orca_x25519_hex_to_public_key True (Some (pp_public_key (pm_peers st ! i))) c in
      case peer_pub of
        None \<Rightarrow> Some (-1, st\<lparr>pm_crypto := c\<rparr>)
      | Some pub \<Rightarrow>
      let (secret, c) = orca_x25519_compute_shared_secret True (shift 5 (x_ok env)) (x_ssl env) (Some ecdh_priv) (Some pub) c in
      case secret of
        None \<Rightarrow> Some (-1, st\<lparr>pm_crypto := c\<rparr>)
      | Some shared_secret \<Rightarrow>
      let (rnd, c) = orca_random_bytes (shift 11 (x_ok env)) (x_random env) True 16 c;
          salt = (case rnd of None \<Rightarrow> take 16 (x_stack env) | Some b \<Rightarrow> b) in do {
        (key, c) \<leftarrow> orca_aes_gcm_derive_key_from_shared_secret (shift 12 (x_ok env)) (x_ssl env)
          (Some shared_secret) (Some salt) (Some (take 10 (string_bytes ''orcashi-p2p''))) c;
        let st = st\<lparr>pm_crypto := c\<rparr>;
        Some (case key of
            None \<Rightarrow> (-1, st)
          | Some k \<Rightarrow> (0, upd_peer i (\<lambda>p. p\<lparr>pp_aes_key := k, pp_shared_secret := shared_secret\<rparr>) st)) })"

definition establish_secure_channel :: "p2p_env \<Rightarrow> nat \<Rightarrow> p2p \<Rightarrow> (int \<times> p2p) option" where
  "establish_secure_channel env i st = do {
     (rc, st) \<leftarrow> generate_session_keys env i st;
     if rc < 0 then Some (-1, st)
     else Some (send_message env (Some i) P2P_MSG_TYPE_HANDSHAKE_RESPONSE [1] st) }"

section \<open>Received packets\<close>

text \<open>
  The packet lies in an array of 4096 bytes whose rest keeps older bytes.  Texts in it end at
  the next NUL, if there is one before the end of the array.
\<close>

definition c_str :: "byte list \<Rightarrow> byte list option" where
  "c_str bs = (if 0 \<in> set bs then Some (takeWhile (\<lambda>b. b \<noteq> 0) bs) else None)"

text \<open>\<open>strchr\<close>: what is before and after the character, or \<open>Some None\<close> when a NUL comes first.\<close>

fun strchr :: "byte \<Rightarrow> byte list \<Rightarrow> (byte list \<times> byte list) option option" where
  "strchr c [] = None"
| "strchr c (b # bs) =
    (if b = c then Some (Some ([], bs))
     else if b = 0 then Some None
     else map_option (map_option (\<lambda>(x, y). (b # x, y))) (strchr c bs))"

definition msg_payload :: "byte list \<Rightarrow> byte list" where
  "msg_payload buf = drop P2P_HEADER buf"

definition msg_payload_len :: "byte list \<Rightarrow> nat" where
  "msg_payload_len buf = unat (from_le32 (drop 16 buf))"

text \<open>\<open>payload[payload_len] = 0\<close> and the text that then starts at the payload.\<close>

definition payload_text :: "byte list \<Rightarrow> string option" where
  "payload_text buf =
    (if length buf \<le> P2P_HEADER + msg_payload_len buf then None
     else map_option bytes_string (c_str ((msg_payload buf)[msg_payload_len buf := 0])))"

text \<open>The last part of a completed handshake.\<close>

definition handshake_done :: "clock \<Rightarrow> nat \<Rightarrow> p2p \<Rightarrow> (int \<times> p2p) option" where
  "handshake_done clk i st = do {
     let st = upd_peer i (\<lambda>p. p\<lparr>pp_state := P2P_STATE_ESTABLISHED, pp_last_activity := clk 0\<rparr>) st;
     let p = pm_peers st ! i;
     let st = on_mgr (state_update_peer (clk_after 1 clk) (Some (pp_id p)) PEER_FRIEND) st;
     let st = on_mgr (state_set_online (clk_after 3 clk) (Some (pp_id p)) True) st;
     st \<leftarrow> on_mgr_opt (state_set_ip (Some (pp_id p)) (Some (pp_ip p))) st;
     let st = on_mgr (state_set_port (Some (pp_id p)) (pp_port p)) st;
     Some (0, p2p_push (event_create (clk_after 4 clk) EVENT_ACCEPT_CONFIRM (Some (pp_id p))) st) }"

text \<open>After the signature was verified: the peer counts as secure before its keys exist.\<close>

definition accept_handshake :: "p2p_env \<Rightarrow> nat \<Rightarrow> string \<Rightarrow> p2p \<Rightarrow> (int \<times> p2p) option" where
  "accept_handshake env i pubkey st = do {
     key \<leftarrow> strcpy_into 4096 pubkey;
     let st = upd_peer i (\<lambda>p. p\<lparr>pp_public_key := key, pp_is_secure := True\<rparr>) st;
     (rc, st) \<leftarrow> establish_secure_channel ((at_time 1 env)\<lparr>x_ok := shift 5 (x_ok env)\<rparr>) i st;
     if rc < 0 then Some (-1, st) else handshake_done (clk_after 4 (x_clk env)) i st }"

definition handle_handshake :: "p2p_env \<Rightarrow> nat \<Rightarrow> byte list \<Rightarrow> p2p \<Rightarrow> (int \<times> p2p) option" where
  "handle_handshake env i buf st = do {
     r1 \<leftarrow> strchr bar (msg_payload buf);
     (case r1 of None \<Rightarrow> Some (-1, st) | Some (idb, rest) \<Rightarrow> do {
     r2 \<leftarrow> strchr bar rest;
     (case r2 of None \<Rightarrow> Some (-1, st) | Some (pubb, sgb) \<Rightarrow>
     (case x_identity env of None \<Rightarrow> Some (-1, st) | Some idn \<Rightarrow> do {
     signature \<leftarrow> c_str sgb;
     let pubkey = bytes_string pubb;
     let data_to_verify = snprintf_into 4096 (bytes_string idb @ ''|'' @ idn_name idn @ ''|'' @ idn_public_key idn
           @ ''|'' @ dec_int (x_clk env 0));
     let (good, c) = orca_rsa_verify_string (x_ok env) (x_ssl env) (Some data_to_verify)
           (Some (bytes_string signature)) (Some pubkey) (pm_crypto st);
     let st = st\<lparr>pm_crypto := c\<rparr>;
     if \<not> good then Some (-1, st) else accept_handshake env i pubkey st })) }) }"

text \<open>
  Decryption reads the ciphertext only once its context, key and buffer are there; the
  plaintext buffer has one byte more than the ciphertext, for the NUL that \<open>handle_data\<close> adds.
\<close>

definition deliver_text :: "clock \<Rightarrow> nat \<Rightarrow> string \<Rightarrow> p2p \<Rightarrow> p2p option" where
  "deliver_text clk i text st = do {
     let p = pm_peers st ! i;
     from_id \<leftarrow> strcpy_into 64 (pp_id p);
     msg \<leftarrow> strcpy_into 4096 text;
     let st = p2p_push ((event_create clk EVENT_MESSAGE_RECEIVED (Some (pp_id p)))
           \<lparr>ev_from_id := from_id, ev_message := msg\<rparr>) st;
     Some (on_mgr (state_add_message (Some (pp_id p)) (Some text)) st) }"

definition handle_data :: "p2p_env \<Rightarrow> nat \<Rightarrow> byte list \<Rightarrow> p2p \<Rightarrow> (int \<times> p2p) option" where
  "handle_data env i buf st =
    (let p = pm_peers st ! i; len = msg_payload_len buf; clk = x_clk env;
         done = (\<lambda>st. upd_peer i (\<lambda>p. p\<lparr>pp_last_activity := clk 1\<rparr>) st) in
     if pp_is_secure p \<and> len > 28 then
       (if length buf < P2P_HEADER + len \<and> x_ok env 0 \<and> x_ok env 1 \<and> x_ok env 2 then None
        else
          let nonce = take 12 (msg_payload buf); tag = take 16 (drop 12 (msg_payload buf));
              ciphertext = take (len - 28) (drop 28 (msg_payload buf));
              (plaintext, c) = orca_aes_gcm_decrypt (x_ok env) (x_ssl env) (Some ciphertext) (int (len - 28))
                 (Some (pp_aes_key p)) (Some nonce) (Some tag) (pm_crypto st)
          in case plaintext of
               None \<Rightarrow> Some (-1, st\<lparr>pm_crypto := c\<rparr>)
             | Some pt \<Rightarrow> do {
                 let st = st\<lparr>pm_crypto := free_res [MEM ''plaintext''] c\<rparr>;
                 text \<leftarrow> (if length pt \<le> len - 28 then c_str (pt @ [0]) else None);
                 st \<leftarrow> deliver_text clk i (bytes_string text) st;
                 Some (0, done st) })
     else do {
       text \<leftarrow> payload_text buf;
       st \<leftarrow> deliver_text clk i text st;
       Some (0, done st) })"

definition handle_add_request :: "p2p_env \<Rightarrow> nat \<Rightarrow> byte list \<Rightarrow> p2p \<Rightarrow> (int \<times> p2p) option" where
  "handle_add_request env i buf st = do {
     from_id \<leftarrow> payload_text buf;
     let p = pm_peers st ! i;
     let clk = x_clk env;
     let st = on_mgr (state_update_peer clk (Some from_id) PEER_REQUEST_RECEIVED) st;
     st \<leftarrow> on_mgr_opt (state_set_ip (Some from_id) (Some (pp_ip p))) st;
     let st = on_mgr (state_set_port (Some from_id) (pp_port p)) st;
     f \<leftarrow> strcpy_into 64 from_id;
     a \<leftarrow> strcpy_into 16 (pp_ip p);
     Some (0, p2p_push ((event_create (clk_after 2 clk) EVENT_ADD_REQUEST (Some from_id))
       \<lparr>ev_from_id := f, ev_ip := a, ev_port := pp_port p\<rparr>) st) }"

definition handle_accept_confirm :: "p2p_env \<Rightarrow> nat \<Rightarrow> byte list \<Rightarrow> p2p \<Rightarrow> (int \<times> p2p) option" where
  "handle_accept_confirm env i buf st = do {
     from_id \<leftarrow> payload_text buf;
     let p = pm_peers st ! i;
     let clk = x_clk env;
     let st = on_mgr (state_update_peer clk (Some from_id) PEER_FRIEND) st;
     let st = on_mgr (state_set_online (clk_after 2 clk) (Some from_id) True) st;
     st \<leftarrow> on_mgr_opt (state_set_ip (Some from_id) (Some (pp_ip p))) st;
     let st = on_mgr (state_set_port (Some from_id) (pp_port p)) st;
     (_, q, m) \<leftarrow> state_deliver_ghost_messages (clk_after 3 clk) (Some from_id)
        (w_queue (pm_world st)) (w_mgr (pm_world st));
     let st = st\<lparr>pm_world := (pm_world st)\<lparr>w_mgr := m, w_queue := q\<rparr>\<rparr>;
     Some (0, p2p_push (event_create (clk_after 5000 clk) EVENT_ACCEPT_CONFIRM (Some from_id)) st) }"

definition handle_reject_confirm :: "p2p_env \<Rightarrow> nat \<Rightarrow> byte list \<Rightarrow> p2p \<Rightarrow> (int \<times> p2p) option" where
  "handle_reject_confirm env i buf st = do {
     from_id \<leftarrow> payload_text buf;
     let st = on_mgr (state_remove_peer (Some from_id)) st;
     Some (0, p2p_push (event_create (x_clk env) EVENT_REJECT_CONFIRM (Some from_id)) st) }"

definition process_message :: "p2p_env \<Rightarrow> nat option \<Rightarrow> byte list \<Rightarrow> nat \<Rightarrow> p2p \<Rightarrow> (int \<times> p2p) option" where
  "process_message env peer buf msg_len st = (case peer of
      None \<Rightarrow> Some (-1, st)
    | Some i \<Rightarrow>
        let ty = buf ! 5; now = x_clk env 0 in
        if msg_len < P2P_HEADER then Some (-1, st)
        else if from_le32 buf \<noteq> P2P_MAGIC then Some (-1, st)
        else if buf ! 4 \<noteq> P2P_PROTOCOL_VERSION then Some (-1, st)
        else if ty = P2P_MSG_TYPE_HANDSHAKE then handle_handshake env i buf st
        else if ty = P2P_MSG_TYPE_HANDSHAKE_RESPONSE then
          Some (0, upd_peer i (\<lambda>p. p\<lparr>pp_state := P2P_STATE_ESTABLISHED, pp_is_secure := True,
                                     pp_last_activity := now\<rparr>) st)
        else if ty = P2P_MSG_TYPE_DATA then handle_data env i buf st
        else if ty = P2P_MSG_TYPE_KEEPALIVE then Some (0, upd_peer i (\<lambda>p. p\<lparr>pp_last_activity := now\<rparr>) st)
        else if ty = P2P_MSG_TYPE_CLOSE then
          Some (0, upd_peer i (\<lambda>p. p\<lparr>pp_state := P2P_STATE_DISCONNECTED\<rparr>) st)
        else if ty = P2P_MSG_TYPE_ADD_REQUEST then handle_add_request env i buf st
        else if ty = P2P_MSG_TYPE_ACCEPT_CONFIRM then handle_accept_confirm env i buf st
        else if ty = P2P_MSG_TYPE_REJECT_CONFIRM then handle_reject_confirm env i buf st
        else Some (-1, st))"

section \<open>The listener\<close>

text \<open>
  One datagram of the listener thread: \<open>stale\<close> is what the array held before.  The mutex is
  held from the search for the sender to the end, also while \<open>add_peer\<close> is called.
\<close>

definition lock :: "p2p \<Rightarrow> p2p" where "lock st = st\<lparr>pm_locked := True\<rparr>"
definition unlock :: "p2p \<Rightarrow> p2p" where "unlock st = st\<lparr>pm_locked := False\<rparr>"

definition listener_buffer :: "byte list \<Rightarrow> byte list \<Rightarrow> byte list" where
  "listener_buffer stale packet = take 4096 packet @ drop (length packet) stale"

definition sender_index :: "string \<Rightarrow> int \<Rightarrow> p2p \<Rightarrow> nat option" where
  "sender_index ip port st = find_index (\<lambda>p. pp_port p = port \<and> pp_ip p = ip) (pm_peers st)"

definition accept_unknown :: "p2p_env \<Rightarrow> byte list \<Rightarrow> nat \<Rightarrow> string \<Rightarrow> int \<Rightarrow> p2p \<Rightarrow> p2p attempt option" where
  "accept_unknown env buf n ip port st = do {
     r \<leftarrow> strchr bar (msg_payload buf);
     (case r of
        None \<Rightarrow> Some (Acquired st)
      | Some (idb, rest) \<Rightarrow>
          let buf = take P2P_HEADER buf @ idb @ [0] @ rest in
          (case add_peer env (bytes_string idb) st of
             Self_Deadlock \<Rightarrow> Some Self_Deadlock
           | Acquired (None, st) \<Rightarrow> Some (Acquired st)
           | Acquired (Some i, st) \<Rightarrow> do {
               a \<leftarrow> strcpy_into 16 ip;
               let st = upd_peer i (\<lambda>p. p\<lparr>pp_ip := a, pp_port := port, pp_state := P2P_STATE_HANDSHAKE,
                     pp_udp_socket := -1, pp_is_initiator := False, pp_last_activity := x_clk env 4,
                     pp_addr := (ip, word_of_int port)\<rparr>) st;
               (_, st) \<leftarrow> process_message (at_time 5 env) (Some i) buf n st;
               Some (Acquired st) })) }"

definition listener_receive ::
    "p2p_env \<Rightarrow> byte list \<Rightarrow> byte list \<Rightarrow> string \<Rightarrow> int \<Rightarrow> p2p \<Rightarrow> p2p attempt option" where
  "listener_receive env stale packet ip port st =
    (let buf = listener_buffer stale packet; n = min 4096 (length packet) in
     if n < P2P_HEADER then Some (Acquired st)
     else if from_le32 buf \<noteq> P2P_MAGIC then Some (Acquired st)
     else (case sender_index ip port st of
         Some i \<Rightarrow> do { (_, st) \<leftarrow> process_message env (Some i) buf n (lock st); Some (Acquired (unlock st)) }
       | None \<Rightarrow>
           if buf ! 5 = P2P_MSG_TYPE_HANDSHAKE then do {
             r \<leftarrow> accept_unknown env buf n ip port (lock st);
             Some (case r of Self_Deadlock \<Rightarrow> Self_Deadlock | Acquired st \<Rightarrow> Acquired (unlock st)) }
           else Some (Acquired st)))"


section \<open>The keepalive pass\<close>

text \<open>One peer, then the loop over the table; \<open>now\<close> is read once, before the loop.\<close>

definition keepalive_peer :: "p2p_env \<Rightarrow> int \<Rightarrow> nat \<Rightarrow> p2p \<Rightarrow> p2p" where
  "keepalive_peer env now i st =
    (if pp_state (pm_peers st ! i) = P2P_STATE_ESTABLISHED then
       let st = (if now - pp_last_activity (pm_peers st ! i) > P2P_KEEPALIVE_INTERVAL * 2
                 then snd (send_message env (Some i) P2P_MSG_TYPE_KEEPALIVE [0] st) else st)
       in if now - pp_last_activity (pm_peers st ! i) > P2P_KEEPALIVE_INTERVAL * 5 then
            let st = upd_peer i (\<lambda>p. p\<lparr>pp_state := P2P_STATE_DISCONNECTED, pp_is_secure := False\<rparr>) st;
                pid = pp_id (pm_peers st ! i);
                st = on_mgr (state_set_online (clk_after 3 (x_clk env)) (Some pid) False) st
            in p2p_push (event_create (clk_after 4 (x_clk env)) EVENT_PEER_OFFLINE (Some pid)) st
          else st
     else st)"

definition keepalive_pass :: "(nat \<Rightarrow> p2p_env) \<Rightarrow> int \<Rightarrow> p2p \<Rightarrow> p2p" where
  "keepalive_pass envs now st = fold (\<lambda>i. keepalive_peer (envs i) now i) [0..<length (pm_peers st)] st"

section \<open>Connecting\<close>

definition p2p_detect_nat_type :: "nat_env \<Rightarrow> runs \<Rightarrow> NATType" where
  "p2p_detect_nat_type env s = fst (nat_classify_via_dht env False s)"

definition p2p_has_ipv6 :: "bool \<Rightarrow> bool \<Rightarrow> bool" where
  "p2p_has_ipv6 socket_ok connected \<longleftrightarrow> socket_ok \<and> connected"

definition p2p_hole_punch :: "p2p_env \<Rightarrow> string option \<Rightarrow> int \<Rightarrow> int" where
  "p2p_hole_punch env ip port = (if ip = None \<or> port \<le> 0 then -1 else x_punch env)"

definition p2p_init :: "p2p_env \<Rightarrow> p2p \<Rightarrow> (int \<times> p2p) option" where
  "p2p_init env st =
    (if pm_initialized st then Some (0, st)
     else do {
       ip \<leftarrow> (case x_local_ip env of None \<Rightarrow> Some ''127.0.0.1'' | Some a \<Rightarrow> strcpy_into 16 a);
       let (fd, st) = create_udp_socket env (st\<lparr>pm_local_ip := ip\<rparr>);
       let st = st\<lparr>pm_socket := fd\<rparr>;
       Some (if fd < 0 then (-1, st)
         else (0, st\<lparr>pm_port := P2P_PORT, pm_nat_type := x_nat env, pm_has_ipv6 := x_ipv6 env,
            pm_has_upnp := x_upnp env, pm_initialized := True, pm_listener_running := True,
            pm_keepalive_running := True\<rparr>)) })"

definition p2p_cleanup :: "p2p \<Rightarrow> p2p" where
  "p2p_cleanup st =
    (if \<not> pm_initialized st then st
     else st\<lparr>pm_listener_running := False, pm_keepalive_running := False,
       pm_closed := (if pm_socket st \<ge> 0 then [pm_socket st] else [])
          @ rev (filter (\<lambda>fd. fd \<ge> 0) (map pp_udp_socket (pm_peers st))) @ pm_closed st,
       pm_peers := [], pm_socket := (if pm_socket st \<ge> 0 then -1 else pm_socket st), pm_initialized := False\<rparr>)"

text \<open>What a failed attempt to reach the peer does: close the socket and go back.\<close>

definition abandon :: "nat \<Rightarrow> p2p \<Rightarrow> p2p" where
  "abandon i st = upd_peer i (\<lambda>p. p\<lparr>pp_state := P2P_STATE_DISCONNECTED\<rparr>) (close_peer_socket i st)"

definition p2p_connect_found :: "p2p_env \<Rightarrow> string \<Rightarrow> string \<Rightarrow> int \<Rightarrow> p2p \<Rightarrow> (int \<times> p2p) attempt option" where
  "p2p_connect_found env norm ip port st = (case add_peer env norm st of
      Self_Deadlock \<Rightarrow> Some Self_Deadlock
    | Acquired (None, st) \<Rightarrow> Some (Acquired (-1, st))
    | Acquired (Some i, st) \<Rightarrow> do {
        a \<leftarrow> strcpy_into 16 ip;
        let st = upd_peer i (\<lambda>p. p\<lparr>pp_ip := a, pp_port := port, pp_state := P2P_STATE_CONNECTING,
               pp_is_initiator := True, pp_last_activity := x_clk env 4, pp_addr := (ip, word_of_int port)\<rparr>) st;
        let (fd, st) = create_udp_socket env st;
        let st = upd_peer i (\<lambda>p. p\<lparr>pp_udp_socket := fd\<rparr>) st;
        if fd < 0 then Some (Acquired (-1, upd_peer i (\<lambda>p. p\<lparr>pp_state := P2P_STATE_DISCONNECTED\<rparr>) st))
        else if p2p_hole_punch env (Some ip) port < 0 then Some (Acquired (-1, abandon i st))
        else do {
          (rc, st) \<leftarrow> send_handshake (at_time 5 env) i st;
          Some (Acquired (if rc < 0 then (-1, abandon i st)
            else (0, upd_peer i (\<lambda>p. p\<lparr>pp_state := P2P_STATE_HANDSHAKE\<rparr>) st))) } })"

definition p2p_connect :: "p2p_env \<Rightarrow> string \<Rightarrow> p2p \<Rightarrow> (int \<times> p2p) attempt option" where
  "p2p_connect env pid st =
    (if \<not> pm_initialized st then Some (Acquired (-1, st))
     else let norm = normalize_id 64 pid in
       if (case find_peer norm st of None \<Rightarrow> False
           | Some i \<Rightarrow> p2p_state_code (pp_state (pm_peers st ! i)) \<ge> p2p_state_code P2P_STATE_HANDSHAKE)
       then Some (Acquired (0, st))
       else (case x_dht env of
           (True, True, Some (ip, port)) \<Rightarrow> p2p_connect_found env norm ip port st
         | _ \<Rightarrow> Some (Acquired (-1, st))))"

definition p2p_accept :: "p2p_env \<Rightarrow> string \<Rightarrow> p2p \<Rightarrow> (int \<times> p2p) option" where
  "p2p_accept env pid st =
    (let norm = normalize_id 64 pid in
     case find_peer norm st of
       None \<Rightarrow> Some (-1, st)
     | Some i \<Rightarrow>
        if pp_state (pm_peers st ! i) \<noteq> P2P_STATE_HANDSHAKE then Some (-1, st)
        else do {
          (rc, st) \<leftarrow> establish_secure_channel env i st;
          if rc < 0 then Some (-1, st)
          else do {
            let clk = clk_after 3 (x_clk env);
            let st = upd_peer i (\<lambda>p. p\<lparr>pp_state := P2P_STATE_ESTABLISHED, pp_is_secure := True,
                                        pp_last_activity := clk 0\<rparr>) st;
            let st = on_mgr (state_update_peer (clk_after 1 clk) (Some norm) PEER_FRIEND) st;
            Some (0, p2p_push (event_create (clk_after 3 clk) EVENT_ACCEPT_CONFIRM (Some norm)) st) } })"

definition p2p_disconnect :: "p2p_env \<Rightarrow> string \<Rightarrow> p2p \<Rightarrow> int \<times> p2p" where
  "p2p_disconnect env pid st =
    (let norm = normalize_id 64 pid in
     case find_peer norm st of
       None \<Rightarrow> (-1, st)
     | Some i \<Rightarrow>
        let st = (if pp_udp_socket (pm_peers st ! i) \<ge> 0
                  then close_peer_socket i (snd (send_message env (Some i) P2P_MSG_TYPE_CLOSE [0] st)) else st);
            clk = clk_after 3 (x_clk env);
            st = upd_peer i (\<lambda>p. p\<lparr>pp_state := P2P_STATE_DISCONNECTED, pp_is_secure := False,
                                    pp_last_activity := clk 0\<rparr>) st;
            st = on_mgr (state_set_online (clk_after 1 clk) (Some norm) False) st
        in (0, p2p_push (event_create (clk_after 2 clk) EVENT_PEER_OFFLINE (Some norm)) st))"

section \<open>Sending text\<close>

text \<open>\<open>orca_random_bytes\<close> is not checked here either: on failure the nonce is what the stack holds.\<close>

definition p2p_send_secure :: "p2p_env \<Rightarrow> string option \<Rightarrow> byte list option \<Rightarrow> p2p \<Rightarrow> int \<times> p2p" where
  "p2p_send_secure env pid data st = (case (pid, data) of
      (Some n, Some d) \<Rightarrow>
        if d = [] then (-1, st)
        else (case find_peer n st of
            None \<Rightarrow> (-1, st)
          | Some i \<Rightarrow>
              let p = pm_peers st ! i in
              if pp_state p \<noteq> P2P_STATE_ESTABLISHED then (-1, st)
              else if \<not> pp_is_secure p then (-1, st)
              else
                let (rnd, c) = orca_random_bytes (x_ok env) (x_random env) True 12 (pm_crypto st);
                    nonce = (case rnd of None \<Rightarrow> take 12 (x_stack env) | Some b \<Rightarrow> b);
                    (sealed, c) = orca_aes_gcm_encrypt (shift 1 (x_ok env)) (x_ssl env) (Some d)
                      (Some (pp_aes_key p)) (Some nonce) c
                in (case sealed of
                     None \<Rightarrow> (-1, st\<lparr>pm_crypto := c\<rparr>)
                   | Some (ciphertext, tag) \<Rightarrow>
                       let st = st\<lparr>pm_crypto := free_res [MEM ''ciphertext''] c\<rparr>
                       in if \<not> x_malloc env then (-1, st)
                          else send_message env (Some i) P2P_MSG_TYPE_DATA (nonce @ tag @ ciphertext) st))
    | _ \<Rightarrow> (-1, st))"

definition p2p_send :: "p2p_env \<Rightarrow> string option \<Rightarrow> string option \<Rightarrow> p2p \<Rightarrow> int \<times> p2p" where
  "p2p_send env pid message st = (case (pid, message) of
      (Some n, Some msg) \<Rightarrow> (case find_peer n st of
          None \<Rightarrow> (-1, st)
        | Some i \<Rightarrow>
            if pp_state (pm_peers st ! i) \<noteq> P2P_STATE_ESTABLISHED then (-1, st)
            else if pp_is_secure (pm_peers st ! i) then p2p_send_secure env pid (Some (string_bytes msg)) st
            else send_message env (Some i) P2P_MSG_TYPE_DATA (string_bytes msg) st)
    | _ \<Rightarrow> (-1, st))"

definition p2p_recv :: "string option \<Rightarrow> bool \<Rightarrow> int \<Rightarrow> p2p \<Rightarrow> int" where
  "p2p_recv pid message max_len st = (case pid of
      None \<Rightarrow> -1
    | Some n \<Rightarrow>
        if \<not> message \<or> max_len \<le> 0 then -1
        else (case find_peer n st of
            None \<Rightarrow> -1
          | Some i \<Rightarrow> if pp_state (pm_peers st ! i) \<noteq> P2P_STATE_ESTABLISHED then -1 else 0))"

section \<open>Queries\<close>

definition p2p_is_connected :: "string \<Rightarrow> p2p \<Rightarrow> bool" where
  "p2p_is_connected pid st = (case find_peer pid st of None \<Rightarrow> False
     | Some i \<Rightarrow> pp_state (pm_peers st ! i) = P2P_STATE_ESTABLISHED)"

definition p2p_is_secure :: "string \<Rightarrow> p2p \<Rightarrow> bool" where
  "p2p_is_secure pid st = (case find_peer pid st of None \<Rightarrow> False
     | Some i \<Rightarrow> pp_is_secure (pm_peers st ! i))"

definition p2p_get_state :: "string \<Rightarrow> p2p \<Rightarrow> P2PState" where
  "p2p_get_state pid st = (case find_peer pid st of None \<Rightarrow> P2P_STATE_DISCONNECTED
     | Some i \<Rightarrow> pp_state (pm_peers st ! i))"

definition p2p_get_nat_type :: "p2p \<Rightarrow> NATType" where
  "p2p_get_nat_type st = pm_nat_type st"

text \<open>The reply to a punch on the main socket: \<open>received\<close> is the datagram up to its first NUL.\<close>

definition p2p_punch_listen :: "bool \<Rightarrow> (string \<times> string \<times> int) option \<Rightarrow> (string \<times> int) option" where
  "p2p_punch_listen outs received =
    (if \<not> outs then None
     else (case received of
         None \<Rightarrow> None
       | Some (txt, ip, port) \<Rightarrow>
           if txt = ''ORCA_PUNCH'' \<or> txt = ''ORCA_PUNCH_RESPONSE'' then Some (ip, port) else None))"

record PeerCapability =
  pc_id :: string
  pc_ip :: string
  pc_port :: int
  pc_has_ipv6 :: bool
  pc_nat_type :: NATType
  pc_has_upnp :: bool

definition p2p_get_peer_capability :: "p2p_env \<Rightarrow> string option \<Rightarrow> bool \<Rightarrow> (int \<times> PeerCapability option) option" where
  "p2p_get_peer_capability env pid cap = (case pid of
      None \<Rightarrow> Some (-1, None)
    | Some n \<Rightarrow>
        if \<not> cap then Some (-1, None)
        else do {
          i \<leftarrow> strcpy_into 64 n;
          let c = \<lparr>pc_id = i, pc_ip = [], pc_port = 0, pc_has_ipv6 = False, pc_nat_type = NAT_UNKNOWN, pc_has_upnp = False\<rparr>;
          (case x_dht env of
            (True, True, Some (ip, port)) \<Rightarrow> do {
              a \<leftarrow> strcpy_into 16 ip; Some (0, Some (c\<lparr>pc_ip := a, pc_port := port\<rparr>)) }
          | _ \<Rightarrow> Some (-1, Some c)) })"

definition p2p_exchange_capabilities :: "p2p_env \<Rightarrow> string option \<Rightarrow> bool \<Rightarrow> (int \<times> PeerCapability option) option" where
  "p2p_exchange_capabilities env pid cap =
    (if pid = None \<or> \<not> cap then Some (-1, None) else p2p_get_peer_capability env pid cap)"

end
