(* ===== verification/P2P_Properties.thy ===== *)
theory P2P_Properties
  imports P2P_Manager Peer_Properties
begin

text \<open>
  Properties of the P2P manager: its invariant over every operation and every packet, which
  packets keep the handlers inside the receive buffer, delivery of encrypted text from one peer
  to the other, and what a packet can do to a peer that it should not be able to do.
\<close>

section \<open>The invariant\<close>

definition peer_fits :: "P2PPeer \<Rightarrow> bool" where
  "peer_fits p \<longleftrightarrow> length (pp_id p) < 64 \<and> normalize_id 64 (pp_id p) = pp_id p \<and> length (pp_ip p) < 16"

definition p2p_inv :: "p2p \<Rightarrow> bool" where
  "p2p_inv st \<longleftrightarrow> length (pm_peers st) \<le> P2P_MAX_PEERS \<and> (\<forall>p \<in> set (pm_peers st). peer_fits p)
     \<and> distinct (map pp_id (pm_peers st)) \<and> world_ok (pm_world st)"

named_theorems p2p_keep \<open>operations that keep the invariant\<close>

lemma p2p_inv_frame [simp]:
  "p2p_inv (st\<lparr>pm_socket := a\<rparr>) = p2p_inv st" "p2p_inv (st\<lparr>pm_local_ip := b\<rparr>) = p2p_inv st"
  "p2p_inv (st\<lparr>pm_locked := c\<rparr>) = p2p_inv st" "p2p_inv (st\<lparr>pm_closed := d\<rparr>) = p2p_inv st"
  "p2p_inv (st\<lparr>pm_sent := e\<rparr>) = p2p_inv st" "p2p_inv (st\<lparr>pm_crypto := f\<rparr>) = p2p_inv st"
  "p2p_inv (lock st) = p2p_inv st" "p2p_inv (unlock st) = p2p_inv st"
  by (simp_all add: p2p_inv_def lock_def unlock_def)

lemma inv_peer: "p2p_inv st \<Longrightarrow> i < length (pm_peers st) \<Longrightarrow> peer_fits (pm_peers st ! i)"
  by (simp add: p2p_inv_def)

lemma length_upd_peer [simp]: "length (pm_peers (upd_peer i f st)) = length (pm_peers st)"
  by (simp add: upd_peer_def)

lemma upd_peer_fields [simp]:
  "pm_world (upd_peer i f st) = pm_world st" "pm_crypto (upd_peer i f st) = pm_crypto st"
  "pm_sent (upd_peer i f st) = pm_sent st" "pm_locked (upd_peer i f st) = pm_locked st"
  "pm_initialized (upd_peer i f st) = pm_initialized st"
  by (simp_all add: upd_peer_def)

lemma upd_peer_nth [simp]: "i < length (pm_peers st) \<Longrightarrow> pm_peers (upd_peer i f st) ! i = f (pm_peers st ! i)"
  by (simp add: upd_peer_def)

lemma upd_peer_inv [p2p_keep]:
  assumes inv: "p2p_inv st" and f: "\<And>p. pp_id (f p) = pp_id p"
    and ip: "\<And>p. peer_fits p \<Longrightarrow> length (pp_ip (f p)) < 16"
  shows "p2p_inv (upd_peer i f st)"
proof (cases "i < length (pm_peers st)")
  case True
  have "map pp_id ((pm_peers st)[i := f (pm_peers st ! i)]) = map pp_id (pm_peers st)"
    using True f by (simp add: map_update list_update_same_conv)
  moreover have "peer_fits (f (pm_peers st ! i))"
    using inv_peer [OF inv True] ip f by (simp add: peer_fits_def)
  ultimately show ?thesis
    using inv by (auto simp: p2p_inv_def upd_peer_def dest: set_update_subset_insert [THEN subsetD])
next
  case False
  then have "upd_peer i f st = st" by (cases st) (simp add: upd_peer_def list_update_beyond)
  then show ?thesis using inv by simp
qed

lemma on_mgr_peers [simp]: "pm_peers (on_mgr f st) = pm_peers st" "pm_crypto (on_mgr f st) = pm_crypto st"
  "pm_locked (on_mgr f st) = pm_locked st" "w_queue (pm_world (on_mgr f st)) = w_queue (pm_world st)"
  "w_mgr (pm_world (on_mgr f st)) = snd (f (w_mgr (pm_world st)))" "pm_sent (on_mgr f st) = pm_sent st"
  by (simp_all add: on_mgr_def)

lemma p2p_push_peers [simp]: "pm_peers (p2p_push e st) = pm_peers st" "pm_crypto (p2p_push e st) = pm_crypto st"
  "pm_locked (p2p_push e st) = pm_locked st" "w_mgr (pm_world (p2p_push e st)) = w_mgr (pm_world st)"
  "w_queue (pm_world (p2p_push e st)) = snd (event_queue_push (Some e) (w_queue (pm_world st)))"
  by (simp_all add: p2p_push_def push_event_def case_prod_beta)

lemma p2p_push_inv [p2p_keep]: "p2p_inv st \<Longrightarrow> event_fits e \<Longrightarrow> p2p_inv (p2p_push e st)"
  using push_event_ok [of "pm_world st" e]
  by (auto simp: p2p_inv_def p2p_push_def intro: surjective_pairing)

text \<open>Operations of the state manager that change only the cells of known peers, or the messages.\<close>

definition mgr_keeps :: "(mgr \<Rightarrow> int \<times> mgr) \<Rightarrow> bool" where
  "mgr_keeps f \<longleftrightarrow> (\<forall>m. mgr_ok m \<longrightarrow> mgr_ok (snd (f m)) \<and> ghosts_ok (snd (f m)) = ghosts_ok m)"

lemma on_mgr_inv [p2p_keep]: "p2p_inv st \<Longrightarrow> mgr_keeps f \<Longrightarrow> p2p_inv (on_mgr f st)"
  by (simp add: p2p_inv_def on_mgr_def mgr_keeps_def world_ok_def)

lemma with_peer_keeps: "(\<And>p. p_id (g p) = p_id p) \<Longrightarrow> mgr_keeps (with_peer a g)"
  by (simp add: mgr_keeps_def peers.modify_invar keeps_idI)

lemma mgr_keeps_ops [p2p_keep]:
  "mgr_keeps (state_update_peer clk a s)" "mgr_keeps (state_set_online clk a b)"
  "mgr_keeps (state_set_port a n)"
proof -
  have "state_update_peer clk a s = with_peer a (update_record clk s)"
    "state_set_online clk a b = with_peer a (\<lambda>p. p\<lparr>p_online := b, p_last_seen := clk 0\<rparr>)"
    "state_set_port a n = with_peer a (\<lambda>p. p\<lparr>p_port := n\<rparr>)"
    by (simp_all add: fun_eq_iff state_update_peer_with_peer state_set_online_def state_set_port_def)
  then show "mgr_keeps (state_update_peer clk a s)" "mgr_keeps (state_set_online clk a b)"
    "mgr_keeps (state_set_port a n)"
    by (simp_all add: with_peer_keeps)
qed

lemma mgr_keeps_remove [p2p_keep]: "mgr_keeps (state_remove_peer a)"
  using peers.remove_invar
  by (auto simp: mgr_keeps_def state_remove_peer_def ghosts_ok_def split: option.splits)

lemma mgr_keeps_message [p2p_keep]: "mgr_keeps (state_add_message a b)"
  by (auto simp: mgr_keeps_def state_add_message_def mgr_ok_def wf_mgr_def ids_ok_def live_peers_def
      ghosts_ok_def split: option.splits)

lemma on_mgr_opt_set_ip:
  "length ip < 16 \<Longrightarrow> on_mgr_opt (state_set_ip (Some a) (Some ip)) st
    = Some (on_mgr (with_peer (Some a) (\<lambda>p. p\<lparr>p_ip := ip\<rparr>)) st)"
  by (simp add: on_mgr_opt_def on_mgr_def set_ip_setters case_prod_beta)

lemma set_ip_keeps [p2p_keep]: "mgr_keeps (with_peer a (\<lambda>p. p\<lparr>p_ip := ip\<rparr>))"
  by (rule with_peer_keeps) simp

section \<open>Each operation\<close>

lemma send_message_inv [p2p_keep]: "p2p_inv st \<Longrightarrow> p2p_inv (snd (send_message env peer ty pl st))"
  by (auto simp: send_message_def Let_def peer_fits_def split: option.split intro!: upd_peer_inv)

lemma send_message_frame [simp]:
  "length (pm_peers (snd (send_message env peer ty pl st))) = length (pm_peers st)"
  "pm_world (snd (send_message env peer ty pl st)) = pm_world st"
  "pm_locked (snd (send_message env peer ty pl st)) = pm_locked st"
  by (simp_all add: send_message_def Let_def split: option.split)

lemma derive_fits:
  assumes "length salt \<le> 16"
  shows "\<exists>key c'. orca_aes_gcm_derive_key_from_shared_secret ok ssl (Some sec) (Some salt)
      (Some (take 10 (string_bytes s))) c = Some (key, c')"
  using assms
  by (simp add: orca_aes_gcm_derive_key_from_shared_secret_def memcpy_into_def Let_def finish_def split: prod.split)

lemma random_bytes_Some:
  "fst (orca_random_bytes ok rnd True n s) = Some b \<Longrightarrow> b = take n rnd"
  by (auto simp: orca_random_bytes_def finish_run reject_def split: if_splits)

definition keys_result :: "p2p \<Rightarrow> (int \<times> p2p) option \<Rightarrow> bool" where
  "keys_result st r \<longleftrightarrow> (\<exists>rc st'. r = Some (rc, st') \<and> p2p_inv st' \<and> length (pm_peers st') = length (pm_peers st)
     \<and> pm_locked st' = pm_locked st \<and> pm_world st' = pm_world st)"

lemma keys_result_case:
  "keys_result st a \<Longrightarrow> (\<And>y. keys_result st (f y)) \<Longrightarrow> keys_result st (case x of None \<Rightarrow> a | Some y \<Rightarrow> f y)"
  by (simp split: option.split)

lemma generate_keys_total:
  assumes "p2p_inv st"
  shows "keys_result st (generate_session_keys env i st)"
proof -
  have crypto: "keys_result st (Some (rc, st\<lparr>pm_crypto := c\<rparr>))" for rc c
    using assms by (simp add: keys_result_def)
  have fin: "keys_result st (Some (rc, upd_peer i (\<lambda>p. p\<lparr>pp_aes_key := k, pp_shared_secret := h\<rparr>) (st\<lparr>pm_crypto := c\<rparr>)))"
    for rc c k h
    using assms upd_peer_inv [of "st\<lparr>pm_crypto := c\<rparr>" "\<lambda>p. p\<lparr>pp_aes_key := k, pp_shared_secret := h\<rparr>" i]
    by (simp add: keys_result_def peer_fits_def)
  have last: "keys_result st (do { (key, c) \<leftarrow> orca_aes_gcm_derive_key_from_shared_secret ok ssl (Some sec) (Some salt)
        (Some (take 10 (string_bytes s))) c;
        Some (case key of None \<Rightarrow> (-1, st\<lparr>pm_crypto := c\<rparr>)
          | Some k \<Rightarrow> (0, upd_peer i (\<lambda>p. p\<lparr>pp_aes_key := k, pp_shared_secret := sec\<rparr>) (st\<lparr>pm_crypto := c\<rparr>))) })"
    if "length salt \<le> 16" for ok ssl sec salt s c
    using derive_fits [OF that, of ok ssl sec s c] crypto fin by (auto split: option.split)
  have salt: "length (case fst (orca_random_bytes ok rnd True 16 c) of None \<Rightarrow> take 16 t | Some b \<Rightarrow> b) \<le> 16" for ok rnd c t
    using random_bytes_Some [of ok rnd 16 c] by (auto split: option.split)
  show ?thesis
    unfolding generate_session_keys_def Let_def case_prod_beta
    by (intro keys_result_case crypto crypto [of _ "pm_crypto st", simplified] last [OF salt, unfolded case_prod_beta])
qed

lemma establish_total:
  assumes "p2p_inv st"
  shows "keys_result st (establish_secure_channel env i st)"
proof -
  obtain rc st1 where g: "generate_session_keys env i st = Some (rc, st1)" "p2p_inv st1"
    "length (pm_peers st1) = length (pm_peers st)" "pm_locked st1 = pm_locked st" "pm_world st1 = pm_world st"
    using generate_keys_total [OF assms, of env i] by (auto simp: keys_result_def)
  then show ?thesis
    using send_message_inv [OF g(2), of env "Some i" P2P_MSG_TYPE_HANDSHAKE_RESPONSE "[1]"]
      send_message_frame [of env "Some i" P2P_MSG_TYPE_HANDSHAKE_RESPONSE "[1]" st1]
    by (cases "send_message env (Some i) P2P_MSG_TYPE_HANDSHAKE_RESPONSE [1] st1")
      (simp add: establish_secure_channel_def keys_result_def)
qed


section \<open>The packet handlers\<close>

text \<open>What every handler does whenever it returns.\<close>

definition keeps :: "p2p \<Rightarrow> (int \<times> p2p) option \<Rightarrow> bool" where
  "keeps st r \<longleftrightarrow> (case r of None \<Rightarrow> True
     | Some (rc, st') \<Rightarrow> p2p_inv st' \<and> length (pm_peers st') = length (pm_peers st) \<and> pm_locked st' = pm_locked st)"

lemma keeps_None [simp]: "keeps st None"
  and keeps_Some [simp]: "keeps st (Some (rc, st')) \<longleftrightarrow>
    p2p_inv st' \<and> length (pm_peers st') = length (pm_peers st) \<and> pm_locked st' = pm_locked st"
  by (simp_all add: keeps_def)

lemma keeps_bind: "(\<And>x. r = Some x \<Longrightarrow> keeps st (f x)) \<Longrightarrow> keeps st (r \<bind> f)"
  by (cases r) simp_all

lemma keys_result_keeps: "keys_result st r \<Longrightarrow> keeps st r"
  by (auto simp: keys_result_def)

lemma keys_result_noneD: "keys_result st r \<Longrightarrow> r \<noteq> None"
  by (auto simp: keys_result_def)

lemma upd_state_inv [p2p_keep]:
  "p2p_inv st \<Longrightarrow> p2p_inv (upd_peer i (\<lambda>p. p\<lparr>pp_state := s, pp_last_activity := t\<rparr>) st)"
  "p2p_inv st \<Longrightarrow> p2p_inv (upd_peer i (\<lambda>p. p\<lparr>pp_last_activity := t\<rparr>) st)"
  "p2p_inv st \<Longrightarrow> p2p_inv (upd_peer i (\<lambda>p. p\<lparr>pp_state := s\<rparr>) st)"
  "p2p_inv st \<Longrightarrow> p2p_inv (upd_peer i (\<lambda>p. p\<lparr>pp_udp_socket := n\<rparr>) st)"
  "p2p_inv st \<Longrightarrow> p2p_inv (upd_peer i (\<lambda>p. p\<lparr>pp_state := s, pp_is_secure := b\<rparr>) st)"
  "p2p_inv st \<Longrightarrow> p2p_inv (upd_peer i (\<lambda>p. p\<lparr>pp_state := s, pp_is_secure := b, pp_last_activity := t\<rparr>) st)"
  "p2p_inv st \<Longrightarrow> p2p_inv (upd_peer i (\<lambda>p. p\<lparr>pp_public_key := k, pp_is_secure := b\<rparr>) st)"
  by (rule upd_peer_inv; simp add: peer_fits_def)+

lemma handshake_done_total:
  assumes inv: "p2p_inv st" and i: "i < length (pm_peers st)"
  shows "keeps st (handshake_done clk i st) \<and> handshake_done clk i st \<noteq> None"
proof -
  have "length (pp_ip (pm_peers st ! i)) < 16" using inv_peer [OF inv i] by (simp add: peer_fits_def)
  then show ?thesis
    using inv i by (simp add: handshake_done_def on_mgr_opt_set_ip p2p_keep event_create_fits Let_def)
qed

lemma accept_handshake_total:
  assumes inv: "p2p_inv st" and i: "i < length (pm_peers st)"
  shows "keeps st (accept_handshake env i pubkey st)"
    and "length pubkey < 4096 \<Longrightarrow> accept_handshake env i pubkey st \<noteq> None"
proof -
  let ?st = "upd_peer i (\<lambda>p. p\<lparr>pp_public_key := pubkey, pp_is_secure := True\<rparr>) st"
  let ?env = "(at_time 1 env)\<lparr>x_ok := shift 5 (x_ok env)\<rparr>"
  have inv1: "p2p_inv ?st" using inv by (rule upd_state_inv)
  obtain rc st1 where e: "establish_secure_channel ?env i ?st = Some (rc, st1)" and inv2: "p2p_inv st1"
    and l: "length (pm_peers st1) = length (pm_peers st)" "pm_locked st1 = pm_locked st"
    using establish_total [OF inv1, of ?env i] by (auto simp: keys_result_def)
  have i1: "i < length (pm_peers st1)" using i l by simp
  show "keeps st (accept_handshake env i pubkey st)"
    using handshake_done_total [OF inv2 i1, of "clk_after 4 (x_clk env)"] e inv2 l
    by (auto simp: accept_handshake_def keeps_def split: option.splits if_splits Option.bind_splits)
  show "length pubkey < 4096 \<Longrightarrow> accept_handshake env i pubkey st \<noteq> None"
    using handshake_done_total [OF inv2 i1, of "clk_after 4 (x_clk env)"] e
    by (simp add: accept_handshake_def strcpy_into_fits)
qed

lemma strchr_Some_None: "strchr c bs = Some r \<Longrightarrow> 0 \<in> set bs \<or> c \<in> set bs"
  by (induction c bs arbitrary: r rule: strchr.induct) (auto split: if_splits)

lemma strchr_found:
  "c \<noteq> 0 \<Longrightarrow> strchr c bs = Some (Some (a, b)) \<longleftrightarrow> bs = a @ c # b \<and> c \<notin> set a \<and> 0 \<notin> set a"
proof (induction c bs arbitrary: a b rule: strchr.induct)
  case (2 c x bs)
  show ?case
  proof (cases "x = c \<or> x = 0")
    case True
    then show ?thesis using 2(2) by (cases a) auto
  next
    case False
    then have "strchr c (x # bs) = Some (Some (a, b)) \<longleftrightarrow> (\<exists>a'. a = x # a' \<and> strchr c bs = Some (Some (a', b)))"
      by (auto split: option.splits)
    then show ?thesis using False 2(1) [OF _ _ 2(2)] by (cases a) auto
  qed
qed simp

lemma strchr_total: "0 \<in> set bs \<Longrightarrow> strchr c bs \<noteq> None"
  by (induction c bs rule: strchr.induct) (auto split: if_splits)

lemma handle_handshake_cases:
  assumes inv: "p2p_inv st" and i: "i < length (pm_peers st)"
  shows "keeps st (handle_handshake env i buf st)"
    and "0 \<in> set (msg_payload buf) \<Longrightarrow> length buf \<le> 4096 \<Longrightarrow> handle_handshake env i buf st \<noteq> None"
proof -
  have acc: "keeps st (accept_handshake env i k (st\<lparr>pm_crypto := c\<rparr>))" for k c
    using accept_handshake_total(1) [of "st\<lparr>pm_crypto := c\<rparr>" i env k] inv i by (auto simp: keeps_def split: option.splits prod.splits)
  show "keeps st (handle_handshake env i buf st)"
    unfolding handle_handshake_def Let_def
    using inv acc by (auto intro!: keeps_bind split: option.split prod.split)
  assume nul: "0 \<in> set (msg_payload buf)" and len: "length buf \<le> 4096"
  have bar: "bar \<noteq> 0" by (simp add: bar_def)
  obtain r1 where r1: "strchr bar (msg_payload buf) = Some r1" using strchr_total [OF nul, of bar] by blast
  show "handle_handshake env i buf st \<noteq> None"
  proof (cases r1)
    case None
    then show ?thesis using r1 by (simp add: handle_handshake_def)
  next
    case (Some p)
    obtain a b where p: "p = (a, b)" by fastforce
    have e1: "msg_payload buf = a @ bar # b" "0 \<notin> set a"
      using r1 Some p strchr_found [OF bar] by auto
    then have nb: "0 \<in> set b" using nul bar by auto
    obtain r2 where r2: "strchr bar b = Some r2" using strchr_total [OF nb, of bar] by blast
    show ?thesis
    proof (cases r2)
      case None
      then show ?thesis using r1 r2 Some p by (simp add: handle_handshake_def)
    next
      case (Some q)
      obtain c d where q: "q = (c, d)" by fastforce
      have e2: "b = c @ bar # d" "0 \<notin> set c"
        using r2 Some q strchr_found [OF bar] by auto
      then have nd: "0 \<in> set d" using nb bar by auto
      have "length c < 4096" using arg_cong [OF e1(1), of length] arg_cong [OF e2(1), of length] len
        by (simp add: msg_payload_def)
      then show ?thesis
        using r1 r2 Some p q \<open>r1 = Some p\<close> nd i inv accept_handshake_total(2)
        by (auto simp: handle_handshake_def c_str_def bytes_string_def Let_def split: option.split prod.split)
    qed
  qed
qed


lemma payload_text_None: "payload_text buf = None \<longleftrightarrow> length buf \<le> P2P_HEADER + msg_payload_len buf"
proof -
  have "0 \<in> set ((msg_payload buf)[msg_payload_len buf := 0])" if "\<not> length buf \<le> P2P_HEADER + msg_payload_len buf"
    by (rule set_update_memI) (use that in \<open>simp add: msg_payload_def\<close>)
  then show ?thesis by (auto simp: payload_text_def c_str_def)
qed

lemma takeWhile_update: "takeWhile P (xs[n := x]) = take n (takeWhile P xs)" if "n < length xs" "\<not> P x"
  using that
proof (induction xs arbitrary: n)
  case (Cons y xs)
  then show ?case by (cases n) auto
qed simp

lemma payload_text_Some:
  assumes "payload_text buf = Some t"
  shows "t = bytes_string (take (msg_payload_len buf) (takeWhile (\<lambda>b. b \<noteq> 0) (msg_payload buf)))"
    and "length t \<le> msg_payload_len buf" and "length t + P2P_HEADER < length buf"
proof -
  have l: "P2P_HEADER + msg_payload_len buf < length buf"
    using assms payload_text_None [of buf] by fastforce
  then show t: "t = bytes_string (take (msg_payload_len buf) (takeWhile (\<lambda>b. b \<noteq> 0) (msg_payload buf)))"
    using assms by (auto simp: payload_text_def c_str_def takeWhile_update msg_payload_def split: if_splits)
  show "length t \<le> msg_payload_len buf" unfolding t by (simp add: bytes_string_def)
  with l show "length t + P2P_HEADER < length buf" by simp
qed

lemma deliver_text_cases:
  assumes inv: "p2p_inv st" and i: "i < length (pm_peers st)"
  shows "deliver_text clk i text st = (if length text < 4096
    then Some (on_mgr (state_add_message (Some (pp_id (pm_peers st ! i))) (Some text))
      (p2p_push ((event_create clk EVENT_MESSAGE_RECEIVED (Some (pp_id (pm_peers st ! i))))
         \<lparr>ev_from_id := pp_id (pm_peers st ! i), ev_message := text\<rparr>) st)) else None)"
  using inv_peer [OF inv i] by (auto simp: deliver_text_def peer_fits_def strcpy_into_def Let_def)

lemma message_event_fits:
  "peer_fits p \<Longrightarrow> length text < 4096 \<Longrightarrow> event_fits ((event_create clk EVENT_MESSAGE_RECEIVED (Some (pp_id p)))
     \<lparr>ev_from_id := pp_id p, ev_message := text\<rparr>)"
  using event_create_fits [of clk EVENT_MESSAGE_RECEIVED "Some (pp_id p)"]
  by (simp add: event_fits_def peer_fits_def)

lemma deliver_text_keeps:
  assumes inv: "p2p_inv st" and i: "i < length (pm_peers st)" and d: "deliver_text clk i text st = Some st'"
  shows "p2p_inv st' \<and> length (pm_peers st') = length (pm_peers st) \<and> pm_locked st' = pm_locked st"
proof -
  have l: "length text < 4096" using d deliver_text_cases [OF inv i] by (simp split: if_splits)
  then show ?thesis
    using d message_event_fits [OF inv_peer [OF inv i] l] inv
    by (auto simp: deliver_text_cases [OF inv i] p2p_keep split: if_splits)
qed

lemma handle_data_keeps:
  assumes inv: "p2p_inv st" and i: "i < length (pm_peers st)"
  shows "keeps st (handle_data env i buf st)"
proof -
  have st: "p2p_inv (st\<lparr>pm_crypto := c\<rparr>)" "i < length (pm_peers (st\<lparr>pm_crypto := c\<rparr>))" for c
    using inv i by simp_all
  show ?thesis
    using inv deliver_text_keeps [OF inv i] deliver_text_keeps [OF st]
    unfolding handle_data_def Let_def
    by (auto intro!: keeps_bind simp: p2p_keep split: option.split prod.split)
qed

lemma add_request_fits:
  "peer_fits p \<Longrightarrow> length t < 64 \<Longrightarrow> event_fits ((event_create clk EVENT_ADD_REQUEST (Some t))
     \<lparr>ev_from_id := t, ev_ip := pp_ip p, ev_port := n\<rparr>)"
  using event_create_fits [of clk EVENT_ADD_REQUEST "Some t"]
  by (simp add: event_fits_def peer_fits_def)

lemma handle_add_request_cases:
  assumes inv: "p2p_inv st" and i: "i < length (pm_peers st)"
  shows "keeps st (handle_add_request env i buf st)"
    and "handle_add_request env i buf st = None \<longleftrightarrow> (case payload_text buf of None \<Rightarrow> True | Some t \<Rightarrow> 64 \<le> length t)"
proof -
  have fits: "peer_fits (pm_peers st ! i)" by (rule inv_peer [OF inv i])
  then have ip: "length (pp_ip (pm_peers st ! i)) < 16" by (simp add: peer_fits_def)
  show "keeps st (handle_add_request env i buf st)"
    using inv ip add_request_fits [OF fits]
    by (auto simp: handle_add_request_def on_mgr_opt_set_ip p2p_keep Let_def intro!: keeps_bind)
  show "handle_add_request env i buf st = None \<longleftrightarrow> (case payload_text buf of None \<Rightarrow> True | Some t \<Rightarrow> 64 \<le> length t)"
    using ip by (auto simp: handle_add_request_def on_mgr_opt_set_ip strcpy_into_def Let_def split: option.splits)
qed


text \<open>Delivery of the waiting messages inside the manager's state.\<close>

lemma deliver_world:
  assumes inv: "p2p_inv st"
  obtains n q m where "state_deliver_ghost_messages clk a (w_queue (pm_world st)) (w_mgr (pm_world st)) = Some (n, q, m)"
    and "p2p_inv (st\<lparr>pm_world := (pm_world st)\<lparr>w_mgr := m, w_queue := q\<rparr>\<rparr>)"
    and "m = (case norm_arg a of None \<Rightarrow> w_mgr (pm_world st) | Some k \<Rightarrow> delivered_mgr clk k (w_mgr (pm_world st)))"
proof (cases "norm_arg a")
  case None
  show ?thesis
    by (rule that [of 0 "w_queue (pm_world st)" "w_mgr (pm_world st)"])
      (use None inv in \<open>simp_all add: deliver_none_id\<close>)
next
  case (Some k)
  let ?m = "w_mgr (pm_world st)"
  have m: "mgr_ok ?m" "wf_mgr ?m" "ghosts_ok ?m" and q: "queue_ok (w_queue (pm_world st))"
    using inv by (simp_all add: p2p_inv_def world_ok_def mgr_ok_def)
  note eq = state_deliver_eq [OF m(2,3) Some, of clk "w_queue (pm_world st)"]
  have "queue_ok (push_all (\<lambda>e. event_queue_push (Some e))
      (ghost_events clk k (g_ghost_messages ?m) 0 (g_ghost_count ?m)) (w_queue (pm_world st)))"
    by (rule push_all_queue_ok [OF q ghost_events_fit [OF m(2,3)]])
  then show ?thesis
    using inv delivered_mgr_ok [OF m(1) Some] delivered_ghosts_ok [OF m(2,3)] Some
    by (intro that [OF eq]) (simp_all add: p2p_inv_def world_ok_def)
qed

lemma handle_accept_confirm_cases:
  assumes inv: "p2p_inv st" and i: "i < length (pm_peers st)"
  shows "keeps st (handle_accept_confirm env i buf st)"
    and "handle_accept_confirm env i buf st = None \<longleftrightarrow> payload_text buf = None"
proof -
  have ip: "length (pp_ip (pm_peers st ! i)) < 16" using inv_peer [OF inv i] by (simp add: peer_fits_def)
  have "keeps st (handle_accept_confirm env i buf st) \<and> handle_accept_confirm env i buf st \<noteq> None"
    if t: "payload_text buf = Some t" for t
  proof -
    let ?clk = "x_clk env"
    define st1 where "st1 = on_mgr (state_set_port (Some t) (pp_port (pm_peers st ! i)))
      (on_mgr (with_peer (Some t) (\<lambda>p. p\<lparr>p_ip := pp_ip (pm_peers st ! i)\<rparr>))
        (on_mgr (state_set_online (clk_after 2 ?clk) (Some t) True)
          (on_mgr (state_update_peer ?clk (Some t) PEER_FRIEND) st)))"
    have inv1: "p2p_inv st1" using inv by (simp add: st1_def p2p_keep)
    obtain n q m where d: "state_deliver_ghost_messages (clk_after 3 ?clk) (Some t) (w_queue (pm_world st1))
        (w_mgr (pm_world st1)) = Some (n, q, m)"
      and inv2: "p2p_inv (st1\<lparr>pm_world := (pm_world st1)\<lparr>w_mgr := m, w_queue := q\<rparr>\<rparr>)"
      using deliver_world [OF inv1] by blast
    have len: "length (pm_peers st1) = length (pm_peers st)" "pm_locked st1 = pm_locked st"
      by (simp_all add: st1_def)
    have "handle_accept_confirm env i buf st = Some (0, p2p_push (event_create (clk_after 5000 ?clk) EVENT_ACCEPT_CONFIRM (Some t))
        (st1\<lparr>pm_world := (pm_world st1)\<lparr>w_mgr := m, w_queue := q\<rparr>\<rparr>))"
      using d ip unfolding st1_def by (simp add: handle_accept_confirm_def t on_mgr_opt_set_ip Let_def)
    then show ?thesis using inv2 len by (simp add: p2p_keep event_create_fits)
  qed
  then show "keeps st (handle_accept_confirm env i buf st)"
    and "handle_accept_confirm env i buf st = None \<longleftrightarrow> payload_text buf = None"
    by (cases "payload_text buf"; simp add: handle_accept_confirm_def)+
qed

lemma handle_reject_confirm_cases:
  assumes inv: "p2p_inv st"
  shows "keeps st (handle_reject_confirm env i buf st)"
    and "handle_reject_confirm env i buf st = None \<longleftrightarrow> payload_text buf = None"
  using inv
  by (cases "payload_text buf"; simp add: handle_reject_confirm_def p2p_keep event_create_fits)+

lemma process_message_keeps:
  assumes inv: "p2p_inv st" and i: "i < length (pm_peers st)"
  shows "keeps st (process_message env (Some i) buf n st)"
  using inv handle_handshake_cases(1) [OF assms] handle_data_keeps [OF assms] handle_add_request_cases(1) [OF assms]
    handle_accept_confirm_cases(1) [OF assms] handle_reject_confirm_cases(1) [OF inv]
  by (simp add: process_message_def Let_def p2p_keep)

text \<open>
  C10: the request, confirmation and plain data packets write a NUL behind the payload without
  comparing the length in the packet with what was received: the handler leaves the 4096-byte
  buffer exactly when the length in the packet says so, and an add request also when its id has
  64 characters or more.
\<close>

theorem packet_overrun_iff:
  assumes "p2p_inv st" and "i < length (pm_peers st)" and "length buf = 4096" and "P2P_HEADER \<le> n"
    and "from_le32 buf = P2P_MAGIC" and "buf ! 4 = P2P_PROTOCOL_VERSION"
    and "buf ! 5 \<in> {P2P_MSG_TYPE_ADD_REQUEST, P2P_MSG_TYPE_ACCEPT_CONFIRM, P2P_MSG_TYPE_REJECT_CONFIRM, P2P_MSG_TYPE_DATA}"
    and "buf ! 5 = P2P_MSG_TYPE_DATA \<Longrightarrow> \<not> pp_is_secure (pm_peers st ! i)"
  shows "process_message env (Some i) buf n st = None \<longleftrightarrow>
    4076 \<le> msg_payload_len buf
    \<or> buf ! 5 = P2P_MSG_TYPE_ADD_REQUEST \<and> 64 \<le> length (takeWhile (\<lambda>b. b \<noteq> 0) (take (msg_payload_len buf) (msg_payload buf)))"
proof -
  have over: "payload_text buf = None \<longleftrightarrow> 4076 \<le> msg_payload_len buf"
    using assms(3) by (auto simp: payload_text_None P2P_HEADER_def)
  have tw: "take k (takeWhile P xs) = takeWhile P (take k xs)" for k P and xs :: "byte list"
    by (induction xs arbitrary: k) (auto simp: take_Cons')
  have len: "length t = length (takeWhile (\<lambda>b. b \<noteq> 0) (take (msg_payload_len buf) (msg_payload buf)))"
    if "payload_text buf = Some t" for t
    using payload_text_Some(1) [OF that] by (simp add: bytes_string_def tw)
  have data: "handle_data env i buf st = None \<longleftrightarrow> 4076 \<le> msg_payload_len buf" if "\<not> pp_is_secure (pm_peers st ! i)"
  proof (cases "payload_text buf")
    case None
    then show ?thesis using that over by (simp add: handle_data_def Let_def)
  next
    case (Some t)
    then have "length t < 4096" using payload_text_Some(3) [OF Some] assms(3) by (simp add: P2P_HEADER_def)
    then show ?thesis using that over Some deliver_text_cases [OF assms(1,2)] by (simp add: handle_data_def Let_def)
  qed
  have "buf ! 5 = P2P_MSG_TYPE_ADD_REQUEST \<Longrightarrow> ?thesis"
    using assms(4-6) over len handle_add_request_cases(2) [OF assms(1,2)]
    by (auto simp: process_message_def Let_def p2p_types split: option.splits)
  moreover have "buf ! 5 \<in> {P2P_MSG_TYPE_ACCEPT_CONFIRM, P2P_MSG_TYPE_REJECT_CONFIRM} \<Longrightarrow> ?thesis"
    using assms(4-6) over handle_accept_confirm_cases(2) [OF assms(1,2)] handle_reject_confirm_cases(2) [OF assms(1)]
    by (auto simp: process_message_def Let_def p2p_types)
  moreover have "buf ! 5 = P2P_MSG_TYPE_DATA \<Longrightarrow> ?thesis"
    using assms(4-6,8) data by (auto simp: process_message_def Let_def p2p_types)
  ultimately show ?thesis using assms(7) by blast
qed


section \<open>The operations\<close>

lemma new_peer_fits: "peer_fits (new_peer env (normalize_id 64 pid))"
  by (simp add: peer_fits_def new_peer_def zero_p2p_peer_def length_normalize_id)

lemma find_peer_None_ids:
  assumes "p2p_inv st" and "find_peer pid st = None"
  shows "normalize_id 64 pid \<notin> pp_id ` set (pm_peers st)"
  using assms by (auto simp: find_peer_def find_index_None p2p_inv_def peer_fits_def)

lemma find_peer_Some:
  assumes "p2p_inv st" and "find_peer pid st = Some i"
  shows "i < length (pm_peers st)" and "pp_id (pm_peers st ! i) = normalize_id 64 pid"
proof -
  show i: "i < length (pm_peers st)" using assms(2) unfolding find_peer_def by (rule find_index_less)
  have "normalize_id 64 (pp_id (pm_peers st ! i)) = normalize_id 64 pid"
    using assms(2) unfolding find_peer_def by (rule find_index_holds)
  then show "pp_id (pm_peers st ! i) = normalize_id 64 pid"
    using inv_peer [OF assms(1) i] by (simp add: peer_fits_def)
qed

lemma add_peer_cases:
  assumes inv: "p2p_inv st" and a: "add_peer env pid st = Acquired (r, st')"
  shows "p2p_inv st' \<and> pm_locked st' = pm_locked st \<and> \<not> pm_locked st
    \<and> (case r of None \<Rightarrow> st' = st | Some i \<Rightarrow> i < length (pm_peers st') \<and> pp_id (pm_peers st' ! i) = normalize_id 64 pid)"
proof (cases "find_peer pid st")
  case (Some i)
  then have "i < length (pm_peers st)" "pp_id (pm_peers st ! i) = normalize_id 64 pid"
    using find_peer_Some [OF inv] by blast+
  moreover have "r = Some i" "st' = st" "\<not> pm_locked st" using a Some by (simp_all add: add_peer_def split: if_splits)
  ultimately show ?thesis using inv by simp
next
  case None
  then show ?thesis
    using a inv new_peer_fits [of env pid] find_peer_None_ids [OF inv None]
    by (auto simp: add_peer_def p2p_inv_def new_peer_def split: if_splits)
qed

lemma p2p_recv_state_fits:
  "p2p_inv st \<Longrightarrow> length a < 16 \<Longrightarrow> p2p_inv (upd_peer i (\<lambda>p. p\<lparr>pp_ip := a, pp_port := b, pp_state := c,
     pp_udp_socket := d, pp_is_initiator := e, pp_last_activity := t, pp_addr := g\<rparr>) st)"
  "p2p_inv st \<Longrightarrow> length a < 16 \<Longrightarrow> p2p_inv (upd_peer i (\<lambda>p. p\<lparr>pp_ip := a, pp_port := b, pp_state := c,
     pp_is_initiator := e, pp_last_activity := t, pp_addr := g\<rparr>) st)"
  by (rule upd_peer_inv; simp add: peer_fits_def)+

text \<open>The listener holds the mutex that \<open>add_peer\<close> wants.\<close>

lemma accept_unknown_locked:
  assumes "pm_locked st"
  shows "accept_unknown env buf n ip port st = (case strchr bar (msg_payload buf) of
      None \<Rightarrow> None | Some None \<Rightarrow> Some (Acquired st) | Some (Some _) \<Rightarrow> Some Self_Deadlock)"
  using assms by (simp add: accept_unknown_def add_peer_def Let_def split: option.split)

lemma listener_keeps:
  assumes inv: "p2p_inv st" and ul: "\<not> pm_locked st"
    and r: "listener_receive env stale packet ip port st = Some (Acquired st')"
  shows "p2p_inv st' \<and> \<not> pm_locked st'"
proof -
  let ?buf = "listener_buffer stale packet" and ?n = "min 4096 (length packet)"
  have known: "p2p_inv st2 \<and> \<not> pm_locked (unlock st2)"
    if "sender_index ip port st = Some i" "process_message env (Some i) ?buf ?n (lock st) = Some (rc, st2)" for i rc st2
  proof -
    have "i < length (pm_peers st)" using that(1) unfolding sender_index_def by (rule find_index_less)
    then have "i < length (pm_peers (lock st))" by (simp add: lock_def)
    from process_message_keeps [OF _ this, of env ?buf ?n] inv that(2) show ?thesis by (simp add: unlock_def)
  qed
  have "accept_unknown env ?buf ?n ip port (lock st) = Some (Acquired st2) \<Longrightarrow> st2 = lock st" for st2
    by (simp add: accept_unknown_locked lock_def split: option.splits)
  then show ?thesis
    using r inv ul known
    by (auto simp: listener_receive_def Let_def unlock_def split: if_splits option.splits attempt.splits Option.bind_splits)
qed


lemma keeps_send:
  "p2p_inv st \<Longrightarrow> keeps st (Some (send_message env p ty pl (st\<lparr>pm_crypto := c\<rparr>)))"
  using send_message_inv [of "st\<lparr>pm_crypto := c\<rparr>" env p ty pl] send_message_frame [of env p ty pl "st\<lparr>pm_crypto := c\<rparr>"]
  by (cases "send_message env p ty pl (st\<lparr>pm_crypto := c\<rparr>)") simp

lemma send_handshake_keeps: "p2p_inv st \<Longrightarrow> keeps st (send_handshake env i st)"
  by (auto simp: send_handshake_def Let_def intro!: keeps_bind keeps_send split: option.split prod.split)

lemma create_socket_inv:
  "p2p_inv st \<Longrightarrow> create_udp_socket env st = (fd, st') \<Longrightarrow>
   p2p_inv st' \<and> pm_peers st' = pm_peers st \<and> pm_locked st' = pm_locked st"
  by (auto simp: create_udp_socket_def split: if_splits)

lemma abandon_inv: "p2p_inv st \<Longrightarrow> p2p_inv (abandon i st) \<and> pm_locked (abandon i st) = pm_locked st"
  unfolding abandon_def close_peer_socket_def by (simp add: p2p_keep)

lemma connect_found_keeps:
  assumes inv: "p2p_inv st" and r: "p2p_connect_found env norm ip port st = Some (Acquired (rc, st'))"
  shows "p2p_inv st' \<and> pm_locked st' = pm_locked st"
proof -
  obtain ri st1 where a: "add_peer env norm st = Acquired (ri, st1)"
    using r by (cases "add_peer env norm st") (auto simp: p2p_connect_found_def)
  note s1 = add_peer_cases [OF inv a]
  show ?thesis
  proof (cases ri)
    case None
    then show ?thesis using r a s1 by (auto simp: p2p_connect_found_def)
  next
    case (Some i)
    let ?f = "\<lambda>p. p\<lparr>pp_ip := ip, pp_port := port, pp_state := P2P_STATE_CONNECTING,
               pp_is_initiator := True, pp_last_activity := x_clk env 4, pp_addr := (ip, word_of_int port)\<rparr>"
    have ip: "length ip < 16" using r a Some by (auto simp: p2p_connect_found_def strcpy_into_def split: if_splits)
    obtain fd st2 where c: "create_udp_socket env (upd_peer i ?f st1) = (fd, st2)" by fastforce
    have "p2p_inv (upd_peer i ?f st1)" using s1 ip by (simp add: p2p_recv_state_fits)
    from create_socket_inv [OF this c] have "p2p_inv st2" "pm_locked st2 = pm_locked st" using s1 by simp_all
    then have st3: "p2p_inv (upd_peer i (\<lambda>p. p\<lparr>pp_udp_socket := fd\<rparr>) st2)" by (simp add: p2p_keep)
    show ?thesis
      using r a Some ip c st3 \<open>pm_locked st2 = pm_locked st\<close> send_handshake_keeps [OF st3, of "at_time 5 env" i] abandon_inv
      by (auto simp: p2p_connect_found_def Let_def strcpy_into_fits p2p_keep split: if_splits Option.bind_splits)
  qed
qed

lemma p2p_connect_keeps:
  "p2p_inv st \<Longrightarrow> p2p_connect env pid st = Some (Acquired (rc, st')) \<Longrightarrow> p2p_inv st' \<and> pm_locked st' = pm_locked st"
  using connect_found_keeps
  by (fastforce simp: p2p_connect_def Let_def split: if_splits option.splits prod.splits bool.splits)

lemma p2p_accept_keeps:
  assumes inv: "p2p_inv st"
  shows "keeps st (p2p_accept env pid st)"
proof (cases "find_peer (normalize_id 64 pid) st")
  case None
  then show ?thesis using inv by (simp add: p2p_accept_def Let_def)
next
  case (Some i)
  obtain rc st1 where "establish_secure_channel env i st = Some (rc, st1)" "p2p_inv st1"
    "length (pm_peers st1) = length (pm_peers st)" "pm_locked st1 = pm_locked st"
    using establish_total [OF inv, of env i] by (auto simp: keys_result_def)
  then show ?thesis using inv Some by (simp add: p2p_accept_def Let_def p2p_keep event_create_fits)
qed

lemma p2p_disconnect_keeps:
  "p2p_inv st \<Longrightarrow> p2p_inv (snd (p2p_disconnect env pid st)) \<and> pm_locked (snd (p2p_disconnect env pid st)) = pm_locked st"
  by (auto simp: p2p_disconnect_def Let_def close_peer_socket_def p2p_keep event_create_fits split: option.split)

lemma p2p_send_keeps:
  "p2p_inv st \<Longrightarrow> p2p_inv (snd (p2p_send env pid msg st)) \<and> pm_locked (snd (p2p_send env pid msg st)) = pm_locked st"
  "p2p_inv st \<Longrightarrow> p2p_inv (snd (p2p_send_secure env pid d st)) \<and> pm_locked (snd (p2p_send_secure env pid d st)) = pm_locked st"
proof -
  show sec: "p2p_inv (snd (p2p_send_secure env pid d st)) \<and> pm_locked (snd (p2p_send_secure env pid d st)) = pm_locked st"
    if "p2p_inv st" for pid d
    using that by (auto simp: p2p_send_secure_def Let_def p2p_keep case_prod_beta split: option.split)
  show "p2p_inv st \<Longrightarrow> p2p_inv (snd (p2p_send env pid msg st)) \<and> pm_locked (snd (p2p_send env pid msg st)) = pm_locked st"
    using sec by (auto simp: p2p_send_def p2p_keep split: option.split)
qed

lemma keepalive_peer_keeps:
  "p2p_inv st \<Longrightarrow> p2p_inv (keepalive_peer env now i st) \<and> pm_locked (keepalive_peer env now i st) = pm_locked st"
  by (auto simp: keepalive_peer_def Let_def p2p_keep event_create_fits)

lemma keepalive_pass_keeps:
  "p2p_inv st \<Longrightarrow> p2p_inv (keepalive_pass envs now st) \<and> pm_locked (keepalive_pass envs now st) = pm_locked st"
proof -
  have "p2p_inv (fold (\<lambda>i. keepalive_peer (envs i) now i) is st)
      \<and> pm_locked (fold (\<lambda>i. keepalive_peer (envs i) now i) is st) = pm_locked st" if "p2p_inv st" for "is" st
    using that by (induction "is" arbitrary: st) (simp_all add: keepalive_peer_keeps)
  then show "p2p_inv st \<Longrightarrow> ?thesis" unfolding keepalive_pass_def by blast
qed


lemma p2p_init_keeps: "p2p_inv st \<Longrightarrow> p2p_init env st = Some (rc, st') \<Longrightarrow> p2p_inv st' \<and> pm_locked st' = pm_locked st"
  by (auto simp: p2p_init_def create_udp_socket_def Let_def p2p_inv_def split: if_splits Option.bind_splits option.splits)

lemma p2p_cleanup_inv: "p2p_inv st \<Longrightarrow> p2p_inv (p2p_cleanup st) \<and> pm_locked (p2p_cleanup st) = pm_locked st"
  by (simp add: p2p_cleanup_def p2p_inv_def P2P_MAX_PEERS_def)

section \<open>What does not return\<close>

text \<open>The types of packets with a payload that a handler copies.\<close>

definition payload_types :: "byte set" where
  "payload_types = {P2P_MSG_TYPE_HANDSHAKE, P2P_MSG_TYPE_DATA, P2P_MSG_TYPE_ADD_REQUEST, P2P_MSG_TYPE_ACCEPT_CONFIRM,
     P2P_MSG_TYPE_REJECT_CONFIRM}"

lemma process_stuck: "process_message env p buf n st = None \<Longrightarrow> buf ! 4 = P2P_PROTOCOL_VERSION \<and> buf ! 5 \<in> payload_types"
  by (auto simp: process_message_def payload_types_def Let_def split: option.splits if_splits)

lemma listener_stuck:
  assumes "listener_receive env stale packet ip port st \<in> {None, Some Self_Deadlock}"
  shows "P2P_HEADER \<le> length packet \<and> from_le32 (listener_buffer stale packet) = P2P_MAGIC
    \<and> listener_buffer stale packet ! 5 \<in> (if sender_index ip port st = None then {P2P_MSG_TYPE_HANDSHAKE} else payload_types)"
  using assms
  by (auto simp: listener_receive_def Let_def dest: process_stuck split: if_splits option.splits Option.bind_splits)

lemma p2p_accept_returns:
  assumes "p2p_inv st"
  shows "p2p_accept env pid st \<noteq> None"
proof (cases "find_peer (normalize_id 64 pid) st")
  case None
  then show ?thesis by (simp add: p2p_accept_def Let_def)
next
  case (Some i)
  obtain rc st1 where "establish_secure_channel env i st = Some (rc, st1)"
    using establish_total [OF assms, of env i] by (auto simp: keys_result_def)
  then show ?thesis using Some by (simp add: p2p_accept_def Let_def)
qed

lemma p2p_connect_unlocked: "\<not> pm_locked st \<Longrightarrow> p2p_connect env pid st \<noteq> Some Self_Deadlock"
  by (auto simp: p2p_connect_def p2p_connect_found_def add_peer_def Let_def
      split: if_splits option.splits prod.splits bool.splits Option.bind_splits)

section \<open>The manager as a transition system\<close>

text \<open>
  One step is one call of the interface, one datagram at the listener, one keepalive pass, or
  anything the event loop and its other feeders do with the world meanwhile.  What runs outside
  a buffer or locks itself out does not return and has no successor; \<open>listener_stuck\<close> and
  the lemmas on the calls say when that can be.
\<close>

inductive p2p_step :: "p2p \<Rightarrow> p2p \<Rightarrow> bool" where
  step_connect: "p2p_connect env pid st = Some (Acquired (rc, st')) \<Longrightarrow> p2p_step st st'"
| step_accept: "p2p_accept env pid st = Some (rc, st') \<Longrightarrow> p2p_step st st'"
| step_disconnect: "p2p_disconnect env pid st = (rc, st') \<Longrightarrow> p2p_step st st'"
| step_send: "p2p_send env dest msg st = (rc, st') \<Longrightarrow> p2p_step st st'"
| step_send_secure: "p2p_send_secure env dest data st = (rc, st') \<Longrightarrow> p2p_step st st'"
| step_init: "p2p_init env st = Some (rc, st') \<Longrightarrow> p2p_step st st'"
| step_cleanup: "p2p_step st (p2p_cleanup st)"
| step_receive: "listener_receive env stale packet ip port st = Some (Acquired st') \<Longrightarrow> p2p_step st st'"
| step_keepalive: "p2p_step st (keepalive_pass envs now st)"
| step_world: "loop_reaches (pm_world st) w \<Longrightarrow> p2p_step st (st\<lparr>pm_world := w\<rparr>)"

inductive p2p_reach :: "p2p \<Rightarrow> p2p \<Rightarrow> bool" where
  reach_start: "p2p_reach st st"
| reach_step: "p2p_reach st st1 \<Longrightarrow> p2p_step st1 st2 \<Longrightarrow> p2p_reach st st2"

inductive_cases p2p_stepE: "p2p_step st st'"

definition fresh_p2p :: p2p where
  "fresh_p2p = \<lparr>pm_peers = [], pm_socket = 3, pm_port = P2P_PORT, pm_local_ip = ''127.0.0.1'',
     pm_nat_type = NAT_UNKNOWN, pm_has_ipv6 = False, pm_has_upnp = False, pm_initialized = True,
     pm_listener_running = True, pm_keepalive_running = True, pm_locked = False, pm_closed = [],
     pm_sent = [], pm_world = initial_world, pm_crypto = \<lparr>c_error = '''', c_live = {#}\<rparr>\<rparr>"

lemma fresh_p2p_inv: "p2p_inv fresh_p2p" "\<not> pm_locked fresh_p2p"
  by (simp_all add: p2p_inv_def fresh_p2p_def initial_world_ok)


lemma p2p_step_keeps: "p2p_step st st' \<Longrightarrow> p2p_inv st \<Longrightarrow> \<not> pm_locked st \<Longrightarrow> p2p_inv st' \<and> \<not> pm_locked st'"
proof (induction rule: p2p_step.induct)
  case (step_connect env pid st rc st')
  then show ?case using p2p_connect_keeps by blast
next
  case (step_accept env pid st rc st')
  then show ?case using p2p_accept_keeps [of st env pid] by simp
next
  case (step_disconnect env pid st rc st')
  then show ?case using p2p_disconnect_keeps [of st env pid] by simp
next
  case (step_send env dest msg st rc st')
  then show ?case using p2p_send_keeps(1) [of st env dest msg] by simp
next
  case (step_send_secure env dest data st rc st')
  then show ?case using p2p_send_keeps(2) [of st env dest data] by simp
next
  case (step_init env st rc st')
  then show ?case using p2p_init_keeps by blast
next
  case (step_cleanup st)
  then show ?case using p2p_cleanup_inv by simp
next
  case (step_receive env stale packet ip port st st')
  then show ?case using listener_keeps by blast
next
  case (step_keepalive st envs now)
  then show ?case using keepalive_pass_keeps by blast
next
  case (step_world st w)
  then show ?case using loop_reaches_world_ok by (simp add: p2p_inv_def)
qed

text \<open>
  C8: from a freshly initialised manager, after any sequence of calls, received datagrams,
  keepalive passes and work of the event loop that each returned, the table holds at most 256
  peers with distinct, normalised ids that fit their arrays, the invariants of the peer
  directory and the event queue hold, and the mutex is free.  From there accepting always
  returns and connecting never waits for itself; a datagram that the listener does not return
  from has a full header and the magic number and is a handshake or, from an address of the
  table, a data, request, confirmation or rejection packet.
\<close>

theorem p2p_invariant:
  assumes "p2p_reach fresh_p2p st"
  shows "p2p_inv st \<and> \<not> pm_locked st
    \<and> p2p_accept env pid st \<noteq> None \<and> p2p_connect env pid st \<noteq> Some Self_Deadlock
    \<and> (listener_receive env stale packet ip port st \<in> {None, Some Self_Deadlock} \<longrightarrow>
        P2P_HEADER \<le> length packet \<and> from_le32 (listener_buffer stale packet) = P2P_MAGIC
      \<and> listener_buffer stale packet ! 5 \<in> (if sender_index ip port st = None then {P2P_MSG_TYPE_HANDSHAKE} else payload_types))"
proof -
  have "p2p_reach st0 st \<Longrightarrow> p2p_inv st0 \<Longrightarrow> \<not> pm_locked st0 \<Longrightarrow> p2p_inv st \<and> \<not> pm_locked st" for st0 st
    by (induction rule: p2p_reach.induct) (auto dest: p2p_step_keeps)
  then have "p2p_inv st \<and> \<not> pm_locked st" using assms fresh_p2p_inv by blast
  then show ?thesis
    using p2p_accept_returns p2p_connect_unlocked listener_stuck [of env stale packet ip port st] by blast
qed

section \<open>What packets can do\<close>

lemma mgr_chain_directory:
  assumes ok: "mgr_ok m" and n: "norm_arg (Some t) = Some n" and p: "directory m n = Some p"
  shows "\<exists>p'. directory (delivered_mgr clk' n (snd (state_set_port (Some t) port
      (snd (with_peer (Some t) (\<lambda>p. p\<lparr>p_ip := ip\<rparr>) (snd (state_set_online clk'' (Some t) True
        (snd (state_update_peer clk (Some t) PEER_FRIEND m))))))))) = (directory m)(n \<mapsto> p')
    \<and> p_state p' = PEER_FRIEND \<and> p_online p' \<and> p_ip p' = ip \<and> p_port p' = port"
proof -
  let ?fs = "[update_record clk PEER_FRIEND, \<lambda>p. p\<lparr>p_online := True, p_last_seen := clk'' 0\<rparr>,
    \<lambda>p. p\<lparr>p_ip := ip\<rparr>, \<lambda>p. p\<lparr>p_port := port\<rparr>]"
  have keep: "\<forall>f \<in> set ?fs. keeps_id f" by auto
  have eq: "snd (state_set_port (Some t) port (snd (with_peer (Some t) (\<lambda>p. p\<lparr>p_ip := ip\<rparr>) (snd (state_set_online clk'' (Some t) True
        (snd (state_update_peer clk (Some t) PEER_FRIEND m))))))) = setters t ?fs m"
    by (simp add: setters_Cons state_update_peer_with_peer state_set_online_def state_set_port_def)
  let ?p = "fold (\<lambda>f. f) ?fs p"
  have "directory (setters t ?fs m) = (directory m)(n \<mapsto> ?p)"
    using setters_directory [OF n keep ok] p by simp
  then show ?thesis
    unfolding eq using delivered_directory [OF setters_mgr_ok [OF keep ok] n, of clk']
    by (auto simp: settle_def update_record_def Let_def)
qed

text \<open>
  An accept confirmation names its subject in the payload, and nothing ties it to the
  connection it came over: from any peer in the table, in whatever state, it makes any known
  peer a friend, online, and at the address of the sender.
\<close>

theorem accept_confirm_befriends_anyone:
  assumes "p2p_inv st" and "i < length (pm_peers st)" and "P2P_HEADER \<le> n"
    and "from_le32 buf = P2P_MAGIC" and "buf ! 4 = P2P_PROTOCOL_VERSION" and "buf ! 5 = P2P_MSG_TYPE_ACCEPT_CONFIRM"
    and "payload_text buf = Some t" and "norm_arg (Some t) = Some k"
    and "directory (w_mgr (pm_world st)) k = Some p"
  shows "\<exists>st' p'. process_message env (Some i) buf n st = Some (0, st')
    \<and> directory (w_mgr (pm_world st')) = (directory (w_mgr (pm_world st)))(k \<mapsto> p')
    \<and> p_state p' = PEER_FRIEND \<and> p_online p'
    \<and> p_ip p' = pp_ip (pm_peers st ! i) \<and> p_port p' = pp_port (pm_peers st ! i)"
proof -
  let ?clk = "x_clk env" and ?q = "pm_peers st ! i"
  have ip: "length (pp_ip ?q) < 16" using inv_peer [OF assms(1,2)] by (simp add: peer_fits_def)
  define st1 where "st1 = on_mgr (state_set_port (Some t) (pp_port ?q))
      (on_mgr (with_peer (Some t) (\<lambda>p. p\<lparr>p_ip := pp_ip ?q\<rparr>))
        (on_mgr (state_set_online (clk_after 2 ?clk) (Some t) True)
          (on_mgr (state_update_peer ?clk (Some t) PEER_FRIEND) st)))"
  have inv1: "p2p_inv st1" using assms(1) by (simp add: st1_def p2p_keep)
  obtain nn q m where d: "state_deliver_ghost_messages (clk_after 3 ?clk) (Some t) (w_queue (pm_world st1))
      (w_mgr (pm_world st1)) = Some (nn, q, m)"
    and m: "m = (case norm_arg (Some t) of None \<Rightarrow> w_mgr (pm_world st1)
        | Some k \<Rightarrow> delivered_mgr (clk_after 3 ?clk) k (w_mgr (pm_world st1)))"
    by (rule deliver_world [OF inv1])
  have mk: "m = delivered_mgr (clk_after 3 ?clk) k (w_mgr (pm_world st1))" using m assms(8) by simp
  have "handle_accept_confirm env i buf st = Some (0, p2p_push (event_create (clk_after 5000 ?clk) EVENT_ACCEPT_CONFIRM (Some t))
      (st1\<lparr>pm_world := (pm_world st1)\<lparr>w_mgr := m, w_queue := q\<rparr>\<rparr>))"
    using d ip unfolding st1_def by (simp add: handle_accept_confirm_def assms(7) on_mgr_opt_set_ip Let_def)
  moreover have "process_message env (Some i) buf n st = handle_accept_confirm env i buf st"
    using assms(3-6) by (simp add: process_message_def p2p_types)
  moreover have "mgr_ok (w_mgr (pm_world st))" using assms(1) by (simp add: p2p_inv_def world_ok_def)
  note mgr_chain_directory [OF this assms(8,9), of "clk_after 3 ?clk" "pp_port ?q" "pp_ip ?q" "clk_after 2 ?clk" ?clk]
  ultimately show ?thesis by (simp add: mk st1_def)
qed

text \<open>
  The keepalive meant to detect a dead peer refreshes it: as long as the keepalive packet
  can be handed to the socket the peer stays established however long it has been silent; it is
  disconnected only when sending fails.
\<close>

theorem keepalive_disconnects_iff:
  assumes "i < length (pm_peers st)" and "pp_state (pm_peers st ! i) = P2P_STATE_ESTABLISHED"
    and "now \<le> x_clk env 2"
  shows "pp_state (pm_peers (keepalive_peer env now i st) ! i) =
    (if now - pp_last_activity (pm_peers st ! i) > 150
        \<and> fst (send_message env (Some i) P2P_MSG_TYPE_KEEPALIVE [0] st) < 0
     then P2P_STATE_DISCONNECTED else P2P_STATE_ESTABLISHED)"
  using assms
  by (auto simp: keepalive_peer_def send_message_def Let_def P2P_KEEPALIVE_INTERVAL_def upd_peer_def)


text \<open>PEM texts start with dashes, which the hexadecimal reader refuses.\<close>

definition keys_are_pem :: "ssl \<Rightarrow> bool" where
  "keys_are_pem ssl \<longleftrightarrow> (\<forall>k. o_pub_ok ssl k \<longrightarrow> take 10 k = ''-----BEGIN'')"

lemma hex_refuses_pem:
  assumes "take 10 k = ''-----BEGIN''"
  shows "fst (orca_x25519_hex_to_public_key True (Some k) c) = None"
proof -
  have "10 \<le> length k" using arg_cong [OF assms, of length] by simp
  then have "k ! 1 = take 10 k ! 1" by simp
  then have "\<not> is_hex (k ! (2 * 0 + 1))" unfolding assms by (simp add: is_hex_def hex_val_def)
  moreover have "\<forall>i < length k div 2. is_hex (k ! (2 * i + 1))" if "hex_pairs k \<noteq> None"
    using that unfolding hex_pairs_Some by blast
  moreover have "0 < length k div 2" using \<open>10 \<le> length k\<close> by linarith
  ultimately have "hex_pairs k = None" by blast
  then show ?thesis
    by (simp add: orca_x25519_hex_to_public_key_def hex_bytes_or_error_def orca_hex_to_bytes_def reject_def)
qed

lemma keys_need_hex:
  assumes "fst (orca_x25519_hex_to_public_key True (Some (pp_public_key (pm_peers st ! i)))
      (snd (orca_x25519_generate_keypair (x_ok env) (x_ssl env) (x_priv env) True (pm_crypto st)))) = None"
    and "generate_session_keys env i st = Some (rc, st')"
  shows "rc = -1"
  using assms
  by (cases "orca_x25519_hex_to_public_key True (Some (pp_public_key (pm_peers st ! i)))
      (snd (orca_x25519_generate_keypair (x_ok env) (x_ssl env) (x_priv env) True (pm_crypto st)))")
    (auto simp: generate_session_keys_def Let_def split: option.splits prod.splits)

lemma rsa_verify_string_pub:
  "fst (orca_rsa_verify_string ok ssl (Some d) (Some sg) (Some pem) s) \<Longrightarrow> o_pub_ok ssl pem"
  by (auto simp: orca_rsa_verify_string_def orca_rsa_verify_def fst_run Let_def simp del: run.simps
      split: prod.splits option.splits)

text \<open>
  No received handshake ever completes: the public key that verifies the signature is a PEM
  text, and the session keys are then derived from the same text read as 64 hexadecimal digits,
  which fails.
\<close>

theorem handshake_never_completes:
  assumes "keys_are_pem (x_ssl env)" and "i < length (pm_peers st)"
    and "handle_handshake env i buf st = Some (rc, st')"
  shows "rc = -1"
proof -
  have "rc = -1" if k: "take 10 k = ''-----BEGIN''" and a: "accept_handshake env i k (st\<lparr>pm_crypto := c\<rparr>) = Some (rc, st')"
    for k c
  proof -
    let ?env = "(at_time 1 env)\<lparr>x_ok := shift 5 (x_ok env)\<rparr>"
    let ?st = "upd_peer i (\<lambda>p. p\<lparr>pp_public_key := k, pp_is_secure := True\<rparr>) (st\<lparr>pm_crypto := c\<rparr>)"
    have "pp_public_key (pm_peers ?st ! i) = k" using assms(2) by simp
    then have "establish_secure_channel ?env i ?st = Some (r, st2) \<Longrightarrow> r = -1" for r st2
      using keys_need_hex [of ?st i ?env] hex_refuses_pem [OF k]
      by (auto simp: establish_secure_channel_def split: if_splits Option.bind_splits)
    then show ?thesis using a
      by (auto simp: accept_handshake_def strcpy_into_def Let_def split: if_splits Option.bind_splits)
  qed
  moreover have "take 10 k = ''-----BEGIN''" if "fst (orca_rsa_verify_string ok (x_ssl env) (Some d) (Some sg) (Some k) c)" for ok d sg k c
    using assms(1) rsa_verify_string_pub [OF that] by (simp add: keys_are_pem_def)
  ultimately show ?thesis
    using assms(3)
    by (auto simp: handle_handshake_def Let_def split: Option.bind_splits option.splits prod.splits if_splits)
      (metis fst_conv)
qed

text \<open>
  A handshake from an address that is not in the table stops the listener for ever: it
  calls \<open>add_peer\<close>, which locks the mutex the listener already holds.
\<close>

theorem unknown_handshake_deadlocks:
  assumes "length packet \<le> 4096" and "P2P_HEADER \<le> length packet" and "sender_index ip port st = None"
    and "from_le32 packet = P2P_MAGIC" and "packet ! 5 = P2P_MSG_TYPE_HANDSHAKE"
    and "drop P2P_HEADER packet = a @ bar # b" and "bar \<notin> set a" and "0 \<notin> set a"
  shows "listener_receive env stale packet ip port st = Some Self_Deadlock"
proof -
  let ?buf = "listener_buffer stale packet"
  have buf: "?buf = packet @ drop (length packet) stale" using assms(1) by (simp add: listener_buffer_def)
  then have hdr: "from_le32 ?buf = P2P_MAGIC" "?buf ! 5 = P2P_MSG_TYPE_HANDSHAKE"
    using assms(2,4,5) by (simp_all add: from_le32_append nth_append P2P_HEADER_def)
  have "msg_payload ?buf = a @ bar # (b @ drop (length packet) stale)"
    using assms(2,6) by (simp add: msg_payload_def buf)
  then have "strchr bar (msg_payload ?buf) = Some (Some (a, b @ drop (length packet) stale))"
    using assms(7,8) strchr_found [of bar] by (simp add: bar_def)
  then show ?thesis
    using assms(1-3) hdr by (simp add: listener_receive_def Let_def accept_unknown_locked lock_def)
qed


section \<open>Packets on the wire\<close>

lemma p2p_message_layout:
  fixes pad ty seq ts payload
  defines "w \<equiv> p2p_message pad ty seq ts payload"
  shows "length w = P2P_HEADER + length payload" and "from_le32 w = P2P_MAGIC" and "w ! 4 = P2P_PROTOCOL_VERSION"
    and "w ! 5 = ty" and "drop 16 w = le32 (of_nat (length payload)) @ payload" and "drop P2P_HEADER w = payload"
proof -
  have p: "length (take 2 (pad @ [0, 0])) = 2" by simp
  show "length w = P2P_HEADER + length payload" by (simp add: w_def p2p_message_def P2P_HEADER_def)
  show "from_le32 w = P2P_MAGIC" unfolding w_def p2p_message_def by (rule from_le32_le32)
  show "w ! 4 = P2P_PROTOCOL_VERSION" "w ! 5 = ty"
    by (simp_all add: w_def p2p_message_def nth_append)
  show "drop 16 w = le32 (of_nat (length payload)) @ payload" "drop P2P_HEADER w = payload"
    using p by (simp_all add: w_def p2p_message_def P2P_HEADER_def del: take_append)
qed

lemma received_packet:
  fixes pad ty seq ts payload stale
  assumes "length payload + P2P_HEADER \<le> 4096"
  defines "buf \<equiv> listener_buffer stale (p2p_message pad ty seq ts payload)"
  shows "from_le32 buf = P2P_MAGIC" and "buf ! 4 = P2P_PROTOCOL_VERSION" and "buf ! 5 = ty"
    and "msg_payload_len buf = length payload" and "take (length payload) (msg_payload buf) = payload"
    and "P2P_HEADER + length payload \<le> length buf"
proof -
  let ?w = "p2p_message pad ty seq ts payload"
  note w = p2p_message_layout [of pad ty seq ts payload]
  have buf: "buf = ?w @ drop (length ?w) stale"
    using assms(1) w(1) by (simp add: buf_def listener_buffer_def)
  have h: "6 \<le> length ?w" "4 \<le> length ?w" "16 \<le> length ?w" "20 \<le> length ?w" using w(1) by (simp_all add: P2P_HEADER_def)
  show "from_le32 buf = P2P_MAGIC" unfolding buf using w(2) h by (simp add: from_le32_append)
  show "buf ! 4 = P2P_PROTOCOL_VERSION" "buf ! 5 = ty" unfolding buf using w(3,4) h by (simp_all add: nth_append)
  have "drop 16 buf = le32 (of_nat (length payload)) @ (payload @ drop (length ?w) stale)"
    unfolding buf using w(5) h by simp
  then have "msg_payload_len buf = unat (of_nat (length payload) :: 32 word)"
    unfolding msg_payload_len_def by (simp only: from_le32_le32)
  also have "\<dots> = length payload" using assms(1) by (simp add: unat_of_nat P2P_HEADER_def)
  finally show "msg_payload_len buf = length payload" .
  show "take (length payload) (msg_payload buf) = payload"
    unfolding msg_payload_def buf using w(6) h by (simp add: P2P_HEADER_def)
  show "P2P_HEADER + length payload \<le> length buf" unfolding buf using w(1) by simp
qed


lemma decrypt_all_True:
  "o_gcm_dec ssl k n t c len = Some d \<Longrightarrow>
   \<exists>s'. orca_aes_gcm_decrypt (\<lambda>_. True) ssl (Some c) len (Some k) (Some n) (Some t) s = (Some d, s')"
  by (simp add: orca_aes_gcm_decrypt_def finish_run)

lemma send_secure_sent:
  assumes ok: "ssl_ok (x_ssl env)" and i: "find_peer pid st = Some i" and key: "length (pp_aes_key (pm_peers st ! i)) = 32"
    and rnd: "12 \<le> length (x_random env)" "12 \<le> length (x_stack env)"
    and sent: "fst (p2p_send_secure env (Some pid) (Some d) st) = 0"
  shows "\<exists>nonce tag ct seq ts. length nonce = 12 \<and> length tag = 16 \<and> length ct = length d \<and> d \<noteq> []
    \<and> o_gcm_dec (x_ssl env) (pp_aes_key (pm_peers st ! i)) nonce tag ct (int (length ct)) = Some d
    \<and> pm_sent (snd (p2p_send_secure env (Some pid) (Some d) st))
      = pm_sent st @ [(pp_udp_socket (pm_peers st ! i), pp_addr (pm_peers st ! i),
          p2p_message (x_pad env) P2P_MSG_TYPE_DATA seq ts (nonce @ tag @ ct))]"
proof -
  let ?p = "pm_peers st ! i"
  obtain rn c where r: "orca_random_bytes (x_ok env) (x_random env) True 12 (pm_crypto st) = (rn, c)" by fastforce
  define nonce where "nonce = (case rn of None \<Rightarrow> take 12 (x_stack env) | Some b \<Rightarrow> b)"
  have ln: "length nonce = 12"
    using random_bytes_Some [of "x_ok env" "x_random env" 12 "pm_crypto st"] r rnd
    by (auto simp: nonce_def split: option.split)
  obtain sl c2 where e: "orca_aes_gcm_encrypt (shift 1 (x_ok env)) (x_ssl env) (Some d) (Some (pp_aes_key ?p)) (Some nonce) c = (sl, c2)"
    by fastforce
  have nz: "d \<noteq> []" using sent by (auto simp: p2p_send_secure_def)
  obtain ct tag where s: "sl = Some (ct, tag)"
    using sent i r e nz by (cases sl) (auto simp: p2p_send_secure_def nonce_def [symmetric] Let_def split: if_splits)
  have enc: "o_gcm_enc (x_ssl env) (pp_aes_key ?p) nonce d = (ct, tag)"
    using gcm_encrypt_Some e s by fastforce
  have g: "length ct = length d" "length tag = 16"
    "o_gcm_dec (x_ssl env) (pp_aes_key ?p) nonce tag ct (int (length ct)) = Some d"
    using ssl_ok_gcm [OF ok, rule_format, OF key ln, of d] unfolding enc prod.case by blast+
  have "pm_sent (snd (p2p_send_secure env (Some pid) (Some d) st))
      = pm_sent st @ [(pp_udp_socket ?p, pp_addr ?p,
          p2p_message (x_pad env) P2P_MSG_TYPE_DATA (word_of_int (x_clk env 0)) (word_of_int (x_clk env 1)) (nonce @ tag @ ct))]"
    using sent i r e s nz
    by (auto simp: p2p_send_secure_def nonce_def [symmetric] send_message_def Let_def split: if_splits)
  then show ?thesis using ln g nz by blast
qed

text \<open>
  C9: encrypted text is delivered: what \<open>p2p_send\<close>, when it returns 0, has put on the wire for a
  text of at most 4048 bytes makes the receiver, when it knows the sender's address as a secure
  peer with the same key and each of its calls of OpenSSL succeeds, push one event with exactly
  that text and hand the text to the chat store under the sender's id.  Both keep it as far as
  they have room: \<open>event_queue_push\<close> and \<open>state_add_message\<close> refuse when they are full.
\<close>

theorem secure_text_delivered:
  assumes "ssl_ok (x_ssl env)" and "x_ssl env' = x_ssl env" and "x_ok env' = (\<lambda>_. True)"
    and "12 \<le> length (x_random env)" and "12 \<le> length (x_stack env)"
    and "find_peer pid st = Some i" and "pp_is_secure (pm_peers st ! i)"
    and "length (pp_aes_key (pm_peers st ! i)) = 32"
    and "fst (p2p_send env (Some pid) (Some msg) st) = 0" and "length msg \<le> 4048" and "0 \<notin> set (string_bytes msg)"
    and "p2p_inv st'" and "sender_index ip port st' = Some j" and "pp_is_secure (pm_peers st' ! j)"
    and "pp_aes_key (pm_peers st' ! j) = pp_aes_key (pm_peers st ! i)"
  shows "\<exists>packet st'' e. pm_sent (snd (p2p_send env (Some pid) (Some msg) st))
      = pm_sent st @ [(pp_udp_socket (pm_peers st ! i), pp_addr (pm_peers st ! i), packet)]
    \<and> listener_receive env' stale packet ip port st' = Some (Acquired st'')
    \<and> ev_type e = EVENT_MESSAGE_RECEIVED \<and> ev_from_id e = pp_id (pm_peers st' ! j) \<and> ev_message e = msg
    \<and> w_queue (pm_world st'') = snd (event_queue_push (Some e) (w_queue (pm_world st')))
    \<and> w_mgr (pm_world st'') = snd (state_add_message (Some (pp_id (pm_peers st' ! j))) (Some msg) (w_mgr (pm_world st')))"
proof -
  let ?p = "pm_peers st ! i" and ?q = "pm_peers st' ! j"
  have snd_eq: "p2p_send env (Some pid) (Some msg) st = p2p_send_secure env (Some pid) (Some (string_bytes msg)) st"
    using assms(6,7,9) by (auto simp: p2p_send_def)
  from send_secure_sent [OF assms(1,6,8,4,5), of "string_bytes msg"] assms(9) snd_eq
  obtain nonce tag ct seq ts where w: "length nonce = 12" "length tag = 16" "length ct = length (string_bytes msg)"
      "string_bytes msg \<noteq> []"
    and dec: "o_gcm_dec (x_ssl env) (pp_aes_key ?p) nonce tag ct (int (length ct)) = Some (string_bytes msg)"
    and sent: "pm_sent (snd (p2p_send env (Some pid) (Some msg) st)) = pm_sent st @ [(pp_udp_socket ?p, pp_addr ?p,
          p2p_message (x_pad env) P2P_MSG_TYPE_DATA seq ts (nonce @ tag @ ct))]"
    by auto
  let ?pl = "nonce @ tag @ ct"
  let ?w = "p2p_message (x_pad env) P2P_MSG_TYPE_DATA seq ts ?pl"
  let ?buf = "listener_buffer stale ?w"
  have len: "length ?pl + P2P_HEADER \<le> 4096" using w assms(10) by (simp add: P2P_HEADER_def string_bytes_def)
  note b = received_packet [OF len, of stale "x_pad env" P2P_MSG_TYPE_DATA seq ts]
  have n: "min 4096 (length ?w) = P2P_HEADER + length ?pl"
    using p2p_message_layout(1) [of "x_pad env" P2P_MSG_TYPE_DATA seq ts ?pl] len by simp
  have parts: "take 12 (msg_payload ?buf) = nonce" "take 16 (drop 12 (msg_payload ?buf)) = tag"
    "take (length ct) (drop 28 (msg_payload ?buf)) = ct"
  proof -
    obtain rest where mp: "msg_payload ?buf = ?pl @ rest" using b(5) by (metis append_take_drop_id)
    show "take 12 (msg_payload ?buf) = nonce" "take 16 (drop 12 (msg_payload ?buf)) = tag"
      "take (length ct) (drop 28 (msg_payload ?buf)) = ct"
      unfolding mp using w by simp_all
  qed
  obtain c2 where d: "orca_aes_gcm_decrypt (\<lambda>_. True) (x_ssl env) (Some ct) (int (length ct)) (Some (pp_aes_key ?p))
      (Some nonce) (Some tag) (pm_crypto st') = (Some (string_bytes msg), c2)"
    using decrypt_all_True [OF dec] by blast
  let ?lst = "(lock st')\<lparr>pm_crypto := free_res [MEM ''plaintext''] c2\<rparr>"
  have j: "j < length (pm_peers st')" using assms(13) unfolding sender_index_def by (rule find_index_less)
  have lst: "p2p_inv ?lst" "j < length (pm_peers ?lst)" "pm_peers ?lst = pm_peers st'" using assms(12) j by (simp_all add: lock_def)
  have tl: "length msg < 4096" using assms(10) by simp
  have sl: "length (string_bytes msg) = length msg" and ne: "msg \<noteq> []" using w(4) by (auto simp: string_bytes_def)
  let ?e = "(event_create (x_clk env') EVENT_MESSAGE_RECEIVED (Some (pp_id ?q)))\<lparr>ev_from_id := pp_id ?q, ev_message := msg\<rparr>"
  let ?d = "on_mgr (state_add_message (Some (pp_id ?q)) (Some msg)) (p2p_push ?e ?lst)"
  have del: "deliver_text (x_clk env') j msg ?lst = Some ?d"
    using deliver_text_cases [OF lst(1,2), of "x_clk env'" msg] tl lst(3) by simp
  have cs: "c_str (string_bytes msg @ [0]) = Some (string_bytes msg)"
  proof -
    have "takeWhile (\<lambda>b. b \<noteq> 0) (string_bytes msg @ [0]) = string_bytes msg"
      using assms(11) by (subst takeWhile_append2) auto
    then show ?thesis by (simp add: c_str_def)
  qed
  have "handle_data env' j ?buf (lock st') = Some (0, upd_peer j (\<lambda>p. p\<lparr>pp_last_activity := x_clk env' 1\<rparr>) ?d)"
    using b w assms(2,3,14,15) d del cs parts
    by (simp add: handle_data_def Let_def lock_def sl ne)
  then have "listener_receive env' stale ?w ip port st'
      = Some (Acquired (unlock (upd_peer j (\<lambda>p. p\<lparr>pp_last_activity := x_clk env' 1\<rparr>) ?d)))"
    using b n assms(13) by (simp add: listener_receive_def process_message_def p2p_types Let_def)
  moreover have "ev_type ?e = EVENT_MESSAGE_RECEIVED" by (simp add: event_create_def Let_def zero_event_def)
  ultimately show ?thesis
    using sent by (intro exI [of _ ?w] exI [of _ "unlock (upd_peer j (\<lambda>p. p\<lparr>pp_last_activity := x_clk env' 1\<rparr>) ?d)"] exI [of _ ?e])
      (simp add: unlock_def lock_def)
qed


section \<open>A channel without a key\<close>

lemma send_handshake_peers:
  assumes "send_handshake env i st = Some (rc, st')"
  shows "\<exists>t. pm_peers st' = pm_peers st \<or> pm_peers st' = (pm_peers st)[i := (pm_peers st ! i)\<lparr>pp_last_activity := t\<rparr>]"
  using assms
  by (auto simp: send_handshake_def send_message_def upd_peer_def Let_def
      split: option.splits prod.splits if_splits Option.bind_splits)

text \<open>A connect to a new peer that returned 0 has appended a cell with a zero key.\<close>

lemma connect_new_peer:
  assumes "find_peer pid st = None" and "x_dht env = (True, True, Some (ip, port))"
    and "p2p_connect env pid st = Some (Acquired (0, st'))"
  shows "\<exists>q. pm_peers st' = pm_peers st @ [q] \<and> pp_id q = normalize_id 64 pid \<and> pp_ip q = ip \<and> pp_port q = port
    \<and> pp_aes_key q = replicate 32 0 \<and> pp_state q = P2P_STATE_HANDSHAKE \<and> pm_initialized st"
proof -
  have f: "find_peer (normalize_id 64 pid) st = None" using assms(1) by (simp add: find_peer_def)
  have init: "pm_initialized st" using assms(3) by (auto simp: p2p_connect_def split: if_splits)
  then have c: "p2p_connect_found env (normalize_id 64 pid) ip port st = Some (Acquired (0, st'))"
    using assms(2,3) f by (simp add: p2p_connect_def Let_def)
  let ?n = "length (pm_peers st)"
  obtain st1 where a: "add_peer env (normalize_id 64 pid) st = Acquired (Some ?n, st1)"
    and p1: "pm_peers st1 = pm_peers st @ [new_peer env (normalize_id 64 pid)]"
    using c f by (auto simp: p2p_connect_found_def add_peer_def split: if_splits)
  define q0 where "q0 = (new_peer env (normalize_id 64 pid))\<lparr>pp_ip := ip, pp_port := port, pp_state := P2P_STATE_CONNECTING,
               pp_is_initiator := True, pp_last_activity := x_clk env 4, pp_addr := (ip, word_of_int port)\<rparr>"
  define st2 where "st2 = upd_peer ?n (\<lambda>p. p\<lparr>pp_ip := ip, pp_port := port, pp_state := P2P_STATE_CONNECTING,
               pp_is_initiator := True, pp_last_activity := x_clk env 4, pp_addr := (ip, word_of_int port)\<rparr>) st1"
  have p2: "pm_peers st2 = pm_peers st @ [q0]" by (simp add: st2_def q0_def upd_peer_def p1 nth_append)
  obtain fd st3 where s: "create_udp_socket env st2 = (fd, st3)" by fastforce
  then have p3: "pm_peers st3 = pm_peers st @ [q0]" using p2 by (auto simp: create_udp_socket_def split: if_splits)
  define st4 where "st4 = upd_peer ?n (\<lambda>p. p\<lparr>pp_udp_socket := fd\<rparr>) st3"
  have p4: "pm_peers st4 = pm_peers st @ [q0\<lparr>pp_udp_socket := fd\<rparr>]" by (simp add: st4_def upd_peer_def p3 nth_append)
  obtain rc st5 where h: "send_handshake (at_time 5 env) ?n st4 = Some (rc, st5)"
    and st': "st' = upd_peer ?n (\<lambda>p. p\<lparr>pp_state := P2P_STATE_HANDSHAKE\<rparr>) st5"
    using c a s by (auto simp: p2p_connect_found_def st2_def [symmetric] st4_def [symmetric] strcpy_into_def Let_def
        split: if_splits Option.bind_splits)
  obtain t where "pm_peers st5 = pm_peers st @ [q0\<lparr>pp_udp_socket := fd\<rparr>]
      \<or> pm_peers st5 = pm_peers st @ [q0\<lparr>pp_udp_socket := fd, pp_last_activity := t\<rparr>]"
    using send_handshake_peers [OF h] p4 by (auto simp: nth_append)
  then show ?thesis
    using init by (auto simp: st' upd_peer_def nth_append q0_def new_peer_def zero_p2p_peer_def)
qed

text \<open>
  A handshake response is believed without any proof: after a connect to a new peer, the
  bare 20-byte response from the peer's address makes the channel established and secure while
  its key is still the 32 zero bytes of the fresh cell.
\<close>

theorem response_opens_unkeyed_channel:
  assumes "p2p_inv st" and "find_peer pid st = None" and "x_dht env = (True, True, Some (ip, port))"
    and "p2p_connect env pid st = Some (Acquired (0, st1))" and "sender_index ip port st = None"
  shows "\<exists>st2. listener_receive env' stale (p2p_message pad P2P_MSG_TYPE_HANDSHAKE_RESPONSE seq ts []) ip port st1
      = Some (Acquired st2)
    \<and> p2p_is_connected pid st2 \<and> p2p_is_secure pid st2
    \<and> map_option (\<lambda>i. pp_aes_key (pm_peers st2 ! i)) (find_peer pid st2) = Some (replicate 32 0)"
proof -
  let ?w = "p2p_message pad P2P_MSG_TYPE_HANDSHAKE_RESPONSE seq ts []" and ?n = "length (pm_peers st)"
  obtain q where q: "pm_peers st1 = pm_peers st @ [q]" "pp_id q = normalize_id 64 pid" "pp_ip q = ip" "pp_port q = port"
    "pp_aes_key q = replicate 32 0"
    using connect_new_peer [OF assms(2-4)] by blast
  have new: "find_index P (xs @ [x]) = Some (length xs)" if "find_index P xs = None" "P x" for P xs and x :: P2PPeer
    using that by (induction xs) (auto split: if_splits)
  have idx: "sender_index ip port st1 = Some ?n"
    using new assms(5) q by (simp add: sender_index_def)
  let ?f = "\<lambda>p. p\<lparr>pp_state := P2P_STATE_ESTABLISHED, pp_is_secure := True, pp_last_activity := x_clk env' 0\<rparr>"
  let ?st2 = "unlock (upd_peer ?n ?f (lock st1))"
  have "length ([] :: byte list) + P2P_HEADER \<le> 4096" by (simp add: P2P_HEADER_def)
  note b = received_packet [OF this, of stale pad P2P_MSG_TYPE_HANDSHAKE_RESPONSE seq ts]
  have "listener_receive env' stale ?w ip port st1 = Some (Acquired ?st2)"
    using b idx p2p_message_layout(1) [of pad P2P_MSG_TYPE_HANDSHAKE_RESPONSE seq ts "[]"]
    by (simp add: listener_receive_def process_message_def p2p_types Let_def P2P_HEADER_def)
  moreover have p: "pm_peers ?st2 = pm_peers st @ [?f q]" by (simp add: unlock_def lock_def upd_peer_def q(1) nth_append)
  moreover have "find_peer pid ?st2 = Some ?n"
    using new assms(2) q(2) unfolding find_peer_def p by simp
  ultimately show ?thesis
    using q by (intro exI [of _ ?st2]) (simp add: p2p_is_connected_def p2p_is_secure_def nth_append)
qed

end
