(* ===== verification/P2P_Samples.thy ===== *)
theory P2P_Samples
  imports P2P_Properties
begin

text \<open>
  Concrete runs of the P2P manager: one established, secure peer \<open>077\<close> at 10.0.0.7, a local
  identity, a clock that stands still and an OpenSSL in which a signature is the signed text.
  The properties of \<open>P2P_Properties\<close> are applied to them.
\<close>

section \<open>A table, an environment and a packet\<close>

definition sample_identity :: identity where
  "sample_identity = \<lparr>idn_id = ''076'', idn_name = ''Bob'', idn_public_key = ''PUBLIC'',
     idn_private_key_encrypted = ''PRIVATE''\<rparr>"

definition sample_env :: p2p_env where
  "sample_env = \<lparr>x_clk = (\<lambda>_. 1000), x_malloc = True, x_send = True, x_pad = [0, 0],
     x_identity = Some sample_identity, x_ssl = toy_ssl, x_ok = (\<lambda>_. True), x_priv = replicate 32 1,
     x_random = replicate 12 9, x_stack = replicate 32 0, x_pid = 42, x_socket = 4, x_bind = True,
     x_dht = (True, True, Some (''10.0.0.7'', 9000)), x_punch = 0, x_local_ip = None, x_ipv6 = False,
     x_upnp = False, x_nat = NAT_UNKNOWN\<rparr>"

definition sample_peer :: P2PPeer where
  "sample_peer = zero_p2p_peer\<lparr>pp_id := ''077'', pp_ip := ''10.0.0.7'', pp_port := 9000,
     pp_state := P2P_STATE_ESTABLISHED, pp_udp_socket := 4, pp_addr := (''10.0.0.7'', 9000),
     pp_aes_key := replicate 32 5, pp_is_secure := True\<rparr>"

definition sample_p2p :: p2p where
  "sample_p2p = fresh_p2p\<lparr>pm_peers := [sample_peer], pm_world := sample_world\<rparr>"

text \<open>A received packet of the given type whose header announces the given length.\<close>

definition sample_buffer :: "byte \<Rightarrow> 32 word \<Rightarrow> byte list \<Rightarrow> byte list" where
  "sample_buffer ty len payload = le32 P2P_MAGIC @ [P2P_PROTOCOL_VERSION, ty, 0, 0] @ replicate 8 0
     @ le32 len @ payload @ replicate (4076 - length payload) 0"

lemma sample_norm [simp]: "normalize_id 64 ''077'' = ''077''" "normalize_id 64 ''075'' = ''075''"
  by (simp_all add: normalize_id_def)

lemma sample_p2p_inv: "p2p_inv sample_p2p"
  by (simp add: p2p_inv_def sample_p2p_def fresh_p2p_def sample_world_ok sample_peer_def
      zero_p2p_peer_def peer_fits_def P2P_MAX_PEERS_def)

lemma sample_find [simp]: "find_peer ''077'' sample_p2p = Some 0"
  by (simp add: find_peer_def sample_p2p_def sample_peer_def)

lemma sample_table [simp]: "pm_peers sample_p2p = [sample_peer]"
  by (simp add: sample_p2p_def)

lemma sample_buffer_header:
  assumes "length payload \<le> 4076"
  shows "length (sample_buffer ty len payload) = 4096" "from_le32 (sample_buffer ty len payload) = P2P_MAGIC"
    "sample_buffer ty len payload ! 4 = P2P_PROTOCOL_VERSION" "sample_buffer ty len payload ! 5 = ty"
    "msg_payload_len (sample_buffer ty len payload) = unat len"
    "msg_payload (sample_buffer ty len payload) = payload @ replicate (4076 - length payload) 0"
  using assms
  by (simp_all add: sample_buffer_def from_le32_append msg_payload_len_def msg_payload_def P2P_HEADER_def nth_append from_le32_le32)


section \<open>Received packets\<close>

theorem packet_overrun_iff_witness:
  "process_message sample_env (Some 0) (sample_buffer P2P_MSG_TYPE_ACCEPT_CONFIRM 5000 []) 30 sample_p2p = None"
  by (subst packet_overrun_iff [OF sample_p2p_inv])
    (simp_all add: sample_buffer_header P2P_HEADER_def p2p_types)

theorem p2p_invariant_witness:
  "p2p_inv (snd (p2p_disconnect sample_env ''077'' fresh_p2p)) \<and> \<not> pm_locked (snd (p2p_disconnect sample_env ''077'' fresh_p2p))"
proof -
  have "p2p_reach fresh_p2p (snd (p2p_disconnect sample_env ''077'' fresh_p2p))"
    by (rule reach_step [OF reach_start], rule step_disconnect, rule surjective_pairing)
  from p2p_invariant [OF this] show ?thesis by blast
qed

theorem accept_confirm_befriends_anyone_witness:
  "\<exists>st' p'. process_message sample_env (Some 0) (sample_buffer P2P_MSG_TYPE_ACCEPT_CONFIRM 3 (string_bytes ''075'')) 30 sample_p2p
      = Some (0, st')
    \<and> directory (w_mgr (pm_world st')) = (directory (w_mgr (pm_world sample_p2p)))(''075'' \<mapsto> p')
    \<and> p_state p' = PEER_FRIEND \<and> p_online p'
    \<and> p_ip p' = pp_ip (pm_peers sample_p2p ! 0) \<and> p_port p' = pp_port (pm_peers sample_p2p ! 0)"
proof (rule accept_confirm_befriends_anyone [OF sample_p2p_inv])
  let ?buf = "sample_buffer P2P_MSG_TYPE_ACCEPT_CONFIRM 3 (string_bytes ''075'')"
  have sb: "string_bytes ''075'' = [48, 55, 53]" by (simp add: string_bytes_def)
  then have l: "length (string_bytes ''075'') \<le> 4076" by simp
  show "from_le32 ?buf = P2P_MAGIC" "?buf ! 4 = P2P_PROTOCOL_VERSION" "?buf ! 5 = P2P_MSG_TYPE_ACCEPT_CONFIRM"
    by (simp_all add: sample_buffer_header [OF l])
  show "payload_text ?buf = Some ''075''"
    unfolding payload_text_def sample_buffer_header [OF l] unfolding sb
    using replicate_Suc [of 4072 "0 :: byte"] by (simp add: P2P_HEADER_def c_str_def bytes_string_def char_of_def bit_0)
qed (simp_all add: norm_075 sample_p2p_def sample_world_def sample_directory P2P_HEADER_def)

theorem keepalive_disconnects_iff_witness:
  "pp_state (pm_peers (keepalive_peer sample_env 1000 0 sample_p2p) ! 0) = P2P_STATE_ESTABLISHED
   \<and> pp_state (pm_peers (keepalive_peer (sample_env\<lparr>x_send := False\<rparr>) 1000 0 sample_p2p) ! 0) = P2P_STATE_DISCONNECTED"
  by (subst (1 2) keepalive_disconnects_iff)
    (simp_all add: sample_peer_def zero_p2p_peer_def sample_env_def send_message_def)


section \<open>Handshakes\<close>

text \<open>An OpenSSL whose public keys are PEM texts, and a handshake whose signature verifies.\<close>

definition pem_ssl :: ssl where
  "pem_ssl = toy_ssl\<lparr>o_pub_ok := \<lambda>t. take 10 t = ''-----BEGIN''\<rparr>"

definition signed_handshake :: "byte list" where
  "signed_handshake = replicate 20 0 @ string_bytes ''077|-----BEGIN|'' @ [1]
     @ string_bytes ''077|Bob|PUBLIC|1000'' @ [0]"

lemma pem_keys_refused:
  assumes "take 10 (pp_public_key (pm_peers st ! i)) = ''-----BEGIN''" and "x_identity env \<noteq> None"
  shows "\<exists>c. generate_session_keys env i st = Some (-1, st\<lparr>pm_crypto := c\<rparr>)"
proof -
  obtain pair c where g: "orca_x25519_generate_keypair (x_ok env) (x_ssl env) (x_priv env) True (pm_crypto st) = (pair, c)"
    by (rule prod.exhaust)
  obtain c' where "orca_x25519_hex_to_public_key True (Some (pp_public_key (pm_peers st ! i))) c = (None, c')"
    using hex_refuses_pem [OF assms(1), of c]
    by (cases "orca_x25519_hex_to_public_key True (Some (pp_public_key (pm_peers st ! i))) c") simp
  moreover obtain idn where "x_identity env = Some idn" using assms(2) by blast
  ultimately show ?thesis using g
    by (cases pair) (simp_all add: generate_session_keys_def split_beta, blast+)
qed

lemma pem_handshake_refused:
  assumes "take 10 k = ''-----BEGIN''" and "x_identity env \<noteq> None" and "i < length (pm_peers st)" and "length k < 4096"
  shows "\<exists>c. accept_handshake env i k st
    = Some (-1, (upd_peer i (\<lambda>p. p\<lparr>pp_public_key := k, pp_is_secure := True\<rparr>) st)\<lparr>pm_crypto := c\<rparr>)"
proof -
  let ?st = "upd_peer i (\<lambda>p. p\<lparr>pp_public_key := k, pp_is_secure := True\<rparr>) st"
  let ?env = "(at_time 1 env)\<lparr>x_ok := shift 5 (x_ok env)\<rparr>"
  obtain c where "generate_session_keys ?env i ?st = Some (-1, ?st\<lparr>pm_crypto := c\<rparr>)"
    using pem_keys_refused [of ?st i ?env] assms by (auto simp: at_time_def)
  then show ?thesis using assms(4)
    by (intro exI [of _ c]) (simp add: accept_handshake_def strcpy_into_def establish_secure_channel_def)
qed

theorem handshake_never_completes_witness:
  "\<exists>st'. handle_handshake (sample_env\<lparr>x_ssl := pem_ssl\<rparr>) 0 signed_handshake sample_p2p = Some (-1, st')
    \<and> pp_public_key (pm_peers st' ! 0) = ''-----BEGIN''"
proof -
  let ?env = "sample_env\<lparr>x_ssl := pem_ssl\<rparr>"
  have k: "keys_are_pem (x_ssl ?env)" by (simp add: keys_are_pem_def pem_ssl_def)
  have l: "0 < length (pm_peers sample_p2p)" by simp
  have ids: "strchr bar (msg_payload signed_handshake)
      = Some (Some (string_bytes ''077'', string_bytes ''-----BEGIN|'' @ [1] @ string_bytes ''077|Bob|PUBLIC|1000'' @ [0]))"
    by (simp add: signed_handshake_def msg_payload_def P2P_HEADER_def string_bytes_def bar_def)
  have pk: "strchr bar (string_bytes ''-----BEGIN|'' @ 1 # string_bytes ''077|Bob|PUBLIC|1000'' @ [0])
      = Some (Some (string_bytes ''-----BEGIN'', 1 # string_bytes ''077|Bob|PUBLIC|1000'' @ [0]))"
    by (simp add: string_bytes_def bar_def)
  have sg: "c_str (1 # string_bytes ''077|Bob|PUBLIC|1000'' @ [0]) = Some (1 # string_bytes ''077|Bob|PUBLIC|1000'')"
    by (simp add: c_str_def string_bytes_def)
  have dt: "snprintf_into 4096 (''077|Bob|PUBLIC|'' @ dec_int 1000) = ''077|Bob|PUBLIC|1000''"
    by (simp add: snprintf_into_def dec_int_def dec_nat.simps digit_char_def char_of_def bit_0)
  have v: "fst (orca_rsa_verify_string (\<lambda>_. True) pem_ssl (Some ''077|Bob|PUBLIC|1000'')
      (Some (bytes_string (1 # string_bytes ''077|Bob|PUBLIC|1000''))) (Some ''-----BEGIN'') c)" for c
  proof -
    let ?sg = "bytes_string (1 # string_bytes ''077|Bob|PUBLIC|1000'')"
    obtain c2 where "orca_base64_decode (\<lambda>_. True) pem_ssl (Some ?sg) c = (Some (o_b64dec pem_ssl ?sg), c2)"
      using base64_decode_all [of pem_ssl ?sg c] by (cases "orca_base64_decode (\<lambda>_. True) pem_ssl (Some ?sg) c") simp
    moreover have "o_b64dec pem_ssl ?sg = (1 # string_bytes ''077|Bob|PUBLIC|1000'', 20)"
      by (simp add: pem_ssl_def toy_ssl_def bytes_string_def string_bytes_def char_of_def bit_0)
    moreover have "o_pub_ok pem_ssl ''-----BEGIN''" by (simp add: pem_ssl_def)
    moreover have "o_verify pem_ssl pk d (1 # d) (int (length (1 # d)))" for pk d by (simp add: pem_ssl_def toy_ssl_def)
    note this [of _ "string_bytes ''077|Bob|PUBLIC|1000''"]
    ultimately show ?thesis
      by (simp add: orca_rsa_verify_string_def orca_rsa_verify_def fst_run del: run.simps) (simp add: string_bytes_def)
  qed
  obtain rc st' where r: "handle_handshake ?env 0 signed_handshake sample_p2p = Some (rc, st')"
    "pp_public_key (pm_peers st' ! 0) = ''-----BEGIN''"
  proof -
    let ?k = "''-----BEGIN''"
    obtain c2 where "orca_rsa_verify_string (\<lambda>_. True) pem_ssl (Some ''077|Bob|PUBLIC|1000'')
        (Some (bytes_string (1 # string_bytes ''077|Bob|PUBLIC|1000''))) (Some ?k) (pm_crypto sample_p2p) = (True, c2)"
      using v [of "pm_crypto sample_p2p"] by (cases "orca_rsa_verify_string (\<lambda>_. True) pem_ssl (Some ''077|Bob|PUBLIC|1000'')
        (Some (bytes_string (1 # string_bytes ''077|Bob|PUBLIC|1000''))) (Some ?k) (pm_crypto sample_p2p)") simp
    then have h: "handle_handshake ?env 0 signed_handshake sample_p2p
        = accept_handshake ?env 0 ?k (sample_p2p\<lparr>pm_crypto := c2\<rparr>)"
      using dt by (simp add: handle_handshake_def ids pk sg sample_env_def sample_identity_def)
    obtain c3 where "accept_handshake ?env 0 ?k (sample_p2p\<lparr>pm_crypto := c2\<rparr>)
        = Some (-1, (upd_peer 0 (\<lambda>p. p\<lparr>pp_public_key := ?k, pp_is_secure := True\<rparr>) (sample_p2p\<lparr>pm_crypto := c2\<rparr>))\<lparr>pm_crypto := c3\<rparr>)"
      using pem_handshake_refused [of ?k ?env 0 "sample_p2p\<lparr>pm_crypto := c2\<rparr>"] by (auto simp: sample_env_def)
    then show ?thesis using h that by (simp add: upd_peer_def)
  qed
  then show ?thesis using handshake_never_completes [OF k l r(1)] by blast
qed

theorem unknown_handshake_deadlocks_witness:
  "listener_receive sample_env (replicate 4096 0)
     (p2p_message [0, 0] P2P_MSG_TYPE_HANDSHAKE 0 0 (string_bytes ''078|key|sig'')) ''10.0.0.8'' 9000 sample_p2p
   = Some Self_Deadlock"
proof (rule unknown_handshake_deadlocks)
  let ?p = "string_bytes ''078|key|sig''" and ?w = "p2p_message [0, 0] P2P_MSG_TYPE_HANDSHAKE 0 0 (string_bytes ''078|key|sig'')"
  have sb: "?p = [48, 55, 56] @ bar # [107, 101, 121, 124, 115, 105, 103]" by (simp add: string_bytes_def bar_def)
  then have l: "length ?p = 11" by simp
  then show "length ?w \<le> 4096" "P2P_HEADER \<le> length ?w"
    by (simp_all add: p2p_message_layout P2P_HEADER_def)
  show "from_le32 ?w = P2P_MAGIC" "?w ! 5 = P2P_MSG_TYPE_HANDSHAKE" by (simp_all add: p2p_message_layout)
  show "drop P2P_HEADER ?w = [48, 55, 56] @ bar # [107, 101, 121, 124, 115, 105, 103]"
    unfolding sb [symmetric] by (simp add: p2p_message_layout)
  show "sender_index ''10.0.0.8'' 9000 sample_p2p = None" by (simp add: sender_index_def sample_peer_def)
qed (simp_all add: bar_def)


section \<open>Texts and responses\<close>

lemma toy_field:
  "o_gcm_enc toy_ssl k n d = (d, replicate 16 7)" "o_priv_ok toy_ssl t = (t = ''PRIVATE'')" "o_sign toy_ssl t d = 1 # d"
  "o_b64enc toy_ssl = map (\<lambda>b. char_of (unat b))"
  by (simp_all add: toy_ssl_def)

theorem secure_text_delivered_witness:
  "\<exists>packet st'' e. pm_sent (snd (p2p_send sample_env (Some ''077'') (Some ''hi'') sample_p2p))
      = pm_sent sample_p2p @ [(pp_udp_socket (pm_peers sample_p2p ! 0), pp_addr (pm_peers sample_p2p ! 0), packet)]
    \<and> listener_receive sample_env (replicate 4096 0) packet ''10.0.0.7'' 9000 sample_p2p = Some (Acquired st'')
    \<and> ev_type e = EVENT_MESSAGE_RECEIVED \<and> ev_from_id e = pp_id (pm_peers sample_p2p ! 0) \<and> ev_message e = ''hi''
    \<and> w_queue (pm_world st'') = snd (event_queue_push (Some e) (w_queue (pm_world sample_p2p)))
    \<and> w_mgr (pm_world st'') = snd (state_add_message (Some (pp_id (pm_peers sample_p2p ! 0))) (Some ''hi'')
        (w_mgr (pm_world sample_p2p)))"
proof (rule secure_text_delivered)
  show "ssl_ok (x_ssl sample_env)" by (simp add: sample_env_def toy_ssl_ok)
  show "find_peer ''077'' sample_p2p = Some 0" by simp
  show "p2p_inv sample_p2p" by (rule sample_p2p_inv)
  show "sender_index ''10.0.0.7'' 9000 sample_p2p = Some 0" by (simp add: sender_index_def sample_peer_def)
  show "fst (p2p_send sample_env (Some ''077'') (Some ''hi'') sample_p2p) = 0"
    using toy_field(1)
    by (simp add: p2p_send_def p2p_send_secure_def send_message_def sample_env_def sample_peer_def zero_p2p_peer_def
        orca_random_bytes_def orca_aes_gcm_encrypt_def finish_def Let_def string_bytes_def shift_def)
qed (simp_all add: sample_env_def sample_peer_def string_bytes_def)

theorem response_opens_unkeyed_channel_witness:
  "\<exists>st1 st2. p2p_connect sample_env ''077'' fresh_p2p = Some (Acquired (0, st1))
    \<and> listener_receive sample_env (replicate 4096 0) (p2p_message [0, 0] P2P_MSG_TYPE_HANDSHAKE_RESPONSE 0 0 [])
        ''10.0.0.7'' 9000 st1 = Some (Acquired st2)
    \<and> p2p_is_connected ''077'' st2 \<and> p2p_is_secure ''077'' st2
    \<and> map_option (\<lambda>i. pp_aes_key (pm_peers st2 ! i)) (find_peer ''077'' st2) = Some (replicate 32 0)"
proof -
  have f: "find_peer ''077'' fresh_p2p = None" "sender_index ''10.0.0.7'' 9000 fresh_p2p = None"
    by (simp_all add: find_peer_def sender_index_def fresh_p2p_def)
  have d: "x_dht sample_env = (True, True, Some (''10.0.0.7'', 9000))" by (simp add: sample_env_def)
  obtain st1 where c: "p2p_connect sample_env ''077'' fresh_p2p = Some (Acquired (0, st1))"
  proof -
    have e: "p2p_connect sample_env ''077'' fresh_p2p = p2p_connect_found sample_env ''077'' ''10.0.0.7'' 9000 fresh_p2p"
      using f d by (simp add: p2p_connect_def fresh_p2p_def)
    have hs: "\<exists>st2. send_handshake (at_time 5 sample_env) 0 st = Some (0, st2)"
      if "pp_udp_socket (pm_peers st ! 0) = 4" for st
      using that
      by (simp add: send_handshake_def orca_rsa_sign_string_def orca_rsa_sign_def then_call_def orca_base64_encode_def
          finish_def send_message_def memcpy_into_def toy_field shift_def clk_after_def dec_int_def dec_nat.simps free_res_def sample_env_def at_time_def sample_identity_def Let_def snprintf_into_def string_bytes_def)
    define st where "st = fresh_p2p\<lparr>pm_peers := [(new_peer sample_env ''077'')\<lparr>pp_ip := ''10.0.0.7'', pp_port := 9000,
        pp_state := P2P_STATE_CONNECTING, pp_is_initiator := True, pp_last_activity := 1000,
        pp_addr := (''10.0.0.7'', 9000), pp_udp_socket := 4\<rparr>]\<rparr>"
    have "pp_udp_socket (pm_peers st ! 0) = 4" by (simp add: st_def)
    from hs [OF this] obtain st2 where h: "send_handshake (at_time 5 sample_env) 0 st = Some (0, st2)" by blast
    have "x_socket sample_env = 4" "x_bind sample_env" "x_clk sample_env t = 1000" "x_punch sample_env = 0" for t
      by (simp_all add: sample_env_def)
    then have "p2p_connect_found sample_env ''077'' ''10.0.0.7'' 9000 fresh_p2p
        = Some (Acquired (0, upd_peer 0 (\<lambda>p. p\<lparr>pp_state := P2P_STATE_HANDSHAKE\<rparr>) st2))"
      using f h by (simp add: p2p_connect_found_def add_peer_def P2P_MAX_PEERS_def create_udp_socket_def
          strcpy_into_def upd_peer_def p2p_hole_punch_def st_def fresh_p2p_def)
    then show ?thesis using that e by simp
  qed
  show ?thesis using response_opens_unkeyed_channel [OF fresh_p2p_inv(1) f(1) d c f(2)] c by blast
qed

end
