(* ===== verification/Session_Table.thy ===== *)
theory Session_Table
  imports State_Directory
begin

text \<open>
  What \<^verbatim>\<open>turn_client.c\<close> and \<^verbatim>\<open>friend_relay.c\<close> share: an array of
  sessions of which the first \<open>count\<close> are in use, searched by the text of the peer id,
  extended at the end and closed by moving the later cells down.  The model of the array is the
  list of the cells in use: a new cell is cleared before use, so the others do not matter.
  The locale \<open>session_store\<close> says what the clients of such a table rely on.
\<close>

definition drop_session :: "nat \<Rightarrow> 's list \<Rightarrow> 's list" where
  "drop_session i xs = take (length xs - 1) (shift_down i (length xs) xs)"

lemma drop_session_remove: "i < length xs \<Longrightarrow> drop_session i xs = remove_nth i xs"
  using take_shift_down [of i "length xs" xs] by (simp add: drop_session_def)

lemma find_index_new: "find_index P xs = None \<Longrightarrow> P x \<Longrightarrow> find_index P (xs @ [x]) = Some (length xs)"
  by (induction xs) (auto split: if_splits)

text \<open>An element of a list whose keys differ is the one a search by its key finds.\<close>

lemma find_index_key:
  assumes "distinct (map key xs)" and "i < length xs"
  shows "find_index (\<lambda>s. key s = key (xs ! i)) xs = Some i"
  using assms by (intro find_index_unique) (auto simp: distinct_conv_nth)

locale session_store =
  fixes key :: "'s \<Rightarrow> string"
    and table :: "'m \<Rightarrow> 's list"
    and find :: "'m \<Rightarrow> string \<Rightarrow> nat option"
    and add :: "string \<Rightarrow> 'm \<Rightarrow> (nat option \<times> 'm) option"
    and remove :: "string \<Rightarrow> 'm \<Rightarrow> 'm"
    and cap :: nat and id_size :: nat
  assumes find_first: "find m a = find_index (\<lambda>s. key s = a) (table m)"
    and add_long: "length (table m) < cap \<Longrightarrow> id_size \<le> length a \<Longrightarrow> add a m = None"
    and add_full: "cap \<le> length (table m) \<Longrightarrow> add a m = Some (None, m)"
    and add_new: "length (table m) < cap \<Longrightarrow> length a < id_size \<Longrightarrow>
      \<exists>s m'. add a m = Some (Some (length (table m)), m') \<and> table m' = table m @ [s] \<and> key s = a"
    and remove_first: "table (remove a m) = (case find m a of None \<Rightarrow> table m | Some i \<Rightarrow> remove_nth i (table m))"
begin

lemma found_key: "find m a = Some i \<Longrightarrow> i < length (table m) \<and> key (table m ! i) = a"
  by (auto simp: find_first dest: find_index_SomeD)

text \<open>A search that adds what it does not find leaves an array exactly for an id that does not fit.\<close>

lemma add_overruns_iff:
  assumes "\<forall>s \<in> set (table m). length (key s) < id_size"
  shows "(case find m a of Some i \<Rightarrow> Some (Some i, m) | None \<Rightarrow> add a m) = None \<longleftrightarrow> id_size \<le> length a \<and> length (table m) < cap"
proof (cases "find m a")
  case None
  then show ?thesis using add_long [of m a] add_full [of m a] add_new [of m a] by (cases "length (table m) < cap"; cases "id_size \<le> length a") auto
next
  case (Some i)
  then have "length a < id_size" using found_key [OF Some] assms by (metis nth_mem)
  then show ?thesis using Some by simp
qed

lemma add_bounded:
  assumes "length (table m) \<le> cap" and "add a m = Some (r, m')"
  shows "length (table m') \<le> cap"
proof (cases "cap \<le> length (table m)")
  case True
  with assms add_full [OF True] show ?thesis by simp
next
  case False
  with assms add_new [of m a] add_long [of m a] show ?thesis
    by (cases "id_size \<le> length a") fastforce+
qed

text \<open>A caller that searches first keeps the keys apart and finds the new session by its key.\<close>

lemma add_if_absent:
  assumes "distinct (map key (table m))" and "find m a = None" and "add a m = Some (r, m')"
  shows "distinct (map key (table m'))" and "r = None \<longrightarrow> m' = m \<and> cap \<le> length (table m)"
    and "r = Some i \<longrightarrow> find m' a = Some i \<and> i = length (table m)"
proof -
  have "(r = None \<and> m' = m \<and> cap \<le> length (table m))
      \<or> (\<exists>s. r = Some (length (table m)) \<and> table m' = table m @ [s] \<and> key s = a)"
    using assms(3) add_full [of m a] add_new [of m a] add_long [of m a] by fastforce
  then show "distinct (map key (table m'))" "r = None \<longrightarrow> m' = m \<and> cap \<le> length (table m)"
    "r = Some i \<longrightarrow> find m' a = Some i \<and> i = length (table m)"
    using assms(1,2) by (fastforce simp: find_first find_index_None find_index_new)+
qed

lemma removed_gone:
  assumes "distinct (map key (table m))"
  shows "find (remove a m) a = None"
proof (cases "find m a")
  case None
  then show ?thesis using find_first remove_first by (metis option.simps(4))
next
  case (Some i)
  have i: "i < length (table m)" "key (table m ! i) = a" using found_key [OF Some] by simp_all
  have "map key (table m) ! i \<notin> set (remove_nth i (map key (table m)))"
    using assms i by (intro remove_nth_not_in) simp_all
  then have "a \<notin> key ` set (remove_nth i (table m))" using i by (simp add: remove_nth_map [symmetric])
  moreover have "table (remove a m) = remove_nth i (table m)" using Some remove_first [of a m] by simp
  ultimately show ?thesis unfolding find_first [of "remove a m"] find_index_None by auto
qed

lemma remove_keeps_others:
  assumes "find m a = Some i" and "b \<noteq> a" and "s \<in> set (table m)" and "key s = b"
  shows "s \<in> set (table (remove a m))"
proof -
  have i: "i < length (table m)" "key (table m ! i) = a" using found_key [OF assms(1)] by simp_all
  have "table m = take i (table m) @ table m ! i # drop (Suc i) (table m)" using i by (simp add: id_take_nth_drop)
  then have "s = table m ! i \<or> s \<in> set (remove_nth i (table m))"
    using assms(3) unfolding remove_nth_def by (metis Un_iff set_ConsD set_append)
  then show ?thesis using assms i remove_first [of a m] by auto
qed

lemma remove_distinct: "distinct (map key (table m)) \<Longrightarrow> distinct (map key (table (remove a m)))"
  using remove_first [of a m] by (auto simp: remove_nth_map distinct_remove_nth split: option.splits)

lemma remove_bounded: "length (table m) \<le> cap \<Longrightarrow> length (table (remove a m)) \<le> cap"
  using remove_first [of a m] found_key [of m a] by (auto simp: length_remove_nth split: option.splits)

end

end
