(* ===== verification/Turn_Client.thy ===== *)
theory Turn_Client
  imports Session_Table P2P_Manager
begin

text \<open>
  \<^verbatim>\<open>turn_client.c\<close>: the table of sessions and servers, the messages built for the TURN
  server and the walk over the attributes of its answers.

  A message is built in a stack buffer whose old content is part of the environment
  \<open>turn_env\<close>, together with the clock, the random numbers and the results of the socket calls.
  A write through \<open>poke\<close> and a read through \<open>rd\<close> give \<open>None\<close> outside the buffer.
  The byte order in memory is that of a little-endian machine.  The manager pointer is not NULL.
\<close>

section \<open>Data\<close>

definition TURN_SERVER_MAX :: nat where "TURN_SERVER_MAX = 8"
definition TURN_BUFFER_SIZE :: nat where "TURN_BUFFER_SIZE = 4096"
definition TURN_DEFAULT_PORT :: int where "TURN_DEFAULT_PORT = 3478"
definition TURN_MAX_SESSIONS :: nat where "TURN_MAX_SESSIONS = 16"
definition TURN_MAGIC_COOKIE :: "32 word" where "TURN_MAGIC_COOKIE = 0x2112A442"
definition TURN_STUN_HEADER_SIZE :: nat where "TURN_STUN_HEADER_SIZE = 20"

datatype TURNState =
    TURN_STATE_IDLE | TURN_STATE_CONNECTING | TURN_STATE_ALLOCATING | TURN_STATE_ESTABLISHED
  | TURN_STATE_CLOSED | TURN_STATE_ERROR

definition TURN_MSG_ALLOCATE_REQUEST :: "16 word" where "TURN_MSG_ALLOCATE_REQUEST = 0x0003"
definition TURN_MSG_ALLOCATE_RESPONSE :: "16 word" where "TURN_MSG_ALLOCATE_RESPONSE = 0x0103"
definition TURN_MSG_ALLOCATE_ERROR :: "16 word" where "TURN_MSG_ALLOCATE_ERROR = 0x0113"
definition TURN_MSG_REFRESH_REQUEST :: "16 word" where "TURN_MSG_REFRESH_REQUEST = 0x0004"
definition TURN_MSG_SEND_INDICATION :: "16 word" where "TURN_MSG_SEND_INDICATION = 0x0016"
definition TURN_MSG_DATA_INDICATION :: "16 word" where "TURN_MSG_DATA_INDICATION = 0x0017"

definition TURN_ATTR_USERNAME :: "16 word" where "TURN_ATTR_USERNAME = 0x0006"
definition TURN_ATTR_LIFETIME :: "16 word" where "TURN_ATTR_LIFETIME = 0x000D"
definition TURN_ATTR_XOR_PEER_ADDRESS :: "16 word" where "TURN_ATTR_XOR_PEER_ADDRESS = 0x0012"
definition TURN_ATTR_DATA :: "16 word" where "TURN_ATTR_DATA = 0x0013"
definition TURN_ATTR_XOR_RELAYED_ADDRESS :: "16 word" where "TURN_ATTR_XOR_RELAYED_ADDRESS = 0x0016"
definition TURN_ATTR_REQUESTED_TRANSPORT :: "16 word" where "TURN_ATTR_REQUESTED_TRANSPORT = 0x0019"

lemmas turn_msgs = TURN_MSG_ALLOCATE_REQUEST_def TURN_MSG_ALLOCATE_RESPONSE_def TURN_MSG_ALLOCATE_ERROR_def
  TURN_MSG_REFRESH_REQUEST_def TURN_MSG_SEND_INDICATION_def TURN_MSG_DATA_INDICATION_def
lemmas turn_attr_types = TURN_ATTR_USERNAME_def TURN_ATTR_LIFETIME_def TURN_ATTR_XOR_PEER_ADDRESS_def
  TURN_ATTR_DATA_def TURN_ATTR_XOR_RELAYED_ADDRESS_def TURN_ATTR_REQUESTED_TRANSPORT_def

record TURNServerConfig =
  tv_server_host :: string
  tv_server_ip :: string
  tv_port :: int
  tv_username :: string
  tv_password :: string
  tv_realm :: string
  tv_nonce :: string
  tv_use_auth :: bool
  tv_lifetime :: "32 word"

record TURNSession =
  ts_peer_id :: string
  ts_relay_ip :: string
  ts_relay_port :: int
  ts_external_ip :: string
  ts_external_port :: int
  ts_allocation_id :: "32 word"
  ts_session_id :: "32 word"
  ts_transaction_id :: "32 word"
  ts_state :: TURNState
  ts_socket_fd :: int
  ts_last_activity :: int
  ts_created_at :: int
  ts_allocation_expires :: int
  ts_is_initiator :: bool
  ts_retry_count :: int
  ts_shared_secret :: "byte list"
  ts_server :: TURNServerConfig
  ts_integrity_key :: "byte list"
  ts_ip :: string
  ts_port :: int

text \<open>
  \<open>tm_sessions\<close> is the used part of the array of sessions.  \<open>tm_servers\<close> holds all eight
  cells: \<open>turn_manager_add_server\<close> does not clear the cell it takes.  \<open>tm_sent\<close> lists the
  datagrams sent with their destinations.
\<close>

record turn =
  tm_sessions :: "TURNSession list"
  tm_initialized :: bool
  tm_servers :: "TURNServerConfig list"
  tm_server_count :: nat
  tm_udp_socket :: int
  tm_closed :: "int list"
  tm_sent :: "((string \<times> 16 word) \<times> byte list) list"
  tm_crypto :: cstate

datatype receipt = Would_Block | Recv_Error | Received "byte list"

record turn_env =
  te_clk :: clock
  te_pid :: int
  te_rand :: "nat \<Rightarrow> int"
  te_ok :: outcomes
  te_random :: "byte list"                     \<comment> \<open>what OpenSSL's generator gives\<close>
  te_stack :: "byte list"                      \<comment> \<open>old content of a stack buffer\<close>
  te_mutex :: bool
  te_socket :: int
  te_bind :: bool
  te_resolve :: "(nat \<times> nat \<times> nat \<times> nat) list option"  \<comment> \<open>what \<open>getaddrinfo\<close> found\<close>
  te_send :: bool
  te_recv :: receipt                           \<comment> \<open>the answer, or a timeout\<close>

definition zero_server :: TURNServerConfig where
  "zero_server = \<lparr>tv_server_host = [], tv_server_ip = [], tv_port = 0, tv_username = [], tv_password = [],
     tv_realm = [], tv_nonce = [], tv_use_auth = False, tv_lifetime = 0\<rparr>"

definition zero_turn_session :: TURNSession where
  "zero_turn_session = \<lparr>ts_peer_id = [], ts_relay_ip = [], ts_relay_port = 0, ts_external_ip = [], ts_external_port = 0,
     ts_allocation_id = 0, ts_session_id = 0, ts_transaction_id = 0, ts_state = TURN_STATE_IDLE, ts_socket_fd = 0,
     ts_last_activity = 0, ts_created_at = 0, ts_allocation_expires = 0, ts_is_initiator = False, ts_retry_count = 0,
     ts_shared_secret = replicate 32 0, ts_server = zero_server, ts_integrity_key = replicate 32 0, ts_ip = [], ts_port = 0\<rparr>"

section \<open>Bytes in a buffer\<close>

definition stack_buffer :: "nat \<Rightarrow> byte list \<Rightarrow> byte list" where
  "stack_buffer n old = take n (old @ replicate n 0)"

definition poke :: "nat \<Rightarrow> byte list \<Rightarrow> byte list \<Rightarrow> byte list option" where
  "poke off bs buf =
    (if off + length bs \<le> length buf then Some (take off buf @ bs @ drop (off + length bs) buf) else None)"

definition htons :: "16 word \<Rightarrow> 16 word" where
  "htons w = or (push_bit 8 w) (drop_bit 8 w)"

text \<open>A big-endian 16-bit field at an offset.\<close>

definition rd16 :: "byte list \<Rightarrow> nat \<Rightarrow> nat option" where
  "rd16 buf pos = do { hi \<leftarrow> rd buf pos; lo \<leftarrow> rd buf (pos + 1); Some (256 * hi + lo) }"

definition rd_block :: "byte list \<Rightarrow> nat \<Rightarrow> nat \<Rightarrow> byte list option" where
  "rd_block buf pos n = (if pos + n \<le> length buf then Some (take n (drop pos buf)) else None)"

section \<open>The manager and its servers\<close>

definition turn_manager_init :: "turn_env \<Rightarrow> cstate \<Rightarrow> int \<times> turn" where
  "turn_manager_init env c =
    (let m = \<lparr>tm_sessions = [], tm_initialized = True, tm_servers = replicate TURN_SERVER_MAX zero_server,
               tm_server_count = 0, tm_udp_socket = -1, tm_closed = [], tm_sent = [], tm_crypto = c\<rparr>
     in if \<not> te_mutex env then (-1, m)
        else let m = m\<lparr>tm_udp_socket := te_socket env\<rparr>
        in if te_socket env < 0 then (-1, m)
           else if \<not> te_bind env then (-1, m\<lparr>tm_closed := [te_socket env], tm_udp_socket := -1\<rparr>)
           else (0, m))"

definition turn_manager_cleanup :: "turn \<Rightarrow> turn" where
  "turn_manager_cleanup m =
    (if \<not> tm_initialized m then m
     else m\<lparr>tm_closed := (if tm_udp_socket m \<ge> 0 then [tm_udp_socket m] else [])
           @ rev (filter (\<lambda>fd. fd > 0) (map ts_socket_fd (tm_sessions m))) @ tm_closed m,
         tm_sessions := [], tm_udp_socket := (if tm_udp_socket m \<ge> 0 then -1 else tm_udp_socket m),
         tm_initialized := False\<rparr>)"

definition turn_resolve_host :: "(nat \<times> nat \<times> nat \<times> nat) list option \<Rightarrow> string option" where
  "turn_resolve_host found = (case found of
      Some ((a, b, c, d) # _) \<Rightarrow> Some (dotted a b c d)
    | _ \<Rightarrow> None)"

definition turn_manager_add_server ::
    "turn_env \<Rightarrow> string option \<Rightarrow> int \<Rightarrow> string option \<Rightarrow> string option \<Rightarrow> turn \<Rightarrow> int \<times> turn" where
  "turn_manager_add_server env host port username password m = (case host of
      None \<Rightarrow> (-1, m)
    | Some h \<Rightarrow>
        if TURN_SERVER_MAX \<le> tm_server_count m then (-1, m)
        else
          let n = tm_server_count m;
              v = (tm_servers m ! n)\<lparr>tv_server_host := strncpy_into 128 h,
                     tv_port := (if port > 0 then port else TURN_DEFAULT_PORT), tv_lifetime := 3600\<rparr>;
              v = (case username of None \<Rightarrow> v
                   | Some u \<Rightarrow> v\<lparr>tv_username := strncpy_into 64 u, tv_use_auth := True\<rparr>);
              v = (case password of None \<Rightarrow> v
                   | Some p \<Rightarrow> v\<lparr>tv_password := strncpy_into 64 p, tv_use_auth := True\<rparr>)
          in (case turn_resolve_host (te_resolve env) of
                None \<Rightarrow> (-1, m\<lparr>tm_servers := (tm_servers m)[n := v]\<rparr>)
              | Some ip \<Rightarrow> (0, m\<lparr>tm_servers := (tm_servers m)[n := v\<lparr>tv_server_ip := ip\<rparr>],
                                 tm_server_count := n + 1\<rparr>)))"

definition server_index :: "string \<Rightarrow> turn \<Rightarrow> nat option" where
  "server_index host m = find_index (\<lambda>v. tv_server_host v = host) (take (tm_server_count m) (tm_servers m))"

definition turn_manager_set_server_lifetime :: "string option \<Rightarrow> 32 word \<Rightarrow> turn \<Rightarrow> int \<times> turn" where
  "turn_manager_set_server_lifetime host lifetime m = (case host of
      None \<Rightarrow> (-1, m)
    | Some h \<Rightarrow> (case server_index h m of
          None \<Rightarrow> (-1, m)
        | Some i \<Rightarrow> (0, m\<lparr>tm_servers := (tm_servers m)[i := (tm_servers m ! i)\<lparr>tv_lifetime := lifetime\<rparr>]\<rparr>)))"

section \<open>The table of sessions\<close>

definition turn_find_session :: "turn \<Rightarrow> string \<Rightarrow> nat option" where
  "turn_find_session m pid = find_index (\<lambda>s. ts_peer_id s = pid) (tm_sessions m)"

definition new_turn_session :: "turn_env \<Rightarrow> string \<Rightarrow> TURNSession" where
  "new_turn_session env pid = zero_turn_session\<lparr>ts_peer_id := pid, ts_state := TURN_STATE_IDLE, ts_socket_fd := -1,
     ts_created_at := te_clk env 0, ts_last_activity := te_clk env 1,
     ts_session_id := word_of_int (xor (xor (te_clk env 2) (te_pid env)) (te_rand env 0)),
     ts_allocation_id := word_of_int (xor (xor (te_clk env 3) (te_pid env)) (te_rand env 1)),
     ts_transaction_id := word_of_int (xor (xor (xor (te_clk env 4) (te_pid env)) (te_rand env 2)) 0xDEADBEEF)\<rparr>"

definition turn_add_session :: "turn_env \<Rightarrow> string \<Rightarrow> turn \<Rightarrow> (nat option \<times> turn) option" where
  "turn_add_session env pid m =
    (if TURN_MAX_SESSIONS \<le> length (tm_sessions m) then Some (None, m)
     else do {
       name \<leftarrow> strcpy_into 64 pid;
       Some (Some (length (tm_sessions m)), m\<lparr>tm_sessions := tm_sessions m @ [new_turn_session env name]\<rparr>) })"

definition upd_session :: "nat \<Rightarrow> (TURNSession \<Rightarrow> TURNSession) \<Rightarrow> turn \<Rightarrow> turn" where
  "upd_session i f m = m\<lparr>tm_sessions := (tm_sessions m)[i := f (tm_sessions m ! i)]\<rparr>"

definition turn_disconnect :: "string option \<Rightarrow> turn \<Rightarrow> int \<times> turn" where
  "turn_disconnect pid m = (case pid of
      None \<Rightarrow> (-1, m)
    | Some a \<Rightarrow> (0, (case turn_find_session m a of
          None \<Rightarrow> m
        | Some i \<Rightarrow> m\<lparr>tm_sessions := drop_session i ((tm_sessions m)[i := (tm_sessions m ! i)\<lparr>ts_state := TURN_STATE_CLOSED\<rparr>])\<rparr>)))"

definition turn_is_connected :: "string option \<Rightarrow> turn \<Rightarrow> bool" where
  "turn_is_connected pid m = (case pid of
      None \<Rightarrow> False
    | Some a \<Rightarrow> (case turn_find_session m a of
          None \<Rightarrow> False | Some i \<Rightarrow> ts_state (tm_sessions m ! i) = TURN_STATE_ESTABLISHED))"

definition turn_get_state :: "string option \<Rightarrow> turn \<Rightarrow> TURNState" where
  "turn_get_state pid m = (case pid of
      None \<Rightarrow> TURN_STATE_IDLE
    | Some a \<Rightarrow> (case turn_find_session m a of
          None \<Rightarrow> TURN_STATE_IDLE | Some i \<Rightarrow> ts_state (tm_sessions m ! i)))"

definition turn_get_external_address :: "string option \<Rightarrow> turn \<Rightarrow> (string \<times> int) option" where
  "turn_get_external_address pid m = (case pid of
      None \<Rightarrow> None
    | Some a \<Rightarrow> (case turn_find_session m a of
          None \<Rightarrow> None
        | Some i \<Rightarrow>
            let s = tm_sessions m ! i in
            if ts_state s \<noteq> TURN_STATE_ESTABLISHED then None else Some (ts_relay_ip s, ts_relay_port s)))"

section \<open>Messages to the server\<close>

text \<open>The header with its transaction id; a failure of \<open>orca_random_bytes\<close> is not noticed.\<close>

definition put_header :: "turn_env \<Rightarrow> 16 word \<Rightarrow> byte list \<Rightarrow> cstate \<Rightarrow> (byte list \<times> cstate) option" where
  "put_header env ty buf c = do {
     buf \<leftarrow> poke 0 (be16 ty @ be16 0 @ be32 TURN_MAGIC_COOKIE) buf;
     let (tx, c) = orca_random_bytes (te_ok env) (te_random env) True 12 c;
     buf \<leftarrow> (case tx of None \<Rightarrow> Some buf | Some t \<Rightarrow> poke 8 t buf);
     Some (buf, c) }"

definition put_attr :: "nat \<Rightarrow> 16 word \<Rightarrow> byte list \<Rightarrow> byte list \<Rightarrow> byte list option" where
  "put_attr pos ty val buf = poke pos (be16 ty @ be16 (of_nat (length val)) @ val) buf"

text \<open>
  The first attribute is written behind the header; for the others \<open>pos\<close> is computed from the
  start of the message.
\<close>

definition turn_build_allocate_request ::
    "turn_env \<Rightarrow> TURNServerConfig \<Rightarrow> byte list \<Rightarrow> cstate \<Rightarrow> (byte list \<times> nat \<times> cstate) option" where
  "turn_build_allocate_request env server buf c = do {
     (buf, c) \<leftarrow> put_header env TURN_MSG_ALLOCATE_REQUEST buf c;
     buf \<leftarrow> put_attr TURN_STUN_HEADER_SIZE TURN_ATTR_REQUESTED_TRANSPORT [17, 0, 0, 0] buf;
     let pos_offset = 8;
     buf \<leftarrow> put_attr pos_offset TURN_ATTR_LIFETIME (be32 (tv_lifetime server)) buf;
     let pos_offset = pos_offset + 8;
     (buf, pos_offset) \<leftarrow>
       (if tv_use_auth server \<and> length (tv_username server) > 0 then do {
          buf \<leftarrow> put_attr pos_offset TURN_ATTR_USERNAME (string_bytes (tv_username server)) buf;
          Some (buf, pos_offset + 4 + length (tv_username server)) }
        else Some (buf, pos_offset));
     buf \<leftarrow> poke 2 (be16 (of_nat pos_offset)) buf;
     Some (buf, TURN_STUN_HEADER_SIZE + pos_offset, c) }"

text \<open>\<open>sendto\<close> of the first \<open>total_len\<close> bytes of the buffer.\<close>

definition send_first :: "turn_env \<Rightarrow> string \<times> 16 word \<Rightarrow> nat \<Rightarrow> byte list \<Rightarrow> turn \<Rightarrow> (bool \<times> turn) option" where
  "send_first env dest total_len buf m =
    (if length buf < total_len then None
     else if te_send env then Some (True, m\<lparr>tm_sent := tm_sent m @ [(dest, take total_len buf)]\<rparr>)
     else Some (False, m))"

definition turn_refresh_allocation :: "turn_env \<Rightarrow> string option \<Rightarrow> turn \<Rightarrow> (int \<times> turn) option" where
  "turn_refresh_allocation env pid m = (case pid of
      None \<Rightarrow> Some (-1, m)
    | Some a \<Rightarrow> (case turn_find_session m a of
          None \<Rightarrow> Some (-1, m)
        | Some i \<Rightarrow>
            let s = tm_sessions m ! i; v = ts_server s in
            if ts_state s \<noteq> TURN_STATE_ESTABLISHED then Some (-1, m)
            else do {
              (buf, c) \<leftarrow> put_header env TURN_MSG_REFRESH_REQUEST (stack_buffer 128 (te_stack env)) (tm_crypto m);
              buf \<leftarrow> put_attr TURN_STUN_HEADER_SIZE TURN_ATTR_LIFETIME (be32 (tv_lifetime v)) buf;
              buf \<leftarrow> poke 2 (be16 8) buf;
              (sent, m) \<leftarrow> send_first env (tv_server_ip v, word_of_int (tv_port v)) (TURN_STUN_HEADER_SIZE + 8) buf
                 (m\<lparr>tm_crypto := c\<rparr>);
              Some (if sent then 0 else -1, m) }))"

text \<open>
  The data of a peer.  \<open>session->ip\<close> is never set, so \<open>inet_pton\<close> leaves \<open>ip_addr\<close> as it
  was on the stack; \<open>peer\<close> is what \<open>inet_pton\<close> gives for the text, in memory order.
\<close>

definition peer_addr_bytes :: "turn_env \<Rightarrow> TURNSession \<Rightarrow> byte list" where
  "peer_addr_bytes env s =
    (let ip = (case inet_pton4 (ts_ip s) of
           Some (a, b, c, d) \<Rightarrow> from_le32 [of_nat a, of_nat b, of_nat c, of_nat d]
         | None \<Rightarrow> from_le32 (stack_buffer 4 (te_stack env)))
     in [0, 1] @ le16 (xor (htons (word_of_int (ts_port s))) (ucast (drop_bit 16 TURN_MAGIC_COOKIE)))
        @ le32 (xor ip TURN_MAGIC_COOKIE))"

definition turn_send :: "turn_env \<Rightarrow> string option \<Rightarrow> byte list option \<Rightarrow> turn \<Rightarrow> (int \<times> turn) option" where
  "turn_send env pid data m = (case (pid, data) of
      (Some a, Some d) \<Rightarrow>
        if d = [] then Some (-1, m)
        else (case turn_find_session m a of
          None \<Rightarrow> Some (-1, m)
        | Some i \<Rightarrow>
            let s = tm_sessions m ! i in
            if ts_state s \<noteq> TURN_STATE_ESTABLISHED then Some (-1, m)
            else if ts_relay_ip s = [] \<or> ts_relay_port s = 0 then Some (-1, m)
            else do {
              (buf, c) \<leftarrow> put_header env TURN_MSG_SEND_INDICATION (stack_buffer 2048 (te_stack env)) (tm_crypto m);
              buf \<leftarrow> put_attr TURN_STUN_HEADER_SIZE TURN_ATTR_XOR_PEER_ADDRESS (peer_addr_bytes env s) buf;
              let pos_offset = 12;
              buf \<leftarrow> put_attr pos_offset TURN_ATTR_DATA d buf;
              let pos_offset = pos_offset + 4 + length d;
              buf \<leftarrow> poke 2 (be16 (of_nat pos_offset)) buf;
              (sent, m) \<leftarrow> send_first env (ts_relay_ip s, word_of_int (ts_relay_port s))
                 (TURN_STUN_HEADER_SIZE + pos_offset) buf (m\<lparr>tm_crypto := c\<rparr>);
              Some (if sent then (0, upd_session i (\<lambda>s. s\<lparr>ts_last_activity := te_clk env 0\<rparr>) m) else (-1, m)) })
    | _ \<Rightarrow> Some (-1, m))"

section \<open>Answers of the server\<close>

text \<open>
  The loop over the attributes, which four functions of the file repeat: \<open>left\<close> is the
  unsigned 64-bit \<open>attr_len\<close>, from which the size of each attribute is subtracted whether it
  fits or not.  \<open>body\<close> is what the function does with an attribute of the given type and length
  whose value starts at the given offset; \<open>Inl\<close> is its \<open>return\<close>.
\<close>

function turn_attrs ::
    "(nat \<Rightarrow> nat \<Rightarrow> nat \<Rightarrow> 's \<Rightarrow> ('r + 's) option) \<Rightarrow> byte list \<Rightarrow> nat \<Rightarrow> 64 word \<Rightarrow> 's \<Rightarrow> ('r + 's) option" where
  "turn_attrs body buf pos left s =
    (if left < 4 then Some (Inr s)
     else (case rd16 buf pos of
        None \<Rightarrow> None
      | Some attr_type \<Rightarrow> (case rd16 buf (pos + 2) of
          None \<Rightarrow> None
        | Some attr_length \<Rightarrow> (case body attr_type attr_length (pos + 4) s of
            None \<Rightarrow> None
          | Some (Inl r) \<Rightarrow> Some (Inl r)
          | Some (Inr s) \<Rightarrow>
              turn_attrs body buf (pos + 4 + attr_length) (left - of_nat (4 + attr_length)) s))))"
  by pat_completeness auto
termination
  by (relation "measure (\<lambda>(body, buf, pos, left, s). length buf - pos)")
    (auto simp: rd16_def rd_def split: if_splits Option.bind_splits)

declare turn_attrs.simps [simp del]

text \<open>
  What an attribute of an allocate response does to the session.  The address is read and
  written in memory order, the cookie in host order; the port is taken as it is.
\<close>

definition relayed_address :: "byte list \<Rightarrow> string" where
  "relayed_address ip = (case map unat (le32 (xor (from_le32 ip) TURN_MAGIC_COOKIE)) of
      [a, b, c, d] \<Rightarrow> dotted a b c d | _ \<Rightarrow> [])"

definition allocate_attr ::
    "clock \<Rightarrow> byte list \<Rightarrow> nat \<Rightarrow> nat \<Rightarrow> nat \<Rightarrow> TURNSession \<Rightarrow> (int + TURNSession) option" where
  "allocate_attr clk buf attr_type attr_length pos s = do {
     s \<leftarrow> (if attr_type = unat TURN_ATTR_XOR_RELAYED_ADDRESS \<and> attr_length \<ge> 8 then do {
            family \<leftarrow> rd buf (pos + 1);
            if family = 1 then do {
              port \<leftarrow> rd16 buf (pos + 2);
              ip \<leftarrow> rd_block buf (pos + 4) 4;
              Some (s\<lparr>ts_relay_ip := relayed_address ip, ts_relay_port := int port\<rparr>) }
            else Some s }
          else Some s);
     s \<leftarrow> (if attr_type = unat TURN_ATTR_LIFETIME \<and> attr_length \<ge> 4 then do {
            lifetime \<leftarrow> rd_block buf pos 4;
            Some (s\<lparr>ts_allocation_expires := clk pos + int (unat (from_be32 lifetime))\<rparr>) }
          else Some s);
     Some (Inr s) }"

text \<open>An error answer is only logged; the reason is printed as a C string.\<close>

definition error_attr :: "byte list \<Rightarrow> nat \<Rightarrow> nat \<Rightarrow> nat \<Rightarrow> TURNSession \<Rightarrow> (int + TURNSession) option" where
  "error_attr buf attr_type attr_length pos s =
    (if attr_type = 9 \<and> attr_length \<ge> 4 then do {
       _ \<leftarrow> rd16 buf (pos + 2);
       if attr_length > 4 then do { _ \<leftarrow> c_str (drop (pos + 4) buf); Some (Inr s) } else Some (Inr s) }
     else Some (Inr s))"

definition turn_parse_allocate_response ::
    "turn_env \<Rightarrow> TURNSession \<Rightarrow> byte list \<Rightarrow> nat \<Rightarrow> (int \<times> TURNSession) option" where
  "turn_parse_allocate_response env s buf n =
    (if n < TURN_STUN_HEADER_SIZE then Some (-1, s)
     else do {
       msg_type \<leftarrow> rd16 buf 0;
       msg_len \<leftarrow> rd16 buf 2;
       cookie \<leftarrow> rd_block buf 4 4;
       if from_be32 cookie \<noteq> TURN_MAGIC_COOKIE then Some (-1, s)
       else if msg_type = unat TURN_MSG_ALLOCATE_RESPONSE then do {
         r \<leftarrow> turn_attrs (allocate_attr (te_clk env) buf) buf TURN_STUN_HEADER_SIZE (of_nat msg_len) s;
         Some (case r of
             Inl rc \<Rightarrow> (rc, s)
           | Inr s \<Rightarrow> if ts_relay_ip s \<noteq> [] \<and> ts_relay_port s > 0
                then (0, s\<lparr>ts_state := TURN_STATE_ESTABLISHED, ts_last_activity := te_clk env 0\<rparr>) else (-1, s)) }
       else if msg_type = unat TURN_MSG_ALLOCATE_ERROR then do {
         _ \<leftarrow> turn_attrs (error_attr buf) buf TURN_STUN_HEADER_SIZE (of_nat msg_len) s;
         Some (-1, s) }
       else Some (-1, s) })"

definition receive_into :: "nat \<Rightarrow> byte list \<Rightarrow> byte list \<Rightarrow> byte list" where
  "receive_into n old packet = take n packet @ drop (length packet) (stack_buffer n old)"

definition turn_allocate :: "turn_env \<Rightarrow> string option \<Rightarrow> turn \<Rightarrow> (int \<times> turn) option" where
  "turn_allocate env pid m = (case pid of
      None \<Rightarrow> Some (-1, m)
    | Some a \<Rightarrow> (case turn_find_session m a of
          None \<Rightarrow> Some (-1, m)
        | Some i \<Rightarrow> do {
            let v = ts_server (tm_sessions m ! i);
            (buf, request_len, c) \<leftarrow>
               turn_build_allocate_request env v (stack_buffer 512 (te_stack env)) (tm_crypto m);
            (sent, m) \<leftarrow> send_first env (tv_server_ip v, word_of_int (tv_port v)) request_len buf (m\<lparr>tm_crypto := c\<rparr>);
            if \<not> sent then Some (-1, m)
            else (case te_recv env of
                Received packet \<Rightarrow>
                  if packet = [] then Some (-1, m)
                  else do {
                    (rc, s) \<leftarrow> turn_parse_allocate_response env (tm_sessions m ! i)
                       (receive_into 512 (te_stack env) packet) (min 512 (length packet));
                    Some (rc, upd_session i (\<lambda>_. s) m) }
              | _ \<Rightarrow> Some (-1, m)) }))"

definition turn_env_at :: "nat \<Rightarrow> turn_env \<Rightarrow> turn_env" where
  "turn_env_at k env = env\<lparr>te_clk := clk_after k (te_clk env)\<rparr>"

definition turn_connect :: "turn_env \<Rightarrow> string option \<Rightarrow> string option \<Rightarrow> turn \<Rightarrow> (int \<times> turn) option" where
  "turn_connect env pid host m = (case (pid, host) of
      (Some a, Some h) \<Rightarrow> do {
        (r, m) \<leftarrow> (case turn_find_session m a of Some i \<Rightarrow> Some (Some i, m) | None \<Rightarrow> turn_add_session env a m);
        (case r of
           None \<Rightarrow> Some (-1, m)
         | Some i \<Rightarrow>
             if ts_state (tm_sessions m ! i) = TURN_STATE_ESTABLISHED then Some (0, m)
             else (case server_index h m of
                 None \<Rightarrow> Some (-1, m)
               | Some v \<Rightarrow> do {
                   let m = upd_session i (\<lambda>s. s\<lparr>ts_server := tm_servers m ! v, ts_state := TURN_STATE_CONNECTING\<rparr>) m;
                   (rc, m) \<leftarrow> turn_allocate (turn_env_at 5 env) (Some a) m;
                   Some (if rc < 0 then (-1, upd_session i (\<lambda>s. s\<lparr>ts_state := TURN_STATE_ERROR\<rparr>) m)
                     else (0, upd_session i (\<lambda>s. s\<lparr>ts_state := TURN_STATE_ESTABLISHED,
                                 ts_last_activity := te_clk env 6\<rparr>) m)) })) }
    | _ \<Rightarrow> Some (-1, m))"

section \<open>Data from peers\<close>

definition data_attr :: "byte list \<Rightarrow> nat \<Rightarrow> nat \<Rightarrow> nat \<Rightarrow> nat \<Rightarrow> unit \<Rightarrow> (byte list + unit) option" where
  "data_attr buf max_len attr_type attr_length pos u =
    (if attr_type = unat TURN_ATTR_DATA then map_option Inl (rd_block buf pos (min attr_length max_len))
     else Some (Inr u))"

text \<open>The result of \<open>turn_recv\<close>: the return code and the bytes copied to the caller's buffer.\<close>

definition turn_recv :: "turn_env \<Rightarrow> string option \<Rightarrow> nat \<Rightarrow> turn \<Rightarrow> (int \<times> byte list \<times> turn) option" where
  "turn_recv env pid max_len m = (case pid of
      None \<Rightarrow> Some (-1, [], m)
    | Some a \<Rightarrow>
        if max_len = 0 then Some (-1, [], m)
        else (case turn_find_session m a of
          None \<Rightarrow> Some (-1, [], m)
        | Some i \<Rightarrow>
            if ts_state (tm_sessions m ! i) \<noteq> TURN_STATE_ESTABLISHED then Some (-1, [], m)
            else (case te_recv env of
                Would_Block \<Rightarrow> Some (0, [], m)
              | Recv_Error \<Rightarrow> Some (-1, [], m)
              | Received packet \<Rightarrow>
                  let buf = receive_into 4096 (te_stack env) packet in
                  if min 4096 (length packet) < TURN_STUN_HEADER_SIZE then Some (-1, [], m)
                  else do {
                    msg_type \<leftarrow> rd16 buf 0;
                    attr_len \<leftarrow> rd16 buf 2;
                    if msg_type = unat TURN_MSG_DATA_INDICATION then do {
                      r \<leftarrow> turn_attrs (data_attr buf max_len) buf TURN_STUN_HEADER_SIZE (of_nat attr_len) ();
                      Some (case r of
                          Inl d \<Rightarrow> (int (length d), d, upd_session i (\<lambda>s. s\<lparr>ts_last_activity := te_clk env 0\<rparr>) m)
                        | Inr _ \<Rightarrow> (0, [], m)) }
                    else Some (0, [], m) })))"

definition turn_process_message :: "turn_env \<Rightarrow> byte list \<Rightarrow> nat \<Rightarrow> TURNSession \<Rightarrow> (int \<times> TURNSession) option" where
  "turn_process_message env buf n s =
    (if n < TURN_STUN_HEADER_SIZE then Some (-1, s)
     else do {
       msg_type \<leftarrow> rd16 buf 0;
       attr_len \<leftarrow> rd16 buf 2;
       if msg_type = unat TURN_MSG_DATA_INDICATION then do {
         r \<leftarrow> turn_attrs (data_attr buf 0) buf TURN_STUN_HEADER_SIZE (of_nat attr_len) ();
         Some (0, case r of Inl _ \<Rightarrow> s\<lparr>ts_last_activity := te_clk env 0\<rparr> | Inr _ \<Rightarrow> s) }
       else Some (0, s) })"

text \<open>What the listener thread does with one received datagram.\<close>

fun process_all :: "turn_env \<Rightarrow> byte list \<Rightarrow> nat \<Rightarrow> TURNSession list \<Rightarrow> TURNSession list option" where
  "process_all env buf n [] = Some []"
| "process_all env buf n (s # ss) = do {
     s' \<leftarrow> (if ts_state s = TURN_STATE_ESTABLISHED then map_option snd (turn_process_message env buf n s) else Some s);
     ss' \<leftarrow> process_all env buf n ss;
     Some (s' # ss') }"

definition turn_listener_round :: "turn_env \<Rightarrow> byte list \<Rightarrow> turn \<Rightarrow> turn option" where
  "turn_listener_round env packet m =
    (let buf = receive_into TURN_BUFFER_SIZE (te_stack env) packet; n = min TURN_BUFFER_SIZE (length packet) in
     if n < TURN_STUN_HEADER_SIZE then Some m
     else do {
       cookie \<leftarrow> rd_block buf 4 4;
       if from_be32 cookie = TURN_MAGIC_COOKIE then do {
         ss \<leftarrow> process_all env buf n (tm_sessions m);
         Some (m\<lparr>tm_sessions := ss\<rparr>) }
       else Some m })"

end
