(* ===== verification/Friend_Relay.thy ===== *)
theory Friend_Relay
  imports Turn_Client
begin

text \<open>
  \<^verbatim>\<open>friend_relay.c\<close>: sessions through a relay, the handshake as text, the packets and what
  the listener does with a datagram.

  The environment \<open>relay_env\<close> holds the clock, random numbers, the results of sockets, memory
  and the DHT, and old stack or heap content.  \<open>None\<close> is an access outside a buffer or through
  a NULL pointer.  The manager pointer is not NULL.
\<close>

section \<open>Data\<close>

definition RELAY_MAX_PEERS :: nat where "RELAY_MAX_PEERS = 32"
definition RELAY_BUFFER_SIZE :: nat where "RELAY_BUFFER_SIZE = 4096"
definition RELAY_MAX_PATH :: nat where "RELAY_MAX_PATH = 8"
definition RELAY_MAGIC :: "32 word" where "RELAY_MAGIC = 0x52454C59"
definition RELAY_PROTOCOL_VERSION :: byte where "RELAY_PROTOCOL_VERSION = 1"

definition RELAY_PKT_HANDSHAKE :: byte where "RELAY_PKT_HANDSHAKE = 1"
definition RELAY_PKT_HANDSHAKE_RESPONSE :: byte where "RELAY_PKT_HANDSHAKE_RESPONSE = 2"
definition RELAY_PKT_DATA :: byte where "RELAY_PKT_DATA = 3"
definition RELAY_PKT_KEEPALIVE :: byte where "RELAY_PKT_KEEPALIVE = 4"
definition RELAY_PKT_CLOSE :: byte where "RELAY_PKT_CLOSE = 5"

lemmas relay_types = RELAY_PKT_HANDSHAKE_def RELAY_PKT_HANDSHAKE_RESPONSE_def RELAY_PKT_DATA_def
  RELAY_PKT_KEEPALIVE_def RELAY_PKT_CLOSE_def

datatype RelayState = RELAY_STATE_IDLE | RELAY_STATE_CONNECTING | RELAY_STATE_ESTABLISHED | RELAY_STATE_CLOSED

record RelaySession =
  rs_peer_id :: string
  rs_relay_id :: string
  rs_ip :: string
  rs_port :: int
  rs_state :: RelayState
  rs_socket_fd :: int
  rs_session_id :: "32 word"
  rs_last_activity :: int
  rs_created_at :: int
  rs_is_initiator :: bool
  rs_retry_count :: int
  rs_hop_count :: nat
  rs_path :: "string list"
  rs_shared_secret :: "byte list"
  rs_is_secure :: bool

text \<open>\<open>rm_sent\<close> lists the datagrams sent from the relay socket, \<open>rm_announced\<close> what the DHT was told.\<close>

record relay =
  rm_sessions :: "RelaySession list"
  rm_initialized :: bool
  rm_is_relay_node :: bool
  rm_my_id :: string
  rm_relay_port :: int
  rm_relay_socket :: int
  rm_running :: bool
  rm_announce_running :: bool
  rm_closed :: "int list"
  rm_sent :: "((string \<times> int) \<times> byte list) list"
  rm_announced :: "(string \<times> int) list"
  rm_crypto :: cstate

text \<open>The global pointer that \<open>relay_send_packet\<close> falls back to is never assigned.\<close>

definition g_relay_mgr :: "relay option" where
  "g_relay_mgr = None"

record relay_env =
  re_clk :: clock
  re_pid :: int
  re_rand :: int
  re_ok :: outcomes
  re_random :: "byte list"
  re_ssl :: ssl
  re_malloc :: outcomes                        \<comment> \<open>of a payload, of a packet\<close>
  re_mutex :: bool
  re_socket :: int
  re_bind :: bool
  re_send :: bool
  re_recv :: receipt
  re_stack :: "byte list"
  re_identity :: "identity option"
  re_dht :: "bool \<times> bool"                       \<comment> \<open>created, started\<close>
  re_nodes :: "(string \<times> int) list"             \<comment> \<open>what \<open>dht_get_nodes\<close> gives, at most 16\<close>

definition zero_relay_session :: RelaySession where
  "zero_relay_session = \<lparr>rs_peer_id = [], rs_relay_id = [], rs_ip = [], rs_port = 0, rs_state = RELAY_STATE_IDLE,
     rs_socket_fd = 0, rs_session_id = 0, rs_last_activity = 0, rs_created_at = 0, rs_is_initiator = False,
     rs_retry_count = 0, rs_hop_count = 0, rs_path = replicate RELAY_MAX_PATH [], rs_shared_secret = replicate 32 0,
     rs_is_secure = False\<rparr>"

definition upd_relay :: "nat \<Rightarrow> (RelaySession \<Rightarrow> RelaySession) \<Rightarrow> relay \<Rightarrow> relay" where
  "upd_relay i f m = m\<lparr>rm_sessions := (rm_sessions m)[i := f (rm_sessions m ! i)]\<rparr>"

section \<open>The manager\<close>

text \<open>The result is the descriptor and the descriptors closed on the way.\<close>

definition relay_create_udp_socket :: "relay_env \<Rightarrow> int \<times> int list" where
  "relay_create_udp_socket env =
    (if re_socket env < 0 then (-1, [])
     else if \<not> re_bind env then (-1, [re_socket env])
     else (re_socket env, []))"

definition relay_manager_init :: "relay_env \<Rightarrow> string option \<Rightarrow> int \<Rightarrow> cstate \<Rightarrow> (int \<times> relay option) option" where
  "relay_manager_init env my_id port c = (case my_id of
      None \<Rightarrow> Some (-1, None)
    | Some a \<Rightarrow> do {
        name \<leftarrow> strcpy_into 64 a;
        let m = \<lparr>rm_sessions = [], rm_initialized = True, rm_is_relay_node = False, rm_my_id = name,
               rm_relay_port = port, rm_relay_socket = -1, rm_running = False, rm_announce_running = False,
               rm_closed = [], rm_sent = [], rm_announced = [], rm_crypto = c\<rparr>;
        Some (if \<not> re_mutex env then (-1, Some m)
          else let (fd, closed) = relay_create_udp_socket env;
                   m = m\<lparr>rm_relay_socket := fd, rm_closed := closed\<rparr>
               in if fd < 0 then (-1, Some m) else (0, Some (m\<lparr>rm_running := True\<rparr>))) })"

definition relay_manager_cleanup :: "relay \<Rightarrow> relay" where
  "relay_manager_cleanup m =
    (if \<not> rm_initialized m then m
     else m\<lparr>rm_running := False, rm_announce_running := False,
         rm_closed := (if rm_relay_socket m \<ge> 0 then [rm_relay_socket m] else [])
           @ rev (filter (\<lambda>fd. fd > 0) (map rs_socket_fd (rm_sessions m))) @ rm_closed m,
         rm_sessions := [], rm_relay_socket := (if rm_relay_socket m \<ge> 0 then -1 else rm_relay_socket m),
         rm_initialized := False\<rparr>)"

definition relay_announce :: "relay_env \<Rightarrow> int \<Rightarrow> relay \<Rightarrow> int \<times> relay" where
  "relay_announce env port m =
    (if \<not> fst (re_dht env) then (-1, m)
     else if \<not> snd (re_dht env) then (-1, m)
     else (0, m\<lparr>rm_announced := rm_announced m @ [(rm_my_id m, port)]\<rparr>))"

definition relay_manager_enable_relay :: "relay_env \<Rightarrow> bool \<Rightarrow> relay \<Rightarrow> int \<times> relay" where
  "relay_manager_enable_relay env enable m =
    (if \<not> rm_initialized m then (-1, m)
     else let m = m\<lparr>rm_is_relay_node := enable\<rparr>
       in if enable then (0, (snd (relay_announce env (rm_relay_port m) m))\<lparr>rm_announce_running := True\<rparr>)
          else (0, m\<lparr>rm_announce_running := False\<rparr>))"

text \<open>One turn of the announce thread after its sleep.\<close>

definition relay_announce_round :: "relay_env \<Rightarrow> relay \<Rightarrow> relay" where
  "relay_announce_round env m =
    (if rm_announce_running m \<and> rm_is_relay_node m then snd (relay_announce env (rm_relay_port m) m) else m)"

definition relay_resolve_host :: "(nat \<times> nat \<times> nat \<times> nat) list option \<Rightarrow> string option" where
  "relay_resolve_host found = (case found of
      Some ((a, b, c, d) # _) \<Rightarrow> Some (dotted a b c d)
    | _ \<Rightarrow> None)"

text \<open>The texts written for the nodes the DHT knows, then one fixed name, at most \<open>max_ids\<close> of them.\<close>

definition relay_discover_peers :: "relay_env \<Rightarrow> int \<Rightarrow> string list" where
  "relay_discover_peers env max_ids =
    (if max_ids \<le> 0 then []
     else if \<not> fst (re_dht env) \<or> \<not> snd (re_dht env) then []
     else let found = map (\<lambda>(ip, port). snprintf_into 64 (ip @ '':'' @ dec_int port))
                (take (nat max_ids) (take 16 (re_nodes env)))
          in if int (length found) < max_ids then found @ [''relay.example.com:9000''] else found)"

section \<open>The table of sessions\<close>

definition relay_find_session :: "relay \<Rightarrow> string \<Rightarrow> nat option" where
  "relay_find_session m pid = find_index (\<lambda>s. rs_peer_id s = pid) (rm_sessions m)"

definition new_relay_session :: "relay_env \<Rightarrow> string \<Rightarrow> RelaySession" where
  "new_relay_session env pid = zero_relay_session\<lparr>rs_peer_id := pid, rs_state := RELAY_STATE_IDLE, rs_socket_fd := -1,
     rs_created_at := re_clk env 0, rs_last_activity := re_clk env 1,
     rs_session_id := word_of_int (xor (xor (re_clk env 2) (re_pid env)) (re_rand env)), rs_hop_count := 0\<rparr>"

definition relay_add_session :: "relay_env \<Rightarrow> string \<Rightarrow> relay \<Rightarrow> (nat option \<times> relay) option" where
  "relay_add_session env pid m =
    (if RELAY_MAX_PEERS \<le> length (rm_sessions m) then Some (None, m)
     else do {
       name \<leftarrow> strcpy_into 64 pid;
       Some (Some (length (rm_sessions m)), m\<lparr>rm_sessions := rm_sessions m @ [new_relay_session env name]\<rparr>) })"

definition relay_disconnect :: "string option \<Rightarrow> relay \<Rightarrow> int \<times> relay" where
  "relay_disconnect pid m = (case pid of
      None \<Rightarrow> (-1, m)
    | Some a \<Rightarrow> (0, (case relay_find_session m a of
          None \<Rightarrow> m
        | Some i \<Rightarrow>
            let fd = rs_socket_fd (rm_sessions m ! i);
                ss = (rm_sessions m)[i := (rm_sessions m ! i)\<lparr>rs_state := RELAY_STATE_CLOSED,
                        rs_socket_fd := (if fd > 0 then -1 else fd)\<rparr>]
            in m\<lparr>rm_sessions := drop_session i ss, rm_closed := (if fd > 0 then fd # rm_closed m else rm_closed m)\<rparr>)))"

definition relay_is_connected :: "string option \<Rightarrow> relay \<Rightarrow> bool" where
  "relay_is_connected pid m = (case pid of
      None \<Rightarrow> False
    | Some a \<Rightarrow> (case relay_find_session m a of
          None \<Rightarrow> False | Some i \<Rightarrow> rs_state (rm_sessions m ! i) = RELAY_STATE_ESTABLISHED))"

definition relay_get_state :: "string option \<Rightarrow> relay \<Rightarrow> RelayState" where
  "relay_get_state pid m = (case pid of
      None \<Rightarrow> RELAY_STATE_IDLE
    | Some a \<Rightarrow> (case relay_find_session m a of
          None \<Rightarrow> RELAY_STATE_IDLE | Some i \<Rightarrow> rs_state (rm_sessions m ! i)))"

definition relay_get_peer_count :: "relay \<Rightarrow> nat" where
  "relay_get_peer_count m = length (rm_sessions m)"

definition relay_get_relay_path :: "string option \<Rightarrow> relay \<Rightarrow> (nat \<times> string list) option" where
  "relay_get_relay_path pid m = (case pid of
      None \<Rightarrow> None
    | Some a \<Rightarrow> (case relay_find_session m a of
          None \<Rightarrow> None
        | Some i \<Rightarrow>
            let s = rm_sessions m ! i
            in Some (rs_hop_count s, take (min (rs_hop_count s) RELAY_MAX_PATH) (rs_path s))))"

section \<open>Connecting\<close>

text \<open>The secret of a session is drawn at random on each side; its salt is not used.\<close>

definition relay_generate_session_keys :: "relay_env \<Rightarrow> nat \<Rightarrow> relay \<Rightarrow> relay" where
  "relay_generate_session_keys env i m =
    (let (_, c) = orca_random_bytes (re_ok env) (re_random env) True 16 (rm_crypto m);
         (rnd, c) = orca_random_bytes (shift 1 (re_ok env)) (drop 16 (re_random env)) True 32 c;
         secret = (case rnd of None \<Rightarrow> stack_buffer 32 (re_stack env) | Some b \<Rightarrow> b)
     in upd_relay i (\<lambda>s. s\<lparr>rs_shared_secret := secret, rs_is_secure := True\<rparr>) (m\<lparr>rm_crypto := c\<rparr>))"

definition relay_handshake_text :: "string \<Rightarrow> 32 word \<Rightarrow> string \<Rightarrow> string" where
  "relay_handshake_text peer_id sid my_id = snprintf_into 512
     (''RELAY_HANDSHAKE:'' @ peer_id @ '':'' @ dec_nat (unat sid) @ '':'' @ my_id)"

definition find_or_add_relay :: "relay_env \<Rightarrow> string \<Rightarrow> relay \<Rightarrow> (nat option \<times> relay) option" where
  "find_or_add_relay env a m =
    (case relay_find_session m a of Some i \<Rightarrow> Some (Some i, m) | None \<Rightarrow> relay_add_session env a m)"

definition relay_connect ::
    "relay_env \<Rightarrow> string option \<Rightarrow> string option \<Rightarrow> string option \<Rightarrow> int \<Rightarrow> relay \<Rightarrow> (int \<times> relay) option" where
  "relay_connect env pid relay_id relay_ip port m = (case (pid, relay_ip) of
      (Some a, Some ip) \<Rightarrow>
        if port \<le> 0 then Some (-1, m)
        else do {
          (r, m) \<leftarrow> find_or_add_relay env a m;
          (case r of
             None \<Rightarrow> Some (-1, m)
           | Some i \<Rightarrow>
               if rs_state (rm_sessions m ! i) = RELAY_STATE_ESTABLISHED then Some (0, m)
               else do {
                 rid \<leftarrow> (case relay_id of None \<Rightarrow> Some (rs_relay_id (rm_sessions m ! i)) | Some t \<Rightarrow> strcpy_into 64 t);
                 rip \<leftarrow> strcpy_into 16 ip;
                 let m = upd_relay i (\<lambda>s. s\<lparr>rs_state := RELAY_STATE_CONNECTING, rs_relay_id := rid, rs_ip := rip,
                             rs_port := port, rs_is_initiator := True\<rparr>) m;
                 my_id \<leftarrow> (case re_identity env of Some idn \<Rightarrow> strcpy_into 64 (idn_id idn) | None \<Rightarrow> strcpy_into 64 (rm_my_id m));
                 let handshake = relay_handshake_text a (rs_session_id (rm_sessions m ! i)) my_id;
                 let idle = upd_relay i (\<lambda>s. s\<lparr>rs_state := RELAY_STATE_IDLE\<rparr>);
                 if \<not> re_send env then Some (-1, idle m)
                 else do {
                   let m = m\<lparr>rm_sent := rm_sent m @ [((ip, port), string_bytes handshake)]\<rparr>;
                   (case re_recv env of
                      Received packet \<Rightarrow>
                        if contains (bytes_string (takeWhile (\<lambda>b. b \<noteq> 0) (take 511 packet))) ''RELAY_HANDSHAKE_OK''
                        then Some (0, relay_generate_session_keys env i
                               (upd_relay i (\<lambda>s. s\<lparr>rs_state := RELAY_STATE_ESTABLISHED, rs_last_activity := re_clk env 3\<rparr>) m))
                        else Some (-1, idle m)
                    | _ \<Rightarrow> Some (-1, idle m)) } }) }
    | _ \<Rightarrow> Some (-1, m))"

definition relay_accept :: "relay_env \<Rightarrow> string option \<Rightarrow> string option \<Rightarrow> relay \<Rightarrow> (int \<times> relay) option" where
  "relay_accept env pid relay_id m = (case pid of
      None \<Rightarrow> Some (-1, m)
    | Some a \<Rightarrow> do {
        (r, m) \<leftarrow> find_or_add_relay env a m;
        (case r of
           None \<Rightarrow> Some (-1, m)
         | Some i \<Rightarrow> do {
             rid \<leftarrow> (case relay_id of None \<Rightarrow> Some (rs_relay_id (rm_sessions m ! i)) | Some t \<Rightarrow> strcpy_into 64 t);
             Some (0, relay_generate_session_keys env i
               (upd_relay i (\<lambda>s. s\<lparr>rs_relay_id := rid, rs_state := RELAY_STATE_ESTABLISHED, rs_is_initiator := False,
                   rs_last_activity := re_clk env 3\<rparr>) m)) }) })"

section \<open>Packets\<close>

text \<open>
  \<open>RelayPacket\<close> is not packed: two bytes of padding follow the type, the payload starts at
  offset 22, and \<open>sizeof\<close> is 24, so a packet ends with two bytes of old heap content.
\<close>

definition RELAY_SIZEOF :: nat where "RELAY_SIZEOF = 24"
definition RELAY_PAYLOAD :: nat where "RELAY_PAYLOAD = 22"

definition relay_packet :: "byte list \<Rightarrow> byte \<Rightarrow> 32 word \<Rightarrow> 32 word \<Rightarrow> byte list \<Rightarrow> byte list" where
  "relay_packet old ty sid sequence payload =
     le32 RELAY_MAGIC @ [RELAY_PROTOCOL_VERSION, ty] @ stack_buffer 2 old @ le32 sid @ le32 sequence @ le32 0
     @ le16 (of_nat (length payload)) @ payload @ stack_buffer 2 (drop 2 old)"

text \<open>Without a socket of its own a session sends from the manager's: a NULL pointer.\<close>

definition relay_send_packet :: "relay_env \<Rightarrow> nat option \<Rightarrow> byte \<Rightarrow> byte list \<Rightarrow> relay \<Rightarrow> (int \<times> relay) option" where
  "relay_send_packet env session ty payload m = (case session of
      None \<Rightarrow> Some (-1, m)
    | Some i \<Rightarrow>
        if \<not> re_malloc env 1 then Some (-1, m)
        else do {
          let s = rm_sessions m ! i;
          _ \<leftarrow> (if rs_socket_fd s > 0 then Some (rs_socket_fd s) else map_option rm_relay_socket g_relay_mgr);
          if \<not> re_send env then Some (-1, m)
          else Some (0, upd_relay i (\<lambda>s. s\<lparr>rs_last_activity := re_clk env 1\<rparr>)
            (m\<lparr>rm_sent := rm_sent m @ [((rs_ip s, rs_port s),
               relay_packet (re_stack env) ty (rs_session_id s) (word_of_int (re_clk env 0)) payload)]\<rparr>)) })"

definition relay_send :: "relay_env \<Rightarrow> string option \<Rightarrow> byte list option \<Rightarrow> relay \<Rightarrow> (int \<times> relay) option" where
  "relay_send env pid data m = (case (pid, data) of
      (Some a, Some d) \<Rightarrow>
        if d = [] then Some (-1, m)
        else (case relay_find_session m a of
          None \<Rightarrow> Some (-1, m)
        | Some i \<Rightarrow>
            let s = rm_sessions m ! i in
            if rs_state s \<noteq> RELAY_STATE_ESTABLISHED then Some (-1, m)
            else if rs_is_secure s \<and> rs_shared_secret s ! 0 \<noteq> 0 then
              (let (rnd, c) = orca_random_bytes (re_ok env) (re_random env) True 12 (rm_crypto m);
                   nonce = (case rnd of None \<Rightarrow> stack_buffer 12 (re_stack env) | Some b \<Rightarrow> b);
                   (sealed, c) = orca_aes_gcm_encrypt (shift 1 (re_ok env)) (re_ssl env) (Some d)
                     (Some (rs_shared_secret s)) (Some nonce) c
               in case sealed of
                    None \<Rightarrow> Some (-1, m\<lparr>rm_crypto := c\<rparr>)
                  | Some (ciphertext, tag) \<Rightarrow>
                      let m = m\<lparr>rm_crypto := free_res [MEM ''ciphertext''] c\<rparr>
                      in if \<not> re_malloc env 0 then Some (-1, m)
                         else relay_send_packet env (Some i) RELAY_PKT_DATA (nonce @ tag @ ciphertext) m)
            else relay_send_packet env (Some i) RELAY_PKT_DATA d m)
    | _ \<Rightarrow> Some (-1, m))"

definition relay_sid :: "byte list \<Rightarrow> 32 word" where
  "relay_sid buf = from_le32 (drop 8 buf)"

definition relay_payload_len :: "byte list \<Rightarrow> nat" where
  "relay_payload_len buf = unat (buf ! 20) + 256 * unat (buf ! 21)"

text \<open>The return code of \<open>relay_recv\<close> and the bytes copied to the caller: the payload as it came.\<close>

definition relay_recv :: "relay_env \<Rightarrow> string option \<Rightarrow> nat \<Rightarrow> relay \<Rightarrow> (int \<times> byte list \<times> relay) option" where
  "relay_recv env pid max_len m = (case pid of
      None \<Rightarrow> Some (-1, [], m)
    | Some a \<Rightarrow>
        if max_len = 0 then Some (-1, [], m)
        else (case relay_find_session m a of
          None \<Rightarrow> Some (-1, [], m)
        | Some i \<Rightarrow>
            if rs_state (rm_sessions m ! i) \<noteq> RELAY_STATE_ESTABLISHED then Some (-1, [], m)
            else (case re_recv env of
                Would_Block \<Rightarrow> Some (0, [], m)
              | Recv_Error \<Rightarrow> Some (-1, [], m)
              | Received packet \<Rightarrow>
                  let buf = receive_into RELAY_BUFFER_SIZE (re_stack env) packet in
                  if min RELAY_BUFFER_SIZE (length packet) < RELAY_SIZEOF then Some (-1, [], m)
                  else if from_le32 buf \<noteq> RELAY_MAGIC then Some (-1, [], m)
                  else if relay_sid buf \<noteq> rs_session_id (rm_sessions m ! i) then Some (-1, [], m)
                  else if buf ! 5 = RELAY_PKT_DATA then do {
                    d \<leftarrow> rd_block buf RELAY_PAYLOAD (min (relay_payload_len buf) max_len);
                    Some (int (length d), d, upd_relay i (\<lambda>s. s\<lparr>rs_last_activity := re_clk env 0\<rparr>) m) }
                  else Some (0, [], m))))"

text \<open>
  A packet for a known session.  Data is decrypted and thrown away; the ciphertext is read up to
  the length the packet announces, once OpenSSL's context, key and memory are there.
\<close>

definition relay_process_packet :: "relay_env \<Rightarrow> nat \<Rightarrow> byte list \<Rightarrow> nat \<Rightarrow> relay \<Rightarrow> (int \<times> relay) option" where
  "relay_process_packet env i buf n m =
    (if n < RELAY_SIZEOF then Some (-1, m)
     else if from_le32 buf \<noteq> RELAY_MAGIC then Some (-1, m)
     else if buf ! 4 \<noteq> RELAY_PROTOCOL_VERSION then Some (-1, m)
     else
       let m = upd_relay i (\<lambda>s. s\<lparr>rs_last_activity := re_clk env 0\<rparr>) m; s = rm_sessions m ! i; ty = buf ! 5;
           len = relay_payload_len buf in
       if ty = RELAY_PKT_HANDSHAKE_RESPONSE then
         Some (0, upd_relay i (\<lambda>s. s\<lparr>rs_state := RELAY_STATE_ESTABLISHED\<rparr>) m)
       else if ty = RELAY_PKT_CLOSE then
         Some (0, upd_relay i (\<lambda>s. s\<lparr>rs_state := RELAY_STATE_CLOSED\<rparr>) m)
       else if ty = RELAY_PKT_DATA \<and> rs_is_secure s \<and> rs_shared_secret s ! 0 \<noteq> 0 \<and> len \<ge> 28 then
         (if length buf < RELAY_PAYLOAD + len \<and> re_ok env 0 \<and> re_ok env 1 \<and> re_ok env 2 then None
          else let (plaintext, c) = orca_aes_gcm_decrypt (re_ok env) (re_ssl env)
                  (Some (take (len - 28) (drop (RELAY_PAYLOAD + 28) buf))) (int (len - 28)) (Some (rs_shared_secret s))
                  (Some (take 12 (drop RELAY_PAYLOAD buf))) (Some (take 16 (drop (RELAY_PAYLOAD + 12) buf))) (rm_crypto m)
               in Some (0, m\<lparr>rm_crypto := (case plaintext of None \<Rightarrow> c | Some _ \<Rightarrow> free_res [MEM ''plaintext''] c)\<rparr>))
       else Some (0, m))"

section \<open>The listener\<close>

text \<open>
  One call of \<open>strtok\<close> on what is left of a text: the next maximal run of other characters, and
  what follows the delimiter behind it.
\<close>

definition c_strtok :: "char \<Rightarrow> string \<Rightarrow> (string \<times> string) option" where
  "c_strtok c s =
    (let t = dropWhile (\<lambda>x. x = c) s in
     if t = [] then None else Some (takeWhile (\<lambda>x. x \<noteq> c) t, drop 1 (dropWhile (\<lambda>x. x \<noteq> c) t)))"

text \<open>
  The fields of a handshake: \<open>Some None\<close> when one is missing, \<open>None\<close> when an id does not fit
  its 64 bytes (it is copied before the next field is looked for).
\<close>

definition parse_handshake :: "string \<Rightarrow> (string \<times> 32 word \<times> string) option option" where
  "parse_handshake text =
    (case c_strtok CHR '':'' text of
       None \<Rightarrow> Some None
     | Some (tag, rest) \<Rightarrow>
         if tag \<noteq> ''RELAY_HANDSHAKE'' then Some None
         else (case c_strtok CHR '':'' rest of
           None \<Rightarrow> Some None
         | Some (p, rest) \<Rightarrow> do {
             peer_id \<leftarrow> strcpy_into 64 p;
             (case c_strtok CHR '':'' rest of
                None \<Rightarrow> Some None
              | Some (n, rest) \<Rightarrow> (case c_strtok CHR '':'' rest of
                  None \<Rightarrow> Some None
                | Some (f, _) \<Rightarrow> do {
                    from_id \<leftarrow> strcpy_into 64 f;
                    Some (Some (peer_id, word_of_int (atoi n), from_id)) })) }))"

text \<open>The new session gets the id the text names as its target; the sender's id is not used.\<close>

definition accept_relay_handshake :: "relay_env \<Rightarrow> string \<Rightarrow> int \<Rightarrow> string \<Rightarrow> relay \<Rightarrow> relay option" where
  "accept_relay_handshake env ip port text m = do {
     r \<leftarrow> parse_handshake text;
     (case r of
        None \<Rightarrow> Some m
      | Some (peer_id, sid, from_id) \<Rightarrow> do {
          (k, m) \<leftarrow> relay_add_session env peer_id m;
          (case k of
             None \<Rightarrow> Some m
           | Some i \<Rightarrow> do {
               a \<leftarrow> strcpy_into 16 ip;
               let m = relay_generate_session_keys env i (upd_relay i (\<lambda>s. s\<lparr>rs_session_id := sid,
                     rs_state := RELAY_STATE_ESTABLISHED, rs_is_initiator := False, rs_last_activity := re_clk env 3,
                     rs_ip := a, rs_port := port\<rparr>) m);
               let response = snprintf_into 128 (''RELAY_HANDSHAKE_OK:'' @ dec_nat (unat sid));
               Some (if re_send env then m\<lparr>rm_sent := rm_sent m @ [((ip, port), string_bytes response)]\<rparr> else m) }) }) }"

definition relay_listener_receive :: "relay_env \<Rightarrow> byte list \<Rightarrow> string \<Rightarrow> int \<Rightarrow> relay \<Rightarrow> relay option" where
  "relay_listener_receive env packet ip port m =
    (let buf = receive_into RELAY_BUFFER_SIZE (re_stack env) packet; n = min RELAY_BUFFER_SIZE (length packet) in
     if n < RELAY_SIZEOF then Some m
     else if from_le32 buf = RELAY_MAGIC then
       (case find_index (\<lambda>s. rs_session_id s = relay_sid buf) (rm_sessions m) of
          None \<Rightarrow>
            if buf ! 5 = RELAY_PKT_HANDSHAKE then do {
              t \<leftarrow> c_str (drop RELAY_PAYLOAD buf);
              accept_relay_handshake env ip port (bytes_string t) m }
            else Some m
        | Some i \<Rightarrow> map_option snd (relay_process_packet env i buf n m))
     else if take 15 buf = string_bytes ''RELAY_HANDSHAKE'' then do {
       t \<leftarrow> c_str buf;
       accept_relay_handshake env ip port (bytes_string t) m }
     else Some m)"

end
