(* ===== verification/Turn_Properties.thy ===== *)
theory Turn_Properties
  imports Turn_Client
begin

text \<open>
  The properties of the TURN client: the walk over the attributes of an answer, the relay
  address it yields, the bytes of the requests, the table of sessions as a \<open>session_store\<close>, and
  the servers' credentials.
\<close>

section \<open>The walk over the attributes\<close>

text \<open>
  The attributes from \<open>pos\<close> on fill \<open>n\<close> bytes: each ends inside them, and at most three bytes
  are left over.
\<close>

function attrs_fit :: "byte list \<Rightarrow> nat \<Rightarrow> nat \<Rightarrow> bool" where
  "attrs_fit buf pos n =
    (if n < 4 then True
     else (case rd16 buf (pos + 2) of
        None \<Rightarrow> False
      | Some l \<Rightarrow> 4 + l \<le> n \<and> attrs_fit buf (pos + 4 + l) (n - (4 + l))))"
  by pat_completeness auto
termination by (relation "measure (\<lambda>(buf, pos, n). n)") auto

declare attrs_fit.simps [simp del]

lemma rd16_Some: "pos + 1 < length buf \<Longrightarrow> \<exists>v. rd16 buf pos = Some v"
  by (simp add: rd16_def rd_def)

lemma rd16_None: "length buf \<le> pos \<Longrightarrow> rd16 buf pos = None"
  by (simp add: rd16_def rd_def)

lemma rd16_less:
  assumes "rd16 buf pos = Some v"
  shows "v < 65536"
proof -
  obtain hi lo :: byte where "v = 256 * unat hi + unat lo"
    using assms by (auto simp: rd16_def rd_def split: if_splits)
  moreover have "unat hi < 256" "unat lo < 256"
    using unsigned_less [of hi, where ?'a = nat] unsigned_less [of lo, where ?'a = nat] by simp_all
  ultimately show ?thesis by linarith
qed

lemma unat64: "k < 2 ^ 64 \<Longrightarrow> unat (of_nat k :: 64 word) = k"
  by (simp add: unat_of_nat)

text \<open>A body that never returns, and reads only the value it is given.\<close>

definition reads_value :: "(nat \<Rightarrow> nat \<Rightarrow> nat \<Rightarrow> 's \<Rightarrow> ('r + 's) option) \<Rightarrow> byte list \<Rightarrow> bool" where
  "reads_value body buf \<longleftrightarrow>
     (\<forall>t l p s r. body t l p s \<noteq> Some (Inl r)) \<and> (\<forall>t l p s. p + l \<le> length buf \<longrightarrow> body t l p s \<noteq> None)"

lemma fitting_walk:
  assumes "reads_value body buf" and "attrs_fit buf pos n" and "pos + n \<le> length buf" and "n < 2 ^ 16"
  shows "\<exists>s'. turn_attrs body buf pos (of_nat n) s = Some (Inr s')"
  using assms
proof (induction buf pos n arbitrary: s rule: attrs_fit.induct)
  case (1 buf pos n s)
  note body = "1.prems"(1)
  show ?case
  proof (cases "n < 4")
    case True
    then have "(of_nat n :: 64 word) < 4" by (simp add: word_less_nat_alt unat_of_nat)
    then show ?thesis by (subst turn_attrs.simps) simp
  next
    case False
    then obtain t where t: "rd16 buf pos = Some t" using rd16_Some [of pos buf] "1.prems" by auto
    from False "1.prems"(2) obtain l where l: "rd16 buf (pos + 2) = Some l" "4 + l \<le> n"
      "attrs_fit buf (pos + 4 + l) (n - (4 + l))"
      by (subst (asm) attrs_fit.simps) (auto split: option.splits)
    have "pos + 4 + l \<le> length buf" using l(2) "1.prems"(3) by simp
    then have "body t l (pos + 4) s \<noteq> None"
      using body by (simp add: reads_value_def)
    moreover have "body t l (pos + 4) s \<noteq> Some (Inl r)" for r using body by (simp add: reads_value_def)
    ultimately obtain s1 where b: "body t l (pos + 4) s = Some (Inr s1)"
      by (cases "body t l (pos + 4) s"; cases "the (body t l (pos + 4) s)") auto
    have d: "(of_nat n :: 64 word) - of_nat (4 + l) = of_nat (n - (4 + l))" using l(2) by (simp add: of_nat_diff)
    have ge: "\<not> (of_nat n :: 64 word) < 4" using False "1.prems"(4) by (simp add: word_less_nat_alt unat_of_nat)
    have "\<exists>s'. turn_attrs body buf (pos + 4 + l) (of_nat (n - (4 + l))) s1 = Some (Inr s')"
      using False l "1.prems" by (intro "1.IH") simp_all
    then show ?thesis using ge t l(1) b d by (subst turn_attrs.simps) simp
  qed
qed

text \<open>
  When an attribute claims more than is left, the counter wraps round and the walk goes on until
  it reads past the buffer.
\<close>

lemma runaway_walk:
  assumes "\<forall>t l p s r. body t l p s \<noteq> Some (Inl r)" and "2 ^ 17 + (length buf - pos) \<le> unat left"
  shows "turn_attrs body buf pos left s = None"
  using assms
proof (induction body buf pos left s rule: turn_attrs.induct)
  case (1 body buf pos left s)
  have ge: "\<not> left < 4" using "1.prems"(2) by (simp add: word_less_nat_alt)
  show ?case
  proof (cases "rd16 buf pos = None \<or> rd16 buf (pos + 2) = None")
    case True
    then show ?thesis using ge by (subst turn_attrs.simps) (auto split: option.splits)
  next
    case False
    then obtain t l where tl: "rd16 buf pos = Some t" "rd16 buf (pos + 2) = Some l" by auto
    have l: "l < 65536" using tl(2) by (rule rd16_less)
    have u: "unat (left - of_nat (4 + l)) = unat left - (4 + l)"
    proof -
      have "unat (of_nat (4 + l) :: 64 word) = 4 + l" using l by (intro unat64) simp
      moreover have "(of_nat (4 + l) :: 64 word) \<le> left" using calculation l "1.prems"(2) by (simp add: word_le_nat_alt)
      ultimately show ?thesis by (simp add: unat_sub)
    qed
    have "turn_attrs body buf (pos + 4 + l) (left - of_nat (4 + l)) s1 = None"
      if b: "body t l (pos + 4) s = Some (Inr s1)" for s1
    proof (cases "pos + 4 + l < length buf")
      case True
      show ?thesis
        using True "1.prems" ge tl b u by (intro "1.IH") simp_all
    next
      case False
      have "4 \<le> unat (left - of_nat (4 + l))" using u l "1.prems"(2) by simp
      then have "\<not> left - of_nat (4 + l) < 4" by (simp add: word_less_nat_alt)
      then show ?thesis using False rd16_None [of buf "pos + 4 + l"] by (subst turn_attrs.simps) simp
    qed
    then show ?thesis using ge tl "1.prems"(1)
      by (subst turn_attrs.simps) (auto split: option.splits sum.splits)
  qed
qed

lemma unfit_walk:
  assumes "\<forall>t l p s r. body t l p s \<noteq> Some (Inl r)" and "\<not> attrs_fit buf pos n" and "n < 2 ^ 16" and "length buf < 2 ^ 32"
  shows "turn_attrs body buf pos (of_nat n) s = None"
  using assms
proof (induction buf pos n arbitrary: s rule: attrs_fit.induct)
  case (1 buf pos n s)
  have n: "4 \<le> n" using "1.prems"(2) by (subst (asm) attrs_fit.simps) (auto split: if_splits)
  then have ge: "\<not> (of_nat n :: 64 word) < 4" using "1.prems"(3) by (simp add: word_less_nat_alt unat_of_nat)
  show ?case
  proof (cases "rd16 buf pos = None \<or> rd16 buf (pos + 2) = None")
    case True
    then show ?thesis using ge by (subst turn_attrs.simps) (auto split: option.splits)
  next
    case False
    then obtain t l where tl: "rd16 buf pos = Some t" "rd16 buf (pos + 2) = Some l" by auto
    have l: "l < 65536" using tl(2) by (rule rd16_less)
    have "turn_attrs body buf (pos + 4 + l) (of_nat n - of_nat (4 + l)) s1 = None" for s1
    proof (cases "4 + l \<le> n")
      case True
      then have d: "(of_nat n :: 64 word) - of_nat (4 + l) = of_nat (n - (4 + l))" by (simp add: of_nat_diff)
      have "\<not> attrs_fit buf (pos + 4 + l) (n - (4 + l))"
        using "1.prems"(2) n tl True by (subst (asm) attrs_fit.simps) simp
      then show ?thesis unfolding d using n tl True "1.prems" by (intro "1.IH") simp_all
    next
      case False
      have u: "unat (of_nat n :: 64 word) = n" "unat (of_nat (4 + l) :: 64 word) = 4 + l"
        using l "1.prems"(3) by (intro unat64; simp)+
      have "unat ((of_nat n :: 64 word) - of_nat (4 + l)) = 2 ^ 64 + n - (4 + l)"
        using False u by (subst unat_sub_if') (simp_all add: word_le_nat_alt)
      then have "2 ^ 17 + (length buf - (pos + 4 + l)) \<le> unat ((of_nat n :: 64 word) - of_nat (4 + l))"
        using l "1.prems"(4) by simp
      then show ?thesis by (intro runaway_walk "1.prems"(1)) simp_all
    qed
    then show ?thesis using ge tl "1.prems"(1)
      by (subst turn_attrs.simps) (auto split: option.splits sum.splits)
  qed
qed

lemma allocate_attr_reads: "reads_value (allocate_attr clk buf) buf"
proof -
  have "allocate_attr clk buf t l p s \<noteq> Some (Inl r)" for t l p s r
    by (auto simp: allocate_attr_def split: Option.bind_splits if_splits)
  moreover have "allocate_attr clk buf t l p s \<noteq> None" if "p + l \<le> length buf" for t l p s
    using that by (auto simp: allocate_attr_def rd16_def rd_def rd_block_def split: Option.bind_splits if_splits)
  ultimately show ?thesis by (simp add: reads_value_def)
qed

lemma rd16_be16:
  assumes "pos + 1 < length buf" and "take 2 (drop pos buf) = be16 w"
  shows "rd16 buf pos = Some (unat w)"
proof -
  have "buf ! pos = ucast (drop_bit 8 w)" "buf ! (pos + 1) = ucast w"
    using arg_cong [OF assms(2), of "\<lambda>x. x ! 0"] arg_cong [OF assms(2), of "\<lambda>x. x ! 1"] assms(1)
    by (simp_all add: be16_def)
  moreover have "256 * unat (ucast (drop_bit 8 w) :: byte) + unat (ucast w :: byte) = unat w"
  proof -
    have "unat (ucast (drop_bit 8 w) :: byte) = unat w div 256"
      using unsigned_less [of w, where ?'a = nat]
      by (simp add: unsigned_ucast_eq take_bit_eq_mod unsigned_drop_bit_eq drop_bit_eq_div unat_div_distrib)
    moreover have "unat (ucast w :: byte) = unat w mod 256" by (simp add: unsigned_ucast_eq take_bit_eq_mod)
    ultimately show ?thesis by simp
  qed
  ultimately show ?thesis using assms(1) by (simp add: rd16_def rd_def)
qed

text \<open>
  The client survives an allocate response exactly when the attributes tile the announced
  length: a single attribute that claims more than is left makes the unsigned counter wrap
  round, and the loop reads past the 512-byte buffer.
\<close>

theorem allocate_response_overrun_iff:
  assumes "length buf = 512" and "20 \<le> n" and "take 2 buf = be16 TURN_MSG_ALLOCATE_RESPONSE"
    and "take 2 (drop 2 buf) = be16 len" and "take 4 (drop 4 buf) = be32 TURN_MAGIC_COOKIE" and "len \<le> 492"
  shows "turn_parse_allocate_response env s buf n = None \<longleftrightarrow> \<not> attrs_fit buf 20 (unat len)"
proof -
  let ?body = "allocate_attr (te_clk env) buf :: nat \<Rightarrow> nat \<Rightarrow> nat \<Rightarrow> TURNSession \<Rightarrow> (int + TURNSession) option"
  let ?walk = "turn_attrs ?body buf 20 (of_nat (unat len)) s"
  have hdr: "rd16 buf 0 = Some (unat TURN_MSG_ALLOCATE_RESPONSE)" "rd16 buf 2 = Some (unat len)"
    using assms by (simp_all add: rd16_be16)
  have cookie: "rd_block buf 4 4 = Some (be32 TURN_MAGIC_COOKIE)" using assms by (simp add: rd_block_def)
  have n: "unat len \<le> 492" using assms(6) by (simp add: word_le_nat_alt)
  have parse: "turn_parse_allocate_response env s buf n = None \<longleftrightarrow> ?walk = None"
    using assms(2) hdr cookie
    by (cases ?walk) (simp_all add: turn_parse_allocate_response_def TURN_STUN_HEADER_SIZE_def from_be32_be32)
  show ?thesis
  proof (cases "attrs_fit buf 20 (unat len)")
    case True
    then show ?thesis
      using fitting_walk [OF allocate_attr_reads [of "te_clk env" buf] True, of s] n assms(1) parse by auto
  next
    case False
    have "\<forall>t l p s r. ?body t l p s \<noteq> Some (Inl r)" using allocate_attr_reads [of "te_clk env" buf] by (simp add: reads_value_def)
    then have "?walk = None" using False n assms(1) by (intro unfit_walk) simp_all
    then show ?thesis using False parse by simp
  qed
qed

section \<open>The relay address\<close>

lemma le32_from_le32: "le32 (from_le32 [a, b, c, d]) = [a, b, c, d]"
  unfolding le32_def list.inject
  by (intro conjI refl; rule bit_word_eqI; auto simp: from_le32_def bit_simps dest: bit_imp_le_length)

lemma le32_xor: "le32 (xor v w) = map2 xor (le32 v) (le32 w)"
  by (simp add: le32_def) (intro conjI; rule bit_word_eqI; auto simp: bit_simps)

lemma cookie_bytes:
  "(554869826 :: byte) = 0x42" "(2167460 :: byte) = 0xA4" "(8466 :: byte) = 0x12"
  by simp_all

lemma relayed_address_xor:
  "relayed_address [a, b, c, d]
     = dotted (unat (xor a 0x42)) (unat (xor b 0xA4)) (unat (xor c 0x12)) (unat (xor d 0x21))"
  unfolding relayed_address_def le32_xor le32_from_le32
  by (simp add: le32_def TURN_MAGIC_COOKIE_def cookie_bytes)

text \<open>The answer of a server that allocated the relay address, as RFC 5766 encodes it.\<close>

definition allocate_answer :: "byte list \<Rightarrow> byte list \<Rightarrow> 16 word \<Rightarrow> byte list" where
  "allocate_answer tx ip port =
     be16 TURN_MSG_ALLOCATE_RESPONSE @ be16 12 @ be32 TURN_MAGIC_COOKIE @ tx
     @ be16 TURN_ATTR_XOR_RELAYED_ADDRESS @ be16 8 @ [0, 1]
     @ be16 (xor port (ucast (drop_bit 16 TURN_MAGIC_COOKIE))) @ map2 xor ip (be32 TURN_MAGIC_COOKIE)"

text \<open>
  The relay address stored from a correct answer is never the one the server allocated: the
  cookie is applied to the address in the wrong byte order and to the port not at all.
\<close>

theorem relay_address_garbled:
  assumes "length tx = 12" and "ip = [a, b, c, d]"
  shows "\<exists>rc s'. turn_parse_allocate_response env s (receive_into 512 old (allocate_answer tx ip port)) 32 = Some (rc, s')
    \<and> ts_relay_ip s' = dotted (unat (xor a 0x63)) (unat (xor b 0xB6)) (unat (xor c 0xB6)) (unat (xor d 0x63))
    \<and> ts_relay_port s' = int (unat (xor port 0x2112))
    \<and> ts_relay_ip s' \<noteq> dotted (unat a) (unat b) (unat c) (unat d) \<and> ts_relay_port s' \<noteq> int (unat port)"
proof -
  let ?buf = "receive_into 512 old (allocate_answer tx ip port)"
  obtain t0 t1 t2 t3 t4 t5 t6 t7 t8 t9 t10 t11 where tx: "tx = [t0, t1, t2, t3, t4, t5, t6, t7, t8, t9, t10, t11]"
    using assms(1) by (auto simp: numeral_eq_Suc length_Suc_conv)
  have packet: "allocate_answer tx ip port = [1, 3, 0, 12, 0x21, 0x12, 0xA4, 0x42] @ tx @ [0, 0x16, 0, 8, 0, 1]
      @ be16 (xor port 0x2112) @ [xor a 0x21, xor b 0x12, xor c 0xA4, xor d 0x42]"
    unfolding allocate_answer_def assms(2)
    by (simp add: be16_def be32_def TURN_MAGIC_COOKIE_def TURN_MSG_ALLOCATE_RESPONSE_def TURN_ATTR_XOR_RELAYED_ADDRESS_def
        cookie_bytes)
  have "length (allocate_answer tx ip port) = 32" unfolding packet using assms(1) by (simp add: be16_def)
  then obtain rest where buf: "?buf = allocate_answer tx ip port @ rest" "length ?buf = 512"
    by (simp add: receive_into_def stack_buffer_def)
  let ?body = "allocate_attr (te_clk env) ?buf :: nat \<Rightarrow> nat \<Rightarrow> nat \<Rightarrow> TURNSession \<Rightarrow> (int + TURNSession) option"
  define s1 where "s1 = s\<lparr>ts_relay_ip := dotted (unat (xor a 0x63)) (unat (xor b 0xB6)) (unat (xor c 0xB6)) (unat (xor d 0x63)),
      ts_relay_port := int (unat (xor port 0x2112))\<rparr>"
  have r: "rd16 ?buf 0 = Some 0x103" "rd16 ?buf 2 = Some 12" "rd_block ?buf 4 4 = Some (be32 TURN_MAGIC_COOKIE)"
    "rd16 ?buf 20 = Some 0x16" "rd16 ?buf 22 = Some 8" "rd ?buf 25 = Some 1"
    "rd16 ?buf 26 = Some (unat (xor port 0x2112))"
    "rd_block ?buf 28 4 = Some [xor a 0x21, xor b 0x12, xor c 0xA4, xor d 0x42]"
  proof -
    note at = rd_block_def rd16_def rd_def buf(2)
    have b1: "?buf = [1, 3, 0, 12, 0x21, 0x12, 0xA4, 0x42, t0, t1, t2, t3, t4, t5, t6, t7, t8, t9, t10, t11, 0, 0x16, 0, 8, 0, 1]
      @ be16 (xor port 0x2112) @ [xor a 0x21, xor b 0x12, xor c 0xA4, xor d 0x42] @ rest"
      unfolding buf(1) unfolding packet unfolding tx by simp
    have "take 2 (drop 26 ?buf) = be16 (xor port 0x2112)"
      unfolding b1 by (simp add: be16_def)
    then show "rd16 ?buf 26 = Some (unat (xor port 0x2112))" using buf(2) by (intro rd16_be16) simp_all
    show "rd16 ?buf 0 = Some 0x103" "rd16 ?buf 2 = Some 12" "rd16 ?buf 20 = Some 0x16" "rd16 ?buf 22 = Some 8"
      "rd ?buf 25 = Some 1"
      by (simp_all add: at) (simp_all add: b1)
    show "rd_block ?buf 4 4 = Some (be32 TURN_MAGIC_COOKIE)"
      by (simp add: at) (simp add: b1 be32_def TURN_MAGIC_COOKIE_def cookie_bytes)
    show "rd_block ?buf 28 4 = Some [xor a 0x21, xor b 0x12, xor c 0xA4, xor d 0x42]"
      by (simp add: at) (simp add: b1 be16_def)
  qed
  have addr: "relayed_address [xor a 0x21, xor b 0x12, xor c 0xA4, xor d 0x42] = ts_relay_ip s1"
    by (simp add: s1_def relayed_address_xor xor.assoc)
  have "?body 0x16 8 24 s = Some (Inr s1)"
    using r addr by (simp add: allocate_attr_def turn_attr_types s1_def)
  then have walk: "turn_attrs ?body ?buf 20 12 s = Some (Inr s1)"
    using r by (subst turn_attrs.simps) (simp, subst turn_attrs.simps, simp)
  have "\<exists>rc s'. turn_parse_allocate_response env s ?buf 32 = Some (rc, s')
      \<and> ts_relay_ip s' = ts_relay_ip s1 \<and> ts_relay_port s' = ts_relay_port s1"
    using r walk by (simp add: turn_parse_allocate_response_def TURN_STUN_HEADER_SIZE_def from_be32_be32 turn_msgs)
  moreover have "ts_relay_ip s1 \<noteq> dotted (unat a) (unat b) (unat c) (unat d)"
  proof
    have byte: "unat (w :: byte) \<le> 255" for w using unsigned_less [of w, where ?'a = nat] by simp
    assume "ts_relay_ip s1 = dotted (unat a) (unat b) (unat c) (unat d)"
    then have "unat (xor a 0x63) = unat a"
      using ipv4_text.enc_inj [of "(unat (xor a 0x63), unat (xor b 0xB6), unat (xor c 0xB6), unat (xor d 0x63))"
          "(unat a, unat b, unat c, unat d)"] by (simp add: s1_def byte)
    then have "xor a 0x63 = a" by (simp only: word_unat_eq_iff)
    from arg_cong [OF this, of "xor a"] show False by simp
  qed
  moreover have "ts_relay_port s1 \<noteq> int (unat port)"
  proof
    assume "ts_relay_port s1 = int (unat port)"
    then have "xor port 0x2112 = port" by (simp add: s1_def word_uint_eq_iff)
    from arg_cong [OF this, of "xor port"] show False by simp
  qed
  ultimately show ?thesis by (auto simp: s1_def)
qed

section \<open>The requests\<close>

lemma poke_at:
  "length a = off \<Longrightarrow> length b = length bs \<Longrightarrow> poke off bs (a @ b @ c) = Some (a @ bs @ c)"
  by (simp add: poke_def)

lemma length_be16 [simp]: "length (be16 w) = 2" "length (le16 w) = 2"
  by (simp_all add: be16_def le16_def)

lemma split_stack:
  assumes "i + j \<le> length xs"
  shows "\<exists>a b c. xs = a @ b @ c \<and> length a = i \<and> length b = j"
proof -
  have "xs = take i xs @ take j (drop i xs) @ drop (i + j) xs"
    by (metis add.commute append_take_drop_id drop_drop)
  then show ?thesis using assms
    by (intro exI [of _ "take i xs"] exI [of _ "take j (drop i xs)"] exI [of _ "drop (i + j) xs"]) simp
qed

text \<open>
  The allocate request without a user name: the lifetime attribute overwrites the first
  eight bytes of the random transaction id, the place where it belongs is never written, and
  eight bytes of old stack content go out instead.
\<close>

theorem allocate_request_sends_stack:
  assumes "te_ok env = (\<lambda>_. True)" and "length (te_random env) = 12" and "36 \<le> length old"
    and "\<not> tv_use_auth v \<or> tv_username v = []"
  shows "\<exists>buf c'. turn_build_allocate_request env v (stack_buffer 512 old) c = Some (buf, 36, c')
    \<and> take 36 buf = be16 TURN_MSG_ALLOCATE_REQUEST @ be16 16 @ be32 TURN_MAGIC_COOKIE
        @ be16 TURN_ATTR_LIFETIME @ be16 4 @ be32 (tv_lifetime v) @ drop 8 (te_random env)
        @ be16 TURN_ATTR_REQUESTED_TRANSPORT @ be16 4 @ [17, 0, 0, 0] @ take 8 (drop 28 old)"
proof -
  let ?hd = "be16 TURN_MSG_ALLOCATE_REQUEST @ be16 0 @ be32 TURN_MAGIC_COOKIE"
  let ?rt = "be16 TURN_ATTR_REQUESTED_TRANSPORT @ be16 4 @ [17, 0, 0, 0]"
  let ?lt = "be16 TURN_ATTR_LIFETIME @ be16 4 @ be32 (tv_lifetime v)"
  have st: "length (stack_buffer 512 old) = 512" "take 8 (drop 28 (stack_buffer 512 old)) = take 8 (drop 28 old)"
    using assms(3) by (auto simp: stack_buffer_def take_drop min_def)
  obtain a b c1 where s1: "stack_buffer 512 old = a @ b @ c1" "length a = 8" "length b = 12"
    using split_stack [of 8 12 "stack_buffer 512 old"] st(1) by auto
  obtain d e where s2: "c1 = d @ e" "length d = 8"
  proof (rule that)
    show "c1 = take 8 c1 @ drop 8 c1" "length (take 8 c1) = 8" using st(1) s1 by simp_all
  qed
  have e: "take 8 e = take 8 (drop 28 old)" using st(2) s1 s2 by simp
  have h: "poke 0 ?hd (a @ b @ d @ e) = Some (?hd @ b @ d @ e)"
    using poke_at [of "[]" 0 a ?hd] s1 by simp
  have rnd: "orca_random_bytes (te_ok env) (te_random env) True 12 c = (Some (te_random env), snd (orca_random_bytes (te_ok env) (te_random env) True 12 c))"
    using assms(1,2) by (simp add: orca_random_bytes_def finish_def)
  have t: "poke 8 (te_random env) (?hd @ b @ d @ e) = Some (?hd @ te_random env @ d @ e)"
    using poke_at [of ?hd 8 b "te_random env" "d @ e"] s1 assms(2) by simp
  have rt: "put_attr 20 TURN_ATTR_REQUESTED_TRANSPORT [17, 0, 0, 0] (?hd @ te_random env @ d @ e)
      = Some (?hd @ te_random env @ ?rt @ e)"
    using poke_at [of "?hd @ te_random env" 20 d ?rt e] s2 assms(2) by (simp add: put_attr_def)
  have lt: "put_attr 8 TURN_ATTR_LIFETIME (be32 (tv_lifetime v)) (?hd @ te_random env @ ?rt @ e)
      = Some (?hd @ ?lt @ drop 8 (te_random env) @ ?rt @ e)"
  proof -
    have td: "take 8 (te_random env) @ drop 8 (te_random env) @ x = te_random env @ x" for x
      by (metis append_assoc append_take_drop_id)
    show ?thesis
      using poke_at [of ?hd 8 "take 8 (te_random env)" ?lt "drop 8 (te_random env) @ ?rt @ e"] assms(2)
      by (simp add: put_attr_def td)
  qed
  have ln: "poke 2 (be16 16) (?hd @ ?lt @ drop 8 (te_random env) @ ?rt @ e)
      = Some (be16 TURN_MSG_ALLOCATE_REQUEST @ be16 16 @ be32 TURN_MAGIC_COOKIE @ ?lt @ drop 8 (te_random env) @ ?rt @ e)"
    using poke_at [of "be16 TURN_MSG_ALLOCATE_REQUEST" 2 "be16 0" "be16 16"] by simp
  have "\<exists>c'. turn_build_allocate_request env v (stack_buffer 512 old) c
      = Some (be16 TURN_MSG_ALLOCATE_REQUEST @ be16 16 @ be32 TURN_MAGIC_COOKIE @ ?lt @ drop 8 (te_random env) @ ?rt @ e, 36, c')"
    unfolding s1(1) s2(1) append_assoc
    using h rnd t rt lt ln assms(4)
    by (auto simp: turn_build_allocate_request_def put_header_def TURN_STUN_HEADER_SIZE_def split: prod.splits)
  then show ?thesis using e assms(2) by fastforce
qed

lemma poke_ok:
  "off + length bs \<le> length buf \<Longrightarrow> \<exists>buf'. poke off bs buf = Some buf' \<and> length buf' = length buf"
  by (simp add: poke_def)

lemma put_attr_ok:
  assumes "pos + 4 + length val \<le> length buf"
  shows "\<exists>buf'. put_attr pos ty val buf = Some buf' \<and> length buf' = length buf"
  unfolding put_attr_def using assms by (intro poke_ok) simp

lemma put_header_ok:
  assumes "20 \<le> length buf"
  shows "\<exists>buf' c'. put_header env ty buf c = Some (buf', c') \<and> length buf' = length buf"
proof -
  obtain tx c1 where r: "orca_random_bytes (te_ok env) (te_random env) True 12 c = (tx, c1)" by (rule prod.exhaust)
  obtain b1 where b1: "poke 0 (be16 ty @ be16 0 @ be32 TURN_MAGIC_COOKIE) buf = Some b1" "length b1 = length buf"
    using poke_ok [of 0 "be16 ty @ be16 0 @ be32 TURN_MAGIC_COOKIE" buf] assms by auto
  have "length t \<le> 12" if "tx = Some t" for t
    using r that by (auto simp: orca_random_bytes_def finish_def split: prod.splits if_splits)
  then have "\<exists>b2. (case tx of None \<Rightarrow> Some b1 | Some t \<Rightarrow> poke 8 t b1) = Some b2 \<and> length b2 = length buf"
    using poke_ok [of 8 _ b1] b1 assms by (cases tx) (simp, fastforce)
  then show ?thesis using b1 r by (auto simp: put_header_def)
qed

text \<open>
  Sending over a relay stays inside its 2048-byte buffer exactly up to 2012 bytes of data:
  the attribute itself would fit up to 2032, but 20 bytes too many are sent.
\<close>

theorem turn_send_overrun_iff:
  assumes "turn_find_session m a = Some i" and "ts_state (tm_sessions m ! i) = TURN_STATE_ESTABLISHED"
    and "ts_relay_ip (tm_sessions m ! i) \<noteq> []" and "ts_relay_port (tm_sessions m ! i) \<noteq> 0" and "d \<noteq> []"
  shows "turn_send env (Some a) (Some d) m = None \<longleftrightarrow> 2012 < length d"
proof -
  let ?b0 = "stack_buffer 2048 (te_stack env)" and ?s = "tm_sessions m ! i"
  have l0: "length ?b0 = 2048" by (simp add: stack_buffer_def)
  obtain b1 c1 where h: "put_header env TURN_MSG_SEND_INDICATION ?b0 (tm_crypto m) = Some (b1, c1)" "length b1 = 2048"
    using put_header_ok [of ?b0 env TURN_MSG_SEND_INDICATION "tm_crypto m"] l0 by auto
  have "length (peer_addr_bytes env ?s) = 8" by (simp add: peer_addr_bytes_def Let_def)
  then obtain b2 where p: "put_attr 20 TURN_ATTR_XOR_PEER_ADDRESS (peer_addr_bytes env ?s) b1 = Some b2" "length b2 = 2048"
    using put_attr_ok [of 20 "peer_addr_bytes env ?s" b1] h(2) by auto
  have d: "put_attr 12 TURN_ATTR_DATA d b2 = None" if "2032 < length d"
    using that p(2) by (simp add: put_attr_def poke_def)
  show ?thesis
  proof (cases "length d \<le> 2032")
    case True
    then obtain b3 where b3: "put_attr 12 TURN_ATTR_DATA d b2 = Some b3" "length b3 = 2048"
      using put_attr_ok [of 12 d b2 TURN_ATTR_DATA] p(2) by auto
    then obtain b4 where b: "poke 2 (be16 (16 + of_nat (length d))) b3 = Some b4" "length b4 = 2048"
      using poke_ok [of 2 "be16 (16 + of_nat (length d))" b3] by auto
    have sf: "send_first e dest (36 + length d) b4 x = None \<longleftrightarrow> 2012 < length d" for e dest x
      using b(2) by (auto simp: send_first_def)
    show ?thesis
      using assms h(1) p(1) b3(1) b(1) sf [of env "(ts_relay_ip ?s, word_of_int (ts_relay_port ?s))" "m\<lparr>tm_crypto := c1\<rparr>"]
      by (cases "send_first env (ts_relay_ip ?s, word_of_int (ts_relay_port ?s)) (36 + length d) b4 (m\<lparr>tm_crypto := c1\<rparr>)")
        (simp_all add: turn_send_def TURN_STUN_HEADER_SIZE_def split_beta)
  next
    case False
    then show ?thesis using assms h(1) p(1) d by (simp add: turn_send_def TURN_STUN_HEADER_SIZE_def)
  qed
qed

section \<open>The table of sessions\<close>

lemma drop_updated: "i < length xs \<Longrightarrow> drop_session i (xs[i := x]) = remove_nth i xs"
  by (simp add: drop_session_remove) (simp add: remove_nth_def)

interpretation turn_table: session_store ts_peer_id tm_sessions turn_find_session "turn_add_session env"
    "\<lambda>a m. snd (turn_disconnect (Some a) m)" TURN_MAX_SESSIONS 64
  for env :: turn_env
proof (unfold_locales, goal_cases)
  case (4 m a)
  then show ?case by (simp add: turn_add_session_def new_turn_session_def strcpy_into_fits)
next
  case (5 a m)
  then show ?case
    by (auto simp: turn_disconnect_def drop_updated turn_find_session_def dest: find_index_less split: option.split)
qed (simp_all add: turn_find_session_def turn_add_session_def strcpy_into_def)

text \<open>The part of the invariant that the operations keep although they change other fields.\<close>

definition turn_inv :: "turn \<Rightarrow> bool" where
  "turn_inv m \<longleftrightarrow> distinct (map ts_peer_id (tm_sessions m)) \<and> length (tm_sessions m) \<le> TURN_MAX_SESSIONS
     \<and> (\<forall>s \<in> set (tm_sessions m). length (ts_peer_id s) < 64)
     \<and> length (tm_servers m) = TURN_SERVER_MAX \<and> tm_server_count m \<le> TURN_SERVER_MAX"

definition same_ids :: "turn \<Rightarrow> turn \<Rightarrow> bool" where
  "same_ids m m' \<longleftrightarrow> map ts_peer_id (tm_sessions m') = map ts_peer_id (tm_sessions m)
     \<and> length (tm_servers m') = length (tm_servers m) \<and> tm_server_count m' = tm_server_count m"

lemma same_ids_refl [simp]: "same_ids m m"
  by (simp add: same_ids_def)

lemma same_ids_trans: "same_ids a b \<Longrightarrow> same_ids b c \<Longrightarrow> same_ids a c"
  by (simp add: same_ids_def)

lemma map_upd_same: "g s = g (xs ! i) \<Longrightarrow> map g (xs[i := s]) = map g xs"
  by (cases "i < length xs") (simp_all add: map_update list_update_same_conv list_update_beyond)

lemma same_ids_upd [simp]:
  "(\<And>s. ts_peer_id (f s) = ts_peer_id s) \<Longrightarrow> same_ids m (upd_session i f m') = same_ids m m'"
  "(\<And>s. ts_peer_id (f s) = ts_peer_id s) \<Longrightarrow> same_ids (upd_session i f m) m' = same_ids m m'"
  by (simp_all add: same_ids_def upd_session_def map_upd_same)

lemma same_ids_frame [simp]:
  "same_ids (m\<lparr>tm_crypto := c\<rparr>) m' = same_ids m m'" "same_ids m (m'\<lparr>tm_sent := x\<rparr>) = same_ids m m'"
  by (simp_all add: same_ids_def)

lemma turn_inv_same_ids:
  assumes "same_ids m m'" and "turn_inv m"
  shows "turn_inv m'"
proof -
  have ids: "map ts_peer_id (tm_sessions m') = map ts_peer_id (tm_sessions m)"
    using assms(1) by (simp add: same_ids_def)
  have "ts_peer_id ` set (tm_sessions m') = ts_peer_id ` set (tm_sessions m)" by (metis ids list.set_map)
  moreover have "length (tm_sessions m') = length (tm_sessions m)" by (metis ids length_map)
  ultimately show ?thesis using assms ids unfolding turn_inv_def same_ids_def
    by (metis (no_types, lifting) image_iff)
qed

lemma send_first_same: "send_first env dest k buf m = Some (b, m') \<Longrightarrow> same_ids m m'"
  by (auto simp: send_first_def split: if_splits)

lemma turn_send_same: "turn_send env pid d m = Some (rc, m') \<Longrightarrow> same_ids m m'"
  by (auto simp: turn_send_def Let_def split: option.splits if_splits Option.bind_splits prod.splits
      dest!: send_first_same)

lemma turn_refresh_same: "turn_refresh_allocation env pid m = Some (rc, m') \<Longrightarrow> same_ids m m'"
  by (auto simp: turn_refresh_allocation_def Let_def split: option.splits if_splits Option.bind_splits prod.splits
      dest!: send_first_same)

lemma turn_recv_same: "turn_recv env pid n m = Some (rc, d, m') \<Longrightarrow> same_ids m m'"
  by (auto simp: turn_recv_def Let_def split: option.splits if_splits Option.bind_splits receipt.splits sum.splits)

text \<open>A walk keeps what its body keeps.\<close>

lemma turn_attrs_keeps:
  assumes "\<forall>t l p s s'. body t l p s = Some (Inr s') \<longrightarrow> P s \<longrightarrow> P s'"
    and "turn_attrs body buf pos left s = Some (Inr s')" and "P s"
  shows "P s'"
  using assms
proof (induction body buf pos left s rule: turn_attrs.induct)
  case (1 body buf pos left s)
  show ?case
  proof (cases "left < 4")
    case True
    then show ?thesis using "1.prems" by (simp add: turn_attrs.simps)
  next
    case False
    with "1.prems"(2) obtain t l s1 where w: "rd16 buf pos = Some t" "rd16 buf (pos + 2) = Some l"
      "body t l (pos + 4) s = Some (Inr s1)"
      "turn_attrs body buf (pos + 4 + l) (left - of_nat (4 + l)) s1 = Some (Inr s')"
      unfolding turn_attrs.simps [of body buf pos left s] by (auto split: option.splits sum.splits)
    moreover have "P s1" using "1.prems"(1,3) w(3) by blast
    ultimately show ?thesis using "1.IH" [OF False w(1,2)] "1.prems"(1) by blast
  qed
qed

lemma parse_keeps_id:
  assumes "turn_parse_allocate_response env s buf n = Some (rc, s')"
  shows "ts_peer_id s' = ts_peer_id s"
proof -
  have keep: "\<forall>t l p s s'. allocate_attr clk buf t l p s = Some (Inr s') \<longrightarrow> ts_peer_id s = k \<longrightarrow> ts_peer_id s' = k" for clk k
    by (auto simp: allocate_attr_def split: Option.bind_splits if_splits)
  show ?thesis
    using assms turn_attrs_keeps [OF keep [of "te_clk env" "ts_peer_id s"]]
    by (auto simp: turn_parse_allocate_response_def split: if_splits Option.bind_splits sum.splits)
qed

lemma turn_allocate_same:
  assumes "turn_allocate env pid m = Some (rc, m')"
  shows "same_ids m m'"
proof -
  have u: "same_ids m (upd_session i (\<lambda>_. s) m1)"
    if "same_ids m m1" "ts_peer_id s = ts_peer_id (tm_sessions m1 ! i)" for i s m1
    using that by (simp add: same_ids_def upd_session_def map_upd_same)
  show ?thesis using assms
    by (auto simp: turn_allocate_def Let_def split: option.splits if_splits Option.bind_splits prod.splits receipt.splits
        dest!: send_first_same parse_keeps_id intro: u)
qed

lemma process_all_ids: "process_all env buf n ss = Some ss' \<Longrightarrow> map ts_peer_id ss' = map ts_peer_id ss"
  by (induction ss arbitrary: ss')
    (auto simp: turn_process_message_def split: if_splits Option.bind_splits sum.splits)

lemma turn_listener_same: "turn_listener_round env packet m = Some m' \<Longrightarrow> same_ids m m'"
  by (auto simp: turn_listener_round_def Let_def same_ids_def process_all_ids split: if_splits Option.bind_splits)

text \<open>The course of a connect: find or add the session, then, unless it is established, allocate.\<close>

lemma find_or_add_session:
  assumes "turn_inv m"
    and f: "(case turn_find_session m a of Some i \<Rightarrow> Some (Some i, m) | None \<Rightarrow> turn_add_session env a m) = Some (r, m1)"
  shows "turn_inv m1" and "turn_find_session m1 a = r"
proof -
  have "turn_inv m1 \<and> turn_find_session m1 a = r"
  proof (cases "turn_find_session m a")
    case None
    then have add: "turn_add_session env a m = Some (r, m1)" using f by simp
    have d: "distinct (map ts_peer_id (tm_sessions m))" "length (tm_sessions m) \<le> TURN_MAX_SESSIONS"
      using assms(1) by (simp_all add: turn_inv_def)
    note new = turn_table.add_if_absent [OF d(1) None add]
    have "length (tm_sessions m1) \<le> TURN_MAX_SESSIONS" by (rule turn_table.add_bounded [OF d(2) add])
    moreover have "(\<forall>s \<in> set (tm_sessions m1). length (ts_peer_id s) < 64) \<and> length (tm_servers m1) = TURN_SERVER_MAX
        \<and> tm_server_count m1 \<le> TURN_SERVER_MAX"
      using assms(1) add
      by (auto simp: turn_inv_def turn_add_session_def new_turn_session_def split: if_splits Option.bind_splits)
    moreover have "turn_find_session m1 a = r" using new(2,3) None by (cases r) auto
    ultimately show ?thesis using new(1) by (simp add: turn_inv_def)
  next
    case (Some i)
    then show ?thesis using f assms(1) by simp
  qed
  then show "turn_inv m1" "turn_find_session m1 a = r" by simp_all
qed

lemma turn_connect_course:
  assumes "turn_inv m" and "turn_connect env (Some a) (Some h) m = Some (rc, m')"
  obtains (full) m1 where "turn_inv m1" "turn_find_session m1 a = None" "rc = -1" "m' = m1"
  | (already) m1 i where "turn_inv m1" "turn_find_session m1 a = Some i" "rc = 0" "m' = m1"
      "ts_state (tm_sessions m1 ! i) = TURN_STATE_ESTABLISHED"
  | (unknown) m1 i where "turn_inv m1" "turn_find_session m1 a = Some i" "rc = -1" "m' = m1"
      "ts_state (tm_sessions m1 ! i) \<noteq> TURN_STATE_ESTABLISHED"
  | (failed) m1 i m2 where "turn_inv m1" "turn_find_session m1 a = Some i" "rc = -1" "same_ids m1 m2"
      "m' = upd_session i (\<lambda>s. s\<lparr>ts_state := TURN_STATE_ERROR\<rparr>) m2"
  | (allocated) m1 i m2 where "turn_inv m1" "turn_find_session m1 a = Some i" "rc = 0" "same_ids m1 m2"
      "m' = upd_session i (\<lambda>s. s\<lparr>ts_state := TURN_STATE_ESTABLISHED, ts_last_activity := te_clk env 6\<rparr>) m2"
proof -
  from assms(2) obtain r m1 where
    f: "(case turn_find_session m a of Some i \<Rightarrow> Some (Some i, m) | None \<Rightarrow> turn_add_session env a m) = Some (r, m1)"
    by (auto simp: turn_connect_def split: Option.bind_splits)
  note m1 = find_or_add_session [OF assms(1) f]
  show thesis
  proof (cases r)
    case None
    then show thesis using assms(2) f m1 by (intro full [of m1]) (simp_all add: turn_connect_def)
  next
    case (Some i)
    show thesis
    proof (cases "ts_state (tm_sessions m1 ! i) = TURN_STATE_ESTABLISHED")
      case True
      then show thesis using assms(2) f m1 Some by (intro already [of m1 i]) (simp_all add: turn_connect_def)
    next
      case False
      show thesis
      proof (cases "server_index h m1")
        case None
        then show thesis using assms(2) f m1 Some False by (intro unknown [of m1 i]) (simp_all add: turn_connect_def)
      next
        case (Some v)
        let ?m = "upd_session i (\<lambda>s. s\<lparr>ts_server := tm_servers m1 ! v, ts_state := TURN_STATE_CONNECTING\<rparr>) m1"
        from assms(2) f \<open>r = Some i\<close> Some False obtain rc2 m2 where
          al: "turn_allocate (turn_env_at 5 env) (Some a) ?m = Some (rc2, m2)"
          by (auto simp: turn_connect_def split: Option.bind_splits)
        then have "same_ids m1 m2" using turn_allocate_same [OF al] by simp
        then show thesis using assms(2) f m1 \<open>r = Some i\<close> Some False al
          by (cases "rc2 < 0"; intro failed [of m1 i m2] allocated [of m1 i m2])
            (auto simp: turn_connect_def)
      qed
    qed
  qed
qed

lemma turn_connect_inv:
  assumes "turn_inv m" and "turn_connect env pid host m = Some (rc, m')"
  shows "turn_inv m'"
proof (cases "pid = None \<or> host = None")
  case True
  then show ?thesis using assms by (auto simp: turn_connect_def split: option.splits)
next
  case False
  then obtain a h where ah: "pid = Some a" "host = Some h" by auto
  show ?thesis
    by (rule turn_connect_course [OF assms(1) assms(2) [unfolded ah]]) (auto intro: turn_inv_same_ids)
qed

text \<open>Everything that happens to the manager after \<open>turn_manager_init\<close>.\<close>

inductive turn_step :: "turn \<Rightarrow> turn \<Rightarrow> bool" where
  "turn_connect env pid host m = Some (rc, m') \<Longrightarrow> turn_step m m'"
| "turn_send env pid data m = Some (rc, m') \<Longrightarrow> turn_step m m'"
| "turn_recv env pid n m = Some (rc, bytes, m') \<Longrightarrow> turn_step m m'"
| "turn_refresh_allocation env pid m = Some (rc, m') \<Longrightarrow> turn_step m m'"
| "turn_listener_round env packet m = Some m' \<Longrightarrow> turn_step m m'"
| "turn_step m (snd (turn_disconnect pid m))"
| "turn_step m (snd (turn_manager_add_server env host port user pass m))"
| "turn_step m (snd (turn_manager_set_server_lifetime host lifetime m))"
| "turn_step m (turn_manager_cleanup m)"

lemma turn_init_inv: "turn_inv (snd (turn_manager_init env c))"
  by (simp add: turn_manager_init_def turn_inv_def Let_def)

lemma turn_disconnect_inv:
  assumes "turn_inv m"
  shows "turn_inv (snd (turn_disconnect pid m))"
proof (cases pid)
  case None
  then show ?thesis using assms by (simp add: turn_disconnect_def)
next
  case (Some a)
  have "distinct (map ts_peer_id (tm_sessions m))" "length (tm_sessions m) \<le> TURN_MAX_SESSIONS"
    using assms by (simp_all add: turn_inv_def)
  then have "distinct (map ts_peer_id (tm_sessions (snd (turn_disconnect (Some a) m))))"
    "length (tm_sessions (snd (turn_disconnect (Some a) m))) \<le> TURN_MAX_SESSIONS"
    by (simp_all add: turn_table.remove_distinct turn_table.remove_bounded)
  moreover have "set (tm_sessions (snd (turn_disconnect (Some a) m))) \<subseteq> set (tm_sessions m)"
    using turn_table.remove_first [of a m] set_remove_nth by (fastforce split: option.splits)
  moreover have "tm_servers (snd (turn_disconnect (Some a) m)) = tm_servers m"
    "tm_server_count (snd (turn_disconnect (Some a) m)) = tm_server_count m"
    by (simp_all add: turn_disconnect_def split: option.split)
  ultimately show ?thesis using assms Some by (auto simp: turn_inv_def)
qed

lemma turn_step_inv: "turn_step m m' \<Longrightarrow> turn_inv m \<Longrightarrow> turn_inv m'"
proof (induction rule: turn_step.induct)
  case (7 m env host port user pass)
  then show ?case
    by (auto simp: turn_manager_add_server_def turn_inv_def Let_def split: option.splits)
next
  case (8 m host lifetime)
  then show ?case
    by (auto simp: turn_manager_set_server_lifetime_def turn_inv_def split: option.splits)
next
  case (9 m)
  then show ?case by (simp add: turn_manager_cleanup_def turn_inv_def)
qed (auto intro: turn_connect_inv turn_disconnect_inv turn_inv_same_ids dest: turn_send_same turn_recv_same turn_refresh_same
    turn_listener_same)

text \<open>What does not return: an id that does not fit, too much data, and some data indications.\<close>

lemma turn_connect_long_id:
  assumes "turn_inv m" and "64 \<le> length a"
  shows "turn_connect env (Some a) (Some h) m = None \<longleftrightarrow> length (tm_sessions m) < TURN_MAX_SESSIONS"
proof -
  have f: "(case turn_find_session m a of Some i \<Rightarrow> Some (Some i, m) | None \<Rightarrow> turn_add_session env a m) = None
      \<longleftrightarrow> length (tm_sessions m) < TURN_MAX_SESSIONS"
    using turn_table.add_overruns_iff [of m env a] assms by (simp add: turn_inv_def)
  show ?thesis
  proof (cases "length (tm_sessions m) < TURN_MAX_SESSIONS")
    case True
    then show ?thesis using f by (simp add: turn_connect_def)
  next
    case False
    then obtain r m1 where r: "(case turn_find_session m a of Some i \<Rightarrow> Some (Some i, m) | None \<Rightarrow> turn_add_session env a m) = Some (r, m1)"
      using f by auto
    have "r = None"
    proof (cases "turn_find_session m a")
      case None
      then show ?thesis using r turn_table.add_full [of m env a] False by simp
    next
      case (Some i)
      then have "length a < 64" using turn_table.found_key [OF Some] assms(1) by (auto simp: turn_inv_def)
      then show ?thesis using assms(2) by simp
    qed
    then show ?thesis using r False by (simp add: turn_connect_def)
  qed
qed

lemma turn_refresh_returns: "turn_refresh_allocation env pid m \<noteq> None"
proof -
  let ?b = "stack_buffer 128 (te_stack env)"
  have l: "length ?b = 128" by (simp add: stack_buffer_def)
  obtain b1 c1 where h: "put_header env TURN_MSG_REFRESH_REQUEST ?b (tm_crypto m) = Some (b1, c1)" "length b1 = 128"
    using put_header_ok [of ?b env TURN_MSG_REFRESH_REQUEST "tm_crypto m"] unfolding l by auto
  have r: "\<exists>b2 b3. put_attr 20 TURN_ATTR_LIFETIME (be32 v) b1 = Some b2 \<and> poke 2 (be16 8) b2 = Some b3 \<and> length b3 = 128" for v
  proof -
    obtain b2 where b2: "put_attr 20 TURN_ATTR_LIFETIME (be32 v) b1 = Some b2" "length b2 = 128"
      using put_attr_ok [of 20 "be32 v" b1 TURN_ATTR_LIFETIME] h(2) by auto
    then show ?thesis using poke_ok [of 2 "be16 8" b2] by auto
  qed
  show ?thesis
  proof (cases pid)
    case None
    then show ?thesis by (simp add: turn_refresh_allocation_def)
  next
    case (Some a)
    show ?thesis
    proof (cases "turn_find_session m a")
      case None
      then show ?thesis using Some by (simp add: turn_refresh_allocation_def)
    next
      case s: (Some i)
      obtain b2 b3 where "put_attr 20 TURN_ATTR_LIFETIME (be32 (tv_lifetime (ts_server (tm_sessions m ! i)))) b1 = Some b2"
        "poke 2 (be16 8) b2 = Some b3" "length b3 = 128"
        using r by blast
      then show ?thesis using h(1) Some s
        by (simp add: turn_refresh_allocation_def send_first_def TURN_STUN_HEADER_SIZE_def Let_def)
    qed
  qed
qed

lemma process_all_stuck: "process_all env buf n ss = None \<Longrightarrow> \<exists>s \<in> set ss. ts_state s = TURN_STATE_ESTABLISHED \<and> turn_process_message env buf n s = None"
  by (induction ss) (auto split: if_splits Option.bind_splits)

lemma turn_listener_stuck:
  assumes "turn_listener_round env packet m = None"
  shows "20 \<le> length packet \<and> rd16 packet 0 = Some (unat TURN_MSG_DATA_INDICATION) \<and> (\<exists>s \<in> set (tm_sessions m). ts_state s = TURN_STATE_ESTABLISHED)"
proof -
  let ?buf = "receive_into TURN_BUFFER_SIZE (te_stack env) packet"
  have n: "20 \<le> length packet" using assms by (auto simp: turn_listener_round_def TURN_STUN_HEADER_SIZE_def TURN_BUFFER_SIZE_def Let_def split: if_splits)
  have l: "length ?buf = TURN_BUFFER_SIZE" by (simp add: receive_into_def stack_buffer_def)
  then have r: "rd_block ?buf 4 4 \<noteq> None" "rd16 ?buf 2 \<noteq> None" by (simp_all add: rd_block_def rd16_def rd_def TURN_BUFFER_SIZE_def)
  obtain s where s: "s \<in> set (tm_sessions m)" "ts_state s = TURN_STATE_ESTABLISHED"
    "turn_process_message env ?buf (min TURN_BUFFER_SIZE (length packet)) s = None"
    using assms r(1) process_all_stuck
    by (auto simp: turn_listener_round_def Let_def split: if_splits Option.bind_splits) blast
  then have "rd16 ?buf 0 = Some (unat TURN_MSG_DATA_INDICATION)"
    using r(2) l by (auto simp: turn_process_message_def rd16_def rd_def TURN_BUFFER_SIZE_def split: if_splits Option.bind_splits)
  moreover have "rd16 ?buf 0 = rd16 packet 0"
  proof -
    have "?buf ! k = packet ! k" if "k < 20" for k using n that by (simp add: receive_into_def TURN_BUFFER_SIZE_def nth_append)
    moreover have "packet \<noteq> []" using n by auto
    ultimately show ?thesis using n l by (simp add: rd16_def rd_def TURN_BUFFER_SIZE_def)
  qed
  ultimately show ?thesis using n s by auto
qed

text \<open>
  C28: from the initialised manager on, after any sequence of operations that each returned, the
  table holds at most 16 sessions with distinct peer ids that fit their fields, and at most 8
  servers.  From there connecting under an id of 64 characters or more overruns the field of
  the id exactly while the table has room; refreshing always returns; sending returns up to
  2012 bytes; and the listener returns but for a data indication while some session is
  established.
\<close>

theorem turn_invariant:
  assumes "turn_step\<^sup>*\<^sup>* (snd (turn_manager_init env c)) m"
  shows "turn_inv m
    \<and> (64 \<le> length a \<longrightarrow> (turn_connect env' (Some a) (Some h) m = None \<longleftrightarrow> length (tm_sessions m) < TURN_MAX_SESSIONS))
    \<and> turn_refresh_allocation env' pid m \<noteq> None
    \<and> (turn_send env' (Some a) (Some d) m = None \<longrightarrow> 2012 < length d)
    \<and> (turn_listener_round env' packet m = None \<longrightarrow>
        rd16 packet 0 = Some (unat TURN_MSG_DATA_INDICATION) \<and> (\<exists>s \<in> set (tm_sessions m). ts_state s = TURN_STATE_ESTABLISHED))"
proof -
  have "turn_inv m" using assms by induction (simp_all add: turn_init_inv turn_step_inv)
  moreover have "2012 < length d" if n: "turn_send env' (Some a) (Some d) m = None"
  proof -
    obtain i where "turn_find_session m a = Some i" "ts_state (tm_sessions m ! i) = TURN_STATE_ESTABLISHED"
      "ts_relay_ip (tm_sessions m ! i) \<noteq> []" "ts_relay_port (tm_sessions m ! i) \<noteq> 0" "d \<noteq> []"
      using n by (auto simp: turn_send_def Let_def split: if_splits option.splits)
    from turn_send_overrun_iff [OF this] n show ?thesis by blast
  qed
  ultimately show ?thesis
    using turn_connect_long_id turn_refresh_returns turn_listener_stuck [of env' packet m] by blast
qed

lemma same_ids_find: "same_ids m m' \<Longrightarrow> turn_find_session m' a = turn_find_session m a"
  using find_index_map [of "\<lambda>k. k = a" ts_peer_id "tm_sessions m"] find_index_map [of "\<lambda>k. k = a" ts_peer_id "tm_sessions m'"]
  by (simp add: turn_find_session_def same_ids_def comp_def)

text \<open>
  \<open>turn_connect\<close> tells the truth: it returns 0 exactly when the session of the peer is
  established afterwards, and the table stays well formed.
\<close>

theorem turn_connect_connects:
  assumes "turn_inv m" and "turn_connect env (Some a) (Some h) m = Some (rc, m')"
  shows "turn_inv m' \<and> rc \<in> {0, -1} \<and> (turn_is_connected (Some a) m' \<longleftrightarrow> rc = 0)"
proof -
  have at: "turn_is_connected (Some a) (upd_session i f m2) \<longleftrightarrow> ts_state (f (tm_sessions m2 ! i)) = TURN_STATE_ESTABLISHED"
    if "turn_find_session m1 a = Some i" "same_ids m1 m2" "\<And>s. ts_peer_id (f s) = ts_peer_id s" for i f m1 m2
  proof -
    have "turn_find_session (upd_session i f m2) a = Some i"
      using that same_ids_find [of m1 "upd_session i f m2" a] by simp
    moreover have "i < length (tm_sessions m1)" using turn_table.found_key [OF that(1)] by simp
    then have "i < length (tm_sessions m2)" using that(2) by (metis length_map same_ids_def)
    ultimately show ?thesis by (simp add: turn_is_connected_def upd_session_def)
  qed
  have "rc \<in> {0, -1} \<and> (turn_is_connected (Some a) m' \<longleftrightarrow> rc = 0)"
    by (rule turn_connect_course [OF assms]) (simp_all add: at, simp_all add: turn_is_connected_def)
  then show ?thesis using turn_connect_inv [OF assms] by simp
qed

text \<open>
  After \<open>turn_disconnect\<close> the peer has no session, and the sessions of the other peers are
  what they were.
\<close>

theorem turn_disconnect_forgets:
  assumes "turn_inv m"
  shows "fst (turn_disconnect (Some a) m) = 0
    \<and> turn_get_state (Some a) (snd (turn_disconnect (Some a) m)) = TURN_STATE_IDLE
    \<and> (\<forall>s \<in> set (tm_sessions m). ts_peer_id s \<noteq> a \<longrightarrow> s \<in> set (tm_sessions (snd (turn_disconnect (Some a) m))))"
proof -
  let ?m = "snd (turn_disconnect (Some a) m)"
  have "distinct (map ts_peer_id (tm_sessions m))" using assms by (simp add: turn_inv_def)
  then have "turn_find_session ?m a = None" by (rule turn_table.removed_gone)
  moreover have "s \<in> set (tm_sessions ?m)" if "s \<in> set (tm_sessions m)" "ts_peer_id s \<noteq> a" for s
  proof (cases "turn_find_session m a")
    case None
    then show ?thesis using that by (simp add: turn_disconnect_def)
  next
    case (Some i)
    then show ?thesis using that turn_table.remove_keeps_others by blast
  qed
  ultimately show ?thesis by (simp add: turn_get_state_def) (simp add: turn_disconnect_def)
qed

section \<open>The credentials of the servers\<close>

text \<open>
  \<open>turn_manager_add_server\<close> does not clear the cell it takes: when a host cannot be resolved,
  the user name given for it goes to the server that is added next, also if that one was to be
  used without authentication.
\<close>

theorem failed_server_leaks_credentials:
  assumes "turn_inv m" and "tm_server_count m < TURN_SERVER_MAX" and "turn_resolve_host (te_resolve env1) = None"
    and "turn_resolve_host (te_resolve env2) = Some ip" and "length user < 64"
    and "turn_manager_add_server env1 (Some h1) p1 (Some user) pass m = (rc, m1)"
    and "turn_manager_add_server env2 (Some h2) p2 None None m1 = (rc2, m2)"
  shows "rc = -1 \<and> rc2 = 0 \<and> (\<exists>v. tm_servers m2 ! tm_server_count m = v \<and> tm_server_count m2 = tm_server_count m + 1
    \<and> tv_server_host v = strncpy_into 128 h2 \<and> tv_server_ip v = ip \<and> tv_username v = user \<and> tv_use_auth v)"
  using assms
  by (auto simp: turn_manager_add_server_def turn_inv_def Let_def strncpy_into_fits split: option.splits)

section \<open>Concrete runs\<close>

definition sample_turn_env :: turn_env where
  "sample_turn_env = \<lparr>te_clk = (\<lambda>_. 1000), te_pid = 42, te_rand = (\<lambda>_. 7), te_ok = (\<lambda>_. True),
     te_random = replicate 12 9, te_stack = replicate 64 0xAA, te_mutex = True, te_socket = 3, te_bind = True,
     te_resolve = Some [(192, 0, 2, 7)], te_send = True, te_recv = Would_Block\<rparr>"

definition sample_turn_session :: TURNSession where
  "sample_turn_session = zero_turn_session\<lparr>ts_peer_id := ''077'', ts_state := TURN_STATE_ESTABLISHED,
     ts_relay_ip := ''10.0.0.9'', ts_relay_port := 5000\<rparr>"

definition sample_turn :: turn where
  "sample_turn = (snd (turn_manager_init sample_turn_env \<lparr>c_error = [], c_live = {#}\<rparr>))\<lparr>tm_sessions := [sample_turn_session]\<rparr>"

lemma sample_turn_inv: "turn_inv sample_turn"
  by (simp add: sample_turn_def turn_manager_init_def turn_inv_def sample_turn_session_def zero_turn_session_def
      TURN_MAX_SESSIONS_def TURN_SERVER_MAX_def Let_def)

lemma sample_turn_sessions [simp]: "tm_sessions sample_turn = [sample_turn_session]" "turn_find_session sample_turn ''077'' = Some 0"
  by (simp_all add: sample_turn_def turn_find_session_def sample_turn_session_def)

text \<open>A response of 24 bytes whose only attribute claims 5 bytes of value where 0 are left.\<close>

definition overlong_answer :: "byte list" where
  "overlong_answer = be16 TURN_MSG_ALLOCATE_RESPONSE @ be16 4 @ be32 TURN_MAGIC_COOKIE @ replicate 12 0
     @ [0, 0x0D, 0, 5] @ replicate 488 0"

theorem allocate_response_overrun_iff_witness:
  "turn_parse_allocate_response sample_turn_env sample_turn_session overlong_answer 24 = None"
proof -
  have "rd16 overlong_answer 22 = Some 5"
    by (simp add: rd16_def rd_def overlong_answer_def nth_append be16_def be32_def)
  then have "\<not> attrs_fit overlong_answer 20 (unat (4 :: 16 word))"
    by (subst attrs_fit.simps) simp
  then show ?thesis
    by (subst allocate_response_overrun_iff [of _ _ 4])
      (simp_all add: overlong_answer_def be16_def be32_def)
qed

theorem relay_address_garbled_witness:
  "\<exists>rc s'. turn_parse_allocate_response sample_turn_env sample_turn_session
      (receive_into 512 [] (allocate_answer (replicate 12 0) [192, 0, 2, 7] 5000)) 32 = Some (rc, s')
    \<and> ts_relay_ip s' = dotted (unat (xor 192 0x63 :: byte)) (unat (xor 0 0xB6 :: byte)) (unat (xor 2 0xB6 :: byte)) (unat (xor 7 0x63 :: byte))
    \<and> ts_relay_port s' = int (unat (xor 5000 0x2112 :: 16 word))
    \<and> ts_relay_ip s' \<noteq> dotted (unat (192 :: byte)) (unat (0 :: byte)) (unat (2 :: byte)) (unat (7 :: byte))
    \<and> ts_relay_port s' \<noteq> int (unat (5000 :: 16 word))"
  by (rule relay_address_garbled) simp_all

theorem allocate_request_sends_stack_witness:
  "\<exists>buf c'. turn_build_allocate_request sample_turn_env zero_server (stack_buffer 512 (replicate 64 0xAA))
        \<lparr>c_error = [], c_live = {#}\<rparr> = Some (buf, 36, c')
    \<and> take 36 buf = be16 TURN_MSG_ALLOCATE_REQUEST @ be16 16 @ be32 TURN_MAGIC_COOKIE
        @ be16 TURN_ATTR_LIFETIME @ be16 4 @ be32 (tv_lifetime zero_server) @ drop 8 (te_random sample_turn_env)
        @ be16 TURN_ATTR_REQUESTED_TRANSPORT @ be16 4 @ [17, 0, 0, 0] @ take 8 (drop 28 (replicate 64 0xAA))"
  by (rule allocate_request_sends_stack) (simp_all add: sample_turn_env_def zero_server_def)

theorem turn_send_overrun_iff_witness:
  "turn_send sample_turn_env (Some ''077'') (Some (replicate 2013 1)) sample_turn = None
   \<and> turn_send sample_turn_env (Some ''077'') (Some [1, 2, 3]) sample_turn \<noteq> None"
  using turn_send_overrun_iff [of sample_turn "''077''" 0 "replicate 2013 1" sample_turn_env]
    turn_send_overrun_iff [of sample_turn "''077''" 0 "[1, 2, 3]" sample_turn_env]
  by (simp add: sample_turn_session_def)

theorem turn_invariant_witness:
  "turn_inv (snd (turn_manager_add_server sample_turn_env (Some ''turn.example'') 3478 (Some ''user'') None
     (snd (turn_manager_init sample_turn_env \<lparr>c_error = [], c_live = {#}\<rparr>))))"
  using turn_invariant [OF r_into_rtranclp, OF turn_step.intros(7)] by blast

theorem turn_connect_connects_witness:
  "\<exists>rc m'. turn_connect sample_turn_env (Some ''078'') (Some ''nowhere'') sample_turn = Some (rc, m')
    \<and> turn_inv m' \<and> rc \<in> {0, -1} \<and> (turn_is_connected (Some ''078'') m' \<longleftrightarrow> rc = 0)"
proof -
  have "turn_find_session sample_turn ''078'' = None"
    by (simp add: turn_find_session_def sample_turn_session_def)
  then obtain rc m' where c: "turn_connect sample_turn_env (Some ''078'') (Some ''nowhere'') sample_turn = Some (rc, m')"
    by (auto simp: turn_connect_def turn_add_session_def TURN_MAX_SESSIONS_def strcpy_into_fits server_index_def
        sample_turn_def turn_manager_init_def sample_turn_env_def Let_def new_turn_session_def zero_turn_session_def)
  then show ?thesis using turn_connect_connects [OF sample_turn_inv c] by blast
qed

theorem turn_disconnect_forgets_witness:
  "fst (turn_disconnect (Some ''077'') sample_turn) = 0
    \<and> turn_get_state (Some ''077'') (snd (turn_disconnect (Some ''077'') sample_turn)) = TURN_STATE_IDLE
    \<and> (\<forall>s \<in> set (tm_sessions sample_turn). ts_peer_id s \<noteq> ''077''
        \<longrightarrow> s \<in> set (tm_sessions (snd (turn_disconnect (Some ''077'') sample_turn))))"
  by (rule turn_disconnect_forgets [OF sample_turn_inv])

theorem failed_server_leaks_credentials_witness:
  "let env1 = sample_turn_env\<lparr>te_resolve := None\<rparr>;
       (rc, m1) = turn_manager_add_server env1 (Some ''down.example'') 0 (Some ''alice'') (Some ''secret'') sample_turn;
       (rc2, m2) = turn_manager_add_server sample_turn_env (Some ''turn.example'') 0 None None m1
   in rc = -1 \<and> rc2 = 0 \<and> (\<exists>v. tm_servers m2 ! tm_server_count sample_turn = v
    \<and> tm_server_count m2 = tm_server_count sample_turn + 1
    \<and> tv_server_host v = strncpy_into 128 ''turn.example'' \<and> tv_server_ip v = dotted 192 0 2 7
    \<and> tv_username v = ''alice'' \<and> tv_use_auth v)"
proof -
  let ?env1 = "sample_turn_env\<lparr>te_resolve := None\<rparr>"
  obtain rc m1 where a1: "turn_manager_add_server ?env1 (Some ''down.example'') 0 (Some ''alice'') (Some ''secret'') sample_turn = (rc, m1)"
    by (rule prod.exhaust)
  obtain rc2 m2 where a2: "turn_manager_add_server sample_turn_env (Some ''turn.example'') 0 None None m1 = (rc2, m2)"
    by (rule prod.exhaust)
  have r: "turn_resolve_host (te_resolve ?env1) = None" "turn_resolve_host (te_resolve sample_turn_env) = Some (dotted 192 0 2 7)"
    by (simp_all add: turn_resolve_host_def sample_turn_env_def)
  have c: "tm_server_count sample_turn < TURN_SERVER_MAX"
    by (simp add: sample_turn_def turn_manager_init_def sample_turn_env_def TURN_SERVER_MAX_def)
  show ?thesis
    using failed_server_leaks_credentials [OF sample_turn_inv c r _ a1 a2] a1 a2 by simp
qed

end
