(* ===== verification/Relay_Properties.thy ===== *)
theory Relay_Properties
  imports Friend_Relay Turn_Properties
begin

text \<open>
  The properties of the friend relay: its table as a \<open>session_store\<close>, the handshake text and
  whom it registers, packets and their bounds, and sending through the manager that is never
  set.
\<close>

section \<open>The table of sessions\<close>


interpretation relay_table: session_store rs_peer_id rm_sessions relay_find_session "relay_add_session env"
    "\<lambda>a m. snd (relay_disconnect (Some a) m)" RELAY_MAX_PEERS 64
  for env :: relay_env
proof (unfold_locales, goal_cases)
  case (4 m a)
  then show ?case by (simp add: relay_add_session_def new_relay_session_def strcpy_into_fits)
next
  case (5 a m)
  then show ?case
    by (auto simp: relay_disconnect_def Let_def drop_updated relay_find_session_def dest: find_index_less split: option.split)
qed (simp_all add: relay_find_session_def relay_add_session_def strcpy_into_def)

text \<open>
  What every operation keeps.  The peer ids need not differ: the listener adds a session without
  looking for one.
\<close>

definition session_fits :: "RelaySession \<Rightarrow> bool" where
  "session_fits s \<longleftrightarrow> length (rs_peer_id s) < 64 \<and> length (rs_relay_id s) < 64 \<and> length (rs_ip s) < 16 \<and> rs_socket_fd s = -1"

definition relay_inv :: "relay \<Rightarrow> bool" where
  "relay_inv m \<longleftrightarrow> length (rm_sessions m) \<le> RELAY_MAX_PEERS \<and> (\<forall>s \<in> set (rm_sessions m). session_fits s)
     \<and> length (rm_my_id m) < 64"

named_theorems relay_keep \<open>operations that keep the invariant\<close>

lemma relay_inv_frame [simp]:
  "relay_inv (m\<lparr>rm_crypto := c\<rparr>) = relay_inv m" "relay_inv (m\<lparr>rm_sent := x\<rparr>) = relay_inv m"
  "relay_inv (m\<lparr>rm_is_relay_node := b\<rparr>) = relay_inv m" "relay_inv (m\<lparr>rm_announced := y\<rparr>) = relay_inv m"
  "relay_inv (m\<lparr>rm_announce_running := b\<rparr>) = relay_inv m"
  by (simp_all add: relay_inv_def)

lemma upd_relay_inv [relay_keep]:
  assumes "relay_inv m" and "session_fits (rm_sessions m ! i) \<Longrightarrow> session_fits (f (rm_sessions m ! i))"
  shows "relay_inv (upd_relay i f m)"
proof (cases "i < length (rm_sessions m)")
  case True
  then show ?thesis using assms
    by (auto simp: relay_inv_def upd_relay_def dest: set_update_subset_insert [THEN subsetD])
next
  case False
  then show ?thesis using assms(1) by (simp add: upd_relay_def list_update_beyond)
qed

lemma keys_shape:
  obtains c secret where "relay_generate_session_keys env i m
    = upd_relay i (\<lambda>s. s\<lparr>rs_shared_secret := secret, rs_is_secure := True\<rparr>) (m\<lparr>rm_crypto := c\<rparr>)"
proof -
  obtain r1 c1 where a: "orca_random_bytes (re_ok env) (re_random env) True 16 (rm_crypto m) = (r1, c1)"
    by (rule prod.exhaust)
  obtain r2 c2 where b: "orca_random_bytes (shift 1 (re_ok env)) (drop 16 (re_random env)) True 32 c1 = (r2, c2)"
    by (rule prod.exhaust)
  show thesis
    by (rule that [of "case r2 of None \<Rightarrow> stack_buffer 32 (re_stack env) | Some b \<Rightarrow> b" c2])
      (unfold relay_generate_session_keys_def a prod.case b Let_def, rule refl)
qed

lemma keys_inv [relay_keep]:
  assumes "relay_inv m"
  shows "relay_inv (relay_generate_session_keys env i m)"
proof -
  obtain c secret where "relay_generate_session_keys env i m
    = upd_relay i (\<lambda>s. s\<lparr>rs_shared_secret := secret, rs_is_secure := True\<rparr>) (m\<lparr>rm_crypto := c\<rparr>)"
    by (rule keys_shape)
  moreover have "relay_inv (m\<lparr>rm_crypto := c\<rparr>)" using assms by simp
  ultimately show ?thesis using upd_relay_inv [of "m\<lparr>rm_crypto := c\<rparr>"] by (simp add: session_fits_def)
qed

lemma add_relay_inv [relay_keep]:
  assumes "relay_inv m" and "relay_add_session env a m = Some (r, m')"
  shows "relay_inv m'"
proof (cases "RELAY_MAX_PEERS \<le> length (rm_sessions m)")
  case True
  then show ?thesis using assms by (simp add: relay_add_session_def)
next
  case False
  with assms(2) have a: "length a < 64" and m': "m' = m\<lparr>rm_sessions := rm_sessions m @ [new_relay_session env a]\<rparr>"
    by (simp_all add: relay_add_session_def strcpy_into_def split: if_splits)
  have "session_fits (new_relay_session env a)"
    using a by (simp add: new_relay_session_def zero_relay_session_def session_fits_def)
  then show ?thesis using assms(1) False by (simp add: m' relay_inv_def)
qed

lemma find_or_add_inv [relay_keep]: "relay_inv m \<Longrightarrow> find_or_add_relay env a m = Some (r, m') \<Longrightarrow> relay_inv m'"
  by (auto simp: find_or_add_relay_def intro: add_relay_inv split: option.splits)

lemma relay_accept_inv:
  assumes "relay_inv m" and "relay_accept env pid rid m = Some (rc, m')"
  shows "relay_inv m'"
proof (cases pid)
  case None
  then show ?thesis using assms by (simp add: relay_accept_def)
next
  case (Some a)
  with assms(2) obtain r m1 where f: "find_or_add_relay env a m = Some (r, m1)"
    by (auto simp: relay_accept_def split: Option.bind_splits)
  have m1: "relay_inv m1" using assms(1) f by (rule find_or_add_inv)
  show ?thesis
  proof (cases r)
    case None
    then show ?thesis using assms(2) Some f m1 by (simp add: relay_accept_def)
  next
    case (Some i)
    let ?old = "rs_relay_id (rm_sessions m1 ! i)"
    let ?f = "\<lambda>t s. s\<lparr>rs_relay_id := t, rs_state := RELAY_STATE_ESTABLISHED, rs_is_initiator := False, rs_last_activity := re_clk env 3\<rparr>"
    obtain t where t: "(case rid of None \<Rightarrow> Some ?old | Some x \<Rightarrow> strcpy_into 64 x) = Some t"
      "m' = relay_generate_session_keys env i (upd_relay i (?f t) m1)"
      using assms(2) \<open>pid = Some a\<close> Some f by (auto simp: relay_accept_def split: Option.bind_splits)
    have "relay_inv (upd_relay i (?f t) m1)"
      using t(1) by (intro upd_relay_inv m1) (auto simp: session_fits_def split: option.splits)
    then show ?thesis using t(2) keys_inv by simp
  qed
qed


lemma relay_connect_inv:
  assumes "relay_inv m" and "relay_connect env pid rid ip port m = Some (rc, m')"
  shows "relay_inv m'"
proof (cases "pid = None \<or> ip = None \<or> port \<le> 0")
  case True
  then show ?thesis using assms by (auto simp: relay_connect_def split: option.splits)
next
  case False
  then obtain a b where ab: "pid = Some a" "ip = Some b" "\<not> port \<le> 0" by auto
  with assms(2) obtain r m1 where f: "find_or_add_relay env a m = Some (r, m1)"
    by (auto simp: relay_connect_def split: Option.bind_splits)
  have m1: "relay_inv m1" using assms(1) f by (rule find_or_add_inv)
  have idle: "relay_inv x \<Longrightarrow> relay_inv (upd_relay i (\<lambda>s. s\<lparr>rs_state := st\<rparr>) x)" for x i st
    by (rule upd_relay_inv) (simp_all add: session_fits_def)
  have act: "relay_inv x \<Longrightarrow> relay_inv (upd_relay i (\<lambda>s. s\<lparr>rs_state := st, rs_last_activity := t\<rparr>) x)" for x i st t
    by (rule upd_relay_inv) (simp_all add: session_fits_def)
  show ?thesis
  proof (cases "r = None \<or> rs_state (rm_sessions m1 ! the r) = RELAY_STATE_ESTABLISHED")
    case True
    then show ?thesis using assms(2) ab f m1 by (cases r) (simp_all add: relay_connect_def)
  next
    case False
    then obtain i where i: "r = Some i" "rs_state (rm_sessions m1 ! i) \<noteq> RELAY_STATE_ESTABLISHED" by auto
    let ?old = "rs_relay_id (rm_sessions m1 ! i)"
    obtain t where t: "(case rid of None \<Rightarrow> Some ?old | Some x \<Rightarrow> strcpy_into 64 x) = Some t" "length b < 16"
      using assms(2) ab f i by (auto simp: relay_connect_def split: Option.bind_splits)
    let ?m2 = "upd_relay i (\<lambda>s. s\<lparr>rs_state := RELAY_STATE_CONNECTING, rs_relay_id := t, rs_ip := b,
        rs_port := port, rs_is_initiator := True\<rparr>) m1"
    have m2: "relay_inv ?m2"
      using t by (intro upd_relay_inv m1) (auto simp: session_fits_def split: option.splits)
    show ?thesis using assms(2) ab f i t m2
      by (auto simp: relay_connect_def strcpy_into_fits Let_def intro!: idle act keys_inv
          split: if_splits Option.bind_splits receipt.splits)
  qed
qed

lemma relay_send_inv:
  assumes "relay_inv m" and "relay_send env pid d m = Some (rc, m')"
  shows "relay_inv m'"
proof -
  have p: "relay_inv x" if "relay_send_packet env s ty pl y = Some (rc, x)" "relay_inv y" for s ty pl x y rc
    using that by (auto simp: relay_send_packet_def g_relay_mgr_def Let_def session_fits_def intro!: upd_relay_inv
        split: option.splits if_splits Option.bind_splits)
  show ?thesis using assms
    by (auto simp: relay_send_def Let_def intro: p split: option.splits if_splits prod.splits)
qed

lemma relay_recv_inv:
  assumes "relay_inv m" and "relay_recv env pid n m = Some (rc, d, m')"
  shows "relay_inv m'"
  using assms
  by (auto simp: relay_recv_def Let_def session_fits_def intro!: upd_relay_inv
      split: option.splits if_splits receipt.splits Option.bind_splits)

lemma relay_process_inv:
  assumes "relay_inv m" and "relay_process_packet env i buf n m = Some (rc, m')"
  shows "relay_inv m'"
proof -
  let ?m = "upd_relay i (\<lambda>s. s\<lparr>rs_last_activity := re_clk env 0\<rparr>) m"
  have m1: "relay_inv ?m" by (rule upd_relay_inv [OF assms(1)]) (simp add: session_fits_def)
  have "relay_inv (upd_relay i (\<lambda>s. s\<lparr>rs_state := st\<rparr>) ?m)" for st
    by (rule upd_relay_inv [OF m1]) (simp add: session_fits_def)
  then show ?thesis using assms m1
    by (auto simp: relay_process_packet_def Let_def split: if_splits prod.splits)
qed

lemma accept_relay_inv:
  assumes "relay_inv m" and "accept_relay_handshake env ip port text m = Some m'"
  shows "relay_inv m'"
proof -
  obtain r where r: "parse_handshake text = Some r" using assms(2) by (auto simp: accept_relay_handshake_def split: Option.bind_splits)
  show ?thesis
  proof (cases r)
    case None
    then show ?thesis using assms r by (simp add: accept_relay_handshake_def)
  next
    case (Some t)
    obtain p sid f where t: "t = (p, sid, f)" by (cases t)
    obtain k m1 where k: "relay_add_session env p m = Some (k, m1)"
      using assms(2) r Some t by (auto simp: accept_relay_handshake_def split: Option.bind_splits)
    have m1: "relay_inv m1" using assms(1) k by (rule add_relay_inv)
    show ?thesis
    proof (cases k)
      case None
      then show ?thesis using assms(2) r \<open>r = Some t\<close> t k m1 by (simp add: accept_relay_handshake_def)
    next
      case (Some i)
      have ip: "length ip < 16"
        using assms(2) r \<open>r = Some t\<close> t k Some by (auto simp: accept_relay_handshake_def split: Option.bind_splits)
      let ?m2 = "upd_relay i (\<lambda>s. s\<lparr>rs_session_id := sid, rs_state := RELAY_STATE_ESTABLISHED, rs_is_initiator := False,
          rs_last_activity := re_clk env 3, rs_ip := ip, rs_port := port\<rparr>) m1"
      have "relay_inv ?m2" by (rule upd_relay_inv [OF m1]) (simp add: session_fits_def ip)
      then have "relay_inv (relay_generate_session_keys env i ?m2)" by (rule keys_inv)
      then show ?thesis using assms(2) r \<open>r = Some t\<close> t k Some ip
        by (auto simp: accept_relay_handshake_def strcpy_into_fits Let_def split: if_splits)
    qed
  qed
qed

lemma relay_listener_inv:
  assumes "relay_inv m" and "relay_listener_receive env packet ip port m = Some m'"
  shows "relay_inv m'"
  using assms
  by (auto simp: relay_listener_receive_def Let_def intro: accept_relay_inv relay_process_inv
      split: if_splits option.splits Option.bind_splits)

lemma relay_disconnect_inv:
  assumes "relay_inv m"
  shows "relay_inv (snd (relay_disconnect pid m))"
proof (cases pid)
  case None
  then show ?thesis using assms by (simp add: relay_disconnect_def)
next
  case (Some a)
  let ?m = "snd (relay_disconnect (Some a) m)"
  have "length (rm_sessions ?m) \<le> RELAY_MAX_PEERS"
    using assms by (intro relay_table.remove_bounded) (simp add: relay_inv_def)
  moreover have "set (rm_sessions ?m) \<subseteq> set (rm_sessions m)"
    using relay_table.remove_first [of a m] set_remove_nth by (fastforce split: option.splits)
  moreover have "rm_my_id ?m = rm_my_id m" by (simp add: relay_disconnect_def Let_def split: option.split)
  ultimately show ?thesis using assms Some by (auto simp: relay_inv_def)
qed

text \<open>Everything that happens to the manager after \<open>relay_manager_init\<close>.\<close>

inductive relay_step :: "relay \<Rightarrow> relay \<Rightarrow> bool" where
  "relay_connect env pid rid ip port m = Some (rc, m') \<Longrightarrow> relay_step m m'"
| "relay_accept env pid rid m = Some (rc, m') \<Longrightarrow> relay_step m m'"
| "relay_send env pid data m = Some (rc, m') \<Longrightarrow> relay_step m m'"
| "relay_recv env pid n m = Some (rc, bytes, m') \<Longrightarrow> relay_step m m'"
| "relay_listener_receive env packet ip port m = Some m' \<Longrightarrow> relay_step m m'"
| "relay_step m (snd (relay_disconnect pid m))"
| "relay_step m (snd (relay_manager_enable_relay env enable m))"
| "relay_step m (relay_announce_round env m)"
| "relay_step m (relay_manager_cleanup m)"

inductive relay_started :: "relay \<Rightarrow> bool" where
  "relay_manager_init env my_id port c = Some (0, Some m) \<Longrightarrow> relay_started m"

lemma relay_started_inv: "relay_started m \<Longrightarrow> relay_inv m"
  by (erule relay_started.cases)
    (auto simp: relay_manager_init_def relay_inv_def Let_def split: option.splits Option.bind_splits if_splits prod.splits)

lemma relay_step_inv: "relay_step m m' \<Longrightarrow> relay_inv m \<Longrightarrow> relay_inv m'"
proof (induction rule: relay_step.induct)
  case (9 m)
  then show ?case by (simp add: relay_manager_cleanup_def relay_inv_def)
qed (auto intro: relay_connect_inv relay_accept_inv relay_send_inv relay_recv_inv relay_listener_inv relay_disconnect_inv
    simp: relay_manager_enable_relay_def relay_announce_round_def relay_announce_def Let_def)

lemma relay_reach_inv: "relay_step\<^sup>*\<^sup>* m0 m \<Longrightarrow> relay_started m0 \<Longrightarrow> relay_inv m"
  by (induction rule: rtranclp.induct) (simp_all add: relay_started_inv relay_step_inv)

text \<open>What does not return: ids that do not fit, and packets that are handshakes or data.\<close>

lemma relay_accept_overrun_iff:
  assumes "relay_inv m"
  shows "relay_accept env (Some a) rid m = None \<longleftrightarrow>
    (if 64 \<le> length a then length (rm_sessions m) < RELAY_MAX_PEERS
     else (relay_find_session m a \<noteq> None \<or> length (rm_sessions m) < RELAY_MAX_PEERS) \<and> (\<exists>t. rid = Some t \<and> 64 \<le> length t))"
proof -
  have fits: "\<forall>s \<in> set (rm_sessions m). length (rs_peer_id s) < 64" using assms by (auto simp: relay_inv_def session_fits_def)
  have o: "find_or_add_relay env a m = None \<longleftrightarrow> 64 \<le> length a \<and> length (rm_sessions m) < RELAY_MAX_PEERS"
    unfolding find_or_add_relay_def by (rule relay_table.add_overruns_iff [OF fits])
  have k: "relay_find_session m a = None" if "64 \<le> length a"
  proof (cases "relay_find_session m a")
    case (Some i)
    then have "length a < 64" using relay_table.found_key [OF Some] fits by (metis nth_mem)
    then show ?thesis using that by simp
  qed
  show ?thesis
  proof (cases "find_or_add_relay env a m")
    case None
    then show ?thesis using o by (auto simp: relay_accept_def)
  next
    case (Some rm)
    obtain r m1 where r: "find_or_add_relay env a m = Some (r, m1)" using Some by (cases rm) simp
    have no: "\<not> (64 \<le> length a \<and> length (rm_sessions m) < RELAY_MAX_PEERS)" using o Some by simp
    have n: "r = None \<longleftrightarrow> relay_find_session m a = None \<and> RELAY_MAX_PEERS \<le> length (rm_sessions m)"
    proof (cases "relay_find_session m a")
      case None
      then show ?thesis
        using r relay_table.add_full [of m env a] relay_table.add_new [of m a env] no
        by (cases "RELAY_MAX_PEERS \<le> length (rm_sessions m)") (auto simp: find_or_add_relay_def)
    next
      case (Some i)
      then show ?thesis using r by (auto simp: find_or_add_relay_def)
    qed
    show ?thesis
      using r n no k by (cases r; cases rid) (auto simp: relay_accept_def strcpy_into_def)
  qed
qed

lemma relay_process_stuck: "relay_process_packet env i buf n m = None \<Longrightarrow> buf ! 5 = RELAY_PKT_DATA"
  by (auto simp: relay_process_packet_def Let_def split: if_splits prod.splits)

lemma relay_listener_stuck:
  assumes "relay_listener_receive env packet ip port m = None"
  shows "RELAY_SIZEOF \<le> length packet \<and> (take 15 packet = string_bytes ''RELAY_HANDSHAKE''
    \<or> from_le32 packet = RELAY_MAGIC \<and> packet ! 5 \<in> {RELAY_PKT_HANDSHAKE, RELAY_PKT_DATA})"
proof -
  let ?buf = "receive_into RELAY_BUFFER_SIZE (re_stack env) packet"
  have n: "24 \<le> length packet"
    using assms by (auto simp: relay_listener_receive_def RELAY_SIZEOF_def RELAY_BUFFER_SIZE_def Let_def split: if_splits)
  have b: "?buf ! 5 = packet ! 5" "take 15 ?buf = take 15 packet"
    using n by (simp_all add: receive_into_def RELAY_BUFFER_SIZE_def nth_append)
  have "from_le32 ?buf = from_le32 packet"
  proof -
    have "?buf ! k = packet ! k" if "k < 24" for k
      using n that by (simp add: receive_into_def RELAY_BUFFER_SIZE_def nth_append)
    then show ?thesis by (simp add: from_le32_def)
  qed
  with assms b n show ?thesis
    by (auto simp: relay_listener_receive_def RELAY_SIZEOF_def Let_def dest: relay_process_stuck split: if_splits option.splits)
qed

text \<open>
  C29: from a started manager on, after any sequence of calls and datagrams that each returned,
  there are at most 32 sessions, their ids and addresses fit their fields, and none has a
  socket of its own.  From there accepting overruns a field exactly if the id of the peer has
  64 characters or more and a session has to be made for it, or the id of the relay has 64
  characters or more and there is a session to store it in; the listener returns but for
  handshakes and data packets.
\<close>

theorem relay_invariant:
  assumes "relay_started m0" and "relay_step\<^sup>*\<^sup>* m0 m"
  shows "relay_inv m
    \<and> (relay_accept env (Some a) rid m = None \<longleftrightarrow>
        (if 64 \<le> length a then length (rm_sessions m) < RELAY_MAX_PEERS
         else (relay_find_session m a \<noteq> None \<or> length (rm_sessions m) < RELAY_MAX_PEERS) \<and> (\<exists>t. rid = Some t \<and> 64 \<le> length t)))
    \<and> (relay_listener_receive env packet ip port m = None \<longrightarrow> take 15 packet = string_bytes ''RELAY_HANDSHAKE''
        \<or> from_le32 packet = RELAY_MAGIC \<and> packet ! 5 \<in> {RELAY_PKT_HANDSHAKE, RELAY_PKT_DATA})"
  using relay_reach_inv [OF assms(2,1)] relay_accept_overrun_iff relay_listener_stuck [of env packet ip port m] by blast

section \<open>Sending\<close>

text \<open>
  \<open>relay_send\<close> never sends: on every reachable established session, when memory and
  encryption are there, it dereferences the global manager pointer, which is NULL.
\<close>

theorem relay_send_crashes:
  assumes "relay_started m0" and "relay_step\<^sup>*\<^sup>* m0 m" and "relay_is_connected (Some a) m" and "d \<noteq> []"
    and "re_malloc env = (\<lambda>_. True)" and "re_ok env = (\<lambda>_. True)"
  shows "relay_send env (Some a) (Some d) m = None"
proof -
  obtain i where i: "relay_find_session m a = Some i" "rs_state (rm_sessions m ! i) = RELAY_STATE_ESTABLISHED"
    using assms(3) by (auto simp: relay_is_connected_def split: option.splits)
  let ?s = "rm_sessions m ! i"
  have "i < length (rm_sessions m)" using relay_table.found_key [OF i(1)] by simp
  then have fd: "rs_socket_fd ?s = -1"
    using relay_reach_inv [OF assms(2,1)] by (simp add: relay_inv_def session_fits_def)
  have crash: "relay_send_packet env (Some i) ty pl m' = None" if "rm_sessions m' = rm_sessions m" for ty pl m'
    using that fd assms(5) by (simp add: relay_send_packet_def g_relay_mgr_def)
  obtain rn c where r: "orca_random_bytes (re_ok env) (re_random env) True 12 (rm_crypto m) = (rn, c)"
    by (rule prod.exhaust)
  define nonce where "nonce = (case rn of None \<Rightarrow> stack_buffer 12 (re_stack env) | Some b \<Rightarrow> b)"
  obtain sl c2 where e: "orca_aes_gcm_encrypt (shift 1 (re_ok env)) (re_ssl env) (Some d) (Some (rs_shared_secret ?s)) (Some nonce) c
      = (sl, c2)" by (rule prod.exhaust)
  have "shift 1 (re_ok env) = (\<lambda>_. True)" using assms(6) by (simp add: fun_eq_iff shift_def)
  then have "sl \<noteq> None" using e by (auto simp: orca_aes_gcm_encrypt_def finish_def split: prod.splits if_splits)
  then obtain ct tag where s: "sl = Some (ct, tag)" by (cases sl) auto
  show ?thesis
  proof (cases "rs_is_secure ?s \<and> rs_shared_secret ?s ! 0 \<noteq> 0")
    case True
    then show ?thesis using i assms(4,5) r e s crash by (simp add: relay_send_def Let_def nonce_def [symmetric])
  next
    case False
    then show ?thesis using i assms(4) crash by (auto simp: relay_send_def)
  qed
qed

section \<open>The handshake text\<close>

lemma c_strtok_token:
  assumes "x \<noteq> []" and "c \<notin> set x"
  shows "c_strtok c (x @ c # rest) = Some (x, rest)" and "c_strtok c x = Some (x, [])"
proof -
  have d: "dropWhile (\<lambda>y. y = c) (x @ r) = x @ r" for r using assms by (cases x) auto
  have t: "takeWhile (\<lambda>y. y \<noteq> c) (x @ c # rest) = x" "dropWhile (\<lambda>y. y \<noteq> c) (x @ c # rest) = c # rest"
    "takeWhile (\<lambda>y. y \<noteq> c) x = x" "dropWhile (\<lambda>y. y \<noteq> c) x = []"
    using assms(2) by (auto simp: takeWhile_append dropWhile_append takeWhile_eq_all_conv dropWhile_eq_Nil_conv)
  show "c_strtok c (x @ c # rest) = Some (x, rest)" using d [of "c # rest"] t assms(1) by (simp add: c_strtok_def)
  have d0: "dropWhile (\<lambda>y. y = c) x = x" using d [of "[]"] by simp
  show "c_strtok c x = Some (x, [])" unfolding c_strtok_def Let_def d0 t(3,4) using assms(1) by simp
qed

lemma sid_text: "word_of_int (atoi (dec_nat (unat (w :: 32 word)))) = w"
proof -
  have "long_range (int n)" if "n < 2 ^ 32" for n using that by (simp add: long_range_def)
  from this [of "unat w"] have "long_range (int (unat w))" using unsigned_less [of w, where ?'a = nat] by simp
  then have "atoi (dec_nat (unat w)) = c_int (int (unat w))"
    using scan_num_dec_nat [of "[]" "unat w"] by (simp add: atoi_def scan_d_def c_long_id)
  moreover have m: "(word_of_int (k mod 4294967296) :: 32 word) = word_of_int k" for k
    by (simp add: word_of_int_eq_iff take_bit_eq_mod)
  then have "(word_of_int (c_int v) :: 32 word) = word_of_int v" for v
    unfolding c_int_def by simp
  ultimately show ?thesis by simp
qed

definition plain_id :: "string \<Rightarrow> bool" where
  "plain_id a \<longleftrightarrow> a \<noteq> [] \<and> length a < 64 \<and> CHR '':'' \<notin> set a \<and> (\<forall>c \<in> set a. of_char c \<noteq> (0 :: nat))"

lemma handshake_text_fits:
  assumes "plain_id a" and "plain_id b"
  shows "relay_handshake_text a sid b = ''RELAY_HANDSHAKE:'' @ a @ '':'' @ dec_nat (unat sid) @ '':'' @ b"
proof -
  have "unat sid < 10 ^ 10" using unsigned_less [of sid, where ?'a = nat] by simp
  then have "length (dec_nat (unat sid)) \<le> 10" by (rule length_dec_nat_le) simp
  then show ?thesis using assms unfolding relay_handshake_text_def by (intro snprintf_into_fits) (simp add: plain_id_def)
qed

lemma parse_handshake_text:
  assumes "plain_id a" and "plain_id b"
  shows "parse_handshake (relay_handshake_text a sid b) = Some (Some (a, sid, b))"
proof -
  have "CHR '':'' \<notin> set (dec_nat n)" for n using dec_nat_digits [of "CHR '':''" n] by auto
  note tok = c_strtok_token [of "dec_nat (unat sid)", OF _ this]
  have "relay_handshake_text a sid b
      = ''RELAY_HANDSHAKE'' @ CHR '':'' # a @ CHR '':'' # dec_nat (unat sid) @ CHR '':'' # b"
    by (simp add: handshake_text_fits [OF assms])
  moreover have "c_strtok CHR '':'' (''RELAY_HANDSHAKE'' @ CHR '':'' # r) = Some (''RELAY_HANDSHAKE'', r)" for r
    by (rule c_strtok_token) simp_all
  ultimately show ?thesis
    using assms tok c_strtok_token [of a] c_strtok_token [of b]
    by (simp add: parse_handshake_def plain_id_def strcpy_into_fits sid_text)
qed

text \<open>
  The fields of a handshake text are read back as they were written: the id of the target,
  the session id in all its 32 bits, and the id of the sender.
\<close>

theorem handshake_text_roundtrip:
  assumes "plain_id a" and "plain_id b"
  shows "parse_handshake (relay_handshake_text a sid b) = Some (Some (a, sid, b))"
  by (rule parse_handshake_text [OF assms])

text \<open>The listener's buffer after a handshake text that the old content terminates.\<close>

lemma handshake_in_buffer:
  assumes "plain_id a" and "plain_id b" and "old ! length (relay_handshake_text a sid b) = 0"
    and "length (relay_handshake_text a sid b) < length old" and "length old \<le> 4096"
  defines "buf \<equiv> receive_into 4096 old (string_bytes (relay_handshake_text a sid b))"
  shows "c_str buf = Some (string_bytes (relay_handshake_text a sid b))" and "from_le32 buf \<noteq> RELAY_MAGIC"
    and "take 15 buf = string_bytes ''RELAY_HANDSHAKE''"
proof -
  let ?t = "relay_handshake_text a sid b"
  let ?w = "string_bytes ?t"
  have w: "length ?w = length ?t" by (simp add: string_bytes_def)
  have nc: "of_char c \<noteq> (0 :: nat)" if "c \<in> set ?t" for c
    using that assms(1,2) by (auto simp: handshake_text_fits plain_id_def is_digit_def dest: dec_nat_digits)
  have "of_char c \<noteq> (0 :: byte)" if "c \<in> set ?t" for c
  proof -
    have "unat (of_nat (of_char c) :: byte) = of_char c mod 2 ^ 8" by (simp add: unat_of_nat del: of_nat_of_char)
    then have "unat (of_char c :: byte) = of_char c" using nat_of_char_less_256 [of c] by (simp add: of_nat_of_char)
    then show ?thesis using nc [OF that] by (metis unat_0)
  qed
  then have nz: "0 \<notin> set ?w" by (fastforce simp: string_bytes_def)
  have st: "stack_buffer 4096 old = old @ replicate (4096 - length old) 0" using assms(5) by (simp add: stack_buffer_def)
  have buf: "buf = ?w @ 0 # drop (Suc (length ?t)) (stack_buffer 4096 old)"
  proof -
    have "stack_buffer 4096 old ! length ?t = 0" "length ?t < length (stack_buffer 4096 old)"
      using assms(3,4,5) by (simp_all add: st nth_append)
    then have "drop (length ?t) (stack_buffer 4096 old) = 0 # drop (Suc (length ?t)) (stack_buffer 4096 old)"
      by (metis Cons_nth_drop_Suc)
    then show ?thesis using assms(4,5) w by (simp add: buf_def receive_into_def)
  qed
  have "takeWhile (\<lambda>x. x \<noteq> 0) buf = ?w"
    unfolding buf using nz by (subst takeWhile_append2) auto
  then show "c_str buf = Some ?w" by (simp add: c_str_def) (simp add: buf)
  have pre: "\<exists>r. buf = [0x52, 0x45, 0x4C, 0x41, 0x59, 0x5F, 0x48, 0x41, 0x4E, 0x44, 0x53, 0x48, 0x41, 0x4B, 0x45] @ r"
    unfolding buf handshake_text_fits [OF assms(1,2)] by (simp add: string_bytes_def)
  then show "from_le32 buf \<noteq> RELAY_MAGIC" by (auto simp: from_le32_def RELAY_MAGIC_def)
  show "take 15 buf = string_bytes ''RELAY_HANDSHAKE''" using pre by (auto simp: string_bytes_def)
qed

lemma handshake_registers:
  assumes "plain_id a" and "plain_id b" and "24 \<le> length (relay_handshake_text a sid b)"
    and "re_stack env ! length (relay_handshake_text a sid b) = 0"
    and "length (relay_handshake_text a sid b) < length (re_stack env)" and "length (re_stack env) \<le> 4096"
    and "length ip < 16" and "length (rm_sessions m) < RELAY_MAX_PEERS"
  shows "\<exists>m' s. relay_listener_receive env (string_bytes (relay_handshake_text a sid b)) ip port m = Some m'
    \<and> rm_sessions m' = rm_sessions m @ [s] \<and> rs_peer_id s = a \<and> rs_session_id s = sid
    \<and> rs_state s = RELAY_STATE_ESTABLISHED \<and> rs_ip s = ip \<and> rs_port s = port"
proof -
  let ?t = "relay_handshake_text a sid b"
  let ?n = "length (rm_sessions m)"
  let ?f = "\<lambda>s. s\<lparr>rs_session_id := sid, rs_state := RELAY_STATE_ESTABLISHED, rs_is_initiator := False,
      rs_last_activity := re_clk env 3, rs_ip := ip, rs_port := port\<rparr>"
  note buf = handshake_in_buffer [OF assms(1,2,4,5,6)]
  have n: "min 4096 (length (string_bytes ?t)) = length ?t" using assms(5,6) by (simp add: string_bytes_def)
  have "length a < 64" using assms(1) by (simp add: plain_id_def)
  then have add: "relay_add_session env a m = Some (Some ?n, m\<lparr>rm_sessions := rm_sessions m @ [new_relay_session env a]\<rparr>)"
    using assms(8) by (simp add: relay_add_session_def strcpy_into_fits)
  let ?m2 = "upd_relay ?n ?f (m\<lparr>rm_sessions := rm_sessions m @ [new_relay_session env a]\<rparr>)"
  obtain c secret where k: "relay_generate_session_keys env ?n ?m2
      = upd_relay ?n (\<lambda>s. s\<lparr>rs_shared_secret := secret, rs_is_secure := True\<rparr>) (?m2\<lparr>rm_crypto := c\<rparr>)"
    by (rule keys_shape)
  have l: "relay_listener_receive env (string_bytes ?t) ip port m = accept_relay_handshake env ip port ?t m"
    using buf n assms(3) by (simp add: relay_listener_receive_def RELAY_BUFFER_SIZE_def RELAY_SIZEOF_def Let_def)
  let ?s = "(?f (new_relay_session env a))\<lparr>rs_shared_secret := secret, rs_is_secure := True\<rparr>"
  have "\<exists>m'. accept_relay_handshake env ip port ?t m = Some m' \<and> rm_sessions m' = rm_sessions m @ [?s]"
    using assms(7) add k parse_handshake_text [OF assms(1,2), of sid]
    by (simp add: accept_relay_handshake_def strcpy_into_fits upd_relay_def nth_append Let_def)
  then obtain m' where "accept_relay_handshake env ip port ?t m = Some m'" "rm_sessions m' = rm_sessions m @ [?s]"
    by blast
  then show ?thesis unfolding l by (intro exI [of _ m'] exI [of _ ?s]) (simp add: new_relay_session_def)
qed


text \<open>
  A handshake that \<open>b\<close> sends to \<open>a\<close> makes the listener register an established session
  under the id of \<open>a\<close>, the target, which is the node itself; whoever looks for \<open>b\<close> finds what
  he found before.
\<close>

theorem handshake_registers_target:
  assumes t: "t = relay_handshake_text a sid b" and "plain_id a" and "plain_id b" and "a \<noteq> b" and "24 \<le> length t"
    and "re_stack env ! length t = 0" and "length t < length (re_stack env)" and "length (re_stack env) \<le> 4096"
    and "length ip < 16" and "length (rm_sessions m) < RELAY_MAX_PEERS"
  shows "\<exists>m'. relay_listener_receive env (string_bytes t) ip port m = Some m'
    \<and> relay_get_peer_count m' = relay_get_peer_count m + 1
    \<and> (\<exists>s. last (rm_sessions m') = s \<and> rs_peer_id s = a \<and> rs_session_id s = sid \<and> rs_state s = RELAY_STATE_ESTABLISHED)
    \<and> relay_get_state (Some b) m' = relay_get_state (Some b) m"
proof -
  obtain m' s where r: "relay_listener_receive env (string_bytes t) ip port m = Some m'"
    "rm_sessions m' = rm_sessions m @ [s]" "rs_peer_id s = a" "rs_session_id s = sid" "rs_state s = RELAY_STATE_ESTABLISHED"
    using handshake_registers assms unfolding t by blast
  have f: "find_index P (xs @ [x]) = find_index P xs" if "\<not> P x" for P and x :: RelaySession and xs
    using that by (induction xs) auto
  have "relay_find_session m' b = relay_find_session m b"
    using r(2,3) assms(4) by (simp add: relay_find_session_def f)
  then have "relay_get_state (Some b) m' = relay_get_state (Some b) m"
    using r(2) by (auto simp: relay_get_state_def nth_append dest: relay_table.found_key split: option.split)
  then show ?thesis using r by (auto simp: relay_get_peer_count_def)
qed

text \<open>The same datagram arriving several times.\<close>

primrec relay_receive_times :: "relay_env \<Rightarrow> byte list \<Rightarrow> string \<Rightarrow> int \<Rightarrow> nat \<Rightarrow> relay \<Rightarrow> relay option" where
  "relay_receive_times env packet ip port 0 m = Some m"
| "relay_receive_times env packet ip port (Suc k) m = do {
     m' \<leftarrow> relay_listener_receive env packet ip port m;
     relay_receive_times env packet ip port k m' }"

text \<open>
  The listener adds a session for every copy of a handshake.  Thirty-two copies from one
  sender fill an empty table, and from then on no other peer can be accepted.
\<close>

theorem relay_handshake_flood:
  assumes t: "t = relay_handshake_text a sid b" and "plain_id a" and "plain_id b" and "24 \<le> length t"
    and "re_stack env ! length t = 0" and "length t < length (re_stack env)" and "length (re_stack env) \<le> 4096"
    and "length ip < 16" and "rm_sessions m = []" and "c \<noteq> a"
  shows "\<exists>m'. relay_receive_times env (string_bytes t) ip port RELAY_MAX_PEERS m = Some m'
    \<and> relay_get_peer_count m' = RELAY_MAX_PEERS \<and> relay_accept env' (Some c) rid m' = Some (-1, m')"
proof -
  have flood: "\<exists>m'. relay_receive_times env (string_bytes t) ip port k m = Some m'
      \<and> length (rm_sessions m') = length (rm_sessions m) + k \<and> rs_peer_id ` set (rm_sessions m') \<subseteq> {a}"
    if "length (rm_sessions m) + k \<le> RELAY_MAX_PEERS" "rs_peer_id ` set (rm_sessions m) \<subseteq> {a}" for k m
    using that
  proof (induction k arbitrary: m)
    case (Suc k)
    then have room: "length (rm_sessions m) < RELAY_MAX_PEERS" by simp
    obtain m1 s where r: "relay_listener_receive env (string_bytes t) ip port m = Some m1"
      "rm_sessions m1 = rm_sessions m @ [s]" "rs_peer_id s = a"
      using handshake_registers assms(2-8) room unfolding t by blast
    then show ?case using Suc.IH [of m1] Suc.prems by simp
  qed simp
  obtain m' where m': "relay_receive_times env (string_bytes t) ip port RELAY_MAX_PEERS m = Some m'"
      "length (rm_sessions m') = RELAY_MAX_PEERS" "rs_peer_id ` set (rm_sessions m') \<subseteq> {a}"
    using flood [of m RELAY_MAX_PEERS] assms(9) by auto
  then have "relay_find_session m' c = None"
    using assms(10) by (auto simp: relay_find_session_def find_index_None)
  then have "relay_accept env' (Some c) rid m' = Some (-1, m')"
    using m'(2) by (simp add: relay_accept_def find_or_add_relay_def relay_add_session_def)
  then show ?thesis using m' by (simp add: relay_get_peer_count_def)
qed

section \<open>Packets\<close>

lemma relay_packet_fields:
  fixes old ty sid sequence p rest
  defines "w \<equiv> relay_packet old ty sid sequence p"
  assumes "length p < 65536"
  shows "length w = RELAY_SIZEOF + length p" and "from_le32 (w @ rest) = RELAY_MAGIC"
    and "(w @ rest) ! 4 = RELAY_PROTOCOL_VERSION" and "(w @ rest) ! 5 = ty" and "relay_sid (w @ rest) = sid"
    and "relay_payload_len (w @ rest) = length p" and "take (length p) (drop RELAY_PAYLOAD (w @ rest)) = p"
proof -
  have l: "length (stack_buffer 2 o') = 2" for o' by (simp add: stack_buffer_def)
  note d = w_def relay_packet_def RELAY_PAYLOAD_def RELAY_SIZEOF_def
  show "length w = RELAY_SIZEOF + length p" by (simp add: d l le16_def)
  show "from_le32 (w @ rest) = RELAY_MAGIC" by (simp add: d from_le32_le32)
  show "(w @ rest) ! 4 = RELAY_PROTOCOL_VERSION" "(w @ rest) ! 5 = ty" by (simp_all add: d nth_append)
  have h: "length (le32 RELAY_MAGIC @ [RELAY_PROTOCOL_VERSION, ty] @ stack_buffer 2 old) = 8" by (simp add: l)
  have "drop 8 (w @ rest) = le32 sid @ le32 sequence @ le32 0 @ le16 (of_nat (length p)) @ p @ stack_buffer 2 (drop 2 old) @ rest"
    unfolding d using h by simp
  then show "relay_sid (w @ rest) = sid" by (simp add: relay_sid_def from_le32_le32)
  have drop20: "drop 20 (w @ rest) = le16 (of_nat (length p)) @ p @ stack_buffer 2 (drop 2 old) @ rest"
    by (simp add: d l)
  have "drop RELAY_PAYLOAD (w @ rest) = drop 2 (drop 20 (w @ rest))"
    unfolding drop_drop by (simp add: RELAY_PAYLOAD_def)
  then show "take (length p) (drop RELAY_PAYLOAD (w @ rest)) = p" unfolding drop20 by (simp add: le16_def)
  have "20 < length (w @ rest)" "21 < length (w @ rest)" by (simp_all add: d l le16_def)
  then have b: "(w @ rest) ! 20 = ucast (of_nat (length p) :: 16 word)"
    "(w @ rest) ! 21 = ucast (drop_bit 8 (of_nat (length p) :: 16 word))"
    using nth_drop [of 20 "w @ rest" 0] nth_drop [of 20 "w @ rest" 1] unfolding drop20 by (simp_all add: le16_def)
  have "unat (ucast v :: byte) + 256 * unat (ucast (drop_bit 8 v) :: byte) = unat v" for v :: "16 word"
  proof -
    have "unat v < 65536" using unsigned_less [of v, where ?'a = nat] by simp
    then have "unat v div 256 < 256" by simp
    then show ?thesis
      by (simp add: unsigned_ucast_eq unsigned_drop_bit_eq take_bit_eq_mod drop_bit_eq_div unat_div)
  qed
  moreover have "unat (of_nat (length p) :: 16 word) = length p" using assms(2) by (simp add: unat_of_nat)
  ultimately show "relay_payload_len (w @ rest) = length p" unfolding relay_payload_len_def b by simp
qed

text \<open>
  \<open>relay_recv\<close> hands out the payload of a data packet for the session exactly as it was
  framed; for a secure session that is nonce, tag and ciphertext, since nothing is decrypted.
\<close>

theorem relay_packet_roundtrip:
  assumes "relay_find_session m a = Some i" and "rs_state (rm_sessions m ! i) = RELAY_STATE_ESTABLISHED"
    and "re_recv env = Received (relay_packet old RELAY_PKT_DATA (rs_session_id (rm_sessions m ! i)) sequence p)"
    and "length p \<le> 4072" and "length p \<le> max_len" and "0 < max_len"
  shows "\<exists>m'. relay_recv env (Some a) max_len m = Some (int (length p), p, m')
    \<and> rs_last_activity (rm_sessions m' ! i) = re_clk env 0"
proof -
  let ?sid = "rs_session_id (rm_sessions m ! i)"
  let ?w = "relay_packet old RELAY_PKT_DATA ?sid sequence p"
  let ?buf = "receive_into RELAY_BUFFER_SIZE (re_stack env) ?w"
  have p: "length p < 65536" using assms(4) by simp
  note f = relay_packet_fields [OF p, where old = old and ty = RELAY_PKT_DATA and sid = ?sid and sequence = sequence]
  have lw: "length ?w \<le> 4096" using f(1) assms(4) by (simp add: RELAY_SIZEOF_def)
  then have buf: "?buf = ?w @ drop (length ?w) (stack_buffer 4096 (re_stack env))"
    by (simp add: receive_into_def RELAY_BUFFER_SIZE_def)
  have n: "\<not> min RELAY_BUFFER_SIZE (length ?w) < RELAY_SIZEOF" using f(1) by (simp add: RELAY_BUFFER_SIZE_def RELAY_SIZEOF_def)
  have "length ?buf = 4096" using lw by (simp add: buf stack_buffer_def)
  moreover have "take (length p) (drop RELAY_PAYLOAD ?buf) = p" unfolding buf by (rule f(7))
  ultimately have rd: "rd_block ?buf RELAY_PAYLOAD (length p) = Some p"
    using assms(4) by (simp only: rd_block_def) (simp add: RELAY_PAYLOAD_def)
  have "i < length (rm_sessions m)" using relay_table.found_key [OF assms(1)] by simp
  moreover have "relay_recv env (Some a) max_len m
      = Some (int (length p), p, upd_relay i (\<lambda>s. s\<lparr>rs_last_activity := re_clk env 0\<rparr>) m)"
    using assms(1,2,3,5,6) n rd f(2,4,5,6) [of "drop (length ?w) (stack_buffer 4096 (re_stack env))"]
    unfolding relay_recv_def by (simp add: buf [symmetric] min_absorb1 Let_def)
  ultimately show ?thesis by (simp add: upd_relay_def)
qed

text \<open>
  A data packet for a secure session makes the listener read outside its 4096-byte buffer
  exactly if the length it announces is more than 4074, whatever number of bytes arrived.
\<close>

theorem relay_process_overrun_iff:
  assumes "i < length (rm_sessions m)" and "rs_is_secure (rm_sessions m ! i)"
    and "rs_shared_secret (rm_sessions m ! i) ! 0 \<noteq> 0" and "re_ok env = (\<lambda>_. True)"
    and "length buf = RELAY_BUFFER_SIZE" and "RELAY_SIZEOF \<le> n" and "from_le32 buf = RELAY_MAGIC"
    and "buf ! 4 = RELAY_PROTOCOL_VERSION" and "buf ! 5 = RELAY_PKT_DATA"
  shows "relay_process_packet env i buf n m = None \<longleftrightarrow> 4074 < relay_payload_len buf"
  using assms
  by (auto simp: relay_process_packet_def Let_def upd_relay_def relay_types RELAY_BUFFER_SIZE_def RELAY_PAYLOAD_def
      split: prod.split)

section \<open>Concrete runs\<close>

text \<open>An environment in which everything works and the old stack is zero; one established session.\<close>

definition sample_relay_env :: relay_env where
  "sample_relay_env = \<lparr>re_clk = (\<lambda>_. 1000), re_pid = 42, re_rand = 7, re_ok = (\<lambda>_. True), re_random = replicate 48 9,
     re_ssl = toy_ssl, re_malloc = (\<lambda>_. True), re_mutex = True, re_socket = 5, re_bind = True, re_send = True,
     re_recv = Would_Block, re_stack = replicate 200 0, re_identity = None, re_dht = (True, True), re_nodes = []\<rparr>"

definition fresh_relay :: relay where
  "fresh_relay = \<lparr>rm_sessions = [], rm_initialized = True, rm_is_relay_node = False, rm_my_id = ''076'',
     rm_relay_port = 9000, rm_relay_socket = 5, rm_running = True, rm_announce_running = False, rm_closed = [],
     rm_sent = [], rm_announced = [], rm_crypto = \<lparr>c_error = [], c_live = {#}\<rparr>\<rparr>"

definition sample_relay_session :: RelaySession where
  "sample_relay_session = (new_relay_session sample_relay_env ''077'')\<lparr>rs_state := RELAY_STATE_ESTABLISHED,
     rs_shared_secret := replicate 32 9, rs_is_secure := True\<rparr>"

definition sample_relay :: relay where
  "sample_relay = fresh_relay\<lparr>rm_sessions := [sample_relay_session]\<rparr>"

lemma fresh_relay_started: "relay_started fresh_relay"
  by (rule relay_started.intros [of sample_relay_env "Some ''076''" 9000 "\<lparr>c_error = [], c_live = {#}\<rparr>"])
    (simp add: relay_manager_init_def sample_relay_env_def relay_create_udp_socket_def fresh_relay_def strcpy_into_fits Let_def)

lemma sample_relay_find [simp]: "relay_find_session sample_relay ''077'' = Some 0"
  "rm_sessions sample_relay = [sample_relay_session]"
  by (simp_all add: sample_relay_def relay_find_session_def sample_relay_session_def new_relay_session_def)

lemma plain_samples [simp]: "plain_id ''077'' " "plain_id ''078''"
  by (simp_all add: plain_id_def)

lemma sample_handshake [simp]:
  "relay_handshake_text ''077'' 5 ''078'' = ''RELAY_HANDSHAKE:077:5:078''"
proof -
  have "dec_nat 5 = ''5''" by (simp add: dec_nat.simps digit_char_def) code_simp
  then show ?thesis by (simp add: handshake_text_fits)
qed

theorem handshake_text_roundtrip_witness:
  "parse_handshake (relay_handshake_text ''077'' 5 ''078'') = Some (Some (''077'', 5, ''078''))"
  by (rule handshake_text_roundtrip) simp_all

theorem handshake_registers_target_witness:
  "\<exists>m'. relay_listener_receive sample_relay_env (string_bytes ''RELAY_HANDSHAKE:077:5:078'') ''10.0.0.8'' 9000 fresh_relay = Some m'
    \<and> relay_get_peer_count m' = relay_get_peer_count fresh_relay + 1
    \<and> (\<exists>s. last (rm_sessions m') = s \<and> rs_peer_id s = ''077'' \<and> rs_session_id s = 5 \<and> rs_state s = RELAY_STATE_ESTABLISHED)
    \<and> relay_get_state (Some ''078'') m' = relay_get_state (Some ''078'') fresh_relay"
  by (rule handshake_registers_target [of _ "''077''" 5 "''078''"])
    (simp_all add: sample_relay_env_def fresh_relay_def RELAY_MAX_PEERS_def)

theorem relay_handshake_flood_witness:
  "\<exists>m'. relay_receive_times sample_relay_env (string_bytes ''RELAY_HANDSHAKE:077:5:078'') ''10.0.0.8'' 9000 RELAY_MAX_PEERS
      fresh_relay = Some m'
    \<and> relay_get_peer_count m' = RELAY_MAX_PEERS \<and> relay_accept sample_relay_env (Some ''079'') None m' = Some (-1, m')"
  by (rule relay_handshake_flood [of _ "''077''" 5 "''078''"]) (simp_all add: sample_relay_env_def fresh_relay_def)

theorem relay_packet_roundtrip_witness:
  "\<exists>m'. relay_recv (sample_relay_env\<lparr>re_recv := Received (relay_packet [] RELAY_PKT_DATA
        (rs_session_id sample_relay_session) 9 [1, 2, 3])\<rparr>) (Some ''077'') 512 sample_relay = Some (int (length [1, 2, 3 :: byte]), [1, 2, 3], m')
    \<and> rs_last_activity (rm_sessions m' ! 0)
      = re_clk (sample_relay_env\<lparr>re_recv := Received (relay_packet [] RELAY_PKT_DATA (rs_session_id sample_relay_session) 9 [1, 2, 3])\<rparr>) 0"
  by (rule relay_packet_roundtrip [of _ _ _ _ "[]" 9]) (simp_all add: sample_relay_session_def)

definition overlong_packet :: "byte list" where
  "overlong_packet = le32 RELAY_MAGIC @ [RELAY_PROTOCOL_VERSION, RELAY_PKT_DATA] @ replicate 14 0 @ [0xFF, 0xFF] @ replicate 4074 0"

theorem relay_process_overrun_iff_witness:
  "relay_process_packet sample_relay_env 0 overlong_packet 24 sample_relay = None"
  by (subst relay_process_overrun_iff)
    (simp_all add: overlong_packet_def relay_payload_len_def nth_append from_le32_le32 sample_relay_session_def
      sample_relay_env_def RELAY_BUFFER_SIZE_def RELAY_SIZEOF_def)

text \<open>Accepting a peer is a way to an established session.\<close>

lemma accepted_relay:
  obtains m where "relay_accept sample_relay_env (Some ''077'') None fresh_relay = Some (0, m)"
    and "relay_is_connected (Some ''077'') m"
proof -
  let ?m0 = "fresh_relay\<lparr>rm_sessions := [new_relay_session sample_relay_env ''077'']\<rparr>"
  let ?f = "\<lambda>s. s\<lparr>rs_relay_id := rs_relay_id (new_relay_session sample_relay_env ''077''), rs_state := RELAY_STATE_ESTABLISHED,
      rs_is_initiator := False, rs_last_activity := re_clk sample_relay_env 3\<rparr>"
  have a: "relay_add_session sample_relay_env ''077'' fresh_relay = Some (Some 0, ?m0)"
    by (simp add: relay_add_session_def fresh_relay_def strcpy_into_fits RELAY_MAX_PEERS_def)
  obtain c secret where k: "relay_generate_session_keys sample_relay_env 0 (upd_relay 0 ?f ?m0)
      = upd_relay 0 (\<lambda>s. s\<lparr>rs_shared_secret := secret, rs_is_secure := True\<rparr>) ((upd_relay 0 ?f ?m0)\<lparr>rm_crypto := c\<rparr>)"
    by (rule keys_shape)
  have "relay_find_session fresh_relay ''077'' = None" by (simp add: relay_find_session_def fresh_relay_def)
  then have "relay_accept sample_relay_env (Some ''077'') None fresh_relay
      = Some (0, relay_generate_session_keys sample_relay_env 0 (upd_relay 0 ?f ?m0))"
    by (simp add: relay_accept_def find_or_add_relay_def a)
  then show thesis
    by (rule that) (unfold k, simp add: relay_is_connected_def relay_find_session_def upd_relay_def new_relay_session_def)
qed

theorem relay_invariant_witness:
  "\<exists>m. relay_accept sample_relay_env (Some ''077'') None fresh_relay = Some (0, m) \<and> relay_inv m"
proof (rule accepted_relay)
  fix m
  assume "relay_accept sample_relay_env (Some ''077'') None fresh_relay = Some (0, m)"
  then have "relay_step\<^sup>*\<^sup>* fresh_relay m" by (blast intro: relay_step.intros)
  from relay_invariant [OF fresh_relay_started this] show ?thesis using \<open>relay_accept _ _ _ _ = _\<close> by blast
qed

theorem relay_send_crashes_witness:
  "\<exists>m. relay_accept sample_relay_env (Some ''077'') None fresh_relay = Some (0, m)
    \<and> relay_send sample_relay_env (Some ''077'') (Some [1, 2, 3]) m = None"
proof (rule accepted_relay)
  fix m
  assume m: "relay_accept sample_relay_env (Some ''077'') None fresh_relay = Some (0, m)"
    "relay_is_connected (Some ''077'') m"
  then have "relay_step\<^sup>*\<^sup>* fresh_relay m" by (blast intro: relay_step.intros)
  then have "relay_send sample_relay_env (Some ''077'') (Some [1, 2, 3]) m = None"
    by (rule relay_send_crashes [OF fresh_relay_started _ m(2)]) (simp_all add: sample_relay_env_def)
  then show ?thesis using m(1) by blast
qed

end
