(* ===== verification/Unix_Files.thy ===== *)
theory Unix_Files
  imports Orca_Prelude
begin

text \<open>
  The file system as the sources use it: directories and text files under absolute paths, found
  component by component with \<open>.\<close> and \<open>..\<close>, and the calls \<open>stat\<close>, \<open>mkdir\<close>,
  \<open>fopen\<close>, \<open>unlink\<close>, \<open>rmdir\<close> and \<open>readdir\<close>.  There are no links and no
  other processes; a file is a text without NUL.  No function here models a line of the
  repository.  The locale \<open>text_files\<close> is what a component that keeps several files relies on.
\<close>

section \<open>Paths\<close>

datatype node = Dir | File string

type_synonym fs = "(string list \<times> node) list"

fun split_path :: "string \<Rightarrow> string list" where
  "split_path [] = [[]]"
| "split_path (c # s) =
    (if c = CHR ''/'' then [] # split_path s
     else (case split_path s of [] \<Rightarrow> [[c]] | p # ps \<Rightarrow> (c # p) # ps))"

definition node_at :: "fs \<Rightarrow> string list \<Rightarrow> node option" where
  "node_at fs p = (if p = [] then Some Dir else map_of fs p)"

text \<open>The last component need not exist; what leads to it must be directories.\<close>

fun walk :: "fs \<Rightarrow> string list \<Rightarrow> string list \<Rightarrow> string list option" where
  "walk fs cur [] = Some cur"
| "walk fs cur (c # cs) =
    (if c = [] \<or> c = ''.'' then walk fs cur cs
     else if c = ''..'' then walk fs (butlast cur) cs
     else if (\<forall>d \<in> set cs. d = []) then Some (cur @ [c])
     else if node_at fs (cur @ [c]) = Some Dir then walk fs (cur @ [c]) cs
     else None)"

definition resolve :: "fs \<Rightarrow> string \<Rightarrow> string list option" where
  "resolve fs path = walk fs [] (split_path path)"

section \<open>The calls\<close>

definition put_node :: "string list \<Rightarrow> node \<Rightarrow> fs \<Rightarrow> fs" where
  "put_node p n fs =
    (if p \<in> fst ` set fs then map (\<lambda>(q, m). if q = p then (q, n) else (q, m)) fs else fs @ [(p, n)])"

definition drop_node :: "string list \<Rightarrow> fs \<Rightarrow> fs" where
  "drop_node p fs = filter (\<lambda>(q, _). q \<noteq> p) fs"

definition entries :: "fs \<Rightarrow> string list \<Rightarrow> string list" where
  "entries fs d = map last (filter (\<lambda>q. q \<noteq> [] \<and> butlast q = d) (map fst fs))"

definition stat_path :: "fs \<Rightarrow> string \<Rightarrow> node option" where
  "stat_path fs path = Option.bind (resolve fs path) (node_at fs)"

definition read_path :: "fs \<Rightarrow> string \<Rightarrow> string option" where
  "read_path fs path = (case stat_path fs path of Some (File t) \<Rightarrow> Some t | _ \<Rightarrow> None)"

definition write_path :: "fs \<Rightarrow> string \<Rightarrow> string \<Rightarrow> fs option" where
  "write_path fs path t = do {
     p \<leftarrow> resolve fs path;
     if node_at fs p = Some Dir \<or> node_at fs (butlast p) \<noteq> Some Dir then None else Some (put_node p (File t) fs) }"

definition mkdir_path :: "fs \<Rightarrow> string \<Rightarrow> fs option" where
  "mkdir_path fs path = do {
     p \<leftarrow> resolve fs path;
     if node_at fs p \<noteq> None \<or> node_at fs (butlast p) \<noteq> Some Dir then None else Some (put_node p Dir fs) }"

definition unlink_path :: "string \<Rightarrow> fs \<Rightarrow> fs" where
  "unlink_path path fs = (case resolve fs path of
      None \<Rightarrow> fs
    | Some p \<Rightarrow> (case node_at fs p of Some (File _) \<Rightarrow> drop_node p fs | _ \<Rightarrow> fs))"

text \<open>\<open>rmdir\<close> refuses a directory that is not empty, and a path that ends in a dot.\<close>

definition rmdir_path :: "string \<Rightarrow> fs \<Rightarrow> fs" where
  "rmdir_path path fs = (case resolve fs path of
      None \<Rightarrow> fs
    | Some p \<Rightarrow>
        if p = [] \<or> node_at fs p \<noteq> Some Dir \<or> entries fs p \<noteq> []
          \<or> last ([] # filter (\<lambda>c. c \<noteq> []) (split_path path)) \<in> {''.'', ''..''}
        then fs else drop_node p fs)"

definition list_dir :: "fs \<Rightarrow> string \<Rightarrow> string list option" where
  "list_dir fs path = (case resolve fs path of
      None \<Rightarrow> None
    | Some p \<Rightarrow> if node_at fs p = Some Dir then Some (entries fs p) else None)"

section \<open>Lookups after updates\<close>

lemma map_of_replace:
  "map_of (map (\<lambda>(q, m). if q = p then (q, n) else (q, m)) fs) q
    = (if q = p \<and> map_of fs p \<noteq> None then Some n else map_of fs q)"
proof (induction fs)
  case (Cons x fs)
  then show ?case by (cases x; cases "q = p") simp_all
qed simp

lemma map_of_put [simp]: "map_of (put_node p n fs) q = (if q = p then Some n else map_of fs q)"
proof (cases "map_of fs p")
  case None
  then have "p \<notin> fst ` set fs" by (simp only: map_of_eq_None_iff not_False_eq_True)
  then have "put_node p n fs = fs @ [(p, n)]" by (simp only: put_node_def if_False)
  then show ?thesis using None by (cases "q = p"; cases "map_of fs q") (simp_all add: map_add_def)
next
  case (Some m)
  then have "p \<in> fst ` set fs" by (metis map_of_eq_None_iff option.distinct(1))
  then show ?thesis using Some by (simp only: put_node_def if_True map_of_replace) simp
qed

lemma map_of_drop [simp]: "map_of (drop_node p fs) q = (if q = p then None else map_of fs q)"
  by (induction fs) (auto simp: drop_node_def)

lemma node_at_put: "p \<noteq> [] \<Longrightarrow> node_at (put_node p n fs) q = (if q = p then Some n else node_at fs q)"
  by (simp add: node_at_def)

lemma node_at_drop: "p \<noteq> [] \<Longrightarrow> node_at (drop_node p fs) q = (if q = p then None else node_at fs q)"
  by (simp add: node_at_def)

text \<open>Paths are found the same way as long as the directories stay.\<close>

lemma walk_cong:
  assumes "\<And>p. (node_at fs p = Some Dir) = (node_at fs' p = Some Dir)"
  shows "walk fs cur cs = walk fs' cur cs"
  using assms by (induction fs cur cs rule: walk.induct) auto

lemma resolve_put_file:
  assumes "p \<noteq> []" and "node_at fs p \<noteq> Some Dir"
  shows "resolve (put_node p (File t) fs) path = resolve fs path"
  unfolding resolve_def by (rule walk_cong) (use assms in \<open>simp add: node_at_put\<close>)

lemma walk_append: "walk fs cur cs = Some p \<Longrightarrow> cur \<noteq> [] \<Longrightarrow> ''..'' \<notin> set cs \<Longrightarrow> p \<noteq> []"
  by (induction fs cur cs rule: walk.induct) (auto split: if_splits)

section \<open>Files that are written and read by their paths\<close>

locale text_files =
  fixes get :: "'s \<Rightarrow> 'p \<Rightarrow> string option"
    and store :: "'s \<Rightarrow> 'p \<Rightarrow> string \<Rightarrow> 's option"
    and usable :: "'s \<Rightarrow> 'p set \<Rightarrow> bool"
  assumes write_usable: "usable s P \<Longrightarrow> p \<in> P \<Longrightarrow> \<exists>s'. store s p t = Some s' \<and> usable s' P \<and> get s' p = Some t
      \<and> (\<forall>q \<in> P. q \<noteq> p \<longrightarrow> get s' q = get s q)"
begin

lemma write_Some:
  assumes "usable s P" and "p \<in> P" and "store s p t = Some s'"
  shows "usable s' P" and "get s' p = Some t" and "q \<in> P \<Longrightarrow> q \<noteq> p \<Longrightarrow> get s' q = get s q"
  using write_usable [OF assms(1,2), of t] assms(3) by auto

text \<open>Files written one after the other hold their texts, the others what they held.\<close>

fun write_all :: "'s \<Rightarrow> ('p \<times> string) list \<Rightarrow> 's option" where
  "write_all s [] = Some s"
| "write_all s ((p, t) # fs) = Option.bind (store s p t) (\<lambda>s'. write_all s' fs)"

lemma write_all_reads:
  assumes "usable s P" and "fst ` set fs \<subseteq> P" and "distinct (map fst fs)"
  shows "\<exists>s'. write_all s fs = Some s' \<and> usable s' P \<and> (\<forall>(p, t) \<in> set fs. get s' p = Some t)
    \<and> (\<forall>q \<in> P - fst ` set fs. get s' q = get s q)"
  using assms
proof (induction fs arbitrary: s)
  case (Cons x fs)
  obtain p t where x: "x = (p, t)" by (cases x)
  obtain s1 where s1: "store s p t = Some s1" "usable s1 P" "get s1 p = Some t" "\<forall>q \<in> P. q \<noteq> p \<longrightarrow> get s1 q = get s q"
    using write_usable [of s P p t] Cons.prems x by auto
  obtain s' where "write_all s1 fs = Some s'" "usable s' P" "\<forall>(p, t) \<in> set fs. get s' p = Some t"
    "\<forall>q \<in> P - fst ` set fs. get s' q = get s1 q"
    using Cons.IH [OF s1(2)] Cons.prems by auto
  moreover have "p \<in> P - fst ` set fs" using Cons.prems x by auto
  ultimately show ?case using s1 x by auto
qed simp

end

text \<open>The file system as such a store: paths that lead into existing directories.\<close>

definition usable_files :: "fs \<Rightarrow> string set \<Rightarrow> bool" where
  "usable_files fs P \<longleftrightarrow> (\<forall>path \<in> P. \<exists>p. resolve fs path = Some p \<and> p \<noteq> [] \<and> node_at fs p \<noteq> Some Dir
      \<and> node_at fs (butlast p) = Some Dir) \<and> inj_on (resolve fs) P"

interpretation unix_files: text_files read_path write_path usable_files
proof
  fix fs P path t
  assume u: "usable_files fs P" and path: "path \<in> P"
  then obtain p where p: "resolve fs path = Some p" "p \<noteq> []" "node_at fs p \<noteq> Some Dir" "node_at fs (butlast p) = Some Dir"
    unfolding usable_files_def by blast
  let ?fs = "put_node p (File t) fs"
  have r: "resolve ?fs q = resolve fs q" for q by (rule resolve_put_file [OF p(2,3)])
  have "butlast p \<noteq> p" using p(2) by (metis append_butlast_last_id not_Cons_self2 self_append_conv)
  have "usable_files ?fs P"
    unfolding usable_files_def r
  proof (intro conjI ballI)
    fix q assume "q \<in> P"
    then obtain d where d: "resolve fs q = Some d" "d \<noteq> []" "node_at fs d \<noteq> Some Dir" "node_at fs (butlast d) = Some Dir"
      using u unfolding usable_files_def by blast
    then show "\<exists>p. resolve fs q = Some p \<and> p \<noteq> [] \<and> node_at ?fs p \<noteq> Some Dir \<and> node_at ?fs (butlast p) = Some Dir"
      using p by (intro exI [of _ d]) (auto simp: node_at_put)
  qed (use u in \<open>simp add: usable_files_def inj_on_def\<close>)
  moreover have "read_path ?fs q = read_path fs q" if "q \<in> P" "q \<noteq> path" for q
  proof -
    have "resolve fs q \<noteq> Some p" using u path that p(1) unfolding usable_files_def inj_on_def by metis
    then show ?thesis using p(2) by (cases "resolve fs q") (simp_all add: read_path_def stat_path_def r node_at_put)
  qed
  ultimately show "\<exists>s'. write_path fs path t = Some s' \<and> usable_files s' P \<and> read_path s' path = Some t
      \<and> (\<forall>q \<in> P. q \<noteq> path \<longrightarrow> read_path s' q = read_path fs q)"
    using p by (intro exI [of _ ?fs]) (simp add: write_path_def read_path_def stat_path_def r node_at_put)
qed

end
