(* ===== verification/Identity_Store.thy ===== *)
theory Identity_Store
  imports Orca_Crypto State_Manager Unix_Files
begin

text \<open>
  \<^verbatim>\<open>orca_identity.c\<close>: creating an identity, its JSON text and its files, loading, passcodes
  and ids.

  The environment \<open>ident_env\<close> holds clock, random numbers, the outcomes of OpenSSL calls (the
  calls of one operation draw from disjoint ranges of \<open>ie_ok\<close>, \<open>nth_call\<close>), whether memory is
  there and whether a file can be opened for writing.  \<open>None\<close> is a write past the end of an
  array.  \<open>c_live\<close> counts the objects the wrappers of \<^verbatim>\<open>orca_crypto.c\<close> hand out; the buffers
  this file allocates itself are not counted.

  A passcode key is written as 64 hexadecimal digits and a NUL into an array of 32 bytes: that
  write is \<open>None\<close> like every other past the end of an array.
\<close>

section \<open>Data\<close>

definition ORCA_IDENTITY_HOME :: string where "ORCA_IDENTITY_HOME = ''/tmp/.orcashi/identity/''"
definition ORCA_IDENTITY_FILE :: string where "ORCA_IDENTITY_FILE = ORCA_IDENTITY_HOME @ ''identity.json''"
definition ORCA_PUBLIC_KEY_FILE :: string where "ORCA_PUBLIC_KEY_FILE = ORCA_IDENTITY_HOME @ ''public.pem''"
definition ORCA_PRIVATE_KEY_FILE :: string where "ORCA_PRIVATE_KEY_FILE = ORCA_IDENTITY_HOME @ ''private.enc''"
definition ORCA_SIGNATURE_FILE :: string where "ORCA_SIGNATURE_FILE = ORCA_IDENTITY_HOME @ ''signature.txt''"
definition ORCA_SALT_FILE :: string where "ORCA_SALT_FILE = ORCA_IDENTITY_HOME @ ''salt.hex''"
definition ORCA_METADATA_FILE :: string where "ORCA_METADATA_FILE = ORCA_IDENTITY_HOME @ ''metadata.json''"

definition ORCA_PBKDF2_ITERATIONS :: int where "ORCA_PBKDF2_ITERATIONS = 100000"
definition ORCA_IDENTITY_MODE_NORMAL :: int where "ORCA_IDENTITY_MODE_NORMAL = 0"
definition ORCA_IDENTITY_MODE_SECURE :: int where "ORCA_IDENTITY_MODE_SECURE = 1"

definition ORCA_IDENTITY_VERSION :: string where "ORCA_IDENTITY_VERSION = ''1.0''"
definition ORCA_NAME_LEN :: nat where "ORCA_NAME_LEN = 128"
definition ORCA_ROLE_LEN :: nat where "ORCA_ROLE_LEN = 32"
definition ORCA_PUBKEY_LEN :: nat where "ORCA_PUBKEY_LEN = 4096"
definition ORCA_ENCRYPTED_LEN :: nat where "ORCA_ENCRYPTED_LEN = 4096"
definition ORCA_SIG_LEN :: nat where "ORCA_SIG_LEN = 512"

lemmas identity_files = ORCA_IDENTITY_FILE_def ORCA_PUBLIC_KEY_FILE_def ORCA_PRIVATE_KEY_FILE_def
  ORCA_SIGNATURE_FILE_def ORCA_SALT_FILE_def ORCA_METADATA_FILE_def ORCA_IDENTITY_HOME_def

lemmas identity_sizes = ORCA_ID_LEN_def ORCA_NAME_LEN_def ORCA_ROLE_LEN_def ORCA_PUBKEY_LEN_def
  ORCA_ENCRYPTED_LEN_def ORCA_SIG_LEN_def

lemmas identity_modes = ORCA_IDENTITY_MODE_NORMAL_def ORCA_IDENTITY_MODE_SECURE_def

text \<open>The mode is an \<open>int\<close>: it is read with \<open>atoi\<close> and printed with \<open>%d\<close>.\<close>

record OrcaIdentity =
  oi_id :: string
  oi_name :: string
  oi_role :: string
  oi_mode :: int
  oi_created_at :: int
  oi_last_used :: int
  oi_verified :: bool
  oi_public_key :: string
  oi_private_key_encrypted :: string
  oi_signature :: string
  oi_salt_hex :: string
  oi_version :: string

definition zero_identity :: OrcaIdentity where
  "zero_identity = \<lparr>oi_id = [], oi_name = [], oi_role = [], oi_mode = 0, oi_created_at = 0, oi_last_used = 0,
     oi_verified = False, oi_public_key = [], oi_private_key_encrypted = [], oi_signature = [], oi_salt_hex = [],
     oi_version = []\<rparr>"

record ident_env =
  ie_clk :: clock
  ie_rand :: int
  ie_ok :: outcomes
  ie_ssl :: ssl
  ie_seed :: nat
  ie_salt :: "byte list"
  ie_iv :: "byte list"
  ie_stack :: "byte list"
  ie_mem :: bool
  ie_open :: "nat \<Rightarrow> bool"

definition nth_call :: "nat \<Rightarrow> ident_env \<Rightarrow> outcomes" where
  "nth_call k env = shift (100 * k) (ie_ok env)"

section \<open>Helpers\<close>

definition set_identity_error :: "cstate \<Rightarrow> cstate" where
  "set_identity_error c = orca_clear_error c"

definition ensure_directory :: "string \<Rightarrow> fs \<Rightarrow> cstate \<Rightarrow> int \<times> fs \<times> cstate" where
  "ensure_directory path fs c = (case stat_path fs path of
      Some Dir \<Rightarrow> (0, fs, c)
    | Some (File _) \<Rightarrow> (-1, fs, set_identity_error c)
    | None \<Rightarrow> (case mkdir_path fs path of
          None \<Rightarrow> (-1, fs, set_identity_error c)
        | Some fs' \<Rightarrow> (0, fs', c)))"

definition write_file_content :: "bool \<Rightarrow> string \<Rightarrow> string \<Rightarrow> fs \<Rightarrow> int \<times> fs" where
  "write_file_content opens path content fs =
    (if \<not> opens then (-1, fs)
     else case write_path fs path content of None \<Rightarrow> (-1, fs) | Some fs' \<Rightarrow> (0, fs'))"

definition read_file_content :: "bool \<Rightarrow> fs \<Rightarrow> string \<Rightarrow> string option" where
  "read_file_content mem fs path =
    (case read_path fs path of None \<Rightarrow> None | Some t \<Rightarrow> if mem then Some t else None)"

abbreviation dquote :: char where "dquote \<equiv> CHR 0x22"

section \<open>JSON\<close>

definition json_value :: "string \<Rightarrow> string \<Rightarrow> string option" where
  "json_value key json = do {
     pos \<leftarrow> strstr_at json ([dquote] @ key @ [dquote]);
     pos \<leftarrow> strchr_at CHR '':'' pos;
     Some (dropWhile (\<lambda>c. c = CHR '' '' \<or> c = CHR 0x09) (tl pos)) }"

definition json_text :: "string \<Rightarrow> nat \<Rightarrow> string \<Rightarrow> string" where
  "json_text key cap json = (case json_value key json of
      Some (q # r) \<Rightarrow>
        if q = dquote \<and> dquote \<in> set r \<and> length (takeWhile (\<lambda>c. c \<noteq> dquote) r) < cap
        then takeWhile (\<lambda>c. c \<noteq> dquote) r else []
    | _ \<Rightarrow> [])"

text \<open>A field that is still empty is copied from its file, whatever the size of the file.\<close>

definition field_from_file :: "ident_env \<Rightarrow> fs \<Rightarrow> string \<Rightarrow> nat \<Rightarrow> string \<Rightarrow> string option" where
  "field_from_file env fs path cap old =
    (if length old = 0 then (case read_file_content (ie_mem env) fs path of
         None \<Rightarrow> Some old | Some t \<Rightarrow> strcpy_into cap t)
     else Some old)"

definition orca_identity_from_json ::
    "ident_env \<Rightarrow> fs \<Rightarrow> string option \<Rightarrow> OrcaIdentity option \<Rightarrow> cstate \<Rightarrow> (int \<times> OrcaIdentity option \<times> cstate) option" where
  "orca_identity_from_json env fs json out c = (case (json, out) of
      (Some j, Some _) \<Rightarrow> do {
        let oi = zero_identity\<lparr>
           oi_id := json_text ''id'' ORCA_ID_LEN j,
           oi_name := json_text ''name'' ORCA_NAME_LEN j,
           oi_role := json_text ''role'' ORCA_ROLE_LEN j,
           oi_mode := (case json_value ''mode'' j of None \<Rightarrow> 0 | Some v \<Rightarrow> atoi v),
           oi_version := json_text ''version'' 16 j,
           oi_created_at := (case json_value ''created_at'' j of None \<Rightarrow> 0 | Some v \<Rightarrow> atol v),
           oi_last_used := (case json_value ''last_used'' j of None \<Rightarrow> 0 | Some v \<Rightarrow> atol v),
           oi_verified := (case json_value ''verified'' j of None \<Rightarrow> False | Some v \<Rightarrow> contains v ''true'')\<rparr>;
        pub \<leftarrow> field_from_file env fs ORCA_PUBLIC_KEY_FILE ORCA_PUBKEY_LEN (oi_public_key oi);
        let oi = oi\<lparr>oi_public_key := pub\<rparr>;
        if oi_mode oi = ORCA_IDENTITY_MODE_SECURE then do {
          priv \<leftarrow> field_from_file env fs ORCA_PRIVATE_KEY_FILE ORCA_ENCRYPTED_LEN (oi_private_key_encrypted oi);
          sig \<leftarrow> field_from_file env fs ORCA_SIGNATURE_FILE ORCA_SIG_LEN (oi_signature oi);
          salt \<leftarrow> field_from_file env fs ORCA_SALT_FILE 33 (oi_salt_hex oi);
          Some (0, Some (oi\<lparr>oi_private_key_encrypted := priv, oi_signature := sig, oi_salt_hex := salt\<rparr>), c) }
        else Some (0, Some oi, c) }
    | _ \<Rightarrow> Some (-1, out, set_identity_error c))"

definition json_line :: "string \<Rightarrow> string \<Rightarrow> string" where
  "json_line key v = ''  '' @ [dquote] @ key @ [dquote] @ '': '' @ v @ [CHR '','', CHR 0x0A]"

definition json_string :: "string \<Rightarrow> string" where
  "json_string t = [dquote] @ t @ [dquote]"

definition identity_json :: "OrcaIdentity \<Rightarrow> string" where
  "identity_json oi = [CHR ''{'', CHR 0x0A]
     @ json_line ''id'' (json_string (oi_id oi)) @ json_line ''name'' (json_string (oi_name oi))
     @ json_line ''role'' (json_string (oi_role oi)) @ json_line ''mode'' (dec_int (oi_mode oi))
     @ json_line ''version'' (json_string (oi_version oi)) @ json_line ''created_at'' (dec_int (oi_created_at oi))
     @ json_line ''last_used'' (dec_int (oi_last_used oi))
     @ json_line ''verified'' (if oi_verified oi then ''true'' else ''false'')
     @ json_line ''public_key'' (json_string (oi_public_key oi))
     @ json_line ''private_key_encrypted'' (json_string (oi_private_key_encrypted oi))
     @ json_line ''signature'' (json_string (oi_signature oi))
     @ ''  '' @ [dquote] @ ''salt_hex'' @ [dquote] @ '': '' @ json_string (oi_salt_hex oi) @ [CHR 0x0A, CHR ''}'']"

definition orca_identity_to_json :: "ident_env \<Rightarrow> OrcaIdentity option \<Rightarrow> bool \<Rightarrow> cstate \<Rightarrow> int \<times> string option \<times> cstate" where
  "orca_identity_to_json env oi outp c = (case oi of
      None \<Rightarrow> (-1, None, set_identity_error c)
    | Some i \<Rightarrow>
        if \<not> outp then (-1, None, set_identity_error c)
        else if ie_mem env then (0, Some (snprintf_into 8192 (identity_json i)), c)
        else (-1, None, c))"

definition orca_identity_to_json_pretty :: "ident_env \<Rightarrow> OrcaIdentity option \<Rightarrow> bool \<Rightarrow> cstate \<Rightarrow> int \<times> string option \<times> cstate" where
  "orca_identity_to_json_pretty env oi outp c = orca_identity_to_json env oi outp c"

section \<open>Keys and signatures\<close>

text \<open>The key of a passcode: its digits are written into \<open>key[32]\<close>, as characters.\<close>

definition passcode_key :: "ident_env \<Rightarrow> nat \<Rightarrow> string \<Rightarrow> string \<Rightarrow> cstate \<Rightarrow> (byte list option \<times> cstate) option" where
  "passcode_key env k passcode salt_hex c =
    (let (hex, c) = orca_derive_key_from_passcode_hex True (nth_call k env) (ie_ssl env) (Some passcode) (Some salt_hex)
           ORCA_PBKDF2_ITERATIONS c
     in case hex of
          None \<Rightarrow> Some (None, c)
        | Some t \<Rightarrow> if 32 < length t + 1 then None else Some (Some (string_bytes t), c))"

definition identity_text :: "string \<Rightarrow> OrcaIdentity \<Rightarrow> string" where
  "identity_text norm_id oi = snprintf_into 1024
     (norm_id @ ''|'' @ oi_name oi @ ''|'' @ oi_role oi @ ''|'' @ dec_int (oi_created_at oi))"

definition orca_identity_verify :: "ident_env \<Rightarrow> nat \<Rightarrow> OrcaIdentity option \<Rightarrow> cstate \<Rightarrow> bool \<times> cstate" where
  "orca_identity_verify env k oi c = (case oi of
      None \<Rightarrow> (False, c)
    | Some i \<Rightarrow>
        if oi_mode i = ORCA_IDENTITY_MODE_NORMAL then (True, c)
        else orca_rsa_verify_string (nth_call k env) (ie_ssl env) (Some (identity_text (normalize_id 64 (oi_id i)) i))
          (Some (oi_signature i)) (Some (oi_public_key i)) c)"

text \<open>The C string in a decrypted buffer, which the wrapper terminates.\<close>

definition plain_text :: "byte list \<Rightarrow> string" where
  "plain_text bs = bytes_string (takeWhile (\<lambda>b. b \<noteq> 0) bs)"

definition orca_identity_verify_with_passcode ::
    "ident_env \<Rightarrow> OrcaIdentity option \<Rightarrow> string option \<Rightarrow> cstate \<Rightarrow> (bool \<times> cstate) option" where
  "orca_identity_verify_with_passcode env oi passcode c = (case (oi, passcode) of
      (Some i, Some pc) \<Rightarrow> do {
        (key, c) \<leftarrow> passcode_key env 0 pc (oi_salt_hex i) c;
        (case key of
           None \<Rightarrow> Some (False, c)
         | Some k \<Rightarrow>
             let enc = oi_private_key_encrypted i; iv_hex = takeWhile (\<lambda>x. x \<noteq> CHR '':'') enc in
             if CHR '':'' \<notin> set enc then Some (False, c)
             else if length iv_hex \<ge> 33 then Some (False, c)
             else
               let ciphertext_b64 = drop (Suc (length iv_hex)) enc;
                   key_hex = orca_bytes_to_hex (Some k);
                   (dec, c) = orca_aes_cbc_decrypt_string True (nth_call 1 env) (ie_ssl env) (Some ciphertext_b64) (Some iv_hex) key_hex c
               in (case dec of
                  None \<Rightarrow> Some (False, c)
                | Some bs \<Rightarrow>
                    let (sig, c) = orca_rsa_sign_string True (nth_call 2 env) (ie_ssl env) (Some ''test'') (Some (plain_text bs)) c
                    in (case sig of
                       None \<Rightarrow> Some (False, free_res [MEM ''plaintext''] c)
                     | Some sg \<Rightarrow>
                         let (res, c) = orca_rsa_verify_string (nth_call 3 env) (ie_ssl env) (Some ''test'') (Some sg)
                               (Some (oi_public_key i)) c
                         in Some (res, free_res [MEM ''base64'', MEM ''plaintext''] c)))) }
    | _ \<Rightarrow> Some (False, c))"

text \<open>Signing stops before it decrypts the private key, on every path.\<close>

definition orca_identity_sign_message ::
    "OrcaIdentity option \<Rightarrow> string option \<Rightarrow> bool \<Rightarrow> cstate \<Rightarrow> (int \<times> cstate) option" where
  "orca_identity_sign_message oi message outp c = (case (oi, message) of
      (Some i, Some m) \<Rightarrow>
        if \<not> outp then Some (-1, set_identity_error c)
        else if oi_mode i = ORCA_IDENTITY_MODE_NORMAL then Some (-1, set_identity_error c)
        else
          let enc = oi_private_key_encrypted i; iv_hex = takeWhile (\<lambda>x. x \<noteq> CHR '':'') enc in
          if CHR '':'' \<notin> set enc then Some (-1, set_identity_error c)
          else do {
            _ \<leftarrow> strcpy_into 33 iv_hex;
            _ \<leftarrow> strcpy_into ORCA_ENCRYPTED_LEN (drop (Suc (length iv_hex)) enc);
            Some (-1, set_identity_error c) }
    | _ \<Rightarrow> Some (-1, set_identity_error c))"

definition orca_identity_verify_message ::
    "ident_env \<Rightarrow> OrcaIdentity option \<Rightarrow> string option \<Rightarrow> string option \<Rightarrow> cstate \<Rightarrow> bool \<times> cstate" where
  "orca_identity_verify_message env oi message signature c = (case (oi, message, signature) of
      (Some i, Some m, Some sg) \<Rightarrow>
        if oi_mode i = ORCA_IDENTITY_MODE_NORMAL then (True, c)
        else orca_rsa_verify_string (nth_call 0 env) (ie_ssl env) (Some m) (Some sg) (Some (oi_public_key i)) c
    | _ \<Rightarrow> (False, c))"

section \<open>Ids\<close>

definition is_alnum :: "char \<Rightarrow> bool" where
  "is_alnum c \<longleftrightarrow> is_digit c \<or> 65 \<le> (of_char c :: nat) \<and> (of_char c :: nat) \<le> 90
     \<or> 97 \<le> (of_char c :: nat) \<and> (of_char c :: nat) \<le> 122"

definition three_digit_id :: "string \<Rightarrow> bool" where
  "three_digit_id s \<longleftrightarrow> length s = 5 \<and> s ! 0 = CHR ''<'' \<and> s ! 4 = CHR ''>''
     \<and> is_digit (s ! 1) \<and> is_digit (s ! 2) \<and> is_digit (s ! 3)"

definition orca_identity_is_valid_id :: "string option \<Rightarrow> bool" where
  "orca_identity_is_valid_id id_in = (case id_in of
      None \<Rightarrow> False
    | Some s \<Rightarrow>
        if length s = 5 \<and> s ! 0 = CHR ''<'' \<and> s ! 4 = CHR ''>'' then
          is_digit (s ! 1) \<and> is_digit (s ! 2) \<and> is_digit (s ! 3)
        else if 12 \<le> length s \<and> is_prefix ''ORCA-'' s then list_all is_alnum (drop 5 s)
        else False)"

text \<open>Without a hash the digits of what lies on the stack are used.\<close>

definition orca_identity_generate_id ::
    "ident_env \<Rightarrow> nat \<Rightarrow> string option \<Rightarrow> string option \<Rightarrow> bool \<Rightarrow> cstate \<Rightarrow> string option \<times> cstate" where
  "orca_identity_generate_id env k public_key prefix outp c = (case public_key of
      None \<Rightarrow> (None, c)
    | Some p \<Rightarrow>
        if \<not> outp then (None, c)
        else
          let (h, c) = orca_hash_string True (nth_call k env) (ie_ssl env) (Some p) c;
              hash = (case h of None \<Rightarrow> take 32 (ie_stack env @ replicate 32 0) | Some b \<Rightarrow> b);
              hex = the (orca_hash_to_hex (Some hash))
          in (Some (snprintf_into ORCA_ID_LEN ((case prefix of None \<Rightarrow> [] | Some t \<Rightarrow> t) @ take 8 hex)), c))"

definition pad3 :: "nat \<Rightarrow> string" where
  "pad3 n = replicate (3 - length (dec_nat n)) CHR ''0'' @ dec_nat n"

definition orca_identity_generate_normal_id :: "ident_env \<Rightarrow> bool \<Rightarrow> string option" where
  "orca_identity_generate_normal_id env outp =
    (if \<not> outp then None
     else Some (snprintf_into 16 (''<'' @ pad3 (nat (ie_rand env mod 999 + 1)) @ ''>'')))"

section \<open>Creating\<close>

definition free_keys :: "cstate \<Rightarrow> cstate" where
  "free_keys c = free_res [MEM ''private'', MEM ''public''] c"

text \<open>Salt, key and encryption of the private key: the text for the identity, or no text.\<close>

definition lock_private_key ::
    "ident_env \<Rightarrow> string \<Rightarrow> string \<Rightarrow> OrcaIdentity \<Rightarrow> cstate \<Rightarrow> (OrcaIdentity \<times> string option \<times> cstate) option" where
  "lock_private_key env passcode private_key oi c =
    (let (salt, c) = orca_generate_salt_hex True (nth_call 1 env) (ie_salt env) c in
     case salt of
       None \<Rightarrow> Some (oi, None, c)
     | Some sh \<Rightarrow> do {
         s \<leftarrow> strcpy_into 33 sh;
         let oi = oi\<lparr>oi_salt_hex := s\<rparr>;
         (key, c) \<leftarrow> passcode_key env 2 passcode s c;
         (case key of
            None \<Rightarrow> Some (oi, None, c)
          | Some k \<Rightarrow>
              let (enc, c) = orca_aes_cbc_encrypt True (nth_call 3 env) (ie_ssl env) (ie_iv env)
                    (Some (string_bytes private_key)) (Some k) c
              in (case enc of
                 None \<Rightarrow> Some (oi, None, c)
               | Some (iv, ct) \<Rightarrow>
                   let (b64, c) = orca_base64_encode (nth_call 4 env) (ie_ssl env) (Some ct) (int (length ct)) c;
                       text = snprintf_into ORCA_ENCRYPTED_LEN (the (orca_bytes_to_hex (Some iv)) @ '':''
                         @ (case b64 of None \<Rightarrow> ''(null)'' | Some t \<Rightarrow> t));
                       c = free_res [MEM ''ciphertext''] c
                   in Some (oi, Some text, if b64 = None then c else free_res [MEM ''base64''] c))) })"

text \<open>The signature over the identity, its check and the end of a creation.\<close>

definition sign_identity ::
    "ident_env \<Rightarrow> string \<Rightarrow> string \<Rightarrow> OrcaIdentity \<Rightarrow> cstate \<Rightarrow> (int \<times> OrcaIdentity option \<times> cstate) option" where
  "sign_identity env data_to_sign private_key oi c =
    (let (sig, c) = orca_rsa_sign_string True (nth_call 6 env) (ie_ssl env) (Some data_to_sign) (Some private_key) c in
     case sig of
       None \<Rightarrow> Some (-1, Some oi, set_identity_error (free_keys c))
     | Some sg \<Rightarrow> do {
         s \<leftarrow> strcpy_into ORCA_SIG_LEN sg;
         let oi = oi\<lparr>oi_signature := s\<rparr>;
         let (good, c) = orca_identity_verify env 7 (Some oi) (free_res [MEM ''base64''] c);
         Some (if good then (0, Some (oi\<lparr>oi_verified := True\<rparr>), free_keys c)
               else (-1, Some oi, set_identity_error (free_keys c))) })"

definition orca_identity_create ::
    "ident_env \<Rightarrow> string option \<Rightarrow> string option \<Rightarrow> string option \<Rightarrow> OrcaIdentity option \<Rightarrow> cstate
      \<Rightarrow> (int \<times> OrcaIdentity option \<times> cstate) option" where
  "orca_identity_create env name passcode role out c = (case (passcode, out) of
      (Some pc, Some _) \<Rightarrow>
        if length pc < 8 then Some (-1, out, set_identity_error c)
        else
          let oi = zero_identity;
              (keys, c) = orca_rsa_generate_keypair (nth_call 0 env) (ie_ssl env) (ie_seed env) True c
          in (case keys of
             None \<Rightarrow> Some (-1, Some oi, set_identity_error c)
           | Some (public_key, private_key) \<Rightarrow> do {
               (oi, combined, c) \<leftarrow> lock_private_key env pc private_key oi c;
               (case combined of
                  None \<Rightarrow> Some (-1, Some oi, set_identity_error (free_keys c))
                | Some text \<Rightarrow> do {
                    pub \<leftarrow> strcpy_into ORCA_PUBKEY_LEN public_key;
                    let oi = oi\<lparr>oi_name := (case name of None \<Rightarrow> oi_name oi | Some t \<Rightarrow> strncpy_into ORCA_NAME_LEN t),
                       oi_role := (case role of None \<Rightarrow> ''user'' | Some t \<Rightarrow> strncpy_into ORCA_ROLE_LEN t),
                       oi_public_key := pub, oi_private_key_encrypted := text, oi_mode := ORCA_IDENTITY_MODE_SECURE,
                       oi_created_at := ie_clk env 0, oi_last_used := ie_clk env 0, oi_verified := False,
                       oi_version := ORCA_IDENTITY_VERSION\<rparr>;
                    let (nid, c) = orca_identity_generate_id env 5 (Some public_key) (Some ''ORCA-'') True c;
                    let oi = oi\<lparr>oi_id := the nid\<rparr>;
                    sign_identity env (identity_text (oi_id oi) oi) private_key oi c }) })
    | _ \<Rightarrow> Some (-1, out, set_identity_error c))"

definition orca_identity_create_secure_3digit ::
    "ident_env \<Rightarrow> string option \<Rightarrow> string option \<Rightarrow> string option \<Rightarrow> string option \<Rightarrow> OrcaIdentity option \<Rightarrow> cstate
      \<Rightarrow> (int \<times> OrcaIdentity option \<times> cstate) option" where
  "orca_identity_create_secure_3digit env id_in passcode name role out c = (case (id_in, passcode, out) of
      (Some a, Some pc, Some _) \<Rightarrow>
        if \<not> three_digit_id a then Some (-1, out, set_identity_error c)
        else if length pc < 8 then Some (-1, out, set_identity_error c)
        else
          let oi = zero_identity;
              (keys, c) = orca_rsa_generate_keypair (nth_call 0 env) (ie_ssl env) (ie_seed env) True c
          in (case keys of
             None \<Rightarrow> Some (-1, Some oi, set_identity_error c)
           | Some (public_key, private_key) \<Rightarrow> do {
               (oi, combined, c) \<leftarrow> lock_private_key env pc private_key oi c;
               (case combined of
                  None \<Rightarrow> Some (-1, Some oi, set_identity_error (free_keys c))
                | Some text \<Rightarrow> do {
                    a \<leftarrow> strcpy_into ORCA_ID_LEN a;
                    pub \<leftarrow> strcpy_into ORCA_PUBKEY_LEN public_key;
                    let oi = oi\<lparr>oi_id := a,
                       oi_name := (case name of None \<Rightarrow> ''orcashi'' | Some t \<Rightarrow> strncpy_into ORCA_NAME_LEN t),
                       oi_role := (case role of None \<Rightarrow> ''user'' | Some t \<Rightarrow> strncpy_into ORCA_ROLE_LEN t),
                       oi_public_key := pub, oi_private_key_encrypted := text, oi_mode := ORCA_IDENTITY_MODE_SECURE,
                       oi_created_at := ie_clk env 0, oi_last_used := ie_clk env 0, oi_verified := False,
                       oi_version := ORCA_IDENTITY_VERSION\<rparr>;
                    sign_identity env (identity_text (normalize_id 64 (oi_id oi)) oi) private_key oi c }) })
    | _ \<Rightarrow> Some (-1, out, set_identity_error c))"

definition orca_identity_create_normal ::
    "ident_env \<Rightarrow> string option \<Rightarrow> string option \<Rightarrow> OrcaIdentity option \<Rightarrow> cstate \<Rightarrow> int \<times> OrcaIdentity option \<times> cstate" where
  "orca_identity_create_normal env id_in ip out c = (case (id_in, ip, out) of
      (Some a, Some _, Some _) \<Rightarrow>
        (0, Some (zero_identity\<lparr>oi_id := strncpy_into ORCA_ID_LEN a, oi_mode := ORCA_IDENTITY_MODE_NORMAL,
           oi_created_at := ie_clk env 0, oi_last_used := ie_clk env 0, oi_verified := True,
           oi_version := ORCA_IDENTITY_VERSION, oi_role := ''user''\<rparr>), c)
    | _ \<Rightarrow> (-1, out, set_identity_error c))"

section \<open>Loading and saving\<close>

text \<open>What both ways of loading do once the JSON text is parsed.\<close>

definition unlock_identity ::
    "ident_env \<Rightarrow> OrcaIdentity \<Rightarrow> string option \<Rightarrow> cstate \<Rightarrow> (int \<times> OrcaIdentity option \<times> cstate) option" where
  "unlock_identity env oi passcode c =
    (let opened = oi\<lparr>oi_verified := True, oi_last_used := ie_clk env 0\<rparr> in
     if oi_mode oi = ORCA_IDENTITY_MODE_SECURE then
       (if passcode = None then Some (-1, Some oi, set_identity_error c)
        else do {
          (good, c) \<leftarrow> orca_identity_verify_with_passcode env (Some oi) passcode c;
          Some (if good then (0, Some opened, c) else (-1, Some oi, set_identity_error c)) })
     else Some (0, Some opened, c))"

definition orca_identity_load ::
    "ident_env \<Rightarrow> OrcaIdentity option \<Rightarrow> string option \<Rightarrow> fs \<Rightarrow> cstate \<Rightarrow> (int \<times> OrcaIdentity option \<times> cstate) option" where
  "orca_identity_load env out passcode fs c =
    (if out = None then Some (-1, out, set_identity_error c)
     else (case read_file_content (ie_mem env) fs ORCA_IDENTITY_FILE of
        None \<Rightarrow> Some (-1, out, set_identity_error c)
      | Some json \<Rightarrow> do {
          (rc, oi, c) \<leftarrow> orca_identity_from_json env fs (Some json) out c;
          if rc < 0 then Some (-1, oi, set_identity_error c)
          else unlock_identity env (the oi) passcode c }))"

definition orca_identity_list :: "ident_env \<Rightarrow> bool \<Rightarrow> fs \<Rightarrow> cstate \<Rightarrow> int \<times> string list \<times> cstate" where
  "orca_identity_list env outs fs c =
    (if \<not> outs then (-1, [], set_identity_error c)
     else (case list_dir fs ORCA_IDENTITY_HOME of
        None \<Rightarrow> (0, [], c)
      | Some names \<Rightarrow>
          let found = filter (\<lambda>n. stat_path fs (snprintf_into 512 (ORCA_IDENTITY_HOME @ n @ ''/identity.json'')) \<noteq> None) names
          in if found = [] \<or> ie_mem env then (0, found, c) else (-1, [], set_identity_error c)))"

definition orca_identity_load_by_id ::
    "ident_env \<Rightarrow> string option \<Rightarrow> OrcaIdentity option \<Rightarrow> string option \<Rightarrow> fs \<Rightarrow> cstate
      \<Rightarrow> (int \<times> OrcaIdentity option \<times> cstate) option" where
  "orca_identity_load_by_id env id_in out passcode fs c = (case (id_in, out) of
      (Some a, Some _) \<Rightarrow>
        let (rc, names, c) = orca_identity_list env True fs c in
        if rc < 0 then Some (-1, out, c)
        else if a \<notin> set names then Some (-1, out, set_identity_error c)
        else (case read_file_content (ie_mem env) fs (snprintf_into 512 (ORCA_IDENTITY_HOME @ a @ ''/identity.json'')) of
            None \<Rightarrow> Some (-1, out, set_identity_error c)
          | Some json \<Rightarrow> do {
              (rc, oi, c) \<leftarrow> orca_identity_from_json env fs (Some json) out c;
              if rc < 0 then Some (-1, oi, set_identity_error c)
              else unlock_identity env (the oi) passcode c })
    | _ \<Rightarrow> Some (-1, out, set_identity_error c))"

text \<open>The files are written one after the other; a failure leaves those before it.\<close>

fun write_files :: "(nat \<Rightarrow> bool) \<Rightarrow> nat \<Rightarrow> (string \<times> string) list \<Rightarrow> fs \<Rightarrow> int \<times> fs" where
  "write_files opens k [] fs = (0, fs)"
| "write_files opens k ((path, t) # rest) fs =
    (let (rc, fs) = write_file_content (opens k) path t fs
     in if rc < 0 then (-1, fs) else write_files opens (k + 1) rest fs)"

definition orca_identity_save :: "ident_env \<Rightarrow> OrcaIdentity option \<Rightarrow> fs \<Rightarrow> cstate \<Rightarrow> int \<times> fs \<times> cstate" where
  "orca_identity_save env identity fs c = (case identity of
      None \<Rightarrow> (-1, fs, set_identity_error c)
    | Some oi \<Rightarrow>
        let (rc, fs, c) = ensure_directory ORCA_IDENTITY_HOME fs c in
        if rc < 0 then (-1, fs, c)
        else (case orca_identity_to_json env (Some oi) True c of
            (_, None, c) \<Rightarrow> (-1, fs, set_identity_error c)
          | (_, Some json, c) \<Rightarrow>
              let (rc, fs) = write_files (ie_open env) 0
                    ([(ORCA_IDENTITY_FILE, json), (ORCA_PUBLIC_KEY_FILE, oi_public_key oi)]
                     @ (if oi_mode oi = ORCA_IDENTITY_MODE_SECURE
                        then [(ORCA_PRIVATE_KEY_FILE, oi_private_key_encrypted oi), (ORCA_SIGNATURE_FILE, oi_signature oi),
                              (ORCA_SALT_FILE, oi_salt_hex oi)]
                        else [])) fs
              in (if rc < 0 then (-1, fs, set_identity_error c) else (0, fs, c))))"

definition orca_identity_delete :: "string option \<Rightarrow> fs \<Rightarrow> cstate \<Rightarrow> int \<times> fs \<times> cstate" where
  "orca_identity_delete id_in fs c = (case id_in of
      None \<Rightarrow> (-1, fs, set_identity_error c)
    | Some a \<Rightarrow>
        let path = snprintf_into 512 (ORCA_IDENTITY_HOME @ a) in
        if stat_path fs path = None then (-1, fs, set_identity_error c)
        else
          let names = (case list_dir fs path of None \<Rightarrow> [] | Some ns \<Rightarrow> ns);
              fs = fold (\<lambda>n. unlink_path (snprintf_into 512 (path @ ''/'' @ n))) names fs
          in (0, rmdir_path path fs, c))"

definition orca_identity_exists :: "string option \<Rightarrow> fs \<Rightarrow> bool" where
  "orca_identity_exists id_in fs = (case id_in of
      Some a \<Rightarrow> stat_path fs (snprintf_into 512 (ORCA_IDENTITY_HOME @ a @ ''/identity.json'')) \<noteq> None
    | None \<Rightarrow> stat_path fs ORCA_IDENTITY_FILE \<noteq> None)"

definition orca_identity_get_default :: "ident_env \<Rightarrow> bool \<Rightarrow> fs \<Rightarrow> cstate \<Rightarrow> int \<times> string option \<times> cstate" where
  "orca_identity_get_default env outp fs c =
    (if \<not> outp then (-1, None, set_identity_error c)
     else (case read_file_content (ie_mem env) fs ORCA_METADATA_FILE of
        None \<Rightarrow> (-1, None, set_identity_error c)
      | Some json \<Rightarrow> (case strstr_at json ([dquote] @ ''default_id'' @ [dquote, CHR '':'', dquote]) of
            None \<Rightarrow> (-1, None, set_identity_error c)
          | Some pos \<Rightarrow>
              let pos = drop 14 pos in
              if dquote \<notin> set pos then (-1, None, set_identity_error c)
              else (0, Some (take (ORCA_ID_LEN - 1) (takeWhile (\<lambda>x. x \<noteq> dquote) pos)), c))))"

definition orca_identity_set_default :: "ident_env \<Rightarrow> string option \<Rightarrow> fs \<Rightarrow> cstate \<Rightarrow> int \<times> fs \<times> cstate" where
  "orca_identity_set_default env id_in fs c = (case id_in of
      None \<Rightarrow> (-1, fs, set_identity_error c)
    | Some a \<Rightarrow>
        if stat_path fs ORCA_IDENTITY_FILE = None then (-1, fs, set_identity_error c)
        else
          let metadata = snprintf_into 256 ([CHR ''{'', dquote] @ ''default_id'' @ [dquote, CHR '':'', dquote] @ a @ [dquote, CHR ''}'']);
              (rc, fs, c) = ensure_directory ORCA_IDENTITY_HOME fs c
          in if rc < 0 then (-1, fs, c)
             else let (rc, fs) = write_file_content (ie_open env 0) ORCA_METADATA_FILE metadata fs in (rc, fs, c))"

definition orca_identity_storage_init :: "fs \<Rightarrow> cstate \<Rightarrow> int \<times> fs \<times> cstate" where
  "orca_identity_storage_init fs c =
    (let (rc, fs, c) = ensure_directory ORCA_IDENTITY_HOME fs c in (if rc < 0 then -1 else 0, fs, c))"

definition orca_identity_storage_cleanup :: "fs \<Rightarrow> int \<times> fs" where
  "orca_identity_storage_cleanup fs = (0, rmdir_path ORCA_IDENTITY_HOME fs)"

text \<open>The answer on standard input, of which \<open>fgets\<close> takes 15 characters, or its end.\<close>

definition orca_identity_reset :: "bool \<Rightarrow> string option \<Rightarrow> fs \<Rightarrow> int \<times> fs" where
  "orca_identity_reset force input fs =
    (if \<not> force then (-1, fs)
     else (case input of
        None \<Rightarrow> (-1, fs)
      | Some line \<Rightarrow>
          if takeWhile (\<lambda>x. x \<noteq> CHR 0x0A) (take 15 line) \<noteq> ''yes'' then (-1, fs)
          else (0, rmdir_path ORCA_IDENTITY_HOME (fold unlink_path [ORCA_IDENTITY_FILE, ORCA_PUBLIC_KEY_FILE,
            ORCA_PRIVATE_KEY_FILE, ORCA_SIGNATURE_FILE, ORCA_SALT_FILE, ORCA_METADATA_FILE] fs))))"

section \<open>Passcodes\<close>

definition orca_identity_change_passcode ::
    "ident_env \<Rightarrow> string option \<Rightarrow> string option \<Rightarrow> string option \<Rightarrow> fs \<Rightarrow> cstate \<Rightarrow> (int \<times> fs \<times> cstate) option" where
  "orca_identity_change_passcode env id_in old_passcode new_passcode fs c = (case (id_in, old_passcode, new_passcode) of
      (Some a, Some old, Some new) \<Rightarrow>
        if length new < 8 then Some (-1, fs, set_identity_error c)
        else do {
          (rc, identity, c) \<leftarrow> orca_identity_load_by_id env (Some a) (Some zero_identity) (Some old) fs c;
          if rc < 0 then Some (-1, fs, set_identity_error c)
          else
            let oi = the identity; (salt, c) = orca_generate_salt_hex True (nth_call 10 env) (ie_salt env) c in
            (case salt of
               None \<Rightarrow> Some (-1, fs, set_identity_error c)
             | Some new_salt \<Rightarrow> do {
                 (key, c) \<leftarrow> passcode_key env 11 new new_salt c;
                 (case key of
                    None \<Rightarrow> Some (-1, fs, set_identity_error c)
                  | Some new_key \<Rightarrow>
                      let enc = oi_private_key_encrypted oi; old_iv = takeWhile (\<lambda>x. x \<noteq> CHR '':'') enc in
                      if CHR '':'' \<notin> set enc then Some (-1, fs, set_identity_error c)
                      else do {
                        old_iv_hex \<leftarrow> strcpy_into 33 old_iv;
                        old_b64 \<leftarrow> strcpy_into ORCA_ENCRYPTED_LEN (drop (Suc (length old_iv)) enc);
                        let (dec, c) = orca_aes_cbc_decrypt_string True (nth_call 12 env) (ie_ssl env) (Some old_b64)
                              (Some old_iv_hex) (Some old) c;
                        (case dec of
                           None \<Rightarrow> Some (-1, fs, set_identity_error c)
                         | Some bs \<Rightarrow>
                             let (sealed, c) = orca_aes_cbc_encrypt True (nth_call 13 env) (ie_ssl env) (ie_iv env)
                                   (Some (string_bytes (plain_text bs))) (Some new_key) c
                             in (case sealed of
                                None \<Rightarrow> Some (-1, fs, set_identity_error (free_res [MEM ''plaintext''] c))
                              | Some (iv, ct) \<Rightarrow>
                                  let (b64, c) = orca_base64_encode (nth_call 14 env) (ie_ssl env) (Some ct) (int (length ct)) c;
                                      text = snprintf_into ORCA_ENCRYPTED_LEN (the (orca_bytes_to_hex (Some iv)) @ '':''
                                        @ (case b64 of None \<Rightarrow> ''(null)'' | Some t \<Rightarrow> t));
                                      c = free_res [MEM ''ciphertext''] c;
                                      c = (if b64 = None then c else free_res [MEM ''base64''] c);
                                      oi = oi\<lparr>oi_private_key_encrypted := text, oi_salt_hex := new_salt\<rparr>;
                                      (rc, fs, c) = orca_identity_save env (Some oi) fs (free_res [MEM ''plaintext''] c)
                                  in Some (if rc < 0 then (-1, fs, set_identity_error c) else (0, fs, c)))) }) }) }
    | _ \<Rightarrow> Some (-1, fs, set_identity_error c))"

definition orca_identity_check_passcode ::
    "ident_env \<Rightarrow> OrcaIdentity option \<Rightarrow> string option \<Rightarrow> cstate \<Rightarrow> (bool \<times> cstate) option" where
  "orca_identity_check_passcode env oi passcode c =
    (if oi = None \<or> passcode = None then Some (False, c) else orca_identity_verify_with_passcode env oi passcode c)"

text \<open>The text written to \<open>key_out\<close>: 64 digits and a NUL, although the type is a byte array.\<close>

definition orca_identity_derive_key ::
    "ident_env \<Rightarrow> OrcaIdentity option \<Rightarrow> string option \<Rightarrow> bool \<Rightarrow> cstate \<Rightarrow> int \<times> string option \<times> cstate" where
  "orca_identity_derive_key env oi passcode outp c = (case (oi, passcode) of
      (Some i, Some pc) \<Rightarrow>
        if \<not> outp then (-1, None, set_identity_error c)
        else if oi_mode i \<noteq> ORCA_IDENTITY_MODE_SECURE then (-1, None, set_identity_error c)
        else let (hex, c) = orca_derive_key_from_passcode_hex True (nth_call 0 env) (ie_ssl env) (Some pc) (Some (oi_salt_hex i))
                   ORCA_PBKDF2_ITERATIONS c
             in (if hex = None then -1 else 0, hex, c)
    | _ \<Rightarrow> (-1, None, set_identity_error c))"

definition orca_identity_derive_key_hex ::
    "ident_env \<Rightarrow> OrcaIdentity option \<Rightarrow> string option \<Rightarrow> bool \<Rightarrow> cstate \<Rightarrow> (int \<times> string option \<times> cstate) option" where
  "orca_identity_derive_key_hex env oi passcode outp c =
    (if oi = None \<or> passcode = None \<or> \<not> outp then Some (-1, None, set_identity_error c)
     else (case orca_identity_derive_key env oi passcode True c of
        (rc, None, c) \<Rightarrow> Some (-1, None, c)
      | (rc, Some t, c) \<Rightarrow>
          if 32 < length t + 1 then None else Some (0, orca_bytes_to_hex (Some (string_bytes t)), c)))"

section \<open>Queries\<close>

definition orca_identity_get_id :: "OrcaIdentity option \<Rightarrow> bool \<Rightarrow> string option" where
  "orca_identity_get_id oi outp = (if outp then map_option oi_id oi else None)"

definition orca_identity_get_public_key :: "OrcaIdentity option \<Rightarrow> bool \<Rightarrow> string option" where
  "orca_identity_get_public_key oi outp = (if outp then map_option oi_public_key oi else None)"

definition orca_identity_is_secure :: "OrcaIdentity option \<Rightarrow> bool" where
  "orca_identity_is_secure oi = (case oi of None \<Rightarrow> False | Some i \<Rightarrow> oi_mode i = ORCA_IDENTITY_MODE_SECURE)"

definition orca_identity_is_normal :: "OrcaIdentity option \<Rightarrow> bool" where
  "orca_identity_is_normal oi = (case oi of None \<Rightarrow> False | Some i \<Rightarrow> oi_mode i = ORCA_IDENTITY_MODE_NORMAL)"

text \<open>\<open>strcmp\<close> by unsigned characters: the sign of the first difference.\<close>

fun c_strcmp :: "string \<Rightarrow> string \<Rightarrow> int" where
  "c_strcmp [] [] = 0"
| "c_strcmp [] (d # ds) = -1"
| "c_strcmp (c # cs) [] = 1"
| "c_strcmp (c # cs) (d # ds) =
    (if c = d then c_strcmp cs ds else if (of_char c :: nat) < of_char d then -1 else 1)"

definition orca_identity_compare_by_id :: "string option \<Rightarrow> string option \<Rightarrow> int" where
  "orca_identity_compare_by_id id1 id2 = (case (id1, id2) of (Some a, Some b) \<Rightarrow> c_strcmp a b | _ \<Rightarrow> -1)"

definition orca_identity_compare :: "OrcaIdentity option \<Rightarrow> OrcaIdentity option \<Rightarrow> int" where
  "orca_identity_compare oi1 oi2 = (case (oi1, oi2) of (Some i, Some j) \<Rightarrow> c_strcmp (oi_id i) (oi_id j) | _ \<Rightarrow> -1)"

definition orca_identity_matches_id :: "OrcaIdentity option \<Rightarrow> string option \<Rightarrow> bool" where
  "orca_identity_matches_id oi id_in = (case (oi, id_in) of (Some i, Some a) \<Rightarrow> c_strcmp (oi_id i) a = 0 | _ \<Rightarrow> False)"

definition orca_identity_debug_verify_storage :: "ident_env \<Rightarrow> fs \<Rightarrow> cstate \<Rightarrow> (int \<times> cstate) option" where
  "orca_identity_debug_verify_storage env fs c =
    (if \<not> orca_identity_exists None fs then Some (-1, c)
     else do {
       (rc, identity, c) \<leftarrow> orca_identity_load env (Some zero_identity) None fs c;
       if rc < 0 then Some (-1, c)
       else if oi_mode (the identity) = ORCA_IDENTITY_MODE_SECURE then Some (0, c)
       else let (good, c) = orca_identity_verify env 20 identity c in Some (if good then 0 else -1, c) })"

end
