(* ===== verification/Identity_Json.thy ===== *)
theory Identity_Json
  imports Identity_Store
begin

text \<open>
  The JSON text of an identity and its reader: a field is found again when no field holds the
  name of a later one (\<open>plain_identity\<close>), whatever the truncation to 8191 characters leaves of
  the keys behind it.
\<close>

section \<open>Searching for a key\<close>

lemma strstr_skip: "dquote \<notin> set x \<Longrightarrow> strstr_at (x @ s) (dquote # k) = strstr_at s (dquote # k)"
  by (induction x) auto

lemma is_prefix_quoted:
  assumes "dquote \<notin> set t" and "dquote \<notin> set key"
  shows "is_prefix (key @ [dquote]) (t @ dquote # s) \<longleftrightarrow> t = key"
  using assms
proof (induction key arbitrary: t)
  case Nil
  then show ?case by (cases t) auto
next
  case (Cons c key)
  then show ?case by (cases t) auto
qed

text \<open>A quoted text is the key or is passed over, when no letter of the key follows it.\<close>

lemma strstr_quoted:
  assumes "dquote \<notin> set t" and "dquote \<notin> set key" and "key = a # key'" and "c \<noteq> a" and "c \<noteq> dquote"
  shows "strstr_at (dquote # t @ dquote # c # s) (dquote # key @ [dquote])
    = (if t = key then Some (dquote # key @ dquote # c # s) else strstr_at s (dquote # key @ [dquote]))"
proof (cases "t = key")
  case True
  then show ?thesis using is_prefix_quoted [OF assms(1,2), of "c # s"] by simp
next
  case False
  have "strstr_at (dquote # t @ dquote # c # s) (dquote # key @ [dquote])
      = strstr_at (t @ dquote # c # s) (dquote # key @ [dquote])"
    using False is_prefix_quoted [OF assms(1,2), of "c # s"] by simp
  also have "\<dots> = strstr_at (dquote # c # s) (dquote # key @ [dquote])" by (rule strstr_skip [OF assms(1)])
  also have "\<dots> = strstr_at s (dquote # key @ [dquote])" using assms(3-5) by simp
  finally show ?thesis using False by simp
qed

definition key_name :: "string \<Rightarrow> bool" where
  "key_name key \<longleftrightarrow> key \<noteq> [] \<and> dquote \<notin> set key \<and> CHR '':'' \<notin> set key \<and> hd key \<notin> {CHR '':'', CHR '',''}"

lemma line_other_number:
  assumes "key_name key" and "key_name k" and "k \<noteq> key" and "dquote \<notin> set v"
  shows "strstr_at (json_line k v @ s) (dquote # key @ [dquote]) = strstr_at s (dquote # key @ [dquote])"
proof -
  obtain a key' where a: "key = a # key'" using assms(1) by (cases key) (auto simp: key_name_def)
  have "strstr_at (json_line k v @ s) (dquote # key @ [dquote])
      = strstr_at (dquote # k @ dquote # CHR '':'' # '' '' @ v @ CHR '','' # [CHR 0x0A] @ s) (dquote # key @ [dquote])"
    by (simp add: json_line_def)
  also have "\<dots> = strstr_at ('' '' @ v @ CHR '','' # [CHR 0x0A] @ s) (dquote # key @ [dquote])"
    using assms(1-3) by (subst strstr_quoted [OF _ _ a]) (auto simp: key_name_def a)
  also have "\<dots> = strstr_at (('' '' @ v @ [CHR '','', CHR 0x0A]) @ s) (dquote # key @ [dquote])" by simp
  also have "\<dots> = strstr_at s (dquote # key @ [dquote])" by (rule strstr_skip) (simp add: assms(4))
  finally show ?thesis .
qed

lemma line_other_text:
  assumes "key_name key" and "key_name k" and "k \<noteq> key" and "dquote \<notin> set t" and "t \<noteq> key"
  shows "strstr_at (json_line k (json_string t) @ s) (dquote # key @ [dquote]) = strstr_at s (dquote # key @ [dquote])"
proof -
  obtain a key' where a: "key = a # key'" using assms(1) by (cases key) (auto simp: key_name_def)
  have "strstr_at (json_line k (json_string t) @ s) (dquote # key @ [dquote])
      = strstr_at (dquote # k @ dquote # CHR '':'' # '' '' @ dquote # t @ dquote # CHR '','' # [CHR 0x0A] @ s) (dquote # key @ [dquote])"
    by (simp add: json_line_def json_string_def)
  also have "\<dots> = strstr_at ('' '' @ dquote # t @ dquote # CHR '','' # [CHR 0x0A] @ s) (dquote # key @ [dquote])"
    using assms(1-3) by (subst strstr_quoted [OF _ _ a]) (auto simp: key_name_def a)
  also have "\<dots> = strstr_at (dquote # t @ dquote # CHR '','' # [CHR 0x0A] @ s) (dquote # key @ [dquote])" by simp
  also have "\<dots> = strstr_at ([CHR 0x0A] @ s) (dquote # key @ [dquote])"
    using assms(1,4,5) by (subst strstr_quoted [OF _ _ a]) (auto simp: key_name_def a)
  also have "\<dots> = strstr_at s (dquote # key @ [dquote])" by simp
  finally show ?thesis .
qed

lemma line_found:
  assumes "key_name key"
  shows "strstr_at (json_line key v @ s) (dquote # key @ [dquote])
    = Some (dquote # key @ dquote # '': '' @ v @ [CHR '','', CHR 0x0A] @ s)"
proof -
  obtain a key' where a: "key = a # key'" using assms by (cases key) (auto simp: key_name_def)
  have "strstr_at (json_line key v @ s) (dquote # key @ [dquote])
      = strstr_at (dquote # key @ dquote # CHR '':'' # '' '' @ v @ [CHR '','', CHR 0x0A] @ s) (dquote # key @ [dquote])"
    by (simp add: json_line_def)
  also have "\<dots> = Some (dquote # key @ dquote # CHR '':'' # '' '' @ v @ [CHR '','', CHR 0x0A] @ s)"
    using assms by (subst strstr_quoted [OF _ _ a]) (auto simp: key_name_def a)
  finally show ?thesis by simp
qed

lemma value_found:
  assumes "key_name key" and "strstr_at json (dquote # key @ [dquote]) = Some (dquote # key @ dquote # '': '' @ v @ r)"
    and "v = c # v'" and "c \<noteq> CHR '' ''" and "c \<noteq> CHR 0x09"
  shows "json_value key json = Some (v @ r)"
proof -
  have "dropWhile (\<lambda>x. x \<noteq> CHR '':'') (dquote # key @ dquote # '': '' @ v @ r) = '': '' @ v @ r"
    using assms(1) by (auto simp: key_name_def dropWhile_append)
  then have "strchr_at CHR '':'' (dquote # key @ dquote # '': '' @ v @ r) = Some ('': '' @ v @ r)"
    by (simp add: strchr_at_def)
  then show ?thesis using assms(2-5) by (simp add: json_value_def)
qed

section \<open>The text of an identity\<close>

definition json_keys :: "string list" where
  "json_keys = [''id'', ''name'', ''role'', ''mode'', ''version'', ''created_at'', ''last_used'', ''verified'']"

lemma keys_are_names: "key \<in> set json_keys \<Longrightarrow> key_name key"
  by (auto simp: json_keys_def key_name_def)

text \<open>The identities whose text can be read back: the fields fit and are not taken for keys.\<close>

definition plain_field :: "string \<Rightarrow> bool" where
  "plain_field t \<longleftrightarrow> dquote \<notin> set t \<and> t \<notin> set json_keys"

definition plain_identity :: "OrcaIdentity \<Rightarrow> bool" where
  "plain_identity oi \<longleftrightarrow> (\<forall>t \<in> {oi_id oi, oi_name oi, oi_role oi, oi_version oi}. plain_field t)
     \<and> length (oi_id oi) < ORCA_ID_LEN \<and> length (oi_name oi) < ORCA_NAME_LEN \<and> length (oi_role oi) < ORCA_ROLE_LEN
     \<and> length (oi_version oi) < 16 \<and> int_range (oi_mode oi) \<and> long_range (oi_created_at oi) \<and> long_range (oi_last_used oi)"

definition json_head :: "OrcaIdentity \<Rightarrow> string" where
  "json_head oi = [CHR ''{'', CHR 0x0A]
     @ json_line ''id'' (json_string (oi_id oi)) @ json_line ''name'' (json_string (oi_name oi))
     @ json_line ''role'' (json_string (oi_role oi)) @ json_line ''mode'' (dec_int (oi_mode oi))
     @ json_line ''version'' (json_string (oi_version oi)) @ json_line ''created_at'' (dec_int (oi_created_at oi))
     @ json_line ''last_used'' (dec_int (oi_last_used oi))
     @ json_line ''verified'' (if oi_verified oi then ''true'' else ''false'')"

lemma length_json_line: "length (json_line k v) = length k + length v + 8"
  by (simp add: json_line_def)

text \<open>The truncation leaves the first eight lines.\<close>

lemma json_head_kept:
  assumes "plain_identity oi"
  shows "\<exists>r. snprintf_into 8192 (identity_json oi) = json_head oi @ r"
proof -
  have split: "\<exists>tl. identity_json oi = json_head oi @ tl" by (simp add: identity_json_def json_head_def)
  have "length (dec_int (oi_mode oi)) \<le> 21" "length (dec_int (oi_created_at oi)) \<le> 21" "length (dec_int (oi_last_used oi)) \<le> 21"
    using assms int_long_range by (auto simp: plain_identity_def intro!: length_dec_int)
  then have "length (json_head oi) < 8192"
    using assms by (simp add: json_head_def length_json_line json_string_def plain_identity_def identity_sizes)
  then show ?thesis using split by (auto simp: snprintf_into_def)
qed

lemma dec_int_first: "\<exists>c v'. dec_int v = c # v' \<and> c \<noteq> CHR '' '' \<and> c \<noteq> CHR 0x09"
proof (cases "dec_int v")
  case (Cons c v')
  then have "is_digit c \<or> c = CHR ''-''" using dec_int_chars [of c v] by simp
  then show ?thesis using Cons by (auto simp: is_digit_def)
qed simp

lemma dec_int_no_quote: "dquote \<notin> set (dec_int v)"
  using dec_int_chars [of dquote v] by auto

lemma key_names: "key_name ''id''" "key_name ''name''" "key_name ''role''" "key_name ''mode''" "key_name ''version''"
  "key_name ''created_at''" "key_name ''last_used''" "key_name ''verified''"
  by (simp_all add: key_name_def)

lemma head_start: "strstr_at ([CHR ''{'', CHR 0x0A] @ s) (dquote # k) = strstr_at s (dquote # k)"
  by simp

lemmas pass_line = line_other_text line_other_number line_found head_start

lemma json_text_found:
  assumes "json_value key json = Some (json_string t @ r)" and "dquote \<notin> set t" and "length t < cap"
  shows "json_text key cap json = t"
proof -
  have "takeWhile (\<lambda>c. c \<noteq> dquote) (t @ dquote # r) = t"
    using assms(2) by (subst takeWhile_append2) auto
  then show ?thesis using assms by (simp add: json_text_def json_string_def)
qed

lemma json_fields:
  fixes oi r
  defines "j \<equiv> json_head oi @ r"
  assumes "plain_identity oi"
  shows "json_text ''id'' ORCA_ID_LEN j = oi_id oi" and "json_text ''name'' ORCA_NAME_LEN j = oi_name oi"
    and "json_text ''role'' ORCA_ROLE_LEN j = oi_role oi" and "json_text ''version'' 16 j = oi_version oi"
    and "\<exists>s. json_value ''mode'' j = Some (dec_int (oi_mode oi) @ CHR '','' # s)"
    and "\<exists>s. json_value ''created_at'' j = Some (dec_int (oi_created_at oi) @ CHR '','' # s)"
    and "\<exists>s. json_value ''last_used'' j = Some (dec_int (oi_last_used oi) @ CHR '','' # s)"
    and "\<exists>s. json_value ''verified'' j = Some ((if oi_verified oi then ''true'' else ''false'') @ s)"
proof -
  have p: "dquote \<notin> set (oi_id oi)" "dquote \<notin> set (oi_name oi)" "dquote \<notin> set (oi_role oi)" "dquote \<notin> set (oi_version oi)"
    "oi_id oi \<notin> set json_keys" "oi_name oi \<notin> set json_keys" "oi_role oi \<notin> set json_keys" "oi_version oi \<notin> set json_keys"
    using assms(2) by (auto simp: plain_identity_def plain_field_def)
  note keys = p(5-8) [unfolded json_keys_def, simplified]
  note pass = pass_line key_names p(1-4) dec_int_no_quote
  have v: "\<exists>s. json_value key j = Some (x @ [CHR '','', CHR 0x0A] @ s)"
    if "(key, x) \<in> set [(''id'', json_string (oi_id oi)), (''name'', json_string (oi_name oi)), (''role'', json_string (oi_role oi)),
      (''mode'', dec_int (oi_mode oi)), (''version'', json_string (oi_version oi)), (''created_at'', dec_int (oi_created_at oi)),
      (''last_used'', dec_int (oi_last_used oi)), (''verified'', if oi_verified oi then ''true'' else ''false'')]" for key x
  proof -
    have key: "key_name key" using that by (auto simp: key_names)
    have "\<exists>s. strstr_at j (dquote # key @ [dquote]) = Some (dquote # key @ dquote # '': '' @ x @ [CHR '','', CHR 0x0A] @ s)"
      using that keys by (auto simp: j_def json_head_def pass simp del: append.simps append_Cons)
    moreover have "\<exists>c x'. x = c # x' \<and> c \<noteq> CHR '' '' \<and> c \<noteq> CHR 0x09"
      using that dec_int_first by (auto simp: json_string_def)
    ultimately show ?thesis using value_found [OF key] by metis
  qed
  have len: "length (oi_id oi) < ORCA_ID_LEN" "length (oi_name oi) < ORCA_NAME_LEN" "length (oi_role oi) < ORCA_ROLE_LEN"
    "length (oi_version oi) < 16" using assms(2) by (simp_all add: plain_identity_def)
  show "json_text ''id'' ORCA_ID_LEN j = oi_id oi" "json_text ''name'' ORCA_NAME_LEN j = oi_name oi"
    "json_text ''role'' ORCA_ROLE_LEN j = oi_role oi" "json_text ''version'' 16 j = oi_version oi"
    using v [of "''id''"] v [of "''name''"] v [of "''role''"] v [of "''version''"] p len by (auto intro!: json_text_found)
  show "\<exists>s. json_value ''mode'' j = Some (dec_int (oi_mode oi) @ CHR '','' # s)"
    "\<exists>s. json_value ''created_at'' j = Some (dec_int (oi_created_at oi) @ CHR '','' # s)"
    "\<exists>s. json_value ''last_used'' j = Some (dec_int (oi_last_used oi) @ CHR '','' # s)"
    "\<exists>s. json_value ''verified'' j = Some ((if oi_verified oi then ''true'' else ''false'') @ s)"
    using v [of "''mode''"] v [of "''created_at''"] v [of "''last_used''"] v [of "''verified''"] by auto
qed

end
