(* ===== verification/Identity_Properties.thy ===== *)
theory Identity_Properties
  imports Identity_Json Crypto_Properties
begin

text \<open>
  The properties of the identity store: what is saved is loaded, where creating a secure identity
  overruns its key, and what therefore never works.
\<close>

section \<open>Saving and loading\<close>

definition identity_paths :: "string set" where
  "identity_paths = {ORCA_IDENTITY_FILE, ORCA_PUBLIC_KEY_FILE, ORCA_PRIVATE_KEY_FILE, ORCA_SIGNATURE_FILE,
     ORCA_SALT_FILE, ORCA_METADATA_FILE}"

text \<open>The identity directory is there and none of the names of its files is a directory.\<close>

definition home :: "string list" where
  "home = [''tmp'', ''.orcashi'', ''identity'']"

definition home_exists :: "fs \<Rightarrow> bool" where
  "home_exists fs \<longleftrightarrow> node_at fs [''tmp''] = Some Dir \<and> node_at fs [''tmp'', ''.orcashi''] = Some Dir \<and> node_at fs home = Some Dir"

definition identity_names :: "string list" where
  "identity_names = [''identity.json'', ''public.pem'', ''private.enc'', ''signature.txt'', ''salt.hex'', ''metadata.json'']"

definition storage_ready :: "fs \<Rightarrow> bool" where
  "storage_ready fs \<longleftrightarrow> home_exists fs \<and> (\<forall>n \<in> set identity_names. node_at fs (home @ [n]) \<noteq> Some Dir)"

lemma resolve_home: "resolve fs ORCA_IDENTITY_HOME
    = (if node_at fs [''tmp''] = Some Dir \<and> node_at fs [''tmp'', ''.orcashi''] = Some Dir then Some home else None)"
  by (simp add: resolve_def ORCA_IDENTITY_HOME_def home_def)

lemma resolve_identity_files:
  "resolve fs ORCA_IDENTITY_FILE = (if home_exists fs then Some (home @ [''identity.json'']) else None)"
  "resolve fs ORCA_PUBLIC_KEY_FILE = (if home_exists fs then Some (home @ [''public.pem'']) else None)"
  "resolve fs ORCA_PRIVATE_KEY_FILE = (if home_exists fs then Some (home @ [''private.enc'']) else None)"
  "resolve fs ORCA_SIGNATURE_FILE = (if home_exists fs then Some (home @ [''signature.txt'']) else None)"
  "resolve fs ORCA_SALT_FILE = (if home_exists fs then Some (home @ [''salt.hex'']) else None)"
  "resolve fs ORCA_METADATA_FILE = (if home_exists fs then Some (home @ [''metadata.json'']) else None)"
  by (simp_all add: resolve_def identity_files home_def home_exists_def)

lemma storage_ready_iff: "storage_ready fs \<longleftrightarrow> usable_files fs identity_paths"
  by (auto simp: storage_ready_def usable_files_def identity_paths_def identity_names_def resolve_identity_files inj_on_def
      home_exists_def home_def)

lemma stat_home: "storage_ready fs \<Longrightarrow> stat_path fs ORCA_IDENTITY_HOME = Some Dir"
  by (simp add: storage_ready_def home_exists_def stat_path_def resolve_home)

lemma write_all_files:
  "unix_files.write_all fs fts = Some fs' \<Longrightarrow> (\<And>i. opens i) \<Longrightarrow> write_files opens k fts fs = (0, fs')"
proof (induction fts arbitrary: k fs)
  case (Cons x fts)
  then show ?case
    by (cases x) (auto simp: write_file_content_def split: Option.bind_splits)
qed simp

definition fields_fit :: "OrcaIdentity \<Rightarrow> bool" where
  "fields_fit oi \<longleftrightarrow> length (oi_public_key oi) < ORCA_PUBKEY_LEN \<and> length (oi_private_key_encrypted oi) < ORCA_ENCRYPTED_LEN
     \<and> length (oi_signature oi) < ORCA_SIG_LEN \<and> length (oi_salt_hex oi) < 33
     \<and> (oi_mode oi \<noteq> ORCA_IDENTITY_MODE_SECURE \<longrightarrow> oi_private_key_encrypted oi = [] \<and> oi_signature oi = [] \<and> oi_salt_hex oi = [])"

text \<open>The files a successful save leaves.\<close>

definition saved_as :: "OrcaIdentity \<Rightarrow> fs \<Rightarrow> bool" where
  "saved_as oi fs \<longleftrightarrow> read_path fs ORCA_IDENTITY_FILE = Some (snprintf_into 8192 (identity_json oi))
     \<and> read_path fs ORCA_PUBLIC_KEY_FILE = Some (oi_public_key oi)
     \<and> (oi_mode oi = ORCA_IDENTITY_MODE_SECURE \<longrightarrow> read_path fs ORCA_PRIVATE_KEY_FILE = Some (oi_private_key_encrypted oi)
        \<and> read_path fs ORCA_SIGNATURE_FILE = Some (oi_signature oi) \<and> read_path fs ORCA_SALT_FILE = Some (oi_salt_hex oi))"

lemma save_works:
  assumes "storage_ready fs" and "ie_open env = (\<lambda>_. True)" and "ie_mem env"
  shows "\<exists>fs'. orca_identity_save env (Some oi) fs c = (0, fs', c) \<and> storage_ready fs' \<and> saved_as oi fs'"
proof -
  let ?json = "snprintf_into 8192 (identity_json oi)"
  let ?secure = "oi_mode oi = ORCA_IDENTITY_MODE_SECURE"
  let ?fts = "[(ORCA_IDENTITY_FILE, ?json), (ORCA_PUBLIC_KEY_FILE, oi_public_key oi)]
     @ (if ?secure then [(ORCA_PRIVATE_KEY_FILE, oi_private_key_encrypted oi), (ORCA_SIGNATURE_FILE, oi_signature oi),
          (ORCA_SALT_FILE, oi_salt_hex oi)] else [])"
  have u: "usable_files fs identity_paths" using assms(1) by (simp add: storage_ready_iff)
  have "fst ` set ?fts \<subseteq> identity_paths" by (auto simp: identity_paths_def)
  moreover have "distinct (map fst ?fts)" by (cases ?secure) (simp_all add: identity_files)
  ultimately obtain fs' where fs': "unix_files.write_all fs ?fts = Some fs'" "usable_files fs' identity_paths"
    "\<forall>(p, t) \<in> set ?fts. read_path fs' p = Some t"
    using unix_files.write_all_reads [OF u, of ?fts] by blast
  have w: "write_files (ie_open env) 0 ?fts fs = (0, fs')"
    by (rule write_all_files [OF fs'(1)]) (simp add: assms(2))
  have "orca_identity_save env (Some oi) fs c = (0, fs', c)"
    using stat_home [OF assms(1)] w assms(3)
    by (simp add: orca_identity_save_def ensure_directory_def orca_identity_to_json_def)
  moreover have "saved_as oi fs'" using fs'(3) by (simp add: saved_as_def)
  ultimately show ?thesis using fs'(2) by (simp add: storage_ready_iff)
qed

lemma atoi_atol:
  "int_range v \<Longrightarrow> atoi (dec_int v @ CHR '','' # s) = v" "long_range v \<Longrightarrow> atol (dec_int v @ CHR '','' # s) = v"
  by (simp_all add: atoi_def atol_def scan_d_dec scan_ld_dec)

text \<open>Parsing what a save wrote gives the identity back; a false \<open>verified\<close> may become true.\<close>

lemma parse_saved:
  assumes "plain_identity oi" and "fields_fit oi" and "saved_as oi fs" and "ie_mem env"
  shows "\<exists>v. orca_identity_from_json env fs (Some (snprintf_into 8192 (identity_json oi))) (Some x) c
      = Some (0, Some (oi\<lparr>oi_verified := v\<rparr>), c) \<and> (oi_verified oi \<longrightarrow> v)"
proof -
  obtain r where r: "snprintf_into 8192 (identity_json oi) = json_head oi @ r"
    using json_head_kept [OF assms(1)] by blast
  note f = json_fields [OF assms(1), of r]
  obtain s1 s2 s3 s4 where v: "json_value ''mode'' (json_head oi @ r) = Some (dec_int (oi_mode oi) @ CHR '','' # s1)"
    "json_value ''created_at'' (json_head oi @ r) = Some (dec_int (oi_created_at oi) @ CHR '','' # s2)"
    "json_value ''last_used'' (json_head oi @ r) = Some (dec_int (oi_last_used oi) @ CHR '','' # s3)"
    "json_value ''verified'' (json_head oi @ r) = Some ((if oi_verified oi then ''true'' else ''false'') @ s4)"
    using f(5-8) by blast
  have ranges: "int_range (oi_mode oi)" "long_range (oi_created_at oi)" "long_range (oi_last_used oi)"
    using assms(1) by (simp_all add: plain_identity_def)
  let ?v = "contains ((if oi_verified oi then ''true'' else ''false'') @ s4) ''true''"
  have "orca_identity_from_json env fs (Some (json_head oi @ r)) (Some x) c = Some (0, Some (oi\<lparr>oi_verified := ?v\<rparr>), c)"
    using f(1-4) v ranges assms(2-4)
    by (cases oi) (auto simp: orca_identity_from_json_def Let_def field_from_file_def read_file_content_def zero_identity_def
        atoi_atol saved_as_def fields_fit_def strcpy_into_fits)
  then show ?thesis unfolding r by (intro exI [of _ ?v]) auto
qed

lemma load_saved:
  assumes "plain_identity oi" and "fields_fit oi" and "saved_as oi fs" and "ie_mem env"
  shows "\<exists>v. orca_identity_load env (Some x) passcode fs c = unlock_identity env (oi\<lparr>oi_verified := v\<rparr>) passcode c"
proof -
  obtain v where "orca_identity_from_json env fs (Some (snprintf_into 8192 (identity_json oi))) (Some x) c
      = Some (0, Some (oi\<lparr>oi_verified := v\<rparr>), c)"
    using parse_saved [OF assms] by blast
  then have "orca_identity_load env (Some x) passcode fs c = unlock_identity env (oi\<lparr>oi_verified := v\<rparr>) passcode c"
    using assms(3,4) by (simp add: orca_identity_load_def read_file_content_def saved_as_def)
  then show ?thesis by blast
qed

text \<open>
  C30: in a store that can be written, and with memory, an identity is saved without an error if its
  texts fit their arrays, its numbers are in range, its id, name, role and version hold no
  double quote and are no key of the JSON text, and, when it is normal, it has no sealed key, signature or salt.
  A normal one is then loaded with all its fields but two: it is marked verified, and its time of
  last use is the present.  A secure one is refused without a passcode; with one, loading does what
  unlocking the saved identity does.
\<close>

theorem identity_save_load:
  assumes "storage_ready fs" and "ie_open env = (\<lambda>_. True)" and "ie_mem env" and "ie_mem env'"
    and "plain_identity oi" and "fields_fit oi"
  shows "\<exists>fs'. orca_identity_save env (Some oi) fs c = (0, fs', c)
    \<and> (oi_mode oi \<noteq> ORCA_IDENTITY_MODE_SECURE \<longrightarrow> orca_identity_load env' (Some x) passcode fs' c'
        = Some (0, Some (oi\<lparr>oi_verified := True, oi_last_used := ie_clk env' 0\<rparr>), c'))
    \<and> (oi_mode oi = ORCA_IDENTITY_MODE_SECURE \<longrightarrow>
        (\<exists>oi'. orca_identity_load env' (Some x) None fs' c' = Some (-1, oi', set_identity_error c'))
      \<and> (\<exists>v. orca_identity_load env' (Some x) (Some pc) fs' c' = unlock_identity env' (oi\<lparr>oi_verified := v\<rparr>) (Some pc) c'))"
proof -
  obtain fs' where fs': "orca_identity_save env (Some oi) fs c = (0, fs', c)" "saved_as oi fs'"
    using save_works [OF assms(1-3)] by blast
  note l = load_saved [OF assms(5,6) fs'(2) assms(4), of x]
  obtain v where "orca_identity_load env' (Some x) passcode fs' c' = unlock_identity env' (oi\<lparr>oi_verified := v\<rparr>) passcode c'"
    using l by blast
  moreover obtain w where "orca_identity_load env' (Some x) None fs' c' = unlock_identity env' (oi\<lparr>oi_verified := w\<rparr>) None c'"
    using l by blast
  ultimately show ?thesis using fs'(1) l [of "Some pc" c'] by (auto simp: unlock_identity_def Let_def)
qed

section \<open>Creating and opening a secure identity\<close>

text \<open>The documented length of what \<open>PKCS5_PBKDF2_HMAC\<close> writes.\<close>

definition pbkdf2_ok :: "ssl \<Rightarrow> bool" where
  "pbkdf2_ok ssl \<longleftrightarrow> (\<forall>p s i n. length (o_pbkdf2 ssl p s i n) = n)"

text \<open>A key that is derived has 64 digits, and never fits.\<close>

lemma derived_digits:
  assumes "pbkdf2_ok ssl" and "orca_derive_key_from_passcode_hex out ok ssl p s n c = (Some t, c')"
  shows "length t = 64"
  using assms
  by (auto simp: orca_derive_key_from_passcode_hex_def orca_derive_key_from_passcode_def finish_run reject_def
      orca_bytes_to_hex_def length_hex_bytes pbkdf2_ok_def split: sum.splits prod.splits option.splits if_splits bool.splits)

lemma key_never:
  assumes "pbkdf2_ok (ie_ssl env)" and "passcode_key env k p s c = Some (x, c')"
  shows "x = None"
  using assms by (auto simp: passcode_key_def dest: derived_digits split: prod.splits option.splits if_splits)

lemma key_overruns:
  assumes "pbkdf2_ok (ie_ssl env)" and "length salt = 16"
  shows "passcode_key env k p (concat (map hex_byte salt)) c = None \<longleftrightarrow> ie_ok env (100 * k)"
  using assms
  by (simp add: passcode_key_def orca_derive_key_from_passcode_hex_def orca_derive_key_from_passcode_def orca_hex_to_bytes_def
      length_hex_bytes hex_pairs_bytes finish_run nth_call_def shift_def orca_bytes_to_hex_def pbkdf2_ok_def ORCA_PBKDF2_ITERATIONS_def)

lemma lock_never:
  assumes "pbkdf2_ok (ie_ssl env)" and l: "lock_private_key env p priv oi c = Some (oi', x, c1)"
  shows "x = None"
proof -
  obtain salt c2 where s: "orca_generate_salt_hex True (nth_call 1 env) (ie_salt env) c = (salt, c2)" by (rule prod.exhaust)
  show ?thesis
  proof (cases salt)
    case None
    then show ?thesis using l s by (simp add: lock_private_key_def)
  next
    case (Some sh)
    with l s obtain y c3 where k: "passcode_key env 2 p sh c2 = Some (y, c3)"
      by (auto simp: lock_private_key_def Let_def split: Option.bind_splits)
    have y: "y = None" by (rule key_never [OF assms(1) k])
    have "length sh < 33" using l s Some by (auto simp: lock_private_key_def split: Option.bind_splits)
    then show ?thesis using l s Some k y by (simp add: lock_private_key_def strcpy_into_fits Let_def)
  qed
qed

lemma lock_overruns:
  assumes "pbkdf2_ok (ie_ssl env)" and "length (ie_salt env) = 16"
  shows "lock_private_key env p priv oi c = None \<longleftrightarrow> ie_ok env 100 \<and> ie_ok env 200"
proof (cases "ie_ok env 100")
  case False
  then show ?thesis
    by (simp add: lock_private_key_def orca_generate_salt_hex_def orca_generate_salt_def finish_run nth_call_def shift_def)
next
  case True
  let ?sh = "concat (map hex_byte (ie_salt env))"
  obtain c1 where s: "orca_generate_salt_hex True (nth_call 1 env) (ie_salt env) c = (Some ?sh, c1)"
    using True assms(2)
    by (simp add: orca_generate_salt_hex_def orca_generate_salt_def finish_run nth_call_def shift_def orca_bytes_to_hex_def)
  have sh: "length ?sh < 33" by (simp add: assms(2) length_hex_bytes)
  have k: "passcode_key env 2 p ?sh c1 = None \<longleftrightarrow> ie_ok env 200" using key_overruns [OF assms, of 2] by simp
  show ?thesis
  proof (cases "passcode_key env 2 p ?sh c1")
    case None
    then show ?thesis using s sh k True by (simp add: lock_private_key_def strcpy_into_fits)
  next
    case (Some r)
    then obtain c2 where r: "passcode_key env 2 p ?sh c1 = Some (None, c2)" using key_never [OF assms(1)] by (cases r) auto
    then have "\<not> ie_ok env 200" using k by simp
    then show ?thesis using s sh r by (simp add: lock_private_key_def strcpy_into_fits)
  qed
qed

lemma create_never:
  assumes "pbkdf2_ok (ie_ssl env)"
  shows "orca_identity_create_secure_3digit env a pc name role out c = Some (rc, r, c') \<Longrightarrow> rc = -1"
    and "orca_identity_create env name pc role out c = Some (rc, r, c') \<Longrightarrow> rc = -1"
  by (auto simp: orca_identity_create_secure_3digit_def orca_identity_create_def Let_def dest: lock_never [OF assms]
      split: option.splits if_splits prod.splits Option.bind_splits)

text \<open>
  C31: an identity with a passcode is never created.  For an id of three digits and a passcode of
  eight characters or more, creation writes past the end of its array \<open>key[32]\<close> exactly when the
  keys, the salt and the PBKDF2 key were produced, that is when nothing else went wrong; every
  run that stays within its arrays returns -1.
\<close>

theorem create_overrun_iff:
  assumes "pbkdf2_ok (ie_ssl env)" and "length (ie_salt env) = 16"
  shows "(orca_identity_create_secure_3digit env (Some a) (Some pc) name role (Some x) c = None
      \<longleftrightarrow> three_digit_id a \<and> 8 \<le> length pc \<and> fst (orca_rsa_generate_keypair (nth_call 0 env) (ie_ssl env) (ie_seed env) True c) \<noteq> None
        \<and> ie_ok env 100 \<and> ie_ok env 200)
    \<and> (orca_identity_create env name (Some pc) role (Some x) c = None
      \<longleftrightarrow> 8 \<le> length pc \<and> fst (orca_rsa_generate_keypair (nth_call 0 env) (ie_ssl env) (ie_seed env) True c) \<noteq> None
        \<and> ie_ok env 100 \<and> ie_ok env 200)
    \<and> (orca_identity_create_secure_3digit env a' pc' name role out c = Some (rc, r, c') \<longrightarrow> rc = -1)
    \<and> (orca_identity_create env name pc' role out c = Some (rc, r, c') \<longrightarrow> rc = -1)"
proof -
  note lock = lock_never [OF assms(1)]
  obtain keys c1 where g: "orca_rsa_generate_keypair (nth_call 0 env) (ie_ssl env) (ie_seed env) True c = (keys, c1)" by (rule prod.exhaust)
  have l: "lock_private_key env pc priv oi c1 = None \<and> ie_ok env 100 \<and> ie_ok env 200
      \<or> (\<exists>oi' c2. lock_private_key env pc priv oi c1 = Some (oi', None, c2)) \<and> \<not> (ie_ok env 100 \<and> ie_ok env 200)" for priv oi
    using lock_overruns [OF assms, of pc priv oi c1] lock [of pc priv oi c1]
    by (cases "lock_private_key env pc priv oi c1") auto
  show ?thesis
  proof (intro conjI impI)
    show "orca_identity_create_secure_3digit env (Some a) (Some pc) name role (Some x) c = None
      \<longleftrightarrow> three_digit_id a \<and> 8 \<le> length pc \<and> fst (orca_rsa_generate_keypair (nth_call 0 env) (ie_ssl env) (ie_seed env) True c) \<noteq> None
        \<and> ie_ok env 100 \<and> ie_ok env 200"
    proof (cases keys)
      case None
      then show ?thesis using g by (simp add: orca_identity_create_secure_3digit_def Let_def)
    next
      case (Some kp)
      then show ?thesis using g l [of "snd kp" zero_identity]
        by (cases kp) (auto simp: orca_identity_create_secure_3digit_def Let_def)
    qed
    show "orca_identity_create env name (Some pc) role (Some x) c = None
      \<longleftrightarrow> 8 \<le> length pc \<and> fst (orca_rsa_generate_keypair (nth_call 0 env) (ie_ssl env) (ie_seed env) True c) \<noteq> None
        \<and> ie_ok env 100 \<and> ie_ok env 200"
    proof (cases keys)
      case None
      then show ?thesis using g by (simp add: orca_identity_create_def Let_def)
    next
      case (Some kp)
      then show ?thesis using g l [of "snd kp" zero_identity]
        by (cases kp) (auto simp: orca_identity_create_def Let_def)
    qed
  qed (use create_never [OF assms(1)] in blast)+
qed

lemma passcode_refused:
  assumes "pbkdf2_ok (ie_ssl env)" and "orca_identity_verify_with_passcode env oi p c = Some (good, c1)"
  shows "\<not> good"
  using assms(2)
  by (auto simp: orca_identity_verify_with_passcode_def dest: key_never [OF assms(1)]
      split: prod.splits option.splits Option.bind_splits)

lemma unlock_refused:
  assumes "pbkdf2_ok (ie_ssl env)" and "unlock_identity env oi pc c = Some (0, r, c')"
  shows "\<not> orca_identity_is_secure r"
  using assms(2)
  by (auto simp: unlock_identity_def orca_identity_is_secure_def Let_def dest!: passcode_refused [OF assms(1)]
      split: if_splits Option.bind_splits)

text \<open>
  C27: no passcode opens anything.  Checking a passcode, when it returns, answers no; loading,
  when it returns 0, has loaded an identity that is not secure; and changing a passcode, when it
  returns, returns -1 and has left the files as they were.
\<close>

theorem no_passcode_opens:
  assumes "pbkdf2_ok (ie_ssl env)"
  shows "orca_identity_check_passcode env oi pc c \<noteq> Some (True, c')
    \<and> (orca_identity_load env out pc fs c = Some (0, r, c') \<longrightarrow> \<not> orca_identity_is_secure r)
    \<and> (orca_identity_load_by_id env a out pc fs c = Some (0, r, c') \<longrightarrow> \<not> orca_identity_is_secure r)
    \<and> (orca_identity_change_passcode env a old new fs c = Some (rc, fs', c') \<longrightarrow> rc = -1 \<and> fs' = fs)"
proof (intro conjI impI)
  show "orca_identity_check_passcode env oi pc c \<noteq> Some (True, c')"
    by (auto simp: orca_identity_check_passcode_def dest: passcode_refused [OF assms])
next
  assume "orca_identity_load env out pc fs c = Some (0, r, c')"
  then show "\<not> orca_identity_is_secure r"
    by (auto simp: orca_identity_load_def dest!: unlock_refused [OF assms] split: option.splits if_splits prod.splits Option.bind_splits)
next
  assume "orca_identity_load_by_id env a out pc fs c = Some (0, r, c')"
  then show "\<not> orca_identity_is_secure r"
    by (auto simp: orca_identity_load_by_id_def dest!: unlock_refused [OF assms] split: option.splits if_splits prod.splits Option.bind_splits)
next
  assume "orca_identity_change_passcode env a old new fs c = Some (rc, fs', c')"
  then have "rc = -1 \<and> fs' = fs"
    by (auto simp: orca_identity_change_passcode_def Let_def dest!: key_never [OF assms]
        split: option.splits if_splits prod.splits Option.bind_splits)
  then show "rc = -1" "fs' = fs" by simp_all
qed

end
