(* ===== verification/Identity_Storage.thy ===== *)
theory Identity_Storage
  imports Identity_Properties
begin

text \<open>
  The directory of the identity store under its operations: which files they leave, why an
  identity is never found by its id, and what the deletion of an id can reach.
\<close>

section \<open>Names and paths\<close>

definition good_name :: "string \<Rightarrow> bool" where
  "good_name n \<longleftrightarrow> n \<notin> {[], ''.'', ''..''} \<and> CHR ''/'' \<notin> set n \<and> length n < 256"

lemma split_path_slash: "CHR ''/'' \<notin> set a \<Longrightarrow> split_path (a @ CHR ''/'' # b) = a # split_path b"
  by (induction a) auto

lemma split_path_name: "CHR ''/'' \<notin> set a \<Longrightarrow> split_path a = [a]"
  by (induction a) auto

lemma split_path_home: "split_path (ORCA_IDENTITY_HOME @ s) = [] # ''tmp'' # ''.orcashi'' # ''identity'' # split_path s"
  by (simp add: ORCA_IDENTITY_HOME_def)

lemma home_path_fits: "length s < 400 \<Longrightarrow> snprintf_into 512 (ORCA_IDENTITY_HOME @ s) = ORCA_IDENTITY_HOME @ s"
  by (rule snprintf_into_fits) (simp add: ORCA_IDENTITY_HOME_def)

lemma resolve_below_home:
  assumes "good_name n"
  shows "resolve fs (ORCA_IDENTITY_HOME @ n @ ''/identity.json'')
    = (if home_exists fs \<and> node_at fs (home @ [n]) = Some Dir then Some (home @ [n, ''identity.json'']) else None)"
  using assms split_path_slash [of n "''identity.json''"]
  by (simp add: resolve_def split_path_home good_name_def home_def home_exists_def)

section \<open>No identity is found by its id\<close>

text \<open>The entries of the directory are files with proper names.\<close>

definition flat_store :: "fs \<Rightarrow> bool" where
  "flat_store fs \<longleftrightarrow> (\<forall>(p, n) \<in> set fs. p \<noteq> [] \<and> butlast p = home \<longrightarrow> n \<noteq> Dir \<and> good_name (last p))"

lemma flat_put: "flat_store fs \<Longrightarrow> butlast p \<noteq> home \<or> n \<noteq> Dir \<and> good_name (last p) \<Longrightarrow> flat_store (put_node p n fs)"
  by (fastforce simp: flat_store_def put_node_def split: if_splits)

lemma flat_drop: "flat_store fs \<Longrightarrow> flat_store (drop_node p fs)"
  by (auto simp: flat_store_def drop_node_def)

lemma flat_unlink: "flat_store fs \<Longrightarrow> flat_store (unlink_path p fs)"
  by (auto simp: unlink_path_def intro: flat_drop split: option.splits node.splits)

lemma flat_rmdir: "flat_store fs \<Longrightarrow> flat_store (rmdir_path p fs)"
  by (auto simp: rmdir_path_def intro: flat_drop split: option.splits)

lemma flat_fold: "flat_store fs \<Longrightarrow> flat_store (fold (\<lambda>n. unlink_path (f n)) ns fs)"
  by (induction ns arbitrary: fs) (simp_all add: flat_unlink)

lemma flat_write:
  assumes "flat_store fs" and "path \<in> identity_paths" and "write_path fs path t = Some fs'"
  shows "flat_store fs'"
proof -
  obtain p where p: "resolve fs path = Some p" "fs' = put_node p (File t) fs"
    using assms(3) by (auto simp: write_path_def split: Option.bind_splits if_splits)
  then have "good_name (last p)"
    using assms(2) by (auto simp: identity_paths_def resolve_identity_files good_name_def split: if_splits)
  then show ?thesis using assms(1) p(2) by (auto intro: flat_put)
qed

lemma flat_ensure: "flat_store fs \<Longrightarrow> ensure_directory ORCA_IDENTITY_HOME fs c = (rc, fs', c') \<Longrightarrow> flat_store fs'"
  by (auto simp: ensure_directory_def mkdir_path_def resolve_home home_def intro!: flat_put
      split: option.splits node.splits Option.bind_splits if_splits)

lemma flat_write_file:
  "flat_store fs \<Longrightarrow> path \<in> identity_paths \<Longrightarrow> write_file_content opens path t fs = (rc, fs') \<Longrightarrow> flat_store fs'"
  by (auto simp: write_file_content_def intro: flat_write split: if_splits option.splits)

lemma flat_write_files:
  "flat_store fs \<Longrightarrow> fst ` set fts \<subseteq> identity_paths \<Longrightarrow> write_files opens k fts fs = (rc, fs') \<Longrightarrow> flat_store fs'"
proof (induction fts arbitrary: k fs)
  case (Cons x fts)
  obtain p t where x: "x = (p, t)" by (cases x)
  obtain r fs1 where w: "write_file_content (opens k) p t fs = (r, fs1)" by (rule prod.exhaust)
  have "flat_store fs1" using flat_write_file [OF Cons.prems(1) _ w] Cons.prems(2) x by auto
  then show ?case using Cons.IH [of fs1 "k + 1"] Cons.prems w x by (auto split: if_splits)
qed simp

lemma flat_save:
  assumes "flat_store fs" and "orca_identity_save env oi fs c = (rc, fs', c')"
  shows "flat_store fs'"
proof (cases oi)
  case None
  then show ?thesis using assms by (simp add: orca_identity_save_def)
next
  case (Some i)
  obtain r1 fs1 c1 where e: "ensure_directory ORCA_IDENTITY_HOME fs c = (r1, fs1, c1)" by (rule prod_cases3)
  have fs1: "flat_store fs1" by (rule flat_ensure [OF assms(1) e])
  let ?sec = "oi_mode i = ORCA_IDENTITY_MODE_SECURE"
  let ?fts = "\<lambda>json. [(ORCA_IDENTITY_FILE, json), (ORCA_PUBLIC_KEY_FILE, oi_public_key i)]
    @ (if ?sec then [(ORCA_PRIVATE_KEY_FILE, oi_private_key_encrypted i), (ORCA_SIGNATURE_FILE, oi_signature i),
         (ORCA_SALT_FILE, oi_salt_hex i)] else [])"
  have sub: "fst ` set (?fts json) \<subseteq> identity_paths" for json by (auto simp: identity_paths_def)
  obtain r2 j c2 where j: "orca_identity_to_json env (Some i) True c1 = (r2, j, c2)" by (rule prod_cases3)
  show ?thesis
  proof (cases "r1 < 0 \<or> j = None")
    case True
    then have "fs' = fs1" using assms(2) Some e j by (cases "r1 < 0") (simp_all add: orca_identity_save_def)
    then show ?thesis using fs1 by simp
  next
    case False
    then obtain json where json: "j = Some json" "\<not> r1 < 0" by auto
    obtain r3 fs3 where w: "write_files (ie_open env) 0 (?fts json) fs1 = (r3, fs3)" by (rule prod.exhaust)
    have "flat_store fs3" by (rule flat_write_files [OF fs1 sub w])
    moreover have "fs' = fs3"
      using assms(2) Some e j json w by (simp add: orca_identity_save_def split: if_splits)
    ultimately show ?thesis by simp
  qed
qed

lemma flat_set_default:
  assumes "flat_store fs" and "orca_identity_set_default env a fs c = (rc, fs', c')"
  shows "flat_store fs'"
proof -
  have m: "ORCA_METADATA_FILE \<in> identity_paths" by (simp add: identity_paths_def)
  obtain r1 fs1 c1 where e: "ensure_directory ORCA_IDENTITY_HOME fs c = (r1, fs1, c1)" by (rule prod_cases3)
  note fs1 = flat_ensure [OF assms(1) e]
  show ?thesis
    using assms e fs1 flat_write_file [OF fs1 m]
    by (auto simp: orca_identity_set_default_def Let_def split: option.splits if_splits prod.splits)
qed

lemma entries_flat: "flat_store fs \<Longrightarrow> n \<in> set (entries fs home) \<Longrightarrow> good_name n \<and> node_at fs (home @ [n]) \<noteq> Some Dir"
proof
  assume f: "flat_store fs" and "n \<in> set (entries fs home)"
  then obtain p m where p: "(p, m) \<in> set fs" "p \<noteq> []" "butlast p = home" "n = last p" by (auto simp: entries_def)
  then show "good_name n" using f by (auto simp: flat_store_def)
  have "home @ [n] = p" using p append_butlast_last_id by metis
  show "node_at fs (home @ [n]) \<noteq> Some Dir"
    using f by (force simp: node_at_def flat_store_def home_def dest: map_of_SomeD)
qed

lemma list_flat:
  assumes "flat_store fs"
  shows "orca_identity_list env True fs c = (0, [], c)"
proof (cases "list_dir fs ORCA_IDENTITY_HOME")
  case (Some names)
  have n: "names = entries fs home"
    using Some by (cases "resolve fs ORCA_IDENTITY_HOME") (simp_all add: list_dir_def resolve_home split: if_splits)
  have none: "stat_path fs (snprintf_into 512 (ORCA_IDENTITY_HOME @ x @ ''/identity.json'')) = None" if "x \<in> set names" for x
  proof -
    note g = entries_flat [OF assms that [unfolded n]]
    then have "length (x @ ''/identity.json'') < 400" by (simp add: good_name_def)
    note fits = home_path_fits [OF this]
    then show ?thesis using g by (simp only: fits stat_path_def resolve_below_home if_False simp_thms bind.simps)
  qed
  have f: "filter (\<lambda>x. stat_path fs (snprintf_into 512 (ORCA_IDENTITY_HOME @ x @ ''/identity.json'')) \<noteq> None) names = []"
    by (rule filter_False) (intro ballI notI, erule notE, rule none)
  have "orca_identity_list env True fs c = (if [] = ([] :: string list) \<or> ie_mem env then (0, [], c) else (-1, [], set_identity_error c))"
    unfolding orca_identity_list_def Some option.case f Let_def not_True_eq_False if_False ..
  then show ?thesis by simp
next
  case None
  then show ?thesis by (simp only: orca_identity_list_def option.case not_True_eq_False if_False)
qed

lemma load_by_id_flat:
  "flat_store fs \<Longrightarrow> orca_identity_load_by_id env (Some a) (Some x) pc fs c = Some (-1, Some x, set_identity_error c)"
  by (simp add: orca_identity_load_by_id_def list_flat)

lemma change_passcode_flat:
  "flat_store fs \<Longrightarrow> \<exists>c'. orca_identity_change_passcode env a old new fs c = Some (-1, fs, c')"
  by (auto simp: orca_identity_change_passcode_def load_by_id_flat split: option.splits)

text \<open>What the operations of the store do to its files.\<close>

inductive store_step :: "fs \<Rightarrow> fs \<Rightarrow> bool" where
  "orca_identity_save env oi fs c = (rc, fs', c') \<Longrightarrow> store_step fs fs'"
| "orca_identity_delete a fs c = (rc, fs', c') \<Longrightarrow> store_step fs fs'"
| "orca_identity_set_default env a fs c = (rc, fs', c') \<Longrightarrow> store_step fs fs'"
| "orca_identity_storage_init fs c = (rc, fs', c') \<Longrightarrow> store_step fs fs'"
| "orca_identity_storage_cleanup fs = (rc, fs') \<Longrightarrow> store_step fs fs'"
| "orca_identity_reset force line fs = (rc, fs') \<Longrightarrow> store_step fs fs'"
| "orca_identity_change_passcode env a old new fs c = Some (rc, fs', c') \<Longrightarrow> store_step fs fs'"

lemma flat_delete: "flat_store fs \<Longrightarrow> orca_identity_delete a fs c = (rc, fs', c') \<Longrightarrow> flat_store fs'"
  by (auto simp: orca_identity_delete_def Let_def intro!: flat_rmdir flat_fold split: option.splits if_splits)

lemma flat_reset: "flat_store fs \<Longrightarrow> orca_identity_reset force line fs = (rc, fs') \<Longrightarrow> flat_store fs'"
  by (auto simp: orca_identity_reset_def intro!: flat_rmdir flat_unlink split: option.splits if_splits)

lemma flat_init: "flat_store fs \<Longrightarrow> orca_identity_storage_init fs c = (rc, fs', c') \<Longrightarrow> flat_store fs'"
  by (auto simp: orca_identity_storage_init_def intro: flat_ensure split: prod.splits)

lemma flat_change:
  assumes "flat_store fs" and "orca_identity_change_passcode env a old new fs c = Some (rc, fs', c')"
  shows "flat_store fs'"
  using change_passcode_flat [OF assms(1), of env a old new c] assms by auto

lemma store_step_flat:
  assumes "store_step fs fs'" and "flat_store fs"
  shows "flat_store fs'"
  using assms
proof cases
  case (1 env oi c rc c')
  then show ?thesis using flat_save assms(2) by blast
next
  case (2 a c rc c')
  then show ?thesis using flat_delete assms(2) by blast
next
  case (3 env a c rc c')
  then show ?thesis using flat_set_default assms(2) by blast
next
  case (4 c rc c')
  then show ?thesis using flat_init assms(2) by blast
next
  case (5 rc)
  then show ?thesis using flat_rmdir [OF assms(2), of ORCA_IDENTITY_HOME] by (simp add: orca_identity_storage_cleanup_def)
next
  case (6 force line rc)
  then show ?thesis using flat_reset assms(2) by blast
next
  case (7 env a old new c rc c')
  then show ?thesis using flat_change assms(2) by blast
qed

text \<open>
  The operations of the store never put a directory below its home, and so the list of
  identities is always empty, no identity is loaded by its id, and no passcode can be changed:
  whatever was done before, the call fails and changes nothing.
\<close>

theorem passcode_never_changes:
  assumes "flat_store fs" and "store_step\<^sup>*\<^sup>* fs fs'"
  shows "flat_store fs' \<and> orca_identity_list env True fs' c = (0, [], c)
    \<and> orca_identity_load_by_id env (Some a) (Some x) pc fs' c = Some (-1, Some x, set_identity_error c)
    \<and> (\<exists>c'. orca_identity_change_passcode env a' old new fs' c = Some (-1, fs', c'))"
proof -
  have "flat_store fs'" using assms(2,1) by (induction) (auto intro: store_step_flat)
  then show ?thesis using list_flat load_by_id_flat change_passcode_flat by blast
qed

section \<open>Deleting\<close>

lemma unlink_map: "map_of (unlink_path path fs) p = (case resolve fs path of
      Some q \<Rightarrow> if q = p \<and> (\<exists>t. node_at fs q = Some (File t)) then None else map_of fs p | None \<Rightarrow> map_of fs p)"
  by (auto simp: unlink_path_def split: option.splits node.splits)

lemma home_unlink:
  assumes "home_exists fs"
  shows "home_exists (unlink_path path fs)"
  using assms by (auto simp: home_exists_def node_at_def home_def unlink_map split: option.splits)

lemma unlink_keeps:
  assumes "p \<noteq> []" and "node_at fs p = None \<or> (\<exists>t. node_at fs p = Some (File t))"
  shows "node_at (unlink_path path fs) p = None \<or> (\<exists>t. node_at (unlink_path path fs) p = Some (File t))"
  using assms by (auto simp: node_at_def unlink_map split: option.splits)

lemma resolve_parent:
  assumes "home_exists fs" and "good_name n"
  shows "resolve fs (ORCA_IDENTITY_HOME @ ''../'' @ n) = Some [''tmp'', ''.orcashi'', n]"
  using assms split_path_name [of n] by (simp add: resolve_def split_path_home good_name_def home_def home_exists_def)

lemma unlink_gone:
  assumes "home_exists fs" and "good_name n"
    and "node_at fs [''tmp'', ''.orcashi'', n] = None \<or> (\<exists>t. node_at fs [''tmp'', ''.orcashi'', n] = Some (File t))"
    and "n \<in> set ns \<or> node_at fs [''tmp'', ''.orcashi'', n] = None"
  shows "node_at (fold (\<lambda>n. unlink_path (snprintf_into 512 (ORCA_IDENTITY_HOME @ ''../'' @ n))) ns fs) [''tmp'', ''.orcashi'', n] = None"
  using assms
proof (induction ns arbitrary: fs)
  case (Cons m ns)
  let ?p = "[''tmp'', ''.orcashi'', n]"
  let ?fs = "unlink_path (snprintf_into 512 (ORCA_IDENTITY_HOME @ ''../'' @ m)) fs"
  have "n \<in> set ns \<or> node_at ?fs ?p = None"
  proof (cases "node_at fs ?p = None \<or> m = n")
    case True
    have fit: "snprintf_into 512 (ORCA_IDENTITY_HOME @ ''../'' @ n) = ORCA_IDENTITY_HOME @ ''../'' @ n"
      by (rule home_path_fits) (use Cons.prems(2) in \<open>simp add: good_name_def\<close>)
    show ?thesis
    proof (cases "m = n")
      case True
      then show ?thesis using Cons.prems(3) unfolding True fit
        by (auto simp: node_at_def unlink_map resolve_parent [OF Cons.prems(1,2), simplified])
    next
      case False
      then have "map_of fs ?p = None" using True by (simp add: node_at_def)
      then have "map_of ?fs ?p = None" unfolding unlink_map by (simp split: option.splits)
      then show ?thesis by (simp add: node_at_def)
    qed
  next
    case False
    then show ?thesis using Cons.prems(4) by auto
  qed
  moreover have "node_at ?fs ?p = None \<or> (\<exists>t. node_at ?fs ?p = Some (File t))"
    using unlink_keeps [OF _ Cons.prems(3)] by blast
  ultimately show ?case using Cons.IH [OF home_unlink [OF Cons.prems(1)] Cons.prems(2)] by simp
qed simp

text \<open>
  The id is not checked before a deletion: deleting the identity \<open>..\<close> reports success and
  removes every file of the directory above, among them the saved state of the daemon.
\<close>

theorem delete_reaches_parent:
  assumes "home_exists fs" and "node_at fs [''tmp'', ''.orcashi'', n] = Some (File t)" and "good_name n"
  shows "\<exists>fs'. orca_identity_delete (Some ''..'') fs c = (0, fs', c) \<and> node_at fs' [''tmp'', ''.orcashi'', n] = None"
proof -
  let ?d = "[''tmp'', ''.orcashi'']" and ?path = "ORCA_IDENTITY_HOME @ ''..''"
  have path: "snprintf_into 512 ?path = ?path" by (rule home_path_fits) simp
  have r: "resolve fs ?path = Some ?d" and d: "node_at fs ?d = Some Dir"
    using assms(1) by (simp_all add: resolve_def split_path_home home_def home_exists_def)
  have n: "n \<in> set (entries fs ?d)"
  proof -
    have "([''tmp'', ''.orcashi'', n], File t) \<in> set fs" using assms(2) by (simp add: node_at_def map_of_SomeD)
    then have "[''tmp'', ''.orcashi'', n] \<in> set (filter (\<lambda>q. q \<noteq> [] \<and> butlast q = ?d) (map fst fs))" by force
    then show ?thesis unfolding entries_def set_map by (rule rev_image_eqI) simp
  qed
  let ?fs = "fold (\<lambda>n. unlink_path (snprintf_into 512 (ORCA_IDENTITY_HOME @ ''../'' @ n))) (entries fs ?d) fs"
  have g: "node_at ?fs [''tmp'', ''.orcashi'', n] = None"
    by (rule unlink_gone [OF assms(1,3)]) (simp_all add: assms(2) n)
  have "orca_identity_delete (Some ''..'') fs c = (0, rmdir_path ?path ?fs, c)"
    by (simp add: orca_identity_delete_def path Let_def stat_path_def list_dir_def r d)
  moreover have "rmdir_path ?path ?fs = ?fs"
    by (simp add: rmdir_path_def split_path_home split: option.split)
  ultimately show ?thesis using g by simp
qed

section \<open>The default identity and generated ids\<close>

text \<open>
  An id of fewer than 64 characters without a quote that is made the default is the default,
  as long as an identity is there.
\<close>

theorem default_id_roundtrip:
  assumes "storage_ready fs" and "stat_path fs ORCA_IDENTITY_FILE \<noteq> None" and "ie_open env 0" and "ie_mem env'"
    and "dquote \<notin> set a" and "length a < ORCA_ID_LEN"
  shows "\<exists>fs'. orca_identity_set_default env (Some a) fs c = (0, fs', c)
    \<and> orca_identity_get_default env' True fs' c' = (0, Some a, c')"
proof -
  let ?m = "[CHR ''{'', dquote] @ ''default_id'' @ [dquote, CHR '':'', dquote] @ a @ [dquote, CHR ''}'']"
  have u: "usable_files fs identity_paths" "ORCA_METADATA_FILE \<in> identity_paths"
    using assms(1) by (simp_all add: storage_ready_iff identity_paths_def)
  obtain fs' where w: "write_path fs ORCA_METADATA_FILE ?m = Some fs'" "read_path fs' ORCA_METADATA_FILE = Some ?m"
    using unix_files.write_usable [OF u] by blast
  have m: "snprintf_into 256 ?m = ?m" using assms(6) by (intro snprintf_into_fits) (simp add: ORCA_ID_LEN_def)
  have "orca_identity_set_default env (Some a) fs c = (0, fs', c)"
    using assms(2,3) w(1) m stat_home [OF assms(1)]
    by (simp add: orca_identity_set_default_def ensure_directory_def write_file_content_def del: append.simps append_Cons)
  moreover have "orca_identity_get_default env' True fs' c' = (0, Some a, c')"
  proof -
    have "takeWhile (\<lambda>x. x \<noteq> dquote) (a @ [dquote, CHR ''}'']) = a" using assms(5) by (subst takeWhile_append2) auto
    moreover have "take (ORCA_ID_LEN - 1) a = a" using assms(6) by simp
    ultimately show ?thesis using assms(4) w(2) by (simp add: orca_identity_get_default_def read_file_content_def)
  qed
  ultimately show ?thesis by blast
qed

lemma pad3_digits:
  assumes "n < 1000"
  shows "\<exists>x y z. pad3 n = [x, y, z] \<and> is_digit x \<and> is_digit y \<and> is_digit z"
proof -
  have "length (pad3 n) = 3" using length_dec_nat_le [of n 3] assms by (simp add: pad3_def)
  then obtain x y z where p: "pad3 n = [x, y, z]" by (auto simp: numeral_3_eq_3 length_Suc_conv)
  have "is_digit ch" if "ch \<in> set (pad3 n)" for ch
    using that dec_nat_digits [of ch n] by (auto simp: pad3_def is_digit_def split: if_splits)
  then show ?thesis unfolding p by simp
qed

lemma dec_val_zeros: "set ds \<subseteq> {CHR ''0''} \<Longrightarrow> dec_val ds = 0"
  by (induction ds rule: rev_induct) (simp_all add: dec_val_snoc digit_val_def)

text \<open>
  A generated id is valid and has the form that creation asks for.
\<close>

theorem generated_id_is_valid:
  "\<exists>a. orca_identity_generate_normal_id env True = Some a \<and> three_digit_id a \<and> orca_identity_is_valid_id (Some a)
    \<and> a \<noteq> ''<000>''"
proof -
  let ?n = "nat (ie_rand env mod 999 + 1)"
  have "0 \<le> ie_rand env mod 999" "ie_rand env mod 999 < 999" by simp_all
  then have n: "?n < 1000" "?n \<noteq> 0" by linarith+
  obtain x y z where p: "pad3 ?n = [x, y, z]" "is_digit x" "is_digit y" "is_digit z" using pad3_digits [OF n(1)] by blast
  have "[x, y, z] \<noteq> ''000''"
  proof
    assume "[x, y, z] = ''000''"
    then have "set (pad3 ?n) \<subseteq> {CHR ''0''}" using p(1) by simp
    then have "set (dec_nat ?n) \<subseteq> {CHR ''0''}" by (simp add: pad3_def)
    then have "dec_val (dec_nat ?n) = 0" by (rule dec_val_zeros)
    then show False using n(2) by simp
  qed
  then show ?thesis using p
    by (simp add: orca_identity_generate_normal_id_def snprintf_into_def three_digit_id_def orca_identity_is_valid_id_def)
qed

end
