(* ===== verification/Identity_Resources.thy ===== *)
theory Identity_Resources
  imports Identity_Properties
begin

text \<open>
  What the identity store does with the objects of the OpenSSL wrappers: every operation returns
  with as many as it was called with, on every path.
\<close>

lemma live_D: "behaves [] left m \<Longrightarrow> m s = (r, s') \<Longrightarrow> c_live s' = c_live s + (if r = None then {#} else mset left)"
  by (erule behavesD(1)) simp_all

lemma salt_live: "orca_generate_salt_hex True ok rnd s = (r, s') \<Longrightarrow> c_live s' = c_live s"
  using live_D [OF salt_behaves(2)] by fastforce

lemma derive_hex_live: "orca_derive_key_from_passcode_hex True ok ssl p t n s = (r, s') \<Longrightarrow> c_live s' = c_live s"
  using live_D [OF derive_hex_behaves] by fastforce

lemma passcode_key_live: "passcode_key env k p s c = Some (x, c') \<Longrightarrow> c_live c' = c_live c"
  by (auto simp: passcode_key_def dest!: derive_hex_live split: prod.splits option.splits if_splits)

lemma verify_live: "orca_rsa_verify_string ok ssl str sg pem c = (b, c') \<Longrightarrow> c_live c' = c_live c"
  using verify_string_cleanly [of ok ssl str sg pem] unfolding verifies_cleanly_def by (metis snd_conv)

lemma identity_verify_live: "orca_identity_verify env k oi c = (b, c') \<Longrightarrow> c_live c' = c_live c"
  by (auto simp: orca_identity_verify_def dest: verify_live split: option.splits if_splits)

lemma error_live [simp]: "c_live (set_identity_error c) = c_live c"
  by (simp add: set_identity_error_def orca_clear_error_def)

lemma free_live [simp]: "c_live (free_res rs c) = c_live c - mset rs"
  by (simp add: free_res_def)

lemma opens_live:
  assumes "orca_identity_verify_with_passcode env oi pc c = Some (b, c')"
  shows "c_live c' = c_live c"
proof (cases "oi = None \<or> pc = None")
  case True
  then show ?thesis using assms by (auto simp: orca_identity_verify_with_passcode_def split: option.splits)
next
  case False
  then obtain i p where ip: "oi = Some i" "pc = Some p" by auto
  show ?thesis
    using assms unfolding ip
    by (auto simp: orca_identity_verify_with_passcode_def Let_def split: Option.bind_splits prod.splits option.splits if_splits
        dest!: passcode_key_live verify_live live_D [OF cbc_decrypt_string_behaves] live_D [OF sign_string_behaves])
qed

lemma lock_live:
  assumes "lock_private_key env pc priv oi c = Some (oi', x, c')"
  shows "c_live c' = c_live c"
  using assms
  by (auto simp: lock_private_key_def Let_def split: Option.bind_splits prod.splits option.splits if_splits
      dest!: passcode_key_live salt_live live_D [OF cbc_behaves(1)] live_D [OF base64_behaves(1)])

lemma hash_live: "orca_hash_string True ok ssl str c = (h, c') \<Longrightarrow> c_live c' = c_live c"
  using live_D [OF hash_string_behaves] by fastforce

lemma generate_id_live: "orca_identity_generate_id env k p pre outp c = (i, c') \<Longrightarrow> c_live c' = c_live c"
  by (auto simp: orca_identity_generate_id_def Let_def dest!: hash_live split: option.splits if_splits prod.splits)

lemma sign_live:
  assumes "sign_identity env d priv oi c = Some (rc, r, c')"
  shows "c_live c' = c_live c - {#MEM ''private'', MEM ''public''#}"
  using assms
  by (auto simp: sign_identity_def free_keys_def Let_def split: Option.bind_splits prod.splits option.splits if_splits
      dest!: live_D [OF sign_string_behaves] identity_verify_live)


lemma keypair_live: "orca_rsa_generate_keypair ok ssl seed outs c = (r, c')
    \<Longrightarrow> c_live c' = c_live c + (if r = None then {#} else {#MEM ''private'', MEM ''public''#})"
  by (drule live_D [OF generate_behaves]) simp

lemma free_keys_live: "c_live (free_keys c) = c_live c - {#MEM ''private'', MEM ''public''#}"
  by (simp add: free_keys_def)

lemma create_live:
  assumes "orca_identity_create env name pc role out c = Some (rc, r, c')"
  shows "c_live c' = c_live c"
  using assms
  by (auto simp: orca_identity_create_def Let_def free_keys_live split: option.splits if_splits prod.splits Option.bind_splits
      dest!: keypair_live lock_live generate_id_live sign_live)

lemma create_secure_live:
  assumes "orca_identity_create_secure_3digit env a pc name role out c = Some (rc, r, c')"
  shows "c_live c' = c_live c"
  using assms
  by (auto simp: orca_identity_create_secure_3digit_def Let_def free_keys_live split: option.splits if_splits prod.splits Option.bind_splits
      dest!: keypair_live lock_live sign_live)

lemma from_json_live: "orca_identity_from_json env fs j out c = Some (rc, r, c') \<Longrightarrow> c_live c' = c_live c"
  by (auto simp: orca_identity_from_json_def Let_def split: option.splits if_splits Option.bind_splits)

lemma unlock_live: "unlock_identity env oi pc c = Some (rc, r, c') \<Longrightarrow> c_live c' = c_live c"
  by (auto simp: unlock_identity_def Let_def dest!: opens_live split: if_splits Option.bind_splits)

lemma load_live: "orca_identity_load env out pc fs c = Some (rc, r, c') \<Longrightarrow> c_live c' = c_live c"
  by (auto simp: orca_identity_load_def dest!: from_json_live unlock_live split: option.splits if_splits prod.splits Option.bind_splits)

text \<open>
  C32: creating, verifying, opening and loading an identity release every OpenSSL object and every
  buffer of the wrappers they used, on every path and whatever fails.
\<close>

theorem identity_store_frees_all:
  "(orca_identity_create env name pc role out c = Some (rc, r, c') \<longrightarrow> c_live c' = c_live c)
    \<and> (orca_identity_create_secure_3digit env a pc name role out c = Some (rc, r, c') \<longrightarrow> c_live c' = c_live c)
    \<and> (orca_identity_load env out pc fs c = Some (rc, r, c') \<longrightarrow> c_live c' = c_live c)
    \<and> (orca_identity_check_passcode env oi pc c = Some (b, c') \<longrightarrow> c_live c' = c_live c)"
  by (auto simp: orca_identity_check_passcode_def dest: create_live create_secure_live load_live opens_live split: if_splits)

end
