(* ===== verification/Identity_Samples.thy ===== *)
theory Identity_Samples
  imports Identity_Storage Identity_Resources
begin

text \<open>The theorems of the identity store at concrete inputs.\<close>

section \<open>An environment\<close>

definition sample_ssl :: ssl where
  "sample_ssl = toy_ssl\<lparr>o_sign := (\<lambda>_ d. 1 # pad32 d), o_verify := (\<lambda>_ d sig n. sig = 1 # pad32 d \<and> n = 33)\<rparr>"

lemma pad32_len: "length (pad32 d) = 32"
  by (simp add: pad32_def)

lemma sample_ssl_ok: "ssl_ok sample_ssl" "pbkdf2_ok sample_ssl"
  using toy_ssl_ok by (simp_all add: ssl_ok_def sample_ssl_def toy_ssl_def pad32_len pbkdf2_ok_def)

definition sample_ident :: ident_env where
  "sample_ident = \<lparr>ie_clk = (\<lambda>_. 1700000000), ie_rand = 41, ie_ok = (\<lambda>_. True), ie_ssl = sample_ssl, ie_seed = 1,
     ie_salt = replicate 16 7, ie_iv = replicate 16 9, ie_stack = [], ie_mem = True, ie_open = (\<lambda>_. True)\<rparr>"

lemma sample_parts: "ie_ssl sample_ident = sample_ssl" "ie_ok sample_ident = (\<lambda>_. True)" "length (ie_salt sample_ident) = 16"
  "ie_open sample_ident = (\<lambda>_. True)" "ie_mem sample_ident" "ie_clk sample_ident 0 = 1700000000"
  by (simp_all add: sample_ident_def)

lemma sample_keys: "fst (orca_rsa_generate_keypair (nth_call 0 sample_ident) sample_ssl (ie_seed sample_ident) True c) \<noteq> None"
  by (simp add: nth_call_def shift_def sample_parts orca_rsa_generate_keypair_def then_call_run split: prod.split)

definition sample_fs :: fs where
  "sample_fs = [([''tmp''], Dir), ([''tmp'', ''.orcashi''], Dir), ([''tmp'', ''.orcashi'', ''identity''], Dir)]"

lemma sample_ready: "storage_ready sample_fs"
  by (simp add: storage_ready_def sample_fs_def home_exists_def home_def node_at_def identity_names_def)

definition no_error :: cstate where
  "no_error = \<lparr>c_error = [], c_live = {#}\<rparr>"

section \<open>The witnesses\<close>

definition sample_normal :: OrcaIdentity where
  "sample_normal = zero_identity\<lparr>oi_id := ''<042>'', oi_role := ''user'', oi_version := ''1.0'', oi_created_at := 1700000000,
     oi_last_used := 1700000000, oi_verified := True\<rparr>"

lemma sample_normal_plain: "plain_identity sample_normal" "fields_fit sample_normal"
  by (simp_all add: plain_identity_def fields_fit_def sample_normal_def zero_identity_def plain_field_def json_keys_def identity_sizes
      int_range_def long_range_def)

theorem identity_save_load_witness:
  "\<exists>fs'. orca_identity_save sample_ident (Some sample_normal) sample_fs no_error = (0, fs', no_error)
    \<and> orca_identity_load sample_ident (Some zero_identity) None fs' no_error = Some (0, Some sample_normal, no_error)"
  using identity_save_load [where env = "sample_ident" and env' = "sample_ident" and fs = sample_fs and oi = sample_normal
      and c = no_error and c' = no_error and x = zero_identity and passcode = None and pc = "[]"] sample_normal_plain sample_ready
  by (simp add: sample_parts) (simp add: sample_normal_def zero_identity_def identity_modes)

theorem create_overrun_iff_witness:
  "orca_identity_create_secure_3digit sample_ident (Some ''<042>'') (Some ''password1'') None None (Some zero_identity) no_error = None"
  using create_overrun_iff [where env = sample_ident and a = "''<042>''" and pc = "''password1''"
      and name = None and role = None and x = zero_identity and c = no_error] sample_ssl_ok sample_keys
  by (simp add: sample_parts three_digit_id_def is_digit_def)

theorem no_passcode_opens_witness:
  "orca_identity_load sample_ident (Some zero_identity) (Some ''password1'') sample_fs no_error
    \<noteq> Some (0, Some (sample_normal\<lparr>oi_mode := ORCA_IDENTITY_MODE_SECURE\<rparr>), no_error)"
  using no_passcode_opens [where env = sample_ident and out = "Some zero_identity" and pc = "Some ''password1''" and fs = sample_fs
      and c = no_error and r = "Some (sample_normal\<lparr>oi_mode := ORCA_IDENTITY_MODE_SECURE\<rparr>)" and c' = no_error] sample_ssl_ok
  by (auto simp: sample_parts orca_identity_is_secure_def)

text \<open>A creation that fails when it draws its salt.\<close>

definition no_salt :: ident_env where
  "no_salt = sample_ident\<lparr>ie_ok := (\<lambda>i. i < 100)\<rparr>"

theorem identity_store_frees_all_witness:
  "\<exists>oi c1. orca_identity_create_secure_3digit no_salt (Some ''<042>'') (Some ''password1'') None None (Some zero_identity) no_error
    = Some (-1, Some oi, c1) \<and> c_live c1 = {#}"
proof -
  have "fst (orca_rsa_generate_keypair (nth_call 0 no_salt) sample_ssl (ie_seed no_salt) True no_error) \<noteq> None"
    by (simp add: nth_call_def shift_def no_salt_def orca_rsa_generate_keypair_def then_call_run split: prod.split)
  then obtain pub priv c0 where g: "orca_rsa_generate_keypair (nth_call 0 no_salt) sample_ssl (ie_seed no_salt) True no_error = (Some (pub, priv), c0)"
    by (cases "orca_rsa_generate_keypair (nth_call 0 no_salt) sample_ssl (ie_seed no_salt) True no_error") auto
  have p: "ie_ssl no_salt = sample_ssl" "\<not> ie_ok no_salt 100" by (simp_all add: no_salt_def sample_parts)
  obtain oi c1 where c: "orca_identity_create_secure_3digit no_salt (Some ''<042>'') (Some ''password1'') None None
      (Some zero_identity) no_error = Some (-1, Some oi, c1)"
    using g p
    by (simp add: orca_identity_create_secure_3digit_def three_digit_id_def is_digit_def lock_private_key_def
        orca_generate_salt_hex_def orca_generate_salt_def finish_run nth_call_def shift_def)
  then have "c_live c1 = c_live no_error"
    using identity_store_frees_all [where env = no_salt and a = "Some ''<042>''" and pc = "Some ''password1''"
        and name = None and role = None and out = "Some zero_identity" and c = no_error and rc = "-1" and r = "Some oi" and c' = c1]
    by blast
  then show ?thesis using c by (auto simp: no_error_def)
qed

lemma sample_flat: "flat_store sample_fs"
  by (simp add: flat_store_def sample_fs_def home_def)

text \<open>A saved identity whose passcode cannot be changed.\<close>

theorem passcode_never_changes_witness:
  "\<exists>fs' c'. orca_identity_save sample_ident (Some sample_normal) sample_fs no_error = (0, fs', no_error)
    \<and> saved_as sample_normal fs'
    \<and> orca_identity_change_passcode sample_ident (Some ''<042>'') (Some ''password1'') (Some ''password2'') fs' no_error
        = Some (-1, fs', c')"
proof -
  obtain fs' where fs': "orca_identity_save sample_ident (Some sample_normal) sample_fs no_error = (0, fs', no_error)"
    "saved_as sample_normal fs'"
    using save_works [OF sample_ready, of "sample_ident" sample_normal no_error] by (auto simp: sample_parts)
  have "store_step\<^sup>*\<^sup>* sample_fs fs'" using store_step.intros(1) [OF fs'(1)] by blast
  then show ?thesis
    using passcode_never_changes [OF sample_flat, where fs' = fs' and a = "[]" and x = zero_identity and pc = None and env = "sample_ident"
        and c = no_error and a' = "Some ''<042>''" and old = "Some ''password1''" and new = "Some ''password2''"] fs' by blast
qed

theorem delete_reaches_parent_witness:
  "\<exists>fs'. orca_identity_delete (Some ''..'') (sample_fs @ [([''tmp'', ''.orcashi'', ''state.json''], File ''{}'')]) no_error
      = (0, fs', no_error) \<and> node_at fs' [''tmp'', ''.orcashi'', ''state.json''] = None"
  by (rule delete_reaches_parent)
    (simp_all add: home_exists_def home_def sample_fs_def node_at_def good_name_def)

theorem default_id_roundtrip_witness:
  "\<exists>fs' fs''. orca_identity_save sample_ident (Some sample_normal) sample_fs no_error = (0, fs', no_error)
    \<and> orca_identity_set_default sample_ident (Some ''<042>'') fs' no_error = (0, fs'', no_error)
    \<and> orca_identity_get_default sample_ident True fs'' no_error = (0, Some ''<042>'', no_error)"
proof -
  obtain fs' where fs': "orca_identity_save sample_ident (Some sample_normal) sample_fs no_error = (0, fs', no_error)"
    "storage_ready fs'" "saved_as sample_normal fs'"
    using save_works [OF sample_ready, of "sample_ident" sample_normal no_error] by (auto simp: sample_parts)
  then have "stat_path fs' ORCA_IDENTITY_FILE \<noteq> None" by (auto simp: saved_as_def read_path_def split: option.splits)
  then show ?thesis
    using default_id_roundtrip [OF fs'(2), where a = "''<042>''" and env = "sample_ident" and env' = "sample_ident"
        and c = no_error and c' = no_error] fs'(1)
    by (auto simp: sample_parts ORCA_ID_LEN_def)
qed

end
