(* ===== verification/Sockets.thy ===== *)
theory Sockets
  imports Orca_Crypto
begin

text \<open>
  The sockets of a process as the punching modules use them.  \<open>sockets\<close> holds the open
  descriptors, what was sent through them and the number of calls made; the record \<open>net_env\<close>
  answers the \<open>k\<close>-th call: whether it succeeds, what is received, the time and the random
  numbers.  A new descriptor is the smallest one that is not open.  Options whose failure the
  sources ignore and pauses are left out.  No function here models a line of the repository.
\<close>

type_synonym addr = "nat \<times> nat \<times> nat \<times> nat"

definition AF_INET :: int where "AF_INET = 2"

record sockaddr =
  sa_family :: int
  sa_port :: nat
  sa_ip :: addr

definition zero_sockaddr :: sockaddr where
  "zero_sockaddr = \<lparr>sa_family = 0, sa_port = 0, sa_ip = (0, 0, 0, 0)\<rparr>"

text \<open>\<open>htons\<close> keeps 16 bits of the port; an address that does not parse leaves the zeros.\<close>

definition sock_addr :: "string \<Rightarrow> int \<Rightarrow> sockaddr" where
  "sock_addr ip port = \<lparr>sa_family = AF_INET, sa_port = nat (port mod 65536),
     sa_ip = (case inet_pton4 ip of None \<Rightarrow> (0, 0, 0, 0) | Some a \<Rightarrow> a)\<rparr>"

definition ntop :: "addr \<Rightarrow> string" where
  "ntop a = (case a of (b, c, d, e) \<Rightarrow> dotted b c d e)"

record sockets =
  sk_calls :: nat
  sk_open :: "int list"
  sk_sent :: "(int \<times> sockaddr option \<times> byte list) list"

record net_env =
  ne_ok :: "nat \<Rightarrow> bool"
  ne_again :: "nat \<Rightarrow> bool"
  ne_recv :: "nat \<Rightarrow> (byte list \<times> sockaddr) option"
  ne_clk :: "nat \<Rightarrow> int"
  ne_rand :: "nat \<Rightarrow> int"

definition tick :: "sockets \<Rightarrow> sockets" where
  "tick s = s\<lparr>sk_calls := sk_calls s + 1\<rparr>"

definition ask :: "net_env \<Rightarrow> sockets \<Rightarrow> bool \<times> sockets" where
  "ask env s = (ne_ok env (sk_calls s), tick s)"

definition now :: "net_env \<Rightarrow> sockets \<Rightarrow> int \<times> sockets" where
  "now env s = (ne_clk env (sk_calls s), tick s)"

definition draw :: "net_env \<Rightarrow> sockets \<Rightarrow> int \<times> sockets" where
  "draw env s = (ne_rand env (sk_calls s), tick s)"

definition free_fd :: "int list \<Rightarrow> int" where
  "free_fd ds = hd (filter (\<lambda>d. d \<notin> set ds) (map int [3..<4 + length ds]))"

definition open_socket :: "net_env \<Rightarrow> sockets \<Rightarrow> int \<times> sockets" where
  "open_socket env s =
    (let (ok, s) = ask env s in
     if ok then (free_fd (sk_open s), s\<lparr>sk_open := free_fd (sk_open s) # sk_open s\<rparr>) else (-1, s))"

definition close_socket :: "int \<Rightarrow> sockets \<Rightarrow> sockets" where
  "close_socket d s = s\<lparr>sk_open := remove1 d (sk_open s)\<rparr>"

definition send_to :: "net_env \<Rightarrow> int \<Rightarrow> sockaddr option \<Rightarrow> byte list \<Rightarrow> sockets \<Rightarrow> bool \<times> sockets" where
  "send_to env d dest bs s =
    (let (ok, s) = ask env s in (ok, if ok then s\<lparr>sk_sent := sk_sent s @ [(d, dest, bs)]\<rparr> else s))"

text \<open>A datagram that is longer than the buffer is cut.\<close>

definition recv_from :: "net_env \<Rightarrow> nat \<Rightarrow> sockets \<Rightarrow> (byte list \<times> sockaddr) option \<times> sockets" where
  "recv_from env cap s = (map_option (\<lambda>(bs, a). (take cap bs, a)) (ne_recv env (sk_calls s)), tick s)"

text \<open>The C string in a buffer that was terminated behind the bytes received.\<close>

definition recv_text :: "byte list \<Rightarrow> string" where
  "recv_text bs = bytes_string (takeWhile (\<lambda>b. b \<noteq> 0) bs)"

text \<open>A buffer of \<open>n\<close> bytes that held \<open>old\<close> after \<open>bs\<close> was received into it.\<close>

definition filled :: "nat \<Rightarrow> byte list \<Rightarrow> byte list \<Rightarrow> byte list" where
  "filled n bs old = take n (bs @ drop (length bs) old @ replicate n 0)"

lemma length_filled: "length (filled n bs old) = n"
  by (simp add: filled_def)

lemma filled_prefix: "length bs \<le> n \<Longrightarrow> take (length bs) (filled n bs old) = bs"
  by (simp add: filled_def min_def)

section \<open>Descriptors\<close>

lemma free_fd: "free_fd ds \<notin> set ds" "3 \<le> free_fd ds"
proof -
  let ?c = "map int [3..<4 + length ds]"
  have "\<exists>d \<in> set ?c. d \<notin> set ds"
  proof (rule ccontr)
    assume "\<not> (\<exists>d \<in> set ?c. d \<notin> set ds)"
    then have "card (set ?c) \<le> card (set ds)" by (intro card_mono) auto
    moreover have "card (set ?c) = 1 + length ds" unfolding set_map by (subst card_image) auto
    ultimately show False using card_length [of ds] by simp
  qed
  then have "filter (\<lambda>d. d \<notin> set ds) ?c \<noteq> []" by (auto simp: filter_empty_conv)
  then have "free_fd ds \<in> set (filter (\<lambda>d. d \<notin> set ds) ?c)" unfolding free_fd_def by (rule hd_in_set)
  then show "free_fd ds \<notin> set ds" "3 \<le> free_fd ds" by auto
qed

lemma tick_simps [simp]: "sk_open (tick s) = sk_open s" "sk_sent (tick s) = sk_sent s" "sk_calls (tick s) = sk_calls s + 1"
  by (simp_all add: tick_def)

lemma ask_frame: "ask env s = (ok, s') \<Longrightarrow> sk_open s' = sk_open s \<and> sk_sent s' = sk_sent s"
  by (auto simp: ask_def)

lemma send_frame: "send_to env d dest bs s = (ok, s') \<Longrightarrow> sk_open s' = sk_open s
    \<and> sk_sent s' = sk_sent s @ (if ok then [(d, dest, bs)] else [])"
  by (auto simp: send_to_def ask_def)

lemma recv_frame: "recv_from env m s = (r, s') \<Longrightarrow> sk_open s' = sk_open s \<and> sk_sent s' = sk_sent s"
  by (auto simp: recv_from_def)

lemma open_frame: "open_socket env s = (d, s') \<Longrightarrow> sk_sent s' = sk_sent s
    \<and> (if d < 0 then d = -1 \<and> sk_open s' = sk_open s else 3 \<le> d \<and> d \<notin> set (sk_open s) \<and> sk_open s' = d # sk_open s)"
  using free_fd [of "sk_open s"] by (auto simp: open_socket_def ask_def Let_def split: if_splits)

lemma close_frame [simp]: "sk_open (close_socket d s) = remove1 d (sk_open s)" "sk_sent (close_socket d s) = sk_sent s"
  by (simp_all add: close_socket_def)

lemma close_opened: "open_socket env s = (d, s') \<Longrightarrow> 0 \<le> d \<Longrightarrow> remove1 d (sk_open s') = sk_open s"
  by (drule open_frame) simp

end
