(* ===== verification/Punch.thy ===== *)
theory Punch
  imports Sockets
begin

text \<open>
  \<^verbatim>\<open>punch.c\<close> without the run over all techniques (which is in \<open>Punch_Multi\<close>), and
  \<^verbatim>\<open>ttl_punch.c\<close>: UDP hole punching on one socket.  Null checks of pointers to results are
  left to the callers, which all pass an address.
\<close>

section \<open>Data\<close>

definition PUNCH_PORT :: int where "PUNCH_PORT = 33445"
definition PUNCH_MAX_RETRY :: nat where "PUNCH_MAX_RETRY = 10"
definition PUNCH_MAX_TTL :: nat where "PUNCH_MAX_TTL = 10"

datatype PunchTechnique =
    PUNCH_TECH_UDP | PUNCH_TECH_TTL | PUNCH_TECH_SIMULTANEOUS | PUNCH_TECH_PORT_PREDICTION | PUNCH_TECH_TCP

definition punch_technique_name :: "PunchTechnique \<Rightarrow> string" where
  "punch_technique_name tech = (case tech of
      PUNCH_TECH_UDP \<Rightarrow> ''UDP_HOLE_PUNCH''
    | PUNCH_TECH_TTL \<Rightarrow> ''TTL_MANIPULATION''
    | PUNCH_TECH_SIMULTANEOUS \<Rightarrow> ''SIMULTANEOUS_OPEN''
    | PUNCH_TECH_PORT_PREDICTION \<Rightarrow> ''PORT_PREDICTION''
    | PUNCH_TECH_TCP \<Rightarrow> ''TCP_PUNCH'')"

record PunchState =
  ps_udp_socket :: int
  ps_local_port :: int
  ps_peer_ip :: string
  ps_peer_port :: int
  ps_punched :: bool
  ps_peer_addr :: sockaddr
  ps_last_technique :: PunchTechnique
  ps_retry_count :: int
  ps_ttl_used :: bool
  ps_simultaneous_used :: bool

section \<open>Opening and closing\<close>

definition punch_init :: "net_env \<Rightarrow> PunchState option \<Rightarrow> int \<Rightarrow> sockets \<Rightarrow> int \<times> PunchState option \<times> sockets" where
  "punch_init env p port s = (case p of
      None \<Rightarrow> (-1, None, s)
    | Some st \<Rightarrow>
        let (d, s) = open_socket env s; st = st\<lparr>ps_udp_socket := d\<rparr> in
        if d < 0 then (-1, Some st, s)
        else let (bound, s) = ask env s in
          if \<not> bound then (-1, Some (st\<lparr>ps_udp_socket := -1\<rparr>), close_socket d s)
          else (0, Some (st\<lparr>ps_local_port := port, ps_punched := False, ps_retry_count := 0, ps_ttl_used := False,
                 ps_simultaneous_used := False, ps_last_technique := PUNCH_TECH_UDP, ps_peer_addr := zero_sockaddr\<rparr>), s))"

definition punch_close :: "PunchState option \<Rightarrow> sockets \<Rightarrow> PunchState option \<times> sockets" where
  "punch_close p s = (case p of
      None \<Rightarrow> (None, s)
    | Some st \<Rightarrow>
        let (st, s) = (if 0 \<le> ps_udp_socket st then (st\<lparr>ps_udp_socket := -1\<rparr>, close_socket (ps_udp_socket st) s) else (st, s))
        in (Some (st\<lparr>ps_punched := False\<rparr>), s))"

section \<open>Packets\<close>

definition punch_send :: "net_env \<Rightarrow> PunchState option \<Rightarrow> string option \<Rightarrow> int \<Rightarrow> sockets \<Rightarrow> int \<times> sockets" where
  "punch_send env p target_ip target_port s = (case (p, target_ip) of
      (Some st, Some ip) \<Rightarrow>
        if ps_udp_socket st < 0 then (-1, s)
        else let (sent, s) = send_to env (ps_udp_socket st) (Some (sock_addr ip target_port)) (string_bytes ''ORCA_PUNCH'') s
             in (if sent then 0 else -1, s)
    | _ \<Rightarrow> (-1, s))"

text \<open>The packet with a short life is sent through a socket of its own.\<close>

definition punch_send_ttl :: "net_env \<Rightarrow> PunchState option \<Rightarrow> string option \<Rightarrow> int \<Rightarrow> nat \<Rightarrow> sockets \<Rightarrow> int \<times> sockets" where
  "punch_send_ttl env p target_ip target_port ttl s = (case (p, target_ip) of
      (Some st, Some ip) \<Rightarrow>
        if ps_udp_socket st < 0 then (-1, s)
        else let (d, s) = open_socket env s in
          if d < 0 then (-1, s)
          else let (changed, s) = ask env s in
            if \<not> changed then (-1, close_socket d s)
            else let (sent, s) = send_to env d (Some (sock_addr ip target_port)) (string_bytes ''ORCA_PUNCH_TTL'') s
                 in (if sent then 0 else -1, close_socket d s)
    | _ \<Rightarrow> (-1, s))"

definition punch_words :: "string list" where
  "punch_words = [''ORCA_PUNCH'', ''ORCA_PUNCH_RESPONSE'', ''ORCA_PUNCH_TTL'', ''ORCA_PUNCH_SIM'']"

text \<open>The return code, and what is stored to the two results when it is 0.\<close>

definition punch_listen :: "net_env \<Rightarrow> PunchState option \<Rightarrow> sockets \<Rightarrow> (string \<times> int) option \<times> sockets" where
  "punch_listen env p s = (case p of
      None \<Rightarrow> (None, s)
    | Some st \<Rightarrow>
        if ps_udp_socket st < 0 then (None, s)
        else (case recv_from env 255 s of
            (None, s) \<Rightarrow> (None, s)
          | (Some (buffer, from_addr), s) \<Rightarrow>
              if recv_text buffer \<in> set punch_words then (Some (ntop (sa_ip from_addr), int (sa_port from_addr)), s)
              else (None, s)))"

section \<open>Punching\<close>

fun send_times :: "net_env \<Rightarrow> PunchState \<Rightarrow> string \<Rightarrow> int \<Rightarrow> nat \<Rightarrow> sockets \<Rightarrow> sockets" where
  "send_times env st ip port 0 s = s"
| "send_times env st ip port (Suc n) s = send_times env st ip port n (snd (punch_send env (Some st) (Some ip) port s))"

fun listen_times :: "net_env \<Rightarrow> PunchState \<Rightarrow> nat \<Rightarrow> sockets \<Rightarrow> (string \<times> int) option \<times> sockets" where
  "listen_times env st 0 s = (None, s)"
| "listen_times env st (Suc n) s = (case punch_listen env (Some st) s of
      (Some peer, s) \<Rightarrow> (Some peer, s)
    | (None, s) \<Rightarrow> listen_times env st n s)"

definition found_peer :: "string \<times> int \<Rightarrow> PunchState \<Rightarrow> PunchState" where
  "found_peer peer st = st\<lparr>ps_peer_ip := fst peer, ps_peer_port := snd peer, ps_punched := True\<rparr>"

definition punch_punch ::
    "net_env \<Rightarrow> PunchState option \<Rightarrow> string option \<Rightarrow> int \<Rightarrow> sockets \<Rightarrow> int \<times> PunchState option \<times> sockets" where
  "punch_punch env p target_ip target_port s = (case (p, target_ip) of
      (Some st, Some ip) \<Rightarrow>
        let s = send_times env st ip target_port PUNCH_MAX_RETRY s in
        (case listen_times env st PUNCH_MAX_RETRY s of
            (Some peer, s) \<Rightarrow> (0, Some ((found_peer peer st)\<lparr>ps_last_technique := PUNCH_TECH_UDP,
                 ps_peer_addr := sock_addr (fst peer) (snd peer)\<rparr>), s)
          | (None, s) \<Rightarrow> (-1, Some st, s))
    | _ \<Rightarrow> (-1, p, s))"

text \<open>The loop of \<open>punch_try_connect\<close> at round \<open>i\<close>, \<open>n\<close> rounds before its end.\<close>

fun connect_loop ::
    "net_env \<Rightarrow> PunchState \<Rightarrow> string \<Rightarrow> int \<Rightarrow> nat \<Rightarrow> nat \<Rightarrow> sockets \<Rightarrow> (string \<times> int) option \<times> sockets" where
  "connect_loop env st ip port i 0 s = (None, s)"
| "connect_loop env st ip port i (Suc n) s = (case punch_listen env (Some st) s of
      (Some peer, s) \<Rightarrow> (Some peer, s)
    | (None, s) \<Rightarrow> connect_loop env st ip port (i + 1) n
          (if i mod 3 = 0 then snd (punch_send env (Some st) (Some ip) port s) else s))"

definition punch_try_connect ::
    "net_env \<Rightarrow> PunchState option \<Rightarrow> string option \<Rightarrow> int \<Rightarrow> sockets \<Rightarrow> int \<times> PunchState option \<times> sockets" where
  "punch_try_connect env p target_ip target_port s = (case (p, target_ip) of
      (Some st, Some ip) \<Rightarrow>
        let s = send_times env st ip target_port 5 s in
        (case connect_loop env st ip target_port 0 PUNCH_MAX_RETRY s of
            (Some peer, s) \<Rightarrow> (0, Some ((found_peer peer st)\<lparr>ps_last_technique := PUNCH_TECH_UDP\<rparr>), s)
          | (None, s) \<Rightarrow> (-1, Some st, s))
    | _ \<Rightarrow> (-1, p, s))"

definition punch_try_udp ::
    "net_env \<Rightarrow> PunchState option \<Rightarrow> string option \<Rightarrow> int \<Rightarrow> sockets \<Rightarrow> int \<times> PunchState option \<times> sockets" where
  "punch_try_udp env p target_ip target_port s = (case (p, target_ip) of
      (Some st, Some ip) \<Rightarrow> punch_try_connect env (Some (st\<lparr>ps_last_technique := PUNCH_TECH_UDP\<rparr>)) (Some ip) target_port s
    | _ \<Rightarrow> (-1, p, s))"

fun ttl_loop ::
    "net_env \<Rightarrow> PunchState \<Rightarrow> string \<Rightarrow> int \<Rightarrow> nat \<Rightarrow> nat \<Rightarrow> sockets \<Rightarrow> (string \<times> int) option \<times> sockets" where
  "ttl_loop env st ip port ttl 0 s = (None, s)"
| "ttl_loop env st ip port ttl (Suc n) s =
    (case punch_listen env (Some st) (snd (punch_send_ttl env (Some st) (Some ip) port ttl s)) of
       (Some peer, s) \<Rightarrow> (Some peer, s)
     | (None, s) \<Rightarrow> ttl_loop env st ip port (ttl + 1) n s)"

definition punch_try_ttl ::
    "net_env \<Rightarrow> PunchState option \<Rightarrow> string option \<Rightarrow> int \<Rightarrow> sockets \<Rightarrow> int \<times> PunchState option \<times> sockets" where
  "punch_try_ttl env p target_ip target_port s = (case (p, target_ip) of
      (Some st, Some ip) \<Rightarrow>
        let st = st\<lparr>ps_last_technique := PUNCH_TECH_TTL, ps_ttl_used := True\<rparr> in
        (case ttl_loop env st ip target_port 1 PUNCH_MAX_TTL s of
            (Some peer, s) \<Rightarrow> (0, Some (found_peer peer st), s)
          | (None, s) \<Rightarrow> (-1, Some st, s))
    | _ \<Rightarrow> (-1, p, s))"

definition punch_try_tcp :: "PunchState option \<Rightarrow> string option \<Rightarrow> int \<times> PunchState option" where
  "punch_try_tcp p target_ip = (case (p, target_ip) of
      (Some st, Some ip) \<Rightarrow> (-1, Some (st\<lparr>ps_last_technique := PUNCH_TECH_TCP\<rparr>))
    | _ \<Rightarrow> (-1, p))"

section \<open>Utilities\<close>

definition punch_is_successful :: "PunchState option \<Rightarrow> bool" where
  "punch_is_successful p = (case p of None \<Rightarrow> False | Some st \<Rightarrow> ps_punched st)"

definition punch_get_peer :: "PunchState option \<Rightarrow> (string \<times> int) option" where
  "punch_get_peer p = (case p of
      None \<Rightarrow> None
    | Some st \<Rightarrow> if ps_punched st then Some (ps_peer_ip st, ps_peer_port st) else None)"

definition punch_reset :: "PunchState option \<Rightarrow> PunchState option" where
  "punch_reset p = map_option (\<lambda>st. st\<lparr>ps_punched := False, ps_retry_count := 0, ps_ttl_used := False,
     ps_simultaneous_used := False, ps_peer_ip := [], ps_peer_port := 0, ps_peer_addr := zero_sockaddr\<rparr>) p"

text \<open>One round of the background listener, after \<open>select\<close>: 18 of 19 characters are sent back.\<close>

definition punch_listener_round :: "net_env \<Rightarrow> PunchState \<Rightarrow> sockets \<Rightarrow> sockets" where
  "punch_listener_round env st s = (case recv_from env 255 s of
      (None, s) \<Rightarrow> s
    | (Some (buffer, from_addr), s) \<Rightarrow>
        if buffer = [] then s
        else if recv_text buffer \<in> {''ORCA_PUNCH'', ''ORCA_PUNCH_TTL'', ''ORCA_PUNCH_SIM''}
        then snd (send_to env (ps_udp_socket st) (Some from_addr) (take 18 (string_bytes ''ORCA_PUNCH_RESPONSE'')) s)
        else s)"

section \<open>Punching with a short life\<close>

definition TTL_MIN :: nat where "TTL_MIN = 1"
definition TTL_MAX :: nat where "TTL_MAX = 10"
definition TTL_DEFAULT :: nat where "TTL_DEFAULT = 5"

definition ttl_punch_with_ttl ::
    "net_env \<Rightarrow> string option \<Rightarrow> int \<Rightarrow> nat \<Rightarrow> sockets \<Rightarrow> (string \<times> int) option \<times> sockets" where
  "ttl_punch_with_ttl env target_ip target_port ttl s = (case target_ip of
      None \<Rightarrow> (None, s)
    | Some ip \<Rightarrow>
        let (d, s) = open_socket env s in
        if d < 0 then (None, s)
        else let (changed, s) = ask env s in
          if \<not> changed then (None, close_socket d s)
          else let (sent, s) = send_to env d (Some (sock_addr ip target_port)) (string_bytes ''ORCA_TTL_PROBE'') s in
            if \<not> sent then (None, close_socket d s)
            else (case recv_from env 255 s of
                (None, s) \<Rightarrow> (None, close_socket d s)
              | (Some (buffer, from_addr), s) \<Rightarrow>
                  (if buffer \<noteq> [] \<and> recv_text buffer = ''ORCA_TTL_RESPONSE''
                   then Some (ntop (sa_ip from_addr), int (sa_port from_addr)) else None, close_socket d s)))"

fun ttl_scan_loop :: "net_env \<Rightarrow> string \<Rightarrow> int \<Rightarrow> nat \<Rightarrow> nat \<Rightarrow> sockets \<Rightarrow> (string \<times> int) option \<times> sockets" where
  "ttl_scan_loop env ip port ttl 0 s = (None, s)"
| "ttl_scan_loop env ip port ttl (Suc n) s = (case ttl_punch_with_ttl env (Some ip) port ttl s of
      (Some peer, s) \<Rightarrow> (Some peer, s)
    | (None, s) \<Rightarrow> ttl_scan_loop env ip port (ttl + 1) n s)"

definition ttl_punch_scan :: "net_env \<Rightarrow> string option \<Rightarrow> int \<Rightarrow> sockets \<Rightarrow> (string \<times> int) option \<times> sockets" where
  "ttl_punch_scan env target_ip target_port s = (case target_ip of
      None \<Rightarrow> (None, s)
    | Some ip \<Rightarrow> ttl_scan_loop env ip target_port TTL_MIN (TTL_MAX + 1 - TTL_MIN) s)"

definition ttl_punch :: "net_env \<Rightarrow> string option \<Rightarrow> int \<Rightarrow> sockets \<Rightarrow> (string \<times> int) option \<times> sockets" where
  "ttl_punch env target_ip target_port s = (case target_ip of
      None \<Rightarrow> (None, s)
    | Some ip \<Rightarrow> (case ttl_punch_with_ttl env (Some ip) target_port TTL_DEFAULT s of
          (Some peer, s) \<Rightarrow> (Some peer, s)
        | (None, s) \<Rightarrow> ttl_punch_scan env (Some ip) target_port s))"

definition ttl_punch_supported :: "net_env \<Rightarrow> sockets \<Rightarrow> bool \<times> sockets" where
  "ttl_punch_supported env s =
    (let (d, s) = open_socket env s in
     if d < 0 then (False, s) else let (changed, s) = ask env s in (changed, close_socket d s))"

definition ttl_get_best_ttl :: nat where
  "ttl_get_best_ttl = TTL_DEFAULT"

end
