(* ===== verification/Sim_Open.thy ===== *)
theory Sim_Open
  imports Punch Byte_Order
begin

text \<open>
  \<^verbatim>\<open>simultaneous_open.c\<close>: two peers connect to each other over TCP and exchange packets
  that synchronise a token.  The random bytes of a token and the process id are draws of the
  environment; what \<open>recv\<close> returns is whatever the stream holds.  \<open>None\<close> is an access outside
  a buffer.
\<close>

section \<open>Data\<close>

definition SIM_OPEN_MAX_RETRY :: nat where "SIM_OPEN_MAX_RETRY = 5"
definition SIM_SYNC_PORT_START :: int where "SIM_SYNC_PORT_START = 33450"
definition SIM_SYNC_PORT_END :: int where "SIM_SYNC_PORT_END = 33460"
definition SIM_MAGIC :: "32 word" where "SIM_MAGIC = 0x53494D4F"
definition SIM_PROTOCOL_VERSION :: byte where "SIM_PROTOCOL_VERSION = 1"

definition SIM_PKT_SYNC :: byte where "SIM_PKT_SYNC = 1"
definition SIM_PKT_SYNC_ACK :: byte where "SIM_PKT_SYNC_ACK = 2"
definition SIM_PKT_SYNC_CONFIRM :: byte where "SIM_PKT_SYNC_CONFIRM = 3"
definition SIM_PKT_DATA :: byte where "SIM_PKT_DATA = 4"
definition SIM_PKT_KEEPALIVE :: byte where "SIM_PKT_KEEPALIVE = 5"
definition SIM_PKT_CLOSE :: byte where "SIM_PKT_CLOSE = 6"

lemmas sim_types = SIM_PKT_SYNC_def SIM_PKT_SYNC_ACK_def SIM_PKT_SYNC_CONFIRM_def SIM_PKT_DATA_def
  SIM_PKT_KEEPALIVE_def SIM_PKT_CLOSE_def

datatype SimOpenState =
    SIM_OPEN_STATE_IDLE | SIM_OPEN_STATE_CONNECTING | SIM_OPEN_STATE_SYNCING | SIM_OPEN_STATE_ESTABLISHED
  | SIM_OPEN_STATE_FAILED

record SimOpenSession =
  so_target_ip :: string
  so_target_port :: int
  so_local_port :: int
  so_socket_fd :: int
  so_state :: SimOpenState
  so_sync_token :: "32 word"
  so_start_time :: int
  so_last_activity :: int
  so_retry_count :: int
  so_is_initiator :: bool
  so_peer_addr :: sockaddr
  so_peer_ip :: string
  so_peer_port :: int

section \<open>Packets\<close>

text \<open>The packed header has 16 bytes: magic, version, type, token, time, length.\<close>

definition SIM_SIZEOF :: nat where "SIM_SIZEOF = 16"

definition sim_packet :: "byte \<Rightarrow> 32 word \<Rightarrow> int \<Rightarrow> byte list \<Rightarrow> byte list" where
  "sim_packet ty token stamp payload =
     le32 SIM_MAGIC @ [SIM_PROTOCOL_VERSION, ty] @ le32 token @ le32 (word_of_int stamp)
     @ le16 (of_nat (length payload)) @ payload"

definition sim_magic :: "byte list \<Rightarrow> 32 word" where "sim_magic p = from_le32 p"
definition sim_version :: "byte list \<Rightarrow> byte" where "sim_version p = p ! 4"
definition sim_type :: "byte list \<Rightarrow> byte" where "sim_type p = p ! 5"
definition sim_token :: "byte list \<Rightarrow> 32 word" where "sim_token p = from_le32 (drop 6 p)"
definition sim_payload_len :: "byte list \<Rightarrow> nat" where "sim_payload_len p = from_le16 (drop 14 p)"

section \<open>Sessions\<close>

definition zero_sim :: SimOpenSession where
  "zero_sim = \<lparr>so_target_ip = [], so_target_port = 0, so_local_port = 0, so_socket_fd = -1,
     so_state = SIM_OPEN_STATE_IDLE, so_sync_token = 0, so_start_time = 0, so_last_activity = 0, so_retry_count = 0,
     so_is_initiator = False, so_peer_addr = zero_sockaddr, so_peer_ip = [], so_peer_port = 0\<rparr>"

definition simultaneous_open_init :: "SimOpenSession option \<Rightarrow> string option \<Rightarrow> int \<Rightarrow> (int \<times> SimOpenSession option) option" where
  "simultaneous_open_init session target_ip target_port = (case (session, target_ip) of
      (Some _, Some ip) \<Rightarrow>
        if target_port \<le> 0 then Some (-1, session)
        else do {
          ip \<leftarrow> strcpy_into 16 ip;
          Some (0, Some (zero_sim\<lparr>so_target_ip := ip, so_target_port := target_port\<rparr>)) }
    | _ \<Rightarrow> Some (-1, session))"

definition simultaneous_open_cleanup :: "SimOpenSession \<Rightarrow> sockets \<Rightarrow> SimOpenSession \<times> sockets" where
  "simultaneous_open_cleanup se s =
    (let (se, s) = (if 0 \<le> so_socket_fd se then (se\<lparr>so_socket_fd := -1\<rparr>, close_socket (so_socket_fd se) s) else (se, s))
     in (se\<lparr>so_state := SIM_OPEN_STATE_IDLE\<rparr>, s))"

definition simultaneous_open_create_socket :: "net_env \<Rightarrow> sockets \<Rightarrow> int \<times> sockets" where
  "simultaneous_open_create_socket env s =
    (let (d, s) = open_socket env s in
     if d < 0 then (-1, s)
     else let (bound, s) = ask env s in if bound then (d, s) else (-1, close_socket d s))"

definition simultaneous_open_generate_sync_token :: "net_env \<Rightarrow> sockets \<Rightarrow> 32 word \<times> sockets" where
  "simultaneous_open_generate_sync_token env s =
    (let (random, s) = draw env s; (t, s) = now env s; (pid, s) = draw env s
     in (xor (word_of_int random) (xor (word_of_int t) (word_of_int pid)), s))"

definition simultaneous_open_send_packet ::
    "net_env \<Rightarrow> SimOpenSession \<Rightarrow> byte \<Rightarrow> byte list \<Rightarrow> sockets \<Rightarrow> int \<times> SimOpenSession \<times> sockets" where
  "simultaneous_open_send_packet env se ty payload s =
    (if so_socket_fd se < 0 then (-1, se, s)
     else let (mem, s) = ask env s in
       if \<not> mem then (-1, se, s)
       else let (stamp, s) = now env s;
                (sent, s) = send_to env (so_socket_fd se) None (sim_packet ty (so_sync_token se) stamp payload) s
            in if \<not> sent then (-1, se, s)
               else let (t, s) = now env s in (0, se\<lparr>so_last_activity := t\<rparr>, s))"

definition simultaneous_open_process_packet ::
    "net_env \<Rightarrow> SimOpenSession \<Rightarrow> byte list \<Rightarrow> sockets \<Rightarrow> int \<times> SimOpenSession \<times> sockets" where
  "simultaneous_open_process_packet env se packet s =
    (if length packet < SIM_SIZEOF then (-1, se, s)
     else if sim_magic packet \<noteq> SIM_MAGIC then (-1, se, s)
     else if sim_version packet \<noteq> SIM_PROTOCOL_VERSION then (-1, se, s)
     else
       let (t, s) = now env s; se = se\<lparr>so_last_activity := t\<rparr>; ty = sim_type packet in
       if ty = SIM_PKT_SYNC then
         let se = se\<lparr>so_sync_token := sim_token packet\<rparr>;
             (_, se, s) = simultaneous_open_send_packet env se SIM_PKT_SYNC_ACK [] s
         in (0, if so_state se = SIM_OPEN_STATE_SYNCING then se\<lparr>so_state := SIM_OPEN_STATE_ESTABLISHED\<rparr> else se, s)
       else if ty = SIM_PKT_SYNC_ACK then
         if so_sync_token se = sim_token packet then
           let (_, se, s) = simultaneous_open_send_packet env se SIM_PKT_SYNC_CONFIRM [] s
           in (0, se\<lparr>so_state := SIM_OPEN_STATE_ESTABLISHED\<rparr>, s)
         else (0, se, s)
       else if ty = SIM_PKT_SYNC_CONFIRM then
         (0, if so_state se = SIM_OPEN_STATE_SYNCING then se\<lparr>so_state := SIM_OPEN_STATE_ESTABLISHED\<rparr> else se, s)
       else if ty = SIM_PKT_CLOSE then (0, se\<lparr>so_state := SIM_OPEN_STATE_IDLE\<rparr>, s)
       else (0, se, s))"

section \<open>Connecting\<close>

definition simultaneous_open_wait_for_sync ::
    "net_env \<Rightarrow> SimOpenSession \<Rightarrow> sockets \<Rightarrow> int \<times> SimOpenSession \<times> sockets" where
  "simultaneous_open_wait_for_sync env se s =
    (if so_socket_fd se < 0 then (-1, se, s)
     else let (ready, s) = ask env s in
       if \<not> ready then (-1, se, s)
       else (case recv_from env 512 s of
           (None, s) \<Rightarrow> (-1, se, s)
         | (Some (buffer, _), s) \<Rightarrow>
             if SIM_SIZEOF \<le> length buffer then simultaneous_open_process_packet env se buffer s else (-1, se, s)))"

text \<open>What connecting and accepting begin with: socket, token and \<open>connect\<close>.\<close>

definition sim_start :: "net_env \<Rightarrow> bool \<Rightarrow> SimOpenSession \<Rightarrow> sockets \<Rightarrow> bool \<times> SimOpenSession \<times> sockets" where
  "sim_start env initiator se s =
    (let (r, s) = draw env s;
         se = se\<lparr>so_local_port := SIM_SYNC_PORT_START + r mod (SIM_SYNC_PORT_END - SIM_SYNC_PORT_START)\<rparr>;
         (d, s) = simultaneous_open_create_socket env s;
         se = se\<lparr>so_socket_fd := d\<rparr>
     in if d < 0 then (False, se, s)
        else
          let (token, s) = simultaneous_open_generate_sync_token env s;
              (t, s) = now env s;
              se = se\<lparr>so_sync_token := token, so_is_initiator := initiator, so_state := SIM_OPEN_STATE_CONNECTING,
                 so_start_time := t\<rparr>;
              in_progress = ne_again env (sk_calls s);
              (connected, s) = ask env s
          in if \<not> connected \<and> \<not> in_progress then (False, simultaneous_open_cleanup se s)
             else (True, se\<lparr>so_state := SIM_OPEN_STATE_SYNCING\<rparr>, s))"

text \<open>\<open>n\<close> rounds before the end of the loop; the initiator sends again after all but the last.\<close>

fun sim_loop :: "net_env \<Rightarrow> bool \<Rightarrow> nat \<Rightarrow> SimOpenSession \<Rightarrow> sockets \<Rightarrow> bool \<times> SimOpenSession \<times> sockets" where
  "sim_loop env initiator 0 se s = (False, se, s)"
| "sim_loop env initiator (Suc n) se s =
    (let (rc, se, s) = simultaneous_open_wait_for_sync env se s in
     if rc = 0 \<and> so_state se = SIM_OPEN_STATE_ESTABLISHED then (True, se, s)
     else
       let (se, s) = (if 0 < n \<and> initiator then snd (simultaneous_open_send_packet env se SIM_PKT_SYNC [] s) else (se, s))
       in sim_loop env initiator n se s)"

definition simultaneous_open_connect :: "net_env \<Rightarrow> SimOpenSession \<Rightarrow> sockets \<Rightarrow> int \<times> SimOpenSession \<times> sockets" where
  "simultaneous_open_connect env se s =
    (let (started, se, s) = sim_start env True se s in
     if \<not> started then (-1, se, s)
     else
       let (_, se, s) = simultaneous_open_send_packet env se SIM_PKT_SYNC [] s;
           (found, se, s) = sim_loop env True SIM_OPEN_MAX_RETRY se s
       in if found then (0, se, s) else (-1, simultaneous_open_cleanup se s))"

definition simultaneous_open_accept :: "net_env \<Rightarrow> SimOpenSession \<Rightarrow> sockets \<Rightarrow> int \<times> SimOpenSession \<times> sockets" where
  "simultaneous_open_accept env se s =
    (let (started, se, s) = sim_start env False se s in
     if \<not> started then (-1, se, s)
     else
       let (found, se, s) = sim_loop env False SIM_OPEN_MAX_RETRY se s
       in if found then (0, se, s) else (-1, simultaneous_open_cleanup se s))"

text \<open>The punching interface: the new socket replaces the one of the punch.\<close>

definition simultaneous_open_punch ::
    "net_env \<Rightarrow> PunchState option \<Rightarrow> string option \<Rightarrow> int \<Rightarrow> sockets \<Rightarrow> (int \<times> PunchState option \<times> sockets) option" where
  "simultaneous_open_punch env p target_ip target_port s = (case target_ip of
      None \<Rightarrow> Some (-1, p, s)
    | Some ip \<Rightarrow>
        if target_port \<le> 0 then Some (-1, p, s)
        else do {
          (_, session) \<leftarrow> simultaneous_open_init (Some zero_sim) (Some ip) target_port;
          let (rc, se, s) = simultaneous_open_connect env (the session) s;
          Some (if rc = 0
            then (0, map_option (\<lambda>st. st\<lparr>ps_udp_socket := so_socket_fd se, ps_peer_ip := so_peer_ip se,
                   ps_peer_port := so_peer_port se, ps_punched := True\<rparr>) p, s)
            else (-1, p, s)) })"

section \<open>Sending and receiving\<close>

definition simultaneous_open_send ::
    "net_env \<Rightarrow> SimOpenSession option \<Rightarrow> byte list option \<Rightarrow> sockets \<Rightarrow> int \<times> SimOpenSession option \<times> sockets" where
  "simultaneous_open_send env session data s = (case (session, data) of
      (Some se, Some bs) \<Rightarrow>
        if bs = [] then (-1, session, s)
        else if so_state se \<noteq> SIM_OPEN_STATE_ESTABLISHED then (-1, session, s)
        else let (rc, se, s) = simultaneous_open_send_packet env se SIM_PKT_DATA bs s in (rc, Some se, s)
    | _ \<Rightarrow> (-1, session, s))"

text \<open>
  The copy takes as many bytes as the packet announces from the receive buffer, in which \<open>old\<close>
  lies behind what was received.
\<close>

definition simultaneous_open_recv ::
    "net_env \<Rightarrow> byte list \<Rightarrow> SimOpenSession option \<Rightarrow> bool \<Rightarrow> nat \<Rightarrow> sockets
      \<Rightarrow> (int \<times> byte list \<times> SimOpenSession option \<times> sockets) option" where
  "simultaneous_open_recv env old session bufp max_len s = (case session of
      None \<Rightarrow> Some (-1, [], None, s)
    | Some se \<Rightarrow>
        if \<not> bufp \<or> max_len = 0 then Some (-1, [], session, s)
        else if so_state se \<noteq> SIM_OPEN_STATE_ESTABLISHED then Some (-1, [], session, s)
        else
          let again = ne_again env (sk_calls s) in
          (case recv_from env 512 s of
             (None, s) \<Rightarrow> Some (if again then 0 else -1, [], session, s)
           | (Some (bs, _), s) \<Rightarrow>
               if bs = [] then Some (0, [], Some (se\<lparr>so_state := SIM_OPEN_STATE_IDLE\<rparr>), s)
               else if SIM_SIZEOF \<le> length bs \<and> sim_magic bs = SIM_MAGIC then
                 (if sim_type bs = SIM_PKT_DATA then
                    let copy_len = min (sim_payload_len bs) max_len;
                        recv_buffer = filled 512 bs old
                    in if 512 < SIM_SIZEOF + copy_len then None
                       else let (t, s) = now env s in
                         Some (int copy_len, take copy_len (drop SIM_SIZEOF recv_buffer), Some (se\<lparr>so_last_activity := t\<rparr>), s)
                  else let (_, se, s) = simultaneous_open_process_packet env se bs s in Some (0, [], Some se, s))
               else Some (0, [], session, s)))"

definition simultaneous_open_close :: "net_env \<Rightarrow> SimOpenSession option \<Rightarrow> sockets \<Rightarrow> int \<times> SimOpenSession option \<times> sockets" where
  "simultaneous_open_close env session s = (case session of
      None \<Rightarrow> (-1, None, s)
    | Some se \<Rightarrow>
        let (se, s) = (if 0 \<le> so_socket_fd se
              then let (_, se', s) = simultaneous_open_send_packet env se SIM_PKT_CLOSE [] s
                   in (se'\<lparr>so_socket_fd := -1\<rparr>, close_socket (so_socket_fd se) s)
              else (se, s))
        in (0, Some (se\<lparr>so_state := SIM_OPEN_STATE_IDLE\<rparr>), s))"

definition simultaneous_open_is_connected :: "SimOpenSession option \<Rightarrow> bool" where
  "simultaneous_open_is_connected session = (case session of None \<Rightarrow> False | Some se \<Rightarrow> so_state se = SIM_OPEN_STATE_ESTABLISHED)"

definition simultaneous_open_get_state :: "SimOpenSession option \<Rightarrow> SimOpenState" where
  "simultaneous_open_get_state session = (case session of None \<Rightarrow> SIM_OPEN_STATE_IDLE | Some se \<Rightarrow> so_state se)"

definition simultaneous_open_get_peer :: "SimOpenSession option \<Rightarrow> (string \<times> int) option" where
  "simultaneous_open_get_peer session = (case session of
      None \<Rightarrow> None
    | Some se \<Rightarrow> if so_state se = SIM_OPEN_STATE_ESTABLISHED then Some (so_peer_ip se, so_peer_port se) else None)"

end
