(* ===== verification/C_Float.thy ===== *)
theory C_Float
  imports Complex_Main
begin

text \<open>
  Single precision arithmetic as the sources use it: a finite \<open>float\<close> of moderate size is a
  rational number with 24 significant bits, an operation is the exact one followed by rounding to
  the nearest such number, ties to even.  No function here models a line of the repository.
\<close>

fun bit_length :: "nat \<Rightarrow> nat" where
  "bit_length n = (if n = 0 then 0 else Suc (bit_length (n div 2)))"

declare bit_length.simps [simp del]

text \<open>The \<open>e\<close> with \<open>2 ^ e \<le> x < 2 ^ (e + 1)\<close>, for positive \<open>x\<close>.\<close>

definition two_to :: "int \<Rightarrow> rat" where
  "two_to e = (if 0 \<le> e then 2 ^ nat e else 1 / 2 ^ nat (- e))"

definition binary_exponent :: "rat \<Rightarrow> int" where
  "binary_exponent x = (case quotient_of x of (n, d) \<Rightarrow>
     let k = int (bit_length (nat n)) - int (bit_length (nat d)) in if two_to k \<le> x then k else k - 1)"

definition round_even :: "rat \<Rightarrow> int" where
  "round_even q = (let f = floor q; r = q - of_int f in
     if r < 1 / 2 then f else if 1 / 2 < r then f + 1 else if even f then f else f + 1)"

definition rnd24 :: "rat \<Rightarrow> rat" where
  "rnd24 x = (if x = 0 then 0
     else let u = two_to (binary_exponent (abs x) - 23) in of_int (round_even (x / u)) * u)"

text \<open>The conversion to \<open>int\<close> drops the fraction.\<close>

definition to_int :: "rat \<Rightarrow> int" where
  "to_int x = (if 0 \<le> x then floor x else - floor (- x))"

end
