(* ===== verification/Port_Prediction.thy ===== *)
theory Port_Prediction
  imports Punch C_Float
begin

text \<open>
  \<^verbatim>\<open>port_prediction.c\<close>: the ports a NAT was seen to use, the pattern found in them, and
  the punch that tries the predicted port and those around it.  The observations are the list of
  the \<open>count\<close> cells in use.  The probe socket and its port, which are static variables, are the
  record \<open>probe\<close>.  \<open>None\<close> is a copy past the end of \<open>target_ip\<close>.
\<close>

section \<open>Data\<close>

definition PORT_PREDICT_SAMPLES :: nat where "PORT_PREDICT_SAMPLES = 10"
definition PORT_PREDICT_RANGE :: int where "PORT_PREDICT_RANGE = 10"
definition PORT_PREDICT_MIN_PORT :: int where "PORT_PREDICT_MIN_PORT = 1024"
definition PORT_PREDICT_MAX_PORT :: int where "PORT_PREDICT_MAX_PORT = 65535"
definition PORT_PREDICT_PROBE_PORT :: int where "PORT_PREDICT_PROBE_PORT = 33445"

lemmas predict_limits = PORT_PREDICT_SAMPLES_def PORT_PREDICT_RANGE_def PORT_PREDICT_MIN_PORT_def PORT_PREDICT_MAX_PORT_def

record PortObservation =
  po_port :: int
  po_observed_at :: int
  po_sequence_num :: nat
  po_confirmed :: bool

record PortPredictor =
  pp_target_ip :: string
  pp_target_port :: int
  pp_observations :: "PortObservation list"
  pp_predicted_port :: int
  pp_pattern_offset :: int
  pp_pattern_detected :: bool
  pp_confidence :: int
  pp_last_prediction :: int
  pp_best_ttl :: int

definition pp_count :: "PortPredictor \<Rightarrow> nat" where
  "pp_count pred = length (pp_observations pred)"

definition new_predictor :: "string \<Rightarrow> int \<Rightarrow> PortPredictor" where
  "new_predictor ip port = \<lparr>pp_target_ip = ip, pp_target_port = port, pp_observations = [], pp_predicted_port = -1,
     pp_pattern_offset = 0, pp_pattern_detected = False, pp_confidence = 0, pp_last_prediction = 0, pp_best_ttl = 5\<rparr>"

text \<open>Whatever the structure held before is wiped.\<close>

definition port_predictor_init :: "PortPredictor option \<Rightarrow> string option \<Rightarrow> int \<Rightarrow> (int \<times> PortPredictor option) option" where
  "port_predictor_init pred target_ip target_port = (case (pred, target_ip) of
      (Some _, Some ip) \<Rightarrow> do {
        ip \<leftarrow> strcpy_into 16 ip;
        Some (0, Some (new_predictor ip target_port)) }
    | _ \<Rightarrow> Some (-1, pred))"

definition port_predictor_add_observation :: "int \<Rightarrow> PortPredictor option \<Rightarrow> int \<Rightarrow> int \<times> PortPredictor option" where
  "port_predictor_add_observation t pred observed_port = (case pred of
      None \<Rightarrow> (-1, None)
    | Some pp \<Rightarrow>
        if PORT_PREDICT_SAMPLES \<le> pp_count pp then (-1, pred)
        else if observed_port < PORT_PREDICT_MIN_PORT \<or> PORT_PREDICT_MAX_PORT < observed_port then (-1, pred)
        else (0, Some (pp\<lparr>pp_observations := pp_observations pp @
               [\<lparr>po_port = observed_port, po_observed_at = t, po_sequence_num = pp_count pp, po_confirmed = False\<rparr>]\<rparr>)))"

section \<open>The pattern\<close>

definition port_diffs :: "int list \<Rightarrow> int list" where
  "port_diffs ports = map2 (\<lambda>a b. b - a) (butlast ports) (tl ports)"

text \<open>Least squares over the index, in single precision: slope and intercept.\<close>

definition port_slope :: "int list \<Rightarrow> rat" where
  "port_slope ports =
    (let n = int (length ports); xs = map int [0..<length ports];
         sum_x = sum_list xs; sum_y = sum_list ports; sum_xy = sum_list (map2 (*) xs ports); sum_x2 = sum_list (map (\<lambda>x. x * x) xs)
     in rnd24 (rnd24 (of_int (n * sum_xy - sum_x * sum_y)) / rnd24 (of_int (n * sum_x2 - sum_x * sum_x))))"

definition port_intercept :: "int list \<Rightarrow> rat" where
  "port_intercept ports =
    (let sum_x = sum_list (map int [0..<length ports]); sum_y = sum_list ports
     in rnd24 (rnd24 (rnd24 (of_int sum_y) - rnd24 (port_slope ports * rnd24 (of_int sum_x))) / rnd24 (of_nat (length ports))))"

definition regression_port :: "int list \<Rightarrow> int" where
  "regression_port ports =
     to_int (rnd24 (rnd24 (port_slope ports * rnd24 (of_nat (length ports))) + port_intercept ports))"

definition clamp_port :: "int \<Rightarrow> int" where
  "clamp_port p =
    (let p = (if p < PORT_PREDICT_MIN_PORT then PORT_PREDICT_MIN_PORT else p)
     in if PORT_PREDICT_MAX_PORT < p then PORT_PREDICT_MAX_PORT else p)"

definition cap_port :: "int \<Rightarrow> int" where
  "cap_port p = (if PORT_PREDICT_MAX_PORT < p then PORT_PREDICT_MAX_PORT else p)"

text \<open>\<open>rnd\<close> is the answer of \<open>rand\<close>.\<close>

definition port_analyze_pattern :: "int \<Rightarrow> PortPredictor option \<Rightarrow> int \<times> PortPredictor option" where
  "port_analyze_pattern rnd pred = (case pred of
      None \<Rightarrow> (-1, None)
    | Some pp \<Rightarrow>
        if pp_count pp < 3 then (-1, pred)
        else
          let ports = map po_port (pp_observations pp); diffs = port_diffs ports; first_diff = hd diffs;
              consistent = list_all (\<lambda>d. d = first_diff) (tl diffs);
              even_count = length (filter (\<lambda>p. p mod 2 = 0) ports); odd_count = length (filter (\<lambda>p. p mod 2 \<noteq> 0) ports)
          in if consistent \<and> 0 < first_diff \<and> first_diff < 20 then
               (0, Some (pp\<lparr>pp_pattern_detected := True, pp_pattern_offset := first_diff, pp_confidence := 80,
                  pp_predicted_port := last ports + first_diff\<rparr>))
             else if odd_count * 2 < even_count then
               (0, Some (pp\<lparr>pp_pattern_detected := True, pp_confidence := 60,
                  pp_predicted_port := and (last ports) (not 1) + 2\<rparr>))
             else if even_count * 2 < odd_count then
               (0, Some (pp\<lparr>pp_pattern_detected := True, pp_confidence := 60,
                  pp_predicted_port := or (last ports) 1 + 2\<rparr>))
             else if 4 \<le> pp_count pp \<and> 1 / 2 < port_slope ports \<and> port_slope ports < 10 then
               (0, Some (pp\<lparr>pp_pattern_detected := True, pp_confidence := 50,
                  pp_predicted_port := clamp_port (regression_port ports)\<rparr>))
             else (-1, Some (pp\<lparr>pp_pattern_detected := False, pp_confidence := 10,
                  pp_predicted_port := cap_port (last ports + rnd mod 5 + 1)\<rparr>)))"

definition port_predictor_predict :: "int \<Rightarrow> (nat \<Rightarrow> int) \<Rightarrow> PortPredictor option \<Rightarrow> int \<times> PortPredictor option" where
  "port_predictor_predict t rnd pred = (case pred of
      None \<Rightarrow> (-1, None)
    | Some pp \<Rightarrow>
        if pp_count pp < 3 then (-1, pred)
        else (case port_analyze_pattern (rnd 0) pred of
            (_, None) \<Rightarrow> (-1, None)
          | (result, Some pp) \<Rightarrow>
              if result < 0 then
                let p = cap_port (po_port (last (pp_observations pp)) + rnd 1 mod 5 + 1)
                in (p, Some (pp\<lparr>pp_predicted_port := p, pp_confidence := 20\<rparr>))
              else (pp_predicted_port pp, Some (pp\<lparr>pp_last_prediction := t\<rparr>))))"

definition port_prediction_possible :: "PortPredictor option \<Rightarrow> bool" where
  "port_prediction_possible pred = (case pred of
      None \<Rightarrow> False
    | Some pp \<Rightarrow> pp_pattern_detected pp \<and> 40 < pp_confidence pp \<and> 3 \<le> pp_count pp)"

section \<open>Probes\<close>

record probe =
  pb_socket :: int
  pb_port :: int

definition no_probe :: probe where
  "no_probe = \<lparr>pb_socket = -1, pb_port = 0\<rparr>"

text \<open>The first port of the range that can be bound.\<close>

fun bind_first :: "net_env \<Rightarrow> int list \<Rightarrow> sockets \<Rightarrow> int option \<times> sockets" where
  "bind_first env [] s = (None, s)"
| "bind_first env (port # ports) s =
    (let (bound, s) = ask env s in if bound then (Some port, s) else bind_first env ports s)"

definition port_predictor_open_probe_socket :: "net_env \<Rightarrow> probe \<Rightarrow> sockets \<Rightarrow> (int \<times> int option) \<times> probe \<times> sockets" where
  "port_predictor_open_probe_socket env pb s =
    (if 0 \<le> pb_socket pb then ((pb_socket pb, Some (pb_port pb)), pb, s)
     else let (d, s) = open_socket env s in
       if d < 0 then ((-1, None), pb, s)
       else (case bind_first env [PORT_PREDICT_PROBE_PORT..PORT_PREDICT_PROBE_PORT + 19] s of
           (Some port, s) \<Rightarrow> ((d, Some port), \<lparr>pb_socket = d, pb_port = port\<rparr>, s)
         | (None, s) \<Rightarrow> ((-1, None), pb, close_socket d s)))"

definition port_predictor_close_probe_socket :: "probe \<Rightarrow> sockets \<Rightarrow> probe \<times> sockets" where
  "port_predictor_close_probe_socket pb s =
    (if 0 \<le> pb_socket pb then (no_probe, close_socket (pb_socket pb) s) else (pb, s))"

text \<open>A text is cut to the 31 characters of its buffer.\<close>

definition port_predictor_probe_port ::
    "net_env \<Rightarrow> string \<Rightarrow> int \<Rightarrow> probe \<Rightarrow> sockets \<Rightarrow> int \<times> probe \<times> sockets" where
  "port_predictor_probe_port env target_ip target_port pb s =
    (let ((d, _), pb, s) = port_predictor_open_probe_socket env pb s in
     if d < 0 then (-1, pb, s)
     else
       let (t, s) = now env s;
           msg = snprintf_into 32 (''ORCA_PROBE_'' @ dec_int t);
           (sent, s) = send_to env d (Some (sock_addr target_ip target_port)) (string_bytes msg) s
       in if \<not> sent then (-1, pb, s)
          else (case recv_from env 255 s of
              (None, s) \<Rightarrow> (-1, pb, s)
            | (Some (buffer, from_addr), s) \<Rightarrow>
                (if buffer \<noteq> [] \<and> contains (recv_text buffer) ''ORCA_PROBE_RESPONSE'' then int (sa_port from_addr) else -1, pb, s)))"

definition port_predictor_probe_with_ttl :: "net_env \<Rightarrow> string \<Rightarrow> int \<Rightarrow> nat \<Rightarrow> sockets \<Rightarrow> int \<times> sockets" where
  "port_predictor_probe_with_ttl env target_ip target_port ttl s =
    (let (d, s) = open_socket env s in
     if d < 0 then (-1, s)
     else let (changed, s) = ask env s in
       if \<not> changed then (-1, close_socket d s)
       else
         let msg = snprintf_into 32 (''ORCA_TTL_PROBE_'' @ dec_nat ttl);
             (_, s) = send_to env d (Some (sock_addr target_ip target_port)) (string_bytes msg) s
         in (case recv_from env 255 s of
             (None, s) \<Rightarrow> (-1, close_socket d s)
           | (Some (buffer, from_addr), s) \<Rightarrow>
               (if buffer \<noteq> [] \<and> contains (recv_text buffer) ''ORCA_TTL_RESPONSE'' then int (sa_port from_addr) else -1,
                close_socket d s)))"

section \<open>Scanning ports\<close>

definition port_window :: "int \<Rightarrow> int list" where
  "port_window p = [max PORT_PREDICT_MIN_PORT (p - PORT_PREDICT_RANGE)..min PORT_PREDICT_MAX_PORT (p + PORT_PREDICT_RANGE)]"

fun range_scan :: "net_env \<Rightarrow> string \<Rightarrow> int \<Rightarrow> int list \<Rightarrow> sockets \<Rightarrow> (string \<times> int) option \<times> sockets" where
  "range_scan env ip d [] s = (None, s)"
| "range_scan env ip d (port # ports) s =
    (let msg = snprintf_into 32 (''ORCA_RANGE_'' @ dec_int port);
         (_, s) = send_to env d (Some (sock_addr ip port)) (string_bytes msg) s
     in case recv_from env 255 s of
         (None, s) \<Rightarrow> range_scan env ip d ports s
       | (Some (buffer, from_addr), s) \<Rightarrow>
           if buffer \<noteq> [] \<and> contains (recv_text buffer) ''ORCA_RANGE_RESPONSE''
           then (Some (ntop (sa_ip from_addr), int (sa_port from_addr)), s)
           else range_scan env ip d ports s)"

definition port_predict_range ::
    "net_env \<Rightarrow> string option \<Rightarrow> int \<Rightarrow> bool \<Rightarrow> probe \<Rightarrow> sockets \<Rightarrow> (string \<times> int) option \<times> probe \<times> sockets" where
  "port_predict_range env target_ip target_port outs pb s = (case target_ip of
      None \<Rightarrow> (None, pb, s)
    | Some ip \<Rightarrow>
        if \<not> outs then (None, pb, s)
        else let ((d, _), pb, s) = port_predictor_open_probe_socket env pb s in
          if d < 0 then (None, pb, s)
          else let (found, s) = range_scan env ip d (port_window target_port) s in (found, pb, s))"

section \<open>Punching with a prediction\<close>

text \<open>Round \<open>i\<close> of the six that observe ports; the second probe has a time to live of 1 to 5.\<close>

definition observe_port :: "net_env \<Rightarrow> string \<Rightarrow> int \<Rightarrow> nat \<Rightarrow> PortPredictor option \<Rightarrow> probe \<Rightarrow> sockets
      \<Rightarrow> PortPredictor option \<times> probe \<times> sockets" where
  "observe_port env ip port i pred pb s =
    (let (observed_port, pb, s) = port_predictor_probe_port env ip port pb s in
     if 0 < observed_port then
       let (t, s) = now env s in (snd (port_predictor_add_observation t pred observed_port), pb, s)
     else
       let (ttl_port, s) = port_predictor_probe_with_ttl env ip port (1 + i mod 5) s in
       if 0 < ttl_port then let (t, s) = now env s in (snd (port_predictor_add_observation t pred ttl_port), pb, s)
       else (pred, pb, s))"

fun observe_loop :: "net_env \<Rightarrow> string \<Rightarrow> int \<Rightarrow> nat list \<Rightarrow> PortPredictor option \<Rightarrow> probe \<Rightarrow> sockets
      \<Rightarrow> PortPredictor option \<times> probe \<times> sockets" where
  "observe_loop env ip port [] pred pb s = (pred, pb, s)"
| "observe_loop env ip port (i # is) pred pb s =
    (let (pred, pb, s) = observe_port env ip port i pred pb s in observe_loop env ip port is pred pb s)"

fun punch_port :: "net_env \<Rightarrow> PunchState \<Rightarrow> string \<Rightarrow> int \<Rightarrow> nat \<Rightarrow> sockets \<Rightarrow> (string \<times> int) option \<times> sockets" where
  "punch_port env st ip port 0 s = (None, s)"
| "punch_port env st ip port (Suc n) s =
    (let (rc, s) = punch_send env (Some st) (Some ip) port s in
     if rc = 0 then (case punch_listen env (Some st) s of
         (Some peer, s) \<Rightarrow> (Some peer, s)
       | (None, s) \<Rightarrow> punch_port env st ip port n s)
     else punch_port env st ip port n s)"

fun punch_ports :: "net_env \<Rightarrow> PunchState \<Rightarrow> string \<Rightarrow> int list \<Rightarrow> sockets \<Rightarrow> (string \<times> int) option \<times> sockets" where
  "punch_ports env st ip [] s = (None, s)"
| "punch_ports env st ip (port # ports) s = (case punch_port env st ip port 2 s of
      (Some peer, s) \<Rightarrow> (Some peer, s)
    | (None, s) \<Rightarrow> punch_ports env st ip ports s)"

definition scan_range :: "net_env \<Rightarrow> PunchState \<Rightarrow> string \<Rightarrow> int \<Rightarrow> probe \<Rightarrow> sockets
      \<Rightarrow> (int \<times> PunchState option) \<times> probe \<times> sockets" where
  "scan_range env st ip port pb s = (case port_predict_range env (Some ip) port True pb s of
      (None, pb, s) \<Rightarrow> ((-1, Some st), pb, s)
    | (Some peer, pb, s) \<Rightarrow> ((0, Some (st\<lparr>ps_peer_ip := fst peer, ps_peer_port := snd peer\<rparr>)), pb, s))"

definition port_predictor_punch ::
    "net_env \<Rightarrow> PunchState option \<Rightarrow> string option \<Rightarrow> int \<Rightarrow> probe \<Rightarrow> sockets
      \<Rightarrow> ((int \<times> PunchState option) \<times> probe \<times> sockets) option" where
  "port_predictor_punch env p target_ip target_port pb s = (case (p, target_ip) of
      (Some st, Some ip) \<Rightarrow> do {
        (_, pred) \<leftarrow> port_predictor_init (Some (new_predictor [] 0)) (Some ip) target_port;
        let (pred, pb, s) = observe_loop env ip target_port [0..<6] pred pb s;
        Some (if pp_count (the pred) < 3 then scan_range env st ip target_port pb s
          else
            let (t, s) = now env s; (r0, s) = draw env s; (r1, s) = draw env s;
                (predicted, _) = port_predictor_predict t (\<lambda>k. if k = 0 then r0 else r1) pred
            in if predicted < 0 then scan_range env st ip target_port pb s
               else (case punch_port env st ip predicted 3 s of
                   (Some peer, s) \<Rightarrow> ((0, Some (found_peer peer st)), pb, s)
                 | (None, s) \<Rightarrow> (case punch_ports env st ip (filter (\<lambda>q. q \<noteq> predicted) (port_window predicted)) s of
                       (Some peer, s) \<Rightarrow> ((0, Some (found_peer peer st)), pb, s)
                     | (None, s) \<Rightarrow> ((-1, Some st), pb, s)))) }
    | _ \<Rightarrow> Some ((-1, p), pb, s))"

end
