(* ===== verification/Punch_Multi.thy ===== *)
theory Punch_Multi
  imports Sim_Open Port_Prediction
begin

text \<open>
  The part of \<^verbatim>\<open>punch.c\<close> that uses the other modules: punching by simultaneous open and by
  port prediction, and the run over the techniques.  \<open>stack\<close> is what lies in the uninitialised
  state of each technique; \<open>None\<close> is a write outside a buffer.
\<close>

type_synonym technique = "PunchState option \<Rightarrow> probe \<Rightarrow> sockets \<Rightarrow> (int \<times> PunchState option \<times> probe \<times> sockets) option"

definition punch_try_simultaneous :: "net_env \<Rightarrow> string option \<Rightarrow> int \<Rightarrow> technique" where
  "punch_try_simultaneous env target_ip target_port p pb s = (case (p, target_ip) of
      (Some st, Some ip) \<Rightarrow> do {
        (rc, p, s) \<leftarrow> simultaneous_open_punch env
          (Some (st\<lparr>ps_last_technique := PUNCH_TECH_SIMULTANEOUS, ps_simultaneous_used := True\<rparr>)) (Some ip) target_port s;
        Some (rc, p, pb, s) }
    | _ \<Rightarrow> Some (-1, p, pb, s))"

definition punch_try_port_prediction :: "net_env \<Rightarrow> string option \<Rightarrow> int \<Rightarrow> technique" where
  "punch_try_port_prediction env target_ip target_port p pb s = (case (p, target_ip) of
      (Some st, Some ip) \<Rightarrow> do {
        ((rc, p), pb, s) \<leftarrow> port_predictor_punch env (Some (st\<lparr>ps_last_technique := PUNCH_TECH_PORT_PREDICTION\<rparr>))
          (Some ip) target_port pb s;
        Some (rc, p, pb, s) }
    | _ \<Rightarrow> Some (-1, p, pb, s))"

record PunchResult =
  pr_tech :: PunchTechnique
  pr_result :: int
  pr_ip :: string
  pr_port :: int

text \<open>One technique on a socket of its own, closed afterwards; without a socket it is skipped.\<close>

definition attempt_technique ::
    "net_env \<Rightarrow> PunchTechnique \<Rightarrow> int \<Rightarrow> PunchState \<Rightarrow> technique \<Rightarrow> PunchResult list \<Rightarrow> probe \<Rightarrow> sockets
      \<Rightarrow> (PunchResult list \<times> probe \<times> sockets) option" where
  "attempt_technique env tech port stack f results pb s = (case punch_init env (Some stack) port s of
      (rc, p, s) \<Rightarrow>
        if rc \<noteq> 0 then Some (results, pb, s)
        else do {
          (result, p, pb, s) \<leftarrow> f p pb s;
          let peer = (if result = 0 then punch_get_peer p else None);
          let s = snd (punch_close p s);
          Some (results @ [\<lparr>pr_tech = tech, pr_result = result, pr_ip = (case peer of None \<Rightarrow> [] | Some (ip, _) \<Rightarrow> ip),
             pr_port = (case peer of None \<Rightarrow> 0 | Some (_, q) \<Rightarrow> q)\<rparr>], pb, s) })"

definition without_probe :: "(PunchState option \<Rightarrow> sockets \<Rightarrow> int \<times> PunchState option \<times> sockets) \<Rightarrow> technique" where
  "without_probe f p pb s = (case f p s of (rc, p, s) \<Rightarrow> Some (rc, p, pb, s))"

text \<open>The results of all techniques tried, and whether one of them is 0.\<close>

definition run_techniques ::
    "net_env \<Rightarrow> (PunchTechnique \<Rightarrow> PunchState) \<Rightarrow> string \<Rightarrow> int \<Rightarrow> int \<Rightarrow> int \<Rightarrow> probe \<Rightarrow> sockets
      \<Rightarrow> (PunchResult list \<times> probe \<times> sockets) option" where
  "run_techniques env stack ip port local_nat_type peer_nat_type pb s = do {
     let both = (local_nat_type = 4 \<and> peer_nat_type = 4);
     let try_udp = (\<not> both);
     let try_pred = (local_nat_type = 4 \<or> peer_nat_type = 4);
     (results, pb, s) \<leftarrow> (if try_udp
       then attempt_technique env PUNCH_TECH_UDP PUNCH_PORT (stack PUNCH_TECH_UDP)
              (without_probe (\<lambda>p. punch_try_connect env p (Some ip) port)) [] pb s
       else Some ([], pb, s));
     (results, pb, s) \<leftarrow> attempt_technique env PUNCH_TECH_TTL (PUNCH_PORT + 1) (stack PUNCH_TECH_TTL)
              (without_probe (\<lambda>p. punch_try_ttl env p (Some ip) port)) results pb s;
     (results, pb, s) \<leftarrow> attempt_technique env PUNCH_TECH_SIMULTANEOUS (PUNCH_PORT + 2) (stack PUNCH_TECH_SIMULTANEOUS)
              (punch_try_simultaneous env (Some ip) port) results pb s;
     if try_pred
     then attempt_technique env PUNCH_TECH_PORT_PREDICTION (PUNCH_PORT + 3) (stack PUNCH_TECH_PORT_PREDICTION)
            (punch_try_port_prediction env (Some ip) port) results pb s
     else Some (results, pb, s) }"

definition punch_multi_strategy ::
    "net_env \<Rightarrow> (PunchTechnique \<Rightarrow> PunchState) \<Rightarrow> string option \<Rightarrow> int \<Rightarrow> int \<Rightarrow> int \<Rightarrow> probe \<Rightarrow> sockets
      \<Rightarrow> (int \<times> probe \<times> sockets) option" where
  "punch_multi_strategy env stack target_ip target_port local_nat_type peer_nat_type pb s = (case target_ip of
      None \<Rightarrow> Some (-1, pb, s)
    | Some ip \<Rightarrow> do {
        (results, pb, s) \<leftarrow> run_techniques env stack ip target_port local_nat_type peer_nat_type pb s;
        Some (if list_ex (\<lambda>r. pr_result r = 0) results then 0 else -1, pb, s) })"

end
