(* ===== verification/Upnp_Client.thy ===== *)
theory Upnp_Client
  imports Sockets
begin

text \<open>
  \<^verbatim>\<open>upnp_client.c\<close>: discovery of a gateway by SSDP, the parser of its answer, and the
  port mappings, which the code reports without asking the gateway.  The static variables are the
  record \<open>upnp\<close>.
\<close>

section \<open>Data\<close>

definition UPNP_MAX_RETRY :: int where "UPNP_MAX_RETRY = 3"
definition UPNP_BUFFER_SIZE :: nat where "UPNP_BUFFER_SIZE = 2048"
definition UPNP_DISCOVERY_PORT :: int where "UPNP_DISCOVERY_PORT = 1900"
definition UPNP_MULTICAST_IP :: string where "UPNP_MULTICAST_IP = ''239.255.255.250''"

record UPnPGatewayInfo =
  gw_control_url :: string
  gw_service_type :: string
  gw_event_url :: string
  gw_scpd_url :: string
  gw_server :: string
  gw_model :: string
  gw_manufacturer :: string
  gw_serial :: string
  gw_lan_ip :: string
  gw_valid :: bool
  gw_discovered_at :: int

definition zero_gateway :: UPnPGatewayInfo where
  "zero_gateway = \<lparr>gw_control_url = [], gw_service_type = [], gw_event_url = [], gw_scpd_url = [], gw_server = [],
     gw_model = [], gw_manufacturer = [], gw_serial = [], gw_lan_ip = [], gw_valid = False, gw_discovered_at = 0\<rparr>"

record upnp =
  g_gateway :: UPnPGatewayInfo
  g_upnp_available :: bool
  g_discovery_time :: int
  g_discovery_retry :: int

definition fresh_upnp :: upnp where
  "fresh_upnp = \<lparr>g_gateway = zero_gateway, g_upnp_available = False, g_discovery_time = 0, g_discovery_retry = 0\<rparr>"

section \<open>The answer of a gateway\<close>

abbreviation cr :: char where "cr \<equiv> CHR 0x0D"
abbreviation lf :: char where "lf \<equiv> CHR 0x0A"

text \<open>What \<open>strchr\<close> of a carriage return, or else of a line feed, leaves of a text.\<close>

definition to_line_end :: "string \<Rightarrow> string option" where
  "to_line_end s =
    (if cr \<in> set s then Some (takeWhile (\<lambda>c. c \<noteq> cr) s)
     else if lf \<in> set s then Some (takeWhile (\<lambda>c. c \<noteq> lf) s) else None)"

definition skip_blanks :: "string \<Rightarrow> string" where
  "skip_blanks s = dropWhile (\<lambda>c. c = CHR '' '' \<or> c = CHR 0x09) s"

definition strstr_either :: "string \<Rightarrow> string \<Rightarrow> string \<Rightarrow> string option" where
  "strstr_either s a b = (case strstr_at s a of Some r \<Rightarrow> Some r | None \<Rightarrow> strstr_at s b)"

text \<open>The host of a URL behind \<open>http://\<close>, cut to the 15 characters of \<open>lan_ip\<close>.\<close>

definition url_host :: "string \<Rightarrow> string" where
  "url_host url =
    (let to_port = takeWhile (\<lambda>c. c \<noteq> CHR '':'') url; to_path = takeWhile (\<lambda>c. c \<noteq> CHR ''/'') url in
     if CHR '':'' \<in> set url \<and> (CHR ''/'' \<notin> set url \<or> length to_port < length to_path) then take 15 to_port
     else if CHR ''/'' \<in> set url then take 15 to_path
     else take 15 url)"

definition parse_server :: "string \<Rightarrow> UPnPGatewayInfo \<Rightarrow> UPnPGatewayInfo" where
  "parse_server buffer gi = (case strstr_either buffer ''SERVER:'' ''Server:'' of
      None \<Rightarrow> gi
    | Some server \<Rightarrow> (case to_line_end (skip_blanks (drop 7 server)) of
          None \<Rightarrow> gi
        | Some line \<Rightarrow> gi\<lparr>gw_server := take 127 line\<rparr>))"

definition parse_usn :: "string \<Rightarrow> UPnPGatewayInfo \<Rightarrow> UPnPGatewayInfo" where
  "parse_usn buffer gi = (case strstr_at buffer ''USN:'' of
      None \<Rightarrow> gi
    | Some usn \<Rightarrow> (case strstr_at (skip_blanks (drop 4 usn)) ''::'' of
          None \<Rightarrow> gi
        | Some m \<Rightarrow> (case to_line_end (drop 2 m) of
              None \<Rightarrow> gi
            | Some line \<Rightarrow> gi\<lparr>gw_model := take 63 line\<rparr>)))"

text \<open>The NUL written at the end of the location ends the text for the headers searched later.\<close>

definition upnp_parse_response :: "int \<Rightarrow> string \<Rightarrow> int \<Rightarrow> UPnPGatewayInfo \<Rightarrow> int \<times> UPnPGatewayInfo" where
  "upnp_parse_response t buffer len gi =
    (if len \<le> 0 then (-1, gi)
     else if \<not> contains buffer ''HTTP/1.1 200 OK'' \<and> \<not> contains buffer ''HTTP/1.0 200 OK'' then (-1, gi)
     else (case strstr_either buffer ''LOCATION:'' ''Location:'' of
         None \<Rightarrow> (-1, gi)
       | Some pos \<Rightarrow>
           let location = skip_blanks (drop 9 pos) in
           (case to_line_end location of
              None \<Rightarrow> (-1, gi)
            | Some line \<Rightarrow>
                let buffer = take (length buffer - length location + length line) buffer in
                (case strstr_at line ''http://'' of
                   None \<Rightarrow> (-1, gi)
                 | Some url \<Rightarrow>
                     let gi = gi\<lparr>gw_lan_ip := url_host (drop 7 url)\<rparr>;
                         gi = parse_usn buffer (parse_server buffer gi)
                     in (0, gi\<lparr>gw_valid := True, gw_discovered_at := t\<rparr>)))))"

section \<open>Discovery\<close>

definition upnp_create_discovery_socket :: "net_env \<Rightarrow> sockets \<Rightarrow> int \<times> sockets" where
  "upnp_create_discovery_socket env s =
    (let (d, s) = open_socket env s in
     if d < 0 then (-1, s)
     else let (broadcast, s) = ask env s in
       if \<not> broadcast then (-1, close_socket d s)
       else let (reuse, s) = ask env s in
         if \<not> reuse then (-1, close_socket d s)
         else let (bound, s) = ask env s in
           if \<not> bound then (-1, close_socket d s)
           else let (timed, s) = ask env s in
             if \<not> timed then (-1, close_socket d s) else (d, s))"

definition upnp_search :: string where
  "upnp_search = ''M-SEARCH * HTTP/1.1'' @ [cr, lf] @ ''HOST: 239.255.255.250:1900'' @ [cr, lf]
     @ ''MAN: '' @ [CHR 0x22] @ ''ssdp:discover'' @ [CHR 0x22] @ [cr, lf] @ ''MX: 2'' @ [cr, lf]
     @ ''ST: upnp:rootdevice'' @ [cr, lf, cr, lf]"

definition upnp_send_discovery :: "net_env \<Rightarrow> int \<Rightarrow> sockets \<Rightarrow> int \<times> sockets" where
  "upnp_send_discovery env d s =
    (let (sent, s) = send_to env d (Some (sock_addr UPNP_MULTICAST_IP UPNP_DISCOVERY_PORT)) (string_bytes upnp_search) s
     in (if sent then 0 else -1, s))"

text \<open>\<open>n\<close> attempts before the end of the loop of \<open>upnp_detect\<close>.\<close>

fun detect_loop :: "net_env \<Rightarrow> int \<Rightarrow> nat \<Rightarrow> upnp \<Rightarrow> sockets \<Rightarrow> bool \<times> upnp \<times> sockets" where
  "detect_loop env d 0 u s = (False, u, s)"
| "detect_loop env d (Suc n) u s =
    (let (rc, s) = upnp_send_discovery env d s in
     if rc < 0 then detect_loop env d n u s
     else (case recv_from env (UPNP_BUFFER_SIZE - 1) s of
         (None, s) \<Rightarrow> detect_loop env d n u s
       | (Some (bs, _), s) \<Rightarrow>
           if bs = [] then detect_loop env d n u s
           else
             let (t, s1) = now env s;
                 (rc, gi) = upnp_parse_response t (recv_text bs) (int (length bs)) zero_gateway
             in if rc = 0 then
                  let (t, s2) = now env s1
                  in (True, u\<lparr>g_gateway := gi, g_upnp_available := True, g_discovery_time := t\<rparr>, s2)
                else detect_loop env d n u s))"

definition upnp_detect :: "net_env \<Rightarrow> upnp \<Rightarrow> sockets \<Rightarrow> bool \<times> upnp \<times> sockets" where
  "upnp_detect env u s =
    (let (d, s) = upnp_create_discovery_socket env s in
     if d < 0 then (False, u, s)
     else
       let (found, u, s) = detect_loop env d 3 u s;
           s = close_socket d s;
           u = (if \<not> found then u\<lparr>g_upnp_available := False\<rparr> else u)
       in (g_upnp_available u, u, s))"

definition upnp_available :: "net_env \<Rightarrow> upnp \<Rightarrow> sockets \<Rightarrow> bool \<times> upnp \<times> sockets" where
  "upnp_available env u s =
    (if \<not> g_upnp_available u then
       if g_discovery_retry u < UPNP_MAX_RETRY
       then upnp_detect env (u\<lparr>g_discovery_retry := g_discovery_retry u + 1\<rparr>) s
       else (False, u, s)
     else (g_upnp_available u, u, s))"

section \<open>Mappings\<close>

definition upnp_add_port_mapping_with_desc ::
    "net_env \<Rightarrow> int \<Rightarrow> int \<Rightarrow> string option \<Rightarrow> string option \<Rightarrow> upnp \<Rightarrow> sockets \<Rightarrow> int \<times> upnp \<times> sockets" where
  "upnp_add_port_mapping_with_desc env internal_port external_port protocol description u s =
    (let (available, u, s) = upnp_available env u s in
     if \<not> available then (-1, u, s) else (if external_port \<le> 0 then internal_port else external_port, u, s))"

definition upnp_add_port_mapping :: "net_env \<Rightarrow> int \<Rightarrow> upnp \<Rightarrow> sockets \<Rightarrow> int \<times> upnp \<times> sockets" where
  "upnp_add_port_mapping env port u s = upnp_add_port_mapping_with_desc env port port (Some ''TCP'') (Some ''Orcashi P2P'') u s"

definition upnp_add_port_mapping_with_ext ::
    "net_env \<Rightarrow> int \<Rightarrow> int \<Rightarrow> string option \<Rightarrow> upnp \<Rightarrow> sockets \<Rightarrow> int \<times> upnp \<times> sockets" where
  "upnp_add_port_mapping_with_ext env internal_port external_port protocol u s =
     upnp_add_port_mapping_with_desc env internal_port external_port protocol (Some ''Orcashi P2P'') u s"

definition upnp_remove_port_mapping :: "net_env \<Rightarrow> int \<Rightarrow> string option \<Rightarrow> upnp \<Rightarrow> sockets \<Rightarrow> int \<times> upnp \<times> sockets" where
  "upnp_remove_port_mapping env external_port protocol u s =
    (let (available, u, s) = upnp_available env u s in (if \<not> available then -1 else 0, u, s))"

definition upnp_get_external_ip :: "net_env \<Rightarrow> bool \<Rightarrow> nat \<Rightarrow> upnp \<Rightarrow> sockets \<Rightarrow> (int \<times> string option) \<times> upnp \<times> sockets" where
  "upnp_get_external_ip env ip_out n u s =
    (if \<not> ip_out \<or> n = 0 then ((-1, None), u, s)
     else let (available, u, s) = upnp_available env u s in
       if \<not> available then ((-1, None), u, s) else ((0, Some (strncpy_into n (gw_lan_ip (g_gateway u)))), u, s))"

definition upnp_get_external_port :: "net_env \<Rightarrow> int \<Rightarrow> string option \<Rightarrow> upnp \<Rightarrow> sockets \<Rightarrow> int \<times> upnp \<times> sockets" where
  "upnp_get_external_port env internal_port protocol u s =
    (let (available, u, s) = upnp_available env u s in (if \<not> available then -1 else internal_port, u, s))"

definition upnp_get_gateway_info :: "net_env \<Rightarrow> bool \<Rightarrow> upnp \<Rightarrow> sockets \<Rightarrow> (int \<times> UPnPGatewayInfo option) \<times> upnp \<times> sockets" where
  "upnp_get_gateway_info env out u s =
    (if \<not> out then ((-1, None), u, s)
     else let (available, u, s) = upnp_available env u s in
       if \<not> available then ((-1, None), u, s) else ((0, Some (g_gateway u)), u, s))"

definition upnp_refresh_port_mapping :: "net_env \<Rightarrow> int \<Rightarrow> string option \<Rightarrow> upnp \<Rightarrow> sockets \<Rightarrow> int \<times> upnp \<times> sockets" where
  "upnp_refresh_port_mapping env external_port protocol u s =
    (let (available, u, s) = upnp_available env u s in (if \<not> available then -1 else 0, u, s))"

definition upnp_list_mappings :: "net_env \<Rightarrow> bool \<Rightarrow> int \<Rightarrow> upnp \<Rightarrow> sockets \<Rightarrow> int \<times> upnp \<times> sockets" where
  "upnp_list_mappings env mappings m u s =
    (if \<not> mappings \<or> m \<le> 0 then (0, u, s)
     else let (available, u, s) = upnp_available env u s in (0, u, s))"

end
