(* ===== verification/Parallel_Runner.thy ===== *)
theory Parallel_Runner
  imports Punch_Multi Upnp_Client P2P_Manager Strategy_Selector
begin

text \<open>
  \<^verbatim>\<open>parallel_runner.c\<close>: the executors of the strategies, the tasks that run them in
  threads, and the loop that waits for one of them.

  An executor is one step on the sockets: \<open>order\<close> lists the tasks as their threads finish.  The
  loop looks at the results again and again while the threads run; it is given the list of its
  looks, each with whether \<open>g_cancelled\<close> was set and which threads had written their outcome.
  The outer \<open>None\<close> of a result is an access outside an array or through \<open>NULL\<close>; the inner one
  means that the loop is still waiting when its looks are used up.
\<close>

section \<open>Data\<close>

record ConnectionResult =
  cr_strategy :: StrategyType
  cr_success :: bool
  cr_socket_fd :: int
  cr_peer_ip :: string
  cr_peer_port :: int
  cr_error_code :: int
  cr_error_msg :: string
  cr_start_time :: int
  cr_end_time :: int
  cr_elapsed_ms :: int

definition zero_result :: ConnectionResult where
  "zero_result = \<lparr>cr_strategy = STRATEGY_NONE, cr_success = False, cr_socket_fd = 0, cr_peer_ip = [], cr_peer_port = 0,
     cr_error_code = 0, cr_error_msg = [], cr_start_time = 0, cr_end_time = 0, cr_elapsed_ms = 0\<rparr>"

text \<open>The result of a task is \<open>None\<close> when there was no memory for it.\<close>

record TaskContext =
  tk_strategy :: StrategyType
  tk_result :: "ConnectionResult option"
  tk_timeout_ms :: int
  tk_cancelled :: bool

text \<open>
  The globals: of \<open>g_tasks\<close>, which is only written, how many cells are used; the client of
  \<^verbatim>\<open>upnp_client.c\<close>, the probe of \<^verbatim>\<open>port_prediction.c\<close> and the sockets.
\<close>

record runner =
  rn_task_count :: nat
  rn_cancelled :: bool
  rn_upnp :: upnp
  rn_probe :: probe
  rn_net :: sockets

text \<open>
  The environment: the network of IPv4 calls; datagrams received over IPv6, with the address as
  \<open>inet_ntop\<close> prints it; \<open>errno\<close> and \<open>strerror\<close>; what lay on the stack.
\<close>

record run_env =
  re_net :: net_env
  re_recv6 :: "nat \<Rightarrow> (byte list \<times> string \<times> nat) option"
  re_errno :: "nat \<Rightarrow> int"
  re_strerror :: "int \<Rightarrow> string"
  re_buffer :: "byte list"
  re_stack :: "PunchTechnique \<Rightarrow> PunchState"

type_synonym executor = "run_env \<Rightarrow> P2PPeer \<Rightarrow> ConnectionResult \<Rightarrow> runner \<Rightarrow> (int \<times> ConnectionResult \<times> runner) option"

definition parallel_result_status :: "ConnectionResult option \<Rightarrow> string" where
  "parallel_result_status result = (case result of
      None \<Rightarrow> ''NULL'' | Some r \<Rightarrow> if cr_success r then ''SUCCESS'' else ''FAILED'')"

section \<open>Executors\<close>

definition fail_with :: "int \<Rightarrow> string \<Rightarrow> ConnectionResult \<Rightarrow> ConnectionResult" where
  "fail_with code msg r = r\<lparr>cr_error_code := code, cr_error_msg := msg\<rparr>"

text \<open>
  The buffer of a datagram over IPv6 is not terminated, and \<open>inet_ntop\<close> writes the address only
  if it fits into the 16 characters of \<open>peer_ip\<close>.  The test packet is not kept in \<open>sk_sent\<close>.
\<close>

definition execute_ipv6_direct :: executor where
  "execute_ipv6_direct env peer r rn =
    (if \<not> P2PPeer.pp_has_ipv6 peer \<or> P2PPeer.pp_ipv6 peer = [] then Some (-1, fail_with (-1) ''IPv6 not available'' r, rn)
     else
       let (d, s) = open_socket (re_net env) (rn_net rn) in
       if d < 0 then
         let e = re_errno env (sk_calls s) in
         Some (-1, fail_with e (snprintf_into 256 (''socket failed: '' @ re_strerror env e)) r, rn\<lparr>rn_net := s\<rparr>)
       else let (sent, s) = ask (re_net env) s in
         if \<not> sent then
           let e = re_errno env (sk_calls s) in
           Some (-1, fail_with e (snprintf_into 256 (''sendto failed: '' @ re_strerror env e)) r, rn\<lparr>rn_net := close_socket d s\<rparr>)
         else (case re_recv6 env (sk_calls s) of
             None \<Rightarrow> Some (-1, fail_with (-1) ''No IPv6 response'' r, rn\<lparr>rn_net := close_socket d (tick s)\<rparr>)
           | Some (bs, ip, port) \<Rightarrow>
               let bs = take 255 bs in
               if bs \<noteq> [] \<and> recv_text (filled 256 bs (re_buffer env)) = ''ORCA_IPV6_RESPONSE''
               then Some (0, r\<lparr>cr_success := True, cr_socket_fd := d,
                      cr_peer_ip := (if length ip < 16 then ip else cr_peer_ip r), cr_peer_port := int port\<rparr>, rn\<lparr>rn_net := tick s\<rparr>)
               else Some (-1, fail_with (-1) ''No IPv6 response'' r, rn\<lparr>rn_net := close_socket d (tick s)\<rparr>)))"

definition execute_upnp :: executor where
  "execute_upnp env peer r rn =
    (let (port, u, s) = upnp_add_port_mapping (re_net env) (P2PPeer.pp_port peer) (rn_upnp rn) (rn_net rn);
         rn = rn\<lparr>rn_upnp := u, rn_net := s\<rparr>
     in if 0 < port then do {
          ip \<leftarrow> strcpy_into 16 (P2PPeer.pp_ip peer);
          Some (0, r\<lparr>cr_success := True, cr_socket_fd := -1, cr_peer_ip := ip, cr_peer_port := port\<rparr>, rn) }
        else Some (-1, fail_with (-1) ''UPnP mapping failed'' r, rn))"

text \<open>What the executors of the punching techniques share: the socket of a success stays open.\<close>

definition execute_punch :: "PunchTechnique \<Rightarrow> int \<Rightarrow> string \<Rightarrow> string \<Rightarrow> (net_env \<Rightarrow> string \<Rightarrow> int \<Rightarrow> technique) \<Rightarrow> executor" where
  "execute_punch tech port no_socket failed f env peer r rn = (case punch_init (re_net env) (Some (re_stack env tech)) port (rn_net rn) of
      (rc, p, s) \<Rightarrow>
        if rc < 0 then Some (-1, fail_with (-1) no_socket r, rn\<lparr>rn_net := s\<rparr>)
        else do {
          (ret, p, pb, s) \<leftarrow> f (re_net env) (P2PPeer.pp_ip peer) (P2PPeer.pp_port peer) p (rn_probe rn) s;
          if ret = 0 then do {
            st \<leftarrow> p;
            ip \<leftarrow> strcpy_into 16 (ps_peer_ip st);
            Some (0, r\<lparr>cr_success := True, cr_socket_fd := ps_udp_socket st, cr_peer_ip := ip, cr_peer_port := ps_peer_port st\<rparr>,
                  rn\<lparr>rn_probe := pb, rn_net := s\<rparr>) }
          else
            let s = snd (punch_close p s) in
            Some (-1, fail_with (-1) failed r, rn\<lparr>rn_probe := pb, rn_net := s\<rparr>) })"

definition execute_udp_punch :: executor where
  "execute_udp_punch = execute_punch PUNCH_TECH_UDP PUNCH_PORT ''Failed to init punch'' ''UDP punch failed''
     (\<lambda>env ip port. without_probe (\<lambda>p. punch_try_connect env p (Some ip) port))"

definition execute_ttl_punch :: executor where
  "execute_ttl_punch = execute_punch PUNCH_TECH_TTL (PUNCH_PORT + 1) ''Failed to init TTL punch'' ''TTL punch failed''
     (\<lambda>env ip port. without_probe (\<lambda>p. punch_try_ttl env p (Some ip) port))"

definition execute_simultaneous_open :: executor where
  "execute_simultaneous_open = execute_punch PUNCH_TECH_SIMULTANEOUS (PUNCH_PORT + 2) ''Failed to init simultaneous open''
     ''Simultaneous open failed'' (\<lambda>env ip port. punch_try_simultaneous env (Some ip) port)"

definition execute_port_prediction :: executor where
  "execute_port_prediction = execute_punch PUNCH_TECH_PORT_PREDICTION (PUNCH_PORT + 3) ''Failed to init port prediction''
     ''Port prediction failed'' (\<lambda>env ip port. punch_try_port_prediction env (Some ip) port)"

definition execute_tcp_punch :: executor where
  "execute_tcp_punch env peer r rn = Some (-1, fail_with (-1) ''TCP punch not implemented yet'' r, rn)"

definition execute_friend_relay :: executor where
  "execute_friend_relay env peer r rn = Some (-1, fail_with (-1) ''Friend relay not implemented yet'' r, rn)"

definition execute_turn_relay :: executor where
  "execute_turn_relay env peer r rn = Some (-1, fail_with (-1) ''TURN relay not implemented yet'' r, rn)"

definition execute_manual_port :: executor where
  "execute_manual_port env peer r rn = Some (-1, fail_with (-1) ''Manual port not implemented yet'' r, rn)"

definition g_executors :: "(StrategyType \<times> executor) list" where
  "g_executors = [
     (STRATEGY_IPV6_DIRECT, execute_ipv6_direct),
     (STRATEGY_UPNP, execute_upnp),
     (STRATEGY_UDP_PUNCH, execute_udp_punch),
     (STRATEGY_TTL_PUNCH, execute_ttl_punch),
     (STRATEGY_SIMULTANEOUS_OPEN, execute_simultaneous_open),
     (STRATEGY_PORT_PREDICTION, execute_port_prediction),
     (STRATEGY_TCP_PUNCH, execute_tcp_punch),
     (STRATEGY_FRIEND_RELAY, execute_friend_relay),
     (STRATEGY_TURN_RELAY, execute_turn_relay),
     (STRATEGY_MANUAL_PORT, execute_manual_port)]"

definition get_executor :: "StrategyType \<Rightarrow> executor option" where
  "get_executor t = map_of g_executors t"

section \<open>Tasks\<close>

definition task_thread :: "run_env \<Rightarrow> P2PPeer \<Rightarrow> TaskContext \<Rightarrow> runner \<Rightarrow> (TaskContext \<times> runner) option" where
  "task_thread env peer task rn = do {
     r \<leftarrow> tk_result task;
     let (start, s) = now (re_net env) (rn_net rn);
     let r = r\<lparr>cr_start_time := start, cr_strategy := tk_strategy task\<rparr>;
     let rn = rn\<lparr>rn_net := s\<rparr>;
     (r, rn) \<leftarrow> (case get_executor (tk_strategy task) of
         Some executor \<Rightarrow> do { (ret, r, rn) \<leftarrow> executor env peer r rn; Some (r\<lparr>cr_success := (ret = 0)\<rparr>, rn) }
       | None \<Rightarrow> Some (r\<lparr>cr_success := False, cr_error_msg := ''No executor found''\<rparr>, rn));
     let (stop, s) = now (re_net env) (rn_net rn);
     Some (task\<lparr>tk_result := Some (r\<lparr>cr_end_time := stop, cr_elapsed_ms := c_int ((stop - start) * 1000)\<rparr>)\<rparr>, rn\<lparr>rn_net := s\<rparr>) }"

definition task_create :: "run_env \<Rightarrow> StrategyType \<Rightarrow> int \<Rightarrow> runner \<Rightarrow> TaskContext option \<times> runner" where
  "task_create env strategy timeout_ms rn =
    (let (task_mem, s) = ask (re_net env) (rn_net rn) in
     if \<not> task_mem then (None, rn\<lparr>rn_net := s\<rparr>)
     else let (result_mem, s) = ask (re_net env) s in
       (Some \<lparr>tk_strategy = strategy, tk_result = (if result_mem then Some zero_result else None), tk_timeout_ms = timeout_ms,
          tk_cancelled = False\<rparr>, rn\<lparr>rn_net := s\<rparr>))"

definition task_start :: "run_env \<Rightarrow> TaskContext option \<Rightarrow> runner \<Rightarrow> (int \<times> runner) option" where
  "task_start env task rn = (case task of
      None \<Rightarrow> Some (-1, rn)
    | Some _ \<Rightarrow>
        if MAX_STRATEGIES \<le> rn_task_count rn then None
        else
          let (created, s) = ask (re_net env) (rn_net rn) in
          Some (if created then 0 else re_errno env (sk_calls s), rn\<lparr>rn_task_count := rn_task_count rn + 1, rn_net := s\<rparr>))"

text \<open>\<open>task_wait\<close> after its \<open>pthread_join\<close>; the result pointer may be \<open>NULL\<close>.\<close>

definition task_wait :: "TaskContext option \<Rightarrow> ConnectionResult option \<Rightarrow> (int \<times> ConnectionResult option) option" where
  "task_wait task result = (case (task, result) of
      (Some t, Some _) \<Rightarrow> do { r \<leftarrow> tk_result t; Some (if cr_success r then 0 else -1, Some r) }
    | _ \<Rightarrow> Some (-1, result))"

definition task_cancel :: "TaskContext option \<Rightarrow> TaskContext option" where
  "task_cancel task = map_option (\<lambda>t. t\<lparr>tk_cancelled := True\<rparr>) task"

section \<open>Running in parallel\<close>

text \<open>A task without memory is skipped; one whose thread cannot be created is freed.\<close>

fun start_tasks :: "run_env \<Rightarrow> StrategyType list \<Rightarrow> runner \<Rightarrow> (TaskContext list \<times> runner) option" where
  "start_tasks env [] rn = Some ([], rn)"
| "start_tasks env (t # ts) rn = (case task_create env t (si_max_wait_ms (strategy_get_info t)) rn of
      (None, rn) \<Rightarrow> start_tasks env ts rn
    | (Some task, rn) \<Rightarrow> do {
        (rc, rn) \<leftarrow> task_start env (Some task) rn;
        (tasks, rn) \<leftarrow> start_tasks env ts rn;
        Some (if rc = 0 then task # tasks else tasks, rn) })"

fun run_threads :: "run_env \<Rightarrow> P2PPeer \<Rightarrow> nat list \<Rightarrow> TaskContext list \<Rightarrow> runner \<Rightarrow> (TaskContext list \<times> runner) option" where
  "run_threads env peer [] tasks rn = Some (tasks, rn)"
| "run_threads env peer (i # order) tasks rn = do {
     (task, rn) \<leftarrow> task_thread env peer (tasks ! i) rn;
     run_threads env peer order (tasks[i := task]) rn }"

definition is_done :: "ConnectionResult \<Rightarrow> bool" where
  "is_done r \<longleftrightarrow> cr_success r \<or> cr_error_code r \<noteq> 0"

text \<open>A look finds the first task that has reported; the result of each thread is \<open>rs\<close>.\<close>

definition first_done :: "ConnectionResult list \<Rightarrow> bool list \<Rightarrow> nat option" where
  "first_done rs finished = find_index (\<lambda>i. finished ! i \<and> is_done (rs ! i)) [0..<length rs]"

fun wait_any :: "ConnectionResult list \<Rightarrow> nat \<Rightarrow> (bool \<times> bool list) list \<Rightarrow> nat option option" where
  "wait_any rs completed [] = (if length rs \<le> completed then Some None else None)"
| "wait_any rs completed ((cancelled, finished) # looks) =
    (if length rs \<le> completed \<or> cancelled then Some None
     else (case first_done rs finished of
         None \<Rightarrow> wait_any rs completed looks
       | Some i \<Rightarrow> if cr_success (rs ! i) then Some (Some i) else wait_any rs (completed + 1) looks))"

definition cancel_others :: "nat option \<Rightarrow> TaskContext list \<Rightarrow> TaskContext list" where
  "cancel_others winner tasks =
     map (\<lambda>i. if winner \<noteq> Some i then the (task_cancel (Some (tasks ! i))) else tasks ! i) [0..<length tasks]"

definition strategies_of :: "StrategyList \<Rightarrow> StrategyType list" where
  "strategies_of sl = take (min (nat (sl_count sl)) MAX_STRATEGIES) (sl_strategies sl)"

definition parallel_run ::
    "run_env \<Rightarrow> nat list \<Rightarrow> (bool \<times> bool list) list \<Rightarrow> StrategyList option \<Rightarrow> P2PPeer option \<Rightarrow> ConnectionResult option \<Rightarrow> runner
      \<Rightarrow> ((int \<times> ConnectionResult option) option \<times> runner) option" where
  "parallel_run env order looks strategies peer result rn = (case (strategies, peer, result) of
      (Some sl, Some peer, Some _) \<Rightarrow>
        if sl_count sl = 0 then Some (Some (-1, result), rn)
        else do {
          (tasks, rn) \<leftarrow> start_tasks env (strategies_of sl) (rn\<lparr>rn_cancelled := False\<rparr>);
          if tasks = [] then Some (Some (-1, result), rn)
          else do {
            (tasks, rn) \<leftarrow> run_threads env peer order tasks rn;
            (case wait_any (map (the \<circ> tk_result) tasks) 0 looks of
               None \<Rightarrow> Some (None, rn)
             | Some winner \<Rightarrow>
                 let tasks = cancel_others winner tasks in
                 (case winner of
                    Some i \<Rightarrow> Some (Some (0, tk_result (tasks ! i)), rn)
                  | None \<Rightarrow> Some (Some (-1, tk_result (tasks ! 0)), rn))) } }
    | _ \<Rightarrow> Some (Some (-1, result), rn))"

definition parallel_run_single ::
    "run_env \<Rightarrow> nat list \<Rightarrow> (bool \<times> bool list) list \<Rightarrow> StrategyType \<Rightarrow> P2PPeer option \<Rightarrow> ConnectionResult option \<Rightarrow> runner
      \<Rightarrow> ((int \<times> ConnectionResult option) option \<times> runner) option" where
  "parallel_run_single env order looks strategy peer result rn =
     parallel_run env order looks (Some \<lparr>sl_strategies = [strategy], sl_count = 1\<rparr>) peer result rn"

definition parallel_cancel_all :: "runner \<Rightarrow> runner" where
  "parallel_cancel_all rn = rn\<lparr>rn_cancelled := True\<rparr>"

end
