(* ===== verification/Sim_Properties.thy ===== *)
theory Sim_Properties
  imports Sim_Open
begin

text \<open>
  The sessions of a simultaneous open: sockets and states under all operations, two peers whose
  first packets cross, what a punch reports, and data packets.
\<close>

section \<open>What the steps keep\<close>

lemma send_packet_frame:
  "simultaneous_open_send_packet env se ty bs s = (rc, se', s') \<Longrightarrow> sk_open s' = sk_open s
    \<and> so_socket_fd se' = so_socket_fd se \<and> so_state se' = so_state se \<and> so_sync_token se' = so_sync_token se
    \<and> so_peer_ip se' = so_peer_ip se \<and> so_peer_port se' = so_peer_port se"
  by (auto simp: simultaneous_open_send_packet_def Let_def now_def dest!: ask_frame send_frame split: if_splits prod.splits)

lemma process_packet_frame:
  "simultaneous_open_process_packet env se p s = (rc, se', s') \<Longrightarrow> sk_open s' = sk_open s
    \<and> so_socket_fd se' = so_socket_fd se \<and> so_peer_ip se' = so_peer_ip se \<and> so_peer_port se' = so_peer_port se"
  by (auto simp: simultaneous_open_process_packet_def Let_def now_def dest!: send_packet_frame split: if_splits prod.splits)

lemma wait_frame:
  "simultaneous_open_wait_for_sync env se s = (rc, se', s') \<Longrightarrow> sk_open s' = sk_open s
    \<and> so_socket_fd se' = so_socket_fd se \<and> so_peer_ip se' = so_peer_ip se \<and> so_peer_port se' = so_peer_port se"
  by (auto simp: simultaneous_open_wait_for_sync_def dest!: ask_frame recv_frame process_packet_frame
      split: if_splits prod.splits option.splits)

lemma sim_loop_frame:
  assumes "sim_loop env ini n se s = (found, se', s')"
  shows "sk_open s' = sk_open s \<and> so_socket_fd se' = so_socket_fd se \<and> so_peer_ip se' = so_peer_ip se
    \<and> so_peer_port se' = so_peer_port se \<and> (found \<longrightarrow> so_state se' = SIM_OPEN_STATE_ESTABLISHED)"
  using assms
proof (induction n arbitrary: se s)
  case (Suc n)
  obtain rc se1 s1 where w: "simultaneous_open_wait_for_sync env se s = (rc, se1, s1)" by (rule prod_cases3)
  note fw = wait_frame [OF w]
  show ?case
  proof (cases "rc = 0 \<and> so_state se1 = SIM_OPEN_STATE_ESTABLISHED")
    case True
    then show ?thesis using Suc.prems w fw by auto
  next
    case False
    obtain r2 se2 s2 where p: "simultaneous_open_send_packet env se1 SIM_PKT_SYNC [] s1 = (r2, se2, s2)" by (rule prod_cases3)
    note fp = send_packet_frame [OF p]
    show ?thesis
    proof (cases "0 < n \<and> ini")
      case True
      then have "sim_loop env ini n se2 s2 = (found, se', s')" using Suc.prems w p False by simp
      from Suc.IH [OF this] show ?thesis using fw fp by simp
    next
      case F2: False
      then have "sim_loop env ini n se1 s1 = (found, se', s')" using Suc.prems w False by (auto split: if_splits)
      from Suc.IH [OF this] show ?thesis using fw by simp
    qed
  qed
qed auto

lemma create_socket_frame:
  assumes "simultaneous_open_create_socket env s = (d, s')"
  shows "if d < 0 then d = -1 \<and> sk_open s' = sk_open s else d \<notin> set (sk_open s) \<and> sk_open s' = d # sk_open s"
proof -
  obtain d1 s1 where o1: "open_socket env s = (d1, s1)" by (rule prod.exhaust)
  obtain b s2 where a2: "ask env s1 = (b, s2)" by (rule prod.exhaust)
  show ?thesis using assms o1 a2 open_frame [OF o1] ask_frame [OF a2]
    by (auto simp: simultaneous_open_create_socket_def split: if_splits)
qed

lemma token_frame: "simultaneous_open_generate_sync_token env s = (w, s') \<Longrightarrow> sk_open s' = sk_open s"
  by (auto simp: simultaneous_open_generate_sync_token_def draw_def now_def)

lemma cleanup_frame:
  assumes "simultaneous_open_cleanup se s = (se', s')"
  shows "so_state se' = SIM_OPEN_STATE_IDLE \<and> so_socket_fd se' < 0
    \<and> sk_open s' = (if 0 \<le> so_socket_fd se then remove1 (so_socket_fd se) (sk_open s) else sk_open s)"
  using assms by (auto simp: simultaneous_open_cleanup_def split: if_splits)

lemma sim_start_frame:
  assumes "sim_start env ini se s = (started, se', s')"
  shows "so_peer_ip se' = so_peer_ip se \<and> so_peer_port se' = so_peer_port se
    \<and> (if started then so_socket_fd se' \<ge> 0 \<and> so_socket_fd se' \<notin> set (sk_open s) \<and> sk_open s' = so_socket_fd se' # sk_open s
        \<and> so_state se' = SIM_OPEN_STATE_SYNCING
       else so_socket_fd se' = -1 \<and> sk_open s' = sk_open s \<and> (so_state se' = so_state se \<or> so_state se' = SIM_OPEN_STATE_IDLE))"
proof -
  obtain r s1 where d1: "draw env s = (r, s1)" by (rule prod.exhaust)
  obtain d s2 where c2: "simultaneous_open_create_socket env s1 = (d, s2)" by (rule prod.exhaust)
  obtain w s3 where t3: "simultaneous_open_generate_sync_token env s2 = (w, s3)" by (rule prod.exhaust)
  obtain t s4 where n4: "now env s3 = (t, s4)" by (rule prod.exhaust)
  obtain b s5 where a5: "ask env s4 = (b, s5)" by (rule prod.exhaust)
  have o: "sk_open s1 = sk_open s" "sk_open s4 = sk_open s3" using d1 n4 by (auto simp: draw_def now_def)
  note f = create_socket_frame [OF c2] token_frame [OF t3] ask_frame [OF a5] o
  show ?thesis
  proof (cases "d < 0")
    case True
    then show ?thesis using assms d1 c2 f by (auto simp: sim_start_def)
  next
    case d: False
    show ?thesis
    proof (cases "b \<or> ne_again env (sk_calls s4)")
      case True
      then show ?thesis using assms d1 c2 t3 n4 a5 d f by (auto simp: sim_start_def Let_def)
    next
      case False
      then show ?thesis using assms d1 c2 t3 n4 a5 d f
        by (auto simp: sim_start_def Let_def simultaneous_open_cleanup_def)
    qed
  qed
qed

text \<open>What \<open>connect\<close> and \<open>accept\<close> end with.\<close>

definition sim_ended :: "SimOpenSession \<Rightarrow> sockets \<Rightarrow> int \<Rightarrow> SimOpenSession \<Rightarrow> sockets \<Rightarrow> bool" where
  "sim_ended se s rc se' s' \<longleftrightarrow>
    rc = 0 \<and> so_state se' = SIM_OPEN_STATE_ESTABLISHED \<and> 0 \<le> so_socket_fd se' \<and> so_socket_fd se' \<notin> set (sk_open s)
      \<and> sk_open s' = so_socket_fd se' # sk_open s
    \<or> rc = -1 \<and> so_socket_fd se' = -1 \<and> sk_open s' = sk_open s
      \<and> (so_state se' = so_state se \<or> so_state se' = SIM_OPEN_STATE_IDLE)"

lemma sim_loop_ended:
  assumes "sim_start env ini se s = (True, se1, s1)" and "so_socket_fd se2 = so_socket_fd se1" and "sk_open s2 = sk_open s1"
    and "sim_loop env ini' n se2 s2 = (found, se3, s3)"
    and "(rc, se', s') = (if found then (0, se3, s3) else (-1, simultaneous_open_cleanup se3 s3))"
  shows "sim_ended se s rc se' s'"
proof -
  note f = sim_start_frame [OF assms(1)] sim_loop_frame [OF assms(4)]
  show ?thesis
  proof (cases found)
    case True
    then show ?thesis using f assms(2,3,5) by (auto simp: sim_ended_def)
  next
    case False
    then have "simultaneous_open_cleanup se3 s3 = (se', s')" "rc = -1" using assms(5) by simp_all
    then show ?thesis using f assms(2,3) by (auto simp: sim_ended_def simultaneous_open_cleanup_def)
  qed
qed

lemma connect_ended:
  assumes c: "simultaneous_open_connect env se s = (rc, se', s')"
  shows "sim_ended se s rc se' s'"
proof -
  obtain b se1 s1 where st: "sim_start env True se s = (b, se1, s1)" by (rule prod_cases3)
  obtain r2 se2 s2 where sp: "simultaneous_open_send_packet env se1 SIM_PKT_SYNC [] s1 = (r2, se2, s2)" by (rule prod_cases3)
  obtain fd se3 s3 where lo: "sim_loop env True SIM_OPEN_MAX_RETRY se2 s2 = (fd, se3, s3)" by (rule prod_cases3)
  show ?thesis
  proof (cases b)
    case True
    then have e: "(rc, se', s') = (if fd then (0, se3, s3) else (-1, simultaneous_open_cleanup se3 s3))"
      using c st sp lo by (simp add: simultaneous_open_connect_def split: if_splits)
    show ?thesis by (rule sim_loop_ended [OF st [unfolded eqTrueI [OF True]] _ _ lo e]) (use send_packet_frame [OF sp] in simp_all)
  next
    case False
    then show ?thesis using c st sim_start_frame [OF st] by (auto simp: simultaneous_open_connect_def sim_ended_def)
  qed
qed

lemma accept_ended:
  assumes c: "simultaneous_open_accept env se s = (rc, se', s')"
  shows "sim_ended se s rc se' s'"
proof -
  obtain b se1 s1 where st: "sim_start env False se s = (b, se1, s1)" by (rule prod_cases3)
  obtain fd se3 s3 where lo: "sim_loop env False SIM_OPEN_MAX_RETRY se1 s1 = (fd, se3, s3)" by (rule prod_cases3)
  show ?thesis
  proof (cases b)
    case True
    then have e: "(rc, se', s') = (if fd then (0, se3, s3) else (-1, simultaneous_open_cleanup se3 s3))"
      using c st lo by (simp add: simultaneous_open_accept_def split: if_splits)
    show ?thesis by (rule sim_loop_ended [OF st [unfolded eqTrueI [OF True]] _ _ lo e]) simp_all
  next
    case False
    then show ?thesis using c st sim_start_frame [OF st] by (auto simp: simultaneous_open_accept_def sim_ended_def)
  qed
qed

text \<open>
  C34: connecting and accepting return 0 exactly when the session is established on a new socket;
  otherwise the session holds no socket and none is left open.
\<close>

theorem sim_connect_outcome:
  "(simultaneous_open_connect env se s = (rc, se', s') \<longrightarrow> sim_ended se s rc se' s')
    \<and> (simultaneous_open_accept env se s = (rc, se', s') \<longrightarrow> sim_ended se s rc se' s')"
  using connect_ended accept_ended by blast

section \<open>All operations\<close>

text \<open>A session that holds a socket is not connected again.\<close>

inductive sim_step :: "SimOpenSession \<times> sockets \<Rightarrow> SimOpenSession \<times> sockets \<Rightarrow> bool" where
  "so_socket_fd se < 0 \<Longrightarrow> simultaneous_open_connect env se s = (rc, se', s') \<Longrightarrow> sim_step (se, s) (se', s')"
| "so_socket_fd se < 0 \<Longrightarrow> simultaneous_open_accept env se s = (rc, se', s') \<Longrightarrow> sim_step (se, s) (se', s')"
| "simultaneous_open_send env (Some se) data s = (rc, Some se', s') \<Longrightarrow> sim_step (se, s) (se', s')"
| "simultaneous_open_recv env old (Some se) b m s = Some (rc, bs, Some se', s') \<Longrightarrow> sim_step (se, s) (se', s')"
| "simultaneous_open_close env (Some se) s = (rc, Some se', s') \<Longrightarrow> sim_step (se, s) (se', s')"
| "simultaneous_open_cleanup se s = (se', s') \<Longrightarrow> sim_step (se, s) (se', s')"

text \<open>An established session has a socket, and the socket of a session is open.\<close>

definition sim_ok :: "SimOpenSession \<times> sockets \<Rightarrow> bool" where
  "sim_ok x \<longleftrightarrow> (case x of (se, s) \<Rightarrow> (0 \<le> so_socket_fd se \<longrightarrow> so_socket_fd se \<in> set (sk_open s))
     \<and> (so_state se = SIM_OPEN_STATE_ESTABLISHED \<longrightarrow> 0 \<le> so_socket_fd se))"


lemma sim_recv_frame:
  assumes "simultaneous_open_recv env old (Some se) b m s = Some (rc, bs, Some se', s')"
  shows "sk_open s' = sk_open s \<and> so_socket_fd se' = so_socket_fd se
    \<and> (so_state se' = SIM_OPEN_STATE_ESTABLISHED \<longrightarrow> so_state se = SIM_OPEN_STATE_ESTABLISHED)"
  using assms
  by (auto simp: simultaneous_open_recv_def Let_def now_def dest!: recv_frame process_packet_frame
      split: if_splits option.splits prod.splits)

lemma sim_step_ok:
  assumes "sim_step x y" and "sim_ok x"
  shows "sim_ok y"
proof -
  obtain se s where x: "x = (se, s)" by (rule prod.exhaust)
  from assms(1)[unfolded x] show ?thesis
  proof cases
    case (1 env rc se' s')
    have "sim_ended se s rc se' s'" by (rule connect_ended [OF 1(3)])
    then show ?thesis using 1(1,2) assms(2) x by (auto simp: sim_ok_def sim_ended_def)
  next
    case (2 env rc se' s')
    have "sim_ended se s rc se' s'" by (rule accept_ended [OF 2(3)])
    then show ?thesis using 2(1,2) assms(2) x by (auto simp: sim_ok_def sim_ended_def)
  next
    case (3 env data rc se' s')
    then show ?thesis using assms(2) x
      by (auto simp: simultaneous_open_send_def sim_ok_def dest!: send_packet_frame split: option.splits if_splits prod.splits)
  next
    case (4 env old b m rc bs se' s')
    from sim_recv_frame [OF 4(2)] show ?thesis using 4(1) assms(2) x by (auto simp: sim_ok_def)
  next
    case (5 env rc se' s')
    then show ?thesis by (auto simp: simultaneous_open_close_def sim_ok_def Let_def split: if_splits prod.splits)
  next
    case (6 se' s')
    then show ?thesis using cleanup_frame [of se s se' s'] by (simp add: sim_ok_def)
  qed
qed

text \<open>
  From an initialised session on, if only a session without a socket is connected, whatever
  else is called and whatever arrives, an established session has a socket, which is open.
\<close>

theorem sim_session_invariant:
  assumes "simultaneous_open_init (Some se0) (Some ip) port = Some (0, Some se)" and "sim_step\<^sup>*\<^sup>* (se, s) y"
  shows "sim_ok y"
proof -
  have "sim_ok (se, s)" using assms(1) by (auto simp: simultaneous_open_init_def sim_ok_def zero_sim_def split: if_splits Option.bind_splits)
  with assms(2) show ?thesis by (induction rule: rtranclp_induct) (auto intro: sim_step_ok)
qed

section \<open>Crossing packets\<close>

lemma drop_past: "length a \<le> n \<Longrightarrow> drop n (a @ b) = drop (n - length a) b"
  by simp

lemma sim_packet_fields:
  fixes rest payload stamp token ty
  defines "p \<equiv> sim_packet ty token stamp payload @ rest"
  shows "\<not> length p < SIM_SIZEOF" and "sim_magic p = SIM_MAGIC" and "sim_version p = SIM_PROTOCOL_VERSION" and "sim_type p = ty"
    and "sim_token p = token" and "sim_payload_len p = length payload mod 65536" and "drop SIM_SIZEOF p = payload @ rest"
proof -
  have h: "p = (le32 SIM_MAGIC @ [SIM_PROTOCOL_VERSION, ty]) @ le32 token @ le32 (word_of_int stamp)
      @ le16 (of_nat (length payload)) @ payload @ rest"
    by (simp add: p_def sim_packet_def)
  have "drop 6 p = le32 token @ (le32 (word_of_int stamp) @ le16 (of_nat (length payload)) @ payload @ rest)"
    unfolding h by (subst drop_past) simp_all
  then show "sim_token p = token" unfolding sim_token_def by (simp only: from_le32_le32)
  have d14: "drop 14 p = le16 (of_nat (length payload)) @ payload @ rest" unfolding h by simp
  show "sim_payload_len p = length payload mod 65536"
    unfolding sim_payload_len_def d14 from_le16_le16 by (simp add: unat_of_nat)
  have "drop 16 p = drop 2 (drop 14 p)" by simp
  then show "drop SIM_SIZEOF p = payload @ rest" unfolding d14 by (simp add: SIM_SIZEOF_def)
  show "\<not> length p < SIM_SIZEOF" unfolding h by (simp add: SIM_SIZEOF_def)
  show "sim_magic p = SIM_MAGIC" unfolding h sim_magic_def append_assoc by (rule from_le32_le32)
  show "sim_version p = SIM_PROTOCOL_VERSION" "sim_type p = ty"
    unfolding h sim_version_def sim_type_def by (simp_all add: nth_append)
qed

lemma length_sim_packet: "length (sim_packet ty token stamp payload) = 16 + length payload"
  by (simp add: sim_packet_def)

lemmas sim_fields = sim_packet_fields [where rest = "[]", simplified]

text \<open>A synchronisation packet gives its token to a session that waits for one.\<close>

lemma process_sync:
  assumes "so_state se = SIM_OPEN_STATE_SYNCING"
    and "simultaneous_open_process_packet env se (sim_packet SIM_PKT_SYNC token stamp []) s = (rc, se', s')"
  shows "rc = 0 \<and> so_state se' = SIM_OPEN_STATE_ESTABLISHED \<and> so_sync_token se' = token"
  using assms
  by (auto simp: simultaneous_open_process_packet_def sim_fields Let_def now_def dest!: send_packet_frame split: prod.splits)

lemma process_ack_other:
  assumes "so_sync_token se \<noteq> token"
    and "simultaneous_open_process_packet env se (sim_packet SIM_PKT_SYNC_ACK token stamp []) s = (rc, se', s')"
  shows "rc = 0 \<and> so_state se' = so_state se \<and> so_sync_token se' = so_sync_token se"
  using assms by (auto simp: simultaneous_open_process_packet_def sim_fields Let_def now_def sim_types)

text \<open>
  When the first packets of two connecting peers cross, each session is established with the
  token of the other: they never agree on one, and the acknowledgement either sends afterwards is
  ignored by its receiver.
\<close>

theorem crossing_syncs_swap_tokens:
  assumes "so_state a = SIM_OPEN_STATE_SYNCING" and "so_state b = SIM_OPEN_STATE_SYNCING"
    and "so_sync_token a \<noteq> so_sync_token b"
    and "simultaneous_open_process_packet env a (sim_packet SIM_PKT_SYNC (so_sync_token b) stamp []) s = (ra, a', sa)"
    and "simultaneous_open_process_packet env' b (sim_packet SIM_PKT_SYNC (so_sync_token a) stamp' []) s' = (rb, b', sb)"
    and "simultaneous_open_process_packet env' b' (sim_packet SIM_PKT_SYNC_ACK (so_sync_token a') stamp'' []) sb = (rc, b'', sb')"
  shows "so_state a' = SIM_OPEN_STATE_ESTABLISHED \<and> so_state b' = SIM_OPEN_STATE_ESTABLISHED
    \<and> so_sync_token a' = so_sync_token b \<and> so_sync_token b' = so_sync_token a
    \<and> so_state b'' = so_state b' \<and> so_sync_token b'' = so_sync_token b'"
proof -
  note pa = process_sync [OF assms(1,4)] and pb = process_sync [OF assms(2,5)]
  moreover have "so_sync_token b' \<noteq> so_sync_token a'" using pa pb assms(3) by simp
  ultimately show ?thesis using process_ack_other [OF _ assms(6)] by simp
qed

section \<open>Punching and data\<close>

text \<open>
  A successful punch by simultaneous open reports no address: the empty text and port 0, and
  the UDP socket of the punch stays open without anyone holding it.
\<close>

theorem sim_punch_forgets_peer:
  assumes "simultaneous_open_punch env (Some st) (Some ip) port s = Some (0, p, s')" and "ps_udp_socket st \<in> set (sk_open s)"
  shows "punch_is_successful p \<and> punch_get_peer p = Some ([], 0)
    \<and> (\<exists>st'. p = Some st' \<and> ps_udp_socket st' \<noteq> ps_udp_socket st \<and> sk_open s' = ps_udp_socket st' # sk_open s)"
proof -
  let ?se = "zero_sim\<lparr>so_target_ip := ip, so_target_port := port\<rparr>"
  obtain rc se s1 where c: "simultaneous_open_connect env ?se s = (rc, se, s1)" by (rule prod_cases3)
  have r: "rc = 0" "p = Some (st\<lparr>ps_udp_socket := so_socket_fd se, ps_peer_ip := so_peer_ip se, ps_peer_port := so_peer_port se,
      ps_punched := True\<rparr>)" "s' = s1"
    using assms(1) c by (auto simp: simultaneous_open_punch_def simultaneous_open_init_def split: if_splits Option.bind_splits)
  have e: "sim_ended ?se s rc se s1" by (rule connect_ended [OF c])
  obtain b se1 s2 where st: "sim_start env True ?se s = (b, se1, s2)" by (rule prod_cases3)
  obtain r2 se2 s3 where sp: "simultaneous_open_send_packet env se1 SIM_PKT_SYNC [] s2 = (r2, se2, s3)" by (rule prod_cases3)
  obtain fd se3 s4 where lo: "sim_loop env True SIM_OPEN_MAX_RETRY se2 s3 = (fd, se3, s4)" by (rule prod_cases3)
  have "se = se3" using c st sp lo r(1) by (auto simp: simultaneous_open_connect_def split: if_splits)
  then have "so_peer_ip se = []" "so_peer_port se = 0"
    using sim_start_frame [OF st] send_packet_frame [OF sp] sim_loop_frame [OF lo] by (auto simp: zero_sim_def)
  then show ?thesis using r e assms(2) by (auto simp: sim_ended_def punch_is_successful_def punch_get_peer_def)
qed

text \<open>
  A data packet makes \<open>simultaneous_open_recv\<close> read outside its buffer exactly when both the
  length it announces and the room of the caller exceed 496 bytes, however few bytes came.
\<close>

theorem sim_recv_overrun_iff:
  assumes "so_state se = SIM_OPEN_STATE_ESTABLISHED" and "0 < m" and "ne_recv env (sk_calls s) = Some (bs, src)"
    and "length bs \<le> 512" and "SIM_SIZEOF \<le> length bs" and "sim_magic bs = SIM_MAGIC" and "sim_type bs = SIM_PKT_DATA"
  shows "simultaneous_open_recv env old (Some se) True m s = None \<longleftrightarrow> 496 < sim_payload_len bs \<and> 496 < m"
proof -
  have "bs \<noteq> []" using assms(5) by (auto simp: SIM_SIZEOF_def)
  then show ?thesis using assms by (simp add: simultaneous_open_recv_def recv_from_def SIM_SIZEOF_def Let_def split: prod.split)
qed

text \<open>
  What an established session sends in one packet of at most 496 bytes, and arrives whole, is
  what an established session at the other end receives.
\<close>

theorem sim_data_roundtrip:
  assumes "so_state a = SIM_OPEN_STATE_ESTABLISHED" and "so_state b = SIM_OPEN_STATE_ESTABLISHED"
    and "0 < length data" and "length data \<le> 496" and "length data \<le> m"
    and "simultaneous_open_send env (Some a) (Some data) s = (0, a', s')"
    and "ne_recv env' (sk_calls t) = Some (snd (snd (last (sk_sent s'))), src)"
  shows "\<exists>b' t'. simultaneous_open_recv env' old (Some b) True m t = Some (int (length data), data, Some b', t')"
proof -
  obtain stamp where sent: "last (sk_sent s') = (so_socket_fd a, None, sim_packet SIM_PKT_DATA (so_sync_token a) stamp data)"
    using assms(1,3,6)
    by (auto simp: simultaneous_open_send_def simultaneous_open_send_packet_def Let_def now_def send_to_def ask_def split: if_splits)
  let ?p = "sim_packet SIM_PKT_DATA (so_sync_token a) stamp data"
  have l: "length ?p = 16 + length data" by (rule length_sim_packet)
  then have ne: "?p \<noteq> []" by auto
  have t: "take 512 ?p = ?p" using l assms(4) by simp
  have m: "min (sim_payload_len ?p) m = length data" using sim_fields(6) assms(4,5) by (simp add: sim_fields)
  have d: "take (length data) (drop SIM_SIZEOF (filled 512 ?p old)) = data"
  proof -
    have "take (length data) (drop SIM_SIZEOF (filled 512 ?p old)) = drop SIM_SIZEOF (take (length ?p) (filled 512 ?p old))"
      unfolding l by (simp add: drop_take SIM_SIZEOF_def)
    also have "\<dots> = drop SIM_SIZEOF ?p" using l assms(4) by (subst filled_prefix) simp_all
    finally show ?thesis by (simp add: sim_fields)
  qed
  have "m \<noteq> 0" using assms(3,5) by linarith
  moreover have "\<not> 512 < SIM_SIZEOF + length data" "SIM_SIZEOF \<le> length ?p" using assms(4) l by (auto simp: SIM_SIZEOF_def)
  ultimately show ?thesis
    using assms(2,7) ne t m d
    by (simp add: simultaneous_open_recv_def recv_from_def sent sim_fields Let_def split: prod.split)
qed

end
