(* ===== verification/Punch_Properties.thy ===== *)
theory Punch_Properties
  imports Punch
begin

text \<open>
  What a punch finds, which sockets it leaves open, through which sockets its packets go, and why
  the answers of the background listener are never understood.
\<close>

section \<open>What a listen finds\<close>

definition accepted :: "(byte list \<times> sockaddr) option \<Rightarrow> (string \<times> int) option" where
  "accepted r = (case r of
      None \<Rightarrow> None
    | Some (bs, a) \<Rightarrow> if recv_text (take 255 bs) \<in> set punch_words then Some (ntop (sa_ip a), int (sa_port a)) else None)"

lemma punch_listen_accepted:
  "0 \<le> ps_udp_socket st \<Longrightarrow> punch_listen env (Some st) s = (accepted (ne_recv env (sk_calls s)), tick s)"
  by (auto simp: punch_listen_def recv_from_def accepted_def split: option.splits)

lemma punch_send_calls: "0 \<le> ps_udp_socket st \<Longrightarrow> sk_calls (snd (punch_send env (Some st) (Some ip) port s)) = sk_calls s + 1"
  by (simp add: punch_send_def send_to_def ask_def)

lemma send_times_calls: "0 \<le> ps_udp_socket st \<Longrightarrow> sk_calls (send_times env st ip port n s) = sk_calls s + n"
  by (induction n arbitrary: s) (simp_all add: punch_send_calls)

text \<open>The number of the call that round \<open>i\<close> of the loop listens with: every third round also sends.\<close>

definition listen_call :: "nat \<Rightarrow> nat" where
  "listen_call i = i + (i + 2) div 3"

lemma listen_call_Suc: "listen_call (Suc i) = listen_call i + 1 + (if i mod 3 = 0 then 1 else 0)"
proof -
  have "(Suc i + 2) div 3 = (i + 2) div 3 + (if i mod 3 = 0 then 1 else 0)" by simp presburger
  then show ?thesis by (simp add: listen_call_def)
qed

lemma connect_loop_finds:
  assumes "0 \<le> ps_udp_socket st" and "sk_calls s = c + listen_call i"
  shows "fst (connect_loop env st ip port i n s)
    = (case List.map_filter (\<lambda>k. accepted (ne_recv env (c + listen_call k))) [i..<i + n] of [] \<Rightarrow> None | peer # _ \<Rightarrow> Some peer)"
  using assms(2)
proof (induction n arbitrary: i s)
  case (Suc n)
  let ?s = "if i mod 3 = 0 then snd (punch_send env (Some st) (Some ip) port (tick s)) else tick s"
  have "sk_calls ?s = c + listen_call (Suc i)"
    using Suc.prems assms(1) by (simp add: listen_call_Suc punch_send_calls)
  note ih = Suc.IH [OF this]
  have range: "[i..<i + Suc n] = i # [Suc i..<Suc i + n]" by (simp add: upt_conv_Cons del: upt_Suc)
  show ?case using ih Suc.prems assms(1) unfolding range
    by (cases "i mod 3 = 0"; cases "accepted (ne_recv env (c + listen_call i))")
      (simp_all add: punch_listen_accepted map_filter_simps del: upt_Suc)
qed (simp add: map_filter_simps)

text \<open>
  Connecting by a punch finds the sender of the first recognised packet that one of its ten
  listens receives, whoever that is, and fails exactly when none of them does.
\<close>

theorem punch_try_connect_finds:
  assumes "0 \<le> ps_udp_socket st" and "punch_try_connect env (Some st) (Some ip) port s = (rc, p, s')"
  shows "case List.map_filter (\<lambda>k. accepted (ne_recv env (sk_calls s + 5 + listen_call k))) [0..<10] of
      [] \<Rightarrow> rc = -1 \<and> p = Some st
    | peer # _ \<Rightarrow> rc = 0 \<and> punch_get_peer p = Some peer \<and> punch_is_successful p"
proof -
  let ?s = "send_times env st ip port 5 s"
  have c: "sk_calls ?s = (sk_calls s + 5) + listen_call 0" by (simp add: send_times_calls [OF assms(1)] listen_call_def)
  obtain r s1 where l: "connect_loop env st ip port 0 PUNCH_MAX_RETRY ?s = (r, s1)" by (rule prod.exhaust)
  then have "r = (case List.map_filter (\<lambda>k. accepted (ne_recv env (sk_calls s + 5 + listen_call k))) [0..<10] of
      [] \<Rightarrow> None | peer # _ \<Rightarrow> Some peer)"
    using connect_loop_finds [OF assms(1) c, of env ip port PUNCH_MAX_RETRY] by (simp add: PUNCH_MAX_RETRY_def)
  then show ?thesis
    using assms(2) l
    by (auto simp: punch_try_connect_def Let_def found_peer_def punch_get_peer_def punch_is_successful_def split: list.splits)
qed

section \<open>Sockets that are left open\<close>

lemma punch_send_frame: "punch_send env p ip port s = (rc, s') \<Longrightarrow> sk_open s' = sk_open s"
  by (auto simp: punch_send_def dest: send_frame split: option.splits if_splits prod.splits)

lemma punch_listen_frame: "punch_listen env p s = (r, s') \<Longrightarrow> sk_open s' = sk_open s \<and> sk_sent s' = sk_sent s"
  by (auto simp: punch_listen_def dest!: recv_frame split: option.splits if_splits prod.splits)

text \<open>A packet of short life goes through a socket that is new and closed again.\<close>

lemma send_ttl_frame:
  assumes "punch_send_ttl env p ip port ttl s = (rc, s')"
  shows "sk_open s' = sk_open s \<and> (\<exists>new. sk_sent s' = sk_sent s @ new \<and> (\<forall>(d, _, _) \<in> set new. d \<notin> set (sk_open s)))"
proof (cases "\<exists>st a. p = Some st \<and> ip = Some a \<and> 0 \<le> ps_udp_socket st")
  case False
  then show ?thesis using assms by (auto simp: punch_send_ttl_def split: option.splits)
next
  case True
  then obtain st a where p: "p = Some st" "ip = Some a" "\<not> ps_udp_socket st < 0" by auto
  obtain d s1 where o1: "open_socket env s = (d, s1)" by (rule prod.exhaust)
  obtain b s2 where a2: "ask env s1 = (b, s2)" by (rule prod.exhaust)
  obtain c s3 where t3: "send_to env d (Some (sock_addr a port)) (string_bytes ''ORCA_PUNCH_TTL'') s2 = (c, s3)" by (rule prod.exhaust)
  note f = open_frame [OF o1] ask_frame [OF a2] send_frame [OF t3]
  show ?thesis
    using assms p o1 a2 t3 f by (auto simp: punch_send_ttl_def split: if_splits)
qed

lemma ttl_loop_frame:
  assumes "ttl_loop env st ip port ttl n s = (r, s')"
  shows "sk_open s' = sk_open s \<and> (\<exists>new. sk_sent s' = sk_sent s @ new \<and> (\<forall>(d, _, _) \<in> set new. d \<notin> set (sk_open s)))"
  using assms
proof (induction n arbitrary: ttl s)
  case (Suc n)
  obtain rc s1 where t: "punch_send_ttl env (Some st) (Some ip) port ttl s = (rc, s1)" by (rule prod.exhaust)
  obtain q s2 where l: "punch_listen env (Some st) s1 = (q, s2)" by (rule prod.exhaust)
  note f = send_ttl_frame [OF t] punch_listen_frame [OF l]
  show ?case
  proof (cases q)
    case None
    then have "ttl_loop env st ip port (ttl + 1) n s2 = (r, s')" using Suc.prems t l by simp
    note ih = Suc.IH [OF this]
    from f ih show ?thesis by auto
  next
    case (Some x)
    then show ?thesis using Suc.prems t l f by auto
  qed
qed auto

text \<open>
  The packets of a TTL punch go through other sockets than the one it listens on, and every
  one of them is closed when the punch returns: no answer can reach the mapping they opened.
\<close>

theorem ttl_punch_uses_other_sockets:
  assumes "punch_try_ttl env (Some st) (Some ip) port s = (rc, p, s')" and "ps_udp_socket st \<in> set (sk_open s)"
  shows "sk_open s' = sk_open s \<and> (\<exists>new. sk_sent s' = sk_sent s @ new
    \<and> (\<forall>(d, _, _) \<in> set new. d \<noteq> ps_udp_socket st \<and> d \<notin> set (sk_open s')))"
proof -
  let ?st = "st\<lparr>ps_last_technique := PUNCH_TECH_TTL, ps_ttl_used := True\<rparr>"
  obtain r s1 where l: "ttl_loop env ?st ip port 1 PUNCH_MAX_TTL s = (r, s1)" by (rule prod.exhaust)
  have "s1 = s'" using assms(1) l by (auto simp: punch_try_ttl_def Let_def split: option.splits)
  then show ?thesis using ttl_loop_frame [OF l] assms(2) by fastforce
qed

section \<open>Answers that nobody understands\<close>

definition awaited_words :: "string list" where
  "awaited_words = punch_words @ [''ORCA_TTL_RESPONSE'', ''ORCA_PROBE_RESPONSE'', ''ORCA_RANGE_RESPONSE'', ''ORCA_IPV6_RESPONSE'']"

text \<open>
  Whatever a background listener receives, what it sends is not one of the words that a punch,
  a TTL punch or a probe of the port prediction waits for, nor does it contain one of theirs.
\<close>

theorem listener_answer_not_understood:
  assumes "punch_listener_round env st s = s'"
  shows "sk_sent s' = sk_sent s \<or> (\<exists>dest bs. sk_sent s' = sk_sent s @ [(ps_udp_socket st, dest, bs)]
    \<and> recv_text bs \<notin> set awaited_words \<and> \<not> contains (recv_text bs) ''ORCA_PROBE_RESPONSE''
    \<and> \<not> contains (recv_text bs) ''ORCA_TTL_RESPONSE'' \<and> \<not> contains (recv_text bs) ''ORCA_RANGE_RESPONSE'')"
proof -
  have t: "take 18 (string_bytes ''ORCA_PUNCH_RESPONSE'') = string_bytes ''ORCA_PUNCH_RESPONS''"
    by (simp add: string_bytes_def)
  have r: "recv_text (string_bytes ''ORCA_PUNCH_RESPONS'') = ''ORCA_PUNCH_RESPONS''"
    by (simp add: recv_text_def string_bytes_def bytes_string_def) code_simp
  have c: "recv_text (take 18 (string_bytes ''ORCA_PUNCH_RESPONSE'')) = ''ORCA_PUNCH_RESPONS''" unfolding t by (rule r)
  obtain q s1 where q: "recv_from env 255 s = (q, s1)" by (rule prod.exhaust)
  have s1: "sk_sent s1 = sk_sent s" using recv_frame [OF q] by simp
  show ?thesis
  proof (cases "sk_sent s' = sk_sent s")
    case False
    then obtain buf a where b: "q = Some (buf, a)" "s' = snd (send_to env (ps_udp_socket st) (Some a)
        (take 18 (string_bytes ''ORCA_PUNCH_RESPONSE'')) s1)"
      using assms q s1 by (auto simp: punch_listener_round_def split: option.splits if_splits)
    obtain ok s2 where s2: "send_to env (ps_udp_socket st) (Some a) (take 18 (string_bytes ''ORCA_PUNCH_RESPONSE'')) s1 = (ok, s2)"
      by (rule prod.exhaust)
    have "s' = s2" using b(2) unfolding s2 by simp
    then have "sk_sent s' = sk_sent s @ [(ps_udp_socket st, Some a, take 18 (string_bytes ''ORCA_PUNCH_RESPONSE''))]"
      using send_frame [OF s2] s1 False by (cases ok) simp_all
    moreover have "''ORCA_PUNCH_RESPONS'' \<notin> set awaited_words" by (simp add: awaited_words_def punch_words_def)
    moreover have "\<not> contains ''ORCA_PUNCH_RESPONS'' ''ORCA_PROBE_RESPONSE''" "\<not> contains ''ORCA_PUNCH_RESPONS'' ''ORCA_TTL_RESPONSE''"
      "\<not> contains ''ORCA_PUNCH_RESPONS'' ''ORCA_RANGE_RESPONSE''" by simp_all
    ultimately show ?thesis unfolding c [symmetric] by blast
  qed simp
qed

end
