(* ===== verification/Port_Properties.thy ===== *)
theory Port_Properties
  imports Port_Prediction Punch_Properties
begin

text \<open>
  What the port prediction predicts and which ports it scans, and the punch that succeeds without
  saying so.
\<close>

section \<open>Predictions\<close>

text \<open>A predictor as observations make it: at most ten ports, all of them valid.\<close>

definition predictor_ok :: "PortPredictor \<Rightarrow> bool" where
  "predictor_ok pp \<longleftrightarrow> pp_count pp \<le> PORT_PREDICT_SAMPLES
    \<and> (\<forall>ob \<in> set (pp_observations pp). PORT_PREDICT_MIN_PORT \<le> po_port ob \<and> po_port ob \<le> PORT_PREDICT_MAX_PORT)
    \<and> map po_sequence_num (pp_observations pp) = [0..<pp_count pp]"

lemma observation_kept:
  assumes "predictor_ok pp"
  shows "\<exists>pp'. snd (port_predictor_add_observation t (Some pp) q) = Some pp' \<and> predictor_ok pp'
    \<and> map po_port (pp_observations pp')
      = take PORT_PREDICT_SAMPLES (map po_port (pp_observations pp)
          @ (if PORT_PREDICT_MIN_PORT \<le> q \<and> q \<le> PORT_PREDICT_MAX_PORT then [q] else []))"
  using assms by (auto simp: port_predictor_add_observation_def predictor_ok_def pp_count_def)

lemma take_append_take: "take n (take n xs @ ys) = take n (xs @ ys)"
  by (auto simp: min_def)

text \<open>
  C35: initialising a predictor, whatever the structure held before, leaves one without
  observations, without a pattern and without a prediction.  However many ports are observed then,
  the first ten valid ones are kept, in the order observed and numbered from 0, and no others.
\<close>

theorem predictor_invariant:
  assumes "port_predictor_init (Some pp0) (Some ip) port = Some (0, Some pp)"
  shows "pp = new_predictor ip port
    \<and> (\<exists>pp'. fold (\<lambda>(t, q) pred. snd (port_predictor_add_observation t pred q)) obs (Some pp) = Some pp' \<and> predictor_ok pp'
      \<and> map po_port (pp_observations pp')
        = take PORT_PREDICT_SAMPLES (filter (\<lambda>q. PORT_PREDICT_MIN_PORT \<le> q \<and> q \<le> PORT_PREDICT_MAX_PORT) (map snd obs)))"
proof
  show pp: "pp = new_predictor ip port"
    using assms by (auto simp: port_predictor_init_def strcpy_into_def split: Option.bind_splits if_splits)
  let ?good = "\<lambda>q. PORT_PREDICT_MIN_PORT \<le> q \<and> q \<le> PORT_PREDICT_MAX_PORT"
  have "\<exists>pp'. fold (\<lambda>(t, q) pred. snd (port_predictor_add_observation t pred q)) obs (Some pp) = Some pp' \<and> predictor_ok pp'
      \<and> map po_port (pp_observations pp') = take PORT_PREDICT_SAMPLES (map po_port (pp_observations pp) @ filter ?good (map snd obs))"
    if "predictor_ok pp" for pp
    using that
  proof (induction obs arbitrary: pp)
    case Nil
    then show ?case by (simp add: predictor_ok_def pp_count_def)
  next
    case (Cons x obs)
    obtain t q where x: "x = (t, q)" by (rule prod.exhaust)
    obtain pp1 where o: "snd (port_predictor_add_observation t (Some pp) q) = Some pp1" "predictor_ok pp1"
      "map po_port (pp_observations pp1) = take PORT_PREDICT_SAMPLES (map po_port (pp_observations pp) @ (if ?good q then [q] else []))"
      using observation_kept [OF Cons.prems] by blast
    then show ?case using Cons.IH [OF o(2)] x by (cases "?good q") (auto simp: take_append_take simp del: take_append)
  qed
  moreover have "predictor_ok pp" unfolding pp by (simp add: new_predictor_def predictor_ok_def pp_count_def)
  ultimately show "\<exists>pp'. fold (\<lambda>(t, q) pred. snd (port_predictor_add_observation t pred q)) obs (Some pp) = Some pp' \<and> predictor_ok pp'
      \<and> map po_port (pp_observations pp') = take PORT_PREDICT_SAMPLES (filter ?good (map snd obs))"
    using pp by (fastforce simp: new_predictor_def)
qed

lemma port_diffs_arith: "port_diffs (map (\<lambda>i. p + int i * d) [0..<Suc n]) = replicate n d"
proof (rule nth_equalityI)
  show l: "length (port_diffs (map (\<lambda>i. p + int i * d) [0..<Suc n])) = length (replicate n d)"
    by (simp add: port_diffs_def)
  fix i assume "i < length (port_diffs (map (\<lambda>i. p + int i * d) [0..<Suc n]))"
  then have i: "i < n" using l by simp
  then show "port_diffs (map (\<lambda>i. p + int i * d) [0..<Suc n]) ! i = replicate n d ! i"
    by (simp add: port_diffs_def nth_tl nth_butlast algebra_simps del: upt_Suc)
qed

text \<open>
  From ports that grow by a constant step of 1 to 19 the next one is predicted, with a
  confidence of 80.
\<close>

theorem sequential_ports_predicted:
  assumes "map po_port (pp_observations pp) = map (\<lambda>i. p + int i * d) [0..<n]" and "3 \<le> n" and "0 < d" and "d < 20"
  shows "\<exists>pp'. port_predictor_predict t rnd (Some pp) = (p + int n * d, Some pp') \<and> pp_confidence pp' = 80
    \<and> port_prediction_possible (Some pp')"
proof -
  obtain m where m: "n = Suc m" "2 \<le> m" using assms(2) by (cases n) auto
  let ?ports = "map (\<lambda>i. p + int i * d) [0..<n]"
  have c: "pp_count pp = n" using arg_cong [OF assms(1), of length] by (simp add: pp_count_def)
  have df: "port_diffs ?ports = replicate m d" unfolding m(1) by (rule port_diffs_arith)
  have hd: "hd (replicate m d) = d" "list_all (\<lambda>x. x = d) (tl (replicate m d))"
    using m(2) by (cases m; simp add: list_all_iff)+
  have last: "last ?ports = p + int m * d" unfolding m(1) by simp
  have a: "port_analyze_pattern r (Some pp) = (0, Some (pp\<lparr>pp_pattern_detected := True, pp_pattern_offset := d, pp_confidence := 80,
      pp_predicted_port := last ?ports + d\<rparr>))" for r
    using c assms(2-4) hd by (simp add: port_analyze_pattern_def Let_def assms(1) df del: upt_Suc)
  show ?thesis
    using c assms(2) by (simp add: port_predictor_predict_def a last port_prediction_possible_def pp_count_def m(1) algebra_simps)
qed

lemma clamp_range: "PORT_PREDICT_MIN_PORT \<le> clamp_port p \<and> clamp_port p \<le> PORT_PREDICT_MAX_PORT"
  by (simp add: clamp_port_def predict_limits)

lemma analyze_range:
  assumes "predictor_ok pp" and "3 \<le> pp_count pp" and "port_analyze_pattern rnd (Some pp) = (rc, Some pp')"
  shows "pp_observations pp' = pp_observations pp \<and> (0 \<le> rc \<longrightarrow> PORT_PREDICT_MIN_PORT < pp_predicted_port pp' + 1
    \<and> pp_predicted_port pp' \<le> PORT_PREDICT_MAX_PORT + 19 \<and> (PORT_PREDICT_MAX_PORT < pp_predicted_port pp' \<longrightarrow> 60 \<le> pp_confidence pp'))"
proof -
  let ?ports = "map po_port (pp_observations pp)"
  have "pp_observations pp \<noteq> []" using assms(2) by (auto simp: pp_count_def)
  then have "last ?ports \<in> set ?ports" by (intro last_in_set) simp
  then have l: "PORT_PREDICT_MIN_PORT \<le> last ?ports" "last ?ports \<le> PORT_PREDICT_MAX_PORT"
    using assms(1) by (auto simp: predictor_ok_def)
  have e: "and x (not 1) = 2 * (x div 2)" for x :: int
    by (rule bit_eqI) (auto simp: bit_simps bit_double_iff simp flip: bit_Suc)
  then have e2: "and x (- 2) = 2 * (x div 2)" for x :: int by simp
  show ?thesis
    using assms(2,3) l clamp_range [of "regression_port ?ports"]
    by (auto simp: port_analyze_pattern_def Let_def e2 or_one_eq predict_limits split: if_splits)
qed

lemma predict_range:
  assumes "predictor_ok pp" and "3 \<le> pp_count pp" and "0 \<le> rnd 1" and "port_predictor_predict t rnd (Some pp) = (p, Some pp')"
  shows "PORT_PREDICT_MIN_PORT \<le> p \<and> p \<le> PORT_PREDICT_MAX_PORT + 19 \<and> (PORT_PREDICT_MAX_PORT < p \<longrightarrow> 60 \<le> pp_confidence pp')"
proof -
  obtain rc pp1 where a: "port_analyze_pattern (rnd 0) (Some pp) = (rc, Some pp1)"
    using that by (cases "port_analyze_pattern (rnd 0) (Some pp)"; cases "snd (port_analyze_pattern (rnd 0) (Some pp))")
      (auto simp: port_analyze_pattern_def Let_def split: if_splits)
  note r = analyze_range [OF assms(1,2) a]
  have "pp_observations pp \<noteq> []" using assms(2) by (auto simp: pp_count_def)
  then have "last (pp_observations pp) \<in> set (pp_observations pp)" by (rule last_in_set)
  then have l: "PORT_PREDICT_MIN_PORT \<le> po_port (last (pp_observations pp))" using assms(1) by (auto simp: predictor_ok_def)
  have m: "0 \<le> rnd 1 mod 5" by simp
  show ?thesis
  proof (cases "rc < 0")
    case True
    then have "p = cap_port (po_port (last (pp_observations pp)) + rnd 1 mod 5 + 1)"
      using assms(2,4) a r by (simp add: port_predictor_predict_def Let_def)
    then show ?thesis using l m by (auto simp: cap_port_def predict_limits split: if_splits)
  next
    case False
    then have "p = pp_predicted_port pp1" "pp_confidence pp' = pp_confidence pp1"
      using assms(2,4) a by (auto simp: port_predictor_predict_def)
    then show ?thesis using r False by auto
  qed
qed

text \<open>
  A prediction is at least 1024, but only some of its branches stop at 65535: the others go up
  to 65554, and what is then sent to the predicted port goes to one below 19.
\<close>

theorem prediction_may_exceed_ports:
  assumes "predictor_ok pp" and "3 \<le> pp_count pp" and "0 \<le> rnd 1" and "port_predictor_predict t rnd (Some pp) = (p, Some pp')"
  shows "1024 \<le> p \<and> p \<le> 65554 \<and> (65535 < p \<longrightarrow> 60 \<le> pp_confidence pp' \<and> int (sa_port (sock_addr ip p)) = p - 65536)
    \<and> (p \<le> 65535 \<longrightarrow> int (sa_port (sock_addr ip p)) = p)"
proof -
  note r = predict_range [OF assms, unfolded predict_limits]
  have "p mod 65536 = (p - 65536) mod 65536" by simp
  also have "\<dots> = p - 65536" if "65535 < p" using that r by (intro mod_pos_pos_trivial) auto
  finally have "65535 < p \<Longrightarrow> int (sa_port (sock_addr ip p)) = p - 65536" using r by (simp add: sock_addr_def)
  moreover have "p \<le> 65535 \<Longrightarrow> int (sa_port (sock_addr ip p)) = p" using r by (simp add: sock_addr_def)
  ultimately show ?thesis using r by auto
qed

section \<open>Scanning a range\<close>

text \<open>
  The ports scanned around a port are those at most ten away that are valid; when nothing
  answers and every packet leaves, each of them is sent one probe, in increasing order.
\<close>

theorem range_scan_probes_window:
  assumes "\<And>k. ne_ok env k" and "\<And>k. ne_recv env k = None"
  shows "set (port_window p) = {q. 1024 \<le> q \<and> q \<le> 65535 \<and> \<bar>q - p\<bar> \<le> 10} \<and> sorted_wrt (<) (port_window p)
    \<and> (\<exists>s'. range_scan env ip d (port_window p) s = (None, s')
      \<and> sk_sent s' = sk_sent s @ map (\<lambda>q. (d, Some (sock_addr ip q), string_bytes (''ORCA_RANGE_'' @ dec_int q))) (port_window p))"
proof -
  have set: "set (port_window p) = {q. 1024 \<le> q \<and> q \<le> 65535 \<and> \<bar>q - p\<bar> \<le> 10}"
    by (auto simp: port_window_def predict_limits)
  have scan: "\<exists>s'. range_scan env ip d qs s = (None, s')
      \<and> sk_sent s' = sk_sent s @ map (\<lambda>q. (d, Some (sock_addr ip q), string_bytes (''ORCA_RANGE_'' @ dec_int q))) qs"
    if "\<forall>q \<in> set qs. 0 \<le> q \<and> q \<le> 65535" for qs
    using that
  proof (induction qs arbitrary: s)
    case (Cons q qs)
    have "nat q < 10 ^ 5" using Cons.prems by auto
    then have "length (dec_int q) \<le> 5" using length_dec_nat_le [of "nat q" 5] Cons.prems by (simp add: dec_int_def)
    then have fit: "snprintf_into 32 (''ORCA_RANGE_'' @ dec_int q) = ''ORCA_RANGE_'' @ dec_int q"
      by (intro snprintf_into_fits) simp
    let ?s = "tick ((tick s)\<lparr>sk_sent := sk_sent s @ [(d, Some (sock_addr ip q), string_bytes (''ORCA_RANGE_'' @ dec_int q))]\<rparr>)"
    have "range_scan env ip d (q # qs) s = range_scan env ip d qs ?s"
      using fit assms by (simp add: send_to_def ask_def recv_from_def Let_def)
    moreover have "\<forall>q \<in> set qs. 0 \<le> q \<and> q \<le> 65535" using Cons.prems by simp
    ultimately show ?case using Cons.IH [of ?s] by auto
  qed simp
  have "sorted_wrt (<) (port_window p)" unfolding port_window_def by (rule sorted_wrt_upto)
  moreover have "\<forall>q \<in> set (port_window p). 0 \<le> q \<and> q \<le> 65535" using set by auto
  ultimately show ?thesis using set scan by simp
qed

lemma predict_range_found:
  "port_predict_range env ip port b pb s = (Some peer, pb', s') \<Longrightarrow> \<exists>a. ip = Some a \<and> b"
  by (auto simp: port_predict_range_def split: option.splits if_splits)

text \<open>
  When too few ports were observed and the scan of the range finds the peer, the punch returns
  0 without marking itself as successful: the address found is not handed out.
\<close>

theorem range_success_hidden:
  assumes "port_predictor_punch env (Some st) (Some ip) port pb s = Some ((rc, p), pb', s')" and "length ip < 16"
    and "observe_loop env ip port [0..<6] (Some (new_predictor ip port)) pb s = (Some pp, pb1, s1)" and "pp_count pp < 3"
    and "\<not> ps_punched st"
  shows "(rc = 0 \<longleftrightarrow> fst (port_predict_range env (Some ip) port True pb1 s1) \<noteq> None) \<and> punch_get_peer p = None \<and> \<not> punch_is_successful p"
proof -
  have r: "scan_range env st ip port pb1 s1 = ((rc, p), pb', s')"
    using assms(1-4) by (simp add: port_predictor_punch_def port_predictor_init_def strcpy_into_fits)
  obtain q pb2 s2 where "port_predict_range env (Some ip) port True pb1 s1 = (q, pb2, s2)" by (rule prod_cases3)
  then show ?thesis using r assms(5)
    by (cases q) (auto simp: scan_range_def punch_get_peer_def punch_is_successful_def)
qed

end
