(* ===== verification/Multi_Properties.thy ===== *)
theory Multi_Properties
  imports Punch_Multi Sim_Properties Port_Properties
begin

text \<open>
  The run over the punching techniques: which sockets it leaves open and when it succeeds.
\<close>

section \<open>Sockets of one technique\<close>

text \<open>
  The contract of a technique: the state it returns holds the socket that is closed afterwards,
  and then \<open>extra\<close> of its own socket, its result and the probe before and after is left open in
  addition to what was open before its socket.
\<close>

locale socket_technique =
  fixes f :: technique
    and extra :: "int \<Rightarrow> int \<Rightarrow> probe \<Rightarrow> probe \<Rightarrow> int list"
  assumes leaves: "ps_udp_socket st = d \<Longrightarrow> 0 \<le> d \<Longrightarrow> sk_open s = d # ds \<Longrightarrow> f (Some st) pb s = Some (rc, p, pb', s')
    \<Longrightarrow> \<exists>st'. p = Some st' \<and> 0 \<le> ps_udp_socket st' \<and> ps_udp_socket st' \<in> set (sk_open s')
      \<and> remove1 (ps_udp_socket st') (sk_open s') = extra d rc pb pb' @ ds"
begin

lemma attempt_leaves:
  assumes "attempt_technique env tech port stack f results pb s = Some (results', pb', s')"
  shows "results' = results \<and> pb' = pb \<and> sk_open s' = sk_open s
    \<or> (\<exists>r. results' = results @ [r] \<and> pr_tech r = tech
        \<and> sk_open s' = extra (fst (open_socket env s)) (pr_result r) pb pb' @ sk_open s)"
proof -
  obtain d s1 where o1: "open_socket env s = (d, s1)" by (rule prod.exhaust)
  obtain b s2 where a2: "ask env s1 = (b, s2)" by (rule prod.exhaust)
  note f = open_frame [OF o1] ask_frame [OF a2]
  obtain rc p s3 where i: "punch_init env (Some stack) port s = (rc, p, s3)" by (rule prod_cases3)
  show ?thesis
  proof (cases "rc = 0")
    case False
    then have "results' = results \<and> pb' = pb \<and> s' = s3" using assms i by (simp add: attempt_technique_def)
    moreover have "sk_open s3 = sk_open s" using i o1 a2 f False by (auto simp: punch_init_def Let_def split: if_splits)
    ultimately show ?thesis by simp
  next
    case True
    then obtain st where st: "p = Some st" "ps_udp_socket st = d" "0 \<le> d" "sk_open s3 = d # sk_open s"
      using i o1 a2 f by (auto simp: punch_init_def Let_def split: if_splits)
    obtain rc2 p2 s4 where t: "f (Some st) pb s3 = Some (rc2, p2, pb', s4)"
      and r: "\<exists>r. results' = results @ [r] \<and> pr_tech r = tech \<and> pr_result r = rc2" "s' = snd (punch_close p2 s4)"
      using assms i True st(1) by (auto simp: attempt_technique_def Let_def split: Option.bind_splits)
    obtain st' where st': "p2 = Some st'" "0 \<le> ps_udp_socket st'" "remove1 (ps_udp_socket st') (sk_open s4) = extra d rc2 pb pb' @ sk_open s"
      using leaves [OF st(2-4) t] by blast
    then have "sk_open s' = extra d rc2 pb pb' @ sk_open s" using r(2) by (simp add: punch_close_def)
    then show ?thesis using r(1) o1 by auto
  qed
qed

end

lemma attempt_probe:
  assumes "attempt_technique env tech port stack f results pb s = Some (results', pb', s')"
    and "\<And>p s rc p' pb' s'. f p pb s = Some (rc, p', pb', s') \<Longrightarrow> pb' = pb"
  shows "pb' = pb"
  using assms by (auto simp: attempt_technique_def Let_def split: prod.splits if_splits Option.bind_splits)

definition leaves_none :: "int \<Rightarrow> int \<Rightarrow> probe \<Rightarrow> probe \<Rightarrow> int list" where
  "leaves_none d rc pb pb' = []"

lemma send_times_frame: "sk_open (send_times env st ip port n s) = sk_open s"
proof (induction n arbitrary: s)
  case (Suc n)
  obtain rc s1 where "punch_send env (Some st) (Some ip) port s = (rc, s1)" by (rule prod.exhaust)
  then show ?case using Suc.IH punch_send_frame by simp
qed simp

lemma connect_loop_frame: "connect_loop env st ip port i n s = (r, s') \<Longrightarrow> sk_open s' = sk_open s"
proof (induction n arbitrary: i s)
  case (Suc n)
  obtain q s1 where l: "punch_listen env (Some st) s = (q, s1)" by (rule prod.exhaust)
  obtain rc s2 where p: "punch_send env (Some st) (Some ip) port s1 = (rc, s2)" by (rule prod.exhaust)
  note f = punch_listen_frame [OF l] punch_send_frame [OF p]
  show ?case
  proof (cases q)
    case None
    then have "connect_loop env st ip port (i + 1) n (if i mod 3 = 0 then s2 else s1) = (r, s')"
      using Suc.prems l p by (cases "i mod 3 = 0") simp_all
    from Suc.IH [OF this] show ?thesis using f by (auto split: if_splits)
  qed (use Suc.prems l f in auto)
qed simp

interpretation udp_punch: socket_technique "without_probe (\<lambda>p. punch_try_connect env p (Some ip) port)" leaves_none for env ip port
  by unfold_locales (auto simp: leaves_none_def without_probe_def punch_try_connect_def Let_def found_peer_def send_times_frame
      dest!: connect_loop_frame split: option.splits prod.splits)

interpretation ttl_punch: socket_technique "without_probe (\<lambda>p. punch_try_ttl env p (Some ip) port)" leaves_none for env ip port
  by unfold_locales (auto simp: leaves_none_def without_probe_def punch_try_ttl_def Let_def found_peer_def
      dest!: ttl_loop_frame split: option.splits prod.splits)

text \<open>A successful simultaneous open leaves the socket that the punch was opened with.\<close>

definition leaves_own :: "int \<Rightarrow> int \<Rightarrow> probe \<Rightarrow> probe \<Rightarrow> int list" where
  "leaves_own d rc pb pb' = (if rc = 0 then [d] else [])"

lemma sim_punch_open:
  assumes "simultaneous_open_punch env (Some st) (Some ip) port s = Some (rc, p, s')"
  shows "\<exists>st'. p = Some st' \<and> (if rc = 0 then 0 \<le> ps_udp_socket st' \<and> sk_open s' = ps_udp_socket st' # sk_open s
    else ps_udp_socket st' = ps_udp_socket st \<and> sk_open s' = sk_open s)"
proof (cases "port \<le> 0 \<or> 16 \<le> length ip")
  case True
  then show ?thesis using assms by (auto simp: simultaneous_open_punch_def simultaneous_open_init_def split: if_splits Option.bind_splits)
next
  case False
  let ?se = "zero_sim\<lparr>so_target_ip := ip, so_target_port := port\<rparr>"
  obtain r se s1 where c: "simultaneous_open_connect env ?se s = (r, se, s1)" by (rule prod_cases3)
  have "sim_ended ?se s r se s1" by (rule connect_ended [OF c])
  then show ?thesis
    using assms c False
    by (auto simp: simultaneous_open_punch_def simultaneous_open_init_def sim_ended_def strcpy_into_fits not_le split: if_splits)
qed

interpretation sim_punch: socket_technique "punch_try_simultaneous env (Some ip) port" leaves_own for env ip port
proof
  fix st d s ds pb rc p pb' s'
  assume a: "ps_udp_socket st = d" "0 \<le> d" "sk_open s = d # ds" "punch_try_simultaneous env (Some ip) port (Some st) pb s = Some (rc, p, pb', s')"
  have "simultaneous_open_punch env (Some (st\<lparr>ps_last_technique := PUNCH_TECH_SIMULTANEOUS, ps_simultaneous_used := True\<rparr>)) (Some ip) port s
      = Some (rc, p, s')"
    using a(4) by (auto simp: punch_try_simultaneous_def split: Option.bind_splits)
  from sim_punch_open [OF this]
  show "\<exists>st'. p = Some st' \<and> 0 \<le> ps_udp_socket st' \<and> ps_udp_socket st' \<in> set (sk_open s')
      \<and> remove1 (ps_udp_socket st') (sk_open s') = leaves_own d rc pb pb' @ ds"
    using a(1-3) by (auto simp: leaves_own_def split: if_splits)
qed

text \<open>A punch by prediction leaves the probe socket if it opened one.\<close>

definition leaves_probe :: "int \<Rightarrow> int \<Rightarrow> probe \<Rightarrow> probe \<Rightarrow> int list" where
  "leaves_probe d rc pb pb' = (if pb_socket pb < 0 \<and> 0 \<le> pb_socket pb' then [pb_socket pb'] else [])"

definition opens_probe :: "probe \<Rightarrow> probe \<Rightarrow> sockets \<Rightarrow> sockets \<Rightarrow> bool" where
  "opens_probe pb pb' s s' \<longleftrightarrow> (pb' = pb \<and> sk_open s' = sk_open s
     \<or> pb_socket pb < 0 \<and> 0 \<le> pb_socket pb' \<and> pb_socket pb' \<notin> set (sk_open s) \<and> sk_open s' = pb_socket pb' # sk_open s)"

lemma opens_probe_trans: "opens_probe pb pb' s s' \<Longrightarrow> opens_probe pb' pb'' s' s'' \<Longrightarrow> opens_probe pb pb'' s s''"
  by (auto simp: opens_probe_def)

lemma opens_probe_same: "sk_open s' = sk_open s \<Longrightarrow> opens_probe pb pb s s'"
  by (simp add: opens_probe_def)

lemma bind_first_frame: "bind_first env ports s = (r, s') \<Longrightarrow> sk_open s' = sk_open s"
  by (induction ports arbitrary: s) (auto dest!: ask_frame split: prod.splits if_splits)

lemma open_probe_frame:
  assumes "port_predictor_open_probe_socket env pb s = ((d, q), pb', s')"
  shows "opens_probe pb pb' s s'"
proof (cases "0 \<le> pb_socket pb")
  case True
  then show ?thesis using assms by (auto simp: port_predictor_open_probe_socket_def opens_probe_def)
next
  case False
  obtain d1 s1 where o1: "open_socket env s = (d1, s1)" by (rule prod.exhaust)
  obtain r s2 where b: "bind_first env [PORT_PREDICT_PROBE_PORT..PORT_PREDICT_PROBE_PORT + 19] s1 = (r, s2)" by (rule prod.exhaust)
  note f = open_frame [OF o1] bind_first_frame [OF b]
  show ?thesis
  proof (cases r)
    case None
    then show ?thesis using assms o1 b f False
      by (auto simp: port_predictor_open_probe_socket_def opens_probe_def simp del: upto.simps split: if_splits)
  next
    case (Some port)
    then show ?thesis using assms o1 b f False
      by (auto simp: port_predictor_open_probe_socket_def opens_probe_def simp del: upto.simps split: if_splits)
  qed
qed

lemma probe_port_frame: "port_predictor_probe_port env ip port pb s = (r, pb', s') \<Longrightarrow> opens_probe pb pb' s s'"
proof -
  assume a: "port_predictor_probe_port env ip port pb s = (r, pb', s')"
  obtain x pb1 s1 where o1: "port_predictor_open_probe_socket env pb s = (x, pb1, s1)" by (rule prod_cases3)
  obtain d q where x: "x = (d, q)" by (rule prod.exhaust)
  have "opens_probe pb pb1 s s1" using open_probe_frame o1 x by blast
  moreover have "pb' = pb1 \<and> sk_open s' = sk_open s1"
    using a o1 x by (auto simp: port_predictor_probe_port_def now_def Let_def dest!: send_frame recv_frame
        split: if_splits prod.splits option.splits)
  ultimately show "opens_probe pb pb' s s'" by (auto simp: opens_probe_def)
qed

lemma probe_ttl_frame:
  assumes "port_predictor_probe_with_ttl env ip port ttl s = (r, s')"
  shows "sk_open s' = sk_open s"
proof -
  obtain d s1 where o1: "open_socket env s = (d, s1)" by (rule prod.exhaust)
  obtain b s2 where a2: "ask env s1 = (b, s2)" by (rule prod.exhaust)
  note f = open_frame [OF o1] ask_frame [OF a2]
  show ?thesis using assms o1 a2 f
    by (auto simp: port_predictor_probe_with_ttl_def Let_def dest!: send_frame recv_frame split: if_splits prod.splits option.splits)
qed

lemma observe_port_frame: "observe_port env ip port i pred pb s = (pred', pb', s') \<Longrightarrow> opens_probe pb pb' s s'"
  by (auto simp: observe_port_def now_def dest!: probe_port_frame probe_ttl_frame split: prod.splits if_splits)
    (auto simp: opens_probe_def)

lemma observe_loop_frame: "observe_loop env ip port is pred pb s = (pred', pb', s') \<Longrightarrow> opens_probe pb pb' s s'"
proof (induction "is" arbitrary: pred pb s)
  case (Cons i "is")
  obtain p1 pb1 s1 where o1: "observe_port env ip port i pred pb s = (p1, pb1, s1)" by (rule prod_cases3)
  then have "observe_loop env ip port is p1 pb1 s1 = (pred', pb', s')" using Cons.prems by simp
  from opens_probe_trans [OF observe_port_frame [OF o1] Cons.IH [OF this]] show ?case .
qed (simp add: opens_probe_same)


lemma range_scan_frame: "range_scan env ip d ports s = (r, s') \<Longrightarrow> sk_open s' = sk_open s"
proof (induction ports arbitrary: s)
  case (Cons q ports)
  obtain b s1 where t: "send_to env d (Some (sock_addr ip q)) (string_bytes (snprintf_into 32 (''ORCA_RANGE_'' @ dec_int q))) s = (b, s1)"
    by (rule prod.exhaust)
  obtain x s2 where x: "recv_from env 255 s1 = (x, s2)" by (rule prod.exhaust)
  note f = send_frame [OF t] recv_frame [OF x]
  show ?case
  proof (cases "sk_open s' = sk_open s2")
    case True
    then show ?thesis using f by simp
  next
    case False
    then have "range_scan env ip d ports s2 = (r, s')" using Cons.prems t x by (auto simp: Let_def split: option.splits if_splits)
    from Cons.IH [OF this] show ?thesis using f by simp
  qed
qed simp

lemma scan_range_frame:
  assumes "scan_range env st ip port pb s = ((rc, p), pb', s')"
  shows "opens_probe pb pb' s s' \<and> (\<exists>st'. p = Some st' \<and> ps_udp_socket st' = ps_udp_socket st)"
proof -
  obtain x pb1 s1 where o1: "port_predictor_open_probe_socket env pb s = (x, pb1, s1)" by (rule prod_cases3)
  obtain d q where x: "x = (d, q)" by (rule prod.exhaust)
  obtain f s2 where r: "range_scan env ip d (port_window port) s1 = (f, s2)" by (rule prod.exhaust)
  have o: "opens_probe pb pb1 s s1" using open_probe_frame o1 x by blast
  have "pb' = pb1 \<and> sk_open s' = sk_open s1 \<and> (\<exists>st'. p = Some st' \<and> ps_udp_socket st' = ps_udp_socket st)"
    using assms o1 x r range_scan_frame [OF r]
    by (auto simp: scan_range_def port_predict_range_def split: if_splits option.splits)
  then show ?thesis using o by (auto simp: opens_probe_def)
qed

lemma punch_port_frame: "punch_port env st ip port n s = (r, s') \<Longrightarrow> sk_open s' = sk_open s"
proof (induction n arbitrary: s)
  case (Suc n)
  obtain rc s1 where t: "punch_send env (Some st) (Some ip) port s = (rc, s1)" by (rule prod.exhaust)
  obtain x s2 where x: "punch_listen env (Some st) s1 = (x, s2)" by (rule prod.exhaust)
  note f = punch_send_frame [OF t] punch_listen_frame [OF x]
  show ?case
  proof (cases "sk_open s' = sk_open s2")
    case True
    then show ?thesis using f by simp
  next
    case False
    then have "punch_port env st ip port n (if rc = 0 then s2 else s1) = (r, s')"
      using Suc.prems t x by (cases "rc = 0"; cases x) auto
    from Suc.IH [OF this] show ?thesis using f by (auto split: if_splits)
  qed
qed simp

lemma punch_ports_frame: "punch_ports env st ip ports s = (r, s') \<Longrightarrow> sk_open s' = sk_open s"
proof (induction ports arbitrary: s)
  case (Cons q ports)
  obtain x s1 where x: "punch_port env st ip q 2 s = (x, s1)" by (rule prod.exhaust)
  note f = punch_port_frame [OF x]
  show ?case
  proof (cases x)
    case None
    then have "punch_ports env st ip ports s1 = (r, s')" using Cons.prems x by simp
    from Cons.IH [OF this] show ?thesis using f by simp
  qed (use Cons.prems x f in simp)
qed simp

lemma predictor_punch_frame:
  assumes "port_predictor_punch env (Some st) (Some ip) port pb s = Some ((rc, p), pb', s')"
  shows "opens_probe pb pb' s s' \<and> (\<exists>st'. p = Some st' \<and> ps_udp_socket st' = ps_udp_socket st)"
proof -
  have "length ip < 16"
    using assms by (auto simp: port_predictor_punch_def port_predictor_init_def split: Option.bind_splits)
  then have ip: "strcpy_into 16 ip = Some ip" by simp
  obtain pred pb1 s1 where ob: "observe_loop env ip port [0..<6] (Some (new_predictor ip port)) pb s = (pred, pb1, s1)" by (rule prod_cases3)
  note o = observe_loop_frame [OF ob]
  obtain t s2 where t: "now env s1 = (t, s2)" by (rule prod.exhaust)
  obtain r0 s3 where r0: "draw env s2 = (r0, s3)" by (rule prod.exhaust)
  obtain r1 s4 where r1: "draw env s3 = (r1, s4)" by (rule prod.exhaust)
  have s4: "sk_open s4 = sk_open s1" using t r0 r1 by (auto simp: now_def draw_def)
  obtain pd pr where pd: "port_predictor_predict t (\<lambda>k. if k = 0 then r0 else r1) pred = (pd, pr)" by (rule prod.exhaust)
  obtain x s5 where x: "punch_port env st ip pd 3 s4 = (x, s5)" by (rule prod.exhaust)
  obtain y s6 where y: "punch_ports env st ip (filter (\<lambda>q. q \<noteq> pd) (port_window pd)) s5 = (y, s6)" by (rule prod.exhaust)
  note f = punch_port_frame [OF x] punch_ports_frame [OF y] s4
  note unfold = port_predictor_punch_def port_predictor_init_def ip ob t r0 r1 pd x y
  consider "scan_range env st ip port pb1 s1 = ((rc, p), pb', s')" | "scan_range env st ip port pb1 s4 = ((rc, p), pb', s')"
    | "pb' = pb1" "sk_open s' = sk_open s1" "\<exists>st'. p = Some st' \<and> ps_udp_socket st' = ps_udp_socket st"
  proof (cases "pp_count (the pred) < 3")
    case True
    then show ?thesis using assms that(1) by (simp add: unfold del: upt_Suc)
  next
    case c: False
    show ?thesis
    proof (cases "pd < 0")
      case True
      then show ?thesis using assms that(2) c by (simp add: unfold del: upt_Suc)
    next
      case False
      then show ?thesis using assms that(3) c f
        by (cases x; cases y) (auto simp: unfold found_peer_def simp del: upt_Suc)
    qed
  qed
  then show ?thesis
  proof cases
    case 1
    then show ?thesis using scan_range_frame [OF 1] opens_probe_trans [OF o] by blast
  next
    case 2
    have "opens_probe pb pb1 s s4" using o s4 by (simp add: opens_probe_def)
    then show ?thesis using scan_range_frame [OF 2] opens_probe_trans by blast
  next
    case 3
    then show ?thesis using o by (simp add: opens_probe_def)
  qed
qed

interpretation prediction_punch: socket_technique "punch_try_port_prediction env (Some ip) port" leaves_probe for env ip port
proof
  fix st d s ds pb rc p pb' s'
  assume a: "ps_udp_socket st = d" "0 \<le> d" "sk_open s = d # ds" "punch_try_port_prediction env (Some ip) port (Some st) pb s = Some (rc, p, pb', s')"
  have "port_predictor_punch env (Some (st\<lparr>ps_last_technique := PUNCH_TECH_PORT_PREDICTION\<rparr>)) (Some ip) port pb s = Some ((rc, p), pb', s')"
    using a(4) by (auto simp: punch_try_port_prediction_def split: Option.bind_splits)
  from predictor_punch_frame [OF this]
  show "\<exists>st'. p = Some st' \<and> 0 \<le> ps_udp_socket st' \<and> ps_udp_socket st' \<in> set (sk_open s')
      \<and> remove1 (ps_udp_socket st') (sk_open s') = leaves_probe d rc pb pb' @ ds"
    using a(1-3) by (auto simp: leaves_probe_def opens_probe_def)
qed

section \<open>The run\<close>

lemma without_probe_keeps: "without_probe f p pb s = Some (rc, p', pb', s') \<Longrightarrow> pb' = pb"
  by (auto simp: without_probe_def split: prod.splits)

lemma sim_keeps_probe: "punch_try_simultaneous env ip port p pb s = Some (rc, p', pb', s') \<Longrightarrow> pb' = pb"
  by (auto simp: punch_try_simultaneous_def split: option.splits Option.bind_splits)

definition sim_won :: "PunchResult list \<Rightarrow> bool" where
  "sim_won results \<longleftrightarrow> (\<exists>r \<in> set results. pr_tech r = PUNCH_TECH_SIMULTANEOUS \<and> pr_result r = 0)"

lemma udp_stage:
  assumes "attempt_technique env tech port stack (without_probe (\<lambda>p. punch_try_connect env p (Some ip) port')) results pb s = Some (results', pb', s')"
    and "tech \<noteq> PUNCH_TECH_SIMULTANEOUS"
  shows "pb' = pb \<and> sk_open s' = sk_open s \<and> (sim_won results' \<longleftrightarrow> sim_won results)"
  using udp_punch.attempt_leaves [OF assms(1)] attempt_probe [OF assms(1) without_probe_keeps] assms(2)
  by (auto simp: leaves_none_def sim_won_def)

lemma ttl_stage:
  assumes "attempt_technique env tech port stack (without_probe (\<lambda>p. punch_try_ttl env p (Some ip) port')) results pb s = Some (results', pb', s')"
    and "tech \<noteq> PUNCH_TECH_SIMULTANEOUS"
  shows "pb' = pb \<and> sk_open s' = sk_open s \<and> (sim_won results' \<longleftrightarrow> sim_won results)"
  using ttl_punch.attempt_leaves [OF assms(1)] attempt_probe [OF assms(1) without_probe_keeps] assms(2)
  by (auto simp: leaves_none_def sim_won_def)

lemma sim_stage:
  assumes "attempt_technique env PUNCH_TECH_SIMULTANEOUS port stack (punch_try_simultaneous env (Some ip) port') results pb s
      = Some (results', pb', s')" and "\<not> sim_won results"
  shows "pb' = pb \<and> sk_open s' = (if sim_won results' then [fst (open_socket env s)] else []) @ sk_open s"
  using sim_punch.attempt_leaves [OF assms(1)] attempt_probe [OF assms(1) sim_keeps_probe] assms(2)
  by (auto simp: leaves_own_def sim_won_def)

lemma prediction_stage:
  assumes "attempt_technique env PUNCH_TECH_PORT_PREDICTION port stack (punch_try_port_prediction env (Some ip) port') results pb s
      = Some (results', pb', s')"
  shows "sk_open s' = (if pb_socket pb < 0 \<and> 0 \<le> pb_socket pb' then [pb_socket pb'] else []) @ sk_open s
    \<and> (sim_won results' \<longleftrightarrow> sim_won results)"
  using prediction_punch.attempt_leaves [OF assms] by (auto simp: leaves_probe_def sim_won_def)

text \<open>The first two techniques of a run, up to the simultaneous open.\<close>

definition first_techniques ::
    "net_env \<Rightarrow> (PunchTechnique \<Rightarrow> PunchState) \<Rightarrow> string \<Rightarrow> int \<Rightarrow> int \<Rightarrow> int \<Rightarrow> probe \<Rightarrow> sockets
      \<Rightarrow> (PunchResult list \<times> probe \<times> sockets) option" where
  "first_techniques env stack ip port l r pb s = do {
     (results, pb, s) \<leftarrow> (if \<not> (l = 4 \<and> r = 4)
       then attempt_technique env PUNCH_TECH_UDP PUNCH_PORT (stack PUNCH_TECH_UDP)
              (without_probe (\<lambda>p. punch_try_connect env p (Some ip) port)) [] pb s
       else Some ([], pb, s));
     attempt_technique env PUNCH_TECH_TTL (PUNCH_PORT + 1) (stack PUNCH_TECH_TTL)
       (without_probe (\<lambda>p. punch_try_ttl env p (Some ip) port)) results pb s }"

text \<open>
  C33: a run over the techniques closes every socket it opens but two: the UDP socket that was opened
  for the simultaneous open, if that succeeded (its place was taken by the socket of the
  session, which is closed instead), and the probe socket of the port prediction, if the run opened it.
\<close>

theorem punch_run_leaks:
  assumes "run_techniques env stack ip port l r pb s = Some (results, pb', s')"
  shows "\<exists>r2 pb2 s2. first_techniques env stack ip port l r pb s = Some (r2, pb2, s2)
    \<and> sk_open s' = (if pb_socket pb < 0 \<and> 0 \<le> pb_socket pb' then [pb_socket pb'] else [])
        @ (if sim_won results then [fst (open_socket env s2)] else []) @ sk_open s"
proof -
  obtain r1 pb1 s1 where u: "(if \<not> (l = 4 \<and> r = 4)
      then attempt_technique env PUNCH_TECH_UDP PUNCH_PORT (stack PUNCH_TECH_UDP)
             (without_probe (\<lambda>p. punch_try_connect env p (Some ip) port)) [] pb s
      else Some ([], pb, s)) = Some (r1, pb1, s1)"
    using assms by (auto simp: run_techniques_def split: Option.bind_splits)
  obtain r2 pb2 s2 where t: "attempt_technique env PUNCH_TECH_TTL (PUNCH_PORT + 1) (stack PUNCH_TECH_TTL)
      (without_probe (\<lambda>p. punch_try_ttl env p (Some ip) port)) r1 pb1 s1 = Some (r2, pb2, s2)"
    using assms u by (auto simp: run_techniques_def split: Option.bind_splits)
  obtain r3 pb3 s3 where m: "attempt_technique env PUNCH_TECH_SIMULTANEOUS (PUNCH_PORT + 2) (stack PUNCH_TECH_SIMULTANEOUS)
      (punch_try_simultaneous env (Some ip) port) r2 pb2 s2 = Some (r3, pb3, s3)"
    using assms u t by (auto simp: run_techniques_def split: Option.bind_splits)
  have p: "(if l = 4 \<or> r = 4
      then attempt_technique env PUNCH_TECH_PORT_PREDICTION (PUNCH_PORT + 3) (stack PUNCH_TECH_PORT_PREDICTION)
             (punch_try_port_prediction env (Some ip) port) r3 pb3 s3
      else Some (r3, pb3, s3)) = Some (results, pb', s')"
    using assms u t m by (simp add: run_techniques_def)
  have none: "\<not> sim_won []" by (simp add: sim_won_def)
  have 1: "pb1 = pb \<and> sk_open s1 = sk_open s \<and> \<not> sim_won r1"
  proof (cases "l = 4 \<and> r = 4")
    case False
    then show ?thesis using u udp_stage none by (simp only: not_True_eq_False not_False_eq_True if_True) blast
  qed (use u none in simp)
  have 2: "pb2 = pb1 \<and> sk_open s2 = sk_open s1 \<and> \<not> sim_won r2" using ttl_stage [OF t] 1 by simp
  note 3 = sim_stage [OF m]
  have f: "first_techniques env stack ip port l r pb s = Some (r2, pb2, s2)"
    using u t by (simp add: first_techniques_def)
  have "sk_open s' = (if pb_socket pb < 0 \<and> 0 \<le> pb_socket pb' then [pb_socket pb'] else [])
        @ (if sim_won results then [fst (open_socket env s2)] else []) @ sk_open s"
  proof (cases "l = 4 \<or> r = 4")
    case True
    then have "attempt_technique env PUNCH_TECH_PORT_PREDICTION (PUNCH_PORT + 3) (stack PUNCH_TECH_PORT_PREDICTION)
        (punch_try_port_prediction env (Some ip) port) r3 pb3 s3 = Some (results, pb', s')" using p by simp
    from prediction_stage [OF this] show ?thesis using 1 2 3 by simp
  next
    case False
    then show ?thesis using p 1 2 3 by auto
  qed
  with f show ?thesis by blast
qed

end
