(* ===== verification/Upnp_Properties.thy ===== *)
theory Upnp_Properties
  imports Upnp_Client
begin

text \<open>
  What the parser of a gateway's answer finds, which headers it cannot see, and how the client
  behaves under any sequence of its operations.
\<close>

section \<open>Searching texts\<close>

lemma is_prefix_take: "is_prefix l s \<longleftrightarrow> take (length l) s = l"
  by (induction l s rule: is_prefix.induct) auto

lemma is_prefix_append: "is_prefix l xs \<Longrightarrow> is_prefix l (xs @ ys)"
  by (induction l xs rule: is_prefix.induct) auto

lemma contains_Nil [simp]: "contains s []"
  by (cases s) auto

lemma contains_append: "contains xs l \<Longrightarrow> contains (xs @ ys) l"
proof (induction xs)
  case (Cons c xs)
  then show ?case using is_prefix_append [of l "c # xs" ys] by auto
qed simp

lemma strstr_first:
  "\<not> contains (pre @ butlast p) p \<Longrightarrow> p \<noteq> [] \<Longrightarrow> strstr_at (pre @ p @ rest) p = Some (p @ rest)"
proof (induction pre)
  case Nil
  then show ?case by (cases p) (auto simp: is_prefix_take)
next
  case (Cons c pre)
  have "take (length p) (c # pre @ p @ rest) = take (length p) (c # pre @ butlast p)"
    using Cons.prems(2) by (cases p rule: rev_cases) (auto simp: take_Cons' take_append)
  then have "\<not> is_prefix p (c # pre @ p @ rest)" using Cons.prems(1) by (simp add: is_prefix_take)
  then show ?case using Cons by simp
qed

lemma skip_blanks_line: "skip_blanks (line @ cr # rest) = skip_blanks line @ cr # rest"
  by (simp add: skip_blanks_def dropWhile_append)

lemma set_skip_blanks: "set (skip_blanks s) \<subseteq> set s"
  by (auto simp: skip_blanks_def dest: set_dropWhileD)

lemma length_skip_blanks: "length (skip_blanks s) \<le> length s"
  by (simp add: skip_blanks_def length_dropWhile_le)

section \<open>The parser\<close>

text \<open>The answer up to a first location header that ends with a carriage return.\<close>

lemma parse_at_location:
  fixes pre line
  defines "b \<equiv> pre @ ''LOCATION:'' @ line"
  assumes "\<not> contains (pre @ ''LOCATION'') ''LOCATION:''" and "cr \<notin> set line" and "contains pre ''HTTP/1.1 200 OK''" and "0 < len"
  shows "upnp_parse_response t (b @ cr # rest) len gi = (case strstr_at (skip_blanks line) ''http://'' of
      None \<Rightarrow> (-1, gi)
    | Some url \<Rightarrow> (0, (parse_usn b (parse_server b (gi\<lparr>gw_lan_ip := url_host (drop 7 url)\<rparr>)))\<lparr>gw_valid := True, gw_discovered_at := t\<rparr>))"
proof -
  have ok: "contains (b @ cr # rest) ''HTTP/1.1 200 OK''"
    unfolding b_def append_assoc by (rule contains_append [OF assms(4)])
  have "strstr_at (pre @ ''LOCATION:'' @ (line @ cr # rest)) ''LOCATION:'' = Some (''LOCATION:'' @ (line @ cr # rest))"
    by (rule strstr_first) (use assms(2) in simp_all)
  then have pos: "strstr_either (b @ cr # rest) ''LOCATION:'' ''Location:'' = Some (''LOCATION:'' @ (line @ cr # rest))"
    by (simp add: strstr_either_def b_def)
  have "cr \<notin> set (skip_blanks line)" using assms(3) set_skip_blanks by auto
  then have line: "to_line_end (skip_blanks line @ cr # rest) = Some (skip_blanks line)"
    by (simp add: to_line_end_def takeWhile_tail) (metis append_Nil2 takeWhile.simps(2) takeWhile_append2)
  have "length (b @ cr # rest) - length (skip_blanks line @ cr # rest) + length (skip_blanks line) = length b"
    using length_skip_blanks [of line] by (simp add: b_def)
  then have "take (length (b @ cr # rest) - length (skip_blanks line @ cr # rest) + length (skip_blanks line)) (b @ cr # rest) = b"
    by simp
  then show ?thesis
    using assms(5) ok by (simp add: upnp_parse_response_def pos skip_blanks_line line Let_def split: option.split)
qed

text \<open>A URL with a host of at most 15 characters, closed by a colon or a slash.\<close>

lemma url_host_prefix:
  assumes "CHR '':'' \<notin> set host" and "CHR ''/'' \<notin> set host" and "length host < 16" and "sep = CHR '':'' \<or> sep = CHR ''/''"
  shows "url_host (host @ sep # tail) = host"
proof -
  have "takeWhile (\<lambda>c. c \<noteq> x) (host @ r) = host @ takeWhile (\<lambda>c. c \<noteq> x) r" if "x \<notin> set host" for x r
    using that by (intro takeWhile_append2) auto
  then show ?thesis using assms by (auto simp: url_host_def Let_def)
qed

text \<open>
  From an answer with a location \<open>http://host:\<dots>\<close> or \<open>http://host/\<dots>\<close> the client takes the
  host as the address of the gateway.
\<close>

theorem gateway_host_found:
  assumes "\<not> contains (pre @ ''LOCATION'') ''LOCATION:''" and "contains pre ''HTTP/1.1 200 OK''"
    and "CHR '':'' \<notin> set host" and "CHR ''/'' \<notin> set host" and "length host < 16" and "sep = CHR '':'' \<or> sep = CHR ''/''"
    and "cr \<notin> set (host @ sep # tail)" and "0 < len"
  shows "\<exists>gi'. upnp_parse_response t (pre @ ''LOCATION: http://'' @ host @ sep # tail @ cr # rest) len gi = (0, gi')
    \<and> gw_lan_ip gi' = host \<and> gw_valid gi'"
proof -
  let ?line = "'' http://'' @ host @ sep # tail"
  have l: "skip_blanks ?line = ''http://'' @ host @ sep # tail" by (simp add: skip_blanks_def)
  have "strstr_at (skip_blanks ?line) ''http://'' = Some (''http://'' @ host @ sep # tail)" unfolding l by simp
  moreover have "url_host (drop 7 (''http://'' @ host @ sep # tail)) = host"
    using url_host_prefix [OF assms(3-6)] by simp
  moreover have "cr \<notin> set ?line" using assms(7) by simp
  moreover have "gw_lan_ip (parse_usn b (parse_server b g)) = gw_lan_ip g" for b g
    by (simp add: parse_usn_def parse_server_def split: option.split)
  ultimately show ?thesis
    using parse_at_location [OF assms(1) _ assms(2,8), of ?line t rest gi] by simp
qed

text \<open>
  The parser ends the text at the end of the location, so that no header behind it matters:
  the server and the model of a gateway that answers in another order stay empty.
\<close>

theorem headers_after_location_ignored:
  assumes "\<not> contains (pre @ ''LOCATION'') ''LOCATION:''" and "contains pre ''HTTP/1.1 200 OK''" and "cr \<notin> set line" and "0 < len"
  shows "upnp_parse_response t (pre @ ''LOCATION:'' @ line @ cr # rest) len gi = upnp_parse_response t (pre @ ''LOCATION:'' @ line @ [cr]) len gi
    \<and> (strstr_either (pre @ ''LOCATION:'' @ line) ''SERVER:'' ''Server:'' = None
        \<longrightarrow> gw_server (snd (upnp_parse_response t (pre @ ''LOCATION:'' @ line @ cr # rest) len gi)) = gw_server gi)"
proof -
  have p: "upnp_parse_response t (pre @ ''LOCATION:'' @ line @ cr # r) len gi =
      upnp_parse_response t ((pre @ ''LOCATION:'' @ line) @ cr # r) len gi" for r by simp
  note e = parse_at_location [OF assms(1,3,2,4)]
  have u: "gw_server (parse_usn b g) = gw_server g" for b g by (simp add: parse_usn_def split: option.split)
  show ?thesis unfolding p e by (auto simp: parse_server_def u split: option.split)
qed

section \<open>The client\<close>

text \<open>The texts of a gateway end inside their fields.\<close>

definition gateway_fits :: "UPnPGatewayInfo \<Rightarrow> bool" where
  "gateway_fits gi \<longleftrightarrow> length (gw_lan_ip gi) < 16 \<and> length (gw_server gi) < 128 \<and> length (gw_model gi) < 64"

definition upnp_ok :: "upnp \<Rightarrow> bool" where
  "upnp_ok u \<longleftrightarrow> gateway_fits (g_gateway u) \<and> (g_upnp_available u \<longrightarrow> gw_valid (g_gateway u)) \<and> g_discovery_retry u \<le> UPNP_MAX_RETRY"

lemma length_url_host: "length (url_host url) < 16"
  by (simp add: url_host_def Let_def min_less_iff_disj)

lemma parse_fits:
  assumes "upnp_parse_response t buffer len gi = (rc, gi')" and "gateway_fits gi"
  shows "gateway_fits gi' \<and> (rc = 0 \<longrightarrow> gw_valid gi') \<and> (rc \<noteq> 0 \<longrightarrow> rc = -1 \<and> gi' = gi)"
proof -
  have s: "gateway_fits (parse_server b g)" if "gateway_fits g" for b g
    using that by (simp add: parse_server_def gateway_fits_def min_less_iff_disj split: option.split)
  have u: "gateway_fits (parse_usn b g)" if "gateway_fits g" for b g
    using that by (simp add: parse_usn_def gateway_fits_def min_less_iff_disj split: option.split)
  have "gateway_fits (gi\<lparr>gw_lan_ip := url_host x\<rparr>)" for x
    using assms(2) length_url_host [of x] by (simp add: gateway_fits_def)
  note su = u [OF s [OF this]]
  have f: "gateway_fits (g\<lparr>gw_valid := v, gw_discovered_at := w\<rparr>) \<longleftrightarrow> gateway_fits g" for g v w
    by (simp add: gateway_fits_def)
  show ?thesis
    using assms su by (auto simp: upnp_parse_response_def Let_def f split: if_splits option.splits)
qed

text \<open>
  What an operation keeps: the well-formedness of the client, the open sockets, and a bound on the
  datagrams sent, of which three belong to each discovery that is left.
\<close>

definition sent_within :: "upnp \<Rightarrow> sockets \<Rightarrow> int" where
  "sent_within u s = int (length (sk_sent s)) + 3 * (UPNP_MAX_RETRY - g_discovery_retry u)"

lemma detect_loop_frame:
  "detect_loop env d n u s = (found, u', s') \<Longrightarrow> upnp_ok u \<Longrightarrow>
    upnp_ok u' \<and> sk_open s' = sk_open s \<and> length (sk_sent s') \<le> length (sk_sent s) + n
    \<and> g_discovery_retry u' = g_discovery_retry u \<and> (\<not> found \<longrightarrow> u' = u) \<and> (found \<longrightarrow> g_upnp_available u')"
proof (induction n arbitrary: s)
  case (Suc n)
  obtain rc s1 where d: "upnp_send_discovery env d s = (rc, s1)" by (rule prod.exhaust)
  obtain r s2 where r: "recv_from env (UPNP_BUFFER_SIZE - 1) s1 = (r, s2)" by (rule prod.exhaust)
  have d1: "sk_open s1 = sk_open s" "length (sk_sent s1) \<le> length (sk_sent s) + 1"
    using d by (auto simp: upnp_send_discovery_def Let_def dest!: send_frame split: prod.splits)
  note f2 = recv_frame [OF r]
  have z: "gateway_fits zero_gateway" by (simp add: gateway_fits_def zero_gateway_def)
  show ?case
  proof (cases "rc < 0 \<or> r = None \<or> (\<exists>bs a. r = Some (bs, a) \<and> (bs = []
      \<or> fst (upnp_parse_response (ne_clk env (sk_calls s2)) (recv_text bs) (int (length bs)) zero_gateway) \<noteq> 0))")
    case True
    then have "detect_loop env d n u s1 = (found, u', s') \<or> detect_loop env d n u s2 = (found, u', s')"
      using Suc.prems(1) d r by (cases r) (auto simp: now_def Let_def split: if_splits prod.splits)
    then obtain s3 where s3: "s3 \<in> {s1, s2}" "detect_loop env d n u s3 = (found, u', s')" by blast
    show ?thesis using Suc.IH [OF s3(2) Suc.prems(2)] s3(1) d1 f2 by auto
  next
    case False
    then obtain bs a gi where x: "r = Some (bs, a)" "bs \<noteq> []" "\<not> rc < 0"
      "upnp_parse_response (ne_clk env (sk_calls s2)) (recv_text bs) (int (length bs)) zero_gateway = (0, gi)"
      by (cases r) (auto, metis eq_fst_iff)
    then have "found \<and> u' = u\<lparr>g_gateway := gi, g_upnp_available := True, g_discovery_time := ne_clk env (sk_calls (tick s2))\<rparr>
        \<and> s' = tick (tick s2)"
      using Suc.prems(1) d r by (auto simp: now_def Let_def)
    then show ?thesis using parse_fits [OF x(4) z] Suc.prems(2) d1 f2 by (auto simp: upnp_ok_def)
  qed
qed simp

lemma discovery_socket_frame:
  assumes "upnp_create_discovery_socket env s = (d, s')"
  shows "sk_sent s' = sk_sent s \<and> (if d < 0 then sk_open s' = sk_open s else sk_open s' = d # sk_open s)"
proof -
  obtain d1 s1 where o1: "open_socket env s = (d1, s1)" by (rule prod.exhaust)
  show ?thesis
    using assms o1 open_frame [OF o1]
    by (auto simp: upnp_create_discovery_socket_def Let_def dest!: ask_frame split: if_splits prod.splits)
qed

lemma detect_frame:
  assumes "upnp_detect env u s = (b, u', s')" and "upnp_ok u"
  shows "upnp_ok u' \<and> sk_open s' = sk_open s \<and> length (sk_sent s') \<le> length (sk_sent s) + 3
    \<and> g_discovery_retry u' = g_discovery_retry u"
proof -
  obtain d s1 where c: "upnp_create_discovery_socket env s = (d, s1)" by (rule prod.exhaust)
  obtain found u2 s2 where l: "detect_loop env d 3 u s1 = (found, u2, s2)" by (rule prod_cases3)
  show ?thesis
    using assms c l discovery_socket_frame [OF c] detect_loop_frame [OF l assms(2)]
    by (auto simp: upnp_detect_def upnp_ok_def split: if_splits)
qed

lemma available_frame:
  assumes "upnp_available env u s = (b, u', s')" and "upnp_ok u"
  shows "upnp_ok u' \<and> sk_open s' = sk_open s \<and> sent_within u' s' \<le> sent_within u s"
proof (cases "\<not> g_upnp_available u \<and> g_discovery_retry u < UPNP_MAX_RETRY")
  case True
  then have "upnp_ok (u\<lparr>g_discovery_retry := g_discovery_retry u + 1\<rparr>)" using assms(2) by (simp add: upnp_ok_def)
  moreover have "upnp_detect env (u\<lparr>g_discovery_retry := g_discovery_retry u + 1\<rparr>) s = (b, u', s')"
    using assms(1) True by (simp add: upnp_available_def)
  ultimately show ?thesis using detect_frame [of env _ s b u' s'] by (fastforce simp: sent_within_def)
next
  case False
  then show ?thesis using assms by (auto simp: upnp_available_def split: if_splits)
qed

text \<open>The operations of the interface that do not ask for a new detection.\<close>

inductive upnp_step :: "upnp \<times> sockets \<Rightarrow> upnp \<times> sockets \<Rightarrow> bool" where
  "upnp_available env u s = (b, u', s') \<Longrightarrow> upnp_step (u, s) (u', s')"
| "upnp_add_port_mapping_with_desc env i e p d u s = (r, u', s') \<Longrightarrow> upnp_step (u, s) (u', s')"
| "upnp_remove_port_mapping env e p u s = (r, u', s') \<Longrightarrow> upnp_step (u, s) (u', s')"
| "upnp_get_external_ip env out n u s = (x, u', s') \<Longrightarrow> upnp_step (u, s) (u', s')"
| "upnp_get_external_port env i p u s = (r, u', s') \<Longrightarrow> upnp_step (u, s) (u', s')"
| "upnp_get_gateway_info env out u s = (y, u', s') \<Longrightarrow> upnp_step (u, s) (u', s')"
| "upnp_refresh_port_mapping env e p u s = (r, u', s') \<Longrightarrow> upnp_step (u, s) (u', s')"
| "upnp_list_mappings env out m u s = (r, u', s') \<Longrightarrow> upnp_step (u, s) (u', s')"

lemma upnp_step_available:
  "upnp_step (u, s) (u', s') \<Longrightarrow> (u', s') = (u, s) \<or> (\<exists>env b. upnp_available env u s = (b, u', s'))"
  by (erule upnp_step.cases)
    (auto simp: upnp_add_port_mapping_with_desc_def upnp_remove_port_mapping_def upnp_get_external_ip_def
      upnp_get_external_port_def upnp_get_gateway_info_def upnp_refresh_port_mapping_def upnp_list_mappings_def
      split: if_splits prod.splits)

text \<open>
  A use of the client: calls of these operations and, counted by the number, calls of
  \<open>upnp_detect\<close> itself, which \<open>p2p_manager.c\<close> makes directly and which no counter holds back.
\<close>

inductive upnp_run :: "nat \<Rightarrow> upnp \<times> sockets \<Rightarrow> upnp \<times> sockets \<Rightarrow> bool" where
  upnp_start: "upnp_run 0 y y"
| upnp_call: "upnp_run k y z \<Longrightarrow> upnp_step z w \<Longrightarrow> upnp_run k y w"
| upnp_search: "upnp_run k y (u, s) \<Longrightarrow> upnp_detect env u s = (b, u', s') \<Longrightarrow> upnp_run (Suc k) y (u', s')"

lemma upnp_run_bound:
  assumes "upnp_run k y z" and "y = (fresh_upnp, s)"
  shows "upnp_ok (fst z) \<and> sk_open (snd z) = sk_open s
    \<and> sent_within (fst z) (snd z) \<le> sent_within fresh_upnp s + 3 * int k"
  using assms
proof (induction rule: upnp_run.induct)
  case (upnp_start y)
  then show ?case by (simp add: upnp_ok_def gateway_fits_def fresh_upnp_def zero_gateway_def UPNP_MAX_RETRY_def)
next
  case (upnp_call k y z w)
  obtain u1 s1 u2 s2 where zw: "z = (u1, s1)" "w = (u2, s2)" by (metis prod.exhaust)
  from upnp_step_available [of u1 s1 u2 s2] upnp_call(2) zw show ?case
    using upnp_call.IH [OF upnp_call.prems] available_frame by fastforce
next
  case (upnp_search k y u s1 env b u' s')
  then have "upnp_ok u" by simp
  from detect_frame [OF upnp_search(2) this] upnp_search.IH [OF upnp_search.prems] show ?case
    by (simp add: sent_within_def)
qed

text \<open>
  C37: from the start on, whatever operations are called and whatever answers arrive, the fields of
  the gateway stay inside their arrays, a client that is available has a valid gateway, and no socket
  is left open.  The datagrams sent are at most three for each direct call of \<open>upnp_detect\<close> and
  three for each of the three detections that the other operations start between them: once these
  are used up, only direct calls send anything.
\<close>

theorem upnp_invariant:
  assumes "upnp_run k (fresh_upnp, s) (u, s')"
  shows "upnp_ok u \<and> sk_open s' = sk_open s
    \<and> length (sk_sent s') + 3 * nat (UPNP_MAX_RETRY - g_discovery_retry u) \<le> length (sk_sent s) + 9 + 3 * k"
  using upnp_run_bound [OF assms refl]
  by (simp add: sent_within_def fresh_upnp_def UPNP_MAX_RETRY_def upnp_ok_def) linarith

end
