(* ===== verification/Runner_Properties.thy ===== *)
theory Runner_Properties
  imports Parallel_Runner Multi_Properties Upnp_Properties
begin

text \<open>
  The contract of an executor, and what a parallel run does with the tasks of its strategies.
\<close>

section \<open>Executors\<close>

text \<open>
  A step leaves \<open>n\<close> sockets open in addition to those before it and to the probe socket, which
  stays once it is there.
\<close>

definition keeps_sockets :: "nat \<Rightarrow> runner \<Rightarrow> runner \<Rightarrow> bool" where
  "keeps_sockets n rn rn' \<longleftrightarrow>
     length (sk_open (rn_net rn')) = length (sk_open (rn_net rn)) + n
       + (if pb_socket (rn_probe rn) < 0 \<and> 0 \<le> pb_socket (rn_probe rn') then 1 else 0)
     \<and> (0 \<le> pb_socket (rn_probe rn) \<longrightarrow> rn_probe rn' = rn_probe rn)"

lemma keeps_sockets_trans: "keeps_sockets n rn rn' \<Longrightarrow> keeps_sockets m rn' rn'' \<Longrightarrow> keeps_sockets (n + m) rn rn''"
  by (auto simp: keeps_sockets_def split: if_splits)

lemma keeps_sockets_same: "sk_open (rn_net rn') = sk_open (rn_net rn) \<Longrightarrow> rn_probe rn' = rn_probe rn \<Longrightarrow> keeps_sockets 0 rn rn'"
  by (simp add: keeps_sockets_def)

text \<open>
  The contract: a failure is reported with an error code, provided \<open>errno\<close> is set when a call
  fails; the name of the strategy and the task table are left alone; a success holds \<open>held\<close>
  sockets and a failure none.
\<close>

locale strategy_executor =
  fixes e :: executor and held :: nat
  assumes reports: "e env peer r rn = Some (ret, r', rn') \<Longrightarrow> (\<And>k. re_errno env k \<noteq> 0) \<Longrightarrow> ret \<noteq> 0 \<Longrightarrow> cr_error_code r' \<noteq> 0"
    and frame: "e env peer r rn = Some (ret, r', rn') \<Longrightarrow> upnp_ok (rn_upnp rn) \<Longrightarrow>
      upnp_ok (rn_upnp rn') \<and> rn_task_count rn' = rn_task_count rn \<and> cr_strategy r' = cr_strategy r
      \<and> keeps_sockets (if ret = 0 then held else 0) rn rn'"
begin

lemma thread:
  assumes "get_executor (tk_strategy task) = Some e" and "task_thread env peer task rn = Some (task', rn')"
    and "upnp_ok (rn_upnp rn)"
  shows "\<exists>r. tk_result task' = Some r \<and> tk_strategy task' = tk_strategy task \<and> cr_strategy r = tk_strategy task
    \<and> ((\<forall>k. re_errno env k \<noteq> 0) \<longrightarrow> is_done r) \<and> upnp_ok (rn_upnp rn') \<and> rn_task_count rn' = rn_task_count rn
    \<and> keeps_sockets (if cr_success r then held else 0) rn rn'"
proof -
  obtain t0 s0 where n: "now (re_net env) (rn_net rn) = (t0, s0)" by (rule prod.exhaust)
  obtain r0 ret r1 rn1 where r0: "tk_result task = Some r0"
    and x: "e env peer (r0\<lparr>cr_start_time := t0, cr_strategy := tk_strategy task\<rparr>) (rn\<lparr>rn_net := s0\<rparr>) = Some (ret, r1, rn1)"
    using assms(1,2) n by (auto simp: task_thread_def split: Option.bind_splits)
  have s0: "sk_open s0 = sk_open (rn_net rn)" using n by (auto simp: now_def)
  obtain t1 s1 where n1: "now (re_net env) (rn_net rn1) = (t1, s1)" by (rule prod.exhaust)
  have s1: "sk_open s1 = sk_open (rn_net rn1)" using n1 by (auto simp: now_def)
  have fin: "task' = task\<lparr>tk_result := Some (r1\<lparr>cr_success := (ret = 0), cr_end_time := t1, cr_elapsed_ms := c_int ((t1 - t0) * 1000)\<rparr>)\<rparr>"
    "rn' = rn1\<lparr>rn_net := s1\<rparr>"
    using assms(1,2) n r0 x n1 by (auto simp: task_thread_def)
  have f: "upnp_ok (rn_upnp rn1) \<and> rn_task_count rn1 = rn_task_count rn \<and> cr_strategy r1 = tk_strategy task
      \<and> keeps_sockets (if ret = 0 then held else 0) (rn\<lparr>rn_net := s0\<rparr>) rn1"
    using frame [OF x] assms(3) by simp
  then have "keeps_sockets (if ret = 0 then held else 0) rn rn'" using s0 s1 fin(2) by (simp add: keeps_sockets_def)
  moreover have "(\<forall>k. re_errno env k \<noteq> 0) \<longrightarrow> ret = 0 \<or> cr_error_code r1 \<noteq> 0" using reports [OF x] by blast
  ultimately show ?thesis using f fin by (auto simp: is_done_def)
qed

end

interpretation ipv6_direct: strategy_executor execute_ipv6_direct "Suc 0"
proof
  fix env peer r rn ret r' rn'
  assume x: "execute_ipv6_direct env peer r rn = Some (ret, r', rn')"
  {
    assume "\<And>k. re_errno env k \<noteq> 0" "ret \<noteq> 0"
    then show "cr_error_code r' \<noteq> 0"
      using x by (auto simp: execute_ipv6_direct_def fail_with_def Let_def split: if_splits prod.splits option.splits)
  next
    assume "upnp_ok (rn_upnp rn)"
    obtain d s1 where o1: "open_socket (re_net env) (rn_net rn) = (d, s1)" by (rule prod.exhaust)
    obtain b s2 where a2: "ask (re_net env) s1 = (b, s2)" by (rule prod.exhaust)
    show "upnp_ok (rn_upnp rn') \<and> rn_task_count rn' = rn_task_count rn \<and> cr_strategy r' = cr_strategy r
        \<and> keeps_sockets (if ret = 0 then Suc 0 else 0) rn rn'"
      using x o1 a2 open_frame [OF o1] ask_frame [OF a2] \<open>upnp_ok (rn_upnp rn)\<close>
      by (auto simp: execute_ipv6_direct_def fail_with_def keeps_sockets_def Let_def split: if_splits option.splits)
  }
qed

interpretation upnp_strategy: strategy_executor execute_upnp 0
proof
  fix env peer r rn ret r' rn'
  assume x: "execute_upnp env peer r rn = Some (ret, r', rn')"
  {
    assume "\<And>k. re_errno env k \<noteq> 0" "ret \<noteq> 0"
    then show "cr_error_code r' \<noteq> 0"
      using x by (auto simp: execute_upnp_def fail_with_def Let_def split: if_splits prod.splits Option.bind_splits)
  next
    assume ok: "upnp_ok (rn_upnp rn)"
    obtain port u s where m: "upnp_add_port_mapping (re_net env) (P2PPeer.pp_port peer) (rn_upnp rn) (rn_net rn) = (port, u, s)"
      by (rule prod_cases3)
    obtain b where "upnp_available (re_net env) (rn_upnp rn) (rn_net rn) = (b, u, s)"
      using m by (auto simp: upnp_add_port_mapping_def upnp_add_port_mapping_with_desc_def split: prod.splits if_splits)
    from available_frame [OF this ok]
    show "upnp_ok (rn_upnp rn') \<and> rn_task_count rn' = rn_task_count rn \<and> cr_strategy r' = cr_strategy r
        \<and> keeps_sockets (if ret = 0 then 0 else 0) rn rn'"
      using x m by (auto simp: execute_upnp_def fail_with_def keeps_sockets_def Let_def split: if_splits Option.bind_splits)
  }
qed

interpretation tcp_strategy: strategy_executor execute_tcp_punch 0
  by unfold_locales (auto simp: execute_tcp_punch_def fail_with_def keeps_sockets_def)

interpretation relay_strategy: strategy_executor execute_friend_relay 0
  by unfold_locales (auto simp: execute_friend_relay_def fail_with_def keeps_sockets_def)

interpretation turn_strategy: strategy_executor execute_turn_relay 0
  by unfold_locales (auto simp: execute_turn_relay_def fail_with_def keeps_sockets_def)

interpretation manual_strategy: strategy_executor execute_manual_port 0
  by unfold_locales (auto simp: execute_manual_port_def fail_with_def keeps_sockets_def)

text \<open>The punching executors satisfy the contract because their techniques satisfy theirs.\<close>

lemma execute_punch_contract:
  assumes T: "\<And>env ip q. socket_technique (f env ip q) extra"
    and E: "\<And>env ip q st pb s rc p' pb' s' d. f env ip q (Some st) pb s = Some (rc, p', pb', s') \<Longrightarrow>
      length (extra d rc pb pb') = (if rc = 0 then n else 0) + (if pb_socket pb < 0 \<and> 0 \<le> pb_socket pb' then 1 else 0)
      \<and> (0 \<le> pb_socket pb \<longrightarrow> pb' = pb)"
  shows "strategy_executor (execute_punch tech port m1 m2 f) (Suc n)"
proof
  fix env peer r rn ret r' rn'
  assume x: "execute_punch tech port m1 m2 f env peer r rn = Some (ret, r', rn')"
  show "cr_error_code r' \<noteq> 0" if "ret \<noteq> 0"
    using x that by (auto simp: execute_punch_def fail_with_def Let_def split: if_splits prod.splits Option.bind_splits)
  assume ok: "upnp_ok (rn_upnp rn)"
  obtain d s1 where o1: "open_socket (re_net env) (rn_net rn) = (d, s1)" by (rule prod.exhaust)
  obtain b s2 where a2: "ask (re_net env) s1 = (b, s2)" by (rule prod.exhaust)
  note f12 = open_frame [OF o1] ask_frame [OF a2]
  obtain rc p s3 where i: "punch_init (re_net env) (Some (re_stack env tech)) port (rn_net rn) = (rc, p, s3)" by (rule prod_cases3)
  show "upnp_ok (rn_upnp rn') \<and> rn_task_count rn' = rn_task_count rn \<and> cr_strategy r' = cr_strategy r
      \<and> keeps_sockets (if ret = 0 then Suc n else 0) rn rn'"
  proof (cases "rc < 0")
    case True
    then have "sk_open s3 = sk_open (rn_net rn)" using i o1 a2 f12 by (auto simp: punch_init_def Let_def split: if_splits)
    then show ?thesis using x i True ok by (auto simp: execute_punch_def fail_with_def keeps_sockets_def)
  next
    case False
    then obtain st where st: "p = Some st" "ps_udp_socket st = d" "0 \<le> d" "sk_open s3 = d # sk_open (rn_net rn)"
      using i o1 a2 f12 by (auto simp: punch_init_def Let_def split: if_splits)
    obtain rc2 p2 pb s4 where t: "f (re_net env) (P2PPeer.pp_ip peer) (P2PPeer.pp_port peer) (Some st) (rn_probe rn) s3 = Some (rc2, p2, pb, s4)"
      using x i False st(1) by (auto simp: execute_punch_def split: Option.bind_splits)
    obtain st' where l: "p2 = Some st'" "0 \<le> ps_udp_socket st'" "ps_udp_socket st' \<in> set (sk_open s4)"
      "remove1 (ps_udp_socket st') (sk_open s4) = extra d rc2 (rn_probe rn) pb @ sk_open (rn_net rn)"
      using socket_technique.leaves [OF T st(2-4) t] by blast
    show ?thesis
    proof (cases "rc2 = 0")
      case True
      then have "r' = r\<lparr>cr_success := True, cr_socket_fd := ps_udp_socket st', cr_peer_ip := ps_peer_ip st', cr_peer_port := ps_peer_port st'\<rparr>"
        "rn' = rn\<lparr>rn_probe := pb, rn_net := s4\<rparr>" "ret = 0"
        using x i False st(1) t l(1) by (auto simp: execute_punch_def split: Option.bind_splits)
      moreover have "length (sk_open s4) = Suc (length (remove1 (ps_udp_socket st') (sk_open s4)))"
        using l(3) length_pos_if_in_set [OF l(3)] by (simp add: length_remove1)
      ultimately show ?thesis using l(4) E [OF t, of d] ok True by (auto simp: keeps_sockets_def)
    next
      case False
      then have "r' = fail_with (-1) m2 r" "rn' = rn\<lparr>rn_probe := pb, rn_net := close_socket (ps_udp_socket st') s4\<rparr>" "ret = -1"
        using x i \<open>\<not> rc < 0\<close> st(1) t l(1,2) by (auto simp: execute_punch_def punch_close_def)
      then show ?thesis using l(4) E [OF t, of d] ok False by (auto simp: keeps_sockets_def fail_with_def)
    qed
  qed
qed

interpretation udp_strategy: strategy_executor execute_udp_punch "Suc 0"
  unfolding execute_udp_punch_def
  by (rule execute_punch_contract [OF udp_punch.socket_technique_axioms]) (auto simp: leaves_none_def dest: without_probe_keeps)

interpretation ttl_strategy: strategy_executor execute_ttl_punch "Suc 0"
  unfolding execute_ttl_punch_def
  by (rule execute_punch_contract [OF ttl_punch.socket_technique_axioms]) (auto simp: leaves_none_def dest: without_probe_keeps)

interpretation sim_strategy: strategy_executor execute_simultaneous_open "Suc 1"
  unfolding execute_simultaneous_open_def
  by (rule execute_punch_contract [OF sim_punch.socket_technique_axioms]) (auto simp: leaves_own_def dest: sim_keeps_probe)

lemma prediction_probe:
  assumes "punch_try_port_prediction env (Some ip) port (Some st) pb s = Some (rc, p, pb', s')" and "0 \<le> pb_socket pb"
  shows "pb' = pb"
proof -
  have "port_predictor_punch env (Some (st\<lparr>ps_last_technique := PUNCH_TECH_PORT_PREDICTION\<rparr>)) (Some ip) port pb s = Some ((rc, p), pb', s')"
    using assms(1) by (auto simp: punch_try_port_prediction_def split: Option.bind_splits)
  from predictor_punch_frame [OF this] show ?thesis using assms(2) by (auto simp: opens_probe_def)
qed

interpretation prediction_strategy: strategy_executor execute_port_prediction "Suc 0"
  unfolding execute_port_prediction_def
  by (rule execute_punch_contract [OF prediction_punch.socket_technique_axioms]) (auto simp: leaves_probe_def dest: prediction_probe)

section \<open>Threads\<close>

text \<open>How many sockets a success of each strategy leaves open.\<close>

definition held_by :: "StrategyType \<Rightarrow> nat" where
  "held_by t = (if t = STRATEGY_SIMULTANEOUS_OPEN then 2
     else if t \<in> {STRATEGY_IPV6_DIRECT, STRATEGY_UDP_PUNCH, STRATEGY_TTL_PUNCH, STRATEGY_PORT_PREDICTION} then 1 else 0)"

lemma known_executor:
  "get_executor t = Some e \<Longrightarrow> strategy_executor e (held_by t)"
  by (cases t)
    (auto simp: get_executor_def g_executors_def held_by_def numeral_2_eq_2
      intro: ipv6_direct.strategy_executor_axioms upnp_strategy.strategy_executor_axioms udp_strategy.strategy_executor_axioms
        ttl_strategy.strategy_executor_axioms sim_strategy.strategy_executor_axioms [simplified] prediction_strategy.strategy_executor_axioms
        tcp_strategy.strategy_executor_axioms relay_strategy.strategy_executor_axioms turn_strategy.strategy_executor_axioms
        manual_strategy.strategy_executor_axioms)

lemma unknown_executor:
  assumes "get_executor (tk_strategy task) = None" and "task_thread env peer task rn = Some (task', rn')"
  shows "\<exists>r0 r. tk_result task = Some r0 \<and> tk_result task' = Some r \<and> tk_strategy task' = tk_strategy task \<and> cr_strategy r = tk_strategy task
    \<and> \<not> cr_success r \<and> cr_error_code r = cr_error_code r0 \<and> rn_upnp rn' = rn_upnp rn \<and> rn_task_count rn' = rn_task_count rn
    \<and> keeps_sockets 0 rn rn'"
  using assms by (auto simp: task_thread_def now_def keeps_sockets_def split: Option.bind_splits)

text \<open>What a finished task holds open.\<close>

definition left_open :: "TaskContext \<Rightarrow> nat" where
  "left_open task = (case tk_result task of None \<Rightarrow> 0 | Some r \<Rightarrow> if cr_success r then held_by (tk_strategy task) else 0)"

lemma thread_frame:
  assumes "task_thread env peer task rn = Some (task', rn')" and "upnp_ok (rn_upnp rn)"
  shows "tk_result task' \<noteq> None \<and> tk_strategy task' = tk_strategy task \<and> cr_strategy (the (tk_result task')) = tk_strategy task
    \<and> upnp_ok (rn_upnp rn') \<and> rn_task_count rn' = rn_task_count rn \<and> keeps_sockets (left_open task') rn rn'"
proof (cases "get_executor (tk_strategy task)")
  case None
  then show ?thesis using unknown_executor [OF None assms(1)] assms(2) by (auto simp: left_open_def)
next
  case (Some e)
  from strategy_executor.thread [OF known_executor [OF Some] Some assms]
  show ?thesis by (auto simp: left_open_def split: if_splits)
qed

lemma run_threads_frame:
  assumes "run_threads env peer order tasks rn = Some (tasks', rn')" and "distinct order" and "set order \<subseteq> {..<length tasks}"
    and "\<forall>i \<in> set order. left_open (tasks ! i) = 0" and "upnp_ok (rn_upnp rn)"
  shows "length tasks' = length tasks \<and> map tk_strategy tasks' = map tk_strategy tasks
    \<and> (\<forall>i < length tasks. if i \<in> set order then tk_result (tasks' ! i) \<noteq> None
         \<and> cr_strategy (the (tk_result (tasks' ! i))) = tk_strategy (tasks ! i) else tasks' ! i = tasks ! i)
    \<and> upnp_ok (rn_upnp rn') \<and> rn_task_count rn' = rn_task_count rn
    \<and> (\<exists>n. sum_list (map left_open tasks') = sum_list (map left_open tasks) + n \<and> keeps_sockets n rn rn')"
  using assms
proof (induction order arbitrary: tasks rn)
  case Nil
  then show ?case by (auto intro: exI [of _ 0] keeps_sockets_same)
next
  case (Cons i order)
  obtain t rn1 where t: "task_thread env peer (tasks ! i) rn = Some (t, rn1)"
    and r: "run_threads env peer order (tasks[i := t]) rn1 = Some (tasks', rn')"
    using Cons.prems(1) by (auto split: Option.bind_splits)
  note ft = thread_frame [OF t Cons.prems(5)]
  have i: "i < length tasks" "i \<notin> set order" using Cons.prems(2,3) by auto
  have z: "\<forall>j \<in> set order. left_open (tasks[i := t] ! j) = 0" using Cons.prems(4) i by (auto simp: nth_list_update)
  from Cons.IH [OF r _ _ z] ft Cons.prems(2,3)
  obtain n where IH: "length tasks' = length tasks" "map tk_strategy tasks' = (map tk_strategy tasks)[i := tk_strategy t]"
    "\<forall>j < length tasks. if j \<in> set order then tk_result (tasks' ! j) \<noteq> None
         \<and> cr_strategy (the (tk_result (tasks' ! j))) = tk_strategy (tasks[i := t] ! j) else tasks' ! j = tasks[i := t] ! j"
    "upnp_ok (rn_upnp rn')" "rn_task_count rn' = rn_task_count rn"
    "sum_list (map left_open tasks') = sum_list ((map left_open tasks)[i := left_open t]) + n" "keeps_sockets n rn1 rn'"
    by (auto simp: map_update)
  have "(map tk_strategy tasks)[i := tk_strategy t] = map tk_strategy tasks" using ft i by (simp add: list_update_same_conv)
  moreover have "sum_list ((map left_open tasks)[i := left_open t]) = sum_list (map left_open tasks) + left_open t"
    using i Cons.prems(4) by (simp add: sum_list_update)
  moreover have "keeps_sockets (left_open t + n) rn rn'" using keeps_sockets_trans IH(7) ft by blast
  moreover have "if j \<in> set (i # order) then tk_result (tasks' ! j) \<noteq> None
       \<and> cr_strategy (the (tk_result (tasks' ! j))) = tk_strategy (tasks ! j) else tasks' ! j = tasks ! j" if "j < length tasks" for j
    using IH(3)[rule_format, OF that] ft i by (cases "j = i") auto
  ultimately show ?case using IH by (auto intro!: exI [of _ "left_open t + n"])
qed

section \<open>Starting tasks\<close>

definition same_sockets :: "runner \<Rightarrow> runner \<Rightarrow> bool" where
  "same_sockets rn rn' \<longleftrightarrow> sk_open (rn_net rn') = sk_open (rn_net rn) \<and> rn_probe rn' = rn_probe rn \<and> rn_upnp rn' = rn_upnp rn"

lemma create_frame:
  "task_create env t w rn = (task, rn') \<Longrightarrow> same_sockets rn rn' \<and> rn_task_count rn' = rn_task_count rn
    \<and> (\<forall>k. task = Some k \<longrightarrow> tk_strategy k = t \<and> tk_result k \<in> {None, Some zero_result})
    \<and> ((\<forall>k. ne_ok (re_net env) k) \<longrightarrow> (\<exists>k. task = Some k \<and> tk_result k = Some zero_result))"
  by (auto simp: task_create_def ask_def same_sockets_def split: if_splits)

lemma start_frame:
  "task_start env (Some task) rn = Some (rc, rn') \<Longrightarrow> same_sockets rn rn' \<and> rn_task_count rn < MAX_STRATEGIES
    \<and> rn_task_count rn' = rn_task_count rn + 1 \<and> ((\<forall>k. ne_ok (re_net env) k) \<longrightarrow> rc = 0)"
  by (auto simp: task_start_def ask_def same_sockets_def split: if_splits)

lemma start_tasks_frame:
  "start_tasks env ts rn = Some (tasks, rn') \<Longrightarrow> same_sockets rn rn'
    \<and> (\<forall>k \<in> set tasks. tk_strategy k \<in> set ts \<and> tk_result k \<in> {None, Some zero_result})"
proof (induction ts arbitrary: rn tasks)
  case Nil
  then show ?case by (simp add: same_sockets_def)
next
  case (Cons t ts)
  obtain task rn1 where c: "task_create env t (si_max_wait_ms (strategy_get_info t)) rn = (task, rn1)" by (rule prod.exhaust)
  note fc = create_frame [OF c]
  show ?case
  proof (cases task)
    case None
    then have "start_tasks env ts rn1 = Some (tasks, rn')" using Cons.prems c by simp
    from Cons.IH [OF this] show ?thesis using fc by (auto simp: same_sockets_def)
  next
    case (Some k)
    then obtain rc rn2 tasks2 where s: "task_start env (Some k) rn1 = Some (rc, rn2)" "start_tasks env ts rn2 = Some (tasks2, rn')"
      "tasks = (if rc = 0 then k # tasks2 else tasks2)"
      using Cons.prems c by (auto split: Option.bind_splits)
    from Cons.IH [OF s(2)] show ?thesis using fc start_frame [OF s(1)] s(3) Some by (auto simp: same_sockets_def split: if_splits)
  qed
qed

lemma started_hold_nothing: "start_tasks env ts rn = Some (tasks, rn') \<Longrightarrow> k \<in> set tasks \<Longrightarrow> left_open k = 0"
  by (drule start_tasks_frame) (auto simp: left_open_def zero_result_def)

lemma start_tasks_all:
  assumes "\<And>k. ne_ok (re_net env) k" and "rn_task_count rn \<le> MAX_STRATEGIES"
  shows "(start_tasks env ts rn = None \<longleftrightarrow> MAX_STRATEGIES < rn_task_count rn + length ts)
    \<and> (\<forall>tasks rn'. start_tasks env ts rn = Some (tasks, rn') \<longrightarrow> map tk_strategy tasks = ts
        \<and> map tk_result tasks = replicate (length ts) (Some zero_result) \<and> rn_task_count rn' = rn_task_count rn + length ts)"
  using assms(2)
proof (induction ts arbitrary: rn)
  case Nil
  then show ?case by simp
next
  case (Cons t ts)
  obtain task rn1 where c: "task_create env t (si_max_wait_ms (strategy_get_info t)) rn = (task, rn1)" by (rule prod.exhaust)
  then obtain k where k: "task = Some k" "tk_result k = Some zero_result" "tk_strategy k = t" "rn_task_count rn1 = rn_task_count rn"
    using create_frame [OF c] assms(1) by auto
  show ?case
  proof (cases "MAX_STRATEGIES \<le> rn_task_count rn")
    case True
    then show ?thesis using c k by (simp add: task_start_def)
  next
    case False
    then obtain rc rn2 where s: "task_start env (Some k) rn1 = Some (rc, rn2)"
      using k(4) by (cases "ask (re_net env) (rn_net rn1)") (auto simp: task_start_def)
    note fs = start_frame [OF s]
    have "rc = 0" using fs assms(1) by blast
    then have e: "start_tasks env (t # ts) rn = map_option (\<lambda>(tasks, rn'). (k # tasks, rn')) (start_tasks env ts rn2)"
      using c k(1) s by (simp add: map_option_case split: option.split)
    have n: "rn_task_count rn2 \<le> MAX_STRATEGIES" "rn_task_count rn2 = rn_task_count rn + 1" using fs k(4) by simp_all
    show ?thesis
    proof (cases "start_tasks env ts rn2")
      case None
      then have "MAX_STRATEGIES < rn_task_count rn2 + length ts" using Cons.IH [OF n(1)] by blast
      then show ?thesis unfolding e None using n(2) by simp
    next
      case (Some x)
      obtain tasks2 rn3 where x: "x = (tasks2, rn3)" by (rule prod.exhaust)
      have "map tk_strategy tasks2 = ts" "map tk_result tasks2 = replicate (length ts) (Some zero_result)"
        "rn_task_count rn3 = rn_task_count rn2 + length ts" "\<not> MAX_STRATEGIES < rn_task_count rn2 + length ts"
        using Cons.IH [OF n(1)] Some x by auto
      then show ?thesis unfolding e Some x using n(2) k(2,3) by simp
    qed
  qed
qed

section \<open>Parallel runs\<close>

lemma wait_any_winner: "wait_any rs c looks = Some (Some i) \<Longrightarrow> i < length rs \<and> cr_success (rs ! i)"
  by (induction rs c looks rule: wait_any.induct)
    (auto simp: first_done_def split: if_splits option.splits dest: find_index_less)

lemma cancel_others_result: "i < length tasks \<Longrightarrow> tk_result (cancel_others w tasks ! i) = tk_result (tasks ! i)"
  by (simp add: cancel_others_def task_cancel_def)

text \<open>The parts of a run that started a task: \<open>order\<close> is a schedule of all of them.\<close>

definition schedule :: "nat list \<Rightarrow> nat \<Rightarrow> bool" where
  "schedule order n \<longleftrightarrow> distinct order \<and> set order = {..<n}"

definition run_of :: "run_env \<Rightarrow> nat list \<Rightarrow> StrategyList \<Rightarrow> P2PPeer \<Rightarrow> runner \<Rightarrow> TaskContext list \<Rightarrow> runner \<Rightarrow> bool" where
  "run_of env order sl peer rn tasks' rn' \<longleftrightarrow> (\<exists>tasks rn1. sl_count sl \<noteq> 0 \<and> tasks \<noteq> [] \<and> schedule order (length tasks)
     \<and> start_tasks env (strategies_of sl) (rn\<lparr>rn_cancelled := False\<rparr>) = Some (tasks, rn1)
     \<and> run_threads env peer order tasks rn1 = Some (tasks', rn'))"

lemma run_of_parallel_run:
  "run_of env order sl peer rn tasks' rn' \<Longrightarrow> parallel_run env order looks (Some sl) (Some peer) (Some r) rn =
    (case wait_any (map (the \<circ> tk_result) tasks') 0 looks of
       None \<Rightarrow> Some (None, rn')
     | Some winner \<Rightarrow> Some (Some (case winner of Some i \<Rightarrow> (0, tk_result (tasks' ! i)) | None \<Rightarrow> (-1, tk_result (tasks' ! 0))), rn'))"
proof -
  assume "run_of env order sl peer rn tasks' rn'"
  then obtain tasks rn1 where x: "sl_count sl \<noteq> 0" "tasks \<noteq> []" "schedule order (length tasks)"
    "start_tasks env (strategies_of sl) (rn\<lparr>rn_cancelled := False\<rparr>) = Some (tasks, rn1)"
    "run_threads env peer order tasks rn1 = Some (tasks', rn')" by (auto simp: run_of_def)
  have l: "length ts' = length ts" if "run_threads env peer o' ts a = Some (ts', b)" for o' ts a ts' b
    using that by (induction o' arbitrary: ts a) (fastforce split: Option.bind_splits)+
  have "tasks' \<noteq> []" using l [OF x(5)] x(2) by auto
  then have c: "tk_result (cancel_others None tasks' ! 0) = tk_result (tasks' ! 0)" by (simp add: cancel_others_result)
  show ?thesis
  proof (cases "wait_any (map (the \<circ> tk_result) tasks') 0 looks")
    case None
    then show ?thesis using x by (simp add: parallel_run_def)
  next
    case (Some w)
    then have "tk_result (cancel_others w tasks' ! i) = tk_result (tasks' ! i)" if "w = Some i" for i
      using that wait_any_winner [of "map (the \<circ> tk_result) tasks'" 0 looks i] by (simp add: cancel_others_result)
    then show ?thesis using x c Some by (cases w) (simp_all add: parallel_run_def)
  qed
qed

lemma run_of_frame:
  assumes "run_of env order sl peer rn tasks' rn'" and "upnp_ok (rn_upnp rn)"
  shows "tasks' \<noteq> [] \<and> (\<forall>k \<in> set tasks'. tk_strategy k \<in> set (strategies_of sl)
      \<and> (\<exists>r. tk_result k = Some r \<and> cr_strategy r = tk_strategy k))
    \<and> upnp_ok (rn_upnp rn') \<and> keeps_sockets (sum_list (map left_open tasks')) rn rn'"
proof -
  obtain tasks rn1 where x: "tasks \<noteq> []" "schedule order (length tasks)"
    "start_tasks env (strategies_of sl) (rn\<lparr>rn_cancelled := False\<rparr>) = Some (tasks, rn1)"
    "run_threads env peer order tasks rn1 = Some (tasks', rn')" using assms(1) by (auto simp: run_of_def)
  note f = start_tasks_frame [OF x(3)]
  note started_hold_nothing [OF x(3)]
  then have z: "\<forall>i \<in> set order. left_open (tasks ! i) = 0" "sum_list (map left_open tasks) = 0"
    using x(2) by (auto simp: schedule_def)
  have "upnp_ok (rn_upnp rn1)" using f assms(2) by (simp add: same_sockets_def)
  from run_threads_frame [OF x(4) _ _ z(1) this] x(2) z(2)
  obtain n where g: "length tasks' = length tasks" "map tk_strategy tasks' = map tk_strategy tasks"
    "\<forall>i < length tasks. tk_result (tasks' ! i) \<noteq> None \<and> cr_strategy (the (tk_result (tasks' ! i))) = tk_strategy (tasks ! i)"
    "upnp_ok (rn_upnp rn')" "sum_list (map left_open tasks') = n" "keeps_sockets n rn1 rn'"
    by (auto simp: schedule_def)
  have k: "keeps_sockets n rn rn'" using g(6) f by (simp add: same_sockets_def keeps_sockets_def)
  have "tk_strategy k \<in> set (strategies_of sl) \<and> (\<exists>r. tk_result k = Some r \<and> cr_strategy r = tk_strategy k)" if "k \<in> set tasks'" for k
  proof -
    obtain i where i: "i < length tasks" "k = tasks' ! i" using \<open>k \<in> set tasks'\<close> g(1) by (auto simp: in_set_conv_nth)
    then have "tk_strategy k = tk_strategy (tasks ! i)" using g(1,2) by (metis nth_map)
    then show ?thesis using g(3) f i by auto
  qed
  then show ?thesis using g k x(1) by auto
qed

text \<open>
  A run that returns 0 hands out the result of a strategy of its list that succeeded, and
  otherwise -1 with the result of its first task.
\<close>

theorem parallel_run_result:
  assumes "run_of env order sl peer rn tasks' rn'" and "upnp_ok (rn_upnp rn)"
    and "parallel_run env order looks (Some sl) (Some peer) (Some r) rn = Some (Some (rc, res), rn'')"
  shows "rn'' = rn' \<and> (rc = 0 \<and> (\<exists>i < length tasks'. \<exists>x. tk_result (tasks' ! i) = Some x \<and> res = Some x \<and> cr_success x \<and> cr_strategy x \<in> set (strategies_of sl))
    \<or> rc = -1 \<and> res = tk_result (tasks' ! 0))"
proof -
  note f = run_of_frame [OF assms(1,2)] and p = run_of_parallel_run [OF assms(1), of looks r]
  show ?thesis
  proof (cases "wait_any (map (the \<circ> tk_result) tasks') 0 looks")
    case None
    then show ?thesis using assms(3) p by simp
  next
    case (Some w)
    show ?thesis
    proof (cases w)
      case None
      then show ?thesis using assms(3) p Some by simp
    next
      case w: (Some i)
      with Some wait_any_winner have i: "i < length tasks'" "cr_success (the (tk_result (tasks' ! i)))" by fastforce+
      then obtain x where x: "tk_result (tasks' ! i) = Some x" "cr_strategy x = tk_strategy (tasks' ! i)"
        "tk_strategy (tasks' ! i) \<in> set (strategies_of sl)" using f nth_mem by blast
      then have "rn'' = rn'" "rc = 0" "res = Some x" using assms(3) p Some w by simp_all
      then show ?thesis using i x by auto
    qed
  qed
qed

text \<open>
  Every success of a run leaves its sockets open, two of them for a simultaneous open, and the
  probe socket stays too, although at most one success is handed out: the sockets of the others
  are lost.
\<close>

theorem parallel_run_leaks:
  assumes "run_of env order sl peer rn tasks' rn'" and "upnp_ok (rn_upnp rn)"
    and "parallel_run env order looks (Some sl) (Some peer) (Some r) rn = Some (x, rn'')"
  shows "length (sk_open (rn_net rn'')) = length (sk_open (rn_net rn)) + sum_list (map left_open tasks')
    + (if pb_socket (rn_probe rn) < 0 \<and> 0 \<le> pb_socket (rn_probe rn'') then 1 else 0)"
proof -
  have "rn'' = rn'" using run_of_parallel_run [OF assms(1), of looks r] assms(3) by (auto split: option.splits)
  then show ?thesis using run_of_frame [OF assms(1,2)] by (simp add: keeps_sockets_def)
qed

text \<open>
  The cells of \<open>g_tasks\<close> are never given back: a run either writes past the sixteenth cell, or
  leaves as many fewer cells as it has strategies, however it ends.
\<close>

theorem task_table_overrun:
  assumes "\<And>k. ne_ok (re_net env) k" and "rn_task_count rn \<le> MAX_STRATEGIES" and "sl_count sl \<noteq> 0" and "upnp_ok (rn_upnp rn)"
  shows "(MAX_STRATEGIES < rn_task_count rn + length (strategies_of sl)
      \<longrightarrow> parallel_run env order looks (Some sl) (Some peer) (Some r) rn = None)
    \<and> (schedule order (length (strategies_of sl)) \<and> parallel_run env order looks (Some sl) (Some peer) (Some r) rn = Some (x, rn')
      \<longrightarrow> rn_task_count rn' = rn_task_count rn + length (strategies_of sl))"
proof (intro conjI impI)
  note s = start_tasks_all [of env "rn\<lparr>rn_cancelled := False\<rparr>" "strategies_of sl"]
  show "parallel_run env order looks (Some sl) (Some peer) (Some r) rn = None"
    if "MAX_STRATEGIES < rn_task_count rn + length (strategies_of sl)"
    using s assms that by (simp add: parallel_run_def)
  assume a: "schedule order (length (strategies_of sl)) \<and> parallel_run env order looks (Some sl) (Some peer) (Some r) rn = Some (x, rn')"
  then obtain tasks rn1 where t: "start_tasks env (strategies_of sl) (rn\<lparr>rn_cancelled := False\<rparr>) = Some (tasks, rn1)"
    using assms(3) by (auto simp: parallel_run_def split: Option.bind_splits)
  then have n: "length tasks = length (strategies_of sl)" "rn_task_count rn1 = rn_task_count rn + length (strategies_of sl)"
    "upnp_ok (rn_upnp rn1)"
    using s assms start_tasks_frame [OF t] by (auto simp: same_sockets_def dest: arg_cong [where f = length])
  show "rn_task_count rn' = rn_task_count rn + length (strategies_of sl)"
  proof (cases "tasks = []")
    case True
    then show ?thesis using a t n assms(3) by (simp add: parallel_run_def)
  next
    case False
    then obtain tasks' rn2 where r: "run_threads env peer order tasks rn1 = Some (tasks', rn2)" "rn' = rn2"
      using a t assms(3) by (auto simp: parallel_run_def Let_def split: Option.bind_splits option.splits)
    have o: "distinct order" "set order \<subseteq> {..<length tasks}" using a n(1) by (auto simp: schedule_def)
    then have "\<forall>i \<in> set order. left_open (tasks ! i) = 0" using started_hold_nothing [OF t] by auto
    from run_threads_frame [OF r(1) o this n(3)] show ?thesis using n(2) r(2) by simp
  qed
qed

lemma wait_any_first_failed:
  assumes "rs \<noteq> []" and "is_done (rs ! 0)" and "\<not> cr_success (rs ! 0)" and "\<forall>(cancelled, finished) \<in> set looks. finished ! 0"
    and "length rs \<le> c + length looks"
  shows "wait_any rs c looks = Some None"
  using assms(4,5)
proof (induction looks arbitrary: c)
  case (Cons l looks)
  obtain cancelled finished where l: "l = (cancelled, finished)" by (rule prod.exhaust)
  have "[0..<length rs] = 0 # [1..<length rs]" using assms(1) by (simp add: upt_conv_Cons)
  then have "first_done rs finished = Some 0" using Cons.prems(1) l assms(2) by (simp add: first_done_def)
  then show ?case using Cons l assms(3) by simp
qed simp

text \<open>
  The loop that waits always counts the first task that has reported: when the first task of
  a run has failed before the first look, the run returns -1 with that failure, after as many
  looks as there are tasks, whatever the others achieved.
\<close>

theorem first_failure_hides_success:
  assumes "run_of env order sl peer rn tasks' rn'" and "upnp_ok (rn_upnp rn)"
    and "tk_result (tasks' ! 0) = Some r0" and "cr_error_code r0 \<noteq> 0" and "\<not> cr_success r0"
    and "\<forall>(cancelled, finished) \<in> set looks. finished ! 0" and "length tasks' \<le> length looks"
  shows "parallel_run env order looks (Some sl) (Some peer) (Some r) rn = Some (Some (-1, Some r0), rn')"
proof -
  have n: "tasks' \<noteq> []" using run_of_frame [OF assms(1,2)] by simp
  then have "wait_any (map (the \<circ> tk_result) tasks') 0 looks = Some None"
    using assms(3-7) by (intro wait_any_first_failed) (auto simp: is_done_def)
  then show ?thesis using run_of_parallel_run [OF assms(1), of looks r] assms(3) by simp
qed

lemma wait_any_ends:
  assumes "\<forall>(cancelled, finished) \<in> set late. first_done rs finished \<noteq> None" and "length rs \<le> c + length late"
  shows "wait_any rs c (early @ late) \<noteq> None"
proof -
  have l: "wait_any rs c late \<noteq> None" if "length rs \<le> c + length late" "\<forall>(cancelled, finished) \<in> set late. first_done rs finished \<noteq> None" for c late
    using that
  proof (induction late arbitrary: c)
    case (Cons x late)
    then show ?case by (cases x) (auto split: option.split)
  qed simp
  show ?thesis using assms(2)
  proof (induction early arbitrary: c)
    case Nil
    then show ?case using l assms(1) by simp
  next
    case (Cons x early)
    then show ?case by (cases x) (auto split: option.split)
  qed
qed

lemma run_threads_reports:
  assumes "run_threads env peer order tasks rn = Some (tasks', rn')" and "distinct order" and "set order \<subseteq> {..<length tasks}"
    and "\<forall>i \<in> set order. get_executor (tk_strategy (tasks ! i)) \<noteq> None" and "\<And>k. re_errno env k \<noteq> 0" and "upnp_ok (rn_upnp rn)"
  shows "length tasks' = length tasks \<and> (\<forall>i < length tasks. if i \<in> set order then is_done (the (tk_result (tasks' ! i))) else tasks' ! i = tasks ! i)"
  using assms(1-4,6)
proof (induction order arbitrary: tasks rn)
  case (Cons i order)
  obtain t rn1 where t: "task_thread env peer (tasks ! i) rn = Some (t, rn1)"
    and r: "run_threads env peer order (tasks[i := t]) rn1 = Some (tasks', rn')"
    using Cons.prems(1) by (auto split: Option.bind_splits)
  obtain e where e: "get_executor (tk_strategy (tasks ! i)) = Some e" using Cons.prems(4) by auto
  from strategy_executor.thread [OF known_executor [OF e] e t Cons.prems(5)] assms(5)
  have d: "is_done (the (tk_result t))" "upnp_ok (rn_upnp rn1)" by auto
  have i: "i < length tasks" "i \<notin> set order" using Cons.prems(2,3) by auto
  have "\<forall>j \<in> set order. get_executor (tk_strategy (tasks[i := t] ! j)) \<noteq> None" using Cons.prems(4) i by (auto simp: nth_list_update)
  from Cons.IH [OF r _ _ this d(2)] Cons.prems(2,3) i
  have IH: "length tasks' = length tasks"
    "\<forall>j < length tasks. if j \<in> set order then is_done (the (tk_result (tasks' ! j))) else tasks' ! j = tasks[i := t] ! j" by auto
  have "if j \<in> set (i # order) then is_done (the (tk_result (tasks' ! j))) else tasks' ! j = tasks ! j" if "j < length tasks" for j
    using IH(2)[rule_format, OF that] d(1) i by (cases "j = i") auto
  then show ?case using IH(1) by blast
qed simp

text \<open>
  C36: a run whose strategies all have executors ends: from the look on at which some thread has
  finished it takes at most as many looks as there are tasks.
\<close>

theorem parallel_run_ends:
  assumes "run_of env order sl peer rn tasks' rn'" and "upnp_ok (rn_upnp rn)" and "\<And>k. re_errno env k \<noteq> 0"
    and "\<forall>t \<in> set (strategies_of sl). get_executor t \<noteq> None"
    and "\<forall>(cancelled, finished) \<in> set late. \<exists>i < length tasks'. finished ! i" and "length tasks' \<le> length late"
  shows "\<exists>rc res. parallel_run env order (early @ late) (Some sl) (Some peer) (Some r) rn = Some (Some (rc, res), rn')"
proof -
  obtain tasks rn1 where x: "tasks \<noteq> []" "schedule order (length tasks)"
    "start_tasks env (strategies_of sl) (rn\<lparr>rn_cancelled := False\<rparr>) = Some (tasks, rn1)"
    "run_threads env peer order tasks rn1 = Some (tasks', rn')" using assms(1) by (auto simp: run_of_def)
  note f = start_tasks_frame [OF x(3)]
  have k: "\<forall>i \<in> set order. get_executor (tk_strategy (tasks ! i)) \<noteq> None" using f assms(4) x(2) by (auto simp: schedule_def)
  have u: "upnp_ok (rn_upnp rn1)" using f assms(2) by (simp add: same_sockets_def)
  have s: "distinct order" "set order \<subseteq> {..<length tasks}" using x(2) by (auto simp: schedule_def)
  from run_threads_reports [OF x(4) s k assms(3) u] x(2)
  have d: "\<forall>i < length tasks'. is_done (the (tk_result (tasks' ! i)))" by (auto simp: schedule_def)
  have "first_done (map (the \<circ> tk_result) tasks') finished \<noteq> None" if "i < length tasks'" "finished ! i" for i finished
    using d that by (auto simp: first_done_def find_index_None)
  then have "wait_any (map (the \<circ> tk_result) tasks') 0 (early @ late) \<noteq> None"
    using assms(5,6) by (intro wait_any_ends) fastforce+
  then show ?thesis using run_of_parallel_run [OF assms(1), of "early @ late" r] by (auto split: option.split)
qed

text \<open>
  A run of one strategy that has no executor never ends unless it is cancelled: its task
  finishes without success and without an error code, which no look takes for an outcome.
\<close>

theorem unknown_strategy_never_ends:
  assumes "run_of env order \<lparr>sl_strategies = [t], sl_count = 1\<rparr> peer rn tasks' rn'" and "get_executor t = None"
    and "\<forall>(cancelled, finished) \<in> set looks. \<not> cancelled"
  shows "parallel_run_single env order looks t (Some peer) (Some r) rn = Some (None, rn')"
proof -
  let ?sl = "\<lparr>sl_strategies = [t], sl_count = 1\<rparr>"
  have ts: "strategies_of ?sl = [t]" by (simp add: strategies_of_def MAX_STRATEGIES_def)
  obtain tasks rn1 where x: "tasks \<noteq> []" "schedule order (length tasks)"
    "start_tasks env [t] (rn\<lparr>rn_cancelled := False\<rparr>) = Some (tasks, rn1)"
    "run_threads env peer order tasks rn1 = Some (tasks', rn')" using assms(1) ts by (auto simp: run_of_def)
  have "length tasks = 1" using x(1,3) by (auto split: prod.splits option.splits Option.bind_splits if_splits)
  then obtain k where k: "tasks = [k]" "tk_strategy k = t" "tk_result k \<in> {None, Some zero_result}"
    using start_tasks_frame [OF x(3)] by (cases tasks) auto
  have "order = [0]"
  proof -
    have "set order = {0}" "distinct order" using x(2) k(1) by (auto simp: schedule_def)
    then show ?thesis by (cases order rule: list.exhaust; cases "tl order") auto
  qed
  then obtain k' where k': "task_thread env peer k rn1 = Some (k', rn')" "tasks' = [k']" using x(4) k(1) by (auto split: Option.bind_splits)
  from unknown_executor [OF _ k'(1)] assms(2) k(2,3)
  obtain q where q: "tk_result k' = Some q" "\<not> is_done q" by (auto simp: is_done_def zero_result_def)
  have "wait_any [q] 0 looks = None"
    using assms(3) q(2) by (induction looks) (auto simp: first_done_def)
  then show ?thesis using run_of_parallel_run [OF assms(1), of looks r] k'(2) q(1) by (simp add: parallel_run_single_def)
qed

end
