(* ===== verification/Punch_Samples.thy ===== *)
theory Punch_Samples
  imports Multi_Properties
begin

text \<open>The theorems of the punching modules at concrete inputs.\<close>

definition quiet_net :: net_env where
  "quiet_net = \<lparr>ne_ok = (\<lambda>_. True), ne_again = (\<lambda>_. False), ne_recv = (\<lambda>_. None), ne_clk = (\<lambda>_. 1700000000), ne_rand = (\<lambda>_. 4)\<rparr>"

definition other_peer :: sockaddr where
  "other_peer = \<lparr>sa_family = AF_INET, sa_port = 4000, sa_ip = (10, 0, 0, 9)\<rparr>"

text \<open>Every receive gets the same bytes.\<close>

definition talking_net :: "byte list \<Rightarrow> net_env" where
  "talking_net bs = quiet_net\<lparr>ne_recv := (\<lambda>_. Some (bs, other_peer))\<rparr>"

definition one_socket :: sockets where
  "one_socket = \<lparr>sk_calls = 0, sk_open = [3], sk_sent = []\<rparr>"

definition sample_punch :: PunchState where
  "sample_punch = \<lparr>ps_udp_socket = 3, ps_local_port = 33445, ps_peer_ip = [], ps_peer_port = 0, ps_punched = False,
     ps_peer_addr = zero_sockaddr, ps_last_technique = PUNCH_TECH_UDP, ps_retry_count = 0, ps_ttl_used = False,
     ps_simultaneous_used = False\<rparr>"

lemma other_peer_text: "ntop (sa_ip other_peer) = ''10.0.0.9''"
  by code_simp

lemma punch_word: "recv_text (take 255 (string_bytes ''ORCA_PUNCH'')) = ''ORCA_PUNCH''"
  by code_simp

theorem punch_try_connect_finds_witness:
  "\<exists>p s'. punch_try_connect (talking_net (string_bytes ''ORCA_PUNCH'')) (Some sample_punch) (Some ''192.0.2.1'') 33445 one_socket
    = (0, p, s') \<and> punch_get_peer p = Some (''10.0.0.9'', 4000)"
proof -
  let ?env = "talking_net (string_bytes ''ORCA_PUNCH'')"
  obtain rc p s' where c: "punch_try_connect ?env (Some sample_punch) (Some ''192.0.2.1'') 33445 one_socket = (rc, p, s')"
    by (rule prod_cases3)
  have "accepted (ne_recv ?env k) = Some (''10.0.0.9'', 4000)" for k
    using punch_word by (simp add: accepted_def talking_net_def quiet_net_def other_peer_text punch_words_def) (simp add: other_peer_def)
  then have f: "List.map_filter (\<lambda>k. accepted (ne_recv ?env (sk_calls one_socket + 5 + listen_call k))) [0..<10]
      = replicate 10 (''10.0.0.9'', 4000)"
    by (simp add: map_filter_simps upt_rec) (simp add: numeral_eq_Suc)
  have "0 \<le> ps_udp_socket sample_punch" by (simp add: sample_punch_def)
  from punch_try_connect_finds [OF this c] show ?thesis using c unfolding f by (simp add: numeral_eq_Suc)
qed

theorem ttl_punch_uses_other_sockets_witness:
  "\<exists>rc p s'. punch_try_ttl quiet_net (Some sample_punch) (Some ''192.0.2.1'') 33445 one_socket = (rc, p, s') \<and> sk_open s' = [3]
    \<and> (\<forall>(d, _, _) \<in> set (sk_sent s'). d \<noteq> 3)"
proof -
  obtain rc p s' where c: "punch_try_ttl quiet_net (Some sample_punch) (Some ''192.0.2.1'') 33445 one_socket = (rc, p, s')"
    by (rule prod_cases3)
  show ?thesis
    using ttl_punch_uses_other_sockets [OF c] c by (auto simp: sample_punch_def one_socket_def)
qed

theorem listener_answer_not_understood_witness:
  "\<exists>dest bs. sk_sent (punch_listener_round (talking_net (string_bytes ''ORCA_PUNCH'')) sample_punch one_socket) = [(3, dest, bs)]
    \<and> recv_text bs \<notin> set awaited_words"
proof -
  have "recv_text (take 255 (string_bytes ''ORCA_PUNCH'')) = ''ORCA_PUNCH''" "take 255 (string_bytes ''ORCA_PUNCH'') \<noteq> []" by code_simp+
  then have "sk_sent (punch_listener_round (talking_net (string_bytes ''ORCA_PUNCH'')) sample_punch one_socket) \<noteq> sk_sent one_socket"
    by (simp add: punch_listener_round_def recv_from_def talking_net_def quiet_net_def send_to_def ask_def one_socket_def tick_def)
  then show ?thesis
    using listener_answer_not_understood [of "talking_net (string_bytes ''ORCA_PUNCH'')" sample_punch one_socket, OF refl]
    by (auto simp: one_socket_def sample_punch_def)
qed

section \<open>Simultaneous open\<close>

definition waiting_session :: "32 word \<Rightarrow> SimOpenSession" where
  "waiting_session token = zero_sim\<lparr>so_target_ip := ''192.0.2.1'', so_target_port := 4000, so_socket_fd := 3,
     so_state := SIM_OPEN_STATE_SYNCING, so_sync_token := token\<rparr>"

definition fresh_session :: SimOpenSession where
  "fresh_session = zero_sim\<lparr>so_target_ip := ''192.0.2.1'', so_target_port := 4000\<rparr>"

lemma fresh_session_init: "simultaneous_open_init (Some zero_sim) (Some ''192.0.2.1'') 4000 = Some (0, Some fresh_session)"
  by (simp add: simultaneous_open_init_def fresh_session_def strcpy_into_fits)

text \<open>The peer answers with a packet that confirms.\<close>

definition confirming_net :: net_env where
  "confirming_net = talking_net (sim_packet SIM_PKT_SYNC_CONFIRM 7 0 [])"

lemma sample_connects: "fst (simultaneous_open_connect confirming_net fresh_session one_socket) = 0"
  by code_simp

theorem sim_connect_outcome_witness:
  "\<exists>se s'. simultaneous_open_connect confirming_net fresh_session one_socket = (0, se, s')
    \<and> so_state se = SIM_OPEN_STATE_ESTABLISHED \<and> sk_open s' = [so_socket_fd se, 3]"
proof -
  obtain rc se s' where c: "simultaneous_open_connect confirming_net fresh_session one_socket = (rc, se, s')" by (rule prod_cases3)
  then have "rc = 0" using sample_connects by simp
  then show ?thesis using sim_connect_outcome [of confirming_net fresh_session one_socket rc se s'] c
    by (auto simp: sim_ended_def one_socket_def)
qed

theorem sim_session_invariant_witness:
  "\<exists>se s'. simultaneous_open_connect confirming_net fresh_session one_socket = (0, se, s') \<and> sim_ok (se, s')"
proof -
  obtain rc se s' where c: "simultaneous_open_connect confirming_net fresh_session one_socket = (rc, se, s')" by (rule prod_cases3)
  then have "rc = 0" using sample_connects by simp
  have "so_socket_fd fresh_session < 0" by (simp add: fresh_session_def zero_sim_def)
  then have "sim_step\<^sup>*\<^sup>* (fresh_session, one_socket) (se, s')" using sim_step.intros(1) c by blast
  from sim_session_invariant [OF fresh_session_init this] show ?thesis using c \<open>rc = 0\<close> by blast
qed

theorem crossing_syncs_swap_tokens_witness:
  "\<exists>a b sa sb. simultaneous_open_process_packet quiet_net (waiting_session 1) (sim_packet SIM_PKT_SYNC 2 0 []) one_socket = (0, a, sa)
    \<and> simultaneous_open_process_packet quiet_net (waiting_session 2) (sim_packet SIM_PKT_SYNC 1 0 []) one_socket = (0, b, sb)
    \<and> simultaneous_open_is_connected (Some a) \<and> simultaneous_open_is_connected (Some b)
    \<and> so_sync_token a = 2 \<and> so_sync_token b = 1"
proof -
  have w: "so_state (waiting_session t) = SIM_OPEN_STATE_SYNCING" "so_sync_token (waiting_session t) = t" for t
    by (simp_all add: waiting_session_def)
  obtain ra a sa where a: "simultaneous_open_process_packet quiet_net (waiting_session 1) (sim_packet SIM_PKT_SYNC 2 0 []) one_socket = (ra, a, sa)"
    by (rule prod_cases3)
  obtain rb b sb where b: "simultaneous_open_process_packet quiet_net (waiting_session 2) (sim_packet SIM_PKT_SYNC 1 0 []) one_socket = (rb, b, sb)"
    by (rule prod_cases3)
  obtain rc b' sb' where b': "simultaneous_open_process_packet quiet_net b (sim_packet SIM_PKT_SYNC_ACK (so_sync_token a) 0 []) sb = (rc, b', sb')"
    by (rule prod_cases3)
  have "so_sync_token (waiting_session 1) \<noteq> so_sync_token (waiting_session 2)" by (simp add: w)
  note x = crossing_syncs_swap_tokens [OF w(1) w(1) this, unfolded w(2), OF a b b']
  then show ?thesis using a b process_sync [OF w(1) a] process_sync [OF w(1) b] by (simp add: simultaneous_open_is_connected_def)
qed

definition open_session :: SimOpenSession where
  "open_session = fresh_session\<lparr>so_socket_fd := 3, so_state := SIM_OPEN_STATE_ESTABLISHED\<rparr>"

lemma open_session_state: "so_state open_session = SIM_OPEN_STATE_ESTABLISHED"
  by (simp add: open_session_def)

text \<open>A packet that announces 1000 bytes and brings none.\<close>

theorem sim_recv_overrun_iff_witness:
  "simultaneous_open_recv (talking_net (take 16 (sim_packet SIM_PKT_DATA 7 0 (replicate 1000 0)))) [] (Some open_session) True 4096 one_socket = None"
proof -
  let ?p = "take 16 (sim_packet SIM_PKT_DATA 7 0 (replicate 1000 0))"
  have p: "?p = le32 SIM_MAGIC @ [SIM_PROTOCOL_VERSION, SIM_PKT_DATA] @ le32 7 @ le32 0 @ le16 (of_nat 1000)"
    by (simp add: sim_packet_def)
  have f: "length ?p = 16" "sim_magic ?p = SIM_MAGIC" "sim_type ?p = SIM_PKT_DATA" "sim_payload_len ?p = 1000"
    unfolding p by code_simp+
  show ?thesis
    using sim_recv_overrun_iff [OF open_session_state, where m = 4096 and env = "talking_net ?p" and s = one_socket and bs = ?p
        and src = other_peer and old = "[]"] f
    by (simp add: talking_net_def SIM_SIZEOF_def)
qed

theorem sim_data_roundtrip_witness:
  "\<exists>a s'. simultaneous_open_send quiet_net (Some open_session) (Some [1, 2, 3]) one_socket = (0, a, s')
    \<and> (\<exists>b t'. simultaneous_open_recv (talking_net (snd (snd (last (sk_sent s'))))) [] (Some open_session) True 100 one_socket
        = Some (3, [1, 2, 3], Some b, t'))"
proof -
  obtain rc a s' where s: "simultaneous_open_send quiet_net (Some open_session) (Some [1, 2, 3]) one_socket = (rc, a, s')" by (rule prod_cases3)
  have "fst (simultaneous_open_send quiet_net (Some open_session) (Some [1, 2, 3]) one_socket) = 0" by code_simp
  then have "rc = 0" using s by simp
  then show ?thesis
    using sim_data_roundtrip [OF open_session_state open_session_state, where data = "[1, 2, 3]" and m = 100 and env = quiet_net
        and s = one_socket and a' = a and s' = s' and t = one_socket and src = other_peer
        and env' = "talking_net (snd (snd (last (sk_sent s'))))" and old = "[]"] s
    by (simp add: talking_net_def)
qed

theorem sim_punch_forgets_peer_witness:
  "\<exists>p s'. simultaneous_open_punch confirming_net (Some sample_punch) (Some ''192.0.2.1'') 4000 one_socket = Some (0, p, s')
    \<and> punch_get_peer p = Some ([], 0) \<and> 3 \<in> set (sk_open s')"
proof -
  obtain rc se s' where c: "simultaneous_open_connect confirming_net fresh_session one_socket = (rc, se, s')" by (rule prod_cases3)
  then have "rc = 0" using sample_connects by simp
  then obtain p where p: "simultaneous_open_punch confirming_net (Some sample_punch) (Some ''192.0.2.1'') 4000 one_socket = Some (0, p, s')"
    using c fresh_session_init by (auto simp: simultaneous_open_punch_def)
  have "ps_udp_socket sample_punch \<in> set (sk_open one_socket)" by (simp add: sample_punch_def one_socket_def)
  from sim_punch_forgets_peer [OF p this] show ?thesis using p by (auto simp: one_socket_def)
qed

section \<open>Port prediction\<close>

definition predictor_of :: "int list \<Rightarrow> PortPredictor" where
  "predictor_of ports = (new_predictor ''192.0.2.1'' 4000)\<lparr>pp_observations :=
     map (\<lambda>i. \<lparr>po_port = ports ! i, po_observed_at = 0, po_sequence_num = i, po_confirmed = False\<rparr>) [0..<length ports]\<rparr>"

theorem predictor_invariant_witness:
  "\<exists>pp. fold (\<lambda>(t, q) pred. snd (port_predictor_add_observation t pred q)) [(1, 80), (2, 2000)] (Some (new_predictor ''192.0.2.1'' 4000)) = Some pp
    \<and> predictor_ok pp \<and> map po_port (pp_observations pp) = [2000]"
proof -
  have i: "port_predictor_init (Some ((predictor_of [4000])\<lparr>pp_pattern_offset := 3\<rparr>)) (Some ''192.0.2.1'') 4000
      = Some (0, Some (new_predictor ''192.0.2.1'' 4000))"
    by (simp add: port_predictor_init_def strcpy_into_fits)
  have "take PORT_PREDICT_SAMPLES (filter (\<lambda>q. PORT_PREDICT_MIN_PORT \<le> q \<and> q \<le> PORT_PREDICT_MAX_PORT) (map snd [(1 :: int, 80), (2, 2000)])) = [2000]"
    by (simp add: predict_limits)
  then show ?thesis using predictor_invariant [OF i, of "[(1, 80), (2, 2000)]"] by metis
qed

theorem sequential_ports_predicted_witness:
  "\<exists>pp'. port_predictor_predict 0 (\<lambda>_. 0) (Some (predictor_of [4000, 4003, 4006])) = (4009, Some pp') \<and> pp_confidence pp' = 80"
  using sequential_ports_predicted [where pp = "predictor_of [4000, 4003, 4006]" and p = 4000 and d = 3 and n = 3 and t = 0 and rnd = "\<lambda>_. 0"]
  by (auto simp: predictor_of_def upt_rec)

theorem prediction_may_exceed_ports_witness:
  "\<exists>pp'. port_predictor_predict 0 (\<lambda>_. 0) (Some (predictor_of [65515, 65525, 65535])) = (65545, Some pp')
    \<and> sa_port (sock_addr ''192.0.2.1'' 65545) = 9"
proof -
  have "fst (port_predictor_predict 0 (\<lambda>_. 0) (Some (predictor_of [65515, 65525, 65535]))) = 65545" by code_simp
  moreover have "snd (port_predictor_predict 0 (\<lambda>_. 0) (Some (predictor_of [65515, 65525, 65535]))) \<noteq> None" by code_simp
  ultimately obtain pp' where p: "port_predictor_predict 0 (\<lambda>_. 0) (Some (predictor_of [65515, 65525, 65535])) = (65545, Some pp')"
    by (metis not_Some_eq prod.collapse)
  have "predictor_ok (predictor_of [65515, 65525, 65535])" "3 \<le> pp_count (predictor_of [65515, 65525, 65535])"
    by (simp_all add: predictor_ok_def predictor_of_def pp_count_def predict_limits upt_rec)
  from prediction_may_exceed_ports [OF this _ p, of "''192.0.2.1''"] show ?thesis using p by simp
qed

theorem range_scan_probes_window_witness:
  "\<exists>s'. range_scan quiet_net ''192.0.2.1'' 3 (port_window 1030) one_socket = (None, s') \<and> length (sk_sent s') = 17
    \<and> 1024 \<in> set (port_window 1030)"
proof -
  have "length (port_window 1030) = 17" by (simp add: port_window_def predict_limits)
  then show ?thesis
    using range_scan_probes_window [of quiet_net 1030 "''192.0.2.1''" 3 one_socket] by (auto simp: quiet_net_def one_socket_def)
qed

section \<open>The run\<close>

text \<open>The first two techniques get no socket, the simultaneous open succeeds.\<close>

definition late_net :: net_env where
  "late_net = confirming_net\<lparr>ne_ok := (\<lambda>k. 2 \<le> k)\<rparr>"

lemma sample_run:
  "map_option (\<lambda>(results, pb, s). (map (\<lambda>r. (pr_tech r, pr_result r)) results, pb_socket pb))
     (run_techniques late_net (\<lambda>_. sample_punch) ''192.0.2.1'' 33445 0 0 no_probe one_socket)
    = Some ([(PUNCH_TECH_SIMULTANEOUS, 0)], -1)"
  by code_simp

theorem punch_run_leaks_witness:
  "\<exists>results pb s' d. run_techniques late_net (\<lambda>_. sample_punch) ''192.0.2.1'' 33445 0 0 no_probe one_socket = Some (results, pb, s')
    \<and> sim_won results \<and> sk_open s' = [d, 3]"
proof -
  obtain results pb s' where r: "run_techniques late_net (\<lambda>_. sample_punch) ''192.0.2.1'' 33445 0 0 no_probe one_socket = Some (results, pb, s')"
    and x: "map (\<lambda>r. (pr_tech r, pr_result r)) results = [(PUNCH_TECH_SIMULTANEOUS, 0)]" "pb_socket pb = -1"
    using sample_run by auto
  have w: "sim_won results" using x(1) by (auto simp: sim_won_def)
  have "sk_open one_socket = [3]" by (simp add: one_socket_def)
  then show ?thesis using punch_run_leaks [OF r] r w x(2) by auto
qed

end
