(* ===== verification/Runner_Samples.thy ===== *)
theory Runner_Samples
  imports Runner_Properties Punch_Samples
begin

text \<open>The theorems of the parallel runner and of the UPnP client at concrete inputs.\<close>

section \<open>The UPnP client\<close>

definition gateway_head :: string where
  "gateway_head = ''HTTP/1.1 200 OK'' @ [cr, lf]"

lemma gateway_head_searches:
  "\<not> contains (gateway_head @ ''LOCATION'') ''LOCATION:''" "contains gateway_head ''HTTP/1.1 200 OK''"
  by code_simp+

theorem gateway_host_found_witness:
  "\<exists>gi. upnp_parse_response 7 (gateway_head @ ''LOCATION: http://'' @ ''192.168.1.1'' @ CHR '':'' # ''5000/rootDesc.xml'' @ cr # [lf]) 60 zero_gateway
     = (0, gi) \<and> gw_lan_ip gi = ''192.168.1.1''"
proof -
  have "CHR '':'' \<notin> set ''192.168.1.1''" "CHR ''/'' \<notin> set ''192.168.1.1''" "length ''192.168.1.1'' < 16"
    "cr \<notin> set (''192.168.1.1'' @ CHR '':'' # ''5000/rootDesc.xml'')" by simp_all
  from gateway_host_found [OF gateway_head_searches this(1-3) disjI1 [OF refl] this(4), of 60 7 "[lf]" zero_gateway]
  show ?thesis by auto
qed

theorem headers_after_location_ignored_witness:
  "gw_server (snd (upnp_parse_response 7 (gateway_head @ ''LOCATION:'' @ '' http://192.168.1.1/'' @ cr # lf # ''SERVER: Linux'' @ [cr, lf]) 60 zero_gateway)) = []"
proof -
  have "cr \<notin> set '' http://192.168.1.1/''" by simp
  moreover have "strstr_either (gateway_head @ ''LOCATION:'' @ '' http://192.168.1.1/'') ''SERVER:'' ''Server:'' = None" by code_simp
  moreover have "gw_server zero_gateway = []" by (simp add: zero_gateway_def)
  ultimately show ?thesis
    using headers_after_location_ignored [OF gateway_head_searches, of "'' http://192.168.1.1/''" 60 7 "lf # ''SERVER: Linux'' @ [cr, lf]" zero_gateway,
      THEN conjunct2, THEN mp] by simp
qed

theorem upnp_invariant_witness:
  "\<exists>b u s. upnp_available quiet_net fresh_upnp one_socket = (b, u, s) \<and> upnp_ok u \<and> sk_open s = [3] \<and> length (sk_sent s) \<le> 9"
proof -
  obtain b u s where a: "upnp_available quiet_net fresh_upnp one_socket = (b, u, s)" by (rule prod_cases3)
  then have "upnp_run 0 (fresh_upnp, one_socket) (u, s)" 
    by (rule upnp_run.intros(2) [OF upnp_run.intros(1) upnp_step.intros(1)])
  from upnp_invariant [OF this] have "upnp_ok u" "sk_open s = [3]" "length (sk_sent s) \<le> 9"
    by (simp_all add: one_socket_def)
  with a show ?thesis by blast
qed

section \<open>Parallel runs\<close>

definition sample_peer :: P2PPeer where
  "sample_peer = \<lparr>P2PPeer.pp_id = ''bob'', pp_ip = ''192.0.2.1'', pp_port = 33445, pp_state = P2P_STATE_DISCONNECTED, pp_udp_socket = -1,
     pp_addr = (''192.0.2.1'', 33445), pp_shared_secret = [], pp_aes_key = [], pp_send_nonce = 0, pp_recv_nonce = 0,
     pp_last_activity = 0, pp_created_at = 0, pp_is_secure = False, pp_is_initiator = False, pp_retry_count = 0,
     pp_nat_type = NAT_UNKNOWN, pp_has_ipv6 = True, pp_ipv6 = ''2001:db8::1'', pp_public_key = []\<rparr>"

text \<open>A known gateway, and a peer that answers over IPv6.\<close>

definition sample_env :: run_env where
  "sample_env = \<lparr>re_net = quiet_net, re_recv6 = (\<lambda>_. Some (string_bytes ''ORCA_IPV6_RESPONSE'', ''2001:db8::1'', 4000)), re_errno = (\<lambda>_. 11), re_strerror = (\<lambda>_. []),
     re_buffer = [0], re_stack = (\<lambda>_. sample_punch)\<rparr>"

definition sample_runner :: runner where
  "sample_runner = \<lparr>rn_task_count = 0, rn_cancelled = False,
     rn_upnp = fresh_upnp\<lparr>g_gateway := zero_gateway\<lparr>gw_valid := True\<rparr>, g_upnp_available := True\<rparr>,
     rn_probe = no_probe, rn_net = one_socket\<rparr>"

definition sample_list :: StrategyList where
  "sample_list = \<lparr>sl_strategies = [STRATEGY_TCP_PUNCH, STRATEGY_UPNP, STRATEGY_IPV6_DIRECT], sl_count = 3\<rparr>"

definition sample_start :: "(TaskContext list \<times> runner) option" where
  "sample_start = start_tasks sample_env (strategies_of sample_list) (sample_runner\<lparr>rn_cancelled := False\<rparr>)"

lemma sample_run_results:
  "map_option (\<lambda>(tasks, rn). (length tasks, map_option (\<lambda>(tasks', rn').
       (map (\<lambda>k. (cr_success (the (tk_result k)), cr_error_code (the (tk_result k)))) tasks', map tk_strategy tasks', pb_socket (rn_probe rn')))
     (run_threads sample_env sample_peer [0, 1, 2] tasks rn))) sample_start
   = Some (3, Some ([(False, -1), (True, 0), (True, 0)], [STRATEGY_TCP_PUNCH, STRATEGY_UPNP, STRATEGY_IPV6_DIRECT], -1))"
  by code_simp

text \<open>The run of the sample list: a failure and two successes.\<close>

lemma sample_run_of:
  obtains tasks' rn' where "run_of sample_env [0, 1, 2] sample_list sample_peer sample_runner tasks' rn'"
    and "map (\<lambda>k. (cr_success (the (tk_result k)), cr_error_code (the (tk_result k)))) tasks' = [(False, -1), (True, 0), (True, 0)]"
    and "map tk_strategy tasks' = [STRATEGY_TCP_PUNCH, STRATEGY_UPNP, STRATEGY_IPV6_DIRECT]" and "pb_socket (rn_probe rn') = -1"
proof -
  obtain tasks rn1 tasks' rn' where x: "sample_start = Some (tasks, rn1)" "length tasks = 3"
    "run_threads sample_env sample_peer [0, 1, 2] tasks rn1 = Some (tasks', rn')"
    and r: "map (\<lambda>k. (cr_success (the (tk_result k)), cr_error_code (the (tk_result k)))) tasks' = [(False, -1), (True, 0), (True, 0)]"
    "map tk_strategy tasks' = [STRATEGY_TCP_PUNCH, STRATEGY_UPNP, STRATEGY_IPV6_DIRECT]" "pb_socket (rn_probe rn') = -1"
    using sample_run_results by (cases sample_start) (auto simp: map_option_eq_Some)
  have "schedule [0, 1, 2] (length tasks)" using x(2) by (auto simp: schedule_def)
  then have "run_of sample_env [0, 1, 2] sample_list sample_peer sample_runner tasks' rn'"
    using x by (auto simp: run_of_def sample_start_def sample_list_def)
  then show thesis by (rule that) (rule r)+
qed

lemma sample_upnp_ok: "upnp_ok (rn_upnp sample_runner)"
  by (simp add: sample_runner_def upnp_ok_def fresh_upnp_def gateway_fits_def zero_gateway_def UPNP_MAX_RETRY_def)

lemma sample_tasks:
  assumes "map (\<lambda>k. (cr_success (the (tk_result k)), cr_error_code (the (tk_result k)))) tasks' = [(False, -1), (True, 0), (True, 0)]"
    and "run_of sample_env [0, 1, 2] sample_list sample_peer sample_runner tasks' rn'"
  shows "length tasks' = 3" "\<exists>r0. tk_result (tasks' ! 0) = Some r0 \<and> \<not> cr_success r0 \<and> cr_error_code r0 = -1"
proof -
  show "length tasks' = 3" using arg_cong [OF assms(1), of length] by simp
  then have "tasks' ! 0 \<in> set tasks'" by simp
  then obtain r0 where "tk_result (tasks' ! 0) = Some r0" using run_of_frame [OF assms(2) sample_upnp_ok] by blast
  then show "\<exists>r0. tk_result (tasks' ! 0) = Some r0 \<and> \<not> cr_success r0 \<and> cr_error_code r0 = -1"
    using arg_cong [OF assms(1), of hd] \<open>length tasks' = 3\<close> by (cases tasks') auto
qed

theorem first_failure_hides_success_witness:
  "\<exists>tasks' rn' r0. run_of sample_env [0, 1, 2] sample_list sample_peer sample_runner tasks' rn' \<and> \<not> cr_success r0
    \<and> parallel_run sample_env [0, 1, 2] (replicate 3 (False, [True, True, True])) (Some sample_list) (Some sample_peer) (Some zero_result) sample_runner
      = Some (Some (-1, Some r0), rn') \<and> cr_success (the (tk_result (tasks' ! 1)))"
proof -
  obtain tasks' rn' where r: "run_of sample_env [0, 1, 2] sample_list sample_peer sample_runner tasks' rn'"
    "map (\<lambda>k. (cr_success (the (tk_result k)), cr_error_code (the (tk_result k)))) tasks' = [(False, -1), (True, 0), (True, 0)]"
    by (rule sample_run_of)
  from sample_tasks [OF r(2,1)] obtain r0 where t: "length tasks' = 3" "tk_result (tasks' ! 0) = Some r0" "\<not> cr_success r0" "cr_error_code r0 = -1" by blast
  have "cr_success (the (tk_result (tasks' ! 1)))"
    using arg_cong [OF r(2), of "\<lambda>l. fst (l ! 1)"] t(1) by simp
  moreover have "parallel_run sample_env [0, 1, 2] (replicate 3 (False, [True, True, True])) (Some sample_list) (Some sample_peer) (Some zero_result) sample_runner
      = Some (Some (-1, Some r0), rn')"
    by (rule first_failure_hides_success [OF r(1) sample_upnp_ok t(2) _ t(3)]) (use t in auto)
  ultimately show ?thesis using r(1) t(3) by blast
qed

theorem parallel_run_leaks_witness:
  "\<exists>x rn'. parallel_run sample_env [0, 1, 2] [(True, [])] (Some sample_list) (Some sample_peer) (Some zero_result) sample_runner = Some (x, rn')
    \<and> length (sk_open (rn_net rn')) = 2"
proof -
  obtain tasks' rn' where r: "run_of sample_env [0, 1, 2] sample_list sample_peer sample_runner tasks' rn'"
    "map (\<lambda>k. (cr_success (the (tk_result k)), cr_error_code (the (tk_result k)))) tasks' = [(False, -1), (True, 0), (True, 0)]"
    "map tk_strategy tasks' = [STRATEGY_TCP_PUNCH, STRATEGY_UPNP, STRATEGY_IPV6_DIRECT]" "pb_socket (rn_probe rn') = -1"
    by (rule sample_run_of)
  obtain x where p: "parallel_run sample_env [0, 1, 2] [(True, [])] (Some sample_list) (Some sample_peer) (Some zero_result) sample_runner = Some (x, rn')"
    using run_of_parallel_run [OF r(1), of "[(True, [])]" zero_result] by (auto split: option.splits)
  obtain a b c where abc: "tasks' = [a, b, c]" using sample_tasks(1) [OF r(2,1)] by (auto simp: numeral_3_eq_3 length_Suc_conv)
  have "\<forall>k \<in> set tasks'. tk_result k \<noteq> None" using run_of_frame [OF r(1) sample_upnp_ok] by auto
  then have "sum_list (map left_open tasks') = 1" using r(2,3) by (auto simp: abc left_open_def held_by_def)
  then show ?thesis
    using parallel_run_leaks [OF r(1) sample_upnp_ok p] p r(4) by (auto simp: sample_runner_def one_socket_def)
qed

theorem parallel_run_result_witness:
  "\<exists>rn' res. parallel_run sample_env [0, 1, 2] [(False, [False, True, True])] (Some sample_list) (Some sample_peer) (Some zero_result) sample_runner
      = Some (Some (0, Some res), rn') \<and> cr_success res \<and> cr_strategy res \<in> set (strategies_of sample_list)"
proof -
  obtain tasks' rn' where r: "run_of sample_env [0, 1, 2] sample_list sample_peer sample_runner tasks' rn'"
    "map (\<lambda>k. (cr_success (the (tk_result k)), cr_error_code (the (tk_result k)))) tasks' = [(False, -1), (True, 0), (True, 0)]"
    by (rule sample_run_of)
  obtain a b c where abc: "tasks' = [a, b, c]" using sample_tasks(1) [OF r(2,1)] by (auto simp: numeral_3_eq_3 length_Suc_conv)
  have "wait_any (map (the \<circ> tk_result) tasks') 0 [(False, [False, True, True])] = Some (Some 1)"
    using r(2) by (simp add: abc first_done_def is_done_def upt_rec)
  then have "parallel_run sample_env [0, 1, 2] [(False, [False, True, True])] (Some sample_list) (Some sample_peer) (Some zero_result) sample_runner
      = Some (Some (0, tk_result (tasks' ! 1)), rn')"
    using run_of_parallel_run [OF r(1), of "[(False, [False, True, True])]" zero_result] by simp
  from parallel_run_result [OF r(1) sample_upnp_ok this] this show ?thesis by auto
qed

theorem parallel_run_ends_witness:
  "\<exists>rn' rc res. parallel_run sample_env [0, 1, 2] ([(False, [])] @ replicate 3 (False, [True, True, True])) (Some sample_list) (Some sample_peer)
      (Some zero_result) sample_runner = Some (Some (rc, res), rn')"
proof -
  obtain tasks' rn' where r: "run_of sample_env [0, 1, 2] sample_list sample_peer sample_runner tasks' rn'"
    "map (\<lambda>k. (cr_success (the (tk_result k)), cr_error_code (the (tk_result k)))) tasks' = [(False, -1), (True, 0), (True, 0)]"
    by (rule sample_run_of)
  have l: "length tasks' = 3" by (rule sample_tasks(1) [OF r(2,1)])
  have "\<forall>t \<in> set (strategies_of sample_list). get_executor t \<noteq> None"
    by (simp add: strategies_of_def sample_list_def MAX_STRATEGIES_def get_executor_def g_executors_def)
  moreover have "re_errno sample_env k \<noteq> 0" for k by (simp add: sample_env_def)
  moreover have "\<forall>(cancelled, finished) \<in> set (replicate 3 (False, [True, True, True])). \<exists>i < length tasks'. finished ! i"
    using l by (auto intro!: exI [of _ 0])
  ultimately have "\<exists>rc res. parallel_run sample_env [0, 1, 2] ([(False, [])] @ replicate 3 (False, [True, True, True])) (Some sample_list)
      (Some sample_peer) (Some zero_result) sample_runner = Some (Some (rc, res), rn')"
    using parallel_run_ends [OF r(1) sample_upnp_ok, of "replicate 3 (False, [True, True, True])" "[(False, [])]" zero_result] l by simp
  then show ?thesis by blast
qed

text \<open>Five runs of three strategies fit, the sixth does not.\<close>

theorem task_table_overrun_witness:
  "parallel_run sample_env [0, 1, 2] [] (Some sample_list) (Some sample_peer) (Some zero_result) (sample_runner\<lparr>rn_task_count := 15\<rparr>) = None"
proof -
  have "length (strategies_of sample_list) = 3" by (simp add: strategies_of_def sample_list_def MAX_STRATEGIES_def)
  moreover have "upnp_ok (rn_upnp (sample_runner\<lparr>rn_task_count := 15\<rparr>))" using sample_upnp_ok by (simp add: sample_runner_def)
  ultimately show ?thesis
    using task_table_overrun [of sample_env "sample_runner\<lparr>rn_task_count := 15\<rparr>" sample_list]
    by (simp add: sample_env_def quiet_net_def MAX_STRATEGIES_def) (simp add: sample_list_def)
qed

lemma none_run_results:
  "map_option (\<lambda>(tasks, rn). (length tasks, run_threads sample_env sample_peer [0] tasks rn \<noteq> None))
     (start_tasks sample_env [STRATEGY_NONE] (sample_runner\<lparr>rn_cancelled := False\<rparr>)) = Some (1, True)"
  by code_simp

theorem unknown_strategy_never_ends_witness:
  "\<exists>rn'. parallel_run_single sample_env [0] (replicate 1000 (False, [True])) STRATEGY_NONE (Some sample_peer) (Some zero_result) sample_runner
    = Some (None, rn')"
proof -
  obtain tasks rn1 tasks' rn' where x: "start_tasks sample_env [STRATEGY_NONE] (sample_runner\<lparr>rn_cancelled := False\<rparr>) = Some (tasks, rn1)"
    "length tasks = 1" "run_threads sample_env sample_peer [0] tasks rn1 = Some (tasks', rn')"
    using none_run_results by (auto simp: map_option_eq_Some)
  then have "run_of sample_env [0] \<lparr>sl_strategies = [STRATEGY_NONE], sl_count = 1\<rparr> sample_peer sample_runner tasks' rn'"
    by (auto simp: run_of_def strategies_of_def MAX_STRATEGIES_def schedule_def)
  moreover have "get_executor STRATEGY_NONE = None" by (simp add: get_executor_def g_executors_def)
  ultimately show ?thesis
    using unknown_strategy_never_ends [of sample_env "[0]" STRATEGY_NONE sample_peer sample_runner tasks' rn' "replicate 1000 (False, [True])" zero_result]
    by fastforce
qed

end
