(* ===== verification/Dht_Impl.thy ===== *)
theory Dht_Impl
  imports Sockets
begin

text \<open>
  \<^verbatim>\<open>dht_impl.c\<close>: what the DHT library asks its host for.  The hash that turns the name
  of a peer into its place in the DHT, and the list of addresses that are not talked to.
\<close>

unbundle bit_operations_syntax

section \<open>The hash\<close>

definition fnv_step :: "64 word \<Rightarrow> byte \<Rightarrow> 64 word" where
  "fnv_step h b = (let h = (h XOR ucast b) * 0x01000193 in h XOR drop_bit 32 h)"

text \<open>A \<open>NULL\<close> or empty input leaves the state alone.\<close>

definition fnv_data :: "64 word \<Rightarrow> byte list \<Rightarrow> 64 word" where
  "fnv_data h data = foldl fnv_step h data"

definition fnv_state :: "byte list \<Rightarrow> byte list \<Rightarrow> byte list \<Rightarrow> 64 word" where
  "fnv_state v1 v2 v3 = fnv_data (fnv_data (fnv_data 0x811c9dc5c8f5e5dd v1) v2) v3"

text \<open>
  The bytes from the ninth on are shifted by 64 or more, which C leaves undefined: \<open>shr\<close> is what
  the compiled program makes of a shift.
\<close>

type_synonym shifter = "64 word \<Rightarrow> nat \<Rightarrow> 64 word"

definition dht_hash :: "shifter \<Rightarrow> int \<Rightarrow> byte list \<Rightarrow> byte list \<Rightarrow> byte list \<Rightarrow> byte list" where
  "dht_hash shr hash_size v1 v2 v3 =
    (if hash_size \<le> 0 then []
     else
       let h = fnv_state v1 v2 v3; n = nat hash_size in
       map (\<lambda>i. ucast (shr h (i * 8) AND 0xFF)) [0..<min n 20] @ replicate (n - 20) 0)"

definition shift_ok :: "shifter \<Rightarrow> bool" where
  "shift_ok shr \<longleftrightarrow> (\<forall>h n. n < 64 \<longrightarrow> shr h n = drop_bit n h)"

text \<open>The shift instruction of x86-64 takes its count modulo 64.\<close>

definition shr_x86 :: shifter where
  "shr_x86 h n = drop_bit (n mod 64) h"

section \<open>The blacklist\<close>

definition MAX_BLACKLIST :: nat where "MAX_BLACKLIST = 64"

text \<open>\<open>be_addr\<close> are the first \<open>addrlen\<close> bytes of the address, which are all that is compared.\<close>

record BlacklistEntry =
  be_addr :: "byte list"
  be_added_at :: int

definition SOCKADDR_STORAGE :: nat where "SOCKADDR_STORAGE = 128"

text \<open>The list is the used prefix of the array.  \<open>None\<close> is a copy past the end of an entry.\<close>

fun oldest_from :: "BlacklistEntry list \<Rightarrow> nat \<Rightarrow> nat list \<Rightarrow> nat" where
  "oldest_from bl oldest [] = oldest"
| "oldest_from bl oldest (i # is) =
     oldest_from bl (if be_added_at (bl ! i) < be_added_at (bl ! oldest) then i else oldest) is"

definition dht_blacklist_add :: "int \<Rightarrow> byte list option \<Rightarrow> BlacklistEntry list \<Rightarrow> BlacklistEntry list option" where
  "dht_blacklist_add t sa bl = (case sa of
      None \<Rightarrow> Some bl
    | Some a \<Rightarrow>
        if a = [] then Some bl
        else (case find_index (\<lambda>e. be_addr e = a) bl of
            Some i \<Rightarrow> Some (bl[i := (bl ! i)\<lparr>be_added_at := t\<rparr>])
          | None \<Rightarrow>
              if SOCKADDR_STORAGE < length a then None
              else if length bl < MAX_BLACKLIST then Some (bl @ [\<lparr>be_addr = a, be_added_at = t\<rparr>])
              else Some (bl[oldest_from bl 0 [1..<MAX_BLACKLIST] := \<lparr>be_addr = a, be_added_at = t\<rparr>])))"

definition dht_blacklist_check :: "byte list option \<Rightarrow> BlacklistEntry list \<Rightarrow> int" where
  "dht_blacklist_check sa bl = (case sa of
      None \<Rightarrow> 0
    | Some a \<Rightarrow> if a = [] then 0 else if find_index (\<lambda>e. be_addr e = a) bl \<noteq> None then 1 else 0)"

definition dht_blacklisted :: "byte list option \<Rightarrow> BlacklistEntry list \<Rightarrow> int" where
  "dht_blacklisted sa bl = dht_blacklist_check sa bl"

definition dht_blacklist_clear :: "BlacklistEntry list \<Rightarrow> BlacklistEntry list" where
  "dht_blacklist_clear bl = []"

section \<open>Random bytes and datagrams\<close>

text \<open>\<open>fill\<close> is what \<open>getrandom\<close> wrote when it filled the buffer; otherwise \<open>rand\<close> is drawn for each byte.\<close>

definition dht_random_bytes :: "net_env \<Rightarrow> byte list option \<Rightarrow> bool \<Rightarrow> nat \<Rightarrow> sockets \<Rightarrow> int \<times> byte list \<times> sockets" where
  "dht_random_bytes env fill buf n s =
    (if \<not> buf \<or> n = 0 then (-1, [], s)
     else (case fill of
         Some bs \<Rightarrow> (0, bs, s)
       | None \<Rightarrow> (0, map (\<lambda>i. word_of_int (ne_rand env (sk_calls s + i) mod 256)) [0..<n], s\<lparr>sk_calls := sk_calls s + n\<rparr>)))"

definition dht_sendto :: "net_env \<Rightarrow> int \<Rightarrow> byte list option \<Rightarrow> sockaddr option \<Rightarrow> sockets \<Rightarrow> int \<times> sockets" where
  "dht_sendto env sockfd buf dest s = (case (buf, dest) of
      (Some bs, Some a) \<Rightarrow>
        if sockfd < 0 \<or> bs = [] then (-1, s)
        else let (sent, s) = send_to env sockfd (Some a) bs s in (if sent then int (length bs) else -1, s)
    | _ \<Rightarrow> (-1, s))"

section \<open>Properties of the hash\<close>

lemma fnv_inverse: "(0x01000193 * 0x87b58b5d359c449b :: 64 word) = 1"
  by code_simp

lemma fnv_multiplier: "(h * 0x01000193) * 0x87b58b5d359c449b = (h :: 64 word)"
  by (simp only: mult.assoc fnv_inverse mult_1_right)

lemma xorshift_undo: "(h XOR drop_bit 32 h) XOR drop_bit 32 (h XOR drop_bit 32 h) = (h :: 64 word)"
  by (rule bit_word_eqI) (auto simp: bit_simps)

lemma fnv_step_inj: "fnv_step h b = fnv_step h' b' \<longleftrightarrow> h XOR ucast b = h' XOR ucast b'"
proof
  assume "fnv_step h b = fnv_step h' b'"
  then have "(h XOR ucast b) * 0x01000193 = (h' XOR ucast b') * 0x01000193"
    unfolding fnv_step_def Let_def by (metis xorshift_undo)
  then show "h XOR ucast b = h' XOR ucast b'" by (metis fnv_multiplier)
qed (simp add: fnv_step_def)

lemma xor_cancel: "(h :: 64 word) XOR x = h XOR y \<longleftrightarrow> x = y"
proof
  assume "h XOR x = h XOR y"
  then have "h XOR (h XOR x) = h XOR (h XOR y)" by simp
  then show "x = y" by (simp flip: xor.assoc)
qed simp

lemma xor_cancel_right: "(x :: 64 word) XOR h = y XOR h \<longleftrightarrow> x = y"
  using xor_cancel [of h x y] by (simp add: xor.commute)

lemma fnv_data_inj: "fnv_data h data = fnv_data h' data \<longleftrightarrow> h = h'"
  by (induction data arbitrary: h h') (simp_all add: fnv_data_def fnv_step_inj xor_cancel_right)

lemma fnv_data_append: "fnv_data h (xs @ ys) = fnv_data (fnv_data h xs) ys"
  by (simp add: fnv_data_def)

lemma ucast_byte_inj: "(ucast (b :: byte) :: 64 word) = ucast c \<longleftrightarrow> b = c"
proof
  assume e: "(ucast b :: 64 word) = ucast c"
  show "b = c"
  proof (rule bit_word_eqI)
    fix n assume "n < LENGTH(8)"
    then show "bit b n = bit c n" using arg_cong [OF e, of "\<lambda>w. bit w n"] by (simp add: bit_simps)
  qed
qed simp

lemma fnv_one_byte: "fnv_data h (xs @ b # ys) = fnv_data h (xs @ c # ys) \<longleftrightarrow> b = c"
proof -
  have "fnv_data h (xs @ x # ys) = fnv_data (fnv_step (fnv_data h xs) x) ys" for x
    by (simp add: fnv_data_def)
  then show ?thesis by (simp add: fnv_data_inj fnv_step_inj xor_cancel ucast_byte_inj)
qed

text \<open>The first eight bytes of a hash are the state.\<close>

lemma state_from_bytes:
  assumes "shift_ok shr" and "\<And>i. i < 8 \<Longrightarrow> (ucast (shr h (i * 8) AND 0xFF) :: byte) = ucast (shr h' (i * 8) AND 0xFF)"
  shows "h = h'"
proof (rule bit_word_eqI)
  fix n assume "n < LENGTH(64)"
  then have n: "n div 8 < 8" "n mod 8 < 8" "n = n div 8 * 8 + n mod 8" by simp_all
  have "bit (ucast (shr k (n div 8 * 8) AND 0xFF) :: byte) (n mod 8) = bit k n" for k
  proof -
    have "n div 8 * 8 < 64" using n(1) by simp
    then have "shr k (n div 8 * 8) = drop_bit (n div 8 * 8) k" using assms(1) by (simp add: shift_ok_def)
    moreover have m: "(0xFF :: 64 word) = mask 8" by (simp add: mask_eq_exp_minus_1)
    have "bit (0xFF :: 64 word) (n mod 8)" unfolding m using n(2) by (simp add: bit_mask_iff)
    moreover have "n mod 8 < 64" using n(2) by linarith
    ultimately show ?thesis using n by (auto simp: bit_simps)
  qed
  then show "bit h n = bit h' n" using assms(2) [OF n(1)] by metis
qed

text \<open>
  Two names have the same place in the DHT exactly when the 64 bits of their hash states agree,
  whatever the undefined shifts give, and names that differ in a single character never do.
\<close>

theorem dht_id_injective:
  assumes "shift_ok shr"
  shows "(dht_hash shr 20 a [] [] = dht_hash shr 20 b [] [] \<longleftrightarrow> fnv_state a [] [] = fnv_state b [] [])
    \<and> (dht_hash shr 20 (xs @ c # ys) [] [] = dht_hash shr 20 (xs @ d # ys) [] [] \<longleftrightarrow> c = d)"
proof -
  have e: "dht_hash shr 20 a [] [] = dht_hash shr 20 b [] [] \<longleftrightarrow> fnv_state a [] [] = fnv_state b [] []" for a b
  proof
    assume h: "dht_hash shr 20 a [] [] = dht_hash shr 20 b [] []"
    show "fnv_state a [] [] = fnv_state b [] []"
    proof (rule state_from_bytes [OF assms])
      fix i :: nat assume "i < 8"
      then show "(ucast (shr (fnv_state a [] []) (i * 8) AND 0xFF) :: byte) = ucast (shr (fnv_state b [] []) (i * 8) AND 0xFF)"
        using arg_cong [OF h, of "\<lambda>l. l ! i"] by (simp add: dht_hash_def Let_def del: upt_Suc)
    qed
  qed (simp add: dht_hash_def)
  show ?thesis unfolding e by (simp add: fnv_state_def fnv_data_def [of _ "[]"] fnv_one_byte)
qed

text \<open>
  An id has only 64 bits: compiled for x86-64 its bytes repeat with period eight, and the
  borders between the three inputs of the hash do not count.
\<close>

theorem dht_hash_repeats:
  "\<exists>b. length b = 8 \<and> dht_hash shr_x86 20 v1 v2 v3 = b @ b @ take 4 b
    \<and> dht_hash shr n v1 v2 v3 = dht_hash shr n (v1 @ v2 @ v3) [] []"
proof -
  let ?f = "\<lambda>i. ucast (drop_bit (i * 8) (fnv_state v1 v2 v3) AND 0xFF) :: byte"
  have "[0..<20] = [0..<8] @ map (\<lambda>i. i + 8) [0..<8] @ map (\<lambda>i. i + 16) [0..<4]" by code_simp
  moreover have "(i + 8) * 8 mod 64 = i * 8" "i * 8 mod 64 = i * 8" if "i < 8" for i :: nat using that by (simp_all add: add_mult_distrib mod_add_self2)
  moreover have "(i + 16) * 8 mod 64 = i * 8" if "i < 4" for i :: nat
  proof -
    have "(i + 16) * 8 = i * 8 + 2 * 64" by simp
    then show ?thesis using that by (simp only: mod_mult_self1) simp
  qed
  ultimately have "dht_hash shr_x86 20 v1 v2 v3 = map ?f [0..<8] @ map ?f [0..<8] @ map ?f [0..<4]"
    by (simp add: dht_hash_def Let_def shr_x86_def del: upt_Suc upt_rec_numeral)
  moreover have "map ?f [0..<4] = take 4 (map ?f [0..<8])" by (simp add: take_map del: upt_Suc upt_rec_numeral)
  moreover have "dht_hash shr n v1 v2 v3 = dht_hash shr n (v1 @ v2 @ v3) [] []"
    by (simp add: dht_hash_def fnv_state_def fnv_data_append fnv_data_def [of _ "[]"])
  ultimately show ?thesis by (intro exI [of _ "map ?f [0..<8]"]) (simp del: upt_Suc upt_rec_numeral)
qed

section \<open>The blacklist as a map\<close>

definition bl_map :: "BlacklistEntry list \<Rightarrow> byte list \<rightharpoonup> int" where
  "bl_map bl = map_of (map (\<lambda>e. (be_addr e, be_added_at e)) bl)"

definition wf_bl :: "BlacklistEntry list \<Rightarrow> bool" where
  "wf_bl bl \<longleftrightarrow> distinct (map be_addr bl) \<and> length bl \<le> MAX_BLACKLIST \<and> (\<forall>e \<in> set bl. be_addr e \<noteq> [])"

lemma dom_bl_map: "dom (bl_map bl) = be_addr ` set bl"
  by (force simp: bl_map_def dom_map_of_conv_image_fst)

lemma bl_map_nth: "wf_bl bl \<Longrightarrow> i < length bl \<Longrightarrow> bl_map bl (be_addr (bl ! i)) = Some (be_added_at (bl ! i))"
  unfolding bl_map_def wf_bl_def by (intro map_of_is_SomeI) (auto simp: comp_def)

lemma bl_map_update:
  assumes "wf_bl bl" and "i < length bl" and "\<And>j. j < length bl \<Longrightarrow> j \<noteq> i \<Longrightarrow> be_addr (bl ! j) \<noteq> a"
  shows "bl_map (bl[i := \<lparr>be_addr = a, be_added_at = t\<rparr>]) = (bl_map bl)(be_addr (bl ! i) := None, a \<mapsto> t)"
proof -
  have d: "distinct (map be_addr bl)" using assms(1) by (simp add: wf_bl_def)
  have s: "bl = take i bl @ bl ! i # drop (Suc i) bl" using assms(2) by (simp add: id_take_nth_drop)
  have n: "be_addr e \<noteq> a \<and> be_addr e \<noteq> be_addr (bl ! i)" if mem: "e \<in> set (take i bl) \<union> set (drop (Suc i) bl)" for e
  proof -
    have "\<exists>j. j < length bl \<and> j \<noteq> i \<and> e = bl ! j"
    proof (cases "e \<in> set (take i bl)")
      case True
      then obtain j where "j < i" "e = bl ! j" using assms(2) by (auto simp: in_set_conv_nth)
      then show ?thesis using assms(2) by (intro exI [of _ j]) auto
    next
      case False
      then obtain j where "j < length bl - Suc i" "e = bl ! (Suc i + j)" using mem assms(2) by (auto simp: in_set_conv_nth)
      then show ?thesis by (intro exI [of _ "Suc i + j"]) auto
    qed
    then obtain j where "j < length bl" "j \<noteq> i" "e = bl ! j" by blast
    then show ?thesis using assms(2,3) d by (auto simp: distinct_conv_nth)
  qed
  have u: "bl[i := x] = take i bl @ x # drop (Suc i) bl" for x using assms(2) by (simp add: upd_conv_take_nth_drop)
  have m: "bl_map (xs @ x # ys) = (bl_map ys)(be_addr x \<mapsto> be_added_at x) ++ bl_map xs" for xs x ys
    by (simp add: bl_map_def)
  have none: "bl_map (take i bl) k = None" "bl_map (drop (Suc i) bl) k = None" if "k = a \<or> k = be_addr (bl ! i)" for k
  proof -
    have "k \<notin> be_addr ` set (take i bl)" "k \<notin> be_addr ` set (drop (Suc i) bl)" using n that by blast+
    then show "bl_map (take i bl) k = None" "bl_map (drop (Suc i) bl) k = None" by (auto simp: bl_map_def map_of_eq_None_iff)
  qed
  show ?thesis
  proof
    fix k
    show "bl_map (bl[i := \<lparr>be_addr = a, be_added_at = t\<rparr>]) k = ((bl_map bl)(be_addr (bl ! i) := None, a \<mapsto> t)) k"
      using none [of k] m [of "take i bl" "bl ! i" "drop (Suc i) bl"] s
      by (auto simp: u m map_add_def split: option.split)
  qed
qed

lemma oldest_from_min:
  assumes "distinct is" and "oldest \<notin> set is"
  shows "oldest_from bl oldest is \<in> insert oldest (set is)
    \<and> (\<forall>i \<in> insert oldest (set is). be_added_at (bl ! oldest_from bl oldest is) \<le> be_added_at (bl ! i))"
  using assms
proof (induction "is" arbitrary: oldest)
  case (Cons i "is")
  let ?o = "if be_added_at (bl ! i) < be_added_at (bl ! oldest) then i else oldest"
  have "oldest_from bl ?o is \<in> insert ?o (set is)
      \<and> (\<forall>j \<in> insert ?o (set is). be_added_at (bl ! oldest_from bl ?o is) \<le> be_added_at (bl ! j))"
    using Cons by (auto split: if_splits)
  then show ?case by (fastforce split: if_splits)
qed simp

lemma oldest_entry:
  assumes "length bl = MAX_BLACKLIST"
  shows "oldest_from bl 0 [1..<MAX_BLACKLIST] < length bl
    \<and> (\<forall>e \<in> set bl. be_added_at (bl ! oldest_from bl 0 [1..<MAX_BLACKLIST]) \<le> be_added_at e)"
proof -
  have s: "insert 0 (set [1..<MAX_BLACKLIST]) = {..<length bl}" using assms by (auto simp: MAX_BLACKLIST_def)
  show ?thesis
    using oldest_from_min [of "[1..<MAX_BLACKLIST]" 0 bl] unfolding s by (auto simp: in_set_conv_nth)
qed

lemma card_dom_bl_map: "wf_bl bl \<Longrightarrow> card (dom (bl_map bl)) = length bl"
  unfolding dom_bl_map wf_bl_def by (metis distinct_card length_map set_map)

lemma wf_bl_update:
  "wf_bl bl \<Longrightarrow> i < length bl \<Longrightarrow> a \<noteq> [] \<Longrightarrow> (\<And>j. j < length bl \<Longrightarrow> j \<noteq> i \<Longrightarrow> be_addr (bl ! j) \<noteq> a)
    \<Longrightarrow> wf_bl (bl[i := \<lparr>be_addr = a, be_added_at = t\<rparr>])"
  by (auto simp: wf_bl_def distinct_conv_nth nth_list_update map_update dest!: subsetD [OF set_update_subset_insert])

lemma add_refines_map:
  assumes "wf_bl bl" and "a \<noteq> []" and "dht_blacklist_add t (Some a) bl = Some bl'"
  shows "wf_bl bl' \<and> (if a \<in> dom (bl_map bl) \<or> card (dom (bl_map bl)) < 64 then bl_map bl' = (bl_map bl)(a \<mapsto> t)
    else \<exists>b s. bl_map bl b = Some s \<and> (\<forall>s' \<in> ran (bl_map bl). s \<le> s') \<and> bl_map bl' = (bl_map bl)(b := None, a \<mapsto> t))"
proof (cases "find_index (\<lambda>e. be_addr e = a) bl")
  case (Some i)
  note i = find_index_SomeD [OF Some]
  have others: "be_addr (bl ! j) \<noteq> a" if "j < length bl" "j \<noteq> i" for j
    using assms(1) i that by (auto simp: wf_bl_def distinct_conv_nth)
  have e: "bl' = bl[i := \<lparr>be_addr = a, be_added_at = t\<rparr>]" using assms(2,3) Some i by (cases "bl ! i") (auto simp: dht_blacklist_add_def)
  have "a \<in> dom (bl_map bl)" using i by (auto simp: dom_bl_map)
  moreover have "(bl_map bl)(be_addr (bl ! i) := None, a \<mapsto> t) = (bl_map bl)(a \<mapsto> t)" using i by auto
  ultimately show ?thesis
    using bl_map_update [OF assms(1) _ others, of i] wf_bl_update [OF assms(1) _ assms(2) others] i e by simp
next
  case None
  then have new: "be_addr e \<noteq> a" if "e \<in> set bl" for e using that by (auto simp: find_index_None)
  then have nd: "a \<notin> dom (bl_map bl)" by (auto simp: dom_bl_map)
  show ?thesis
  proof (cases "length bl < MAX_BLACKLIST")
    case True
    then have e: "bl' = bl @ [\<lparr>be_addr = a, be_added_at = t\<rparr>]" using assms(2,3) None by (auto simp: dht_blacklist_add_def split: if_splits)
    have "bl_map bl' = (bl_map bl)(a \<mapsto> t)"
    proof
      fix k show "bl_map bl' k = ((bl_map bl)(a \<mapsto> t)) k"
        using nd by (auto simp: e bl_map_def map_add_def domIff split: option.split)
    qed
    moreover have "wf_bl bl'" using assms(1,2) new True by (auto simp: e wf_bl_def)
    ultimately show ?thesis using True card_dom_bl_map [OF assms(1)] by (simp add: MAX_BLACKLIST_def)
  next
    case False
    then have l: "length bl = MAX_BLACKLIST" using assms(1) by (simp add: wf_bl_def)
    let ?o = "oldest_from bl 0 [1..<MAX_BLACKLIST]"
    note o = oldest_entry [OF l]
    have e: "bl' = bl[?o := \<lparr>be_addr = a, be_added_at = t\<rparr>]"
      using assms(2,3) None False by (auto simp: dht_blacklist_add_def split: if_splits)
    have others: "be_addr (bl ! j) \<noteq> a" if "j < length bl" for j using new that by simp
    have "\<forall>s' \<in> ran (bl_map bl). be_added_at (bl ! ?o) \<le> s'"
      using o by (auto simp: ran_def bl_map_def dest!: map_of_SomeD)
    moreover have "\<not> card (dom (bl_map bl)) < 64" using card_dom_bl_map [OF assms(1)] l by (simp add: MAX_BLACKLIST_def)
    moreover have "wf_bl bl'" "bl_map bl' = (bl_map bl)(be_addr (bl ! ?o) := None, a \<mapsto> t)"
      using o bl_map_update [OF assms(1) _ others, of ?o] wf_bl_update [OF assms(1) _ assms(2) others, of ?o] by (simp_all add: e)
    moreover have "bl_map bl (be_addr (bl ! ?o)) = Some (be_added_at (bl ! ?o))" using bl_map_nth [OF assms(1)] o by simp
    ultimately show ?thesis using nd by auto
  qed
qed

text \<open>
  C40: adding an address refines the update of a map with at most 64 entries: a known address and
  a list with room take the new time, and a full list first loses an address that nobody was
  added before.
\<close>

theorem blacklist_add_refines_map:
  assumes "wf_bl bl" and "a \<noteq> []" and "dht_blacklist_add t (Some a) bl = Some bl'"
  shows "wf_bl bl' \<and> (if a \<in> dom (bl_map bl) \<or> card (dom (bl_map bl)) < 64 then bl_map bl' = (bl_map bl)(a \<mapsto> t)
    else \<exists>b s. bl_map bl b = Some s \<and> (\<forall>s' \<in> ran (bl_map bl). s \<le> s') \<and> bl_map bl' = (bl_map bl)(b := None, a \<mapsto> t))"
  by (rule add_refines_map [OF assms])

section \<open>The blacklist as a filter\<close>

text \<open>What the DHT library relies on: an address added is listed, and no other becomes listed.\<close>

locale address_filter =
  fixes add :: "int \<Rightarrow> byte list \<Rightarrow> 's \<Rightarrow> 's option" and listed :: "byte list \<Rightarrow> 's \<Rightarrow> bool" and ok :: "'s \<Rightarrow> bool"
  assumes add_ok: "ok s \<Longrightarrow> a \<noteq> [] \<Longrightarrow> add t a s = Some s' \<Longrightarrow> ok s'"
    and add_listed: "ok s \<Longrightarrow> a \<noteq> [] \<Longrightarrow> add t a s = Some s' \<Longrightarrow> listed a s'"
    and add_others: "ok s \<Longrightarrow> a \<noteq> [] \<Longrightarrow> add t a s = Some s' \<Longrightarrow> listed b s' \<Longrightarrow> b = a \<or> listed b s"
begin

lemma listed_was_added:
  assumes "ok s" and "\<forall>(t, a) \<in> set as. a \<noteq> []" and "fold (\<lambda>(t, a) s. Option.bind s (add t a)) as (Some s) = Some s'"
  shows "ok s' \<and> (\<forall>b. listed b s' \<longrightarrow> listed b s \<or> b \<in> snd ` set as) \<and> (as \<noteq> [] \<longrightarrow> listed (snd (last as)) s')"
  using assms(2,3)
proof (induction as arbitrary: s' rule: rev_induct)
  case Nil
  then show ?case using assms(1) by simp
next
  case (snoc x as)
  obtain t a where x: "x = (t, a)" by (rule prod.exhaust)
  obtain s1 where s1: "fold (\<lambda>(t, a) s. Option.bind s (add t a)) as (Some s) = Some s1" "add t a s1 = Some s'"
    using snoc.prems(2) x by (auto split: Option.bind_splits)
  have "ok s1 \<and> (\<forall>b. listed b s1 \<longrightarrow> listed b s \<or> b \<in> snd ` set as)" "a \<noteq> []"
    using snoc.IH [OF _ s1(1)] snoc.prems(1) x by auto
  then show ?case using add_ok [OF _ _ s1(2)] add_listed [OF _ _ s1(2)] add_others [OF _ _ s1(2)] x by auto
qed

end

lemma blacklist_check_dom: "a \<noteq> [] \<Longrightarrow> dht_blacklist_check (Some a) bl = 1 \<longleftrightarrow> a \<in> dom (bl_map bl)"
  by (auto simp: dht_blacklist_check_def find_index_None dom_bl_map)

interpretation blacklist: address_filter "\<lambda>t a. dht_blacklist_add t (Some a)" "\<lambda>a bl. dht_blacklist_check (Some a) bl = 1" wf_bl
proof
  fix bl a t bl'
  assume bl: "wf_bl bl" "a \<noteq> []" "dht_blacklist_add t (Some a) bl = Some bl'"
  note r = add_refines_map [OF bl]
  show "wf_bl bl'" using r by blast
  show "dht_blacklist_check (Some a) bl' = 1" unfolding blacklist_check_dom [OF bl(2)] using r by (auto split: if_splits)
  fix b assume b: "dht_blacklist_check (Some b) bl' = 1"
  then have "b \<noteq> []" by (auto simp: dht_blacklist_check_def)
  then show "b = a \<or> dht_blacklist_check (Some b) bl = 1"
    using b r by (auto simp: blacklist_check_dom split: if_splits)
qed

text \<open>
  After the list was cleared, only addresses that were added since are listed, and the one
  added last always is.
\<close>

theorem blacklist_since_clear:
  assumes "\<forall>(t, a) \<in> set as. a \<noteq> []"
    and "fold (\<lambda>(t, a) bl. Option.bind bl (dht_blacklist_add t (Some a))) as (Some (dht_blacklist_clear bl)) = Some bl'"
  shows "(\<forall>b. dht_blacklisted (Some b) bl' = 1 \<longrightarrow> b \<in> snd ` set as)
    \<and> (as \<noteq> [] \<longrightarrow> dht_blacklisted (Some (snd (last as))) bl' = 1)"
proof -
  have c: "wf_bl (dht_blacklist_clear bl)" by (simp add: dht_blacklist_clear_def wf_bl_def)
  have n: "dht_blacklist_check (Some b) (dht_blacklist_clear bl) \<noteq> 1" for b
    by (simp add: dht_blacklist_check_def dht_blacklist_clear_def)
  from blacklist.listed_was_added [OF c assms] n show ?thesis unfolding dht_blacklisted_def by blast
qed

end
