(* ===== verification/Dht_Node.thy ===== *)
theory Dht_Node
  imports Dht_Impl Identity_Store
begin

text \<open>
  \<^verbatim>\<open>dht_node.c\<close> and \<^verbatim>\<open>bootstrap.c\<close>: the node that announces and looks up peers, and the
  addresses through which it joins the network.  The library of \<^verbatim>\<open>dht.c\<close> is seen through its
  interface: \<open>dht_world\<close> says whether it is initialised, which addresses it was given and
  which searches it was asked for, and the record \<open>dht_env\<close> says how it answers, what the name
  service answers and what the node's thread receives while a lookup waits.

  As elsewhere \<open>None\<close> is a copy past the end of an array.
\<close>

section \<open>The first nodes\<close>

definition BOOTSTRAP_NODES :: nat where "BOOTSTRAP_NODES = 6"

record BootstrapNode =
  bn_host :: string
  bn_port :: int
  bn_ip :: string

definition bootstrap_nodes :: "BootstrapNode list" where
  "bootstrap_nodes = map (\<lambda>h. \<lparr>bn_host = h, bn_port = 6881, bn_ip = []\<rparr>)
    [''router.bittorrent.com'', ''dht.transmissionbt.com'', ''router.utorrent.com'', ''dht.aelitis.com'',
     ''bootstrap.jami.net'', ''dht.libtorrent.org'']"

definition fallback_ips :: "string list" where
  "fallback_ips = [''83.236.216.176'', ''162.159.192.33'', ''104.244.79.180'', ''5.45.84.215'',
     ''51.222.100.206'', ''144.217.249.33'']"

text \<open>\<open>dns\<close> is what \<open>getaddrinfo\<close> answers; 16 bytes hold every IPv4 address.\<close>

definition resolve_host :: "(string \<Rightarrow> addr list option) \<Rightarrow> string \<Rightarrow> string option" where
  "resolve_host dns host = (case dns host of
      None \<Rightarrow> None
    | Some [] \<Rightarrow> None
    | Some (a # _) \<Rightarrow> Some (ntop a))"

definition bootstrap_init :: "(string \<Rightarrow> addr list option) \<Rightarrow> BootstrapNode list \<Rightarrow> BootstrapNode list" where
  "bootstrap_init dns nodes = map (\<lambda>(n, fallback). n\<lparr>bn_ip := (case resolve_host dns (bn_host n) of
      None \<Rightarrow> fallback | Some ip \<Rightarrow> ip)\<rparr>) (zip nodes fallback_ips)"

definition bootstrap_get_node :: "int \<Rightarrow> BootstrapNode list \<Rightarrow> int \<times> BootstrapNode option" where
  "bootstrap_get_node i nodes =
    (if i < 0 \<or> int BOOTSTRAP_NODES \<le> i then (-1, None) else (0, Some (nodes ! nat i)))"

section \<open>The library\<close>

definition DHT_EVENT_VALUES :: int where "DHT_EVENT_VALUES = 1"
definition DHT_EVENT_VALUES6 :: int where "DHT_EVENT_VALUES6 = 2"

record dht_event =
  ev_kind :: int
  ev_hash :: "byte list"
  ev_bytes :: "byte list"

text \<open>A round of the node's thread: what \<open>select\<close> and \<open>recvfrom\<close> return and the library reports.\<close>

record dht_round =
  dr_select :: int
  dr_len :: int
  dr_packet :: "dht_event list"
  dr_idle :: "dht_event list"

record dht_world =
  dw_net :: sockets
  dw_nodes :: "BootstrapNode list"
  dw_up :: bool
  dw_inserted :: "(byte list \<times> sockaddr) list"
  dw_searches :: "(byte list \<times> int) list"

record dht_env =
  dv_net :: net_env
  dv_shr :: shifter
  dv_pid :: int
  dv_calloc :: bool
  dv_init :: bool
  dv_search :: "int \<times> dht_event list"
  dv_rounds :: "(int \<times> dht_round list) list"

text \<open>\<open>dht_init\<close> refuses while the library is in use.\<close>

definition dht_init :: "dht_env \<Rightarrow> dht_world \<Rightarrow> int \<times> dht_world" where
  "dht_init env w = (if dw_up w then (-1, w) else if dv_init env then (1, w\<lparr>dw_up := True\<rparr>) else (-1, w))"

definition dht_uninit :: "dht_world \<Rightarrow> dht_world" where
  "dht_uninit w = w\<lparr>dw_up := False\<rparr>"

definition read_clock :: "dht_env \<Rightarrow> dht_world \<Rightarrow> int \<times> dht_world" where
  "read_clock env w = (let (t, s) = now (dv_net env) (dw_net w) in (t, w\<lparr>dw_net := s\<rparr>))"

text \<open>The id under which something is filed in the DHT.\<close>

definition dht_id :: "dht_env \<Rightarrow> string \<Rightarrow> byte list" where
  "dht_id env name = dht_hash (dv_shr env) 20 (string_bytes name) [] []"

definition insert_bootstrap :: "dht_env \<Rightarrow> int \<Rightarrow> dht_world \<Rightarrow> dht_world" where
  "insert_bootstrap env i w = (case bootstrap_get_node i (dw_nodes w) of
      (rc, Some n) \<Rightarrow>
        if rc = 0 \<and> length (bn_ip n) > 0 then
          let (t, w) = read_clock env w;
              seed = snprintf_into 64 (bn_ip n @ '':'' @ dec_int (bn_port n) @ '':'' @ dec_int t)
          in w\<lparr>dw_inserted := dw_inserted w @ [(dht_id env seed, sock_addr (bn_ip n) (bn_port n))]\<rparr>
        else w
    | _ \<Rightarrow> w)"

definition bootstrap_connect_dht :: "dht_env \<Rightarrow> dht_world \<Rightarrow> dht_world" where
  "bootstrap_connect_dht env w = fold (insert_bootstrap env) (map int [0..<BOOTSTRAP_NODES]) w"

section \<open>The node\<close>

definition DHT_NODE_PORT :: int where "DHT_NODE_PORT = 33446"
definition DHT_LOOKUP_TIMEOUT :: int where "DHT_LOOKUP_TIMEOUT = 20"

text \<open>\<open>dn_thread\<close> says that the node's thread is still in its loop.\<close>

record DHTNode =
  dn_udp_socket :: int
  dn_port :: int
  dn_running :: bool
  dn_thread :: bool
  dn_my_dht_id :: "byte list"
  dn_my_orcashi_id :: string
  dn_my_port :: int
  dn_announced :: bool
  dn_secure_mode :: bool
  dn_public_key :: string
  dn_signature :: string
  dn_lookup_id :: string
  dn_lookup_ip :: string
  dn_lookup_port :: int
  dn_lookup_public_key :: string
  dn_lookup_signature :: string
  dn_lookup_done :: bool
  dn_lookup_secure :: bool
  dn_lookup_start :: int
  dn_lookup_timeout :: int
  dn_bootstrap_done :: bool

definition new_node :: DHTNode where
  "new_node = \<lparr>dn_udp_socket = -1, dn_port = DHT_NODE_PORT, dn_running = False, dn_thread = False,
     dn_my_dht_id = replicate 20 0, dn_my_orcashi_id = [], dn_my_port = 0, dn_announced = False, dn_secure_mode = False,
     dn_public_key = [], dn_signature = [], dn_lookup_id = [], dn_lookup_ip = [], dn_lookup_port = 0,
     dn_lookup_public_key = [], dn_lookup_signature = [], dn_lookup_done = False, dn_lookup_secure = False,
     dn_lookup_start = 0, dn_lookup_timeout = DHT_LOOKUP_TIMEOUT, dn_bootstrap_done = False\<rparr>"

definition dht_node_create :: "dht_env \<Rightarrow> DHTNode option" where
  "dht_node_create env = (if dv_calloc env then Some new_node else None)"

definition dht_node_stop :: "DHTNode \<Rightarrow> dht_world \<Rightarrow> DHTNode \<times> dht_world" where
  "dht_node_stop n w =
    (if \<not> dn_running n then (n, w) else (n\<lparr>dn_running := False, dn_thread := False\<rparr>, dht_uninit w))"

definition dht_node_destroy :: "DHTNode \<Rightarrow> dht_world \<Rightarrow> dht_world" where
  "dht_node_destroy n w =
    (let (n, w) = dht_node_stop n w in
     if 0 \<le> dn_udp_socket n then w\<lparr>dw_net := close_socket (dn_udp_socket n) (dw_net w)\<rparr> else w)"

definition dht_node_start :: "dht_env \<Rightarrow> DHTNode \<Rightarrow> int \<Rightarrow> dht_world \<Rightarrow> int \<times> DHTNode \<times> dht_world" where
  "dht_node_start env n port w =
    (let (d, s) = open_socket (dv_net env) (dw_net w);
         n = n\<lparr>dn_port := port, dn_udp_socket := d\<rparr>;
         w = w\<lparr>dw_net := s\<rparr>;
         shut = (\<lambda>n w. (-1, n\<lparr>dn_udp_socket := -1\<rparr>, w\<lparr>dw_net := close_socket d (dw_net w)\<rparr>))
     in if d < 0 then (-1, n, w)
        else let (bound, s) = ask (dv_net env) (dw_net w); w = w\<lparr>dw_net := s\<rparr>
        in if \<not> bound then shut n w
        else let (t, w) = read_clock env w;
                 seed = snprintf_into 64 (''Orcashi-v4-'' @ dec_int (dv_pid env) @ ''-'' @ dec_int t);
                 n = n\<lparr>dn_my_dht_id := dht_id env seed\<rparr>;
                 (rc, w) = dht_init env w
        in if rc < 0 then shut n w
        else (0, n\<lparr>dn_running := True, dn_thread := True\<rparr>, bootstrap_connect_dht env w))"

text \<open>The info hash of the report is not looked at, and an IPv6 value is read as an IPv4 value.\<close>

definition value_ip :: "byte list \<Rightarrow> string" where
  "value_ip bs = dotted (unat (bs ! 0)) (unat (bs ! 1)) (unat (bs ! 2)) (unat (bs ! 3))"

definition value_port :: "byte list \<Rightarrow> int" where
  "value_port bs = uint (bs ! 4) * 256 + uint (bs ! 5)"

definition dht_node_callback :: "dht_event \<Rightarrow> DHTNode \<Rightarrow> DHTNode" where
  "dht_node_callback e n =
    (if (ev_kind e = DHT_EVENT_VALUES \<or> ev_kind e = DHT_EVENT_VALUES6) \<and> 6 \<le> length (ev_bytes e) then
       (if \<not> dn_lookup_done n
        then n\<lparr>dn_lookup_ip := value_ip (ev_bytes e), dn_lookup_port := value_port (ev_bytes e), dn_lookup_done := True\<rparr>
        else n)
     else n)"

definition dht_node_periodic :: "dht_event list \<Rightarrow> DHTNode \<Rightarrow> DHTNode" where
  "dht_node_periodic events n = fold dht_node_callback events n"

fun dht_node_thread :: "dht_round list \<Rightarrow> DHTNode \<Rightarrow> DHTNode" where
  "dht_node_thread [] n = n"
| "dht_node_thread (r # rs) n =
    (if \<not> dn_thread n then n
     else if \<not> dn_running n \<or> dr_select r < 0 then n\<lparr>dn_thread := False\<rparr>
     else
       let n = (if 0 < dr_select r \<and> 0 < dr_len r then fold dht_node_callback (dr_packet r) n else n)
       in dht_node_thread rs (fold dht_node_callback (dr_idle r) n))"

section \<open>Announcing and looking up\<close>

definition dht_search :: "dht_env \<Rightarrow> byte list \<Rightarrow> int \<Rightarrow> DHTNode \<Rightarrow> dht_world \<Rightarrow> int \<times> DHTNode \<times> dht_world" where
  "dht_search env h port n w =
    (fst (dv_search env), fold dht_node_callback (snd (dv_search env)) n, w\<lparr>dw_searches := dw_searches w @ [(h, port)]\<rparr>)"

definition dht_node_announce :: "dht_env \<Rightarrow> string \<Rightarrow> int \<Rightarrow> DHTNode \<Rightarrow> dht_world \<Rightarrow> (int \<times> DHTNode \<times> dht_world) option" where
  "dht_node_announce env pid port n w = do {
     i \<leftarrow> strcpy_into 64 pid;
     Some (dht_search env (dht_id env pid) port
       (n\<lparr>dn_my_orcashi_id := i, dn_my_port := port, dn_announced := True, dn_secure_mode := False\<rparr>) w) }"

definition dht_node_announce_secure ::
    "dht_env \<Rightarrow> outcomes \<Rightarrow> ssl \<Rightarrow> string \<Rightarrow> int \<Rightarrow> string \<Rightarrow> string \<Rightarrow> DHTNode \<Rightarrow> dht_world \<Rightarrow> cstate
      \<Rightarrow> (int \<times> DHTNode \<times> dht_world \<times> cstate) option" where
  "dht_node_announce_secure env ok ssl pid port public_key signature n w c =
    (let data = snprintf_into 512 (pid @ '':'' @ dec_int port @ '':'' @ public_key);
         (good, c) = orca_rsa_verify_string ok ssl (Some data) (Some signature) (Some public_key) c
     in if \<not> good then Some (-1, n, w, c)
        else do {
          i \<leftarrow> strcpy_into 64 pid;
          k \<leftarrow> strcpy_into ORCA_PUBKEY_LEN public_key;
          s \<leftarrow> strcpy_into ORCA_SIG_LEN signature;
          let (rc, n, w) = dht_search env (dht_id env pid) port
            (n\<lparr>dn_my_orcashi_id := i, dn_my_port := port, dn_announced := True, dn_secure_mode := True,
               dn_public_key := k, dn_signature := s\<rparr>) w;
          Some (rc, n, w, c) })"

text \<open>
  A lookup polls once a second.  Each element of the list is the time one poll reads and what the
  thread does before the next poll; a list that ends leaves the caller \<open>Still_Waiting\<close>.
\<close>

datatype 'a lookup = Found 'a | Not_Found | Still_Waiting

fun lookup_wait :: "int \<Rightarrow> int \<Rightarrow> (int \<times> dht_round list) list \<Rightarrow> DHTNode \<Rightarrow> DHTNode lookup \<times> DHTNode" where
  "lookup_wait start timeout [] n = (Still_Waiting, n)"
| "lookup_wait start timeout ((t, rs) # polls) n =
    (if timeout \<le> t - start then (Not_Found, n)
     else if dn_lookup_done n then (Found n, n)
     else lookup_wait start timeout polls (dht_node_thread rs n))"

definition map_lookup :: "('a \<Rightarrow> 'b) \<Rightarrow> 'a lookup \<Rightarrow> 'b lookup" where
  "map_lookup f r = (case r of Found a \<Rightarrow> Found (f a) | Not_Found \<Rightarrow> Not_Found | Still_Waiting \<Rightarrow> Still_Waiting)"

definition begin_lookup :: "string \<Rightarrow> bool \<Rightarrow> int \<Rightarrow> int \<Rightarrow> DHTNode \<Rightarrow> DHTNode" where
  "begin_lookup pid secure start timeout n =
     n\<lparr>dn_lookup_id := pid, dn_lookup_done := False, dn_lookup_secure := secure, dn_lookup_start := start,
       dn_lookup_timeout := timeout\<rparr>"

definition search_and_wait ::
    "dht_env \<Rightarrow> string \<Rightarrow> int \<Rightarrow> DHTNode \<Rightarrow> dht_world \<Rightarrow> DHTNode lookup \<times> DHTNode \<times> dht_world" where
  "search_and_wait env pid timeout n w =
    (let (rc, n, w) = dht_search env (dht_id env pid) 0 n w in
     if rc < 0 then (Not_Found, n, w)
     else let (start, w) = read_clock env w; (r, n) = lookup_wait start timeout (dv_rounds env) n
       in (r, n, w))"

definition dht_node_lookup ::
    "dht_env \<Rightarrow> string \<Rightarrow> int \<Rightarrow> DHTNode \<Rightarrow> dht_world \<Rightarrow> ((string \<times> int) lookup \<times> DHTNode \<times> dht_world) option" where
  "dht_node_lookup env pid timeout n w = do {
     i \<leftarrow> strcpy_into 64 pid;
     let (t, w) = read_clock env w;
     let (r, n, w) = search_and_wait env pid timeout (begin_lookup i False t timeout n) w;
     Some (map_lookup (\<lambda>n. (dn_lookup_ip n, dn_lookup_port n)) r, n, w) }"

definition dht_node_lookup_secure ::
    "dht_env \<Rightarrow> string \<Rightarrow> int \<Rightarrow> DHTNode \<Rightarrow> dht_world
      \<Rightarrow> ((string \<times> int \<times> string \<times> string) lookup \<times> DHTNode \<times> dht_world) option" where
  "dht_node_lookup_secure env pid timeout n w = do {
     i \<leftarrow> strcpy_into 64 pid;
     let (t, w) = read_clock env w;
     let n = (begin_lookup i True t timeout n)\<lparr>dn_lookup_public_key := [], dn_lookup_signature := []\<rparr>;
     let (r, n, w) = search_and_wait env pid timeout n w;
     Some (map_lookup (\<lambda>n. (dn_lookup_ip n, dn_lookup_port n, dn_lookup_public_key n, dn_lookup_signature n)) r, n, w) }"

definition dht_node_is_running :: "DHTNode option \<Rightarrow> bool" where
  "dht_node_is_running node = (case node of None \<Rightarrow> False | Some n \<Rightarrow> dn_running n)"

definition dht_node_get_port :: "DHTNode option \<Rightarrow> int" where
  "dht_node_get_port node = (case node of None \<Rightarrow> -1 | Some n \<Rightarrow> dn_port n)"

section \<open>A node for a single lookup\<close>

text \<open>
  What \<open>p2p_connect\<close> and \<open>p2p_get_peer_capability\<close> do to find a peer: whether the node was created,
  whether it started, and what it found.  The inner \<open>None\<close> is a lookup that still waits.
\<close>

definition peer_lookup ::
    "dht_env \<Rightarrow> string \<Rightarrow> int \<Rightarrow> dht_world \<Rightarrow> ((bool \<times> bool \<times> (string \<times> int) option) option \<times> dht_world) option" where
  "peer_lookup env pid timeout w = (case dht_node_create env of
      None \<Rightarrow> Some (Some (False, False, None), w)
    | Some n \<Rightarrow>
        let (rc, n, w) = dht_node_start env n 33446 w in
        if rc < 0 then Some (Some (True, False, None), dht_node_destroy n w)
        else do {
          (r, n, w) \<leftarrow> dht_node_lookup env pid timeout n w;
          let (n', w') = dht_node_stop n w;
          Some (case r of
              Still_Waiting \<Rightarrow> (None, w)
            | Not_Found \<Rightarrow> (Some (True, True, None), dht_node_destroy n' w')
            | Found a \<Rightarrow> (Some (True, True, Some a), dht_node_destroy n' w')) })"

end
