(* ===== verification/Dht_Properties.thy ===== *)
theory Dht_Properties
  imports Dht_Node
begin

text \<open>
  What the DHT node promises: which report answers a lookup and when it ends, which addresses
  the library is given, what a secure announcement requires, and that sockets and the library
  are given back.
\<close>

section \<open>Answers\<close>

fun first_value :: "dht_event list \<Rightarrow> (string \<times> int) option" where
  "first_value [] = None"
| "first_value (e # es) =
    (if (ev_kind e = DHT_EVENT_VALUES \<or> ev_kind e = DHT_EVENT_VALUES6) \<and> 6 \<le> length (ev_bytes e)
     then Some (value_ip (ev_bytes e), value_port (ev_bytes e)) else first_value es)"

lemma first_value_append: "first_value (xs @ ys) = (case first_value xs of None \<Rightarrow> first_value ys | Some v \<Rightarrow> Some v)"
  by (induction xs) auto

text \<open>The node has recorded the first value of the events.\<close>

definition answered :: "dht_event list \<Rightarrow> DHTNode \<Rightarrow> bool" where
  "answered es n \<longleftrightarrow> (case first_value es of None \<Rightarrow> \<not> dn_lookup_done n
     | Some v \<Rightarrow> dn_lookup_done n \<and> (dn_lookup_ip n, dn_lookup_port n) = v)"

lemma callback_answered: "answered es n \<Longrightarrow> answered (es @ [e]) (dht_node_callback e n)"
  by (auto simp: answered_def first_value_append dht_node_callback_def split: option.splits)

lemma fold_answered: "answered es n \<Longrightarrow> answered (es @ es') (fold dht_node_callback es' n)"
proof (induction es' arbitrary: es n)
  case (Cons e es')
  show ?case using Cons.IH [OF callback_answered [OF Cons.prems, of e]] by simp
qed simp

lemma callback_frame [simp]:
  "dn_running (dht_node_callback e n) = dn_running n" "dn_thread (dht_node_callback e n) = dn_thread n"
  "dn_udp_socket (dht_node_callback e n) = dn_udp_socket n"
  "dn_lookup_public_key (dht_node_callback e n) = dn_lookup_public_key n"
  "dn_lookup_signature (dht_node_callback e n) = dn_lookup_signature n"
  by (simp_all add: dht_node_callback_def)

lemma fold_callback_frame [simp]:
  "dn_running (fold dht_node_callback es n) = dn_running n" "dn_thread (fold dht_node_callback es n) = dn_thread n"
  "dn_udp_socket (fold dht_node_callback es n) = dn_udp_socket n"
  "dn_lookup_public_key (fold dht_node_callback es n) = dn_lookup_public_key n"
  "dn_lookup_signature (fold dht_node_callback es n) = dn_lookup_signature n"
  by (induction es arbitrary: n) simp_all

section \<open>The thread\<close>

text \<open>What the library reports during some rounds, and whether the thread survives them.\<close>

fun reported :: "dht_round list \<Rightarrow> dht_event list" where
  "reported [] = []"
| "reported (r # rs) =
    (if dr_select r < 0 then []
     else (if 0 < dr_select r \<and> 0 < dr_len r then dr_packet r else []) @ dr_idle r @ reported rs)"

definition survives :: "dht_round list \<Rightarrow> bool" where
  "survives rs \<longleftrightarrow> (\<forall>r \<in> set rs. 0 \<le> dr_select r)"

definition alive :: "DHTNode \<Rightarrow> bool" where
  "alive n \<longleftrightarrow> dn_running n \<and> dn_thread n"

lemma node_thread_frame [simp]:
  "dn_running (dht_node_thread rs n) = dn_running n" "dn_udp_socket (dht_node_thread rs n) = dn_udp_socket n"
  "dn_lookup_public_key (dht_node_thread rs n) = dn_lookup_public_key n"
  "dn_lookup_signature (dht_node_thread rs n) = dn_lookup_signature n"
  by (induction rs n rule: dht_node_thread.induct) (simp_all add: Let_def)

lemma answered_thread_field [simp]: "answered es (n\<lparr>dn_thread := b\<rparr>) = answered es n"
  by (cases "first_value es") (simp_all add: answered_def)

lemma thread_answered:
  assumes "answered es n"
  shows "answered (es @ (if alive n then reported rs else [])) (dht_node_thread rs n)
    \<and> alive (dht_node_thread rs n) = (alive n \<and> survives rs)"
  using assms
proof (induction rs arbitrary: es n)
  case Nil
  then show ?case by (simp add: survives_def)
next
  case (Cons r rs)
  show ?case
  proof (cases "alive n \<and> 0 \<le> dr_select r")
    case False
    then show ?thesis using Cons.prems by (auto simp: alive_def survives_def)
  next
    case True
    let ?p = "if 0 < dr_select r \<and> 0 < dr_len r then dr_packet r else []"
    let ?n = "fold dht_node_callback (?p @ dr_idle r) n"
    have s: "dht_node_thread (r # rs) n = dht_node_thread rs ?n" using True by (simp add: alive_def Let_def)
    have "alive ?n" using True by (simp add: alive_def)
    then show ?thesis unfolding s
      using Cons.IH [OF fold_answered [OF Cons.prems, of "?p @ dr_idle r"]] True by (simp add: survives_def)
  qed
qed

fun heard :: "bool \<Rightarrow> dht_round list list \<Rightarrow> dht_event list" where
  "heard up [] = []"
| "heard up (rs # rss) = (if up then reported rs else []) @ heard (up \<and> survives rs) rss"

section \<open>The decision of a lookup\<close>

text \<open>The first poll that is late or sees a value decides; \<open>before k\<close> is what was reported before poll \<open>k\<close>.\<close>

definition verdict ::
    "(nat \<Rightarrow> int) \<Rightarrow> nat \<Rightarrow> int \<Rightarrow> int \<Rightarrow> (nat \<Rightarrow> dht_event list) \<Rightarrow> (string \<times> int) lookup" where
  "verdict clk polls start timeout before =
    (case find_index (\<lambda>k. timeout \<le> clk k - start \<or> first_value (before k) \<noteq> None) [0..<polls] of
       None \<Rightarrow> Still_Waiting
     | Some k \<Rightarrow> if timeout \<le> clk k - start then Not_Found else Found (the (first_value (before k))))"

lemma verdict_Suc:
  "verdict clk (Suc m) start timeout before =
    (if timeout \<le> clk 0 - start then Not_Found
     else case first_value (before 0) of Some v \<Rightarrow> Found v
     | None \<Rightarrow> verdict (\<lambda>k. clk (Suc k)) m start timeout (\<lambda>k. before (Suc k)))"
proof -
  have u: "[0..<Suc m] = 0 # map Suc [0..<m]" by (simp add: upt_conv_Cons map_Suc_upt del: upt_Suc)
  show ?thesis
    by (simp add: verdict_def u find_index_map comp_def del: upt_Suc split: option.split)
qed

lemma wait_verdict:
  assumes "answered es n"
  shows "map_lookup (\<lambda>n. (dn_lookup_ip n, dn_lookup_port n)) (fst (lookup_wait start timeout polls n))
    = verdict (\<lambda>k. fst (polls ! k)) (length polls) start timeout (\<lambda>k. es @ heard (alive n) (map snd (take k polls)))"
  using assms
proof (induction polls arbitrary: es n)
  case Nil
  then show ?case by (simp add: verdict_def map_lookup_def)
next
  case (Cons p polls)
  obtain t rs where p: "p = (t, rs)" by (rule prod.exhaust)
  note th = thread_answered [OF Cons.prems, of rs]
  have h: "es @ heard (alive n) (rs # rss) = (es @ (if alive n then reported rs else [])) @ heard (alive (dht_node_thread rs n)) rss" for rss
    using th by simp
  have n0: "first_value es = (if dn_lookup_done n then Some (dn_lookup_ip n, dn_lookup_port n) else None)"
    using Cons.prems by (auto simp: answered_def split: option.splits)
  show ?case
    unfolding p length_Cons verdict_Suc
    using Cons.IH [OF conjunct1 [OF th]] n0 by (simp add: h map_lookup_def del: heard.simps(2))
qed

definition reports_before :: "dht_env \<Rightarrow> DHTNode \<Rightarrow> nat \<Rightarrow> dht_event list" where
  "reports_before env n k = snd (dv_search env) @ heard (alive n) (map snd (take k (dv_rounds env)))"

lemma search_wait_verdict:
  assumes "\<not> dn_lookup_done n" and "search_and_wait env pid timeout n w = (r, n', w')"
  shows "map_lookup (\<lambda>n. (dn_lookup_ip n, dn_lookup_port n)) r =
    (if fst (dv_search env) < 0 then Not_Found
     else verdict (\<lambda>k. fst (dv_rounds env ! k)) (length (dv_rounds env)) (ne_clk (dv_net env) (sk_calls (dw_net w))) timeout
       (reports_before env n))"
proof -
  have a: "answered (snd (dv_search env)) (fold dht_node_callback (snd (dv_search env)) n)"
    using fold_answered [of "[]" n "snd (dv_search env)"] assms(1) by (simp add: answered_def)
  have "alive (fold dht_node_callback (snd (dv_search env)) n) = alive n" by (simp add: alive_def)
  moreover have "reports_before env n = (\<lambda>k. snd (dv_search env) @ heard (alive n) (map snd (take k (dv_rounds env))))"
    by (simp add: fun_eq_iff reports_before_def)
  ultimately show ?thesis
    using assms(2) wait_verdict [OF a, of "ne_clk (dv_net env) (sk_calls (dw_net w))" timeout "dv_rounds env"]
    by (cases "fst (dv_search env) < 0")
      (auto simp: search_and_wait_def dht_search_def read_clock_def now_def map_lookup_def split: prod.splits)
qed

section \<open>Lookups\<close>

lemma begin_lookup_simps [simp]:
  "\<not> dn_lookup_done (begin_lookup pid b t timeout n)" "alive (begin_lookup pid b t timeout n) = alive n"
  "\<not> dn_lookup_done ((begin_lookup pid b t timeout n)\<lparr>dn_lookup_public_key := k, dn_lookup_signature := s\<rparr>)"
  "alive ((begin_lookup pid b t timeout n)\<lparr>dn_lookup_public_key := k, dn_lookup_signature := s\<rparr>) = alive n"
  by (simp_all add: begin_lookup_def alive_def)

lemma reports_before_alive: "alive m = alive n \<Longrightarrow> reports_before env m = reports_before env n"
  by (simp add: fun_eq_iff reports_before_def)

lemma lookup_verdict:
  assumes "dht_node_lookup env pid timeout n w = Some (r, n', w')"
  shows "length pid < 64 \<and> r = (if fst (dv_search env) < 0 then Not_Found
     else verdict (\<lambda>k. fst (dv_rounds env ! k)) (length (dv_rounds env)) (ne_clk (dv_net env) (sk_calls (dw_net w) + 1)) timeout
       (reports_before env n))"
proof -
  let ?b = "begin_lookup pid False (ne_clk (dv_net env) (sk_calls (dw_net w))) timeout n"
  obtain r0 n0 w0 where r0: "search_and_wait env pid timeout ?b (w\<lparr>dw_net := tick (dw_net w)\<rparr>) = (r0, n0, w0)"
    by (rule prod_cases3)
  have "reports_before env ?b = reports_before env n" by (rule reports_before_alive) simp
  with search_wait_verdict [OF _ r0] assms r0 show ?thesis
    by (auto simp: dht_node_lookup_def read_clock_def now_def map_lookup_def split: Option.bind_splits)
qed

text \<open>
  C38: a lookup that is not cut off is decided by the first poll that is late or sees a value: it
  fails if that poll is late and otherwise returns the first value that any search reported,
  whatever id that search was for.
\<close>

theorem dht_lookup_first_value:
  assumes "dht_node_lookup env pid timeout n w = Some (r, n', w')" and "0 \<le> fst (dv_search env)"
  shows "r = verdict (\<lambda>k. fst (dv_rounds env ! k)) (length (dv_rounds env)) (ne_clk (dv_net env) (sk_calls (dw_net w) + 1)) timeout
       (reports_before env n)"
  using lookup_verdict [OF assms(1)] assms(2) by simp

lemma verdict_decided:
  assumes "k < polls" and "timeout \<le> clk k - start"
  shows "verdict clk polls start timeout before \<noteq> Still_Waiting"
  using assms by (auto simp: verdict_def find_index_None split: option.split)

text \<open>
  C39: a lookup ends: if every pause takes at least a second, it has its answer after at most one
  poll more than the seconds of its timeout.
\<close>

theorem dht_lookup_ends:
  assumes "dht_node_lookup env pid timeout n w = Some (r, n', w')"
    and "nat timeout < length (dv_rounds env)"
    and "\<forall>k \<le> nat timeout. ne_clk (dv_net env) (sk_calls (dw_net w) + 1) + int k \<le> fst (dv_rounds env ! k)"
  shows "r \<noteq> Still_Waiting"
proof -
  have "timeout \<le> fst (dv_rounds env ! nat timeout) - ne_clk (dv_net env) (sk_calls (dw_net w) + 1)"
    using assms(3) [rule_format, of "nat timeout"] by linarith
  with lookup_verdict [OF assms(1)] verdict_decided [OF assms(2)] show ?thesis by auto
qed

lemma wait_found: "lookup_wait start timeout polls n = (Found m, n') \<Longrightarrow> m = n'
    \<and> dn_lookup_public_key m = dn_lookup_public_key n \<and> dn_lookup_signature m = dn_lookup_signature n"
  by (induction start timeout polls n rule: lookup_wait.induct) (auto split: if_splits)

text \<open>A secure lookup that finds its peer never returns the key or the signature of the peer.\<close>

theorem secure_lookup_returns_no_key:
  assumes "dht_node_lookup_secure env pid timeout n w = Some (Found (ip, port, key, signature), n', w')"
  shows "key = [] \<and> signature = []"
  using assms wait_found
  by (fastforce simp: dht_node_lookup_secure_def search_and_wait_def dht_search_def read_clock_def now_def map_lookup_def
      Let_def split: Option.bind_splits prod.splits if_splits lookup.splits)

section \<open>Joining the network\<close>

definition offered :: "BootstrapNode list \<Rightarrow> sockaddr list" where
  "offered nodes = map (\<lambda>n. sock_addr (bn_ip n) (bn_port n)) (filter (\<lambda>n. bn_ip n \<noteq> []) nodes)"

lemma insert_bootstrap_nth:
  assumes "i < BOOTSTRAP_NODES"
  shows "dw_nodes (insert_bootstrap env (int i) w) = dw_nodes w
    \<and> map snd (dw_inserted (insert_bootstrap env (int i) w)) = map snd (dw_inserted w) @ offered [dw_nodes w ! i]
    \<and> dw_up (insert_bootstrap env (int i) w) = dw_up w
    \<and> sk_open (dw_net (insert_bootstrap env (int i) w)) = sk_open (dw_net w)"
  using assms by (simp add: insert_bootstrap_def bootstrap_get_node_def offered_def read_clock_def now_def Let_def)

lemma connect_upto:
  assumes "m \<le> BOOTSTRAP_NODES" and "m \<le> length (dw_nodes w)"
  shows "dw_nodes (fold (insert_bootstrap env) (map int [0..<m]) w) = dw_nodes w
    \<and> map snd (dw_inserted (fold (insert_bootstrap env) (map int [0..<m]) w)) = map snd (dw_inserted w) @ offered (take m (dw_nodes w))
    \<and> dw_up (fold (insert_bootstrap env) (map int [0..<m]) w) = dw_up w
    \<and> sk_open (dw_net (fold (insert_bootstrap env) (map int [0..<m]) w)) = sk_open (dw_net w)"
  using assms
proof (induction m)
  case (Suc m)
  have t: "take (Suc m) (dw_nodes w) = take m (dw_nodes w) @ [dw_nodes w ! m]"
    using Suc.prems by (simp add: take_Suc_conv_app_nth)
  have o: "offered (xs @ ys) = offered xs @ offered ys" for xs ys by (simp add: offered_def)
  show ?case using Suc insert_bootstrap_nth [of m env "fold (insert_bootstrap env) (map int [0..<m]) w"] by (simp add: t o)
qed (simp add: offered_def)

lemma connect_frame:
  "length (dw_nodes w) = BOOTSTRAP_NODES \<Longrightarrow> dw_nodes (bootstrap_connect_dht env w) = dw_nodes w
    \<and> map snd (dw_inserted (bootstrap_connect_dht env w)) = map snd (dw_inserted w) @ offered (dw_nodes w)
    \<and> dw_up (bootstrap_connect_dht env w) = dw_up w \<and> sk_open (dw_net (bootstrap_connect_dht env w)) = sk_open (dw_net w)"
  unfolding bootstrap_connect_dht_def using connect_upto [of BOOTSTRAP_NODES w env] by simp

lemma fallback_ips_nonempty: "length fallback_ips = BOOTSTRAP_NODES" "[] \<notin> set fallback_ips"
  by (auto simp: fallback_ips_def BOOTSTRAP_NODES_def)

lemma ntop_nonempty: "ntop a \<noteq> []"
  by (auto simp: ntop_def dotted_def split: prod.split)

lemma offered_initial: "offered bootstrap_nodes = []"
  by (simp add: offered_def bootstrap_nodes_def)

lemma offered_resolved: "length (offered (bootstrap_init dns bootstrap_nodes)) = BOOTSTRAP_NODES"
proof -
  have "bn_ip n \<noteq> []" if "n \<in> set (bootstrap_init dns bootstrap_nodes)" for n
    using that fallback_ips_nonempty(2) ntop_nonempty
    by (auto simp: bootstrap_init_def resolve_host_def dest!: set_zip_rightD split: option.splits list.splits)
  then have "filter (\<lambda>n. bn_ip n \<noteq> []) (bootstrap_init dns bootstrap_nodes) = bootstrap_init dns bootstrap_nodes" by simp
  then show ?thesis
    by (simp add: offered_def bootstrap_init_def fallback_ips_nonempty(1)) (simp add: bootstrap_nodes_def BOOTSTRAP_NODES_def)
qed

text \<open>
  The node joins the DHT with six addresses if the list of first nodes was initialised, and
  with none if it was not; then nothing but a stranger's message makes it known to the network.
\<close>

theorem bootstrap_needs_init:
  "map snd (dw_inserted (bootstrap_connect_dht env (w\<lparr>dw_nodes := bootstrap_nodes, dw_inserted := []\<rparr>))) = []
    \<and> length (dw_inserted (bootstrap_connect_dht env (w\<lparr>dw_nodes := bootstrap_init dns bootstrap_nodes, dw_inserted := []\<rparr>))) = 6"
proof -
  have l: "length bootstrap_nodes = BOOTSTRAP_NODES" "length (bootstrap_init dns bootstrap_nodes) = BOOTSTRAP_NODES"
    by (simp_all add: bootstrap_init_def fallback_ips_nonempty(1)) (simp_all add: bootstrap_nodes_def BOOTSTRAP_NODES_def)
  let ?w = "\<lambda>ns. w\<lparr>dw_nodes := ns, dw_inserted := []\<rparr>"
  have "map snd (dw_inserted (bootstrap_connect_dht env (?w (bootstrap_init dns bootstrap_nodes)))) = offered (bootstrap_init dns bootstrap_nodes)"
    using connect_frame [of "?w (bootstrap_init dns bootstrap_nodes)" env] l by simp
  then have "length (dw_inserted (bootstrap_connect_dht env (?w (bootstrap_init dns bootstrap_nodes)))) = BOOTSTRAP_NODES"
    unfolding offered_resolved [of dns, symmetric] by (metis length_map)
  then show ?thesis
    using connect_frame [of "?w bootstrap_nodes" env] l offered_initial by (simp add: BOOTSTRAP_NODES_def)
qed

section \<open>Announcements\<close>

text \<open>
  A secure announcement starts a search, and marks the node as secure, exactly when the
  signature is valid for the id, the port and the key; otherwise nothing changes.
\<close>

theorem secure_announce_needs_signature:
  assumes "dht_node_announce_secure env ok ssl pid port key sig n w c = Some (rc, n', w', c')"
  shows "if fst (orca_rsa_verify_string ok ssl (Some (snprintf_into 512 (pid @ '':'' @ dec_int port @ '':'' @ key))) (Some sig) (Some key) c)
    then dn_secure_mode n' \<and> dn_my_orcashi_id n' = pid \<and> dn_public_key n' = key
      \<and> dw_searches w' = dw_searches w @ [(dht_id env pid, port)] \<and> rc = fst (dv_search env)
    else rc = -1 \<and> n' = n \<and> w' = w"
proof -
  have f: "dn_secure_mode (fold dht_node_callback es m) = dn_secure_mode m"
    "dn_my_orcashi_id (fold dht_node_callback es m) = dn_my_orcashi_id m"
    "dn_public_key (fold dht_node_callback es m) = dn_public_key m" for es m
    by (induction es arbitrary: m) (simp_all add: dht_node_callback_def)
  show ?thesis
    using assms by (auto simp: dht_node_announce_secure_def dht_search_def f Let_def split: Option.bind_splits prod.splits if_splits)
qed

section \<open>What is taken is given back\<close>

text \<open>
  Something that is started, used and destroyed.  \<open>res\<close> are the resources of the process,
  \<open>idle\<close> says that the object holds none, and \<open>holds x w r\<close> that \<open>r\<close> would be left without it.
\<close>

locale lifecycle =
  fixes start :: "'x \<Rightarrow> 'w \<Rightarrow> int \<times> 'x \<times> 'w" and destroy :: "'x \<Rightarrow> 'w \<Rightarrow> 'w"
    and res :: "'w \<Rightarrow> 'r" and idle :: "'x \<Rightarrow> bool" and holds :: "'x \<Rightarrow> 'w \<Rightarrow> 'r \<Rightarrow> bool" and good :: "'w \<Rightarrow> bool"
  assumes start_fails: "good w \<Longrightarrow> idle x \<Longrightarrow> start x w = (rc, x', w') \<Longrightarrow> rc < 0 \<Longrightarrow> idle x' \<and> res w' = res w \<and> good w'"
    and start_works: "good w \<Longrightarrow> idle x \<Longrightarrow> start x w = (rc, x', w') \<Longrightarrow> \<not> rc < 0 \<Longrightarrow> holds x' w' (res w) \<and> good w'"
    and destroy_idle: "good w \<Longrightarrow> idle x \<Longrightarrow> res (destroy x w) = res w \<and> good (destroy x w)"
    and destroy_holds: "good w \<Longrightarrow> holds x w r \<Longrightarrow> res (destroy x w) = r \<and> good (destroy x w)"
begin

lemma session_balanced:
  assumes "good w" and "idle x" and "start x w = (rc, x1, w1)"
    and "\<And>r. good w1 \<Longrightarrow> holds x1 w1 r \<Longrightarrow> good w2 \<and> holds x2 w2 r"
  shows "if rc < 0 then res (destroy x1 w1) = res w \<and> good (destroy x1 w1) else res (destroy x2 w2) = res w \<and> good (destroy x2 w2)"
  using start_fails [OF assms(1,2,3)] start_works [OF assms(1,2,3)] assms(4) destroy_idle [of w1 x1] destroy_holds [of w2 x2 "res w"]
  by auto

end

definition dht_res :: "dht_world \<Rightarrow> int list \<times> bool" where
  "dht_res w = (sk_open (dw_net w), dw_up w)"

definition dht_idle :: "DHTNode \<Rightarrow> bool" where
  "dht_idle n \<longleftrightarrow> \<not> dn_running n \<and> dn_udp_socket n < 0"

definition dht_holds :: "DHTNode \<Rightarrow> dht_world \<Rightarrow> int list \<times> bool \<Rightarrow> bool" where
  "dht_holds n w r \<longleftrightarrow> dn_running n \<and> 0 \<le> dn_udp_socket n \<and> dw_up w \<and> \<not> snd r
     \<and> sk_open (dw_net w) = dn_udp_socket n # fst r"

definition nodes_listed :: "dht_world \<Rightarrow> bool" where
  "nodes_listed w \<longleftrightarrow> length (dw_nodes w) = BOOTSTRAP_NODES"

lemma start_cases:
  assumes "nodes_listed w" and "\<not> dn_running n" and "dht_node_start env n port w = (rc, n', w')"
  shows "nodes_listed w' \<and> (if rc < 0 then rc = -1 \<and> dht_idle n' \<and> dht_res w' = dht_res w
    else rc = 0 \<and> dht_holds n' w' (dht_res w) \<and> alive n' \<and> \<not> dw_up w)"
proof -
  obtain d s where d: "open_socket (dv_net env) (dw_net w) = (d, s)" by (rule prod.exhaust)
  note o = open_frame [OF d]
  show ?thesis
  proof (cases "d < 0")
    case True
    then show ?thesis using assms o d
      by (auto simp: dht_node_start_def dht_idle_def dht_res_def nodes_listed_def)
  next
    case False
    have c: "nodes_listed (w\<lparr>dw_net := x, dw_up := True\<rparr>)" for x using assms(1) by (simp add: nodes_listed_def)
    note cf = connect_frame [OF c [unfolded nodes_listed_def]]
    show ?thesis using assms o d False cf
      by (auto simp: dht_node_start_def dht_idle_def dht_res_def dht_holds_def nodes_listed_def dht_init_def read_clock_def now_def
          ask_def alive_def Let_def split: if_splits)
  qed
qed

lemma destroy_cases:
  "dht_idle n \<Longrightarrow> dht_node_destroy n w = w"
  "dht_holds n w r \<Longrightarrow> dht_res (dht_node_destroy n w) = r \<and> dw_nodes (dht_node_destroy n w) = dw_nodes w"
  by (cases r; simp add: dht_node_destroy_def dht_node_stop_def dht_idle_def dht_holds_def dht_res_def dht_uninit_def)+

interpretation node: lifecycle "\<lambda>n. dht_node_start env n port" dht_node_destroy dht_res dht_idle dht_holds nodes_listed
proof
  fix w n rc n' w'
  assume a: "nodes_listed w" "dht_idle n" "dht_node_start env n port w = (rc, n', w')"
  have "\<not> dn_running n" using a(2) by (simp add: dht_idle_def)
  note s = start_cases [OF a(1) this a(3)]
  show "dht_idle n' \<and> dht_res w' = dht_res w \<and> nodes_listed w'" if "rc < 0" using s that by simp
  show "dht_holds n' w' (dht_res w) \<and> nodes_listed w'" if "\<not> rc < 0" using s that by simp
next
  fix w n
  assume "nodes_listed w" "dht_idle n"
  then show "dht_res (dht_node_destroy n w) = dht_res w \<and> nodes_listed (dht_node_destroy n w)" by (simp add: destroy_cases(1))
next
  fix w n r
  assume "nodes_listed w" "dht_holds n w r"
  then show "dht_res (dht_node_destroy n w) = r \<and> nodes_listed (dht_node_destroy n w)"
    using destroy_cases(2) [of n w r] by (simp add: nodes_listed_def)
qed

lemma lookup_wait_frame: "lookup_wait start timeout polls n = (r, n') \<Longrightarrow> dn_running n' = dn_running n \<and> dn_udp_socket n' = dn_udp_socket n"
  by (induction start timeout polls n rule: lookup_wait.induct) (auto split: if_splits)

lemma lookup_frame:
  assumes "dht_node_lookup env pid timeout n w = Some (r, n', w')"
  shows "dn_running n' = dn_running n \<and> dn_udp_socket n' = dn_udp_socket n \<and> dw_nodes w' = dw_nodes w \<and> dht_res w' = dht_res w"
  using assms
  by (auto simp: dht_node_lookup_def search_and_wait_def dht_search_def read_clock_def now_def begin_lookup_def Let_def dht_res_def
      split: Option.bind_splits prod.splits if_splits dest!: lookup_wait_frame)

lemma stop_destroy:
  "dht_node_stop n w = (n', w') \<Longrightarrow> dht_node_destroy n' w' = dht_node_destroy n w"
  by (auto simp: dht_node_destroy_def dht_node_stop_def split: if_splits)

lemma peer_lookup_kept:
  assumes "nodes_listed w" and "peer_lookup env pid timeout w = Some (Some (created, started, found), w')"
  shows "dht_res w' = dht_res w \<and> nodes_listed w' \<and> (dw_up w \<longrightarrow> \<not> started \<and> found = None)"
proof (cases "dht_node_create env")
  case None
  then show ?thesis using assms by (simp add: peer_lookup_def)
next
  case (Some n)
  obtain rc n1 w1 where s: "dht_node_start env n 33446 w = (rc, n1, w1)" by (rule prod_cases3)
  have i: "dht_idle n" using Some by (auto simp: dht_node_create_def new_node_def dht_idle_def split: if_splits)
  then have nr: "\<not> dn_running n" by (simp add: dht_idle_def)
  note c = start_cases [OF assms(1) nr s]
  show ?thesis
  proof (cases "rc < 0")
    case True
    then show ?thesis using assms(2) Some s c node.session_balanced [OF assms(1) i s, of w1 n1] by (auto simp: peer_lookup_def)
  next
    case False
    then obtain r n2 w2 where l: "dht_node_lookup env pid timeout n1 w1 = Some (r, n2, w2)"
      using assms(2) Some s by (auto simp: peer_lookup_def split: Option.bind_splits)
    note f = lookup_frame [OF l]
    have k: "nodes_listed w2 \<and> dht_holds n2 w2 x" if "nodes_listed w1" "dht_holds n1 w1 x" for x
      using that f by (simp add: nodes_listed_def dht_holds_def dht_res_def)
    have w': "w' = dht_node_destroy n2 w2"
      using assms(2) Some s False l
      by (auto simp: peer_lookup_def split: prod.splits lookup.splits dest!: stop_destroy)
    show ?thesis unfolding w' using node.session_balanced [OF assms(1) i s k] c False by auto
  qed
qed

text \<open>
  A lookup with a node of its own, found or not, leaves the open sockets and the library as
  they were, and it cannot even start while another node has the library.
\<close>

theorem peer_lookup_balanced:
  assumes "nodes_listed w" and "peer_lookup env pid timeout w = Some (Some (created, started, found), w')"
  shows "dht_res w' = dht_res w \<and> nodes_listed w' \<and> (dw_up w \<longrightarrow> \<not> started \<and> found = None)"
  by (rule peer_lookup_kept [OF assms])

end
