(* ===== verification/Dht_Samples.thy ===== *)
theory Dht_Samples
  imports Dht_Properties
begin

text \<open>Concrete runs of the DHT node and its helpers at which the theorems apply.\<close>

section \<open>The hash and the blacklist\<close>

lemma x86_shift_ok: "shift_ok shr_x86"
  by (simp add: shift_ok_def shr_x86_def)

theorem dht_id_injective_witness:
  "(dht_hash shr_x86 20 [1, 2] [] [] = dht_hash shr_x86 20 [3] [] [] \<longleftrightarrow> fnv_state [1, 2] [] [] = fnv_state [3] [] [])
    \<and> dht_hash shr_x86 20 [1, 2] [] [] \<noteq> dht_hash shr_x86 20 [1, 3] [] []"
  using dht_id_injective [OF x86_shift_ok, of "[1, 2]" "[3]" "[1]" 2 "[]" 3] by simp

theorem blacklist_add_refines_map_witness:
  "\<exists>bl'. dht_blacklist_add 9 (Some [1, 2]) [\<lparr>be_addr = [3], be_added_at = 5\<rparr>] = Some bl'
    \<and> bl_map bl' = (bl_map [\<lparr>be_addr = [3], be_added_at = 5\<rparr>])([1, 2] \<mapsto> 9)"
proof -
  let ?bl = "[\<lparr>be_addr = [3], be_added_at = 5\<rparr>] :: BlacklistEntry list"
  have e: "dht_blacklist_add 9 (Some [1, 2]) ?bl = Some (?bl @ [\<lparr>be_addr = [1, 2], be_added_at = 9\<rparr>])"
    by (simp add: dht_blacklist_add_def MAX_BLACKLIST_def SOCKADDR_STORAGE_def)
  have w: "wf_bl ?bl" "card (dom (bl_map ?bl)) < 64" by (simp_all add: wf_bl_def MAX_BLACKLIST_def bl_map_def)
  show ?thesis using blacklist_add_refines_map [OF w(1) _ e] w(2) e by auto
qed

theorem blacklist_since_clear_witness:
  "\<exists>bl'. fold (\<lambda>(t, a) bl. Option.bind bl (dht_blacklist_add t (Some a))) [(7, [1, 2])]
      (Some (dht_blacklist_clear [\<lparr>be_addr = [3], be_added_at = 5\<rparr>])) = Some bl' \<and> dht_blacklisted (Some [1, 2]) bl' = 1"
proof -
  have e: "fold (\<lambda>(t, a) bl. Option.bind bl (dht_blacklist_add t (Some a))) [(7, [1, 2])]
      (Some (dht_blacklist_clear [\<lparr>be_addr = [3], be_added_at = 5\<rparr>])) = Some [\<lparr>be_addr = [1, 2], be_added_at = 7\<rparr>]"
    by (simp add: dht_blacklist_add_def dht_blacklist_clear_def MAX_BLACKLIST_def SOCKADDR_STORAGE_def)
  show ?thesis using blacklist_since_clear [OF _ e] e by simp
qed

section \<open>Lookups\<close>

definition still_net :: net_env where
  "still_net = \<lparr>ne_ok = \<lambda>_. True, ne_again = \<lambda>_. False, ne_recv = \<lambda>_. None, ne_clk = \<lambda>_. 0, ne_rand = \<lambda>_. 0\<rparr>"

text \<open>A report for some other id.\<close>

definition stray_value :: dht_event where
  "stray_value = \<lparr>ev_kind = DHT_EVENT_VALUES, ev_hash = replicate 20 7, ev_bytes = [10, 0, 0, 9, 15, 160]\<rparr>"

definition sample_dht :: dht_env where
  "sample_dht = \<lparr>dv_net = still_net, dv_shr = shr_x86, dv_pid = 77, dv_calloc = True, dv_init = True, dv_search = (1, []),
     dv_rounds = [(0, [\<lparr>dr_select = 0, dr_len = 0, dr_packet = [], dr_idle = [stray_value]\<rparr>]), (1, []), (2, [])]\<rparr>"

definition fresh_world :: dht_world where
  "fresh_world = \<lparr>dw_net = \<lparr>sk_calls = 0, sk_open = [], sk_sent = []\<rparr>, dw_nodes = bootstrap_nodes, dw_up = False,
     dw_inserted = [], dw_searches = []\<rparr>"

definition running_node :: DHTNode where
  "running_node = new_node\<lparr>dn_running := True, dn_thread := True, dn_udp_socket := 3\<rparr>"

lemma sample_verdict:
  "verdict (\<lambda>k. fst (dv_rounds sample_dht ! k)) (length (dv_rounds sample_dht)) (ne_clk (dv_net sample_dht) c) timeout
    (reports_before sample_dht running_node) = (if timeout \<le> 1 then Not_Found else Found (''10.0.0.9'', 4000))"
proof -
  have l: "length (dv_rounds sample_dht) = Suc (Suc (Suc 0))" by (simp add: sample_dht_def)
  have al: "alive running_node" by (simp add: alive_def running_node_def)
  have v: "value_ip [10, 0, 0, 9, 15, 160] = ''10.0.0.9''" "value_port [10, 0, 0, 9, 15, 160] = 4000" by code_simp+
  show ?thesis
    unfolding l verdict_Suc
    using v by (simp add: sample_dht_def still_net_def reports_before_def al survives_def stray_value_def DHT_EVENT_VALUES_def)
qed

lemma sample_lookup:
  "\<exists>r n' w'. dht_node_lookup sample_dht ''bob'' timeout n w = Some (r, n', w')"
  by (simp add: dht_node_lookup_def strcpy_into_fits split_beta Let_def)

theorem dht_lookup_first_value_witness:
  "\<exists>n' w'. dht_node_lookup sample_dht ''bob'' 10 running_node fresh_world = Some (Found (''10.0.0.9'', 4000), n', w')"
proof -
  obtain r n' w' where l: "dht_node_lookup sample_dht ''bob'' 10 running_node fresh_world = Some (r, n', w')"
    using sample_lookup by blast
  have "0 \<le> fst (dv_search sample_dht)" by (simp add: sample_dht_def)
  from dht_lookup_first_value [OF l this] have "r = Found (''10.0.0.9'', 4000)" by (simp only: sample_verdict) simp
  then show ?thesis using l by blast
qed

theorem dht_lookup_ends_witness:
  "\<exists>r n' w'. dht_node_lookup sample_dht ''bob'' 2 running_node fresh_world = Some (r, n', w') \<and> r \<noteq> Still_Waiting"
proof -
  obtain r n' w' where l: "dht_node_lookup sample_dht ''bob'' 2 running_node fresh_world = Some (r, n', w')"
    using sample_lookup by blast
  have "\<forall>k \<le> nat 2. ne_clk (dv_net sample_dht) (sk_calls (dw_net fresh_world) + 1) + int k \<le> fst (dv_rounds sample_dht ! k)"
    by (auto simp: sample_dht_def still_net_def numeral_2_eq_2 le_Suc_eq)
  then show ?thesis using dht_lookup_ends [OF l] l by (auto simp: sample_dht_def)
qed

theorem secure_lookup_returns_no_key_witness:
  "\<exists>n' w'. dht_node_lookup_secure sample_dht ''bob'' 10 running_node fresh_world = Some (Found (''10.0.0.9'', 4000, [], []), n', w')"
proof -
  have v: "value_ip [10, 0, 0, 9, 15, 160] = ''10.0.0.9''" "value_port [10, 0, 0, 9, 15, 160] = 4000" by code_simp+
  have "\<exists>key sig n' w'. dht_node_lookup_secure sample_dht ''bob'' 10 running_node fresh_world
      = Some (Found (''10.0.0.9'', 4000, key, sig), n', w')"
    using v by (simp add: dht_node_lookup_secure_def strcpy_into_fits search_and_wait_def dht_search_def read_clock_def now_def sample_dht_def
        still_net_def begin_lookup_def running_node_def new_node_def dht_node_callback_def stray_value_def DHT_EVENT_VALUES_def
        map_lookup_def Let_def)
  then show ?thesis using secure_lookup_returns_no_key by blast
qed

theorem peer_lookup_balanced_witness:
  "\<exists>w'. peer_lookup sample_dht ''bob'' 2 fresh_world = Some (Some (True, True, Some (''10.0.0.9'', 4000)), w')
    \<and> sk_open (dw_net w') = []"
proof -
  have v: "value_ip [10, 0, 0, 9, 15, 160] = ''10.0.0.9''" "value_port [10, 0, 0, 9, 15, 160] = 4000" by code_simp+
  have f: "nodes_listed fresh_world" by (simp add: nodes_listed_def fresh_world_def bootstrap_nodes_def BOOTSTRAP_NODES_def)
  obtain rc n w where s: "dht_node_start sample_dht new_node 33446 fresh_world = (rc, n, w)" by (rule prod_cases3)
  have z: "dht_node_create sample_dht = Some new_node" "\<not> dn_running new_node"
    by (simp_all add: dht_node_create_def sample_dht_def new_node_def)
  note c = start_cases [OF f z(2) s]
  have rc: "\<not> rc < 0" using s
    by (auto simp: dht_node_start_def open_socket_def ask_def sample_dht_def still_net_def fresh_world_def dht_init_def read_clock_def
        now_def free_fd_def Let_def)
  obtain r n2 w2 where l: "dht_node_lookup sample_dht ''bob'' 2 n w = Some (r, n2, w2)"
    using sample_lookup by blast
  have "reports_before sample_dht n = reports_before sample_dht running_node"
    using c rc by (intro reports_before_alive) (simp add: alive_def running_node_def)
  moreover have "\<not> fst (dv_search sample_dht) < 0" by (simp add: sample_dht_def)
  ultimately have r: "r = Found (''10.0.0.9'', 4000)"
    using lookup_verdict [OF l] by (simp add: sample_verdict)
  obtain w' where w': "peer_lookup sample_dht ''bob'' 2 fresh_world = Some (Some (True, True, Some (''10.0.0.9'', 4000)), w')"
    using z s rc l r by (simp add: peer_lookup_def split_beta)
  show ?thesis using w' peer_lookup_balanced [OF f w'] by (simp add: dht_res_def fresh_world_def)
qed

end
