(* ===== verification/Logger.thy ===== *)
theory Logger
  imports Unix_Files C_Text Hex_Codec
begin

text \<open>
  \<^verbatim>\<open>logger.c\<close>: the log file of the daemon and of the library.  Its globals are the record
  \<open>logger\<close>; what it writes to a file goes to the file system, and the lines for \<open>stderr\<close> are kept in
  order.  \<open>g_log_mutex\<close> is not recursive: a thread that locks it a second time waits for ever, which
  is the outcome \<open>Blocked\<close>.  What reaches \<open>logger_log\<close> is the formatted text.
\<close>

section \<open>Outcomes\<close>

text \<open>A function may run outside a buffer, or not come back; otherwise it replies.\<close>

datatype 'a reply = Overrun | Blocked | Reply 'a

definition on_value :: "'a option \<Rightarrow> ('a \<Rightarrow> 'b reply) \<Rightarrow> 'b reply" where
  "on_value r f = (case r of None \<Rightarrow> Overrun | Some a \<Rightarrow> f a)"

definition on_reply :: "'a reply \<Rightarrow> ('a \<Rightarrow> 'b reply) \<Rightarrow> 'b reply" where
  "on_reply r f = (case r of Overrun \<Rightarrow> Overrun | Blocked \<Rightarrow> Blocked | Reply a \<Rightarrow> f a)"

lemma on_reply_simps [simp]:
  "on_reply (Reply a) f = f a" "on_reply Blocked f = Blocked" "on_reply Overrun f = Overrun"
  by (simp_all add: on_reply_def)

section \<open>Data\<close>

type_synonym LogLevel = int

definition LOG_LEVEL_NONE :: LogLevel where "LOG_LEVEL_NONE = 0"
definition LOG_LEVEL_ERROR :: LogLevel where "LOG_LEVEL_ERROR = 1"
definition LOG_LEVEL_WARN :: LogLevel where "LOG_LEVEL_WARN = 2"
definition LOG_LEVEL_INFO :: LogLevel where "LOG_LEVEL_INFO = 3"
definition LOG_LEVEL_DEBUG :: LogLevel where "LOG_LEVEL_DEBUG = 4"
definition LOG_LEVEL_TRACE :: LogLevel where "LOG_LEVEL_TRACE = 5"

datatype stream = To_Stderr | To_File string

record logger =
  lg_file :: "stream option"
  lg_level :: LogLevel
  lg_locked :: bool
  lg_initialized :: bool
  lg_path :: string
  lg_stderr :: "string list"

definition fresh_logger :: logger where
  "fresh_logger = \<lparr>lg_file = None, lg_level = LOG_LEVEL_INFO, lg_locked = False, lg_initialized = False, lg_path = [],
     lg_stderr = []\<rparr>"

text \<open>\<open>lo_stack\<close> is what an uninitialised array holds.\<close>

record log_env =
  lo_fopen :: bool
  lo_error :: string
  lo_time :: "nat \<times> nat \<times> nat"
  lo_tid :: nat
  lo_stack :: string

type_synonym log_state = "logger \<times> fs"

definition level_strings :: "string list" where
  "level_strings = [''NONE'', ''ERROR'', ''WARN'', ''INFO'', ''DEBUG'', ''TRACE'']"

definition logger_level_to_string :: "LogLevel \<Rightarrow> string" where
  "logger_level_to_string level =
    (if level < LOG_LEVEL_NONE \<or> level > LOG_LEVEL_TRACE then ''UNKNOWN'' else level_strings ! nat level)"

section \<open>The mutex\<close>

definition lock_log :: "logger \<Rightarrow> logger reply" where
  "lock_log l = (if lg_locked l then Blocked else Reply (l\<lparr>lg_locked := True\<rparr>))"

definition unlock_log :: "logger \<Rightarrow> logger" where
  "unlock_log l = l\<lparr>lg_locked := False\<rparr>"

definition logger_set_level :: "LogLevel \<Rightarrow> logger \<Rightarrow> logger reply" where
  "logger_set_level level l = on_reply (lock_log l) (\<lambda>l. Reply (unlock_log (l\<lparr>lg_level := level\<rparr>)))"

definition logger_get_level :: "logger \<Rightarrow> (LogLevel \<times> logger) reply" where
  "logger_get_level l = on_reply (lock_log l) (\<lambda>l. Reply (lg_level l, unlock_log l))"

definition logger_is_enabled :: "LogLevel \<Rightarrow> logger \<Rightarrow> (bool \<times> logger) reply" where
  "logger_is_enabled level l =
    on_reply (lock_log l) (\<lambda>l. Reply (level \<le> lg_level l \<and> level \<noteq> LOG_LEVEL_NONE, unlock_log l))"

section \<open>Writing\<close>

definition append_file :: "string \<Rightarrow> string \<Rightarrow> fs \<Rightarrow> fs option" where
  "append_file path t fs = write_path fs path ((case read_path fs path of None \<Rightarrow> [] | Some old \<Rightarrow> old) @ t)"

definition to_stderr :: "string \<Rightarrow> logger \<Rightarrow> logger" where
  "to_stderr t l = l\<lparr>lg_stderr := lg_stderr l @ [t]\<rparr>"

definition put_stream :: "string \<Rightarrow> log_state \<Rightarrow> log_state" where
  "put_stream t = (\<lambda>(l, fs). case lg_file l of
      None \<Rightarrow> (l, fs)
    | Some To_Stderr \<Rightarrow> (to_stderr t l, fs)
    | Some (To_File p) \<Rightarrow> (l, case append_file p t fs of None \<Rightarrow> fs | Some fs \<Rightarrow> fs))"

definition two_digits :: "nat \<Rightarrow> string" where
  "two_digits n = (if n < 10 then CHR ''0'' # dec_int (int n) else dec_int (int n))"

definition after_slash :: "string \<Rightarrow> string" where
  "after_slash p = rev (takeWhile (\<lambda>c. c \<noteq> CHR ''/'') (rev p))"

definition before_slash :: "string \<Rightarrow> string option" where
  "before_slash p = (if CHR ''/'' \<in> set p then Some (rev (tl (dropWhile (\<lambda>c. c \<noteq> CHR ''/'') (rev p)))) else None)"

definition log_line :: "log_env \<Rightarrow> LogLevel \<Rightarrow> string \<Rightarrow> int \<Rightarrow> string \<Rightarrow> string" where
  "log_line env level src line message =
    (case lo_time env of (h, m, s) \<Rightarrow>
       ''['' @ two_digits h @ '':'' @ two_digits m @ '':'' @ two_digits s @ ''] ['' @ logger_level_to_string level @ ''] [''
         @ after_slash src @ '':'' @ dec_int line @ ''] [tid:'' @ dec_int (int (lo_tid env)) @ ''] '' @ message @ [CHR 0x0A])"

definition logger_log :: "log_env \<Rightarrow> LogLevel \<Rightarrow> string \<Rightarrow> int \<Rightarrow> string \<Rightarrow> log_state \<Rightarrow> log_state reply" where
  "logger_log env level src line text = (\<lambda>(l, fs).
     on_reply (logger_is_enabled level l) (\<lambda>(enabled, l).
       if \<not> enabled then Reply (l, fs)
       else on_reply (lock_log l) (\<lambda>l.
         let message = snprintf_into 4096 text;
             (l, fs) = put_stream (log_line env level src line message) (l, fs);
             l = (if level \<le> LOG_LEVEL_WARN
                  then to_stderr (''['' @ logger_level_to_string level @ ''] '' @ message @ [CHR 0x0A]) l else l)
         in Reply (unlock_log l, fs))))"

section \<open>Opening and closing\<close>

text \<open>Both log a line of their own while they hold the mutex.\<close>

definition open_log :: "log_env \<Rightarrow> string \<Rightarrow> fs \<Rightarrow> fs \<times> bool" where
  "open_log env path fs =
    (let fs = (case before_slash (strncpy_into 512 path) of
           None \<Rightarrow> fs
         | Some dir \<Rightarrow> (case mkdir_path fs dir of None \<Rightarrow> fs | Some fs \<Rightarrow> fs))
     in if lo_fopen env then (case append_file path [] fs of None \<Rightarrow> (fs, False) | Some fs \<Rightarrow> (fs, True)) else (fs, False))"

definition logger_init :: "log_env \<Rightarrow> string option \<Rightarrow> log_state \<Rightarrow> (int \<times> log_state) reply" where
  "logger_init env log_file = (\<lambda>(l, fs).
     on_reply (lock_log l) (\<lambda>l.
       if lg_initialized l then Reply (0, unlock_log l, fs)
       else
         let started = (\<lambda>(l, fs). on_reply (logger_log env LOG_LEVEL_INFO ''logger.c'' 84
                 (''Logger initialized (log file: '' @ (case log_file of None \<Rightarrow> ''stderr'' | Some p \<Rightarrow> p) @ '')'')
                 (l\<lparr>lg_initialized := True\<rparr>, fs)) (\<lambda>(l, fs). Reply (0, unlock_log l, fs)))
         in (case log_file of
               None \<Rightarrow> started (l\<lparr>lg_file := Some To_Stderr\<rparr>, fs)
             | Some p \<Rightarrow>
                 let l = l\<lparr>lg_path := strncpy_into 512 p\<rparr>; (fs, opened) = open_log env p fs in
                 if \<not> opened
                 then Reply (-1, unlock_log (to_stderr (''[LOGGER] Failed to open log file: '' @ lo_error env @ [CHR 0x0A])
                        (l\<lparr>lg_file := None\<rparr>)), fs)
                 else started (l\<lparr>lg_file := Some (To_File p)\<rparr>, fs))))"

definition logger_close :: "log_env \<Rightarrow> log_state \<Rightarrow> log_state reply" where
  "logger_close env = (\<lambda>(l, fs).
     on_reply (lock_log l) (\<lambda>l.
       on_reply (case lg_file l of
           Some (To_File p) \<Rightarrow> logger_log env LOG_LEVEL_INFO ''logger.c'' 94 ''Logger closing...'' (l, fs)
         | _ \<Rightarrow> Reply (l, fs)) (\<lambda>(l, fs).
         Reply (unlock_log (l\<lparr>lg_file := None, lg_initialized := False\<rparr>), fs))))"

section \<open>Bytes\<close>

text \<open>
  The loop ends when fewer than five bytes of the buffer are left.  With no bytes to show the
  array is never written.
\<close>

fun hex_dump :: "nat \<Rightarrow> nat \<Rightarrow> nat \<Rightarrow> byte list \<Rightarrow> string" where
  "hex_dump len i remaining [] = []"
| "hex_dump len i remaining (b # bs) =
    (if remaining \<le> 4 then []
     else if (i + 1) mod 16 = 0 \<and> i + 1 < len
     then hex_byte b @ CHR 0x20 # CHR 0x0A # hex_dump len (i + 1) (remaining - 4) bs
     else hex_byte b @ CHR 0x20 # hex_dump len (i + 1) (remaining - 3) bs)"

definition logger_debug_hex :: "log_env \<Rightarrow> string \<Rightarrow> byte list \<Rightarrow> log_state \<Rightarrow> log_state reply" where
  "logger_debug_hex env label data = (\<lambda>(l, fs).
     on_reply (logger_is_enabled LOG_LEVEL_DEBUG l) (\<lambda>(enabled, l).
       if \<not> enabled then Reply (l, fs)
       else
         let hex = (if data = [] then lo_stack env else hex_dump (length data) 0 4096 data)
         in logger_log env LOG_LEVEL_DEBUG ''logger.c'' 202 (label @ '': '' @ hex) (l, fs)))"

end
