(* ===== verification/Logger_Properties.thy ===== *)
theory Logger_Properties
  imports Logger
begin

text \<open>
  The logger as a transition system: \<open>logger_init\<close> logs a line while it holds the mutex that
  logging takes, so it never returns once it has opened its file.
\<close>

lemma lock_log_Reply [simp]: "lock_log l = Reply l' \<longleftrightarrow> \<not> lg_locked l \<and> l' = l\<lparr>lg_locked := True\<rparr>"
  by (auto simp: lock_log_def)

lemma on_reply_Reply: "on_reply r f = Reply b \<longleftrightarrow> (\<exists>a. r = Reply a \<and> f a = Reply b)"
  by (cases r) auto

lemma locked_blocks: "lg_locked l \<Longrightarrow> logger_log env level src line text (l, fs) = Blocked"
  by (simp add: logger_log_def logger_is_enabled_def lock_log_def)

definition opens :: "log_env \<Rightarrow> string \<Rightarrow> fs \<Rightarrow> bool" where
  "opens env p fs \<longleftrightarrow> snd (open_log env p fs)"

definition log_idle :: "logger \<Rightarrow> bool" where
  "log_idle l \<longleftrightarrow> lg_file l = None \<and> \<not> lg_locked l \<and> \<not> lg_initialized l"

lemma init_blocks:
  assumes "log_idle l" and "name = None \<or> (\<exists>p. name = Some p \<and> opens env p fs)"
  shows "logger_init env name (l, fs) = Blocked"
  using assms
  by (auto simp: logger_init_def lock_log_def log_idle_def opens_def locked_blocks Let_def split: option.split prod.split)

lemma init_refused:
  assumes "log_idle l" and "\<not> opens env p fs"
  shows "\<exists>l'. logger_init env (Some p) (l, fs) = Reply (-1, l', fst (open_log env p fs)) \<and> log_idle l'"
  using assms
  by (auto simp: logger_init_def lock_log_def log_idle_def opens_def unlock_log_def to_stderr_def Let_def split: prod.split)

lemma log_keeps:
  assumes "log_idle l" and "logger_log env level src line text (l, fs) = Reply (l', fs')"
  shows "log_idle l' \<and> fs' = fs"
  using assms
  by (auto simp: logger_log_def logger_is_enabled_def on_reply_Reply log_idle_def unlock_log_def put_stream_def to_stderr_def
      Let_def split: if_splits)

lemma close_idle: "log_idle l \<Longrightarrow> logger_close env (l, fs) = Reply (l, fs)"
  by (simp add: logger_close_def lock_log_def log_idle_def unlock_log_def)

lemma level_idle: "log_idle l \<Longrightarrow> logger_set_level level l = Reply (l\<lparr>lg_level := level\<rparr>)"
  by (simp add: logger_set_level_def lock_log_def unlock_log_def log_idle_def)

section \<open>Any sequence of calls\<close>

inductive log_step :: "log_state \<Rightarrow> log_state \<Rightarrow> bool" where
  step_init: "logger_init env name s = Reply (rc, s') \<Longrightarrow> log_step s s'"
| step_log: "logger_log env level src line text s = Reply s' \<Longrightarrow> log_step s s'"
| step_hex: "logger_debug_hex env label data s = Reply s' \<Longrightarrow> log_step s s'"
| step_close: "logger_close env s = Reply s' \<Longrightarrow> log_step s s'"
| step_level: "logger_set_level level l = Reply l' \<Longrightarrow> log_step (l, fs) (l', fs)"

inductive_cases log_stepE: "log_step s s'"

lemma enabled_idle: "logger_is_enabled level l = Reply (b, l') \<Longrightarrow> log_idle l \<Longrightarrow> log_idle l'"
  by (auto simp: logger_is_enabled_def on_reply_Reply unlock_log_def log_idle_def)

lemma init_idle: "log_idle l \<Longrightarrow> logger_init env name (l, fs) = Reply (rc, l', fs') \<Longrightarrow> rc = -1 \<and> log_idle l'"
proof (cases "name = None \<or> (\<exists>p. name = Some p \<and> opens env p fs)")
  case True
  then show "log_idle l \<Longrightarrow> logger_init env name (l, fs) = Reply (rc, l', fs') \<Longrightarrow> rc = -1 \<and> log_idle l'"
    using init_blocks [of l name env fs] by simp
next
  case False
  then obtain p where "name = Some p" "\<not> opens env p fs" by auto
  then show "log_idle l \<Longrightarrow> logger_init env name (l, fs) = Reply (rc, l', fs') \<Longrightarrow> rc = -1 \<and> log_idle l'"
    using init_refused [of l env p fs] by auto
qed

lemma hex_keeps: "log_idle l \<Longrightarrow> logger_debug_hex env label data (l, fs) = Reply (l', fs') \<Longrightarrow> log_idle l'"
  by (auto simp: logger_debug_hex_def on_reply_Reply Let_def split: if_splits dest!: enabled_idle log_keeps [rotated])

lemma log_step_idle: "log_step s s' \<Longrightarrow> log_idle (fst s) \<Longrightarrow> log_idle (fst s')"
proof (induction rule: log_step.induct)
  case (step_level level l l' fs)
  then show ?case using level_idle [of l level] by (auto simp: log_idle_def)
next
  case (step_close env s s')
  then show ?case using close_idle [of "fst s" env "snd s"] by simp
next
  case (step_init env name s rc s')
  then show ?case using init_idle [of "fst s" env name "snd s" rc "fst s'" "snd s'"] by simp
next
  case (step_log env level src line msg s s')
  then show ?case using log_keeps [of "fst s" env level src line msg "snd s" "fst s'" "snd s'"] by simp
next
  case (step_hex env label data s s')
  then show ?case using hex_keeps [of "fst s" env label data "snd s" "fst s'" "snd s'"] by simp
qed

text \<open>
  Whatever calls of the logger have returned, it has no file, and \<open>logger_init\<close> does not return
  when it can open one: it then waits for a mutex that it holds itself.
\<close>

theorem logger_never_opens:
  assumes "log_step\<^sup>*\<^sup>* (fresh_logger, fs) (l, fs')"
  shows "lg_file l = None \<and> \<not> lg_initialized l \<and> (opens env p fs' \<longrightarrow> logger_init env (Some p) (l, fs') = Blocked)
    \<and> (\<not> opens env p fs' \<longrightarrow> (\<exists>s. logger_init env (Some p) (l, fs') = Reply (-1, s)))"
proof -
  have "log_idle (fst s)" if "log_step\<^sup>*\<^sup>* (fresh_logger, fs) s" for s
    using that by (induction rule: rtranclp_induct) (simp add: fresh_logger_def log_idle_def, rule log_step_idle)
  from this [OF assms] have "log_idle l" by simp
  then show ?thesis using init_blocks [of l "Some p" env fs'] init_refused [of l env p fs'] by (auto simp: log_idle_def)
qed

section \<open>Bytes\<close>

text \<open>The text of the bytes stays in its buffer with the NUL behind it.\<close>

lemma hex_dump_fits: "length (hex_dump len i remaining bs) \<le> remaining - 1"
proof (induction len i remaining bs rule: hex_dump.induct)
  case (2 len i remaining b bs)
  then show ?case by (auto simp: hex_byte_def)
qed simp

end
