(* ===== verification/Daemon.thy ===== *)
theory Daemon
  imports P2P_Properties Dht_Properties Mixed_Id Logger_Properties
begin

text \<open>
  \<^verbatim>\<open>daemon.c\<close>: the process that owns the peers.  Its state joins the P2P manager (with the
  state manager, the event queue and the crypto state inside), the DHT node, the logger, the files
  under \<open>/tmp/.orcashi\<close> and its own variables.  A command is what a client wrote to the socket; its
  handler answers with a return code, a line of text and the new state.  What the system and the
  other threads answer during one command is the record \<open>daemon_env\<close>.  The lines that
  \<open>daemon_log\<close> writes and the pauses are left out.
\<close>

section \<open>Data\<close>

datatype DaemonState = DAEMON_STATE_STOPPED | DAEMON_STATE_RUNNING | DAEMON_STATE_STOPPING

record DaemonStatus =
  ds_state :: DaemonState
  ds_pid :: int
  ds_socket_fd :: int
  ds_start_time :: int
  ds_last_activity :: int
  ds_dht_connected :: bool
  ds_p2p_ready :: bool
  ds_peer_count :: int
  ds_pending_requests :: int

definition DAEMON_HOME :: string where "DAEMON_HOME = ''/tmp/.orcashi/''"
definition DAEMON_PID_FILE :: string where "DAEMON_PID_FILE = ''/tmp/.orcashi/daemon.pid''"
definition DAEMON_SOCKET :: string where "DAEMON_SOCKET = ''/tmp/.orcashi/socket''"
definition DAEMON_LOG_FILE :: string where "DAEMON_LOG_FILE = ''/tmp/.orcashi/daemon.log''"
definition STATE_FILE :: string where "STATE_FILE = ''/tmp/.orcashi/state.json''"
definition DHT_PORT :: int where "DHT_PORT = 33446"

record daemon =
  dm_p2p :: p2p
  dm_dht :: "DHTNode option"
  dm_net :: dht_world
  dm_status :: DaemonStatus
  dm_ipc :: int
  dm_running :: bool
  dm_log :: logger
  dm_fs :: fs

text \<open>\<open>v_identity\<close> and \<open>v_text\<close> are what uninitialised variables hold.\<close>

record daemon_env =
  v_p2p :: p2p_env
  v_dht :: dht_env
  v_ident :: ident_env
  v_log :: log_env
  v_clk :: clock
  v_rnd :: int
  v_pid :: int
  v_fopen :: bool
  v_ctime :: "int \<Rightarrow> string"
  v_identity :: OrcaIdentity
  v_text :: string

type_synonym answer = "(int \<times> string \<times> daemon) reply"

definition say :: "int \<Rightarrow> nat \<Rightarrow> string \<Rightarrow> daemon \<Rightarrow> answer" where
  "say rc sz line d = Reply (rc, snprintf_into sz line, d)"

abbreviation d_mgr :: "daemon \<Rightarrow> mgr" where
  "d_mgr d \<equiv> w_mgr (pm_world (dm_p2p d))"

definition on_state :: "(mgr \<Rightarrow> int \<times> mgr) \<Rightarrow> daemon \<Rightarrow> daemon" where
  "on_state f d = d\<lparr>dm_p2p := on_mgr f (dm_p2p d)\<rparr>"

definition d_peer :: "nat \<Rightarrow> daemon \<Rightarrow> Peer" where
  "d_peer i d = g_peers (d_mgr d) ! i"

section \<open>The process\<close>

definition daemon_write_pid :: "daemon_env \<Rightarrow> daemon \<Rightarrow> int \<times> daemon" where
  "daemon_write_pid v d = (case write_path (dm_fs d) DAEMON_PID_FILE (dec_int (v_pid v)) of
      None \<Rightarrow> (-1, d)
    | Some fs \<Rightarrow> (0, d\<lparr>dm_fs := fs\<rparr>))"

definition daemon_read_pid :: "fs \<Rightarrow> int" where
  "daemon_read_pid fs = (case read_path fs DAEMON_PID_FILE of
      None \<Rightarrow> -1
    | Some t \<Rightarrow> (case scan_d t of None \<Rightarrow> -1 | Some (pid, _) \<Rightarrow> pid))"

definition daemon_remove_pid :: "fs \<Rightarrow> fs" where
  "daemon_remove_pid fs = unlink_path DAEMON_PID_FILE fs"

text \<open>\<open>lives\<close> says for which processes \<open>kill (pid, 0)\<close> succeeds.\<close>

definition daemon_is_running :: "(int \<Rightarrow> bool) \<Rightarrow> fs \<Rightarrow> bool \<times> fs" where
  "daemon_is_running lives fs =
    (let pid = daemon_read_pid fs in
     if pid \<le> 0 then (False, fs)
     else if lives pid then (True, fs)
     else (False, daemon_remove_pid fs))"

definition daemon_get_status :: "daemon \<Rightarrow> DaemonStatus" where
  "daemon_get_status d = dm_status d"

definition daemon_signal_handler :: "int \<Rightarrow> daemon \<Rightarrow> daemon" where
  "daemon_signal_handler sig d = d\<lparr>dm_running := False\<rparr>"

fun await_exit :: "(nat \<Rightarrow> int \<Rightarrow> bool) \<Rightarrow> nat list \<Rightarrow> fs \<Rightarrow> fs" where
  "await_exit lives [] fs = fs"
| "await_exit lives (i # is) fs =
    (let (up, fs) = daemon_is_running (lives i) fs in if \<not> up then fs else await_exit lives is fs)"

text \<open>The list of the processes that were sent \<open>SIGTERM\<close>, and the files afterwards.\<close>

definition daemon_stop :: "(nat \<Rightarrow> int \<Rightarrow> bool) \<Rightarrow> fs \<Rightarrow> int \<times> int list \<times> fs" where
  "daemon_stop lives fs =
    (let (up, fs) = daemon_is_running (lives 0) fs in
     if \<not> up then (0, [], fs)
     else
       let pid = daemon_read_pid fs;
           fs' = (if pid > 0 then await_exit lives [1..<11] fs else fs)
       in (0, if pid > 0 then [pid] else [], unlink_path DAEMON_SOCKET (daemon_remove_pid fs')))"

section \<open>The socket for clients\<close>

definition d_close :: "int \<Rightarrow> daemon \<Rightarrow> daemon" where
  "d_close fd d = d\<lparr>dm_net := (dm_net d)\<lparr>dw_net := close_socket fd (dw_net (dm_net d))\<rparr>\<rparr>"

definition d_ask :: "daemon_env \<Rightarrow> daemon \<Rightarrow> bool \<times> daemon" where
  "d_ask v d = (let (ok, s) = ask (dv_net (v_dht v)) (dw_net (dm_net d)) in (ok, d\<lparr>dm_net := (dm_net d)\<lparr>dw_net := s\<rparr>\<rparr>))"

text \<open>\<open>bind\<close> creates the file of the socket.\<close>

definition daemon_ipc_init :: "daemon_env \<Rightarrow> daemon \<Rightarrow> int \<times> daemon" where
  "daemon_ipc_init v d =
    (let d = d\<lparr>dm_fs := unlink_path DAEMON_SOCKET (dm_fs d)\<rparr>;
         (fd, s) = open_socket (dv_net (v_dht v)) (dw_net (dm_net d));
         d = d\<lparr>dm_net := (dm_net d)\<lparr>dw_net := s\<rparr>, dm_ipc := fd\<rparr>
     in if fd < 0 then (-1, d)
        else let (bound, d) = d_ask v d in
          (case (bound, write_path (dm_fs d) DAEMON_SOCKET []) of
             (True, Some fs) \<Rightarrow>
               let (listening, d) = d_ask v (d\<lparr>dm_fs := fs\<rparr>) in
               if \<not> listening then (-1, (d_close fd d)\<lparr>dm_ipc := -1\<rparr>) else (0, d)
           | _ \<Rightarrow> (-1, (d_close fd d)\<lparr>dm_ipc := -1\<rparr>)))"

definition daemon_ipc_close :: "daemon \<Rightarrow> daemon" where
  "daemon_ipc_close d =
    (if 0 \<le> dm_ipc d then (d_close (dm_ipc d) d)\<lparr>dm_ipc := -1, dm_fs := unlink_path DAEMON_SOCKET (dm_fs d)\<rparr> else d)"

section \<open>Commands\<close>

text \<open>The identity is loaded without a passcode.\<close>

definition load_identity :: "daemon_env \<Rightarrow> daemon \<Rightarrow> (int \<times> OrcaIdentity \<times> daemon) option" where
  "load_identity v d = do {
     (rc, oi, c) \<leftarrow> orca_identity_load (v_ident v) (Some (v_identity v)) None (dm_fs d) (pm_crypto (dm_p2p d));
     Some (rc, the oi, d\<lparr>dm_p2p := (dm_p2p d)\<lparr>pm_crypto := c\<rparr>\<rparr>) }"

definition daemon_cmd_identity :: "daemon_env \<Rightarrow> nat \<Rightarrow> daemon \<Rightarrow> answer" where
  "daemon_cmd_identity v sz d = on_value (load_identity v d) (\<lambda>(rc, oi, d).
     if rc < 0 then say (-1) sz (''ERROR: No identity found'' @ nl) d
     else
       let mixed = (case mixed_id_encode (Some (oi_id oi)) (Some ''0.0.0.0'') 9000 64 of None \<Rightarrow> v_text v | Some m \<Rightarrow> m)
       in say 0 sz (''ID        : '' @ oi_id oi @ nl @ ''Name      : '' @ oi_name oi @ nl
            @ ''Mode      : '' @ (if oi_mode oi = ORCA_IDENTITY_MODE_SECURE then ''SECURE'' else ''NORMAL'') @ nl
            @ ''Created   : '' @ v_ctime v (oi_created_at oi) @ ''Mixed ID  : '' @ mixed @ nl) d)"

text \<open>The result of the announcement is not looked at.\<close>

definition announce_identity ::
    "daemon_env \<Rightarrow> OrcaIdentity \<Rightarrow> DHTNode \<Rightarrow> dht_world \<Rightarrow> cstate \<Rightarrow> (DHTNode \<times> dht_world \<times> cstate) option" where
  "announce_identity v oi n w c =
    (if oi_mode oi = ORCA_IDENTITY_MODE_SECURE then do {
       (_, n, w, c) \<leftarrow> dht_node_announce_secure (v_dht v) (x_ok (v_p2p v)) (x_ssl (v_p2p v)) (oi_id oi) P2P_PORT
         (oi_public_key oi) (oi_signature oi) n w c;
       Some (n, w, c) }
     else do {
       (_, n, w) \<leftarrow> dht_node_announce (v_dht v) (oi_id oi) P2P_PORT n w;
       Some (n, w, c) })"

definition daemon_cmd_listen :: "daemon_env \<Rightarrow> nat \<Rightarrow> daemon \<Rightarrow> answer" where
  "daemon_cmd_listen v sz d =
    (if dm_dht d \<noteq> None then say 0 sz (''DHT already announced'' @ nl) d
     else on_value (load_identity v d) (\<lambda>(rc, oi, d).
       if rc < 0 then say (-1) sz (''ERROR: No identity found. Register first.'' @ nl) d
       else (case dht_node_create (v_dht v) of
           None \<Rightarrow> say (-1) sz (''ERROR: Failed to create DHT node'' @ nl) d
         | Some n \<Rightarrow>
             let (rc, n, w) = dht_node_start (v_dht v) n DHT_PORT (dm_net d) in
             if rc < 0 then say (-1) sz (''ERROR: Failed to start DHT node'' @ nl) (d\<lparr>dm_net := dht_node_destroy n w\<rparr>)
             else on_value (announce_identity v oi n w (pm_crypto (dm_p2p d))) (\<lambda>(n, w, c).
               on_value (p2p_init (v_p2p v) ((dm_p2p d)\<lparr>pm_crypto := c\<rparr>)) (\<lambda>(_, st).
                 say 0 sz (''DHT announced ID '' @ oi_id oi @ '' on port '' @ dec_int P2P_PORT @ nl
                     @ ''P2P listening on UDP port '' @ dec_int P2P_PORT @ nl @ ''Daemon is ready'' @ nl)
                   (d\<lparr>dm_dht := Some n, dm_net := w, dm_p2p := st,
                      dm_status := (dm_status d)\<lparr>ds_dht_connected := True, ds_p2p_ready := True\<rparr>\<rparr>))))))"

definition daemon_cmd_search :: "daemon_env \<Rightarrow> string option \<Rightarrow> nat \<Rightarrow> daemon \<Rightarrow> answer" where
  "daemon_cmd_search v args sz d = (case args of
      None \<Rightarrow> say (-1) sz (''ERROR: Usage: search <id>'' @ nl) d
    | Some a \<Rightarrow> (case dm_dht d of
        None \<Rightarrow> say (-1) sz (''ERROR: Daemon not listening. Use '' @ [CHR 0x27] @ ''listen'' @ [CHR 0x27] @ '' first.'' @ nl) d
      | Some n \<Rightarrow>
          let pid = strncpy_into 64 a in
          on_value (dht_node_lookup (v_dht v) pid 10 n (dm_net d)) (\<lambda>(r, n, w).
            let d = d\<lparr>dm_dht := Some n, dm_net := w\<rparr> in
            case r of
              Still_Waiting \<Rightarrow> Blocked
            | Found (ip, port) \<Rightarrow>
                on_value (state_set_ip (Some pid) (Some ip) (d_mgr d)) (\<lambda>(_, m).
                  let d = on_state (\<lambda>_. (0, m)) d;
                      d = on_state (state_set_port (Some pid) port) d;
                      d = on_state (state_set_online (v_clk v) (Some pid) True) d
                  in say 0 sz (''Found peer '' @ pid @ nl @ ''  IP  : '' @ ip @ nl @ ''  Port: '' @ dec_int port @ nl
                       @ ''  Status: ONLINE'' @ nl) d)
            | Not_Found \<Rightarrow>
                say 1 sz (''Peer '' @ pid @ '' not found'' @ nl @ ''  Status: OFFLINE'' @ nl)
                  (on_state (state_set_online (v_clk v) (Some pid) False) d))))"

text \<open>
  \<open>p2p_connect\<close> looks the peer up with a DHT node of its own; here that lookup runs against the
  library that this process already uses.
\<close>

definition wants_lookup :: "string \<Rightarrow> p2p \<Rightarrow> bool" where
  "wants_lookup pid st \<longleftrightarrow> pm_initialized st \<and> (case find_peer (normalize_id 64 pid) st of
      None \<Rightarrow> True
    | Some i \<Rightarrow> p2p_state_code (pp_state (pm_peers st ! i)) < p2p_state_code P2P_STATE_HANDSHAKE)"

definition connect_with :: "p2p_env \<Rightarrow> string \<Rightarrow> daemon \<Rightarrow> (int \<times> daemon) reply" where
  "connect_with env pid d = (case p2p_connect env pid (dm_p2p d) of
      None \<Rightarrow> Overrun
    | Some Self_Deadlock \<Rightarrow> Blocked
    | Some (Acquired (rc, st)) \<Rightarrow> Reply (rc, d\<lparr>dm_p2p := st\<rparr>))"

definition daemon_connect :: "daemon_env \<Rightarrow> string \<Rightarrow> daemon \<Rightarrow> (int \<times> daemon) reply" where
  "daemon_connect v pid d =
    (if wants_lookup pid (dm_p2p d) then
       on_value (peer_lookup (v_dht v) (normalize_id 64 pid) 10 (dm_net d)) (\<lambda>(r, w). case r of
           None \<Rightarrow> Blocked
         | Some x \<Rightarrow> connect_with ((v_p2p v)\<lparr>x_dht := x\<rparr>) pid (d\<lparr>dm_net := w\<rparr>))
     else connect_with (v_p2p v) pid d)"

definition daemon_cmd_add :: "daemon_env \<Rightarrow> string option \<Rightarrow> nat \<Rightarrow> daemon \<Rightarrow> answer" where
  "daemon_cmd_add v args sz d = (case args of
      None \<Rightarrow> say (-1) sz (''ERROR: Usage: add <id>'' @ nl) d
    | Some a \<Rightarrow>
        let pid = strncpy_into 64 a;
            d = (case state_get_peer (Some pid) (d_mgr d) of
                   None \<Rightarrow> on_state (state_add_peer (v_clk v) (Some pid)) d
                 | Some _ \<Rightarrow> d)
        in (case state_get_peer (Some pid) (d_mgr d) of
              None \<Rightarrow> say (-1) sz (''ERROR: Failed to add peer'' @ nl) d
            | Some i \<Rightarrow>
                if p_state (d_peer i d) = PEER_FRIEND then say 0 sz (''Already friends with '' @ pid @ nl) d
                else
                  let d = on_state (state_update_peer (clk_after 2 (v_clk v)) (Some pid) PEER_REQUEST_SENT) d;
                      waiting = (\<lambda>d. say 0 sz (''Request sent to '' @ pid @ nl @ ''Waiting for peer to come online'' @ nl) d)
                  in if length (p_ip (d_peer i d)) > 0 \<and> p_port (d_peer i d) > 0 then
                       on_reply (daemon_connect v pid d) (\<lambda>(rc, d).
                         if rc = 0 then say 0 sz (''Request sent to '' @ pid @ nl @ ''Connection established'' @ nl) d
                         else waiting d)
                     else waiting d))"

definition daemon_cmd_accept :: "daemon_env \<Rightarrow> string option \<Rightarrow> nat \<Rightarrow> daemon \<Rightarrow> answer" where
  "daemon_cmd_accept v args sz d = (case args of
      None \<Rightarrow> say (-1) sz (''ERROR: Usage: accept <id>'' @ nl) d
    | Some a \<Rightarrow>
        let pid = strncpy_into 64 a in
        (case state_get_peer (Some pid) (d_mgr d) of
           None \<Rightarrow> say (-1) sz (''ERROR: Peer '' @ pid @ '' not found'' @ nl) d
         | Some i \<Rightarrow>
             if p_state (d_peer i d) \<noteq> PEER_REQUEST_RECEIVED
             then say (-1) sz (''ERROR: No pending request from '' @ pid @ nl) d
             else
               let d = on_state (state_update_peer (v_clk v) (Some pid) PEER_FRIEND) d in
               on_value (if length (p_ip (d_peer i d)) > 0 \<and> p_port (d_peer i d) > 0 then p2p_accept (v_p2p v) pid (dm_p2p d)
                         else Some (0, dm_p2p d)) (\<lambda>(rc, st).
               on_value (state_deliver_ghost_messages (clk_after 2 (v_clk v)) (Some pid) (w_queue (pm_world st)) (w_mgr (pm_world st)))
                 (\<lambda>(count, q, m).
                    let d = d\<lparr>dm_p2p := st\<lparr>pm_world := (pm_world st)\<lparr>w_mgr := m, w_queue := q\<rparr>\<rparr>\<rparr> in
                    say 0 sz (''Accepted request from '' @ pid @ nl
                      @ (if rc = 0 then [] else ''Peer is offline, will connect when online'' @ nl)
                      @ ''Delivered '' @ dec_int count @ '' ghost messages'' @ nl) d))))"

definition daemon_cmd_reject :: "string option \<Rightarrow> nat \<Rightarrow> daemon \<Rightarrow> answer" where
  "daemon_cmd_reject args sz d = (case args of
      None \<Rightarrow> say (-1) sz (''ERROR: Usage: reject <id>'' @ nl) d
    | Some a \<Rightarrow>
        let pid = strncpy_into 64 a in
        (case state_get_peer (Some pid) (d_mgr d) of
           None \<Rightarrow> say (-1) sz (''ERROR: Peer '' @ pid @ '' not found'' @ nl) d
         | Some i \<Rightarrow>
             if p_state (d_peer i d) \<noteq> PEER_REQUEST_RECEIVED
             then say (-1) sz (''ERROR: No pending request from '' @ pid @ nl) d
             else say 0 sz (''Rejected request from '' @ pid @ nl) (on_state (state_remove_peer (Some pid)) d)))"

text \<open>
  \<open>snprintf\<close> returns what it wanted to write, so \<open>pos\<close> can leave the buffer; then the room that is
  left wraps round to a huge size and the next line is written behind the buffer.
\<close>

fun peers_buffer :: "nat \<Rightarrow> string \<Rightarrow> string list \<Rightarrow> string option" where
  "peers_buffer pos buf [] = Some buf"
| "peers_buffer pos buf (l # ls) =
    (if 4096 < pos then None else peers_buffer (pos + length l) (buf @ take (4096 - pos - 1) l) ls)"

definition peer_line :: "Peer \<Rightarrow> string" where
  "peer_line p = ''  '' @ p_id p @ '' | '' @ state_to_string (p_state p) @ '' | '' @ p_ip p @ '':'' @ dec_int (p_port p) @ nl"

definition daemon_cmd_peers :: "nat \<Rightarrow> daemon \<Rightarrow> answer" where
  "daemon_cmd_peers sz d =
    (let (count, peers) = state_get_peers True 128 (d_mgr d) in
     if count = 0 then say 0 sz (''No peers'' @ nl) d
     else on_value (peers_buffer 0 [] ((''PEERS ('' @ dec_int count @ ''):'' @ nl) # map peer_line peers)) (\<lambda>buffer.
       Reply (0, strncpy_into sz buffer, d)))"

text \<open>
  The id is copied up to the blank, whatever its length, into 64 bytes.  The message always fits:
  it is part of a command of at most 511 characters.
\<close>

definition split_message :: "string \<Rightarrow> (string \<times> string) option" where
  "split_message args = (case strchr_at (CHR 0x20) args of
      None \<Rightarrow> None
    | Some rest \<Rightarrow> Some (take (length args - length rest) args, tl rest))"

definition daemon_cmd_chat_send :: "daemon_env \<Rightarrow> string option \<Rightarrow> nat \<Rightarrow> daemon \<Rightarrow> answer" where
  "daemon_cmd_chat_send v args sz d = (case args of
      None \<Rightarrow> say (-1) sz (''ERROR: Usage: chat_send <id> <message>'' @ nl) d
    | Some a \<Rightarrow> (case split_message a of
        None \<Rightarrow> say (-1) sz (''ERROR: Invalid chat_send command'' @ nl) d
      | Some (i, m) \<Rightarrow>
          on_value (strcpy_into 64 i) (\<lambda>pid.
          on_value (strcpy_into 4096 m) (\<lambda>message.
            if \<not> p2p_is_connected pid (dm_p2p d)
            then say (-1) sz (''ERROR: Peer '' @ pid @ '' is not connected'' @ nl) d
            else
              let (rc, st) = p2p_send (v_p2p v) (Some pid) (Some message) (dm_p2p d); d = d\<lparr>dm_p2p := st\<rparr> in
              if rc = 0 then say 0 sz (''Message sent to '' @ pid @ nl) (on_state (state_add_message (Some pid) (Some message)) d)
              else say (-1) sz (''ERROR: Failed to send message to '' @ pid @ nl) d))))"

text \<open>Whether there was room for the message is not looked at.\<close>

definition daemon_cmd_ghost :: "daemon_env \<Rightarrow> string option \<Rightarrow> nat \<Rightarrow> daemon \<Rightarrow> answer" where
  "daemon_cmd_ghost v args sz d = (case args of
      None \<Rightarrow> say (-1) sz (''ERROR: Usage: ghost <id> <message>'' @ nl) d
    | Some a \<Rightarrow> (case split_message a of
        None \<Rightarrow> say (-1) sz (''ERROR: Invalid ghost command'' @ nl) d
      | Some (i, m) \<Rightarrow>
          on_value (strcpy_into 64 i) (\<lambda>pid.
          on_value (strcpy_into 4096 m) (\<lambda>message.
          on_value (state_add_ghost_message (v_clk v) (v_rnd v) (Some pid) (Some message) (d_mgr d)) (\<lambda>(_, mg).
            say 0 sz (''Ghost message stored for '' @ pid @ nl @ ''Will be delivered when peer comes online'' @ nl)
              (on_state (\<lambda>_. (0, mg)) d))))))"

definition daemon_cmd_status :: "daemon_env \<Rightarrow> nat \<Rightarrow> daemon \<Rightarrow> answer" where
  "daemon_cmd_status v sz d =
     say 0 sz (''Daemon running (PID: '' @ dec_int (v_pid v) @ '')'' @ nl
       @ ''Uptime: '' @ dec_int (v_clk v 0 - ds_start_time (dm_status d)) @ '' seconds'' @ nl
       @ ''DHT: '' @ (if ds_dht_connected (dm_status d) then ''Connected'' else ''Disconnected'') @ nl
       @ ''P2P: '' @ (if ds_p2p_ready (dm_status d) then ''Ready'' else ''Not ready'') @ nl
       @ ''Peers: '' @ dec_int (state_get_count (d_mgr d)) @ nl) d"

definition daemon_cmd_stop :: "nat \<Rightarrow> daemon \<Rightarrow> answer" where
  "daemon_cmd_stop sz d = say 0 sz (''Shutting down...'' @ nl) (d\<lparr>dm_running := False\<rparr>)"

section \<open>Dispatch\<close>

text \<open>The name of the command and, behind the first blank, its arguments.\<close>

definition command_words :: "string \<Rightarrow> string \<times> string option" where
  "command_words cmd =
    (let c = strncpy_into 512 cmd in
     case split_message c of None \<Rightarrow> (c, None) | Some (name, args) \<Rightarrow> (name, Some args))"

definition daemon_handle_command :: "daemon_env \<Rightarrow> string \<Rightarrow> nat \<Rightarrow> daemon \<Rightarrow> answer" where
  "daemon_handle_command v cmd sz d =
    (let (name, args) = command_words cmd in
     if name = ''identity'' then daemon_cmd_identity v sz d
     else if name = ''listen'' then daemon_cmd_listen v sz d
     else if name = ''search'' then daemon_cmd_search v args sz d
     else if name = ''add'' then daemon_cmd_add v args sz d
     else if name = ''accept'' then daemon_cmd_accept v args sz d
     else if name = ''reject'' then daemon_cmd_reject args sz d
     else if name = ''peers'' then daemon_cmd_peers sz d
     else if name = ''chat_send'' then daemon_cmd_chat_send v args sz d
     else if name = ''ghost'' then daemon_cmd_ghost v args sz d
     else if name = ''status'' then daemon_cmd_status v sz d
     else if name = ''stop'' then daemon_cmd_stop sz d
     else say (-1) sz (''ERROR: Unknown command: '' @ name @ nl) d)"

text \<open>
  One client: \<open>received\<close> are the bytes of the one \<open>read\<close>, and the result holds what was written to
  the client before its descriptor was closed.
\<close>

definition daemon_ipc_handle :: "daemon_env \<Rightarrow> int \<Rightarrow> byte list \<Rightarrow> daemon \<Rightarrow> (string option \<times> daemon) reply" where
  "daemon_ipc_handle v fd received d =
    (if received = [] then Reply (None, d_close fd d)
     else on_reply (daemon_handle_command v (recv_text (take 4095 received)) 8192 d) (\<lambda>(rc, response, d).
       let response = (if rc = 0 \<and> response = [] then ''OK'' @ nl
             else if rc < 0 \<and> response = [] then ''ERROR: Command failed'' @ nl
             else response)
       in Reply (Some response, d_close fd d)))"

section \<open>The threads\<close>

text \<open>A round of the thread that accepts clients: the descriptor is new, or \<open>accept\<close> fails.\<close>

definition daemon_ipc_round :: "daemon_env \<Rightarrow> byte list \<Rightarrow> daemon \<Rightarrow> (string option \<times> daemon) reply" where
  "daemon_ipc_round v received d =
    (let (fd, s) = open_socket (dv_net (v_dht v)) (dw_net (dm_net d)); d = d\<lparr>dm_net := (dm_net d)\<lparr>dw_net := s\<rparr>\<rparr> in
     if 0 \<le> fd then daemon_ipc_handle v fd received d else Reply (None, d))"

definition daemon_dht_round :: "dht_event list \<Rightarrow> daemon \<Rightarrow> daemon" where
  "daemon_dht_round events d = (case dm_dht d of
      None \<Rightarrow> d
    | Some n \<Rightarrow> d\<lparr>dm_dht := Some (dht_node_periodic events n)\<rparr>)"

text \<open>
  A datagram on the socket of the P2P manager becomes the event of a received message, whatever
  it holds.  The address is stored as the id of the peer, and the sender stays empty.
\<close>

definition datagram_event :: "clock \<Rightarrow> byte list \<Rightarrow> sockaddr \<Rightarrow> Event" where
  "datagram_event clk bs from = (event_create clk EVENT_MESSAGE_RECEIVED (Some (ntop (sa_ip from))))
     \<lparr>ev_ip := ntop (sa_ip from), ev_port := int (sa_port from), ev_message := recv_text bs\<rparr>"

definition daemon_p2p_round :: "clock \<Rightarrow> int \<Rightarrow> byte list \<Rightarrow> sockaddr \<Rightarrow> daemon \<Rightarrow> daemon" where
  "daemon_p2p_round clk ready received from d =
    (if pm_socket (dm_p2p d) < 0 \<or> ready \<le> 0 \<or> received = [] then d
     else d\<lparr>dm_p2p := p2p_push (datagram_event clk (take 4095 received) from) (dm_p2p d)\<rparr>)"

definition save_state :: "bool \<Rightarrow> daemon \<Rightarrow> daemon" where
  "save_state fopen_ok d = (case snd (state_save fopen_ok (d_mgr d)) of
      None \<Rightarrow> d
    | Some t \<Rightarrow> (case write_path (dm_fs d) STATE_FILE t of None \<Rightarrow> d | Some fs \<Rightarrow> d\<lparr>dm_fs := fs\<rparr>))"

text \<open>\<open>event_queue_pop\<close> waits while the loop of \<^verbatim>\<open>event_loop.c\<close>, not the daemon, runs.\<close>

definition daemon_event_round :: "daemon_env \<Rightarrow> wait_result list \<Rightarrow> daemon \<Rightarrow> daemon option" where
  "daemon_event_round v waits d = do {
     let w = pm_world (dm_p2p d);
     (ret, event, running, q) \<leftarrow> event_queue_pop waits True 100 (w_running w) (w_queue w);
     let w = w\<lparr>w_queue := q, w_running := running\<rparr>;
     w \<leftarrow> (if ret = 0 then map_option snd (event_process (v_clk v) event w) else Some w);
     Some (save_state (v_fopen v) (d\<lparr>dm_p2p := (dm_p2p d)\<lparr>pm_world := w\<rparr>\<rparr>)) }"

section \<open>Start and end\<close>

definition daemon_init :: "daemon_env \<Rightarrow> daemon \<Rightarrow> (int \<times> daemon) reply" where
  "daemon_init v d =
    (let d = (case mkdir_path (dm_fs d) DAEMON_HOME of None \<Rightarrow> d | Some fs \<Rightarrow> d\<lparr>dm_fs := fs\<rparr>) in
     on_reply (logger_init (v_log v) (Some DAEMON_LOG_FILE) (dm_log d, dm_fs d)) (\<lambda>(_, l, fs).
     on_reply (logger_set_level LOG_LEVEL_INFO l) (\<lambda>l.
     let d = d\<lparr>dm_log := l, dm_fs := fs\<rparr> in
     on_value (state_init (read_path (dm_fs d) STATE_FILE) (d_mgr d)) (\<lambda>(_, m).
     let d = on_state (\<lambda>_. (0, m)) d;
         (_, fs, c) = orca_identity_storage_init (dm_fs d) (pm_crypto (dm_p2p d)) in
     on_value (p2p_init (v_p2p v) ((dm_p2p d)\<lparr>pm_crypto := c\<rparr>)) (\<lambda>(_, st).
     let d = d\<lparr>dm_fs := fs, dm_p2p := st\<lparr>pm_world := snd (event_loop_init (pm_world st))\<rparr>\<rparr>;
         (rc, d) = daemon_ipc_init v d
     in if rc < 0 then Reply (-1, d)
        else Reply (0, d\<lparr>dm_status := (dm_status d)\<lparr>ds_state := DAEMON_STATE_RUNNING, ds_start_time := v_clk v 0, ds_pid := v_pid v\<rparr>,
               dm_running := True\<rparr>))))))"

definition daemon_cleanup :: "daemon_env \<Rightarrow> daemon \<Rightarrow> daemon reply" where
  "daemon_cleanup v d =
    (let d = d\<lparr>dm_running := False\<rparr>;
         d = (case dm_dht d of
                None \<Rightarrow> d
              | Some n \<Rightarrow>
                  let (n, w) = dht_node_stop n (dm_net d) in d\<lparr>dm_net := dht_node_destroy n w, dm_dht := None\<rparr>);
         d = d\<lparr>dm_p2p := p2p_cleanup (dm_p2p d)\<rparr>;
         d = save_state (v_fopen v) d;
         d = d\<lparr>dm_p2p := (dm_p2p d)\<lparr>pm_world := event_loop_stop (pm_world (dm_p2p d))\<rparr>\<rparr>
     in on_reply (logger_close (v_log v) (dm_log d, dm_fs d)) (\<lambda>(l, fs).
       let d = daemon_ipc_close (d\<lparr>dm_log := l, dm_fs := fs\<rparr>)
       in Reply (d\<lparr>dm_fs := daemon_remove_pid (dm_fs d), dm_status := (dm_status d)\<lparr>ds_state := DAEMON_STATE_STOPPED\<rparr>\<rparr>)))"

text \<open>
  What \<open>fork\<close> returned decides: an error, the caller, who gets the process id of the child, or the
  child.  The child initialises itself, runs until it is told to stop, and cleans up; it then
  returns to the caller of \<open>daemon_start\<close> like its parent.
\<close>

definition daemon_run :: "daemon_env \<Rightarrow> (daemon \<Rightarrow> daemon) \<Rightarrow> daemon \<Rightarrow> daemon" where
  "daemon_run v threads d = threads (snd (daemon_write_pid v d))"

definition daemon_start ::
    "daemon_env \<Rightarrow> (int \<Rightarrow> bool) \<Rightarrow> int \<Rightarrow> (daemon \<Rightarrow> daemon) \<Rightarrow> daemon \<Rightarrow> (int \<times> daemon) reply" where
  "daemon_start v lives forked threads d =
    (let (up, fs) = daemon_is_running lives (dm_fs d); d = d\<lparr>dm_fs := fs\<rparr> in
     if up then Reply (0, d)
     else if forked < 0 then Reply (-1, d)
     else if forked > 0 then Reply (0, d)
     else on_reply (daemon_init v d) (\<lambda>(rc, d).
       if rc < 0 then Reply (-1, d)
       else on_reply (daemon_cleanup v (daemon_run v threads d)) (\<lambda>d. Reply (0, d))))"

end
