(* ===== verification/Commands.thy ===== *)
theory Commands
  imports Daemon
begin

text \<open>
  \<^verbatim>\<open>commands.c\<close> and \<^verbatim>\<open>main.c\<close>: the program a user starts.  It is the same binary as the
  daemon, so a process has all of its globals: the field \<open>cl_proc\<close> is the record \<open>daemon\<close>, with the
  state manager, the crypto state and the files.  The rest of the record \<open>cli\<close> is the terminal, the
  static array of \<open>get_hidden_input\<close>, the requests sent to the daemon, the processes that were sent
  \<open>SIGTERM\<close> and what was shown of the answers.  The fixed texts on the screen are left out.  \<open>CMD_RESET\<close> is taken as declared, although
  \<^verbatim>\<open>commands.h\<close> lacks it.
\<close>

section \<open>Data\<close>

datatype CommandType = CMD_UNKNOWN | CMD_REGISTER | CMD_IDENTITY | CMD_LISTEN | CMD_SEARCH | CMD_ADD | CMD_ACCEPT | CMD_REJECT
  | CMD_PEERS | CMD_CHAT | CMD_GHOST | CMD_STATUS | CMD_STOP | CMD_RESET | CMD_HELP

text \<open>What happens to a request: which call fails, with the text of the error, or the bytes of the answer.\<close>

datatype wire = Socket_Fails string | Connect_Fails string | Write_Fails string | Read_Fails string | Answers "byte list"

record cli_env =
  e_daemon :: daemon_env
  e_lives :: "int \<Rightarrow> bool"
  e_fork :: int
  e_threads :: "daemon \<Rightarrow> daemon"
  e_rand :: int
  e_wire :: "nat \<Rightarrow> wire"
  e_tail :: string

record cli =
  cl_proc :: daemon
  cl_stdio :: string
  cl_tty :: string
  cl_password :: string
  cl_calls :: nat
  cl_sent :: "string list"
  cl_killed :: "int list"
  cl_shown :: "string list"

type_synonym result = "(int \<times> cli) reply"

abbreviation cl_fs :: "cli \<Rightarrow> fs" where
  "cl_fs cl \<equiv> dm_fs (cl_proc cl)"

abbreviation cl_crypto :: "cli \<Rightarrow> cstate" where
  "cl_crypto cl \<equiv> pm_crypto (dm_p2p (cl_proc cl))"

definition set_fs :: "fs \<Rightarrow> cli \<Rightarrow> cli" where
  "set_fs fs cl = cl\<lparr>cl_proc := (cl_proc cl)\<lparr>dm_fs := fs\<rparr>\<rparr>"

definition set_crypto :: "cstate \<Rightarrow> cli \<Rightarrow> cli" where
  "set_crypto c cl = cl\<lparr>cl_proc := (cl_proc cl)\<lparr>dm_p2p := (dm_p2p (cl_proc cl))\<lparr>pm_crypto := c\<rparr>\<rparr>\<rparr>"

definition display :: "string \<Rightarrow> cli \<Rightarrow> cli" where
  "display text cl = cl\<lparr>cl_shown := cl_shown cl @ [text]\<rparr>"

definition exits :: "int \<Rightarrow> cli \<Rightarrow> result" where
  "exits code cl = Reply (code, cl)"

abbreviation e_ident :: "cli_env \<Rightarrow> ident_env" where
  "e_ident env \<equiv> v_ident (e_daemon env)"

section \<open>The terminal\<close>

text \<open>
  The terminal hands out lines.  \<open>fgets\<close> reads them through the buffer of \<open>stdin\<close>;
  \<open>get_hidden_input\<close> reads from the terminal itself, behind whatever that buffer holds.
\<close>

definition newline :: char where "newline = CHR 0x0A"

definition first_line :: "string \<Rightarrow> string" where
  "first_line s = takeWhile (\<lambda>c. c \<noteq> newline) s @ (if newline \<in> set s then [newline] else [])"

definition c_string :: "string \<Rightarrow> string" where
  "c_string s = takeWhile (\<lambda>c. c \<noteq> CHR 0x00) s"

definition c_fgets :: "nat \<Rightarrow> cli \<Rightarrow> string option \<times> cli" where
  "c_fgets n cl =
    (let buf = cl_stdio cl; tty = cl_tty cl; got = take (n - 1) (first_line (buf @ tty)) in
     if got = [] then (None, cl)
     else (Some (c_string got),
       if length got \<le> length buf then cl\<lparr>cl_stdio := drop (length got) buf\<rparr>
       else cl\<lparr>cl_stdio := drop (length got) (buf @ first_line tty), cl_tty := drop (length (first_line tty)) tty\<rparr>))"

text \<open>\<open>s [strcspn (s, newline)] = 0\<close>\<close>

definition cut_line :: "string \<Rightarrow> string" where
  "cut_line s = takeWhile (\<lambda>c. c \<noteq> newline) s"

fun hidden_loop :: "string \<Rightarrow> string \<Rightarrow> string \<times> string" where
  "hidden_loop password [] = (password, [])"
| "hidden_loop password (c # tty) =
    (if 127 \<le> length password then (password, c # tty)
     else if c = newline \<or> c = CHR 0x0D then (password, tty)
     else if c = CHR 0x08 \<or> c = CHR 0x7F then hidden_loop (butlast password) tty
     else hidden_loop (password @ [c]) tty)"

text \<open>The result is a pointer to the static array: what it shows is \<open>cl_password\<close> at any later time.\<close>

definition get_hidden_input :: "cli \<Rightarrow> cli" where
  "get_hidden_input cl =
    (let (password, tty) = hidden_loop [] (cl_tty cl) in cl\<lparr>cl_password := c_string password, cl_tty := tty\<rparr>)"

section \<open>Names\<close>

definition command_parse_type :: "string option \<Rightarrow> CommandType" where
  "command_parse_type cmd = (case cmd of
      None \<Rightarrow> CMD_UNKNOWN
    | Some s \<Rightarrow>
        if s = ''register'' then CMD_REGISTER
        else if s = ''identity'' then CMD_IDENTITY
        else if s = ''listen'' then CMD_LISTEN
        else if s = ''search'' then CMD_SEARCH
        else if s = ''add'' then CMD_ADD
        else if s = ''accept'' then CMD_ACCEPT
        else if s = ''reject'' then CMD_REJECT
        else if s = ''peers'' then CMD_PEERS
        else if s = ''chat'' then CMD_CHAT
        else if s = ''ghost'' then CMD_GHOST
        else if s = ''status'' then CMD_STATUS
        else if s = ''stop'' then CMD_STOP
        else if s = ''reset'' then CMD_RESET
        else if s = ''help'' \<or> s = ''-h'' \<or> s = ''--help'' then CMD_HELP
        else CMD_UNKNOWN)"

fun command_get_name :: "CommandType \<Rightarrow> string" where
  "command_get_name CMD_REGISTER = ''register''"
| "command_get_name CMD_IDENTITY = ''identity''"
| "command_get_name CMD_LISTEN = ''listen''"
| "command_get_name CMD_SEARCH = ''search''"
| "command_get_name CMD_ADD = ''add''"
| "command_get_name CMD_ACCEPT = ''accept''"
| "command_get_name CMD_REJECT = ''reject''"
| "command_get_name CMD_PEERS = ''peers''"
| "command_get_name CMD_CHAT = ''chat''"
| "command_get_name CMD_GHOST = ''ghost''"
| "command_get_name CMD_STATUS = ''status''"
| "command_get_name CMD_STOP = ''stop''"
| "command_get_name CMD_RESET = ''reset''"
| "command_get_name CMD_HELP = ''help''"
| "command_get_name CMD_UNKNOWN = ''unknown''"

section \<open>Talking to the daemon\<close>

definition command_get_daemon_pid :: "cli \<Rightarrow> int" where
  "command_get_daemon_pid cl = (case read_path (cl_fs cl) DAEMON_PID_FILE of
      None \<Rightarrow> -1
    | Some t \<Rightarrow> (case scan_d t of None \<Rightarrow> -1 | Some (pid, _) \<Rightarrow> pid))"

definition command_daemon_is_running :: "cli_env \<Rightarrow> cli \<Rightarrow> bool" where
  "command_daemon_is_running env cl =
    (let pid = command_get_daemon_pid cl in if pid \<le> 0 then False else e_lives env pid)"

definition command_send_to_daemon :: "cli_env \<Rightarrow> string \<Rightarrow> nat \<Rightarrow> cli \<Rightarrow> int \<times> string \<times> cli" where
  "command_send_to_daemon env cmd sz cl =
    (if \<not> command_daemon_is_running env cl
     then (-1, snprintf_into sz (''ERROR: Daemon is not running. Use '' @ [CHR 0x27] @ ''./orcashi listen'' @ [CHR 0x27] @ '' first.''), cl)
     else
       let cl' = cl\<lparr>cl_calls := cl_calls cl + 1\<rparr>; sent = cl'\<lparr>cl_sent := cl_sent cl @ [cmd]\<rparr> in
       (case e_wire env (cl_calls cl) of
          Socket_Fails e \<Rightarrow> (-1, snprintf_into sz (''ERROR: Failed to create socket: '' @ e), cl')
        | Connect_Fails e \<Rightarrow> (-1, snprintf_into sz (''ERROR: Failed to connect to daemon: '' @ e), cl')
        | Write_Fails e \<Rightarrow> (-1, snprintf_into sz (''ERROR: Failed to send command: '' @ e), cl')
        | Read_Fails e \<Rightarrow> (-1, snprintf_into sz (''ERROR: Failed to read response: '' @ e), sent)
        | Answers bs \<Rightarrow> (0, recv_text (take (sz - 1) bs), sent)))"

text \<open>What most commands do: show the answer, or leave with another exit code.\<close>

definition ask_daemon :: "cli_env \<Rightarrow> string \<Rightarrow> nat \<Rightarrow> int \<Rightarrow> cli \<Rightarrow> result" where
  "ask_daemon env cmd sz otherwise cl =
    (let (rc, response, cl) = command_send_to_daemon env cmd sz cl in
     if rc = 0 then exits 0 (display response cl) else exits otherwise cl)"

section \<open>Registration\<close>

definition is_upper :: "char \<Rightarrow> bool" where "is_upper c \<longleftrightarrow> 65 \<le> (of_char c :: nat) \<and> (of_char c :: nat) \<le> 90"
definition is_lower :: "char \<Rightarrow> bool" where "is_lower c \<longleftrightarrow> 97 \<le> (of_char c :: nat) \<and> (of_char c :: nat) \<le> 122"

definition special_chars :: string where "special_chars = ''!@#$%^&*()_+-=[]{}|;:,.<>?''"

record flags =
  has_upper :: bool
  has_lower :: bool
  has_digit :: bool
  has_special :: bool

definition flag_char :: "char \<Rightarrow> flags \<Rightarrow> flags" where
  "flag_char c f =
    (if is_upper c then f\<lparr>has_upper := True\<rparr>
     else if is_lower c then f\<lparr>has_lower := True\<rparr>
     else if is_digit c then f\<lparr>has_digit := True\<rparr>
     else if c \<in> set special_chars then f\<lparr>has_special := True\<rparr>
     else f)"

definition passcode_flags :: "string \<Rightarrow> flags" where
  "passcode_flags p = fold flag_char p \<lparr>has_upper = False, has_lower = False, has_digit = False, has_special = False\<rparr>"

definition passcode_strong :: "string \<Rightarrow> bool" where
  "passcode_strong p = (if length p < 12 then False
     else let f = passcode_flags p in has_upper f \<and> has_lower f \<and> has_digit f \<and> has_special f)"

definition register_id :: "cli_env \<Rightarrow> string" where
  "register_id env = snprintf_into 64 (''<'' @ pad3 (nat (e_rand env mod 999 + 1)) @ ''>'')"

definition display_name :: "string option \<Rightarrow> string" where
  "display_name input =
    (let name = cut_line (case input of None \<Rightarrow> ''orcashi'' | Some t \<Rightarrow> t) in if length name = 0 then ''orcashi'' else name)"

definition metadata_text :: "string \<Rightarrow> string" where
  "metadata_text i = snprintf_into 256 (''{'' @ [dquote] @ ''default_id'' @ [dquote, CHR '':'', dquote] @ i @ [dquote] @ ''}'')"

definition cmd_register :: "cli_env \<Rightarrow> string list \<Rightarrow> cli \<Rightarrow> result" where
  "cmd_register env argv cl =
    (if orca_identity_exists None (cl_fs cl) then exits 1 cl
     else
       let id = register_id env;
           (input, cl) = c_fgets 128 cl;
           name = display_name input;
           cl = get_hidden_input cl
       in if \<not> passcode_strong (cl_password cl) then exits 1 cl
       else
         let cl = get_hidden_input cl in
         on_value (orca_identity_create_secure_3digit (e_ident env) (Some id) (Some (cl_password cl)) (Some name) (Some ''user'')
             (Some (v_identity (e_daemon env))) (cl_crypto cl)) (\<lambda>(rc, identity, c).
           let cl = set_crypto c cl in
           if rc < 0 then exits 1 cl
           else
             let (rc, fs, c) = orca_identity_save (e_ident env) identity (cl_fs cl) (cl_crypto cl); cl = set_crypto c (set_fs fs cl) in
             if rc < 0 then exits 1 cl
             else
               let cl = (case write_path (cl_fs cl) ORCA_METADATA_FILE (metadata_text (oi_id (the identity))) of
                     None \<Rightarrow> cl | Some fs \<Rightarrow> set_fs fs cl)
               in exits 0 (cl\<lparr>cl_password := []\<rparr>)))"

definition is_force :: "string \<Rightarrow> bool" where
  "is_force a \<longleftrightarrow> a = ''--force'' \<or> a = ''-f''"

definition load_without_passcode :: "cli_env \<Rightarrow> cli \<Rightarrow> (int \<times> OrcaIdentity \<times> cli) option" where
  "load_without_passcode env cl = do {
     (rc, identity, c) \<leftarrow> orca_identity_load (e_ident env) (Some (v_identity (e_daemon env))) None (cl_fs cl) (cl_crypto cl);
     Some (rc, the identity, set_crypto c cl) }"

text \<open>\<open>orca_identity_reset\<close> asks once more, and its answer is not looked at.\<close>

definition cmd_reset :: "cli_env \<Rightarrow> string list \<Rightarrow> cli \<Rightarrow> result" where
  "cmd_reset env argv cl =
    (if \<not> orca_identity_exists None (cl_fs cl) then exits 0 cl
     else if \<not> list_ex is_force (tl argv) then exits 1 cl
     else (case c_fgets 64 cl of
         (None, cl) \<Rightarrow> exits 1 cl
       | (Some line, cl) \<Rightarrow>
           let confirm = cut_line line in
           on_value (load_without_passcode env cl) (\<lambda>(rc, identity, cl).
             if rc < 0 then exits 1 cl
             else if confirm \<noteq> oi_id identity then exits 1 cl
             else (case c_fgets 16 cl of
                 (None, cl) \<Rightarrow> exits 1 cl
               | (Some line, cl) \<Rightarrow>
                   if cut_line line \<noteq> ''yes'' then exits 1 cl
                   else
                     let (input, cl) = c_fgets 16 cl; (_, fs) = orca_identity_reset True input (cl_fs cl)
                     in exits 0 (set_fs fs cl)))))"

definition cmd_identity :: "cli_env \<Rightarrow> string list \<Rightarrow> cli \<Rightarrow> result" where
  "cmd_identity env argv cl = on_value (load_without_passcode env cl) (\<lambda>(rc, oi, cl).
     if rc < 0 then exits 1 cl
     else
       let mixed = (case mixed_id_encode (Some (oi_id oi)) (Some ''0.0.0.0'') 9000 64 of None \<Rightarrow> v_text (e_daemon env) | Some m \<Rightarrow> m)
       in exits 0 (display (''|  ID        : '' @ oi_id oi @ nl @ ''|  Name      : '' @ oi_name oi @ nl
            @ ''|  Mode      : '' @ (if oi_mode oi = ORCA_IDENTITY_MODE_SECURE then ''SECURE'' else ''NORMAL'') @ nl
            @ ''|  Created   : '' @ v_ctime (e_daemon env) (oi_created_at oi) @ ''|  Mixed ID  : '' @ mixed @ nl) cl))"

section \<open>Commands for the daemon\<close>

definition cmd_listen :: "cli_env \<Rightarrow> string list \<Rightarrow> cli \<Rightarrow> result" where
  "cmd_listen env argv cl =
    (if command_daemon_is_running env cl then exits 0 cl
     else on_reply (daemon_start (e_daemon env) (e_lives env) (e_fork env) (e_threads env) (cl_proc cl)) (\<lambda>(rc, d).
       exits (if rc < 0 then 1 else 0) (cl\<lparr>cl_proc := d\<rparr>)))"

definition cmd_search :: "cli_env \<Rightarrow> string list \<Rightarrow> cli \<Rightarrow> result" where
  "cmd_search env argv cl =
    (if length argv < 3 then exits 1 cl
     else
       let peer_id = argv ! 2 in
       (case mixed_id_decode (Some peer_id) of
          Some (i, ip, port) \<Rightarrow>
            exits 0 (display (''Mixed ID detected: ID='' @ i @ '', IP='' @ ip @ '', Port='' @ dec_int port @ nl) cl)
        | None \<Rightarrow> ask_daemon env (snprintf_into 256 (''search '' @ peer_id)) 1024 1 cl))"

definition cmd_add :: "cli_env \<Rightarrow> string list \<Rightarrow> cli \<Rightarrow> result" where
  "cmd_add env argv cl =
    (if length argv < 3 then exits 1 cl else ask_daemon env (snprintf_into 256 (''add '' @ argv ! 2)) 1024 0 cl)"

definition cmd_accept :: "cli_env \<Rightarrow> string list \<Rightarrow> cli \<Rightarrow> result" where
  "cmd_accept env argv cl =
    (if length argv < 3 then exits 1 cl else ask_daemon env (snprintf_into 256 (''accept '' @ argv ! 2)) 1024 0 cl)"

definition cmd_reject :: "cli_env \<Rightarrow> string list \<Rightarrow> cli \<Rightarrow> result" where
  "cmd_reject env argv cl =
    (if length argv < 3 then exits 1 cl else ask_daemon env (snprintf_into 256 (''reject '' @ argv ! 2)) 1024 0 cl)"

definition cmd_peers :: "cli_env \<Rightarrow> string list \<Rightarrow> cli \<Rightarrow> result" where
  "cmd_peers env argv cl = ask_daemon env ''peers'' 4096 1 cl"

text \<open>Each turn of the loop reads at least one character, or ends it.\<close>

lemma first_line_Nil [simp]: "first_line s = [] \<longleftrightarrow> s = []"
  by (cases s) (auto simp: first_line_def)

lemma first_line_length: "length (first_line s) \<le> length s"
  by (induction s) (auto simp: first_line_def)

definition input_left :: "cli \<Rightarrow> nat" where
  "input_left cl = length (cl_stdio cl) + length (cl_tty cl)"

lemma c_fgets_reads:
  assumes "(Some line, cl') = c_fgets n cl"
  shows "input_left cl' < input_left cl"
proof -
  let ?buf = "cl_stdio cl" and ?tty = "cl_tty cl"
  define got where "got = take (n - 1) (first_line (?buf @ ?tty))"
  have g: "0 < length got" and r: "cl' = (if length got \<le> length ?buf then cl\<lparr>cl_stdio := drop (length got) ?buf\<rparr>
      else cl\<lparr>cl_stdio := drop (length got) (?buf @ first_line ?tty), cl_tty := drop (length (first_line ?tty)) ?tty\<rparr>)"
    using assms by (auto simp: c_fgets_def Let_def got_def split: if_splits)
  have l: "length got \<le> length ?buf + length ?tty"
    using first_line_length [of "?buf @ ?tty"] by (simp add: got_def)
  show ?thesis
  proof (cases "length got \<le> length ?buf")
    case True
    then show ?thesis using r g by (simp add: input_left_def del: length_greater_0_conv)
  next
    case False
    then have "first_line ?tty \<noteq> []" using l by auto
    then have "0 < length (first_line ?tty)" by simp
    then show ?thesis using False r first_line_length [of ?tty] by (simp add: input_left_def del: length_greater_0_conv)
  qed
qed

definition chat_turn :: "cli_env \<Rightarrow> string \<Rightarrow> string \<Rightarrow> cli \<Rightarrow> cli" where
  "chat_turn env peer_id input cl =
    (if input = ''/status'' then display (''Status: Connected to '' @ peer_id @ nl) cl
     else display (''[you] '' @ input @ nl)
       (snd (snd (command_send_to_daemon env (snprintf_into 512 (''chat_send '' @ peer_id @ '' '' @ input)) 4096 cl))))"

lemma send_input [simp]: "input_left (snd (snd (command_send_to_daemon env cmd sz cl))) = input_left cl"
  by (simp add: command_send_to_daemon_def input_left_def Let_def split: wire.split)

lemma chat_turn_input [simp]: "input_left (chat_turn env peer_id input cl) = input_left cl"
  using send_input [of env "snprintf_into 512 (''chat_send '' @ peer_id @ '' '' @ input)" 4096 cl]
  by (simp add: chat_turn_def display_def input_left_def)

function chat_loop :: "cli_env \<Rightarrow> string \<Rightarrow> cli \<Rightarrow> cli" where
  "chat_loop env peer_id cl = (case c_fgets 4096 cl of
      (None, cl') \<Rightarrow> cl'
    | (Some line, cl') \<Rightarrow>
        if cut_line line = ''/exit'' then cl' else chat_loop env peer_id (chat_turn env peer_id (cut_line line) cl'))"
  by pat_completeness auto
termination
  by (relation "measure (\<lambda>(env, peer_id, cl). input_left cl)") (auto simp: c_fgets_reads)

declare chat_loop.simps [simp del]

definition cmd_chat :: "cli_env \<Rightarrow> string list \<Rightarrow> cli \<Rightarrow> result" where
  "cmd_chat env argv cl = (if length argv < 3 then exits 1 cl else exits 0 (chat_loop env (argv ! 2) cl))"

text \<open>
  \<open>cmd_ghost\<close> puts the words together with \<open>strcat\<close>, in the memory of \<open>argv\<close> itself: its strings
  follow each other, and the environment follows them.
\<close>

definition argv_memory :: "cli_env \<Rightarrow> string list \<Rightarrow> string" where
  "argv_memory env argv = concat (map (\<lambda>s. s @ [CHR 0x00]) argv) @ e_tail env"

definition arg_at :: "string list \<Rightarrow> nat \<Rightarrow> nat" where
  "arg_at argv i = length (concat (map (\<lambda>s. s @ [CHR 0x00]) (take i argv)))"

definition string_at :: "string \<Rightarrow> nat \<Rightarrow> string" where
  "string_at mem i = c_string (drop i mem)"

function copy_string :: "string \<Rightarrow> nat \<Rightarrow> nat \<Rightarrow> string option" where
  "copy_string mem dst src =
    (if length mem \<le> dst \<or> length mem \<le> src then None
     else
       let c = mem ! src; mem = mem[dst := c] in
       if c = CHR 0x00 then Some mem else copy_string mem (Suc dst) (Suc src))"
  by pat_completeness auto
termination
  by (relation "measure (\<lambda>(mem, dst, src). length mem - src)") auto

declare copy_string.simps [simp del]

definition strcat_at :: "string \<Rightarrow> nat \<Rightarrow> nat \<Rightarrow> string option" where
  "strcat_at mem dst src = copy_string mem (dst + length (string_at mem dst)) src"

definition strcat_blank :: "string \<Rightarrow> nat \<Rightarrow> string option" where
  "strcat_blank mem dst =
    (let e = dst + length (string_at mem dst) in
     if e + 1 < length mem then Some (mem[e := CHR 0x20, e + 1 := CHR 0x00]) else None)"

fun join_args :: "nat \<Rightarrow> nat list \<Rightarrow> string \<Rightarrow> string option" where
  "join_args dst [] mem = Some mem"
| "join_args dst (src # srcs) mem = do {
     mem \<leftarrow> strcat_blank mem dst;
     mem \<leftarrow> strcat_at mem dst src;
     join_args dst srcs mem }"

definition cmd_ghost :: "cli_env \<Rightarrow> string list \<Rightarrow> cli \<Rightarrow> result" where
  "cmd_ghost env argv cl =
    (if length argv < 4 then exits 1 cl
     else on_value (join_args (arg_at argv 3) (map (arg_at argv) [4..<length argv]) (argv_memory env argv)) (\<lambda>mem.
       ask_daemon env (snprintf_into 512 (''ghost '' @ string_at mem (arg_at argv 2) @ '' '' @ string_at mem (arg_at argv 3)))
         1024 0 cl))"

definition cmd_status :: "cli_env \<Rightarrow> string list \<Rightarrow> cli \<Rightarrow> result" where
  "cmd_status env argv cl =
    (if \<not> command_daemon_is_running env cl then exits 0 cl
     else
       let (rc, response, cl) = command_send_to_daemon env ''status'' 1024 cl in
       if rc = 0 then exits 0 (display response cl)
       else exits 0 (display (''Daemon is running (PID: '' @ dec_int (command_get_daemon_pid cl) @ '')'' @ nl) cl))"

definition cmd_stop :: "cli_env \<Rightarrow> string list \<Rightarrow> cli \<Rightarrow> result" where
  "cmd_stop env argv cl =
    (if \<not> command_daemon_is_running env cl then exits 0 cl
     else
       let pid = command_get_daemon_pid cl;
           cl = display (''Stopping daemon (PID: '' @ dec_int pid @ '')...'' @ nl) cl;
           (rc, response, cl) = command_send_to_daemon env ''stop'' 1024 cl in
       if rc = 0 then exits 0 (display response cl)
       else
         let cl = cl\<lparr>cl_killed := cl_killed cl @ [pid]\<rparr>
         in exits 0 (set_fs (unlink_path DAEMON_SOCKET (unlink_path DAEMON_PID_FILE (cl_fs cl))) cl))"

section \<open>The program\<close>

definition command_dispatch :: "cli_env \<Rightarrow> string list \<Rightarrow> cli \<Rightarrow> result" where
  "command_dispatch env argv cl =
    (if length argv < 2 then exits 0 cl
     else (case command_parse_type (Some (argv ! 1)) of
         CMD_REGISTER \<Rightarrow> cmd_register env argv cl
       | CMD_IDENTITY \<Rightarrow> cmd_identity env argv cl
       | CMD_LISTEN \<Rightarrow> cmd_listen env argv cl
       | CMD_SEARCH \<Rightarrow> cmd_search env argv cl
       | CMD_ADD \<Rightarrow> cmd_add env argv cl
       | CMD_ACCEPT \<Rightarrow> cmd_accept env argv cl
       | CMD_REJECT \<Rightarrow> cmd_reject env argv cl
       | CMD_PEERS \<Rightarrow> cmd_peers env argv cl
       | CMD_CHAT \<Rightarrow> cmd_chat env argv cl
       | CMD_GHOST \<Rightarrow> cmd_ghost env argv cl
       | CMD_STATUS \<Rightarrow> cmd_status env argv cl
       | CMD_STOP \<Rightarrow> cmd_stop env argv cl
       | CMD_RESET \<Rightarrow> cmd_reset env argv cl
       | CMD_HELP \<Rightarrow> exits 0 cl
       | CMD_UNKNOWN \<Rightarrow> exits 1 cl))"

text \<open>On \<open>SIGINT\<close> and \<open>SIGTERM\<close>, whichever command is running; \<open>lives\<close> is asked as \<open>daemon_stop\<close> waits.\<close>

definition signal_handler :: "cli_env \<Rightarrow> (nat \<Rightarrow> int \<Rightarrow> bool) \<Rightarrow> int \<Rightarrow> cli \<Rightarrow> result" where
  "signal_handler env lives sig cl =
    (let (up, fs) = daemon_is_running (e_lives env) (cl_fs cl); cl = set_fs fs cl in
     if up then
       let (_, killed, fs) = daemon_stop lives (cl_fs cl)
       in exits 0 ((set_fs fs cl)\<lparr>cl_killed := cl_killed cl @ killed\<rparr>)
     else exits 0 cl)"

definition check_dependencies :: "fs \<Rightarrow> int \<times> fs" where
  "check_dependencies fs = (case stat_path fs DAEMON_HOME of
      Some _ \<Rightarrow> (0, fs)
    | None \<Rightarrow> (case mkdir_path fs DAEMON_HOME of None \<Rightarrow> (-1, fs) | Some fs \<Rightarrow> (0, fs)))"

text \<open>\<open>others\<close> is what other processes, the daemon among them, do to the files during the command.\<close>

definition main_program :: "cli_env \<Rightarrow> (fs \<Rightarrow> fs) \<Rightarrow> string list \<Rightarrow> cli \<Rightarrow> result" where
  "main_program env others argv cl =
    (let (_, fs, c) = orca_identity_storage_init (cl_fs cl) (cl_crypto cl); cl = set_crypto c (set_fs fs cl);
         (rc, fs) = check_dependencies (cl_fs cl); cl = set_fs fs cl
     in if rc < 0 then exits 1 cl
     else
       let cl = (case mkdir_path (cl_fs cl) DAEMON_HOME of None \<Rightarrow> cl | Some fs \<Rightarrow> set_fs fs cl) in
       if length argv < 2 then exits 0 cl
       else if argv ! 1 = ''-v'' \<or> argv ! 1 = ''--version'' then exits 0 cl
       else if argv ! 1 = ''-h'' \<or> argv ! 1 = ''--help'' then exits 0 cl
       else on_value (state_init (read_path (cl_fs cl) STATE_FILE) (d_mgr (cl_proc cl))) (\<lambda>(_, m).
         on_reply (command_dispatch env argv (cl\<lparr>cl_proc := on_state (\<lambda>_. (0, m)) (cl_proc cl)\<rparr>)) (\<lambda>(rc, cl).
           let cl = set_fs (others (cl_fs cl)) cl in
           exits rc (cl\<lparr>cl_proc := save_state (v_fopen (e_daemon env)) (cl_proc cl)\<rparr>))))"

end
