(* ===== verification/Front_End.thy ===== *)
theory Front_End
  imports Commands
begin

text \<open>
  \<^verbatim>\<open>orcashi.c\<close>: the library interface, a record \<open>Orcashi\<close> and functions that start the
  components of the process or send requests to the daemon.  The process with its terminal is the
  record \<open>cli\<close> of \<^verbatim>\<open>commands.c\<close>; a pointer that a function checks for NULL is an option.  The
  calls of \<open>LOG_INFO\<close>, \<open>LOG_WARN\<close> and \<open>LOG_ERROR\<close> are left out, the mutex of the logger is not.
\<close>

section \<open>Data\<close>

definition ORCASHI_P2P_PORT :: int where "ORCASHI_P2P_PORT = 9000"
definition ORCASHI_DHT_PORT :: int where "ORCASHI_DHT_PORT = 33446"
definition ORCASHI_HOME :: string where "ORCASHI_HOME = ''/tmp/.orcashi/''"
definition ORCASHI_VERSION :: string where "ORCASHI_VERSION = ''5.0.0''"

text \<open>A callback is the address of a function; 0 is NULL.\<close>

record Orcashi =
  oc_id :: string
  oc_name :: string
  oc_has_identity :: bool
  oc_is_secure :: bool
  oc_local_ip :: string
  oc_public_ip :: string
  oc_p2p_port :: int
  oc_dht_port :: int
  oc_nat_type :: int
  oc_has_ipv6 :: bool
  oc_has_upnp :: bool
  oc_initialized :: bool
  oc_daemon_running :: bool
  oc_is_listening :: bool
  oc_start_time :: int
  oc_on_peer_found :: nat
  oc_on_message_received :: nat
  oc_on_status_change :: nat
  oc_on_call_received :: nat

definition zero_orcashi :: Orcashi where
  "zero_orcashi = \<lparr>oc_id = [], oc_name = [], oc_has_identity = False, oc_is_secure = False, oc_local_ip = [], oc_public_ip = [],
     oc_p2p_port = 0, oc_dht_port = 0, oc_nat_type = 0, oc_has_ipv6 = False, oc_has_upnp = False, oc_initialized = False,
     oc_daemon_running = False, oc_is_listening = False, oc_start_time = 0, oc_on_peer_found = 0, oc_on_message_received = 0,
     oc_on_status_change = 0, oc_on_call_received = 0\<rparr>"

text \<open>
  A web service cannot be reached, or each \<open>recv\<close> returns some bytes.  \<open>f_dup\<close> says whether the
  two calls of \<open>strdup\<close> find memory.
\<close>

datatype service = Unreachable | Answered "byte list list"

record front_env =
  f_cli :: cli_env
  f_local :: "ifaddr list option"
  f_web :: "service list"
  f_dup :: "bool \<times> bool"
  f_now :: int
  f_rand :: int
  f_waits :: "nat \<Rightarrow> int \<Rightarrow> bool"

abbreviation f_daemon :: "front_env \<Rightarrow> daemon_env" where
  "f_daemon env \<equiv> e_daemon (f_cli env)"

section \<open>Addresses\<close>

fun first_address :: "ifaddr list \<Rightarrow> string option" where
  "first_address [] = None"
| "first_address (ifa # rest) = (case if_inet ifa of
      None \<Rightarrow> first_address rest
    | Some ip \<Rightarrow>
        if if_name ifa = ''lo'' then first_address rest
        else if ip \<noteq> ''127.0.0.1'' then Some ip
        else first_address rest)"

definition orcashi_get_local_ip :: "front_env \<Rightarrow> string option" where
  "orcashi_get_local_ip env =
    (let ip = (case f_local env of
           None \<Rightarrow> ''127.0.0.1''
         | Some ifs \<Rightarrow> (case first_address ifs of None \<Rightarrow> ''127.0.0.1'' | Some ip \<Rightarrow> ip))
     in if fst (f_dup env) then Some ip else None)"

text \<open>The loop stops after the \<open>recv\<close> that fills the array, and each \<open>recv\<close> returns up to 4095 bytes.\<close>

fun recv_all :: "nat \<Rightarrow> byte list list \<Rightarrow> byte list" where
  "recv_all n [] = []"
| "recv_all n (bs # rest) =
    (if bs = [] \<or> 8191 \<le> n then []
     else take 4095 bs @ recv_all (n + length (take 4095 bs)) rest)"

text \<open>What follows the headers; \<open>None\<close> is an access outside the array of 8192 bytes.\<close>

definition http_body :: "byte list \<Rightarrow> string option option" where
  "http_body bs =
    (if 8192 < length bs \<or> length bs = 8192 \<and> 0 \<notin> set bs then None
     else Some (map_option (drop 4) (strstr_at (recv_text bs) [CHR 0x0D, CHR 0x0A, CHR 0x0D, CHR 0x0A])))"

definition is_blank :: "char \<Rightarrow> bool" where
  "is_blank c \<longleftrightarrow> c \<in> {CHR 0x0A, CHR 0x0D, CHR 0x20, CHR 0x09}"

text \<open>The loop for trailing blanks stops at the first character.\<close>

definition trim_body :: "string \<Rightarrow> string" where
  "trim_body body = (case body of
      [] \<Rightarrow> []
    | c # cs \<Rightarrow> dropWhile is_blank (c # rev (dropWhile is_blank (rev cs))))"

fun ask_services :: "service list \<Rightarrow> string option" where
  "ask_services [] = Some ''127.0.0.1''"
| "ask_services (Unreachable # rest) = ask_services rest"
| "ask_services (Answered chunks # rest) = (case http_body (recv_all 0 chunks) of
      None \<Rightarrow> None
    | Some None \<Rightarrow> ask_services rest
    | Some (Some body) \<Rightarrow>
        if length (trim_body body) > 0 then strcpy_into INET_ADDRSTRLEN (trim_body body) else ask_services rest)"

definition orcashi_get_public_ip :: "front_env \<Rightarrow> string option option" where
  "orcashi_get_public_ip env = map_option (\<lambda>ip. if snd (f_dup env) then Some ip else None) (ask_services (take 3 (f_web env)))"

definition orcashi_generate_id :: "front_env \<Rightarrow> string" where
  "orcashi_generate_id env = snprintf_into 64 (''<'' @ pad3 (nat (f_rand env mod 999 + 1)) @ ''>'')"

definition orcashi_bytes_to_hex :: "bool \<Rightarrow> byte list \<Rightarrow> string option" where
  "orcashi_bytes_to_hex malloc_ok bytes = (if \<not> malloc_ok then None else Some (concat (map hex_byte bytes)))"

section \<open>Lifecycle\<close>

definition orcashi_set_defaults :: "front_env \<Rightarrow> Orcashi option" where
  "orcashi_set_defaults env = do {
     let oc = zero_orcashi\<lparr>oc_p2p_port := ORCASHI_P2P_PORT, oc_dht_port := ORCASHI_DHT_PORT, oc_start_time := f_now env\<rparr>;
     ip \<leftarrow> (case orcashi_get_local_ip env of None \<Rightarrow> Some ''127.0.0.1'' | Some ip \<Rightarrow> strcpy_into INET_ADDRSTRLEN ip);
     let oc = oc\<lparr>oc_local_ip := ip\<rparr>;
     pub \<leftarrow> orcashi_get_public_ip env;
     pub_ip \<leftarrow> (case pub of None \<Rightarrow> Some ip | Some p \<Rightarrow> strcpy_into INET_ADDRSTRLEN p);
     Some (oc\<lparr>oc_public_ip := pub_ip\<rparr>) }"

definition on_log :: "(log_state \<Rightarrow> 'a reply) \<Rightarrow> cli \<Rightarrow> 'a reply" where
  "on_log f cl = f (dm_log (cl_proc cl), cl_fs cl)"

definition set_log :: "log_state \<Rightarrow> cli \<Rightarrow> cli" where
  "set_log s cl = cl\<lparr>cl_proc := (cl_proc cl)\<lparr>dm_log := fst s, dm_fs := snd s\<rparr>\<rparr>"

definition set_p2p :: "p2p \<Rightarrow> cli \<Rightarrow> cli" where
  "set_p2p st cl = cl\<lparr>cl_proc := (cl_proc cl)\<lparr>dm_p2p := st\<rparr>\<rparr>"

type_synonym call = "(int \<times> Orcashi option \<times> cli) reply"

definition orcashi_init :: "front_env \<Rightarrow> Orcashi option \<Rightarrow> cli \<Rightarrow> call" where
  "orcashi_init env orcashi cl = (case orcashi of
      None \<Rightarrow> Reply (-1, None, cl)
    | Some _ \<Rightarrow> on_value (orcashi_set_defaults env) (\<lambda>oc.
        let (_, fs, c) = orca_identity_storage_init (cl_fs cl) (cl_crypto cl); cl = set_crypto c (set_fs fs cl);
            cl = (case mkdir_path (cl_fs cl) ORCASHI_HOME of None \<Rightarrow> cl | Some fs \<Rightarrow> set_fs fs cl);
            log_path = snprintf_into 512 (ORCASHI_HOME @ ''/orcashi.log'')
        in on_reply (on_log (logger_init (v_log (f_daemon env)) (Some log_path)) cl) (\<lambda>(_, s).
           let cl = set_log s cl in
           on_reply (logger_set_level LOG_LEVEL_INFO (dm_log (cl_proc cl))) (\<lambda>l.
           let cl = set_log (l, cl_fs cl) cl in
           on_value (state_init (read_path (cl_fs cl) STATE_FILE) (d_mgr (cl_proc cl))) (\<lambda>(_, m).
           let cl = cl\<lparr>cl_proc := on_state (\<lambda>_. (0, m)) (cl_proc cl)\<rparr> in
           on_value (p2p_init (v_p2p (f_daemon env)) (dm_p2p (cl_proc cl))) (\<lambda>(_, st).
             Reply (0, Some (oc\<lparr>oc_initialized := True\<rparr>), set_p2p st cl)))))))"

definition orcashi_init_with_config :: "front_env \<Rightarrow> string option \<Rightarrow> Orcashi option \<Rightarrow> cli \<Rightarrow> call" where
  "orcashi_init_with_config env config_path orcashi cl = orcashi_init env orcashi cl"

definition orcashi_start_daemon :: "front_env \<Rightarrow> Orcashi option \<Rightarrow> cli \<Rightarrow> call" where
  "orcashi_start_daemon env orcashi cl = (case orcashi of
      None \<Rightarrow> Reply (-1, None, cl)
    | Some oc \<Rightarrow>
        if \<not> oc_initialized oc then Reply (-1, Some oc, cl)
        else if oc_daemon_running oc then Reply (0, Some oc, cl)
        else on_reply (daemon_start (f_daemon env) (e_lives (f_cli env)) (e_fork (f_cli env)) (e_threads (f_cli env)) (cl_proc cl))
          (\<lambda>(rc, d). let cl = cl\<lparr>cl_proc := d\<rparr> in
             if rc = 0 then Reply (0, Some (oc\<lparr>oc_daemon_running := True\<rparr>), cl) else Reply (-1, Some oc, cl)))"

definition orcashi_stop_daemon :: "front_env \<Rightarrow> Orcashi option \<Rightarrow> cli \<Rightarrow> int \<times> Orcashi option \<times> cli" where
  "orcashi_stop_daemon env orcashi cl = (case orcashi of
      None \<Rightarrow> (-1, None, cl)
    | Some oc \<Rightarrow>
        if \<not> oc_daemon_running oc then (0, Some oc, cl)
        else
          let (_, killed, fs) = daemon_stop (f_waits env) (cl_fs cl)
          in (0, Some (oc\<lparr>oc_daemon_running := False\<rparr>), (set_fs fs cl)\<lparr>cl_killed := cl_killed cl @ killed\<rparr>))"

definition orcashi_is_daemon_running :: "front_env \<Rightarrow> Orcashi option \<Rightarrow> cli \<Rightarrow> bool \<times> cli" where
  "orcashi_is_daemon_running env orcashi cl = (case orcashi of
      None \<Rightarrow> (False, cl)
    | Some oc \<Rightarrow>
        if \<not> oc_daemon_running oc then (False, cl)
        else let (up, fs) = daemon_is_running (e_lives (f_cli env)) (cl_fs cl) in (up, set_fs fs cl))"

definition orcashi_cleanup :: "front_env \<Rightarrow> Orcashi option \<Rightarrow> cli \<Rightarrow> (Orcashi option \<times> cli) reply" where
  "orcashi_cleanup env orcashi cl = (case orcashi of
      None \<Rightarrow> Reply (None, cl)
    | Some oc \<Rightarrow>
        let (oc, cl) = (if oc_daemon_running oc
              then let (_, o', cl) = orcashi_stop_daemon env (Some oc) cl in (the o', cl) else (oc, cl));
            cl = set_p2p (p2p_cleanup (dm_p2p (cl_proc cl))) cl;
            cl = cl\<lparr>cl_proc := save_state (v_fopen (f_daemon env)) (cl_proc cl)\<rparr>
        in on_reply (on_log (logger_close (v_log (f_daemon env))) cl) (\<lambda>s.
             Reply (Some (oc\<lparr>oc_initialized := False\<rparr>), set_log s cl)))"

section \<open>The identity\<close>

definition orcashi_register_identity :: "front_env \<Rightarrow> Orcashi option \<Rightarrow> string option \<Rightarrow> cli \<Rightarrow> call" where
  "orcashi_register_identity env orcashi passcode cl = (case (orcashi, passcode) of
      (Some oc, Some pc) \<Rightarrow>
        if orca_identity_exists None (cl_fs cl) then Reply (-1, Some oc, cl)
        else on_value (orca_identity_generate_normal_id (v_ident (f_daemon env)) True) (\<lambda>i.
          let oc = oc\<lparr>oc_id := i\<rparr> in
          on_value (orca_identity_create_secure_3digit (v_ident (f_daemon env)) (Some i) (Some pc) (Some ''orcashi'') (Some ''user'')
              (Some (v_identity (f_daemon env))) (cl_crypto cl)) (\<lambda>(rc, identity, c).
            let cl = set_crypto c cl in
            if rc < 0 then Reply (-1, Some oc, cl)
            else
              let (rc, fs, c) = orca_identity_save (v_ident (f_daemon env)) identity (cl_fs cl) (cl_crypto cl);
                  cl = set_crypto c (set_fs fs cl)
              in if rc < 0 then Reply (-1, Some oc, cl)
                 else Reply (0, Some (oc\<lparr>oc_has_identity := True, oc_is_secure := True, oc_name := oi_name (the identity)\<rparr>), cl)))
    | _ \<Rightarrow> Reply (-1, orcashi, cl))"

definition orcashi_load_identity :: "front_env \<Rightarrow> Orcashi option \<Rightarrow> string option \<Rightarrow> cli \<Rightarrow> call" where
  "orcashi_load_identity env orcashi passcode cl = (case orcashi of
      None \<Rightarrow> Reply (-1, None, cl)
    | Some oc \<Rightarrow> on_value (orca_identity_load (v_ident (f_daemon env)) (Some (v_identity (f_daemon env))) passcode (cl_fs cl)
        (cl_crypto cl)) (\<lambda>(rc, identity, c).
          let cl = set_crypto c cl in
          if rc < 0 then Reply (-1, Some oc, cl)
          else let oi = the identity in
            Reply (0, Some (oc\<lparr>oc_id := oi_id oi, oc_name := oi_name oi, oc_has_identity := True,
              oc_is_secure := (oi_mode oi = ORCA_IDENTITY_MODE_SECURE)\<rparr>), cl)))"

definition orcashi_print_identity :: "Orcashi option \<Rightarrow> cli \<Rightarrow> cli" where
  "orcashi_print_identity orcashi cl = (case orcashi of
      None \<Rightarrow> cl
    | Some oc \<Rightarrow> display (''|  ID        : '' @ oc_id oc @ nl @ ''|  Name      : '' @ oc_name oc @ nl
        @ ''|  Mode      : '' @ (if oc_is_secure oc then ''SECURE'' else ''NORMAL'') @ nl
        @ ''|  IP        : '' @ oc_public_ip oc @ nl @ ''|  Port      : '' @ dec_int (oc_p2p_port oc) @ nl
        @ ''|  Daemon    : '' @ (if oc_daemon_running oc then ''RUNNING'' else ''STOPPED'') @ nl) cl)"

section \<open>Requests to the daemon\<close>

text \<open>What the functions below share: the check of the daemon, the request, and the answer on the screen.\<close>

definition send_request :: "front_env \<Rightarrow> string \<Rightarrow> nat \<Rightarrow> bool \<Rightarrow> cli \<Rightarrow> result" where
  "send_request env req sz prints cl =
    (let (rc, response, cl) = command_send_to_daemon (f_cli env) req sz cl in
     if rc = 0 then exits 0 (if prints then display response cl else cl) else exits (-1) cl)"

definition checked_request :: "front_env \<Rightarrow> Orcashi option \<Rightarrow> string \<Rightarrow> nat \<Rightarrow> bool \<Rightarrow> cli \<Rightarrow> result" where
  "checked_request env orcashi req sz prints cl =
    (let (up, cl) = orcashi_is_daemon_running env orcashi cl in
     if \<not> up then exits (-1) cl else send_request env req sz prints cl)"

definition orcashi_search_peer :: "front_env \<Rightarrow> Orcashi option \<Rightarrow> string option \<Rightarrow> cli \<Rightarrow> result" where
  "orcashi_search_peer env orcashi peer_id cl = (case (orcashi, peer_id) of
      (Some oc, Some p) \<Rightarrow> checked_request env orcashi (snprintf_into 256 (''search '' @ p)) 1024 True cl
    | _ \<Rightarrow> exits (-1) cl)"

definition orcashi_add_peer :: "front_env \<Rightarrow> Orcashi option \<Rightarrow> string option \<Rightarrow> cli \<Rightarrow> result" where
  "orcashi_add_peer env orcashi peer_id cl = (case (orcashi, peer_id) of
      (Some oc, Some p) \<Rightarrow> checked_request env orcashi (snprintf_into 256 (''add '' @ p)) 1024 True cl
    | _ \<Rightarrow> exits (-1) cl)"

definition orcashi_accept_peer :: "front_env \<Rightarrow> Orcashi option \<Rightarrow> string option \<Rightarrow> cli \<Rightarrow> result" where
  "orcashi_accept_peer env orcashi peer_id cl = (case (orcashi, peer_id) of
      (Some oc, Some p) \<Rightarrow> checked_request env orcashi (snprintf_into 256 (''accept '' @ p)) 1024 True cl
    | _ \<Rightarrow> exits (-1) cl)"

definition orcashi_reject_peer :: "front_env \<Rightarrow> Orcashi option \<Rightarrow> string option \<Rightarrow> cli \<Rightarrow> result" where
  "orcashi_reject_peer env orcashi peer_id cl = (case (orcashi, peer_id) of
      (Some oc, Some p) \<Rightarrow> checked_request env orcashi (snprintf_into 256 (''reject '' @ p)) 1024 True cl
    | _ \<Rightarrow> exits (-1) cl)"

definition orcashi_remove_peer :: "front_env \<Rightarrow> Orcashi option \<Rightarrow> string option \<Rightarrow> cli \<Rightarrow> result" where
  "orcashi_remove_peer env orcashi peer_id cl = (case (orcashi, peer_id) of
      (Some oc, Some p) \<Rightarrow> checked_request env orcashi (snprintf_into 256 (''remove '' @ p)) 1024 True cl
    | _ \<Rightarrow> exits (-1) cl)"

definition orcashi_list_peers :: "front_env \<Rightarrow> Orcashi option \<Rightarrow> cli \<Rightarrow> cli" where
  "orcashi_list_peers env orcashi cl = (case orcashi of
      None \<Rightarrow> cl
    | Some _ \<Rightarrow>
        let (rc, response, cl) = command_send_to_daemon (f_cli env) ''peers'' 4096 cl in
        if rc = 0 then display response cl else cl)"

section \<open>Chat\<close>

text \<open>The peer is looked up in the table of this process, not of the daemon.\<close>

definition local_peer :: "string \<Rightarrow> cli \<Rightarrow> Peer option" where
  "local_peer peer_id cl = map_option (\<lambda>i. d_peer i (cl_proc cl)) (state_get_peer (Some peer_id) (d_mgr (cl_proc cl)))"

definition front_turn :: "front_env \<Rightarrow> string \<Rightarrow> string \<Rightarrow> cli \<Rightarrow> cli" where
  "front_turn env peer_id input cl =
    (if input = ''/status'' then
       display (''[CHAT] Status: '' @ (case local_peer peer_id cl of None \<Rightarrow> ''UNKNOWN''
           | Some p \<Rightarrow> if p_online p then ''ONLINE'' else ''OFFLINE'') @ nl) cl
     else if input = ''/secure'' then cl
     else snd (snd (command_send_to_daemon (f_cli env) (snprintf_into 512 (''chat_send '' @ peer_id @ '' '' @ input)) 4096 cl)))"

lemma front_turn_input [simp]: "input_left (front_turn env peer_id input cl) = input_left cl"
  using send_input [of "f_cli env" "snprintf_into 512 (''chat_send '' @ peer_id @ '' '' @ input)" 4096 cl]
  by (simp add: front_turn_def display_def input_left_def)

function front_loop :: "front_env \<Rightarrow> string \<Rightarrow> cli \<Rightarrow> cli" where
  "front_loop env peer_id cl = (case c_fgets 4096 cl of
      (None, cl') \<Rightarrow> cl'
    | (Some line, cl') \<Rightarrow>
        if cut_line line = ''/exit'' then cl' else front_loop env peer_id (front_turn env peer_id (cut_line line) cl'))"
  by pat_completeness auto
termination
  by (relation "measure (\<lambda>(env, peer_id, cl). input_left cl)") (auto simp: c_fgets_reads)

declare front_loop.simps [simp del]

definition orcashi_chat_start :: "front_env \<Rightarrow> Orcashi option \<Rightarrow> string option \<Rightarrow> cli \<Rightarrow> result" where
  "orcashi_chat_start env orcashi peer_id cl = (case (orcashi, peer_id) of
      (Some oc, Some pid) \<Rightarrow>
        let (up, cl) = orcashi_is_daemon_running env orcashi cl in
        if \<not> up then exits (-1) cl
        else (case local_peer pid cl of
            None \<Rightarrow> exits (-1) cl
          | Some p \<Rightarrow>
              if p_state p \<noteq> PEER_FRIEND then exits (-1) cl
              else exits 0 (front_loop env pid (display (''  Peer: '' @ pid @ nl
                @ ''  Status: '' @ (if p_online p then ''ONLINE'' else ''OFFLINE'') @ nl
                @ ''  IP: '' @ p_ip p @ '':'' @ dec_int (p_port p) @ nl) cl)))
    | _ \<Rightarrow> exits (-1) cl)"

definition orcashi_chat_send :: "front_env \<Rightarrow> Orcashi option \<Rightarrow> string option \<Rightarrow> string option \<Rightarrow> cli \<Rightarrow> result" where
  "orcashi_chat_send env orcashi peer_id message cl = (case (orcashi, peer_id, message) of
      (Some oc, Some p, Some m) \<Rightarrow> checked_request env orcashi (snprintf_into 512 (''chat_send '' @ p @ '' '' @ m)) 1024 False cl
    | _ \<Rightarrow> exits (-1) cl)"

definition orcashi_ghost_send :: "front_env \<Rightarrow> Orcashi option \<Rightarrow> string option \<Rightarrow> string option \<Rightarrow> cli \<Rightarrow> result" where
  "orcashi_ghost_send env orcashi peer_id message cl = (case (orcashi, peer_id, message) of
      (Some oc, Some p, Some m) \<Rightarrow> checked_request env orcashi (snprintf_into 512 (''ghost '' @ p @ '' '' @ m)) 1024 True cl
    | _ \<Rightarrow> exits (-1) cl)"

section \<open>Calls and notes\<close>

definition orcashi_call_start :: "front_env \<Rightarrow> Orcashi option \<Rightarrow> string option \<Rightarrow> cli \<Rightarrow> result" where
  "orcashi_call_start env orcashi peer_id cl = (case (orcashi, peer_id) of
      (Some oc, Some pid) \<Rightarrow>
        let (up, cl) = orcashi_is_daemon_running env orcashi cl in
        if \<not> up then exits (-1) cl
        else (case local_peer pid cl of
            None \<Rightarrow> exits (-1) cl
          | Some p \<Rightarrow>
              let room = f_rand env mod 49 + 1
              in send_request env (snprintf_into 512 (''call '' @ pid @ '' '' @ p_ip p @ '' '' @ dec_int room)) 1024 True cl)
    | _ \<Rightarrow> exits (-1) cl)"

definition orcashi_call_answer :: "front_env \<Rightarrow> Orcashi option \<Rightarrow> string option \<Rightarrow> int \<Rightarrow> cli \<Rightarrow> result" where
  "orcashi_call_answer env orcashi caller_id room cl = (case (orcashi, caller_id) of
      (Some oc, Some pid) \<Rightarrow>
        let (up, cl) = orcashi_is_daemon_running env orcashi cl in
        if \<not> up then exits (-1) cl
        else (case local_peer pid cl of
            None \<Rightarrow> exits (-1) cl
          | Some p \<Rightarrow>
              send_request env (snprintf_into 512 (''call_answer '' @ pid @ '' '' @ p_ip p @ '' '' @ dec_int room)) 1024 True cl)
    | _ \<Rightarrow> exits (-1) cl)"

definition orcashi_call_is_active :: "front_env \<Rightarrow> Orcashi option \<Rightarrow> cli \<Rightarrow> bool \<times> cli" where
  "orcashi_call_is_active env orcashi cl = (case orcashi of
      None \<Rightarrow> (False, cl)
    | Some _ \<Rightarrow>
        let (rc, response, cl) = command_send_to_daemon (f_cli env) ''call_status'' 1024 cl
        in (rc = 0 \<and> strstr_at response ''active'' \<noteq> None, cl))"

definition orcashi_note_add :: "front_env \<Rightarrow> Orcashi option \<Rightarrow> string option \<Rightarrow> cli \<Rightarrow> result" where
  "orcashi_note_add env orcashi content cl = (case (orcashi, content) of
      (Some oc, Some t) \<Rightarrow> checked_request env orcashi (snprintf_into 512 (''note_add '' @ t)) 1024 True cl
    | _ \<Rightarrow> exits (-1) cl)"

definition orcashi_note_view :: "front_env \<Rightarrow> Orcashi option \<Rightarrow> cli \<Rightarrow> cli" where
  "orcashi_note_view env orcashi cl = (case orcashi of
      None \<Rightarrow> cl
    | Some _ \<Rightarrow>
        let (rc, response, cl) = command_send_to_daemon (f_cli env) ''note_view'' 4096 cl in
        if rc = 0 then display response cl else cl)"

definition orcashi_note_find :: "front_env \<Rightarrow> Orcashi option \<Rightarrow> string option \<Rightarrow> cli \<Rightarrow> result" where
  "orcashi_note_find env orcashi hash cl = (case (orcashi, hash) of
      (Some oc, Some h) \<Rightarrow> send_request env (snprintf_into 256 (''note_find '' @ h)) 1024 True cl
    | _ \<Rightarrow> exits (-1) cl)"

section \<open>Mixed ids\<close>

text \<open>No text is the return value -1.\<close>

definition orcashi_get_mixed_id :: "Orcashi option \<Rightarrow> nat \<Rightarrow> string option" where
  "orcashi_get_mixed_id orcashi sz = (case orcashi of
      None \<Rightarrow> None
    | Some oc \<Rightarrow> if sz = 0 then None else mixed_id_encode (Some (oc_id oc)) (Some (oc_public_ip oc)) (oc_p2p_port oc) sz)"

definition orcashi_connect_mixed_id :: "front_env \<Rightarrow> Orcashi option \<Rightarrow> string option \<Rightarrow> cli \<Rightarrow> result" where
  "orcashi_connect_mixed_id env orcashi mixed_id cl = (case (orcashi, mixed_id) of
      (Some oc, Some mixed) \<Rightarrow> (case mixed_id_decode (Some mixed) of
          None \<Rightarrow> exits (-1) cl
        | Some (i, ip, port) \<Rightarrow>
            on_value (state_set_ip (Some i) (Some ip) (d_mgr (cl_proc cl))) (\<lambda>(_, m).
              orcashi_add_peer env orcashi (Some i)
                (cl\<lparr>cl_proc := on_state (state_set_port (Some i) port) (on_state (\<lambda>_. (0, m)) (cl_proc cl))\<rparr>)))
    | _ \<Rightarrow> exits (-1) cl)"

section \<open>Callbacks and printing\<close>

definition orcashi_set_on_peer_found :: "nat \<Rightarrow> Orcashi option \<Rightarrow> Orcashi option" where
  "orcashi_set_on_peer_found callback orcashi = map_option (\<lambda>oc. oc\<lparr>oc_on_peer_found := callback\<rparr>) orcashi"

definition orcashi_set_on_message_received :: "nat \<Rightarrow> Orcashi option \<Rightarrow> Orcashi option" where
  "orcashi_set_on_message_received callback orcashi = map_option (\<lambda>oc. oc\<lparr>oc_on_message_received := callback\<rparr>) orcashi"

definition orcashi_set_on_status_change :: "nat \<Rightarrow> Orcashi option \<Rightarrow> Orcashi option" where
  "orcashi_set_on_status_change callback orcashi = map_option (\<lambda>oc. oc\<lparr>oc_on_status_change := callback\<rparr>) orcashi"

definition orcashi_set_on_call_received :: "nat \<Rightarrow> Orcashi option \<Rightarrow> Orcashi option" where
  "orcashi_set_on_call_received callback orcashi = map_option (\<lambda>oc. oc\<lparr>oc_on_call_received := callback\<rparr>) orcashi"

definition yes_no :: "bool \<Rightarrow> string" where
  "yes_no b = (if b then ''YES'' else ''NO'')"

definition orcashi_debug_print :: "front_env \<Rightarrow> Orcashi option \<Rightarrow> cli \<Rightarrow> cli" where
  "orcashi_debug_print env orcashi cl = (case orcashi of
      None \<Rightarrow> cl
    | Some oc \<Rightarrow> display (''Version: '' @ ORCASHI_VERSION @ nl @ ''Initialized: '' @ yes_no (oc_initialized oc) @ nl
        @ ''ID: '' @ oc_id oc @ nl @ ''Name: '' @ oc_name oc @ nl @ ''Has Identity: '' @ yes_no (oc_has_identity oc) @ nl
        @ ''Secure Mode: '' @ yes_no (oc_is_secure oc) @ nl @ ''Local IP: '' @ oc_local_ip oc @ nl
        @ ''Public IP: '' @ oc_public_ip oc @ nl @ ''P2P Port: '' @ dec_int (oc_p2p_port oc) @ nl
        @ ''Daemon Running: '' @ yes_no (oc_daemon_running oc) @ nl @ ''Listening: '' @ yes_no (oc_is_listening oc) @ nl
        @ ''Uptime: '' @ dec_int (f_now env - oc_start_time oc) @ '' seconds'' @ nl) cl)"

end
