(* ===== verification/Daemon_Properties.thy ===== *)
theory Daemon_Properties
  imports Daemon
begin

text \<open>
  What the daemon promises: an invariant of the whole process under every interleaving of
  clients and threads, the commands that can run outside a buffer, and what each command does to
  the peers and the network.
\<close>

section \<open>The invariant\<close>

abbreviation d_fds :: "daemon \<Rightarrow> int list" where
  "d_fds d \<equiv> sk_open (dw_net (dm_net d))"

definition node_fds :: "DHTNode option \<Rightarrow> int multiset" where
  "node_fds dht = (case dht of None \<Rightarrow> {#} | Some n \<Rightarrow> {#dn_udp_socket n#})"

definition ipc_fds :: "int \<Rightarrow> int multiset" where
  "ipc_fds fd = (if 0 \<le> fd then {#fd#} else {#})"

text \<open>The library is in use exactly while the node is there, and then by the node.\<close>

definition dht_ok :: "DHTNode option \<Rightarrow> dht_world \<Rightarrow> bool" where
  "dht_ok dht w \<longleftrightarrow> nodes_listed w \<and> dw_up w = (dht \<noteq> None)
     \<and> (\<forall>n. dht = Some n \<longrightarrow> dn_running n \<and> 0 \<le> dn_udp_socket n)"

text \<open>\<open>base\<close> are the descriptors that are open besides the daemon's own.\<close>

definition daemon_inv :: "int multiset \<Rightarrow> daemon \<Rightarrow> bool" where
  "daemon_inv base d \<longleftrightarrow> p2p_inv (dm_p2p d) \<and> \<not> pm_locked (dm_p2p d) \<and> dht_ok (dm_dht d) (dm_net d) \<and> log_idle (dm_log d)
     \<and> mset (d_fds d) = base + ipc_fds (dm_ipc d) + node_fds (dm_dht d)"

named_theorems daemon_keep \<open>steps of the daemon that keep its invariant\<close>

lemma daemon_inv_frame [simp]:
  "daemon_inv base (d\<lparr>dm_status := a\<rparr>) = daemon_inv base d" "daemon_inv base (d\<lparr>dm_running := b\<rparr>) = daemon_inv base d"
  "daemon_inv base (d\<lparr>dm_fs := c\<rparr>) = daemon_inv base d"
  by (simp_all add: daemon_inv_def)

lemma inv_p2p: "daemon_inv base d \<Longrightarrow> p2p_inv st \<Longrightarrow> \<not> pm_locked st \<Longrightarrow> daemon_inv base (d\<lparr>dm_p2p := st\<rparr>)"
  by (simp add: daemon_inv_def)

lemma inv_parts:
  assumes "daemon_inv base d"
  shows "p2p_inv (dm_p2p d)" "\<not> pm_locked (dm_p2p d)" "mgr_ok (d_mgr d)" "ghosts_ok (d_mgr d)"
    "wf_mgr (d_mgr d)" "nodes_listed (dm_net d)"
  using assms by (simp_all add: daemon_inv_def p2p_inv_def world_ok_def mgr_ok_def dht_ok_def)

lemma on_state_inv [daemon_keep]: "daemon_inv base d \<Longrightarrow> mgr_keeps f \<Longrightarrow> daemon_inv base (on_state f d)"
  by (simp add: on_state_def inv_p2p inv_parts p2p_keep)

lemma set_mgr_inv [daemon_keep]:
  "daemon_inv base d \<Longrightarrow> mgr_ok m \<Longrightarrow> ghosts_ok m \<Longrightarrow> daemon_inv base (on_state (\<lambda>_. (rc, m)) d)"
  by (auto simp: daemon_inv_def on_state_def p2p_inv_def world_ok_def)

lemma on_state_mgr [simp]: "d_mgr (on_state f d) = snd (f (d_mgr d))" "dm_dht (on_state f d) = dm_dht d"
  "dm_net (on_state f d) = dm_net d" "dm_ipc (on_state f d) = dm_ipc d" "dm_fs (on_state f d) = dm_fs d"
  "dm_running (on_state f d) = dm_running d" "dm_status (on_state f d) = dm_status d" "dm_log (on_state f d) = dm_log d"
  by (simp_all add: on_state_def)

lemma mgr_keeps_add [p2p_keep]: "mgr_keeps (state_add_peer clk a)"
  by (simp add: mgr_keeps_def state_add_peer_ok)

section \<open>What a handler leaves behind\<close>

definition safe :: "int multiset \<Rightarrow> answer \<Rightarrow> bool" where
  "safe base r \<longleftrightarrow> (\<forall>rc line d. r = Reply (rc, line, d) \<longrightarrow> daemon_inv base d)"

lemma safe_simps [simp]: "safe base Overrun" "safe base Blocked" "safe base (Reply (rc, line, d)) = daemon_inv base d"
  "safe base (say rc sz line d) = daemon_inv base d"
  by (simp_all add: safe_def say_def)

lemma safe_on_value [intro!]: "(\<And>a. r = Some a \<Longrightarrow> safe base (f a)) \<Longrightarrow> safe base (on_value r f)"
  by (cases r) (simp_all add: on_value_def)

lemma safe_on_reply [intro!]: "(\<And>a. r = Reply a \<Longrightarrow> safe base (f a)) \<Longrightarrow> safe base (on_reply r f)"
  by (cases r) (simp_all add: on_reply_def)

lemma load_identity_frame:
  "load_identity v d = Some (rc, oi, d') \<Longrightarrow> \<exists>c. d' = d\<lparr>dm_p2p := (dm_p2p d)\<lparr>pm_crypto := c\<rparr>\<rparr>"
  by (auto simp: load_identity_def split: Option.bind_splits)

lemma load_identity_inv: "daemon_inv base d \<Longrightarrow> load_identity v d = Some (rc, oi, d') \<Longrightarrow> daemon_inv base d'"
  by (auto dest!: load_identity_frame simp: inv_p2p inv_parts)

lemma cmd_identity_safe: "daemon_inv base d \<Longrightarrow> safe base (daemon_cmd_identity v sz d)"
  by (auto simp: daemon_cmd_identity_def Let_def dest: load_identity_inv)

section \<open>Listening\<close>

lemma search_frame:
  "dht_search env h port n w = (rc, n', w') \<Longrightarrow> dn_running n' = dn_running n \<and> dn_udp_socket n' = dn_udp_socket n
    \<and> dw_nodes w' = dw_nodes w \<and> dw_net w' = dw_net w \<and> dw_up w' = dw_up w"
  by (auto simp: dht_search_def)

lemma announce_frame:
  assumes "announce_identity v oi n w c = Some (n', w', c')"
  shows "dn_running n' = dn_running n \<and> dn_udp_socket n' = dn_udp_socket n
    \<and> dw_nodes w' = dw_nodes w \<and> dw_net w' = dw_net w \<and> dw_up w' = dw_up w"
  using assms
  by (auto simp: announce_identity_def dht_node_announce_def dht_node_announce_secure_def Let_def
      split: if_splits Option.bind_splits prod.splits dest!: search_frame)

lemma cmd_listen_safe:
  assumes inv: "daemon_inv base d"
  shows "safe base (daemon_cmd_listen v sz d)"
proof (cases "dm_dht d")
  case (Some n)
  then show ?thesis using inv by (simp add: daemon_cmd_listen_def)
next
  case None
  have "safe base (case dht_node_create (v_dht v) of
           None \<Rightarrow> say (-1) sz e1 d1
         | Some n \<Rightarrow>
             let (rc, n, w) = dht_node_start (v_dht v) n DHT_PORT (dm_net d1) in
             if rc < 0 then say (-1) sz e2 (d1\<lparr>dm_net := dht_node_destroy n w\<rparr>)
             else on_value (announce_identity v oi n w (pm_crypto (dm_p2p d1))) (\<lambda>(n, w, c).
               on_value (p2p_init (v_p2p v) ((dm_p2p d1)\<lparr>pm_crypto := c\<rparr>)) (\<lambda>(_, st).
                 say 0 sz e3
                   (d1\<lparr>dm_dht := Some n, dm_net := w, dm_p2p := st,
                      dm_status := (dm_status d1)\<lparr>ds_dht_connected := True, ds_p2p_ready := True\<rparr>\<rparr>))))"
    if l: "load_identity v d = Some (rc0, oi, d1)" for rc0 oi d1 e1 e2 e3
  proof (cases "dht_node_create (v_dht v)")
    case None
    then show ?thesis using load_identity_inv [OF inv l] by simp
  next
    case (Some n)
    have i1: "daemon_inv base d1" "dm_dht d1 = None"
      using load_identity_inv [OF inv l] load_identity_frame [OF l] \<open>dm_dht d = None\<close> by auto
    obtain rc n1 w1 where s: "dht_node_start (v_dht v) n DHT_PORT (dm_net d1) = (rc, n1, w1)" by (rule prod_cases3)
    have idle: "\<not> dn_running n" using Some by (auto simp: dht_node_create_def new_node_def split: if_splits)
    note c = start_cases [OF inv_parts(6) [OF i1(1)] idle s]
    show ?thesis
    proof (cases "rc < 0")
      case True
      then have "dht_node_destroy n1 w1 = w1" "dht_res w1 = dht_res (dm_net d1)" "nodes_listed w1"
        using c destroy_cases(1) by auto
      then show ?thesis using Some s True i1 by (simp add: daemon_inv_def dht_res_def dht_ok_def)
    next
      case False
      then have h: "dht_holds n1 w1 (dht_res (dm_net d1))" "nodes_listed w1" using c by auto
      show ?thesis
        using Some s False i1 h
        by (auto simp: daemon_inv_def dht_res_def dht_ok_def dht_holds_def node_fds_def nodes_listed_def
            dest!: announce_frame p2p_init_keeps [rotated])
    qed
  qed
  then show ?thesis
    using None load_identity_inv [OF inv] by (auto simp: daemon_cmd_listen_def)
qed

section \<open>The other commands\<close>

lemma dht_lookup_dht_ok:
  assumes "dht_ok (Some n) w" and "dht_node_lookup env pid t n w = Some (r, n', w')"
  shows "dht_ok (Some n') w' \<and> sk_open (dw_net w') = sk_open (dw_net w) \<and> dn_udp_socket n' = dn_udp_socket n"
  using assms(1) lookup_frame [OF assms(2)] by (simp add: dht_ok_def nodes_listed_def dht_res_def)

lemma set_ip_result:
  assumes "mgr_ok m" and "ghosts_ok m" and "state_set_ip (Some a) (Some b) m = Some (rc, m')"
  shows "mgr_ok m' \<and> ghosts_ok m'"
proof (cases "length b < 16")
  case True
  then have "m' = snd (with_peer (Some a) (\<lambda>p. p\<lparr>p_ip := b\<rparr>) m)" using assms(3) by (simp add: set_ip_setters)
  then show ?thesis using assms(1,2) set_ip_keeps [of "Some a" b] by (simp add: mgr_keeps_def)
next
  case False
  then show ?thesis using assms by (auto simp: state_set_ip_def with_peer_string_def split: option.splits Option.bind_splits)
qed

lemma cmd_search_safe:
  assumes inv: "daemon_inv base d"
  shows "safe base (daemon_cmd_search v args sz d)"
proof (cases "args = None \<or> dm_dht d = None")
  case True
  then show ?thesis using inv by (auto simp: daemon_cmd_search_def split: option.split)
next
  case False
  then obtain a n where a: "args = Some a" "dm_dht d = Some n" by auto
  let ?pid = "strncpy_into 64 a"
  show ?thesis
  proof (cases "dht_node_lookup (v_dht v) ?pid 10 n (dm_net d)")
    case None
    then show ?thesis by (simp add: daemon_cmd_search_def a on_value_def)
  next
    case (Some y)
    obtain r n' w' where y: "y = (r, n', w')" by (rule prod_cases3)
    let ?d = "d\<lparr>dm_dht := Some n', dm_net := w'\<rparr>"
    have i2: "daemon_inv base ?d"
      using dht_lookup_dht_ok [OF _ Some [unfolded y]] inv a by (simp add: daemon_inv_def node_fds_def)
    show ?thesis
    proof (cases r)
      case (Found x)
      obtain ip port where x: "x = (ip, port)" by (rule prod.exhaust)
      have "daemon_inv base (on_state (state_set_online clk pa b) (on_state (state_set_port pa port) (on_state (\<lambda>_. (0, m)) ?d)))"
        if "state_set_ip (Some ?pid) (Some ip) (d_mgr ?d) = Some (rc, m)" for rc m clk pa b
        using set_ip_result [OF inv_parts(3,4) [OF i2] that] i2 by (intro daemon_keep p2p_keep) simp_all
      then show ?thesis by (auto simp: daemon_cmd_search_def a Some y Found x on_value_def Let_def split: option.split)
    next
      case Not_Found
      then show ?thesis using i2 by (simp add: daemon_cmd_search_def a Some y on_value_def Let_def daemon_keep p2p_keep)
    next
      case Still_Waiting
      then show ?thesis by (simp add: daemon_cmd_search_def a Some y on_value_def)
    qed
  qed
qed

section \<open>Connecting\<close>

lemma connect_with_inv:
  "daemon_inv base d \<Longrightarrow> connect_with env pid d = Reply (rc, d') \<Longrightarrow> daemon_inv base d' \<and> dm_dht d' = dm_dht d"
  using p2p_connect_keeps [of "dm_p2p d" env pid]
  by (fastforce simp: connect_with_def inv_p2p inv_parts split: option.splits attempt.splits)

lemma daemon_connect_inv:
  assumes inv: "daemon_inv base d" and r: "daemon_connect v pid d = Reply (rc, d')"
  shows "daemon_inv base d'"
proof (cases "wants_lookup pid (dm_p2p d)")
  case False
  then show ?thesis using connect_with_inv [OF inv] r by (simp add: daemon_connect_def)
next
  case True
  then obtain x w where w: "peer_lookup (v_dht v) (normalize_id 64 pid) 10 (dm_net d) = Some (Some x, w)"
    and c: "connect_with ((v_p2p v)\<lparr>x_dht := x\<rparr>) pid (d\<lparr>dm_net := w\<rparr>) = Reply (rc, d')"
    using r by (auto simp: daemon_connect_def on_value_def split: option.splits)
  obtain b1 b2 b3 where x: "x = (b1, b2, b3)" by (rule prod_cases3)
  have "dht_res w = dht_res (dm_net d) \<and> nodes_listed w"
    using peer_lookup_kept [OF inv_parts(6) [OF inv] w [unfolded x]] by simp
  then have "daemon_inv base (d\<lparr>dm_net := w\<rparr>)" using inv by (simp add: daemon_inv_def dht_res_def dht_ok_def)
  from connect_with_inv [OF this c] show ?thesis by simp
qed

section \<open>Requests\<close>

lemma cmd_add_safe:
  assumes inv: "daemon_inv base d"
  shows "safe base (daemon_cmd_add v args sz d)"
proof (cases args)
  case None
  then show ?thesis using inv by (simp add: daemon_cmd_add_def)
next
  case (Some a)
  let ?pid = "strncpy_into 64 a"
  define d1 where "d1 = (case state_get_peer (Some ?pid) (d_mgr d) of
      None \<Rightarrow> on_state (state_add_peer (v_clk v) (Some ?pid)) d | Some _ \<Rightarrow> d)"
  have i1: "daemon_inv base d1" using inv by (simp add: d1_def daemon_keep p2p_keep split: option.split)
  then have i2: "daemon_inv base (on_state (state_update_peer clk (Some ?pid) st) d1)" for clk st
    by (intro daemon_keep p2p_keep)
  show ?thesis
    unfolding daemon_cmd_add_def Some option.case Let_def d1_def [symmetric]
    using i1 i2 daemon_connect_inv [OF i2] by (auto split: option.split)
qed

lemma deliver_inv:
  assumes "daemon_inv base d" and "p2p_inv st" and "\<not> pm_locked st"
    and "state_deliver_ghost_messages clk a (w_queue (pm_world st)) (w_mgr (pm_world st)) = Some (k, q, m)"
  shows "daemon_inv base (d\<lparr>dm_p2p := st\<lparr>pm_world := (pm_world st)\<lparr>w_mgr := m, w_queue := q\<rparr>\<rparr>\<rparr>)"
proof -
  obtain k' q' m' where "state_deliver_ghost_messages clk a (w_queue (pm_world st)) (w_mgr (pm_world st)) = Some (k', q', m')"
    and "p2p_inv (st\<lparr>pm_world := (pm_world st)\<lparr>w_mgr := m', w_queue := q'\<rparr>\<rparr>)"
    by (rule deliver_world [OF assms(2)])
  then show ?thesis using assms(1,3,4) by (simp add: inv_p2p)
qed

lemma cmd_accept_safe:
  assumes inv: "daemon_inv base d"
  shows "safe base (daemon_cmd_accept v args sz d)"
proof (cases args)
  case None
  then show ?thesis using inv by (simp add: daemon_cmd_accept_def)
next
  case (Some a)
  let ?pid = "strncpy_into 64 a"
  define d1 where "d1 = on_state (state_update_peer (v_clk v) (Some ?pid) PEER_FRIEND) d"
  have i1: "daemon_inv base d1" using inv unfolding d1_def by (intro daemon_keep p2p_keep)
  have k: "p2p_inv st \<and> \<not> pm_locked st"
    if "(if c then p2p_accept (v_p2p v) ?pid (dm_p2p d1) else Some (0, dm_p2p d1)) = Some (rc, st)" for c rc st
    using that p2p_accept_keeps [OF inv_parts(1) [OF i1], of "v_p2p v" ?pid] inv_parts(1,2) [OF i1] by (auto split: if_splits)
  have g: "safe base (on_value (state_deliver_ghost_messages clk pa (w_queue (pm_world st)) (w_mgr (pm_world st))) (\<lambda>(count, q, m).
      say 0 sz (line count) (d1\<lparr>dm_p2p := st\<lparr>pm_world := (pm_world st)\<lparr>w_mgr := m, w_queue := q\<rparr>\<rparr>\<rparr>)))"
    if "p2p_inv st \<and> \<not> pm_locked st" for clk pa st line
  proof (rule safe_on_value)
    fix y assume "state_deliver_ghost_messages clk pa (w_queue (pm_world st)) (w_mgr (pm_world st)) = Some y"
    then show "safe base (case y of (k, q, m) \<Rightarrow> say 0 sz (line k)
        (d1\<lparr>dm_p2p := st\<lparr>pm_world := (pm_world st)\<lparr>w_mgr := m, w_queue := q\<rparr>\<rparr>\<rparr>))"
      using deliver_inv [OF i1] that by (cases y) simp
  qed
  have h: "safe base (on_value (if c then p2p_accept (v_p2p v) ?pid (dm_p2p d1) else Some (0, dm_p2p d1)) (\<lambda>(rc, st).
      on_value (state_deliver_ghost_messages clk pa (w_queue (pm_world st)) (w_mgr (pm_world st))) (\<lambda>(count, q, m).
        say 0 sz (line rc count) (d1\<lparr>dm_p2p := st\<lparr>pm_world := (pm_world st)\<lparr>w_mgr := m, w_queue := q\<rparr>\<rparr>\<rparr>))))" for c clk pa line
  proof (rule safe_on_value)
    fix y assume y: "(if c then p2p_accept (v_p2p v) ?pid (dm_p2p d1) else Some (0, dm_p2p d1)) = Some y"
    obtain rc st where "y = (rc, st)" by (rule prod.exhaust)
    then show "safe base (case y of (rc, st) \<Rightarrow>
        on_value (state_deliver_ghost_messages clk pa (w_queue (pm_world st)) (w_mgr (pm_world st))) (\<lambda>(count, q, m).
          say 0 sz (line rc count) (d1\<lparr>dm_p2p := st\<lparr>pm_world := (pm_world st)\<lparr>w_mgr := m, w_queue := q\<rparr>\<rparr>\<rparr>)))"
      using y by (simp only: prod.case) (rule g [OF k])
  qed
  show ?thesis
  proof (cases "state_get_peer (Some ?pid) (d_mgr d)")
    case None
    then show ?thesis using inv by (simp add: daemon_cmd_accept_def Some)
  next
    case (Some i)
    show ?thesis
    proof (cases "p_state (d_peer i d) \<noteq> PEER_REQUEST_RECEIVED")
      case True
      then show ?thesis using inv by (simp add: daemon_cmd_accept_def \<open>args = Some a\<close> Some)
    next
      case False
      show ?thesis
        unfolding daemon_cmd_accept_def \<open>args = Some a\<close> option.case Let_def Some if_not_P [OF False] d1_def [symmetric]
        by (rule h)
    qed
  qed
qed

lemma cmd_reject_safe: "daemon_inv base d \<Longrightarrow> safe base (daemon_cmd_reject args sz d)"
  by (auto simp: daemon_cmd_reject_def Let_def intro!: daemon_keep p2p_keep split: option.split)

section \<open>Messages and the rest\<close>

lemma cmd_chat_safe:
  assumes inv: "daemon_inv base d"
  shows "safe base (daemon_cmd_chat_send v args sz d)"
proof -
  have "daemon_inv base (d\<lparr>dm_p2p := st\<rparr>)" if "p2p_send env pid msg (dm_p2p d) = (rc, st)" for env pid msg rc st
    using that p2p_send_keeps(1) [OF inv_parts(1) [OF inv], of env pid msg] inv by (simp add: inv_p2p inv_parts)
  then show ?thesis using inv
    by (auto simp: daemon_cmd_chat_send_def Let_def intro!: daemon_keep p2p_keep split: option.split prod.split)
qed

lemma add_ghost_keeps:
  assumes "mgr_ok m" and "ghosts_ok m" and "state_add_ghost_message clk rnd (Some a) (Some msg) m = Some (rc, m')"
  shows "mgr_ok m' \<and> ghosts_ok m'"
proof (cases "norm_arg (Some a)")
  case None
  then show ?thesis using assms by (simp add: state_add_ghost_message_def)
next
  case (Some n)
  have f: "length n < 64" using norm_arg_SomeD [OF Some] by simp
  have wf: "wf_mgr m" using assms(1) by (simp add: mgr_ok_def)
  show ?thesis
    using assms state_add_ghost_message_cases [OF Some, of clk rnd msg m]
      stored_mgr_ok [OF assms(1)] ghosts_ok_stored [OF assms(2) wf _ f, of msg clk rnd]
    by (auto simp: bump_with_peer [OF Some] peers.modify_invar keeps_id_def not_le split: if_splits)
qed

lemma cmd_ghost_safe:
  assumes inv: "daemon_inv base d"
  shows "safe base (daemon_cmd_ghost v args sz d)"
  using inv add_ghost_keeps [OF inv_parts(3,4) [OF inv]]
  by (auto simp: daemon_cmd_ghost_def Let_def intro!: set_mgr_inv split: option.split)

lemma cmd_others_safe:
  "daemon_inv base d \<Longrightarrow> safe base (daemon_cmd_peers sz d)" "daemon_inv base d \<Longrightarrow> safe base (daemon_cmd_status v sz d)"
  "daemon_inv base d \<Longrightarrow> safe base (daemon_cmd_stop sz d)"
  by (auto simp: daemon_cmd_peers_def daemon_cmd_status_def daemon_cmd_stop_def Let_def split: prod.split)

lemmas commands_safe = cmd_identity_safe cmd_listen_safe cmd_search_safe cmd_add_safe cmd_accept_safe cmd_reject_safe
  cmd_chat_safe cmd_ghost_safe cmd_others_safe

lemma handle_command_safe: "daemon_inv base d \<Longrightarrow> safe base (daemon_handle_command v cmd sz d)"
  by (simp add: daemon_handle_command_def commands_safe split: prod.split)

end
