(* ===== verification/Daemon_Steps.thy ===== *)
theory Daemon_Steps
  imports Daemon_Properties
begin

text \<open>
  The daemon as a transition system: clients, datagrams, events, the DHT and the P2P manager in
  any order.  Its invariant holds throughout, and when it ends every descriptor is given back.
\<close>

section \<open>Descriptors\<close>

lemma d_close_frame [simp]:
  "dm_p2p (d_close fd d) = dm_p2p d" "dm_dht (d_close fd d) = dm_dht d" "dm_ipc (d_close fd d) = dm_ipc d"
  "dm_fs (d_close fd d) = dm_fs d" "d_fds (d_close fd d) = remove1 fd (d_fds d)" "dw_up (dm_net (d_close fd d)) = dw_up (dm_net d)"
  "dw_nodes (dm_net (d_close fd d)) = dw_nodes (dm_net d)" "dm_status (d_close fd d) = dm_status d"
  "dm_log (d_close fd d) = dm_log d"
  by (simp_all add: d_close_def)

lemma d_close_inv: "daemon_inv (add_mset fd base) d \<Longrightarrow> daemon_inv base (d_close fd d)"
  by (simp add: daemon_inv_def dht_ok_def nodes_listed_def)

lemma open_inv:
  assumes "daemon_inv base d" and "open_socket env (dw_net (dm_net d)) = (fd, s)"
  shows "daemon_inv (base + (if fd < 0 then {#} else {#fd#})) (d\<lparr>dm_net := (dm_net d)\<lparr>dw_net := s\<rparr>\<rparr>)"
  using assms open_frame [OF assms(2)] by (auto simp: daemon_inv_def dht_ok_def nodes_listed_def split: if_splits)

lemma ipc_handle_inv:
  assumes "daemon_inv (add_mset fd base) d" and "daemon_ipc_handle v fd received d = Reply (out, d')"
  shows "daemon_inv base d'"
proof (cases "received = []")
  case True
  then show ?thesis using assms by (auto simp: daemon_ipc_handle_def intro: d_close_inv)
next
  case False
  then obtain rc line d1 where c: "daemon_handle_command v (recv_text (take 4095 received)) 8192 d = Reply (rc, line, d1)"
    and d': "d' = d_close fd d1"
    using assms(2) by (auto simp: daemon_ipc_handle_def on_reply_def Let_def split: reply.splits)
  have "daemon_inv (add_mset fd base) d1" using handle_command_safe [OF assms(1)] c unfolding safe_def by blast
  then show ?thesis unfolding d' by (rule d_close_inv)
qed

lemma ipc_round_inv:
  assumes "daemon_inv base d" and "daemon_ipc_round v received d = Reply (out, d')"
  shows "daemon_inv base d'"
proof -
  obtain fd s where o: "open_socket (dv_net (v_dht v)) (dw_net (dm_net d)) = (fd, s)" by (rule prod.exhaust)
  note i = open_inv [OF assms(1) o]
  show ?thesis
  proof (cases "fd < 0")
    case True
    then show ?thesis using i assms(2) o by (simp add: daemon_ipc_round_def)
  next
    case False
    then show ?thesis using ipc_handle_inv [of fd base _ v received out d'] i assms(2) o by (simp add: daemon_ipc_round_def)
  qed
qed

section \<open>The threads\<close>

lemma ntop_short: "(\<forall>x \<in> {a, b, c, d}. x < 256) \<Longrightarrow> length (dotted a b c d) < 16"
  using dotted_length [of a b c d] by (auto simp: INET_ADDRSTRLEN_def)

definition addr_ok :: "sockaddr \<Rightarrow> bool" where
  "addr_ok a \<longleftrightarrow> (case sa_ip a of (w, x, y, z) \<Rightarrow> w < 256 \<and> x < 256 \<and> y < 256 \<and> z < 256)"

lemma datagram_event_fits:
  assumes "addr_ok a" and "length bs < 4096"
  shows "event_fits (datagram_event clk bs a)"
proof -
  have "length (ntop (sa_ip a)) < 16"
    using assms(1) by (auto simp: addr_ok_def ntop_def intro: ntop_short split: prod.splits)
  moreover have "length (recv_text bs) < 4096"
    using assms(2) length_takeWhile_le [of "\<lambda>b. b \<noteq> 0" bs] by (simp add: recv_text_def bytes_string_def)
  ultimately show ?thesis
    using event_create_fits [of clk EVENT_MESSAGE_RECEIVED "Some (ntop (sa_ip a))"] by (simp add: datagram_event_def event_fits_def)
qed

lemma p2p_round_inv:
  assumes "daemon_inv base d" and "addr_ok a"
  shows "daemon_inv base (daemon_p2p_round clk ready received a d)"
proof -
  have "p2p_inv (p2p_push (datagram_event clk (take 4095 received) a) (dm_p2p d))"
    using inv_parts(1) [OF assms(1)] datagram_event_fits [OF assms(2), of "take 4095 received"] by (intro p2p_push_inv) auto
  then show ?thesis using assms(1) by (simp add: daemon_p2p_round_def inv_p2p inv_parts)
qed

lemma save_state_inv [simp]: "daemon_inv base (save_state ok d) = daemon_inv base d"
  by (simp add: save_state_def split: option.split)

lemma event_round_inv:
  assumes inv: "daemon_inv base d" and w: "waits_ok waits" and r: "daemon_event_round v waits d = Some d'"
  shows "daemon_inv base d'"
proof -
  let ?w = "pm_world (dm_p2p d)"
  have ok: "world_ok ?w" using inv_parts(1) [OF inv] by (simp add: p2p_inv_def)
  obtain rc ev running q where p: "event_queue_pop waits True 100 (w_running ?w) (w_queue ?w) = Some (rc, ev, running, q)"
    using r by (auto simp: daemon_event_round_def Let_def split: Option.bind_splits)
  have q: "queue_ok q \<and> (case ev of None \<Rightarrow> rc = -1 | Some e \<Rightarrow> rc = 0 \<and> event_fits e)"
    by (rule pop_queue_ok [OF _ w p]) (use ok in \<open>simp add: world_ok_def\<close>)
  let ?w1 = "?w\<lparr>w_queue := q, w_running := running\<rparr>"
  have w1: "world_ok ?w1" using ok q by (simp add: world_ok_def)
  obtain w2 where w2: "d' = save_state (v_fopen v) (d\<lparr>dm_p2p := (dm_p2p d)\<lparr>pm_world := w2\<rparr>\<rparr>)" "world_ok w2"
  proof (cases ev)
    case None
    then show ?thesis using r p q w1 that [of ?w1] by (simp add: daemon_event_round_def)
  next
    case (Some e)
    then have f: "event_fits e" "rc = 0" using q by simp_all
    obtain k w2 where e: "event_process (v_clk v) (Some e) ?w1 = Some (k, w2)" "world_ok w2"
      using event_process_safe [OF w1 f(1)] by blast
    then show ?thesis using r p f(2) Some that [of w2] by (simp add: daemon_event_round_def)
  qed
  have "p2p_inv ((dm_p2p d)\<lparr>pm_world := w2\<rparr>)" using inv_parts(1) [OF inv] w2(2) by (simp add: p2p_inv_def)
  then show ?thesis using inv w2(1) by (simp add: inv_p2p inv_parts)
qed

lemma node_inv:
  assumes "daemon_inv base d" and "dm_dht d = Some n" and "dn_running n' = dn_running n" and "dn_udp_socket n' = dn_udp_socket n"
  shows "daemon_inv base (d\<lparr>dm_dht := Some n'\<rparr>)"
  using assms by (simp add: daemon_inv_def dht_ok_def node_fds_def)

lemma dht_round_inv: "daemon_inv base d \<Longrightarrow> daemon_inv base (daemon_dht_round events d)"
  by (auto simp: daemon_dht_round_def dht_node_periodic_def intro: node_inv split: option.split)

section \<open>The start\<close>

lemma ipc_init_inv:
  assumes inv: "daemon_inv base d" and ipc: "dm_ipc d < 0" and i: "daemon_ipc_init v d = (rc, d')"
  shows "daemon_inv base d'"
proof -
  let ?d = "d\<lparr>dm_fs := unlink_path DAEMON_SOCKET (dm_fs d)\<rparr>"
  obtain fd s where o: "open_socket (dv_net (v_dht v)) (dw_net (dm_net ?d)) = (fd, s)" by (rule prod.exhaust)
  have n: "daemon_inv (base + (if fd < 0 then {#} else {#fd#})) (?d\<lparr>dm_net := (dm_net ?d)\<lparr>dw_net := s\<rparr>\<rparr>)"
    by (rule open_inv [OF _ o]) (use inv in simp)
  have set_ipc: "daemon_inv base (x\<lparr>dm_ipc := fd\<rparr>)" if "daemon_inv (base + (if fd < 0 then {#} else {#fd#})) x" "dm_ipc x < 0" for x
    using that by (auto simp: daemon_inv_def ipc_fds_def)
  have ask: "daemon_inv base (snd (d_ask v x)) = daemon_inv base x" "dm_ipc (snd (d_ask v x)) = dm_ipc x" for base x
    by (simp_all add: d_ask_def ask_def Let_def daemon_inv_def dht_ok_def nodes_listed_def)
  have close: "daemon_inv base ((d_close fd x)\<lparr>dm_ipc := -1\<rparr>)" if "daemon_inv base x" "dm_ipc x = fd" "0 \<le> fd" for x
    using that by (simp add: daemon_inv_def ipc_fds_def dht_ok_def nodes_listed_def)
  let ?e = "?d\<lparr>dm_net := (dm_net ?d)\<lparr>dw_net := s\<rparr>, dm_ipc := fd\<rparr>"
  have e: "daemon_inv base ?e" "dm_ipc ?e = fd" using set_ipc [OF n] ipc by simp_all
  obtain bound e1 where b: "d_ask v ?e = (bound, e1)" by (rule prod.exhaust)
  have e1: "daemon_inv base e1" "dm_ipc e1 = fd" using ask(1) [of base ?e] ask(2) [of ?e] e b by simp_all
  show ?thesis
  proof (cases "fd < 0")
    case True
    then show ?thesis using i e o by (simp add: daemon_ipc_init_def Let_def)
  next
    case False
    have u: "daemon_ipc_init v d = (case (bound, write_path (dm_fs e1) DAEMON_SOCKET []) of
        (True, Some fs) \<Rightarrow> let (listening, d) = d_ask v (e1\<lparr>dm_fs := fs\<rparr>) in
           if \<not> listening then (-1, (d_close fd d)\<lparr>dm_ipc := -1\<rparr>) else (0, d)
      | _ \<Rightarrow> (-1, (d_close fd e1)\<lparr>dm_ipc := -1\<rparr>))"
      using b o False by (simp add: daemon_ipc_init_def)
    show ?thesis
    proof (cases "bound \<and> write_path (dm_fs e1) DAEMON_SOCKET [] \<noteq> None")
      case True
      then obtain fs where fs: "bound" "write_path (dm_fs e1) DAEMON_SOCKET [] = Some fs" by blast
      obtain listening e2 where l: "d_ask v (e1\<lparr>dm_fs := fs\<rparr>) = (listening, e2)" by (rule prod.exhaust)
      have e2: "daemon_inv base e2" "dm_ipc e2 = fd" using ask(1) [of base "e1\<lparr>dm_fs := fs\<rparr>"] ask(2) [of "e1\<lparr>dm_fs := fs\<rparr>"] e1 l by simp_all
      have "(rc, d') = (if \<not> listening then (-1, (d_close fd e2)\<lparr>dm_ipc := -1\<rparr>) else (0, e2))"
        using i u fs l by simp
      then show ?thesis using e2 close [OF e2] False by (simp split: if_splits)
    next
      case no: False
      then have "(rc, d') = (-1, (d_close fd e1)\<lparr>dm_ipc := -1\<rparr>)"
        using i u by (cases bound) (auto split: option.splits)
      then show ?thesis using close [OF e1] False by simp
    qed
  qed
qed

text \<open>
  The process that becomes the daemon has its state loaded already (\<open>main\<close> of \<^verbatim>\<open>main.c\<close> does it
  first), and has no listening socket.
\<close>

lemma daemon_init_inv:
  assumes inv: "daemon_inv base d" and g: "g_initialized (d_mgr d)" and ipc: "dm_ipc d < 0" and i: "daemon_init v d = Reply (rc, d')"
  shows "daemon_inv base d'"
proof -
  define d1 where "d1 = (case mkdir_path (dm_fs d) DAEMON_HOME of None \<Rightarrow> d | Some fs \<Rightarrow> d\<lparr>dm_fs := fs\<rparr>)"
  have d1: "daemon_inv base d1" "dm_p2p d1 = dm_p2p d" "dm_ipc d1 = dm_ipc d"
    using inv by (simp_all add: d1_def split: option.split)
  have idle: "log_idle (dm_log d1)" using d1(1) by (simp add: daemon_inv_def)
  have "\<not> opens (v_log v) DAEMON_LOG_FILE (dm_fs d1)"
    using i init_blocks [OF idle] by (auto simp: daemon_init_def Let_def d1_def [symmetric] on_reply_def)
  from init_refused [OF idle this] obtain l fs where l: "logger_init (v_log v) (Some DAEMON_LOG_FILE) (dm_log d1, dm_fs d1) = Reply (-1, l, fs)"
    "log_idle l" by blast
  then have lv: "logger_set_level LOG_LEVEL_INFO l = Reply (l\<lparr>lg_level := LOG_LEVEL_INFO, lg_locked := False\<rparr>)"
    by (simp add: logger_set_level_def lock_log_def unlock_log_def log_idle_def on_reply_def)
  define l2 where "l2 = l\<lparr>lg_level := LOG_LEVEL_INFO, lg_locked := False\<rparr>"
  define d2 where "d2 = d1\<lparr>dm_log := l2, dm_fs := fs\<rparr>"
  have d2: "daemon_inv base d2" "d_mgr d2 = d_mgr d" "dm_ipc d2 < 0"
    using d1 l(2) ipc by (simp_all add: d2_def l2_def daemon_inv_def log_idle_def)
  define d3 where "d3 = on_state (\<lambda>_. (0, d_mgr d)) d2"
  have d3: "daemon_inv base d3" "dm_ipc d3 < 0"
    using set_mgr_inv [OF d2(1) inv_parts(3,4) [OF inv]] d2(3) by (simp_all add: d3_def on_state_def)
  have f3: "dm_fs d3 = fs" by (simp add: d3_def d2_def on_state_def)
  have si: "state_init t (d_mgr d) = Some (0, d_mgr d)" for t using g by (simp add: state_init_def)
  obtain x fs2 c where st: "orca_identity_storage_init (dm_fs d3) (pm_crypto (dm_p2p d3)) = (x, fs2, c)" by (rule prod_cases3)
  obtain y p where p: "p2p_init (v_p2p v) ((dm_p2p d3)\<lparr>pm_crypto := c\<rparr>) = Some (y, p)"
    and r: "(case daemon_ipc_init v (d3\<lparr>dm_fs := fs2, dm_p2p := p\<lparr>pm_world := snd (event_loop_init (pm_world p))\<rparr>\<rparr>) of (rc, d) \<Rightarrow>
      if rc < 0 then Reply (-1, d)
      else Reply (0, d\<lparr>dm_status := (dm_status d)\<lparr>ds_state := DAEMON_STATE_RUNNING, ds_start_time := v_clk v 0, ds_pid := v_pid v\<rparr>,
             dm_running := True\<rparr>)) = Reply (rc, d')"
    using i l lv st si
    unfolding daemon_init_def Let_def d1_def [symmetric] d1(2)
    by (simp add: on_reply_def l2_def [symmetric] d1(2) si f3 on_value_def d2_def [symmetric] d3_def [symmetric] split: option.splits prod.splits)
  have "p2p_inv p \<and> pm_locked p = pm_locked (dm_p2p d3)"
    using p2p_init_keeps [OF _ p] inv_parts(1) [OF d3(1)] by simp
  then have "daemon_inv base (d3\<lparr>dm_fs := fs2, dm_p2p := p\<lparr>pm_world := snd (event_loop_init (pm_world p))\<rparr>\<rparr>)"
    using inv_p2p [of base "d3\<lparr>dm_fs := fs2\<rparr>"] d3 inv_parts(2) [OF d3(1)]
    by (simp add: event_loop_init_def p2p_inv_def world_ok_def)
  then show ?thesis using r d3(2) ipc_init_inv by (fastforce split: prod.splits if_splits)
qed

section \<open>The transition system\<close>

inductive daemon_step :: "daemon \<Rightarrow> daemon \<Rightarrow> bool" where
  step_start: "g_initialized (d_mgr d) \<Longrightarrow> dm_ipc d < 0 \<Longrightarrow> daemon_init v d = Reply (rc, d') \<Longrightarrow> daemon_step d d'"
| step_client: "daemon_ipc_round v received d = Reply (out, d') \<Longrightarrow> daemon_step d d'"
| step_datagram: "addr_ok a \<Longrightarrow> daemon_step d (daemon_p2p_round clk ready received a d)"
| step_event: "waits_ok waits \<Longrightarrow> daemon_event_round v waits d = Some d' \<Longrightarrow> daemon_step d d'"
| step_dht: "daemon_step d (daemon_dht_round events d)"
| step_node: "dm_dht d = Some n \<Longrightarrow> daemon_step d (d\<lparr>dm_dht := Some (dht_node_thread rounds n)\<rparr>)"
| step_p2p: "p2p_step (dm_p2p d) st \<Longrightarrow> daemon_step d (d\<lparr>dm_p2p := st\<rparr>)"
| step_signal: "daemon_step d (daemon_signal_handler sig d)"

inductive_cases daemon_stepE: "daemon_step d d'"

lemma daemon_step_inv: "daemon_step d d' \<Longrightarrow> daemon_inv base d \<Longrightarrow> daemon_inv base d'"
proof (induction rule: daemon_step.induct)
  case (step_p2p d st)
  then show ?case using p2p_step_keeps inv_parts by (blast intro: inv_p2p)
qed (auto simp: daemon_signal_handler_def
    intro: daemon_init_inv ipc_round_inv p2p_round_inv event_round_inv dht_round_inv node_inv)

lemma daemon_steps_inv: "daemon_step\<^sup>*\<^sup>* d d' \<Longrightarrow> daemon_inv base d \<Longrightarrow> daemon_inv base d'"
  by (induction rule: rtranclp_induct) (auto intro: daemon_step_inv)

section \<open>The end\<close>

lemma ipc_close_fds: "daemon_inv base d \<Longrightarrow> daemon_inv base (daemon_ipc_close d) \<and> dm_ipc (daemon_ipc_close d) < 0"
  by (auto simp: daemon_ipc_close_def daemon_inv_def ipc_fds_def dht_ok_def nodes_listed_def)

lemma stop_dht_inv:
  assumes inv: "daemon_inv base d" and n: "dm_dht d = Some n" and s: "dht_node_stop n (dm_net d) = (n', w')"
  shows "daemon_inv base (d\<lparr>dm_net := dht_node_destroy n' w', dm_dht := None\<rparr>)"
  using inv n s
  by (auto simp: dht_node_stop_def dht_node_destroy_def daemon_inv_def dht_ok_def node_fds_def dht_uninit_def nodes_listed_def)

text \<open>
  C18: in whatever way a daemon was used, with every step returning, ending it returns; then every
  descriptor that the listening socket, its clients and the DHT node opened is closed, and of
  these only the ones that were open before are left; the DHT library is free again and the table of connections
  empty.  (The sockets of the P2P manager are counted by the manager, not here.)
\<close>

theorem daemon_gives_back:
  assumes "daemon_inv base d" and "daemon_step\<^sup>*\<^sup>* d d'"
  shows "\<exists>e. daemon_cleanup v d' = Reply e \<and> mset (d_fds e) = base \<and> \<not> dw_up (dm_net e) \<and> dm_dht e = None
    \<and> pm_peers (dm_p2p e) = (if pm_initialized (dm_p2p d') then [] else pm_peers (dm_p2p d'))"
proof -
  define e where "e = d'\<lparr>dm_running := False\<rparr>"
  define e1 where "e1 = (case dm_dht e of None \<Rightarrow> e
      | Some n \<Rightarrow> let (n, w) = dht_node_stop n (dm_net e) in e\<lparr>dm_net := dht_node_destroy n w, dm_dht := None\<rparr>)"
  have "daemon_inv base e" using daemon_steps_inv [OF assms(2,1)] by (simp add: e_def)
  then have e1: "daemon_inv base e1" "dm_dht e1 = None" "dm_p2p e1 = dm_p2p d'"
    using stop_dht_inv by (auto simp: e1_def e_def split: option.split prod.split)
  define e2 where "e2 = save_state (v_fopen v) (e1\<lparr>dm_p2p := p2p_cleanup (dm_p2p e1)\<rparr>)"
  define e3 where "e3 = e2\<lparr>dm_p2p := (dm_p2p e2)\<lparr>pm_world := event_loop_stop (pm_world (dm_p2p e2))\<rparr>\<rparr>"
  have f: "dm_dht (save_state b x) = dm_dht x" "dm_p2p (save_state b x) = dm_p2p x" for b x
    by (simp_all add: save_state_def split: option.split)
  have "daemon_inv base e2"
    using inv_p2p [OF e1(1)] p2p_cleanup_inv [OF inv_parts(1) [OF e1(1)]] inv_parts(2) [OF e1(1)] by (simp add: e2_def)
  moreover have "p2p_inv (st\<lparr>pm_world := event_loop_stop (pm_world st)\<rparr>) = p2p_inv st" for st
    by (simp add: p2p_inv_def event_loop_stop_def world_ok_def)
  ultimately have e3: "daemon_inv base e3" "dm_dht e3 = None"
    using inv_p2p [of base e2] inv_parts(1,2) [of base e2] e1(2) by (simp_all add: e3_def) (simp add: e2_def f)
  define e4 where "e4 = (daemon_ipc_close e3)\<lparr>dm_fs := daemon_remove_pid (dm_fs (daemon_ipc_close e3)),
      dm_status := (dm_status (daemon_ipc_close e3))\<lparr>ds_state := DAEMON_STATE_STOPPED\<rparr>\<rparr>"
  have "log_idle (dm_log e3)" using e3(1) by (simp add: daemon_inv_def)
  from close_idle [OF this] have c: "daemon_cleanup v d' = Reply e4"
    unfolding daemon_cleanup_def Let_def e4_def e_def [symmetric] e1_def [unfolded Let_def, symmetric] e2_def [symmetric] e3_def [symmetric]
    by simp
  have k: "dm_dht (daemon_ipc_close x) = dm_dht x" "dm_p2p (daemon_ipc_close x) = dm_p2p x" for x
    by (simp_all add: daemon_ipc_close_def)
  have "daemon_inv base e4" "dm_ipc e4 < 0" "dm_dht e4 = None" using ipc_close_fds [OF e3(1)] e3(2) by (simp_all add: e4_def k)
  moreover have "pm_peers (dm_p2p e4) = (if pm_initialized (dm_p2p d') then [] else pm_peers (dm_p2p d'))"
    using e1(3) by (simp add: e4_def k e3_def e2_def f p2p_cleanup_def)
  ultimately show ?thesis unfolding c by (simp add: daemon_inv_def ipc_fds_def node_fds_def dht_ok_def)
qed

end
