(* ===== verification/Daemon_Commands.thy ===== *)
theory Daemon_Commands
  imports Daemon_Steps
begin

text \<open>
  The commands of the daemon one by one: which of them can run outside a buffer, what they answer
  and what they change.
\<close>

section \<open>Overruns\<close>

lemma reply_simps [simp]:
  "say rc sz line d \<noteq> Overrun" "say rc sz line d \<noteq> Blocked"
  "say rc sz line d = Reply (rc', line', d') \<longleftrightarrow> rc' = rc \<and> line' = snprintf_into sz line \<and> d' = d"
  "on_value None f = Overrun" "on_value (Some a) f = f a" "on_reply (Reply b) g = g b"
  by (auto simp: say_def on_value_def on_reply_def)

lemma on_value_Overrun: "on_value r f = Overrun \<longleftrightarrow> r = None \<or> (\<exists>a. r = Some a \<and> f a = Overrun)"
  by (cases r) simp_all

lemma on_value_Reply: "on_value r f = Reply y \<longleftrightarrow> (\<exists>a. r = Some a \<and> f a = Reply y)"
  by (cases r) simp_all

lemma value_ip_short: "length (value_ip bs) < 16"
proof -
  have "unat b \<le> 255" for b :: byte
  proof -
    have "unat b < 2 ^ LENGTH(8)" by (rule unsigned_less)
    then show ?thesis by simp
  qed
  then show ?thesis using dotted_length by (simp add: value_ip_def INET_ADDRSTRLEN_def)
qed

lemma first_value_short: "first_value es = Some (ip, port) \<Longrightarrow> length ip < 16"
  by (induction es) (auto simp: value_ip_short split: if_splits)

lemma lookup_found_short:
  assumes "dht_node_lookup env pid timeout n w = Some (Found (ip, port), n', w')"
  shows "length ip < 16"
  using lookup_verdict [OF assms] first_value_short
  by (fastforce simp: verdict_def dest!: find_index_SomeD split: if_splits option.splits)

lemma search_total: "daemon_cmd_search v args sz d \<noteq> Overrun"
proof (cases "args = None \<or> dm_dht d = None")
  case True
  then show ?thesis by (auto simp: daemon_cmd_search_def split: option.split)
next
  case False
  then obtain a n where a: "args = Some a" "dm_dht d = Some n" by auto
  let ?pid = "strncpy_into 64 a"
  have "length ?pid < 64" by (simp add: length_strncpy_into)
  then obtain y where y: "dht_node_lookup (v_dht v) ?pid 10 n (dm_net d) = Some y"
    by (auto simp: dht_node_lookup_def strcpy_into_fits split_beta Let_def)
  obtain r n' w' where r: "y = (r, n', w')" by (rule prod_cases3)
  have "state_set_ip (Some ?pid) (Some ip) m \<noteq> None" if "r = Found (ip, port)" for ip port m
    using lookup_found_short y that unfolding r by (simp add: set_ip_setters)
  then show ?thesis by (simp add: daemon_cmd_search_def a y r on_value_Overrun Let_def split: lookup.split prod.split)
qed

lemma p2p_accept_total:
  assumes "p2p_inv st"
  shows "p2p_accept env pid st \<noteq> None"
proof (cases "find_peer (normalize_id 64 pid) st")
  case None
  then show ?thesis by (simp add: p2p_accept_def)
next
  case (Some i)
  obtain rc st1 where "establish_secure_channel env i st = Some (rc, st1)"
    using establish_total [OF assms, of env i] by (auto simp: keys_result_def)
  then show ?thesis using Some by (simp add: p2p_accept_def Let_def)
qed

lemma deliver_total:
  assumes "p2p_inv st"
  shows "state_deliver_ghost_messages clk pa (w_queue (pm_world st)) (w_mgr (pm_world st)) \<noteq> None"
proof -
  obtain k q m where "state_deliver_ghost_messages clk pa (w_queue (pm_world st)) (w_mgr (pm_world st)) = Some (k, q, m)"
    by (rule deliver_world [OF assms])
  then show ?thesis by simp
qed

text \<open>The tail of an acceptance, from the connection on.\<close>

lemma accept_tail:
  assumes inv: "daemon_inv base d"
  obtains rc st k q m where "(if c then p2p_accept env pid (dm_p2p d) else Some (0, dm_p2p d)) = Some (rc, st)" "p2p_inv st"
    "\<not> pm_locked st" "state_deliver_ghost_messages clk pa (w_queue (pm_world st)) (w_mgr (pm_world st)) = Some (k, q, m)"
proof -
  obtain rc st where r: "(if c then p2p_accept env pid (dm_p2p d) else Some (0, dm_p2p d)) = Some (rc, st)"
    using p2p_accept_total [OF inv_parts(1) [OF inv], of env pid] by (cases c) auto
  then have st: "p2p_inv st" "\<not> pm_locked st"
    using p2p_accept_keeps [OF inv_parts(1) [OF inv], of env pid] inv_parts(1,2) [OF inv] by (auto split: if_splits)
  obtain k q m where "state_deliver_ghost_messages clk pa (w_queue (pm_world st)) (w_mgr (pm_world st)) = Some (k, q, m)"
    by (rule deliver_world [OF st(1)])
  then show thesis using that r st by blast
qed

lemma accept_cases:
  assumes inv: "daemon_inv base d"
  shows "\<exists>rc line d'. daemon_cmd_accept v args sz d = Reply (rc, line, d')"
proof (cases args)
  case (Some a)
  let ?pid = "strncpy_into 64 a"
  have inv': "daemon_inv base (on_state (state_update_peer (v_clk v) (Some ?pid) PEER_FRIEND) d)"
    using inv by (intro daemon_keep p2p_keep)
  show ?thesis
  proof (cases "state_get_peer (Some ?pid) (d_mgr d)")
    case (Some i)
    let ?d = "on_state (state_update_peer (v_clk v) (Some ?pid) PEER_FRIEND) d"
    obtain rc st k q m where t: "(if length (p_ip (d_peer i ?d)) > 0 \<and> p_port (d_peer i ?d) > 0
          then p2p_accept (v_p2p v) ?pid (dm_p2p ?d) else Some (0, dm_p2p ?d)) = Some (rc, st)"
      "state_deliver_ghost_messages (clk_after 2 (v_clk v)) (Some ?pid) (w_queue (pm_world st)) (w_mgr (pm_world st)) = Some (k, q, m)"
      by (rule accept_tail [OF inv'])
    show ?thesis
    proof (cases "p_state (d_peer i d) \<noteq> PEER_REQUEST_RECEIVED")
      case True
      then show ?thesis by (simp add: daemon_cmd_accept_def \<open>args = Some a\<close> Some)
    next
      case False
      show ?thesis
        unfolding daemon_cmd_accept_def \<open>args = Some a\<close> option.case Let_def Some if_not_P [OF False] t(1)
        unfolding reply_simps prod.case t(2) by blast
    qed
  qed (simp add: daemon_cmd_accept_def Some)
qed (simp add: daemon_cmd_accept_def)

lemma split_message_Some:
  assumes "split_message s = Some (i, m)"
  shows "s = i @ CHR 0x20 # m \<and> CHR 0x20 \<notin> set i"
proof -
  define r where "r = dropWhile (\<lambda>x. x \<noteq> CHR 0x20) s"
  have s: "s = takeWhile (\<lambda>x. x \<noteq> CHR 0x20) s @ r" by (simp add: r_def)
  have at: "strchr_at (CHR 0x20) s = (if r = [] then None else Some r)"
    by (simp only: strchr_at_def r_def Let_def split: list.split) auto
  show ?thesis
  proof (cases r)
    case Nil
    then show ?thesis using assms at by (simp add: split_message_def)
  next
    case (Cons x xs)
    then have "x = CHR 0x20" using hd_dropWhile [of "\<lambda>x. x \<noteq> CHR 0x20" s] by (simp add: r_def [symmetric])
    moreover have "i = takeWhile (\<lambda>x. x \<noteq> CHR 0x20) s" "m = xs"
      using assms at Cons s by (auto simp: split_message_def) (metis append_eq_conv_conj length_append diff_add_inverse2 length_Cons)
    ultimately show ?thesis using s Cons by (metis (mono_tags, lifting) set_takeWhileD)
  qed
qed

lemma split_message_length: "split_message s = Some (i, m) \<Longrightarrow> length s = length i + Suc (length m)"
  by (auto dest!: split_message_Some)

lemma command_args_short: "command_words cmd = (name, Some args) \<Longrightarrow> length args < 511"
  using length_strncpy_into [of 512 cmd]
  by (auto simp: command_words_def Let_def dest!: split_message_length split: option.splits)

lemma message_short:
  "command_words cmd = (name, args) \<Longrightarrow> args = Some a \<Longrightarrow> split_message a = Some (i, m) \<Longrightarrow> length m < 4096"
  using command_args_short [of cmd name a] split_message_length [of a i m] by simp

lemma peers_buffer_None:
  "peers_buffer pos buf ls = None \<longleftrightarrow> (\<exists>k < length ls. 4096 < pos + length (concat (take k ls)))"
proof (induction ls arbitrary: pos buf)
  case (Cons l ls)
  have "(\<exists>k < Suc n. P k) \<longleftrightarrow> P 0 \<or> (\<exists>k < n. P (Suc k))" for n :: nat and P using less_Suc_eq_0_disj by auto
  then show ?case by (simp add: Cons.IH add.assoc)
qed simp

text \<open>The lines of the answer to \<open>peers\<close>.\<close>

definition peer_lines :: "mgr \<Rightarrow> string list" where
  "peer_lines m = (let ps = take 128 (live_peers m) in
     if ps = [] then [] else (''PEERS ('' @ dec_nat (length ps) @ ''):'' @ nl) # map peer_line ps)"

lemma get_peers_live: "state_get_peers True 128 m = (int (length (take 128 (live_peers m))), take 128 (live_peers m))"
  by (simp add: state_get_peers_def copy_out_def collect_max_take Let_def)

lemma peers_overrun_iff:
  "daemon_cmd_peers sz d = Overrun \<longleftrightarrow> (\<exists>k < length (peer_lines (d_mgr d)). 4096 < length (concat (take k (peer_lines (d_mgr d)))))"
proof -
  have "daemon_cmd_peers sz d = (if take 128 (live_peers (d_mgr d)) = [] then say 0 sz (''No peers'' @ nl) d
      else on_value (peers_buffer 0 [] (peer_lines (d_mgr d))) (\<lambda>buffer. Reply (0, strncpy_into sz buffer, d)))"
    by (simp only: daemon_cmd_peers_def get_peers_live peer_lines_def prod.case Let_def dec_int_nat if_False of_nat_eq_0_iff
        length_0_conv split: if_split) blast
  moreover have "peer_lines (d_mgr d) = []" if "take 128 (live_peers (d_mgr d)) = []"
    using that unfolding peer_lines_def Let_def by (simp only: simp_thms if_True)
  ultimately show ?thesis by (auto simp: on_value_Overrun peers_buffer_None)
qed

lemma chat_overrun_iff:
  assumes "command_words cmd = (name, args)"
  shows "daemon_cmd_chat_send v args sz d = Overrun \<longleftrightarrow> (\<exists>a i m. args = Some a \<and> split_message a = Some (i, m) \<and> 64 \<le> length i)"
  using message_short [OF assms]
  by (auto simp: daemon_cmd_chat_send_def on_value_Overrun Let_def not_less [symmetric] split: option.split prod.split)

lemma add_ghost_total: "length m < 4096 \<Longrightarrow> state_add_ghost_message clk rnd a (Some m) x \<noteq> None"
  by (cases "norm_arg a") (simp_all only: state_add_ghost_message_cases, simp_all add: state_add_ghost_message_def)

lemma ghost_overrun_iff:
  assumes "command_words cmd = (name, args)"
  shows "daemon_cmd_ghost v args sz d = Overrun \<longleftrightarrow> (\<exists>a i m. args = Some a \<and> split_message a = Some (i, m) \<and> 64 \<le> length i)"
  using message_short [OF assms] add_ghost_total
  by (cases args) (auto simp del: not_None_eq simp: daemon_cmd_ghost_def on_value_Overrun Let_def not_less [symmetric] split: option.split)

lemma reject_total: "daemon_cmd_reject args sz d \<noteq> Overrun"
  by (auto simp: daemon_cmd_reject_def Let_def split: option.split)

text \<open>
  C17: of the commands other than \<open>identity\<close>, \<open>listen\<close> and \<open>add\<close>, only three can write
  outside a buffer: \<open>chat_send\<close> and \<open>ghost\<close> exactly when the id has 64 characters or more, and
  \<open>peers\<close> exactly when the lines before the last one together are longer than the 4096 bytes of its buffer.
\<close>

theorem command_overrun_iff:
  assumes "daemon_inv base d" and "command_words cmd = (name, args)" and "name \<notin> {''identity'', ''listen'', ''add''}"
  shows "daemon_handle_command v cmd sz d = Overrun \<longleftrightarrow>
      name \<in> {''chat_send'', ''ghost''} \<and> (\<exists>a i m. args = Some a \<and> split_message a = Some (i, m) \<and> 64 \<le> length i)
    \<or> name = ''peers'' \<and> (\<exists>k < length (peer_lines (d_mgr d)). 4096 < length (concat (take k (peer_lines (d_mgr d)))))"
proof -
  have a: "daemon_cmd_accept v args sz d \<noteq> Overrun" using accept_cases [OF assms(1), of v args sz] by auto
  show ?thesis using assms(2,3)
    by (simp add: daemon_handle_command_def search_total reject_total a peers_overrun_iff chat_overrun_iff [OF assms(2)]
        ghost_overrun_iff [OF assms(2)] daemon_cmd_status_def daemon_cmd_stop_def)
qed

section \<open>The invariant\<close>

text \<open>The commands that return in every state; the others are named here.\<close>

definition risky_commands :: "string set" where
  "risky_commands = {''identity'', ''listen'', ''search'', ''add'', ''peers'', ''chat_send'', ''ghost''}"

lemma handle_returns:
  assumes "daemon_inv base d" and "fst (command_words cmd) \<notin> risky_commands"
  shows "\<exists>rc line d'. daemon_handle_command v cmd sz d = Reply (rc, line, d')"
proof -
  obtain name args where w: "command_words cmd = (name, args)" by (rule prod.exhaust)
  have rj: "\<exists>rc line d'. daemon_cmd_reject args sz d = Reply (rc, line, d')"
    by (auto simp: daemon_cmd_reject_def Let_def split: option.split)
  show ?thesis using assms(2) w rj accept_cases [OF assms(1), of v args sz]
    by (simp add: daemon_handle_command_def risky_commands_def daemon_cmd_status_def daemon_cmd_stop_def)
qed

lemma round_returns:
  assumes "daemon_inv base d" and "fst (command_words (recv_text (take 4095 received))) \<notin> risky_commands"
  shows "\<exists>out d'. daemon_ipc_round v received d = Reply (out, d')"
proof -
  obtain fd s where o: "open_socket (dv_net (v_dht v)) (dw_net (dm_net d)) = (fd, s)" by (rule prod.exhaust)
  from handle_returns [OF open_inv [OF assms(1) o] assms(2), of v 8192] show ?thesis
    by (auto simp: daemon_ipc_round_def o daemon_ipc_handle_def Let_def)
qed

text \<open>
  C15: from any state with the invariant, such as that of the process before \<open>daemon_init\<close>, after any
  sequence of starts, clients, datagrams, events, signals and steps of the DHT and the P2P
  manager that each returned, the tables of peers and connections and the event queue are well formed,
  the DHT library is in use exactly while the daemon has its DHT node, and of the
  descriptors that the daemon's own sockets take, exactly those of the listening socket and of the DHT node
  are open besides those open before; no client's is left.  The next client is always answered
  unless its request is one of the seven commands \<open>identity\<close>, \<open>listen\<close>, \<open>search\<close>, \<open>add\<close>,
  \<open>peers\<close>, \<open>chat_send\<close> and \<open>ghost\<close>.
\<close>

theorem daemon_invariant:
  assumes "daemon_inv base d" and "daemon_step\<^sup>*\<^sup>* d d'"
  shows "p2p_inv (dm_p2p d') \<and> \<not> pm_locked (dm_p2p d') \<and> (dw_up (dm_net d') \<longleftrightarrow> dm_dht d' \<noteq> None)
    \<and> mset (d_fds d') = base + ipc_fds (dm_ipc d') + node_fds (dm_dht d')
    \<and> (fst (command_words (recv_text (take 4095 received))) \<notin> risky_commands \<longrightarrow>
        (\<exists>out d''. daemon_ipc_round v received d' = Reply (out, d'') \<and> daemon_inv base d''))"
proof -
  have i: "daemon_inv base d'" by (rule daemon_steps_inv [OF assms(2,1)])
  then have "fst (command_words (recv_text (take 4095 received))) \<notin> risky_commands \<longrightarrow>
      (\<exists>out d''. daemon_ipc_round v received d' = Reply (out, d'') \<and> daemon_inv base d'')"
    using round_returns ipc_round_inv by metis
  with i show ?thesis by (simp add: daemon_inv_def dht_ok_def)
qed

end
