(* ===== verification/Daemon_Requests.thy ===== *)
theory Daemon_Requests
  imports Daemon_Commands
begin

text \<open>
  The commands as a protocol of friend requests: what each of them does to the standing of every
  peer, proved of the handlers with everything they call, and what a daemon that listens can no
  longer do.
\<close>

section \<open>Where each peer stands\<close>

definition standing :: "mgr \<Rightarrow> string \<Rightarrow> PeerState option" where
  "standing m n = map_option p_state (directory m n)"

definition request_target :: "string option \<Rightarrow> string option" where
  "request_target args = (case args of None \<Rightarrow> None | Some a \<Rightarrow> norm_arg (Some (strncpy_into 64 a)))"

definition request_spec ::
    "bool \<Rightarrow> string \<Rightarrow> string option \<Rightarrow> (string \<Rightarrow> PeerState option) \<Rightarrow> int \<times> (string \<Rightarrow> PeerState option)" where
  "request_spec full name target M = (case target of
      None \<Rightarrow> (-1, M)
    | Some n \<Rightarrow>
        if name = ''add'' then
          (if M n = Some PEER_FRIEND then (0, M)
           else if M n = None \<and> full then (-1, M)
           else (0, M(n \<mapsto> PEER_REQUEST_SENT)))
        else if M n \<noteq> Some PEER_REQUEST_RECEIVED then (-1, M)
        else if name = ''accept'' then (0, M(n \<mapsto> PEER_FRIEND))
        else (0, M(n := None)))"

lemma standing_modify:
  assumes "mgr_ok m" and "\<And>p. p_id (f p) = p_id p" and "\<And>p. p_state (f p) = p_state p"
  shows "standing (snd (with_peer a f m)) = standing m"
proof (cases "norm_arg a")
  case None
  then show ?thesis by (simp add: with_peer_bad_id)
next
  case (Some n)
  then show ?thesis using peers.modify_lookup [OF assms(1) Some keeps_idI] assms(2,3)
    by (auto simp: standing_def fun_eq_iff option.map_comp comp_def)
qed

lemma standing_update:
  assumes "mgr_ok m" and "norm_arg a = Some n"
  shows "standing (snd (state_update_peer clk a st m)) = (standing m)(n := map_option (\<lambda>_. st) (standing m n))"
proof -
  have k: "keeps_id (update_record clk st)" by auto
  have "p_state (update_record clk st p) = st" for p by (simp add: update_record_def Let_def)
  then show ?thesis using peers.modify_lookup [OF assms k]
    by (simp add: standing_def state_update_peer_with_peer fun_eq_iff option.map_comp comp_def)
qed

lemma standing_same [simp]: "standing (m\<lparr>g_ghost_messages := gs\<rparr>) = standing m" "standing (m\<lparr>g_ghost_count := k\<rparr>) = standing m"
  "standing (m\<lparr>g_messages := ms\<rparr>) = standing m" "standing (m\<lparr>g_message_count := k\<rparr>) = standing m"
  by (simp_all add: standing_def directory_def live_peers_def fun_eq_iff)

lemma get_peer_standing:
  assumes "mgr_ok m" and "norm_arg a = Some n"
  shows "map_option (\<lambda>i. p_state (g_peers m ! i)) (state_get_peer a m) = standing m n"
  unfolding standing_def state_get_peer_directory [OF assms, symmetric] by (simp add: option.map_comp comp_def)

lemma get_peer_none: "norm_arg a = None \<Longrightarrow> state_get_peer a m = None"
  by (simp add: state_get_peer_def)

section \<open>The connections leave the peers alone\<close>

lemma add_peer_world: "add_peer env pid st = Acquired (r, st') \<Longrightarrow> pm_world st' = pm_world st"
  by (auto simp: add_peer_def split: if_splits option.splits)

lemma create_udp_world: "create_udp_socket env st = (fd, st') \<Longrightarrow> pm_world st' = pm_world st"
  by (auto simp: create_udp_socket_def split: if_splits)

lemma send_message_world: "send_message env peer ty pl st = (rc, st') \<Longrightarrow> pm_world st' = pm_world st"
  using send_message_frame(2) [of env peer ty pl st] by simp

lemma send_handshake_world: "send_handshake env i st = Some (rc, st') \<Longrightarrow> pm_world st' = pm_world st"
  unfolding send_handshake_def Let_def
  by (auto split: option.splits Option.bind_splits prod.splits simp del: strcpy_into_Some dest!: send_message_world)

lemma abandon_world [simp]: "pm_world (abandon i st) = pm_world st"
  by (simp add: abandon_def close_peer_socket_def)

lemma connect_found_world:
  assumes "p2p_connect_found env norm ip port st = Some (Acquired (rc, st'))"
  shows "pm_world st' = pm_world st"
proof -
  obtain ri st1 where a: "add_peer env norm st = Acquired (ri, st1)"
    using assms by (cases "add_peer env norm st") (auto simp: p2p_connect_found_def)
  note s1 = add_peer_world [OF a]
  show ?thesis
  proof (cases ri)
    case None
    then show ?thesis using assms a s1 by (auto simp: p2p_connect_found_def)
  next
    case (Some i)
    let ?f = "\<lambda>p. p\<lparr>pp_ip := ip, pp_port := port, pp_state := P2P_STATE_CONNECTING,
               pp_is_initiator := True, pp_last_activity := x_clk env 4, pp_addr := (ip, word_of_int port)\<rparr>"
    obtain fd st2 where c: "create_udp_socket env (upd_peer i ?f st1) = (fd, st2)" by fastforce
    have "pm_world st2 = pm_world st" using create_udp_world [OF c] s1 by simp
    moreover have "length ip < 16" using assms a Some by (auto simp: p2p_connect_found_def strcpy_into_def split: if_splits)
    ultimately show ?thesis using assms a Some c
      by (auto simp: p2p_connect_found_def Let_def strcpy_into_fits split: if_splits Option.bind_splits dest!: send_handshake_world)
  qed
qed

lemma p2p_connect_world: "p2p_connect env pid st = Some (Acquired (rc, st')) \<Longrightarrow> pm_world st' = pm_world st"
  using connect_found_world by (fastforce simp: p2p_connect_def Let_def split: if_splits option.splits prod.splits bool.splits)

lemma connect_with_mgr: "connect_with env pid d = Reply (rc, d') \<Longrightarrow> d_mgr d' = d_mgr d"
  using p2p_connect_world by (fastforce simp: connect_with_def split: option.splits attempt.splits)

lemma daemon_connect_mgr: "daemon_connect v pid d = Reply (rc, d') \<Longrightarrow> d_mgr d' = d_mgr d"
  by (auto simp: daemon_connect_def on_value_Reply split: if_splits option.splits dest!: connect_with_mgr)

lemma p2p_send_world: "p2p_send env pid msg st = (rc, st') \<Longrightarrow> pm_world st' = pm_world st"
  by (auto simp: p2p_send_def p2p_send_secure_def Let_def split: option.splits if_splits prod.splits dest!: send_message_world)

lemma p2p_init_world: "p2p_init env st = Some (rc, st') \<Longrightarrow> pm_world st' = pm_world st"
  by (auto simp: p2p_init_def Let_def split: if_splits Option.bind_splits prod.splits dest!: create_udp_world)

lemma p2p_accept_standing:
  assumes inv: "p2p_inv st" and n: "norm_arg (Some pid) = Some n"
    and f: "standing (w_mgr (pm_world st)) n = Some PEER_FRIEND" and r: "p2p_accept env pid st = Some (rc, st')"
  shows "standing (w_mgr (pm_world st')) = standing (w_mgr (pm_world st))"
proof -
  have nn: "normalize_id 64 pid = n" "norm_arg (Some n) = Some n"
    using n norm_arg_norm [OF n] norm_arg_SomeD [OF n] by (auto simp: norm_arg_def Let_def split: if_splits)
  have ok: "mgr_ok (w_mgr (pm_world st))" using inv by (simp add: p2p_inv_def world_ok_def)
  show ?thesis
  proof (cases "find_peer n st")
    case None
    then show ?thesis using r nn by (simp add: p2p_accept_def)
  next
    case (Some i)
    obtain rc1 st1 where e: "establish_secure_channel env i st = Some (rc1, st1)" "pm_world st1 = pm_world st"
      using establish_total [OF inv, of env i] by (auto simp: keys_result_def)
    have "standing (snd (state_update_peer clk (Some n) PEER_FRIEND (w_mgr (pm_world st)))) = standing (w_mgr (pm_world st))" for clk
      using standing_update [OF ok nn(2)] f by (simp add: fun_upd_idem)
    then show ?thesis using r Some nn e by (auto simp: p2p_accept_def Let_def split: if_splits)
  qed
qed

section \<open>Commands that leave every standing alone\<close>

lemma load_identity_mgr: "load_identity v d = Some (rc, oi, d') \<Longrightarrow> d_mgr d' = d_mgr d"
  by (auto dest!: load_identity_frame)

lemma identity_standing: "daemon_cmd_identity v sz d = Reply (rc, line, d') \<Longrightarrow> d_mgr d' = d_mgr d"
  by (auto simp: daemon_cmd_identity_def Let_def on_value_Reply split: if_splits dest!: load_identity_mgr)

lemma listen_standing: "daemon_cmd_listen v sz d = Reply (rc, line, d') \<Longrightarrow> d_mgr d' = d_mgr d"
  by (auto simp: daemon_cmd_listen_def Let_def on_value_Reply split: if_splits option.splits prod.splits
      dest!: load_identity_mgr p2p_init_world)

lemma set_ip_standing:
  assumes "mgr_ok m" and "state_set_ip (Some a) (Some b) m = Some (rc, m')"
  shows "standing m' = standing m"
proof (cases "length b < 16")
  case True
  then have "m' = snd (with_peer (Some a) (\<lambda>p. p\<lparr>p_ip := b\<rparr>) m)" using assms(2) by (simp add: set_ip_setters)
  then show ?thesis using standing_modify [OF assms(1)] by simp
next
  case False
  then show ?thesis using assms by (auto simp: state_set_ip_def with_peer_string_def split: option.splits Option.bind_splits)
qed

lemma search_standing:
  assumes inv: "daemon_inv base d" and r: "daemon_cmd_search v args sz d = Reply (rc, line, d')"
  shows "standing (d_mgr d') = standing (d_mgr d)"
proof -
  note ok = inv_parts(3) [OF inv] and gh = inv_parts(4) [OF inv]
  have on: "standing (snd (state_set_online clk a b m)) = standing m" "mgr_ok (snd (state_set_port a k m))"
    "standing (snd (state_set_port a k m)) = standing m" if "mgr_ok m" for clk a b k m
    using that standing_modify [of m] by (simp_all add: state_set_online_def state_set_port_def setters_ok peers.modify_invar keeps_idI)
  have ip: "standing m' = standing (d_mgr d) \<and> mgr_ok m'"
    if "state_set_ip (Some a) (Some b) (d_mgr d) = Some (rc, m')" for a b rc m'
    using set_ip_standing [OF ok that] set_ip_result [OF ok gh that] by simp
  show ?thesis
  proof (cases "args = None \<or> dm_dht d = None")
    case True
    then show ?thesis using r by (auto simp: daemon_cmd_search_def split: option.splits)
  next
    case False
    then obtain a n where a: "args = Some a" "dm_dht d = Some n" by auto
    then obtain y where y: "dht_node_lookup (v_dht v) (strncpy_into 64 a) 10 n (dm_net d) = Some y"
      using r by (auto simp: daemon_cmd_search_def Let_def on_value_Reply)
    obtain l n' w' where l: "y = (l, n', w')" by (rule prod_cases3)
    show ?thesis
    proof (cases l)
      case (Found x)
      then show ?thesis using r a y l
        by (cases x) (auto simp: daemon_cmd_search_def Let_def on_value_Reply on dest!: ip)
    qed (use r a y l on ok in \<open>auto simp: daemon_cmd_search_def Let_def\<close>)
  qed
qed

lemma peers_standing: "daemon_cmd_peers sz d = Reply (rc, line, d') \<Longrightarrow> d_mgr d' = d_mgr d"
  by (auto simp: daemon_cmd_peers_def Let_def on_value_Reply split: prod.splits if_splits)

lemma message_standing: "standing (snd (state_add_message a b m)) = standing m"
  by (simp add: state_add_message_def split: option.split)

lemma chat_standing: "daemon_cmd_chat_send v args sz d = Reply (rc, line, d') \<Longrightarrow> standing (d_mgr d') = standing (d_mgr d)"
  by (auto simp: daemon_cmd_chat_send_def Let_def on_value_Reply message_standing split: option.splits prod.splits if_splits
      dest!: p2p_send_world)

lemma add_ghost_standing:
  assumes "mgr_ok m" and "state_add_ghost_message clk rnd (Some a) (Some msg) m = Some (rc, m')"
  shows "standing m' = standing m"
proof (cases "norm_arg (Some a)")
  case None
  then show ?thesis using assms by (simp add: state_add_ghost_message_def)
next
  case (Some n)
  have "standing (stored clk rnd n msg m) = standing m" by (simp add: stored_def)
  then show ?thesis
    using assms standing_modify [OF stored_mgr_ok [OF assms(1)]]
    by (auto simp: state_add_ghost_message_cases [OF Some] bump_with_peer [OF Some] not_le split: if_splits)
qed

lemma ghost_standing:
  assumes "daemon_inv base d" and "daemon_cmd_ghost v args sz d = Reply (rc, line, d')"
  shows "standing (d_mgr d') = standing (d_mgr d)"
  using assms(2) add_ghost_standing [OF inv_parts(3) [OF assms(1)]]
  by (auto simp: daemon_cmd_ghost_def Let_def on_value_Reply split: option.splits)

section \<open>Requests\<close>

lemma target_args: "request_target (Some a) = norm_arg (Some (strncpy_into 64 a))" "request_target None = None"
  by (simp_all add: request_target_def)

lemma reject_standing:
  assumes inv: "daemon_inv base d" and r: "daemon_cmd_reject args sz d = Reply (rc, line, d')"
  shows "(rc, standing (d_mgr d')) = request_spec full ''reject'' (request_target args) (standing (d_mgr d))"
proof (cases args)
  case None
  then show ?thesis using r by (simp add: daemon_cmd_reject_def request_spec_def target_args)
next
  case (Some a)
  let ?pid = "strncpy_into 64 a"
  note ok = inv_parts(3) [OF inv]
  show ?thesis
  proof (cases "norm_arg (Some ?pid)")
    case None
    then show ?thesis using r Some by (simp add: daemon_cmd_reject_def request_spec_def target_args get_peer_none)
  next
    case (Some n)
    have "standing (snd (state_remove_peer (Some ?pid) (d_mgr d))) = (standing (d_mgr d))(n := None)"
      using peers.remove_lookup [OF ok Some] by (simp add: standing_def fun_eq_iff)
    then show ?thesis using r \<open>args = Some a\<close> Some get_peer_standing [OF ok Some, symmetric]
      by (auto simp: daemon_cmd_reject_def request_spec_def target_args Let_def d_peer_def split: option.splits if_splits)
  qed
qed

lemma deliver_standing:
  assumes "p2p_inv st" and "state_deliver_ghost_messages clk a (w_queue (pm_world st)) (w_mgr (pm_world st)) = Some (k, q, m)"
  shows "standing m = standing (w_mgr (pm_world st))"
proof (cases "norm_arg a")
  case None
  then show ?thesis using assms(2) by (simp add: deliver_none_id)
next
  case (Some n)
  let ?m = "w_mgr (pm_world st)"
  have ok: "mgr_ok ?m" "wf_mgr ?m" "ghosts_ok ?m" using assms(1) by (simp_all add: p2p_inv_def world_ok_def mgr_ok_def)
  have "mgr_ok (?m\<lparr>g_ghost_messages := mark_range clk n 0 (g_ghost_count ?m) (g_ghost_messages ?m)\<rparr>)"
    using ok by (intro mgr_ok_ghosts) (simp_all add: wf_mgr_def)
  from standing_modify [OF this, of "settle (length (waiting n ?m))"]
  show ?thesis using state_deliver_eq [OF ok(2,3) Some] assms(2) delivered_mgr_settle [OF norm_arg_norm [OF Some]]
    by (auto simp: settle_def)
qed

lemma two_values:
  assumes "on_value a (\<lambda>(rc, st). on_value (b st) (\<lambda>(k, q, m). say 0 sz (line rc k) (f st q m))) = Reply (r, l, d')"
  shows "\<exists>rc st k q m. a = Some (rc, st) \<and> b st = Some (k, q, m) \<and> r = 0 \<and> d' = f st q m"
  using assms by (auto simp: on_value_Reply)

lemma accept_standing:
  assumes inv: "daemon_inv base d" and r: "daemon_cmd_accept v args sz d = Reply (rc, line, d')"
  shows "(rc, standing (d_mgr d')) = request_spec full ''accept'' (request_target args) (standing (d_mgr d))"
proof (cases args)
  case None
  then show ?thesis using r by (simp add: daemon_cmd_accept_def request_spec_def target_args)
next
  case (Some a)
  let ?pid = "strncpy_into 64 a"
  note ok = inv_parts(3) [OF inv]
  show ?thesis
  proof (cases "norm_arg (Some ?pid)")
    case None
    then show ?thesis using r Some by (simp add: daemon_cmd_accept_def request_spec_def target_args get_peer_none)
  next
    case (Some n)
    note get = get_peer_standing [OF ok Some, symmetric]
    show ?thesis
    proof (cases "standing (d_mgr d) n = Some PEER_REQUEST_RECEIVED")
      case False
      then show ?thesis using r \<open>args = Some a\<close> Some get
        by (auto simp: daemon_cmd_accept_def request_spec_def target_args d_peer_def Let_def split: option.splits)
    next
      case True
      then obtain i where i: "state_get_peer (Some ?pid) (d_mgr d) = Some i" "p_state (d_peer i d) = PEER_REQUEST_RECEIVED"
        using get by (auto simp: d_peer_def)
      define e where "e = on_state (state_update_peer (v_clk v) (Some ?pid) PEER_FRIEND) d"
      have ei: "daemon_inv base e" using inv unfolding e_def by (intro daemon_keep p2p_keep)
      have es: "standing (d_mgr e) = (standing (d_mgr d))(n \<mapsto> PEER_FRIEND)"
        using standing_update [OF ok Some] True by (simp add: e_def)
      have "\<not> p_state (d_peer i d) \<noteq> PEER_REQUEST_RECEIVED" using i(2) by simp
      note r = r [unfolded daemon_cmd_accept_def \<open>args = Some a\<close> option.case Let_def i(1) if_not_P [OF this] e_def [symmetric]]
      obtain rc1 st k q m where t: "(if length (p_ip (d_peer i e)) > 0 \<and> p_port (d_peer i e) > 0
            then p2p_accept (v_p2p v) ?pid (dm_p2p e) else Some (0, dm_p2p e)) = Some (rc1, st)"
          "state_deliver_ghost_messages (clk_after 2 (v_clk v)) (Some ?pid) (w_queue (pm_world st)) (w_mgr (pm_world st)) = Some (k, q, m)"
        and d': "rc = 0" "d' = e\<lparr>dm_p2p := st\<lparr>pm_world := (pm_world st)\<lparr>w_mgr := m, w_queue := q\<rparr>\<rparr>\<rparr>"
        using two_values [OF r] by (elim exE conjE)
      have st: "p2p_inv st" "standing (w_mgr (pm_world st)) = standing (d_mgr e)"
        using t(1) p2p_accept_keeps [OF inv_parts(1) [OF ei], of "v_p2p v" ?pid] inv_parts(1) [OF ei] es
          p2p_accept_standing [OF inv_parts(1) [OF ei] Some, of "v_p2p v" rc1 st] by (auto split: if_splits)
      then show ?thesis using d' deliver_standing [OF st(1) t(2)] es True \<open>args = Some a\<close> Some
        by (simp add: request_spec_def target_args)
    qed
  qed
qed

lemma add_peer_standing:
  assumes ok: "mgr_ok m" and n: "norm_arg a = Some n" and new: "standing m n = None"
  shows "mgr_ok (snd (state_add_peer clk a m)) \<and> standing (snd (state_add_peer clk a m))
    = (if MAX_PEERS \<le> g_peer_count m then standing m else (standing m)(n \<mapsto> PEER_UNKNOWN))"
proof -
  have d: "directory m n = None" using new by (simp add: standing_def)
  then show ?thesis using added_spec [OF ok n d] ok
    by (auto simp: state_add_peer_cases [OF ok n] standing_def fun_eq_iff fresh_record_def not_le)
qed

definition peers_full :: "daemon \<Rightarrow> bool" where
  "peers_full d \<longleftrightarrow> MAX_PEERS \<le> g_peer_count (d_mgr d)"

text \<open>The state after the lookup of the peer, and after its request is noted.\<close>

definition add_known :: "daemon_env \<Rightarrow> string \<Rightarrow> daemon \<Rightarrow> daemon" where
  "add_known v pid d = (case state_get_peer (Some pid) (d_mgr d) of
      None \<Rightarrow> on_state (state_add_peer (v_clk v) (Some pid)) d | Some _ \<Rightarrow> d)"

definition add_asked :: "daemon_env \<Rightarrow> string \<Rightarrow> daemon \<Rightarrow> daemon" where
  "add_asked v pid d = on_state (state_update_peer (clk_after 2 (v_clk v)) (Some pid) PEER_REQUEST_SENT) (add_known v pid d)"

lemma connect_reply:
  assumes "(if c then on_reply x (\<lambda>(rc, d). if rc = 0 then say 0 sz l d else say 0 sz l' d) else say 0 sz l' e) = Reply (rc, line, d')"
  shows "rc = 0 \<and> (d' = e \<or> (\<exists>rc'. x = Reply (rc', d')))"
  using assms by (auto simp: on_reply_Reply split: if_splits)

lemma cmd_add_outcome:
  assumes r: "daemon_cmd_add v (Some a) sz d = Reply (rc, line, d')"
  defines "pid \<equiv> strncpy_into 64 a"
  shows "state_get_peer (Some pid) (d_mgr (add_known v pid d)) = None \<and> rc = -1 \<and> d' = add_known v pid d
    \<or> (\<exists>i. state_get_peer (Some pid) (d_mgr (add_known v pid d)) = Some i \<and> p_state (d_peer i (add_known v pid d)) = PEER_FRIEND
        \<and> rc = 0 \<and> d' = add_known v pid d)
    \<or> (\<exists>i. state_get_peer (Some pid) (d_mgr (add_known v pid d)) = Some i \<and> p_state (d_peer i (add_known v pid d)) \<noteq> PEER_FRIEND
        \<and> rc = 0 \<and> (d' = add_asked v pid d \<or> (\<exists>rc'. daemon_connect v pid (add_asked v pid d) = Reply (rc', d'))))"
proof -
  note r = r [unfolded daemon_cmd_add_def option.case Let_def, folded pid_def, folded add_known_def, folded add_asked_def]
  show ?thesis
  proof (cases "state_get_peer (Some pid) (d_mgr (add_known v pid d))")
    case None
    then show ?thesis using r by simp
  next
    case (Some i)
    note r = r [unfolded Some option.case]
    show ?thesis
    proof (cases "p_state (d_peer i (add_known v pid d)) = PEER_FRIEND")
      case True
      then show ?thesis using r Some by simp
    next
      case False
      show ?thesis using connect_reply [OF r [unfolded if_not_P [OF False]]] False Some by blast
    qed
  qed
qed

lemma add_outcome_standing:
  assumes ok: "mgr_ok (d_mgr e)" and n: "norm_arg (Some pid) = Some n"
    and out: "state_get_peer (Some pid) (d_mgr e) = None \<and> rc = -1 \<and> d' = e
      \<or> (\<exists>i. state_get_peer (Some pid) (d_mgr e) = Some i \<and> p_state (d_peer i e) = PEER_FRIEND \<and> rc = 0 \<and> d' = e)
      \<or> (\<exists>i. state_get_peer (Some pid) (d_mgr e) = Some i \<and> p_state (d_peer i e) \<noteq> PEER_FRIEND
        \<and> rc = 0 \<and> (d' = e2 \<or> (\<exists>rc'. daemon_connect v pid e2 = Reply (rc', d'))))"
  shows "standing (d_mgr e) n = None \<and> rc = -1 \<and> standing (d_mgr d') = standing (d_mgr e)
    \<or> standing (d_mgr e) n = Some PEER_FRIEND \<and> rc = 0 \<and> standing (d_mgr d') = standing (d_mgr e)
    \<or> (\<exists>x. standing (d_mgr e) n = Some x \<and> x \<noteq> PEER_FRIEND) \<and> rc = 0 \<and> standing (d_mgr d') = standing (d_mgr e2)"
proof -
  have "standing (d_mgr e) n = map_option (\<lambda>i. p_state (d_peer i e)) (state_get_peer (Some pid) (d_mgr e))"
    using get_peer_standing [OF ok n] by (simp add: d_peer_def)
  moreover have "d_mgr d' = d_mgr e2" if "d' = e2 \<or> (\<exists>rc'. daemon_connect v pid e2 = Reply (rc', d'))"
    using that daemon_connect_mgr by blast
  ultimately show ?thesis using out by (elim disjE exE) simp_all
qed

lemma add_standing:
  assumes inv: "daemon_inv base d" and r: "daemon_cmd_add v args sz d = Reply (rc, line, d')"
  shows "(rc, standing (d_mgr d')) = request_spec (peers_full d) ''add'' (request_target args) (standing (d_mgr d))"
proof (cases args)
  case None
  then show ?thesis using r by (simp add: daemon_cmd_add_def request_spec_def target_args)
next
  case (Some a)
  let ?pid = "strncpy_into 64 a"
  let ?e = "add_known v ?pid d"
  note ok = inv_parts(3) [OF inv] and out = cmd_add_outcome [OF r [unfolded Some]]
  show ?thesis
  proof (cases "norm_arg (Some ?pid)")
    case None
    then have "?e = d" "state_get_peer (Some ?pid) (d_mgr d) = None"
      by (simp_all add: add_known_def get_peer_none state_add_peer_def on_state_def on_mgr_def)
    then show ?thesis using out None \<open>args = Some a\<close> by (simp add: request_spec_def target_args)
  next
    case (Some n)
    note get = get_peer_standing [OF ok Some, symmetric]
    have eok: "mgr_ok (d_mgr ?e)" and es: "standing (d_mgr ?e) = (if standing (d_mgr d) n = None \<and> \<not> peers_full d
        then (standing (d_mgr d))(n \<mapsto> PEER_UNKNOWN) else standing (d_mgr d))"
      using get add_peer_standing [OF ok Some, of "v_clk v"] ok by (auto simp: add_known_def peers_full_def split: option.splits)
    have st: "standing (d_mgr (add_asked v ?pid d))
        = (standing (d_mgr ?e))(n := map_option (\<lambda>_. PEER_REQUEST_SENT) (standing (d_mgr ?e) n))"
      using standing_update [OF eok Some] by (simp add: add_asked_def)
    have t: "request_target args = Some n" using Some \<open>args = Some a\<close> by (simp add: target_args)
    define M where "M = standing (d_mgr d)"
    define E where "E = standing (d_mgr ?e)"
    have es: "E = (if M n = None \<and> \<not> peers_full d then M(n \<mapsto> PEER_UNKNOWN) else M)" using es by (simp add: M_def E_def)
    have "E n = None \<and> rc = -1 \<and> standing (d_mgr d') = E
      \<or> E n = Some PEER_FRIEND \<and> rc = 0 \<and> standing (d_mgr d') = E
      \<or> (\<exists>x. E n = Some x \<and> x \<noteq> PEER_FRIEND) \<and> rc = 0 \<and> standing (d_mgr d') = E(n := map_option (\<lambda>_. PEER_REQUEST_SENT) (E n))"
      using add_outcome_standing [OF eok Some out] unfolding st E_def .
    then show ?thesis unfolding t M_def [symmetric] es request_spec_def
      by (cases "M n"; cases "peers_full d") (auto split: if_splits)
  qed
qed

text \<open>
  C16: the commands \<open>add\<close>, \<open>accept\<close> and \<open>reject\<close> are exactly the protocol of friend requests, with
  the return codes it gives, and no other command changes where a peer stands.  In particular
  only a pending request can be accepted or rejected, and adding a peer whose request is pending
  withdraws that request.
\<close>

theorem commands_refine_requests:
  assumes "daemon_inv base d" and "command_words cmd = (name, args)"
    and "daemon_handle_command v cmd sz d = Reply (rc, line, d')"
  shows "if name \<in> {''add'', ''accept'', ''reject''}
    then (rc, standing (d_mgr d')) = request_spec (peers_full d) name (request_target args) (standing (d_mgr d))
    else standing (d_mgr d') = standing (d_mgr d)"
  using assms(2,3) add_standing [OF assms(1)] accept_standing [OF assms(1)] reject_standing [OF assms(1)]
    identity_standing listen_standing search_standing [OF assms(1)] peers_standing chat_standing ghost_standing [OF assms(1)]
  by (auto simp: daemon_handle_command_def daemon_cmd_status_def daemon_cmd_stop_def split: if_splits)

section \<open>A daemon that listens\<close>

lemma peer_lookup_refused:
  assumes "nodes_listed w" and "dw_up w"
  shows "\<exists>b w'. peer_lookup env pid timeout w = Some (Some (b, False, None), w')"
proof (cases "dht_node_create env")
  case None
  then show ?thesis by (auto simp: peer_lookup_def)
next
  case (Some n)
  obtain rc n1 w1 where s: "dht_node_start env n 33446 w = (rc, n1, w1)" by (rule prod_cases3)
  have "\<not> dn_running n" using Some by (auto simp: dht_node_create_def new_node_def split: if_splits)
  from start_cases [OF assms(1) this s] have "rc < 0" using assms(2) by (auto split: if_splits)
  then show ?thesis using Some s by (auto simp: peer_lookup_def)
qed

lemma connect_listening:
  assumes inv: "daemon_inv base d" and up: "dm_dht d \<noteq> None"
  shows "\<exists>rc d'. daemon_connect v pid d = Reply (rc, d') \<and> dm_p2p d' = dm_p2p d"
proof (cases "wants_lookup pid (dm_p2p d)")
  case False
  then show ?thesis by (auto simp: daemon_connect_def connect_with_def p2p_connect_def wants_lookup_def Let_def split: option.split)
next
  case True
  have u: "dw_up (dm_net d)" using inv up by (simp add: daemon_inv_def dht_ok_def)
  obtain b w where "peer_lookup (v_dht v) (normalize_id 64 pid) 10 (dm_net d) = Some (Some (b, False, None), w)"
    using peer_lookup_refused [OF inv_parts(6) [OF inv] u] by blast
  then show ?thesis using True by (cases b) (simp_all add: daemon_connect_def connect_with_def p2p_connect_def Let_def)
qed

lemma on_state_p2p [simp]: "pm_peers (dm_p2p (on_state f d)) = pm_peers (dm_p2p d)" "pm_sent (dm_p2p (on_state f d)) = pm_sent (dm_p2p d)"
  by (simp_all add: on_state_def)

lemma add_listening:
  assumes inv: "daemon_inv base d" and up: "dm_dht d \<noteq> None"
  shows "\<exists>rc line d'. daemon_cmd_add v args sz d = Reply (rc, line, d')
    \<and> pm_peers (dm_p2p d') = pm_peers (dm_p2p d) \<and> pm_sent (dm_p2p d') = pm_sent (dm_p2p d)"
proof (cases args)
  case None
  then show ?thesis by (simp add: daemon_cmd_add_def)
next
  case (Some a)
  let ?pid = "strncpy_into 64 a"
  let ?e = "add_known v ?pid d" and ?e2 = "add_asked v ?pid d"
  have "daemon_inv base ?e" using inv by (simp add: add_known_def daemon_keep p2p_keep split: option.split)
  then have "daemon_inv base ?e2" unfolding add_asked_def by (intro daemon_keep p2p_keep)
  moreover have "dm_dht ?e2 \<noteq> None" using up by (simp add: add_asked_def add_known_def split: option.split)
  ultimately obtain rc d' where c: "daemon_connect v ?pid ?e2 = Reply (rc, d')" "dm_p2p d' = dm_p2p ?e2"
    using connect_listening by blast
  have "\<exists>rc line d'. daemon_cmd_add v (Some a) sz d = Reply (rc, line, d')"
    unfolding daemon_cmd_add_def option.case Let_def add_known_def [symmetric] add_asked_def [symmetric] c(1) reply_simps prod.case
    by (simp split: option.split)
  then obtain rc line d2 where r: "daemon_cmd_add v (Some a) sz d = Reply (rc, line, d2)" by blast
  have "dm_p2p d2 = dm_p2p ?e \<or> dm_p2p d2 = dm_p2p ?e2" using cmd_add_outcome [OF r] c by auto
  moreover have "pm_peers (dm_p2p ?e) = pm_peers (dm_p2p d)" "pm_sent (dm_p2p ?e) = pm_sent (dm_p2p d)"
    by (simp_all add: add_known_def split: option.split)
  ultimately show ?thesis using r Some by (auto simp: add_asked_def)
qed

text \<open>
  A daemon that listens uses the DHT library, of which a process can hold only one, and
  \<open>p2p_connect\<close> wants one of its own.  So while the daemon listens, \<open>add\<close> is answered but never
  makes a connection and never sends a handshake, whatever the DHT knows about the peer.
\<close>

theorem listening_daemon_cannot_connect:
  assumes "daemon_inv base d" and "dm_dht d \<noteq> None" and "command_words cmd = (''add'', args)"
  shows "\<exists>rc line d'. daemon_handle_command v cmd sz d = Reply (rc, line, d')
    \<and> pm_peers (dm_p2p d') = pm_peers (dm_p2p d) \<and> pm_sent (dm_p2p d') = pm_sent (dm_p2p d)"
  using assms(3) add_listening [OF assms(1,2)] by (simp add: daemon_handle_command_def)

end
