(* ===== verification/Commands_Properties.thy ===== *)
theory Commands_Properties
  imports Commands Daemon_Requests Identity_Properties
begin

text \<open>
  What the commands of the user do: what they ask the daemon for, which words reach it, which
  passcode registration takes, and what the program writes over when it ends.
\<close>

section \<open>Names, lines and passcodes\<close>

lemma parse_name: "command_parse_type (Some (command_get_name t)) = t"
  by (cases t) (simp_all add: command_parse_type_def)

lemma hidden_line:
  "\<forall>c \<in> set w. c \<noteq> newline \<and> c \<noteq> CHR 0x0D \<and> c \<noteq> CHR 0x08 \<and> c \<noteq> CHR 0x7F \<Longrightarrow> length p + length w < 127 \<Longrightarrow>
   hidden_loop p (w @ newline # rest) = (p @ w, rest)"
  by (induction w arbitrary: p) auto

text \<open>A line that can be typed at the prompt for a passcode.\<close>

definition typed :: "string \<Rightarrow> bool" where
  "typed w \<longleftrightarrow> length w < 127 \<and> (\<forall>c \<in> set w. c \<notin> {newline, CHR 0x0D, CHR 0x08, CHR 0x7F, CHR 0x00})"

lemma c_string_id: "CHR 0x00 \<notin> set s \<Longrightarrow> c_string s = s"
  unfolding c_string_def by (auto simp: takeWhile_eq_all_conv)

lemma hidden_typed:
  "typed w \<Longrightarrow> cl_tty cl = w @ newline # rest \<Longrightarrow> get_hidden_input cl = cl\<lparr>cl_password := w, cl_tty := rest\<rparr>"
proof -
  assume t: "typed w" and tty: "cl_tty cl = w @ newline # rest"
  have "c_string w = w" by (rule c_string_id) (use t in \<open>auto simp: typed_def\<close>)
  moreover have "hidden_loop [] (cl_tty cl) = (w, rest)" unfolding tty using hidden_line [of w "[]" rest] t by (simp add: typed_def)
  ultimately show ?thesis by (simp add: get_hidden_input_def)
qed

lemma flag_fold:
  "has_upper (fold flag_char p f) = (has_upper f \<or> list_ex is_upper p)"
  "has_lower (fold flag_char p f) = (has_lower f \<or> list_ex is_lower p)"
  "has_digit (fold flag_char p f) = (has_digit f \<or> list_ex is_digit p)"
  "has_special (fold flag_char p f) = (has_special f \<or> list_ex (\<lambda>c. c \<in> set special_chars) p)"
proof -
  have d: "\<not> (is_upper c \<and> is_lower c)" "\<not> (is_upper c \<and> is_digit c)" "\<not> (is_lower c \<and> is_digit c)"
    "\<not> (is_upper c \<and> c \<in> set special_chars)" "\<not> (is_lower c \<and> c \<in> set special_chars)" "\<not> (is_digit c \<and> c \<in> set special_chars)" for c
    by (auto simp: is_upper_def is_lower_def is_digit_def special_chars_def)
  show "has_upper (fold flag_char p f) = (has_upper f \<or> list_ex is_upper p)"
    "has_lower (fold flag_char p f) = (has_lower f \<or> list_ex is_lower p)"
    "has_digit (fold flag_char p f) = (has_digit f \<or> list_ex is_digit p)"
    "has_special (fold flag_char p f) = (has_special f \<or> list_ex (\<lambda>c. c \<in> set special_chars) p)"
    using d by (induction p arbitrary: f) (auto simp: flag_char_def)
qed

lemma passcode_strong_iff:
  "passcode_strong p \<longleftrightarrow> 12 \<le> length p \<and> list_ex is_upper p \<and> list_ex is_lower p \<and> list_ex is_digit p
    \<and> list_ex (\<lambda>c. c \<in> set special_chars) p"
  by (auto simp: passcode_strong_def passcode_flags_def flag_fold Let_def)

section \<open>What the daemon is asked for\<close>

definition request_names :: "string set" where
  "request_names = {''search'', ''add'', ''accept'', ''reject'', ''peers'', ''chat_send'', ''ghost'', ''status'', ''stop''}"

definition asks_only :: "cli \<Rightarrow> cli \<Rightarrow> bool" where
  "asks_only cl cl' \<longleftrightarrow> (\<exists>new. cl_sent cl' = cl_sent cl @ new \<and> (\<forall>r \<in> set new. fst (command_words r) \<in> request_names))"

lemma asks_same [simp]: "cl_sent cl' = cl_sent cl \<Longrightarrow> asks_only cl cl'"
  by (simp add: asks_only_def)

lemma asks_trans: "asks_only a b \<Longrightarrow> asks_only b c \<Longrightarrow> asks_only a c"
  unfolding asks_only_def by (metis Un_iff append.assoc set_append)

lemma words_of:
  assumes "CHR 0x20 \<notin> set name" and "length name < 500"
  shows "fst (command_words (name @ CHR 0x20 # rest)) = name" "fst (command_words name) = name"
proof -
  have t: "strncpy_into 512 (name @ CHR 0x20 # rest) = name @ CHR 0x20 # take (510 - length name) rest"
    using assms(2) by (simp add: strncpy_into_def Suc_diff_Suc [symmetric] take_Cons')
  have w: "takeWhile (\<lambda>x. x \<noteq> CHR 0x20) (name @ CHR 0x20 # s) = name" "dropWhile (\<lambda>x. x \<noteq> CHR 0x20) (name @ CHR 0x20 # s) = CHR 0x20 # s"
    for s using assms(1) by (induction name) auto
  show "fst (command_words (name @ CHR 0x20 # rest)) = name"
    by (simp add: command_words_def t split_message_def strchr_at_def w Let_def)
  have e: "dropWhile (\<lambda>x. x \<noteq> CHR 0x20) name = []" using assms(1) by (auto simp: dropWhile_eq_Nil_conv)
  then show "fst (command_words name) = name"
    using assms(2) by (simp add: command_words_def strncpy_into_fits split_message_def strchr_at_def Let_def e del: dropWhile_eq_Nil_conv)
qed

lemma snprintf_prefix: "length p < n \<Longrightarrow> \<exists>r'. snprintf_into n (p @ r) = p @ r'"
  by (auto simp: snprintf_into_def)

lemma request_known:
  assumes "name \<in> request_names" and "256 \<le> n"
  shows "fst (command_words (snprintf_into n (name @ CHR 0x20 # r))) \<in> request_names" "fst (command_words name) \<in> request_names"
proof -
  have k: "CHR 0x20 \<notin> set name" "length name < 20" using assms(1) by (auto simp: request_names_def)
  obtain r' where "snprintf_into n ((name @ [CHR 0x20]) @ r) = (name @ [CHR 0x20]) @ r'"
    using snprintf_prefix [of "name @ [CHR 0x20]" n r] k assms(2) by auto
  then show "fst (command_words (snprintf_into n (name @ CHR 0x20 # r))) \<in> request_names" "fst (command_words name) \<in> request_names"
    using words_of [of name] k assms(1) by simp_all
qed

lemma send_asks: "fst (command_words cmd) \<in> request_names \<Longrightarrow> asks_only cl (snd (snd (command_send_to_daemon env cmd sz cl)))"
  by (auto simp: command_send_to_daemon_def asks_only_def Let_def split: wire.split)

lemma ask_asks:
  "fst (command_words cmd) \<in> request_names \<Longrightarrow> ask_daemon env cmd sz k cl = Reply (rc, cl') \<Longrightarrow> asks_only cl cl'"
  using send_asks [of cmd cl env sz] by (auto simp: ask_daemon_def exits_def display_def asks_only_def split: prod.splits if_splits)

lemma fgets_sent: "cl_sent (snd (c_fgets n cl)) = cl_sent cl"
  by (simp add: c_fgets_def Let_def)

lemma chat_turn_asks: "asks_only cl (chat_turn env peer_id input cl)"
proof -
  have "fst (command_words (snprintf_into 512 (''chat_send'' @ CHR 0x20 # peer_id @ CHR 0x20 # input))) \<in> request_names"
    by (rule request_known) (simp_all add: request_names_def)
  from send_asks [OF this, of cl env 4096] show ?thesis by (simp add: chat_turn_def display_def asks_only_def)
qed

lemma chat_loop_asks: "asks_only cl (chat_loop env peer_id cl)"
proof (induction env peer_id cl rule: chat_loop.induct)
  case (1 env peer_id cl)
  show ?case
  proof (cases "c_fgets 4096 cl")
    case (Pair line cl1)
    have s: "cl_sent cl1 = cl_sent cl" using fgets_sent [of 4096 cl] Pair by simp
    show ?thesis
    proof (cases line)
      case None
      then show ?thesis using Pair s by (subst chat_loop.simps) simp
    next
      case (Some l)
      have "asks_only cl (chat_loop env peer_id (chat_turn env peer_id (cut_line l) cl1))" if "cut_line l \<noteq> ''/exit''"
        using 1 [OF Pair [symmetric] Some that] chat_turn_asks [of cl1] s asks_trans asks_same by blast
      then show ?thesis using Pair s Some by (subst chat_loop.simps) simp
    qed
  qed
qed

lemma load_sent: "load_without_passcode env cl = Some (rc, oi, cl') \<Longrightarrow> cl_sent cl' = cl_sent cl"
  by (auto simp: load_without_passcode_def set_crypto_def split: Option.bind_splits)

lemma hidden_sent: "cl_sent (get_hidden_input cl) = cl_sent cl"
  by (simp add: get_hidden_input_def split_beta Let_def)

text \<open>The commands about the identity ask for nothing.\<close>

definition keeps_view :: "(cli \<Rightarrow> 'a) \<Rightarrow> cli \<Rightarrow> result \<Rightarrow> bool" where
  "keeps_view g cl r \<longleftrightarrow> (\<forall>rc cl'. r = Reply (rc, cl') \<longrightarrow> g cl' = g cl)"

lemma keeps_intros:
  "g x = g cl \<Longrightarrow> keeps_view g cl (exits k x)"
  "(\<And>a. r = Some a \<Longrightarrow> keeps_view g cl (f a)) \<Longrightarrow> keeps_view g cl (on_value r f)"
  "(\<And>a. q = Reply a \<Longrightarrow> keeps_view g cl (f' a)) \<Longrightarrow> keeps_view g cl (on_reply q f')"
  "(b \<Longrightarrow> keeps_view g cl r1) \<Longrightarrow> (\<not> b \<Longrightarrow> keeps_view g cl r2) \<Longrightarrow> keeps_view g cl (if b then r1 else r2)"
  "(\<And>x y. p = (x, y) \<Longrightarrow> keeps_view g cl (h x y)) \<Longrightarrow> keeps_view g cl (case p of (x, y) \<Rightarrow> h x y)"
  "(opt = None \<Longrightarrow> keeps_view g cl r1) \<Longrightarrow> (\<And>z. opt = Some z \<Longrightarrow> keeps_view g cl (k' z)) \<Longrightarrow>
    keeps_view g cl (case opt of None \<Rightarrow> r1 | Some z \<Rightarrow> k' z)"
  by (auto simp: keeps_view_def exits_def on_value_Reply on_reply_Reply split: prod.split option.split)

lemma set_sent [simp]: "cl_sent (set_fs fs cl) = cl_sent cl" "cl_sent (set_crypto c cl) = cl_sent cl"
  by (simp_all add: set_fs_def set_crypto_def)

lemma fgets_keeps: "c_fgets n cl = (r, cl') \<Longrightarrow> cl_sent cl' = cl_sent cl"
  using fgets_sent [of n cl] by simp

lemma register_quiet: "keeps_view cl_sent cl (cmd_register env argv cl)"
  unfolding cmd_register_def Let_def
  by (intro keeps_intros) (auto simp: hidden_sent dest!: fgets_keeps split: option.split)

lemma reset_quiet: "keeps_view cl_sent cl (cmd_reset env argv cl)"
  unfolding cmd_reset_def Let_def
  by (intro keeps_intros) (auto dest!: fgets_keeps load_sent)

lemma quiet_asks: "keeps_view cl_sent cl r \<Longrightarrow> r = Reply (rc, cl') \<Longrightarrow> asks_only cl cl'"
  by (auto simp: keeps_view_def)

lemma identity_quiet: "keeps_view cl_sent cl (cmd_identity env argv cl)"
  unfolding cmd_identity_def Let_def by (intro keeps_intros) (auto simp: display_def dest!: load_sent)

lemma listen_quiet: "keeps_view cl_sent cl (cmd_listen env argv cl)"
  unfolding cmd_listen_def by (intro keeps_intros) simp_all

lemma known_requests:
  "fst (command_words (snprintf_into 256 (''search '' @ r))) \<in> request_names" "fst (command_words (snprintf_into 256 (''add '' @ r))) \<in> request_names"
  "fst (command_words (snprintf_into 256 (''accept '' @ r))) \<in> request_names" "fst (command_words (snprintf_into 256 (''reject '' @ r))) \<in> request_names"
  "fst (command_words (snprintf_into 512 (''ghost '' @ r))) \<in> request_names"
  "fst (command_words ''peers'') \<in> request_names" "fst (command_words ''status'') \<in> request_names" "fst (command_words ''stop'') \<in> request_names"
  using request_known(1) [of "''search''" 256 r] request_known(1) [of "''add''" 256 r] request_known(1) [of "''accept''" 256 r]
    request_known(1) [of "''reject''" 256 r] request_known(1) [of "''ghost''" 512 r] request_known(2) [of "''peers''" 256]
    request_known(2) [of "''status''" 256] request_known(2) [of "''stop''" 256]
  by (simp_all add: request_names_def)

lemma send_asks': "fst (command_words cmd) \<in> request_names \<Longrightarrow> command_send_to_daemon env cmd sz cl = (rc, t, cl') \<Longrightarrow> asks_only cl cl'"
  using send_asks [of cmd cl env sz] by simp

lemmas asks_known = known_requests [simplified, THEN ask_asks]

lemma simple_asks:
  "cmd_search env argv cl = Reply (rc, cl') \<Longrightarrow> asks_only cl cl'" "cmd_add env argv cl = Reply (rc, cl') \<Longrightarrow> asks_only cl cl'"
  "cmd_accept env argv cl = Reply (rc, cl') \<Longrightarrow> asks_only cl cl'" "cmd_reject env argv cl = Reply (rc, cl') \<Longrightarrow> asks_only cl cl'"
  "cmd_peers env argv cl = Reply (rc, cl') \<Longrightarrow> asks_only cl cl'"
  using asks_known
  by (auto simp: cmd_search_def cmd_add_def cmd_accept_def cmd_reject_def cmd_peers_def exits_def display_def Let_def
      split: if_splits option.splits)

lemma ghost_asks: "cmd_ghost env argv cl = Reply (rc, cl') \<Longrightarrow> asks_only cl cl'"
  using asks_known(5) by (auto simp: cmd_ghost_def exits_def on_value_Reply split: if_splits)

lemma chat_asks: "cmd_chat env argv cl = Reply (rc, cl') \<Longrightarrow> asks_only cl cl'"
  using chat_loop_asks by (auto simp: cmd_chat_def exits_def split: if_splits)

lemma display_asks [simp]: "asks_only cl (display t cl') = asks_only cl cl'" "asks_only (display t cl) cl' = asks_only cl cl'"
  "asks_only cl (set_fs fs cl') = asks_only cl cl'" "asks_only cl (cl'\<lparr>cl_killed := k\<rparr>) = asks_only cl cl'"
  by (simp_all add: display_def asks_only_def)

lemma status_asks: "cmd_status env argv cl = Reply (rc, cl') \<Longrightarrow> asks_only cl cl'"
  using send_asks' [OF known_requests(7)] by (auto simp: cmd_status_def exits_def split: if_splits prod.splits)

lemma stop_asks: "cmd_stop env argv cl = Reply (rc, cl') \<Longrightarrow> asks_only cl cl'"
  using send_asks' [OF known_requests(8), of env 1024 "display t cl" for t]
  by (auto simp: cmd_stop_def exits_def Let_def split: if_splits prod.splits)

lemma dispatch_asks:
  assumes "command_dispatch env argv cl = Reply (rc, cl')"
  shows "asks_only cl cl'"
proof (cases "length argv < 2")
  case True
  then show ?thesis using assms by (simp add: command_dispatch_def exits_def)
next
  case False
  then show ?thesis
    using assms quiet_asks [OF register_quiet] quiet_asks [OF reset_quiet] quiet_asks [OF identity_quiet] quiet_asks [OF listen_quiet]
      simple_asks ghost_asks chat_asks status_asks stop_asks
    by (cases "command_parse_type (Some (argv ! 1))") (auto simp: command_dispatch_def exits_def)
qed

section \<open>A daemon that only this program talks to\<close>

definition cli_request :: "string \<Rightarrow> bool" where
  "cli_request r \<longleftrightarrow> (\<exists>env argv cl rc cl' new. command_dispatch env argv cl = Reply (rc, cl')
     \<and> cl_sent cl' = cl_sent cl @ new \<and> r \<in> set new)"

lemma cli_request_known: "cli_request r \<Longrightarrow> fst (command_words r) \<in> request_names"
  using dispatch_asks by (fastforce simp: cli_request_def asks_only_def)

inductive served :: "daemon \<Rightarrow> daemon \<Rightarrow> bool" where
  served_client: "received = [] \<or> cli_request (recv_text (take 4095 received)) \<Longrightarrow>
    daemon_ipc_round v received d = Reply (out, d') \<Longrightarrow> served d d'"
| served_datagram: "served d (daemon_p2p_round clk ready received a d)"
| served_event: "daemon_event_round v waits d = Some d' \<Longrightarrow> served d d'"
| served_dht: "served d (daemon_dht_round events d)"
| served_node: "dm_dht d = Some n \<Longrightarrow> served d (d\<lparr>dm_dht := Some (dht_node_thread rounds n)\<rparr>)"
| served_p2p: "served d (d\<lparr>dm_p2p := st\<rparr>)"
| served_start: "daemon_init v d = Reply (rc, d') \<Longrightarrow> served d d'"
| served_signal: "served d (daemon_signal_handler sig d)"

definition dht_kept :: "daemon \<Rightarrow> answer \<Rightarrow> bool" where
  "dht_kept d r \<longleftrightarrow> (\<forall>rc line d'. r = Reply (rc, line, d') \<longrightarrow> dm_dht d' = dm_dht d)"

lemma dht_intros:
  "dm_dht x = dm_dht d \<Longrightarrow> dht_kept d (say rc sz line x)" "dm_dht x = dm_dht d \<Longrightarrow> dht_kept d (Reply (rc, text, x))"
  "(\<And>a. r = Some a \<Longrightarrow> dht_kept d (f a)) \<Longrightarrow> dht_kept d (on_value r f)"
  "(\<And>a. q = Reply a \<Longrightarrow> dht_kept d (f' a)) \<Longrightarrow> dht_kept d (on_reply q f')"
  "(b \<Longrightarrow> dht_kept d r1) \<Longrightarrow> (\<not> b \<Longrightarrow> dht_kept d r2) \<Longrightarrow> dht_kept d (if b then r1 else r2)"
  "(\<And>x y. p = (x, y) \<Longrightarrow> dht_kept d (h x y)) \<Longrightarrow> dht_kept d (case p of (x, y) \<Rightarrow> h x y)"
  "(opt = None \<Longrightarrow> dht_kept d r1) \<Longrightarrow> (\<And>z. opt = Some z \<Longrightarrow> dht_kept d (g z)) \<Longrightarrow>
    dht_kept d (case opt of None \<Rightarrow> r1 | Some z \<Rightarrow> g z)"
  by (auto simp: dht_kept_def on_value_Reply on_reply_Reply split: prod.split option.split)

lemma connect_with_dht: "connect_with env pid d = Reply (rc, d') \<Longrightarrow> dm_dht d' = dm_dht d"
  by (auto simp: connect_with_def split: option.splits attempt.splits prod.splits)

lemma connect_dht: "daemon_connect v pid d = Reply (rc, d') \<Longrightarrow> dm_dht d' = dm_dht d"
  by (auto simp: daemon_connect_def on_value_Reply split: if_splits option.splits dest!: connect_with_dht)

lemma load_identity_dht: "load_identity v d = Some (rc, oi, d') \<Longrightarrow> dm_dht d' = dm_dht d"
  by (auto dest!: load_identity_frame)

lemma commands_dht:
  "dht_kept d (daemon_cmd_identity v sz d)" "dm_dht d = None \<Longrightarrow> dht_kept d (daemon_cmd_search v args sz d)"
  "dht_kept d (daemon_cmd_add v args sz d)" "dht_kept d (daemon_cmd_accept v args sz d)" "dht_kept d (daemon_cmd_reject args sz d)"
  "dht_kept d (daemon_cmd_peers sz d)" "dht_kept d (daemon_cmd_chat_send v args sz d)" "dht_kept d (daemon_cmd_ghost v args sz d)"
  "dht_kept d (daemon_cmd_status v sz d)" "dht_kept d (daemon_cmd_stop sz d)"
proof -
  show "dht_kept d (daemon_cmd_identity v sz d)"
    unfolding daemon_cmd_identity_def Let_def by (intro dht_intros) (auto dest!: load_identity_dht)
  show "dht_kept d (daemon_cmd_search v args sz d)" if "dm_dht d = None"
    using that by (auto simp: daemon_cmd_search_def intro!: dht_intros split: option.split)
  show "dht_kept d (daemon_cmd_add v args sz d)"
    unfolding daemon_cmd_add_def Let_def by (intro dht_intros) (auto dest!: connect_dht split: option.splits)
  show "dht_kept d (daemon_cmd_accept v args sz d)"
    unfolding daemon_cmd_accept_def Let_def by (intro dht_intros) auto
  show "dht_kept d (daemon_cmd_reject args sz d)"
    unfolding daemon_cmd_reject_def Let_def by (intro dht_intros) auto
  show "dht_kept d (daemon_cmd_peers sz d)"
    unfolding daemon_cmd_peers_def Let_def by (intro dht_intros) auto
  show "dht_kept d (daemon_cmd_chat_send v args sz d)"
    unfolding daemon_cmd_chat_send_def Let_def by (intro dht_intros) auto
  show "dht_kept d (daemon_cmd_ghost v args sz d)"
    unfolding daemon_cmd_ghost_def Let_def by (intro dht_intros) auto
  show "dht_kept d (daemon_cmd_status v sz d)" "dht_kept d (daemon_cmd_stop sz d)"
    unfolding daemon_cmd_status_def daemon_cmd_stop_def by (intro dht_intros; simp)+
qed

lemma handle_dht:
  assumes "dm_dht d = None" and "fst (command_words cmd) \<in> request_names"
  shows "dht_kept d (daemon_handle_command v cmd sz d)"
proof -
  obtain name args where w: "command_words cmd = (name, args)" by (rule prod.exhaust)
  have "name \<noteq> ''listen''" using assms(2) w by (auto simp: request_names_def)
  then show ?thesis unfolding daemon_handle_command_def w prod.case Let_def
    by (intro dht_intros commands_dht assms(1)) simp_all
qed

lemma ipc_round_dht:
  assumes "dm_dht d = None" and "received = [] \<or> cli_request (recv_text (take 4095 received))"
    and "daemon_ipc_round v received d = Reply (out, d')"
  shows "dm_dht d' = None"
proof -
  obtain fd s where o: "open_socket (dv_net (v_dht v)) (dw_net (dm_net d)) = (fd, s)" by (rule prod.exhaust)
  define e where "e = d\<lparr>dm_net := (dm_net d)\<lparr>dw_net := s\<rparr>\<rparr>"
  have e: "dm_dht e = None" using assms(1) by (simp add: e_def)
  have c: "dm_dht x = None"
    if "received \<noteq> []" "daemon_handle_command v (recv_text (take 4095 received)) 8192 e = Reply (rc, line, x)" for rc line x
    using handle_dht [OF e, of "recv_text (take 4095 received)" v 8192] cli_request_known assms(2) that e
    by (auto simp: dht_kept_def)
  show ?thesis
    using assms(3) c e
    by (auto simp: daemon_ipc_round_def o e_def [symmetric] daemon_ipc_handle_def on_reply_Reply Let_def split: if_splits)
qed

lemma ipc_init_dht: "dm_dht (snd (daemon_ipc_init v d)) = dm_dht d"
proof -
  have a: "dm_dht (snd (d_ask v x)) = dm_dht x" for x by (simp add: d_ask_def split: prod.split)
  obtain fd s where o: "open_socket (dv_net (v_dht v)) (dw_net (dm_net d)) = (fd, s)" by (rule prod.exhaust)
  define e where "e = d\<lparr>dm_fs := unlink_path DAEMON_SOCKET (dm_fs d), dm_net := (dm_net d)\<lparr>dw_net := s\<rparr>, dm_ipc := fd\<rparr>"
  have e: "dm_dht e = dm_dht d" by (simp add: e_def)
  obtain bound e1 where b: "d_ask v e = (bound, e1)" by (rule prod.exhaust)
  have e1: "dm_dht e1 = dm_dht d" using a [of e] b e by simp
  have l: "dm_dht (snd (let (ok, x) = d_ask v (e1\<lparr>dm_fs := fs\<rparr>) in
      if \<not> ok then (-1, (d_close fd x)\<lparr>dm_ipc := -1\<rparr>) else (0, x))) = dm_dht d" for fs
    using a [of "e1\<lparr>dm_fs := fs\<rparr>"] e1 by (auto split: prod.split)
  show ?thesis
    using e e1 by (simp add: daemon_ipc_init_def o e_def [symmetric] b split: option.split bool.split)
      (intro impI allI, rule l [unfolded Let_def])
qed

text \<open>What a start that returns makes of the DHT node.\<close>

definition start_dht :: "DHTNode option \<Rightarrow> (int \<times> daemon) reply \<Rightarrow> bool" where
  "start_dht n r \<longleftrightarrow> (\<forall>rc d'. r = Reply (rc, d') \<longrightarrow> dm_dht d' = n)"

lemma start_intros:
  "(\<And>a. q = Some a \<Longrightarrow> start_dht n (f a)) \<Longrightarrow> start_dht n (on_value q f)"
  "(\<And>a. r = Reply a \<Longrightarrow> start_dht n (g a)) \<Longrightarrow> start_dht n (on_reply r g)"
  "(\<And>x y. p = (x, y) \<Longrightarrow> start_dht n (h x y)) \<Longrightarrow> start_dht n (case p of (x, y) \<Rightarrow> h x y)"
  "(b \<Longrightarrow> start_dht n r1) \<Longrightarrow> (\<not> b \<Longrightarrow> start_dht n r2) \<Longrightarrow> start_dht n (if b then r1 else r2)"
  "dm_dht d = n \<Longrightarrow> start_dht n (Reply (rc, d))"
  by (auto simp: start_dht_def on_value_Reply on_reply_Reply split: prod.split)

lemma daemon_init_dht: "daemon_init v d = Reply (rc, d') \<Longrightarrow> dm_dht d' = dm_dht d"
proof -
  have "dm_dht y = dm_dht x" if "daemon_ipc_init v x = (rc, y)" for x y rc
    using ipc_init_dht [of v x] that by simp
  then have "start_dht (dm_dht d) (daemon_init v d)"
    unfolding daemon_init_def Let_def by (intro start_intros) (auto simp: on_state_def split: option.split)
  then show "daemon_init v d = Reply (rc, d') \<Longrightarrow> dm_dht d' = dm_dht d" by (simp add: start_dht_def)
qed

lemma served_dht:
  "served d d' \<Longrightarrow> dm_dht d = None \<Longrightarrow> dm_dht d' = None"
proof (induction rule: served.induct)
  case (served_event v waits d d')
  then show ?case by (auto simp: daemon_event_round_def save_state_def Let_def split: Option.bind_splits prod.splits option.splits)
next
  case (served_start v d rc d')
  then show ?case using daemon_init_dht by simp
qed (auto simp: daemon_p2p_round_def daemon_dht_round_def daemon_signal_handler_def intro: ipc_round_dht)

text \<open>
  C19: whatever a user types, the program never sends the command that makes the daemon listen.  In
  a daemon that has no DHT node and that only this program talks to, whatever arrives and
  whatever the P2P manager does, the DHT node of the daemon is never made, so the daemon never
  announces itself with it, and every search is answered with an error.  (An attempt to connect
  may still look the peer up with a node of its own, which it destroys again.)
\<close>

theorem daemon_never_listens:
  assumes "dm_dht d = None" and "served\<^sup>*\<^sup>* d d'"
  shows "dm_dht d' = None \<and> (\<exists>line. daemon_cmd_search v (Some a) sz d' = Reply (-1, line, d'))
    \<and> (\<forall>env argv cl rc cl'. command_dispatch env argv cl = Reply (rc, cl') \<longrightarrow>
        (\<exists>new. cl_sent cl' = cl_sent cl @ new \<and> (\<forall>r \<in> set new. fst (command_words r) \<noteq> ''listen'')))"
proof -
  have "dm_dht d' = None" using assms(2,1) by (induction rule: rtranclp_induct) (auto intro: served_dht)
  moreover have "\<exists>new. cl_sent cl' = cl_sent cl @ new \<and> (\<forall>r \<in> set new. fst (command_words r) \<noteq> ''listen'')"
    if "command_dispatch env argv cl = Reply (rc, cl')" for env argv cl rc cl'
  proof -
    have "''listen'' \<notin> request_names" by (simp add: request_names_def)
    then show ?thesis using dispatch_asks [OF that] by (fastforce simp: asks_only_def)
  qed
  ultimately show ?thesis by (simp add: daemon_cmd_search_def)
qed

end
