(* ===== verification/Program_Properties.thy ===== *)
theory Program_Properties
  imports Commands_Properties State_File
begin

text \<open>
  A whole run of the program: it reads the state file when it starts and writes it when it ends,
  whatever the daemon did to that file in between.
\<close>

abbreviation cl_mgr :: "cli \<Rightarrow> mgr" where
  "cl_mgr cl \<equiv> d_mgr (cl_proc cl)"

lemma set_mgr [simp]: "cl_mgr (set_fs fs cl) = cl_mgr cl" "cl_mgr (set_crypto c cl) = cl_mgr cl"
  "cl_mgr (display t cl) = cl_mgr cl" "cl_mgr (get_hidden_input cl) = cl_mgr cl"
  by (simp_all add: set_fs_def set_crypto_def display_def get_hidden_input_def split_beta Let_def)

lemma fgets_mgr: "c_fgets n cl = (r, cl') \<Longrightarrow> cl_mgr cl' = cl_mgr cl"
  by (auto simp: c_fgets_def Let_def split: if_splits)

lemma send_proc: "cl_proc (snd (snd (command_send_to_daemon env cmd sz cl))) = cl_proc cl"
  by (simp add: command_send_to_daemon_def Let_def split: wire.split)

lemma send_mgr: "command_send_to_daemon env cmd sz cl = (rc, t, cl') \<Longrightarrow> cl_mgr cl' = cl_mgr cl"
  using send_proc [of env cmd sz cl] by simp

lemma load_mgr: "load_without_passcode env cl = Some (rc, oi, cl') \<Longrightarrow> cl_mgr cl' = cl_mgr cl"
  by (auto simp: load_without_passcode_def split: Option.bind_splits)

lemma chat_loop_mgr: "cl_mgr (chat_loop env peer_id cl) = cl_mgr cl"
proof (induction env peer_id cl rule: chat_loop.induct)
  case (1 env peer_id cl)
  have t: "cl_mgr (chat_turn env peer_id i c) = cl_mgr c" for i c by (simp add: chat_turn_def send_proc)
  show ?case
  proof (cases "c_fgets 4096 cl")
    case (Pair line cl1)
    then show ?thesis using 1 [OF Pair [symmetric]] fgets_mgr [OF Pair] t
      by (subst chat_loop.simps) (auto split: option.split)
  qed
qed

lemma dispatch_mgr:
  assumes "command_parse_type (Some (argv ! 1)) \<noteq> CMD_LISTEN"
  shows "keeps_view cl_mgr cl (command_dispatch env argv cl)"
proof -
  have ask: "keeps_view cl_mgr cl (ask_daemon env cmd sz k cl)" for cmd sz k
    unfolding ask_daemon_def Let_def by (intro keeps_intros) (auto dest!: send_mgr)
  have "keeps_view cl_mgr cl (cmd_register env argv cl)"
    unfolding cmd_register_def Let_def by (intro keeps_intros) (auto dest!: fgets_mgr split: option.split)
  moreover have "keeps_view cl_mgr cl (cmd_reset env argv cl)"
    unfolding cmd_reset_def Let_def by (intro keeps_intros) (auto dest!: fgets_mgr load_mgr)
  moreover have "keeps_view cl_mgr cl (cmd_identity env argv cl)"
    unfolding cmd_identity_def Let_def by (intro keeps_intros) (auto dest!: load_mgr)
  moreover have "keeps_view cl_mgr cl (cmd_search env argv cl)" "keeps_view cl_mgr cl (cmd_add env argv cl)"
    "keeps_view cl_mgr cl (cmd_accept env argv cl)" "keeps_view cl_mgr cl (cmd_reject env argv cl)" "keeps_view cl_mgr cl (cmd_peers env argv cl)"
    "keeps_view cl_mgr cl (cmd_ghost env argv cl)" "keeps_view cl_mgr cl (cmd_chat env argv cl)"
    unfolding cmd_search_def cmd_add_def cmd_accept_def cmd_reject_def cmd_peers_def cmd_ghost_def cmd_chat_def Let_def
    by (intro keeps_intros ask; simp add: chat_loop_mgr)+
  moreover have "keeps_view cl_mgr cl (cmd_status env argv cl)" "keeps_view cl_mgr cl (cmd_stop env argv cl)"
    unfolding cmd_status_def cmd_stop_def Let_def by (intro keeps_intros; auto dest!: send_mgr)+
  moreover have "keeps_view cl_mgr cl (exits k cl)" for k by (intro keeps_intros) simp
  ultimately show ?thesis
    using assms by (cases "command_parse_type (Some (argv ! 1))") (simp_all add: command_dispatch_def)
qed

lemma storage_init_there: "stat_path fs ORCA_IDENTITY_HOME = Some Dir \<Longrightarrow> orca_identity_storage_init fs c = (0, fs, c)"
  by (simp add: orca_identity_storage_init_def ensure_directory_def)

lemma mkdir_there: "stat_path fs p = Some Dir \<Longrightarrow> mkdir_path fs p = None"
  by (auto simp: stat_path_def mkdir_path_def split: Option.bind_splits)

lemma same_fs [simp]: "set_fs (cl_fs cl) cl = cl" "set_crypto (cl_crypto cl) cl = cl"
  by (simp_all add: set_fs_def set_crypto_def)

definition runs_command :: "string list \<Rightarrow> bool" where
  "runs_command argv \<longleftrightarrow> 2 \<le> length argv \<and> argv ! 1 \<notin> {''-v'', ''--version'', ''-h'', ''--help''}"

lemma main_runs:
  assumes "stat_path (cl_fs cl) ORCA_IDENTITY_HOME = Some Dir" and "stat_path (cl_fs cl) DAEMON_HOME = Some Dir" and "runs_command argv"
    and "v_fopen (e_daemon env)" and "state_init (read_path (cl_fs cl) STATE_FILE) (cl_mgr cl) = Some (rc0, m)"
  shows "main_program env others argv cl = on_reply (command_dispatch env argv (cl\<lparr>cl_proc := on_state (\<lambda>_. (0, m)) (cl_proc cl)\<rparr>))
      (\<lambda>(rc, cl). exits rc ((set_fs (others (cl_fs cl)) cl)\<lparr>cl_proc := save_state True (cl_proc (set_fs (others (cl_fs cl)) cl))\<rparr>))"
  using assms by (simp add: main_program_def storage_init_there check_dependencies_def mkdir_there runs_command_def on_value_def Let_def)

lemma main_writes:
  assumes "stat_path (cl_fs cl) ORCA_IDENTITY_HOME = Some Dir" and "stat_path (cl_fs cl) DAEMON_HOME = Some Dir" and "runs_command argv"
    and "command_parse_type (Some (argv ! 1)) \<noteq> CMD_LISTEN" and "v_fopen (e_daemon env)"
    and "state_init (read_path (cl_fs cl) STATE_FILE) (cl_mgr cl) = Some (rc0, m)"
    and "main_program env others argv cl = Reply (rc, cl')"
  shows "\<exists>fs. cl_fs cl' = (case write_path (others fs) STATE_FILE (concat (save_lines (live_peers m))) of None \<Rightarrow> others fs | Some fs \<Rightarrow> fs)"
proof -
  let ?cl = "cl\<lparr>cl_proc := on_state (\<lambda>_. (0, m)) (cl_proc cl)\<rparr>"
  have "main_program env others argv cl = on_reply (command_dispatch env argv ?cl) (\<lambda>(rc, cl).
      exits rc ((set_fs (others (cl_fs cl)) cl)\<lparr>cl_proc := save_state True (cl_proc (set_fs (others (cl_fs cl)) cl))\<rparr>))"
    by (rule main_runs [OF assms(1-3,5,6)])
  from trans [OF this [symmetric] assms(7)] obtain cl1 where d: "command_dispatch env argv ?cl = Reply (rc, cl1)"
    and cl': "cl' = (set_fs (others (cl_fs cl1)) cl1)\<lparr>cl_proc := save_state True (cl_proc (set_fs (others (cl_fs cl1)) cl1))\<rparr>"
    unfolding on_reply_Reply by (auto simp: exits_def)
  have "cl_mgr cl1 = m" using dispatch_mgr [OF assms(4), of ?cl env] d by (simp add: keeps_view_def)
  then show ?thesis
    unfolding cl' by (intro exI [of _ "cl_fs cl1"]) (simp add: set_fs_def save_state_def state_save_def split: option.split)
qed

text \<open>
  C23: when its directories are there and the state file can be read and written, whichever command
  is run besides \<open>listen\<close>, the program ends by writing to the state file the peers that it loaded
  when it started, in the format of \<open>state_save\<close>: the fields that loading loses are lost, and a
  file that was missing then holds an empty list.  What the daemon or anyone else stored in the
  file in the meantime, the effect of the command itself among it, is overwritten.
\<close>

theorem program_restores_old_state:
  assumes "stat_path (cl_fs cl) ORCA_IDENTITY_HOME = Some Dir" and "stat_path (cl_fs cl) DAEMON_HOME = Some Dir" and "runs_command argv"
    and "command_parse_type (Some (argv ! 1)) \<noteq> CMD_LISTEN" and "v_fopen (e_daemon env)"
    and "state_init (read_path (cl_fs cl) STATE_FILE) (cl_mgr cl) = Some (rc0, m)"
    and "main_program env others argv cl = Reply (rc, cl')" and "\<And>fs. usable_files (others fs) {STATE_FILE}"
  shows "read_path (cl_fs cl') STATE_FILE = Some (concat (save_lines (live_peers m)))"
proof -
  obtain fs where fs: "cl_fs cl' = (case write_path (others fs) STATE_FILE (concat (save_lines (live_peers m))) of None \<Rightarrow> others fs | Some fs \<Rightarrow> fs)"
    using main_writes [OF assms(1-7)] by blast
  obtain fs2 where "write_path (others fs) STATE_FILE (concat (save_lines (live_peers m))) = Some fs2"
    "read_path fs2 STATE_FILE = Some (concat (save_lines (live_peers m)))"
    using unix_files.write_usable [OF assms(8), of STATE_FILE fs] by blast
  then show ?thesis using fs by simp
qed

section \<open>Starting the daemon\<close>

lemma home_walks:
  assumes "stat_path fs DAEMON_HOME = Some Dir"
  shows "resolve fs DAEMON_HOME = resolve fs ''/tmp/.orcashi''" "mkdir_path fs ''/tmp/.orcashi'' = None" "mkdir_path fs DAEMON_HOME = None"
proof -
  show r: "resolve fs DAEMON_HOME = resolve fs ''/tmp/.orcashi''" by (simp add: resolve_def DAEMON_HOME_def)
  then have "stat_path fs ''/tmp/.orcashi'' = Some Dir" using assms by (simp add: stat_path_def)
  then show "mkdir_path fs ''/tmp/.orcashi'' = None" "mkdir_path fs DAEMON_HOME = None" using mkdir_there assms by auto
qed

lemma log_opens:
  assumes "stat_path fs DAEMON_HOME = Some Dir" and "usable_files fs {DAEMON_LOG_FILE}" and "lo_fopen env"
  shows "opens env DAEMON_LOG_FILE fs"
proof -
  have d: "before_slash (strncpy_into 512 DAEMON_LOG_FILE) = Some ''/tmp/.orcashi''" by (simp add: before_slash_def DAEMON_LOG_FILE_def strncpy_into_def)
  obtain fs' where "write_path fs DAEMON_LOG_FILE t = Some fs'" if "t = (case read_path fs DAEMON_LOG_FILE of None \<Rightarrow> [] | Some old \<Rightarrow> old) @ []" for t
    using unix_files.write_usable [OF assms(2), of DAEMON_LOG_FILE] by blast
  then show ?thesis using assms(3) home_walks(2) [OF assms(1)] by (simp add: opens_def open_log_def d append_file_def)
qed

lemma init_never_returns:
  assumes "stat_path (dm_fs d) DAEMON_HOME = Some Dir" and "usable_files (dm_fs d) {DAEMON_LOG_FILE}" and "lo_fopen (v_log v)"
    and "log_idle (dm_log d)"
  shows "daemon_init v d = Blocked"
proof -
  have "logger_init (v_log v) (Some DAEMON_LOG_FILE) (dm_log d, dm_fs d) = Blocked"
    by (rule init_blocks [OF assms(4)]) (simp add: log_opens [OF assms(1-3)])
  then show ?thesis by (simp add: daemon_init_def home_walks(3) [OF assms(1)])
qed

text \<open>
  C24: the daemon never starts.  The command \<open>listen\<close> forks and reports success, but the child
  process opens its log file and then waits for ever for the mutex of the logger, before it has
  written its process id or created the socket.
\<close>

theorem daemon_never_starts:
  assumes "\<not> command_daemon_is_running env cl" and "daemon_is_running (e_lives env) (cl_fs cl) = (False, fs)"
    and "stat_path fs DAEMON_HOME = Some Dir" and "usable_files fs {DAEMON_LOG_FILE}" and "lo_fopen (v_log (e_daemon env))"
    and "log_idle (dm_log (cl_proc cl))"
  shows "(0 < e_fork env \<longrightarrow> cmd_listen env argv cl = Reply (0, set_fs fs cl)) \<and> (e_fork env = 0 \<longrightarrow> cmd_listen env argv cl = Blocked)"
proof -
  have "daemon_init (e_daemon env) (cl_proc (set_fs fs cl)) = Blocked"
    by (rule init_never_returns) (use assms in \<open>simp_all add: set_fs_def\<close>)
  then show ?thesis using assms(1,2) by (simp add: cmd_listen_def daemon_start_def exits_def set_fs_def)
qed

end
