(* ===== verification/Registration.thy ===== *)
theory Registration
  imports Commands_Properties Identity_Storage
begin

text \<open>
  \<^verbatim>\<open>cmd_register\<close>: which of the two lines typed it takes for the passcode.
\<close>

section \<open>Registration\<close>

text \<open>What the user types: a name, a passcode, and a passcode to confirm it.\<close>

definition register_input :: "string \<Rightarrow> string \<Rightarrow> string \<Rightarrow> string \<Rightarrow> string" where
  "register_input name p1 p2 rest = name @ newline # p1 @ newline # p2 @ newline # rest"

lemma fgets_typed:
  assumes "cl_stdio cl = []" and "cl_tty cl = w @ newline # rest" and "newline \<notin> set w" and "CHR 0x00 \<notin> set w"
    and "length w + 1 < n"
  shows "c_fgets n cl = (Some (w @ [newline]), cl\<lparr>cl_stdio := [], cl_tty := rest\<rparr>)"
proof -
  have t: "takeWhile (\<lambda>c. c \<noteq> newline) (w @ newline # rest) = w" using assms(3) by (induction w) auto
  have l: "first_line (w @ newline # rest) = w @ [newline]" by (simp add: first_line_def t)
  have "CHR 0x00 \<notin> set (w @ [newline])" using assms(4) by (simp add: newline_def)
  then have "c_string (w @ [newline]) = w @ [newline]" by (rule c_string_id)
  then show ?thesis using assms(1,2,5) by (simp add: c_fgets_def l Let_def)
qed

lemma register_id_ok: "three_digit_id (register_id env)"
proof -
  let ?n = "nat (e_rand env mod 999 + 1)"
  have "0 \<le> e_rand env mod 999" "e_rand env mod 999 < 999" by simp_all
  then have "?n < 1000" by linarith
  then obtain x y z where "pad3 ?n = [x, y, z]" "is_digit x" "is_digit y" "is_digit z" using pad3_digits by blast
  then show ?thesis by (simp add: register_id_def three_digit_id_def snprintf_into_fits)
qed

definition register_name :: "string \<Rightarrow> string" where
  "register_name w = (if w = [] then ''orcashi'' else w)"

lemma name_typed: "newline \<notin> set w \<Longrightarrow> display_name (Some (w @ [newline])) = register_name w"
proof -
  assume "newline \<notin> set w"
  then have "takeWhile (\<lambda>c. c \<noteq> newline) (w @ [newline]) = w" by (induction w) auto
  then show ?thesis by (simp add: display_name_def cut_line_def register_name_def)
qed

text \<open>After a strong first line only the second one is left: registration is creation with it.\<close>

definition after_prompts :: "string \<Rightarrow> string \<Rightarrow> cli \<Rightarrow> cli" where
  "after_prompts p rest cl = cl\<lparr>cl_stdio := [], cl_password := p, cl_tty := rest\<rparr>"

lemma register_outcome:
  assumes new: "\<not> orca_identity_exists None (cl_fs cl)" and tty: "cl_stdio cl = []" "cl_tty cl = register_input w p1 p2 rest"
    and w: "newline \<notin> set w" "CHR 0x00 \<notin> set w" "length w < 127" and p: "typed p1" "passcode_strong p1" "typed p2"
  shows "cmd_register env argv cl =
    on_value (orca_identity_create_secure_3digit (e_ident env) (Some (register_id env)) (Some p2) (Some (register_name w)) (Some ''user'')
        (Some (v_identity (e_daemon env))) (cl_crypto cl)) (\<lambda>(rc, identity, c).
      let cl = set_crypto c (after_prompts p2 rest cl) in
      if rc < 0 then exits 1 cl
      else
        let (rc, fs, c) = orca_identity_save (e_ident env) identity (cl_fs cl) (cl_crypto cl); cl = set_crypto c (set_fs fs cl) in
        if rc < 0 then exits 1 cl
        else
          let cl = (case write_path (cl_fs cl) ORCA_METADATA_FILE (metadata_text (oi_id (the identity))) of
                None \<Rightarrow> cl | Some fs \<Rightarrow> set_fs fs cl)
          in exits 0 (cl\<lparr>cl_password := []\<rparr>))"
proof -
  define cl1 where "cl1 = cl\<lparr>cl_stdio := [], cl_tty := p1 @ newline # p2 @ newline # rest\<rparr>"
  define cl2 where "cl2 = cl1\<lparr>cl_password := p1, cl_tty := p2 @ newline # rest\<rparr>"
  have f: "c_fgets 128 cl = (Some (w @ [newline]), cl1)"
    unfolding cl1_def by (rule fgets_typed) (use tty w in \<open>simp_all add: register_input_def\<close>)
  have h1: "get_hidden_input cl1 = cl2" unfolding cl2_def by (rule hidden_typed [OF p(1)]) (simp add: cl1_def)
  have h2: "get_hidden_input cl2 = cl2\<lparr>cl_password := p2, cl_tty := rest\<rparr>" by (rule hidden_typed [OF p(3)]) (simp add: cl2_def)
  have e: "cl2\<lparr>cl_password := p2, cl_tty := rest\<rparr> = after_prompts p2 rest cl"
    by (simp add: cl2_def cl1_def after_prompts_def)
  have proc: "cl_proc (after_prompts p2 rest cl) = cl_proc cl" "cl_password (after_prompts p2 rest cl) = p2" "cl_password cl2 = p1"
    by (simp_all add: after_prompts_def cl2_def)
  show ?thesis
    unfolding cmd_register_def using new p(2) proc by (simp add: f h1 h2 e name_typed [OF w(1)] Let_def)
qed

text \<open>
  C20: the passcode of a registration is what was typed at the prompt that should confirm it.  Both
  prompts return the same static array, so the comparison always succeeds and the policy is
  checked on the first line only.  For lines that can be typed: whatever strong passcode is
  typed first, the registration goes on in the same way, with the second line; it is
  refused without any change of the files if the second line is shorter than eight characters,
  and leaves its arrays exactly when creating an identity with the second line does.
\<close>

theorem registration_takes_second_input:
  assumes "\<not> orca_identity_exists None (cl_fs cl)" and "cl_stdio cl = []"
    and "newline \<notin> set w" and "CHR 0x00 \<notin> set w" and "length w < 127"
    and "typed p1" and "passcode_strong p1" and "typed q1" and "passcode_strong q1" and "typed p2"
  shows "cmd_register env argv (cl\<lparr>cl_tty := register_input w p1 p2 rest\<rparr>) = cmd_register env argv (cl\<lparr>cl_tty := register_input w q1 p2 rest\<rparr>)
    \<and> (length p2 < 8 \<longrightarrow> (\<exists>cl'. cmd_register env argv (cl\<lparr>cl_tty := register_input w p1 p2 rest\<rparr>) = Reply (1, cl') \<and> cl_fs cl' = cl_fs cl))
    \<and> (cmd_register env argv (cl\<lparr>cl_tty := register_input w p1 p2 rest\<rparr>) = Overrun
      \<longleftrightarrow> orca_identity_create_secure_3digit (e_ident env) (Some (register_id env)) (Some p2) (Some (register_name w)) (Some ''user'')
            (Some (v_identity (e_daemon env))) (cl_crypto cl) = None)"
proof -
  let ?cl = "\<lambda>p. cl\<lparr>cl_tty := register_input w p p2 rest\<rparr>"
  have r: "\<not> orca_identity_exists None (cl_fs (?cl p))" "cl_stdio (?cl p) = []" "cl_tty (?cl p) = register_input w p p2 rest" for p
    using assms(1,2) by simp_all
  note o1 = register_outcome [OF r assms(3-7,10), of env argv] and o2 = register_outcome [OF r assms(3-5,8,9,10), of env argv]
  have a: "after_prompts p2 rest (?cl p) = after_prompts p2 rest cl" "cl_crypto (?cl p) = cl_crypto cl" for p
    by (simp_all add: after_prompts_def)
  have id: "three_digit_id (register_id env)" by (rule register_id_ok)
  show ?thesis
  proof (intro conjI impI)
    show "cmd_register env argv (?cl p1) = cmd_register env argv (?cl q1)" unfolding o1 o2 a ..
    show "\<exists>cl'. cmd_register env argv (?cl p1) = Reply (1, cl') \<and> cl_fs cl' = cl_fs cl" if "length p2 < 8"
      using that id unfolding o1 a
      by (simp add: orca_identity_create_secure_3digit_def on_value_def exits_def set_crypto_def after_prompts_def)
    show "cmd_register env argv (?cl p1) = Overrun
      \<longleftrightarrow> orca_identity_create_secure_3digit (e_ident env) (Some (register_id env)) (Some p2) (Some (register_name w)) (Some ''user'')
            (Some (v_identity (e_daemon env))) (cl_crypto cl) = None"
      unfolding o1 a by (auto simp: on_value_def exits_def Let_def split: option.split prod.split)
  qed
qed

end
