(* ===== verification/Front_Properties.thy ===== *)
theory Front_Properties
  imports Front_End Program_Properties Registration
begin

text \<open>
  The library interface: when it can be started, how it finds its public address, which of its
  requests the daemon understands, and that nothing registers an identity.
\<close>

section \<open>Starting\<close>

lemma log_path: "snprintf_into 512 (ORCASHI_HOME @ ''/orcashi.log'') = ''/tmp/.orcashi//orcashi.log''"
  by (simp add: snprintf_into_def ORCASHI_HOME_def)

lemma front_init_blocks:
  assumes "orcashi_set_defaults env = Some oc" and "stat_path (cl_fs cl) ORCA_IDENTITY_HOME = Some Dir"
    and "stat_path (cl_fs cl) DAEMON_HOME = Some Dir" and "log_idle (dm_log (cl_proc cl))"
    and "opens (v_log (f_daemon env)) ''/tmp/.orcashi//orcashi.log'' (cl_fs cl)"
  shows "orcashi_init env (Some o') cl = Blocked"
proof -
  have h: "mkdir_path (cl_fs cl) ORCASHI_HOME = None" using home_walks(3) [OF assms(3)] by (simp add: DAEMON_HOME_def ORCASHI_HOME_def)
  have "logger_init (v_log (f_daemon env)) (Some ''/tmp/.orcashi//orcashi.log'') (dm_log (cl_proc cl), cl_fs cl) = Blocked"
    by (rule init_blocks [OF assms(4)]) (simp add: assms(5))
  then show ?thesis
    unfolding orcashi_init_def by (simp add: assms(1) on_value_def storage_init_there [OF assms(2)] h on_log_def log_path Let_def del: append_Cons)
qed

section \<open>The public address\<close>

lemma recv_all_whole:
  "\<forall>bs \<in> set chunks. bs \<noteq> [] \<and> length bs \<le> 4095 \<Longrightarrow> n + length (concat chunks) \<le> 8191 \<Longrightarrow> recv_all n chunks = concat chunks"
proof (induction chunks arbitrary: n)
  case (Cons bs chunks)
  then have "0 < length bs" "n + (length bs + length (concat chunks)) \<le> 8191" by simp_all
  then have "\<not> 8191 \<le> n" by linarith
  then show ?case using Cons by simp
qed simp

lemma recv_all_bound: "length (recv_all n chunks) \<le> (if 8191 \<le> n then 0 else 12285 - n)"
proof (induction chunks arbitrary: n)
  case (Cons bs chunks)
  have "length (take 4095 bs) \<le> 4095" by simp
  then show ?case using Cons.IH [of "n + length (take 4095 bs)"] by (auto split: if_splits)
qed simp

abbreviation blank_line :: string where
  "blank_line \<equiv> [CHR 0x0D, CHR 0x0A, CHR 0x0D, CHR 0x0A]"

text \<open>Headers that end at the first blank line: no other one begins in them.\<close>

definition headers :: "string \<Rightarrow> bool" where
  "headers h \<longleftrightarrow> (\<forall>r. strstr_at (h @ blank_line @ r) blank_line = Some (blank_line @ r))"

lemma headers_Nil: "headers []"
  by (simp add: headers_def)

lemma headers_Cons: "c \<noteq> CHR 0x0D \<Longrightarrow> headers h \<Longrightarrow> headers (c # h)"
  by (simp add: headers_def)

lemma headers_line: "c \<noteq> CHR 0x0D \<Longrightarrow> headers (c # h) \<Longrightarrow> headers (CHR 0x0D # CHR 0x0A # c # h)"
  by (simp add: headers_def)

lemma drop_tail:
  assumes "list_all is_blank t" and "w = [] \<or> \<not> is_blank (last w)"
  shows "rev (dropWhile is_blank (rev (w @ t))) = w"
proof -
  have "dropWhile is_blank (rev t @ rev w) = dropWhile is_blank (rev w)"
    by (rule dropWhile_append2) (use assms(1) in \<open>simp add: list_all_iff\<close>)
  also have "\<dots> = rev w" using assms(2) by (cases w rule: rev_cases) simp_all
  finally show ?thesis by simp
qed

lemma drop_blanks: "list_all is_blank l \<Longrightarrow> \<not> is_blank c \<Longrightarrow> dropWhile is_blank (l @ c # cs) = c # cs"
  by (induction l) auto

lemma trim_found:
  assumes "list_all is_blank l" and "list_all is_blank t" and "ip \<noteq> []" and "\<not> is_blank (hd ip)" and "\<not> is_blank (last ip)"
  shows "trim_body (l @ ip @ t) = ip"
proof -
  obtain c ip' where ip: "ip = c # ip'" using assms(3) by (cases ip) auto
  show ?thesis
  proof (cases l)
    case Nil
    have "rev (dropWhile is_blank (rev (ip' @ t))) = ip'" by (rule drop_tail [OF assms(2)]) (use assms(5) ip in auto)
    then show ?thesis using Nil ip assms(4) by (simp add: trim_body_def)
  next
    case (Cons b l')
    have "rev (dropWhile is_blank (rev ((l' @ ip) @ t))) = l' @ ip" by (rule drop_tail [OF assms(2)]) (use assms(3,5) in auto)
    moreover have "dropWhile is_blank (l @ c # ip') = c # ip'" by (rule drop_blanks [OF assms(1)]) (use assms(4) ip in simp)
    moreover have "is_blank b" using assms(1) Cons by simp
    ultimately show ?thesis using Cons ip by (simp add: trim_body_def)
  qed
qed

lemma recv_text_plain: "CHR 0x00 \<notin> set s \<Longrightarrow> recv_text (string_bytes s) = s"
proof -
  assume s: "CHR 0x00 \<notin> set s"
  have "(of_char c :: byte) \<noteq> 0" if "c \<in> set s" for c
  proof
    assume z: "(of_char c :: byte) = 0"
    have "char_of (unat (of_char c :: byte)) = c" using bytes_string_bytes [of "[c]"] by (simp add: string_bytes_def bytes_string_def)
    then have "c = CHR 0x00" unfolding z by (simp add: char_of_def)
    then show False using s that by simp
  qed
  then have w: "takeWhile (\<lambda>b. b \<noteq> 0) (string_bytes s) = string_bytes s" by (simp add: string_bytes_def takeWhile_eq_all_conv)
  show "recv_text (string_bytes s) = s" unfolding recv_text_def w by simp
qed

text \<open>
  C25: when the first service that can be reached answers with headers and one word, however the answer
  is split among the calls of \<open>recv\<close> and whatever blanks surround the word, the public address
  is that word if it fits the array of 16 bytes, and a longer one is written behind the array.
\<close>

theorem public_address_found:
  assumes "\<forall>bs \<in> set chunks. bs \<noteq> [] \<and> length bs \<le> 4095" and "concat chunks = string_bytes (h @ blank_line @ l @ ip @ t)"
    and "length (concat chunks) \<le> 8191" and "headers h" and "CHR 0x00 \<notin> set (h @ l @ ip @ t)"
    and "list_all is_blank l" and "list_all is_blank t" and "ip \<noteq> []" and "\<not> is_blank (hd ip)" and "\<not> is_blank (last ip)"
    and "take 3 (f_web env) = replicate k Unreachable @ Answered chunks # rest"
  shows "orcashi_get_public_ip env = (if length ip < 16 then Some (if snd (f_dup env) then Some ip else None) else None)"
proof -
  have r: "recv_all 0 chunks = string_bytes (h @ blank_line @ l @ ip @ t)"
    using recv_all_whole [OF assms(1), of 0] assms(2,3) by simp
  have "recv_text (string_bytes (h @ blank_line @ l @ ip @ t)) = h @ blank_line @ l @ ip @ t"
    by (rule recv_text_plain) (use assms(5) in simp)
  then have "http_body (recv_all 0 chunks) = Some (Some (l @ ip @ t))"
    using assms(2-4) by (simp add: http_body_def r headers_def)
  then have a: "ask_services (Answered chunks # rest) = strcpy_into INET_ADDRSTRLEN ip"
    using trim_found [OF assms(6-10)] assms(8) by simp
  have "ask_services (replicate k Unreachable @ Answered chunks # rest) = strcpy_into INET_ADDRSTRLEN ip"
    by (induction k) (simp_all only: replicate_0 replicate_Suc append_Nil append_Cons ask_services.simps(2) a)
  then show ?thesis by (simp add: orcashi_get_public_ip_def assms(11) strcpy_into_def INET_ADDRSTRLEN_def)
qed

section \<open>Requests\<close>

definition daemon_names :: "string set" where
  "daemon_names = {''identity'', ''listen'', ''search'', ''add'', ''accept'', ''reject'', ''peers'', ''chat_send'', ''ghost'', ''status'', ''stop''}"

text \<open>Requests that the daemon answers with an error, whatever state it is in, and without changing it.\<close>

definition unknown_request :: "string \<Rightarrow> bool" where
  "unknown_request r \<longleftrightarrow> (\<forall>v sz d. \<exists>line. daemon_handle_command v r sz d = Reply (-1, line, d))"

lemma unknown_name: "fst (command_words r) \<notin> daemon_names \<Longrightarrow> unknown_request r"
proof -
  assume n: "fst (command_words r) \<notin> daemon_names"
  obtain name args where w: "command_words r = (name, args)" by (rule prod.exhaust)
  have "daemon_handle_command v r sz d = say (-1) sz (''ERROR: Unknown command: '' @ name @ nl) d" for v sz d
    unfolding daemon_handle_command_def w prod.case using n w by (simp add: daemon_names_def)
  then show ?thesis by (simp add: unknown_request_def say_def)
qed

lemma unknown_words:
  assumes "name \<notin> daemon_names" and "CHR 0x20 \<notin> set name" and "length name < 20" and "256 \<le> n"
  shows "unknown_request (snprintf_into n (name @ CHR 0x20 # r))"
proof -
  obtain r' where "snprintf_into n ((name @ [CHR 0x20]) @ r) = (name @ [CHR 0x20]) @ r'"
    using snprintf_prefix [of "name @ [CHR 0x20]" n r] assms(3,4) by auto
  then show ?thesis using words_of(1) [OF assms(2), of r'] assms(1,3) by (intro unknown_name) simp
qed

lemma library_words:
  "unknown_request (snprintf_into 256 (''remove '' @ r))" "unknown_request (snprintf_into 512 (''call '' @ r))"
  "unknown_request (snprintf_into 512 (''call_answer '' @ r))" "unknown_request (snprintf_into 512 (''note_add '' @ r))"
  "unknown_request (snprintf_into 256 (''note_find '' @ r))"
  using unknown_words [of "''remove''" 256 r] unknown_words [of "''call''" 512 r] unknown_words [of "''call_answer''" 512 r]
    unknown_words [of "''note_add''" 512 r] unknown_words [of "''note_find''" 256 r]
  by (simp_all add: daemon_names_def)

definition in_vain :: "cli \<Rightarrow> result \<Rightarrow> bool" where
  "in_vain cl r \<longleftrightarrow> (\<forall>rc cl'. r = Reply (rc, cl') \<longrightarrow> (\<exists>new. cl_sent cl' = cl_sent cl @ new \<and> (\<forall>q \<in> set new. unknown_request q)
     \<and> (rc = 0 \<longrightarrow> new \<noteq> [])))"

lemma send_in_vain: "unknown_request req \<Longrightarrow> cl_sent cl' = cl_sent cl \<Longrightarrow> in_vain cl (send_request env req sz prints cl')"
  by (auto simp: in_vain_def send_request_def command_send_to_daemon_def exits_def display_def Let_def split: wire.split)

lemma running_sent: "orcashi_is_daemon_running env oc cl = (up, cl') \<Longrightarrow> cl_sent cl' = cl_sent cl"
  by (auto simp: orcashi_is_daemon_running_def split: option.splits if_splits prod.splits)

lemma failed_in_vain: "k \<noteq> 0 \<Longrightarrow> cl_sent cl' = cl_sent cl \<Longrightarrow> in_vain cl (exits k cl')"
  by (simp add: in_vain_def exits_def)

lemma checked_in_vain: "unknown_request req \<Longrightarrow> in_vain cl (checked_request env oc req sz prints cl)"
  by (auto simp: checked_request_def split: prod.split dest: running_sent intro: send_in_vain failed_in_vain)

lemma peer_in_vain: "(\<And>p. unknown_request (req p)) \<Longrightarrow>
    in_vain cl (case orcashi_is_daemon_running env oc cl of (up, cl) \<Rightarrow>
        if \<not> up then exits (-1) cl
        else (case local_peer pid cl of None \<Rightarrow> exits (-1) cl | Some p \<Rightarrow> send_request env (req p) sz prints cl))"
  by (auto split: prod.split option.split dest: running_sent intro: send_in_vain failed_in_vain)

lemma library_in_vain:
  "in_vain cl (orcashi_remove_peer env oc p cl)" "in_vain cl (orcashi_call_start env oc p cl)"
  "in_vain cl (orcashi_call_answer env oc p room cl)" "in_vain cl (orcashi_note_add env oc p cl)" "in_vain cl (orcashi_note_find env oc p cl)"
proof -
  show "in_vain cl (orcashi_remove_peer env oc p cl)" "in_vain cl (orcashi_note_add env oc p cl)" "in_vain cl (orcashi_note_find env oc p cl)"
    unfolding orcashi_remove_peer_def orcashi_note_add_def orcashi_note_find_def using library_words [simplified]
    by (auto split: option.split intro!: checked_in_vain send_in_vain failed_in_vain)
  show "in_vain cl (orcashi_call_start env oc p cl)" "in_vain cl (orcashi_call_answer env oc p room cl)"
    unfolding orcashi_call_start_def orcashi_call_answer_def Let_def
    by (auto split: option.split intro!: failed_in_vain peer_in_vain library_words simp del: append.simps)
qed

text \<open>
  C26: removing a peer, the calls and the notes of the library do nothing: each of them succeeds
  only by sending a request that the daemon does not know, which it answers with an error and
  without any change.
\<close>

theorem library_requests_in_vain:
  assumes "Reply (rc, cl') \<in> {orcashi_remove_peer env oc p cl, orcashi_call_start env oc p cl, orcashi_call_answer env oc p room cl,
      orcashi_note_add env oc p cl, orcashi_note_find env oc p cl}"
  shows "\<exists>new. cl_sent cl' = cl_sent cl @ new \<and> (rc = 0 \<longrightarrow> new \<noteq> [])
    \<and> (\<forall>r \<in> set new. \<forall>v sz d. \<exists>line. daemon_handle_command v r sz d = Reply (-1, line, d))"
proof -
  have "in_vain cl (Reply (rc, cl'))" using assms library_in_vain [of cl env oc p] by auto
  then show ?thesis unfolding in_vain_def unknown_request_def by blast
qed

section \<open>The identity\<close>

text \<open>
  C21: neither the command register nor the library registers an identity.  Whatever is typed and
  passed, a run that stays within its arrays ends with an error, and the files are as before.
\<close>

theorem registration_never_succeeds:
  assumes "pbkdf2_ok (ie_ssl (e_ident (f_cli env)))" and "pbkdf2_ok (ie_ssl (v_ident (f_daemon env)))"
  shows "(cmd_register (f_cli env) argv cl = Reply (rc, cl') \<longrightarrow> rc = 1 \<and> cl_fs cl' = cl_fs cl)
    \<and> (orcashi_register_identity env oc pc cl = Reply (rc, oc', cl') \<longrightarrow> rc = -1 \<and> cl_fs cl' = cl_fs cl)"
proof -
  have c: "rc = -1" if "pbkdf2_ok (ie_ssl ie)" "orca_identity_create_secure_3digit ie a p n r x c = Some (rc, y, c')" for ie a p n r x c rc y c'
    using create_never [OF that(1)] that(2) by blast
  have f: "cl_fs (snd (c_fgets n cl)) = cl_fs cl" "cl_fs (get_hidden_input cl) = cl_fs cl" for n cl
    by (simp_all add: c_fgets_def get_hidden_input_def Let_def split: prod.split)
  show ?thesis
    using f(1) [of 128 cl] f(2)
    by (auto simp: cmd_register_def orcashi_register_identity_def on_value_def exits_def set_crypto_def Let_def
        dest: c [OF assms(1)] c [OF assms(2)] split: if_splits prod.splits option.splits)
qed

end
