(* ===== verification/Ghost_Words.thy ===== *)
theory Ghost_Words
  imports Commands
begin

text \<open>
  The words of a ghost message: \<open>cmd_ghost\<close> joins them with \<open>strcat\<close> inside the memory of \<open>argv\<close>,
  where writing behind one word destroys the next.
\<close>

definition nul :: char where "nul = CHR 0x00"

abbreviation no_nul :: "string \<Rightarrow> bool" where
  "no_nul s \<equiv> nul \<notin> set s"

lemma string_at_end: "no_nul m \<Longrightarrow> string_at (A @ m @ nul # R) (length A) = m"
  unfolding string_at_def c_string_def nul_def by (induction m) auto

text \<open>Copying a string to an earlier place, over what lies between.\<close>

lemma copy_shift:
  assumes "no_nul w" and "X \<noteq> []"
  shows "\<exists>X'. length X' = length X
    \<and> copy_string (A @ X @ w @ nul # R) (length A) (length A + length X) = Some (A @ w @ nul # X' @ R)"
  using assms
proof (induction w arbitrary: A X)
  case Nil
  then obtain x xs where X: "X = x # xs" by (cases X) auto
  have "copy_string (A @ X @ nul # R) (length A) (length A + length X) = Some (A @ nul # (xs @ [nul]) @ R)"
    by (subst copy_string.simps) (simp add: X nth_append list_update_append nul_def Let_def)
  then show ?case using X by (intro exI [of _ "xs @ [nul]"]) simp
next
  case (Cons c w)
  then obtain x xs where X: "X = x # xs" by (cases X) auto
  have "\<exists>X'. length X' = length (xs @ [c]) \<and> copy_string ((A @ [c]) @ (xs @ [c]) @ w @ nul # R) (length (A @ [c]))
      (length (A @ [c]) + length (xs @ [c])) = Some ((A @ [c]) @ w @ nul # X' @ R)"
    using Cons.prems(1) by (intro Cons.IH) simp_all
  moreover have "copy_string (A @ X @ (c # w) @ nul # R) (length A) (length A + length X)
      = copy_string ((A @ [c]) @ (xs @ [c]) @ w @ nul # R) (length (A @ [c])) (length (A @ [c]) + length (xs @ [c]))"
    using Cons.prems(1) by (subst copy_string.simps) (auto simp: X nth_append list_update_append nul_def Let_def)
  ultimately show ?case by (simp add: X)
qed

lemma blank_step:
  assumes "no_nul m"
  shows "strcat_blank (A @ m @ nul # g # G) (length A) = Some (A @ (m @ [CHR 0x20]) @ nul # G)"
  using string_at_end [OF assms, of A "g # G"] by (simp add: strcat_blank_def Let_def list_update_append nul_def)

lemma word_step:
  assumes "no_nul m" and "no_nul w"
  shows "\<exists>mem G'. strcat_blank (A @ m @ nul # g # G @ w @ nul # R) (length A) = Some mem \<and> length G' = Suc (length G)
    \<and> strcat_at mem (length A) (length A + length m + 1 + Suc (length G)) = Some (A @ (m @ [CHR 0x20] @ w) @ nul # G' @ R)"
proof -
  have m: "no_nul (m @ [CHR 0x20])" using assms(1) by (simp add: nul_def)
  obtain G' where g: "length G' = length (nul # G)" "copy_string ((A @ m @ [CHR 0x20]) @ (nul # G) @ w @ nul # R)
      (length (A @ m @ [CHR 0x20])) (length (A @ m @ [CHR 0x20]) + length (nul # G)) = Some ((A @ m @ [CHR 0x20]) @ w @ nul # G' @ R)"
    using copy_shift [OF assms(2), of "nul # G" "A @ m @ [CHR 0x20]" R] by blast
  show ?thesis
    using blank_step [OF assms(1), of A g "G @ w @ nul # R"] string_at_end [OF m, of A "G @ w @ nul # R"] g
    by (intro exI [of _ "A @ (m @ [CHR 0x20]) @ nul # G @ w @ nul # R"] exI [of _ G']) (simp add: strcat_at_def)
qed

text \<open>Where words that lie one after the other begin.\<close>

fun offsets :: "nat \<Rightarrow> string list \<Rightarrow> nat list" where
  "offsets b [] = []"
| "offsets b (w # ws) = b # offsets (b + length w + 1) ws"

definition block :: "string list \<Rightarrow> string" where
  "block ws = concat (map (\<lambda>s. s @ [nul]) ws)"

lemma join_rest:
  assumes "no_nul m" and "\<forall>w \<in> set ws. no_nul w" and "G \<noteq> []"
  shows "\<exists>G'. length G' = length G
    \<and> join_args (length A) (offsets (length A + length m + 1 + length G) ws) (A @ m @ nul # G @ block ws @ T)
      = Some (A @ (m @ concat (map (\<lambda>w. CHR 0x20 # w) ws)) @ nul # G' @ T)"
  using assms
proof (induction ws arbitrary: m G)
  case Nil
  then show ?case by (intro exI [of _ G]) (simp add: block_def)
next
  case (Cons w ws)
  obtain g G1 where G: "G = g # G1" using Cons.prems(3) by (cases G) auto
  have w: "no_nul w" using Cons.prems(2) by simp
  obtain mem G2 where s: "strcat_blank (A @ m @ nul # g # G1 @ w @ nul # block ws @ T) (length A) = Some mem"
    "length G2 = Suc (length G1)"
    "strcat_at mem (length A) (length A + length m + 1 + Suc (length G1)) = Some (A @ (m @ [CHR 0x20] @ w) @ nul # G2 @ block ws @ T)"
    using word_step [OF Cons.prems(1) w] by blast
  have "no_nul (m @ [CHR 0x20] @ w)" "G2 \<noteq> []" using Cons.prems(1) w s(2) by (auto simp: nul_def)
  then obtain G' where "length G' = length G2"
    "join_args (length A) (offsets (length A + length (m @ [CHR 0x20] @ w) + 1 + length G2) ws)
        (A @ (m @ [CHR 0x20] @ w) @ nul # G2 @ block ws @ T)
      = Some (A @ ((m @ [CHR 0x20] @ w) @ concat (map (\<lambda>w. CHR 0x20 # w) ws)) @ nul # G' @ T)"
    using Cons.IH [of "m @ [CHR 0x20] @ w" G2] Cons.prems(2) by auto
  then show ?case using s by (intro exI [of _ G']) (simp add: G block_def add.assoc add.commute add.left_commute)
qed

lemma arg_offsets:
  "k \<le> length argv \<Longrightarrow> map (arg_at argv) [k..<length argv] = offsets (arg_at argv k) (drop k argv)"
proof (induction "length argv - k" arbitrary: k)
  case (Suc n)
  then have k: "k < length argv" by simp
  have "map (arg_at argv) [Suc k..<length argv] = offsets (arg_at argv (Suc k)) (drop (Suc k) argv)"
    using Suc by simp
  moreover have "arg_at argv (Suc k) = arg_at argv k + length (argv ! k) + 1" using k by (simp add: arg_at_def take_Suc_conv_app_nth)
  ultimately show ?case using k by (simp add: upt_conv_Cons Cons_nth_drop_Suc [symmetric])
qed simp

lemma argv_block: "argv_memory env argv = block argv @ e_tail env" "arg_at argv i = length (block (take i argv))"
  by (simp_all add: argv_memory_def arg_at_def block_def nul_def)

lemma block_simps [simp]: "block [] = []" "block (w # ws) = w @ nul # block ws"
  by (simp_all add: block_def)

text \<open>The first word behind the message is overwritten before it is read.\<close>

lemma ghost_joined:
  assumes "\<forall>s \<in> set ([p, g, i, w, x] @ ws). no_nul s" and "x \<noteq> []"
  defines "argv \<equiv> [p, g, i, w, x] @ ws"
  shows "\<exists>mem. join_args (arg_at argv 3) (map (arg_at argv) [4..<length argv]) (argv_memory env argv) = Some mem
    \<and> string_at mem (arg_at argv 2) = i \<and> string_at mem (arg_at argv 3) = w @ '' '' @ concat (map (\<lambda>w. CHR 0x20 # w) ws)"
proof -
  let ?A = "block [p, g, i]" and ?T = "e_tail env"
  have n: "no_nul w" "no_nul i" "no_nul (w @ '' '')" "\<forall>s \<in> set ws. no_nul s" using assms(1) by (auto simp: nul_def)
  obtain y ys where x: "x = y # ys" using assms(2) by (cases x) auto
  let ?m1 = "?A @ (w @ '' '') @ nul # (ys @ [nul]) @ block ws @ ?T"
  have mem: "argv_memory env argv = ?A @ w @ nul # y # (ys @ [nul] @ block ws @ ?T)" by (simp add: argv_block argv_def x)
  have at: "arg_at argv 3 = length ?A" "arg_at argv 4 = length ?A + length w + 1" "arg_at argv 5 = length ?A + length w + 1 + length x + 1"
    "arg_at argv 2 = length (block [p, g])" by (simp_all add: argv_block argv_def numeral_eq_Suc)
  have s1: "strcat_blank (argv_memory env argv) (length ?A) = Some ?m1"
    unfolding mem using blank_step [OF n(1), of ?A y "ys @ [nul] @ block ws @ ?T"] by (simp only: append_assoc append_Cons append_Nil)
  have s2: "strcat_at ?m1 (length ?A) (length ?A + length w + 1) = Some ?m1"
    unfolding strcat_at_def string_at_end [OF n(3), of ?A "(ys @ [nul]) @ block ws @ ?T"]
    by (subst copy_string.simps) (simp add: nth_append list_update_append nul_def Let_def)
  obtain G' where r: "join_args (length ?A) (offsets (length ?A + length (w @ '' '') + 1 + length (ys @ [nul])) ws) ?m1
      = Some (?A @ ((w @ '' '') @ concat (map (\<lambda>w. CHR 0x20 # w) ws)) @ nul # G' @ ?T)"
    using join_rest [OF n(3,4), of "ys @ [nul]" ?A ?T] by auto
  have o: "map (arg_at argv) [4..<length argv] = arg_at argv 4 # offsets (arg_at argv 5) ws"
  proof -
    have "4 < length argv" "5 \<le> length argv" "drop 5 argv = ws" by (simp_all add: argv_def)
    moreover from this have "[4..<length argv] = 4 # [5..<length argv]" by (simp add: upt_conv_Cons)
    ultimately show ?thesis using arg_offsets [of 5 argv] by simp
  qed
  have m: "no_nul (w @ '' '' @ concat (map (\<lambda>w. CHR 0x20 # w) ws))" using n by (auto simp: nul_def)
  show ?thesis
    unfolding o at(1) using s1 s2 r string_at_end [OF m, of ?A "G' @ ?T"]
      string_at_end [OF n(2), of "block [p, g]" "w @ '' '' @ concat (map (\<lambda>w. CHR 0x20 # w) ws) @ nul # G' @ ?T"]
    by (simp add: at x)
qed

text \<open>
  C22: of the words of a ghost message typed on the command line, the second is always lost, and a
  blank stands in its place: \<open>cmd_ghost\<close> puts the terminator of the first word where the second
  word begins before it reads it.
\<close>

theorem ghost_loses_second_word:
  assumes "\<forall>s \<in> set ([p, g, i, w, x] @ ws). no_nul s" and "x \<noteq> []"
  shows "cmd_ghost env ([p, g, i, w, x] @ ws) cl
    = ask_daemon env (snprintf_into 512 (''ghost '' @ i @ '' '' @ w @ '' '' @ concat (map (\<lambda>w. CHR 0x20 # w) ws))) 1024 0 cl"
proof -
  obtain mem where "join_args (arg_at ([p, g, i, w, x] @ ws) 3) (map (arg_at ([p, g, i, w, x] @ ws)) [4..<length ([p, g, i, w, x] @ ws)])
      (argv_memory env ([p, g, i, w, x] @ ws)) = Some mem"
    "string_at mem (arg_at ([p, g, i, w, x] @ ws) 2) = i"
    "string_at mem (arg_at ([p, g, i, w, x] @ ws) 3) = w @ '' '' @ concat (map (\<lambda>w. CHR 0x20 # w) ws)"
    using ghost_joined [OF assms] by blast
  then show ?thesis unfolding cmd_ghost_def by (simp add: on_value_def)
qed

end
