(* ===== verification/Daemon_Samples.thy ===== *)
theory Daemon_Samples
  imports Daemon_Requests Dht_Samples Peer_Properties
begin

text \<open>A daemon with two peers, idle or listening, at which the theorems apply.\<close>

definition sample_daemon :: daemon where
  "sample_daemon = \<lparr>dm_p2p = fresh_p2p\<lparr>pm_world := sample_world\<rparr>, dm_dht = None, dm_net = fresh_world,
     dm_status = \<lparr>ds_state = DAEMON_STATE_RUNNING, ds_pid = 77, ds_socket_fd = 0, ds_start_time = 0, ds_last_activity = 0,
       ds_dht_connected = False, ds_p2p_ready = False, ds_peer_count = 0, ds_pending_requests = 0\<rparr>,
     dm_ipc = -1, dm_running = True, dm_log = fresh_logger, dm_fs = []\<rparr>"

definition listening_daemon :: daemon where
  "listening_daemon = sample_daemon\<lparr>dm_dht := Some running_node,
     dm_net := fresh_world\<lparr>dw_net := \<lparr>sk_calls = 0, sk_open = [3], sk_sent = []\<rparr>, dw_up := True\<rparr>\<rparr>"

lemma sample_daemon_inv: "daemon_inv {#} sample_daemon" "daemon_inv {#} listening_daemon"
  by (simp_all add: daemon_inv_def sample_daemon_def listening_daemon_def p2p_inv_def fresh_p2p_def sample_world_ok dht_ok_def
      nodes_listed_def fresh_world_def bootstrap_nodes_def BOOTSTRAP_NODES_def ipc_fds_def node_fds_def running_node_def
      log_idle_def fresh_logger_def)

lemma sample_daemon_mgr: "d_mgr sample_daemon = sample_mgr" "d_mgr listening_daemon = sample_mgr"
  by (simp_all add: sample_daemon_def listening_daemon_def sample_world_def)

theorem daemon_invariant_witness:
  "p2p_inv (dm_p2p (daemon_dht_round [stray_value] listening_daemon))
    \<and> mset (d_fds (daemon_dht_round [stray_value] listening_daemon))
      = node_fds (dm_dht (daemon_dht_round [stray_value] listening_daemon))"
proof -
  have s: "daemon_step\<^sup>*\<^sup>* listening_daemon (daemon_dht_round [stray_value] listening_daemon)"
    by (intro r_into_rtranclp step_dht)
  have "dm_ipc (daemon_dht_round [stray_value] listening_daemon) = -1"
    by (simp add: daemon_dht_round_def listening_daemon_def sample_daemon_def)
  then show ?thesis using daemon_invariant [OF sample_daemon_inv(2) s] by (simp add: ipc_fds_def)
qed

theorem daemon_gives_back_witness:
  "\<forall>v. \<exists>e. daemon_cleanup v (daemon_dht_round [stray_value] listening_daemon) = Reply e \<and> d_fds e = [] \<and> dm_dht e = None"
proof -
  have s: "daemon_step\<^sup>*\<^sup>* listening_daemon (daemon_dht_round [stray_value] listening_daemon)"
    by (intro r_into_rtranclp step_dht)
  show ?thesis using daemon_gives_back [OF sample_daemon_inv(2) s] by fastforce
qed

lemma sample_words:
  "command_words (''ghost '' @ replicate 64 CHR ''7'' @ '' hi'') = (''ghost'', Some (replicate 64 CHR ''7'' @ '' hi''))"
  "command_words ''accept 075'' = (''accept'', Some ''075'')" "command_words ''add 077'' = (''add'', Some ''077'')"
  by (simp_all add: command_words_def split_message_def strchr_at_def strncpy_into_def)

theorem command_overrun_iff_witness:
  "\<forall>v. daemon_handle_command v (''ghost '' @ replicate 64 CHR ''7'' @ '' hi'') 8192 sample_daemon = Overrun
    \<and> daemon_handle_command v ''accept 075'' 8192 sample_daemon \<noteq> Overrun"
proof -
  have "split_message (replicate 64 CHR ''7'' @ '' hi'') = Some (replicate 64 CHR ''7'', ''hi'')"
    by code_simp
  then show ?thesis
    using command_overrun_iff [OF sample_daemon_inv(1) sample_words(1)] command_overrun_iff [OF sample_daemon_inv(1) sample_words(2)]
    by simp
qed

text \<open>The same daemon when the first peer has asked to be a friend.\<close>

definition asked_daemon :: daemon where
  "asked_daemon = on_state (state_update_peer (\<lambda>_. 5) (Some ''075'') PEER_REQUEST_RECEIVED) sample_daemon"

theorem commands_refine_requests_witness:
  "\<forall>v. \<exists>line d'. daemon_handle_command v ''accept 075'' 8192 asked_daemon = Reply (0, line, d')
    \<and> standing (d_mgr d') ''075'' = Some PEER_FRIEND \<and> standing (d_mgr d') ''076'' = Some PEER_UNKNOWN"
proof
  fix v
  have i: "daemon_inv {#} asked_daemon" unfolding asked_daemon_def using sample_daemon_inv(1) by (intro daemon_keep p2p_keep)
  have st: "standing (d_mgr asked_daemon) ''075'' = Some PEER_REQUEST_RECEIVED" "standing (d_mgr asked_daemon) ''076'' = Some PEER_UNKNOWN"
    using standing_update [OF sample_mgr_ok(1) norm_075(2)]
    by (simp_all add: asked_daemon_def sample_daemon_mgr standing_def sample_directory fresh_record_def)
  obtain rc line d' where a: "daemon_cmd_accept v (Some ''075'') 8192 asked_daemon = Reply (rc, line, d')"
    using accept_cases [OF i] by blast
  then have r: "daemon_handle_command v ''accept 075'' 8192 asked_daemon = Reply (rc, line, d')"
    by (simp add: daemon_handle_command_def sample_words)
  have t: "request_target (Some ''075'') = Some ''075''" by (simp add: request_target_def strncpy_into_def norm_075)
  show "\<exists>line d'. daemon_handle_command v ''accept 075'' 8192 asked_daemon = Reply (0, line, d')
    \<and> standing (d_mgr d') ''075'' = Some PEER_FRIEND \<and> standing (d_mgr d') ''076'' = Some PEER_UNKNOWN"
    using commands_refine_requests [OF i sample_words(2) r] r st by (simp add: t request_spec_def)
qed

theorem listening_daemon_cannot_connect_witness:
  "\<forall>v. \<exists>rc line d'. daemon_handle_command v ''add 077'' 8192 listening_daemon = Reply (rc, line, d') \<and> pm_peers (dm_p2p d') = []"
proof -
  have "dm_dht listening_daemon \<noteq> None" "pm_peers (dm_p2p listening_daemon) = []"
    by (simp_all add: listening_daemon_def sample_daemon_def fresh_p2p_def)
  then show ?thesis using listening_daemon_cannot_connect [OF sample_daemon_inv(2) _ sample_words(3)] by metis
qed

end
