(* ===== verification/Program_Samples.thy ===== *)
theory Program_Samples
  imports Registration Program_Properties Ghost_Words Daemon_Samples Identity_Samples P2P_Samples
begin

text \<open>A user at a terminal, at which the theorems about the commands apply.\<close>

definition sample_log :: log_env where
  "sample_log = \<lparr>lo_fopen = True, lo_error = [], lo_time = (0, 0, 0), lo_tid = 1, lo_stack = []\<rparr>"

definition sample_denv :: daemon_env where
  "sample_denv = \<lparr>v_p2p = sample_env, v_dht = sample_dht, v_ident = sample_ident, v_log = sample_log, v_clk = \<lambda>_. 0, v_rnd = 0, v_pid = 78,
     v_fopen = True, v_ctime = \<lambda>_. ''today'', v_identity = zero_identity, v_text = []\<rparr>"

definition sample_cenv :: cli_env where
  "sample_cenv = \<lparr>e_daemon = sample_denv, e_lives = \<lambda>_. True, e_fork = 1, e_threads = \<lambda>d. d, e_rand = 41,
     e_wire = \<lambda>_. Answers [79, 75], e_tail = ''HOME=/root''\<rparr>"

definition sample_cli :: "string \<Rightarrow> fs \<Rightarrow> cli" where
  "sample_cli tty fs = \<lparr>cl_proc = sample_daemon\<lparr>dm_fs := fs\<rparr>, cl_stdio = [], cl_tty = tty, cl_password = [], cl_calls = 0,
     cl_sent = [], cl_killed = [], cl_shown = []\<rparr>"

lemma sample_passcodes: "typed ''Abcdefghij1!''" "typed ''password''" "passcode_strong ''Abcdefghij1!''" "\<not> passcode_strong ''password''"
  by (auto simp: typed_def newline_def passcode_strong_iff is_upper_def is_lower_def is_digit_def special_chars_def)

lemma sample_env_parts:
  "e_ident sample_cenv = sample_ident" "v_fopen (e_daemon sample_cenv)" "e_lives sample_cenv p" "e_wire sample_cenv k = Answers [79, 75]"
  "v_ident sample_denv = sample_ident"
  by (simp_all add: sample_cenv_def sample_denv_def)

lemma sample_cli_parts:
  "cl_fs (sample_cli t fs) = fs" "cl_stdio (sample_cli t fs) = []" "cl_tty (sample_cli t fs) = t" "cl_sent (sample_cli t fs) = []"
  "cl_mgr (sample_cli t fs) = sample_mgr" "cl_calls (sample_cli t fs) = 0"
  using sample_daemon_mgr(1) by (simp_all add: sample_cli_def)

lemma sample_new: "\<not> orca_identity_exists None sample_fs"
  by (simp add: orca_identity_exists_def stat_path_def resolve_identity_files home_exists_def home_def sample_fs_def node_at_def)

theorem registration_takes_second_input_witness:
  "(\<exists>cl'. cmd_register sample_cenv [''orcashi'', ''register'']
      (sample_cli (register_input ''bob'' ''Abcdefghij1!'' ''short'' []) sample_fs) = Reply (1, cl') \<and> cl_fs cl' = sample_fs)
    \<and> cmd_register sample_cenv [''orcashi'', ''register''] (sample_cli (register_input ''bob'' ''Abcdefghij1!'' ''short'' []) sample_fs)
      = cmd_register sample_cenv [''orcashi'', ''register''] (sample_cli (register_input ''bob'' ''Abcdefghij2!'' ''short'' []) sample_fs)"
proof -
  have t: "typed ''short''" "typed ''Abcdefghij2!''" "passcode_strong ''Abcdefghij2!''"
    by (auto simp: typed_def newline_def passcode_strong_iff is_upper_def is_lower_def is_digit_def special_chars_def)
  have e: "(sample_cli [] sample_fs)\<lparr>cl_tty := i\<rparr> = sample_cli i sample_fs" for i by (simp add: sample_cli_def)
  show ?thesis
    using registration_takes_second_input [of "sample_cli [] sample_fs" "''bob''" "''Abcdefghij1!''" "''Abcdefghij2!''" "''short''"
        sample_cenv "[''orcashi'', ''register'']" "[]"]
      sample_new sample_passcodes t unfolding e by (simp add: sample_cli_parts newline_def) metis
qed

theorem ghost_loses_second_word_witness:
  "cmd_ghost sample_cenv [''orcashi'', ''ghost'', ''042'', ''see'', ''you'', ''soon''] (sample_cli [] sample_fs)
    = ask_daemon sample_cenv ''ghost 042 see  soon'' 1024 0 (sample_cli [] sample_fs)"
  using ghost_loses_second_word [of "''orcashi''" "''ghost''" "''042''" "''see''" "''you''" "[''soon'']" sample_cenv "sample_cli [] sample_fs"]
  by (simp add: nul_def snprintf_into_fits)

text \<open>A user who asks for the status, and the daemon that answers.\<close>

definition pid_fs :: fs where
  "pid_fs = sample_fs @ [([''tmp'', ''.orcashi'', ''daemon.pid''], File ''77'')]"

lemma pid_known: "command_daemon_is_running sample_cenv (sample_cli t pid_fs)"
proof -
  have "resolve pid_fs DAEMON_PID_FILE = Some [''tmp'', ''.orcashi'', ''daemon.pid'']"
    by (simp add: resolve_def DAEMON_PID_FILE_def pid_fs_def sample_fs_def node_at_def)
  then have r: "read_path pid_fs DAEMON_PID_FILE = Some ''77''"
    by (simp add: read_path_def stat_path_def node_at_def pid_fs_def sample_fs_def)
  have "scan_d ''77'' = Some (77, [])" by code_simp
  then show ?thesis using r by (simp add: command_daemon_is_running_def command_get_daemon_pid_def sample_cli_def sample_cenv_def)
qed

lemma status_request: "cli_request ''status''"
proof -
  let ?cl = "sample_cli [] pid_fs"
  have "cmd_status sample_cenv [''orcashi'', ''status''] ?cl
      = Reply (0, display (recv_text [79, 75]) (?cl\<lparr>cl_calls := 1, cl_sent := [''status'']\<rparr>))"
    using pid_known [of "[]"]
    by (simp add: cmd_status_def command_send_to_daemon_def sample_env_parts sample_cli_parts exits_def)
  then show ?thesis unfolding cli_request_def
    by (intro exI [of _ sample_cenv] exI [of _ "[''orcashi'', ''status'']"] exI [of _ ?cl])
      (simp add: command_dispatch_def command_parse_type_def display_def sample_cli_parts)
qed

theorem daemon_never_listens_witness:
  "\<exists>d'. daemon_ipc_round sample_denv (string_bytes ''status'') sample_daemon
      = Reply (Some (snprintf_into 8192 (''Daemon running (PID: 78)'' @ nl @ ''Uptime: 0 seconds'' @ nl @ ''DHT: Disconnected'' @ nl
          @ ''P2P: Not ready'' @ nl @ ''Peers: 2'' @ nl)), d')
    \<and> dm_dht d' = None"
proof -
  have t: "recv_text (take 4095 (string_bytes ''status'')) = ''status''" by code_simp
  have w: "command_words ''status'' = (''status'', None)" by code_simp
  have n: "dec_int 78 = ''78''" "dec_int 0 = ''0''" "dec_int 2 = ''2''" by code_simp+
  have c: "g_peer_count sample_mgr = 2" by (simp add: sample_mgr_added added_def zero_mgr_def)
  have k: "string_bytes ''status'' \<noteq> []" by (simp add: string_bytes_def)
  have p: "g_peer_count (d_mgr sample_daemon) = 2" using c sample_daemon_mgr(1) by simp
  have e: "dm_p2p (sample_daemon\<lparr>dm_net := net\<rparr>) = dm_p2p sample_daemon" for net by simp
  have v: "v_clk sample_denv = (\<lambda>_. 0)" "v_pid sample_denv = 78" by (simp_all add: sample_denv_def)
  obtain s where o: "open_socket (dv_net (v_dht sample_denv)) (dw_net (dm_net sample_daemon)) = (3, s)"
    by (simp add: sample_denv_def sample_dht_def still_net_def open_socket_def ask_def sample_daemon_def fresh_world_def free_fd_def)
  obtain d' where r: "daemon_ipc_round sample_denv (string_bytes ''status'') sample_daemon
      = Reply (Some (snprintf_into 8192 (''Daemon running (PID: 78)'' @ nl @ ''Uptime: 0 seconds'' @ nl @ ''DHT: Disconnected'' @ nl
          @ ''P2P: Not ready'' @ nl @ ''Peers: 2'' @ nl)), d')"
    using k p
    by (simp add: daemon_ipc_round_def o daemon_ipc_handle_def t daemon_handle_command_def w daemon_cmd_status_def v
        split_beta n say_def on_reply_def state_get_count_def Let_def)
      (simp add: sample_daemon_def n snprintf_into_def)
  have "served\<^sup>*\<^sup>* sample_daemon d'" by (rule r_into_rtranclp, rule served_client [OF _ r]) (simp add: t status_request)
  then have "dm_dht d' = None" using daemon_never_listens [of sample_daemon d'] by (simp add: sample_daemon_def)
  then show ?thesis using r by blast
qed

text \<open>The daemon stores a peer while the user asks for the status.\<close>

definition sample_others :: "fs \<Rightarrow> fs" where
  "sample_others fs = sample_fs @ [([''tmp'', ''.orcashi'', ''state.json''], File ''new'')]"

lemma sample_others_usable: "usable_files (sample_others fs) {STATE_FILE}"
proof -
  have "resolve (sample_others fs) STATE_FILE = Some [''tmp'', ''.orcashi'', ''state.json'']"
    by (simp add: resolve_def STATE_FILE_def sample_others_def sample_fs_def node_at_def)
  then show ?thesis by (simp add: usable_files_def node_at_def sample_others_def sample_fs_def)
qed

text \<open>Another process has never read a state file.\<close>

definition started :: "cli \<Rightarrow> cli" where
  "started cl = cl\<lparr>cl_proc := on_state (\<lambda>_. (0, zero_mgr)) (cl_proc cl)\<rparr>"

lemma started_parts: "cl_fs (started cl) = cl_fs cl" "cl_mgr (started cl) = zero_mgr"
  by (simp_all add: started_def)

lemma sample_there: "stat_path sample_fs ORCA_IDENTITY_HOME = Some Dir" "stat_path sample_fs DAEMON_HOME = Some Dir"
  "read_path sample_fs STATE_FILE = None" "read_path sample_fs DAEMON_PID_FILE = None"
  by (simp_all add: sample_fs_def stat_path_def read_path_def resolve_def ORCA_IDENTITY_HOME_def DAEMON_HOME_def STATE_FILE_def
      DAEMON_PID_FILE_def node_at_def)

lemma sample_init: "state_init None zero_mgr = Some (0, zero_mgr\<lparr>g_initialized := True\<rparr>)"
  by (simp add: state_init_def zero_mgr_def state_load_def)

lemma nobody: "live_peers (zero_mgr\<lparr>g_initialized := True\<rparr>) = []"
  by (simp add: live_peers_def zero_mgr_def)

theorem program_restores_old_state_witness:
  "\<exists>rc cl'. main_program sample_cenv sample_others [''orcashi'', ''status''] (started (sample_cli [] sample_fs)) = Reply (rc, cl')
    \<and> read_path (cl_fs cl') STATE_FILE = Some (concat (save_lines []))"
proof -
  let ?cl = "started (sample_cli [] sample_fs)"
  have fs: "cl_fs ?cl = sample_fs" "cl_mgr ?cl = zero_mgr" by (simp_all add: started_parts sample_cli_parts)
  have no: "\<not> command_daemon_is_running sample_cenv cl" if "cl_fs cl = sample_fs" for cl
    using that by (simp add: command_daemon_is_running_def command_get_daemon_pid_def sample_there)
  let ?m = "zero_mgr\<lparr>g_initialized := True\<rparr>"
  have "command_dispatch sample_cenv [''orcashi'', ''status''] (?cl\<lparr>cl_proc := on_state (\<lambda>_. (0, ?m)) (cl_proc ?cl)\<rparr>)
      = Reply (0, ?cl\<lparr>cl_proc := on_state (\<lambda>_. (0, ?m)) (cl_proc ?cl)\<rparr>)"
    using no fs(1) by (simp add: command_dispatch_def command_parse_type_def cmd_status_def exits_def)
  then have "\<exists>cl'. main_program sample_cenv sample_others [''orcashi'', ''status''] ?cl = Reply (0, cl')"
    by (subst main_runs [where m = ?m and ?rc0.0 = 0])
      (simp_all add: fs sample_there sample_init sample_env_parts runs_command_def on_reply_def exits_def)
  then obtain cl' where r: "main_program sample_cenv sample_others [''orcashi'', ''status''] ?cl = Reply (0, cl')" by blast
  have "read_path (cl_fs cl') STATE_FILE = Some (concat (save_lines (live_peers (zero_mgr\<lparr>g_initialized := True\<rparr>))))"
    by (rule program_restores_old_state [OF _ _ _ _ _ _ r])
      (simp_all add: fs sample_there sample_init sample_env_parts runs_command_def command_parse_type_def sample_others_usable)
  then show ?thesis using r nobody by simp
qed

text \<open>Nothing is running, and the user asks for the daemon.\<close>

lemma sample_log_usable: "usable_files sample_fs {DAEMON_LOG_FILE}"
proof -
  have "resolve sample_fs DAEMON_LOG_FILE = Some [''tmp'', ''.orcashi'', ''daemon.log'']"
    by (simp add: resolve_def DAEMON_LOG_FILE_def sample_fs_def node_at_def)
  then show ?thesis by (simp add: usable_files_def node_at_def sample_fs_def)
qed

theorem daemon_never_starts_witness:
  "cmd_listen (sample_cenv\<lparr>e_fork := 0\<rparr>) [] (sample_cli [] sample_fs) = Blocked
    \<and> cmd_listen (sample_cenv\<lparr>e_fork := 78\<rparr>) [] (sample_cli [] sample_fs) = Reply (0, set_fs sample_fs (sample_cli [] sample_fs))"
proof -
  have r: "daemon_is_running lives sample_fs = (False, sample_fs)" for lives
    by (simp add: daemon_is_running_def daemon_read_pid_def sample_there)
  have c: "\<not> command_daemon_is_running env (sample_cli [] sample_fs)" for env
    by (simp add: command_daemon_is_running_def command_get_daemon_pid_def sample_cli_parts sample_there)
  have l: "lo_fopen (v_log (e_daemon (sample_cenv\<lparr>e_fork := k\<rparr>)))" "log_idle (dm_log (cl_proc (sample_cli [] sample_fs)))" for k
    by (simp_all add: sample_cenv_def sample_denv_def sample_log_def sample_cli_def sample_daemon_def fresh_logger_def log_idle_def)
  have "(0 < e_fork env \<longrightarrow> cmd_listen env [] (sample_cli [] sample_fs) = Reply (0, set_fs sample_fs (sample_cli [] sample_fs)))
      \<and> (e_fork env = 0 \<longrightarrow> cmd_listen env [] (sample_cli [] sample_fs) = Blocked)" if "env = sample_cenv\<lparr>e_fork := k\<rparr>" for env k
    by (rule daemon_never_starts) (use l(1) [of k] l(2) that in \<open>simp_all add: c r sample_cli_parts sample_there sample_log_usable\<close>)
  from this [of "sample_cenv\<lparr>e_fork := 0\<rparr>" 0] this [of "sample_cenv\<lparr>e_fork := 78\<rparr>" 78] show ?thesis by simp
qed

end
