(* ===== verification/Front_Samples.thy ===== *)
theory Front_Samples
  imports Front_Properties Program_Samples
begin

text \<open>A process that uses the library, at which its theorems apply.\<close>

definition sample_answer :: string where
  "sample_answer = ''HTTP/1.1 200 OK'' @ [CHR 0x0D, CHR 0x0A] @ ''Content-Type: text/plain''"

definition sample_front :: front_env where
  "sample_front = \<lparr>f_cli = sample_cenv, f_local = None,
     f_web = [Unreachable, Answered [string_bytes sample_answer, string_bytes (blank_line @ ''203.0.113.7'' @ [CHR 0x0A])], Unreachable],
     f_dup = (True, True), f_now = 5, f_rand = 3, f_waits = \<lambda>_ _. False\<rparr>"

lemma headers_text: "CHR 0x0D \<notin> set h \<Longrightarrow> headers (h @ h') = headers h'" if "headers h'"
  using that by (induction h) (auto simp: headers_def)

lemma sample_headers: "headers sample_answer"
proof -
  have "headers (CHR ''C'' # ''ontent-Type: text/plain'')"
    using headers_text [OF headers_Nil, of "CHR ''C'' # ''ontent-Type: text/plain''"] headers_Nil by simp
  then have "headers (CHR 0x0D # CHR 0x0A # CHR ''C'' # ''ontent-Type: text/plain'')" by (intro headers_line) simp_all
  from headers_text [OF this, of "''HTTP/1.1 200 OK''"] this show ?thesis by (simp add: sample_answer_def)
qed

theorem public_address_found_witness:
  "orcashi_get_public_ip sample_front = Some (Some ''203.0.113.7'')"
proof -
  have "orcashi_get_public_ip sample_front = (if length ''203.0.113.7'' < 16 then Some (if snd (f_dup sample_front) then Some ''203.0.113.7'' else None) else None)"
  proof (rule public_address_found)
    show "headers sample_answer" by (rule sample_headers)
    show "take 3 (f_web sample_front) = replicate 1 Unreachable
        @ Answered [string_bytes sample_answer, string_bytes (blank_line @ ''203.0.113.7'' @ [CHR 0x0A])] # [Unreachable]"
      by (simp add: sample_front_def)
    show "concat [string_bytes sample_answer, string_bytes (blank_line @ ''203.0.113.7'' @ [CHR 0x0A])]
        = string_bytes (sample_answer @ blank_line @ [] @ ''203.0.113.7'' @ [CHR 0x0A])"
      by (simp add: string_bytes_def)
  qed (simp_all add: string_bytes_def sample_answer_def is_blank_def)
  then show ?thesis by (simp add: sample_front_def)
qed

definition running_front :: Orcashi where
  "running_front = zero_orcashi\<lparr>oc_initialized := True, oc_daemon_running := True\<rparr>"

theorem library_requests_in_vain_witness:
  "\<exists>cl'. orcashi_note_add sample_front (Some running_front) (Some ''milk'') (sample_cli [] pid_fs) = Reply (0, cl')
    \<and> (\<exists>new. cl_sent cl' = new \<and> new \<noteq> [] \<and> (\<forall>r \<in> set new. \<forall>v sz d. \<exists>line. daemon_handle_command v r sz d = Reply (-1, line, d)))"
proof -
  have "daemon_read_pid pid_fs = command_get_daemon_pid (sample_cli [] pid_fs)"
    by (simp add: daemon_read_pid_def command_get_daemon_pid_def sample_cli_parts)
  moreover have "\<not> command_get_daemon_pid (sample_cli [] pid_fs) \<le> 0"
    using pid_known [of "[]"] by (auto simp: command_daemon_is_running_def Let_def split: if_splits)
  ultimately have "orcashi_is_daemon_running sample_front (Some running_front) (sample_cli [] pid_fs) = (True, sample_cli [] pid_fs)"
    using same_fs(1) [of "sample_cli [] pid_fs"]
    by (simp add: orcashi_is_daemon_running_def running_front_def daemon_is_running_def sample_front_def sample_env_parts sample_cli_parts Let_def)
  then have "\<exists>cl'. orcashi_note_add sample_front (Some running_front) (Some ''milk'') (sample_cli [] pid_fs) = Reply (0, cl')"
    using pid_known [of "[]"]
    by (simp add: orcashi_note_add_def checked_request_def send_request_def command_send_to_daemon_def sample_front_def sample_env_parts exits_def Let_def)
  then obtain cl' where r: "orcashi_note_add sample_front (Some running_front) (Some ''milk'') (sample_cli [] pid_fs) = Reply (0, cl')" by blast
  then show ?thesis
    using library_requests_in_vain [of 0 cl' sample_front "Some running_front" "Some ''milk''" "sample_cli [] pid_fs" 0] by (simp add: sample_cli_parts)
qed

theorem registration_never_succeeds_witness:
  "cmd_register sample_cenv [''orcashi'', ''register''] (sample_cli [] sample_fs) \<noteq> Reply (0, sample_cli [] sample_fs)"
proof -
  have p: "v_ident (f_daemon sample_front) = sample_ident" "f_cli sample_front = sample_cenv"
    by (simp_all add: sample_front_def sample_env_parts)
  show ?thesis
    using registration_never_succeeds [where env = sample_front and rc = 0 and argv = "[''orcashi'', ''register'']"
        and cl = "sample_cli [] sample_fs" and cl' = "sample_cli [] sample_fs"] sample_ssl_ok
    unfolding p sample_env_parts sample_parts by auto
qed

theorem logger_never_opens_witness:
  "logger_init sample_log (Some DAEMON_LOG_FILE) (fresh_logger, sample_fs) = Blocked"
  using logger_never_opens [of sample_fs fresh_logger sample_fs sample_log DAEMON_LOG_FILE]
    log_opens [OF sample_there(2) sample_log_usable, of sample_log] by (simp add: sample_log_def)

end
