(* ===== verification/Spec2Isabelle.thy ===== *)
theory Spec2Isabelle
  imports Store_Properties Ecdh Strategy_Selector Mixed_Id P2P_Samples Relay_Properties
    Identity_Samples Runner_Samples Dht_Samples Front_Samples
begin

text \<open>
  A verification library for Orcashi, a peer-to-peer chat program in C (all sources are in
  \<^verbatim>\<open>src/\<close>).

  \<^bold>\<open>The program.\<close>  A user types commands (\<^verbatim>\<open>main.c\<close>, \<^verbatim>\<open>commands.c\<close>); most of them
  become requests over a local socket to a daemon that \<open>listen\<close> forks off (\<^verbatim>\<open>daemon.c\<close>).
  The same components can be used as a library (\<^verbatim>\<open>orcashi.c\<close>), with a log
  (\<^verbatim>\<open>logger.c\<close>).  The daemon keeps a directory of peers and a store of \<^emph>\<open>ghost
  messages\<close> for peers that are away (\<^verbatim>\<open>state_manager.c\<close>).  Network threads push events
  into a bounded queue; one event loop takes them out and updates the directory, sends what is
  waiting and prints a line (\<^verbatim>\<open>event_loop.c\<close>).  To reach a peer the program classifies the
  NAT in front of it (\<^verbatim>\<open>nat_classifier.c\<close>), selects the connection strategies that apply to
  both sides (\<^verbatim>\<open>strategy_selector.c\<close>) and passes addresses around as mixed ids
  (\<^verbatim>\<open>mixed_id.c\<close>).  Addresses are found by id in a distributed hash table
  (\<^verbatim>\<open>dht_node.c\<close> over the third-party \<^verbatim>\<open>dht.c\<close>).  Peers talk over UDP (\<^verbatim>\<open>p2p_manager.c\<close>), whose listener feeds the
  event queue; to open a path through NATs they punch holes (\<^verbatim>\<open>punch.c\<close>,
  \<^verbatim>\<open>ttl_punch.c\<close>, \<^verbatim>\<open>simultaneous_open.c\<close>, \<^verbatim>\<open>port_prediction.c\<close>)
  or ask the gateway for a port (\<^verbatim>\<open>upnp_client.c\<close>), several strategies at once
  (\<^verbatim>\<open>parallel_runner.c\<close>); where no direct path exists there are sessions through a TURN server
  (\<^verbatim>\<open>turn_client.c\<close>) or through a friend (\<^verbatim>\<open>friend_relay.c\<close>).  A user is an
  identity kept in files, its private key sealed with a passcode (\<^verbatim>\<open>orca_identity.c\<close>).
  Conversations are protected with OpenSSL through three layers of wrappers:
  \<^verbatim>\<open>orca_crypto.c\<close> (hashes, RSA, AES-CBC, X25519, PBKDF2, base64, hexadecimal),
  \<^verbatim>\<open>aes_gcm.c\<close> (AES-256-GCM and its message format) and \<^verbatim>\<open>ecdh.c\<close> (key agreement
  sessions and derived keys).

  \<^bold>\<open>The theories.\<close>
  \<^item> \<open>Orca_Prelude\<close>: bytes, clocks, \<open>strcpy\<close>, \<open>snprintf\<close>, \<open>strncpy\<close> into a buffer of a
    given size (\<open>None\<close> is an overrun), searching and removing in arrays, and the locale
    \<open>codec\<close> of an encoder with its decoder.
  \<^item> \<open>C_Text\<close>: the parts of the C library the sources parse and print text with: decimal
    numbers, \<open>atoi\<close>, the \<open>%d\<close> and \<open>%ld\<close> conversions of \<open>sscanf\<close> with their saturation and
    truncation, \<open>strstr\<close>, \<open>inet_pton\<close> and \<open>inet_ntop\<close> of IPv4 addresses.
  \<^item> \<open>Event_Queue\<close>, \<open>Event_Loop\<close>, \<open>Event_Effects\<close>: \<^verbatim>\<open>event_loop.c\<close>.  The globals
    \<open>g_event_queue\<close>, \<open>g_queue_head\<close>, \<open>g_queue_tail\<close>, \<open>g_queue_count\<close> are the record
    \<open>event_q\<close>; its contract is the locale \<open>bounded_fifo\<close>.  The record \<open>world\<close> is the
    queue, the state manager, \<open>g_running\<close> and the text printed.  Every handler of
    \<open>event_process\<close> is a function of the world; \<open>loop_reaches\<close> interleaves rounds of the
    loop with pushes of other threads and with \<open>event_loop_stop\<close>.
  \<^item> \<open>State_Manager\<close>, \<open>State_Directory\<close>, \<open>State_Ghosts\<close>, \<open>State_File\<close>:
    \<^verbatim>\<open>state_manager.c\<close>.  Its static arrays and counters are the record \<open>mgr\<close>, an operation
    is a function from \<open>mgr\<close> to a return code and a new \<open>mgr\<close>.  A \<open>Peer*\<close> is the index of a
    cell.  \<open>directory\<close> is the abstraction of the array to a map from ids to peers, and the
    locale \<open>peer_store\<close> the contract of that map.  \<open>State_File\<close> writes and reads the bytes of
    \<^verbatim>\<open>state.json\<close> as \<open>fprintf\<close>, \<open>fgets\<close> and \<open>sscanf\<close> do.
  \<^item> \<open>Peer_Properties\<close>, \<open>Store_Properties\<close>: the properties of the event loop, the directory,
    the queue, the ghost messages and the file.
  \<^item> \<open>Hex_Codec\<close>: \<open>orca_bytes_to_hex\<close> and \<open>orca_hex_to_bytes\<close> (by \<open>strtol\<close> on pairs).
  \<^item> \<open>Crypto_Steps\<close>, \<open>Orca_Crypto\<close>, \<open>Crypto_Properties\<close>: a wrapper is the list of its
    OpenSSL and \<open>malloc\<close> calls, each with what it allocates, what its failure branch frees and
    the message it records; the state is the last error and the multiset of live objects.  The
    outcomes of the calls are an arbitrary function; the algorithms themselves are the fields of
    the record \<open>ssl\<close>, and \<open>ssl_ok\<close> says what OpenSSL documents about them.
  \<^item> \<open>Aes_Gcm\<close>: \<^verbatim>\<open>aes_gcm.c\<close>, with nonces, the wire format of messages and key derivation.
  \<^item> \<open>Ecdh\<close>: \<^verbatim>\<open>ecdh.c\<close>, with the sessions as a step relation \<open>session_step\<close>.
  \<^item> \<open>Nat_Classifier\<close>: \<^verbatim>\<open>nat_classifier.c\<close>; the record \<open>nat_env\<close> is what the sockets
    return, and \<open>runs\<close> counts the invocations so that two of them may see different replies.
  \<^item> \<open>Strategy_Selector\<close>, \<open>Mixed_Id\<close>: the two files of these names.
  \<^item> \<open>P2P_Manager\<close>, \<open>P2P_Properties\<close>, \<open>P2P_Samples\<close>: \<^verbatim>\<open>p2p_manager.c\<close>.  The record
    \<open>p2p\<close> is its table of connections, the datagrams sent, whether its mutex is held, the
    last error of the crypto layer and the \<open>world\<close> of the event loop: the handlers push events
    and write the state manager.  A handler works on the 4096-byte receive buffer.
  \<^item> \<open>Session_Table\<close>: what the tables of sessions of the next two files share, with the locale
    \<open>session_store\<close> as their contract.
  \<^item> \<open>Turn_Client\<close>, \<open>Turn_Properties\<close>: \<^verbatim>\<open>turn_client.c\<close>.  Messages are built by writing
    at offsets of a buffer that starts with old stack content, as the C code does through casts.
  \<^item> \<open>Friend_Relay\<close>, \<open>Relay_Properties\<close>: \<^verbatim>\<open>friend_relay.c\<close>, with the handshake text,
    \<open>strtok\<close> and the packets.
  \<^item> \<open>Unix_Files\<close>: directories and text files under paths, with the locale \<open>text_files\<close> of what
    is read after a write.
  \<^item> \<open>Identity_Store\<close>, \<open>Identity_Json\<close>, \<open>Identity_Properties\<close>, \<open>Identity_Storage\<close>,
    \<open>Identity_Resources\<close>, \<open>Identity_Samples\<close>: \<^verbatim>\<open>orca_identity.c\<close>.  The operations take the
    files and the state of the crypto layer and return them; \<open>store_step\<close> is any of them, seen on
    the files.  The key of a passcode is derived as 64 digits and a NUL into an array of 32 bytes,
    so whenever it would be needed the outcome is an overrun.
  \<^item> \<open>Byte_Order\<close>: integers as bytes in both orders.  \<open>C_Float\<close>: rounding to single precision, of
    one operation at a time, as the compiler emits it without fused operations.
  \<^item> \<open>Sockets\<close>: the open descriptors of a process and the calls on them.  A record \<open>net_env\<close>
    answers the \<open>k\<close>-th call: success, datagram, time, random number.
  \<^item> \<open>Punch\<close>, \<open>Punch_Properties\<close>: \<^verbatim>\<open>punch.c\<close> and \<^verbatim>\<open>ttl_punch.c\<close>;
    \<open>Sim_Open\<close>, \<open>Sim_Properties\<close>: \<^verbatim>\<open>simultaneous_open.c\<close>, with its sessions as a step
    relation \<open>sim_step\<close>; \<open>Port_Prediction\<close>, \<open>Port_Properties\<close>: \<^verbatim>\<open>port_prediction.c\<close>;
    \<open>Punch_Multi\<close>, \<open>Multi_Properties\<close>: the run over all techniques of \<^verbatim>\<open>punch.c\<close>, with the
    locale \<open>socket_technique\<close> as the contract of one technique; \<open>Punch_Samples\<close>: all of these
    at concrete inputs.
  \<^item> \<open>Upnp_Client\<close>, \<open>Upnp_Properties\<close>: \<^verbatim>\<open>upnp_client.c\<close>, with the operations of the
    interface as a step relation \<open>upnp_step\<close>; \<open>upnp_run\<close> adds direct calls of \<open>upnp_detect\<close> and
    counts them.
  \<^item> \<open>Parallel_Runner\<close>, \<open>Runner_Properties\<close>, \<open>Runner_Samples\<close>: \<^verbatim>\<open>parallel_runner.c\<close>.  The
    executors satisfy the locale \<open>strategy_executor\<close>, those of the punching techniques because the
    techniques satisfy \<open>socket_technique\<close>.
  \<^item> \<open>Dht_Impl\<close>: \<^verbatim>\<open>dht_impl.c\<close>, the hash of names and the blacklist, which satisfies the locale
    \<open>address_filter\<close>.
  \<^item> \<open>Dht_Node\<close>, \<open>Dht_Properties\<close>, \<open>Dht_Samples\<close>: \<^verbatim>\<open>dht_node.c\<close> and
    \<^verbatim>\<open>bootstrap.c\<close>.  The record \<open>dht_world\<close> is what the library of \<^verbatim>\<open>dht.c\<close> was told and
    \<open>dht_env\<close> what it reports; a node satisfies the locale \<open>lifecycle\<close>: what it takes is given back.
  \<^item> \<open>Logger\<close>, \<open>Logger_Properties\<close>: \<^verbatim>\<open>logger.c\<close>, with its mutex and any sequence of calls as
    the step relation \<open>log_step\<close>.  The datatype \<open>reply\<close> is the outcome of a function that may run
    outside a buffer (\<open>Overrun\<close>) or never return (\<open>Blocked\<close>).
  \<^item> \<open>Daemon\<close>, \<open>Daemon_Properties\<close>, \<open>Daemon_Steps\<close>, \<open>Daemon_Commands\<close>, \<open>Daemon_Requests\<close>,
    \<open>Daemon_Samples\<close>: \<^verbatim>\<open>daemon.c\<close>.  The record \<open>daemon\<close> joins the state of the P2P manager (with
    directory, queue and crypto layer inside), the DHT node, the sockets, the logger and the files;
    \<open>daemon_env\<close> holds the environments of the components.  A request is a text, its handler
    answers with a return code, a line and a new state.  \<open>daemon_step\<close> interleaves the start, clients,
    datagrams, events, the DHT and the P2P manager, and \<open>request_spec\<close> is the abstract protocol of friend requests.
  \<^item> \<open>Commands\<close>, \<open>Commands_Properties\<close>, \<open>Ghost_Words\<close>, \<open>Registration\<close>, \<open>Program_Properties\<close>,
    \<open>Program_Samples\<close>: \<^verbatim>\<open>commands.c\<close> and \<^verbatim>\<open>main.c\<close>.  The record \<open>cli\<close> is a process (again a
    \<open>daemon\<close>, since it is the same binary) with its terminal, the requests it sent and what it
    showed of the answers; \<open>served\<close> is a daemon whose clients are runs of these commands.
  \<^item> \<open>Front_End\<close>, \<open>Front_Properties\<close>, \<open>Front_Samples\<close>: \<^verbatim>\<open>orcashi.c\<close> over the same record.
\<close>

text \<open>
  \<^bold>\<open>What is shown.\<close>
  \<^item> Directory and loop: every event changes the directory as its abstract effect
    says and keeps all invariants, under any interleaving with other threads' pushes; adding,
    removing and updating refine the operations of a map.
  \<^item> Queue: first in, first out, 1024 places, exact results of push and pop,
    and the deadline of a pop.
  \<^item> Ghost messages and the file: no waiting message is delivered twice, and as many as
    the queue has room for are queued; of what is saved, the fields of the file come back except
    the online and busy flags.
  \<^item> Connections: the peer table and the world stay well formed under every call and datagram that
    returns, and which ones may not return is bounded; a text sent over an encrypted channel arrives in
    the event queue and the message store as far as they have room; the keepalive pass disconnects exactly when sending fails.
  \<^item> TURN and relay sessions: their tables keep their invariants under every operation that
    returns, with the ids that overrun a field; a TURN connection is established exactly when the call says so, and handshake texts and packets are
    read back as they were written.
  \<^item> Identities: a normal one that is saved is loaded; one with a passcode is never created, and no
    passcode opens one; every operation releases what it took.
  \<^item> Hole punching: whom a punch finds, when a simultaneous open is established, which sockets every
    technique leaves open, what is predicted from observed ports, data packets that round trip.
  \<^item> Running strategies: what a parallel run returns, that it ends, which sockets and cells of the task
    table it uses up; what the UPnP client makes of an answer and how many datagrams it can send.
  \<^item> The DHT node: which report answers a lookup, that a lookup ends, which addresses the library is
    given, and that sockets and library are given back; the blacklist is a bounded map.
  \<^item> The daemon: its invariant under every interleaving, what it gives back when it ends, friend
    requests as the abstract protocol, which requests leave a buffer.
  \<^item> Commands and library: what they can ask the daemon for, what is typed, joined and sent, what
    happens to the state file, that no registration succeeds, which public
    address is taken from a web answer.
  \<^item> Cryptography: both ends of a handshake hold the same secret, sessions
    keep their invariant, sealed messages open again, wire format and hexadecimal text are
    inverse to their parsers, nonces count, no wrapper leaks on any branch.
  \<^item> Reaching peers: the strategies selected are exactly the
    applicable ones in order of priority, mixed ids round trip, the classifiers give the verdict
    their responses determine, and the parsers of network input stay in bounds when the input is
    well formed.
  \<^item> Defects, as exact conditions where they have one: which packets make a handler of the P2P
    manager, the TURN parser, the TURN builder or the relay leave its buffer; handshakes that never
    complete, deadlock the listener or open a channel without a key; relay sends that dereference
    \<open>NULL\<close> and handshakes that register the wrong peer or fill the table; requests that send
    stack content; passcodes whose key overruns its array, so that no identity is ever protected by one; ids that delete
    other directories' files; predicted ports beyond 65535, punching packets that open the wrong mapping,
    sessions with swapped tokens, successes of a parallel run that nobody sees, the seventeenth task; lost flags on reload; a write to
    the wrong peer between two critical sections; a logger that waits for its own mutex, so that no
    daemon ever starts; a passcode that is confirmed with itself, words lost from a message, changes of the state file undone, requests that the daemon
    does not know.
  The properties of the daemon hold from any state that satisfies its invariant; starting it is one of
  the steps.  With a log file that can be opened \<open>daemon_init\<close> does not return.  A step that
  overruns an array or waits for ever has no successor, as the C program has no defined one; such steps are
  the subject of theorems of their own.

  \<^bold>\<open>Conventions.\<close>  C integers that are compared or added within their range are \<open>int\<close>;
  where the code relies on wrap-around or on bytes they are words.  A C string is a list of
  characters without NUL, \<open>NULL\<close> is \<open>None\<close>.  A write or read outside an array makes the result
  \<open>None\<close>, so a theorem that a call returns \<open>Some\<close> is a theorem of memory safety; where a call may also wait
  for ever the outcome is a \<open>reply\<close>.  \<open>clock\<close>
  arguments list the answers of successive calls of \<open>time\<close>.

  \<^bold>\<open>Bounds and termination.\<close>  The model has no fuel.  The loop of \<open>event_queue_pop\<close> may
  wait for ever; it runs on a list of the wake-ups that occurred, and \<open>None\<close> means that it is
  still waiting when they are used up; the loop of \<open>parallel_run\<close> likewise runs on a list of its looks.
  \<open>event_loop_run\<close> likewise takes the list of its rounds.  The chat loops end with their input,
  and \<open>copy_string\<close> with the memory it runs through.
  The folding loop of the ICMP checksum and the walk over STUN attributes are functions with
  termination proofs.  The capacities are those of the code: 256 peers, 1024 ghost messages,
  4096 messages, 1024 events, 16 strategies.

  Threads are steps on one state: a pointer into a table that the code keeps across an unlock
  is modelled for the sequential case, except where a theorem is about the interleaving.
  Pointers to managers and sessions are not \<open>NULL\<close> where the sources only pass the address of
  an object of theirs: the session of \<open>simultaneous_open_connect\<close>, the node and the
  results of \<open>dht_node_lookup\<close> and the output of the hexadecimal codec, whose checks for \<open>NULL\<close>
  are left out; the output pointers of the wrappers of \<^verbatim>\<open>orca_crypto.c\<close> are modelled.  Integers on the wire are little-endian where the code
  stores them without \<open>htons\<close> or \<open>htonl\<close>.

  \<^bold>\<open>Not modelled.\<close>  Log output to \<open>stderr\<close>, the debug printers and built-in self tests,
  the one-time initialisation of OpenSSL, starting and joining threads, and the sockets behind the
  environments.  Mutexes appear as the granularity of steps: an operation that holds one mutex
  throughout is one step, and the setters, which take it twice, are also given as two.  A thread that
  locks a mutex it already holds is \<open>Blocked\<close>, as the mutexes are not recursive.  Of the commands the
  fixed texts on the screen, the echo of the terminal and \<open>setsid\<close>, \<open>umask\<close> and the standard streams
  of the child process are left out, as are the lines written by \<open>daemon_log\<close>.  The file \<^verbatim>\<open>dht.c\<close> is
  not modelled: it is a copy of a third-party library, whose interface is a parameter
  of \<open>Dht_Node\<close>.
\<close>

end
